(* ===== verification/Prelude.thy ===== *)
theory Prelude
  imports Main "HOL-Library.Word" "HOL-Library.Char_ord" "HOL-Library.List_Lexorder"
    "HOL-Library.Multiset"
begin

text \<open>
  Shared vocabulary of the development: the Rust types the sources use (fixed-width integers,
  byte strings, \<^verbatim>\<open>Result\<close>, \<^verbatim>\<open>BTreeMap\<close>, \<^verbatim>\<open>HashMap\<close>), the parts of the Rust standard library that the
  modelled code calls, and the generic lemmas about them that the components share.

  A Rust \<^verbatim>\<open>String\<close> is a \<^typ>\<open>string\<close> whose characters are its UTF-8 bytes; \<^verbatim>\<open>str::len\<close> is therefore
  \<^const>\<open>length\<close>, and \<open>utf8_chars\<close> groups the bytes into code points where the code calls
  \<^verbatim>\<open>str::chars\<close>.  A \<^verbatim>\<open>Result<T, E>\<close> is \<open>'e + 't\<close> with \<^const>\<open>Inl\<close> for \<^verbatim>\<open>Err\<close>.
\<close>

section \<open>Types\<close>

type_synonym u8 = "8 word"
type_synonym u16 = "16 word"
type_synonym u32 = "32 word"
type_synonym u64 = "64 word"
type_synonym ('e, 'a) res = "'e + 'a"

named_theorems res_simps \<open>computation rules for results\<close>
named_theorems rust_simps \<open>computation rules for the modelled parts of the Rust standard library\<close>

section \<open>Results and the question-mark operator\<close>

definition res_bind :: "('e, 'a) res \<Rightarrow> ('a \<Rightarrow> ('e, 'b) res) \<Rightarrow> ('e, 'b) res" where
  "res_bind m f = (case m of Inl e \<Rightarrow> Inl e | Inr a \<Rightarrow> f a)"

definition map_err :: "('e \<Rightarrow> 'f) \<Rightarrow> ('e, 'a) res \<Rightarrow> ('f, 'a) res" where
  "map_err g m = (case m of Inl e \<Rightarrow> Inl (g e) | Inr a \<Rightarrow> Inr a)"

definition is_ok :: "('e, 'a) res \<Rightarrow> bool" where
  "is_ok m = (case m of Inl _ \<Rightarrow> False | Inr _ \<Rightarrow> True)"

section \<open>Strings\<close>

definition is_cont_byte :: "char \<Rightarrow> bool" where
  "is_cont_byte c = (of_char c div 64 = (2::nat))"

text \<open>\<^verbatim>\<open>str::chars\<close>: a code point is a leading byte with the continuation bytes after it.\<close>

function utf8_chars :: "string \<Rightarrow> string list" where
  "utf8_chars [] = []"
| "utf8_chars (c # cs) = (c # takeWhile is_cont_byte cs) # utf8_chars (dropWhile is_cont_byte cs)"
  by pat_completeness auto
termination
  by (relation "measure length") (auto simp: length_dropWhile_le le_imp_less_Suc)

text \<open>\<^verbatim>\<open>str::split(char)\<close> for an ASCII separator.\<close>

fun split_on :: "char \<Rightarrow> string \<Rightarrow> string list" where
  "split_on d [] = [[]]"
| "split_on d (c # cs) =
     (if c = d then [] # split_on d cs
      else case split_on d cs of [] \<Rightarrow> [[c]] | p # ps \<Rightarrow> (c # p) # ps)"

definition ascii_lower :: "char \<Rightarrow> char" where
  "ascii_lower c = (if 65 \<le> (of_char c :: nat) \<and> of_char c \<le> (90 :: nat)
                    then char_of (of_char c + 32 :: nat) else c)"

definition ascii_upper :: "char \<Rightarrow> char" where
  "ascii_upper c = (if 97 \<le> (of_char c :: nat) \<and> of_char c \<le> (122 :: nat)
                    then char_of (of_char c - 32 :: nat) else c)"

definition eq_ignore_ascii_case :: "string \<Rightarrow> string \<Rightarrow> bool" where
  "eq_ignore_ascii_case s t = (map ascii_lower s = map ascii_lower t)"

text \<open>Decimal rendering of integers, \<^verbatim>\<open>format!("{}", n)\<close>.\<close>

definition digit_char :: "nat \<Rightarrow> char" where
  "digit_char d = char_of (48 + d)"

fun show_nat :: "nat \<Rightarrow> string" where
  "show_nat n = (if n < 10 then [digit_char n] else show_nat (n div 10) @ [digit_char (n mod 10)])"

declare show_nat.simps [simp del]

definition show_int :: "int \<Rightarrow> string" where
  "show_int i = (if i < 0 then CHR ''-'' # show_nat (nat (- i)) else show_nat (nat i))"

text \<open>\<^verbatim>\<open>str::parse\<close> for an integer type with the range \<open>lo..hi\<close>: an optional sign (a minus only where
  the type is signed), at least one digit, nothing else, and no overflow.\<close>

definition is_digit_char :: "char \<Rightarrow> bool" where
  "is_digit_char c = (48 \<le> (of_char c :: nat) \<and> of_char c \<le> (57 :: nat))"

definition digit_val :: "char \<Rightarrow> int" where
  "digit_val c = int (of_char c) - 48"

fun digits_val :: "int \<Rightarrow> string \<Rightarrow> int" where
  "digits_val acc [] = acc"
| "digits_val acc (c # cs) = digits_val (10 * acc + digit_val c) cs"

definition parse_int :: "int \<Rightarrow> int \<Rightarrow> string \<Rightarrow> int option" where
  "parse_int lo hi s =
     (let (neg, ds) = (case s of [] \<Rightarrow> (False, [])
        | c # cs \<Rightarrow> if c = CHR ''+'' then (False, cs)
                    else if c = CHR ''-'' \<and> lo < 0 then (True, cs) else (False, c # cs));
          v = (if neg then - digits_val 0 ds else digits_val 0 ds)
      in if ds = [] \<or> \<not> list_all is_digit_char ds then None
         else if lo \<le> v \<and> v \<le> hi then Some v else None)"

definition i32_min :: int where "i32_min = - 2147483648"
definition i32_max :: int where "i32_max = 2147483647"
definition u32_max :: int where "u32_max = 4294967295"
definition i64_min :: int where "i64_min = - 9223372036854775808"
definition i64_max :: int where "i64_max = 9223372036854775807"

definition parse_i32 :: "string \<Rightarrow> int option" where
  "parse_i32 = parse_int i32_min i32_max"

definition parse_u32 :: "string \<Rightarrow> int option" where
  "parse_u32 = parse_int 0 u32_max"

text \<open>\<^verbatim>\<open>str::contains\<close> and \<^verbatim>\<open>str::replace\<close> for a non-empty pattern: matches are found from the left and
  do not overlap.\<close>

fun is_prefix :: "string \<Rightarrow> string \<Rightarrow> bool" where
  "is_prefix [] s = True"
| "is_prefix (p # ps) [] = False"
| "is_prefix (p # ps) (c # cs) = (p = c \<and> is_prefix ps cs)"

fun str_contains :: "string \<Rightarrow> string \<Rightarrow> bool" where
  "str_contains pat [] = (pat = [])"
| "str_contains pat (c # cs) = (is_prefix pat (c # cs) \<or> str_contains pat cs)"

function str_replace :: "string \<Rightarrow> string \<Rightarrow> string \<Rightarrow> string" where
  "str_replace pat rep s =
     (case s of [] \<Rightarrow> []
      | c # cs \<Rightarrow> if pat \<noteq> [] \<and> is_prefix pat s then rep @ str_replace pat rep (drop (length pat) s)
                  else c # str_replace pat rep cs)"
  by pat_completeness auto
termination
  by (relation "measure (\<lambda>(pat, rep, s). length s)") auto

declare str_replace.simps [simp del, code del]

lemma str_replace_Nil [simp, code]: "str_replace pat rep [] = []"
  by (simp add: str_replace.simps)

lemma str_replace_Cons [code]:
  "str_replace pat rep (c # cs) =
     (if pat \<noteq> [] \<and> is_prefix pat (c # cs) then rep @ str_replace pat rep (drop (length pat) (c # cs))
      else c # str_replace pat rep cs)"
  by (simp add: str_replace.simps [of pat rep "c # cs"])

text \<open>\<^verbatim>\<open>str::find\<close>, and \<^verbatim>\<open>str::replacen\<close> with the count one, for a pattern that is not empty.\<close>

fun str_find :: "string \<Rightarrow> string \<Rightarrow> nat option" where
  "str_find pat [] = (if pat = [] then Some 0 else None)"
| "str_find pat (c # cs) = (if is_prefix pat (c # cs) then Some 0 else map_option Suc (str_find pat cs))"

definition replace_first :: "string \<Rightarrow> string \<Rightarrow> string \<Rightarrow> string" where
  "replace_first pat rep s =
     (case str_find pat s of Some n \<Rightarrow> take n s @ rep @ drop (n + length pat) s | None \<Rightarrow> s)"

lemma is_prefix_ex: "is_prefix p s \<Longrightarrow> \<exists>t. s = p @ t"
  by (induction p s rule: is_prefix.induct) auto

lemma str_find_Some: "str_find pat s = Some n \<Longrightarrow> s = take n s @ pat @ drop (n + length pat) s"
proof (induction pat s arbitrary: n rule: str_find.induct)
  case (2 pat c cs)
  show ?case
  proof (cases "is_prefix pat (c # cs)")
    case True
    then obtain t where t: "c # cs = pat @ t" using is_prefix_ex by metis
    have "n = 0" using 2(2) True by simp
    then show ?thesis unfolding t by simp
  qed (use 2 in auto)
qed (simp split: if_splits)

lemma replace_first_Some: "str_find pat s = Some n \<Longrightarrow> replace_first pat rep s = take n s @ rep @ drop (n + length pat) s"
  by (simp add: replace_first_def)

lemma is_prefix_length: "is_prefix p s \<Longrightarrow> length p \<le> length s"
  by (induction p s rule: is_prefix.induct) auto

lemma str_find_length: "str_find pat s = Some n \<Longrightarrow> n + length pat \<le> length s"
proof (induction pat s arbitrary: n rule: str_find.induct)
  case (2 pat c cs)
  then show ?case using is_prefix_length [of pat "c # cs"] by (auto split: if_splits)
qed (simp split: if_splits)

text \<open>\<^verbatim>\<open>[String]::join\<close>.\<close>

fun join_str :: "string \<Rightarrow> string list \<Rightarrow> string" where
  "join_str d [] = []"
| "join_str d [p] = p"
| "join_str d (p # ps) = p @ d @ join_str d ps"

section \<open>Ordered and hashed maps\<close>

text \<open>A \<^verbatim>\<open>BTreeMap\<close> is the list of its entries in key order.\<close>

fun bt_insert :: "'k::linorder \<Rightarrow> 'v \<Rightarrow> ('k \<times> 'v) list \<Rightarrow> ('k \<times> 'v) list" where
  "bt_insert k v [] = [(k, v)]"
| "bt_insert k v ((k', v') # m) =
     (if k < k' then (k, v) # (k', v') # m
      else if k = k' then (k, v) # m else (k', v') # bt_insert k v m)"

definition bt_remove :: "'k \<Rightarrow> ('k \<times> 'v) list \<Rightarrow> ('k \<times> 'v) list" where
  "bt_remove k m = filter (\<lambda>(k', _). k' \<noteq> k) m"

definition bt_wf :: "('k::linorder \<times> 'v) list \<Rightarrow> bool" where
  "bt_wf m = sorted_wrt (<) (map fst m)"

text \<open>A \<^verbatim>\<open>HashMap\<close> is the list of its entries with distinct keys.  The list order is insertion order;
  where the code iterates over a \<^verbatim>\<open>HashMap\<close> the model takes the iteration order as an argument.\<close>

fun hm_insert :: "'k \<Rightarrow> 'v \<Rightarrow> ('k \<times> 'v) list \<Rightarrow> ('k \<times> 'v) list" where
  "hm_insert k v [] = [(k, v)]"
| "hm_insert k v ((k', v') # m) = (if k = k' then (k, v) # m else (k', v') # hm_insert k v m)"

definition hm_remove :: "'k \<Rightarrow> ('k \<times> 'v) list \<Rightarrow> ('k \<times> 'v) list" where
  "hm_remove k m = filter (\<lambda>(k', _). k' \<noteq> k) m"

definition hm_wf :: "('k \<times> 'v) list \<Rightarrow> bool" where
  "hm_wf m = distinct (map fst m)"

text \<open>\<^verbatim>\<open>entry(k).or_insert(d)\<close>: the value at \<open>k\<close>, after storing \<open>d\<close> there when the key is absent.\<close>

definition get_or :: "'v \<Rightarrow> ('k \<times> 'v) list \<Rightarrow> 'k \<Rightarrow> 'v" where
  "get_or d m k = (case map_of m k of None \<Rightarrow> d | Some v \<Rightarrow> v)"

definition or_insert :: "'k \<Rightarrow> 'v \<Rightarrow> ('k \<times> 'v) list \<Rightarrow> ('k \<times> 'v) list" where
  "or_insert k d m = (case map_of m k of None \<Rightarrow> hm_insert k d m | Some _ \<Rightarrow> m)"

text \<open>The values of a \<^verbatim>\<open>HashMap\<close> in the iteration order \<open>ord\<close>, a rearrangement of the keys.\<close>

definition hm_iter :: "('k list \<Rightarrow> 'k list) \<Rightarrow> ('k \<times> 'v) list \<Rightarrow> ('k \<times> 'v) list" where
  "hm_iter ord m = map (\<lambda>k. (k, the (map_of m k))) (ord (map fst m))"

definition iter_order :: "('k list \<Rightarrow> 'k list) \<Rightarrow> bool" where
  "iter_order ord = (\<forall>ks. mset (ord ks) = mset ks)"

section \<open>Sorting\<close>

text \<open>\<^verbatim>\<open>slice::sort_by\<close>, a stable sort; the comparison returns a negative number, zero or a positive
  number for \<^verbatim>\<open>Less\<close>, \<^verbatim>\<open>Equal\<close>, \<^verbatim>\<open>Greater\<close>.  For a comparison that is not a total preorder on the elements the
  library leaves the order of the result open.\<close>

fun insert_by :: "('a \<Rightarrow> 'a \<Rightarrow> int) \<Rightarrow> 'a \<Rightarrow> 'a list \<Rightarrow> 'a list" where
  "insert_by cmp x [] = [x]"
| "insert_by cmp x (y # ys) = (if cmp x y \<le> 0 then x # y # ys else y # insert_by cmp x ys)"

definition sort_by :: "('a \<Rightarrow> 'a \<Rightarrow> int) \<Rightarrow> 'a list \<Rightarrow> 'a list" where
  "sort_by cmp xs = foldr (insert_by cmp) xs []"

section \<open>Results: lemmas\<close>

lemma res_bind_Inl [simp, res_simps]: "res_bind (Inl e) f = Inl e"
  by (simp add: res_bind_def)

lemma res_bind_Inr [simp, res_simps]: "res_bind (Inr a) f = f a"
  by (simp add: res_bind_def)

lemma res_bind_eq_Inr [res_simps]:
  "res_bind m f = Inr b \<longleftrightarrow> (\<exists>a. m = Inr a \<and> f a = Inr b)"
  by (cases m) (auto simp: res_bind_def)

lemma res_bind_eq_Inl [res_simps]:
  "res_bind m f = Inl e \<longleftrightarrow> m = Inl e \<or> (\<exists>a. m = Inr a \<and> f a = Inl e)"
  by (cases m) (auto simp: res_bind_def)

lemma res_bind_assoc: "res_bind (res_bind m f) g = res_bind m (\<lambda>a. res_bind (f a) g)"
  by (cases m) (simp_all add: res_bind_def)

lemma map_err_simps [simp, res_simps]:
  "map_err g (Inl e) = Inl (g e)"
  "map_err g (Inr a) = Inr a"
  by (simp_all add: map_err_def)

lemma map_err_eq_Inr [simp, res_simps]: "map_err g m = Inr a \<longleftrightarrow> m = Inr a"
  by (cases m) simp_all

lemma is_ok_simps [simp, res_simps]: "is_ok (Inl e) = False" "is_ok (Inr a) = True"
  by (simp_all add: is_ok_def)

lemma is_ok_iff: "is_ok m \<longleftrightarrow> (\<exists>a. m = Inr a)"
  by (cases m) simp_all

section \<open>Maps: the interface and its two implementations\<close>

text \<open>
  The contract the rest of the code relies on: what a lookup returns after an insert or a removal,
  and that both keep the representation's invariant.  Lemmas about \<^verbatim>\<open>entry\<close>-style updates are proved
  once here and hold for both kinds of map.
\<close>

locale rust_map =
  fixes insert :: "'k \<Rightarrow> 'v \<Rightarrow> ('k \<times> 'v) list \<Rightarrow> ('k \<times> 'v) list"
    and remove :: "'k \<Rightarrow> ('k \<times> 'v) list \<Rightarrow> ('k \<times> 'v) list"
    and wf :: "('k \<times> 'v) list \<Rightarrow> bool"
  assumes wf_empty: "wf []"
    and wf_insert: "wf m \<Longrightarrow> wf (insert k v m)"
    and wf_remove: "wf m \<Longrightarrow> wf (remove k m)"
    and get_insert: "map_of (insert k v m) = (map_of m)(k \<mapsto> v)"
    and get_remove: "map_of (remove k m) = (map_of m)(k := None)"
begin

lemma keys_insert: "fst ` set (insert k v m) = Set.insert k (fst ` set m)"
proof -
  have "dom (map_of (insert k v m)) = Set.insert k (dom (map_of m))"
    by (simp add: get_insert)
  then show ?thesis by (simp add: dom_map_of_conv_image_fst)
qed

lemma insert_remove_other:
  "k \<noteq> k' \<Longrightarrow> map_of (remove k' (insert k v m)) k = Some v"
  by (simp add: get_remove get_insert)

lemma wf_foldr_insert: "wf m \<Longrightarrow> wf (foldr (\<lambda>(k, v). insert k v) xs m)"
  by (induction xs) (auto simp: wf_insert)

lemma wf_fold_insert: "wf m \<Longrightarrow> wf (fold (\<lambda>(k, v). insert k v) xs m)"
  by (induction xs arbitrary: m) (auto simp: wf_insert)

text \<open>Inserting a list of entries one by one: the last entry for a key wins.\<close>

lemma get_fold_insert:
  "map_of (fold (\<lambda>(k, v). insert k v) xs m) = map_of m ++ map_of (rev xs)"
proof (induction xs arbitrary: m)
  case Nil
  then show ?case by simp
next
  case (Cons x xs)
  then show ?case
    by (cases x) (auto simp: get_insert map_add_def fun_eq_iff split: option.splits)
qed

end

lemma map_of_filter_neq: "map_of (filter (\<lambda>(k', _). k' \<noteq> k) m) = (map_of m)(k := None)"
  by (induction m) (auto simp: fun_eq_iff)

lemma map_of_bt_insert: "map_of (bt_insert k v m) = (map_of m)(k \<mapsto> v)"
  by (induction k v m rule: bt_insert.induct) (auto simp: fun_eq_iff)

lemma map_of_hm_insert: "map_of (hm_insert k v m) = (map_of m)(k \<mapsto> v)"
  by (induction k v m rule: hm_insert.induct) (auto simp: fun_eq_iff)

lemma bt_insert_keys: "set (map fst (bt_insert k v m)) = Set.insert k (set (map fst m))"
  by (induction k v m rule: bt_insert.induct) auto

lemma hm_insert_keys: "set (map fst (hm_insert k v m)) = Set.insert k (set (map fst m))"
  by (induction k v m rule: hm_insert.induct) auto

lemma bt_wf_insert: "bt_wf m \<Longrightarrow> bt_wf (bt_insert k v m)"
proof (induction k v m rule: bt_insert.induct)
  case (2 k v k' v' m)
  then show ?case
    using bt_insert_keys [of k v m] by (fastforce simp: bt_wf_def)
qed (simp add: bt_wf_def)

lemma hm_wf_insert: "hm_wf m \<Longrightarrow> hm_wf (hm_insert k v m)"
proof (induction k v m rule: hm_insert.induct)
  case (2 k v k' v' m)
  then show ?case
    using hm_insert_keys [of k v m] by (auto simp: hm_wf_def)
qed (simp add: hm_wf_def)

interpretation bt: rust_map "bt_insert :: 'k::linorder \<Rightarrow> 'v \<Rightarrow> _" bt_remove bt_wf
proof unfold_locales
  show "bt_wf (bt_remove k m)" if "bt_wf m" for k :: 'k and m :: "('k \<times> 'v) list"
    using that unfolding bt_wf_def bt_remove_def
    by (induction m) (auto simp: case_prod_beta)
qed (auto simp: bt_wf_insert map_of_bt_insert bt_remove_def map_of_filter_neq bt_wf_def [of "[]"])

interpretation hm: rust_map "hm_insert :: 'k \<Rightarrow> 'v \<Rightarrow> _" hm_remove hm_wf
proof unfold_locales
  show "hm_wf (hm_remove k m)" if "hm_wf m" for k :: 'k and m :: "('k \<times> 'v) list"
    using that unfolding hm_wf_def hm_remove_def
    by (induction m) (auto simp: case_prod_beta)
qed (auto simp: hm_wf_insert map_of_hm_insert hm_remove_def map_of_filter_neq hm_wf_def [of "[]"])

lemma hm_insert_subset: "set (hm_insert k v m) \<subseteq> Set.insert (k, v) (set m)"
  by (induction k v m rule: hm_insert.induct) auto

lemma hm_wf_get: "hm_wf m \<Longrightarrow> (k, v) \<in> set m \<longleftrightarrow> map_of m k = Some v"
  by (simp add: hm_wf_def)

lemma hm_insert_mem: "hm_wf m \<Longrightarrow> (k', v') \<in> set (hm_insert k v m) \<longleftrightarrow> (if k' = k then v' = v else (k', v') \<in> set m)"
  by (auto simp: hm_wf_get hm_wf_insert map_of_hm_insert)

lemma map_filter_Cons: "List.map_filter f (x # xs) = (case f x of None \<Rightarrow> List.map_filter f xs | Some y \<Rightarrow> y # List.map_filter f xs)"
  by (simp add: List.map_filter_simps split: option.split if_splits)

lemmas map_update_simps [rust_simps] = hm.get_insert hm.get_remove bt.get_insert bt.get_remove

lemma map_of_or_insert [rust_simps]:
  "map_of (or_insert k d m) = (map_of m)(k \<mapsto> get_or d m k)"
  by (auto simp: or_insert_def get_or_def map_of_hm_insert fun_eq_iff split: option.splits)

section \<open>Strings: lemmas\<close>

lemma split_on_nonempty [simp]: "split_on d s \<noteq> []"
  by (cases s) (auto split: list.splits)

text \<open>\<^verbatim>\<open>split\<close> inverts joining with the separator.\<close>

fun join_with :: "char \<Rightarrow> string list \<Rightarrow> string" where
  "join_with d [] = []"
| "join_with d [p] = p"
| "join_with d (p # ps) = p @ d # join_with d ps"

lemma split_on_no_sep: "d \<notin> set s \<Longrightarrow> split_on d s = [s]"
  by (induction s) auto

lemma split_on_append_sep:
  "d \<notin> set p \<Longrightarrow> split_on d (p @ d # s) = p # split_on d s"
  by (induction p) auto

lemma split_on_join:
  "ps \<noteq> [] \<Longrightarrow> \<forall>p \<in> set ps. d \<notin> set p \<Longrightarrow> split_on d (join_with d ps) = ps"
  by (induction d ps rule: join_with.induct) (auto simp: split_on_no_sep split_on_append_sep)

lemma eq_ignore_ascii_case_refl [simp]: "eq_ignore_ascii_case s s"
  by (simp add: eq_ignore_ascii_case_def)

section \<open>Sorting and iteration: lemmas\<close>

lemma mset_insert_by [simp]: "mset (insert_by cmp x ys) = add_mset x (mset ys)"
  by (induction ys) auto

lemma sort_by_Nil [simp]: "sort_by cmp [] = []"
  by (simp add: sort_by_def)

lemma mset_sort_by [simp]: "mset (sort_by cmp xs) = mset xs"
  by (induction xs) (simp_all add: sort_by_def)

lemma set_sort_by [simp]: "set (sort_by cmp xs) = set xs"
  using mset_sort_by by (rule mset_eq_setD)

lemma length_sort_by [simp]: "length (sort_by cmp xs) = length xs"
  using mset_sort_by by (rule mset_eq_length)

lemma sorted_insert_by:
  assumes "sorted_wrt (\<lambda>a b. cmp a b \<le> 0) ys"
    and total: "\<And>a. a \<in> set ys \<Longrightarrow> cmp x a \<le> 0 \<or> cmp a x \<le> 0"
    and trans: "\<And>a b. a \<in> set ys \<Longrightarrow> b \<in> set ys \<Longrightarrow> cmp x a \<le> 0 \<Longrightarrow> cmp a b \<le> 0 \<Longrightarrow> cmp x b \<le> 0"
  shows "sorted_wrt (\<lambda>a b. cmp a b \<le> 0) (insert_by cmp x ys)"
  using assms
proof (induction ys)
  case (Cons y ys)
  have set_ins: "set (insert_by cmp x ys) = Set.insert x (set ys)"
    using mset_insert_by [of cmp x ys, THEN mset_eq_setD [of _ "x # ys", simplified]] by simp
  show ?case
  proof (cases "cmp x y \<le> 0")
    case True
    then show ?thesis using Cons.prems by auto
  next
    case False
    then show ?thesis using Cons set_ins by auto
  qed
qed simp

lemma sorted_sort_by:
  assumes "\<And>a b. a \<in> set xs \<Longrightarrow> b \<in> set xs \<Longrightarrow> cmp a b \<le> 0 \<or> cmp b a \<le> 0"
    and "\<And>a b c. a \<in> set xs \<Longrightarrow> b \<in> set xs \<Longrightarrow> c \<in> set xs \<Longrightarrow> cmp a b \<le> 0 \<Longrightarrow> cmp b c \<le> 0 \<Longrightarrow> cmp a c \<le> 0"
  shows "sorted_wrt (\<lambda>a b. cmp a b \<le> 0) (sort_by cmp xs)"
  using assms
proof (induction xs)
  case (Cons x xs)
  have "sorted_wrt (\<lambda>a b. cmp a b \<le> 0) (sort_by cmp xs)"
  proof (rule Cons.IH)
    fix a b c assume "a \<in> set xs" "b \<in> set xs" "c \<in> set xs" "cmp a b \<le> 0" "cmp b c \<le> 0"
    then show "cmp a c \<le> 0" using Cons.prems(2) [of a b c] by simp
  next
    fix a b assume "a \<in> set xs" "b \<in> set xs"
    then show "cmp a b \<le> 0 \<or> cmp b a \<le> 0" using Cons.prems(1) [of a b] by simp
  qed
  then have "sorted_wrt (\<lambda>a b. cmp a b \<le> 0) (insert_by cmp x (sort_by cmp xs))"
  proof (rule sorted_insert_by)
    fix a b assume "a \<in> set (sort_by cmp xs)" "b \<in> set (sort_by cmp xs)" "cmp x a \<le> 0" "cmp a b \<le> 0"
    then show "cmp x b \<le> 0" using Cons.prems(2) [of x a b] by simp
  next
    fix a assume "a \<in> set (sort_by cmp xs)"
    then show "cmp x a \<le> 0 \<or> cmp a x \<le> 0" using Cons.prems(1) [of x a] by simp
  qed
  then show ?case by (simp add: sort_by_def)
next
  case Nil
  show ?case by (simp add: sort_by_def)
qed

lemma set_iter_order: "iter_order ord \<Longrightarrow> set (ord ks) = set ks"
  by (metis iter_order_def mset_eq_setD)

lemma set_hm_iter: "iter_order ord \<Longrightarrow> hm_wf m \<Longrightarrow> set (hm_iter ord m) = set m"
proof (rule set_eqI)
  fix e :: "'a \<times> 'b"
  assume ord: "iter_order ord" and wf: "hm_wf m"
  obtain k v where e: "e = (k, v)" by (cases e)
  have "e \<in> set (hm_iter ord m) \<longleftrightarrow> k \<in> fst ` set m \<and> v = the (map_of m k)"
    by (auto simp: e hm_iter_def set_iter_order [OF ord])
  also have "\<dots> \<longleftrightarrow> map_of m k = Some v"
    by (cases "map_of m k") (auto simp: map_of_eq_None_iff simp del: map_of_eq_Some_iff dest: map_of_SomeD intro: rev_image_eqI)
  also have "\<dots> \<longleftrightarrow> e \<in> set m"
    using wf by (simp add: e hm_wf_def)
  finally show "e \<in> set (hm_iter ord m) \<longleftrightarrow> e \<in> set m" .
qed

lemma hm_iter_keys: "map fst (hm_iter ord m) = ord (map fst m)"
  by (simp add: hm_iter_def comp_def)

section \<open>Loops that append\<close>

text \<open>A loop that only appends: what it appends for each item, and what that means for the order of items.\<close>

locale appender =
  fixes step :: "'r \<Rightarrow> 'c \<Rightarrow> 'c" and out :: "'c \<Rightarrow> 'a list" and contrib :: "'r \<Rightarrow> 'a list"
  assumes out_step: "out (step r c) = out c @ contrib r"
begin

lemma out_fold: "out (fold step rs c) = out c @ concat (map contrib rs)"
  by (induction rs arbitrary: c) (simp_all add: out_step)

lemma out_perm: "mset rs = mset rs' \<Longrightarrow> mset (out (fold step rs c)) = mset (out (fold step rs' c))"
  by (simp add: out_fold mset_concat) (metis mset_map sum_mset_sum_list)

end

lemma mset_hm_iter: "iter_order ord \<Longrightarrow> distinct (map fst m) \<Longrightarrow> mset (hm_iter ord m) = mset m"
proof -
  assume ord: "iter_order ord" and dist: "distinct (map fst m)"
  have "mset (hm_iter ord m) = image_mset (\<lambda>k. (k, the (map_of m k))) (mset (ord (map fst m)))"
    by (simp add: hm_iter_def)
  also have "\<dots> = mset (map (\<lambda>e. (fst e, the (map_of m (fst e)))) m)"
    using ord by (simp add: iter_order_def multiset.map_comp comp_def)
  also have "map (\<lambda>e. (fst e, the (map_of m (fst e)))) m = m"
    using dist by (intro map_idI) (auto simp: map_of_is_SomeI)
  finally show ?thesis .
qed

lemma distinct_concat_keys:
  "(\<And>t. map fst (f t) \<in> {[], [key t]}) \<Longrightarrow> distinct (map key ts) \<Longrightarrow> distinct (map fst (concat (map f ts)))"
proof (induction ts)
  case (Cons t ts)
  have "set (map fst (f t')) \<subseteq> {key t'}" for t' using Cons.prems(1) [of t'] by auto
  then have "set (map fst (concat (map f ts))) \<subseteq> set (map key ts)" by fastforce
  moreover have "key t \<notin> set (map key ts)" using Cons.prems(2) by simp
  ultimately have new: "key t \<notin> set (map fst (concat (map f ts)))" by blast
  have d: "distinct (map fst (concat (map f ts)))" using Cons by simp
  have eq: "map fst (concat (map f (t # ts))) = map fst (f t) @ map fst (concat (map f ts))" by simp
  have "map fst (f t) = [] \<or> map fst (f t) = [key t]" using Cons.prems(1) [of t] by simp
  then show ?case unfolding eq using d new by (elim disjE) (simp_all only: append_Nil append_Cons distinct.simps simp_thms)
qed simp

end
