(* ===== verification/Bits.thy ===== *)
theory Bits
  imports Prelude
begin

text \<open>
  Bit strings, and the contract of a bit cursor.  The two consent decoders of the server (the GPP one
  and the TCF one) each come with their own bit reader; both read big-endian unsigned fields from a
  byte slice, most significant bit first.  \<open>bit_cursor\<close> states what the decoders rely on, and the
  lemmas about reading a sequence of fields are proved once, inside it.
\<close>

unbundle bit_operations_syntax

section \<open>Byte slices as bit strings\<close>

definition byte_bits :: "u8 \<Rightarrow> bool list" where
  "byte_bits b = map (\<lambda>i. bit b (7 - i)) [0..<8]"

definition bits_of :: "u8 list \<Rightarrow> bool list" where
  "bits_of bs = concat (map byte_bits bs)"

text \<open>The value of a big-endian bit string.\<close>

definition bits_val :: "bool list \<Rightarrow> nat" where
  "bits_val bs = foldl (\<lambda>a b. 2 * a + of_bool b) 0 bs"

text \<open>The inverse direction: \<open>n\<close> bits of a number, most significant first, and packing a bit string
  into bytes with zero padding.\<close>

definition nat_bits :: "nat \<Rightarrow> nat \<Rightarrow> bool list" where
  "nat_bits n v = map (\<lambda>i. bit v (n - 1 - i)) [0..<n]"

definition bits_byte :: "bool list \<Rightarrow> u8" where
  "bits_byte bs = of_nat (bits_val (take 8 (bs @ replicate 8 False)))"

function pack_bits :: "bool list \<Rightarrow> u8 list" where
  "pack_bits bs = (if bs = [] then [] else bits_byte bs # pack_bits (drop 8 bs))"
  by pat_completeness auto
termination
  by (relation "measure length") auto

declare pack_bits.simps [simp del]

text \<open>Reading one field after the other, for any reader.\<close>

fun read_all :: "('r \<Rightarrow> nat \<Rightarrow> ('e, 'v \<times> 'r) res) \<Rightarrow> nat list \<Rightarrow> 'r \<Rightarrow> ('e, 'v list \<times> 'r) res" where
  "read_all rd [] r = Inr ([], r)"
| "read_all rd (w # ws) r =
     res_bind (rd r w) (\<lambda>(v, r). res_bind (read_all rd ws r) (\<lambda>(vs, r). Inr (v # vs, r)))"

text \<open>The fields a bit string holds under a list of widths.\<close>

fun fields_of :: "nat list \<Rightarrow> bool list \<Rightarrow> nat list" where
  "fields_of [] bs = []"
| "fields_of (w # ws) bs = bits_val (take w bs) # fields_of ws (drop w bs)"

section \<open>Lemmas on bit strings\<close>

lemma length_byte_bits [simp]: "length (byte_bits b) = 8"
  by (simp add: byte_bits_def)

lemma length_bits_of [simp]: "length (bits_of bs) = 8 * length bs"
  by (induction bs) (simp_all add: bits_of_def)

lemma bits_of_simps [simp]: "bits_of [] = []" "bits_of (b # bs) = byte_bits b @ bits_of bs"
  by (simp_all add: bits_of_def)

lemma nth_byte_bits: "i < 8 \<Longrightarrow> byte_bits b ! i = bit b (7 - i)"
  by (simp add: byte_bits_def)

lemma nth_bits_of:
  "i < 8 * length bs \<Longrightarrow> bits_of bs ! i = bit (bs ! (i div 8)) (7 - i mod 8)"
proof (induction bs arbitrary: i)
  case Nil
  then show ?case by simp
next
  case (Cons b bs)
  show ?case
  proof (cases "i < 8")
    case True
    then show ?thesis by (simp add: nth_append nth_byte_bits)
  next
    case False
    with Cons.prems have "i - 8 < 8 * length bs" by simp
    then have "bits_of bs ! (i - 8) = bit (bs ! ((i - 8) div 8)) (7 - (i - 8) mod 8)"
      by (rule Cons.IH)
    moreover have "i div 8 = Suc ((i - 8) div 8)" "i mod 8 = (i - 8) mod 8"
      using False by (simp_all add: le_div_geq le_mod_geq)
    ultimately show ?thesis
      using False by (simp add: nth_append)
  qed
qed

lemma bits_val_Nil [simp]: "bits_val [] = 0"
  by (simp add: bits_val_def)

lemma bits_val_snoc: "bits_val (xs @ [b]) = 2 * bits_val xs + of_bool b"
  by (simp add: bits_val_def)

lemma bits_val_append: "bits_val (xs @ ys) = bits_val xs * 2 ^ length ys + bits_val ys"
proof (induction ys rule: rev_induct)
  case Nil
  then show ?case by simp
next
  case (snoc y ys)
  have "bits_val (xs @ ys @ [y]) = 2 * bits_val (xs @ ys) + of_bool y"
    using bits_val_snoc [of "xs @ ys" y] by simp
  with snoc show ?case by (simp add: bits_val_snoc algebra_simps)
qed

lemma bits_val_less: "bits_val bs < 2 ^ length bs"
proof (induction bs rule: rev_induct)
  case Nil
  then show ?case by simp
next
  case (snoc b bs)
  then show ?case by (simp add: bits_val_snoc)
qed

lemma bits_val_take_Suc:
  "n < length bs \<Longrightarrow> bits_val (take (Suc n) bs) = 2 * bits_val (take n bs) + of_bool (bs ! n)"
  by (simp add: take_Suc_conv_app_nth bits_val_snoc)

lemma length_nat_bits [simp]: "length (nat_bits n v) = n"
  by (simp add: nat_bits_def)

lemma nat_bits_Suc: "nat_bits (Suc n) v = bit v n # nat_bits n v"
proof (rule nth_equalityI)
  fix i
  assume "i < length (nat_bits (Suc n) v)"
  then show "nat_bits (Suc n) v ! i = (bit v n # nat_bits n v) ! i"
    by (cases i) (simp_all add: nat_bits_def del: upt_Suc)
qed simp

lemma bits_val_Cons: "bits_val (b # bs) = of_bool b * 2 ^ length bs + bits_val bs"
  using bits_val_append [of "[b]" bs] by (simp add: bits_val_def)

lemma bits_val_nat_bits: "bits_val (nat_bits n v) = v mod 2 ^ n"
proof (induction n)
  case 0
  then show ?case by (simp add: nat_bits_def)
next
  case (Suc n)
  have "v mod 2 ^ Suc n = of_bool (bit v n) * 2 ^ n + v mod 2 ^ n"
    using mod_mult2_eq [of v "2 ^ n" 2]
    by (simp add: bit_iff_odd odd_iff_mod_2_eq_one mult.commute)
  with Suc show ?case by (simp add: nat_bits_Suc bits_val_Cons)
qed

lemma bits_val_take_nat_bits [simp]: "v < 2 ^ n \<Longrightarrow> bits_val (nat_bits n v) = v"
  by (simp add: bits_val_nat_bits)

text \<open>A bit string is determined by its value and its length.\<close>

lemma bit_nth_of_bits_val:
  "i < length bs \<Longrightarrow> bit (bits_val bs) (length bs - 1 - i) = bs ! i"
proof (induction bs arbitrary: i)
  case Nil
  then show ?case by simp
next
  case (Cons b bs)
  have split: "bits_val (b # bs) = of_bool b * 2 ^ length bs + bits_val bs"
    by (rule bits_val_Cons)
  show ?case
  proof (cases i)
    case 0
    have "bits_val (b # bs) div 2 ^ length bs = of_bool b"
      using bits_val_less [of bs] by (simp add: split)
    with 0 show ?thesis by (simp add: bit_iff_odd)
  next
    case (Suc j)
    with Cons.prems have j: "j < length bs" by simp
    let ?k = "length bs - 1 - j"
    have k: "?k < length bs" using j by simp
    have "bit (bits_val (b # bs)) ?k = bit (take_bit (length bs) (bits_val (b # bs))) ?k"
      using k by (simp add: bit_take_bit_iff)
    also have "take_bit (length bs) (bits_val (b # bs)) = bits_val bs"
      using bits_val_less [of bs] by (simp add: split take_bit_eq_mod)
    finally show ?thesis using Cons.IH [OF j] Suc by simp
  qed
qed

lemma bits_val_byte_less: "length bs = 8 \<Longrightarrow> bits_val bs < 256"
  using bits_val_less [of bs] by simp

lemma byte_bits_bits_byte: "length bs = 8 \<Longrightarrow> byte_bits (of_nat (bits_val bs)) = bs"
proof (rule nth_equalityI)
  fix i
  assume len: "length bs = 8" and i: "i < length (byte_bits (of_nat (bits_val bs)))"
  then have i8: "i < 8" by simp
  have "bit (of_nat (bits_val bs) :: u8) (7 - i) = bit (bits_val bs) (7 - i)"
    using i8 by (auto simp: bit_simps)
  then show "byte_bits (of_nat (bits_val bs)) ! i = bs ! i"
    using bit_nth_of_bits_val [of i bs] len i8 by (simp add: nth_byte_bits)
qed simp

lemma bits_of_pack_bits:
  "bits_of (pack_bits bs) = bs @ replicate (8 * ((length bs + 7) div 8) - length bs) False"
proof (induction bs rule: pack_bits.induct)
  case (1 bs)
  show ?case
  proof (cases "bs = []")
    case True
    then show ?thesis by (simp add: pack_bits.simps [of "[]"])
  next
    case False
    let ?h = "take 8 (bs @ replicate 8 False)"
    have h: "byte_bits (bits_byte bs) = ?h"
      by (simp add: bits_byte_def byte_bits_bits_byte)
    have step: "bits_of (pack_bits bs) = ?h @ bits_of (pack_bits (drop 8 bs))"
      using False by (simp add: pack_bits.simps [of bs] h)
    show ?thesis
    proof (cases "length bs < 8")
      case True
      moreover have "(length bs + 7) div 8 = 1" using True False
        by (cases bs) (auto simp: div_if)
      ultimately show ?thesis
        by (simp add: step pack_bits.simps [of "[]"])
    next
      case ge: False
      have "8 * ((length (drop 8 bs) + 7) div 8) - length (drop 8 bs)
            = 8 * ((length bs + 7) div 8) - length bs"
        using ge by (simp add: le_div_geq)
      with "1.IH" False ge show ?thesis
        by (simp add: step)
    qed
  qed
qed

section \<open>Words\<close>

lemma unat_ucast_small:
  "unat (v :: u64) < 2 ^ n \<Longrightarrow> n \<le> LENGTH('a::len) \<Longrightarrow> unat (ucast v :: 'a word) = unat v"
proof -
  assume v: "unat v < 2 ^ n" and n: "n \<le> LENGTH('a)"
  have "(2::nat) ^ n \<le> 2 ^ LENGTH('a)" using n by (rule power_increasing) simp
  with v have "unat v < 2 ^ LENGTH('a)" by (rule less_le_trans)
  then show ?thesis by (simp add: unsigned_ucast_eq unsigned_take_bit_eq take_bit_nat_eq_self)
qed

lemma unat_eq_1_iff: "unat (w :: 'a::len word) = 1 \<longleftrightarrow> w = 1"
  by (metis unat_1 word_unat_eq_iff)

text \<open>Cutting a field out of a bit string, and appending a field to an accumulator.\<close>

lemma bits_val_slice:
  assumes "k + t \<le> length bs"
  shows "bits_val (take t (drop k bs)) = bits_val bs div 2 ^ (length bs - k - t) mod 2 ^ t"
proof -
  let ?a = "take k bs" and ?b = "take t (drop k bs)" and ?c = "drop (k + t) bs"
  have bs: "bs = ?a @ ?b @ ?c"
    by (metis append_take_drop_id drop_drop add.commute)
  have "bits_val bs = (bits_val ?a * 2 ^ t + bits_val ?b) * 2 ^ (length bs - k - t) + bits_val ?c"
    using assms by (subst bs) (simp add: bits_val_append algebra_simps flip: power_add)
  moreover have "bits_val ?c < 2 ^ (length bs - k - t)"
    using bits_val_less [of ?c] by simp
  moreover have "bits_val ?b < 2 ^ t"
    using bits_val_less [of ?b] assms by simp
  ultimately show ?thesis by simp
qed

lemma unat_bits_val_byte: "bits_val (byte_bits b) = unat b"
proof -
  have "byte_bits b = nat_bits 8 (unat b)"
    by (simp add: byte_bits_def nat_bits_def bit_unsigned_iff)
  moreover have "unat b < 2 ^ 8" using unsigned_less [of b, where 'a = nat] by simp
  ultimately show ?thesis by simp
qed

lemma unat_ucast_u8: "unat (ucast (c :: u8) :: u64) = unat c"
proof -
  have "unat c < 2 ^ 8" using unsigned_less [of c, where 'a = nat] by simp
  then have "unat c < 2 ^ 64" by simp
  then show ?thesis by (simp add: unsigned_ucast_eq unsigned_take_bit_eq take_bit_nat_eq_self)
qed

lemma unat_of_nat_u64: "unat (of_nat n :: u64) = n" if "n < 2 ^ 64"
  using that by (simp add: unsigned_of_nat take_bit_nat_eq_self)

lemma unat_push_or:
  fixes v c :: u64
  assumes "unat v < 2 ^ k" "k + t \<le> 64" "unat c < 2 ^ t"
  shows "unat (push_bit t v OR c) = unat v * 2 ^ t + unat c"
proof -
  have c: "take_bit t c = c"
    using assms(3) by (simp add: word_unat_eq_iff unsigned_take_bit_eq take_bit_nat_eq_self)
  have disj: "\<not> bit (push_bit t v) n \<or> \<not> bit c n" for n
    by (subst c [symmetric]) (auto simp: bit_simps)
  have "push_bit t v OR c = v * 2 ^ t + c"
    using disjunctive_add [of "push_bit t v" c] disj by (simp add: push_bit_eq_mult)
  moreover have lt: "unat v * 2 ^ t + unat c < 2 ^ 64"
  proof -
    have "unat v * 2 ^ t + unat c < (unat v + 1) * 2 ^ t" using assms(3) by simp
    also have "\<dots> \<le> 2 ^ k * 2 ^ t" using assms(1) by (intro mult_right_mono) simp_all
    also have "\<dots> = 2 ^ (k + t)" by (simp add: power_add)
    also have "\<dots> \<le> 2 ^ 64" using assms(2) by (rule power_increasing) simp
    finally show ?thesis .
  qed
  moreover have "v * 2 ^ t + c = of_nat (unat v * 2 ^ t + unat c)" by simp
  ultimately show ?thesis
    by (simp only: unat_of_nat_u64)
qed

section \<open>The contract of a bit cursor\<close>

text \<open>
  \<open>rest r\<close> are the bits ahead of the cursor.  A read of \<open>n \<le> 64\<close> bits succeeds exactly when that many
  are left, returns their value and moves the cursor behind them; every other read is an error.
\<close>

locale bit_cursor =
  fixes rd :: "'r \<Rightarrow> nat \<Rightarrow> ('e, u64 \<times> 'r) res"
    and rest :: "'r \<Rightarrow> bool list"
  assumes rd_ok: "n \<le> 64 \<Longrightarrow> n \<le> length (rest r) \<Longrightarrow>
      \<exists>v r'. rd r n = Inr (v, r') \<and> unat v = bits_val (take n (rest r)) \<and> rest r' = drop n (rest r)"
    and rd_err: "64 < n \<or> length (rest r) < n \<Longrightarrow> \<exists>e. rd r n = Inl e"
begin

lemma rd_iff: "(\<exists>v r'. rd r n = Inr (v, r')) \<longleftrightarrow> n \<le> 64 \<and> n \<le> length (rest r)"
  using rd_ok [of n r] rd_err [of n r] by fastforce

lemma rd_Inr:
  assumes "rd r n = Inr (v, r')"
  shows "n \<le> 64" "n \<le> length (rest r)" "unat v = bits_val (take n (rest r))" "rest r' = drop n (rest r)"
proof -
  from assms have *: "n \<le> 64 \<and> n \<le> length (rest r)" using rd_iff [of r n] by blast
  then show "n \<le> 64" "n \<le> length (rest r)" by simp_all
  from * rd_ok [of n r] assms
  show "unat v = bits_val (take n (rest r))" "rest r' = drop n (rest r)" by auto
qed

lemma rd_bound: "rd r n = Inr (v, r') \<Longrightarrow> unat v < 2 ^ n"
  using rd_Inr [of r n v r'] bits_val_less [of "take n (rest r)"] by simp

text \<open>Reading a list of fields, each of at most 64 bits.\<close>

lemma read_all_ok:
  "\<forall>w \<in> set ws. w \<le> 64 \<Longrightarrow> sum_list ws \<le> length (rest r) \<Longrightarrow>
   \<exists>vs r'. read_all rd ws r = Inr (vs, r') \<and> map unat vs = fields_of ws (rest r)
          \<and> rest r' = drop (sum_list ws) (rest r)"
proof (induction ws arbitrary: r)
  case Nil
  then show ?case by simp
next
  case (Cons w ws)
  from Cons.prems have "w \<le> 64" "w \<le> length (rest r)" by auto
  from rd_ok [OF this] obtain v r1 where 1: "rd r w = Inr (v, r1)"
    and v: "unat v = bits_val (take w (rest r))" and r1: "rest r1 = drop w (rest r)"
    by blast
  from Cons.prems r1 have "\<forall>w \<in> set ws. w \<le> 64" "sum_list ws \<le> length (rest r1)" by auto
  from Cons.IH [OF this] obtain vs r2 where 2: "read_all rd ws r1 = Inr (vs, r2)"
    and vs: "map unat vs = fields_of ws (rest r1)" and r2: "rest r2 = drop (sum_list ws) (rest r1)"
    by blast
  from 1 2 v vs r1 r2 show ?case
    by (simp add: add.commute)
qed

lemma read_all_err:
  "\<forall>w \<in> set ws. w \<le> 64 \<Longrightarrow> length (rest r) < sum_list ws \<Longrightarrow> \<exists>e. read_all rd ws r = Inl e"
proof (induction ws arbitrary: r)
  case Nil
  then show ?case by simp
next
  case (Cons w ws)
  show ?case
  proof (cases "w \<le> length (rest r)")
    case False
    then obtain e where "rd r w = Inl e" using rd_err [of w r] by auto
    then show ?thesis by simp
  next
    case True
    with Cons.prems rd_ok [of w r] obtain v r1 where 1: "rd r w = Inr (v, r1)"
      and r1: "rest r1 = drop w (rest r)" by auto
    from Cons.prems True r1 have "length (rest r1) < sum_list ws" by simp
    with Cons.IH [of r1] Cons.prems obtain e where "read_all rd ws r1 = Inl e" by auto
    with 1 show ?thesis by simp
  qed
qed

lemma read_all_iff:
  "\<forall>w \<in> set ws. w \<le> 64 \<Longrightarrow>
   (\<exists>vs r'. read_all rd ws r = Inr (vs, r')) \<longleftrightarrow> sum_list ws \<le> length (rest r)"
  using read_all_ok [of ws r] read_all_err [of ws r] by fastforce

lemma read_all_Inr:
  assumes "\<forall>w \<in> set ws. w \<le> 64" "read_all rd ws r = Inr (vs, r')"
  shows "sum_list ws \<le> length (rest r)" "map unat vs = fields_of ws (rest r)"
    "rest r' = drop (sum_list ws) (rest r)"
proof -
  from assms show *: "sum_list ws \<le> length (rest r)" using read_all_iff [of ws r] by blast
  from read_all_ok [OF assms(1) *] assms(2)
  show "map unat vs = fields_of ws (rest r)" "rest r' = drop (sum_list ws) (rest r)" by auto
qed

end

section \<open>Fields of concatenated encodings\<close>

lemma length_fields_of [simp]: "length (fields_of ws bs) = length ws"
  by (induction ws bs rule: fields_of.induct) simp_all

lemma fields_of_encode:
  "list_all2 (\<lambda>w v. v < 2 ^ w) ws vs \<Longrightarrow>
   fields_of ws (concat (map2 nat_bits ws vs) @ tail) = vs"
proof (induction ws vs arbitrary: tail rule: list_all2_induct)
  case Nil
  then show ?case by simp
next
  case (Cons w ws v vs)
  then show ?case by simp
qed

lemma length_encode:
  "length ws = length vs \<Longrightarrow> length (concat (map2 nat_bits ws vs)) = sum_list ws"
  by (induction ws vs rule: list_induct2) simp_all

lemma fields_of_bound: "i < length ws \<Longrightarrow> fields_of ws bs ! i < 2 ^ (ws ! i)"
proof (induction ws bs arbitrary: i rule: fields_of.induct)
  case (2 w ws bs)
  have "bits_val (take w bs) < 2 ^ w"
    using bits_val_less [of "take w bs"]
    by (rule less_le_trans) (simp add: power_increasing)
  with 2 show ?case by (cases i) auto
qed simp

end
