(* ===== verification/GppBits.thy ===== *)
theory GppBits
  imports Bits
begin

text \<open>
  The bit reader of the GPP decoder, \<^verbatim>\<open>rust/crates/privacy/src/gpp/bitfield.rs\<close>, and the error type
  of the GPP module, \<^verbatim>\<open>gpp/mod.rs\<close>.  The reader takes one bit per loop iteration.  Lengths and
  positions are natural numbers: the code's \<^verbatim>\<open>usize\<close> arithmetic saturates, and a slice whose bit count
  exceeds \<open>2^64\<close> does not fit an address space.

  \<open>Panicked\<close> is the outcome of an out-of-range slice index, which Rust turns into a panic; the
  lemmas show that no read produces it.
\<close>

unbundle bit_operations_syntax

section \<open>Definitions\<close>

datatype gpp_error =
    InvalidHeader string
  | Base64 string
  | Truncated
  | UnknownSection int
  | BadBitfield string
  | Panicked

record gpp_reader =
  bytes :: "u8 list"
  pos :: nat

definition gpp_new :: "u8 list \<Rightarrow> gpp_reader" where
  "gpp_new bs = \<lparr>bytes = bs, pos = 0\<rparr>"

definition gpp_remaining_bits :: "gpp_reader \<Rightarrow> nat" where
  "gpp_remaining_bits r = length (bytes r) * 8 - pos r"

definition gpp_skip_bits :: "gpp_reader \<Rightarrow> nat \<Rightarrow> (gpp_error, gpp_reader) res" where
  "gpp_skip_bits r n =
     (if gpp_remaining_bits r < n then Inl Truncated else Inr (r\<lparr>pos := pos r + n\<rparr>))"

fun gpp_read_loop :: "u8 list \<Rightarrow> nat \<Rightarrow> nat \<Rightarrow> u64 \<Rightarrow> (u64 \<times> nat) option" where
  "gpp_read_loop bs p 0 value = Some (value, p)"
| "gpp_read_loop bs p (Suc n) value =
     (let byte_idx = p div 8; bit_in_byte = 7 - (p mod 8)
      in if byte_idx < length bs then
           let b = drop_bit bit_in_byte (bs ! byte_idx) AND 1
           in gpp_read_loop bs (p + 1) n (push_bit 1 value OR ucast b)
         else None)"

definition gpp_read_bits :: "gpp_reader \<Rightarrow> nat \<Rightarrow> (gpp_error, u64 \<times> gpp_reader) res" where
  "gpp_read_bits r n =
     (if n > 64 then Inl (BadBitfield (''n='' @ show_nat n @ '' exceeds 64''))
      else if gpp_remaining_bits r < n then Inl Truncated
      else case gpp_read_loop (bytes r) (pos r) n 0 of
             None \<Rightarrow> Inl Panicked
           | Some (value, p) \<Rightarrow> Inr (value, r\<lparr>pos := p\<rparr>))"

definition gpp_read_bool :: "gpp_reader \<Rightarrow> (gpp_error, bool \<times> gpp_reader) res" where
  "gpp_read_bool r = res_bind (gpp_read_bits r 1) (\<lambda>(v, r). Inr (v = 1, r))"

text \<open>\<^verbatim>\<open>read_u6\<close> and \<^verbatim>\<open>read_u12\<close> narrow with \<^verbatim>\<open>as\<close>, which truncates.\<close>

definition gpp_read_u6 :: "gpp_reader \<Rightarrow> (gpp_error, u8 \<times> gpp_reader) res" where
  "gpp_read_u6 r = res_bind (gpp_read_bits r 6) (\<lambda>(v, r). Inr (ucast v, r))"

definition gpp_read_u12 :: "gpp_reader \<Rightarrow> (gpp_error, u16 \<times> gpp_reader) res" where
  "gpp_read_u12 r = res_bind (gpp_read_bits r 12) (\<lambda>(v, r). Inr (ucast v, r))"

text \<open>The two-bit fields of the state sections are read with \<^verbatim>\<open>r.read_bits(2)? as u8\<close>.\<close>

definition gpp_read_2 :: "gpp_reader \<Rightarrow> (gpp_error, u8 \<times> gpp_reader) res" where
  "gpp_read_2 r = res_bind (gpp_read_bits r 2) (\<lambda>(v, r). Inr (ucast v, r))"

text \<open>The bits ahead of the cursor.\<close>

definition gpp_rest :: "gpp_reader \<Rightarrow> bool list" where
  "gpp_rest r = drop (pos r) (bits_of (bytes r))"

section \<open>Lemmas\<close>

lemma length_gpp_rest: "length (gpp_rest r) = gpp_remaining_bits r"
  by (simp add: gpp_rest_def gpp_remaining_bits_def)

lemma gpp_rest_new [simp]: "gpp_rest (gpp_new bs) = bits_of bs"
  by (simp add: gpp_rest_def gpp_new_def)

lemma one_bit_of_byte: "drop_bit k (b :: u8) AND 1 = of_bool (bit b k)"
  by (simp only: and_one_eq mod_2_eq_odd bit_iff_odd_drop_bit)

lemma push_one_bit:
  assumes "unat (v :: u64) < 2 ^ 63"
  shows "unat (push_bit 1 v OR ucast (of_bool b :: u8)) = 2 * unat v + of_bool b"
proof -
  have even: "even (push_bit 1 v)" by simp
  have "push_bit 1 v OR ucast (of_bool b :: u8) = 2 * v + of_bool b"
    using even by (cases b) (simp_all add: or_one_eq push_bit_eq_mult mult.commute)
  moreover have "unat (2 * v + of_bool b) = 2 * unat v + of_bool b"
    using assms by (cases b) (simp_all add: unat_word_ariths)
  ultimately show ?thesis by simp
qed

text \<open>The loop reads the next \<open>n\<close> bits of the slice behind those already in the accumulator, as long
  as accumulator and input together fit 64 bits.\<close>

lemma gpp_read_loop_Some:
  "p + n \<le> 8 * length bs \<Longrightarrow> unat v < 2 ^ k \<Longrightarrow> k + n \<le> 64 \<Longrightarrow>
   \<exists>w. gpp_read_loop bs p n v = Some (w, p + n)
     \<and> unat w = unat v * 2 ^ n + bits_val (take n (drop p (bits_of bs)))"
proof (induction n arbitrary: p v k)
  case 0
  then show ?case by simp
next
  case (Suc n)
  have p: "p < 8 * length bs" using Suc.prems by simp
  then have idx: "p div 8 < length bs" by (simp add: less_mult_imp_div_less mult.commute)
  have kb: "(2::nat) ^ k \<le> 2 ^ 63" using Suc.prems(3) by (intro power_increasing) simp_all
  let ?b = "bits_of bs ! p"
  let ?v = "push_bit 1 v OR ucast (drop_bit (7 - p mod 8) (bs ! (p div 8)) AND 1 :: u8)"
  have v: "unat ?v = 2 * unat v + of_bool ?b"
    using push_one_bit [of v ?b] Suc.prems(2) kb nth_bits_of [OF p] by (simp add: one_bit_of_byte)
  have "unat ?v < 2 ^ Suc k" using v Suc.prems(2) by simp
  from Suc.IH [OF _ this, of "p + 1"] Suc.prems
  obtain w where w: "gpp_read_loop bs (p + 1) n ?v = Some (w, p + 1 + n)"
      "unat w = unat ?v * 2 ^ n + bits_val (take n (drop (p + 1) (bits_of bs)))"
    by auto
  have dr: "drop p (bits_of bs) = ?b # drop (p + 1) (bits_of bs)"
    using p by (simp add: Cons_nth_drop_Suc)
  have len: "length (take n (drop (p + 1) (bits_of bs))) = n" using Suc.prems(1) by simp
  have "bits_val (take (Suc n) (drop p (bits_of bs)))
        = of_bool ?b * 2 ^ n + bits_val (take n (drop (p + 1) (bits_of bs)))"
    by (simp only: dr take_Suc_Cons bits_val_Cons len)
  with w v idx show ?case by (simp add: Let_def algebra_simps)
qed

lemma gpp_read_bits_ok:
  assumes "n \<le> 64" "n \<le> length (gpp_rest r)"
  shows "\<exists>v r'. gpp_read_bits r n = Inr (v, r') \<and> unat v = bits_val (take n (gpp_rest r))
      \<and> gpp_rest r' = drop n (gpp_rest r)"
proof (cases "n = 0")
  case True
  then show ?thesis by (simp add: gpp_read_bits_def gpp_rest_def)
next
  case False
  with assms have "pos r + n \<le> 8 * length (bytes r)"
    by (simp add: length_gpp_rest gpp_remaining_bits_def)
  from gpp_read_loop_Some [OF this, of 0 0] assms(1)
  obtain w where "gpp_read_loop (bytes r) (pos r) n 0 = Some (w, pos r + n)"
      "unat w = bits_val (take n (gpp_rest r))"
    by (auto simp: gpp_rest_def)
  with assms show ?thesis
    by (simp add: gpp_read_bits_def gpp_remaining_bits_def gpp_rest_def add.commute)
qed

interpretation gpp: bit_cursor gpp_read_bits gpp_rest
proof unfold_locales
  fix n r
  assume "64 < n \<or> length (gpp_rest r) < n"
  then show "\<exists>e. gpp_read_bits r n = Inl e"
    by (auto simp: gpp_read_bits_def length_gpp_rest)
qed (rule gpp_read_bits_ok)

text \<open>No read indexes outside the slice.\<close>

lemma gpp_read_bits_no_panic: "gpp_read_bits r n \<noteq> Inl Panicked"
proof (cases "n \<le> 64 \<and> n \<le> length (gpp_rest r)")
  case True
  then show ?thesis using gpp.rd_ok [of n r] by fastforce
next
  case False
  then show ?thesis by (auto simp: gpp_read_bits_def length_gpp_rest)
qed

lemma gpp_rest_skip:
  "gpp_skip_bits r n = Inr r' \<Longrightarrow> gpp_rest r' = drop n (gpp_rest r) \<and> n \<le> length (gpp_rest r)"
  by (auto simp: gpp_skip_bits_def gpp_remaining_bits_def gpp_rest_def add.commute split: if_splits)

lemma gpp_skip_ok:
  "n \<le> length (gpp_rest r) \<Longrightarrow> \<exists>r'. gpp_skip_bits r n = Inr r' \<and> gpp_rest r' = drop n (gpp_rest r)"
  by (auto simp: gpp_skip_bits_def gpp_remaining_bits_def gpp_rest_def add.commute)

lemma gpp_skip_err: "length (gpp_rest r) < n \<Longrightarrow> gpp_skip_bits r n = Inl Truncated"
  by (simp add: gpp_skip_bits_def length_gpp_rest)

text \<open>The narrowing reads lose nothing.\<close>

lemma gpp_read_2_ok:
  assumes "2 \<le> length (gpp_rest r)"
  shows "\<exists>v r'. gpp_read_2 r = Inr (v, r') \<and> unat v = bits_val (take 2 (gpp_rest r))
      \<and> gpp_rest r' = drop 2 (gpp_rest r)"
proof -
  from gpp_read_bits_ok [of 2 r] assms obtain w r' where w: "gpp_read_bits r 2 = Inr (w, r')"
    "unat w = bits_val (take 2 (gpp_rest r))" "gpp_rest r' = drop 2 (gpp_rest r)" by auto
  then show ?thesis
    using unat_ucast_small [OF gpp.rd_bound [OF w(1)], where 'a = 8] by (simp add: gpp_read_2_def)
qed

lemma gpp_read_u6_ok:
  assumes "6 \<le> length (gpp_rest r)"
  shows "\<exists>v r'. gpp_read_u6 r = Inr (v, r') \<and> unat v = bits_val (take 6 (gpp_rest r))
      \<and> gpp_rest r' = drop 6 (gpp_rest r)"
proof -
  from gpp_read_bits_ok [of 6 r] assms obtain w r' where w: "gpp_read_bits r 6 = Inr (w, r')"
    "unat w = bits_val (take 6 (gpp_rest r))" "gpp_rest r' = drop 6 (gpp_rest r)" by auto
  then show ?thesis
    using unat_ucast_small [OF gpp.rd_bound [OF w(1)], where 'a = 8] by (simp add: gpp_read_u6_def)
qed

lemma gpp_read_2_err: "length (gpp_rest r) < 2 \<Longrightarrow> gpp_read_2 r = Inl Truncated"
  by (simp add: gpp_read_2_def gpp_read_bits_def length_gpp_rest)

lemma gpp_read_u6_err: "length (gpp_rest r) < 6 \<Longrightarrow> gpp_read_u6 r = Inl Truncated"
  by (simp add: gpp_read_u6_def gpp_read_bits_def length_gpp_rest)

lemma gpp_read_bool_ok:
  assumes "gpp_rest r = b # bs"
  shows "\<exists>r'. gpp_read_bool r = Inr (b, r') \<and> gpp_rest r' = bs"
proof -
  from gpp_read_bits_ok [of 1 r] assms obtain w r' where w: "gpp_read_bits r 1 = Inr (w, r')"
    "unat w = bits_val [b]" "gpp_rest r' = bs" by auto
  then have "(w = 1) = b" by (cases b) (auto simp: bits_val_def unsigned_eq_0_iff simp flip: unat_eq_1_iff)
  with w show ?thesis by (simp add: gpp_read_bool_def)
qed

lemma gpp_read_bool_err: "gpp_rest r = [] \<Longrightarrow> gpp_read_bool r = Inl Truncated"
  using length_gpp_rest [of r] by (simp add: gpp_read_bool_def gpp_read_bits_def)

section \<open>Reads as equations\<close>

text \<open>Each read is an equation: it fails exactly when too few bits are left, and otherwise returns the
  field at the cursor and moves the cursor behind it.\<close>

definition adv :: "nat \<Rightarrow> gpp_reader \<Rightarrow> gpp_reader" where
  "adv n r = r\<lparr>pos := pos r + n\<rparr>"

definition fld :: "nat \<Rightarrow> nat \<Rightarrow> bool list \<Rightarrow> u8" where
  "fld i w bs = of_nat (bits_val (take w (drop i bs)))"

lemma adv_simps [simp]:
  "adv m (adv n r) = adv (n + m) r" "adv 0 r = r" 
  "gpp_rest (adv n r) = drop n (gpp_rest r)"
  by (simp_all add: adv_def gpp_rest_def algebra_simps)

lemma gpp_remaining_adv [simp]: "gpp_remaining_bits (adv n r) = gpp_remaining_bits r - n"
  by (simp add: adv_def gpp_remaining_bits_def)

lemma gpp_read_bits_pos: "gpp_read_bits r n = Inr (v, r') \<Longrightarrow> r' = adv n r"
proof (cases "n = 0")
  case True
  then show "gpp_read_bits r n = Inr (v, r') \<Longrightarrow> r' = adv n r" by (simp add: gpp_read_bits_def)
next
  case False
  assume a: "gpp_read_bits r n = Inr (v, r')"
  then have *: "n \<le> 64" "n \<le> gpp_remaining_bits r" by (auto simp: gpp_read_bits_def split: if_splits)
  with False have "pos r + n \<le> 8 * length (bytes r)" by (simp add: gpp_remaining_bits_def)
  from gpp_read_loop_Some [OF this, of 0 0] * a show "r' = adv n r"
    by (auto simp: gpp_read_bits_def adv_def)
qed

lemma gpp_read_2_eq:
  "gpp_read_2 r = (if gpp_remaining_bits r < 2 then Inl Truncated else Inr (fld 0 2 (gpp_rest r), adv 2 r))"
proof (cases "gpp_remaining_bits r < 2")
  case True
  then show ?thesis by (simp add: gpp_read_2_err length_gpp_rest)
next
  case False
  from gpp_read_2_ok [of r] False obtain v r' where v: "gpp_read_2 r = Inr (v, r')"
    "unat v = bits_val (take 2 (gpp_rest r))" by (auto simp: length_gpp_rest)
  from v(1) have "r' = adv 2 r" by (auto simp: gpp_read_2_def res_simps dest: gpp_read_bits_pos)
  moreover have "v = fld 0 2 (gpp_rest r)" by (simp add: fld_def flip: v(2))
  ultimately show ?thesis using v False by simp
qed

lemma gpp_read_u6_eq:
  "gpp_read_u6 r = (if gpp_remaining_bits r < 6 then Inl Truncated else Inr (fld 0 6 (gpp_rest r), adv 6 r))"
proof (cases "gpp_remaining_bits r < 6")
  case True
  then show ?thesis by (simp add: gpp_read_u6_err length_gpp_rest)
next
  case False
  from gpp_read_u6_ok [of r] False obtain v r' where v: "gpp_read_u6 r = Inr (v, r')"
    "unat v = bits_val (take 6 (gpp_rest r))" by (auto simp: length_gpp_rest)
  from v(1) have "r' = adv 6 r" by (auto simp: gpp_read_u6_def res_simps dest: gpp_read_bits_pos)
  moreover have "v = fld 0 6 (gpp_rest r)" by (simp add: fld_def flip: v(2))
  ultimately show ?thesis using v False by simp
qed

lemma gpp_skip_eq:
  "gpp_skip_bits r n = (if gpp_remaining_bits r < n then Inl Truncated else Inr (adv n r))"
  by (simp add: gpp_skip_bits_def adv_def)

lemma fld_drop [simp]: "fld i w (drop j bs) = fld (i + j) w bs"
  by (simp add: fld_def)

lemma gpp_rem_new [simp]: "gpp_remaining_bits (gpp_new bs) = 8 * length bs"
  by (simp add: gpp_remaining_bits_def gpp_new_def)

lemma fld_0_append [simp]: "length xs = w \<Longrightarrow> fld 0 w (xs @ ys) = of_nat (bits_val xs)"
  by (simp add: fld_def)

lemma fld_append_right [simp]: "length xs \<le> i \<Longrightarrow> fld i w (xs @ ys) = fld (i - length xs) w ys"
  by (simp add: fld_def)

lemma unat_fld_less: "w < 8 \<Longrightarrow> unat (fld i w bs) < 2 ^ w"
proof -
  assume w: "w < 8"
  have "bits_val (take w (drop i bs)) < 2 ^ w"
    by (rule less_le_trans [OF bits_val_less]) simp
  moreover have "(2::nat) ^ w < 2 ^ 8" by (rule power_strict_increasing [OF w]) simp
  ultimately show ?thesis
    by (simp add: fld_def unsigned_of_nat take_bit_nat_eq_self)
qed

end
