(* ===== verification/GppSections.thy ===== *)
theory GppSections
  imports GppBits
begin

text \<open>
  The GPP sections, \<^verbatim>\<open>rust/crates/privacy/src/gpp/section.rs\<close>, \<^verbatim>\<open>header.rs\<close> and \<^verbatim>\<open>sections/*.rs\<close>: the section
  registry, the header parser, the US-Privacy string, the US national section and the sixteen state
  sections.

  The Rust crate repeats one struct and one parser body per state.  The structs have the same fields,
  so they are one record here.  Thirteen of the parsers have the same body and differ in the name in
  their error message and in two constants; \<open>state_parse\<close> is that body, and each state's parser is its
  instance.  California and Utah have bodies of their own.  \<^verbatim>\<open>base64\<close> is a third-party crate: its
  \<^verbatim>\<open>URL_SAFE_NO_PAD.decode\<close> is the parameter \<open>b64\<close>.
\<close>

section \<open>Section identifiers\<close>

datatype section_id =
    TcfEuV2 | UspV1 | UsNatV1 | UsCaV1 | UsVaV1 | UsCoV1 | UsUtV1 | UsCtV1 | UsFlV1 | UsMtV1
  | UsOrV1 | UsTxV1 | UsDeV1 | UsIaV1 | UsNeV1 | UsNhV1 | UsNjV1 | UsTnV1

definition from_i32 :: "int \<Rightarrow> (gpp_error, section_id) res" where
  "from_i32 v =
     (if v = 2 then Inr TcfEuV2 else if v = 6 then Inr UspV1 else if v = 7 then Inr UsNatV1
      else if v = 8 then Inr UsCaV1 else if v = 9 then Inr UsVaV1 else if v = 10 then Inr UsCoV1
      else if v = 11 then Inr UsUtV1 else if v = 12 then Inr UsCtV1 else if v = 13 then Inr UsFlV1
      else if v = 14 then Inr UsMtV1 else if v = 15 then Inr UsOrV1 else if v = 16 then Inr UsTxV1
      else if v = 17 then Inr UsDeV1 else if v = 18 then Inr UsIaV1 else if v = 19 then Inr UsNeV1
      else if v = 20 then Inr UsNhV1 else if v = 21 then Inr UsNjV1 else if v = 22 then Inr UsTnV1
      else Inl (UnknownSection v))"

fun as_i32 :: "section_id \<Rightarrow> int" where
  "as_i32 TcfEuV2 = 2" | "as_i32 UspV1 = 6" | "as_i32 UsNatV1 = 7" | "as_i32 UsCaV1 = 8"
| "as_i32 UsVaV1 = 9" | "as_i32 UsCoV1 = 10" | "as_i32 UsUtV1 = 11" | "as_i32 UsCtV1 = 12"
| "as_i32 UsFlV1 = 13" | "as_i32 UsMtV1 = 14" | "as_i32 UsOrV1 = 15" | "as_i32 UsTxV1 = 16"
| "as_i32 UsDeV1 = 17" | "as_i32 UsIaV1 = 18" | "as_i32 UsNeV1 = 19" | "as_i32 UsNhV1 = 20"
| "as_i32 UsNjV1 = 21" | "as_i32 UsTnV1 = 22"

fun section_name :: "section_id \<Rightarrow> string" where
  "section_name TcfEuV2 = ''tcfeuv2''" | "section_name UspV1 = ''uspv1''"
| "section_name UsNatV1 = ''usnatv1''" | "section_name UsCaV1 = ''uscav1''"
| "section_name UsVaV1 = ''usvav1''" | "section_name UsCoV1 = ''uscov1''"
| "section_name UsUtV1 = ''usutv1''" | "section_name UsCtV1 = ''usctv1''"
| "section_name UsFlV1 = ''usflv1''" | "section_name UsMtV1 = ''usmtv1''"
| "section_name UsOrV1 = ''usorv1''" | "section_name UsTxV1 = ''ustxv1''"
| "section_name UsDeV1 = ''usdev1''" | "section_name UsIaV1 = ''usiav1''"
| "section_name UsNeV1 = ''usnev1''" | "section_name UsNhV1 = ''usnhv1''"
| "section_name UsNjV1 = ''usnjv1''" | "section_name UsTnV1 = ''ustnv1''"

section \<open>The header\<close>

function header_loop :: "gpp_reader \<Rightarrow> int \<Rightarrow> section_id list \<Rightarrow> (gpp_error, section_id list) res" where
  "header_loop r idx ids =
     (if gpp_remaining_bits r > 0 then
        (case gpp_read_bool r of
           Inl e \<Rightarrow> Inl e
         | Inr (b, r') \<Rightarrow>
             header_loop r' (idx + 1)
               (if b then (case from_i32 idx of Inr sid \<Rightarrow> ids @ [sid] | Inl _ \<Rightarrow> ids) else ids))
      else Inr ids)"
  by pat_completeness auto
termination
proof (relation "measure (\<lambda>(r, idx, ids). gpp_remaining_bits r)")
  fix r :: gpp_reader and idx :: int and ids :: "section_id list" and x b r'
  assume a: "0 < gpp_remaining_bits r" "gpp_read_bool r = Inr x" "(b, r') = x"
  then obtain c cs where rest: "gpp_rest r = c # cs"
    using length_gpp_rest [of r] by (cases "gpp_rest r") auto
  from gpp_read_bool_ok [OF rest] a have "gpp_rest r' = cs" by auto
  with rest have "gpp_remaining_bits r' < gpp_remaining_bits r"
    by (simp flip: length_gpp_rest)
  then show "((r', idx + 1, if b then case from_i32 idx of Inr sid \<Rightarrow> ids @ [sid] | Inl _ \<Rightarrow> ids else ids),
      r, idx, ids) \<in> measure (\<lambda>(r, idx, ids). gpp_remaining_bits r)"
    by simp
qed simp

declare header_loop.simps [simp del]

definition parse_gpp_header ::
    "(string \<Rightarrow> (string, u8 list) res) \<Rightarrow> string \<Rightarrow> (gpp_error, section_id list \<times> string list) res" where
  "parse_gpp_header b64 s =
     (let parts = split_on (CHR ''~'') s
      in case parts of [] \<Rightarrow> Inl (InvalidHeader ''empty GPP string'')
         | header # payloads \<Rightarrow>
            if header = [] then Inl (InvalidHeader ''empty header segment'')
            else
              res_bind (map_err Base64 (b64 header)) (\<lambda>decoded.
              res_bind (gpp_read_u6 (gpp_new decoded)) (\<lambda>(gpp_type, r).
              res_bind (gpp_read_u6 r) (\<lambda>(gpp_version, r).
              res_bind (header_loop r 1 []) (\<lambda>ids.
                if length ids \<noteq> length payloads then
                  let n = min (length ids) (length payloads) in Inr (take n ids, take n payloads)
                else Inr (ids, payloads))))))"

section \<open>The US-Privacy string\<close>

record uspv1_section =
  usp_version :: u8
  explicit_notice :: char
  opt_out_sale :: char
  lspa_covered :: char

definition uspv1_parse :: "string \<Rightarrow> (gpp_error, uspv1_section) res" where
  "uspv1_parse payload =
     (case payload of
        [b0, b1, b2, b3] \<Rightarrow>
          if is_digit_char b0 then
            Inr \<lparr>usp_version = of_int (digit_val b0), explicit_notice = b1, opt_out_sale = b2,
                 lspa_covered = b3\<rparr>
          else Inl (BadBitfield ''USP V1 version not a digit'')
      | _ \<Rightarrow> Inl (BadBitfield (''USP V1 must be 4 chars, got '' @ show_nat (length payload))))"

section \<open>The US national section\<close>

record usnat_section =
  nat_version :: u8
  nat_sharing_notice :: u8
  nat_sale_opt_out_notice :: u8
  nat_sale_opt_out :: u8
  nat_targeted_advertising_opt_out :: u8
  nat_known_child :: u8

definition usnat_parse ::
    "(string \<Rightarrow> (string, u8 list) res) \<Rightarrow> string \<Rightarrow> (gpp_error, usnat_section) res" where
  "usnat_parse b64 payload =
     (let core = hd (split_on (CHR ''.'') payload)
      in if core = [] then Inl (BadBitfield ''empty USNat core'')
         else
           res_bind (map_err Base64 (b64 core)) (\<lambda>bs.
           res_bind (gpp_read_u6 (gpp_new bs)) (\<lambda>(version, r).
           res_bind (gpp_read_2 r) (\<lambda>(sharing_notice, r).
           res_bind (gpp_read_2 r) (\<lambda>(sale_opt_out_notice, r).
           res_bind (gpp_skip_bits r (2 * 4)) (\<lambda>r.
           res_bind (gpp_read_2 r) (\<lambda>(sale_opt_out, r).
           res_bind (gpp_skip_bits r 2) (\<lambda>r.
           res_bind (gpp_read_2 r) (\<lambda>(targeted, r).
           res_bind (if gpp_remaining_bits r \<ge> 2 * 16 + 2
                     then res_bind (gpp_skip_bits r (2 * 16)) gpp_read_2
                     else Inr (0, r)) (\<lambda>(known_child, r).
             Inr \<lparr>nat_version = version, nat_sharing_notice = sharing_notice,
                  nat_sale_opt_out_notice = sale_opt_out_notice, nat_sale_opt_out = sale_opt_out,
                  nat_targeted_advertising_opt_out = targeted,
                  nat_known_child = known_child\<rparr>))))))))))"

section \<open>The state sections\<close>

record us_section =
  us_version :: u8
  us_sharing_notice :: u8
  us_sale_opt_out_notice :: u8
  us_sharing_opt_out_notice :: u8
  us_targeted_advertising_opt_out_notice :: u8
  us_sale_opt_out :: u8
  us_sharing_opt_out :: u8
  us_targeted_advertising_opt_out :: u8
  us_sensitive_data_processing :: "u8 list"
  us_known_child_sensitive_data_consents :: "u8 list"
  us_personal_data_consents :: u8
  us_mspa_covered :: u8
  us_mspa_opt_out_option_mode :: u8
  us_mspa_service_provider_mode :: u8

text \<open>The \<^verbatim>\<open>for\<close> loops that fill the two vectors.\<close>

fun gpp_read_n :: "nat \<Rightarrow> gpp_reader \<Rightarrow> (gpp_error, u8 list \<times> gpp_reader) res" where
  "gpp_read_n 0 r = Inr ([], r)"
| "gpp_read_n (Suc n) r =
     res_bind (gpp_read_2 r) (\<lambda>(v, r). res_bind (gpp_read_n n r) (\<lambda>(vs, r). Inr (v # vs, r)))"

definition state_parse :: "string \<Rightarrow> nat \<Rightarrow> nat \<Rightarrow> u8 list \<Rightarrow> (gpp_error, us_section) res" where
  "state_parse name sensitive_data_categories known_child_fields bs =
     (if bs = [] then Inl (BadBitfield (''empty '' @ name @ '' payload''))
      else
        res_bind (gpp_read_u6 (gpp_new bs)) (\<lambda>(version, r).
        res_bind (gpp_read_2 r) (\<lambda>(sharing_notice, r).
        res_bind (gpp_read_2 r) (\<lambda>(sale_opt_out_notice, r).
        res_bind (gpp_read_2 r) (\<lambda>(targeted_notice, r).
        res_bind (gpp_read_2 r) (\<lambda>(sale_opt_out, r).
        res_bind (gpp_read_2 r) (\<lambda>(targeted, r).
        res_bind (gpp_read_n sensitive_data_categories r) (\<lambda>(sensitive, r).
        res_bind (gpp_read_n known_child_fields r) (\<lambda>(child, r).
        res_bind (gpp_read_2 r) (\<lambda>(personal, r).
        res_bind (gpp_read_2 r) (\<lambda>(mspa_covered, r).
        res_bind (gpp_read_2 r) (\<lambda>(mspa_opt_out, r).
        res_bind (gpp_read_2 r) (\<lambda>(mspa_service, r).
          Inr \<lparr>us_version = version, us_sharing_notice = sharing_notice,
               us_sale_opt_out_notice = sale_opt_out_notice, us_sharing_opt_out_notice = 0,
               us_targeted_advertising_opt_out_notice = targeted_notice,
               us_sale_opt_out = sale_opt_out, us_sharing_opt_out = 0,
               us_targeted_advertising_opt_out = targeted,
               us_sensitive_data_processing = sensitive,
               us_known_child_sensitive_data_consents = child,
               us_personal_data_consents = personal, us_mspa_covered = mspa_covered,
               us_mspa_opt_out_option_mode = mspa_opt_out,
               us_mspa_service_provider_mode = mspa_service\<rparr>)))))))))))))"

definition usva_parse where "usva_parse = state_parse ''UsVa'' 8 1"
definition usco_parse where "usco_parse = state_parse ''UsCo'' 7 1"
definition usct_parse where "usct_parse = state_parse ''UsCt'' 8 3"
definition usfl_parse where "usfl_parse = state_parse ''UsFl'' 8 2"
definition usmt_parse where "usmt_parse = state_parse ''UsMt'' 8 2"
definition usor_parse where "usor_parse = state_parse ''UsOr'' 11 2"
definition ustx_parse where "ustx_parse = state_parse ''UsTx'' 8 2"
definition usde_parse where "usde_parse = state_parse ''UsDe'' 8 2"
definition usia_parse where "usia_parse = state_parse ''UsIa'' 8 2"
definition usne_parse where "usne_parse = state_parse ''UsNe'' 8 2"
definition usnh_parse where "usnh_parse = state_parse ''UsNh'' 8 2"
definition usnj_parse where "usnj_parse = state_parse ''UsNj'' 8 2"
definition ustn_parse where "ustn_parse = state_parse ''UsTn'' 8 2"

definition usca_parse :: "u8 list \<Rightarrow> (gpp_error, us_section) res" where
  "usca_parse bs =
     (if bs = [] then Inl (BadBitfield ''empty UsCa payload'')
      else
        res_bind (gpp_read_u6 (gpp_new bs)) (\<lambda>(version, r).
        res_bind (gpp_read_2 r) (\<lambda>(sale_opt_out_notice, r).
        res_bind (gpp_read_2 r) (\<lambda>(sharing_opt_out_notice, r).
        res_bind (gpp_read_2 r) (\<lambda>(targeted_notice, r).
        res_bind (gpp_read_2 r) (\<lambda>(sale_opt_out, r).
        res_bind (gpp_read_2 r) (\<lambda>(sharing_opt_out, r).
        res_bind (gpp_read_n 9 r) (\<lambda>(sensitive, r).
        res_bind (gpp_read_n 2 r) (\<lambda>(child, r).
        res_bind (gpp_read_2 r) (\<lambda>(personal, r).
        res_bind (gpp_read_2 r) (\<lambda>(mspa_covered, r).
        res_bind (gpp_read_2 r) (\<lambda>(mspa_opt_out, r).
        res_bind (gpp_read_2 r) (\<lambda>(mspa_service, r).
          Inr \<lparr>us_version = version, us_sharing_notice = 0,
               us_sale_opt_out_notice = sale_opt_out_notice,
               us_sharing_opt_out_notice = sharing_opt_out_notice,
               us_targeted_advertising_opt_out_notice = targeted_notice,
               us_sale_opt_out = sale_opt_out, us_sharing_opt_out = sharing_opt_out,
               us_targeted_advertising_opt_out = 0,
               us_sensitive_data_processing = sensitive,
               us_known_child_sensitive_data_consents = child,
               us_personal_data_consents = personal, us_mspa_covered = mspa_covered,
               us_mspa_opt_out_option_mode = mspa_opt_out,
               us_mspa_service_provider_mode = mspa_service\<rparr>)))))))))))))"

definition usut_parse :: "u8 list \<Rightarrow> (gpp_error, us_section) res" where
  "usut_parse bs =
     (if bs = [] then Inl (BadBitfield ''empty UsUt payload'')
      else
        res_bind (gpp_read_u6 (gpp_new bs)) (\<lambda>(version, r).
        res_bind (gpp_read_2 r) (\<lambda>(sale_opt_out_notice, r).
        res_bind (gpp_read_2 r) (\<lambda>(targeted_notice, r).
        res_bind (gpp_skip_bits r 2) (\<lambda>r.
        res_bind (gpp_read_2 r) (\<lambda>(sale_opt_out, r).
        res_bind (gpp_read_2 r) (\<lambda>(targeted, r).
        res_bind (gpp_read_n 8 r) (\<lambda>(sensitive, r).
        res_bind (gpp_read_n 1 r) (\<lambda>(child, r).
        res_bind (gpp_read_2 r) (\<lambda>(mspa_covered, r).
        res_bind (gpp_read_2 r) (\<lambda>(mspa_opt_out, r).
        res_bind (gpp_read_2 r) (\<lambda>(mspa_service, r).
          Inr \<lparr>us_version = version, us_sharing_notice = 0,
               us_sale_opt_out_notice = sale_opt_out_notice, us_sharing_opt_out_notice = 0,
               us_targeted_advertising_opt_out_notice = targeted_notice,
               us_sale_opt_out = sale_opt_out, us_sharing_opt_out = 0,
               us_targeted_advertising_opt_out = targeted,
               us_sensitive_data_processing = sensitive,
               us_known_child_sensitive_data_consents = child,
               us_personal_data_consents = 0, us_mspa_covered = mspa_covered,
               us_mspa_opt_out_option_mode = mspa_opt_out,
               us_mspa_service_provider_mode = mspa_service\<rparr>))))))))))))"

section \<open>The policy container\<close>

record gpp_policy_data =
  pol_consent_string :: "string option"
  pol_gpp :: "string option"
  pol_gpp_sid :: "int list"
  pol_no_sale_bidders :: "string list"

definition policy_applies :: "gpp_policy_data \<Rightarrow> int \<Rightarrow> bool" where
  "policy_applies p i = (i \<in> set (pol_gpp_sid p))"

section \<open>Lemmas: the state sections\<close>

lemma gpp_read_n_eq:
  "gpp_read_n n r = (if gpp_remaining_bits r < 2 * n then Inl Truncated
     else Inr (map (\<lambda>k. fld (2 * k) 2 (gpp_rest r)) [0..<n], adv (2 * n) r))"
proof (induction n arbitrary: r)
  case 0
  then show ?case by simp
next
  case (Suc n)
  have "map (\<lambda>k. fld (2 * k) 2 (gpp_rest r)) [0..<Suc n]
     = fld 0 2 (gpp_rest r) # map (\<lambda>k. fld (2 * k + 2) 2 (gpp_rest r)) [0..<n]"
    by (simp add: map_upt_Suc del: upt_Suc)
  then show ?case by (auto simp: gpp_read_2_eq Suc)
qed

lemma res_bind_if [res_simps]:
  "res_bind (if c then Inl e else Inr a) f = (if c then Inl e else f a)" by simp

lemmas gpp_read_eqs = gpp_read_2_eq gpp_read_u6_eq gpp_skip_eq gpp_read_n_eq res_bind_if

text \<open>The published layout of a state section: a six-bit version, then two-bit fields, each at a fixed
  offset once the numbers of sensitive-data and known-child fields are known.\<close>

definition state_spec where
  "state_spec s c B = \<lparr>us_version = fld 0 6 B, us_sharing_notice = fld 6 2 B,
               us_sale_opt_out_notice = fld 8 2 B, us_sharing_opt_out_notice = 0,
               us_targeted_advertising_opt_out_notice = fld 10 2 B,
               us_sale_opt_out = fld 12 2 B, us_sharing_opt_out = 0,
               us_targeted_advertising_opt_out = fld 14 2 B,
               us_sensitive_data_processing = map (\<lambda>k. fld (16 + 2 * k) 2 B) [0..<s],
               us_known_child_sensitive_data_consents = map (\<lambda>k. fld (16 + 2 * s + 2 * k) 2 B) [0..<c],
               us_personal_data_consents = fld (16 + 2 * (s + c)) 2 B, 
               us_mspa_covered = fld (18 + 2 * (s + c)) 2 B,
               us_mspa_opt_out_option_mode = fld (20 + 2 * (s + c)) 2 B,
               us_mspa_service_provider_mode = fld (22 + 2 * (s + c)) 2 B\<rparr>"

lemma diff_less_numeral: "n - k < numeral v \<longleftrightarrow> n < numeral v + (k :: nat)"
  using zero_less_numeral [of v, where 'a = nat] by linarith

lemma not_diff_less: "k + m \<le> n \<Longrightarrow> \<not> n - k < (m :: nat)"
  by linarith

lemma if_else_eq: "(if a then x else y) = x \<longleftrightarrow> a \<or> y = x"
  by auto

lemma state_parse_eq:
  "state_parse nm s c bs = (if bs = [] then Inl (BadBitfield (''empty '' @ nm @ '' payload''))
     else if 8 * length bs < 24 + 2 * (s + c) then Inl Truncated
     else Inr (state_spec s c (bits_of bs)))"
proof (cases "8 * length bs < 24 + 2 * (s + c)")
  case True
  then show ?thesis
    by (simp add: state_parse_def gpp_read_eqs if_else_eq diff_less_numeral)
next
  case False
  then have "24 + 2 * (s + c) \<le> 8 * length bs" "bs \<noteq> []" by auto
  then show ?thesis
    by (simp add: state_parse_def gpp_read_eqs state_spec_def not_diff_less add_ac)
qed

text \<open>California and Utah have layouts of their own.\<close>

definition usca_spec :: "bool list \<Rightarrow> us_section" where
  "usca_spec B = \<lparr>us_version = fld 0 6 B, us_sharing_notice = 0,
               us_sale_opt_out_notice = fld 6 2 B, us_sharing_opt_out_notice = fld 8 2 B,
               us_targeted_advertising_opt_out_notice = fld 10 2 B,
               us_sale_opt_out = fld 12 2 B, us_sharing_opt_out = fld 14 2 B,
               us_targeted_advertising_opt_out = 0,
               us_sensitive_data_processing = map (\<lambda>k. fld (16 + 2 * k) 2 B) [0..<9],
               us_known_child_sensitive_data_consents = map (\<lambda>k. fld (34 + 2 * k) 2 B) [0..<2],
               us_personal_data_consents = fld 38 2 B, us_mspa_covered = fld 40 2 B,
               us_mspa_opt_out_option_mode = fld 42 2 B, us_mspa_service_provider_mode = fld 44 2 B\<rparr>"

definition usut_spec :: "bool list \<Rightarrow> us_section" where
  "usut_spec B = \<lparr>us_version = fld 0 6 B, us_sharing_notice = 0,
               us_sale_opt_out_notice = fld 6 2 B, us_sharing_opt_out_notice = 0,
               us_targeted_advertising_opt_out_notice = fld 8 2 B,
               us_sale_opt_out = fld 12 2 B, us_sharing_opt_out = 0,
               us_targeted_advertising_opt_out = fld 14 2 B,
               us_sensitive_data_processing = map (\<lambda>k. fld (16 + 2 * k) 2 B) [0..<8],
               us_known_child_sensitive_data_consents = map (\<lambda>k. fld (32 + 2 * k) 2 B) [0..<1],
               us_personal_data_consents = 0, us_mspa_covered = fld 34 2 B,
               us_mspa_opt_out_option_mode = fld 36 2 B, us_mspa_service_provider_mode = fld 38 2 B\<rparr>"

lemma usca_parse_eq:
  "usca_parse bs = (if bs = [] then Inl (BadBitfield ''empty UsCa payload'')
     else if 8 * length bs < 46 then Inl Truncated else Inr (usca_spec (bits_of bs)))"
proof (cases "8 * length bs < 46")
  case True
  then show ?thesis
    by (simp add: usca_parse_def gpp_read_eqs if_else_eq diff_less_numeral del: mult_numeral_left)
next
  case False
  then have "46 \<le> 8 * length bs" "bs \<noteq> []" by auto
  then show ?thesis
    by (simp add: usca_parse_def gpp_read_eqs usca_spec_def not_diff_less add_ac)
qed

lemma usut_parse_eq:
  "usut_parse bs = (if bs = [] then Inl (BadBitfield ''empty UsUt payload'')
     else if 8 * length bs < 40 then Inl Truncated else Inr (usut_spec (bits_of bs)))"
proof (cases "8 * length bs < 40")
  case True
  then show ?thesis
    by (simp add: usut_parse_def gpp_read_eqs if_else_eq diff_less_numeral)
next
  case False
  then have "40 \<le> 8 * length bs" "bs \<noteq> []" by auto
  then show ?thesis
    by (simp add: usut_parse_def gpp_read_eqs usut_spec_def not_diff_less add_ac)
qed

text \<open>The encoder of the layout, and the sections it can represent.\<close>

definition state_bits :: "us_section \<Rightarrow> bool list" where
  "state_bits s = nat_bits 6 (unat (us_version s)) @ concat (map (\<lambda>v. nat_bits 2 (unat v))
     ([us_sharing_notice s, us_sale_opt_out_notice s, us_targeted_advertising_opt_out_notice s,
       us_sale_opt_out s, us_targeted_advertising_opt_out s]
      @ us_sensitive_data_processing s @ us_known_child_sensitive_data_consents s
      @ [us_personal_data_consents s, us_mspa_covered s, us_mspa_opt_out_option_mode s,
         us_mspa_service_provider_mode s]))"

definition state_wf :: "nat \<Rightarrow> nat \<Rightarrow> us_section \<Rightarrow> bool" where
  "state_wf m c s =
     (unat (us_version s) < 64 \<and> us_sharing_opt_out_notice s = 0 \<and> us_sharing_opt_out s = 0
      \<and> length (us_sensitive_data_processing s) = m
      \<and> length (us_known_child_sensitive_data_consents s) = c
      \<and> list_all (\<lambda>v. unat v < 4)
          ([us_sharing_notice s, us_sale_opt_out_notice s, us_targeted_advertising_opt_out_notice s,
            us_sale_opt_out s, us_targeted_advertising_opt_out s]
           @ us_sensitive_data_processing s @ us_known_child_sensitive_data_consents s
           @ [us_personal_data_consents s, us_mspa_covered s, us_mspa_opt_out_option_mode s,
              us_mspa_service_provider_mode s]))"

lemma length_concat_2: "length (concat (map (\<lambda>v. nat_bits 2 (f v)) vs)) = 2 * length vs"
  by (induction vs) simp_all

lemma fld_concat_2:
  "list_all (\<lambda>v. unat v < 4) vs \<Longrightarrow> k < length vs \<Longrightarrow>
   fld (2 * k) 2 (concat (map (\<lambda>v. nat_bits 2 (unat v)) vs) @ t) = vs ! k"
proof (induction vs arbitrary: k)
  case (Cons v vs)
  then show ?case by (cases k) (simp_all add: bits_val_nat_bits)
qed simp

lemma fld_map_2:
  "list_all (\<lambda>v. unat v < 4) vs \<Longrightarrow> length vs = n \<Longrightarrow>
   map (\<lambda>k. fld (2 * k) 2 (concat (map (\<lambda>v. nat_bits 2 (unat v)) vs) @ t)) [0..<n] = vs"
  by (rule nth_equalityI) (simp_all add: fld_concat_2)

lemma state_spec_bits:
  "state_wf m c s \<Longrightarrow> state_spec m c (state_bits s @ t) = s"
  by (cases s)
     (simp add: state_wf_def state_bits_def state_spec_def bits_val_nat_bits fld_map_2 length_concat_2)

lemma state_wf_spec: "state_wf m c (state_spec m c B)"
  using unat_fld_less [of 2 _ B] unat_fld_less [of 6 _ B]
  by (auto simp: state_wf_def state_spec_def list_all_iff)

lemma length_state_bits: "state_wf m c s \<Longrightarrow> length (state_bits s) = 24 + 2 * (m + c)"
  by (simp add: state_wf_def state_bits_def length_concat_2)

lemma length_pack_bits: "length (pack_bits bs) = (length bs + 7) div 8"
proof -
  have "8 * length (pack_bits bs) = length bs + (8 * ((length bs + 7) div 8) - length bs)"
    by (metis bits_of_pack_bits length_bits_of length_append length_replicate)
  then show ?thesis by simp
qed

section \<open>Lemmas: section identifiers and the header\<close>

lemma from_i32_as_i32: "from_i32 (as_i32 sid) = Inr sid"
  by (cases sid) (simp_all add: from_i32_def)

lemma from_i32_Inr: "from_i32 v = Inr sid \<longleftrightarrow> as_i32 sid = v"
proof
  show "from_i32 v = Inr sid \<Longrightarrow> as_i32 sid = v"
    by (auto simp: from_i32_def split: if_splits)
qed (auto simp: from_i32_as_i32)

text \<open>The one-based positions of the set bits of the header, and the sections among them that the
  registry knows.\<close>

fun flagged :: "int \<Rightarrow> bool list \<Rightarrow> int list" where
  "flagged i [] = []"
| "flagged i (b # bs) = (if b then i # flagged (i + 1) bs else flagged (i + 1) bs)"

definition known :: "int list \<Rightarrow> section_id list" where
  "known is = concat (map (\<lambda>i. case from_i32 i of Inr sid \<Rightarrow> [sid] | Inl _ \<Rightarrow> []) is)"

lemma header_loop_eq: "header_loop r i ids = Inr (ids @ known (flagged i (gpp_rest r)))"
proof (induction "gpp_rest r" arbitrary: r i ids)
  case Nil
  then have "gpp_remaining_bits r = 0" by (simp flip: length_gpp_rest)
  with Nil show ?case by (subst header_loop.simps) (simp add: known_def flip: Nil)
next
  case (Cons b bs)
  from gpp_read_bool_ok [OF Cons.hyps(2) [symmetric]] obtain r' where
    r': "gpp_read_bool r = Inr (b, r')" "gpp_rest r' = bs" by blast
  have "gpp_remaining_bits r > 0" by (simp flip: length_gpp_rest Cons.hyps(2))
  with r' Cons.hyps(1) [of r'] show ?case
    by (subst header_loop.simps)
       (simp add: known_def flip: Cons.hyps(2) split: sum.split)
qed

text \<open>What a decoded header and its payloads amount to.\<close>

definition header_parts :: "u8 list \<Rightarrow> string list \<Rightarrow> (gpp_error, section_id list \<times> string list) res" where
  "header_parts bs payloads =
     (if 8 * length bs < 12 then Inl Truncated
      else let ids = known (flagged 1 (drop 12 (bits_of bs))); n = min (length ids) (length payloads)
           in Inr (take n ids, take n payloads))"

lemma parse_gpp_header_eq:
  "split_on (CHR ''~'') s = header # payloads \<Longrightarrow>
   parse_gpp_header b64 s =
     (if header = [] then Inl (InvalidHeader ''empty header segment'')
      else res_bind (map_err Base64 (b64 header)) (\<lambda>bs. header_parts bs payloads))"
  by (cases "b64 header")
     (auto simp: parse_gpp_header_def header_parts_def Let_def gpp_read_u6_eq header_loop_eq
        diff_less_numeral)

lemma known_as_i32: "known (map as_i32 sids) = sids"
  by (induction sids) (simp_all add: known_def from_i32_as_i32)


lemma flagged_replicate: "flagged i (bs @ replicate n False) = flagged i bs"
proof -
  have "flagged j (replicate n False) = []" for j by (induction n arbitrary: j) simp_all
  then show ?thesis by (induction bs arbitrary: i) simp_all
qed

text \<open>The header that announces a list of sections.\<close>

definition header_bits :: "nat \<Rightarrow> nat \<Rightarrow> section_id list \<Rightarrow> bool list" where
  "header_bits t v sids = nat_bits 6 t @ nat_bits 6 v @ map (\<lambda>i. i \<in> as_i32 ` set sids) [1..22]"

lemma flagged_map: "flagged i (map P [i..j]) = filter P [i..j]"
proof (induction i j rule: upto.induct)
  case (1 i j)
  show ?case
  proof (cases "i \<le> j")
    case True
    then show ?thesis using 1 by (simp add: upto_rec1)
  qed simp
qed

lemma as_i32_range: "as_i32 sid \<in> {1..22}"
  by (cases sid) simp_all

lemma flagged_header:
  assumes "sorted_wrt (<) (map as_i32 sids)"
  shows "flagged 1 (map (\<lambda>i. i \<in> as_i32 ` set sids) [1..22]) = map as_i32 sids"
proof -
  have "set (filter (\<lambda>i. i \<in> as_i32 ` set sids) [1..22]) = set (map as_i32 sids)"
    using as_i32_range by auto
  moreover have "sorted_wrt (<) (filter (\<lambda>i. i \<in> as_i32 ` set sids) [1..22])"
    by (simp add: sorted_wrt_filter)
  ultimately show ?thesis unfolding flagged_map
    using assms strict_sorted_equal by blast
qed

lemma header_roundtrip_bytes:
  assumes "sorted_wrt (<) (map as_i32 sids)" "length payloads = length sids"
  shows "header_parts (pack_bits (header_bits t v sids)) payloads = Inr (sids, payloads)"
proof -
  have "drop 12 (header_bits t v sids @ z) = map (\<lambda>i. i \<in> as_i32 ` set sids) [1..22] @ z" for z
    by (simp add: header_bits_def)
  moreover have "length (header_bits t v sids) = 34" by (simp add: header_bits_def)
  ultimately show ?thesis
    using assms flagged_header [OF assms(1)]
    by (simp add: header_parts_def length_pack_bits bits_of_pack_bits flagged_replicate known_as_i32)
qed

section \<open>Properties\<close>

text \<open>The parser shared by the state sections returns an error exactly on an empty payload
  and on one shorter than the layout; otherwise every field is the two-bit (or, for the version,
  six-bit) field at its published offset, the vectors have the lengths of the layout, and all values
  are within their ranges.\<close>

theorem state_parse_exact:
  "state_parse nm m c bs =
     (if bs = [] then Inl (BadBitfield (''empty '' @ nm @ '' payload''))
      else if 8 * length bs < 24 + 2 * (m + c) then Inl Truncated
      else Inr (state_spec m c (bits_of bs)))
   \<and> state_wf m c (state_spec m c (bits_of bs))"
  by (simp add: state_parse_eq state_wf_spec)

text \<open>Round trip of the state sections: packing the fields of a section in layout order and
  parsing the bytes gives the section back, for every number of sensitive-data and known-child
  fields.\<close>

theorem state_roundtrip:
  assumes wf: "state_wf m c s"
  shows "state_parse nm m c (pack_bits (state_bits s)) = Inr s"
proof -
  from length_state_bits [OF wf] have "8 * length (pack_bits (state_bits s)) \<ge> 24 + 2 * (m + c)"
    by (simp add: length_pack_bits)
  moreover from this have "pack_bits (state_bits s) \<noteq> []" by auto
  ultimately show ?thesis
    using state_spec_bits [OF wf] by (simp add: state_parse_eq bits_of_pack_bits)
qed

definition sample_section :: us_section where
  "sample_section =
     \<lparr>us_version = 1, us_sharing_notice = 1, us_sale_opt_out_notice = 2, us_sharing_opt_out_notice = 0,
      us_targeted_advertising_opt_out_notice = 1, us_sale_opt_out = 2, us_sharing_opt_out = 0,
      us_targeted_advertising_opt_out = 3, us_sensitive_data_processing = [0, 1, 2, 3, 0, 1, 2, 3],
      us_known_child_sensitive_data_consents = [2], us_personal_data_consents = 1,
      us_mspa_covered = 2, us_mspa_opt_out_option_mode = 1, us_mspa_service_provider_mode = 2\<rparr>"

theorem state_roundtrip_witness:
  "state_wf 8 1 sample_section \<and> usva_parse (pack_bits (state_bits sample_section)) = Inr sample_section"
proof -
  have "state_wf 8 1 sample_section" by (simp add: state_wf_def sample_section_def)
  with state_roundtrip [of 8 1 sample_section "''UsVa''"] show ?thesis by (simp add: usva_parse_def)
qed

text \<open>The California and Utah parsers, on every branch: the error of an empty payload, the
  truncation error below 46 and 40 bits, and otherwise the fields at the offsets of their layouts.\<close>

theorem usca_usut_parse_exact:
  "usca_parse bs = (if bs = [] then Inl (BadBitfield ''empty UsCa payload'')
     else if 8 * length bs < 46 then Inl Truncated else Inr (usca_spec (bits_of bs)))
   \<and> usut_parse bs = (if bs = [] then Inl (BadBitfield ''empty UsUt payload'')
     else if 8 * length bs < 40 then Inl Truncated else Inr (usut_spec (bits_of bs)))"
  by (simp only: usca_parse_eq usut_parse_eq)

text \<open>Property C33.  Round trip of the GPP header: a string whose first segment decodes to the bit field of
  an ascending list of known sections, followed by one payload per section, parses to exactly these
  sections with their payloads, whatever the type and the version are.\<close>

theorem header_roundtrip:
  assumes "b64 h = Inr (pack_bits (header_bits t v sids))" "h \<noteq> []" "CHR ''~'' \<notin> set h"
    "list_all (\<lambda>p. CHR ''~'' \<notin> set p) payloads"
    "sorted_wrt (<) (map as_i32 sids)" "length payloads = length sids"
  shows "parse_gpp_header b64 (join_with (CHR ''~'') (h # payloads)) = Inr (sids, payloads)"
proof -
  have "split_on (CHR ''~'') (join_with (CHR ''~'') (h # payloads)) = h # payloads"
    using assms by (intro split_on_join) (simp_all add: list_all_iff)
  from parse_gpp_header_eq [OF this] show ?thesis
    using assms by (simp add: header_roundtrip_bytes)
qed

theorem header_roundtrip_witness:
  "parse_gpp_header (\<lambda>h. if h = ''DBEQAAA'' then Inr (pack_bits (header_bits 3 1 [TcfEuV2, UspV1])) else Inl ''x'')
     ''DBEQAAA~CPXxRfA~1YNN'' = Inr ([TcfEuV2, UspV1], [''CPXxRfA'', ''1YNN''])"
  using header_roundtrip [of "\<lambda>h. if h = ''DBEQAAA'' then Inr (pack_bits (header_bits 3 1 [TcfEuV2, UspV1])) else Inl ''x''"
      "''DBEQAAA''" 3 1 "[TcfEuV2, UspV1]" "[''CPXxRfA'', ''1YNN'']"]
  by simp

text \<open>The two vectors the header parser returns always have the same length, but they are
  not index-aligned when the header announces a section the registry does not know: the unknown
  section is dropped and its payload is not.  A header that announces the sections 3 and 6 pairs the
  US-Privacy section with the payload of section 3.\<close>

theorem header_misaligned:
  "(\<exists>b64 s. parse_gpp_header b64 s = Inr ([UspV1], [''payload-of-3''])
      \<and> split_on (CHR ''~'') s = [''DBJA'', ''payload-of-3'', ''payload-of-6''])
   \<and> (case parse_gpp_header b64 s of Inr (ids, payloads) \<Rightarrow> length ids = length payloads | Inl _ \<Rightarrow> True)"
proof
  let ?b64 = "\<lambda>h. if h = ''DBJA'' then Inr [12, 18, 64] else Inl ''x''"
  let ?s = "''DBJA~payload-of-3~payload-of-6''"
  have s: "split_on (CHR ''~'') ?s = [''DBJA'', ''payload-of-3'', ''payload-of-6'']" by simp
  have "header_parts [12, 18, 64] [''payload-of-3'', ''payload-of-6''] = Inr ([UspV1], [''payload-of-3''])"
    by code_simp
  with parse_gpp_header_eq [OF s, of ?b64] s
  show "\<exists>b64 s. parse_gpp_header b64 s = Inr ([UspV1], [''payload-of-3''])
      \<and> split_on (CHR ''~'') s = [''DBJA'', ''payload-of-3'', ''payload-of-6'']"
    by (intro exI [of _ ?b64] exI [of _ ?s]) simp
  obtain header payloads where "split_on (CHR ''~'') s = header # payloads"
    by (cases "split_on (CHR ''~'') s") simp_all
  from parse_gpp_header_eq [OF this, of b64]
  show "case parse_gpp_header b64 s of Inr (ids, payloads) \<Rightarrow> length ids = length payloads | Inl _ \<Rightarrow> True"
    by (cases "b64 header") (simp_all add: header_parts_def Let_def)
qed

end
