(* ===== verification/TcfBits.thy ===== *)
theory TcfBits
  imports Bits
begin

text \<open>
  The bit reader of the TCF decoder, \<^verbatim>\<open>rust/crates/gdpr/src/tcf2_bits.rs\<close>.  Unlike the GPP reader it
  takes as many bits as it can from each byte.  It implements the same contract, so the two readers
  return the same values.

  An error carries the message the code formats; \<open>PanicErr\<close> is the outcome of an out-of-range slice
  index, which the lemmas exclude.
\<close>

unbundle bit_operations_syntax

section \<open>Definitions\<close>

datatype bit_reader_error = BitReaderError string | PanicErr

record tcf_reader =
  tcf_bytes :: "u8 list"
  cursor :: nat

definition tcf_new :: "u8 list \<Rightarrow> tcf_reader" where
  "tcf_new bs = \<lparr>tcf_bytes = bs, cursor = 0\<rparr>"

definition tcf_total_bits :: "tcf_reader \<Rightarrow> nat" where
  "tcf_total_bits r = length (tcf_bytes r) * 8"

definition tcf_remaining_bits :: "tcf_reader \<Rightarrow> nat" where
  "tcf_remaining_bits r = tcf_total_bits r - cursor r"

definition past_end :: "string \<Rightarrow> nat \<Rightarrow> tcf_reader \<Rightarrow> bit_reader_error" where
  "past_end op n r = BitReaderError (op @ ''('' @ show_nat n @ '') past end (cursor='' @
     show_nat (cursor r) @ '', total='' @ show_nat (tcf_total_bits r) @ '')'')"

definition tcf_skip_bits :: "tcf_reader \<Rightarrow> nat \<Rightarrow> (bit_reader_error, tcf_reader) res" where
  "tcf_skip_bits r n =
     (if cursor r + n > tcf_total_bits r then Inl (past_end ''skip_bits'' n r)
      else Inr (r\<lparr>cursor := cursor r + n\<rparr>))"

function tcf_read_loop :: "u8 list \<Rightarrow> nat \<Rightarrow> nat \<Rightarrow> u64 \<Rightarrow> (u64 \<times> nat) option" where
  "tcf_read_loop bs cur bits_left value =
     (if bits_left = 0 then Some (value, cur)
      else
        let byte_idx = cur div 8; bit_in_byte = cur mod 8;
            available = 8 - bit_in_byte; tk = min bits_left available;
            shift = available - tk;
            mask = (if tk = 8 then 0xFF else push_bit tk 1 - 1)
        in if byte_idx < length bs then
             let chunk = drop_bit shift (bs ! byte_idx) AND mask
             in tcf_read_loop bs (cur + tk) (bits_left - tk) (push_bit tk value OR ucast chunk)
           else None)"
  by pat_completeness auto
termination
  by (relation "measure (\<lambda>(bs, cur, n, v). n)") auto

declare tcf_read_loop.simps [simp del]

definition tcf_read_bits :: "tcf_reader \<Rightarrow> nat \<Rightarrow> (bit_reader_error, u64 \<times> tcf_reader) res" where
  "tcf_read_bits r n =
     (if n > 64 then Inl (BitReaderError (''read_bits('' @ show_nat n @ '') > 64''))
      else if n = 0 then Inr (0, r)
      else if cursor r + n > tcf_total_bits r then Inl (past_end ''read_bits'' n r)
      else case tcf_read_loop (tcf_bytes r) (cursor r) n 0 of
             None \<Rightarrow> Inl PanicErr
           | Some (value, c) \<Rightarrow> Inr (value, r\<lparr>cursor := c\<rparr>))"

definition tcf_read_bool :: "tcf_reader \<Rightarrow> (bit_reader_error, bool \<times> tcf_reader) res" where
  "tcf_read_bool r = res_bind (tcf_read_bits r 1) (\<lambda>(v, r). Inr (v \<noteq> 0, r))"

definition tcf_read_u6 :: "tcf_reader \<Rightarrow> (bit_reader_error, u8 \<times> tcf_reader) res" where
  "tcf_read_u6 r = res_bind (tcf_read_bits r 6) (\<lambda>(v, r). Inr (ucast v, r))"

definition tcf_read_u12 :: "tcf_reader \<Rightarrow> (bit_reader_error, u16 \<times> tcf_reader) res" where
  "tcf_read_u12 r = res_bind (tcf_read_bits r 12) (\<lambda>(v, r). Inr (ucast v, r))"

definition tcf_read_u16 :: "tcf_reader \<Rightarrow> (bit_reader_error, u16 \<times> tcf_reader) res" where
  "tcf_read_u16 r = res_bind (tcf_read_bits r 16) (\<lambda>(v, r). Inr (ucast v, r))"

definition tcf_read_u24 :: "tcf_reader \<Rightarrow> (bit_reader_error, u32 \<times> tcf_reader) res" where
  "tcf_read_u24 r = res_bind (tcf_read_bits r 24) (\<lambda>(v, r). Inr (ucast v, r))"

definition tcf_read_u36 :: "tcf_reader \<Rightarrow> (bit_reader_error, u64 \<times> tcf_reader) res" where
  "tcf_read_u36 r = tcf_read_bits r 36"

text \<open>
  A TCF time stamp counts tenths of a second; the model of a \<^verbatim>\<open>DateTime<Utc>\<close> is its millisecond count.
  The multiplication is checked in \<^verbatim>\<open>i64\<close>, and \<^verbatim>\<open>chrono\<close> accepts the milliseconds of the years it can
  represent, which is the parameter \<open>chrono_ok\<close>.
\<close>

definition tcf_read_datetime ::
    "(int \<Rightarrow> bool) \<Rightarrow> tcf_reader \<Rightarrow> (bit_reader_error, int \<times> tcf_reader) res" where
  "tcf_read_datetime chrono_ok r =
     res_bind (tcf_read_u36 r) (\<lambda>(v, r).
       let deciseconds = sint v; millis = deciseconds * 100
       in if millis < i64_min \<or> i64_max < millis then Inl (BitReaderError ''datetime overflow'')
          else if chrono_ok millis then Inr (millis, r)
          else Inl (BitReaderError (''invalid datetime '' @ show_int deciseconds @ ''ds'')))"

text \<open>Two six-bit letters, offset from \<open>A\<close>; the sum is computed in \<^verbatim>\<open>u8\<close>, and a \<^verbatim>\<open>char\<close> from a byte
  above 127 is pushed to the string as two UTF-8 bytes.\<close>

definition push_latin1 :: "u8 \<Rightarrow> string" where
  "push_latin1 b = (if unat b < 128 then [char_of (unat b)]
                    else [char_of (192 + unat b div 64), char_of (128 + unat b mod 64)])"

definition tcf_read_language :: "tcf_reader \<Rightarrow> (bit_reader_error, string \<times> tcf_reader) res" where
  "tcf_read_language r =
     res_bind (tcf_read_u6 r) (\<lambda>(first, r).
     res_bind (tcf_read_u6 r) (\<lambda>(second, r).
       Inr (push_latin1 (65 + first) @ push_latin1 (65 + second), r)))"

definition tcf_rest :: "tcf_reader \<Rightarrow> bool list" where
  "tcf_rest r = drop (cursor r) (bits_of (tcf_bytes r))"

section \<open>Lemmas\<close>

lemma length_tcf_rest: "length (tcf_rest r) = tcf_total_bits r - cursor r"
  by (simp add: tcf_rest_def tcf_total_bits_def)

lemma tcf_rest_new [simp]: "tcf_rest (tcf_new bs) = bits_of bs"
  by (simp add: tcf_rest_def tcf_new_def)

lemma unat_chunk:
  assumes "k + t \<le> 8"
  shows "unat (drop_bit (8 - k - t) (b :: u8) AND mask t) = bits_val (take t (drop k (byte_bits b)))"
proof -
  have "unat (drop_bit (8 - k - t) b AND mask t) = unat b div 2 ^ (8 - k - t) mod 2 ^ t"
    by (simp only: unsigned_take_bit_eq unat_drop_bit_eq take_bit_eq_mask [symmetric])
      (simp only: drop_bit_eq_div take_bit_eq_mod)
  then show ?thesis
    using assms bits_val_slice [of k t "byte_bits b"] by (simp add: unat_bits_val_byte)
qed

lemma drop_take_bits_of:
  assumes "i < length bs" "k + t \<le> 8"
  shows "take t (drop (8 * i + k) (bits_of bs)) = take t (drop k (byte_bits (bs ! i)))"
proof (rule nth_equalityI)
  show len: "length (take t (drop (8 * i + k) (bits_of bs))) = length (take t (drop k (byte_bits (bs ! i))))"
    using assms by auto
  fix j
  assume "j < length (take t (drop (8 * i + k) (bits_of bs)))"
  then have j: "j < t" by simp
  then have m: "(8 * i + (k + j)) div 8 = i" "(8 * i + (k + j)) mod 8 = k + j"
    using assms by simp_all
  have "8 * i + (k + j) < 8 * length bs" using assms j by linarith
  from nth_bits_of [OF this]
  show "take t (drop (8 * i + k) (bits_of bs)) ! j = take t (drop k (byte_bits (bs ! i))) ! j"
    using assms j by (simp add: m nth_byte_bits add.assoc)
qed

text \<open>One iteration moves a chunk of at most eight bits from the input to the accumulator.\<close>

lemma tcf_read_loop_Some:
  "cur + n \<le> 8 * length bs \<Longrightarrow> unat v < 2 ^ k \<Longrightarrow> k + n \<le> 64 \<Longrightarrow>
   \<exists>w. tcf_read_loop bs cur n v = Some (w, cur + n)
     \<and> unat w = unat v * 2 ^ n + bits_val (take n (drop cur (bits_of bs)))"
proof (induction n arbitrary: cur v k rule: less_induct)
  case (less n)
  show ?case
  proof (cases "n = 0")
    case True
    then show ?thesis by (simp add: tcf_read_loop.simps)
  next
    case False
    define i where "i = cur div 8"
    define j where "j = cur mod 8"
    define t where "t = min n (8 - j)"
    define c where "c = drop_bit (8 - j - t) (bs ! i) AND (mask t :: u8)"
    define v' where "v' = push_bit t v OR (ucast c :: u64)"
    have cur: "cur = 8 * i + j" and j8: "j < 8" by (simp_all add: i_def j_def)
    have t: "0 < t" "t \<le> n" "j + t \<le> 8" using False j8 by (auto simp: t_def)
    have i: "i < length bs" using less.prems(1) False by (auto simp: i_def)
    have c: "unat c = bits_val (take t (drop cur (bits_of bs)))"
      using unat_chunk [OF t(3), of "bs ! i"] drop_take_bits_of [OF i t(3)] by (simp add: c_def cur)
    have tlen: "length (take t (drop cur (bits_of bs))) = t" using t(2) less.prems(1) by simp
    have clt: "unat c < 2 ^ t" using bits_val_less [of "take t (drop cur (bits_of bs))"] c tlen by simp
    have "unat (ucast c :: u64) = unat c" by (rule unat_ucast_u8)
    with unat_push_or [of v k t "ucast c"] less.prems(2,3) t clt
    have v': "unat v' = unat v * 2 ^ t + unat c" by (simp add: v'_def)
    have "unat v' < 2 ^ (k + t)"
    proof -
      have "unat v' < (unat v + 1) * 2 ^ t" using v' clt by simp
      also have "\<dots> \<le> 2 ^ k * 2 ^ t" using less.prems(2) by (intro mult_right_mono) simp_all
      finally show ?thesis by (simp add: power_add)
    qed
    from less.IH [OF _ _ this, of "n - t" "cur + t"] t less.prems
    obtain w where w: "tcf_read_loop bs (cur + t) (n - t) v' = Some (w, cur + n)"
      "unat w = unat v' * 2 ^ (n - t) + bits_val (take (n - t) (drop (cur + t) (bits_of bs)))"
      by auto
    have "take n (drop cur (bits_of bs))
        = take t (drop cur (bits_of bs)) @ take (n - t) (drop (cur + t) (bits_of bs))"
      using t(2) take_add [of t "n - t" "drop cur (bits_of bs)"] by (simp add: add.commute)
    moreover have "length (take (n - t) (drop (cur + t) (bits_of bs))) = n - t"
      using less.prems(1) by simp
    moreover have "unat v * 2 ^ t * 2 ^ (n - t) = unat v * 2 ^ n"
      using t(2) by (simp add: mult.assoc flip: power_add)
    ultimately have "unat w = unat v * 2 ^ n + bits_val (take n (drop cur (bits_of bs)))"
      using w(2) v' c by (simp add: bits_val_append algebra_simps)
    moreover have "tcf_read_loop bs cur n v = tcf_read_loop bs (cur + t) (n - t) v'"
      using False i t j8
      by (subst tcf_read_loop.simps) (simp add: Let_def v'_def c_def mask_eq_exp_minus_1 flip: i_def j_def t_def)
    ultimately show ?thesis using w(1) by simp
  qed
qed

lemma tcf_read_bits_ok:
  assumes "n \<le> 64" "n \<le> length (tcf_rest r)"
  shows "\<exists>v r'. tcf_read_bits r n = Inr (v, r') \<and> unat v = bits_val (take n (tcf_rest r))
      \<and> tcf_rest r' = drop n (tcf_rest r)"
proof (cases "n = 0")
  case True
  then show ?thesis by (simp add: tcf_read_bits_def)
next
  case False
  with assms have "cursor r + n \<le> 8 * length (tcf_bytes r)"
    by (simp add: length_tcf_rest tcf_total_bits_def)
  from tcf_read_loop_Some [OF this, of 0 0] assms(1)
  obtain w where "tcf_read_loop (tcf_bytes r) (cursor r) n 0 = Some (w, cursor r + n)"
      "unat w = bits_val (take n (tcf_rest r))"
    by (auto simp: tcf_rest_def)
  with assms False show ?thesis
    by (simp add: tcf_read_bits_def tcf_total_bits_def tcf_rest_def add.commute)
qed

interpretation tcf: bit_cursor tcf_read_bits tcf_rest
proof unfold_locales
  fix n r
  assume "64 < n \<or> length (tcf_rest r) < n"
  then show "\<exists>e. tcf_read_bits r n = Inl e"
    by (auto simp: tcf_read_bits_def length_tcf_rest)
qed (rule tcf_read_bits_ok)

lemma tcf_read_bits_no_panic: "tcf_read_bits r n \<noteq> Inl PanicErr"
proof (cases "n \<le> 64 \<and> n \<le> length (tcf_rest r)")
  case True
  then show ?thesis using tcf.rd_ok [of n r] by fastforce
next
  case False
  then show ?thesis by (auto simp: tcf_read_bits_def length_tcf_rest past_end_def)
qed

end
