(* ===== verification/TcfConsent.thy ===== *)
theory TcfConsent
  imports TcfBits
begin

text \<open>
  The GDPR crate, \<^verbatim>\<open>rust/crates/gdpr/src\<close>: the TCF 2.2 consent string decoder (\<^verbatim>\<open>consent.rs\<close>), the GDPR
  signal (\<^verbatim>\<open>signal.rs\<close>), the permission constants (\<^verbatim>\<open>permissions.rs\<close>) and the vendor list lookups
  (\<^verbatim>\<open>vendorlist.rs\<close>).

  Two third-party crates are parameters: \<open>b64\<close> is \<^verbatim>\<open>URL_SAFE_NO_PAD.decode\<close> of \<^verbatim>\<open>base64\<close>, and
  \<open>chrono_ok\<close> says which millisecond counts \<^verbatim>\<open>chrono\<close> turns into a \<^verbatim>\<open>DateTime<Utc>\<close>.  The decoder reports
  failures as formatted messages; \<open>CorePanic\<close> stands for an out-of-range index in the bit reader.
\<close>

section \<open>Vendor consent\<close>

record vendor_range =
  range_start :: u16
  range_end :: u16

datatype vendor_consent = Bitfield "bool list" | RangeList "vendor_range list"

definition vendor_contains :: "vendor_consent \<Rightarrow> u16 \<Rightarrow> bool" where
  "vendor_contains vc vendor_id =
     (if vendor_id = 0 then False
      else case vc of
        Bitfield bits \<Rightarrow>
          (let idx = unat (vendor_id - 1) in if idx < length bits then bits ! idx else False)
      | RangeList ranges \<Rightarrow>
          list_ex (\<lambda>r. vendor_id \<ge> range_start r \<and> vendor_id \<le> range_end r) ranges)"

record consent_string =
  raw :: string
  version :: u8
  created :: int
  last_updated :: int
  cmp_id :: u16
  cmp_version :: u16
  consent_screen :: u8
  consent_language :: string
  vendor_list_version :: u16
  tcf_policy_version :: u8
  is_service_specific :: bool
  use_non_standard_stacks :: bool
  special_feature_optins :: "bool list"
  purposes_consent :: "bool list"
  purposes_li_transparency :: "bool list"
  purpose_one_treatment :: bool
  publisher_cc :: string
  vendors_consent :: vendor_consent

section \<open>The decoder\<close>

datatype core_error = Cause string | CorePanic

text \<open>\<^verbatim>\<open>map_err(|e| format!("label: {}", e))\<close>, for an error of the bit reader and for one that is already a
  message.\<close>

fun label_bits :: "string \<Rightarrow> bit_reader_error \<Rightarrow> core_error" where
  "label_bits l (BitReaderError m) = Cause (l @ '': bit reader error: '' @ m)"
| "label_bits l PanicErr = CorePanic"

fun label_cause :: "string \<Rightarrow> core_error \<Rightarrow> core_error" where
  "label_cause l (Cause m) = Cause (l @ '': '' @ m)"
| "label_cause l CorePanic = CorePanic"

text \<open>The loop that fills a boolean array: \<open>n\<close> more slots, the next one being \<open>i\<close>.\<close>

fun read_bools :: "string \<Rightarrow> nat \<Rightarrow> nat \<Rightarrow> tcf_reader \<Rightarrow> (core_error, bool list \<times> tcf_reader) res" where
  "read_bools l i 0 r = Inr ([], r)"
| "read_bools l i (Suc n) r =
     res_bind (map_err (label_bits (l @ ''['' @ show_nat i @ '']'')) (tcf_read_bool r)) (\<lambda>(b, r).
     res_bind (read_bools l (i + 1) n r) (\<lambda>(bs, r). Inr (b # bs, r)))"

definition range_label :: "nat \<Rightarrow> string \<Rightarrow> string" where
  "range_label i f = ''range['' @ show_nat i @ ''].'' @ f"

fun read_ranges ::
    "u16 \<Rightarrow> nat \<Rightarrow> nat \<Rightarrow> tcf_reader \<Rightarrow> (core_error, vendor_range list \<times> tcf_reader) res" where
  "read_ranges max_vendor_id i 0 r = Inr ([], r)"
| "read_ranges max_vendor_id i (Suc n) r =
     res_bind (map_err (label_bits (range_label i ''is_range'')) (tcf_read_bool r)) (\<lambda>(is_a_range, r).
     res_bind (map_err (label_bits (range_label i ''start'')) (tcf_read_u16 r)) (\<lambda>(start, r).
     res_bind (if is_a_range then map_err (label_bits (range_label i ''end'')) (tcf_read_u16 r)
               else Inr (start, r)) (\<lambda>(end, r).
       if start = 0 \<or> end < start \<or> end > max_vendor_id then
         Inl (Cause (''range['' @ show_nat i @ ''] invalid: start='' @ show_nat (unat start) @
           '' end='' @ show_nat (unat end) @ '' max_vendor_id='' @ show_nat (unat max_vendor_id)))
       else
         res_bind (read_ranges max_vendor_id (i + 1) n r) (\<lambda>(rs, r).
           Inr (\<lparr>range_start = start, range_end = end\<rparr> # rs, r)))))"

definition decode_vendor_section :: "tcf_reader \<Rightarrow> (core_error, vendor_consent \<times> tcf_reader) res" where
  "decode_vendor_section r =
     res_bind (map_err (label_bits ''max_vendor_id'') (tcf_read_u16 r)) (\<lambda>(max_vendor_id, r).
     res_bind (map_err (label_bits ''is_range_encoding'') (tcf_read_bool r)) (\<lambda>(is_range, r).
       if is_range then
         res_bind (map_err (label_bits ''num_entries'') (tcf_read_u12 r)) (\<lambda>(num_entries, r).
         res_bind (read_ranges max_vendor_id 0 (unat num_entries) r) (\<lambda>(rs, r).
           Inr (RangeList rs, r)))
       else
         res_bind (read_bools ''bitfield'' 0 (unat max_vendor_id) r) (\<lambda>(bits, r).
           Inr (Bitfield bits, r))))"

definition decode_core :: "(int \<Rightarrow> bool) \<Rightarrow> tcf_reader \<Rightarrow> (core_error, consent_string \<times> tcf_reader) res" where
  "decode_core chrono_ok r =
     res_bind (map_err (label_bits ''version'') (tcf_read_u6 r)) (\<lambda>(version, r).
     res_bind (map_err (label_bits ''created'') (tcf_read_datetime chrono_ok r)) (\<lambda>(created, r).
     res_bind (map_err (label_bits ''last_updated'') (tcf_read_datetime chrono_ok r)) (\<lambda>(last_updated, r).
     res_bind (map_err (label_bits ''cmp_id'') (tcf_read_u12 r)) (\<lambda>(cmp_id, r).
     res_bind (map_err (label_bits ''cmp_version'') (tcf_read_u12 r)) (\<lambda>(cmp_version, r).
     res_bind (map_err (label_bits ''consent_screen'') (tcf_read_u6 r)) (\<lambda>(consent_screen, r).
     res_bind (map_err (label_bits ''consent_language'') (tcf_read_language r)) (\<lambda>(consent_language, r).
     res_bind (map_err (label_bits ''vendor_list_version'') (tcf_read_u12 r)) (\<lambda>(vendor_list_version, r).
     res_bind (map_err (label_bits ''tcf_policy_version'') (tcf_read_u6 r)) (\<lambda>(tcf_policy_version, r).
     res_bind (map_err (label_bits ''is_service_specific'') (tcf_read_bool r)) (\<lambda>(is_service_specific, r).
     res_bind (map_err (label_bits ''use_non_standard_stacks'') (tcf_read_bool r))
       (\<lambda>(use_non_standard_stacks, r).
     res_bind (read_bools ''special_feature_optins'' 0 12 r) (\<lambda>(special_feature_optins, r).
     res_bind (read_bools ''purposes_consent'' 0 24 r) (\<lambda>(purposes_consent, r).
     res_bind (read_bools ''purposes_li_transparency'' 0 24 r) (\<lambda>(purposes_li_transparency, r).
     res_bind (map_err (label_bits ''purpose_one_treatment'') (tcf_read_bool r)) (\<lambda>(purpose_one_treatment, r).
     res_bind (map_err (label_bits ''publisher_cc'') (tcf_read_language r)) (\<lambda>(publisher_cc, r).
     res_bind (map_err (label_cause ''vendors_consent'') (decode_vendor_section r)) (\<lambda>(vendors_consent, r).
       Inr (\<lparr>raw = [], version = version, created = created, last_updated = last_updated,
             cmp_id = cmp_id, cmp_version = cmp_version, consent_screen = consent_screen,
             consent_language = consent_language, vendor_list_version = vendor_list_version,
             tcf_policy_version = tcf_policy_version, is_service_specific = is_service_specific,
             use_non_standard_stacks = use_non_standard_stacks,
             special_feature_optins = special_feature_optins, purposes_consent = purposes_consent,
             purposes_li_transparency = purposes_li_transparency,
             purpose_one_treatment = purpose_one_treatment, publisher_cc = publisher_cc,
             vendors_consent = vendors_consent\<rparr>, r))))))))))))))))))"

datatype malformed_consent_error = MalformedConsentError string core_error

definition trim_end_matches :: "char \<Rightarrow> string \<Rightarrow> string" where
  "trim_end_matches c s = rev (dropWhile (\<lambda>x. x = c) (rev s))"

definition decode_base64url :: "(string \<Rightarrow> (string, u8 list) res) \<Rightarrow> string \<Rightarrow> (string, u8 list) res" where
  "decode_base64url b64 s = b64 (trim_end_matches (CHR ''='') s)"

definition consent_parse ::
    "(string \<Rightarrow> (string, u8 list) res) \<Rightarrow> (int \<Rightarrow> bool) \<Rightarrow> string
     \<Rightarrow> (malformed_consent_error, consent_string) res" where
  "consent_parse b64 chrono_ok s =
     (if s = [] then Inl (MalformedConsentError s (Cause ''consent string is empty''))
      else
        let core_b64 = hd (split_on (CHR ''.'') s)
        in if core_b64 = [] then Inl (MalformedConsentError s (Cause ''core segment is empty''))
           else
             res_bind (map_err (\<lambda>e. MalformedConsentError s (Cause (''base64 decode error: '' @ e)))
                         (decode_base64url b64 core_b64)) (\<lambda>bs.
             res_bind (map_err (MalformedConsentError s) (decode_core chrono_ok (tcf_new bs))) (\<lambda>(cs, r).
               Inr (cs\<lparr>raw := s\<rparr>))))"

definition consent_new ::
    "(string \<Rightarrow> (string, u8 list) res) \<Rightarrow> (int \<Rightarrow> bool) \<Rightarrow> string \<Rightarrow> consent_string" where
  "consent_new b64 chrono_ok s =
     (case consent_parse b64 chrono_ok s of
        Inr parsed \<Rightarrow> parsed
      | Inl _ \<Rightarrow> \<lparr>raw = s, version = 0, created = 0, last_updated = 0, cmp_id = 0, cmp_version = 0,
                  consent_screen = 0, consent_language = [], vendor_list_version = 0,
                  tcf_policy_version = 0, is_service_specific = False,
                  use_non_standard_stacks = False, special_feature_optins = replicate 12 False,
                  purposes_consent = replicate 24 False,
                  purposes_li_transparency = replicate 24 False, purpose_one_treatment = False,
                  publisher_cc = [], vendors_consent = Bitfield []\<rparr>)"

definition consent_version :: "consent_string \<Rightarrow> (malformed_consent_error, u8) res" where
  "consent_version cs =
     (if raw cs = [] then Inl (MalformedConsentError (raw cs) (Cause ''consent string is empty''))
      else Inr (version cs))"

section \<open>The GDPR signal\<close>

datatype signal = Ambiguous | No | Yes

definition signal_from_int :: "int \<Rightarrow> (unit, signal) res" where
  "signal_from_int i = (if i = 0 then Inr No else if i = 1 then Inr Yes else Inl ())"

definition signal_parse_str :: "string \<Rightarrow> (unit, signal) res" where
  "signal_parse_str s =
     (if s = [] then Inr Ambiguous
      else case parse_i32 s of Some v \<Rightarrow> signal_from_int v | None \<Rightarrow> Inl ())"

definition signal_normalize :: "signal \<Rightarrow> string \<Rightarrow> signal" where
  "signal_normalize s default_value =
     (if s \<noteq> Ambiguous then s else if default_value = ''0'' then No else Yes)"

fun signal_as_i8 :: "signal \<Rightarrow> int" where
  "signal_as_i8 Ambiguous = -1" | "signal_as_i8 No = 0" | "signal_as_i8 Yes = 1"

section \<open>Permissions\<close>

record auction_permissions =
  allow_bid_request :: bool
  pass_geo :: bool
  pass_id :: bool

definition ALLOW_ALL :: auction_permissions where
  "ALLOW_ALL = \<lparr>allow_bid_request = True, pass_geo = True, pass_id = True\<rparr>"

definition DENY_ALL :: auction_permissions where
  "DENY_ALL = \<lparr>allow_bid_request = False, pass_geo = False, pass_id = False\<rparr>"

definition ALLOW_BID_REQUEST_ONLY :: auction_permissions where
  "ALLOW_BID_REQUEST_ONLY = \<lparr>allow_bid_request = True, pass_geo = False, pass_id = False\<rparr>"

section \<open>The vendor list\<close>

record purpose_entry =
  purpose_id :: u8
  purpose_name :: string
  purpose_description :: string
  description_legal :: string
  consentable :: bool
  right_to_object :: bool

record vendor =
  vendor_id :: u16
  vendor_name :: string
  vendor_purposes :: "u8 list"
  leg_int_purposes :: "u8 list"
  flexible_purposes :: "u8 list"
  special_purposes :: "u8 list"
  vendor_features :: "u8 list"
  special_features :: "u8 list"
  policy_url :: string
  deleted_date :: "int option"

definition vendor_purpose :: "vendor \<Rightarrow> u8 \<Rightarrow> bool" where
  "vendor_purpose v p = (p \<in> set (vendor_purposes v))"

definition legitimate_interest_purpose :: "vendor \<Rightarrow> u8 \<Rightarrow> bool" where
  "legitimate_interest_purpose v p = (p \<in> set (leg_int_purposes v))"

definition flexible_purpose :: "vendor \<Rightarrow> u8 \<Rightarrow> bool" where
  "flexible_purpose v p = (p \<in> set (flexible_purposes v))"

definition vendor_is_deleted :: "vendor \<Rightarrow> int \<Rightarrow> bool" where
  "vendor_is_deleted v at = (case deleted_date v of Some d \<Rightarrow> d \<le> at | None \<Rightarrow> False)"

record vendor_list =
  gvl_specification_version :: u16
  gvl_version :: u16
  gvl_policy_version :: u8
  gvl_last_updated :: "int option"
  gvl_purposes :: "(string \<times> purpose_entry) list"
  gvl_vendors :: "(string \<times> vendor) list"

definition gvl_vendor :: "vendor_list \<Rightarrow> u16 \<Rightarrow> vendor option" where
  "gvl_vendor l i = map_of (gvl_vendors l) (show_nat (unat i))"

definition gvl_purpose :: "vendor_list \<Rightarrow> u8 \<Rightarrow> purpose_entry option" where
  "gvl_purpose l i = map_of (gvl_purposes l) (show_nat (unat i))"

definition gvl_vendor_count :: "vendor_list \<Rightarrow> nat" where
  "gvl_vendor_count l = length (gvl_vendors l)"

section \<open>Lemmas: parsers and their encodings\<close>

text \<open>A parser accepts an encoding when it consumes exactly these bits, whatever follows, and returns the
  encoded value.\<close>

definition parses :: "(tcf_reader \<Rightarrow> ('e, 'a \<times> tcf_reader) res) \<Rightarrow> bool list \<Rightarrow> 'a \<Rightarrow> bool" where
  "parses p bs v \<longleftrightarrow> (\<forall>r t. tcf_rest r = bs @ t \<longrightarrow> (\<exists>r'. p r = Inr (v, r') \<and> tcf_rest r' = t))"

named_theorems parse_intros

lemma parses_return [parse_intros]: "parses (\<lambda>r. Inr (v, r)) [] v"
  by (simp add: parses_def)

lemma parses_bind:
  "parses p b1 v \<Longrightarrow> parses (q v) b2 w \<Longrightarrow> parses (\<lambda>r. res_bind (p r) (\<lambda>(v, r). q v r)) (b1 @ b2) w"
  unfolding parses_def by fastforce

lemma parses_map_err [parse_intros]: "parses p b v \<Longrightarrow> parses (\<lambda>r. map_err f (p r)) b v"
  unfolding parses_def by fastforce

lemma parses_bits:
  "n \<le> 64 \<Longrightarrow> k < 2 ^ n \<Longrightarrow> parses (\<lambda>r. tcf_read_bits r n) (nat_bits n k) (of_nat k)"
  unfolding parses_def
proof (intro allI impI)
  fix r t
  assume n: "n \<le> 64" and k: "k < 2 ^ n" and r: "tcf_rest r = nat_bits n k @ t"
  from tcf.rd_ok [OF n, of r] r obtain v r' where
    "tcf_read_bits r n = Inr (v, r')" "unat v = bits_val (nat_bits n k)" "tcf_rest r' = t" by auto
  moreover from this k have "of_nat (unat v) = (of_nat k :: u64)" by (simp add: bits_val_nat_bits)
  then have "v = of_nat k" by simp
  ultimately show "\<exists>r'. tcf_read_bits r n = Inr (of_nat k, r') \<and> tcf_rest r' = t" by auto
qed

lemma parses_map:
  "parses p b v \<Longrightarrow> parses (\<lambda>r. res_bind (p r) (\<lambda>(v, r). Inr (f v, r))) b (f v)"
  unfolding parses_def by fastforce

lemma ucast_u64_ucast: "LENGTH('a::len) \<le> 64 \<Longrightarrow> ucast (ucast (v :: 'a word) :: u64) = v"
  by (rule bit_word_eqI) (simp add: bit_unsigned_iff)

lemma parses_u6 [parse_intros]: "unat v < 64 \<Longrightarrow> parses tcf_read_u6 (nat_bits 6 (unat v)) v"
proof -
  have v: "ucast (of_nat (unat v) :: u64) = v" using ucast_u64_ucast [of v] by simp
  show "unat v < 64 \<Longrightarrow> parses tcf_read_u6 (nat_bits 6 (unat v)) v"
    using parses_map [OF parses_bits [of 6 "unat v"], of "ucast :: u64 \<Rightarrow> u8"] unsigned_less [of v, where 'a = nat]
    by (simp only: v tcf_read_u6_def [abs_def]) simp
qed

lemma parses_u12 [parse_intros]: "unat v < 4096 \<Longrightarrow> parses tcf_read_u12 (nat_bits 12 (unat v)) v"
proof -
  have v: "ucast (of_nat (unat v) :: u64) = v" using ucast_u64_ucast [of v] by simp
  show "unat v < 4096 \<Longrightarrow> parses tcf_read_u12 (nat_bits 12 (unat v)) v"
    using parses_map [OF parses_bits [of 12 "unat v"], of "ucast :: u64 \<Rightarrow> u16"] unsigned_less [of v, where 'a = nat]
    by (simp only: v tcf_read_u12_def [abs_def]) simp
qed

lemma parses_u16 [parse_intros]: "parses tcf_read_u16 (nat_bits 16 (unat v)) v"
proof -
  have v: "ucast (of_nat (unat v) :: u64) = v" using ucast_u64_ucast [of v] by simp
  show "parses tcf_read_u16 (nat_bits 16 (unat v)) v"
    using parses_map [OF parses_bits [of 16 "unat v"], of "ucast :: u64 \<Rightarrow> u16"] unsigned_less [of v, where 'a = nat]
    by (simp only: v tcf_read_u16_def [abs_def]) simp
qed

lemma parses_bool [parse_intros]: "parses tcf_read_bool [b] b"
  using parses_map [OF parses_bits [of 1 "of_bool b"], of "\<lambda>v. v \<noteq> 0"]
  by (cases b) (simp_all add: nat_bits_def tcf_read_bool_def [abs_def] bit_0)

definition chrono_law :: "(int \<Rightarrow> bool) \<Rightarrow> bool" where
  "chrono_law chrono_ok \<longleftrightarrow> (\<forall>ms. 0 \<le> ms \<and> ms < 100 * 2 ^ 36 \<longrightarrow> chrono_ok ms)"

lemma sint_of_nat_36: "k < 2 ^ 36 \<Longrightarrow> sint (of_nat k :: u64) = int k"
  by (simp add: signed_of_nat signed_take_bit_int_eq_self)

lemma parses_datetime [parse_intros]:
  "chrono_law chrono_ok \<Longrightarrow> k < 2 ^ 36 \<Longrightarrow> ms = 100 * int k \<Longrightarrow>
   parses (tcf_read_datetime chrono_ok) (nat_bits 36 k) ms"
proof -
  assume law: "chrono_law chrono_ok" and k: "k < 2 ^ 36" and ms: "ms = 100 * int k"
  have "chrono_ok ms" using law k ms by (simp add: chrono_law_def)
  moreover have "\<not> (int k * 100 < i64_min \<or> i64_max < int k * 100)"
    using k by (simp add: i64_min_def i64_max_def)
  moreover have "parses tcf_read_u36 (nat_bits 36 k) (of_nat k)"
    using parses_bits [of 36 k] k by (simp add: tcf_read_u36_def [abs_def])
  ultimately show ?thesis
    unfolding parses_def
    using sint_of_nat_36 [OF k] by (fastforce simp: tcf_read_datetime_def ms mult.commute)
qed

definition lang_ok :: "string \<Rightarrow> bool" where
  "lang_ok s = (case s of [a, b] \<Rightarrow> list_all (\<lambda>c. 65 \<le> (of_char c :: nat) \<and> of_char c \<le> (90 :: nat)) s | _ \<Rightarrow> False)"

definition lang_bits :: "string \<Rightarrow> bool list" where
  "lang_bits s = concat (map (\<lambda>c. nat_bits 6 (of_char c - 65)) s)"

lemma push_latin1_letter: "of_char c \<le> (90 :: nat) \<Longrightarrow> push_latin1 (of_nat (of_char c)) = [c]"
  by (simp add: push_latin1_def unsigned_of_nat take_bit_nat_eq_self)

lemma parses_language [parse_intros]: "lang_ok s \<Longrightarrow> parses tcf_read_language (lang_bits s) s"
proof -
  assume s: "lang_ok s"
  then obtain a b where ab: "s = [a, b]" "65 \<le> (of_char a :: nat)" "of_char a \<le> (90 :: nat)"
    "65 \<le> (of_char b :: nat)" "of_char b \<le> (90 :: nat)"
    by (auto simp: lang_ok_def split: list.splits)
  have u: "unat (of_nat (of_char c - 65) :: u8) = of_char c - 65" if "of_char c \<le> (90 :: nat)" for c
    using that by (simp add: unsigned_of_nat take_bit_nat_eq_self)
  have p: "parses tcf_read_u6 (nat_bits 6 (of_char c - 65)) (of_nat (of_char c - 65))"
    if "of_char c \<le> (90 :: nat)" for c
    using parses_u6 [of "of_nat (of_char c - 65)"] u [OF that] that by simp
  have "parses (\<lambda>r. res_bind (tcf_read_u6 r) (\<lambda>(first, r). res_bind (tcf_read_u6 r) (\<lambda>(second, r).
       Inr (push_latin1 (65 + first) @ push_latin1 (65 + second), r))))
     (nat_bits 6 (of_char a - 65) @ nat_bits 6 (of_char b - 65) @ [])
     (push_latin1 (65 + of_nat (of_char a - 65)) @ push_latin1 (65 + of_nat (of_char b - 65)))"
    using ab by (intro parses_bind [OF p] parses_return)
  moreover have "(\<lambda>r. res_bind (tcf_read_u6 r) (\<lambda>(first, r). res_bind (tcf_read_u6 r) (\<lambda>(second, r).
       Inr (push_latin1 (65 + first) @ push_latin1 (65 + second), r)))) = tcf_read_language"
    by (simp add: fun_eq_iff tcf_read_language_def)
  ultimately show ?thesis
    using ab by (simp add: lang_bits_def push_latin1_letter)
qed

lemma parses_bools [parse_intros]: "length bs = n \<Longrightarrow> parses (read_bools l i n) bs bs"
proof (induction bs arbitrary: i n)
  case Nil
  then show ?case by (auto simp: parses_def)
next
  case (Cons b bs)
  then obtain m where n: "n = Suc m" "length bs = m" by auto
  have "parses (\<lambda>r. res_bind (map_err (label_bits (l @ ''['' @ show_nat i @ '']'')) (tcf_read_bool r)) (\<lambda>(b, r).
     res_bind (read_bools l (i + 1) m r) (\<lambda>(bs, r). Inr (b # bs, r)))) ([b] @ bs @ []) (b # bs)"
    by (rule parses_bind [OF parses_map_err [OF parses_bool]])
       (rule parses_bind [OF Cons.IH [OF n(2)] parses_return])
  then show ?case by (simp add: n parses_def)
qed

definition range_bits :: "vendor_range \<Rightarrow> bool list" where
  "range_bits v =
     (let many = range_start v \<noteq> range_end v
      in many # nat_bits 16 (unat (range_start v)) @ (if many then nat_bits 16 (unat (range_end v)) else []))"

definition range_ok :: "u16 \<Rightarrow> vendor_range \<Rightarrow> bool" where
  "range_ok mx v = (range_start v \<noteq> 0 \<and> range_start v \<le> range_end v \<and> range_end v \<le> mx)"

lemma parses_ranges [parse_intros]:
  "list_all (range_ok mx) rs \<Longrightarrow> length rs = n \<Longrightarrow> parses (read_ranges mx i n) (concat (map range_bits rs)) rs"
proof (induction rs arbitrary: i n)
  case Nil
  then show ?case by (auto simp: parses_def)
next
  case (Cons v rs)
  then obtain m where n: "n = Suc m" "length rs = m" by auto
  let ?many = "range_start v \<noteq> range_end v"
  have ok: "range_ok mx v" "list_all (range_ok mx) rs" using Cons.prems by simp_all
  have e: "parses (\<lambda>r. if ?many then map_err f (tcf_read_u16 r) else Inr (range_start v, r))
      (if ?many then nat_bits 16 (unat (range_end v)) else []) (range_end v)" for f
    using parses_map_err [OF parses_u16 [of "range_end v"], of f] parses_return [of "range_start v"]
    by (cases ?many) simp_all
  have tl: "parses (\<lambda>r. if range_start v = 0 \<or> range_end v < range_start v \<or> range_end v > mx then Inl (x (range_end v))
        else res_bind (read_ranges mx (i + 1) m r) (\<lambda>(rs, r).
           Inr (\<lparr>range_start = range_start v, range_end = range_end v\<rparr> # rs, r)))
      (concat (map range_bits rs) @ []) (v # rs)" for x
  proof -
    have no: "(range_start v = 0 \<or> range_end v < range_start v \<or> range_end v > mx) = False"
      using ok(1) by (auto simp: range_ok_def)
    show ?thesis
      unfolding no if_False
      using parses_map [OF Cons.IH [OF ok(2) n(2), of "i + 1"], of "(#) v"] by (cases v) simp
  qed
  have eq: "range_bits v @ concat (map range_bits rs)
     = [?many] @ nat_bits 16 (unat (range_start v)) @
       (if ?many then nat_bits 16 (unat (range_end v)) else []) @ concat (map range_bits rs) @ []"
    by (simp add: range_bits_def Let_def)
  show ?case
    unfolding n read_ranges.simps list.map concat.simps eq
    by (rule parses_bind [OF parses_map_err [OF parses_bool]])
       (rule parses_bind [OF parses_map_err [OF parses_u16]], rule parses_bind [OF e], rule tl)
qed


section \<open>Lemmas: the core segment\<close>

definition vendor_bits :: "u16 \<Rightarrow> vendor_consent \<Rightarrow> bool list" where
  "vendor_bits mx vc =
     nat_bits 16 (unat mx) @
     (case vc of Bitfield bits \<Rightarrow> False # bits
      | RangeList rs \<Rightarrow> True # nat_bits 12 (length rs) @ concat (map range_bits rs))"

definition vendor_wf :: "u16 \<Rightarrow> vendor_consent \<Rightarrow> bool" where
  "vendor_wf mx vc =
     (case vc of Bitfield bits \<Rightarrow> length bits = unat mx
      | RangeList rs \<Rightarrow> length rs < 4096 \<and> list_all (range_ok mx) rs)"

lemma unat_of_nat_u16: "n < 65536 \<Longrightarrow> unat (of_nat n :: u16) = n"
  by (simp add: unsigned_of_nat take_bit_nat_eq_self)

lemma parses_vendor [parse_intros]:
  assumes "vendor_wf mx vc"
  shows "parses decode_vendor_section (vendor_bits mx vc) vc"
proof (cases vc)
  case (Bitfield bits)
  with assms have l: "length bits = unat mx" by (simp add: vendor_wf_def)
  have eq: "vendor_bits mx vc = nat_bits 16 (unat mx) @ [False] @ bits"
    by (simp add: vendor_bits_def Bitfield)
  show ?thesis
    unfolding eq decode_vendor_section_def [abs_def]
    by (rule parses_bind [OF parses_map_err [OF parses_u16]],
        rule parses_bind [OF parses_map_err [OF parses_bool]])
       (simp add: Bitfield parses_map [OF parses_bools [OF l], where f = Bitfield])
next
  case (RangeList rs)
  let ?n = "of_nat (length rs) :: u16"
  from assms RangeList have l: "length rs < 4096" "list_all (range_ok mx) rs"
    by (simp_all add: vendor_wf_def)
  then have n: "unat ?n = length rs" by (simp add: unat_of_nat_u16)
  have eq: "vendor_bits mx vc
      = nat_bits 16 (unat mx) @ [True] @ nat_bits 12 (unat ?n) @ concat (map range_bits rs)"
    by (simp add: vendor_bits_def RangeList n)
  have u12: "parses tcf_read_u12 (nat_bits 12 (unat ?n)) ?n" using l(1) n by (intro parses_u12) simp
  show ?thesis
    unfolding eq decode_vendor_section_def [abs_def]
    apply (rule parses_bind [OF parses_map_err [OF parses_u16]],
        rule parses_bind [OF parses_map_err [OF parses_bool]])
    unfolding if_True
    by (rule parses_bind [OF parses_map_err [OF u12]])
       (use parses_map [OF parses_ranges [OF l(2) n [symmetric]], where f = RangeList] RangeList in simp)
qed

text \<open>The core segment of a consent string in wire order.\<close>

definition core_bits :: "u16 \<Rightarrow> consent_string \<Rightarrow> bool list" where
  "core_bits mx c =
     nat_bits 6 (unat (version c)) @ nat_bits 36 (nat (created c div 100)) @
     nat_bits 36 (nat (last_updated c div 100)) @ nat_bits 12 (unat (cmp_id c)) @
     nat_bits 12 (unat (cmp_version c)) @ nat_bits 6 (unat (consent_screen c)) @
     lang_bits (consent_language c) @ nat_bits 12 (unat (vendor_list_version c)) @
     nat_bits 6 (unat (tcf_policy_version c)) @ [is_service_specific c] @
     [use_non_standard_stacks c] @ special_feature_optins c @ purposes_consent c @
     purposes_li_transparency c @ [purpose_one_treatment c] @ lang_bits (publisher_cc c) @
     vendor_bits mx (vendors_consent c)"

definition time_ok :: "int \<Rightarrow> bool" where
  "time_ok ms = (0 \<le> ms \<and> ms < 100 * 2 ^ 36 \<and> ms mod 100 = 0)"

definition core_wf :: "u16 \<Rightarrow> consent_string \<Rightarrow> bool" where
  "core_wf mx c =
     (unat (version c) < 64 \<and> time_ok (created c) \<and> time_ok (last_updated c)
      \<and> unat (cmp_id c) < 4096 \<and> unat (cmp_version c) < 4096 \<and> unat (consent_screen c) < 64
      \<and> lang_ok (consent_language c) \<and> unat (vendor_list_version c) < 4096
      \<and> unat (tcf_policy_version c) < 64 \<and> length (special_feature_optins c) = 12
      \<and> length (purposes_consent c) = 24 \<and> length (purposes_li_transparency c) = 24
      \<and> lang_ok (publisher_cc c) \<and> vendor_wf mx (vendors_consent c))"

lemma parses_time [parse_intros]:
  "chrono_law chrono_ok \<Longrightarrow> time_ok ms \<Longrightarrow> parses (tcf_read_datetime chrono_ok) (nat_bits 36 (nat (ms div 100))) ms"
  by (rule parses_datetime) (auto simp: time_ok_def)

lemma parses_bind_return:
  "parses p b v \<Longrightarrow> f v = w \<Longrightarrow> parses (\<lambda>r. res_bind (p r) (\<lambda>(v, r). Inr (f v, r))) b w"
  using parses_map by auto

lemma parses_core:
  assumes "chrono_law chrono_ok" "core_wf mx c"
  shows "parses (decode_core chrono_ok) (core_bits mx c) (c\<lparr>raw := []\<rparr>)"
  using assms(2) unfolding decode_core_def [abs_def] core_bits_def core_wf_def
  apply (elim conjE)
  apply (rule parses_bind [OF parses_map_err [OF parses_u6]], assumption)
  apply (rule parses_bind [OF parses_map_err [OF parses_time [OF assms(1)]]], assumption)
  apply (rule parses_bind [OF parses_map_err [OF parses_time [OF assms(1)]]], assumption)
  apply (rule parses_bind [OF parses_map_err [OF parses_u12]], assumption)
  apply (rule parses_bind [OF parses_map_err [OF parses_u12]], assumption)
  apply (rule parses_bind [OF parses_map_err [OF parses_u6]], assumption)
  apply (rule parses_bind [OF parses_map_err [OF parses_language]], assumption)
  apply (rule parses_bind [OF parses_map_err [OF parses_u12]], assumption)
  apply (rule parses_bind [OF parses_map_err [OF parses_u6]], assumption)
  apply (rule parses_bind [OF parses_map_err [OF parses_bool]])
  apply (rule parses_bind [OF parses_map_err [OF parses_bool]])
  apply (rule parses_bind [OF parses_bools], assumption)
  apply (rule parses_bind [OF parses_bools], assumption)
  apply (rule parses_bind [OF parses_bools], assumption)
  apply (rule parses_bind [OF parses_map_err [OF parses_bool]])
  apply (rule parses_bind [OF parses_map_err [OF parses_language]], assumption)
  apply (rule parses_bind_return [OF parses_map_err [OF parses_vendor]], assumption)
  apply simp
  done

section \<open>Lemmas: every input\<close>

text \<open>No branch of the decoder ends in an out-of-range index.\<close>

definition never :: "'e \<Rightarrow> ('e, 'a) res \<Rightarrow> bool" where
  "never e m \<longleftrightarrow> m \<noteq> Inl e"

lemma never_bind: "never e m \<Longrightarrow> (\<And>a. m = Inr a \<Longrightarrow> never e (f a)) \<Longrightarrow> never e (res_bind m f)"
  by (cases m) (auto simp: never_def)

lemma never_Inr: "never e (Inr a)"
  by (simp add: never_def)

lemma never_bits: "never PanicErr (tcf_read_bits r n)"
  by (simp add: never_def tcf_read_bits_no_panic)

lemma never_split: "(\<And>v r. never e (f v r)) \<Longrightarrow> never e (case a of (v, r) \<Rightarrow> f v r)"
  by (cases a) simp

lemma never_if: "(c \<Longrightarrow> never e m) \<Longrightarrow> (\<not> c \<Longrightarrow> never e m') \<Longrightarrow> never e (if c then m else m')"
  by simp

lemma never_msg: "never CorePanic (Inl (Cause m))" "never PanicErr (Inl (BitReaderError m))"
  by (simp_all add: never_def)

lemma never_reads:
  "never PanicErr (tcf_read_bool r)" "never PanicErr (tcf_read_u6 r)"
  "never PanicErr (tcf_read_u12 r)" "never PanicErr (tcf_read_u16 r)"
  "never PanicErr (tcf_read_datetime chrono_ok r)" "never PanicErr (tcf_read_language r)"
  unfolding tcf_read_bool_def tcf_read_u6_def tcf_read_u12_def tcf_read_u16_def tcf_read_language_def
    tcf_read_datetime_def tcf_read_u36_def Let_def
  by (intro never_bind never_split never_if never_bits never_Inr never_msg)+

lemma never_label: "never PanicErr m \<Longrightarrow> never CorePanic (map_err (label_bits l) m)"
  by (cases m) (auto simp: never_def elim: label_bits.elims)

lemma never_label_cause: "never CorePanic m \<Longrightarrow> never CorePanic (map_err (label_cause l) m)"
  by (cases m) (auto simp: never_def elim: label_cause.elims)

lemmas never_intros = never_bind never_split never_label never_reads never_Inr never_if never_msg

lemma never_bools: "never CorePanic (read_bools l i n r)"
  by (induction l i n r rule: read_bools.induct) (auto intro!: never_intros)

lemma never_ranges: "never CorePanic (read_ranges mx i n r)"
proof (induction n arbitrary: i r)
  case (Suc n)
  show ?case unfolding read_ranges.simps by (intro never_intros Suc)
qed (simp add: never_def)

lemma never_vendor: "never CorePanic (decode_vendor_section r)"
  unfolding decode_vendor_section_def by (intro never_intros never_bools never_ranges)

lemma never_core: "never CorePanic (decode_core chrono_ok r)"
  unfolding decode_core_def by (intro never_intros never_bools never_label_cause never_vendor)

text \<open>The ranges the decoder accepts are non-empty, start at one and stay below the announced maximum.\<close>

lemma read_ranges_ok:
  "read_ranges mx i n r = Inr (rs, r') \<Longrightarrow> length rs = n \<and> list_all (range_ok mx) rs"
proof (induction n arbitrary: i r rs)
  case (Suc n)
  from Suc.prems obtain s e r1 rs' where
    "rs = \<lparr>range_start = s, range_end = e\<rparr> # rs'" "read_ranges mx (Suc i) n r1 = Inr (rs', r')"
    "range_ok mx \<lparr>range_start = s, range_end = e\<rparr>"
    by (clarsimp simp: res_bind_eq_Inr range_ok_def not_less split: if_split_asm) blast
  with Suc.IH show ?case by simp
qed simp

lemma read_bools_length: "read_bools l i n r = Inr (bs, r') \<Longrightarrow> length bs = n"
  by (induction l i n r arbitrary: bs r' rule: read_bools.induct) (fastforce simp: res_bind_eq_Inr)+

lemma tcf_read_u16_Inr:
  assumes "tcf_read_u16 r = Inr (v, r')"
  shows "unat v = bits_val (take 16 (tcf_rest r))"
proof -
  from assms obtain w where w: "tcf_read_bits r 16 = Inr (w, r')" "v = ucast w"
    by (auto simp: tcf_read_u16_def res_bind_eq_Inr)
  with tcf.rd_Inr(3) [OF w(1)] unat_ucast_small [OF tcf.rd_bound [OF w(1)], where 'a = 16]
  show ?thesis by simp
qed

lemma tcf_read_u12_bound:
  assumes "tcf_read_u12 r = Inr (v, r')"
  shows "unat v < 4096"
proof -
  from assms obtain w where w: "tcf_read_bits r 12 = Inr (w, r')" "v = ucast w"
    by (auto simp: tcf_read_u12_def res_bind_eq_Inr)
  with tcf.rd_bound [OF w(1)] unat_ucast_small [OF tcf.rd_bound [OF w(1)], where 'a = 16]
  show ?thesis by simp
qed

lemma decode_vendor_wf:
  assumes "decode_vendor_section r = Inr (vc, r')"
  obtains mx where "unat mx = bits_val (take 16 (tcf_rest r))" "vendor_wf mx vc"
proof -
  from assms obtain mx r1 b r2 where mx: "tcf_read_u16 r = Inr (mx, r1)" and b: "tcf_read_bool r1 = Inr (b, r2)"
    by (auto simp: decode_vendor_section_def res_bind_eq_Inr)
  have "vendor_wf mx vc"
  proof (cases b)
    case True
    with assms mx b show ?thesis
      by (auto simp: decode_vendor_section_def res_bind_eq_Inr vendor_wf_def
          dest!: read_ranges_ok tcf_read_u12_bound)
  next
    case False
    with assms mx b show ?thesis
      by (auto simp: decode_vendor_section_def res_bind_eq_Inr vendor_wf_def dest: read_bools_length)
  qed
  with that tcf_read_u16_Inr [OF mx] show ?thesis by blast
qed

text \<open>What a vendor consent section means: a set of vendor ids.\<close>

definition vendor_set :: "vendor_consent \<Rightarrow> nat set" where
  "vendor_set vc =
     (case vc of Bitfield bits \<Rightarrow> {Suc i | i. i < length bits \<and> bits ! i}
      | RangeList rs \<Rightarrow> (\<Union>r \<in> set rs. {unat (range_start r)..unat (range_end r)}) - {0})"

lemma vendor_contains_set: "vendor_contains vc v \<longleftrightarrow> unat v \<in> vendor_set vc"
proof (cases "v = 0")
  case True
  then show ?thesis by (simp add: vendor_contains_def vendor_set_def split: vendor_consent.splits)
next
  case False
  then have v: "unat v = Suc (unat (v - 1))"
    by (simp add: unat_minus_one unat_gt_0)
  then show ?thesis
    using False
    by (auto simp: vendor_contains_def vendor_set_def list_ex_iff word_le_nat_alt Let_def
        split: vendor_consent.splits)
qed

lemma vendor_set_bound: "vendor_wf mx vc \<Longrightarrow> vendor_set vc \<subseteq> {1..unat mx}"
  by (cases vc) (fastforce simp: vendor_wf_def vendor_set_def list_all_iff range_ok_def word_le_nat_alt)+

text \<open>Where the fields of an accepted core segment stand: every reader consumes a fixed number of bits.\<close>

definition takes_bits :: "nat \<Rightarrow> (tcf_reader \<Rightarrow> ('e, 'a \<times> tcf_reader) res) \<Rightarrow> (bool list \<Rightarrow> 'a \<Rightarrow> bool) \<Rightarrow> bool" where
  "takes_bits n m P \<longleftrightarrow> (\<forall>r v r'. m r = Inr (v, r') \<longrightarrow>
     n \<le> length (tcf_rest r) \<and> tcf_rest r' = drop n (tcf_rest r) \<and> P (take n (tcf_rest r)) v)"

lemma takes_bitsD:
  assumes "takes_bits n m P" "m r = Inr (v, r')"
  shows "n \<le> length (tcf_rest r)" "tcf_rest r' = drop n (tcf_rest r)" "P (take n (tcf_rest r)) v"
  using assms by (auto simp: takes_bits_def)

lemma takes_bits_read: "takes_bits n (\<lambda>r. tcf_read_bits r n) (\<lambda>bs v. unat v = bits_val bs)"
  using tcf.rd_Inr by (fastforce simp: takes_bits_def)

lemma takes_bool: "takes_bits 1 tcf_read_bool (\<lambda>bs b. bs = [b])"
  unfolding takes_bits_def
proof (intro allI impI)
  fix r b r' assume "tcf_read_bool r = Inr (b, r')"
  then obtain w where w: "tcf_read_bits r 1 = Inr (w, r')" "b = (w \<noteq> 0)"
    by (auto simp: tcf_read_bool_def res_bind_eq_Inr)
  obtain x xs where x: "tcf_rest r = x # xs" using tcf.rd_Inr(2) [OF w(1)] by (cases "tcf_rest r") auto
  then have "unat w = of_bool x" using tcf.rd_Inr(3) [OF w(1)] by (simp add: bits_val_def)
  then show "1 \<le> length (tcf_rest r) \<and> tcf_rest r' = drop 1 (tcf_rest r) \<and> take 1 (tcf_rest r) = [b]"
    using tcf.rd_Inr(4) [OF w(1)] w(2) x by (cases x) (auto simp: unat_eq_zero)
qed

lemma takes_ucast:
  assumes "n \<le> LENGTH('w :: len)"
  shows "takes_bits n (\<lambda>r. res_bind (tcf_read_bits r n) (\<lambda>(v, r). Inr (ucast v :: 'w word, r))) (\<lambda>bs v. unat v = bits_val bs)"
  unfolding takes_bits_def
proof (intro allI impI)
  fix r r' and v :: "'w word"
  assume "res_bind (tcf_read_bits r n) (\<lambda>(v, r). Inr (ucast v :: 'w word, r)) = Inr (v, r')"
  then obtain w where w: "tcf_read_bits r n = Inr (w, r')" "v = ucast w" by (auto simp: res_bind_eq_Inr)
  have "unat v = unat w" using unat_ucast_small [OF tcf.rd_bound [OF w(1)] assms] w(2) by simp
  then show "n \<le> length (tcf_rest r) \<and> tcf_rest r' = drop n (tcf_rest r) \<and> unat v = bits_val (take n (tcf_rest r))"
    using tcf.rd_Inr [OF w(1)] by simp
qed

lemma takes_num:
  "takes_bits 6 tcf_read_u6 (\<lambda>bs v. unat v = bits_val bs)"
  "takes_bits 12 tcf_read_u12 (\<lambda>bs v. unat v = bits_val bs)"
  "takes_bits 16 tcf_read_u16 (\<lambda>bs v. unat v = bits_val bs)"
  using takes_ucast [of 6, where 'w = 8] takes_ucast [of 12, where 'w = 16] takes_ucast [of 16, where 'w = 16]
  by (simp_all add: tcf_read_u6_def [abs_def] tcf_read_u12_def [abs_def] tcf_read_u16_def [abs_def])

lemma takes_time: "takes_bits 36 (tcf_read_datetime chrono_ok) (\<lambda>_ _. True)"
  unfolding takes_bits_def
proof (intro allI impI)
  fix r v r' assume "tcf_read_datetime chrono_ok r = Inr (v, r')"
  then obtain w where w: "tcf_read_bits r 36 = Inr (w, r')"
    by (auto simp: tcf_read_datetime_def tcf_read_u36_def res_bind_eq_Inr Let_def split: if_splits)
  show "36 \<le> length (tcf_rest r) \<and> tcf_rest r' = drop 36 (tcf_rest r) \<and> True"
    using tcf.rd_Inr [OF w] by simp
qed

lemma takes_language: "takes_bits 12 tcf_read_language (\<lambda>_ _. True)"
  unfolding takes_bits_def
proof (intro allI impI)
  fix r v r' assume "tcf_read_language r = Inr (v, r')"
  then obtain a r1 b where ab: "tcf_read_u6 r = Inr (a, r1)" "tcf_read_u6 r1 = Inr (b, r')"
    by (auto simp: tcf_read_language_def res_bind_eq_Inr)
  show "12 \<le> length (tcf_rest r) \<and> tcf_rest r' = drop 12 (tcf_rest r) \<and> True"
    using takes_bitsD [OF takes_num(1) ab(1)] takes_bitsD [OF takes_num(1) ab(2)] by simp
qed

lemma takes_bools: "takes_bits n (read_bools l i n) (\<lambda>bs v. v = bs)"
proof (induction n arbitrary: i)
  case (Suc n)
  show ?case
    unfolding takes_bits_def
  proof (intro allI impI)
    fix r v r' assume "read_bools l i (Suc n) r = Inr (v, r')"
    then obtain b r1 bs where b: "tcf_read_bool r = Inr (b, r1)" "read_bools l (i + 1) n r1 = Inr (bs, r')" "v = b # bs"
      by (auto simp: res_bind_eq_Inr)
    show "Suc n \<le> length (tcf_rest r) \<and> tcf_rest r' = drop (Suc n) (tcf_rest r) \<and> v = take (Suc n) (tcf_rest r)"
      using takes_bitsD [OF takes_bool b(1)] takes_bitsD [OF Suc b(2)] b(3) by (cases "tcf_rest r") auto
  qed
qed (simp add: takes_bits_def)


text \<open>The layout of an accepted core segment.\<close>

lemma decode_core_layout:
  assumes "decode_core chrono_ok r = Inr (c, r')"
  shows "unat (version c) = bits_val (take 6 (tcf_rest r)) \<and> 6 \<le> length (tcf_rest r)"
    "special_feature_optins c = take 12 (drop 140 (tcf_rest r))"
    "purposes_consent c = take 24 (drop 152 (tcf_rest r))"
    "purposes_li_transparency c = take 24 (drop 176 (tcf_rest r))"
    "\<exists>r1. tcf_rest r1 = drop 213 (tcf_rest r) \<and> decode_vendor_section r1 = Inr (vendors_consent c, r')"
proof -
  note reads = takes_bitsD(2) [OF takes_num(1)] takes_bitsD(2) [OF takes_num(2)] takes_bitsD(2) [OF takes_time]
    takes_bitsD(2) [OF takes_language] takes_bitsD(2) [OF takes_bool]
  have flags: "read_bools l i n q = Inr (v, q') \<Longrightarrow> tcf_rest q' = drop n (tcf_rest q) \<and> v = take n (tcf_rest q)" for l i n q v q'
    using takes_bitsD [OF takes_bools] by blast
  show "unat (version c) = bits_val (take 6 (tcf_rest r)) \<and> 6 \<le> length (tcf_rest r)"
    using assms unfolding decode_core_def by (clarsimp simp: res_bind_eq_Inr takes_bitsD(1,3) [OF takes_num(1)])
  have "special_feature_optins c = take 12 (drop 140 (tcf_rest r))
      \<and> purposes_consent c = take 24 (drop 152 (tcf_rest r))
      \<and> purposes_li_transparency c = take 24 (drop 176 (tcf_rest r))"
    using assms unfolding decode_core_def
    apply (clarsimp simp: res_bind_eq_Inr)
    apply ((drule flags)+, (drule reads)+)
    apply (simp add: add.commute)
    done
  then show "special_feature_optins c = take 12 (drop 140 (tcf_rest r))"
    "purposes_consent c = take 24 (drop 152 (tcf_rest r))"
    "purposes_li_transparency c = take 24 (drop 176 (tcf_rest r))" by blast+
  show "\<exists>r1. tcf_rest r1 = drop 213 (tcf_rest r) \<and> decode_vendor_section r1 = Inr (vendors_consent c, r')"
    using assms unfolding decode_core_def
    apply (clarsimp simp: res_bind_eq_Inr)
    apply (intro exI conjI)
     prefer 2 apply assumption
    apply ((drule takes_bitsD(2) [OF takes_bools])+, (drule reads)+)
    apply simp
    done
qed

lemma decode_vendor_layout:
  assumes "decode_vendor_section r = Inr (vc, r')"
  obtains mx where "17 \<le> length (tcf_rest r)" "unat mx = bits_val (take 16 (tcf_rest r))" "vendor_wf mx vc"
    "if tcf_rest r ! 16 then \<exists>rs. vc = RangeList rs \<and> length rs = bits_val (take 12 (drop 17 (tcf_rest r)))
     else vc = Bitfield (take (unat mx) (drop 17 (tcf_rest r)))"
proof -
  from assms obtain mx r1 b r2 where mx: "tcf_read_u16 r = Inr (mx, r1)" and b: "tcf_read_bool r1 = Inr (b, r2)"
    by (auto simp: decode_vendor_section_def res_bind_eq_Inr)
  note m = takes_bitsD [OF takes_num(3) mx] and f = takes_bitsD [OF takes_bool b]
  have len: "17 \<le> length (tcf_rest r)" and r2: "tcf_rest r2 = drop 17 (tcf_rest r)"
    using m f by simp_all
  have bit: "b = tcf_rest r ! 16" using f m len by (cases "drop 16 (tcf_rest r)") (auto simp: nth_via_drop)
  have wf: "vendor_wf mx vc"
    using decode_vendor_wf [OF assms] m(3) by (metis word_unat_eq_iff)
  have "if b then \<exists>rs. vc = RangeList rs \<and> length rs = bits_val (take 12 (drop 17 (tcf_rest r)))
     else vc = Bitfield (take (unat mx) (drop 17 (tcf_rest r)))"
  proof (cases b)
    case True
    with assms mx b obtain n r3 rs where n: "tcf_read_u12 r2 = Inr (n, r3)" "read_ranges mx 0 (unat n) r3 = Inr (rs, r')" "vc = RangeList rs"
      by (auto simp: decode_vendor_section_def res_bind_eq_Inr)
    then show ?thesis using True read_ranges_ok [OF n(2)] takes_bitsD(3) [OF takes_num(2) n(1)] r2 by simp
  next
    case False
    with assms mx b obtain bs where "read_bools ''bitfield'' 0 (unat mx) r2 = Inr (bs, r')" "vc = Bitfield bs"
      by (auto simp: decode_vendor_section_def res_bind_eq_Inr)
    then show ?thesis using False takes_bitsD(3) [OF takes_bools] r2 by fastforce
  qed
  then show ?thesis using that len m(3) wf bit by simp
qed

text \<open>Everything an accepted core segment determines, at its place in the decoded bytes.\<close>

definition core_at :: "bool list \<Rightarrow> consent_string \<Rightarrow> bool" where
  "core_at bits c =
     (230 \<le> length bits \<and> unat (version c) = bits_val (take 6 bits)
      \<and> special_feature_optins c = take 12 (drop 140 bits)
      \<and> purposes_consent c = take 24 (drop 152 bits)
      \<and> purposes_li_transparency c = take 24 (drop 176 bits)
      \<and> (let mx = bits_val (take 16 (drop 213 bits))
         in case vendors_consent c of
              Bitfield flags \<Rightarrow> \<not> bits ! 229 \<and> flags = take mx (drop 230 bits) \<and> length flags = mx
            | RangeList rs \<Rightarrow> bits ! 229 \<and> length rs = bits_val (take 12 (drop 230 bits))
                \<and> list_all (\<lambda>r. 0 < unat (range_start r) \<and> unat (range_start r) \<le> unat (range_end r) \<and> unat (range_end r) \<le> mx) rs))"

lemma decode_core_at:
  assumes "decode_core chrono_ok r = Inr (c, r')"
  shows "core_at (tcf_rest r) c"
proof -
  note lay = decode_core_layout [OF assms]
  obtain r1 where r1: "tcf_rest r1 = drop 213 (tcf_rest r)" "decode_vendor_section r1 = Inr (vendors_consent c, r')"
    using lay(5) by blast
  obtain mx where v: "17 \<le> length (tcf_rest r1)" "unat mx = bits_val (take 16 (tcf_rest r1))" "vendor_wf mx (vendors_consent c)"
    "if tcf_rest r1 ! 16 then \<exists>rs. vendors_consent c = RangeList rs \<and> length rs = bits_val (take 12 (drop 17 (tcf_rest r1)))
     else vendors_consent c = Bitfield (take (unat mx) (drop 17 (tcf_rest r1)))"
    using decode_vendor_layout [OF r1(2)] by blast
  have len: "230 \<le> length (tcf_rest r)" using v(1) r1(1) by simp
  show ?thesis
    using lay(1-4) v(2-4) len unfolding r1(1) core_at_def
    by (auto simp: vendor_wf_def Let_def range_ok_def list_all_iff word_le_nat_alt unat_gt_0 split: if_splits vendor_consent.splits)
qed

lemma consent_parse_at:
  assumes "consent_parse b64 chrono_ok s = Inr c"
  shows "raw c = s \<and> (\<exists>bs. decode_base64url b64 (hd (split_on (CHR ''.'') s)) = Inr bs \<and> core_at (bits_of bs) c)"
proof -
  from assms obtain bs c0 r where bs: "decode_base64url b64 (hd (split_on (CHR ''.'') s)) = Inr bs"
    "decode_core chrono_ok (tcf_new bs) = Inr (c0, r)" "c = c0\<lparr>raw := s\<rparr>"
    by (auto simp: consent_parse_def Let_def res_bind_eq_Inr split: if_splits)
  then have "core_at (bits_of bs) c" using decode_core_at [OF bs(2)] by (simp add: core_at_def)
  then show ?thesis using bs by simp
qed

lemma core_at_vendors: "core_at bits c \<Longrightarrow> vendor_set (vendors_consent c) \<subseteq> {1..bits_val (take 16 (drop 213 bits))}"
  by (cases "vendors_consent c") (fastforce simp: core_at_def vendor_set_def list_all_iff Let_def)+

text \<open>Parsing an encoded core segment.\<close>

lemma consent_parse_encoded:
  assumes "chrono_law chrono_ok" "core_wf mx c"
    "b64 s = Inr (pack_bits (core_bits mx c))"
    "s \<noteq> []" "CHR ''.'' \<notin> set s" "last s \<noteq> CHR ''=''" "segs = [] \<or> hd segs = CHR ''.''"
  shows "consent_parse b64 chrono_ok (s @ segs) = Inr (c\<lparr>raw := s @ segs\<rparr>)"
proof -
  have "hd (split_on (CHR ''.'') (s @ segs)) = s"
    using assms(5,7) by (cases segs) (auto simp: split_on_no_sep split_on_append_sep)
  moreover have "trim_end_matches (CHR ''='') s = s"
    using assms(4,6) by (cases s rule: rev_cases) (simp_all add: trim_end_matches_def)
  moreover obtain r' where "decode_core chrono_ok (tcf_new (pack_bits (core_bits mx c))) = Inr (c\<lparr>raw := []\<rparr>, r')"
  proof -
    obtain t where "tcf_rest (tcf_new (pack_bits (core_bits mx c))) = core_bits mx c @ t"
      by (simp add: bits_of_pack_bits)
    from parses_core [OF assms(1,2), unfolded parses_def, rule_format, OF this] that show ?thesis by blast
  qed
  ultimately show ?thesis
    using assms(3,4) by (simp add: consent_parse_def decode_base64url_def Let_def)
qed

section \<open>Properties\<close>

text \<open>Property C31.  Round trip of the consent string: if the first segment of the string decodes to the core
  segment of \<open>c\<close>, packed in wire order with either vendor encoding, then parsing returns \<open>c\<close> with the
  whole string, further segments included, as its raw form.  The hypothesis on \<open>chrono\<close> is that it
  accepts the instants a 36-bit decisecond counter can express.\<close>

theorem consent_roundtrip:
  assumes "chrono_law chrono_ok" "core_wf mx c"
    "b64 s = Inr (pack_bits (core_bits mx c))"
    "s \<noteq> []" "CHR ''.'' \<notin> set s" "last s \<noteq> CHR ''=''" "segs = [] \<or> hd segs = CHR ''.''"
  shows "consent_parse b64 chrono_ok (s @ segs) = Inr (c\<lparr>raw := s @ segs\<rparr>)"
  using assms by (rule consent_parse_encoded)

definition sample_consent :: consent_string where
  "sample_consent =
     \<lparr>raw = [], version = 2, created = 1600000000000, last_updated = 1650000000000, cmp_id = 42,
      cmp_version = 3, consent_screen = 1, consent_language = ''EN'', vendor_list_version = 150,
      tcf_policy_version = 4, is_service_specific = True, use_non_standard_stacks = False,
      special_feature_optins = replicate 12 True, purposes_consent = replicate 24 True,
      purposes_li_transparency = replicate 24 False, purpose_one_treatment = False,
      publisher_cc = ''US'',
      vendors_consent = RangeList [\<lparr>range_start = 5, range_end = 9\<rparr>, \<lparr>range_start = 42, range_end = 42\<rparr>]\<rparr>"

theorem consent_roundtrip_witness:
  "consent_parse (\<lambda>s. if s = ''CAAA'' then Inr (pack_bits (core_bits 42 sample_consent)) else Inl ''x'')
     (\<lambda>ms. ms \<le> 8210298412799999) ''CAAA.IAAA'' = Inr (sample_consent\<lparr>raw := ''CAAA.IAAA''\<rparr>)"
proof -
  have "core_wf 42 sample_consent"
    by (simp add: core_wf_def sample_consent_def time_ok_def lang_ok_def vendor_wf_def range_ok_def)
  moreover have "chrono_law (\<lambda>ms. ms \<le> 8210298412799999)" by (simp add: chrono_law_def)
  ultimately show ?thesis
    using consent_roundtrip [of "\<lambda>ms. ms \<le> 8210298412799999" 42 sample_consent
      "\<lambda>s. if s = ''CAAA'' then Inr (pack_bits (core_bits 42 sample_consent)) else Inl ''x''" "''CAAA''" "''.IAAA''"]
    by simp
qed

text \<open>Property C32.  Parsing never reads outside the decoded bytes, whatever the string is; and what it
  accepts is read off its place in the decoded first segment: the version, the twelve special features, the 24 purposes
  and the 24 legitimate-interest flags are the bits at 0, 140, 152 and 176; the maximum vendor id is announced at bit
  213, a bit field of vendors is the announced number of bits from 230 on, and every range of a range
  section is non-empty, starts above zero and ends at most at the announced maximum, so no vendor outside
  \<open>1..max\<close> has consent.\<close>

theorem consent_parse_safe:
  "consent_parse b64 chrono_ok s \<noteq> Inl (MalformedConsentError s CorePanic)
   \<and> (case consent_parse b64 chrono_ok s of
        Inr c \<Rightarrow> raw c = s
          \<and> (\<exists>bs. decode_base64url b64 (hd (split_on (CHR ''.'') s)) = Inr bs
               \<and> core_at (bits_of bs) c
               \<and> vendor_set (vendors_consent c) \<subseteq> {1..bits_val (take 16 (drop 213 (bits_of bs)))})
      | Inl _ \<Rightarrow> True)"
proof -
  have "decode_core chrono_ok r \<noteq> Inl CorePanic" for r
    using never_core [of chrono_ok r] by (simp add: never_def)
  then have "consent_parse b64 chrono_ok s \<noteq> Inl (MalformedConsentError s CorePanic)"
    by (auto simp: consent_parse_def Let_def res_bind_eq_Inl map_err_def split: if_splits sum.splits)
  then show ?thesis using consent_parse_at core_at_vendors by (fastforce split: sum.split)
qed
text \<open>\<^verbatim>\<open>VendorConsent::contains\<close> decides membership in the set of vendor ids the section
  denotes, for both encodings and for every 16-bit id, the invalid id zero included; the subtraction
  \<^verbatim>\<open>vendor_id - 1\<close> does not wrap.\<close>

theorem vendor_contains_iff: "vendor_contains vc v \<longleftrightarrow> unat v \<in> vendor_set vc"
  by (rule vendor_contains_set)

text \<open>The infallible constructor keeps the raw string and fails closed: when parsing fails,
  the placeholder grants no vendor, no purpose and no special feature.\<close>

theorem consent_new_fail_closed:
  "raw (consent_new b64 chrono_ok s) = s
   \<and> (is_ok (consent_parse b64 chrono_ok s) \<or>
      (\<forall>v. \<not> vendor_contains (vendors_consent (consent_new b64 chrono_ok s)) v)
      \<and> True \<notin> set (purposes_consent (consent_new b64 chrono_ok s))
      \<and> True \<notin> set (purposes_li_transparency (consent_new b64 chrono_ok s))
      \<and> True \<notin> set (special_feature_optins (consent_new b64 chrono_ok s)))"
proof (cases "consent_parse b64 chrono_ok s")
  case (Inl e)
  then show ?thesis by (simp add: consent_new_def vendor_contains_def)
next
  case (Inr c)
  then have "raw c = s"
    by (auto simp: consent_parse_def Let_def res_bind_eq_Inr split: if_splits)
  with Inr show ?thesis by (simp add: consent_new_def)
qed

text \<open>The GDPR signal: parsing yields the ambiguous value exactly for the empty string, 0 and 1
  for the decimal strings of these values and an error for every other string; after normalisation the
  signal is decided, and a signal that was decided keeps its value.\<close>

theorem signal_spec:
  "(signal_parse_str s = Inr Ambiguous \<longleftrightarrow> s = [])
   \<and> (signal_parse_str s = Inr No \<longleftrightarrow> s \<noteq> [] \<and> parse_i32 s = Some 0)
   \<and> (signal_parse_str s = Inr Yes \<longleftrightarrow> s \<noteq> [] \<and> parse_i32 s = Some 1)
   \<and> signal_as_i8 (signal_normalize sg d)
       = (if sg = Ambiguous then (if d = ''0'' then 0 else 1) else signal_as_i8 sg)"
  by (cases sg) (auto simp: signal_parse_str_def signal_from_int_def signal_normalize_def split: option.splits)

end
