(* ===== verification/F64.thy ===== *)
theory F64
  imports Prelude Complex_Main
begin

text \<open>
  Rust's \<^verbatim>\<open>f64\<close>: IEEE 754 binary64 with round-to-nearest, ties to even.  A finite number is its sign and
  its magnitude as a rational, so that the sign of zero is kept; prices, floors, currency rates and
  price buckets of the exchange are such numbers.  All operations compute.

  The lemmas show what the exchange relies on: comparison is a linear order on the numbers other than
  NaN, and rounding, multiplication, division and \<^verbatim>\<open>floor\<close> are monotone.
\<close>

section \<open>Values and comparison\<close>

datatype f64 = NaN | Inf bool | Fin bool rat

text \<open>The sign argument is \<^const>\<open>True\<close> for negative numbers.\<close>

fun sgnd :: "bool \<Rightarrow> rat \<Rightarrow> rat" where
  "sgnd s q = (if s then - q else q)"

fun f_lt :: "f64 \<Rightarrow> f64 \<Rightarrow> bool" where
  "f_lt NaN y = False"
| "f_lt x NaN = False"
| "f_lt (Inf a) (Inf b) = (a \<and> \<not> b)"
| "f_lt (Inf a) (Fin b q) = a"
| "f_lt (Fin a p) (Inf b) = (\<not> b)"
| "f_lt (Fin a p) (Fin b q) = (sgnd a p < sgnd b q)"

fun f_le :: "f64 \<Rightarrow> f64 \<Rightarrow> bool" where
  "f_le NaN y = False"
| "f_le x NaN = False"
| "f_le x y = (\<not> f_lt y x)"

definition f_eq :: "f64 \<Rightarrow> f64 \<Rightarrow> bool" where
  "f_eq x y = (f_le x y \<and> f_le y x)"

text \<open>\<^verbatim>\<open>partial_cmp\<close>: \<^const>\<open>None\<close> when a NaN is involved, else the sign of the comparison.\<close>

definition f_partial_cmp :: "f64 \<Rightarrow> f64 \<Rightarrow> int option" where
  "f_partial_cmp x y = (if f_lt x y then Some (-1) else if f_eq x y then Some 0
                        else if f_lt y x then Some 1 else None)"

section \<open>Rounding\<close>

function bitlen :: "int \<Rightarrow> int" where
  "bitlen n = (if n \<le> 0 then 0 else 1 + bitlen (n div 2))"
  by pat_completeness auto
termination
  by (relation "measure nat") auto

declare bitlen.simps [simp del]

definition p2 :: "int \<Rightarrow> rat" where
  "p2 k = (if 0 \<le> k then 2 ^ nat k else 1 / 2 ^ nat (- k))"

text \<open>\<open>ilog2 q\<close> is the exponent of the largest power of two below a positive \<open>q\<close>.\<close>

definition ilog2_from :: "rat \<Rightarrow> int \<Rightarrow> int" where
  "ilog2_from q k = (if p2 k \<le> q then k else k - 1)"

definition ilog2 :: "rat \<Rightarrow> int" where
  "ilog2 q = ilog2_from q (bitlen (fst (quotient_of q)) - bitlen (snd (quotient_of q)))"

definition rne_from :: "int \<Rightarrow> rat \<Rightarrow> int" where
  "rne_from f d =
     (if d < 1 / 2 then f else if d > 1 / 2 then f + 1 else if even f then f else f + 1)"

definition rne :: "rat \<Rightarrow> int" where
  "rne x = rne_from \<lfloor>x\<rfloor> (x - of_int \<lfloor>x\<rfloor>)"

text \<open>The unit in the last place at a magnitude, with the subnormal numbers below \<open>2^-1022\<close>.\<close>

definition ulp_exp :: "rat \<Rightarrow> int" where
  "ulp_exp q = max (- 1074) (ilog2 q - 52)"

definition round_at :: "int \<Rightarrow> rat \<Rightarrow> rat" where
  "round_at e q = of_int (rne (q / p2 e)) * p2 e"

definition round_mag :: "rat \<Rightarrow> rat" where
  "round_mag q = round_at (ulp_exp q) q"

definition pack_f64 :: "bool \<Rightarrow> rat \<Rightarrow> f64" where
  "pack_f64 s r = (if p2 1024 \<le> r then Inf s else Fin s r)"

definition rnd :: "bool \<Rightarrow> rat \<Rightarrow> f64" where
  "rnd s v = (if v = 0 then Fin s 0 else pack_f64 (v < 0) (round_mag \<bar>v\<bar>))"

section \<open>Arithmetic\<close>

fun f_neg :: "f64 \<Rightarrow> f64" where
  "f_neg NaN = NaN" | "f_neg (Inf s) = Inf (\<not> s)" | "f_neg (Fin s q) = Fin (\<not> s) q"

fun f_add :: "f64 \<Rightarrow> f64 \<Rightarrow> f64" where
  "f_add NaN y = NaN"
| "f_add x NaN = NaN"
| "f_add (Inf a) (Inf b) = (if a = b then Inf a else NaN)"
| "f_add (Inf a) (Fin b q) = Inf a"
| "f_add (Fin a p) (Inf b) = Inf b"
| "f_add (Fin a p) (Fin b q) = rnd (a \<and> b) (sgnd a p + sgnd b q)"

definition f_sub :: "f64 \<Rightarrow> f64 \<Rightarrow> f64" where
  "f_sub x y = f_add x (f_neg y)"

fun f_mul :: "f64 \<Rightarrow> f64 \<Rightarrow> f64" where
  "f_mul NaN y = NaN"
| "f_mul x NaN = NaN"
| "f_mul (Inf a) (Inf b) = Inf (a \<noteq> b)"
| "f_mul (Inf a) (Fin b q) = (if q = 0 then NaN else Inf (a \<noteq> b))"
| "f_mul (Fin a p) (Inf b) = (if p = 0 then NaN else Inf (a \<noteq> b))"
| "f_mul (Fin a p) (Fin b q) = rnd (a \<noteq> b) (sgnd a p * sgnd b q)"

fun f_div :: "f64 \<Rightarrow> f64 \<Rightarrow> f64" where
  "f_div NaN y = NaN"
| "f_div x NaN = NaN"
| "f_div (Inf a) (Inf b) = NaN"
| "f_div (Inf a) (Fin b q) = Inf (a \<noteq> b)"
| "f_div (Fin a p) (Inf b) = Fin (a \<noteq> b) 0"
| "f_div (Fin a p) (Fin b q) =
     (if q = 0 then if p = 0 then NaN else Inf (a \<noteq> b)
      else rnd (a \<noteq> b) (sgnd a p / sgnd b q))"

fun f_floor :: "f64 \<Rightarrow> f64" where
  "f_floor (Fin s q) = Fin s \<bar>of_int \<lfloor>sgnd s q\<rfloor>\<bar>"
| "f_floor x = x"

text \<open>\<^verbatim>\<open>f64::min\<close> and \<^verbatim>\<open>f64::max\<close> ignore a NaN operand.\<close>

fun f_min :: "f64 \<Rightarrow> f64 \<Rightarrow> f64" where
  "f_min NaN y = y"
| "f_min x NaN = x"
| "f_min x y = (if f_lt y x then y else x)"

fun f_max :: "f64 \<Rightarrow> f64 \<Rightarrow> f64" where
  "f_max NaN y = y"
| "f_max x NaN = x"
| "f_max x y = (if f_lt x y then y else x)"

text \<open>A literal or a conversion from an integer: the nearest number.\<close>

definition f_of :: "rat \<Rightarrow> f64" where
  "f_of q = rnd False q"

section \<open>Formatting\<close>

text \<open>\<^verbatim>\<open>format!("{:.prec$}", x)\<close>: the exact decimal expansion rounded to \<open>prec\<close> digits, ties to even.\<close>

definition pad_left :: "nat \<Rightarrow> string \<Rightarrow> string" where
  "pad_left n s = replicate (n - length s) (CHR ''0'') @ s"

definition split_digits :: "nat \<Rightarrow> nat \<Rightarrow> string" where
  "split_digits prec n =
     show_nat (n div 10 ^ prec) @
     (if prec = 0 then [] else CHR ''.'' # pad_left prec (show_nat (n mod 10 ^ prec)))"

definition fixed_digits :: "nat \<Rightarrow> rat \<Rightarrow> string" where
  "fixed_digits prec q = split_digits prec (nat (rne (q * 10 ^ prec)))"

fun fmt_fixed :: "nat \<Rightarrow> f64 \<Rightarrow> string" where
  "fmt_fixed prec NaN = ''NaN''"
| "fmt_fixed prec (Inf s) = (if s then ''-inf'' else ''inf'')"
| "fmt_fixed prec (Fin s q) = (if s then ''-'' else []) @ fixed_digits prec q"

text \<open>\<^verbatim>\<open>format!("{}", x)\<close>: the shortest decimal that reads back as \<open>x\<close>, without an exponent.\<close>

function ndigits :: "int \<Rightarrow> nat" where
  "ndigits n = (if n \<le> 0 then 0 else Suc (ndigits (n div 10)))"
  by pat_completeness auto
termination
  by (relation "measure nat") auto

declare ndigits.simps [simp del]

definition p10 :: "int \<Rightarrow> rat" where
  "p10 k = (if 0 \<le> k then 10 ^ nat k else 1 / 10 ^ nat (- k))"

definition ilog10 :: "rat \<Rightarrow> int" where
  "ilog10 q = (if 1 \<le> q then int (ndigits \<lfloor>q\<rfloor>) - 1 else - int (ndigits (\<lceil>1 / q\<rceil> - 1)))"

definition digits_at :: "rat \<Rightarrow> int \<Rightarrow> int option" where
  "digits_at q e =
     (let x = q / p10 e; f = \<lfloor>x\<rfloor>;
          lo = (round_mag (of_int f * p10 e) = q); hi = (round_mag (of_int (f + 1) * p10 e) = q)
      in if lo \<and> (\<not> hi \<or> x - of_int f \<le> 1 / 2) then Some f
         else if hi then Some (f + 1) else None)"

fun shortest :: "rat \<Rightarrow> int \<Rightarrow> nat list \<Rightarrow> int \<times> int" where
  "shortest q k [] = (\<lfloor>q / p10 (k - 16)\<rfloor>, k - 16)"
| "shortest q k (n # ns) =
     (case digits_at q (k - int n + 1) of Some d \<Rightarrow> (d, k - int n + 1) | None \<Rightarrow> shortest q k ns)"

definition place_point :: "int \<times> int \<Rightarrow> string" where
  "place_point de =
     (let (d, e) = de; s = show_nat (nat d); m = nat (- e)
      in if 0 \<le> e then s @ replicate (nat e) (CHR ''0'')
         else if m < length s then take (length s - m) s @ CHR ''.'' # drop (length s - m) s
         else ''0.'' @ pad_left m s)"

fun fmt_display :: "f64 \<Rightarrow> string" where
  "fmt_display NaN = ''NaN''"
| "fmt_display (Inf s) = (if s then ''-inf'' else ''inf'')"
| "fmt_display (Fin s q) =
     (if s then ''-'' else []) @
     (if q = 0 then ''0'' else place_point (shortest q (ilog10 q) [1..<18]))"

section \<open>Lemmas: comparison\<close>

definition is_num :: "f64 \<Rightarrow> bool" where
  "is_num x = (x \<noteq> NaN)"

lemma f_le_refl: "is_num x \<Longrightarrow> f_le x x"
  by (cases x) (auto simp: is_num_def)

lemma f_le_num: "f_le x y \<Longrightarrow> is_num x \<and> is_num y"
  by (cases x; cases y) (auto simp: is_num_def)

lemma f_lt_num: "f_lt x y \<Longrightarrow> is_num x \<and> is_num y"
  by (cases x; cases y) (auto simp: is_num_def)

lemma f_le_trans: "f_le x y \<Longrightarrow> f_le y z \<Longrightarrow> f_le x z"
  by (cases x; cases y; cases z) (auto split: if_splits)

lemma f_le_total: "is_num x \<Longrightarrow> is_num y \<Longrightarrow> f_le x y \<or> f_le y x"
  by (cases x; cases y) (auto simp: is_num_def)

lemma f_lt_iff: "is_num x \<Longrightarrow> is_num y \<Longrightarrow> f_lt x y \<longleftrightarrow> \<not> f_le y x"
  by (cases x; cases y) (auto simp: is_num_def)

lemma f_lt_le: "f_lt x y \<Longrightarrow> f_le x y"
  by (cases x; cases y) auto

lemma f_lt_irrefl [simp]: "\<not> f_lt x x"
  by (cases x) auto

lemma f_lt_trans: "f_lt x y \<Longrightarrow> f_lt y z \<Longrightarrow> f_lt x z"
  by (cases x; cases y; cases z) (auto split: if_splits)

lemma f_le_lt_trans: "f_le x y \<Longrightarrow> f_lt y z \<Longrightarrow> f_lt x z"
  by (cases x; cases y; cases z) (auto split: if_splits)

lemma f_lt_le_trans: "f_lt x y \<Longrightarrow> f_le y z \<Longrightarrow> f_lt x z"
  by (cases x; cases y; cases z) (auto split: if_splits)

lemma f_lt_not_le: "f_lt x y \<Longrightarrow> \<not> f_le y x"
  by (cases x; cases y) auto

section \<open>Lemmas: rounding\<close>

lemma p2_powi: "p2 k = 2 powi k"
  by (simp add: p2_def power_int_def power_one_over inverse_eq_divide)

lemma p2_pos [simp]: "0 < p2 k"
  by (simp add: p2_powi zero_less_power_int)

lemma p2_add: "p2 (a + b) = p2 a * p2 b"
  by (simp add: p2_powi power_int_add)

lemma p2_nonneg [simp]: "0 \<le> p2 k"
  by (simp add: less_imp_le)

lemma p2_mono: "a \<le> b \<Longrightarrow> p2 a \<le> p2 b"
  by (simp add: p2_powi power_int_increasing)

lemma p2_1 [simp]: "p2 1 = 2" "p2 0 = 1"
  by (simp_all add: p2_def)

lemma p2_int: "0 \<le> k \<Longrightarrow> \<exists>n. p2 k = of_int n"
  by (rule exI [of _ "2 ^ nat k"]) (simp add: p2_def)

lemma bitlen_nonneg: "0 \<le> bitlen n"
  by (induction n rule: bitlen.induct) (simp add: bitlen.simps)

lemma bitlen_bounds: "0 < n \<Longrightarrow> p2 (bitlen n - 1) \<le> of_int n \<and> of_int n < p2 (bitlen n)"
proof (induction n rule: bitlen.induct)
  case (1 n)
  show ?case
  proof (cases "n = 1")
    case True
    then show ?thesis by (simp add: bitlen.simps [of 1] bitlen.simps [of 0])
  next
    case False
    let ?m = "n div 2"
    have m: "0 < ?m" using False 1(2) by simp
    from 1(1) m 1(2) have ih: "p2 (bitlen ?m - 1) \<le> of_int ?m" "of_int ?m < p2 (bitlen ?m)" by auto
    have bl: "bitlen n = bitlen ?m + 1" using 1(2) by (subst bitlen.simps) simp
    have "bitlen ?m = (bitlen ?m - 1) + 1" by simp
    then have "p2 (bitlen n - 1) = 2 * p2 (bitlen ?m - 1)"
      using bl p2_add [of "bitlen ?m - 1" 1] by simp
    moreover have "2 * (of_int ?m :: rat) \<le> of_int n" by (simp flip: of_int_mult of_int_le_iff)
    moreover obtain j where j: "p2 (bitlen ?m) = of_int j" using p2_int bitlen_nonneg by blast
    moreover have "?m + 1 \<le> j" using ih(2) j by simp
    moreover have "n < 2 * j" using calculation(4) by linarith
    moreover have "p2 (bitlen n) = 2 * p2 (bitlen ?m)" by (simp add: bl p2_add)
    ultimately show ?thesis using ih(1) by (simp flip: of_int_mult)
  qed
qed

lemma ilog2_bounds:
  assumes "0 < q"
  shows "p2 (ilog2 q) \<le> q \<and> q < p2 (ilog2 q + 1)"
proof -
  obtain a b where ab: "quotient_of q = (a, b)" by force
  have b: "0 < b" by (rule quotient_of_denom_pos [OF ab])
  have q: "q = of_int a / of_int b" by (rule quotient_of_div [OF ab])
  have a: "0 < a" using assms q b by (simp add: zero_less_divide_iff)
  let ?k = "bitlen a - bitlen b"
  from bitlen_bounds [OF a] bitlen_bounds [OF b]
  have A: "p2 (bitlen a - 1) \<le> of_int a" "of_int a < p2 (bitlen a)"
    and B: "p2 (bitlen b - 1) \<le> of_int b" "of_int b < p2 (bitlen b)" by auto
  have bp: "(0::rat) < of_int b" using b by simp
  have "p2 (?k - 1) * p2 (bitlen b) = p2 (bitlen a - 1)" by (simp flip: p2_add)
  then have "p2 (?k - 1) * of_int b \<le> of_int a"
    using A(1) B(2) mult_left_mono [of "of_int b" "p2 (bitlen b)" "p2 (?k - 1)"] by simp
  then have lo: "p2 (?k - 1) \<le> q" using bp by (simp add: q le_divide_eq)
  have "p2 (?k + 1) * p2 (bitlen b - 1) = p2 (bitlen a)" by (simp flip: p2_add)
  then have "of_int a < p2 (?k + 1) * of_int b"
    using A(2) B(1) mult_left_mono [of "p2 (bitlen b - 1)" "of_int b" "p2 (?k + 1)"] by simp
  then have hi: "q < p2 (?k + 1)" using bp by (simp add: q divide_less_eq)
  show ?thesis using lo hi by (simp add: ilog2_def ilog2_from_def ab)
qed

lemma ilog2_mono: "0 < q \<Longrightarrow> q \<le> r \<Longrightarrow> ilog2 q \<le> ilog2 r"
proof (rule ccontr)
  assume a: "0 < q" "q \<le> r" "\<not> ilog2 q \<le> ilog2 r"
  then have "p2 (ilog2 r + 1) \<le> p2 (ilog2 q)" by (intro p2_mono) simp
  with a ilog2_bounds [of q] ilog2_bounds [of r] show False by simp
qed

lemma rne_cases: "rne x = \<lfloor>x\<rfloor> \<and> x - of_int \<lfloor>x\<rfloor> \<le> 1 / 2 \<or> rne x = \<lfloor>x\<rfloor> + 1 \<and> 1 / 2 \<le> x - of_int \<lfloor>x\<rfloor>"
  by (auto simp: rne_def rne_from_def)

lemma rne_mono: "x \<le> y \<Longrightarrow> rne x \<le> rne y"
proof (cases "\<lfloor>x\<rfloor> = \<lfloor>y\<rfloor>")
  case True
  assume "x \<le> y"
  with True show ?thesis by (auto simp: rne_def rne_from_def)
next
  case False
  assume "x \<le> y"
  then have "\<lfloor>x\<rfloor> \<le> \<lfloor>y\<rfloor>" by (rule floor_mono)
  with False have "\<lfloor>x\<rfloor> + 1 \<le> \<lfloor>y\<rfloor>" by simp
  then show ?thesis using rne_cases [of x] rne_cases [of y] by linarith
qed

lemma rne_of_int [simp]: "rne (of_int n) = n"
  by (simp add: rne_def rne_from_def)

lemma round_at_mono: "q \<le> r \<Longrightarrow> round_at e q \<le> round_at e r"
  by (simp add: round_at_def rne_mono divide_right_mono mult_right_mono less_imp_le)

lemma round_at_p2: "e \<le> k \<Longrightarrow> round_at e (p2 k) = p2 k"
proof -
  assume "e \<le> k"
  then obtain n where n: "p2 (k - e) = of_int n" using p2_int [of "k - e"] by auto
  have "p2 k = p2 (k - e) * p2 e" by (simp flip: p2_add)
  then show ?thesis by (simp add: round_at_def n)
qed

lemma round_mag_mono:
  assumes "0 < q" "q \<le> r"
  shows "round_mag q \<le> round_mag r"
proof (cases "ulp_exp q = ulp_exp r")
  case True
  then show ?thesis using round_at_mono [OF assms(2)] by (simp add: round_mag_def)
next
  case False
  have i: "ilog2 q \<le> ilog2 r" by (rule ilog2_mono [OF assms])
  with False have r: "ulp_exp r = ilog2 r - 52" "ulp_exp q < ilog2 r" and iq: "ilog2 q + 1 \<le> ilog2 r"
    by (auto simp: ulp_exp_def max_def split: if_splits)
  have "q \<le> p2 (ilog2 r)"
    using ilog2_bounds [OF assms(1)] p2_mono [OF iq] by linarith
  then have "round_mag q \<le> p2 (ilog2 r)"
    using round_at_mono [of q "p2 (ilog2 r)" "ulp_exp q"] round_at_p2 [of "ulp_exp q" "ilog2 r"] r(2)
    by (simp add: round_mag_def)
  also have "p2 (ilog2 r) \<le> round_mag r"
    using round_at_mono [of "p2 (ilog2 r)" r "ulp_exp r"] round_at_p2 [of "ulp_exp r" "ilog2 r"] r(1)
      ilog2_bounds [of r] assms
    by (simp add: round_mag_def)
  finally show ?thesis .
qed

lemma round_mag_nonneg: "0 \<le> q \<Longrightarrow> 0 \<le> round_mag q"
  using rne_mono [of 0 "q / p2 (ulp_exp q)"] rne_of_int [of 0]
  by (simp add: round_mag_def round_at_def less_imp_le)

lemma rnd_mono: "v \<le> w \<Longrightarrow> f_le (rnd s v) (rnd t w)"
proof -
  assume vw: "v \<le> w"
  have nn: "0 \<le> round_mag \<bar>v\<bar>" "0 \<le> round_mag \<bar>w\<bar>" by (simp_all add: round_mag_nonneg)
  show ?thesis
  proof (cases "v < 0")
    case False
    then have "v = 0 \<or> w \<noteq> 0 \<and> round_mag \<bar>v\<bar> \<le> round_mag \<bar>w\<bar>" "\<not> w < 0"
      using vw round_mag_mono [of v w] by auto
    with False nn show ?thesis by (auto simp: rnd_def pack_f64_def)
  next
    case True
    then have "0 \<le> w \<or> round_mag \<bar>w\<bar> \<le> round_mag \<bar>v\<bar>"
      using vw round_mag_mono [of "- w" "- v"] by (cases "w < 0") simp_all
    with True nn show ?thesis by (auto simp: rnd_def pack_f64_def)
  qed
qed

section \<open>Lemmas: monotone operations\<close>

lemma rnd_num: "is_num (rnd s v)"
  by (simp add: rnd_def pack_f64_def is_num_def)

lemma f_le_Inf: "is_num x \<Longrightarrow> f_le x (Inf False)" "is_num x \<Longrightarrow> f_le (Inf True) x"
  by (cases x; auto simp: is_num_def)+

lemma f_mul_mono:
  assumes "0 < c" "f_le x y"
  shows "f_le (f_mul x (Fin False c)) (f_mul y (Fin False c))"
proof (cases x; cases y)
  fix a p b q
  assume xy: "x = Fin a p" "y = Fin b q"
  with assms have "sgnd a p * c \<le> sgnd b q * c" by (simp add: mult_right_mono not_less del: sgnd.simps)
  with xy show ?thesis using rnd_mono by (simp del: sgnd.simps) (simp add: rnd_mono)
qed (use assms rnd_num f_le_Inf in auto)

lemma f_div_mono:
  assumes "0 < c" "f_le x y"
  shows "f_le (f_div x (Fin False c)) (f_div y (Fin False c))"
proof (cases x; cases y)
  fix a p b q
  assume xy: "x = Fin a p" "y = Fin b q"
  with assms have "sgnd a p / c \<le> sgnd b q / c" by (simp add: divide_right_mono not_less del: sgnd.simps)
  with xy assms show ?thesis using rnd_mono by (simp del: sgnd.simps) (simp add: rnd_mono)
qed (use assms rnd_num f_le_Inf in auto)

definition f_wf :: "f64 \<Rightarrow> bool" where
  "f_wf x = (case x of Fin s q \<Rightarrow> 0 \<le> q | _ \<Rightarrow> True)"

lemma sgnd_floor: "0 \<le> q \<Longrightarrow> sgnd s \<bar>of_int \<lfloor>sgnd s q\<rfloor>\<bar> = (of_int \<lfloor>sgnd s q\<rfloor> :: rat)"
  by simp

lemma f_floor_mono: "f_wf x \<Longrightarrow> f_wf y \<Longrightarrow> f_le x y \<Longrightarrow> f_le (f_floor x) (f_floor y)"
  by (cases x; cases y) (simp_all add: f_wf_def sgnd_floor floor_mono not_less del: sgnd.simps)

lemma f_min_mono: "f_le x y \<Longrightarrow> is_num c \<Longrightarrow> f_le (f_min x c) (f_min y c)"
  by (cases x; cases y; cases c) (auto simp: is_num_def)

lemma f_min_le: "is_num c \<Longrightarrow> f_le (f_min x c) c"
  by (cases x; cases c) (auto simp: is_num_def)

lemma f_wf_rnd [simp]: "f_wf (rnd s v)"
  by (simp add: rnd_def pack_f64_def f_wf_def round_mag_nonneg)

lemma f_wf_mul: "f_wf (f_mul x y)"
  using f_wf_rnd by (cases x; cases y) (auto simp: f_wf_def [of NaN] f_wf_def [of "Inf _"] simp del: sgnd.simps)

end
