(* ===== verification/Json.thy ===== *)
theory Json
  imports F64
begin

text \<open>
  \<^verbatim>\<open>serde_json::Value\<close>, the accessors the exchange uses on it, and the JSON merge of
  \<^verbatim>\<open>rust/crates/exchange/src/lib.rs\<close> that applies first-party data.  An object is a \<^verbatim>\<open>BTreeMap\<close> (the
  \<^verbatim>\<open>preserve_order\<close> feature is off), so its model is the list of its entries in key order.
\<close>

section \<open>Values and accessors\<close>

datatype jnum = PosInt nat | NegInt int | JFloat f64

datatype json =
    JNull
  | JBool bool
  | JNum jnum
  | JStr string
  | JArr "json list"
  | JObj "(string \<times> json) list"

fun as_object :: "json \<Rightarrow> (string \<times> json) list option" where
  "as_object (JObj m) = Some m"
| "as_object _ = None"

fun as_array :: "json \<Rightarrow> json list option" where
  "as_array (JArr xs) = Some xs"
| "as_array _ = None"

fun as_str :: "json \<Rightarrow> string option" where
  "as_str (JStr s) = Some s"
| "as_str _ = None"

fun as_bool :: "json \<Rightarrow> bool option" where
  "as_bool (JBool b) = Some b"
| "as_bool _ = None"

fun as_i64 :: "json \<Rightarrow> int option" where
  "as_i64 (JNum (PosInt n)) = (if int n \<le> i64_max then Some (int n) else None)"
| "as_i64 (JNum (NegInt i)) = Some i"
| "as_i64 _ = None"

fun as_u64 :: "json \<Rightarrow> nat option" where
  "as_u64 (JNum (PosInt n)) = Some n"
| "as_u64 _ = None"

fun as_f64 :: "json \<Rightarrow> f64 option" where
  "as_f64 (JNum (PosInt n)) = Some (f_of (of_nat n))"
| "as_f64 (JNum (NegInt i)) = Some (f_of (of_int i))"
| "as_f64 (JNum (JFloat f)) = Some f"
| "as_f64 _ = None"

fun jget :: "json \<Rightarrow> string \<Rightarrow> json option" where
  "jget (JObj m) k = map_of m k"
| "jget _ k = None"

text \<open>A chain of \<^verbatim>\<open>.and_then(|v| v.get(key))\<close>.\<close>

fun jpath :: "json option \<Rightarrow> string list \<Rightarrow> json option" where
  "jpath v [] = v"
| "jpath v (k # ks) = (case v of None \<Rightarrow> None | Some j \<Rightarrow> jpath (jget j k) ks)"

definition is_object :: "json \<Rightarrow> bool" where
  "is_object j = (as_object j \<noteq> None)"

text \<open>The invariant of values: the entries of every object are in strict key order.\<close>

fun json_wf :: "json \<Rightarrow> bool" where
  "json_wf (JArr xs) = (\<forall>x \<in> set xs. json_wf x)"
| "json_wf (JObj m) = (bt_wf m \<and> (\<forall>e \<in> set m. json_wf (snd e)))"
| "json_wf _ = True"

section \<open>Merging\<close>

function (sequential) deep_merge_json :: "json \<Rightarrow> json \<Rightarrow> json"
  and merge_entries :: "(string \<times> json) list \<Rightarrow> (string \<times> json) list \<Rightarrow> (string \<times> json) list" where
  "deep_merge_json (JObj b) (JObj ov) = JObj (merge_entries b ov)"
| "deep_merge_json b ov = b"
| "merge_entries b [] = b"
| "merge_entries b ((k, v) # ov) =
     merge_entries
       (case map_of b k of
          None \<Rightarrow> bt_insert k v b
        | Some entry \<Rightarrow>
            if entry = JNull then bt_insert k v b
            else if is_object entry \<and> is_object v then bt_insert k (deep_merge_json entry v) b
            else b) ov"
  by pat_completeness auto
termination
  by (relation "measure (\<lambda>x. case x of Inl (b, ov) \<Rightarrow> size ov
        | Inr (b, ov) \<Rightarrow> size_list (size_prod (\<lambda>_. 0) size) ov)") auto

fun merge_string_arrays :: "string list \<Rightarrow> string list \<Rightarrow> string list" where
  "merge_string_arrays base [] = base"
| "merge_string_arrays base (x # xs) =
     merge_string_arrays (if x \<in> set base then base else base @ [x]) xs"

section \<open>Lemmas\<close>

text \<open>The merge of two entries, as the code decides it.\<close>

definition merge_value :: "json option \<Rightarrow> json option \<Rightarrow> json option" where
  "merge_value base ov =
     (case (base, ov) of
        (None, x) \<Rightarrow> x
      | (Some e, None) \<Rightarrow> Some e
      | (Some e, Some v) \<Rightarrow>
          if e = JNull then Some v
          else if is_object e \<and> is_object v then Some (deep_merge_json e v) else Some e)"

lemma merge_value_simps [simp]:
  "merge_value None x = x" "merge_value (Some e) None = Some e"
  by (simp_all add: merge_value_def)

lemma merge_entries_get:
  "distinct (map fst ov) \<Longrightarrow> map_of (merge_entries b ov) k = merge_value (map_of b k) (map_of ov k)"
proof (induction ov arbitrary: b)
  case Nil
  then show ?case by (cases "map_of b k") simp_all
next
  case (Cons e ov)
  obtain k' v where e: "e = (k', v)" by force
  let ?b = "case map_of b k' of None \<Rightarrow> bt_insert k' v b
        | Some entry \<Rightarrow> if entry = JNull then bt_insert k' v b
            else if is_object entry \<and> is_object v then bt_insert k' (deep_merge_json entry v) b else b"
  have b: "map_of ?b = (map_of b)(k' := merge_value (map_of b k') (Some v))"
    by (auto simp: merge_value_def map_of_bt_insert fun_eq_iff split: option.split)
  from Cons.prems e have "map_of ov k' = None" by (simp add: map_of_eq_None_iff)
  with Cons.IH [of ?b] Cons.prems e b show ?case
    by (cases "merge_value (map_of b k') (Some v)") (auto simp: merge_value_def split: option.splits)
qed

lemma bt_wf_distinct: "bt_wf m \<Longrightarrow> distinct (map fst m)"
  unfolding bt_wf_def by (induction m) fastforce+

text \<open>Two ordered maps with the same lookups are the same list.\<close>

lemma bt_ext: "bt_wf m \<Longrightarrow> bt_wf m' \<Longrightarrow> map_of m = map_of m' \<Longrightarrow> m = m'"
proof -
  assume a: "bt_wf m" "bt_wf m'" "map_of m = map_of m'"
  have "sorted (map fst m)" "sorted (map fst m')" using a(1, 2) unfolding bt_wf_def by (auto intro: sorted_wrt_mono_rel [rotated])
  moreover have "set (map fst m) = set (map fst m')" using a(3) by (metis dom_map_of_conv_image_fst set_map)
  ultimately have keys: "map fst m = map fst m'" using bt_wf_distinct a(1, 2) by (metis sorted_distinct_set_unique)
  have entries: "xs = map (\<lambda>k. (k, the (map_of xs k))) (map fst xs)" if "distinct (map fst xs)" for xs :: "('a \<times> 'b) list"
    using map_idI [of xs "\<lambda>e. (fst e, the (map_of xs (fst e)))"] that by (simp add: comp_def) (metis map_of_is_SomeI option.sel prod.collapse)
  show ?thesis using entries [OF bt_wf_distinct [OF a(1)]] entries [OF bt_wf_distinct [OF a(2)]] keys a(3) by metis
qed

lemma bt_insert_set: "set (bt_insert k v m) \<subseteq> Set.insert (k, v) (set m)"
  by (induction k v m rule: bt_insert.induct) auto

text \<open>Both functions keep the key order, at every depth.\<close>

lemma bt_insert_same: "bt_wf m \<Longrightarrow> map_of m k = Some v \<Longrightarrow> bt_insert k v m = m"
proof (induction k v m rule: bt_insert.induct)
  case (2 k v k' v' m)
  then have wf: "bt_wf m" "\<forall>y \<in> fst ` set m. k' < y" by (auto simp: bt_wf_def)
  show ?case
  proof (cases "k = k'")
    case False
    then have m: "map_of m k = Some v" using 2 by simp
    then have "k' < k" using wf(2) by (force dest: map_of_SomeD)
    then show ?thesis using 2 wf m by auto
  qed (use 2 in auto)
qed simp

lemma json_wf_bt_insert: "json_wf (JObj m) \<Longrightarrow> json_wf v \<Longrightarrow> json_wf (JObj (bt_insert k v m))"
  using bt_insert_set [of k v m] by (auto simp: bt_wf_insert)

lemma json_wf_lookup: "json_wf (JObj m) \<Longrightarrow> map_of m k = Some v \<Longrightarrow> json_wf v"
  by (force dest: map_of_SomeD)

lemma merge_wf:
  "json_wf b \<Longrightarrow> json_wf ov \<Longrightarrow> json_wf (deep_merge_json b ov)"
  "bt_wf m \<Longrightarrow> (\<forall>e \<in> set m. json_wf (snd e)) \<Longrightarrow> (\<forall>e \<in> set ovs. json_wf (snd e)) \<Longrightarrow>
   bt_wf (merge_entries m ovs) \<and> (\<forall>e \<in> set (merge_entries m ovs). json_wf (snd e))"
proof (induction b ov and m ovs rule: deep_merge_json_merge_entries.induct)
  case (4 b k v ov)
  let ?b = "case map_of b k of None \<Rightarrow> bt_insert k v b
        | Some entry \<Rightarrow> if entry = JNull then bt_insert k v b
            else if is_object entry \<and> is_object v then bt_insert k (deep_merge_json entry v) b else b"
  define ok where "ok m \<longleftrightarrow> bt_wf m \<and> (\<forall>e \<in> set m. json_wf (snd e))" for m :: "(string \<times> json) list"
  have ins: "ok (bt_insert k w b)" if "json_wf w" for w
    using 4(3,4) that bt_insert_set [of k w b] by (auto simp: bt_wf_insert ok_def)
  have "json_wf entry" if "map_of b k = Some entry" for entry
    using 4(4) map_of_SomeD [OF that] by force
  moreover have "ok b" "json_wf v" using 4(3-5) by (simp_all add: ok_def)
  ultimately have "ok ?b" using 4(1) ins by (auto split: option.split)
  with 4(2,5) show ?case by (simp add: ok_def)
qed auto

lemma merge_string_arrays_set: "set (merge_string_arrays base xs) = set base \<union> set xs"
  by (induction base xs rule: merge_string_arrays.induct) auto

lemma merge_string_arrays_prefix: "\<exists>ys. merge_string_arrays base xs = base @ ys"
  by (induction base xs rule: merge_string_arrays.induct) (auto split: if_splits)

lemma merge_string_arrays_distinct: "distinct base \<Longrightarrow> distinct (merge_string_arrays base xs)"
  by (induction base xs rule: merge_string_arrays.induct) auto

section \<open>Properties\<close>

text \<open>First-party data never overrides the request: merging keeps every key of the base whose
  value is not null, at every depth; it fills in the keys that are absent or null; and objects present
  on both sides are merged recursively.  The result is again a well-formed object.\<close>

theorem deep_merge_spec:
  assumes "json_wf (JObj b)" "json_wf (JObj ov)"
  shows "jget (deep_merge_json (JObj b) (JObj ov)) k = merge_value (map_of b k) (map_of ov k)
    \<and> json_wf (deep_merge_json (JObj b) (JObj ov))"
  using assms merge_wf(1) [OF assms] merge_entries_get [OF bt_wf_distinct, of ov b k] by simp

theorem deep_merge_spec_witness:
  "jget (deep_merge_json (JObj [(''a'', JStr ''x''), (''b'', JNull)]) (JObj [(''a'', JStr ''y''), (''b'', JBool True)])) ''a''
     = Some (JStr ''x'')"
  using deep_merge_spec [of "[(''a'', JStr ''x''), (''b'', JNull)]" "[(''a'', JStr ''y''), (''b'', JBool True)]" "''a''"]
  by (simp add: bt_wf_def merge_value_def is_object_def less_list_code)

end
