(* ===== verification/OpenRtb.thy ===== *)
theory OpenRtb
  imports Json
begin

text \<open>
  The OpenRTB objects, \<^verbatim>\<open>rust/crates/openrtb/src/lib.rs\<close>: one record per struct, with the fields of the
  struct in their order.  A field name carries the object's name as a prefix (\<^verbatim>\<open>Imp::id\<close> is \<open>imp_id\<close>), and the
  extension field \<^verbatim>\<open>ext\<close> is \<open>jext\<close>.  The signed integer fields are integers, since the code only
  compares and copies them.  The \<open>default\<close> constants are the derived \<^verbatim>\<open>Default\<close> instances.
\<close>

section \<open>Objects\<close>

record banner_format =
  format_w :: "int option"
  format_h :: "int option"
  format_wratio :: "int option"
  format_hratio :: "int option"
  format_wmin :: "int option"
  format_jext :: "json option"

record banner =
  banner_format :: "banner_format list option"
  banner_w :: "int option"
  banner_h :: "int option"
  banner_wmax :: "int option"
  banner_hmax :: "int option"
  banner_wmin :: "int option"
  banner_hmin :: "int option"
  banner_btype :: "int list option"
  banner_battr :: "int list option"
  banner_pos :: "int option"
  banner_mimes :: "string list option"
  banner_topframe :: "int option"
  banner_expdir :: "int list option"
  banner_api :: "int list option"
  banner_id :: "string option"
  banner_vcm :: "int option"
  banner_jext :: "json option"

record video =
  video_mimes :: "string list option"
  video_minduration :: "int option"
  video_maxduration :: "int option"
  video_protocols :: "int list option"
  video_protocol :: "int option"
  video_w :: "int option"
  video_h :: "int option"
  video_startdelay :: "int option"
  video_placement :: "int option"
  video_plcmt :: "int option"
  video_linearity :: "int option"
  video_skip :: "int option"
  video_skipmin :: "int option"
  video_skipafter :: "int option"
  video_sequence :: "int option"
  video_battr :: "int list option"
  video_maxextended :: "int option"
  video_minbitrate :: "int option"
  video_maxbitrate :: "int option"
  video_boxingallowed :: "int option"
  video_playbackmethod :: "int list option"
  video_playbackend :: "int option"
  video_delivery :: "int list option"
  video_pos :: "int option"
  video_companionad :: "banner list option"
  video_api :: "int list option"
  video_companiontype :: "int list option"
  video_jext :: "json option"

record audio =
  audio_mimes :: "string list option"
  audio_minduration :: "int option"
  audio_maxduration :: "int option"
  audio_protocols :: "int list option"
  audio_startdelay :: "int option"
  audio_sequence :: "int option"
  audio_battr :: "int list option"
  audio_maxextended :: "int option"
  audio_minbitrate :: "int option"
  audio_maxbitrate :: "int option"
  audio_delivery :: "int list option"
  audio_companionad :: "banner list option"
  audio_api :: "int list option"
  audio_companiontype :: "int list option"
  audio_maxseq :: "int option"
  audio_feed :: "int option"
  audio_stitched :: "int option"
  audio_nvol :: "int option"
  audio_jext :: "json option"

record native_imp =
  native_request :: "string option"
  native_ver :: "string option"
  native_api :: "int list option"
  native_battr :: "int list option"
  native_jext :: "json option"

record deal =
  deal_id :: string
  deal_bidfloor :: "f64 option"
  deal_bidfloorcur :: "string option"
  deal_at :: "int option"
  deal_wseat :: "string list option"
  deal_wadomain :: "string list option"
  deal_jext :: "json option"

record pmp =
  pmp_private_auction :: "int option"
  pmp_deals :: "deal list"
  pmp_jext :: "json option"

record qty =
  qty_multiplier :: "f64 option"
  qty_sourcetype :: "int option"
  qty_vendor :: "string option"
  qty_jext :: "json option"

record ref_settings =
  refset_reftype :: "int option"
  refset_minint :: "int option"
  refset_jext :: "json option"

record rtb_refresh =
  refresh_refsettings :: "ref_settings list option"
  refresh_count :: "int option"
  refresh_jext :: "json option"

record metric =
  metric_metric_type :: string
  metric_value :: f64
  metric_vendor :: "string option"
  metric_jext :: "json option"

record imp =
  imp_id :: string
  imp_banner :: "banner option"
  imp_video :: "video option"
  imp_audio :: "audio option"
  imp_native :: "native_imp option"
  imp_pmp :: "pmp option"
  imp_displaymanager :: "string option"
  imp_displaymanagerver :: "string option"
  imp_instl :: "int option"
  imp_tagid :: "string option"
  imp_bidfloor :: "f64 option"
  imp_bidfloorcur :: "string option"
  imp_clickbrowser :: "int option"
  imp_secure :: "int option"
  imp_iframebuster :: "string list option"
  imp_rwdd :: "int option"
  imp_ssai :: "int option"
  imp_exp :: "int option"
  imp_qty :: "qty option"
  imp_dt :: "f64 option"
  imp_refresh :: "rtb_refresh option"
  imp_metric :: "metric list option"
  imp_jext :: "json option"

record publisher =
  publisher_id :: "string option"
  publisher_name :: "string option"
  publisher_cattax :: "int option"
  publisher_cat :: "string list option"
  publisher_domain :: "string option"
  publisher_jext :: "json option"

record producer =
  producer_id :: "string option"
  producer_name :: "string option"
  producer_cattax :: "int option"
  producer_cat :: "string list option"
  producer_domain :: "string option"
  producer_jext :: "json option"

record segment =
  segment_id :: "string option"
  segment_name :: "string option"
  segment_value :: "string option"
  segment_jext :: "json option"

record user_data =
  data_id :: "string option"
  data_name :: "string option"
  data_segment :: "segment list"
  data_jext :: "json option"

record content =
  content_id :: "string option"
  content_episode :: "int option"
  content_title :: "string option"
  content_series :: "string option"
  content_season :: "string option"
  content_artist :: "string option"
  content_genre :: "string option"
  content_album :: "string option"
  content_isrc :: "string option"
  content_producer :: "producer option"
  content_url :: "string option"
  content_cat :: "string list option"
  content_cattax :: "int option"
  content_prodq :: "int option"
  content_videoquality :: "int option"
  content_context :: "int option"
  content_contentrating :: "string option"
  content_userrating :: "string option"
  content_qagmediarating :: "int option"
  content_keywords :: "string option"
  content_livestream :: "int option"
  content_sourcerelationship :: "int option"
  content_len :: "int option"
  content_language :: "string option"
  content_langb :: "string option"
  content_embeddable :: "int option"
  content_data :: "user_data list"
  content_jext :: "json option"

record site =
  site_id :: "string option"
  site_name :: "string option"
  site_domain :: "string option"
  site_cattax :: "int option"
  site_cat :: "string list option"
  site_sectioncat :: "string list option"
  site_pagecat :: "string list option"
  site_page :: "string option"
  site_ref :: "string option"
  site_search :: "string option"
  site_mobile :: "int option"
  site_privacypolicy :: "int option"
  site_publisher :: "publisher option"
  site_content :: "content option"
  site_keywords :: "string option"
  site_jext :: "json option"

record app =
  app_id :: "string option"
  app_name :: "string option"
  app_bundle :: "string option"
  app_domain :: "string option"
  app_storeurl :: "string option"
  app_cattax :: "int option"
  app_cat :: "string list option"
  app_sectioncat :: "string list option"
  app_pagecat :: "string list option"
  app_ver :: "string option"
  app_privacypolicy :: "int option"
  app_paid :: "int option"
  app_publisher :: "publisher option"
  app_content :: "content option"
  app_keywords :: "string option"
  app_jext :: "json option"

record dooh =
  dooh_id :: "string option"
  dooh_name :: "string option"
  dooh_venuetype :: "string list option"
  dooh_venuetypetax :: "int option"
  dooh_publisher :: "publisher option"
  dooh_domain :: "string option"
  dooh_keywords :: "string option"
  dooh_content :: "content option"
  dooh_jext :: "json option"

record brand_version =
  brand_brand :: "string option"
  brand_version :: "string list option"
  brand_jext :: "json option"

record user_agent =
  ua_browsers :: "brand_version list option"
  ua_platform :: "brand_version option"
  ua_mobile :: "int option"
  ua_architecture :: "string option"
  ua_bitness :: "string option"
  ua_model :: "string option"
  ua_source :: "int option"
  ua_jext :: "json option"

record geo =
  geo_lat :: "f64 option"
  geo_lon :: "f64 option"
  geo_geo_type :: "int option"
  geo_accuracy :: "int option"
  geo_lastfix :: "int option"
  geo_ipservice :: "int option"
  geo_country :: "string option"
  geo_region :: "string option"
  geo_regionfips104 :: "string option"
  geo_metro :: "string option"
  geo_city :: "string option"
  geo_zip :: "string option"
  geo_utcoffset :: "int option"
  geo_jext :: "json option"

record device =
  device_ua :: "string option"
  device_sua :: "user_agent option"
  device_geo :: "geo option"
  device_dnt :: "int option"
  device_lmt :: "int option"
  device_ip :: "string option"
  device_ipv6 :: "string option"
  device_devicetype :: "int option"
  device_make :: "string option"
  device_model :: "string option"
  device_os :: "string option"
  device_osv :: "string option"
  device_hwv :: "string option"
  device_h :: "int option"
  device_w :: "int option"
  device_ppi :: "int option"
  device_pxratio :: "f64 option"
  device_js :: "int option"
  device_geofetch :: "int option"
  device_flashver :: "string option"
  device_language :: "string option"
  device_langb :: "string option"
  device_carrier :: "string option"
  device_mccmnc :: "string option"
  device_connectiontype :: "int option"
  device_ifa :: "string option"
  device_didsha1 :: "string option"
  device_didmd5 :: "string option"
  device_dpidsha1 :: "string option"
  device_dpidmd5 :: "string option"
  device_macsha1 :: "string option"
  device_macmd5 :: "string option"
  device_jext :: "json option"

record uid =
  uid_id :: "string option"
  uid_atype :: "int option"
  uid_jext :: "json option"

record eid =
  eid_source :: "string option"
  eid_uids :: "uid list option"
  eid_jext :: "json option"

record user =
  user_id :: "string option"
  user_buyeruid :: "string option"
  user_yob :: "int option"
  user_gender :: "string option"
  user_keywords :: "string option"
  user_consent :: "string option"
  user_customdata :: "string option"
  user_geo :: "geo option"
  user_data :: "user_data list"
  user_eids :: "eid list option"
  user_jext :: "json option"

record supply_chain_node =
  node_asi :: string
  node_sid :: string
  node_rid :: "string option"
  node_name :: "string option"
  node_domain :: "string option"
  node_hp :: int
  node_jext :: "json option"

record supply_chain =
  schain_complete :: int
  schain_nodes :: "supply_chain_node list"
  schain_ver :: string
  schain_jext :: "json option"

record rtb_source =
  source_fd :: "int option"
  source_tid :: "string option"
  source_pchain :: "string option"
  source_schain :: "supply_chain option"
  source_jext :: "json option"

record dsa_transparency =
  dsatr_domain :: "string option"
  dsatr_dsaparams :: "int list option"

record dsa =
  dsa_dsarequired :: "int option"
  dsa_pubrender :: "int option"
  dsa_datatopub :: "int option"
  dsa_transparency :: "dsa_transparency list option"

record regs =
  regs_coppa :: "int option"
  regs_gdpr :: "int option"
  regs_us_privacy :: "string option"
  regs_gpp :: "string option"
  regs_gpp_sid :: "int list option"
  regs_dsa :: "dsa option"
  regs_jext :: "json option"

record bid_request =
  req_id :: string
  req_imp :: "imp list"
  req_site :: "site option"
  req_app :: "app option"
  req_dooh :: "dooh option"
  req_device :: "device option"
  req_user :: "user option"
  req_test :: "int option"
  req_at :: "int option"
  req_tmax :: "int option"
  req_allimps :: "int option"
  req_wseat :: "string list option"
  req_bseat :: "string list option"
  req_cur :: "string list option"
  req_wlang :: "string list option"
  req_wlangb :: "string list option"
  req_acat :: "string list option"
  req_bcat :: "string list option"
  req_cattax :: "int option"
  req_badv :: "string list option"
  req_bapp :: "string list option"
  req_source :: "rtb_source option"
  req_regs :: "regs option"
  req_jext :: "json option"

record bid =
  bid_id :: string
  bid_impid :: string
  bid_price :: f64
  bid_adid :: "string option"
  bid_nurl :: "string option"
  bid_adm :: "string option"
  bid_adomain :: "string list option"
  bid_bundle :: "string option"
  bid_iurl :: "string option"
  bid_cid :: "string option"
  bid_crid :: "string option"
  bid_cattax :: "int option"
  bid_cat :: "string list option"
  bid_attr :: "int list option"
  bid_apis :: "int list option"
  bid_api :: "int option"
  bid_protocol :: "int option"
  bid_qagmediarating :: "int option"
  bid_language :: "string option"
  bid_langb :: "string option"
  bid_dealid :: "string option"
  bid_w :: "int option"
  bid_h :: "int option"
  bid_wratio :: "int option"
  bid_hratio :: "int option"
  bid_exp :: "int option"
  bid_burl :: "string option"
  bid_lurl :: "string option"
  bid_tactic :: "string option"
  bid_purl :: "string option"
  bid_mtype :: "int option"
  bid_dur :: "f64 option"
  bid_slotinpod :: "int option"
  bid_jext :: "json option"

record seat_bid =
  seatbid_bid :: "bid list"
  seatbid_seat :: "string option"
  seatbid_group :: "int option"
  seatbid_jext :: "json option"

record bid_response =
  resp_id :: string
  resp_seatbid :: "seat_bid list"
  resp_bidid :: "string option"
  resp_cur :: "string option"
  resp_customdata :: "string option"
  resp_nbr :: "int option"
  resp_jext :: "json option"

record dur_floors =
  durfl_mindur :: "int option"
  durfl_maxdur :: "int option"
  durfl_bidfloor :: "f64 option"
  durfl_jext :: "json option"

section \<open>Defaults\<close>

definition default_bid_request :: bid_request where
  "default_bid_request = \<lparr>req_id = [], req_imp = [], req_site = None, req_app = None,
     req_dooh = None, req_device = None, req_user = None, req_test = None, req_at = None, req_tmax
     = None, req_allimps = None, req_wseat = None, req_bseat = None, req_cur = None, req_wlang =
     None, req_wlangb = None, req_acat = None, req_bcat = None, req_cattax = None, req_badv =
     None, req_bapp = None, req_source = None, req_regs = None, req_jext = None\<rparr>"

definition default_bid_response :: bid_response where
  "default_bid_response = \<lparr>resp_id = [], resp_seatbid = [], resp_bidid = None, resp_cur =
     None, resp_customdata = None, resp_nbr = None, resp_jext = None\<rparr>"

definition default_seat_bid :: seat_bid where
  "default_seat_bid = \<lparr>seatbid_bid = [], seatbid_seat = None, seatbid_group = None,
     seatbid_jext = None\<rparr>"

definition default_bid :: bid where
  "default_bid = \<lparr>bid_id = [], bid_impid = [], bid_price = Fin False 0, bid_adid = None,
     bid_nurl = None, bid_adm = None, bid_adomain = None, bid_bundle = None, bid_iurl = None,
     bid_cid = None, bid_crid = None, bid_cattax = None, bid_cat = None, bid_attr = None, bid_apis
     = None, bid_api = None, bid_protocol = None, bid_qagmediarating = None, bid_language = None,
     bid_langb = None, bid_dealid = None, bid_w = None, bid_h = None, bid_wratio = None,
     bid_hratio = None, bid_exp = None, bid_burl = None, bid_lurl = None, bid_tactic = None,
     bid_purl = None, bid_mtype = None, bid_dur = None, bid_slotinpod = None, bid_jext =
     None\<rparr>"

definition default_imp :: imp where
  "default_imp = \<lparr>imp_id = [], imp_banner = None, imp_video = None, imp_audio = None,
     imp_native = None, imp_pmp = None, imp_displaymanager = None, imp_displaymanagerver = None,
     imp_instl = None, imp_tagid = None, imp_bidfloor = None, imp_bidfloorcur = None,
     imp_clickbrowser = None, imp_secure = None, imp_iframebuster = None, imp_rwdd = None,
     imp_ssai = None, imp_exp = None, imp_qty = None, imp_dt = None, imp_refresh = None,
     imp_metric = None, imp_jext = None\<rparr>"

definition default_site :: site where
  "default_site = \<lparr>site_id = None, site_name = None, site_domain = None, site_cattax =
     None, site_cat = None, site_sectioncat = None, site_pagecat = None, site_page = None,
     site_ref = None, site_search = None, site_mobile = None, site_privacypolicy = None,
     site_publisher = None, site_content = None, site_keywords = None, site_jext = None\<rparr>"

definition default_app :: app where
  "default_app = \<lparr>app_id = None, app_name = None, app_bundle = None, app_domain = None,
     app_storeurl = None, app_cattax = None, app_cat = None, app_sectioncat = None, app_pagecat =
     None, app_ver = None, app_privacypolicy = None, app_paid = None, app_publisher = None,
     app_content = None, app_keywords = None, app_jext = None\<rparr>"

definition default_user :: user where
  "default_user = \<lparr>user_id = None, user_buyeruid = None, user_yob = None, user_gender =
     None, user_keywords = None, user_consent = None, user_customdata = None, user_geo = None,
     user_data = [], user_eids = None, user_jext = None\<rparr>"

definition default_device :: device where
  "default_device = \<lparr>device_ua = None, device_sua = None, device_geo = None, device_dnt =
     None, device_lmt = None, device_ip = None, device_ipv6 = None, device_devicetype = None,
     device_make = None, device_model = None, device_os = None, device_osv = None, device_hwv =
     None, device_h = None, device_w = None, device_ppi = None, device_pxratio = None, device_js =
     None, device_geofetch = None, device_flashver = None, device_language = None, device_langb =
     None, device_carrier = None, device_mccmnc = None, device_connectiontype = None, device_ifa =
     None, device_didsha1 = None, device_didmd5 = None, device_dpidsha1 = None, device_dpidmd5 =
     None, device_macsha1 = None, device_macmd5 = None, device_jext = None\<rparr>"

definition default_geo :: geo where
  "default_geo = \<lparr>geo_lat = None, geo_lon = None, geo_geo_type = None, geo_accuracy = None,
     geo_lastfix = None, geo_ipservice = None, geo_country = None, geo_region = None,
     geo_regionfips104 = None, geo_metro = None, geo_city = None, geo_zip = None, geo_utcoffset =
     None, geo_jext = None\<rparr>"

definition default_rtb_source :: rtb_source where
  "default_rtb_source = \<lparr>source_fd = None, source_tid = None, source_pchain = None,
     source_schain = None, source_jext = None\<rparr>"

definition default_regs :: regs where
  "default_regs = \<lparr>regs_coppa = None, regs_gdpr = None, regs_us_privacy = None, regs_gpp =
     None, regs_gpp_sid = None, regs_dsa = None, regs_jext = None\<rparr>"

definition default_banner :: banner where
  "default_banner = \<lparr>banner_format = None, banner_w = None, banner_h = None, banner_wmax =
     None, banner_hmax = None, banner_wmin = None, banner_hmin = None, banner_btype = None,
     banner_battr = None, banner_pos = None, banner_mimes = None, banner_topframe = None,
     banner_expdir = None, banner_api = None, banner_id = None, banner_vcm = None, banner_jext =
     None\<rparr>"

end
