(* ===== verification/IpUtil.thy ===== *)
theory IpUtil
  imports Prelude
begin

text \<open>
  IP address handling, \<^verbatim>\<open>rust/crates/util/src/iputil.rs\<close>, with the parsing and formatting of addresses that
  \<^verbatim>\<open>std::net\<close> provides: dotted quads of one to three digits without superfluous zeros, and IPv6 text
  with \<^verbatim>\<open>::\<close>, an embedded quad, and the canonical output form.  A parser returns the value and the rest of
  the input.
\<close>

unbundle bit_operations_syntax

section \<open>Numbers\<close>

definition hex_val :: "char \<Rightarrow> nat option" where
  "hex_val c =
     (let n = of_char c :: nat
      in if 48 \<le> n \<and> n \<le> 57 then Some (n - 48)
         else if 97 \<le> n \<and> n \<le> 102 then Some (n - 87)
         else if 65 \<le> n \<and> n \<le> 70 then Some (n - 55) else None)"

definition radix_val :: "nat \<Rightarrow> char \<Rightarrow> nat option" where
  "radix_val radix c = (case hex_val c of Some d \<Rightarrow> if d < radix then Some d else None | None \<Rightarrow> None)"

text \<open>Digits as long as there are any: the value, their number and the rest; a value above \<open>lim\<close> or more
  than \<open>mx\<close> digits make the number invalid.\<close>

fun read_digits :: "nat \<Rightarrow> nat \<Rightarrow> nat \<Rightarrow> nat \<Rightarrow> nat \<Rightarrow> string \<Rightarrow> (nat \<times> nat \<times> string) option" where
  "read_digits radix mx lim v cnt [] = Some (v, cnt, [])"
| "read_digits radix mx lim v cnt (c # cs) =
     (case radix_val radix c of
        None \<Rightarrow> Some (v, cnt, c # cs)
      | Some d \<Rightarrow>
          if lim < v * radix + d \<or> mx < cnt + 1 then None
          else read_digits radix mx lim (v * radix + d) (cnt + 1) cs)"

definition read_number :: "nat \<Rightarrow> nat \<Rightarrow> nat \<Rightarrow> bool \<Rightarrow> string \<Rightarrow> (nat \<times> string) option" where
  "read_number radix mx lim zero_prefix s =
     (case read_digits radix mx lim 0 0 s of
        None \<Rightarrow> None
      | Some (v, cnt, rest) \<Rightarrow>
          if cnt = 0 then None
          else if \<not> zero_prefix \<and> hd s = CHR ''0'' \<and> cnt > 1 then None
          else Some (v, rest))"

fun read_char :: "char \<Rightarrow> string \<Rightarrow> string option" where
  "read_char d [] = None"
| "read_char d (c # cs) = (if c = d then Some cs else None)"

section \<open>IPv4\<close>

fun read_quads :: "nat \<Rightarrow> nat list \<Rightarrow> string \<Rightarrow> (nat list \<times> string) option" where
  "read_quads 0 acc s = Some (acc, s)"
| "read_quads (Suc n) acc s =
     (case (if acc = [] then Some s else read_char (CHR ''.'') s) of
        None \<Rightarrow> None
      | Some s' \<Rightarrow>
          (case read_number 10 3 255 False s' of
             None \<Rightarrow> None
           | Some (v, rest) \<Rightarrow> read_quads n (acc @ [v]) rest))"

definition quads_word :: "nat list \<Rightarrow> u32" where
  "quads_word qs = foldl (\<lambda>w q. push_bit 8 w OR of_nat q) 0 qs"

definition parse_ipv4 :: "string \<Rightarrow> u32 option" where
  "parse_ipv4 s =
     (if length s > 15 then None
      else case read_quads 4 [] s of Some (qs, []) \<Rightarrow> Some (quads_word qs) | _ \<Rightarrow> None)"

definition octet :: "u32 \<Rightarrow> nat \<Rightarrow> nat" where
  "octet w i = unat (drop_bit (24 - 8 * i) w AND 255)"

definition show_ipv4 :: "u32 \<Rightarrow> string" where
  "show_ipv4 w = join_with (CHR ''.'') (map (\<lambda>i. show_nat (octet w i)) [0..<4])"

section \<open>IPv6\<close>

text \<open>\<^verbatim>\<open>read_groups\<close>: up to \<open>lim\<close> groups after \<open>i\<close> that were read; the flag says that the last two came from an
  embedded quad.\<close>

fun read_groups :: "nat \<Rightarrow> nat \<Rightarrow> nat list \<Rightarrow> string \<Rightarrow> nat list \<times> bool \<times> string" where
  "read_groups i 0 acc s = (acc, False, s)"
| "read_groups i (Suc n) acc s =
     (let sep = (if i = 0 then Some s else read_char (CHR '':'') s);
          quad = (if 0 < n then Option.bind sep (read_quads 4 []) else None)
      in case quad of
           Some ([a, b, c, d], rest) \<Rightarrow> (acc @ [256 * a + b, 256 * c + d], True, rest)
         | _ \<Rightarrow>
           (case Option.bind sep (read_number 16 4 65535 True) of
              Some (g, rest) \<Rightarrow> read_groups (i + 1) n (acc @ [g]) rest
            | None \<Rightarrow> (acc, False, s)))"

definition groups_word :: "nat list \<Rightarrow> 128 word" where
  "groups_word gs = foldl (\<lambda>w g. push_bit 16 w OR of_nat g) 0 gs"

definition parse_ipv6 :: "string \<Rightarrow> 128 word option" where
  "parse_ipv6 s =
     (let (head, head_ipv4, rest) = read_groups 0 8 [] s
      in if length head = 8 then if rest = [] then Some (groups_word head) else None
         else if head_ipv4 then None
         else case Option.bind (read_char (CHR '':'') rest) (read_char (CHR '':'')) of
                None \<Rightarrow> None
              | Some rest' \<Rightarrow>
                  (let (tl, _, end_rest) = read_groups 0 (7 - length head) [] rest'
                   in if end_rest = []
                      then Some (groups_word (head @ replicate (8 - length head - length tl) 0 @ tl))
                      else None))"

definition group16 :: "128 word \<Rightarrow> nat \<Rightarrow> nat" where
  "group16 w i = unat (drop_bit (112 - 16 * i) w AND 65535)"

definition hex_char :: "nat \<Rightarrow> char" where
  "hex_char d = (if d < 10 then char_of (48 + d) else char_of (87 + d))"

fun show_hex :: "nat \<Rightarrow> string" where
  "show_hex n = (if n < 16 then [hex_char n] else show_hex (n div 16) @ [hex_char (n mod 16)])"

declare show_hex.simps [simp del]

text \<open>The longest run of zero groups, the first one among equals: its start and its length.\<close>

fun longest_zeros :: "nat \<Rightarrow> nat list \<Rightarrow> nat \<times> nat \<Rightarrow> nat \<times> nat \<Rightarrow> nat \<times> nat" where
  "longest_zeros i [] cur best = best"
| "longest_zeros i (g # gs) cur best =
     (if g = 0 then
        let cur' = (if snd cur = 0 then (i, 1) else (fst cur, snd cur + 1))
        in longest_zeros (i + 1) gs cur' (if snd cur' > snd best then cur' else best)
      else longest_zeros (i + 1) gs (0, 0) best)"

definition show_ipv6 :: "128 word \<Rightarrow> string" where
  "show_ipv6 w =
     (let gs = map (group16 w) [0..<8]
      in if take 5 gs = [0, 0, 0, 0, 0] \<and> gs ! 5 = 65535
         then ''::ffff:'' @ show_ipv4 (ucast w)
         else let (st, len) = longest_zeros 0 gs (0, 0) (0, 0)
              in if len > 1
                 then join_with (CHR '':'') (map show_hex (take st gs)) @ ''::''
                      @ join_with (CHR '':'') (map show_hex (drop (st + len) gs))
                 else join_with (CHR '':'') (map show_hex gs))"

section \<open>The utilities of the crate\<close>

datatype ip_version = UnknownVersion | V4 | V6

datatype ip_addr = IpV4 u32 | IpV6 "128 word"

text \<open>\<^verbatim>\<open>str::parse::<IpAddr>\<close> tries IPv4 first.\<close>

definition parse_ip :: "string \<Rightarrow> ip_addr option \<times> ip_version" where
  "parse_ip v =
     (case parse_ipv4 v of
        Some a \<Rightarrow> (Some (IpV4 a), V4)
      | None \<Rightarrow>
          (case parse_ipv6 v of
             Some a \<Rightarrow> (Some (IpV6 a), if CHR '':'' \<in> set v then V6 else V4)
           | None \<Rightarrow> (None, UnknownVersion)))"

definition mask_ipv4 :: "string \<Rightarrow> nat \<Rightarrow> string option" where
  "mask_ipv4 ip bits_to_keep =
     (case parse_ipv4 ip of
        None \<Rightarrow> None
      | Some addr \<Rightarrow>
          if bits_to_keep \<ge> 32 then Some (show_ipv4 addr)
          else if bits_to_keep = 0 then Some ''0.0.0.0''
          else Some (show_ipv4 (addr AND push_bit (32 - bits_to_keep) (NOT 0))))"

definition mask_ipv6 :: "string \<Rightarrow> nat \<Rightarrow> string option" where
  "mask_ipv6 ip bits_to_keep =
     (case parse_ipv6 ip of
        None \<Rightarrow> None
      | Some addr \<Rightarrow>
          if bits_to_keep \<ge> 128 then Some (show_ipv6 addr)
          else if bits_to_keep = 0 then Some ''::''
          else Some (show_ipv6 (addr AND push_bit (128 - bits_to_keep) (NOT 0))))"

section \<open>Lemmas: dotted quads\<close>

lemma radix_val_digit: "d < 10 \<Longrightarrow> radix_val 10 (digit_char d) = Some d"
  by (simp add: radix_val_def hex_val_def digit_char_def)

lemma digit_char_neq_0: "d < 10 \<Longrightarrow> d \<noteq> 0 \<Longrightarrow> digit_char d \<noteq> CHR ''0''"
proof
  assume "d < 10" "d \<noteq> 0" "digit_char d = CHR ''0''"
  then have "(of_char (digit_char d) :: nat) = of_char CHR ''0''" by simp
  with \<open>d < 10\<close> \<open>d \<noteq> 0\<close> show False by (simp add: digit_char_def)
qed

definition no_digit :: "string \<Rightarrow> bool" where
  "no_digit s = (case s of [] \<Rightarrow> True | c # _ \<Rightarrow> radix_val 10 c = None)"

lemma read_digits_stop: "no_digit s \<Longrightarrow> read_digits 10 mx lim v cnt s = Some (v, cnt, s)"
  by (cases s) (simp_all add: no_digit_def)

lemma read_number_show:
  assumes "n < 256" "no_digit rest"
  shows "read_number 10 3 255 False (show_nat n @ rest) = Some (n, rest)"
proof -
  consider "n < 10" | "10 \<le> n" "n < 100" | "100 \<le> n" by linarith
  then show ?thesis
  proof cases
    case 1
    then show ?thesis using assms(2)
      by (simp add: show_nat.simps read_number_def radix_val_digit read_digits_stop)
  next
    case 2
    then have "show_nat n = [digit_char (n div 10), digit_char (n mod 10)]" "n div 10 < 10" "n div 10 \<noteq> 0"
      by (simp_all add: show_nat.simps)
    then show ?thesis using assms
      by (simp add: read_number_def radix_val_digit read_digits_stop digit_char_neq_0)
  next
    case 3
    have d: "n div 10 div 10 = n div 100" using div_mult2_eq [of n 10 10] by simp
    have l: "\<not> n < 10" "\<not> n div 10 < 10" "n div 100 < 10" "n div 100 \<noteq> 0" using 3 assms(1) by simp_all
    have "show_nat (n div 100) = [digit_char (n div 100)]" using l by (subst show_nat.simps) simp
    then have "show_nat (n div 10) = [digit_char (n div 100), digit_char (n div 10 mod 10)]"
      using l by (subst show_nat.simps) (simp add: d)
    then have "show_nat n = [digit_char (n div 100), digit_char (n div 10 mod 10), digit_char (n mod 10)]"
      using l by (subst show_nat.simps) simp
    moreover note l
    moreover have "n div 100 * 10 + n div 10 mod 10 = n div 10"
      using div_mult_mod_eq [of "n div 10" 10] d by simp
    moreover have "n div 10 * 10 + n mod 10 = n" by simp
    moreover have "n div 10 \<le> 255" using assms(1) by simp
    ultimately show ?thesis using assms
      by (simp add: read_number_def radix_val_digit read_digits_stop digit_char_neq_0)
  qed
qed

lemma read_quads_show:
  assumes "list_all (\<lambda>n. n < 256) [a, b, c, d]"
  shows "read_quads 4 [] (join_with (CHR ''.'') (map show_nat [a, b, c, d])) = Some ([a, b, c, d], [])"
proof -
  have dot: "no_digit (CHR ''.'' # s)" for s by (simp add: no_digit_def radix_val_def hex_val_def)
  have four: "4 = Suc (Suc (Suc (Suc 0)))" by simp
  have "no_digit []" by (simp add: no_digit_def)
  with assms dot show ?thesis
    using read_number_show [of d "[]"]
    by (simp add: read_number_show four)
qed

lemma octet_less: "octet w i < 256"
proof -
  have "drop_bit (24 - 8 * i) w AND 255 = take_bit 8 (drop_bit (24 - 8 * i) w)"
    by (simp add: take_bit_eq_mask mask_eq_exp_minus_1)
  then show ?thesis
    using take_bit_nat_less_exp [of 8 "unat (drop_bit (24 - 8 * i) w)"]
    by (simp add: octet_def unsigned_take_bit_eq)
qed

lemma quads_word_octets: "quads_word (map (octet w) [0..<4]) = w"
proof (rule bit_word_eqI)
  fix n
  assume n: "n < LENGTH(32)"
  have m: "(255::u32) = mask 8" by (simp add: mask_eq_exp_minus_1)
  have o: "of_nat (octet w i) = drop_bit (24 - 8 * i) w AND mask 8" for i
    by (simp add: octet_def m)
  have "map (octet w) [0..<4] = [octet w 0, octet w 1, octet w 2, octet w 3]" by (simp add: upt_rec numeral_eq_Suc)
  moreover have "24 \<le> n \<or> 16 \<le> n \<and> n < 24 \<or> 8 \<le> n \<and> n < 16 \<or> n < 8" by linarith
  ultimately show "bit (quads_word (map (octet w) [0..<4])) n \<longleftrightarrow> bit w n"
    using n
    by (auto simp: quads_word_def o bit_or_iff bit_push_bit_iff bit_and_iff bit_drop_bit_eq bit_mask_iff
        simp del: push_bit_and)
qed

lemma length_show_nat: "n < 256 \<Longrightarrow> length (show_nat n) \<le> 3"
proof -
  assume n: "n < 256"
  have "show_nat n = (if n < 10 then [digit_char n] else (if n div 10 < 10 then [digit_char (n div 10)]
      else show_nat (n div 10 div 10) @ [digit_char (n div 10 mod 10)]) @ [digit_char (n mod 10)])"
    by (subst show_nat.simps, subst show_nat.simps) simp
  moreover have "n div 10 div 10 < 10" using n by simp
  then have "show_nat (n div 10 div 10) = [digit_char (n div 10 div 10)]" by (subst show_nat.simps) simp
  ultimately show ?thesis by simp
qed

lemma parse_show_ipv4: "parse_ipv4 (show_ipv4 w) = Some w"
proof -
  have os: "map (octet w) [0..<4] = [octet w 0, octet w 1, octet w 2, octet w 3]"
    by (simp add: upt_rec numeral_eq_Suc)
  then have sh: "show_ipv4 w = join_with (CHR ''.'') (map show_nat [octet w 0, octet w 1, octet w 2, octet w 3])"
    by (simp add: show_ipv4_def upt_rec numeral_eq_Suc)
  have "length (show_nat (octet w i)) \<le> 3" for i by (rule length_show_nat [OF octet_less])
  from this [of 0] this [of 1] this [of 2] this [of 3]
  have "length (show_ipv4 w) \<le> 15" by (simp add: sh)
  moreover have "read_quads 4 [] (show_ipv4 w) = Some ([octet w 0, octet w 1, octet w 2, octet w 3], [])"
    unfolding sh by (rule read_quads_show) (simp add: octet_less)
  ultimately show ?thesis
    using quads_word_octets [of w, unfolded os] by (simp add: parse_ipv4_def)
qed

lemma bit_keep_mask: "bit (a AND push_bit (32 - k) (NOT 0) :: u32) n \<longleftrightarrow> bit a n \<and> 32 - k \<le> n"
  using bit_imp_le_length [of a n]
  by (auto simp: bit_and_iff bit_push_bit_iff bit_not_iff bit_mask_iff)

section \<open>Properties\<close>

text \<open>Masking an IPv4 address succeeds on every valid address and only on those; parsing the
  result gives the address whose first \<open>k\<close> bits are the original ones and whose other bits are zero, for
  every \<open>k\<close> including 0 and values above 32.\<close>

theorem mask_ipv4_spec:
  "case mask_ipv4 ip k of
     Some s \<Rightarrow> (\<exists>a b. parse_ipv4 ip = Some a \<and> parse_ipv4 s = Some b
                 \<and> (\<forall>n. bit b n \<longleftrightarrow> bit a n \<and> 32 - k \<le> n))
   | None \<Rightarrow> parse_ipv4 ip = None"
proof (cases "parse_ipv4 ip")
  case None
  then show ?thesis by (simp add: mask_ipv4_def)
next
  case (Some a)
  have zero: "parse_ipv4 ''0.0.0.0'' = Some 0" by code_simp
  have le: "\<not> bit a n" if "32 \<le> n" for n using bit_imp_le_length [of a n] that by auto
  show ?thesis
    using Some zero le parse_show_ipv4 bit_keep_mask [of a k]
    by (auto simp: mask_ipv4_def not_less)
qed

end
