(* ===== verification/ExPrivacy.thy ===== *)
theory ExPrivacy
  imports OpenRtb IpUtil
begin

text \<open>
  Privacy enforcement of the exchange, \<^verbatim>\<open>rust/crates/exchange/src/privacy.rs\<close>: the policies extracted from a
  request (GDPR, CCPA, COPPA, LMT, GPP), the check that decides whether a bidder is called, the activity
  controls, the scrubbing of identifiers, geography and IP addresses, the policy writers and enforcers,
  and the adjustment of the LMT flag for iOS.
\<close>

section \<open>GPP policy\<close>

definition GPP_SID_TCF_EU2 :: int where "GPP_SID_TCF_EU2 = 2"
definition GPP_SID_USP_V1 :: int where "GPP_SID_USP_V1 = 6"

record gpp_policy =
  gpp_consent_string :: "string option"
  section_ids :: "int list"

definition gpp_is_empty :: "gpp_policy \<Rightarrow> bool" where
  "gpp_is_empty g = (gpp_consent_string g = None \<and> section_ids g = [])"

definition has_section :: "gpp_policy \<Rightarrow> int \<Rightarrow> bool" where
  "has_section g sid = (sid \<in> set (section_ids g))"

definition has_tcf_eu2 :: "gpp_policy \<Rightarrow> bool" where
  "has_tcf_eu2 g = has_section g GPP_SID_TCF_EU2"

definition has_usp_v1 :: "gpp_policy \<Rightarrow> bool" where
  "has_usp_v1 g = has_section g GPP_SID_USP_V1"

text \<open>\<^verbatim>\<open>Option::filter\<close>.\<close>

definition opt_filter :: "('a \<Rightarrow> bool) \<Rightarrow> 'a option \<Rightarrow> 'a option" where
  "opt_filter P x = (case x of Some v \<Rightarrow> if P v then Some v else None | None \<Rightarrow> None)"

definition unwrap_or :: "'a \<Rightarrow> 'a option \<Rightarrow> 'a" where
  "unwrap_or d x = (case x of Some v \<Rightarrow> v | None \<Rightarrow> d)"

definition parse_gpp :: "bid_request \<Rightarrow> gpp_policy" where
  "parse_gpp req =
     \<lparr>gpp_consent_string = opt_filter (\<lambda>s. s \<noteq> []) (Option.bind (req_regs req) regs_gpp),
      section_ids = unwrap_or [] (Option.bind (req_regs req) regs_gpp_sid)\<rparr>"

definition derive_gdpr_from_gpp ::
    "bool \<Rightarrow> string option \<Rightarrow> gpp_policy \<Rightarrow> bool \<Rightarrow> bool \<times> string option" where
  "derive_gdpr_from_gpp gdpr_applies consent gpp has_legacy_gdpr =
     (if \<not> has_legacy_gdpr \<and> section_ids gpp \<noteq> [] then has_tcf_eu2 gpp else gdpr_applies,
      if consent = None \<and> has_tcf_eu2 gpp
      then (case gpp_consent_string gpp of Some c \<Rightarrow> Some c | None \<Rightarrow> consent)
      else consent)"

definition derive_usp_from_gpp :: "string option \<Rightarrow> gpp_policy \<Rightarrow> string option" where
  "derive_usp_from_gpp us_privacy gpp =
     (if us_privacy \<noteq> None then us_privacy
      else if section_ids gpp = [] then None
      else if has_usp_v1 gpp then gpp_consent_string gpp
      else None)"

section \<open>The check before a bidder is called\<close>

record auction_privacy_config =
  gdpr_applies :: bool
  priv_consent_string :: "string option"
  priv_us_privacy :: "string option"
  priv_lmt :: "int option"
  priv_coppa :: "int option"
  priv_gpp :: gpp_policy

datatype privacy_result = Allow | BlockGdpr | BlockCcpa | BlockCoppa | BlockLmt

definition extract_privacy_config :: "bid_request \<Rightarrow> auction_privacy_config" where
  "extract_privacy_config req =
     (let legacy_gdpr_value =
            Option.bind (jpath (Option.bind (req_regs req) regs_jext) [''gdpr'']) as_i64;
          has_legacy_gdpr = (legacy_gdpr_value \<noteq> None);
          applies = (case legacy_gdpr_value of Some g \<Rightarrow> g = 1 | None \<Rightarrow> False);
          consent = opt_filter (\<lambda>s. s \<noteq> [])
            (Option.bind (jpath (Option.bind (req_user req) user_jext) [''consent'']) as_str);
          us_privacy = Option.bind (req_regs req) regs_us_privacy;
          gpp = parse_gpp req;
          derived = derive_gdpr_from_gpp applies consent gpp has_legacy_gdpr
      in \<lparr>gdpr_applies = fst derived, priv_consent_string = snd derived,
          priv_us_privacy = derive_usp_from_gpp us_privacy gpp,
          priv_lmt = Option.bind (req_device req) device_lmt,
          priv_coppa = Option.bind (req_regs req) regs_coppa, priv_gpp = gpp\<rparr>)"

text \<open>The third character of the US-Privacy string is \<open>Y\<close>.\<close>

definition third_is_Y :: "string \<Rightarrow> bool" where
  "third_is_Y s = (let chars = utf8_chars s in length chars \<ge> 3 \<and> chars ! 2 = ''Y'')"

definition check_privacy_for_bidder :: "auction_privacy_config \<Rightarrow> string \<Rightarrow> privacy_result" where
  "check_privacy_for_bidder c bidder =
     (if priv_coppa c = Some 1 then BlockCoppa
      else if priv_lmt c = Some 1 then BlockLmt
      else if (case priv_us_privacy c of Some s \<Rightarrow> third_is_Y s | None \<Rightarrow> False) then BlockCcpa
      else if gdpr_applies c
              \<and> (case priv_consent_string c of Some s \<Rightarrow> s = [] | None \<Rightarrow> True) then BlockGdpr
      else Allow)"

section \<open>CCPA\<close>

record ccpa_policy =
  ccpa_consent_string :: string
  ccpa_opt_out_sale :: bool

definition ccpa_parse :: "string \<Rightarrow> ccpa_policy" where
  "ccpa_parse s = \<lparr>ccpa_consent_string = s, ccpa_opt_out_sale = third_is_Y s\<rparr>"

definition ccpa_should_block :: "ccpa_policy \<Rightarrow> bool" where
  "ccpa_should_block p = ccpa_opt_out_sale p"

definition validate_consent :: "string \<Rightarrow> bool" where
  "validate_consent s =
     (if s = [] then True
      else let chars = utf8_chars s in if length chars \<noteq> 4 then False else chars ! 0 = ''1'')"

record parsed_ccpa_policy =
  consent_specified :: bool
  consent_opt_out_sale :: bool
  no_sale_for_all_bidders :: bool
  no_sale_specific_bidders :: "string set"

definition parsed_ccpa_parse :: "string \<Rightarrow> string list \<Rightarrow> (string, parsed_ccpa_policy) res" where
  "parsed_ccpa_parse consent no_sale_bidders =
     res_bind
       (if consent = [] then Inr (False, False)
        else if \<not> validate_consent consent
        then Inl ''request.regs.ext.us_privacy must contain 4 characters''
        else Inr (True, third_is_Y consent))
       (\<lambda>(specified, opt_out).
          let (al, sp) = fold (\<lambda>b (al, sp). if b = ''*'' then (True, sp) else (al, Set.insert b sp))
                            no_sale_bidders (False, {})
          in Inr \<lparr>consent_specified = specified, consent_opt_out_sale = opt_out,
                  no_sale_for_all_bidders = al, no_sale_specific_bidders = sp\<rparr>)"

definition ccpa_can_enforce :: "parsed_ccpa_policy \<Rightarrow> bool" where
  "ccpa_can_enforce p = consent_specified p"

definition is_no_sale_for_bidder :: "parsed_ccpa_policy \<Rightarrow> string \<Rightarrow> bool" where
  "is_no_sale_for_bidder p b = (no_sale_for_all_bidders p \<or> b \<in> no_sale_specific_bidders p)"

definition ccpa_should_enforce :: "parsed_ccpa_policy \<Rightarrow> string \<Rightarrow> bool" where
  "ccpa_should_enforce p b =
     (if \<not> consent_opt_out_sale p then False else \<not> is_no_sale_for_bidder p b)"

section \<open>LMT\<close>

record lmt_policy = lmt_value :: "int option"

definition lmt_new :: "int option \<Rightarrow> lmt_policy" where "lmt_new l = \<lparr>lmt_value = l\<rparr>"
definition lmt_is_enabled :: "lmt_policy \<Rightarrow> bool" where "lmt_is_enabled p = (lmt_value p = Some 1)"
definition lmt_should_block :: "lmt_policy \<Rightarrow> bool" where "lmt_should_block p = lmt_is_enabled p"

section \<open>Activity controls\<close>

datatype activity =
    SyncUser | FetchBids | EnrichUserFPD | ReportAnalytics | TransmitUserFPD | TransmitPreciseGeo
  | TransmitUniqueIds | TransmitTid

datatype activity_result = ActAllow | ActDeny | ActAbstain

record activity_component =
  component_type :: string
  component_name :: string

record activity_condition =
  cond_component_name :: "string list"
  cond_component_type :: "string list"
  cond_gpp_sid :: "int list"

record activity_rule =
  rule_allow :: bool
  rule_conditions :: "activity_condition list"

record activity_request = actreq_gpp_sid :: "int list"

definition matches_with_request ::
    "activity_condition \<Rightarrow> activity_component \<Rightarrow> activity_request \<Rightarrow> bool" where
  "matches_with_request c cmpt r =
     (let name_ok = cond_component_name c = []
            \<or> list_ex (\<lambda>n. eq_ignore_ascii_case n (component_name cmpt)) (cond_component_name c);
          type_ok = cond_component_type c = []
            \<or> list_ex (\<lambda>t. eq_ignore_ascii_case t (component_type cmpt)) (cond_component_type c)
      in if \<not> name_ok then False
         else if \<not> type_ok then False
         else cond_gpp_sid c = [] \<or> list_ex (\<lambda>sid. sid \<in> set (actreq_gpp_sid r)) (cond_gpp_sid c))"

definition cond_matches :: "activity_condition \<Rightarrow> activity_component \<Rightarrow> bool" where
  "cond_matches c cmpt = matches_with_request c cmpt \<lparr>actreq_gpp_sid = []\<rparr>"

record activity_config =
  default_result :: bool
  act_rules :: "activity_rule list"

fun eval_rules :: "activity_rule list \<Rightarrow> activity_component \<Rightarrow> activity_result option" where
  "eval_rules [] cmpt = None"
| "eval_rules (r # rs) cmpt =
     (if rule_conditions r = [] \<or> list_ex (\<lambda>c. cond_matches c cmpt) (rule_conditions r)
      then Some (if rule_allow r then ActAllow else ActDeny)
      else eval_rules rs cmpt)"

definition activity_evaluate :: "activity_config \<Rightarrow> activity_component \<Rightarrow> activity_result" where
  "activity_evaluate cfg cmpt =
     (case eval_rules (act_rules cfg) cmpt of
        Some res \<Rightarrow> res
      | None \<Rightarrow> if default_result cfg then ActAllow else ActAbstain)"

definition is_allowed ::
    "(activity \<times> activity_config) list \<Rightarrow> activity \<Rightarrow> activity_component \<Rightarrow> bool" where
  "is_allowed activities act cmpt =
     (case map_of activities act of
        Some cfg \<Rightarrow> activity_evaluate cfg cmpt \<noteq> ActDeny
      | None \<Rightarrow> True)"

section \<open>Scrubbing\<close>

record ip_conf =
  ipv4_anon_keep_bits :: nat
  ipv6_anon_keep_bits :: nat

definition default_ip_conf :: ip_conf where
  "default_ip_conf = \<lparr>ipv4_anon_keep_bits = 24, ipv6_anon_keep_bits = 56\<rparr>"

definition on_device :: "(device \<Rightarrow> device) \<Rightarrow> bid_request \<Rightarrow> bid_request" where
  "on_device f req = req\<lparr>req_device := map_option f (req_device req)\<rparr>"

definition on_user :: "(user \<Rightarrow> user) \<Rightarrow> bid_request \<Rightarrow> bid_request" where
  "on_user f req = req\<lparr>req_user := map_option f (req_user req)\<rparr>"

definition scrub_ext_field :: "json option \<Rightarrow> string \<Rightarrow> json option" where
  "scrub_ext_field ext field =
     (case ext of Some (JObj m) \<Rightarrow> Some (JObj (bt_remove field m)) | _ \<Rightarrow> ext)"

definition scrub_device_ids :: "bid_request \<Rightarrow> bid_request" where
  "scrub_device_ids = on_device (\<lambda>d. d\<lparr>device_didmd5 := None, device_didsha1 := None,
     device_dpidmd5 := None, device_dpidsha1 := None, device_ifa := None, device_macmd5 := None,
     device_macsha1 := None\<rparr>)"

definition scrub_user_ids :: "bid_request \<Rightarrow> bid_request" where
  "scrub_user_ids = on_user (\<lambda>u. u\<lparr>user_data := [], user_id := None, user_buyeruid := None,
     user_yob := None, user_gender := None, user_keywords := None\<rparr>)"

definition scrub_user_demographics :: "bid_request \<Rightarrow> bid_request" where
  "scrub_user_demographics = on_user (\<lambda>u. u\<lparr>user_buyeruid := None, user_id := None,
     user_yob := None, user_gender := None\<rparr>)"

definition scrub_eids :: "bid_request \<Rightarrow> bid_request" where
  "scrub_eids = on_user (\<lambda>u. u\<lparr>user_eids := None, user_jext := scrub_ext_field (user_jext u) ''eids''\<rparr>)"

definition scrub_tid :: "bid_request \<Rightarrow> bid_request" where
  "scrub_tid req =
     req\<lparr>req_source := map_option (\<lambda>s. s\<lparr>source_tid := None\<rparr>) (req_source req),
         req_imp := map (\<lambda>i. i\<lparr>imp_jext := scrub_ext_field (imp_jext i) ''tid''\<rparr>) (req_imp req)\<rparr>"

definition round_coord :: "f64 \<Rightarrow> f64" where
  "round_coord v = f_div (f_floor (f_add (f_mul v (f_of 100)) (f_of (1 / 2)))) (f_of 100)"

definition round_geo_precision :: "geo \<Rightarrow> geo" where
  "round_geo_precision g =
     g\<lparr>geo_lat := map_option round_coord (geo_lat g), geo_lon := map_option round_coord (geo_lon g)\<rparr>"

definition scrub_geo_precision :: "bid_request \<Rightarrow> bid_request" where
  "scrub_geo_precision req =
     on_device (\<lambda>d. d\<lparr>device_geo := map_option round_geo_precision (device_geo d)\<rparr>)
       (on_user (\<lambda>u. u\<lparr>user_geo := map_option round_geo_precision (user_geo u)\<rparr>) req)"

definition scrub_geo_full :: "bid_request \<Rightarrow> bid_request" where
  "scrub_geo_full req =
     on_device (\<lambda>d. d\<lparr>device_geo := map_option (\<lambda>_. default_geo) (device_geo d)\<rparr>)
       (on_user (\<lambda>u. u\<lparr>user_geo := map_option (\<lambda>_. default_geo) (user_geo u)\<rparr>) req)"

definition scrub_ip :: "string \<Rightarrow> nat \<Rightarrow> nat \<Rightarrow> string" where
  "scrub_ip ip keep_bits total_bits =
     (if ip = [] then []
      else if total_bits = 32 then unwrap_or [] (mask_ipv4 ip keep_bits)
      else unwrap_or [] (mask_ipv6 ip keep_bits))"

definition scrub_device_ip :: "bid_request \<Rightarrow> ip_conf \<Rightarrow> bid_request" where
  "scrub_device_ip req conf =
     on_device (\<lambda>d. d\<lparr>device_ip := map_option (\<lambda>ip. scrub_ip ip (ipv4_anon_keep_bits conf) 32) (device_ip d),
       device_ipv6 := map_option (\<lambda>ip. scrub_ip ip (ipv6_anon_keep_bits conf) 128) (device_ipv6 d)\<rparr>) req"

definition scrub_user_ext :: "string \<Rightarrow> bid_request \<Rightarrow> bid_request" where
  "scrub_user_ext field = on_user (\<lambda>u. u\<lparr>user_jext := scrub_ext_field (user_jext u) field\<rparr>)"

definition scrub_device_ids_ips_user_demo_ext ::
    "bid_request \<Rightarrow> ip_conf \<Rightarrow> string \<Rightarrow> bool \<Rightarrow> bid_request" where
  "scrub_device_ids_ips_user_demo_ext req conf ext_field_name scrub_full_geo =
     (let req = scrub_device_ids req;
          req = scrub_device_ip req conf;
          req = scrub_user_demographics req;
          req = scrub_user_ext ext_field_name req
      in if scrub_full_geo then scrub_geo_full req else scrub_geo_precision req)"

definition scrub_user_fpd :: "bid_request \<Rightarrow> bid_request" where
  "scrub_user_fpd req =
     on_user (\<lambda>u. u\<lparr>user_jext := scrub_ext_field (user_jext u) ''data'', user_eids := None\<rparr>)
       (scrub_user_ids (scrub_device_ids req))"

definition scrub_gdpr_id :: "bid_request \<Rightarrow> bid_request" where
  "scrub_gdpr_id req = scrub_user_ext ''eids'' (scrub_user_demographics (scrub_device_ids req))"

definition scrub_geo_and_device_ip :: "bid_request \<Rightarrow> ip_conf \<Rightarrow> bid_request" where
  "scrub_geo_and_device_ip req conf = scrub_geo_precision (scrub_device_ip req conf)"

section \<open>Policy writers and enforcers\<close>

record gdpr_consent_writer =
  gdprw_consent :: string
  gdprw_gdpr :: "int option"

definition gdpr_write :: "gdpr_consent_writer \<Rightarrow> bid_request \<Rightarrow> (string, bid_request) res" where
  "gdpr_write w req =
     (let req = (case gdprw_gdpr w of
            Some g \<Rightarrow> req\<lparr>req_regs := Some ((unwrap_or default_regs (req_regs req))\<lparr>regs_gdpr := Some g\<rparr>)\<rparr>
          | None \<Rightarrow> req);
          req = (if gdprw_consent w \<noteq> []
                 then req\<lparr>req_user := Some ((unwrap_or default_user (req_user req))\<lparr>user_consent := Some (gdprw_consent w)\<rparr>)\<rparr>
                 else req)
      in Inr req)"

definition ccpa_write :: "string \<Rightarrow> bid_request \<Rightarrow> (string, bid_request) res" where
  "ccpa_write consent req =
     (if consent \<noteq> []
      then Inr (req\<lparr>req_regs := Some ((unwrap_or default_regs (req_regs req))\<lparr>regs_us_privacy := Some consent\<rparr>)\<rparr>)
      else Inr req)"

definition nil_write :: "bid_request \<Rightarrow> (string, bid_request) res" where
  "nil_write req = Inr req"

definition nil_can_enforce :: "unit \<Rightarrow> bool" where "nil_can_enforce u = False"
definition nil_should_enforce :: "unit \<Rightarrow> string \<Rightarrow> bool" where "nil_should_enforce u bidder = False"

definition enabled_can_enforce :: "('p \<Rightarrow> bool) \<Rightarrow> bool \<times> 'p \<Rightarrow> bool" where
  "enabled_can_enforce can e = can (snd e)"

definition enabled_should_enforce :: "('p \<Rightarrow> string \<Rightarrow> bool) \<Rightarrow> bool \<times> 'p \<Rightarrow> string \<Rightarrow> bool" where
  "enabled_should_enforce should e bidder = (if fst e then should (snd e) bidder else False)"

section \<open>LMT on iOS\<close>

datatype ios_version_class = Version14_0 | Version14_1 | Version14_2OrGreater | Other

definition is_request_for_ios :: "bid_request \<Rightarrow> bool" where
  "is_request_for_ios req =
     (req_app req \<noteq> None
      \<and> (case req_device req of
           Some d \<Rightarrow> (case device_os d of Some os \<Rightarrow> eq_ignore_ascii_case os ''ios'' | None \<Rightarrow> False)
         | None \<Rightarrow> False))"

definition part_number :: "string list \<Rightarrow> nat \<Rightarrow> int" where
  "part_number parts i =
     (if i < length parts then unwrap_or 0 (parse_u32 (parts ! i)) else 0)"

definition detect_ios_version_classification :: "string \<Rightarrow> ios_version_class" where
  "detect_ios_version_classification osv =
     (let parts = split_on (CHR ''.'') osv;
          major = part_number parts 0; minor = part_number parts 1
      in if major < 14 then Other
         else if major > 14 then Version14_2OrGreater
         else if minor = 0 then Version14_0
         else if minor = 1 then Version14_1
         else Version14_2OrGreater)"

definition modify_for_ios_14x :: "bid_request \<Rightarrow> bid_request" where
  "modify_for_ios_14x = on_device (\<lambda>d.
     let ifa = unwrap_or [] (device_ifa d)
     in if ifa = [] \<or> ifa = ''00000000-0000-0000-0000-000000000000'' then d\<lparr>device_lmt := Some 1\<rparr>
        else d\<lparr>device_lmt := Some 0\<rparr>)"

definition modify_for_ios_14_2_or_greater :: "bid_request \<Rightarrow> bid_request" where
  "modify_for_ios_14_2_or_greater req =
     (case Option.bind (jpath (Option.bind (req_device req) device_jext) [''atts'']) as_i64 of
        None \<Rightarrow> req
      | Some atts \<Rightarrow>
          on_device (\<lambda>d. if atts \<in> {0, 1, 2} then d\<lparr>device_lmt := Some 1\<rparr>
                         else if atts = 3 then d\<lparr>device_lmt := Some 0\<rparr> else d) req)"

definition modify_lmt_for_ios :: "bid_request \<Rightarrow> bid_request" where
  "modify_lmt_for_ios req =
     (if \<not> is_request_for_ios req then req
      else case Option.bind (req_device req) device_osv of
             None \<Rightarrow> req
           | Some osv \<Rightarrow>
               (case detect_ios_version_classification osv of
                  Version14_0 \<Rightarrow> modify_for_ios_14x req
                | Version14_1 \<Rightarrow> modify_for_ios_14x req
                | Version14_2OrGreater \<Rightarrow> modify_for_ios_14_2_or_greater req
                | Other \<Rightarrow> req))"

section \<open>GDPR signal and COPPA\<close>

datatype gdpr_signal = GdprAmbiguous | GdprNo | GdprYes

definition gdpr_from_str_signal :: "string \<Rightarrow> (string, gdpr_signal) res" where
  "gdpr_from_str_signal s =
     (if s = [] then Inr GdprAmbiguous
      else case parse_i32 s of
             Some v \<Rightarrow> if v = 0 then Inr GdprNo else if v = 1 then Inr GdprYes
                       else Inl ''GDPR signal should be integer 0 or 1''
           | None \<Rightarrow> Inl ''GDPR signal should be integer 0 or 1'')"

definition gdpr_from_int :: "int \<Rightarrow> (string, gdpr_signal) res" where
  "gdpr_from_int i = (if i = 0 then Inr GdprNo else if i = 1 then Inr GdprYes
                      else Inl ''GDPR signal should be integer 0 or 1'')"

definition gdpr_normalize :: "gdpr_signal \<Rightarrow> string \<Rightarrow> gdpr_signal" where
  "gdpr_normalize s default_value =
     (if s \<noteq> GdprAmbiguous then s else if default_value = ''0'' then GdprNo else GdprYes)"

definition enforce_gdpr :: "gdpr_signal \<Rightarrow> gdpr_signal \<Rightarrow> bool \<Rightarrow> bool" where
  "enforce_gdpr signal default_value channel_enabled =
     ((signal = GdprYes \<or> (signal = GdprAmbiguous \<and> default_value = GdprYes)) \<and> channel_enabled)"

definition sanitize_request_for_coppa :: "bid_request \<Rightarrow> bid_request" where
  "sanitize_request_for_coppa req =
     (if Option.bind (req_regs req) regs_coppa \<noteq> Some 1 then req
      else on_device (\<lambda>d. d\<lparr>device_ifa := None, device_dpidmd5 := None, device_dpidsha1 := None\<rparr>)
             (on_user (\<lambda>u. u\<lparr>user_id := None, user_buyeruid := None\<rparr>) req))"

section \<open>Lemmas: scrubbing\<close>

text \<open>What every scrubbing operation on the user and the device promises: it changes nothing else of the
  request, and neither adds nor removes the two objects.\<close>

locale request_scrub =
  fixes f :: "bid_request \<Rightarrow> bid_request"
  assumes frame: "\<exists>u d. f r = r\<lparr>req_user := u, req_device := d\<rparr>
      \<and> (u = None \<longleftrightarrow> req_user r = None) \<and> (d = None \<longleftrightarrow> req_device r = None)"
begin

lemma keeps:
  "req_id (f r) = req_id r" "req_imp (f r) = req_imp r" "req_site (f r) = req_site r"
  "req_app (f r) = req_app r" "req_regs (f r) = req_regs r" "req_source (f r) = req_source r"
  "req_jext (f r) = req_jext r" "req_tmax (f r) = req_tmax r" "req_cur (f r) = req_cur r"
proof -
  obtain u d where "f r = r\<lparr>req_user := u, req_device := d\<rparr>" using frame by blast
  then show "req_id (f r) = req_id r" "req_imp (f r) = req_imp r" "req_site (f r) = req_site r"
    "req_app (f r) = req_app r" "req_regs (f r) = req_regs r" "req_source (f r) = req_source r"
    "req_jext (f r) = req_jext r" "req_tmax (f r) = req_tmax r" "req_cur (f r) = req_cur r"
    by simp_all
qed

end

lemma request_scrub_comp:
  assumes "request_scrub f" "request_scrub g"
  shows "request_scrub (\<lambda>r. f (g r))"
proof
  fix r
  obtain u d where g: "g r = r\<lparr>req_user := u, req_device := d\<rparr>" "u = None \<longleftrightarrow> req_user r = None"
    "d = None \<longleftrightarrow> req_device r = None"
    using request_scrub.frame [OF assms(2), of r] by (elim exE conjE)
  obtain u' d' where f: "f (g r) = (g r)\<lparr>req_user := u', req_device := d'\<rparr>"
    "u' = None \<longleftrightarrow> req_user (g r) = None" "d' = None \<longleftrightarrow> req_device (g r) = None"
    using request_scrub.frame [OF assms(1), of "g r"] by (elim exE conjE)
  from f g show "\<exists>u d. f (g r) = r\<lparr>req_user := u, req_device := d\<rparr>
      \<and> (u = None \<longleftrightarrow> req_user r = None) \<and> (d = None \<longleftrightarrow> req_device r = None)"
    by (intro exI [of _ u'] exI [of _ d']) simp
qed

lemma request_scrub_on_user: "request_scrub (on_user h)"
proof
  fix r
  show "\<exists>u d. on_user h r = r\<lparr>req_user := u, req_device := d\<rparr>
      \<and> (u = None \<longleftrightarrow> req_user r = None) \<and> (d = None \<longleftrightarrow> req_device r = None)"
    by (intro exI [of _ "map_option h (req_user r)"] exI [of _ "req_device r"]) (simp add: on_user_def)
qed

lemma request_scrub_on_device: "request_scrub (on_device h)"
proof
  fix r
  show "\<exists>u d. on_device h r = r\<lparr>req_user := u, req_device := d\<rparr>
      \<and> (u = None \<longleftrightarrow> req_user r = None) \<and> (d = None \<longleftrightarrow> req_device r = None)"
    by (intro exI [of _ "req_user r"] exI [of _ "map_option h (req_device r)"]) (simp add: on_device_def)
qed

interpretation scrub_device_ids: request_scrub scrub_device_ids
  unfolding scrub_device_ids_def by (rule request_scrub_on_device)

interpretation scrub_user_ids: request_scrub scrub_user_ids
  unfolding scrub_user_ids_def by (rule request_scrub_on_user)

interpretation scrub_user_demographics: request_scrub scrub_user_demographics
  unfolding scrub_user_demographics_def by (rule request_scrub_on_user)

interpretation scrub_eids: request_scrub scrub_eids
  unfolding scrub_eids_def by (rule request_scrub_on_user)

interpretation scrub_user_ext: request_scrub "scrub_user_ext field" for field
  unfolding scrub_user_ext_def by (rule request_scrub_on_user)

interpretation scrub_device_ip: request_scrub "\<lambda>r. scrub_device_ip r conf" for conf
  unfolding scrub_device_ip_def by (rule request_scrub_on_device)

interpretation scrub_geo_precision: request_scrub scrub_geo_precision
  unfolding scrub_geo_precision_def [abs_def]
  by (rule request_scrub_comp [OF request_scrub_on_device request_scrub_on_user])

interpretation scrub_geo_full: request_scrub scrub_geo_full
  unfolding scrub_geo_full_def [abs_def]
  by (rule request_scrub_comp [OF request_scrub_on_device request_scrub_on_user])

interpretation scrub_user_fpd: request_scrub scrub_user_fpd
  unfolding scrub_user_fpd_def [abs_def]
  by (rule request_scrub_comp [OF request_scrub_on_user
      request_scrub_comp [OF scrub_user_ids.request_scrub_axioms scrub_device_ids.request_scrub_axioms]])

interpretation scrub_gdpr_id: request_scrub scrub_gdpr_id
  unfolding scrub_gdpr_id_def [abs_def]
  by (rule request_scrub_comp [OF scrub_user_ext.request_scrub_axioms
      request_scrub_comp [OF scrub_user_demographics.request_scrub_axioms
        scrub_device_ids.request_scrub_axioms]])

interpretation scrub_full: request_scrub
  "\<lambda>r. scrub_device_ids_ips_user_demo_ext r conf field full" for conf field full
proof -
  note base = request_scrub_comp [OF scrub_user_ext.request_scrub_axioms
      request_scrub_comp [OF scrub_user_demographics.request_scrub_axioms
        request_scrub_comp [OF scrub_device_ip.request_scrub_axioms
          scrub_device_ids.request_scrub_axioms]]]
  show "request_scrub (\<lambda>r. scrub_device_ids_ips_user_demo_ext r conf field full)"
    unfolding scrub_device_ids_ips_user_demo_ext_def Let_def
    using request_scrub_comp [OF scrub_geo_full.request_scrub_axioms base]
      request_scrub_comp [OF scrub_geo_precision.request_scrub_axioms base]
    by (cases full) simp_all
qed

section \<open>Lemmas: enforcers\<close>

text \<open>The contract of a policy enforcer: it only asks for enforcement when the policy was provided.\<close>

locale policy_enforcer =
  fixes can :: "'p \<Rightarrow> bool" and should :: "'p \<Rightarrow> string \<Rightarrow> bool" and wf :: "'p \<Rightarrow> bool"
  assumes should_can: "wf p \<Longrightarrow> should p b \<Longrightarrow> can p"
begin

lemma enabled: "policy_enforcer (enabled_can_enforce can) (enabled_should_enforce should) (\<lambda>e. wf (snd e))"
  by unfold_locales (auto simp: enabled_can_enforce_def enabled_should_enforce_def dest: should_can split: if_splits)

end

definition ccpa_wf :: "parsed_ccpa_policy \<Rightarrow> bool" where
  "ccpa_wf p = (consent_opt_out_sale p \<longrightarrow> consent_specified p)"

interpretation nil_enforcer: policy_enforcer nil_can_enforce nil_should_enforce "\<lambda>_. True"
  by unfold_locales (simp add: nil_should_enforce_def)

interpretation ccpa_enforcer: policy_enforcer ccpa_can_enforce ccpa_should_enforce ccpa_wf
  by unfold_locales (auto simp: ccpa_wf_def ccpa_can_enforce_def ccpa_should_enforce_def split: if_splits)

interpretation enabled_ccpa: policy_enforcer
  "enabled_can_enforce ccpa_can_enforce" "enabled_should_enforce ccpa_should_enforce" "\<lambda>e. ccpa_wf (snd e)"
  by (rule ccpa_enforcer.enabled)

lemma no_sale_fold:
  "fold (\<lambda>b (al, sp). if b = ''*'' then (True, sp) else (al, Set.insert b sp)) ns (al, sp)
   = (al \<or> ''*'' \<in> set ns, sp \<union> (set ns - {''*''}))"
  by (induction ns arbitrary: al sp) auto

lemma parsed_ccpa_wf: "parsed_ccpa_parse s ns = Inr p \<Longrightarrow> ccpa_wf p"
  by (auto simp: parsed_ccpa_parse_def no_sale_fold ccpa_wf_def res_bind_eq_Inr split: if_splits)

section \<open>Lemmas: activities\<close>

lemma cond_gpp_never: "cond_gpp_sid c \<noteq> [] \<Longrightarrow> \<not> cond_matches c cmpt"
  by (simp add: cond_matches_def matches_with_request_def list_ex_iff)

lemma eval_rules_None_iff:
  "eval_rules rs cmpt = None \<longleftrightarrow>
     (\<forall>r \<in> set rs. rule_conditions r \<noteq> [] \<and> (\<forall>c \<in> set (rule_conditions r). \<not> cond_matches c cmpt))"
  by (induction rs) (auto simp: list_ex_iff)

definition rule_applies :: "activity_component \<Rightarrow> activity_rule \<Rightarrow> bool" where
  "rule_applies cmpt r =
     (rule_conditions r = [] \<or> list_ex (\<lambda>c. cond_matches c cmpt) (rule_conditions r))"

lemma eval_rules_Cons:
  "eval_rules (r # rs) cmpt =
     (if rule_applies cmpt r then Some (if rule_allow r then ActAllow else ActDeny) else eval_rules rs cmpt)"
  by (simp add: rule_applies_def)

text \<open>The first rule that applies decides.\<close>

lemma eval_rules_deny_iff:
  "eval_rules xs cmpt = Some ActDeny \<longleftrightarrow>
     (\<exists>rs r ss. xs = rs @ r # ss \<and> \<not> rule_allow r \<and> eval_rules rs cmpt = None \<and> rule_applies cmpt r)"
proof (induction xs)
  case (Cons x xs)
  show ?case
  proof (cases "rule_applies cmpt x")
    case True
    then show ?thesis
      by (auto simp: eval_rules_Cons Cons_eq_append_conv simp del: eval_rules.simps(2) split: if_splits
          intro!: exI [of _ "[]"])
  next
    case False
    then have "eval_rules (x # xs) cmpt = eval_rules xs cmpt" by (simp only: eval_rules_Cons if_False)
    with False Cons.IH show ?thesis
      by (auto simp: eval_rules_Cons Cons_eq_append_conv simp del: eval_rules.simps(2))
        (metis eval_rules_Cons)+
  qed
qed simp

section \<open>Lemmas: no identifiers\<close>

definition no_device_ids :: "bid_request \<Rightarrow> bool" where
  "no_device_ids req =
     (case req_device req of
        Some d \<Rightarrow> device_didmd5 d = None \<and> device_didsha1 d = None \<and> device_dpidmd5 d = None
          \<and> device_dpidsha1 d = None \<and> device_ifa d = None \<and> device_macmd5 d = None \<and> device_macsha1 d = None
      | None \<Rightarrow> True)"

definition no_demographics :: "bid_request \<Rightarrow> bool" where
  "no_demographics req =
     (case req_user req of
        Some u \<Rightarrow> user_id u = None \<and> user_buyeruid u = None \<and> user_yob u = None \<and> user_gender u = None
      | None \<Rightarrow> True)"

definition user_ext_key :: "bid_request \<Rightarrow> string \<Rightarrow> json option" where
  "user_ext_key req k = jpath (Option.bind (req_user req) user_jext) [k]"

lemma scrub_ext_field_get: "jpath (scrub_ext_field ext k) [k] = None"
  by (auto simp: scrub_ext_field_def bt_remove_def map_of_filter_neq split: option.split json.split)

lemma user_ext_scrubbed:
  "Option.bind (map_option (\<lambda>u. u\<lparr>user_jext := scrub_ext_field (user_jext u) k\<rparr>) x) user_jext
   = Option.bind x (\<lambda>u. scrub_ext_field (user_jext u) k)"
  by (cases x) simp_all

section \<open>Properties\<close>

definition gdpr_in_force :: "bid_request \<Rightarrow> bool" where
  "gdpr_in_force req =
     (case Option.bind (jpath (Option.bind (req_regs req) regs_jext) [''gdpr'']) as_i64 of
        Some g \<Rightarrow> g = 1
      | None \<Rightarrow> 2 \<in> set (section_ids (parse_gpp req)))"

definition consent_present :: "bid_request \<Rightarrow> bool" where
  "consent_present req =
     (case Option.bind (jpath (Option.bind (req_user req) user_jext) [''consent'']) as_str of
        Some (c # cs) \<Rightarrow> True
      | _ \<Rightarrow> 2 \<in> set (section_ids (parse_gpp req)) \<and> gpp_consent_string (parse_gpp req) \<noteq> None)"

definition sale_opt_out :: "bid_request \<Rightarrow> bool" where
  "sale_opt_out req =
     (case Option.bind (req_regs req) regs_us_privacy of
        Some s \<Rightarrow> third_is_Y s
      | None \<Rightarrow> 6 \<in> set (section_ids (parse_gpp req))
                \<and> (case gpp_consent_string (parse_gpp req) of Some s \<Rightarrow> third_is_Y s | None \<Rightarrow> False))"

text \<open>Property C9.  When a bidder may be called, in terms of the request: the child flag and the
  limit-tracking flag are not 1, the US-Privacy string (or, when it is absent and the GPP section list
  names the US-Privacy section, the GPP string) does not have Y as its third character, and a consent
  string is present if GDPR applies.  GDPR applies when the legacy flag is 1, or when the flag is absent
  and the GPP section list names the TCF section.  The decision does not depend on the bidder, and the
  reasons are reported in the order COPPA, LMT, CCPA, GDPR.\<close>

theorem privacy_decision:
  "check_privacy_for_bidder (extract_privacy_config req) bidder =
     (if Option.bind (req_regs req) regs_coppa = Some 1 then BlockCoppa
      else if Option.bind (req_device req) device_lmt = Some 1 then BlockLmt
      else if sale_opt_out req then BlockCcpa
      else if gdpr_in_force req \<and> \<not> consent_present req then BlockGdpr
      else Allow)"
proof -
  let ?g = "Option.bind (jpath (Option.bind (req_regs req) regs_jext) [''gdpr'']) as_i64"
  let ?c = "Option.bind (jpath (Option.bind (req_user req) user_jext) [''consent'']) as_str"
  let ?cfg = "extract_privacy_config req"
  have "gdpr_applies ?cfg = gdpr_in_force req"
    by (auto simp: extract_privacy_config_def Let_def derive_gdpr_from_gpp_def gdpr_in_force_def
        has_tcf_eu2_def has_section_def GPP_SID_TCF_EU2_def split: option.split)
  moreover have "(case priv_consent_string ?cfg of Some s \<Rightarrow> s = [] | None \<Rightarrow> True) \<longleftrightarrow> \<not> consent_present req"
    by (cases ?c; cases "the ?c"; cases "gpp_consent_string (parse_gpp req)")
       (auto simp: extract_privacy_config_def Let_def derive_gdpr_from_gpp_def consent_present_def
        has_tcf_eu2_def has_section_def GPP_SID_TCF_EU2_def opt_filter_def parse_gpp_def
        split: option.splits if_splits)
  moreover have "(case priv_us_privacy ?cfg of Some s \<Rightarrow> third_is_Y s | None \<Rightarrow> False) \<longleftrightarrow> sale_opt_out req"
    by (auto simp: extract_privacy_config_def Let_def derive_usp_from_gpp_def sale_opt_out_def
        has_usp_v1_def has_section_def GPP_SID_USP_V1_def split: option.splits)
  moreover have "priv_coppa ?cfg = Option.bind (req_regs req) regs_coppa"
      "priv_lmt ?cfg = Option.bind (req_device req) device_lmt"
    by (simp_all add: extract_privacy_config_def Let_def)
  ultimately show ?thesis by (simp add: check_privacy_for_bidder_def)
qed

definition gpp_opt_out_request :: bid_request where
  "gpp_opt_out_request =
     default_bid_request\<lparr>req_regs := Some (default_regs\<lparr>regs_gpp := Some ''DBABTA~1YYN'',
       regs_gpp_sid := Some [6]\<rparr>)\<rparr>"

text \<open>The US-Privacy section inside a GPP string is not read: the code takes the whole GPP
  string for the US-Privacy string, so a request whose GPP string carries a sale opt-out is allowed.\<close>

theorem gpp_opt_out_ignored:
  "check_privacy_for_bidder (extract_privacy_config gpp_opt_out_request) ''appnexus'' = Allow
   \<and> split_on (CHR ''~'') (the (regs_gpp (the (req_regs gpp_opt_out_request)))) ! 1 = ''1YYN''
   \<and> third_is_Y ''1YYN''"
  by code_simp

text \<open>Property C37.  Activity control: the first matching rule decides; an activity is refused only by such a
  rule that denies.  A rule all of whose conditions name GPP sections never matches, whatever the
  request says, and a configuration that denies by default refuses nothing by itself.\<close>

theorem activity_denied_iff:
  "(\<not> is_allowed acts a cmpt \<longleftrightarrow>
      (\<exists>cfg rs r ss. map_of acts a = Some cfg \<and> act_rules cfg = rs @ r # ss \<and> \<not> rule_allow r
         \<and> eval_rules rs cmpt = None
         \<and> (rule_conditions r = [] \<or> list_ex (\<lambda>c. cond_matches c cmpt) (rule_conditions r))))
   \<and> \<not> cond_matches (c\<lparr>cond_gpp_sid := sid # sids\<rparr>) cmpt
   \<and> is_allowed [(a, \<lparr>default_result = False, act_rules = []\<rparr>)] a cmpt"
proof -
  have "\<not> is_allowed acts a cmpt \<longleftrightarrow> (\<exists>cfg. map_of acts a = Some cfg \<and> eval_rules (act_rules cfg) cmpt = Some ActDeny)"
    by (auto simp: is_allowed_def activity_evaluate_def split: option.splits)
  then show ?thesis
    unfolding eval_rules_deny_iff rule_applies_def
    using cond_gpp_never [of "c\<lparr>cond_gpp_sid := sid # sids\<rparr>" cmpt] by (auto simp: is_allowed_def activity_evaluate_def)
qed

text \<open>The full scrub leaves no device identifier and no user demographics, removes the named
  extension field, masks the addresses, and changes nothing outside the user and the device; with the
  full-geography option no location detail remains.\<close>

theorem full_scrub_spec:
  "no_device_ids (scrub_device_ids_ips_user_demo_ext req conf field full)
   \<and> no_demographics (scrub_device_ids_ips_user_demo_ext req conf field full)
   \<and> user_ext_key (scrub_device_ids_ips_user_demo_ext req conf field full) field = None
   \<and> Option.bind (req_device (scrub_device_ids_ips_user_demo_ext req conf field full)) device_ip
      = map_option (\<lambda>ip. scrub_ip ip (ipv4_anon_keep_bits conf) 32) (Option.bind (req_device req) device_ip)
   \<and> (\<not> full \<or> (\<forall>g. Option.bind (req_device (scrub_device_ids_ips_user_demo_ext req conf field full)) device_geo = Some g
        \<longrightarrow> g = default_geo))
   \<and> req_imp (scrub_device_ids_ips_user_demo_ext req conf field full) = req_imp req
   \<and> req_regs (scrub_device_ids_ips_user_demo_ext req conf field full) = req_regs req
   \<and> req_jext (scrub_device_ids_ips_user_demo_ext req conf field full) = req_jext req"
proof -
  note defs = scrub_device_ids_ips_user_demo_ext_def Let_def scrub_device_ids_def scrub_device_ip_def
    scrub_user_demographics_def scrub_user_ext_def scrub_geo_full_def scrub_geo_precision_def
    on_device_def on_user_def
  let ?r = "scrub_device_ids_ips_user_demo_ext req conf field full"
  have "no_device_ids ?r"
    by (cases full; cases "req_device req") (simp_all add: defs no_device_ids_def)
  moreover have "no_demographics ?r"
    by (cases full; cases "req_user req") (simp_all add: defs no_demographics_def)
  moreover have "user_ext_key ?r field = None"
    using scrub_ext_field_get
    by (cases full; cases "req_user req") (simp_all add: defs user_ext_key_def del: jpath.simps, simp_all)
  moreover have "Option.bind (req_device ?r) device_ip
      = map_option (\<lambda>ip. scrub_ip ip (ipv4_anon_keep_bits conf) 32) (Option.bind (req_device req) device_ip)"
    by (cases full; cases "req_device req") (simp_all add: defs)
  moreover have "\<not> full \<or> (\<forall>g. Option.bind (req_device ?r) device_geo = Some g \<longrightarrow> g = default_geo)"
    by (cases full; cases "req_device req") (auto simp: defs)
  ultimately show ?thesis by (simp add: scrub_full.keeps)
qed

theorem full_scrub_spec_witness:
  "Option.bind (req_device (scrub_device_ids_ips_user_demo_ext
      (default_bid_request\<lparr>req_device := Some (default_device\<lparr>device_geo := Some (default_geo\<lparr>geo_city := Some ''Paris''\<rparr>)\<rparr>)\<rparr>)
      default_ip_conf ''eids'' True)) device_geo = Some default_geo"
proof -
  let ?q = "default_bid_request\<lparr>req_device := Some (default_device\<lparr>device_geo := Some (default_geo\<lparr>geo_city := Some ''Paris''\<rparr>)\<rparr>)\<rparr>"
  have "\<exists>g. Option.bind (req_device (scrub_device_ids_ips_user_demo_ext ?q default_ip_conf ''eids'' True)) device_geo = Some g"
    by (simp add: scrub_device_ids_ips_user_demo_ext_def Let_def scrub_device_ids_def scrub_device_ip_def
      scrub_user_demographics_def scrub_user_ext_def scrub_geo_full_def on_device_def on_user_def)
  with full_scrub_spec [of ?q default_ip_conf "''eids''" True] show ?thesis by auto
qed

text \<open>Scrubbing first-party data leaves no device identifier, no user identifier, demographic,
  keyword or data segment, no extended ids and no data extension, and keeps the user's consent, custom
  data and location and everything outside the user and the device.\<close>

theorem user_fpd_scrub_spec:
  "no_device_ids (scrub_user_fpd req) \<and> no_demographics (scrub_user_fpd req)
   \<and> user_ext_key (scrub_user_fpd req) ''data'' = None
   \<and> (case (req_user req, req_user (scrub_user_fpd req)) of
        (Some u, Some u') \<Rightarrow> user_data u' = [] \<and> user_keywords u' = None \<and> user_eids u' = None
          \<and> user_consent u' = user_consent u \<and> user_customdata u' = user_customdata u \<and> user_geo u' = user_geo u
      | (None, None) \<Rightarrow> True | _ \<Rightarrow> False)
   \<and> req_imp (scrub_user_fpd req) = req_imp req \<and> req_source (scrub_user_fpd req) = req_source req"
proof -
  note defs = scrub_user_fpd_def scrub_user_ids_def scrub_device_ids_def on_device_def on_user_def
  have "no_device_ids (scrub_user_fpd req)"
    by (cases "req_device req") (simp_all add: defs no_device_ids_def)
  moreover have "no_demographics (scrub_user_fpd req)"
    by (cases "req_user req") (simp_all add: defs no_demographics_def)
  moreover have "user_ext_key (scrub_user_fpd req) ''data'' = None"
    using scrub_ext_field_get
    by (cases "req_user req") (simp_all add: defs user_ext_key_def del: jpath.simps, simp_all)
  moreover have "case (req_user req, req_user (scrub_user_fpd req)) of
        (Some u, Some u') \<Rightarrow> user_data u' = [] \<and> user_keywords u' = None \<and> user_eids u' = None
          \<and> user_consent u' = user_consent u \<and> user_customdata u' = user_customdata u \<and> user_geo u' = user_geo u
      | (None, None) \<Rightarrow> True | _ \<Rightarrow> False"
    by (cases "req_user req") (simp_all add: defs)
  ultimately show ?thesis by (simp add: scrub_user_fpd.keeps)
qed

text \<open>CCPA per bidder: parsing rejects every non-empty string that is not four characters
  starting with 1; otherwise enforcement for a bidder is asked for exactly when the sale opt-out is set
  and the publisher has not exempted the bidder, by name or with the wildcard; and it is never asked for
  when no string was provided, also behind the enabled flag.\<close>

theorem ccpa_enforcement:
  "(\<not> is_ok (parsed_ccpa_parse consent ns) \<longleftrightarrow> \<not> validate_consent consent)
   \<and> (case parsed_ccpa_parse consent ns of
        Inr p \<Rightarrow>
          (ccpa_should_enforce p b \<longleftrightarrow> consent \<noteq> [] \<and> third_is_Y consent \<and> ''*'' \<notin> set ns \<and> b \<notin> set ns)
          \<and> (enabled_should_enforce ccpa_should_enforce (e, p) b \<longleftrightarrow> e \<and> ccpa_should_enforce p b)
          \<and> (enabled_should_enforce ccpa_should_enforce (e, p) b
              \<longleftrightarrow> ccpa_can_enforce p \<and> enabled_should_enforce ccpa_should_enforce (e, p) b)
      | Inl _ \<Rightarrow> True)"
proof -
  have "\<not> enabled_should_enforce ccpa_should_enforce (e, p) b \<or> ccpa_can_enforce p"
    if "parsed_ccpa_parse consent ns = Inr p" for p
    using enabled_ccpa.should_can [of "(e, p)" b] parsed_ccpa_wf [OF that]
    by (auto simp: enabled_can_enforce_def)
  moreover have "ccpa_should_enforce p b \<longleftrightarrow> consent \<noteq> [] \<and> third_is_Y consent \<and> ''*'' \<notin> set ns \<and> b \<notin> set ns"
    if "parsed_ccpa_parse consent ns = Inr p" for p
    using that
    by (auto simp: parsed_ccpa_parse_def no_sale_fold ccpa_should_enforce_def is_no_sale_for_bidder_def
        split: if_splits)
  moreover have "\<not> is_ok (parsed_ccpa_parse consent ns) \<longleftrightarrow> \<not> validate_consent consent"
    by (auto simp: parsed_ccpa_parse_def no_sale_fold validate_consent_def)
  ultimately show ?thesis
    by (auto simp: enabled_should_enforce_def split: sum.split)
qed

definition tracking_status :: "bid_request \<Rightarrow> int option" where
  "tracking_status req = Option.bind (jpath (Option.bind (req_device req) device_jext) [''atts'']) as_i64"

text \<open>The LMT flag on iOS: it changes only for an app request from a device whose operating
  system is iOS (in any case) with a version of at least 14; for 14.0 and 14.1 it becomes 1 exactly when
  the advertising id is missing, empty or all zeros, and from 14.2 on it follows the tracking
  authorisation status, unknown values leaving it as it is.\<close>

theorem ios_lmt_spec:
  "Option.bind (req_device (modify_lmt_for_ios req)) device_lmt =
     (case (is_request_for_ios req, map_option detect_ios_version_classification
              (Option.bind (req_device req) device_osv)) of
        (True, Some cls) \<Rightarrow>
          if cls = Version14_0 \<or> cls = Version14_1
          then Some (if unwrap_or [] (Option.bind (req_device req) device_ifa)
                          \<in> {[], ''00000000-0000-0000-0000-000000000000''} then 1 else 0)
          else if cls = Version14_2OrGreater
          then (case tracking_status req of
                  Some s \<Rightarrow> if s \<in> {0, 1, 2} then Some 1 else if s = 3 then Some 0
                            else Option.bind (req_device req) device_lmt
                | None \<Rightarrow> Option.bind (req_device req) device_lmt)
          else Option.bind (req_device req) device_lmt
      | _ \<Rightarrow> Option.bind (req_device req) device_lmt)
   \<and> (modify_lmt_for_ios req)\<lparr>req_device := req_device req\<rparr> = req"
proof (cases "req_device req")
  case None
  then have "\<not> is_request_for_ios req" by (simp add: is_request_for_ios_def)
  with None show ?thesis by (simp add: modify_lmt_for_ios_def)
next
  case (Some d)
  show ?thesis
    using Some
    by (cases "device_osv d"; cases "is_request_for_ios req"; cases "detect_ios_version_classification (the (device_osv d))";
        cases "tracking_status req")
       (simp_all add: modify_lmt_for_ios_def modify_for_ios_14x_def modify_for_ios_14_2_or_greater_def
          on_device_def tracking_status_def unwrap_or_def Let_def)
qed

end
