(* ===== verification/Bidder.thy ===== *)
theory Bidder
  imports OpenRtb
begin

text \<open>
  The bidder interface of \<^verbatim>\<open>rust/crates/adapters/src/lib.rs\<close> (request and response data, typed bids, errors,
  helpers) and \<^verbatim>\<open>AdaptedBidder\<close> of \<^verbatim>\<open>rust/crates/exchange/src/lib.rs\<close>, which calls one bidder.  An adapter is
  a record of its two methods; the network is an argument: the outcome of the \<open>n\<close>-th request sent.
  Elapsed times are arguments too, and gzip compression is a partial function argument.
\<close>

section \<open>Data\<close>

datatype bid_type = BtBanner | BtVideo | BtAudio | BtNative

definition from_mtype :: "int \<Rightarrow> bid_type" where
  "from_mtype mtype =
     (if mtype = 1 then BtBanner else if mtype = 2 then BtVideo
      else if mtype = 3 then BtAudio else if mtype = 4 then BtNative else BtBanner)"

fun show_bid_type :: "bid_type \<Rightarrow> string" where
  "show_bid_type BtBanner = ''banner''"
| "show_bid_type BtVideo = ''video''"
| "show_bid_type BtAudio = ''audio''"
| "show_bid_type BtNative = ''native''"

record request_data =
  rd_method :: string
  rd_uri :: string
  rd_body :: "u8 list"
  rd_headers :: "(string \<times> string) list"
  rd_imp_ids :: "string list"

definition request_data_new :: "string \<Rightarrow> string \<Rightarrow> u8 list \<Rightarrow> request_data" where
  "request_data_new method uri body =
     \<lparr>rd_method = method, rd_uri = uri, rd_body = body, rd_headers = [], rd_imp_ids = []\<rparr>"

definition request_data_new_post :: "string \<Rightarrow> u8 list \<Rightarrow> request_data" where
  "request_data_new_post uri body =
     \<lparr>rd_method = ''POST'', rd_uri = uri, rd_body = body,
      rd_headers = hm_insert ''Accept'' ''application/json''
        (hm_insert ''Content-Type'' ''application/json;charset=utf-8'' []),
      rd_imp_ids = []\<rparr>"

definition set_header :: "string \<Rightarrow> string \<Rightarrow> request_data \<Rightarrow> request_data" where
  "set_header key val r = r\<lparr>rd_headers := hm_insert key val (rd_headers r)\<rparr>"

record response_data =
  rs_status_code :: nat
  rs_body :: "u8 list"
  rs_headers :: "(string \<times> string) list"

definition response_data_new :: "nat \<Rightarrow> u8 list \<Rightarrow> response_data" where
  "response_data_new status body = \<lparr>rs_status_code = status, rs_body = body, rs_headers = []\<rparr>"

record bid_meta =
  meta_adapter_code :: "string option"
  meta_advertiser_domains :: "string list option"
  meta_advertiser_id :: "int option"
  meta_advertiser_name :: "string option"
  meta_agency_id :: "int option"
  meta_agency_name :: "string option"
  meta_brand_id :: "int option"
  meta_brand_name :: "string option"
  meta_dchain :: "json option"
  meta_demand_source :: "string option"
  meta_media_type :: "string option"
  meta_network_id :: "int option"
  meta_network_name :: "string option"
  meta_primary_category_id :: "string option"
  meta_renderer_name :: "string option"
  meta_renderer_version :: "string option"
  meta_renderer_data :: "json option"
  meta_renderer_url :: "string option"
  meta_secondary_category_ids :: "string list option"
  meta_seat :: "string option"

record bid_video =
  video_duration :: int
  video_primary_category :: string

record typed_bid =
  tb_bid :: bid
  tb_bid_meta :: "bid_meta option"
  tb_bid_type :: bid_type
  tb_bid_video :: "bid_video option"
  tb_deal_priority :: int
  tb_orig_bid_cpm :: f64
  tb_orig_bid_cur :: string
  tb_orig_bid_cpm_usd :: f64

definition typed_bid_new :: "bid \<Rightarrow> bid_type \<Rightarrow> typed_bid" where
  "typed_bid_new b ty =
     \<lparr>tb_bid = b, tb_bid_meta = None, tb_bid_type = ty, tb_bid_video = None, tb_deal_priority = 0,
      tb_orig_bid_cpm = Fin False 0, tb_orig_bid_cur = ''USD'', tb_orig_bid_cpm_usd = Fin False 0\<rparr>"

record fledge_auction_config =
  fledge_impid :: string
  fledge_bidder :: "string option"
  fledge_adapter :: "string option"
  fledge_config :: json

record bidder_response =
  br_currency :: string
  br_bids :: "typed_bid list"
  br_fledge_auction_configs :: "fledge_auction_config list"

definition bidder_response_new :: bidder_response where
  "bidder_response_new = \<lparr>br_currency = ''USD'', br_bids = [], br_fledge_auction_configs = []\<rparr>"

record extra_request_info =
  pbs_entry_point :: string
  global_privacy_control_header :: string

datatype bidder_error =
    BadInput string
  | BadServerResponse string
  | FailedToRequestBids string
  | Timeout
  | Unknown string

fun show_bidder_error :: "bidder_error \<Rightarrow> string" where
  "show_bidder_error (BadInput m) = ''bad input: '' @ m"
| "show_bidder_error (BadServerResponse m) = ''bad server response: '' @ m"
| "show_bidder_error (FailedToRequestBids m) = ''failed to request bids: '' @ m"
| "show_bidder_error Timeout = ''timeout''"
| "show_bidder_error (Unknown m) = m"

fun is_fatal :: "bidder_error \<Rightarrow> bool" where
  "is_fatal (BadInput _) = True"
| "is_fatal _ = False"

record bidder =
  make_requests :: "bid_request \<Rightarrow> extra_request_info \<Rightarrow> request_data list \<times> bidder_error list"
  make_bids :: "bid_request \<Rightarrow> request_data \<Rightarrow> response_data \<Rightarrow> (bidder_error list, bidder_response) res"

definition get_imp_ids :: "imp list \<Rightarrow> string list" where
  "get_imp_ids imps = map imp_id imps"

definition get_bid_type_from_imp :: "imp \<Rightarrow> bid_type" where
  "get_bid_type_from_imp i =
     (if imp_video i \<noteq> None then BtVideo
      else if imp_native i \<noteq> None then BtNative
      else if imp_audio i \<noteq> None then BtAudio else BtBanner)"

definition check_response_status :: "nat \<Rightarrow> (bidder_error, unit) res" where
  "check_response_status status =
     (if status = 200 then Inr ()
      else if status = 204 then Inl (Unknown ''no content'')
      else if status = 400 then Inl (BadInput (''Unexpected status code: '' @ show_nat status))
      else Inl (BadServerResponse (''Unexpected status code: '' @ show_nat status)))"

definition get_bid_type_from_mtype :: "int \<Rightarrow> bid_type" where
  "get_bid_type_from_mtype mtype =
     (if mtype = 2 then BtVideo else if mtype = 3 then BtAudio
      else if mtype = 4 then BtNative else BtBanner)"

record ext_http_call =
  hc_uri :: string
  hc_request_body :: string
  hc_request_headers :: "(string \<times> string list) list"
  hc_response_body :: string
  hc_status :: int

section \<open>Text functions of the standard library\<close>

text \<open>\<^verbatim>\<open>String::from_utf8_lossy\<close>: every maximal ill-formed part becomes U+FFFD.\<close>

definition utf8_lead :: "nat \<Rightarrow> (nat \<times> nat \<times> nat) option" where
  "utf8_lead b =
     (if 194 \<le> b \<and> b \<le> 223 then Some (1, 128, 191)
      else if b = 224 then Some (2, 160, 191)
      else if b = 237 then Some (2, 128, 159)
      else if 225 \<le> b \<and> b \<le> 239 then Some (2, 128, 191)
      else if b = 240 then Some (3, 144, 191)
      else if b = 244 then Some (3, 128, 143)
      else if 241 \<le> b \<and> b \<le> 243 then Some (3, 128, 191)
      else None)"

fun utf8_conts :: "nat \<Rightarrow> nat \<Rightarrow> nat \<Rightarrow> nat list \<Rightarrow> nat list" where
  "utf8_conts 0 lo hi bs = []"
| "utf8_conts (Suc n) lo hi [] = []"
| "utf8_conts (Suc n) lo hi (b # bs) = (if lo \<le> b \<and> b \<le> hi then b # utf8_conts n 128 191 bs else [])"

function utf8_lossy :: "nat list \<Rightarrow> nat list" where
  "utf8_lossy [] = []"
| "utf8_lossy (b # bs) =
     (if b < 128 then b # utf8_lossy bs
      else case utf8_lead b of
             None \<Rightarrow> [239, 191, 189] @ utf8_lossy bs
           | Some (n, lo, hi) \<Rightarrow>
               let cs = utf8_conts n lo hi bs
               in (if length cs = n then b # cs else [239, 191, 189]) @ utf8_lossy (drop (length cs) bs))"
  by pat_completeness auto
termination
  by (relation "measure length") auto

definition from_utf8_lossy :: "u8 list \<Rightarrow> string" where
  "from_utf8_lossy bs = map char_of (utf8_lossy (map unat bs))"

text \<open>
  \<^verbatim>\<open>str::to_uppercase\<close>, as far as the ASCII part of its result is concerned: besides the ASCII letters,
  the code points U+00DF, U+0131, U+017F and the ligatures U+FB00 to U+FB06 have an ASCII upper case.
  Every other code point outside ASCII keeps a code point outside ASCII and is left as it is.
\<close>

definition upper_specials :: "(nat list \<times> string) list" where
  "upper_specials =
     [([195, 159], ''SS''), ([196, 177], ''I''), ([197, 191], ''S''),
      ([239, 172, 128], ''FF''), ([239, 172, 129], ''FI''), ([239, 172, 130], ''FL''),
      ([239, 172, 131], ''FFI''), ([239, 172, 132], ''FFL''), ([239, 172, 133], ''ST''),
      ([239, 172, 134], ''ST'')]"

definition upper_char :: "string \<Rightarrow> string" where
  "upper_char c =
     (case map_of upper_specials (map of_char c) of
        Some u \<Rightarrow> u
      | None \<Rightarrow> map ascii_upper c)"

definition to_uppercase :: "string \<Rightarrow> string" where
  "to_uppercase s = concat (map upper_char (utf8_chars s))"

section \<open>Calling a bidder\<close>

text \<open>What the network does with one request: an answer with a status and a body that can still fail to
  arrive, a transport error, or no answer within the timeout.\<close>

datatype http_outcome =
    Responded nat "(string, u8 list) res"
  | SendFailed string
  | NetTimeout

record http_request =
  hr_method :: string
  hr_uri :: string
  hr_body :: "u8 list"
  hr_headers :: "(string \<times> string) list"

type_synonym network = "nat \<Rightarrow> http_request \<Rightarrow> nat \<Rightarrow> http_outcome"

record adapted_bidder =
  ab_bidder :: bidder
  ab_endpoint :: string
  ab_endpoint_compression :: "string option"

record bidder_result =
  bres_bidder_name :: string
  bres_response :: "(bidder_error list, bidder_response) res"
  bres_duration_ms :: nat
  bres_http_calls :: "ext_http_call list"
  bres_timed_out :: bool

definition execute_request ::
  "(u8 list \<Rightarrow> u8 list option) \<Rightarrow> network \<Rightarrow> nat \<Rightarrow> adapted_bidder \<Rightarrow> request_data \<Rightarrow> nat
   \<Rightarrow> (bidder_error, response_data \<times> ext_http_call) res" where
  "execute_request compress_gzip net n ab req timeout_ms =
     (if rd_method req \<noteq> ''POST'' \<and> rd_method req \<noteq> ''GET''
      then Inl (BadInput (''unsupported HTTP method: '' @ rd_method req))
      else
        let use_gzip = (case ab_endpoint_compression ab of None \<Rightarrow> False | Some s \<Rightarrow> to_uppercase s = ''GZIP'');
            (body_bytes, content_encoding) =
              (if use_gzip
               then case compress_gzip (rd_body req) of
                      Some compressed \<Rightarrow> (compressed, Some ''gzip'')
                    | None \<Rightarrow> (rd_body req, None)
               else (rd_body req, None));
            headers = rd_headers req
              @ (case content_encoding of None \<Rightarrow> [] | Some enc \<Rightarrow> [(''Content-Encoding'', enc)])
        in case net n \<lparr>hr_method = rd_method req, hr_uri = rd_uri req, hr_body = body_bytes, hr_headers = headers\<rparr>
                  timeout_ms of
             Responded status body \<Rightarrow>
               (case body of
                  Inl e \<Rightarrow> Inl (BadServerResponse e)
                | Inr bytes \<Rightarrow>
                    Inr (\<lparr>rs_status_code = status, rs_body = bytes, rs_headers = []\<rparr>,
                         \<lparr>hc_uri = rd_uri req, hc_request_body = from_utf8_lossy (rd_body req), hc_request_headers = [],
                          hc_response_body = from_utf8_lossy bytes, hc_status = int status\<rparr>))
           | SendFailed e \<Rightarrow> Inl (FailedToRequestBids e)
           | NetTimeout \<Rightarrow> Inl Timeout)"

text \<open>The variables of the loop of \<^verbatim>\<open>request_bid\<close>.\<close>

record call_state =
  cs_all_bids :: bidder_response
  cs_errs :: "bidder_error list"
  cs_http_calls :: "ext_http_call list"
  cs_timed_out :: bool

definition add_bids :: "bidder_response \<Rightarrow> bidder_response \<Rightarrow> bidder_response" where
  "add_bids br all =
     \<lparr>br_currency = (if br_currency br \<noteq> ''USD'' then br_currency br else br_currency all),
      br_bids = br_bids all @ br_bids br,
      br_fledge_auction_configs = br_fledge_auction_configs all @ br_fledge_auction_configs br\<rparr>"

definition call_step ::
  "bidder \<Rightarrow> bid_request \<Rightarrow> request_data \<Rightarrow> (bidder_error, response_data \<times> ext_http_call) res
   \<Rightarrow> call_state \<Rightarrow> call_state" where
  "call_step b request req_data outcome s =
     (case outcome of
        Inr (response_data, http_call) \<Rightarrow>
          (let s = s\<lparr>cs_http_calls := cs_http_calls s @ [http_call]\<rparr>
           in if rs_status_code response_data = 204 then s
              else case make_bids b request req_data response_data of
                     Inr br \<Rightarrow> s\<lparr>cs_all_bids := add_bids br (cs_all_bids s)\<rparr>
                   | Inl e \<Rightarrow> s\<lparr>cs_errs := cs_errs s @ e\<rparr>)
      | Inl e \<Rightarrow>
          s\<lparr>cs_timed_out := (if e = Timeout then True else cs_timed_out s), cs_errs := cs_errs s @ [e]\<rparr>)"

fun call_loop ::
  "(u8 list \<Rightarrow> u8 list option) \<Rightarrow> network \<Rightarrow> adapted_bidder \<Rightarrow> bid_request \<Rightarrow> nat \<Rightarrow> nat \<Rightarrow> request_data list
   \<Rightarrow> call_state \<Rightarrow> call_state" where
  "call_loop gz net ab request timeout_ms n [] s = s"
| "call_loop gz net ab request timeout_ms n (r # rs) s =
     call_loop gz net ab request timeout_ms (Suc n) rs
       (call_step (ab_bidder ab) request r (execute_request gz net n ab r timeout_ms) s)"

definition request_bid ::
  "(u8 list \<Rightarrow> u8 list option) \<Rightarrow> network \<Rightarrow> nat \<Rightarrow> adapted_bidder \<Rightarrow> bid_request \<Rightarrow> string \<Rightarrow> extra_request_info
   \<Rightarrow> nat \<Rightarrow> bidder_result" where
  "request_bid gz net elapsed_ms ab request bidder_name extra_info timeout_ms =
     (case make_requests (ab_bidder ab) request extra_info of
        (reqs, errs) \<Rightarrow>
          if reqs = []
          then \<lparr>bres_bidder_name = bidder_name,
                bres_response = (if errs = [] then Inr bidder_response_new else Inl errs),
                bres_duration_ms = elapsed_ms, bres_http_calls = [], bres_timed_out = False\<rparr>
          else
            let s = call_loop gz net ab request timeout_ms 0 reqs
                      \<lparr>cs_all_bids = bidder_response_new, cs_errs = errs, cs_http_calls = [], cs_timed_out = False\<rparr>
            in \<lparr>bres_bidder_name = bidder_name,
                bres_response = (if list_ex is_fatal (cs_errs s) then Inl (cs_errs s) else Inr (cs_all_bids s)),
                bres_duration_ms = elapsed_ms, bres_http_calls = cs_http_calls s, bres_timed_out = cs_timed_out s\<rparr>)"

section \<open>Lemmas\<close>

text \<open>What one call contributes to the result, and the calls with their outcomes in order.\<close>

fun call_errors :: "bidder \<Rightarrow> bid_request \<Rightarrow> request_data \<times> (bidder_error, response_data \<times> ext_http_call) res \<Rightarrow> bidder_error list" where
  "call_errors b request (r, Inl e) = [e]"
| "call_errors b request (r, Inr (d, c)) =
     (if rs_status_code d = 204 then [] else case make_bids b request r d of Inl es \<Rightarrow> es | Inr _ \<Rightarrow> [])"

fun call_responses :: "bidder \<Rightarrow> bid_request \<Rightarrow> request_data \<times> (bidder_error, response_data \<times> ext_http_call) res \<Rightarrow> bidder_response list" where
  "call_responses b request (r, Inl e) = []"
| "call_responses b request (r, Inr (d, c)) =
     (if rs_status_code d = 204 then [] else case make_bids b request r d of Inl _ \<Rightarrow> [] | Inr br \<Rightarrow> [br])"

fun call_https :: "request_data \<times> (bidder_error, response_data \<times> ext_http_call) res \<Rightarrow> ext_http_call list" where
  "call_https (r, Inl e) = []"
| "call_https (r, Inr (d, c)) = [c]"

definition calls_made ::
  "(u8 list \<Rightarrow> u8 list option) \<Rightarrow> network \<Rightarrow> adapted_bidder \<Rightarrow> nat \<Rightarrow> nat \<Rightarrow> request_data list
   \<Rightarrow> (request_data \<times> (bidder_error, response_data \<times> ext_http_call) res) list" where
  "calls_made gz net ab timeout_ms n reqs =
     map (\<lambda>(i, r). (r, execute_request gz net i ab r timeout_ms)) (List.enumerate n reqs)"

lemma calls_made_simps [simp]:
  "calls_made gz net ab t n [] = []"
  "calls_made gz net ab t n (r # rs) = (r, execute_request gz net n ab r t) # calls_made gz net ab t (Suc n) rs"
  by (simp_all add: calls_made_def)

lemma add_bids_sel [simp]:
  "br_bids (add_bids br al) = br_bids al @ br_bids br"
  "br_fledge_auction_configs (add_bids br al) = br_fledge_auction_configs al @ br_fledge_auction_configs br"
  "br_currency (add_bids br al) = (if br_currency br \<noteq> ''USD'' then br_currency br else br_currency al)"
  by (simp_all add: add_bids_def)

lemma call_step_eq:
  "call_step b request r out s =
     \<lparr>cs_all_bids = fold add_bids (call_responses b request (r, out)) (cs_all_bids s),
      cs_errs = cs_errs s @ call_errors b request (r, out),
      cs_http_calls = cs_http_calls s @ call_https (r, out),
      cs_timed_out = (cs_timed_out s \<or> out = Inl Timeout)\<rparr>"
  by (cases out) (auto simp: call_step_def Let_def split: sum.splits)

lemma call_loop_eq:
  "call_loop gz net ab request t n reqs s =
     \<lparr>cs_all_bids = fold add_bids (concat (map (call_responses (ab_bidder ab) request) (calls_made gz net ab t n reqs))) (cs_all_bids s),
      cs_errs = cs_errs s @ concat (map (call_errors (ab_bidder ab) request) (calls_made gz net ab t n reqs)),
      cs_http_calls = cs_http_calls s @ concat (map call_https (calls_made gz net ab t n reqs)),
      cs_timed_out = (cs_timed_out s \<or> Inl Timeout \<in> snd ` set (calls_made gz net ab t n reqs))\<rparr>"
  by (induction reqs arbitrary: n s) (auto simp: call_step_eq)

lemma fold_add_bids_bids: "br_bids (fold add_bids brs al) = br_bids al @ concat (map br_bids brs)"
  by (induction brs arbitrary: al) simp_all

lemma fold_add_bids_currency:
  "br_currency (fold add_bids brs al) = last (br_currency al # filter (\<lambda>c. c \<noteq> ''USD'') (map br_currency brs))"
  by (induction brs arbitrary: al) simp_all

section \<open>Properties\<close>

text \<open>Property C8.  The call of one bidder: the bids are those of all successful answers in the order of
  the requests, in the last currency announced other than USD; the bidder counts as timed out exactly when
  some request did; the result is an error exactly when some error is a bad input, or when there was
  nothing to send and the adapter reported an error, and then carries all errors in order.  So a timeout or
  a server error of one request does not discard the bids of another.\<close>

theorem request_bid_spec:
  "let b = ab_bidder ab;
       reqs = fst (make_requests b request info);
       calls = calls_made gz net ab t 0 reqs;
       errs = snd (make_requests b request info) @ concat (map (call_errors b request) calls);
       answers = concat (map (call_responses b request) calls);
       res = request_bid gz net ms ab request name info t
   in bres_bidder_name res = name
    \<and> bres_http_calls res = concat (map call_https calls)
    \<and> (bres_timed_out res \<longleftrightarrow> Inl Timeout \<in> snd ` set calls)
    \<and> (is_ok (bres_response res) \<longleftrightarrow> \<not> (list_ex is_fatal errs \<or> reqs = [] \<and> errs \<noteq> []))
    \<and> (case bres_response res of
         Inl es \<Rightarrow> es = errs
       | Inr br \<Rightarrow> br_bids br = concat (map br_bids answers)
           \<and> br_currency br = last (''USD'' # filter (\<lambda>c. c \<noteq> ''USD'') (map br_currency answers)))"
proof -
  obtain reqs errs where mr: "make_requests (ab_bidder ab) request info = (reqs, errs)"
    by (cases "make_requests (ab_bidder ab) request info") auto
  show ?thesis
  proof (cases "reqs = []")
    case True
    then show ?thesis by (auto simp: request_bid_def mr bidder_response_new_def Let_def)
  next
    case False
    then show ?thesis
      by (simp add: request_bid_def mr Let_def call_loop_eq fold_add_bids_bids fold_add_bids_currency
          bidder_response_new_def)
  qed
qed

end
