(* ===== verification/Currency.thy ===== *)
theory Currency
  imports OpenRtb
begin

text \<open>
  The currency converter of \<^verbatim>\<open>rust/crates/exchange/src/currency.rs\<close>.  A rate table is a map from source
  currencies to maps from target currencies to multipliers.
\<close>

section \<open>Definitions\<close>

type_synonym rate_table = "(string \<times> (string \<times> f64) list) list"

record currency_converter =
  cc_rates :: rate_table
  cc_source :: "string option"
  cc_last_updated :: "int option"

definition converter_new :: "rate_table \<Rightarrow> currency_converter" where
  "converter_new rates = \<lparr>cc_rates = rates, cc_source = None, cc_last_updated = None\<rparr>"

definition converter_empty :: currency_converter where
  "converter_empty = \<lparr>cc_rates = [], cc_source = None, cc_last_updated = None\<rparr>"

definition converter_with_info :: "rate_table \<Rightarrow> string option \<Rightarrow> int option \<Rightarrow> currency_converter" where
  "converter_with_info rates src upd = \<lparr>cc_rates = rates, cc_source = src, cc_last_updated = upd\<rparr>"

definition rate :: "rate_table \<Rightarrow> string \<Rightarrow> string \<Rightarrow> f64 option" where
  "rate rates src dst = Option.bind (map_of rates src) (\<lambda>m. map_of m dst)"

definition convert :: "currency_converter \<Rightarrow> f64 \<Rightarrow> string \<Rightarrow> string \<Rightarrow> f64 option" where
  "convert c amount src dst =
     (if src = dst then Some amount
      else case rate (cc_rates c) src dst of
        Some r \<Rightarrow> Some (f_mul amount r)
      | None \<Rightarrow>
          (case rate (cc_rates c) dst src of
             Some r \<Rightarrow> Some (f_div amount r)
           | None \<Rightarrow>
               if src \<noteq> ''USD'' \<and> dst \<noteq> ''USD''
               then Option.bind (rate (cc_rates c) src ''USD'') (\<lambda>to_usd.
                      Option.bind (rate (cc_rates c) ''USD'' dst) (\<lambda>from_usd.
                        Some (f_mul (f_mul amount to_usd) from_usd)))
               else None))"

definition convert_with_overrides ::
  "currency_converter \<Rightarrow> f64 \<Rightarrow> string \<Rightarrow> string \<Rightarrow> rate_table \<Rightarrow> f64 option" where
  "convert_with_overrides c amount src dst request_rates =
     (if src = dst then Some amount
      else case rate request_rates src dst of
        Some r \<Rightarrow> Some (f_mul amount r)
      | None \<Rightarrow>
          (case rate request_rates dst src of
             Some r \<Rightarrow> Some (f_div amount r)
           | None \<Rightarrow> convert c amount src dst))"

definition get_rate :: "currency_converter \<Rightarrow> string \<Rightarrow> string \<Rightarrow> f64 option" where
  "get_rate c src dst = convert c (Fin False 1) src dst"

text \<open>The order in which the additional tables are iterated does not matter: their keys are distinct.\<close>

definition add_rates :: "string \<times> (string \<times> f64) list \<Rightarrow> rate_table \<Rightarrow> rate_table" where
  "add_rates e rates =
     (case e of (from_currency, to_map) \<Rightarrow>
        hm_insert from_currency
          (fold (\<lambda>(to_currency, r). hm_insert to_currency r) to_map (get_or [] rates from_currency)) rates)"

definition with_additional_rates :: "currency_converter \<Rightarrow> rate_table \<Rightarrow> currency_converter" where
  "with_additional_rates c additional = c\<lparr>cc_rates := fold add_rates additional (cc_rates c)\<rparr>"

text \<open>The decoder of the rate table is an argument.\<close>

definition extract_request_rates :: "(json \<Rightarrow> rate_table option) \<Rightarrow> bid_request \<Rightarrow> rate_table" where
  "extract_request_rates de req =
     (case Option.bind (jpath (req_jext req) [''prebid'', ''currency'', ''rates'']) de of
        None \<Rightarrow> [] | Some r \<Rightarrow> r)"

section \<open>Lemmas\<close>

text \<open>A table whose keys are distinct at both levels.\<close>

definition table_wf :: "rate_table \<Rightarrow> bool" where
  "table_wf t \<longleftrightarrow> hm_wf t \<and> list_all (hm_wf \<circ> snd) t"

lemma map_of_fold_insert:
  "map_of (fold (\<lambda>(k, v). hm_insert k v) xs m) k =
     (case map_of (rev xs) k of Some v \<Rightarrow> Some v | None \<Rightarrow> map_of m k)"
  by (simp add: hm.get_fold_insert map_add_def)

lemma map_of_rev: "hm_wf xs \<Longrightarrow> map_of (rev xs) = map_of xs"
  unfolding hm_wf_def by (metis distinct_rev map_of_inject_set rev_map set_rev)

lemma rate_add_rates:
  "hm_wf (snd e) \<Longrightarrow>
   rate (add_rates e rates) src dst =
     (if src = fst e then (case map_of (snd e) dst of Some r \<Rightarrow> Some r | None \<Rightarrow> rate rates src dst)
      else rate rates src dst)"
  by (cases e) (auto simp: rate_def add_rates_def hm.get_insert map_of_fold_insert map_of_rev get_or_def
      split: option.splits)

lemma rate_fold_add:
  "hm_wf additional \<Longrightarrow> list_all (hm_wf \<circ> snd) additional \<Longrightarrow>
   rate (fold add_rates additional rates) src dst =
     (case rate additional src dst of Some r \<Rightarrow> Some r | None \<Rightarrow> rate rates src dst)"
proof (induction additional arbitrary: rates)
  case (Cons e es)
  have none: "rate es (fst e) dst = None"
    using Cons.prems by (auto simp: rate_def hm_wf_def dest: weak_map_of_SomeI split: Option.bind_splits)
      (metis fst_conv image_eqI map_of_SomeD)
  have "rate (e # es) src dst = (if src = fst e then map_of (snd e) dst else rate es src dst)"
    by (cases e) (simp add: rate_def)
  then show ?case
    using Cons none by (auto simp: hm_wf_def rate_add_rates split: option.splits)
qed (simp add: rate_def)

section \<open>Properties\<close>

text \<open>Conversion between two different currencies: a direct rate wins over an inverse rate,
  which wins over a conversion through USD; no other path is tried.  Merging request rates into a converter
  makes exactly them override, and conversion with overrides differs from conversion with the merged table
  only where the request table has just the inverse rate while the server has a direct one.\<close>

theorem conversion_spec:
  assumes "src \<noteq> dst" "table_wf req_rates"
  shows "convert c x src dst =
     (case (rate (cc_rates c) src dst, rate (cc_rates c) dst src,
            rate (cc_rates c) src ''USD'', rate (cc_rates c) ''USD'' dst) of
        (Some r, _, _, _) \<Rightarrow> Some (f_mul x r)
      | (None, Some r, _, _) \<Rightarrow> Some (f_div x r)
      | (None, None, Some a, Some b) \<Rightarrow> Some (f_mul (f_mul x a) b)
      | _ \<Rightarrow> None)
    \<and> rate (cc_rates (with_additional_rates c req_rates)) src dst =
        (case rate req_rates src dst of Some r \<Rightarrow> Some r | None \<Rightarrow> rate (cc_rates c) src dst)
    \<and> convert_with_overrides c x src dst req_rates =
        (if rate req_rates src dst = None \<and> rate req_rates dst src \<noteq> None
         then Some (f_div x (the (rate req_rates dst src)))
         else if rate req_rates src dst = None then convert c x src dst
         else convert (with_additional_rates c req_rates) x src dst)"
proof -
  have add: "rate (cc_rates (with_additional_rates c req_rates)) s d =
     (case rate req_rates s d of Some r \<Rightarrow> Some r | None \<Rightarrow> rate (cc_rates c) s d)" for s d
    using assms(2) by (simp add: with_additional_rates_def rate_fold_add table_wf_def)
  have conv: "convert c x src dst =
     (case (rate (cc_rates c) src dst, rate (cc_rates c) dst src,
            rate (cc_rates c) src ''USD'', rate (cc_rates c) ''USD'' dst) of
        (Some r, _, _, _) \<Rightarrow> Some (f_mul x r)
      | (None, Some r, _, _) \<Rightarrow> Some (f_div x r)
      | (None, None, Some a, Some b) \<Rightarrow> Some (f_mul (f_mul x a) b)
      | _ \<Rightarrow> None)"
    using assms(1) by (auto simp: convert_def split: option.splits)
  have over: "convert_with_overrides c x src dst req_rates =
      (if rate req_rates src dst = None \<and> rate req_rates dst src \<noteq> None
       then Some (f_div x (the (rate req_rates dst src)))
       else if rate req_rates src dst = None then convert c x src dst
       else convert (with_additional_rates c req_rates) x src dst)"
    using assms(1) by (auto simp: convert_with_overrides_def convert_def add split: option.splits)
  show ?thesis by (rule conjI [OF conv conjI [OF add over]])
qed

theorem conversion_spec_witness:
  "convert_with_overrides (converter_new [(''EUR'', [(''USD'', Fin False 2)])]) (Fin False 3) ''USD'' ''EUR''
     [(''EUR'', [(''USD'', Fin False 4)])] = Some (f_div (Fin False 3) (Fin False 4))"
proof -
  have wf: "table_wf [(''EUR'', [(''USD'', Fin False 4)])]"
    by (simp add: table_wf_def hm_wf_def)
  have "''USD'' \<noteq> ''EUR''" by simp
  from conversion_spec [OF this wf, of "converter_new [(''EUR'', [(''USD'', Fin False 2)])]" "Fin False 3"]
  show ?thesis by (simp add: rate_def)
qed

end
