(* ===== verification/Bids.thy ===== *)
theory Bids
  imports Bidder Currency
begin

text \<open>
  What the exchange does with the bids of one bidder, \<^verbatim>\<open>rust/crates/exchange/src/lib.rs\<close>: currency check and
  conversion, bid adjustment factor, floors, validation, deduplication and the multi-bid limit, with the
  non-bids and errors it records on the way.  The parts of \<^verbatim>\<open>hold_auction_with_timeouts\<close> that the source writes
  inline are definitions of their own here, in the order of the code.  The iteration order of a
  \<^verbatim>\<open>HashMap\<close> is an argument.
\<close>

section \<open>Non-bids\<close>

record non_bid_object =
  nbo_price :: "f64 option"
  nbo_adomain :: "string list option"
  nbo_cat :: "string list option"
  nbo_dealid :: "string option"
  nbo_w :: "int option"
  nbo_h :: "int option"
  nbo_dur :: "int option"
  nbo_orig_bid_cpm :: "f64 option"
  nbo_orig_bid_cur :: "string option"

record non_bid =
  nb_impid :: string
  nb_statuscode :: int
  nb_jext :: "non_bid_object option"

record seat_non_bid =
  snb_nonbid :: "non_bid list"
  snb_seat :: string
  snb_jext :: "json option"

definition non_bid_for :: "int \<Rightarrow> string \<Rightarrow> non_bid" where
  "non_bid_for code impid = \<lparr>nb_impid = impid, nb_statuscode = code, nb_jext = None\<rparr>"

text \<open>One non-bid with a code for every impression of the request, pushed when there is any.\<close>

definition push_non_bids :: "string \<Rightarrow> non_bid list \<Rightarrow> seat_non_bid list \<Rightarrow> seat_non_bid list" where
  "push_non_bids seat nbs acc =
     (if nbs = [] then acc else acc @ [\<lparr>snb_nonbid = nbs, snb_seat = seat, snb_jext = None\<rparr>])"

definition non_bids_all_imps :: "int \<Rightarrow> imp list \<Rightarrow> non_bid list" where
  "non_bids_all_imps code imps = map (\<lambda>i. non_bid_for code (imp_id i)) imps"

section \<open>Validation of bids\<close>

abbreviation tb_price :: "typed_bid \<Rightarrow> f64" where "tb_price tb \<equiv> bid_price (tb_bid tb)"
abbreviation tb_impid :: "typed_bid \<Rightarrow> string" where "tb_impid tb \<equiv> bid_impid (tb_bid tb)"
abbreviation tb_id :: "typed_bid \<Rightarrow> string" where "tb_id tb \<equiv> bid_id (tb_bid tb)"

definition keep_bid :: "string list \<Rightarrow> typed_bid \<Rightarrow> bool" where
  "keep_bid imp_ids tb =
     (let b = tb_bid tb
      in if bid_id b = [] then False
         else if bid_impid b = [] then False
         else if bid_impid b \<notin> set imp_ids then False
         else if f_lt (bid_price b) (Fin False 0) then False
         else if f_eq (bid_price b) (Fin False 0) \<and> bid_dealid b = None then False
         else if (case bid_crid b of None \<Rightarrow> True | Some s \<Rightarrow> s = []) then False
         else True)"

definition validate_bids :: "typed_bid list \<Rightarrow> imp list \<Rightarrow> typed_bid list" where
  "validate_bids bids imps = filter (keep_bid (map imp_id imps)) bids"

definition is_ascii_uppercase :: "char \<Rightarrow> bool" where
  "is_ascii_uppercase c = (65 \<le> (of_char c :: nat) \<and> of_char c \<le> (90 :: nat))"

definition validate_bid_currency :: "string list \<Rightarrow> string \<Rightarrow> (string, unit) res" where
  "validate_bid_currency request_currencies bid_currency =
     (if bid_currency = [] then Inr ()
      else let upper = to_uppercase bid_currency
           in if length upper \<noteq> 3 \<or> \<not> list_all is_ascii_uppercase upper
              then Inl (''Invalid currency code: '' @ [char_of (39 :: nat)] @ bid_currency @ [char_of (39 :: nat)])
              else Inr ())"

section \<open>Prices\<close>

definition set_price :: "f64 \<Rightarrow> typed_bid \<Rightarrow> typed_bid" where
  "set_price p tb = tb\<lparr>tb_bid := (tb_bid tb)\<lparr>bid_price := p\<rparr>\<rparr>"

definition convert_bids :: "currency_converter option \<Rightarrow> string \<Rightarrow> typed_bid list \<Rightarrow> typed_bid list" where
  "convert_bids rates cur bids =
     (if cur \<noteq> ''USD''
      then case rates of
             None \<Rightarrow> bids
           | Some converter \<Rightarrow>
               map (\<lambda>tb. case convert converter (tb_price tb) cur ''USD'' of
                           Some p \<Rightarrow> set_price p tb | None \<Rightarrow> tb) bids
      else bids)"

definition adjustment_factors :: "(json \<Rightarrow> (string \<times> f64) list option) \<Rightarrow> bid_request \<Rightarrow> (string \<times> f64) list" where
  "adjustment_factors de req =
     (case Option.bind (jpath (req_jext req) [''prebid'', ''bidadjustmentfactors'']) de of None \<Rightarrow> [] | Some m \<Rightarrow> m)"

definition apply_factor :: "(string \<times> f64) list \<Rightarrow> string \<Rightarrow> typed_bid list \<Rightarrow> typed_bid list" where
  "apply_factor factors name bids =
     (case map_of factors name of
        Some factor \<Rightarrow> map (\<lambda>tb. set_price (f_mul (tb_price tb) factor) tb) bids
      | None \<Rightarrow> bids)"

section \<open>Floors\<close>

definition bid_floor :: "imp list \<Rightarrow> typed_bid \<Rightarrow> f64 option" where
  "bid_floor imps tb =
     Option.bind (List.find (\<lambda>i. imp_id i = tb_impid tb) imps)
       (\<lambda>i. case imp_bidfloor i of Some f \<Rightarrow> if f_lt (Fin False 0) f then Some f else None | None \<Rightarrow> None)"

definition below_floor :: "imp list \<Rightarrow> typed_bid \<Rightarrow> bool" where
  "below_floor imps tb = (case bid_floor imps tb of Some fl \<Rightarrow> f_lt (tb_price tb) fl | None \<Rightarrow> False)"

fun floor_filter :: "imp list \<Rightarrow> typed_bid list \<Rightarrow> non_bid list \<times> typed_bid list" where
  "floor_filter imps [] = ([], [])"
| "floor_filter imps (tb # tbs) =
     (case floor_filter imps tbs of (nbs, acc) \<Rightarrow>
        if below_floor imps tb then (non_bid_for 300 (tb_impid tb) # nbs, acc) else (nbs, tb # acc))"

section \<open>Deduplication and the multi-bid limit\<close>

definition dedup_step :: "typed_bid \<Rightarrow> typed_bid list \<times> (string \<times> nat) list \<Rightarrow> typed_bid list \<times> (string \<times> nat) list" where
  "dedup_step tb st =
     (case st of (deduped, seen_ids) \<Rightarrow>
        (case map_of seen_ids (tb_id tb) of
           Some idx \<Rightarrow>
             (if f_lt (tb_price (deduped ! idx)) (tb_price tb) then deduped[idx := tb] else deduped, seen_ids)
         | None \<Rightarrow> (deduped @ [tb], hm_insert (tb_id tb) (length deduped) seen_ids)))"

definition dedup_bids :: "typed_bid list \<Rightarrow> typed_bid list" where
  "dedup_bids bids = fst (fold dedup_step bids ([], []))"

definition best_step :: "typed_bid \<Rightarrow> (string \<times> typed_bid) list \<Rightarrow> (string \<times> typed_bid) list" where
  "best_step tb best =
     (case map_of best (tb_impid tb) of
        Some existing \<Rightarrow>
          if f_le (tb_price tb) (tb_price existing) then best else hm_insert (tb_impid tb) tb best
      | None \<Rightarrow> hm_insert (tb_impid tb) tb best)"

definition group_step :: "typed_bid \<Rightarrow> (string \<times> typed_bid list) list \<Rightarrow> (string \<times> typed_bid list) list" where
  "group_step tb groups = hm_insert (tb_impid tb) (get_or [] groups (tb_impid tb) @ [tb]) groups"

definition price_desc :: "typed_bid \<Rightarrow> typed_bid \<Rightarrow> int" where
  "price_desc a b = (case f_partial_cmp (tb_price b) (tb_price a) of Some c \<Rightarrow> c | None \<Rightarrow> 0)"

definition limit_bids :: "(string list \<Rightarrow> string list) \<Rightarrow> nat \<Rightarrow> typed_bid list \<Rightarrow> typed_bid list" where
  "limit_bids ord max_bids_per_imp deduped =
     (if max_bids_per_imp \<le> 1
      then map snd (hm_iter ord (fold best_step deduped []))
      else concat (map (\<lambda>(imp_id, imp_bids). take max_bids_per_imp (sort_by price_desc imp_bids))
                     (hm_iter ord (fold group_step deduped []))))"

record multi_bid =
  mb_bidder :: "string option"
  mb_bidders :: "string list option"
  mb_max_bids :: "nat option"
  mb_target_bidder_code_prefix :: "string option"

definition multi_bid_step :: "multi_bid \<Rightarrow> (string \<times> nat) list \<Rightarrow> (string \<times> nat) list" where
  "multi_bid_step e limits =
     (let mx = max 1 (case mb_max_bids e of None \<Rightarrow> 1 | Some n \<Rightarrow> n);
          limits = (case mb_bidder e of Some b \<Rightarrow> hm_insert b mx limits | None \<Rightarrow> limits)
      in case mb_bidders e of Some bs \<Rightarrow> fold (\<lambda>b. hm_insert b mx) bs limits | None \<Rightarrow> limits)"

definition multi_bid_limits :: "(json \<Rightarrow> multi_bid list option) \<Rightarrow> bid_request \<Rightarrow> (string \<times> nat) list" where
  "multi_bid_limits de req =
     fold multi_bid_step
       (case Option.bind (jpath (req_jext req) [''prebid'', ''multibid'']) de of None \<Rightarrow> [] | Some es \<Rightarrow> es) []"

section \<open>The response of one bidder\<close>

definition process_bids ::
  "currency_converter option \<Rightarrow> (string \<times> f64) list \<Rightarrow> imp list \<Rightarrow> (string \<times> nat) list
   \<Rightarrow> (string list \<Rightarrow> string list) \<Rightarrow> string \<Rightarrow> bidder_response \<Rightarrow> non_bid list \<times> typed_bid list" where
  "process_bids rates factors imps limits ord name response =
     (let bids = convert_bids rates (br_currency response) (br_bids response);
          bids = apply_factor factors name bids;
          (floor_non_bids, accepted) = floor_filter imps bids;
          validated = validate_bids accepted imps;
          deduped = dedup_bids validated;
          max_bids_per_imp = (case map_of limits name of Some n \<Rightarrow> n | None \<Rightarrow> 1)
      in (floor_non_bids, limit_bids ord max_bids_per_imp deduped))"

text \<open>The collections \<^verbatim>\<open>hold_auction_with_timeouts\<close> fills while the bidders answer.\<close>

record collected =
  col_bidder_results :: "(string \<times> typed_bid list) list"
  col_timed_out :: "string list"
  col_non_bids :: "seat_non_bid list"
  col_errors :: "(string \<times> string list) list"
  col_timing :: "(string \<times> nat) list"
  col_debug_http_calls :: "(string \<times> ext_http_call list) list"
  col_debug_timing :: "(string \<times> nat) list"

definition push_errors :: "string \<Rightarrow> string list \<Rightarrow> (string \<times> string list) list \<Rightarrow> (string \<times> string list) list" where
  "push_errors name es m = hm_insert name (get_or [] m name @ es) m"

definition collect_timing :: "bool \<Rightarrow> bidder_result \<Rightarrow> collected \<Rightarrow> collected" where
  "collect_timing is_test r c =
     (let name = bres_bidder_name r;
          c = (if bres_timed_out r then c\<lparr>col_timed_out := col_timed_out c @ [name]\<rparr> else c);
          c = c\<lparr>col_timing := hm_insert name (bres_duration_ms r) (col_timing c)\<rparr>
      in if is_test
         then c\<lparr>col_debug_http_calls :=
                  (if bres_http_calls r \<noteq> []
                   then hm_insert name (get_or [] (col_debug_http_calls c) name @ bres_http_calls r) (col_debug_http_calls c)
                   else col_debug_http_calls c),
                col_debug_timing := hm_insert name (bres_duration_ms r) (col_debug_timing c)\<rparr>
         else c)"

definition collect_response ::
  "currency_converter option \<Rightarrow> (string \<times> f64) list \<Rightarrow> bid_request \<Rightarrow> (string \<times> nat) list
   \<Rightarrow> (string list \<Rightarrow> string list) \<Rightarrow> bidder_result \<Rightarrow> collected \<Rightarrow> collected" where
  "collect_response rates factors req limits ord r c =
     (let name = bres_bidder_name r
      in case bres_response r of
           Inr response \<Rightarrow>
             if br_bids response = [] then c
             else (case validate_bid_currency (case req_cur req of None \<Rightarrow> [] | Some cs \<Rightarrow> cs) (br_currency response) of
                     Inl currency_err \<Rightarrow> c\<lparr>col_errors := push_errors name [currency_err] (col_errors c)\<rparr>
                   | Inr _ \<Rightarrow>
                       (case process_bids rates factors (req_imp req) limits ord name response of
                          (floor_non_bids, deduped) \<Rightarrow>
                            c\<lparr>col_non_bids := push_non_bids name floor_non_bids (col_non_bids c),
                              col_bidder_results :=
                                (if deduped \<noteq> [] then col_bidder_results c @ [(name, deduped)]
                                 else col_bidder_results c)\<rparr>))
         | Inl errs \<Rightarrow>
             c\<lparr>col_errors := (if errs \<noteq> [] then push_errors name (map show_bidder_error errs) (col_errors c)
                              else col_errors c),
               col_non_bids := push_non_bids name (non_bids_all_imps 200 (req_imp req)) (col_non_bids c)\<rparr>)"

text \<open>One completed task: \<^const>\<open>None\<close> is a task that panicked, which is only logged.\<close>

definition collect_result ::
  "currency_converter option \<Rightarrow> (string \<times> f64) list \<Rightarrow> bid_request \<Rightarrow> (string \<times> nat) list
   \<Rightarrow> (string \<Rightarrow> string list \<Rightarrow> string list) \<Rightarrow> bidder_result option \<Rightarrow> collected \<Rightarrow> collected" where
  "collect_result rates factors req limits ord result c =
     (case result of
        None \<Rightarrow> c
      | Some r \<Rightarrow>
          collect_response rates factors req limits (ord (bres_bidder_name r)) r
            (collect_timing (req_test req = Some 1) r c))"

section \<open>Lemmas: deduplication\<close>

text \<open>The index map and the vector agree: every id of the vector is at the index the map gives.\<close>

definition dedup_inv :: "typed_bid list \<times> (string \<times> nat) list \<Rightarrow> bool" where
  "dedup_inv st \<longleftrightarrow>
     distinct (map tb_id (fst st))
     \<and> (\<forall>k i. map_of (snd st) k = Some i \<longleftrightarrow> i < length (fst st) \<and> tb_id (fst st ! i) = k)"

lemma map_update_same: "f x = f (xs ! i) \<Longrightarrow> map f (xs[i := x]) = map f xs"
  by (metis list_update_id map_update)

lemma dedup_step_inv: "dedup_inv st \<Longrightarrow> dedup_inv (dedup_step tb st)"
proof -
  assume inv: "dedup_inv st"
  obtain ds m where st: "st = (ds, m)" by (cases st)
  have dist: "distinct (map tb_id ds)"
    and idx: "map_of m k = Some i \<longleftrightarrow> i < length ds \<and> tb_id (ds ! i) = k" for k i
    using inv by (auto simp: dedup_inv_def st)
  show ?thesis
  proof (cases "map_of m (tb_id tb)")
    case None
    then have new: "tb_id tb \<notin> tb_id ` set ds"
      using idx [of "tb_id tb"] by (auto simp: in_set_conv_nth) blast
    then have "tb_id (ds ! i) \<noteq> tb_id tb" if "i < length ds" for i
      using that nth_mem [OF that] by (metis imageI)
    then show ?thesis
      using None new dist idx
      by (auto simp: dedup_step_def st dedup_inv_def hm.get_insert nth_append less_Suc_eq)
  next
    case (Some i)
    then have i: "i < length ds" "tb_id (ds ! i) = tb_id tb" using idx by auto
    have same: "map tb_id (ds[i := tb]) = map tb_id ds"
      using i by (simp add: map_update_same)
    have "tb_id (ds[i := tb] ! j) = tb_id (ds ! j)" if "j < length ds" for j
      using i that by (cases "j = i") auto
    moreover have "dedup_step tb st = (if f_lt (tb_price (ds ! i)) (tb_price tb) then ds[i := tb] else ds, m)"
      using Some by (simp add: dedup_step_def st)
    ultimately show ?thesis
      using dist idx same by (auto simp: dedup_inv_def)
  qed
qed

lemma dedup_fold_inv: "dedup_inv st \<Longrightarrow> dedup_inv (fold dedup_step bids st)"
  by (induction bids arbitrary: st) (auto simp: dedup_step_inv)

lemma dedup_init: "dedup_inv ([], [])"
  by (simp add: dedup_inv_def)

lemma dedup_distinct: "distinct (map tb_id (dedup_bids bids))"
  using dedup_fold_inv [OF dedup_init, of bids] by (simp add: dedup_bids_def dedup_inv_def)

text \<open>Every bid seen has a representative with its id and at least its price.\<close>

definition covers :: "typed_bid list \<Rightarrow> typed_bid \<Rightarrow> bool" where
  "covers ds tb \<longleftrightarrow> (\<exists>d \<in> set ds. tb_id d = tb_id tb \<and> f_le (tb_price tb) (tb_price d))"

lemma dedup_step_set: "dedup_inv st \<Longrightarrow> set (fst (dedup_step tb st)) \<subseteq> Set.insert tb (set (fst st))"
  by (auto simp: dedup_step_def split: prod.splits option.splits dest: set_update_subset_insert [THEN subsetD])

lemma dedup_step_covers_new:
  assumes inv: "dedup_inv st" and num: "is_num (tb_price tb)" "\<forall>d \<in> set (fst st). is_num (tb_price d)"
  shows "covers (fst (dedup_step tb st)) tb"
proof -
  obtain ds m where st: "st = (ds, m)" by (cases st)
  show ?thesis
  proof (cases "map_of m (tb_id tb)")
    case None
    then show ?thesis using num by (simp add: dedup_step_def st covers_def f_le_refl)
  next
    case (Some i)
    then have i: "i < length ds" "tb_id (ds ! i) = tb_id tb" using inv by (auto simp: dedup_inv_def st)
    then have "ds ! i \<in> set ds" by simp
    then show ?thesis
      using Some num i
      by (auto simp: dedup_step_def st covers_def f_lt_iff intro: set_update_memI f_le_refl)
  qed
qed

lemma dedup_step_covers_old:
  assumes inv: "dedup_inv st" and cov: "covers (fst st) x"
  shows "covers (fst (dedup_step tb st)) x"
proof -
  obtain ds m where st: "st = (ds, m)" by (cases st)
  obtain d where d: "d \<in> set ds" "tb_id d = tb_id x" "f_le (tb_price x) (tb_price d)"
    using cov by (auto simp: covers_def st)
  show ?thesis
  proof (cases "map_of m (tb_id tb)")
    case None
    then show ?thesis using d by (auto simp: dedup_step_def st covers_def)
  next
    case (Some i)
    then have i: "i < length ds" "tb_id (ds ! i) = tb_id tb" using inv by (auto simp: dedup_inv_def st)
    obtain j where j: "j < length ds" "d = ds ! j" using d(1) by (metis in_set_conv_nth)
    show ?thesis
    proof (cases "f_lt (tb_price (ds ! i)) (tb_price tb) \<and> i = j")
      case True
      then have "tb \<in> set (ds[i := tb])" "f_le (tb_price x) (tb_price tb)" "tb_id tb = tb_id x"
        using i j d by (auto intro: set_update_memI f_le_trans f_lt_le)
      then show ?thesis using Some True by (auto simp: dedup_step_def st covers_def)
    next
      case False
      then have "ds[i := tb] ! j = d \<or> \<not> f_lt (tb_price (ds ! i)) (tb_price tb)"
        using j by auto
      then show ?thesis
        using Some d j by (auto simp: dedup_step_def st covers_def) (metis length_list_update nth_mem)
    qed
  qed
qed

lemma dedup_fold_covers:
  assumes "dedup_inv st" "\<forall>d \<in> set (fst st) \<union> set bids. is_num (tb_price d)"
    and "x \<in> set bids \<or> covers (fst st) x"
  shows "covers (fst (fold dedup_step bids st)) x"
  using assms
proof (induction bids arbitrary: st)
  case (Cons tb bids)
  have sub: "set (fst (dedup_step tb st)) \<subseteq> Set.insert tb (set (fst st))"
    using Cons.prems(1) by (rule dedup_step_set)
  have "x \<in> set bids \<or> covers (fst (dedup_step tb st)) x"
    using Cons.prems dedup_step_covers_new [of st tb] dedup_step_covers_old [of st x tb] by auto
  moreover have "\<forall>d \<in> set (fst (dedup_step tb st)) \<union> set bids. is_num (tb_price d)"
    using sub Cons.prems(2) by auto
  ultimately show ?case
    using Cons.IH [of "dedup_step tb st"] Cons.prems(1) by (simp add: dedup_step_inv)
qed simp

lemma dedup_fold_set: "dedup_inv st \<Longrightarrow> set (fst (fold dedup_step bids st)) \<subseteq> set (fst st) \<union> set bids"
proof (induction bids arbitrary: st)
  case (Cons tb bids)
  have "set (fst (fold dedup_step bids (dedup_step tb st))) \<subseteq> set (fst (dedup_step tb st)) \<union> set bids"
    using Cons dedup_step_inv by blast
  then show ?case
    using dedup_step_set [of st tb] Cons.prems by auto
qed simp

lemma dedup_subset: "set (dedup_bids bids) \<subseteq> set bids"
  using dedup_fold_set [OF dedup_init, of bids] by (simp add: dedup_bids_def)

lemma dedup_covers:
  "\<forall>d \<in> set bids. is_num (tb_price d) \<Longrightarrow> tb \<in> set bids \<Longrightarrow> covers (dedup_bids bids) tb"
  using dedup_fold_covers [OF dedup_init, of bids tb] by (simp add: dedup_bids_def)

section \<open>Lemmas: the limit per impression\<close>

lemma group_fold_get:
  "map_of (fold group_step bids m) i =
     (if i \<in> tb_impid ` set bids then Some (get_or [] m i @ filter (\<lambda>tb. tb_impid tb = i) bids) else map_of m i)"
proof (induction bids arbitrary: m)
  case (Cons tb bids)
  have "map_of (fold group_step (tb # bids) m) i =
     (if i \<in> tb_impid ` set bids then Some (get_or [] (group_step tb m) i @ filter (\<lambda>tb. tb_impid tb = i) bids)
      else map_of (group_step tb m) i)"
    by (simp add: Cons.IH)
  moreover have "map_of (group_step tb m) i =
     (if i = tb_impid tb then Some (get_or [] m i @ [tb]) else map_of m i)"
    by (simp add: group_step_def hm.get_insert)
  moreover have "filter (\<lambda>tb. tb_impid tb = i) bids = []" if "i \<notin> tb_impid ` set bids"
    using that by (auto simp: filter_empty_conv)
  ultimately show ?case
    by (auto simp: get_or_def)
qed simp

lemma group_fold_wf: "hm_wf m \<Longrightarrow> hm_wf (fold group_step bids m)"
  by (induction bids arbitrary: m) (auto simp: group_step_def hm.wf_insert)

lemma best_fold_wf: "hm_wf m \<Longrightarrow> hm_wf (fold best_step bids m)"
  by (induction bids arbitrary: m) (auto simp: best_step_def hm.wf_insert split: option.splits)

text \<open>The best bid of an impression, as a function of the bids offered for it in order.\<close>

fun best_of :: "typed_bid list \<Rightarrow> typed_bid option \<Rightarrow> typed_bid option" where
  "best_of [] acc = acc"
| "best_of (tb # tbs) acc =
     best_of tbs (case acc of Some ex \<Rightarrow> if f_le (tb_price tb) (tb_price ex) then Some ex else Some tb | None \<Rightarrow> Some tb)"

lemma best_fold_get:
  "map_of (fold best_step bids m) i = best_of (filter (\<lambda>tb. tb_impid tb = i) bids) (map_of m i)"
  by (induction bids arbitrary: m) (auto simp: best_step_def hm.get_insert split: option.splits)

lemma best_of_mem: "best_of tbs acc = Some b \<Longrightarrow> b \<in> set tbs \<or> acc = Some b"
  by (induction tbs arbitrary: acc) (fastforce split: option.splits if_splits)+

lemma best_of_None: "best_of tbs acc = None \<longleftrightarrow> tbs = [] \<and> acc = None"
  by (induction tbs arbitrary: acc) (auto split: option.splits if_splits)

lemma best_of_max:
  assumes "best_of tbs acc = Some b" "\<forall>t \<in> set tbs. is_num (tb_price t)" "\<forall>a. acc = Some a \<longrightarrow> is_num (tb_price a)"
  shows "(\<forall>t \<in> set tbs. f_le (tb_price t) (tb_price b)) \<and> (\<forall>a. acc = Some a \<longrightarrow> f_le (tb_price a) (tb_price b))"
  using assms
proof (induction tbs arbitrary: acc)
  case (Cons t tbs)
  define acc' where "acc' = (case acc of Some ex \<Rightarrow> if f_le (tb_price t) (tb_price ex) then Some ex else Some t | None \<Rightarrow> Some t)"
  obtain a' where a': "acc' = Some a'" "is_num (tb_price a')" "f_le (tb_price t) (tb_price a')"
      "\<forall>a. acc = Some a \<longrightarrow> f_le (tb_price a) (tb_price a')"
    using Cons.prems f_le_total f_le_refl unfolding acc'_def by (fastforce split: option.splits if_splits)
  have "best_of tbs acc' = Some b" using Cons.prems by (simp add: acc'_def)
  then have "(\<forall>t \<in> set tbs. f_le (tb_price t) (tb_price b)) \<and> f_le (tb_price a') (tb_price b)"
    using Cons.IH [of acc'] Cons.prems a' by auto
  then show ?case using a' by (auto intro: f_le_trans)
qed (auto simp: f_le_refl)

text \<open>Reading one group out of a concatenation over a map whose values carry their key.\<close>

lemma map_of_hm_iter: "iter_order ord \<Longrightarrow> hm_wf m \<Longrightarrow> map_of (hm_iter ord m) = map_of m"
proof -
  assume ord: "iter_order ord" and wf: "hm_wf m"
  have "distinct (map fst (hm_iter ord m))"
    using ord wf unfolding hm_iter_keys hm_wf_def iter_order_def by (metis mset_eq_imp_distinct_iff)
  then show ?thesis
    using wf set_hm_iter [OF ord wf] by (simp add: map_of_inject_set hm_wf_def)
qed

lemma distinct_hm_iter: "iter_order ord \<Longrightarrow> hm_wf m \<Longrightarrow> distinct (map fst (hm_iter ord m))"
  unfolding hm_iter_keys hm_wf_def iter_order_def by (metis mset_eq_imp_distinct_iff)

lemma filter_concat_groups:
  "distinct (map fst L) \<Longrightarrow> \<forall>(k, v) \<in> set L. \<forall>x \<in> set (f v). key x = k \<Longrightarrow>
   filter (\<lambda>x. key x = i) (concat (map (\<lambda>(k, v). f v) L)) = (case map_of L i of None \<Rightarrow> [] | Some v \<Rightarrow> f v)"
proof (induction L)
  case (Cons e L)
  obtain k v where e: "e = (k, v)" by (cases e)
  have "filter (\<lambda>x. key x = i) (f v) = (if k = i then f v else [])"
    using Cons.prems(2) by (auto simp: e filter_empty_conv intro!: filter_True)
  moreover have "map_of L i = None" if "k = i"
    using Cons.prems(1) that by (auto simp: e map_of_eq_None_iff)
  ultimately show ?case using Cons by (auto simp: e)
qed simp

definition top_bids :: "nat \<Rightarrow> typed_bid list \<Rightarrow> typed_bid list" where
  "top_bids n imp_bids =
     (if n \<le> 1 then (case best_of imp_bids None of None \<Rightarrow> [] | Some b \<Rightarrow> [b]) else take n (sort_by price_desc imp_bids))"

lemma limit_bids_group:
  assumes ord: "iter_order ord"
  shows "filter (\<lambda>tb. tb_impid tb = i) (limit_bids ord n bids) = top_bids n (filter (\<lambda>tb. tb_impid tb = i) bids)"
proof (cases "n \<le> 1")
  case True
  define m where "m = fold best_step bids []"
  have wf: "hm_wf m" unfolding m_def by (rule best_fold_wf) (simp add: hm_wf_def)
  have get: "map_of m i = best_of (filter (\<lambda>tb. tb_impid tb = i) bids) None" for i
    by (simp add: m_def best_fold_get)
  have key: "tb_impid v = k" if "(k, v) \<in> set (hm_iter ord m)" for k v
  proof -
    have "map_of m k = Some v" using that wf by (simp add: set_hm_iter [OF ord wf] hm_wf_def)
    then show ?thesis using best_of_mem [of "filter (\<lambda>tb. tb_impid tb = k) bids" None v] by (simp add: get)
  qed
  have "limit_bids ord n bids = concat (map (\<lambda>(k, v). [v]) (hm_iter ord m))"
    using True concat_map_singleton [of snd "hm_iter ord m"]
    by (simp add: limit_bids_def m_def case_prod_unfold)
  moreover have "filter (\<lambda>x. tb_impid x = i) (concat (map (\<lambda>(k, v). [v]) (hm_iter ord m)))
      = (case map_of (hm_iter ord m) i of None \<Rightarrow> [] | Some v \<Rightarrow> [v])"
    using key by (intro filter_concat_groups distinct_hm_iter [OF ord wf]) auto
  ultimately show ?thesis
    using True by (simp add: top_bids_def get map_of_hm_iter [OF ord wf])
next
  case False
  define m where "m = fold group_step bids []"
  have wf: "hm_wf m" unfolding m_def by (rule group_fold_wf) (simp add: hm_wf_def)
  have get: "map_of m i = (if i \<in> tb_impid ` set bids then Some (filter (\<lambda>tb. tb_impid tb = i) bids) else None)" for i
    by (simp add: m_def group_fold_get get_or_def)
  have key: "tb_impid x = k" if "(k, v) \<in> set (hm_iter ord m)" "x \<in> set (take n (sort_by price_desc v))" for k v x
  proof -
    have "map_of m k = Some v" using that wf by (simp add: set_hm_iter [OF ord wf] hm_wf_def)
    then show ?thesis using in_set_takeD [OF that(2)] by (auto simp: get split: if_splits)
  qed
  have empty: "sort_by price_desc (filter (\<lambda>tb. tb_impid tb = i) bids) = []" if "i \<notin> tb_impid ` set bids"
  proof -
    have "filter (\<lambda>tb. tb_impid tb = i) bids = []" using that by (auto simp: filter_empty_conv)
    then show ?thesis by (simp add: sort_by_def)
  qed
  have "limit_bids ord n bids = concat (map (\<lambda>(k, v). take n (sort_by price_desc v)) (hm_iter ord m))"
    using False by (simp add: limit_bids_def m_def)
  moreover have "filter (\<lambda>x. tb_impid x = i) (concat (map (\<lambda>(k, v). take n (sort_by price_desc v)) (hm_iter ord m)))
      = (case map_of (hm_iter ord m) i of None \<Rightarrow> [] | Some v \<Rightarrow> take n (sort_by price_desc v))"
    using key by (intro filter_concat_groups distinct_hm_iter [OF ord wf]) auto
  ultimately show ?thesis
    using False empty by (simp add: top_bids_def get map_of_hm_iter [OF ord wf])
qed


section \<open>Lemmas: top bids\<close>

lemma price_desc_le: "is_num (tb_price a) \<Longrightarrow> is_num (tb_price b) \<Longrightarrow>
    price_desc a b \<le> 0 \<longleftrightarrow> f_le (tb_price b) (tb_price a)"
  using f_le_total [of "tb_price a" "tb_price b"]
  by (auto simp: price_desc_def f_partial_cmp_def f_eq_def f_lt_iff)

lemma top_bids_subset: "set (top_bids n bs) \<subseteq> set bs"
  using best_of_mem [of bs None] by (auto simp: top_bids_def dest!: in_set_takeD split: option.splits)

lemma length_top_bids: "length (top_bids n bs) = min (max 1 n) (length bs)"
  by (auto simp: top_bids_def best_of_None split: option.splits)
    (metis One_nat_def Suc_leI best_of_None length_greater_0_conv min.absorb1 option.distinct(1))

lemma top_bids_all: "length bs \<le> max 1 n \<Longrightarrow> set (top_bids n bs) = set bs"
  by (cases bs; cases "tl bs") (auto simp: top_bids_def)

lemma sorted_desc:
  assumes "\<forall>b \<in> set bs. is_num (tb_price b)"
  shows "sorted_wrt (\<lambda>a b. f_le (tb_price b) (tb_price a)) (sort_by price_desc bs)"
proof -
  have "sorted_wrt (\<lambda>a b. price_desc a b \<le> 0) (sort_by price_desc bs)"
    using assms f_le_total by (intro sorted_sort_by) (auto simp: price_desc_le intro: f_le_trans)
  then show ?thesis
    by (rule sorted_wrt_mono_rel [rotated]) (use assms in \<open>simp add: price_desc_le\<close>)
qed

lemma top_bids_top:
  assumes num: "\<forall>b \<in> set bs. is_num (tb_price b)"
    and d: "d \<in> set bs" "d \<notin> set (top_bids n bs)" and k: "k \<in> set (top_bids n bs)"
  shows "f_le (tb_price d) (tb_price k)"
proof (cases "n \<le> 1")
  case True
  then have "best_of bs None = Some k" using k by (auto simp: top_bids_def split: option.splits)
  then show ?thesis using best_of_max [of bs None k] num d by simp
next
  case False
  define xs where "xs = sort_by price_desc bs"
  have "sorted_wrt (\<lambda>a b. f_le (tb_price b) (tb_price a)) (take n xs @ drop n xs)"
    using sorted_desc [OF num] by (simp add: xs_def)
  then have "f_le (tb_price b) (tb_price a)" if "a \<in> set (take n xs)" "b \<in> set (drop n xs)" for a b
    unfolding sorted_wrt_append using that by blast
  moreover have "k \<in> set (take n xs)" using k False by (simp add: top_bids_def xs_def)
  moreover have "d \<in> set (drop n xs)"
    using d False by (metis Un_iff append_take_drop_id set_append set_sort_by top_bids_def xs_def)
  ultimately show ?thesis by blast
qed

section \<open>Lemmas: the pipeline\<close>

lemma floor_filter_eq:
  "floor_filter imps bids =
     (map (\<lambda>tb. non_bid_for 300 (tb_impid tb)) (filter (below_floor imps) bids),
      filter (\<lambda>tb. \<not> below_floor imps tb) bids)"
  by (induction bids) auto

text \<open>The bids with the prices that floors, validation and ranking see; the bids that pass; the limit.\<close>

definition priced_bids :: "currency_converter option \<Rightarrow> (string \<times> f64) list \<Rightarrow> string \<Rightarrow> bidder_response \<Rightarrow> typed_bid list" where
  "priced_bids rates factors name response =
     apply_factor factors name (convert_bids rates (br_currency response) (br_bids response))"

definition good_bids :: "imp list \<Rightarrow> typed_bid list \<Rightarrow> typed_bid list" where
  "good_bids imps bids = filter (\<lambda>tb. \<not> below_floor imps tb \<and> keep_bid (map imp_id imps) tb) bids"

definition bid_limit :: "(string \<times> nat) list \<Rightarrow> string \<Rightarrow> nat" where
  "bid_limit limits name = max 1 (case map_of limits name of Some n \<Rightarrow> n | None \<Rightarrow> 1)"

lemma limit_bids_max: "limit_bids ord n bids = limit_bids ord (max 1 n) bids"
  by (cases "n = 0") (simp_all add: limit_bids_def)

lemma process_bids_eq:
  "process_bids rates factors imps limits ord name response =
     (map (\<lambda>tb. non_bid_for 300 (tb_impid tb))
        (filter (below_floor imps) (priced_bids rates factors name response)),
      limit_bids ord (bid_limit limits name) (dedup_bids (good_bids imps (priced_bids rates factors name response))))"
  unfolding bid_limit_def
  by (subst limit_bids_max [symmetric])
    (simp add: process_bids_def Let_def floor_filter_eq priced_bids_def good_bids_def validate_bids_def conj_commute)

lemma limit_bids_mem:
  "iter_order ord \<Longrightarrow> tb \<in> set (limit_bids ord n bids) \<longleftrightarrow>
     tb \<in> set (top_bids n (filter (\<lambda>t. tb_impid t = tb_impid tb) bids))"
  by (simp flip: limit_bids_group)

lemma limit_bids_subset: "iter_order ord \<Longrightarrow> set (limit_bids ord n bids) \<subseteq> set bids"
  using limit_bids_mem [of ord] top_bids_subset by fastforce

text \<open>At most one copy of every element, since every group has at most one.\<close>

lemma distinct_by_groups:
  "(\<And>i. distinct (filter (\<lambda>x. key x = i) xs)) \<Longrightarrow> distinct xs"
proof (induction xs)
  case (Cons x xs)
  have "x \<notin> set xs" using Cons.prems [of "key x"] by simp
  moreover have "distinct (filter (\<lambda>x. key x = i) xs)" for i
    using Cons.prems [of i] by (auto split: if_splits)
  ultimately show ?case using Cons.IH by simp
qed simp

lemma distinct_top_bids: "distinct bs \<Longrightarrow> distinct (top_bids n bs)"
  using mset_eq_imp_distinct_iff [OF mset_sort_by [of price_desc bs]]
  by (auto simp: top_bids_def intro: distinct_take split: option.splits)

lemma limit_bids_distinct_ids:
  assumes "iter_order ord" "distinct (map tb_id bids)"
  shows "distinct (map tb_id (limit_bids ord n bids))"
proof -
  have inj: "inj_on tb_id (set bids)" and dist: "distinct bids"
    using assms(2) by (auto simp: distinct_map)
  have "distinct (limit_bids ord n bids)"
  proof (rule distinct_by_groups [where key = tb_impid])
    show "distinct (filter (\<lambda>x. tb_impid x = i) (limit_bids ord n bids))" for i
      unfolding limit_bids_group [OF assms(1)] by (rule distinct_top_bids) (rule distinct_filter [OF dist])
  qed
  then show ?thesis
    using inj_on_subset [OF inj limit_bids_subset [OF assms(1)]] by (simp add: distinct_map)
qed

section \<open>Properties\<close>

text \<open>Property C6.  What comes out of a bidder's response: every accepted bid is one of the bidder's bids at
  its converted and adjusted price, has an id, a creative id and an impression of the request, is not
  negative, is positive or has a deal, and is not below the impression's floor; ids are distinct; no impression gets more
  bids than the multi-bid limit; and each bid below a floor is reported once, in order, with code 300.\<close>

theorem accepted_bids:
  assumes "iter_order ord"
  shows "let priced = priced_bids rates factors name response;
             kept = snd (process_bids rates factors imps limits ord name response)
         in fst (process_bids rates factors imps limits ord name response)
              = map (\<lambda>tb. non_bid_for 300 (tb_impid tb)) (filter (below_floor imps) priced)
          \<and> (\<forall>tb \<in> set kept. tb \<in> set priced \<and> tb_id tb \<noteq> [] \<and> tb_impid tb \<in> imp_id ` set imps
               \<and> \<not> f_lt (tb_price tb) (Fin False 0)
               \<and> \<not> (f_eq (tb_price tb) (Fin False 0) \<and> bid_dealid (tb_bid tb) = None)
               \<and> bid_crid (tb_bid tb) \<notin> {None, Some []} \<and> \<not> below_floor imps tb)
          \<and> distinct (map tb_id kept)
          \<and> (\<forall>i. length (filter (\<lambda>tb. tb_impid tb = i) kept) \<le> bid_limit limits name)"
proof -
  define priced where "priced = priced_bids rates factors name response"
  define kept where "kept = limit_bids ord (bid_limit limits name) (dedup_bids (good_bids imps priced))"
  have lim: "1 \<le> bid_limit limits name" by (simp add: bid_limit_def)
  have "tb \<in> set (good_bids imps priced)" if "tb \<in> set kept" for tb
    using that limit_bids_subset [OF assms] dedup_subset unfolding kept_def by blast
  then have good: "tb \<in> set priced \<and> \<not> below_floor imps tb \<and> keep_bid (map imp_id imps) tb" if "tb \<in> set kept" for tb
    using that unfolding good_bids_def by auto
  have "distinct (map tb_id kept)"
    unfolding kept_def by (rule limit_bids_distinct_ids [OF assms dedup_distinct])
  moreover have "length (filter (\<lambda>tb. tb_impid tb = i) kept) \<le> bid_limit limits name" for i
    unfolding kept_def limit_bids_group [OF assms] length_top_bids using lim by simp
  moreover have "\<forall>tb \<in> set kept. tb \<in> set priced \<and> tb_id tb \<noteq> [] \<and> tb_impid tb \<in> imp_id ` set imps
               \<and> \<not> f_lt (tb_price tb) (Fin False 0)
               \<and> \<not> (f_eq (tb_price tb) (Fin False 0) \<and> bid_dealid (tb_bid tb) = None)
               \<and> bid_crid (tb_bid tb) \<notin> {None, Some []} \<and> \<not> below_floor imps tb"
  proof
    fix tb assume "tb \<in> set kept"
    from good [OF this] show "tb \<in> set priced \<and> tb_id tb \<noteq> [] \<and> tb_impid tb \<in> imp_id ` set imps
               \<and> \<not> f_lt (tb_price tb) (Fin False 0)
               \<and> \<not> (f_eq (tb_price tb) (Fin False 0) \<and> bid_dealid (tb_bid tb) = None)
               \<and> bid_crid (tb_bid tb) \<notin> {None, Some []} \<and> \<not> below_floor imps tb"
      by (simp add: keep_bid_def Let_def split: if_splits option.splits)
  qed
  ultimately show ?thesis
    unfolding process_bids_eq Let_def fst_conv snd_conv priced_def [symmetric] kept_def [symmetric] by simp
qed

text \<open>Sample data: an impression with a floor of 50, and one bid with a creative.\<close>

definition sample_imp :: imp where
  "sample_imp = default_imp\<lparr>imp_id := ''i'', imp_bidfloor := Some (Fin False 50)\<rparr>"

definition sample_bid :: "string \<Rightarrow> rat \<Rightarrow> typed_bid" where
  "sample_bid bid p =
     typed_bid_new (default_bid\<lparr>bid_id := bid, bid_impid := ''i'', bid_price := Fin False p, bid_crid := Some ''c''\<rparr>) BtBanner"

definition sample_response :: "string \<Rightarrow> typed_bid list \<Rightarrow> bidder_response" where
  "sample_response cur bids = \<lparr>br_currency = cur, br_bids = bids, br_fledge_auction_configs = []\<rparr>"

lemma iter_order_id: "iter_order (\<lambda>ks. ks)"
  by (simp add: iter_order_def)

theorem accepted_bids_witness:
  "snd (process_bids None [] [sample_imp] [] (\<lambda>ks. ks) ''a''
      (sample_response ''USD'' [sample_bid ''x'' 60, sample_bid ''y'' 70, sample_bid ''z'' 40])) = [sample_bid ''y'' 70]
   \<and> tb_impid (sample_bid ''y'' 70) \<in> imp_id ` set [sample_imp]"
proof -
  have eq: "snd (process_bids None [] [sample_imp] [] (\<lambda>ks. ks) ''a''
      (sample_response ''USD'' [sample_bid ''x'' 60, sample_bid ''y'' 70, sample_bid ''z'' 40])) = [sample_bid ''y'' 70]"
    by code_simp
  then show ?thesis
    using accepted_bids [OF iter_order_id, of None "[]" "''a''"
        "sample_response ''USD'' [sample_bid ''x'' 60, sample_bid ''y'' 70, sample_bid ''z'' 40]" "[sample_imp]" "[]"]
    unfolding Let_def eq by simp
qed

text \<open>Property C7.  No better bid is lost: every bid that passes floor and validation has a representative
  with its id and at least its price that also passes, and the representative is among the accepted bids
  unless the impression already has as many bids as the limit allows, none of them cheaper.\<close>

theorem best_bids_kept:
  assumes "iter_order ord"
    and "\<forall>tb \<in> set (priced_bids rates factors name response). is_num (tb_price tb)"
    and "tb \<in> set (priced_bids rates factors name response)"
    and "\<not> below_floor imps tb" "keep_bid (map imp_id imps) tb"
  shows "\<exists>d. \<not> below_floor imps d \<and> keep_bid (map imp_id imps) d \<and> tb_id d = tb_id tb \<and> f_le (tb_price tb) (tb_price d)
      \<and> (let kept = snd (process_bids rates factors imps limits ord name response)
         in d \<in> set kept \<or> length (filter (\<lambda>k. tb_impid k = tb_impid d) kept) = bid_limit limits name
              \<and> list_all (\<lambda>k. f_le (tb_price d) (tb_price k)) (filter (\<lambda>k. tb_impid k = tb_impid d) kept))"
proof -
  define good where "good = good_bids imps (priced_bids rates factors name response)"
  define ds where "ds = dedup_bids good"
  define kept where "kept = limit_bids ord (bid_limit limits name) ds"
  have lim: "max 1 (bid_limit limits name) = bid_limit limits name" by (simp add: bid_limit_def)
  have num: "\<forall>d \<in> set good. is_num (tb_price d)" and tb: "tb \<in> set good"
    using assms unfolding good_def good_bids_def by auto
  obtain d where d: "d \<in> set ds" "tb_id d = tb_id tb" "f_le (tb_price tb) (tb_price d)"
    using dedup_covers [OF num tb] unfolding ds_def covers_def by blast
  have sub: "set ds \<subseteq> set good" unfolding ds_def by (rule dedup_subset)
  define grp where "grp = filter (\<lambda>k. tb_impid k = tb_impid d) ds"
  have top: "filter (\<lambda>k. tb_impid k = tb_impid d) kept = top_bids (bid_limit limits name) grp"
    unfolding kept_def grp_def by (rule limit_bids_group [OF assms(1)])
  have "d \<in> set kept \<or> length (top_bids (bid_limit limits name) grp) = bid_limit limits name
      \<and> list_all (\<lambda>k. f_le (tb_price d) (tb_price k)) (top_bids (bid_limit limits name) grp)"
  proof (cases "d \<in> set (top_bids (bid_limit limits name) grp)")
    case True
    then show ?thesis using top by (metis filter_is_subset subsetD)
  next
    case False
    have dg: "d \<in> set grp" using d(1) by (simp add: grp_def)
    have "\<forall>b \<in> set grp. is_num (tb_price b)" using num sub by (auto simp: grp_def)
    then have "list_all (\<lambda>k. f_le (tb_price d) (tb_price k)) (top_bids (bid_limit limits name) grp)"
      using top_bids_top [OF _ dg False] by (simp add: list_all_iff)
    moreover have "\<not> length grp \<le> bid_limit limits name"
      using top_bids_all [of grp "bid_limit limits name"] False dg lim by auto
    ultimately show ?thesis using lim by (simp add: length_top_bids)
  qed
  moreover have "d \<in> set good" using d(1) sub by blast
  ultimately show ?thesis
    unfolding process_bids_eq Let_def snd_conv good_def [symmetric] ds_def [symmetric] kept_def [symmetric]
    using d top by (intro exI [of _ d]) (auto simp: good_def good_bids_def)
qed

theorem best_bids_kept_witness:
  "\<exists>d. tb_id d = ''x'' \<and> f_le (Fin False 60) (tb_price d) \<and> keep_bid [''i''] d"
proof -
  define r where "r = sample_response ''USD'' [sample_bid ''x'' 60, sample_bid ''y'' 70, sample_bid ''z'' 40]"
  have priced: "priced_bids None [] ''a'' r = [sample_bid ''x'' 60, sample_bid ''y'' 70, sample_bid ''z'' 40]"
    unfolding r_def by code_simp
  have num: "\<forall>tb \<in> set (priced_bids None [] ''a'' r). is_num (tb_price tb)"
    unfolding priced by (simp add: sample_bid_def typed_bid_new_def is_num_def)
  have mem: "sample_bid ''x'' 60 \<in> set (priced_bids None [] ''a'' r)" unfolding priced by simp
  have nb: "\<not> below_floor [sample_imp] (sample_bid ''x'' 60)" by code_simp
  have kb: "keep_bid (map imp_id [sample_imp]) (sample_bid ''x'' 60)" by code_simp
  have s: "map imp_id [sample_imp] = [''i'']" "tb_id (sample_bid ''x'' 60) = ''x''"
      "tb_price (sample_bid ''x'' 60) = Fin False 60"
    by (simp_all add: sample_imp_def sample_bid_def typed_bid_new_def)
  show ?thesis
    using best_bids_kept [OF iter_order_id num mem nb kb, of "[]"] unfolding s by blast
qed

text \<open>A bid in a currency for which there is no rate is not rejected: it keeps its amount and
  competes as if it were in USD, here above a floor of 50.\<close>

theorem unconvertible_face_value:
  "process_bids (Some converter_empty) [] [sample_imp] [] (\<lambda>ks. ks) ''a'' (sample_response ''JPY'' [sample_bid ''x'' 100])
     = ([], [sample_bid ''x'' 100])
   \<and> convert converter_empty (Fin False 100) ''JPY'' ''USD'' = None"
  by code_simp

end
