(* ===== verification/ExHooks.thy ===== *)
theory ExHooks
  imports Json
begin

text \<open>
  The hook framework of the exchange, \<^verbatim>\<open>rust/crates/exchange/src/hooks.rs\<close>: stages, results with their change
  sets, the repository, the plan builder and the executor with its module contexts and stage outcomes.  A
  hook is a record with the run of its handler as a function of the invocation context, the payload and
  the timeout: the run finishes with a result, exceeds the timeout, or panics.  The executor's shared
  state is passed explicitly.  Durations are numbers of milliseconds.
\<close>

section \<open>Stages and mutations\<close>

datatype stage =
    EntrypointRaw
  | RawAuctionRequest
  | ProcessedAuctionRequest
  | BidderRequest
  | RawBidderResponse
  | AllProcessedBidResponses
  | AuctionResponse

fun stage_as_str :: "stage \<Rightarrow> string" where
  "stage_as_str EntrypointRaw = ''entrypoint''"
| "stage_as_str RawAuctionRequest = ''raw_auction_request''"
| "stage_as_str ProcessedAuctionRequest = ''processed_auction_request''"
| "stage_as_str BidderRequest = ''bidder_request''"
| "stage_as_str RawBidderResponse = ''raw_bidder_response''"
| "stage_as_str AllProcessedBidResponses = ''all_processed_bid_responses''"
| "stage_as_str AuctionResponse = ''auction_response''"

definition is_rejectable :: "stage \<Rightarrow> bool" where
  "is_rejectable s = (\<not> (s = AllProcessedBidResponses \<or> s = AuctionResponse))"

datatype mutation_action = MutAdd | MutUpdate | MutDelete

fun show_mutation_action :: "mutation_action \<Rightarrow> string" where
  "show_mutation_action MutAdd = ''add''"
| "show_mutation_action MutUpdate = ''update''"
| "show_mutation_action MutDelete = ''delete''"

record mutation =
  mut_action :: mutation_action
  mut_key :: "string list"
  mut_apply :: "json \<Rightarrow> (string, json) res"

type_synonym change_set = "mutation list"
type_synonym module_context = "(string \<times> json) list"

definition add_mutation :: "mutation \<Rightarrow> change_set \<Rightarrow> change_set" where
  "add_mutation mu cs = cs @ [mu]"

record hook_result =
  hr_reject :: bool
  hr_nbr_code :: int
  hr_message :: string
  hr_change_set :: change_set
  hr_errors :: "string list"
  hr_warnings :: "string list"
  hr_debug_messages :: "string list"
  hr_module_context :: module_context

definition hook_result_noop :: hook_result where
  "hook_result_noop =
     \<lparr>hr_reject = False, hr_nbr_code = 0, hr_message = [], hr_change_set = [], hr_errors = [], hr_warnings = [],
      hr_debug_messages = [], hr_module_context = []\<rparr>"

definition hook_result_rejection :: "int \<Rightarrow> string \<Rightarrow> hook_result" where
  "hook_result_rejection nbr_code message =
     hook_result_noop\<lparr>hr_reject := True, hr_nbr_code := nbr_code, hr_message := message\<rparr>"

section \<open>Invocations and outcomes\<close>

record invocation_context =
  inv_account_id :: string
  inv_account_config :: "json option"
  inv_endpoint :: string
  inv_module_context :: module_context
  inv_hook_impl_code :: string

datatype hook_error = HookTimeout | HookFailure string | HookInternal string

fun show_hook_error :: "hook_error \<Rightarrow> string" where
  "show_hook_error HookTimeout = ''hook execution timeout''"
| "show_hook_error (HookFailure m) = ''hook execution failed: '' @ m"
| "show_hook_error (HookInternal m) = ''hook execution error: '' @ m"

record reject_error =
  rej_nbr :: int
  rej_module :: string
  rej_hook_impl_code :: string
  rej_stage :: string

definition show_reject_error :: "reject_error \<Rightarrow> string" where
  "show_reject_error r =
     ''module '' @ rej_module r @ '' (hook: '' @ rej_hook_impl_code r @ '') rejected request with code ''
     @ show_int (rej_nbr r) @ '' at '' @ rej_stage r @ '' stage''"

datatype invocation_status = InvSuccess | InvTimeout | InvFailure | InvExecutionFailure
datatype invocation_action = ActUpdate | ActReject | ActNone

record hook_ident =
  hid_module_code :: string
  hid_hook_impl_code :: string

record hook_outcome =
  ho_hook_id :: hook_ident
  ho_status :: invocation_status
  ho_action :: invocation_action
  ho_message :: string
  ho_errors :: "string list"
  ho_warnings :: "string list"
  ho_debug_messages :: "string list"
  ho_execution_time :: nat

record group_outcome =
  go_invocation_results :: "hook_outcome list"
  go_execution_time :: nat

record stage_outcome =
  so_stage :: string
  so_entity :: string
  so_groups :: "group_outcome list"
  so_execution_time :: nat

datatype hook_run =
    Ran nat "(hook_error, hook_result) res"
  | RanOver nat
  | Panicked

record hook =
  hook_id :: string
  hook_stages :: "stage list"
  hook_handle :: "invocation_context \<Rightarrow> json \<Rightarrow> nat \<Rightarrow> hook_run"

section \<open>Repository and plan\<close>

type_synonym hook_repository = "(stage \<times> (string \<times> hook) list) list"

definition get_hooks :: "hook_repository \<Rightarrow> stage \<Rightarrow> (string \<times> hook) list" where
  "get_hooks repo st = get_or [] repo st"

fun register_stages :: "hook \<Rightarrow> stage list \<Rightarrow> hook_repository \<Rightarrow> hook_repository \<times> (string, unit) res" where
  "register_stages h [] repo = (repo, Inr ())"
| "register_stages h (st # sts) repo =
     (let repo = or_insert st [] repo;
          entry = get_or [] repo st
      in if list_ex (\<lambda>(i, _). i = hook_id h) entry
         then (repo, Inl (''hook '' @ [char_of (34 :: nat)] @ hook_id h @ [char_of (34 :: nat)]
                          @ '' already registered for stage '' @ stage_as_str st))
         else register_stages h sts (hm_insert st (entry @ [(hook_id h, h)]) repo))"

definition register :: "hook \<Rightarrow> hook_repository \<Rightarrow> hook_repository \<times> (string, unit) res" where
  "register h repo =
     (if hook_stages h = []
      then (repo, Inl (''hook '' @ [char_of (34 :: nat)] @ hook_id h @ [char_of (34 :: nat)] @ '' does not declare any stages''))
      else register_stages h (hook_stages h) repo)"

record hook_wrapper =
  hw_module :: string
  hw_code :: string
  hw_hook :: hook

record hook_group =
  hg_timeout :: nat
  hg_hooks :: "hook_wrapper list"

record plan_builder =
  pb_repo :: hook_repository
  pb_enabled :: bool
  pb_default_group_timeout :: nat

definition plan_builder_new :: "hook_repository \<Rightarrow> bool \<Rightarrow> plan_builder" where
  "plan_builder_new repo enabled = \<lparr>pb_repo = repo, pb_enabled = enabled, pb_default_group_timeout = 5000\<rparr>"

definition with_default_group_timeout :: "nat \<Rightarrow> plan_builder \<Rightarrow> plan_builder" where
  "with_default_group_timeout t pb = pb\<lparr>pb_default_group_timeout := t\<rparr>"

definition plan_for_stage :: "plan_builder \<Rightarrow> stage \<Rightarrow> string \<Rightarrow> hook_group list" where
  "plan_for_stage pb st endpoint =
     (if \<not> pb_enabled pb then []
      else let hooks = get_hooks (pb_repo pb) st
           in if hooks = [] then []
              else [\<lparr>hg_timeout = pb_default_group_timeout pb,
                     hg_hooks = map (\<lambda>(i, h). \<lparr>hw_module = i, hw_code = [], hw_hook = h\<rparr>) hooks\<rparr>])"

section \<open>Executor\<close>

type_synonym module_contexts = "(string \<times> module_context) list"

definition contexts_get :: "module_contexts \<Rightarrow> string \<Rightarrow> module_context option" where
  "contexts_get store md = map_of store md"

definition contexts_put :: "string \<Rightarrow> module_context \<Rightarrow> module_contexts \<Rightarrow> module_contexts" where
  "contexts_put md ctx store =
     hm_insert md (fold (\<lambda>(k, v). hm_insert k v) ctx (get_or [] store md)) store"

record hook_executor =
  ex_plan_builder :: plan_builder
  ex_endpoint :: string
  ex_account_id :: string
  ex_module_contexts :: module_contexts
  ex_stage_outcomes :: "stage_outcome list"

definition executor_new :: "plan_builder \<Rightarrow> string \<Rightarrow> hook_executor" where
  "executor_new pb endpoint =
     \<lparr>ex_plan_builder = pb, ex_endpoint = endpoint, ex_account_id = [], ex_module_contexts = [], ex_stage_outcomes = []\<rparr>"

definition set_account_id :: "string \<Rightarrow> hook_executor \<Rightarrow> hook_executor" where
  "set_account_id i ex = ex\<lparr>ex_account_id := i\<rparr>"

text \<open>One spawned task: the identity of the hook, its result and the time it took; \<^const>\<open>None\<close> when it
  panicked.  All tasks of a group are spawned before any result is collected.\<close>

definition spawn_hook :: "hook_executor \<Rightarrow> nat \<Rightarrow> json \<Rightarrow> hook_wrapper \<Rightarrow> (hook_ident \<times> (hook_error, hook_result) res \<times> nat) option" where
  "spawn_hook ex timeout payload hw =
     (let ctx = \<lparr>inv_account_id = ex_account_id ex, inv_account_config = None, inv_endpoint = ex_endpoint ex,
                 inv_module_context = (case contexts_get (ex_module_contexts ex) (hw_module hw) of None \<Rightarrow> [] | Some c \<Rightarrow> c),
                 inv_hook_impl_code = hw_code hw\<rparr>;
          ident = \<lparr>hid_module_code = hw_module hw, hid_hook_impl_code = hw_code hw\<rparr>
      in case hook_handle (hw_hook hw) ctx payload timeout of
           Ran elapsed r \<Rightarrow> Some (ident, r, elapsed)
         | RanOver elapsed \<Rightarrow> Some (ident, Inl HookTimeout, elapsed)
         | Panicked \<Rightarrow> None)"

text \<open>Applying a change set: the payload, the number of successes, the warnings and the debug messages.\<close>

fun apply_mutations :: "mutation list \<Rightarrow> json \<Rightarrow> nat \<Rightarrow> string list \<Rightarrow> string list \<Rightarrow> json \<times> nat \<times> string list \<times> string list" where
  "apply_mutations [] payload n warnings debug = (payload, n, warnings, debug)"
| "apply_mutations (mu # mus) payload n warnings debug =
     (case mut_apply mu payload of
        Inr p \<Rightarrow> apply_mutations mus p (n + 1) warnings
                   (debug @ [''mutation applied: key='' @ join_with (CHR ''.'') (mut_key mu)
                             @ '', type='' @ show_mutation_action (mut_action mu)])
      | Inl e \<Rightarrow> apply_mutations mus payload n (warnings @ [''failed to apply hook mutation: '' @ e]) debug)"

definition outcome_of :: "hook_ident \<Rightarrow> invocation_status \<Rightarrow> invocation_action \<Rightarrow> hook_result \<Rightarrow> nat \<Rightarrow> hook_outcome" where
  "outcome_of ident status action r elapsed =
     \<lparr>ho_hook_id = ident, ho_status = status, ho_action = action, ho_message = hr_message r, ho_errors = hr_errors r,
      ho_warnings = hr_warnings r, ho_debug_messages = hr_debug_messages r, ho_execution_time = elapsed\<rparr>"

definition reject_of :: "stage \<Rightarrow> hook_ident \<Rightarrow> hook_result \<Rightarrow> reject_error" where
  "reject_of st ident r =
     \<lparr>rej_nbr = hr_nbr_code r, rej_module = hid_module_code ident, rej_hook_impl_code = hid_hook_impl_code ident,
      rej_stage = stage_as_str st\<rparr>"

text \<open>Handling one result: the module contexts, the payload, the outcome and the rejection, if any.\<close>

definition handle_result ::
  "stage \<Rightarrow> hook_ident \<Rightarrow> (hook_error, hook_result) res \<Rightarrow> nat \<Rightarrow> module_contexts \<Rightarrow> json
   \<Rightarrow> module_contexts \<times> json \<times> hook_outcome \<times> reject_error option" where
  "handle_result st ident result elapsed ctxs payload =
     (case result of
        Inr r \<Rightarrow>
          (let ctxs = (if hr_module_context r \<noteq> [] then contexts_put (hid_module_code ident) (hr_module_context r) ctxs else ctxs)
           in if hr_reject r
              then if is_rejectable st
                   then (ctxs, payload, outcome_of ident InvSuccess ActReject r elapsed, Some (reject_of st ident r))
                   else (ctxs, payload,
                         (outcome_of ident InvExecutionFailure ActNone r elapsed)\<lparr>ho_errors := hr_errors r
                            @ [''module '' @ hid_module_code ident @ '' tried to reject at non-rejectable stage '' @ stage_as_str st]\<rparr>,
                         None)
              else if hr_change_set r \<noteq> []
              then (case apply_mutations (hr_change_set r) payload 0 (hr_warnings r) (hr_debug_messages r) of
                      (payload', successful, warnings, debug) \<Rightarrow>
                        (ctxs, payload',
                         (outcome_of ident (if successful > 0 then InvSuccess else InvExecutionFailure) ActUpdate r elapsed)
                           \<lparr>ho_warnings := warnings, ho_debug_messages := debug\<rparr>,
                         None))
              else (ctxs, payload, outcome_of ident InvSuccess ActNone r elapsed, None))
      | Inl e \<Rightarrow>
          (ctxs, payload,
           \<lparr>ho_hook_id = ident,
            ho_status = (case e of HookTimeout \<Rightarrow> InvTimeout | HookFailure _ \<Rightarrow> InvFailure | HookInternal _ \<Rightarrow> InvExecutionFailure),
            ho_action = ActNone, ho_message = [], ho_errors = [show_hook_error e], ho_warnings = [], ho_debug_messages = [],
            ho_execution_time = elapsed\<rparr>,
           None))"

fun collect_hooks ::
  "stage \<Rightarrow> (hook_ident \<times> (hook_error, hook_result) res \<times> nat) option list \<Rightarrow> module_contexts \<Rightarrow> json \<Rightarrow> group_outcome
   \<Rightarrow> module_contexts \<times> json \<times> group_outcome \<times> reject_error option" where
  "collect_hooks st [] ctxs payload go = (ctxs, payload, go, None)"
| "collect_hooks st (None # hs) ctxs payload go = collect_hooks st hs ctxs payload go"
| "collect_hooks st (Some (ident, result, elapsed) # hs) ctxs payload go =
     (let go = (if go_execution_time go < elapsed then go\<lparr>go_execution_time := elapsed\<rparr> else go)
      in case handle_result st ident result elapsed ctxs payload of
           (ctxs, payload, outcome, rej) \<Rightarrow>
             (let go = go\<lparr>go_invocation_results := go_invocation_results go @ [outcome]\<rparr>
              in if rej \<noteq> None then (ctxs, payload, go, rej)
                 else collect_hooks st hs ctxs payload go))"

definition execute_group ::
  "stage \<Rightarrow> hook_group \<Rightarrow> json \<Rightarrow> hook_executor \<Rightarrow> hook_executor \<times> group_outcome \<times> json \<times> reject_error option" where
  "execute_group st grp payload ex =
     (case collect_hooks st (map (spawn_hook ex (hg_timeout grp) payload) (hg_hooks grp)) (ex_module_contexts ex) payload
             \<lparr>go_invocation_results = [], go_execution_time = 0\<rparr> of
        (ctxs, payload', go, rej) \<Rightarrow> (ex\<lparr>ex_module_contexts := ctxs\<rparr>, go, payload', rej))"

definition push_outcome :: "stage_outcome \<Rightarrow> hook_executor \<Rightarrow> hook_executor" where
  "push_outcome so ex = ex\<lparr>ex_stage_outcomes := ex_stage_outcomes ex @ [so]\<rparr>"

fun execute_groups :: "stage \<Rightarrow> hook_group list \<Rightarrow> json \<Rightarrow> stage_outcome \<Rightarrow> hook_executor \<Rightarrow> hook_executor \<times> (reject_error, json) res" where
  "execute_groups st [] payload so ex = (push_outcome so ex, Inr payload)"
| "execute_groups st (g # gs) payload so ex =
     (case execute_group st g payload ex of
        (ex, go, payload', rej) \<Rightarrow>
          (let so = so\<lparr>so_execution_time := so_execution_time so + go_execution_time go, so_groups := so_groups so @ [go]\<rparr>
           in case rej of
                Some r \<Rightarrow> (push_outcome so ex, Inl r)
              | None \<Rightarrow> execute_groups st gs payload' so ex))"

definition execute_stage :: "stage \<Rightarrow> json \<Rightarrow> hook_executor \<Rightarrow> hook_executor \<times> (reject_error, json) res" where
  "execute_stage st payload ex =
     (let plan = plan_for_stage (ex_plan_builder ex) st (ex_endpoint ex)
      in if plan = [] then (ex, Inr payload)
         else execute_groups st plan payload
                \<lparr>so_stage = stage_as_str st, so_entity = [], so_groups = [], so_execution_time = 0\<rparr> ex)"

section \<open>Lemmas: registration\<close>

text \<open>The repository holds every hook id at most once per stage.\<close>

definition repo_ok :: "hook_repository \<Rightarrow> bool" where
  "repo_ok repo \<longleftrightarrow> (\<forall>st. distinct (map fst (get_hooks repo st)))"

lemma get_or_or_insert [simp]: "get_or d (or_insert k d m) k' = get_or d m k'"
  by (simp add: get_or_def map_of_or_insert)

lemma get_hooks_update: "get_hooks (hm_insert st es repo) st' = (if st' = st then es else get_hooks repo st')"
  by (simp add: get_hooks_def get_or_def hm.get_insert)

lemma get_hooks_or_insert [simp]: "get_hooks (or_insert st [] repo) st' = get_hooks repo st'"
  by (simp add: get_hooks_def)

lemma register_stages_step:
  "register_stages h (st # sts) repo =
     (if hook_id h \<in> fst ` set (get_hooks repo st)
      then (or_insert st [] repo, snd (register_stages h (st # sts) repo))
      else register_stages h sts (hm_insert st (get_hooks repo st @ [(hook_id h, h)]) (or_insert st [] repo)))"
  by (auto simp: Let_def list_ex_iff get_hooks_def image_iff)

lemma register_stages_fails: "hook_id h \<in> fst ` set (get_hooks repo st) \<Longrightarrow> \<not> is_ok (snd (register_stages h (st # sts) repo))"
  by (auto simp: Let_def list_ex_iff get_hooks_def image_iff)

lemma register_stages_ok:
  "is_ok (snd (register_stages h sts repo)) \<longleftrightarrow>
     distinct sts \<and> (\<forall>st \<in> set sts. hook_id h \<notin> fst ` set (get_hooks repo st))"
proof (induction sts arbitrary: repo)
  case (Cons st sts)
  show ?case
  proof (cases "hook_id h \<in> fst ` set (get_hooks repo st)")
    case True
    then show ?thesis using register_stages_fails by auto
  next
    case False
    then show ?thesis
      by (subst register_stages_step) (auto simp: Cons.IH get_hooks_update)
  qed
qed simp

text \<open>Registration goes through a prefix of the declared stages, all of them exactly when it succeeds.\<close>

lemma register_stages_prefix:
  "\<exists>n \<le> length sts. (is_ok (snd (register_stages h sts repo)) \<longleftrightarrow> n = length sts) \<and> distinct (take n sts)
     \<and> (\<forall>st \<in> set (take n sts). hook_id h \<notin> fst ` set (get_hooks repo st))
     \<and> (\<forall>st. get_hooks (fst (register_stages h sts repo)) st =
          get_hooks repo st @ (if st \<in> set (take n sts) then [(hook_id h, h)] else []))"
proof (induction sts arbitrary: repo)
  case (Cons st sts)
  show ?case
  proof (cases "hook_id h \<in> fst ` set (get_hooks repo st)")
    case True
    then have "fst (register_stages h (st # sts) repo) = or_insert st [] repo"
      by (subst register_stages_step) simp
    then show ?thesis
      using register_stages_fails [OF True] by (intro exI [of _ 0]) simp
  next
    case False
    let ?r = "hm_insert st (get_hooks repo st @ [(hook_id h, h)]) (or_insert st [] repo)"
    have step: "register_stages h (st # sts) repo = register_stages h sts ?r"
      using False by (subst register_stages_step) simp
    obtain n where n: "n \<le> length sts" "is_ok (snd (register_stages h sts ?r)) \<longleftrightarrow> n = length sts" "distinct (take n sts)"
        "\<forall>s \<in> set (take n sts). hook_id h \<notin> fst ` set (get_hooks ?r s)"
        "\<forall>s. get_hooks (fst (register_stages h sts ?r)) s =
           get_hooks ?r s @ (if s \<in> set (take n sts) then [(hook_id h, h)] else [])"
      using Cons.IH [of ?r] by blast
    have "st \<notin> set (take n sts)"
      using n(4) by (auto simp: get_hooks_update)
    then show ?thesis
      using n False unfolding step by (intro exI [of _ "Suc n"]) (auto simp: get_hooks_update split: if_splits)
  qed
qed simp

section \<open>Lemmas: execution\<close>

definition mutate :: "mutation \<Rightarrow> json \<Rightarrow> json" where
  "mutate mu p = (case mut_apply mu p of Inr q \<Rightarrow> q | Inl _ \<Rightarrow> p)"

text \<open>A completed run that asks for rejection, and the effect of a run on the payload.\<close>

definition run_rejects :: "hook_ident \<times> (hook_error, hook_result) res \<times> nat \<Rightarrow> bool" where
  "run_rejects run = (case run of (_, Inr r, _) \<Rightarrow> hr_reject r | _ \<Rightarrow> False)"

definition run_mutates :: "hook_ident \<times> (hook_error, hook_result) res \<times> nat \<Rightarrow> json \<Rightarrow> json" where
  "run_mutates run p = (case run of (_, Inr r, _) \<Rightarrow> if hr_reject r then p else fold mutate (hr_change_set r) p | _ \<Rightarrow> p)"

definition rejection :: "stage \<Rightarrow> (hook_ident \<times> (hook_error, hook_result) res \<times> nat) list \<Rightarrow> reject_error option" where
  "rejection st runs =
     (if is_rejectable st
      then (case List.find run_rejects runs of Some (ident, Inr r, _) \<Rightarrow> Some (reject_of st ident r) | _ \<Rightarrow> None)
      else None)"

lemma apply_mutations_payload: "fst (apply_mutations mus p n ws ds) = fold mutate mus p"
  by (induction mus p n ws ds rule: apply_mutations.induct) (auto simp: mutate_def split: sum.splits)

lemma handle_result_eq:
  "fst (snd (handle_result st ident result el ctxs p)) = run_mutates (ident, result, el) p
   \<and> snd (snd (snd (handle_result st ident result el ctxs p))) = rejection st [(ident, result, el)]"
proof (cases result)
  case (Inr r)
  obtain p' k ws ds where ap: "apply_mutations (hr_change_set r) p 0 (hr_warnings r) (hr_debug_messages r) = (p', k, ws, ds)"
    by (cases "apply_mutations (hr_change_set r) p 0 (hr_warnings r) (hr_debug_messages r)") auto
  then have "p' = fold mutate (hr_change_set r) p"
    using apply_mutations_payload [of "hr_change_set r" p 0 "hr_warnings r" "hr_debug_messages r"] by simp
  then show ?thesis
    using Inr ap by (simp add: handle_result_def run_mutates_def rejection_def run_rejects_def Let_def)
qed (simp add: handle_result_def run_mutates_def rejection_def run_rejects_def)

lemma collect_hooks_eq:
  "(let runs = List.map_filter id hs; out = collect_hooks st hs ctxs p go
    in snd (snd (snd out)) = rejection st runs
     \<and> (rejection st runs = None \<longrightarrow> fst (snd out) = fold run_mutates runs p))"
proof (induction hs arbitrary: ctxs p go)
  case (Cons h hs)
  show ?case
  proof (cases h)
    case None
    then show ?thesis using Cons by (simp add: map_filter_simps)
  next
    case (Some run)
    obtain ident result el where run: "run = (ident, result, el)" by (cases run)
    obtain c' p' o' rj where h: "handle_result st ident result el ctxs p = (c', p', o', rj)"
      by (cases "handle_result st ident result el ctxs p") auto
    have p': "p' = run_mutates run p" and rj: "rj = rejection st [run]"
      using handle_result_eq [of st ident result el ctxs p] by (simp_all add: h run)
    have rest: "rejection st (run # runs) = (if rj = None then rejection st runs else rj)" for runs
      unfolding rj rejection_def by (auto simp: run run_rejects_def split: sum.splits)
    show ?thesis
      using Cons.IH [of c' p'] h p' rest Some run by (auto simp: Let_def map_filter_simps)
  qed
qed (simp add: Let_def map_filter_simps rejection_def)

text \<open>The results of the hooks of a stage, in registration order and without the panicking ones.\<close>

definition stage_runs :: "hook_executor \<Rightarrow> stage \<Rightarrow> json \<Rightarrow> (hook_ident \<times> (hook_error, hook_result) res \<times> nat) list" where
  "stage_runs ex st payload =
     (if pb_enabled (ex_plan_builder ex)
      then List.map_filter (\<lambda>(i, h). spawn_hook ex (pb_default_group_timeout (ex_plan_builder ex)) payload
                                      \<lparr>hw_module = i, hw_code = [], hw_hook = h\<rparr>)
             (get_hooks (pb_repo (ex_plan_builder ex)) st)
      else [])"

lemma execute_stage_result:
  "snd (execute_stage st payload ex) =
     (case rejection st (stage_runs ex st payload) of
        Some r \<Rightarrow> Inl r
      | None \<Rightarrow> Inr (fold run_mutates (stage_runs ex st payload) payload))"
proof (cases "pb_enabled (ex_plan_builder ex) \<and> get_hooks (pb_repo (ex_plan_builder ex)) st \<noteq> []")
  case False
  then show ?thesis
    by (auto simp: execute_stage_def plan_for_stage_def stage_runs_def rejection_def Let_def map_filter_simps)
next
  case True
  define hs where "hs = map (spawn_hook ex (pb_default_group_timeout (ex_plan_builder ex)) payload)
      (map (\<lambda>(i, h). \<lparr>hw_module = i, hw_code = [], hw_hook = h\<rparr>) (get_hooks (pb_repo (ex_plan_builder ex)) st))"
  have runs: "stage_runs ex st payload = List.map_filter id hs"
    using True by (simp add: stage_runs_def hs_def List.map_filter_def filter_map comp_def case_prod_unfold)
  obtain c p go rj where col: "collect_hooks st hs (ex_module_contexts ex) payload
      \<lparr>go_invocation_results = [], go_execution_time = 0\<rparr> = (c, p, go, rj)"
    by (cases "collect_hooks st hs (ex_module_contexts ex) payload \<lparr>go_invocation_results = [], go_execution_time = 0\<rparr>") auto
  have "rj = rejection st (List.map_filter id hs)"
      "rejection st (List.map_filter id hs) = None \<longrightarrow> p = fold run_mutates (List.map_filter id hs) payload"
    using collect_hooks_eq [of hs st "ex_module_contexts ex" payload "\<lparr>go_invocation_results = [], go_execution_time = 0\<rparr>"]
    by (simp_all add: Let_def col)
  then show ?thesis
    using True col unfolding runs
    by (auto simp: execute_stage_def plan_for_stage_def execute_group_def hs_def Let_def split: option.splits)
qed

lemma execute_groups_plan: "ex_plan_builder (fst (execute_groups st gs p so ex)) = ex_plan_builder ex"
  by (induction gs arbitrary: p so ex)
    (auto simp: push_outcome_def execute_group_def Let_def split: prod.splits option.splits)

lemma execute_stage_plan: "ex_plan_builder (fst (execute_stage st p ex)) = ex_plan_builder ex"
  by (simp add: execute_stage_def Let_def execute_groups_plan)

section \<open>Properties\<close>

text \<open>Executing a stage: every registered hook runs on the original payload; the first one in
  registration order that rejects decides, with its own code, provided the stage allows rejection; otherwise
  the payload is the original one with the change sets of all hooks applied in registration order, failed
  mutations, failed hooks, hooks over time and panicking hooks being skipped.\<close>

theorem execute_stage_spec:
  "snd (execute_stage st payload ex) =
     (case rejection st (stage_runs ex st payload) of
        Some r \<Rightarrow> Inl r
      | None \<Rightarrow> Inr (fold run_mutates (stage_runs ex st payload) payload))"
  by (rule execute_stage_result)

text \<open>Registering a hook keeps every id unique per stage.  It succeeds exactly when the hook
  declares stages, none twice and none where its id is taken, and then appends the hook to each of
  them; when it fails, the hook stays registered for the stages before the one that failed.\<close>

theorem register_spec:
  assumes "repo_ok repo"
  shows "repo_ok (fst (register h repo))
    \<and> (is_ok (snd (register h repo)) \<longleftrightarrow> hook_stages h \<noteq> [] \<and> distinct (hook_stages h)
         \<and> (\<forall>st \<in> set (hook_stages h). hook_id h \<notin> fst ` set (get_hooks repo st)))
    \<and> (\<exists>n. (is_ok (snd (register h repo)) \<longleftrightarrow> hook_stages h \<noteq> [] \<and> n = length (hook_stages h)) \<and>
         (\<forall>st. get_hooks (fst (register h repo)) st =
            get_hooks repo st @ (if st \<in> set (take n (hook_stages h)) then [(hook_id h, h)] else [])))"
proof (cases "hook_stages h = []")
  case True
  then show ?thesis using assms by (simp add: register_def)
next
  case False
  then have reg: "register h repo = register_stages h (hook_stages h) repo" by (simp add: register_def)
  obtain n where n: "is_ok (snd (register h repo)) \<longleftrightarrow> n = length (hook_stages h)"
      "\<forall>st \<in> set (take n (hook_stages h)). hook_id h \<notin> fst ` set (get_hooks repo st)"
      "\<forall>st. get_hooks (fst (register h repo)) st =
          get_hooks repo st @ (if st \<in> set (take n (hook_stages h)) then [(hook_id h, h)] else [])"
    using register_stages_prefix [of "hook_stages h" h repo] unfolding reg by blast
  have "repo_ok (fst (register h repo))"
    using assms n(2,3) by (auto simp: repo_ok_def)
  then show ?thesis
    using n False register_stages_ok [of h "hook_stages h" repo] unfolding reg by blast
qed

definition sample_hook :: hook where
  "sample_hook =
     \<lparr>hook_id = ''m'', hook_stages = [EntrypointRaw, BidderRequest, EntrypointRaw],
      hook_handle = \<lambda>_ _ _. Ran 1 (Inr hook_result_noop)\<rparr>"

theorem register_spec_witness:
  "repo_ok (fst (register sample_hook [])) \<and> \<not> is_ok (snd (register sample_hook []))
   \<and> map fst (get_hooks (fst (register sample_hook [])) BidderRequest) = [''m'']"
proof -
  have ok: "repo_ok []" by (simp add: repo_ok_def get_hooks_def get_or_def)
  have "map fst (get_hooks (fst (register sample_hook [])) BidderRequest) = [''m'']" by code_simp
  then show ?thesis using register_spec [OF ok, of sample_hook] by (simp add: sample_hook_def)
qed

end
