(* ===== verification/Fanout.thy ===== *)
theory Fanout
  imports ExPrivacy Bids ExHooks "HOL-Library.Sublist"
begin

text \<open>
  What a bidder is sent, \<^verbatim>\<open>rust/crates/exchange/src/lib.rs\<close>: the impressions split per bidder, first-party data,
  the supply chain node of the host, stored bid responses, timeouts, and the loop that checks privacy and
  spawns one task per bidder.  The serde decoders and encoders are fields of a record argument; the orders in
  which hash maps are iterated are arguments.
\<close>

section \<open>Impressions per bidder\<close>

definition non_bidder_keys :: "string list" where
  "non_bidder_keys = [''prebid'', ''data'', ''gpid'', ''tid'', ''skadn'', ''context'']"

fun legacy_params :: "string list \<Rightarrow> (string \<times> json) list \<Rightarrow> (string \<times> json) list \<Rightarrow> (string \<times> json) list" where
  "legacy_params known [] acc = acc"
| "legacy_params known ((key, val) # m) acc =
     legacy_params known m
       (if key \<in> set non_bidder_keys then acc
        else if key \<in> set known then if key \<in> set (map fst acc) then acc else acc @ [(key, val)]
        else acc)"

definition imp_bidder_params :: "string list \<Rightarrow> json \<Rightarrow> (string \<times> json) list" where
  "imp_bidder_params known ext =
     legacy_params known (case as_object ext of None \<Rightarrow> [] | Some m \<Rightarrow> m)
       (case Option.bind (jpath (Some ext) [''prebid'', ''bidder'']) as_object of None \<Rightarrow> [] | Some m \<Rightarrow> m)"

fun copy_keys :: "string list \<Rightarrow> (string \<times> json) list \<Rightarrow> (string \<times> json) list \<Rightarrow> (string \<times> json) list" where
  "copy_keys known [] acc = acc"
| "copy_keys known ((key, val) # m) acc =
     copy_keys known m
       (if key = ''prebid'' then acc else if key \<in> set known then acc else bt_insert key val acc)"

definition sanitized_prebid :: "json \<Rightarrow> (string \<times> json) list" where
  "sanitized_prebid prebid =
     fold (\<lambda>k acc. case jget prebid k of Some v \<Rightarrow> bt_insert k v acc | None \<Rightarrow> acc)
       [''is_rewarded_inventory'', ''options''] []"

definition sanitized_ext :: "string list \<Rightarrow> json \<Rightarrow> json \<Rightarrow> json" where
  "sanitized_ext known ext params =
     (let e = copy_keys known (case as_object ext of None \<Rightarrow> [] | Some m \<Rightarrow> m) [];
          e = (case jget ext ''prebid'' of
                 Some prebid \<Rightarrow>
                   if sanitized_prebid prebid \<noteq> [] then bt_insert ''prebid'' (JObj (sanitized_prebid prebid)) e else e
               | None \<Rightarrow> e)
      in JObj (bt_insert ''bidder'' params e))"

definition push_imp :: "string \<Rightarrow> imp \<Rightarrow> (string \<times> imp list) list \<Rightarrow> (string \<times> imp list) list" where
  "push_imp bidder_name i acc = hm_insert bidder_name (get_or [] acc bidder_name @ [i]) acc"

definition split_imp :: "string list \<Rightarrow> imp \<Rightarrow> (string \<times> imp list) list \<Rightarrow> (string \<times> imp list) list" where
  "split_imp known i acc =
     (case imp_jext i of
        None \<Rightarrow> acc
      | Some ext \<Rightarrow>
          fold (\<lambda>(bidder_name, params). push_imp bidder_name (i\<lparr>imp_jext := Some (sanitized_ext known ext params)\<rparr>))
            (imp_bidder_params known ext) acc)"

definition split_imps_for_bidders :: "imp list \<Rightarrow> string list \<Rightarrow> (string \<times> imp list) list" where
  "split_imps_for_bidders imps known = fold (split_imp known) imps []"

section \<open>First-party data\<close>

record serde =
  de_site :: "json \<Rightarrow> site option"
  de_user :: "json \<Rightarrow> user option"
  de_app :: "json \<Rightarrow> app option"
  de_geo :: "json \<Rightarrow> geo option"
  en_geo :: "geo \<Rightarrow> json option"
  de_bid :: "json \<Rightarrow> bid option"
  en_bid :: "bid \<Rightarrow> json option"
  de_bid_response :: "json \<Rightarrow> (string, bid_response) res"
  en_bid_response :: "bid_response \<Rightarrow> json option"
  en_bid_request :: "bid_request \<Rightarrow> json option"
  de_string_map :: "json \<Rightarrow> (string \<times> string) list option"
  de_multi_bids :: "json \<Rightarrow> multi_bid list option"
  de_factors :: "json \<Rightarrow> (string \<times> f64) list option"

definition merge_opt_arrays :: "string list option \<Rightarrow> string list option \<Rightarrow> string list option" where
  "merge_opt_arrays base overlay =
     (case (base, overlay) of
        (Some b, Some ov) \<Rightarrow> Some (merge_string_arrays b ov)
      | (None, Some ov) \<Rightarrow> Some ov
      | (b, None) \<Rightarrow> b)"

definition merge_ext :: "json option \<Rightarrow> json option \<Rightarrow> json option" where
  "merge_ext existing new_ext =
     (case new_ext of
        None \<Rightarrow> existing
      | Some n \<Rightarrow> (case existing of Some e \<Rightarrow> Some (deep_merge_json e n) | None \<Rightarrow> Some n))"

definition or_opt :: "'a option \<Rightarrow> 'a option \<Rightarrow> 'a option" where
  "or_opt a b = (if a \<noteq> None then a else b)"

definition merge_site :: "site \<Rightarrow> site \<Rightarrow> site" where
  "merge_site ov s =
     s\<lparr>site_page := or_opt (site_page ov) (site_page s),
       site_domain := or_opt (site_domain ov) (site_domain s),
       site_publisher := or_opt (site_publisher ov) (site_publisher s),
       site_ref := or_opt (site_ref s) (site_ref ov),
       site_search := or_opt (site_search s) (site_search ov),
       site_cat := merge_opt_arrays (site_cat s) (site_cat ov),
       site_sectioncat := merge_opt_arrays (site_sectioncat s) (site_sectioncat ov),
       site_pagecat := merge_opt_arrays (site_pagecat s) (site_pagecat ov),
       site_jext := merge_ext (site_jext s) (site_jext ov)\<rparr>"

definition merge_geo :: "serde \<Rightarrow> geo option \<Rightarrow> geo option \<Rightarrow> geo option" where
  "merge_geo sd base overlay =
     (case (base, overlay) of
        (Some bg, Some og) \<Rightarrow>
          (case (en_geo sd bg, en_geo sd og) of
             (Some bv, Some ov) \<Rightarrow>
               (case de_geo sd (deep_merge_json bv ov) of Some merged \<Rightarrow> Some merged | None \<Rightarrow> Some bg)
           | _ \<Rightarrow> Some bg)
      | (None, Some og) \<Rightarrow> Some og
      | (b, None) \<Rightarrow> b)"

definition merge_user :: "serde \<Rightarrow> user \<Rightarrow> user \<Rightarrow> user" where
  "merge_user sd ov u =
     u\<lparr>user_buyeruid := or_opt (user_buyeruid ov) (user_buyeruid u),
       user_geo := merge_geo sd (user_geo u) (user_geo ov),
       user_data := user_data u @ user_data ov,
       user_jext := merge_ext (user_jext u) (user_jext ov)\<rparr>"

definition merge_app :: "app \<Rightarrow> app \<Rightarrow> app" where
  "merge_app ov a =
     a\<lparr>app_bundle := or_opt (app_bundle a) (app_bundle ov),
       app_domain := or_opt (app_domain a) (app_domain ov),
       app_cat := merge_opt_arrays (app_cat a) (app_cat ov),
       app_jext := merge_ext (app_jext a) (app_jext ov)\<rparr>"

definition apply_fpd_for_bidder :: "serde \<Rightarrow> bid_request \<Rightarrow> string \<Rightarrow> bid_request" where
  "apply_fpd_for_bidder sd req bidder_name =
     (case jpath (req_jext req) [''prebid'', ''data'', ''bidderspecific'', bidder_name] of
        None \<Rightarrow> req
      | Some fpd \<Rightarrow>
          (let req = (case Option.bind (jget fpd ''site'') (de_site sd) of
                        Some ov \<Rightarrow> req\<lparr>req_site := map_option (merge_site ov) (req_site req)\<rparr> | None \<Rightarrow> req);
               req = (case Option.bind (jget fpd ''user'') (de_user sd) of
                        Some ov \<Rightarrow> req\<lparr>req_user := map_option (merge_user sd ov) (req_user req)\<rparr> | None \<Rightarrow> req);
               req = (case Option.bind (jget fpd ''app'') (de_app sd) of
                        Some ov \<Rightarrow> req\<lparr>req_app := map_option (merge_app ov) (req_app req)\<rparr> | None \<Rightarrow> req)
           in req))"

section \<open>Supply chain, timeouts, stored bid responses\<close>

definition default_source :: rtb_source where
  "default_source = \<lparr>source_fd = None, source_tid = None, source_pchain = None, source_schain = None, source_jext = None\<rparr>"

definition prepend_schain :: "supply_chain_node \<Rightarrow> bid_request \<Rightarrow> bid_request" where
  "prepend_schain host_node req =
     (let src = (case req_source req of None \<Rightarrow> default_source | Some s \<Rightarrow> s);
          schain = (case source_schain src of
                      Some sc \<Rightarrow> sc\<lparr>schain_nodes := host_node # schain_nodes sc\<rparr>
                    | None \<Rightarrow> \<lparr>schain_complete = 0, schain_nodes = [host_node], schain_ver = ''1.0'', schain_jext = None\<rparr>)
      in req\<lparr>req_source := Some (src\<lparr>source_schain := Some schain\<rparr>)\<rparr>)"

text \<open>A signed 64-bit subtraction wraps in a release build.\<close>

definition i64_wrap :: "int \<Rightarrow> int" where
  "i64_wrap x = (x - i64_min) mod 2 ^ 64 + i64_min"

definition response_time_ms_overhead :: "bid_request \<Rightarrow> int" where
  "response_time_ms_overhead req =
     (case Option.bind (jpath (req_jext req) [''prebid'', ''server'', ''response_time_ms'']) as_i64 of
        None \<Rightarrow> 0 | Some i \<Rightarrow> i)"

definition bidder_timeout_ms :: "bid_request \<Rightarrow> nat" where
  "bidder_timeout_ms req =
     (case req_tmax req of
        Some t \<Rightarrow> if t > 0 then nat (max (i64_wrap (t - response_time_ms_overhead req)) 1) else 1000
      | None \<Rightarrow> 1000)"

definition str_or_empty :: "json option \<Rightarrow> string" where
  "str_or_empty j = (case Option.bind j as_str of None \<Rightarrow> [] | Some s \<Rightarrow> s)"

definition stored_entry ::
  "(string \<Rightarrow> json option) option \<Rightarrow> string \<Rightarrow> json \<Rightarrow> (string \<times> (string \<times> json) list) list \<Rightarrow> (string \<times> (string \<times> json) list) list" where
  "stored_entry fetcher imp_ident entry acc =
     (let bidder = str_or_empty (jget entry ''bidder''); resp_id = str_or_empty (jget entry ''id'')
      in if bidder \<noteq> [] \<and> resp_id \<noteq> []
         then case Option.bind fetcher (\<lambda>f. f resp_id) of
                Some stored_json \<Rightarrow> hm_insert bidder (hm_insert imp_ident stored_json (get_or [] acc bidder)) acc
              | None \<Rightarrow> acc
         else acc)"

definition stored_bid_responses ::
  "(string \<Rightarrow> json option) option \<Rightarrow> imp list \<Rightarrow> (string \<times> (string \<times> json) list) list" where
  "stored_bid_responses fetcher imps =
     fold (\<lambda>i acc. case Option.bind (jpath (imp_jext i) [''prebid'', ''storedbidresponse'']) as_array of
                      None \<Rightarrow> acc
                    | Some entries \<Rightarrow> fold (stored_entry fetcher (imp_id i)) entries acc) imps []"

definition stored_bids_of :: "serde \<Rightarrow> string \<Rightarrow> json \<Rightarrow> typed_bid list" where
  "stored_bids_of sd imp_ident stored_json =
     (case as_array stored_json of
        None \<Rightarrow> []
      | Some seat_bids \<Rightarrow>
          concat (map (\<lambda>sb. case Option.bind (jget sb ''bid'') as_array of
                              None \<Rightarrow> []
                            | Some bids \<Rightarrow>
                                List.map_filter (\<lambda>bv. map_option
                                  (\<lambda>b. let b = b\<lparr>bid_impid := imp_ident\<rparr>
                                       in typed_bid_new b (from_mtype (case bid_mtype b of None \<Rightarrow> 0 | Some t \<Rightarrow> t)))
                                  (de_bid sd bv)) bids) seat_bids))"

definition stored_typed_bids :: "serde \<Rightarrow> (string list \<Rightarrow> string list) \<Rightarrow> (string \<times> json) list \<Rightarrow> typed_bid list" where
  "stored_typed_bids sd ord imp_responses =
     concat (map (\<lambda>(imp_ident, j). stored_bids_of sd imp_ident j) (hm_iter ord imp_responses))"

section \<open>The fan-out\<close>

text \<open>The tasks the loop spawns: a stored answer, or a call of an adapter with its request and timeout.\<close>

datatype task =
    StoredTask string "typed_bid list"
  | BidderTask string adapted_bidder bid_request nat

fun task_bidder :: "task \<Rightarrow> string" where
  "task_bidder (StoredTask b _) = b"
| "task_bidder (BidderTask b _ _ _) = b"

fun block_code :: "privacy_result \<Rightarrow> int" where
  "block_code BlockGdpr = 50"
| "block_code BlockCcpa = 51"
| "block_code BlockCoppa = 52"
| "block_code BlockLmt = 53"
| "block_code Allow = 0"

record fan_config =
  fc_request :: bid_request
  fc_privacy :: auction_privacy_config
  fc_stored :: "(string \<times> (string \<times> json) list) list"
  fc_stored_order :: "string \<Rightarrow> string list \<Rightarrow> string list"
  fc_aliases :: "(string \<times> string) list"
  fc_adapters :: "(string \<times> adapted_bidder) list"
  fc_timeout_ms :: nat
  fc_base :: bid_request
  fc_bidder_imps :: "(string \<times> imp list) list"

definition bidder_request_for :: "serde \<Rightarrow> fan_config \<Rightarrow> string \<Rightarrow> bid_request" where
  "bidder_request_for sd fc bidder_name =
     (let req = fc_base fc;
          req = (case map_of (fc_bidder_imps fc) bidder_name of Some is \<Rightarrow> req\<lparr>req_imp := is\<rparr> | None \<Rightarrow> req)
      in sanitize_request_for_coppa (apply_fpd_for_bidder sd req bidder_name))"

definition or_null :: "json option \<Rightarrow> json" where
  "or_null j = (case j of None \<Rightarrow> JNull | Some v \<Rightarrow> v)"

definition run_stage :: "stage \<Rightarrow> json \<Rightarrow> hook_executor option \<Rightarrow> hook_executor option \<times> reject_error option" where
  "run_stage st payload ex =
     (case ex of
        None \<Rightarrow> (None, None)
      | Some e \<Rightarrow> (case execute_stage st payload e of
                     (e', Inl r) \<Rightarrow> (Some e', Some r)
                   | (e', Inr _) \<Rightarrow> (Some e', None)))"

record fan_state =
  fs_executor :: "hook_executor option"
  fs_non_bids :: "seat_non_bid list"
  fs_tasks :: "task list"

definition call_bidder :: "serde \<Rightarrow> fan_config \<Rightarrow> string \<Rightarrow> fan_state \<Rightarrow> fan_state" where
  "call_bidder sd fc bidder_name fs =
     (let canonical_name = (case map_of (fc_aliases fc) bidder_name of None \<Rightarrow> bidder_name | Some c \<Rightarrow> c)
      in case map_of (fc_adapters fc) canonical_name of
           None \<Rightarrow> fs
         | Some adapted \<Rightarrow>
             (let req = bidder_request_for sd fc bidder_name;
                  payload = JObj [(''bid_request'', or_null (en_bid_request sd req)), (''bidder'', JStr bidder_name)]
              in case run_stage BidderRequest payload (fs_executor fs) of
                   (ex, Some _) \<Rightarrow> fs\<lparr>fs_executor := ex\<rparr>
                 | (ex, None) \<Rightarrow>
                     fs\<lparr>fs_executor := ex,
                        fs_tasks := fs_tasks fs @ [BidderTask bidder_name adapted req (fc_timeout_ms fc)]\<rparr>))"

definition fan_step :: "serde \<Rightarrow> fan_config \<Rightarrow> string \<Rightarrow> fan_state \<Rightarrow> fan_state" where
  "fan_step sd fc bidder_name fs =
     (let privacy_check = check_privacy_for_bidder (fc_privacy fc) bidder_name
      in if privacy_check \<noteq> Allow
         then fs\<lparr>fs_non_bids := push_non_bids bidder_name
                   (non_bids_all_imps (block_code privacy_check) (req_imp (fc_request fc))) (fs_non_bids fs)\<rparr>
         else case map_of (fc_stored fc) bidder_name of
                Some imp_responses \<Rightarrow>
                  (let typed_bids = stored_typed_bids sd (fc_stored_order fc bidder_name) imp_responses
                   in if typed_bids \<noteq> [] then fs\<lparr>fs_tasks := fs_tasks fs @ [StoredTask bidder_name typed_bids]\<rparr>
                      else call_bidder sd fc bidder_name fs)
              | None \<Rightarrow> call_bidder sd fc bidder_name fs)"

definition fan_out :: "serde \<Rightarrow> fan_config \<Rightarrow> string list \<Rightarrow> hook_executor option \<Rightarrow> fan_state" where
  "fan_out sd fc active_bidders ex =
     fold (fan_step sd fc) active_bidders \<lparr>fs_executor = ex, fs_non_bids = [], fs_tasks = []\<rparr>"

section \<open>Lemmas: impressions per bidder\<close>

lemma map_of_snoc: "map_of (xs @ [(k, v)]) k' = (case map_of xs k' of None \<Rightarrow> if k' = k then Some v else None | Some w \<Rightarrow> Some w)"
  by (simp add: map_add_def split: option.split)

lemma legacy_params_get:
  "distinct (map fst m) \<Longrightarrow>
   map_of (legacy_params known m acc) b =
     (case map_of acc b of
        Some p \<Rightarrow> Some p
      | None \<Rightarrow> if b \<in> set known \<and> b \<notin> set non_bidder_keys then map_of m b else None)"
proof (induction m arbitrary: acc)
  case (Cons e m)
  obtain key val where e: "e = (key, val)" by (cases e)
  have fresh: "map_of m key = None" and d: "distinct (map fst m)"
    using Cons.prems by (simp_all add: e map_of_eq_None_iff)
  show ?case
  proof (cases "key \<in> set non_bidder_keys \<or> key \<notin> set known \<or> key \<in> set (map fst acc)")
    case True
    then have eq: "legacy_params known (e # m) acc = legacy_params known m acc" by (auto simp: e)
    have IH: "map_of (legacy_params known m acc) b =
        (case map_of acc b of Some p \<Rightarrow> Some p
         | None \<Rightarrow> if b \<in> set known \<and> b \<notin> set non_bidder_keys then map_of m b else None)"
      by (rule Cons.IH [OF d])
    show ?thesis
    proof (cases "b = key")
      case True
      have "map_of acc key \<noteq> None" if "key \<in> set (map fst acc)"
        using that by (simp add: map_of_eq_None_iff)
      then show ?thesis
        using fresh IH \<open>key \<in> set non_bidder_keys \<or> key \<notin> set known \<or> key \<in> set (map fst acc)\<close>
        unfolding eq True by (cases "map_of acc key") (auto simp: e)
    next
      case False
      then have mb: "map_of (e # m) b = map_of m b" by (simp add: e)
      show ?thesis unfolding eq mb by (rule IH)
    qed
  next
    case False
    then have "legacy_params known (e # m) acc = legacy_params known m (acc @ [(key, val)])" by (simp add: e)
    moreover have "map_of acc key = None" using False by (simp add: map_of_eq_None_iff)
    ultimately show ?thesis
      using Cons.IH [OF d, of "acc @ [(key, val)]"] fresh False
      by (cases "map_of acc b"; cases "b = key") (simp_all add: map_add_def e)
  qed
qed (simp split: option.split)

lemma legacy_params_distinct:
  "distinct (map fst acc) \<Longrightarrow> distinct (map fst (legacy_params known m acc))"
  by (induction known m acc rule: legacy_params.induct) auto

lemma copy_keys_get:
  "distinct (map fst m) \<Longrightarrow>
   map_of (copy_keys known m acc) k =
     (if k = ''prebid'' \<or> k \<in> set known then map_of acc k
      else case map_of m k of Some v \<Rightarrow> Some v | None \<Rightarrow> map_of acc k)"
proof (induction known m acc rule: copy_keys.induct)
  case (2 known key val m acc)
  then have "map_of m key = None" by (simp add: map_of_eq_None_iff)
  then show ?case using 2 by (auto simp: bt.get_insert split: option.splits)
qed simp

lemma sanitized_prebid_get:
  "map_of (sanitized_prebid prebid) k =
     (if k = ''is_rewarded_inventory'' \<or> k = ''options'' then jget prebid k else None)"
  by (auto simp: sanitized_prebid_def bt.get_insert split: option.splits)

lemma json_wf_object: "json_wf j \<Longrightarrow> as_object j = Some m \<Longrightarrow> distinct (map fst m)"
  by (cases j) (auto intro: bt_wf_distinct)

lemma json_wf_get: "json_wf j \<Longrightarrow> jget j k = Some v \<Longrightarrow> json_wf v"
  by (cases j) (auto dest!: map_of_SomeD bspec)

lemma jget_object: "jget j k = Option.bind (as_object j) (\<lambda>m. map_of m k)"
  by (cases j) simp_all

text \<open>The parameters of a bidder in an extension object: the new place wins over the legacy one.\<close>

definition bidder_param :: "string list \<Rightarrow> json \<Rightarrow> string \<Rightarrow> json option" where
  "bidder_param known ext b =
     (case jpath (Some ext) [''prebid'', ''bidder'', b] of
        Some p \<Rightarrow> Some p
      | None \<Rightarrow> if b \<in> set known \<and> b \<notin> set non_bidder_keys then jget ext b else None)"

lemma jpath_bidder: "jpath (Some ext) [''prebid'', ''bidder'', b] =
    Option.bind (Option.bind (jpath (Some ext) [''prebid'', ''bidder'']) as_object) (\<lambda>m. map_of m b)"
  by (auto simp: jget_object [of _ b] split: option.splits)

lemma jpath_bidder_wf:
  "json_wf ext \<Longrightarrow> Option.bind (jpath (Some ext) [''prebid'', ''bidder'']) as_object = Some m \<Longrightarrow> distinct (map fst m)"
proof -
  assume wf: "json_wf ext" and m: "Option.bind (jpath (Some ext) [''prebid'', ''bidder'']) as_object = Some m"
  obtain p bj where "jget ext ''prebid'' = Some p" "jget p ''bidder'' = Some bj" "as_object bj = Some m"
    using m by (auto simp: bind_eq_Some_conv split: option.splits)
  then show ?thesis using json_wf_get [OF json_wf_get [OF wf]] json_wf_object by blast
qed

lemma imp_bidder_params_get:
  assumes "json_wf ext"
  shows "map_of (imp_bidder_params known ext) b = bidder_param known ext b"
proof -
  have d: "distinct (map fst (case as_object ext of None \<Rightarrow> [] | Some m \<Rightarrow> m))"
    using json_wf_object [OF assms] by (auto split: option.splits)
  show ?thesis
    unfolding imp_bidder_params_def legacy_params_get [OF d] bidder_param_def jpath_bidder jget_object [of ext b]
    by (auto split: option.splits Option.bind_splits)
qed

lemma imp_bidder_params_distinct:
  assumes "json_wf ext"
  shows "distinct (map fst (imp_bidder_params known ext))"
  unfolding imp_bidder_params_def
  by (rule legacy_params_distinct) (use jpath_bidder_wf [OF assms] in \<open>auto split: option.splits\<close>)

lemma get_or_push: "get_or [] (push_imp n i acc) b = (if n = b then get_or [] acc b @ [i] else get_or [] acc b)"
  by (simp add: push_imp_def get_or_def hm.get_insert)

lemma push_imp_None: "map_of (push_imp n i acc) b = None \<longleftrightarrow> map_of acc b = None \<and> n \<noteq> b"
  by (simp add: push_imp_def hm.get_insert)

lemma fold_push_get:
  "distinct (map fst ps) \<Longrightarrow>
   get_or [] (fold (\<lambda>(n, p). push_imp n (f p)) ps acc) b =
     get_or [] acc b @ (case map_of ps b of None \<Rightarrow> [] | Some p \<Rightarrow> [f p])"
proof (induction ps arbitrary: acc)
  case (Cons e ps)
  obtain n p where e: "e = (n, p)" by (cases e)
  have "map_of ps n = None" using Cons.prems by (simp add: e map_of_eq_None_iff)
  then show ?case using Cons by (auto simp: e get_or_push split: option.splits)
qed simp

lemma fold_push_None:
  "map_of (fold (\<lambda>(n, p). push_imp n (f p)) ps acc) b = None \<longleftrightarrow> map_of acc b = None \<and> map_of ps b = None"
proof (induction ps arbitrary: acc)
  case (Cons e ps)
  obtain n p where e: "e = (n, p)" by (cases e)
  show ?case by (simp add: e Cons.IH push_imp_None)
qed simp

text \<open>What one impression contributes to a bidder.\<close>

definition imp_for :: "string list \<Rightarrow> string \<Rightarrow> imp \<Rightarrow> imp option" where
  "imp_for known b i =
     Option.bind (imp_jext i) (\<lambda>ext.
       map_option (\<lambda>p. i\<lparr>imp_jext := Some (sanitized_ext known ext p)\<rparr>) (bidder_param known ext b))"

lemma split_imp_get:
  assumes "\<And>ext. imp_jext i = Some ext \<Longrightarrow> json_wf ext"
  shows "get_or [] (split_imp known i acc) b = get_or [] acc b @ (case imp_for known b i of None \<Rightarrow> [] | Some j \<Rightarrow> [j])
    \<and> (map_of (split_imp known i acc) b = None \<longleftrightarrow> map_of acc b = None \<and> imp_for known b i = None)"
proof (cases "imp_jext i")
  case None
  then show ?thesis by (simp add: split_imp_def imp_for_def)
next
  case (Some ext)
  then have wf: "json_wf ext" by (rule assms)
  show ?thesis
    unfolding split_imp_def imp_for_def Some option.case Option.bind.bind_lunit fold_push_None
      fold_push_get [OF imp_bidder_params_distinct [OF wf]] imp_bidder_params_get [OF wf]
    by (cases "bidder_param known ext b") simp_all
qed

lemma split_imps_get:
  assumes "\<forall>i \<in> set imps. \<forall>ext. imp_jext i = Some ext \<longrightarrow> json_wf ext"
  shows "get_or [] (fold (split_imp known) imps acc) b = get_or [] acc b @ List.map_filter (imp_for known b) imps
    \<and> (map_of (fold (split_imp known) imps acc) b = None \<longleftrightarrow> map_of acc b = None \<and> List.map_filter (imp_for known b) imps = [])"
  using assms
proof (induction imps arbitrary: acc)
  case (Cons i imps)
  then have wf: "\<And>ext. imp_jext i = Some ext \<Longrightarrow> json_wf ext" by simp
  have IH: "get_or [] (fold (split_imp known) imps (split_imp known i acc)) b
        = get_or [] (split_imp known i acc) b @ List.map_filter (imp_for known b) imps"
      "map_of (fold (split_imp known) imps (split_imp known i acc)) b = None
        \<longleftrightarrow> map_of (split_imp known i acc) b = None \<and> List.map_filter (imp_for known b) imps = []"
    using Cons by simp_all
  show ?case
    using split_imp_get [OF wf, where known = known and acc = acc and b = b] IH
    by (cases "imp_for known b i") (simp_all add: map_filter_simps)
qed (simp add: map_filter_simps)

section \<open>Lemmas: the fan-out\<close>

definition allowed :: "fan_config \<Rightarrow> string \<Rightarrow> bool" where
  "allowed fc b \<longleftrightarrow> check_privacy_for_bidder (fc_privacy fc) b = Allow"

definition adapter_for :: "fan_config \<Rightarrow> string \<Rightarrow> adapted_bidder option" where
  "adapter_for fc b = map_of (fc_adapters fc) (case map_of (fc_aliases fc) b of None \<Rightarrow> b | Some c \<Rightarrow> c)"

definition stored_for :: "serde \<Rightarrow> fan_config \<Rightarrow> string \<Rightarrow> typed_bid list" where
  "stored_for sd fc b =
     (case map_of (fc_stored fc) b of None \<Rightarrow> [] | Some r \<Rightarrow> stored_typed_bids sd (fc_stored_order fc b) r)"

definition privacy_non_bids :: "fan_config \<Rightarrow> string \<Rightarrow> seat_non_bid list" where
  "privacy_non_bids fc b =
     (if allowed fc b then []
      else push_non_bids b (non_bids_all_imps (block_code (check_privacy_for_bidder (fc_privacy fc) b)) (req_imp (fc_request fc))) [])"

text \<open>The task a bidder gets when no hook interferes.\<close>

definition task_for :: "serde \<Rightarrow> fan_config \<Rightarrow> string \<Rightarrow> task option" where
  "task_for sd fc b =
     (if \<not> allowed fc b then None
      else if stored_for sd fc b \<noteq> [] then Some (StoredTask b (stored_for sd fc b))
      else map_option (\<lambda>a. BidderTask b a (bidder_request_for sd fc b) (fc_timeout_ms fc)) (adapter_for fc b))"

lemma push_non_bids_append: "push_non_bids b nbs acc = acc @ push_non_bids b nbs []"
  by (simp add: push_non_bids_def)

lemma call_bidder_eq:
  "\<exists>ex keep. call_bidder sd fc b fs =
     \<lparr>fs_executor = ex, fs_non_bids = fs_non_bids fs,
      fs_tasks = fs_tasks fs
          @ (if keep then (case map_option (\<lambda>a. BidderTask b a (bidder_request_for sd fc b) (fc_timeout_ms fc)) (adapter_for fc b)
                           of None \<Rightarrow> [] | Some t \<Rightarrow> [t]) else [])\<rparr>
     \<and> (fs_executor fs = None \<longrightarrow> ex = None \<and> keep)"
proof (cases "adapter_for fc b")
  case None
  then show ?thesis
    by (intro exI [of _ "fs_executor fs"] exI [of _ True]) (simp add: call_bidder_def adapter_for_def)
next
  case (Some a)
  obtain ex rj where r: "run_stage BidderRequest
      (JObj [(''bid_request'', or_null (en_bid_request sd (bidder_request_for sd fc b))), (''bidder'', JStr b)]) (fs_executor fs) = (ex, rj)"
    by fastforce
  have "fs_executor fs = None \<longrightarrow> ex = None \<and> rj = None" using r by (auto simp: run_stage_def)
  then show ?thesis
    using Some r by (intro exI [of _ ex] exI [of _ "rj = None"])
      (auto simp: call_bidder_def adapter_for_def Let_def split: option.splits)
qed

lemma fan_step_eq:
  "\<exists>ex keep. fan_step sd fc b fs =
     \<lparr>fs_executor = ex, fs_non_bids = fs_non_bids fs @ privacy_non_bids fc b,
      fs_tasks = fs_tasks fs @ (if keep then (case task_for sd fc b of None \<Rightarrow> [] | Some t \<Rightarrow> [t]) else [])\<rparr>
     \<and> (fs_executor fs = None \<longrightarrow> ex = None \<and> keep)"
proof (cases "allowed fc b")
  case False
  then show ?thesis
    using push_non_bids_append [of b _ "fs_non_bids fs"]
    by (intro exI [of _ "fs_executor fs"] exI [of _ True])
      (simp add: fan_step_def allowed_def privacy_non_bids_def task_for_def)
next
  case True
  show ?thesis
  proof (cases "stored_for sd fc b = []")
    case False
    then show ?thesis
      using True by (intro exI [of _ "fs_executor fs"] exI [of _ True])
        (auto simp: fan_step_def allowed_def stored_for_def privacy_non_bids_def task_for_def split: option.splits)
  next
    case empty: True
    have step: "fan_step sd fc b fs = call_bidder sd fc b fs"
      using True empty by (auto simp: fan_step_def allowed_def stored_for_def Let_def split: option.splits)
    have nb: "privacy_non_bids fc b = []" using True by (simp add: privacy_non_bids_def)
    have tf: "task_for sd fc b =
        map_option (\<lambda>a. BidderTask b a (bidder_request_for sd fc b) (fc_timeout_ms fc)) (adapter_for fc b)"
      using True empty by (simp add: task_for_def)
    show ?thesis unfolding step nb tf append_Nil2 by (rule call_bidder_eq)
  qed
qed

lemma fan_fold_eq:
  "\<exists>ex bs. fold (fan_step sd fc) active fs =
     \<lparr>fs_executor = ex, fs_non_bids = fs_non_bids fs @ concat (map (privacy_non_bids fc) active),
      fs_tasks = fs_tasks fs @ List.map_filter (task_for sd fc) bs\<rparr>
     \<and> subseq bs active \<and> (fs_executor fs = None \<longrightarrow> ex = None \<and> bs = active)"
proof (induction active arbitrary: fs)
  case Nil
  show ?case by (cases fs) (auto simp: map_filter_simps intro!: exI [of _ "[]"])
next
  case (Cons b active)
  obtain ex keep where s: "fan_step sd fc b fs =
     \<lparr>fs_executor = ex, fs_non_bids = fs_non_bids fs @ privacy_non_bids fc b,
      fs_tasks = fs_tasks fs @ (if keep then (case task_for sd fc b of None \<Rightarrow> [] | Some t \<Rightarrow> [t]) else [])\<rparr>"
      "fs_executor fs = None \<longrightarrow> ex = None \<and> keep"
    using fan_step_eq by blast
  obtain ex' bs where f: "fold (fan_step sd fc) active (fan_step sd fc b fs) =
     \<lparr>fs_executor = ex', fs_non_bids = fs_non_bids (fan_step sd fc b fs) @ concat (map (privacy_non_bids fc) active),
      fs_tasks = fs_tasks (fan_step sd fc b fs) @ List.map_filter (task_for sd fc) bs\<rparr>"
      "subseq bs active" "fs_executor (fan_step sd fc b fs) = None \<longrightarrow> ex' = None \<and> bs = active"
    using Cons.IH by blast
  have tasks: "(if keep then (case task_for sd fc b of None \<Rightarrow> [] | Some t \<Rightarrow> [t]) else []) @ List.map_filter (task_for sd fc) bs
      = List.map_filter (task_for sd fc) (if keep then b # bs else bs)"
    by (cases "task_for sd fc b") (simp_all add: map_filter_simps)
  show ?case
  proof (intro exI conjI)
    show "fold (fan_step sd fc) (b # active) fs =
       \<lparr>fs_executor = ex', fs_non_bids = fs_non_bids fs @ concat (map (privacy_non_bids fc) (b # active)),
        fs_tasks = fs_tasks fs @ List.map_filter (task_for sd fc) (if keep then b # bs else bs)\<rparr>"
      unfolding fold_simps f(1) unfolding s(1) tasks [symmetric] by simp
    show "subseq (if keep then b # bs else bs) (b # active)"
      using f(2) by auto
    show "fs_executor fs = None \<longrightarrow> ex' = None \<and> (if keep then b # bs else bs) = b # active"
      using f(3) s(2) unfolding s(1) by simp
  qed
qed

section \<open>Properties\<close>

text \<open>Splitting the impressions: a bidder is active exactly when some impression carries parameters
  for it, and it gets exactly those impressions, in their order.  In the extension of its copy the only
  bidder parameters are its own; of the Prebid part only two fields remain; every other field that is not
  named like a known bidder is kept.\<close>

theorem split_imps_spec:
  assumes "\<forall>i \<in> set imps. \<forall>ext. imp_jext i = Some ext \<longrightarrow> json_wf ext" and "json_wf ext"
  shows "map_of (split_imps_for_bidders imps known) b =
      (if List.map_filter (imp_for known b) imps = [] then None else Some (List.map_filter (imp_for known b) imps))
    \<and> jget (sanitized_ext known ext params) k =
      (if k = ''bidder'' then Some params
       else if k = ''prebid''
       then (case jget ext ''prebid'' of
               None \<Rightarrow> None
             | Some prebid \<Rightarrow> if sanitized_prebid prebid = [] then None else Some (JObj (sanitized_prebid prebid)))
       else if k \<in> set known then None else jget ext k)
    \<and> jget (JObj (sanitized_prebid prebid)) k =
      (if k = ''is_rewarded_inventory'' \<or> k = ''options'' then jget prebid k else None)"
proof -
  have "map_of (split_imps_for_bidders imps known) b =
      (if List.map_filter (imp_for known b) imps = [] then None else Some (List.map_filter (imp_for known b) imps))"
    using split_imps_get [OF assms(1), of known "[]" b]
    by (cases "map_of (fold (split_imp known) imps []) b") (auto simp: split_imps_for_bidders_def get_or_def)
  moreover have "jget (sanitized_ext known ext params) k =
      (if k = ''bidder'' then Some params
       else if k = ''prebid''
       then (case jget ext ''prebid'' of
               None \<Rightarrow> None
             | Some prebid \<Rightarrow> if sanitized_prebid prebid = [] then None else Some (JObj (sanitized_prebid prebid)))
       else if k \<in> set known then None else jget ext k)"
  proof -
    define m where "m = (case as_object ext of None \<Rightarrow> [] | Some m \<Rightarrow> m)"
    have d: "distinct (map fst m)" using json_wf_object [OF assms(2)] by (auto simp: m_def split: option.splits)
    have k: "jget ext k = map_of m k" by (auto simp: jget_object m_def split: option.splits)
    show ?thesis
      unfolding sanitized_ext_def Let_def m_def [symmetric] k
      by (cases "jget ext ''prebid''") (auto simp: bt.get_insert copy_keys_get [OF d] split: option.splits)
  qed
  ultimately show ?thesis by (simp add: sanitized_prebid_get)
qed

definition sample_ext :: json where
  "sample_ext = JObj [(''appnexus'', JNull), (''gpid'', JStr ''g''),
     (''prebid'', JObj [(''bidder'', JObj [(''rubicon'', JBool True)])])]"

theorem split_imps_spec_witness:
  "map_of (split_imps_for_bidders [default_imp\<lparr>imp_jext := Some sample_ext\<rparr>] [''appnexus'']) ''rubicon''
     = Some [default_imp\<lparr>imp_jext := Some (JObj [(''bidder'', JBool True), (''gpid'', JStr ''g'')])\<rparr>]
   \<and> jget (sanitized_ext [''appnexus''] sample_ext (JBool True)) ''appnexus'' = None"
proof -
  have wf: "json_wf sample_ext" by (simp add: sample_ext_def bt_wf_def)
  have wfs: "\<forall>i \<in> set [default_imp\<lparr>imp_jext := Some sample_ext\<rparr>]. \<forall>ext. imp_jext i = Some ext \<longrightarrow> json_wf ext"
    using wf by simp
  have i: "List.map_filter (imp_for [''appnexus''] ''rubicon'') [default_imp\<lparr>imp_jext := Some sample_ext\<rparr>]
      = [default_imp\<lparr>imp_jext := Some (JObj [(''bidder'', JBool True), (''gpid'', JStr ''g'')])\<rparr>]"
    by code_simp
  show ?thesis
    using split_imps_spec [OF wfs wf, of "[''appnexus'']" "''rubicon''" "JBool True" "''appnexus''"] unfolding i by simp
qed

text \<open>Property C38.  The privacy gate of the fan-out, for any executor of hooks: no task is spawned for a bidder the
  privacy check blocks; each blocked bidder gets one seat entry with one non-bid per impression, in order and
  with the code of the reason; the tasks are, in order, those of a subsequence of the active bidders (a hook
  may remove some), each with the bidder's own stored answer or the adapter its name or alias stands for, the
  request prepared for it and the common timeout; without hooks no bidder is left out.\<close>

theorem fan_out_gate:
  "let fs = fan_out sd fc active ex
   in fs_non_bids fs =
        concat (map (\<lambda>b. case check_privacy_for_bidder (fc_privacy fc) b of
                           Allow \<Rightarrow> []
                         | r \<Rightarrow> if req_imp (fc_request fc) = [] then []
                                else [\<lparr>snb_nonbid = map (\<lambda>i. \<lparr>nb_impid = imp_id i, nb_statuscode = block_code r, nb_jext = None\<rparr>)
                                                        (req_imp (fc_request fc)),
                                       snb_seat = b, snb_jext = None\<rparr>]) active)
    \<and> list_all (\<lambda>t. check_privacy_for_bidder (fc_privacy fc) (task_bidder t) = Allow) (fs_tasks fs)
    \<and> (\<exists>bs. subseq bs active \<and> fs_tasks fs = List.map_filter (task_for sd fc) bs)
    \<and> (case ex of None \<Rightarrow> fs_tasks fs = List.map_filter (task_for sd fc) active | Some _ \<Rightarrow> True)"
proof -
  obtain ex' bs where f: "fan_out sd fc active ex =
     \<lparr>fs_executor = ex', fs_non_bids = concat (map (privacy_non_bids fc) active),
      fs_tasks = List.map_filter (task_for sd fc) bs\<rparr>" "subseq bs active" "ex = None \<longrightarrow> bs = active"
    using fan_fold_eq [of sd fc active "\<lparr>fs_executor = ex, fs_non_bids = [], fs_tasks = []\<rparr>"]
    by (auto simp: fan_out_def)
  have nb: "privacy_non_bids fc = (\<lambda>b. case check_privacy_for_bidder (fc_privacy fc) b of
                           Allow \<Rightarrow> []
                         | r \<Rightarrow> if req_imp (fc_request fc) = [] then []
                                else [\<lparr>snb_nonbid = map (\<lambda>i. \<lparr>nb_impid = imp_id i, nb_statuscode = block_code r, nb_jext = None\<rparr>)
                                                        (req_imp (fc_request fc)),
                                       snb_seat = b, snb_jext = None\<rparr>])"
    by (rule ext) (simp add: privacy_non_bids_def allowed_def push_non_bids_def non_bids_all_imps_def non_bid_for_def
        split: privacy_result.split)
  have al: "list_all (\<lambda>t. check_privacy_for_bidder (fc_privacy fc) (task_bidder t) = Allow) (List.map_filter (task_for sd fc) bs)"
    by (auto simp: list_all_iff List.map_filter_def task_for_def allowed_def split: if_splits)
  show ?thesis
    using f(2,3) al unfolding Let_def f(1) nb by (auto split: option.split)
qed

text \<open>The timeout a bidder gets is positive and fits a signed 64-bit number; it is the request's time
  limit less the configured overhead, never below 1, and 1000 without a limit.  A large negative overhead,
  which the request can carry, overflows the subtraction and gives 1.\<close>

theorem bidder_timeout_bounds:
  assumes "0 < t" "t \<le> i64_max" "i64_min \<le> response_time_ms_overhead req" "response_time_ms_overhead req \<le> i64_max"
  shows "1 \<le> bidder_timeout_ms req \<and> bidder_timeout_ms req < 2 ^ 63
    \<and> bidder_timeout_ms (req\<lparr>req_tmax := None\<rparr>) = 1000
    \<and> int (bidder_timeout_ms (req\<lparr>req_tmax := Some t\<rparr>)) =
        (if i64_max < t - response_time_ms_overhead req then 1 else max 1 (t - response_time_ms_overhead req))"
proof -
  have w: "i64_wrap x < 9223372036854775808" for x
    by (simp add: i64_wrap_def i64_min_def)
  have b: "1 \<le> bidder_timeout_ms req \<and> bidder_timeout_ms req < 2 ^ 63"
    using w by (auto simp: bidder_timeout_ms_def nat_less_iff split: option.splits)
  define ov where "ov = response_time_ms_overhead req"
  have bt: "int (bidder_timeout_ms (req\<lparr>req_tmax := Some t\<rparr>)) = max (i64_wrap (t - ov)) 1"
  proof -
    have "response_time_ms_overhead (req\<lparr>req_tmax := Some t\<rparr>) = ov" by (simp add: ov_def response_time_ms_overhead_def)
    moreover have "0 \<le> max (i64_wrap (t - ov)) 1" by simp
    ultimately show ?thesis using assms(1) unfolding bidder_timeout_ms_def by simp
  qed
  have "int (bidder_timeout_ms (req\<lparr>req_tmax := Some t\<rparr>)) = (if i64_max < t - ov then 1 else max 1 (t - ov))"
  proof (cases "i64_max < t - ov")
    case True
    have "(t - ov - i64_min) mod 2 ^ 64 = (t - ov - i64_min - 2 ^ 64) mod 2 ^ 64" by simp
    also have "\<dots> = t - ov - i64_min - 2 ^ 64"
      using True assms unfolding ov_def [symmetric]
      by (intro mod_pos_pos_trivial) (simp_all add: i64_min_def i64_max_def)
    finally show ?thesis using True assms bt unfolding ov_def [symmetric]
      by (simp add: i64_wrap_def i64_min_def i64_max_def)
  next
    case False
    have "(t - ov - i64_min) mod 2 ^ 64 = t - ov - i64_min"
      using False assms unfolding ov_def [symmetric] by (intro mod_pos_pos_trivial) (simp_all add: i64_min_def i64_max_def)
    then show ?thesis using False bt by (simp add: i64_wrap_def)
  qed
  then show ?thesis
    using b by (simp add: ov_def bidder_timeout_ms_def [of "req\<lparr>req_tmax := None\<rparr>"])
qed

definition overhead_request :: bid_request where
  "overhead_request = default_bid_request\<lparr>req_jext := Some (JObj [(''prebid'', JObj [(''server'',
     JObj [(''response_time_ms'', JNum (NegInt i64_min))])])])\<rparr>"

theorem bidder_timeout_bounds_witness:
  "bidder_timeout_ms (overhead_request\<lparr>req_tmax := Some 1500\<rparr>) = 1"
proof -
  have ov: "response_time_ms_overhead overhead_request = i64_min"
    by (simp add: overhead_request_def response_time_ms_overhead_def)
  show ?thesis
    using bidder_timeout_bounds [of 1500 overhead_request] unfolding ov by (simp add: i64_min_def i64_max_def)
qed

end
