(* ===== verification/PriceBucket.thy ===== *)
theory PriceBucket
  imports Json
begin

text \<open>
  Price buckets, the value of the \<^verbatim>\<open>hb_pb\<close> targeting keys.  The program has three routines: the one the
  auction uses (\<^verbatim>\<open>rust/crates/exchange/src/lib.rs\<close>), the one of the targeting builder
  (\<^verbatim>\<open>exchange/src/adserver_targeting.rs\<close>) and a stand-alone one (\<^verbatim>\<open>exchange/src/price_granularity.rs\<close>).  Prices are
  binary64 numbers with the rounding of the hardware.
\<close>

section \<open>The bucket of the auction\<close>

record price_range =
  range_max :: f64
  range_increment :: f64

record price_granularity =
  pg_precision :: "nat option"
  pg_ranges :: "price_range list"

definition range_from_json :: "json \<Rightarrow> price_range option" where
  "range_from_json entry =
     Option.bind (Option.bind (jget entry ''max'') as_f64) (\<lambda>mx.
       Option.bind (Option.bind (jget entry ''increment'') as_f64) (\<lambda>incr.
         if f_le incr (Fin False 0) then None
         else Some \<lparr>range_max = mx, range_increment = incr\<rparr>))"

definition granularity_from_json :: "json \<Rightarrow> price_granularity option" where
  "granularity_from_json v =
     Option.bind (as_object v) (\<lambda>obj.
       let precision = map_option (\<lambda>p. p mod 2 ^ 32) (Option.bind (map_of obj ''precision'') as_u64);
           ranges = (case Option.bind (map_of obj ''ranges'') as_array of
                       None \<Rightarrow> [] | Some arr \<Rightarrow> List.map_filter range_from_json arr)
       in if ranges = [] \<and> precision = None then None
          else Some \<lparr>pg_precision = precision, pg_ranges = ranges\<rparr>)"

definition range_cmp :: "price_range \<Rightarrow> price_range \<Rightarrow> int" where
  "range_cmp a b = (case f_partial_cmp (range_max a) (range_max b) of Some c \<Rightarrow> c | None \<Rightarrow> 0)"

text \<open>Rounding down to a multiple of the increment above the lower end of the range.\<close>

definition step_bucket :: "f64 \<Rightarrow> f64 \<Rightarrow> f64 \<Rightarrow> f64" where
  "step_bucket bucket_min increment price =
     f_add (f_mul (f_floor (f_div (f_sub price bucket_min) increment)) increment) bucket_min"

fun find_range :: "f64 \<Rightarrow> f64 \<Rightarrow> price_range list \<Rightarrow> f64 option" where
  "find_range price bucket_min [] = None"
| "find_range price bucket_min (r # rs) =
     (if f_le price (range_max r) then Some (step_bucket bucket_min (range_increment r) price)
      else find_range price (range_max r) rs)"

definition default_bucket :: "f64 \<Rightarrow> f64" where
  "default_bucket price = f_div (f_floor (f_mul (f_min price (Fin False 20)) (Fin False 100))) (Fin False 100)"

definition ranges_max :: "price_range list \<Rightarrow> f64" where
  "ranges_max ranges = fold (\<lambda>r acc. f_max acc (range_max r)) ranges (Inf True)"

definition price_granularity_bucket :: "f64 \<Rightarrow> price_granularity option \<Rightarrow> string" where
  "price_granularity_bucket price granularity =
     (case granularity of
        Some gran \<Rightarrow>
          if pg_ranges gran \<noteq> []
          then let precision = (case pg_precision gran of None \<Rightarrow> 2 | Some p \<Rightarrow> p);
                   bucket_max = ranges_max (pg_ranges gran)
               in if f_lt bucket_max price then fmt_fixed precision bucket_max
                  else case find_range price (Fin False 0) (sort_by range_cmp (pg_ranges gran)) of
                         Some rounded \<Rightarrow> fmt_fixed precision rounded
                       | None \<Rightarrow> fmt_fixed precision bucket_max
          else fmt_fixed 2 (default_bucket price)
      | None \<Rightarrow> fmt_fixed 2 (default_bucket price))"

section \<open>The bucket of the targeting builder\<close>

record granularity_range =
  gr_min :: f64
  gr_max :: f64
  gr_increment :: f64

record target_granularity =
  tg_precision :: nat
  tg_ranges :: "granularity_range list"

definition gran :: "rat \<Rightarrow> rat \<Rightarrow> rat \<Rightarrow> granularity_range" where
  "gran mn mx incr = \<lparr>gr_min = f_of mn, gr_max = f_of mx, gr_increment = f_of incr\<rparr>"

definition granularity_low :: target_granularity where
  "granularity_low = \<lparr>tg_precision = 2, tg_ranges = [gran 0 5 (1 / 2)]\<rparr>"

definition granularity_medium :: target_granularity where
  "granularity_medium = \<lparr>tg_precision = 2, tg_ranges = [gran 0 20 (1 / 10)]\<rparr>"

definition granularity_high :: target_granularity where
  "granularity_high = \<lparr>tg_precision = 2, tg_ranges = [gran 0 20 (1 / 100)]\<rparr>"

definition granularity_auto :: target_granularity where
  "granularity_auto =
     \<lparr>tg_precision = 2, tg_ranges = [gran 0 5 (1 / 20), gran 5 10 (1 / 10), gran 10 20 (1 / 2)]\<rparr>"

definition granularity_dense :: target_granularity where
  "granularity_dense =
     \<lparr>tg_precision = 2, tg_ranges = [gran 0 3 (1 / 100), gran 3 8 (1 / 20), gran 8 20 (1 / 2)]\<rparr>"

text \<open>The names are compared in lower case; no code point outside ASCII but the Kelvin sign has an ASCII
  lower case, and no name contains a k.\<close>

definition granularity_from_name :: "string \<Rightarrow> target_granularity option" where
  "granularity_from_name name =
     (let n = map ascii_lower name
      in if n = ''low'' then Some granularity_low
         else if n = ''medium'' \<or> n = ''med'' then Some granularity_medium
         else if n = ''high'' then Some granularity_high
         else if n = ''auto'' then Some granularity_auto
         else if n = ''dense'' then Some granularity_dense
         else None)"

text \<open>The loop over the ranges: the value of the matching range, or \<^const>\<open>None\<close> when no range matches.\<close>

fun target_range :: "f64 \<Rightarrow> granularity_range list \<Rightarrow> f64 option" where
  "target_range cpm [] = None"
| "target_range cpm (r # rs) =
     (if f_lt cpm (gr_max r) \<and> f_le (gr_min r) cpm
      then if f_le (gr_increment r) (Fin False 0) then Some (Fin False 0)
           else Some (f_add (gr_min r)
                        (f_mul (f_floor (f_div (f_sub cpm (gr_min r)) (gr_increment r))) (gr_increment r)))
      else target_range cpm rs)"

definition target_bucket :: "f64 \<Rightarrow> target_granularity \<Rightarrow> f64" where
  "target_bucket cpm g =
     (if f_lt cpm (Fin False 0) then Fin False 0
      else case target_range cpm (tg_ranges g) of
             Some v \<Rightarrow> v
           | None \<Rightarrow> (if tg_ranges g = [] then Fin False 0 else gr_max (last (tg_ranges g))))"

definition get_price_bucket :: "f64 \<Rightarrow> target_granularity \<Rightarrow> string" where
  "get_price_bucket cpm g = fmt_fixed (tg_precision g) (target_bucket cpm g)"

section \<open>The stand-alone routine\<close>

text \<open>A cast \<^verbatim>\<open>as u64\<close> saturates and sends NaN to zero.\<close>

definition f_as_u64 :: "f64 \<Rightarrow> nat" where
  "f_as_u64 x =
     (case x of NaN \<Rightarrow> 0
      | Inf s \<Rightarrow> (if s then 0 else 2 ^ 64 - 1)
      | Fin s q \<Rightarrow> (if s then 0 else min (2 ^ 64 - 1) (nat \<lfloor>q\<rfloor>)))"

definition get_cpm_target :: "f64 \<Rightarrow> f64 \<Rightarrow> f64 \<Rightarrow> nat \<Rightarrow> string" where
  "get_cpm_target cpm bucket_min increment precision =
     (if f_le increment (Fin False 0) then fmt_fixed precision (Fin False 0)
      else let steps = f_as_u64 (f_floor (f_div (f_sub cpm bucket_min) increment))
           in fmt_fixed precision (f_add bucket_min (f_mul (f_of (of_nat steps)) increment)))"

fun cpm_range :: "f64 \<Rightarrow> nat \<Rightarrow> granularity_range list \<Rightarrow> string" where
  "cpm_range price precision [] = fmt_fixed precision (Fin False 0)"
| "cpm_range price precision (r # rs) =
     (if f_le (gr_max r) price then cpm_range price precision rs
      else if f_lt price (gr_min r) then fmt_fixed precision (Fin False 0)
      else if f_le (gr_increment r) (Fin False 0) then fmt_fixed precision (Fin False 0)
      else get_cpm_target price (gr_min r) (gr_increment r) precision)"

definition module_price_bucket :: "f64 \<Rightarrow> nat \<Rightarrow> granularity_range list \<Rightarrow> string" where
  "module_price_bucket price precision ranges =
     (if f_lt price (Fin False 0) then fmt_fixed precision (Fin False 0) else cpm_range price precision ranges)"

section \<open>Lemmas\<close>

lemma f_sub_mono:
  assumes "f_le (Fin a p) (Fin b q)"
  shows "f_le (f_sub (Fin a p) (Fin c r)) (f_sub (Fin b q) (Fin c r))"
proof -
  have "sgnd a p + sgnd (\<not> c) r \<le> sgnd b q + sgnd (\<not> c) r"
    using assms by (simp add: not_less del: sgnd.simps)
  then show ?thesis by (simp add: f_sub_def rnd_mono del: sgnd.simps)
qed

text \<open>Adding a finite number keeps the order, also at the infinities.\<close>

lemma f_add_mono: "f_le x y \<Longrightarrow> f_le (f_add x (Fin c r)) (f_add y (Fin c r))"
proof (cases x; cases y)
  fix a p b q assume le: "f_le x y" and xy: "x = Fin a p" "y = Fin b q"
  have "sgnd a p + sgnd c r \<le> sgnd b q + sgnd c r"
    using le by (simp add: xy not_less del: sgnd.simps)
  then show ?thesis by (simp add: xy rnd_mono del: sgnd.simps)
qed (auto simp: rnd_num f_le_Inf simp del: sgnd.simps)

lemma f_wf_div: "f_wf (f_div x y)"
  using f_wf_rnd by (cases x; cases y) (auto simp: f_wf_def [of NaN] f_wf_def [of "Inf _"] f_wf_def [of "Fin _ 0"] simp del: sgnd.simps)

text \<open>Within a range with a positive increment the bucket is monotone in the price.\<close>

lemma step_bucket_mono:
  assumes "f_le (Fin a p) (Fin b q)" "0 < i"
  shows "f_le (step_bucket (Fin c m) (Fin False i) (Fin a p)) (step_bucket (Fin c m) (Fin False i) (Fin b q))"
  unfolding step_bucket_def
  by (rule f_add_mono, rule f_mul_mono [OF assms(2)], rule f_floor_mono [OF f_wf_div f_wf_div],
      rule f_div_mono [OF assms(2)], rule f_sub_mono [OF assms(1)])

lemma default_bucket_mono: "f_le x y \<Longrightarrow> f_le (default_bucket x) (default_bucket y)"
  unfolding default_bucket_def
  by (rule f_div_mono, simp, rule f_floor_mono [OF f_wf_mul f_wf_mul], rule f_mul_mono, simp, rule f_min_mono)
    (simp_all add: is_num_def)

text \<open>Rules to compute a formatted number.\<close>

lemma rne_int: "rne (numeral k) = numeral k"
  using rne_of_int [of "numeral k"] by simp

lemmas fmt_eval =
  fixed_digits_def rne_int split_digits_def show_nat.simps pad_left_def digit_char_def char_of_def bit_0

lemma bucket_of_20: "default_bucket (Fin False 20) = Fin False 20"
proof -
  have "f_mul (Fin False 20) (Fin False 100) = Fin False 2000" by code_simp
  moreover have "f_floor (Fin False 2000) = Fin False 2000" by code_simp
  moreover have "f_div (Fin False 2000) (Fin False 100) = Fin False 20" by code_simp
  moreover have "f_min (Fin False 20) (Fin False 20) = Fin False 20" by code_simp
  ultimately show ?thesis by (simp only: default_bucket_def)
qed

lemma default_bucket_le_20: "f_le (default_bucket x) (Fin False 20)"
proof -
  have "default_bucket x = default_bucket (f_min x (Fin False 20))"
    unfolding default_bucket_def by (cases x) auto
  also have "f_le \<dots> (default_bucket (Fin False 20))"
    by (rule default_bucket_mono) (rule f_min_le, simp add: is_num_def)
  finally show ?thesis by (simp only: bucket_of_20)
qed

lemma price_29_cents: "f_of (29 / 100) = Fin False (5224175567749775 / 18014398509481984)"
  by code_simp

lemma bucket_29_cents: "default_bucket (f_of (29 / 100)) = Fin False (1261007895663739 / 4503599627370496)"
proof -
  have "f_min (Fin False (5224175567749775 / 18014398509481984)) (Fin False 20)
      = Fin False (5224175567749775 / 18014398509481984)" by code_simp
  moreover have "f_mul (Fin False (5224175567749775 / 18014398509481984)) (Fin False 100)
      = Fin False (8162774324609023 / 281474976710656)" by code_simp
  moreover have "f_floor (Fin False (8162774324609023 / 281474976710656)) = Fin False 28" by code_simp
  moreover have "f_div (Fin False 28) (Fin False 100) = Fin False (1261007895663739 / 4503599627370496)" by code_simp
  ultimately show ?thesis by (simp only: default_bucket_def price_29_cents)
qed

section \<open>Lemmas: the ranges\<close>

text \<open>A number of at most 53 binary digits is not rounded.\<close>

lemma rnd_exact:
  assumes "0 < n" "n < 2 ^ 53" "- 1074 \<le> e" "e \<le> 900"
  shows "rnd s (of_int n * p2 e) = Fin False (of_int n * p2 e)"
proof -
  let ?q = "of_int n * p2 e"
  have q: "0 < ?q" using assms(1) by simp
  have "(of_int n :: rat) < 2 ^ 53" using assms(2) by (metis of_int_less_iff of_int_numeral of_int_power)
  then have up: "?q < p2 (53 + e)" by (simp add: p2_add p2_def [of 53])
  have "p2 (ilog2 ?q) \<le> ?q" using ilog2_bounds [OF q] by simp
  then have "ilog2 ?q < 53 + e" using up p2_mono [of "53 + e" "ilog2 ?q"] by force
  then have "ulp_exp ?q \<le> e" using assms(3) by (simp add: ulp_exp_def)
  define u where "u = ulp_exp ?q"
  obtain k where k: "p2 (e - u) = of_int k" using p2_int [of "e - u"] \<open>ulp_exp ?q \<le> e\<close> by (auto simp: u_def)
  have q_eq: "?q = of_int (n * k) * p2 u" using k p2_add [of "e - u" u] by simp
  have "round_mag ?q = of_int (rne (?q / p2 u)) * p2 u" by (simp add: round_mag_def round_at_def u_def)
  also have "?q / p2 u = of_int (n * k)" unfolding q_eq using p2_pos [of u] by (simp add: less_le)
  also have "of_int (rne (of_int (n * k))) * p2 u = ?q" by (simp only: rne_of_int q_eq)
  finally have "round_mag ?q = ?q" .
  moreover have "?q < p2 1024" using up p2_mono [of "53 + e" 1024] assms(4) by simp
  ultimately show ?thesis using q by (auto simp: rnd_def pack_f64_def)
qed

lemma small_exact: "rnd s (7 / 4) = Fin False (7 / 4)" "rnd s 1 = Fin False 1" "rnd s 6 = Fin False 6"
  using rnd_exact [of 7 "-2"] rnd_exact [of 1 0] rnd_exact [of 6 0] by (simp_all add: p2_def)

lemma sorted_unique:
  "sorted_wrt le xs \<Longrightarrow> sorted_wrt lt ys \<Longrightarrow> mset xs = mset ys \<Longrightarrow> (\<And>a b. a \<in> set ys \<Longrightarrow> b \<in> set ys \<Longrightarrow> lt a b \<Longrightarrow> \<not> le b a) \<Longrightarrow> xs = ys"
proof (induction ys arbitrary: xs)
  case (Cons y ys)
  then obtain x xs' where xs: "xs = x # xs'" by (cases xs) auto
  have "x = y"
  proof (rule ccontr)
    assume "x \<noteq> y"
    moreover have "set xs = set (y # ys)" using Cons.prems(3) by (rule mset_eq_setD)
    ultimately have "y \<in> set xs'" "x \<in> set ys" using xs by auto
    then show False using Cons.prems xs by (metis list.set_intros(1,2) sorted_wrt.simps(2))
  qed
  then show ?case using Cons xs by auto
qed simp

definition ascending :: "price_range list \<Rightarrow> bool" where
  "ascending rs \<longleftrightarrow> sorted_wrt (\<lambda>a b. f_lt (range_max a) (range_max b)) rs \<and> (\<forall>r \<in> set rs. is_num (range_max r))"

lemma range_cmp_le: "is_num (range_max a) \<Longrightarrow> is_num (range_max b) \<Longrightarrow> range_cmp a b \<le> 0 \<longleftrightarrow> f_le (range_max a) (range_max b)"
  using f_lt_iff [of "range_max a" "range_max b"] f_lt_iff [of "range_max b" "range_max a"] f_lt_le f_le_total [of "range_max a" "range_max b"]
  by (auto simp: range_cmp_def f_partial_cmp_def f_eq_def)

lemma sorted_ranges:
  assumes "mset rs = mset ss" "ascending ss"
  shows "sort_by range_cmp rs = ss"
proof (rule sorted_unique)
  have set: "set rs = set ss" using assms(1) by (rule mset_eq_setD)
  then have num: "\<forall>r \<in> set rs. is_num (range_max r)" using assms(2) by (simp add: ascending_def)
  show "sorted_wrt (\<lambda>a b. range_cmp a b \<le> 0) (sort_by range_cmp rs)"
    using num f_le_total by (intro sorted_sort_by) (auto simp: range_cmp_le intro: f_le_trans)
  show "sorted_wrt (\<lambda>a b. f_lt (range_max a) (range_max b)) ss" using assms(2) by (simp add: ascending_def)
  show "mset (sort_by range_cmp rs) = mset ss" using assms(1) by simp
  show "\<not> range_cmp b a \<le> 0" if "a \<in> set ss" "b \<in> set ss" "f_lt (range_max a) (range_max b)" for a b
    using that num set range_cmp_le f_lt_not_le by auto
qed

lemma f_max_num: "is_num x \<Longrightarrow> is_num y \<Longrightarrow> f_max x y = (if f_lt x y then y else x)"
  by (cases x; cases y) (auto simp: is_num_def)

lemma ranges_max_greatest:
  assumes "\<forall>r \<in> set rs. is_num (range_max r)"
  shows "is_num (ranges_max rs) \<and> (\<forall>r \<in> set rs. f_le (range_max r) (ranges_max rs))
    \<and> (ranges_max rs = Inf True \<or> (\<exists>r \<in> set rs. ranges_max rs = range_max r))"
  using assms
proof (induction rs rule: rev_induct)
  case Nil
  then show ?case by (simp add: ranges_max_def is_num_def)
next
  case (snoc r rs)
  let ?m = "ranges_max rs"
  have IH: "is_num ?m" "\<forall>r \<in> set rs. f_le (range_max r) ?m" "?m = Inf True \<or> (\<exists>r \<in> set rs. ?m = range_max r)"
    using snoc by simp_all
  have r: "is_num (range_max r)" using snoc.prems by simp
  have m: "ranges_max (rs @ [r]) = (if f_lt ?m (range_max r) then range_max r else ?m)"
    using f_max_num [OF IH(1) r] by (simp add: ranges_max_def)
  show ?case
  proof (cases "f_lt ?m (range_max r)")
    case True
    then have "\<forall>q \<in> set rs. f_le (range_max q) (range_max r)" using IH(2) f_le_trans f_lt_le by blast
    then show ?thesis using True r f_le_refl by (simp add: m)
  next
    case False
    then have "f_le (range_max r) ?m" using f_lt_iff [OF IH(1) r] by simp
    then show ?thesis using False IH by (auto simp: m)
  qed
qed

lemma ranges_max_last:
  assumes "mset rs = mset ss" "ascending ss" "ss \<noteq> []"
  shows "ranges_max rs = range_max (last ss)"
proof -
  have set: "set rs = set ss" using assms(1) by (rule mset_eq_setD)
  have num: "\<forall>r \<in> set rs. is_num (range_max r)" using assms(2) set by (simp add: ascending_def)
  note g = ranges_max_greatest [OF num]
  obtain init where ss: "ss = init @ [last ss]" using assms(3) by (metis append_butlast_last_id)
  have last: "last ss \<in> set rs" using assms(3) set by simp
  have below: "f_lt (range_max r) (range_max (last ss))" if "r \<in> set init" for r
    using assms(2) that by (subst (asm) ss) (auto simp: ascending_def sorted_wrt_append)
  from g consider "ranges_max rs = Inf True" | r where "r \<in> set rs" "ranges_max rs = range_max r" by blast
  then show ?thesis
  proof cases
    case 1
    then have "f_le (range_max (last ss)) (Inf True)" using g last by auto
    then show ?thesis using 1 by (cases "range_max (last ss)") auto
  next
    case 2
    show ?thesis
    proof (cases "r \<in> set init")
      case True
      then show ?thesis using below [OF True] g last 2(2) f_lt_not_le by metis
    next
      case False
      then have "r = last ss" using 2(1) set by (subst (asm) ss) (auto simp: set)
      then show ?thesis using 2 by simp
    qed
  qed
qed

text \<open>The range of a price: the first whose maximum is not below it; the range before it ends where it begins.\<close>

lemma find_range_nth:
  "k < length ss \<Longrightarrow> f_le price (range_max (ss ! k)) \<Longrightarrow> \<forall>j < k. \<not> f_le price (range_max (ss ! j)) \<Longrightarrow>
   find_range price mn ss = Some (step_bucket (if k = 0 then mn else range_max (ss ! (k - 1))) (range_increment (ss ! k)) price)"
proof (induction ss arbitrary: mn k)
  case (Cons r ss)
  show ?case
  proof (cases k)
    case (Suc j)
    have "\<not> f_le price (range_max r)" using Cons.prems(3) Suc by auto
    moreover have "find_range price (range_max r) ss
        = Some (step_bucket (if j = 0 then range_max r else range_max (ss ! (j - 1))) (range_increment (ss ! j)) price)"
      using Cons.prems Suc by (intro Cons.IH) auto
    ultimately show ?thesis using Suc by (cases j) simp_all
  qed (use Cons.prems in simp)
qed simp

lemma find_range_None: "find_range price mn ss = None \<longleftrightarrow> (\<forall>r \<in> set ss. \<not> f_le price (range_max r))"
  by (induction ss arbitrary: mn) auto

lemma not_le_earlier:
  assumes "ascending ss" "k < length ss" "k = 0 \<or> f_lt (range_max (ss ! (k - 1))) price" "j < k"
  shows "\<not> f_le price (range_max (ss ! j))"
proof -
  have "f_le (range_max (ss ! j)) (range_max (ss ! (k - 1)))"
  proof (cases "j = k - 1")
    case True
    then show ?thesis using assms by (auto simp: ascending_def intro!: f_le_refl)
  next
    case False
    then have "j < k - 1" using assms(4) by simp
    then show ?thesis using assms(1,2) f_lt_le by (auto simp: ascending_def sorted_wrt_iff_nth_less)
  qed
  then have "f_lt (range_max (ss ! j)) price" using assms(3,4) f_le_lt_trans by auto
  then show ?thesis by (rule f_lt_not_le)
qed

text \<open>The same ranges for the targeting builder, which names both ends.\<close>

fun contiguous :: "f64 \<Rightarrow> price_range list \<Rightarrow> granularity_range list" where
  "contiguous mn [] = []"
| "contiguous mn (r # rs) = \<lparr>gr_min = mn, gr_max = range_max r, gr_increment = range_increment r\<rparr> # contiguous (range_max r) rs"

lemma f_add_commute: "f_add x y = f_add y x"
  by (cases x; cases y) (auto simp: add.commute conj_commute simp del: sgnd.simps)

lemma target_range_contiguous:
  "is_num price \<Longrightarrow> f_le mn price \<Longrightarrow>
   \<forall>r \<in> set ss. is_num (range_max r) \<and> \<not> f_le (range_increment r) (Fin False 0) \<and> \<not> f_eq price (range_max r) \<Longrightarrow>
   target_range price (contiguous mn ss) = find_range price mn ss"
proof (induction ss arbitrary: mn)
  case (Cons r ss)
  have n: "is_num (range_max r)" "\<not> f_eq price (range_max r)" using Cons.prems by simp_all
  have lt: "f_lt price (range_max r) \<longleftrightarrow> f_le price (range_max r)"
    using n f_lt_iff [OF Cons.prems(1) n(1)] f_lt_le [of price "range_max r"] by (auto simp: f_eq_def)
  show ?case
  proof (cases "f_le price (range_max r)")
    case True
    then show ?thesis using Cons.prems lt by (simp add: step_bucket_def f_add_commute)
  next
    case False
    then have "f_le (range_max r) price" using f_le_total [OF Cons.prems(1) n(1)] by blast
    then show ?thesis using False Cons lt by simp
  qed
qed simp

lemma last_contiguous: "ss \<noteq> [] \<Longrightarrow> contiguous mn ss \<noteq> [] \<and> gr_max (last (contiguous mn ss)) = range_max (last ss)"
  by (induction ss arbitrary: mn) (auto split: if_splits elim: contiguous.elims)

lemma floor_steps:
  fixes p mn i :: rat
  assumes "0 < i" "n = \<lfloor>(p - mn) / i\<rfloor>"
  shows "of_int n * i + mn \<le> p \<and> p < of_int n * i + mn + i"
proof -
  have "of_int n \<le> (p - mn) / i" "(p - mn) / i < of_int n + 1" unfolding assms(2) by linarith+
  then have "of_int n * i \<le> p - mn" "p - mn < (of_int n + 1) * i" using assms(1) by (simp_all add: pos_le_divide_eq pos_divide_less_eq)
  then show ?thesis by (simp add: algebra_simps)
qed

text \<open>A step without rounding: the four operations of the bucket are exact.\<close>

definition exact_step :: "rat \<Rightarrow> rat \<Rightarrow> rat \<Rightarrow> bool" where
  "exact_step p mn i =
     (let n = of_int \<lfloor>(p - mn) / i\<rfloor>
      in f_sub (Fin False p) (Fin False mn) = Fin False (p - mn) \<and> f_div (Fin False (p - mn)) (Fin False i) = Fin False ((p - mn) / i)
         \<and> f_mul (Fin False n) (Fin False i) = Fin False (n * i) \<and> f_add (Fin False (n * i)) (Fin False mn) = Fin False (n * i + mn))"

lemma exact_bucket:
  assumes "0 < i" "mn \<le> p" "exact_step p mn i"
  shows "\<exists>b. step_bucket (Fin False mn) (Fin False i) (Fin False p) = Fin False b \<and> b \<le> p \<and> p < b + i"
proof -
  define n where "n = \<lfloor>(p - mn) / i\<rfloor>"
  have "0 \<le> n" using assms(1,2) by (simp add: n_def)
  then have "f_floor (Fin False ((p - mn) / i)) = Fin False (of_int n)" by (simp add: n_def)
  then have "step_bucket (Fin False mn) (Fin False i) (Fin False p) = Fin False (of_int n * i + mn)"
    using assms(3) by (simp only: step_bucket_def exact_step_def Let_def flip: n_def)
  then show ?thesis using floor_steps [OF assms(1) n_def] by simp
qed

lemma auction_bucket:
  assumes "mset (pg_ranges g) = mset ss" "ascending ss" "ss \<noteq> []" "is_num price"
  shows "price_granularity_bucket price (Some g) =
    fmt_fixed (case pg_precision g of None \<Rightarrow> 2 | Some d \<Rightarrow> d)
      (case find_range price (Fin False 0) ss of Some b \<Rightarrow> b | None \<Rightarrow> range_max (last ss))"
proof -
  have "pg_ranges g \<noteq> []" using assms(1,3) by auto
  moreover have "\<not> f_le price (range_max r)" if "f_lt (range_max (last ss)) price" "r \<in> set ss" for r
  proof -
    have "f_le (range_max r) (ranges_max (pg_ranges g))"
      using ranges_max_greatest [of "pg_ranges g"] assms(2) that(2) mset_eq_setD [OF assms(1)] by (auto simp: ascending_def)
    then show ?thesis using that(1) ranges_max_last [OF assms(1-3)] f_le_lt_trans f_lt_not_le by metis
  qed
  then have "find_range price (Fin False 0) ss = None" if "f_lt (range_max (last ss)) price"
    using that by (simp add: find_range_None)
  ultimately show ?thesis
    using ranges_max_last [OF assms(1-3)] sorted_ranges [OF assms(1,2)]
    by (auto simp: price_granularity_bucket_def Let_def split: option.split)
qed

section \<open>Properties\<close>

text \<open>Property C40.  The price bucket of the auction under ranges with ascending maxima, in whatever order the configuration lists them: a price
  above all ranges gets the last maximum, any other gets the bucket of the first range whose maximum it does not exceed, which starts where the range before it ends (the first
  one at zero): the start plus the whole number of increments below the price, rounded down; where the arithmetic of that step is exact the bucket is
  at most the price and less than one increment below it.  The targeting builder given the same ranges
  formats the same number for every price from zero on that is not itself a maximum.\<close>

theorem range_bucket_spec:
  assumes "mset (pg_ranges g) = mset ss" "ascending ss" "k < length ss" "is_num price"
    "f_le price (range_max (ss ! k))" "k = 0 \<or> f_lt (range_max (ss ! (k - 1))) price"
  shows "let prec = (case pg_precision g of None \<Rightarrow> 2 | Some d \<Rightarrow> d);
             mn = (if k = 0 then Fin False 0 else range_max (ss ! (k - 1)));
             inc = range_increment (ss ! k);
             bucket = f_add (f_mul (f_floor (f_div (f_sub price mn) inc)) inc) mn
         in price_granularity_bucket price (Some g) = fmt_fixed prec bucket
            \<and> (\<forall>x. f_lt (range_max (last ss)) x \<longrightarrow> price_granularity_bucket x (Some g) = fmt_fixed prec (range_max (last ss)))
            \<and> (\<forall>p m i. price = Fin False p \<and> mn = Fin False m \<and> inc = Fin False i \<and> 0 < i \<and> m \<le> p \<and> exact_step p m i
                 \<longrightarrow> (\<exists>b. bucket = Fin False b \<and> b \<le> p \<and> p < b + i))
            \<and> (\<forall>x. f_le (Fin False 0) x \<and> list_all (\<lambda>r. \<not> f_le (range_increment r) (Fin False 0) \<and> \<not> f_eq x (range_max r)) ss
                 \<longrightarrow> get_price_bucket x \<lparr>tg_precision = prec, tg_ranges = contiguous (Fin False 0) ss\<rparr> = price_granularity_bucket x (Some g))"
proof -
  have ne: "ss \<noteq> []" using assms(3) by auto
  have num: "\<forall>r \<in> set ss. is_num (range_max r)" using assms(2) by (simp add: ascending_def)
  define mn where "mn = (if k = 0 then Fin False 0 else range_max (ss ! (k - 1)))"
  define prec where "prec = (case pg_precision g of None \<Rightarrow> 2 | Some d \<Rightarrow> d)"
  define inc where "inc = range_increment (ss ! k)"
  have bucket: "f_add (f_mul (f_floor (f_div (f_sub price mn) inc)) inc) mn = step_bucket mn inc price" by (simp add: step_bucket_def)
  have "find_range price (Fin False 0) ss = Some (step_bucket mn inc price)"
    using find_range_nth [OF assms(3,5)] not_le_earlier [OF assms(2,3,6)] by (simp add: mn_def inc_def)
  then have "price_granularity_bucket price (Some g) = fmt_fixed prec (step_bucket mn inc price)"
    using auction_bucket [OF assms(1,2) ne assms(4)] by (simp add: prec_def)
  moreover have "price_granularity_bucket x (Some g) = fmt_fixed prec (range_max (last ss))" if "f_lt (range_max (last ss)) x" for x
  proof -
    have "f_lt (ranges_max (pg_ranges g)) x" using that ranges_max_last [OF assms(1,2) ne] by simp
    moreover have "pg_ranges g \<noteq> []" using assms(1) ne by auto
    ultimately show ?thesis using ranges_max_last [OF assms(1,2) ne] by (simp add: price_granularity_bucket_def prec_def)
  qed
  moreover have "\<exists>b. step_bucket mn inc price = Fin False b \<and> b \<le> p \<and> p < b + i"
    if "price = Fin False p \<and> mn = Fin False m \<and> inc = Fin False i \<and> 0 < i \<and> m \<le> p \<and> exact_step p m i" for p m i
    using exact_bucket [of i m p] that by simp
  moreover have "get_price_bucket x \<lparr>tg_precision = prec, tg_ranges = contiguous (Fin False 0) ss\<rparr> = price_granularity_bucket x (Some g)"
    if x: "f_le (Fin False 0) x" "list_all (\<lambda>r. \<not> f_le (range_increment r) (Fin False 0) \<and> \<not> f_eq x (range_max r)) ss" for x
  proof -
    have nx: "is_num x" using f_le_num [OF x(1)] by simp
    have "target_range x (contiguous (Fin False 0) ss) = find_range x (Fin False 0) ss"
      using num x nx by (intro target_range_contiguous) (auto simp: list_all_iff)
    moreover have "\<not> f_lt x (Fin False 0)" using x(1) f_lt_not_le by blast
    ultimately show ?thesis
      using auction_bucket [OF assms(1,2) ne nx] last_contiguous [OF ne, of "Fin False 0"]
      by (simp add: get_price_bucket_def target_bucket_def prec_def split: option.split)
  qed
  ultimately show ?thesis
    unfolding Let_def mn_def [symmetric] prec_def [symmetric] inc_def [symmetric] bucket by blast
qed

definition demo_ranges :: price_granularity where
  "demo_ranges = \<lparr>pg_precision = None, pg_ranges =
     [\<lparr>range_max = Fin False 10, range_increment = Fin False 1\<rparr>, \<lparr>range_max = Fin False 5, range_increment = Fin False (1 / 2)\<rparr>]\<rparr>"

theorem range_bucket_spec_witness:
  "\<exists>b. price_granularity_bucket (Fin False (27 / 4)) (Some demo_ranges) = fmt_fixed 2 (Fin False b) \<and> b \<le> 27 / 4 \<and> 27 / 4 < b + 1"
proof -
  let ?ss = "[\<lparr>range_max = Fin False 5, range_increment = Fin False (1 / 2)\<rparr>, \<lparr>range_max = Fin False 10, range_increment = Fin False 1\<rparr>]"
  have "mset (pg_ranges demo_ranges) = mset ?ss" "ascending ?ss" "(1 :: nat) < length ?ss" "is_num (Fin False (27 / 4))"
    "f_le (Fin False (27 / 4)) (range_max (?ss ! 1))" "(1 :: nat) = 0 \<or> f_lt (range_max (?ss ! (1 - 1))) (Fin False (27 / 4))"
    by (simp_all add: demo_ranges_def ascending_def is_num_def)
  note all = range_bucket_spec [OF this]
  have "f_sub (Fin False (27 / 4)) (Fin False 5) = Fin False (7 / 4)" "f_div (Fin False (7 / 4)) (Fin False 1) = Fin False (7 / 4)"
    "f_mul (Fin False 1) (Fin False 1) = Fin False 1" "f_add (Fin False 1) (Fin False 5) = Fin False 6"
    by (simp_all add: f_sub_def small_exact)
  moreover have "\<lfloor>(27 / 4 - 5) / 1 :: rat\<rfloor> = 1" by (simp add: floor_eq_iff)
  ultimately have exact: "exact_step (27 / 4) 5 1" unfolding exact_step_def Let_def by simp
  let ?b = "f_add (f_mul (f_floor (f_div (f_sub (Fin False (27 / 4)) (Fin False 5)) (Fin False 1))) (Fin False 1)) (Fin False 5)"
  have at: "(if (1 :: nat) = 0 then Fin False 0 else range_max (?ss ! (1 - 1))) = Fin False 5" "range_increment (?ss ! 1) = Fin False 1"
    "(case pg_precision demo_ranges of None \<Rightarrow> 2 | Some d \<Rightarrow> d) = 2" by (simp_all add: demo_ranges_def)
  note parts = all [unfolded Let_def at]
  have "price_granularity_bucket (Fin False (27 / 4)) (Some demo_ranges) = fmt_fixed 2 ?b" using parts by (rule conjunct1)
  moreover have "\<exists>b. ?b = Fin False b \<and> b \<le> 27 / 4 \<and> 27 / 4 < b + 1"
    using parts [THEN conjunct2, THEN conjunct2, THEN conjunct1, rule_format, of "27 / 4" 5 1] exact by simp
  ultimately show ?thesis by (metis (no_types))
qed
text \<open>Cent prices are not kept: a bid of 0.29 gets the bucket 0.28, because 0.29 times 100 is
  below 29 in binary64.  And the three routines disagree above the last range: the stand-alone one gives the
  zero bucket where the others give the maximum.\<close>

theorem bucket_loses_cent:
  "price_granularity_bucket (f_of (29 / 100)) None = ''0.28''
   \<and> get_price_bucket (Fin False 25) \<lparr>tg_precision = 2, tg_ranges = [\<lparr>gr_min = Fin False 0, gr_max = Fin False 20, gr_increment = Fin False 1\<rparr>]\<rparr> = ''20.00''
   \<and> module_price_bucket (Fin False 25) 2 [\<lparr>gr_min = Fin False 0, gr_max = Fin False 20, gr_increment = Fin False 1\<rparr>] = ''0.00''"
proof -
  have "rne (1261007895663739 / 4503599627370496 * 100) = 28" by code_simp
  then have "fmt_fixed 2 (Fin False (1261007895663739 / 4503599627370496)) = ''0.28''" by (simp add: fmt_eval)
  then have "price_granularity_bucket (f_of (29 / 100)) None = ''0.28''"
    by (simp only: price_granularity_bucket_def option.case bucket_29_cents)
  moreover have "get_price_bucket (Fin False 25) \<lparr>tg_precision = 2, tg_ranges = [\<lparr>gr_min = Fin False 0, gr_max = Fin False 20, gr_increment = Fin False 1\<rparr>]\<rparr> = ''20.00''"
    by (simp add: get_price_bucket_def target_bucket_def fmt_eval)
  moreover have "module_price_bucket (Fin False 25) 2 [\<lparr>gr_min = Fin False 0, gr_max = Fin False 20, gr_increment = Fin False 1\<rparr>] = ''0.00''"
    by code_simp
  ultimately show ?thesis by blast
qed

end
