(* ===== verification/Targeting.thy ===== *)
theory Targeting
  imports Bids PriceBucket
begin

text \<open>
  What the auction does with the accepted bids of all bidders, \<^verbatim>\<open>rust/crates/exchange/src/lib.rs\<close>: targeting keys per
  bidder, winners and their keys, ad server targeting rules (\<^verbatim>\<open>exchange/src/adserver_targeting.rs\<close>), category and
  duration keys, deal keys, extended bid adjustments, caching of the winners, and auction macros
  (\<^verbatim>\<open>exchange/src/macros.rs\<close>).  Targeting is a map from impressions to maps of keys; its order is never
  observed by the code, so the list order is immaterial.
\<close>

section \<open>Keys\<close>

type_synonym key_map = "(string \<times> string) list"
type_synonym targeting = "(string \<times> key_map) list"
type_synonym results = "(string \<times> typed_bid list) list"

definition set_key :: "string \<Rightarrow> string \<Rightarrow> string \<Rightarrow> targeting \<Rightarrow> targeting" where
  "set_key impid k v t = hm_insert impid (hm_insert k v (get_or [] t impid)) t"

definition default_key :: "string \<Rightarrow> string \<Rightarrow> string \<Rightarrow> targeting \<Rightarrow> targeting" where
  "default_key impid k v t = hm_insert impid (or_insert k v (get_or [] t impid)) t"

text \<open>A loop over all bids of all bidders.\<close>

definition for_bids :: "(string \<Rightarrow> typed_bid \<Rightarrow> 's \<Rightarrow> 's) \<Rightarrow> results \<Rightarrow> 's \<Rightarrow> 's" where
  "for_bids f results s = fold (\<lambda>(bidder_name, typed_bids). fold (f bidder_name) typed_bids) results s"

definition bid_adid_or_id :: "typed_bid \<Rightarrow> string" where
  "bid_adid_or_id tb = (case bid_adid (tb_bid tb) of Some a \<Rightarrow> a | None \<Rightarrow> tb_id tb)"

definition bidder_keys :: "price_granularity option \<Rightarrow> string \<Rightarrow> typed_bid \<Rightarrow> targeting \<Rightarrow> targeting" where
  "bidder_keys pg bidder_name tb t =
     set_key (tb_impid tb) (''hb_adid_'' @ bidder_name) (bid_adid_or_id tb)
       (set_key (tb_impid tb) (''hb_bidder_'' @ bidder_name) bidder_name
         (set_key (tb_impid tb) (''hb_pb_'' @ bidder_name) (price_granularity_bucket (tb_price tb) pg) t))"

section \<open>Winners\<close>

type_synonym winners = "(string \<times> f64 \<times> string \<times> string) list"

definition winner_step :: "string \<Rightarrow> typed_bid \<Rightarrow> winners \<Rightarrow> winners" where
  "winner_step bidder_name tb w =
     (let entry = get_or (Inf True, [], []) w (tb_impid tb)
      in hm_insert (tb_impid tb)
           (if f_lt (fst entry) (tb_price tb) then (tb_price tb, bidder_name, bid_adid_or_id tb) else entry) w)"

definition find_winners :: "results \<Rightarrow> winners" where
  "find_winners results = for_bids winner_step results []"

definition winner_keys :: "price_granularity option \<Rightarrow> string \<times> f64 \<times> string \<times> string \<Rightarrow> targeting \<Rightarrow> targeting" where
  "winner_keys pg w t =
     (case w of (impid, price, bidder_name, adid) \<Rightarrow>
        set_key impid ''hb_adid'' adid
          (set_key impid ''hb_bidder'' bidder_name
            (set_key impid ''hb_pb'' (price_granularity_bucket price pg) t)))"

definition target_winners :: "price_granularity option \<Rightarrow> results \<Rightarrow> targeting" where
  "target_winners pg results =
     fold (winner_keys pg) (find_winners results) (for_bids (bidder_keys pg) results [])"

section \<open>Ad server targeting rules\<close>

record ast_rule =
  ast_key :: string
  ast_source :: string
  ast_value :: string

definition extract_from_request :: "bid_request \<Rightarrow> string \<Rightarrow> string option" where
  "extract_from_request req path =
     (if path = ''site.page'' then Option.bind (req_site req) site_page
      else if path = ''site.domain'' then Option.bind (req_site req) site_domain
      else if path = ''app.bundle'' then Option.bind (req_app req) app_bundle
      else if path = ''user.id'' then Option.bind (req_user req) user_id
      else None)"

definition extract_from_bid :: "bid \<Rightarrow> string \<Rightarrow> string option" where
  "extract_from_bid b path =
     (if path = ''price'' then Some (fmt_display (bid_price b))
      else if path = ''id'' then Some (bid_id b)
      else if path = ''adid'' then bid_adid b
      else None)"

definition ast_rule_value :: "bid_request \<Rightarrow> bid option \<Rightarrow> ast_rule \<Rightarrow> string option" where
  "ast_rule_value req b rule =
     (if ast_source rule = ''static'' then Some (ast_value rule)
      else if ast_source rule = ''bidrequest'' then extract_from_request req (ast_value rule)
      else if ast_source rule = ''bidresponse'' then Option.bind b (\<lambda>b. extract_from_bid b (ast_value rule))
      else None)"

definition apply_adserver_targeting :: "ast_rule list \<Rightarrow> bid_request \<Rightarrow> bid option \<Rightarrow> key_map" where
  "apply_adserver_targeting rules req b =
     fold (\<lambda>rule acc. case ast_rule_value req b rule of Some v \<Rightarrow> hm_insert (ast_key rule) v acc | None \<Rightarrow> acc) rules []"

definition ast_keys :: "ast_rule list \<Rightarrow> bid_request \<Rightarrow> string \<Rightarrow> typed_bid \<Rightarrow> targeting \<Rightarrow> targeting" where
  "ast_keys rules req bidder_name tb t =
     hm_insert (tb_impid tb)
       (fold (\<lambda>(k, v). hm_insert k v) (apply_adserver_targeting rules req (Some (tb_bid tb))) (get_or [] t (tb_impid tb))) t"

definition target_ast :: "ast_rule list \<Rightarrow> bid_request \<Rightarrow> results \<Rightarrow> targeting \<Rightarrow> targeting" where
  "target_ast rules req results t = (if rules \<noteq> [] then for_bids (ast_keys rules req) results t else t)"

section \<open>Category and duration keys\<close>

definition i32_cast :: "int \<Rightarrow> int" where
  "i32_cast x = (x - i32_min) mod 2 ^ 32 + i32_min"

definition bid_duration :: "typed_bid \<Rightarrow> int option" where
  "bid_duration tb =
     map_option i32_cast (Option.bind (jpath (bid_jext (tb_bid tb)) [''prebid'', ''video'', ''duration'']) as_i64)"

definition first_cat :: "typed_bid \<Rightarrow> string" where
  "first_cat tb = (case bid_cat (tb_bid tb) of Some (c # _) \<Rightarrow> c | _ \<Rightarrow> ''uncategorized'')"

definition category_keys :: "price_granularity option \<Rightarrow> string \<Rightarrow> typed_bid \<Rightarrow> targeting \<Rightarrow> targeting" where
  "category_keys pg bidder_name tb t =
     (if tb_bid_type tb \<noteq> BtVideo then t
      else case bid_duration tb of
             Some d \<Rightarrow>
               if d > 0
               then let cat_dur = price_granularity_bucket (tb_price tb) pg @ ''_'' @ first_cat tb @ ''_'' @ show_int d
                    in default_key (tb_impid tb) ''hb_pb_cat_dur'' cat_dur
                         (set_key (tb_impid tb) (''hb_pb_cat_dur_'' @ bidder_name) cat_dur t)
               else t
           | None \<Rightarrow> t)"

definition target_categories :: "bool \<Rightarrow> price_granularity option \<Rightarrow> results \<Rightarrow> targeting \<Rightarrow> targeting" where
  "target_categories include_brand_category pg results t =
     (if include_brand_category then for_bids (category_keys pg) results t else t)"

section \<open>Deals\<close>

record deal_tier =
  dt_prefix :: "string option"
  dt_min_deal_tier :: "int option"

type_synonym deal_tiers = "(string \<times> (string \<times> deal_tier) list) list"

definition deal_tier_step :: "(json \<Rightarrow> deal_tier option) \<Rightarrow> string \<Rightarrow> deal \<Rightarrow> deal_tiers \<Rightarrow> deal_tiers" where
  "deal_tier_step de impid d acc =
     (case Option.bind (jpath (deal_jext d) [''prebid'', ''dealTier'']) de of
        Some t \<Rightarrow> hm_insert impid (hm_insert (deal_id d) t (get_or [] acc impid)) acc
      | None \<Rightarrow> acc)"

definition imp_deal_tiers :: "(json \<Rightarrow> deal_tier option) \<Rightarrow> imp list \<Rightarrow> deal_tiers" where
  "imp_deal_tiers de imps =
     fold (\<lambda>i acc. case imp_pmp i of
                     Some p \<Rightarrow> fold (deal_tier_step de (imp_id i)) (pmp_deals p) acc | None \<Rightarrow> acc) imps []"

definition deal_priority :: "typed_bid \<Rightarrow> int" where
  "deal_priority tb =
     (case Option.bind (jpath (bid_jext (tb_bid tb)) [''prebid'', ''dealpriority'']) as_i64 of
        Some v \<Rightarrow> i32_cast v | None \<Rightarrow> 0)"

definition after_underscore :: "string \<Rightarrow> string option" where
  "after_underscore s = (case dropWhile (\<lambda>c. c \<noteq> CHR ''_'') s of [] \<Rightarrow> None | _ # rest \<Rightarrow> Some rest)"

definition tier_keys :: "deal_tier \<Rightarrow> string \<Rightarrow> typed_bid \<Rightarrow> targeting \<Rightarrow> targeting" where
  "tier_keys tier bidder_name tb t =
     (let min_tier = (case dt_min_deal_tier tier of None \<Rightarrow> 0 | Some m \<Rightarrow> m);
          prefix = (case dt_prefix tier of None \<Rightarrow> [] | Some p \<Rightarrow> p)
      in if prefix \<noteq> [] \<and> min_tier > 0 \<and> min_tier \<le> deal_priority tb
         then case Option.bind (map_of (get_or [] t (tb_impid tb)) (''hb_pb_cat_dur_'' @ bidder_name)) after_underscore of
                Some rest \<Rightarrow>
                  set_key (tb_impid tb) (''hb_pb_cat_dur_'' @ bidder_name)
                    (prefix @ show_int (deal_priority tb) @ ''_'' @ rest) t
              | None \<Rightarrow> t
         else t)"

definition deal_keys :: "deal_tiers \<Rightarrow> string \<Rightarrow> typed_bid \<Rightarrow> targeting \<Rightarrow> targeting" where
  "deal_keys tiers bidder_name tb t =
     (case bid_dealid (tb_bid tb) of
        Some did \<Rightarrow>
          if did \<noteq> []
          then let t = default_key (tb_impid tb) ''hb_deal'' did
                         (set_key (tb_impid tb) (''hb_deal_'' @ bidder_name) did t)
               in case Option.bind (map_of tiers (tb_impid tb)) (\<lambda>m. map_of m did) of
                    Some tier \<Rightarrow> tier_keys tier bidder_name tb t
                  | None \<Rightarrow> t
          else t
      | None \<Rightarrow> t)"

definition target_deals :: "deal_tiers \<Rightarrow> results \<Rightarrow> targeting \<Rightarrow> targeting" where
  "target_deals tiers results t = for_bids (deal_keys tiers) results t"

section \<open>Extended bid adjustments\<close>

record adjustment =
  adj_type :: string
  adj_value :: f64
  adj_currency :: "string option"

type_synonym adjustment_rules = "(string \<times> (string \<times> adjustment list) list) list"

fun apply_first_adjustment :: "adjustment list \<Rightarrow> f64 \<Rightarrow> f64" where
  "apply_first_adjustment [] price = price"
| "apply_first_adjustment (a # as) price =
     (if adj_type a = ''multiplier'' then f_mul price (adj_value a)
      else if adj_type a = ''static'' then adj_value a
      else if adj_type a = ''cpm'' then f_add price (adj_value a)
      else apply_first_adjustment as price)"

definition or_wildcard :: "(string \<times> 'a) list \<Rightarrow> string \<Rightarrow> 'a option" where
  "or_wildcard m k = (case map_of m k of Some v \<Rightarrow> Some v | None \<Rightarrow> map_of m ''*'')"

definition adjust_bid :: "(string \<times> adjustment list) list \<Rightarrow> typed_bid \<Rightarrow> typed_bid" where
  "adjust_bid bidder_rules tb =
     (case or_wildcard bidder_rules (case bid_dealid (tb_bid tb) of None \<Rightarrow> ''*'' | Some d \<Rightarrow> d) of
        Some adjustments \<Rightarrow> set_price (apply_first_adjustment adjustments (tb_price tb)) tb
      | None \<Rightarrow> tb)"

definition adjust_results :: "adjustment_rules option \<Rightarrow> results \<Rightarrow> results" where
  "adjust_results rules results =
     (case rules of
        None \<Rightarrow> results
      | Some bidders_map \<Rightarrow>
          map (\<lambda>(bidder_name, tbs).
                 case or_wildcard bidders_map bidder_name of
                   Some bidder_rules \<Rightarrow> (bidder_name, map (adjust_bid bidder_rules) tbs)
                 | None \<Rightarrow> (bidder_name, tbs)) results)"

section \<open>Caching the winners\<close>

text \<open>The cache is a service: the identifier it returns for the \<open>n\<close>-th value put, and the URL of an identifier.\<close>

record cache_client =
  put_json :: "nat \<Rightarrow> json \<Rightarrow> nat \<Rightarrow> string option"
  get_url :: "string \<Rightarrow> string"

definition cache_keys :: "cache_client \<Rightarrow> nat \<Rightarrow> string \<Rightarrow> string \<Rightarrow> json \<Rightarrow> targeting \<Rightarrow> targeting" where
  "cache_keys cache n impid bidder_name bid_json t =
     (case put_json cache n bid_json 300 of
        Some cache_id \<Rightarrow>
          (let t = set_key impid (''hb_cache_id_'' @ bidder_name) cache_id (set_key impid ''hb_cache_id'' cache_id t)
           in if get_url cache cache_id \<noteq> [] then set_key impid ''hb_cache_host'' (get_url cache cache_id) t else t)
      | None \<Rightarrow> t)"

definition winning_bid :: "results \<Rightarrow> string \<Rightarrow> string \<Rightarrow> typed_bid option" where
  "winning_bid results bidder_name impid =
     Option.bind (List.find (\<lambda>(bn, _). bn = bidder_name) results)
       (\<lambda>(_, bids). List.find (\<lambda>tb. tb_impid tb = impid) bids)"

fun cache_winners :: "(bid \<Rightarrow> json option) \<Rightarrow> cache_client \<Rightarrow> results \<Rightarrow> winners \<Rightarrow> nat \<Rightarrow> targeting \<Rightarrow> targeting" where
  "cache_winners en cache results [] n t = t"
| "cache_winners en cache results ((impid, _, bidder_name, _) # ws) n t =
     (case winning_bid results bidder_name impid of
        Some tb \<Rightarrow>
          cache_winners en cache results ws (Suc n)
            (cache_keys cache n impid bidder_name (case en (tb_bid tb) of None \<Rightarrow> JNull | Some j \<Rightarrow> j) t)
      | None \<Rightarrow> cache_winners en cache results ws n t)"

definition target_cache ::
  "(bid \<Rightarrow> json option) \<Rightarrow> cache_client option \<Rightarrow> (string list \<Rightarrow> string list) \<Rightarrow> bool \<Rightarrow> results \<Rightarrow> winners \<Rightarrow> targeting \<Rightarrow> targeting" where
  "target_cache en cache ord cache_bids_enabled results winners t =
     (if cache_bids_enabled
      then case cache of Some c \<Rightarrow> cache_winners en c results (hm_iter ord winners) 0 t | None \<Rightarrow> t
      else t)"

section \<open>Macros\<close>

record macro_values =
  mv_auction_price :: f64
  mv_auction_currency :: string
  mv_auction_id :: string
  mv_bidder_name :: string
  mv_imp_id :: string
  mv_timeout :: nat
  mv_ad_markup :: "string option"

definition replace_macros :: "string \<Rightarrow> macro_values \<Rightarrow> string" where
  "replace_macros template v =
     (let price_str_4 = fmt_fixed 4 (mv_auction_price v);
          price_str_2 = fmt_fixed 2 (mv_auction_price v)
      in str_replace ''${AUCTION_AD_ID}'' (case mv_ad_markup v of None \<Rightarrow> [] | Some m \<Rightarrow> m)
          (str_replace ''${AUCTION_SEAT_ID}'' (mv_bidder_name v)
            (str_replace ''${AUCTION_IMP_ID}'' (mv_imp_id v)
              (str_replace ''${AUCTION_BID_ID}'' (mv_imp_id v)
                (str_replace ''${AUCTION_ID}'' (mv_auction_id v)
                  (str_replace ''${AUCTION_CURRENCY}'' (mv_auction_currency v)
                    (str_replace ''${AUCTION_PRICE:2}'' price_str_2
                      (str_replace ''%24%7BAUCTION_PRICE%7D'' price_str_4
                        (str_replace ''${AUCTION_PRICE}'' price_str_4 template)))))))))"

definition apply_bid_macros :: "macro_values \<Rightarrow> bid \<Rightarrow> bid" where
  "apply_bid_macros v b =
     b\<lparr>bid_nurl := map_option (\<lambda>s. replace_macros s v) (bid_nurl b),
       bid_burl := map_option (\<lambda>s. replace_macros s v) (bid_burl b),
       bid_adm := map_option (\<lambda>s. if str_contains ''${AUCTION_PRICE}'' s \<or> str_contains ''%24%7BAUCTION_PRICE%7D'' s
                                   then replace_macros s v else s) (bid_adm b)\<rparr>"

section \<open>Lemmas: keys\<close>

definition get_key :: "targeting \<Rightarrow> string \<Rightarrow> string \<Rightarrow> string option" where
  "get_key t impid k = Option.bind (map_of t impid) (\<lambda>m. map_of m k)"

lemma get_key_Nil [simp]: "get_key [] i k = None"
  by (simp add: get_key_def)

lemma get_key_set_key [simp]:
  "get_key (set_key i v w t) i' k = (if i' = i \<and> k = v then Some w else get_key t i' k)"
  by (auto simp: get_key_def set_key_def hm.get_insert get_or_def split: option.splits)

definition all_bids :: "results \<Rightarrow> (string \<times> typed_bid) list" where
  "all_bids results = concat (map (\<lambda>(n, tbs). map (Pair n) tbs) results)"

lemma for_bids_eq: "for_bids f results s = fold (\<lambda>(n, tb). f n tb) (all_bids results) s"
proof (induction results arbitrary: s)
  case (Cons r results)
  have "fold (f n) tbs s = fold (\<lambda>(n, tb). f n tb) (map (Pair n) tbs) s" for n tbs s
    by (induction tbs arbitrary: s) simp_all
  then show ?case
    using Cons by (cases r) (simp add: for_bids_def all_bids_def)
qed (simp add: for_bids_def all_bids_def)

lemma bidder_keys_other:
  "k \<in> {''hb_pb'', ''hb_bidder'', ''hb_adid''} \<Longrightarrow> get_key (fold (\<lambda>(n, tb). bidder_keys pg n tb) bs t) i k = get_key t i k"
  by (induction bs arbitrary: t) (auto simp: bidder_keys_def)

lemma winner_keys_get:
  "distinct (map fst ws) \<Longrightarrow>
   get_key (fold (winner_keys pg) ws t) i k =
     (case map_of ws i of
        Some (p, n, a) \<Rightarrow>
          if k = ''hb_pb'' then Some (price_granularity_bucket p pg)
          else if k = ''hb_bidder'' then Some n
          else if k = ''hb_adid'' then Some a else get_key t i k
      | None \<Rightarrow> get_key t i k)"
proof (induction ws arbitrary: t)
  case (Cons w ws)
  obtain j p n a where w: "w = (j, p, n, a)" by (metis prod.exhaust)
  have "map_of ws j = None" using Cons.prems by (simp add: w map_of_eq_None_iff)
  then show ?case using Cons by (auto simp: w winner_keys_def split: option.splits prod.splits)
qed simp

section \<open>Lemmas: winners\<close>

definition better :: "string \<times> typed_bid \<Rightarrow> f64 \<times> string \<times> string \<Rightarrow> f64 \<times> string \<times> string" where
  "better b e = (if f_lt (fst e) (tb_price (snd b)) then (tb_price (snd b), fst b, bid_adid_or_id (snd b)) else e)"

definition bids_of :: "string \<Rightarrow> (string \<times> typed_bid) list \<Rightarrow> (string \<times> typed_bid) list" where
  "bids_of i bs = filter (\<lambda>b. tb_impid (snd b) = i) bs"

lemma winner_step_get:
  "map_of (winner_step n tb w) i =
     (if tb_impid tb = i then Some (better (n, tb) (get_or (Inf True, [], []) w i)) else map_of w i)"
  by (auto simp: winner_step_def better_def hm.get_insert Let_def)

lemma winners_get:
  "map_of (fold (\<lambda>(n, tb). winner_step n tb) bs w) i =
     (if bids_of i bs = [] then map_of w i else Some (fold better (bids_of i bs) (get_or (Inf True, [], []) w i)))"
proof (induction bs arbitrary: w)
  case (Cons b bs)
  obtain n tb where b: "b = (n, tb)" by (cases b)
  show ?case
    using Cons [of "winner_step n tb w"] by (auto simp: b bids_of_def winner_step_get get_or_def)
qed (simp add: bids_of_def)

lemma winners_wf: "hm_wf w \<Longrightarrow> hm_wf (fold (\<lambda>(n, tb). winner_step n tb) bs w)"
  by (induction bs arbitrary: w) (auto simp: winner_step_def Let_def hm.wf_insert)

lemma fold_better_first:
  "is_num (fst e) \<Longrightarrow> \<forall>b \<in> set bs. is_num (tb_price (snd b)) \<Longrightarrow>
   fold better bs e = e \<and> (\<forall>b \<in> set bs. f_le (tb_price (snd b)) (fst e)) \<or>
   (\<exists>xs b ys. bs = xs @ b # ys \<and> fold better bs e = (tb_price (snd b), fst b, bid_adid_or_id (snd b))
      \<and> f_lt (fst e) (tb_price (snd b))
      \<and> list_all (\<lambda>b'. f_lt (tb_price (snd b')) (tb_price (snd b))) xs
      \<and> list_all (\<lambda>b'. f_le (tb_price (snd b')) (tb_price (snd b))) ys)"
proof (induction bs arbitrary: e)
  case (Cons c bs)
  let ?e = "better c e" and ?p = "\<lambda>b. tb_price (snd b)"
  have num: "is_num (fst ?e)" "is_num (?p c)" using Cons.prems by (auto simp: better_def)
  have raise: "f_lt (fst ?e) x \<Longrightarrow> f_lt (fst e) x \<and> f_lt (?p c) x" for x
    using Cons.prems f_lt_trans [of "fst e" "?p c" x] f_le_lt_trans [of "?p c" "fst e" x] f_lt_iff [of "fst e" "?p c"]
    by (auto simp: better_def split: if_splits)
  consider (same) "fold better bs ?e = ?e" "\<forall>b \<in> set bs. f_le (?p b) (fst ?e)"
    | (later) xs b ys where "bs = xs @ b # ys" "fold better bs ?e = (?p b, fst b, bid_adid_or_id (snd b))"
        "f_lt (fst ?e) (?p b)" "list_all (\<lambda>b'. f_lt (?p b') (?p b)) xs" "list_all (\<lambda>b'. f_le (?p b') (?p b)) ys"
    using Cons.IH [OF num(1)] Cons.prems by auto
  then show ?case
  proof cases
    case same
    show ?thesis
    proof (cases "f_lt (fst e) (?p c)")
      case True
      then have "?e = (?p c, fst c, bid_adid_or_id (snd c))" by (simp add: better_def)
      then have "c # bs = [] @ c # bs \<and> fold better (c # bs) e = (?p c, fst c, bid_adid_or_id (snd c))
          \<and> list_all (\<lambda>b'. f_le (?p b') (?p c)) bs"
        using same by (simp add: list_all_iff)
      then show ?thesis using True by (metis list.pred_inject(1))
    next
      case False
      then have "?e = e" "f_le (?p c) (fst e)" using Cons.prems by (simp_all add: better_def f_lt_iff)
      then show ?thesis using same by simp
    qed
  next
    case later
    then have "c # bs = (c # xs) @ b # ys \<and> fold better (c # bs) e = (?p b, fst b, bid_adid_or_id (snd b))
        \<and> list_all (\<lambda>b'. f_lt (?p b') (?p b)) (c # xs)"
      using raise [OF later(3)] by simp
    then show ?thesis using later(5) raise [OF later(3)] by blast
  qed
qed simp

section \<open>Lemmas: macros\<close>

lemma str_replace_skip:
  "pat \<noteq> [] \<Longrightarrow> hd pat \<notin> set s \<Longrightarrow> str_replace pat rep (s @ t) = s @ str_replace pat rep t"
proof (induction s)
  case (Cons c s)
  then have "\<not> is_prefix pat (c # s @ t)" by (cases pat) auto
  then show ?case using Cons by (simp add: str_replace.simps [of pat rep "c # s @ t"])
qed simp

lemma str_replace_none: "pat \<noteq> [] \<Longrightarrow> hd pat \<notin> set s \<Longrightarrow> str_replace pat rep s = s"
  using str_replace_skip [of pat s rep "[]"] by simp

lemma is_prefix_append [simp]: "is_prefix p (p @ s)"
  by (induction p) simp_all

lemma str_replace_hit: "pat \<noteq> [] \<Longrightarrow> str_replace pat rep (pat @ s) = rep @ str_replace pat rep s"
  by (cases pat) (simp_all add: str_replace.simps [of pat rep "pat @ s"] str_replace.simps [of _ rep "_ # _ @ s"])

lemma digit_char_plain: "d < 10 \<Longrightarrow> digit_char d \<noteq> CHR ''$'' \<and> digit_char d \<noteq> CHR ''%''"
proof -
  assume "d < 10"
  then have "of_char (digit_char d) = (48 + d :: nat)" by (simp add: digit_char_def)
  moreover have "of_char (CHR ''$'') = (36 :: nat)" "of_char (CHR ''%'') = (37 :: nat)" by simp_all
  ultimately show ?thesis by auto
qed

definition plain :: "string \<Rightarrow> bool" where
  "plain s \<longleftrightarrow> CHR ''$'' \<notin> set s \<and> CHR ''%'' \<notin> set s"

lemma show_nat_plain: "plain (show_nat n)"
proof (induction n rule: show_nat.induct)
  case (1 n)
  show ?case
    using 1 digit_char_plain [of n] digit_char_plain [of "n mod 10"]
    by (subst show_nat.simps) (auto simp: plain_def)
qed

lemma fmt_fixed_plain: "plain (fmt_fixed n x)"
proof (cases x)
  case (Fin s q)
  have "plain (show_nat a @ (if n = 0 then [] else CHR ''.'' # pad_left n (show_nat b)))" for a b
    using show_nat_plain [of a] show_nat_plain [of b] by (auto simp: plain_def pad_left_def)
  then have "plain (fixed_digits n q)" by (simp add: fixed_digits_def split_digits_def)
  then show ?thesis by (simp add: Fin plain_def)
qed (simp_all add: plain_def)

lemma replace_plain: "plain s \<Longrightarrow> str_replace (CHR ''$'' # p) rep s = s" "plain s \<Longrightarrow> str_replace (CHR ''%'' # p) rep s = s"
  by (simp_all add: str_replace_none plain_def)

lemma plain_append: "plain (s @ t) \<longleftrightarrow> plain s \<and> plain t"
  by (auto simp: plain_def)

section \<open>Properties\<close>

text \<open>Property C39.  The winner of an impression is the first of its bids whose price no bid exceeds: every
  earlier bid for the impression is strictly cheaper and no later one is dearer.  The unsuffixed targeting keys are
  the winner's price bucket, bidder and creative id; an impression without bids has no winner and none of these
  keys.  The prices are numbers other than NaN and minus infinity.\<close>

theorem winner_spec:
  assumes "\<forall>b \<in> set (all_bids results). f_lt (Inf True) (tb_price (snd b))"
  shows "case map_of (find_winners results) i of
      None \<Rightarrow> bids_of i (all_bids results) = []
        \<and> get_key (target_winners pg results) i ''hb_pb'' = None
        \<and> get_key (target_winners pg results) i ''hb_bidder'' = None
        \<and> get_key (target_winners pg results) i ''hb_adid'' = None
    | Some (p, n, a) \<Rightarrow>
        (\<exists>xs b ys. bids_of i (all_bids results) = xs @ b # ys
           \<and> p = tb_price (snd b) \<and> n = fst b \<and> a = bid_adid_or_id (snd b)
           \<and> list_all (\<lambda>b'. f_lt (tb_price (snd b')) p) xs
           \<and> list_all (\<lambda>b'. f_le (tb_price (snd b')) p) ys)
        \<and> get_key (target_winners pg results) i ''hb_pb'' = Some (price_granularity_bucket p pg)
        \<and> get_key (target_winners pg results) i ''hb_bidder'' = Some n
        \<and> get_key (target_winners pg results) i ''hb_adid'' = Some a"
proof -
  define bs where "bs = bids_of i (all_bids results)"
  have get: "map_of (find_winners results) i = (if bs = [] then None else Some (fold better bs (Inf True, [], [])))"
    by (simp add: find_winners_def for_bids_eq winners_get bs_def get_or_def)
  have wf: "distinct (map fst (find_winners results))"
    using winners_wf [of "[]" "all_bids results"] by (simp add: find_winners_def for_bids_eq hm_wf_def)
  have keys: "get_key (target_winners pg results) i k =
     (case map_of (find_winners results) i of
        Some (p, n, a) \<Rightarrow>
          if k = ''hb_pb'' then Some (price_granularity_bucket p pg)
          else if k = ''hb_bidder'' then Some n
          else if k = ''hb_adid'' then Some a else None
      | None \<Rightarrow> None)" if "k \<in> {''hb_pb'', ''hb_bidder'', ''hb_adid''}" for k
    using bidder_keys_other [OF that, of pg "all_bids results" "[]" i]
    by (auto simp: target_winners_def winner_keys_get [OF wf] for_bids_eq split: option.splits prod.splits)
  show ?thesis
  proof (cases "bs = []")
    case True
    then show ?thesis using get keys by (simp add: bs_def)
  next
    case False
    have lt: "\<forall>b \<in> set bs. f_lt (Inf True) (tb_price (snd b))" using assms by (simp add: bs_def bids_of_def)
    then have "\<forall>b \<in> set bs. is_num (tb_price (snd b))" using f_lt_num by blast
    moreover have "\<not> (\<forall>b \<in> set bs. f_le (tb_price (snd b)) (Inf True))"
      using False lt f_lt_not_le by (cases bs) auto
    ultimately obtain xs b ys where w: "bs = xs @ b # ys"
        "fold better bs (Inf True, [], []) = (tb_price (snd b), fst b, bid_adid_or_id (snd b))"
        "list_all (\<lambda>b'. f_lt (tb_price (snd b')) (tb_price (snd b))) xs"
        "list_all (\<lambda>b'. f_le (tb_price (snd b')) (tb_price (snd b))) ys"
      using fold_better_first [of "(Inf True, [], [])" bs] by (auto simp: is_num_def)
    have "\<exists>xs' b' ys'. bs = xs' @ b' # ys' \<and> tb_price (snd b) = tb_price (snd b') \<and> fst b = fst b'
         \<and> bid_adid_or_id (snd b) = bid_adid_or_id (snd b')
         \<and> list_all (\<lambda>b'. f_lt (tb_price (snd b')) (tb_price (snd b))) xs'
         \<and> list_all (\<lambda>b'. f_le (tb_price (snd b')) (tb_price (snd b))) ys'"
      using w by (intro exI [of _ xs] exI [of _ b] exI [of _ ys]) simp
    then show ?thesis
      using keys [of "''hb_pb''"] keys [of "''hb_bidder''"] keys [of "''hb_adid''"] False
      by (simp add: get w(2) flip: bs_def)
  qed
qed

theorem winner_spec_witness:
  "get_key (target_winners None [(''a'', [sample_bid ''x'' 3]), (''b'', [sample_bid ''y'' 4, sample_bid ''z'' 4])]) ''i'' ''hb_adid'' = Some ''y''"
proof -
  let ?r = "[(''a'', [sample_bid ''x'' 3]), (''b'', [sample_bid ''y'' 4, sample_bid ''z'' 4])]"
  have "\<forall>b \<in> set (all_bids ?r). f_lt (Inf True) (tb_price (snd b))"
    by (simp add: all_bids_def sample_bid_def typed_bid_new_def)
  moreover have "map_of (find_winners ?r) ''i'' = Some (Fin False 4, ''b'', ''y'')" by code_simp
  ultimately show ?thesis using winner_spec [of ?r "''i''" None] by simp
qed

text \<open>A bid whose price is not a number wins nothing but still produces winner keys: the
  bidder is the empty string and the bucket is minus infinity.\<close>

theorem nan_price_empty_winner:
  "find_winners [(''a'', [set_price NaN (sample_bid ''x'' 3)])] = [(''i'', Inf True, [], [])]
   \<and> get_key (target_winners None [(''a'', [set_price NaN (sample_bid ''x'' 3)])]) ''i'' ''hb_bidder'' = Some []
   \<and> get_key (target_winners None [(''a'', [set_price NaN (sample_bid ''x'' 3)])]) ''i'' ''hb_pb'' = Some ''-inf''
   \<and> validate_bids [set_price NaN (sample_bid ''x'' 3)] [sample_imp] = [set_price NaN (sample_bid ''x'' 3)]"
proof -
  have fw: "find_winners [(''a'', [set_price NaN (sample_bid ''x'' 3)])] = [(''i'', Inf True, [], [])]" by code_simp
  have inf: "price_granularity_bucket (Inf True) None = ''-inf''"
    by (simp add: price_granularity_bucket_def default_bucket_def)
  have "get_key (target_winners None [(''a'', [set_price NaN (sample_bid ''x'' 3)])]) ''i'' ''hb_bidder'' = Some []"
    "get_key (target_winners None [(''a'', [set_price NaN (sample_bid ''x'' 3)])]) ''i'' ''hb_pb'' = Some ''-inf''"
    unfolding target_winners_def fw by (simp_all add: winner_keys_def inf)
  moreover have "validate_bids [set_price NaN (sample_bid ''x'' 3)] [sample_imp] = [set_price NaN (sample_bid ''x'' 3)]"
    by code_simp
  ultimately show ?thesis using fw by blast
qed

text \<open>Macro replacement: text without the macro characters is kept, and a price macro, plain or
  URL-encoded, becomes the price with four digits wherever it stands.\<close>

theorem price_macro_replaced:
  assumes "plain pre" "plain post"
  shows "replace_macros pre v = pre
    \<and> replace_macros (pre @ ''${AUCTION_PRICE}'' @ post) v = pre @ fmt_fixed 4 (mv_auction_price v) @ post
    \<and> replace_macros (pre @ ''%24%7BAUCTION_PRICE%7D'' @ post) v = pre @ fmt_fixed 4 (mv_auction_price v) @ post"
proof -
  define price where "price = fmt_fixed 4 (mv_auction_price v)"
  have pl: "plain (pre @ price @ post)"
    using assms fmt_fixed_plain by (simp add: plain_append price_def)
  have d: "CHR ''$'' \<notin> set pre" "CHR ''%'' \<notin> set pre" "CHR ''$'' \<notin> set post" "CHR ''%'' \<notin> set post"
    using assms by (simp_all add: plain_def)
  have one: "str_replace ''${AUCTION_PRICE}'' price (pre @ ''${AUCTION_PRICE}'' @ post) = pre @ price @ post"
    using d str_replace_hit [of "''${AUCTION_PRICE}''" price post]
    by (simp add: str_replace_skip replace_plain(1) [OF assms(2)])
  have enc0: "str_replace ''${AUCTION_PRICE}'' price (pre @ ''%24%7BAUCTION_PRICE%7D'' @ post) = pre @ ''%24%7BAUCTION_PRICE%7D'' @ post"
    using d by (intro str_replace_none) simp_all
  have enc: "str_replace ''%24%7BAUCTION_PRICE%7D'' price (pre @ ''%24%7BAUCTION_PRICE%7D'' @ post) = pre @ price @ post"
    using d str_replace_hit [of "''%24%7BAUCTION_PRICE%7D''" price post]
    by (simp add: str_replace_skip replace_plain(2) [OF assms(2)])
  show ?thesis
    unfolding replace_macros_def Let_def price_def [symmetric] one enc0 enc
    by (simp only: replace_plain [OF pl] replace_plain [OF assms(1)] simp_thms)
qed

theorem price_macro_replaced_witness:
  "replace_macros (''win?p='' @ ''${AUCTION_PRICE}'' @ ''&x'') \<lparr>mv_auction_price = Fin False (3 / 2), mv_auction_currency = ''USD'',
      mv_auction_id = ''r'', mv_bidder_name = ''b'', mv_imp_id = ''i'', mv_timeout = 0, mv_ad_markup = None\<rparr>
    = ''win?p=1.5000&x''"
proof -
  have p: "plain ''win?p=''" "plain ''&x''" by (simp_all add: plain_def)
  have f: "fmt_fixed 4 (Fin False (3 / 2)) = ''1.5000''" by (simp add: fmt_eval)
  show ?thesis
    unfolding price_macro_replaced [OF p, THEN conjunct2, THEN conjunct1] macro_values.select_convs f by simp
qed

end
