(* ===== verification/Validation.thy ===== *)
theory Validation
  imports OpenRtb
begin

text \<open>
  Request validation, \<^verbatim>\<open>rust/crates/exchange/src/validation.rs\<close>: the checks of a whole request, the checks
  per media type, the extraction of the bidder parameters of an impression, and the removal of the
  server-side fields from the request extension.  \<open>json_ok\<close> stands for \<^verbatim>\<open>serde_json::from_str\<close>
  succeeding, which is third-party code.
\<close>

section \<open>Errors\<close>

datatype validation_error =
    MissingField string
  | InvalidValue string string
  | TooManyImps nat
  | NoImps
  | BothSiteAndApp
  | InvalidImp nat string
  | NoBidders

fun show_validation_error :: "validation_error \<Rightarrow> string" where
  "show_validation_error (MissingField f) = ''request missing required field: '' @ f"
| "show_validation_error (InvalidValue f r) = ''invalid value for '' @ f @ '': '' @ r"
| "show_validation_error (TooManyImps n) = ''request.imp is too large: '' @ show_nat n @ '' > 500''"
| "show_validation_error NoImps = ''request.imp must contain at least one element''"
| "show_validation_error BothSiteAndApp = ''request.site and request.app are mutually exclusive''"
| "show_validation_error (InvalidImp i r) = ''request.imp['' @ show_nat i @ '']: '' @ r"
| "show_validation_error NoBidders = ''request.imp[x].ext must have at least one bidder''"

section \<open>The request\<close>

text \<open>\<^verbatim>\<open>errors.push\<close> under a condition.\<close>

definition push_if :: "bool \<Rightarrow> 'a \<Rightarrow> 'a list" where
  "push_if c e = (if c then [e] else [])"

definition has_media :: "imp \<Rightarrow> bool" where
  "has_media i = (imp_banner i \<noteq> None \<or> imp_video i \<noteq> None \<or> imp_native i \<noteq> None \<or> imp_audio i \<noteq> None)"

definition validate_imp :: "nat \<Rightarrow> imp \<Rightarrow> validation_error list" where
  "validate_imp i x =
     push_if (imp_id x = []) (InvalidImp i ''imp.id is required'')
     @ push_if (\<not> has_media x) (InvalidImp i ''imp must have at least one of banner/video/native/audio'')
     @ (case imp_bidfloor x of
          Some f \<Rightarrow> push_if (f_lt f (Fin False 0))
                     (InvalidImp i (''bidfloor must be non-negative, got '' @ fmt_display f))
        | None \<Rightarrow> [])"

fun validate_imps :: "nat \<Rightarrow> imp list \<Rightarrow> validation_error list" where
  "validate_imps i [] = []"
| "validate_imps i (x # xs) = validate_imp i x @ validate_imps (i + 1) xs"

definition validate_request :: "bid_request \<Rightarrow> validation_error list" where
  "validate_request req =
     (if req_imp req = [] then [NoImps]
      else
        push_if (length (req_imp req) > 500) (TooManyImps (length (req_imp req)))
        @ push_if (req_site req \<noteq> None \<and> req_app req \<noteq> None) BothSiteAndApp
        @ (case req_tmax req of
             Some tmax \<Rightarrow> push_if (tmax < 0)
               (InvalidValue ''request.tmax'' (''must be non-negative, got '' @ show_int tmax))
           | None \<Rightarrow> [])
        @ validate_imps 0 (req_imp req))"

definition has_fatal_errors :: "validation_error list \<Rightarrow> bool" where
  "has_fatal_errors es = list_ex (\<lambda>e. e = NoImps \<or> e = BothSiteAndApp) es"

definition sanitize_request :: "bid_request \<Rightarrow> bid_request" where
  "sanitize_request req =
     (case req_jext req of
        Some (JObj obj) \<Rightarrow>
          (case map_of obj ''prebid'' of
             Some (JObj prebid) \<Rightarrow>
               req\<lparr>req_jext := Some (JObj (bt_insert ''prebid''
                 (JObj (bt_remove ''server'' (bt_remove ''storedbidresponse''
                          (bt_remove ''storedauctionresponse'' prebid)))) obj))\<rparr>
           | _ \<Rightarrow> req)
      | _ \<Rightarrow> req)"

section \<open>Media types\<close>

definition opt_list_nonempty :: "'a list option \<Rightarrow> bool" where
  "opt_list_nonempty x = (case x of Some xs \<Rightarrow> xs \<noteq> [] | None \<Rightarrow> False)"

definition positive_dim :: "nat \<Rightarrow> string \<Rightarrow> int option \<Rightarrow> validation_error list" where
  "positive_dim i what v =
     (case v of
        Some d \<Rightarrow> push_if (d \<le> 0) (InvalidImp i (what @ '' must be positive, got '' @ show_int d))
      | None \<Rightarrow> [])"

fun validate_formats :: "nat \<Rightarrow> nat \<Rightarrow> banner_format list \<Rightarrow> validation_error list" where
  "validate_formats i fi [] = []"
| "validate_formats i fi (f # fs) =
     positive_dim i (''banner.format['' @ show_nat fi @ ''].w'') (format_w f)
     @ positive_dim i (''banner.format['' @ show_nat fi @ ''].h'') (format_h f)
     @ validate_formats i (fi + 1) fs"

definition validate_banner :: "banner \<Rightarrow> nat \<Rightarrow> validation_error list" where
  "validate_banner b i =
     push_if (\<not> opt_list_nonempty (banner_format b) \<and> \<not> (banner_w b \<noteq> None \<and> banner_h b \<noteq> None))
       (InvalidImp i ''banner must have at least one format element or w/h'')
     @ (case banner_format b of Some fs \<Rightarrow> validate_formats i 0 fs | None \<Rightarrow> [])
     @ positive_dim i ''banner.w'' (banner_w b)
     @ positive_dim i ''banner.h'' (banner_h b)"

definition duration_order :: "nat \<Rightarrow> string \<Rightarrow> int option \<Rightarrow> int option \<Rightarrow> validation_error list" where
  "duration_order i what mn mx =
     (case (mn, mx) of
        (Some a, Some b) \<Rightarrow> push_if (a > b)
          (InvalidImp i (what @ ''.minduration ('' @ show_int a @ '') > '' @ what @
             ''.maxduration ('' @ show_int b @ '')''))
      | _ \<Rightarrow> [])"

definition validate_video :: "video \<Rightarrow> nat \<Rightarrow> validation_error list" where
  "validate_video v i =
     push_if (\<not> opt_list_nonempty (video_mimes v))
       (InvalidImp i ''video.mimes must contain at least one MIME type'')
     @ push_if (\<not> opt_list_nonempty (video_protocols v) \<and> \<not> (video_w v \<noteq> None \<and> video_h v \<noteq> None))
         (InvalidImp i ''video must have protocols or w/h'')
     @ duration_order i ''video'' (video_minduration v) (video_maxduration v)"

definition validate_audio :: "audio \<Rightarrow> nat \<Rightarrow> validation_error list" where
  "validate_audio a i =
     push_if (\<not> opt_list_nonempty (audio_mimes a))
       (InvalidImp i ''audio.mimes must contain at least one MIME type'')
     @ duration_order i ''audio'' (audio_minduration a) (audio_maxduration a)"

definition validate_native :: "(string \<Rightarrow> bool) \<Rightarrow> native_imp \<Rightarrow> nat \<Rightarrow> validation_error list" where
  "validate_native json_ok n i =
     (let request = (case native_request n of Some r \<Rightarrow> r | None \<Rightarrow> [])
      in if request = [] then [InvalidImp i ''native.request must be a non-empty JSON string'']
         else push_if (\<not> json_ok request) (InvalidImp i ''native.request must be valid JSON''))"

fun validate_impressions_deep_from :: "(string \<Rightarrow> bool) \<Rightarrow> nat \<Rightarrow> imp list \<Rightarrow> validation_error list" where
  "validate_impressions_deep_from json_ok i [] = []"
| "validate_impressions_deep_from json_ok i (x # xs) =
     (case imp_banner x of Some b \<Rightarrow> validate_banner b i | None \<Rightarrow> [])
     @ (case imp_video x of Some v \<Rightarrow> validate_video v i | None \<Rightarrow> [])
     @ (case imp_audio x of Some a \<Rightarrow> validate_audio a i | None \<Rightarrow> [])
     @ (case imp_native x of Some n \<Rightarrow> validate_native json_ok n i | None \<Rightarrow> [])
     @ validate_impressions_deep_from json_ok (i + 1) xs"

definition validate_impressions_deep :: "(string \<Rightarrow> bool) \<Rightarrow> bid_request \<Rightarrow> validation_error list" where
  "validate_impressions_deep json_ok req = validate_impressions_deep_from json_ok 0 (req_imp req)"

section \<open>Bidder parameters\<close>

definition reserved_keys :: "string list" where
  "reserved_keys = [''prebid'', ''context'', ''data'', ''gpid'', ''tid'', ''skadn'', ''ae'']"

text \<open>The loop copies the entries it keeps in key order.\<close>

definition extract_top_level_bidders :: "(string \<times> json) list \<Rightarrow> (string \<times> json) list" where
  "extract_top_level_bidders obj =
     fold (\<lambda>(k, v) m. if k \<notin> set reserved_keys \<and> is_object v then bt_insert k v m else m) obj []"

definition validate_bidder_ext ::
    "imp \<Rightarrow> nat \<Rightarrow> (validation_error list, (string \<times> json) list) res" where
  "validate_bidder_ext x i =
     (case imp_jext x of
        None \<Rightarrow> Inl [InvalidImp i ''imp.ext is required'']
      | Some ext \<Rightarrow>
        (case as_object ext of
           None \<Rightarrow> Inl [InvalidImp i ''imp.ext must be a JSON object'']
         | Some obj \<Rightarrow>
           (let bidder_map =
              (case Option.bind (map_of obj ''prebid'') as_object of
                 Some prebid \<Rightarrow>
                   (case Option.bind (map_of prebid ''bidder'') as_object of
                      Some bidder \<Rightarrow> bidder
                    | None \<Rightarrow> extract_top_level_bidders obj)
               | None \<Rightarrow>
                   (case Option.bind (map_of obj ''bidder'') as_object of
                      Some bidder \<Rightarrow> bidder
                    | None \<Rightarrow> extract_top_level_bidders obj))
            in if bidder_map = [] then Inl [NoBidders] else Inr bidder_map)))"

section \<open>Lemmas\<close>

lemma push_if_simps [simp]:
  "push_if c e = [] \<longleftrightarrow> \<not> c" "set (push_if c e) = (if c then {e} else {})"
  by (simp_all add: push_if_def)

lemma validate_imp_Nil:
  "validate_imp i x = [] \<longleftrightarrow>
     imp_id x \<noteq> [] \<and> has_media x \<and> (\<forall>f. imp_bidfloor x = Some f \<longrightarrow> \<not> f_lt f (Fin False 0))"
  by (auto simp: validate_imp_def split: option.split)

lemma validate_imps_Nil: "validate_imps i xs = [] \<longleftrightarrow> (\<forall>x \<in> set xs. \<forall>i. validate_imp i x = [])"
  by (induction i xs rule: validate_imps.induct) (auto simp: validate_imp_Nil)

lemma validate_imps_kind: "e \<in> set (validate_imps i xs) \<Longrightarrow> \<exists>j r. e = InvalidImp j r"
  by (induction i xs rule: validate_imps.induct)
     (auto simp: validate_imp_def split: option.splits if_splits)

lemma fatal_validate_request:
  "has_fatal_errors (validate_request req) \<longleftrightarrow>
     req_imp req = [] \<or> (req_site req \<noteq> None \<and> req_app req \<noteq> None)"
  using validate_imps_kind [of NoImps 0 "req_imp req"] validate_imps_kind [of BothSiteAndApp 0 "req_imp req"]
  by (auto simp: has_fatal_errors_def validate_request_def list_ex_iff split: option.splits if_splits)

lemma bt_remove_get: "map_of (bt_remove k m) = (map_of m)(k := None)"
  by (simp add: bt_remove_def map_of_filter_neq)

lemma jget_Some: "jget p k = Some v \<Longrightarrow> \<exists>m. p = JObj m"
  by (cases p) simp_all

section \<open>Properties\<close>

text \<open>A request passes validation without any error exactly when it has between one and 500
  impressions, not both a site and an app, a non-negative timeout, and every impression has an id, a
  media type and no negative floor.  The errors that reject a request are exactly the missing
  impressions and the presence of both site and app.\<close>

theorem validate_request_spec:
  "(validate_request req = [] \<longleftrightarrow>
      req_imp req \<noteq> [] \<and> length (req_imp req) \<le> 500 \<and> \<not> (req_site req \<noteq> None \<and> req_app req \<noteq> None)
      \<and> (case req_tmax req of Some t \<Rightarrow> 0 \<le> t | None \<Rightarrow> True)
      \<and> list_all (\<lambda>x. imp_id x \<noteq> [] \<and> has_media x
           \<and> (case imp_bidfloor x of Some f \<Rightarrow> \<not> f_lt f (Fin False 0) | None \<Rightarrow> True)) (req_imp req))
   \<and> (has_fatal_errors (validate_request req) \<longleftrightarrow>
      req_imp req = [] \<or> (req_site req \<noteq> None \<and> req_app req \<noteq> None))"
proof
  show "has_fatal_errors (validate_request req) \<longleftrightarrow>
      req_imp req = [] \<or> (req_site req \<noteq> None \<and> req_app req \<noteq> None)"
    by (rule fatal_validate_request)
  have "validate_imp i x = [] \<longleftrightarrow> imp_id x \<noteq> [] \<and> has_media x
      \<and> (case imp_bidfloor x of Some f \<Rightarrow> \<not> f_lt f (Fin False 0) | None \<Rightarrow> True)" for i x
    by (auto simp: validate_imp_Nil split: option.split)
  then show "validate_request req = [] \<longleftrightarrow>
      req_imp req \<noteq> [] \<and> length (req_imp req) \<le> 500 \<and> \<not> (req_site req \<noteq> None \<and> req_app req \<noteq> None)
      \<and> (case req_tmax req of Some t \<Rightarrow> 0 \<le> t | None \<Rightarrow> True)
      \<and> list_all (\<lambda>x. imp_id x \<noteq> [] \<and> has_media x
           \<and> (case imp_bidfloor x of Some f \<Rightarrow> \<not> f_lt f (Fin False 0) | None \<Rightarrow> True)) (req_imp req)"
    by (cases "req_tmax req") (auto simp: validate_request_def validate_imps_Nil list_all_iff not_less)
qed

text \<open>Sanitising a request removes the three server-side fields from its prebid extension and
  changes nothing else: every other key of the extension and of its prebid object keeps its value.\<close>

lemma sanitize_request_spec:
  "jpath (req_jext (sanitize_request req)) [''prebid'', k]
     = (if k \<in> {''storedauctionresponse'', ''storedbidresponse'', ''server''} then None
        else jpath (req_jext req) [''prebid'', k])
   \<and> (k = ''prebid'' \<or> jpath (req_jext (sanitize_request req)) [k] = jpath (req_jext req) [k])
   \<and> (sanitize_request req)\<lparr>req_jext := req_jext req\<rparr> = req"
proof (cases "\<exists>obj prebid. req_jext req = Some (JObj obj) \<and> map_of obj ''prebid'' = Some (JObj prebid)")
  case True
  then obtain obj prebid where "req_jext req = Some (JObj obj)" "map_of obj ''prebid'' = Some (JObj prebid)"
    by blast
  then show ?thesis by (simp add: sanitize_request_def map_of_bt_insert bt_remove_get)
next
  case False
  then have same: "sanitize_request req = req"
    by (auto simp: sanitize_request_def split: option.split json.split)
  have "jpath (req_jext req) [''prebid'', k] = None"
  proof (rule ccontr)
    assume "\<not> ?thesis"
    then obtain j p v where jp: "req_jext req = Some j" "jget j ''prebid'' = Some p" "jget p k = Some v"
      by (auto split: option.splits)
    from jget_Some [OF jp(2)] jget_Some [OF jp(3)] obtain m n where "j = JObj m" "p = JObj n" by blast
    with jp False show False by simp
  qed
  with same show ?thesis by simp
qed

end
