(* ===== verification/Auction.thy ===== *)
theory Auction
  imports Fanout Targeting Validation
begin

text \<open>
  The auction, \<^verbatim>\<open>rust/crates/exchange/src/lib.rs\<close>: \<^verbatim>\<open>Exchange::hold_auction_with_timeouts\<close> from the validation of the
  request to the assembled response, with the hook stages between its steps.  The components it composes are
  those of the other theories.  Arguments stand for what the code cannot determine: the serde encoders and
  decoders, the network, the running times and panics of adapters, the iteration orders of hash maps and the
  order in which the bidder tasks finish.
\<close>

section \<open>Data\<close>

record account =
  account_id :: string
  account_price_granularity :: "string option"

record auction_request =
  areq_bid_request :: bid_request
  areq_account :: "account option"
  areq_user_syncs :: "string list option"
  areq_currency_rates :: "currency_converter option"

record auction_response =
  ares_bid_response :: bid_response
  ares_seat_non_bids :: "seat_non_bid list"
  ares_targeting :: targeting
  ares_timed_out_bidders :: "string list"

record exchange =
  exc_adapters :: "(string \<times> adapted_bidder) list"
  exc_hook_executor :: "hook_executor option"
  exc_stored_responses :: "(string \<Rightarrow> json option) option"
  exc_aliases :: "(string \<times> string) list"
  exc_schain_node :: "supply_chain_node option"
  exc_cache_client :: "cache_client option"

definition exchange_new :: "(string \<times> adapted_bidder) list \<Rightarrow> exchange" where
  "exchange_new adapters =
     \<lparr>exc_adapters = adapters, exc_hook_executor = None, exc_stored_responses = None, exc_aliases = [],
      exc_schain_node = None, exc_cache_client = None\<rparr>"

text \<open>The encoders and decoders of this file beyond those of the fan-out.\<close>

record auction_serde =
  sd_base :: serde
  de_ast_rules :: "json \<Rightarrow> ast_rule list option"
  de_brand_category :: "json \<Rightarrow> bool"
  de_deal_tier :: "json \<Rightarrow> deal_tier option"
  de_bid_adjustments :: "json \<Rightarrow> adjustment_rules option option"
  en_seat_non_bids :: "seat_non_bid list \<Rightarrow> json option"
  en_dsa :: "dsa \<Rightarrow> json option"
  en_http_call :: "ext_http_call \<Rightarrow> json"

text \<open>What happens around the auction: the network and the time of each bidder task and whether it panics, the
  time of the whole auction, the order in which tasks finish, and the iteration orders of the hash maps.\<close>

record auction_env =
  env_gzip :: "u8 list \<Rightarrow> u8 list option"
  env_network :: "string \<Rightarrow> network"
  env_duration_ms :: "string \<Rightarrow> nat"
  env_panics :: "string \<Rightarrow> bool"
  env_elapsed_ms :: nat
  env_arrival :: "string list \<Rightarrow> string list"
  env_bidder_order :: "string list \<Rightarrow> string list"
  env_stored_order :: "string \<Rightarrow> string list \<Rightarrow> string list"
  env_bid_order :: "string \<Rightarrow> string list \<Rightarrow> string list"
  env_winner_order :: "string list \<Rightarrow> string list"

section \<open>Stored auction response\<close>

definition stored_keys :: "auction_serde \<Rightarrow> string \<Rightarrow> bid \<Rightarrow> targeting \<Rightarrow> targeting" where
  "stored_keys sd bidder_name b t =
     (let ext_targeting =
            (case Option.bind (jpath (bid_jext b) [''prebid'', ''targeting'']) (de_string_map (sd_base sd)) of
               None \<Rightarrow> [] | Some m \<Rightarrow> m);
          keys = fold (\<lambda>(k, v). hm_insert k v) ext_targeting (get_or [] t (bid_impid b));
          keys = or_insert ''hb_bidder'' bidder_name keys;
          keys = or_insert ''hb_pb'' (price_granularity_bucket (bid_price b) None) keys
      in hm_insert (bid_impid b) keys t)"

definition stored_targeting :: "auction_serde \<Rightarrow> seat_bid list \<Rightarrow> targeting" where
  "stored_targeting sd seatbid =
     fold (\<lambda>sb. fold (stored_keys sd (case seatbid_seat sb of None \<Rightarrow> ''unknown'' | Some s \<Rightarrow> s)) (seatbid_bid sb)) seatbid []"

text \<open>\<^const>\<open>None\<close> when the request names no stored response or no fetcher is configured.\<close>

definition stored_auction_response ::
  "auction_serde \<Rightarrow> exchange \<Rightarrow> bid_request \<Rightarrow> (string, auction_response) res option" where
  "stored_auction_response sd x req =
     (case (Option.bind (jpath (req_jext req) [''prebid'', ''storedauctionresponse'', ''id'']) as_str, exc_stored_responses x) of
        (Some stored_resp_id, Some fetch) \<Rightarrow>
          Some (case fetch stored_resp_id of
                  Some stored_json \<Rightarrow>
                    (case de_bid_response (sd_base sd) stored_json of
                       Inr br \<Rightarrow>
                         Inr \<lparr>ares_bid_response = (if resp_id br = [] then br\<lparr>resp_id := req_id req\<rparr> else br),
                              ares_seat_non_bids = [], ares_targeting = stored_targeting sd (resp_seatbid br),
                              ares_timed_out_bidders = []\<rparr>
                     | Inl e \<Rightarrow>
                         Inl (''failed to parse stored auction response '' @ [char_of (39 :: nat)] @ stored_resp_id
                              @ [char_of (39 :: nat)] @ '': '' @ e))
                | None \<Rightarrow> Inl (''stored auction response not found for id: '' @ stored_resp_id))
      | _ \<Rightarrow> None)"

section \<open>Checks of the request\<close>

fun check_imps :: "imp list \<Rightarrow> string option" where
  "check_imps [] = None"
| "check_imps (i # is) =
     (if imp_id i = [] then Some ''request.imp[].id required''
      else if imp_banner i = None \<and> imp_video i = None \<and> imp_audio i = None \<and> imp_native i = None
      then Some (''request.imp[id='' @ imp_id i @ ''] must specify at least one of banner/video/audio/native'')
      else check_imps is)"

definition check_request :: "bid_request \<Rightarrow> string option" where
  "check_request req =
     (if req_imp req = [] then Some ''request.imp must contain at least one impression''
      else case req_tmax req of
             Some tmax \<Rightarrow> if tmax < 0 then Some ''request.tmax must be nonneg'' else check_imps (req_imp req)
           | None \<Rightarrow> check_imps (req_imp req))"

section \<open>Calling the bidders\<close>

definition all_bidder_names :: "exchange \<Rightarrow> string list" where
  "all_bidder_names x =
     fold (\<lambda>a names. if a \<in> set names then names else names @ [a]) (map fst (exc_aliases x)) (map fst (exc_adapters x))"

definition fan_config_of :: "auction_serde \<Rightarrow> exchange \<Rightarrow> auction_env \<Rightarrow> bid_request \<Rightarrow> fan_config" where
  "fan_config_of sd x env req =
     \<lparr>fc_request = req, fc_privacy = extract_privacy_config req,
      fc_stored = stored_bid_responses (exc_stored_responses x) (req_imp req),
      fc_stored_order = env_stored_order env, fc_aliases = exc_aliases x, fc_adapters = exc_adapters x,
      fc_timeout_ms = bidder_timeout_ms req,
      fc_base = (case exc_schain_node x of Some n \<Rightarrow> prepend_schain n req | None \<Rightarrow> req),
      fc_bidder_imps = split_imps_for_bidders (req_imp req) (all_bidder_names x)\<rparr>"

definition active_bidders :: "auction_serde \<Rightarrow> exchange \<Rightarrow> auction_env \<Rightarrow> bid_request \<Rightarrow> string list" where
  "active_bidders sd x env req = env_bidder_order env (map fst (fc_bidder_imps (fan_config_of sd x env req)))"

definition extra_info :: extra_request_info where
  "extra_info = \<lparr>pbs_entry_point = ''openrtb2-auction'', global_privacy_control_header = []\<rparr>"

text \<open>The result of a task, \<^const>\<open>None\<close> when it panicked.\<close>

fun run_task :: "auction_env \<Rightarrow> task \<Rightarrow> bidder_result option" where
  "run_task env (StoredTask bidder_name typed_bids) =
     Some \<lparr>bres_bidder_name = bidder_name,
           bres_response = Inr \<lparr>br_currency = ''USD'', br_bids = typed_bids, br_fledge_auction_configs = []\<rparr>,
           bres_duration_ms = 0, bres_http_calls = [], bres_timed_out = False\<rparr>"
| "run_task env (BidderTask bidder_name adapted req timeout_ms) =
     (if env_panics env bidder_name then None
      else Some (request_bid (env_gzip env) (env_network env bidder_name) (env_duration_ms env bidder_name)
                   adapted req bidder_name extra_info timeout_ms))"

definition joined :: "auction_env \<Rightarrow> task list \<Rightarrow> bidder_result option list" where
  "joined env tasks = map (run_task env \<circ> snd) (hm_iter (env_arrival env) (map (\<lambda>t. (task_bidder t, t)) tasks))"

definition raw_response_payload :: "bidder_result \<Rightarrow> json" where
  "raw_response_payload r =
     JObj [(''bidder'', JStr (bres_bidder_name r)), (''duration_ms'', JNum (PosInt (bres_duration_ms r))),
           (''timed_out'', JBool (bres_timed_out r))]"

definition join_step ::
  "auction_serde \<Rightarrow> auction_env \<Rightarrow> auction_request \<Rightarrow> bidder_result option
   \<Rightarrow> hook_executor option \<times> collected \<Rightarrow> hook_executor option \<times> collected" where
  "join_step sd env areq result s =
     (case s of (ex, c) \<Rightarrow>
        case result of
          None \<Rightarrow> (ex, c)
        | Some r \<Rightarrow>
            (let req = areq_bid_request areq;
                 c = collect_timing (req_test req = Some 1) r c;
                 (ex, _) = run_stage RawBidderResponse (raw_response_payload r) ex
             in (ex, collect_response (areq_currency_rates areq) (adjustment_factors (de_factors (sd_base sd)) req) req
                       (multi_bid_limits (de_multi_bids (sd_base sd)) req) (env_bid_order env (bres_bidder_name r)) r c)))"

definition no_results :: "seat_non_bid list \<Rightarrow> collected" where
  "no_results nbs =
     \<lparr>col_bidder_results = [], col_timed_out = [], col_non_bids = nbs, col_errors = [], col_timing = [],
      col_debug_http_calls = [], col_debug_timing = []\<rparr>"

definition join_all ::
  "auction_serde \<Rightarrow> auction_env \<Rightarrow> auction_request \<Rightarrow> fan_state \<Rightarrow> hook_executor option \<times> collected" where
  "join_all sd env areq fs =
     fold (join_step sd env areq) (joined env (fs_tasks fs)) (fs_executor fs, no_results (fs_non_bids fs))"

section \<open>The response\<close>

definition custom_price_granularity :: "bid_request \<Rightarrow> price_granularity option" where
  "custom_price_granularity req =
     Option.bind (jpath (req_jext req) [''prebid'', ''targeting'', ''pricegranularity'']) granularity_from_json"

definition rules_of :: "auction_serde \<Rightarrow> bid_request \<Rightarrow> ast_rule list" where
  "rules_of sd req =
     (case Option.bind (jpath (req_jext req) [''prebid'', ''adservertargeting'']) (de_ast_rules sd) of None \<Rightarrow> [] | Some rs \<Rightarrow> rs)"

definition include_brand_category :: "auction_serde \<Rightarrow> bid_request \<Rightarrow> bool" where
  "include_brand_category sd req =
     (case jpath (req_jext req) [''prebid'', ''targeting'', ''includebrandcategory''] of None \<Rightarrow> False | Some v \<Rightarrow> de_brand_category sd v)"

definition bid_targeting :: "auction_serde \<Rightarrow> bid_request \<Rightarrow> results \<Rightarrow> targeting" where
  "bid_targeting sd req results =
     (let pg = custom_price_granularity req;
          t = target_winners pg results;
          t = target_ast (rules_of sd req) req results t;
          t = target_categories (include_brand_category sd req) pg results t
      in target_deals (imp_deal_tiers (de_deal_tier sd) (req_imp req)) results t)"

definition adjusted :: "auction_serde \<Rightarrow> bid_request \<Rightarrow> results \<Rightarrow> results" where
  "adjusted sd req results =
     adjust_results (Option.bind (Option.bind (jpath (req_jext req) [''prebid'', ''bidadjustments'']) (de_bid_adjustments sd)) id) results"

definition cached_targeting ::
  "auction_serde \<Rightarrow> exchange \<Rightarrow> auction_env \<Rightarrow> bid_request \<Rightarrow> results \<Rightarrow> targeting" where
  "cached_targeting sd x env req results =
     target_cache (en_bid (sd_base sd)) (exc_cache_client x) (env_winner_order env)
       (jpath (req_jext req) [''prebid'', ''cache'', ''bids''] \<noteq> None)
       (adjusted sd req results) (find_winners results) (bid_targeting sd req results)"

definition auction_currency :: "bid_request \<Rightarrow> string" where
  "auction_currency req = (case req_cur req of Some (c # _) \<Rightarrow> c | _ \<Rightarrow> ''USD'')"

definition macros_of :: "bid_request \<Rightarrow> string \<Rightarrow> bid \<Rightarrow> macro_values" where
  "macros_of req bidder_name b =
     \<lparr>mv_auction_price = bid_price b, mv_auction_currency = auction_currency req, mv_auction_id = req_id req,
      mv_bidder_name = bidder_name, mv_imp_id = bid_impid b,
      mv_timeout = nat ((case req_tmax req of None \<Rightarrow> 0 | Some t \<Rightarrow> t) mod 2 ^ 64), mv_ad_markup = bid_adm b\<rparr>"

definition seat_bid_of :: "bid_request \<Rightarrow> string \<times> typed_bid list \<Rightarrow> seat_bid" where
  "seat_bid_of req r =
     (case r of (bidder_name, typed_bids) \<Rightarrow>
        default_seat_bid\<lparr>seatbid_bid := map (\<lambda>tb. apply_bid_macros (macros_of req bidder_name (tb_bid tb)) (tb_bid tb)) typed_bids,
                         seatbid_seat := Some bidder_name\<rparr>)"

text \<open>A hash map as a JSON object, whose entries are in key order.\<close>

definition json_map :: "('v \<Rightarrow> json) \<Rightarrow> (string \<times> 'v) list \<Rightarrow> json" where
  "json_map f m = JObj (fold (\<lambda>(k, v). bt_insert k (f v)) m [])"

definition json_int :: "int \<Rightarrow> json" where
  "json_int i = JNum (if i < 0 then NegInt i else PosInt (nat i))"

definition json_nat :: "nat \<Rightarrow> json" where
  "json_nat n = JNum (PosInt n)"

definition prebid_ext :: "auction_serde \<Rightarrow> nat \<Rightarrow> bid_request \<Rightarrow> collected \<Rightarrow> (string \<times> json) list" where
  "prebid_ext sd elapsed_ms req c =
     (let p = [(''timing'', JObj [(''respondedMs'', json_nat elapsed_ms)])];
          p = (if col_errors c \<noteq> [] then bt_insert ''errors'' (json_map (\<lambda>es. JArr (map JStr es)) (col_errors c)) p else p);
          p = (if col_non_bids c \<noteq> [] then bt_insert ''seatnonbid'' (or_null (en_seat_non_bids sd (col_non_bids c))) p else p);
          p = (if col_timing c \<noteq> [] then bt_insert ''responsetimemillis'' (json_map json_nat (col_timing c)) p else p)
      in case req_tmax req of Some tmax \<Rightarrow> bt_insert ''tmaxrequest'' (json_int tmax) p | None \<Rightarrow> p)"

definition response_ext :: "auction_serde \<Rightarrow> nat \<Rightarrow> bid_request \<Rightarrow> collected \<Rightarrow> json" where
  "response_ext sd elapsed_ms req c =
     (let e = [(''prebid'', JObj (prebid_ext sd elapsed_ms req c))];
          e = (case Option.bind (Option.bind (req_regs req) regs_dsa) (en_dsa sd) of
                 Some v \<Rightarrow> bt_insert ''dsa'' v e | None \<Rightarrow> e);
          e = (if req_test req = Some 1
               then bt_insert ''debug''
                      (JObj [(''bidmeta'', json_map (\<lambda>ms. JObj [(''serverResponseTimeMs'', json_nat ms)]) (col_debug_timing c)),
                             (''httpcalls'', json_map (\<lambda>hs. JArr (map (en_http_call sd) hs)) (col_debug_http_calls c))]) e
               else e)
      in JObj e)"

definition build_response ::
  "auction_serde \<Rightarrow> exchange \<Rightarrow> auction_env \<Rightarrow> bid_request \<Rightarrow> collected \<Rightarrow> auction_response" where
  "build_response sd x env req c =
     \<lparr>ares_bid_response =
        default_bid_response\<lparr>resp_id := req_id req,
          resp_seatbid := map (seat_bid_of req) (adjusted sd req (col_bidder_results c)),
          resp_cur := Some ''USD'', resp_jext := Some (response_ext sd (env_elapsed_ms env) req c)\<rparr>,
      ares_seat_non_bids = col_non_bids c,
      ares_targeting = cached_targeting sd x env req (col_bidder_results c),
      ares_timed_out_bidders = col_timed_out c\<rparr>"

section \<open>The auction\<close>

text \<open>From the fan-out on nothing fails: the hooks of the later stages can only be logged.\<close>

definition run_bidders ::
  "auction_serde \<Rightarrow> exchange \<Rightarrow> auction_env \<Rightarrow> auction_request \<Rightarrow> hook_executor option
   \<Rightarrow> hook_executor option \<times> auction_response" where
  "run_bidders sd x env areq ex =
     (let req = areq_bid_request areq;
          fs = fan_out (sd_base sd) (fan_config_of sd x env req) (active_bidders sd x env req) ex;
          (ex, c) = join_all sd env areq fs;
          (ex, _) = run_stage AllProcessedBidResponses
                      (JObj [(''bidder_count'', json_nat (length (col_bidder_results c))),
                             (''timed_out_bidders'', JArr (map JStr (col_timed_out c)))]) ex;
          resp = build_response sd x env req c;
          (ex, _) = run_stage AuctionResponse (or_null (en_bid_response (sd_base sd) (ares_bid_response resp))) ex
      in (ex, resp))"

definition hold_auction_with_timeouts ::
  "auction_serde \<Rightarrow> exchange \<Rightarrow> auction_env \<Rightarrow> auction_request \<Rightarrow> (string \<times> nat) list
   \<Rightarrow> hook_executor option \<times> (string, auction_response) res" where
  "hold_auction_with_timeouts sd x env areq per_bidder_timeouts =
     (let req = areq_bid_request areq;
          validation_errors = validate_request req;
          payload = or_null (en_bid_request (sd_base sd) req);
          ex = exc_hook_executor x
      in if has_fatal_errors validation_errors
         then (ex, Inl (''invalid request: '' @ join_str ''; '' (map show_validation_error validation_errors)))
         else case run_stage EntrypointRaw payload ex of
           (ex, Some reject) \<Rightarrow> (ex, Inl (''request rejected by hook: '' @ show_reject_error reject))
         | (ex, None) \<Rightarrow>
             (case run_stage RawAuctionRequest payload ex of
                (ex, Some reject) \<Rightarrow> (ex, Inl (''request rejected by RawAuctionRequest hook: '' @ show_reject_error reject))
              | (ex, None) \<Rightarrow>
                  (case stored_auction_response sd x req of
                     Some r \<Rightarrow> (ex, r)
                   | None \<Rightarrow>
                       (case check_request req of
                          Some e \<Rightarrow> (ex, Inl e)
                        | None \<Rightarrow>
                            (case run_stage ProcessedAuctionRequest payload ex of
                               (ex, Some reject) \<Rightarrow>
                                 (ex, Inl (''request rejected by ProcessedAuctionRequest hook: '' @ show_reject_error reject))
                             | (ex, None) \<Rightarrow>
                                 (case run_bidders sd x env areq ex of (ex, resp) \<Rightarrow> (ex, Inr resp)))))))"

definition hold_auction ::
  "auction_serde \<Rightarrow> exchange \<Rightarrow> auction_env \<Rightarrow> auction_request \<Rightarrow> hook_executor option \<times> (string, auction_response) res" where
  "hold_auction sd x env areq = hold_auction_with_timeouts sd x env areq []"


section \<open>Bid ids and reason codes\<close>

datatype bid_id_strategy = BidderGenerated | RequestBidId | UuidId

text \<open>The fresh UUID is an argument.\<close>

definition generate_bid_id :: "string \<Rightarrow> bid_id_strategy \<Rightarrow> string \<Rightarrow> string \<Rightarrow> string \<Rightarrow> nat \<Rightarrow> string" where
  "generate_bid_id new_v4 strategy original_bid_id request_id bidder_name counter =
     (case strategy of
        BidderGenerated \<Rightarrow> original_bid_id
      | RequestBidId \<Rightarrow> request_id @ ''-'' @ bidder_name @ ''-'' @ show_nat counter
      | UuidId \<Rightarrow> new_v4)"

datatype non_bid_reason =
    NoBid | ErrorGeneral | ErrorTimeout | ErrorBidderUnreachable
  | RequestRejectedGeneral | RequestBlockedPublisher | RequestBlockedPrivacy | RequestBlockedDsa
  | ResponseRejectedGeneral | ResponseRejectedBelowFloor | ResponseRejectedCategoryMappingInvalid
  | ResponseRejectedBelowDealFloor | ResponseRejectedCreativeSizeNotAllowed | ResponseRejectedCreativeNotSecure

fun reason_code :: "non_bid_reason \<Rightarrow> int" where
  "reason_code NoBid = 0"
| "reason_code ErrorGeneral = 100"
| "reason_code ErrorTimeout = 101"
| "reason_code ErrorBidderUnreachable = 103"
| "reason_code RequestRejectedGeneral = 200"
| "reason_code RequestBlockedPublisher = 201"
| "reason_code RequestBlockedPrivacy = 202"
| "reason_code RequestBlockedDsa = 203"
| "reason_code ResponseRejectedGeneral = 300"
| "reason_code ResponseRejectedBelowFloor = 301"
| "reason_code ResponseRejectedCategoryMappingInvalid = 303"
| "reason_code ResponseRejectedBelowDealFloor = 304"
| "reason_code ResponseRejectedCreativeSizeNotAllowed = 351"
| "reason_code ResponseRejectedCreativeNotSecure = 352"

fun show_reason :: "non_bid_reason \<Rightarrow> string" where
  "show_reason NoBid = ''no bid''"
| "show_reason ErrorGeneral = ''general error''"
| "show_reason ErrorTimeout = ''timeout''"
| "show_reason ErrorBidderUnreachable = ''bidder unreachable''"
| "show_reason RequestRejectedGeneral = ''request rejected (general)''"
| "show_reason RequestBlockedPublisher = ''request blocked by publisher''"
| "show_reason RequestBlockedPrivacy = ''request blocked by privacy''"
| "show_reason RequestBlockedDsa = ''request blocked by DSA''"
| "show_reason ResponseRejectedGeneral = ''response rejected (general)''"
| "show_reason ResponseRejectedBelowFloor = ''response rejected: below floor''"
| "show_reason ResponseRejectedCategoryMappingInvalid = ''response rejected: category mapping invalid''"
| "show_reason ResponseRejectedBelowDealFloor = ''response rejected: below deal floor''"
| "show_reason ResponseRejectedCreativeSizeNotAllowed = ''response rejected: creative size not allowed''"
| "show_reason ResponseRejectedCreativeNotSecure = ''response rejected: creative not secure''"

end
