(* ===== verification/AuctionFacts.thy ===== *)
theory AuctionFacts
  imports Auction
begin

text \<open>
  Facts about the auction: what the loop over the finished tasks appends, which tasks there are, how an accepted
  bid leaves the auction, the auction without hooks as a specification, and the properties of the whole.
\<close>

section \<open>Lemmas: collecting the results\<close>

text \<open>The accepted bids and the non-bids one finished task adds.\<close>

definition processed :: "auction_serde \<Rightarrow> auction_env \<Rightarrow> auction_request \<Rightarrow> string \<Rightarrow> bidder_response \<Rightarrow> non_bid list \<times> typed_bid list" where
  "processed sd env areq name br =
     process_bids (areq_currency_rates areq) (adjustment_factors (de_factors (sd_base sd)) (areq_bid_request areq))
       (req_imp (areq_bid_request areq)) (multi_bid_limits (de_multi_bids (sd_base sd)) (areq_bid_request areq))
       (env_bid_order env name) name br"

definition usable :: "bidder_response \<Rightarrow> bool" where
  "usable br \<longleftrightarrow> br_bids br \<noteq> [] \<and> is_ok (validate_bid_currency [] (br_currency br))"

fun results_of :: "auction_serde \<Rightarrow> auction_env \<Rightarrow> auction_request \<Rightarrow> bidder_result option \<Rightarrow> results" where
  "results_of sd env areq None = []"
| "results_of sd env areq (Some r) =
     (case bres_response r of
        Inr br \<Rightarrow> if usable br \<and> snd (processed sd env areq (bres_bidder_name r) br) \<noteq> []
                  then [(bres_bidder_name r, snd (processed sd env areq (bres_bidder_name r) br))] else []
      | Inl _ \<Rightarrow> [])"

fun non_bids_of :: "auction_serde \<Rightarrow> auction_env \<Rightarrow> auction_request \<Rightarrow> bidder_result option \<Rightarrow> seat_non_bid list" where
  "non_bids_of sd env areq None = []"
| "non_bids_of sd env areq (Some r) =
     (case bres_response r of
        Inr br \<Rightarrow> if usable br then push_non_bids (bres_bidder_name r) (fst (processed sd env areq (bres_bidder_name r) br)) [] else []
      | Inl _ \<Rightarrow> push_non_bids (bres_bidder_name r) (non_bids_all_imps 200 (req_imp (areq_bid_request areq))) [])"

fun timeouts_of :: "bidder_result option \<Rightarrow> string list" where
  "timeouts_of None = []"
| "timeouts_of (Some r) = (if bres_timed_out r then [bres_bidder_name r] else [])"

lemma collect_timing_keeps [simp]:
  "col_bidder_results (collect_timing t r c) = col_bidder_results c"
  "col_non_bids (collect_timing t r c) = col_non_bids c"
  "col_timed_out (collect_timing t r c) = col_timed_out c @ timeouts_of (Some r)"
  by (simp_all add: collect_timing_def Let_def)

lemma validate_bid_currency_any: "validate_bid_currency cs cur = validate_bid_currency [] cur"
  by (simp add: validate_bid_currency_def)

lemma join_step_collects:
  "snd (join_step sd env areq result s) =
     collect_result (areq_currency_rates areq) (adjustment_factors (de_factors (sd_base sd)) (areq_bid_request areq))
       (areq_bid_request areq) (multi_bid_limits (de_multi_bids (sd_base sd)) (areq_bid_request areq)) (env_bid_order env)
       result (snd s)"
  by (cases s) (auto simp: join_step_def collect_result_def Let_def split: option.splits prod.splits)

lemma collect_response_cases:
  "collect_response rates fs req ls ord r c =
     (case bres_response r of
        Inr br \<Rightarrow>
          if br_bids br = [] then c
          else if usable br
          then c\<lparr>col_non_bids := push_non_bids (bres_bidder_name r) (fst (process_bids rates fs (req_imp req) ls ord (bres_bidder_name r) br)) (col_non_bids c),
                 col_bidder_results :=
                   (let d = snd (process_bids rates fs (req_imp req) ls ord (bres_bidder_name r) br)
                    in if d \<noteq> [] then col_bidder_results c @ [(bres_bidder_name r, d)] else col_bidder_results c)\<rparr>
          else c\<lparr>col_errors := push_errors (bres_bidder_name r)
                   [case validate_bid_currency [] (br_currency br) of Inl e \<Rightarrow> e | Inr _ \<Rightarrow> []] (col_errors c)\<rparr>
      | Inl errs \<Rightarrow>
          c\<lparr>col_errors := (if errs \<noteq> [] then push_errors (bres_bidder_name r) (map show_bidder_error errs) (col_errors c)
                           else col_errors c),
            col_non_bids := push_non_bids (bres_bidder_name r) (non_bids_all_imps 200 (req_imp req)) (col_non_bids c)\<rparr>)"
proof (cases "bres_response r")
  case (Inl errs)
  then show ?thesis by (simp add: collect_response_def Let_def)
next
  case (Inr br)
  show ?thesis
  proof (cases "validate_bid_currency [] (br_currency br)")
    case (Inl e)
    then show ?thesis
      using Inr by (simp add: collect_response_def usable_def validate_bid_currency_any [of "case req_cur req of None \<Rightarrow> [] | Some cs \<Rightarrow> cs"])
  next
    case ok: (Inr u)
    then show ?thesis
      using Inr by (simp add: collect_response_def usable_def validate_bid_currency_any [of "case req_cur req of None \<Rightarrow> [] | Some cs \<Rightarrow> cs"]
          case_prod_unfold Let_def)
  qed
qed

lemma collect_response_appends:
  "col_bidder_results (collect_response (areq_currency_rates areq)
       (adjustment_factors (de_factors (sd_base sd)) (areq_bid_request areq)) (areq_bid_request areq)
       (multi_bid_limits (de_multi_bids (sd_base sd)) (areq_bid_request areq)) (env_bid_order env (bres_bidder_name r)) r c)
     = col_bidder_results c @ results_of sd env areq (Some r)"
  "col_non_bids (collect_response (areq_currency_rates areq)
       (adjustment_factors (de_factors (sd_base sd)) (areq_bid_request areq)) (areq_bid_request areq)
       (multi_bid_limits (de_multi_bids (sd_base sd)) (areq_bid_request areq)) (env_bid_order env (bres_bidder_name r)) r c)
     = col_non_bids c @ non_bids_of sd env areq (Some r)"
  "col_timed_out (collect_response rates fs req ls ord r c) = col_timed_out c"
proof -
  have "\<not> usable br" if "br_bids br = []" for br using that by (simp add: usable_def)
  then show "col_bidder_results (collect_response (areq_currency_rates areq)
       (adjustment_factors (de_factors (sd_base sd)) (areq_bid_request areq)) (areq_bid_request areq)
       (multi_bid_limits (de_multi_bids (sd_base sd)) (areq_bid_request areq)) (env_bid_order env (bres_bidder_name r)) r c)
     = col_bidder_results c @ results_of sd env areq (Some r)"
    "col_non_bids (collect_response (areq_currency_rates areq)
       (adjustment_factors (de_factors (sd_base sd)) (areq_bid_request areq)) (areq_bid_request areq)
       (multi_bid_limits (de_multi_bids (sd_base sd)) (areq_bid_request areq)) (env_bid_order env (bres_bidder_name r)) r c)
     = col_non_bids c @ non_bids_of sd env areq (Some r)"
    by (cases "bres_response r"; simp add: collect_response_cases processed_def push_non_bids_append [of _ _ "col_non_bids c"] Let_def)+
  show "col_timed_out (collect_response rates fs req ls ord r c) = col_timed_out c"
    by (cases "bres_response r") (simp_all add: collect_response_cases)
qed

lemma join_step_appends:
  "col_bidder_results (snd (join_step sd env areq r s)) = col_bidder_results (snd s) @ results_of sd env areq r"
  "col_non_bids (snd (join_step sd env areq r s)) = col_non_bids (snd s) @ non_bids_of sd env areq r"
  "col_timed_out (snd (join_step sd env areq r s)) = col_timed_out (snd s) @ timeouts_of r"
  unfolding join_step_collects collect_result_def
  by (cases r; simp add: collect_response_appends del: results_of.simps(2) non_bids_of.simps(2) timeouts_of.simps(2); fail)+

interpretation joined_results: appender "join_step sd env areq" "col_bidder_results \<circ> snd" "results_of sd env areq" for sd env areq
  by unfold_locales (simp add: join_step_appends)

interpretation joined_non_bids: appender "join_step sd env areq" "col_non_bids \<circ> snd" "non_bids_of sd env areq" for sd env areq
  by unfold_locales (simp add: join_step_appends)

interpretation joined_timeouts: appender "join_step sd env areq" "col_timed_out \<circ> snd" timeouts_of for sd env areq
  by unfold_locales (simp add: join_step_appends)

section \<open>Lemmas: tasks\<close>

lemma push_imp_wf: "hm_wf m \<Longrightarrow> hm_wf (push_imp b i m)"
  by (simp add: push_imp_def hm_wf_insert)

lemma split_imp_wf: "hm_wf m \<Longrightarrow> hm_wf (split_imp known i m)"
proof -
  have "hm_wf m \<Longrightarrow> hm_wf (fold (\<lambda>(b, p). push_imp b (f p)) ps m)" for ps and f :: "json \<Rightarrow> imp"
    by (induction ps arbitrary: m) (auto simp: push_imp_wf)
  then show "hm_wf m \<Longrightarrow> hm_wf (split_imp known i m)"
    by (cases "imp_jext i") (simp_all add: split_imp_def)
qed

lemma split_imps_wf: "hm_wf (split_imps_for_bidders imps known)"
proof -
  have "hm_wf m \<Longrightarrow> hm_wf (fold (split_imp known) imps m)" for m
    by (induction imps arbitrary: m) (auto simp: split_imp_wf)
  then show ?thesis by (simp add: split_imps_for_bidders_def hm_wf_def)
qed

lemma task_for_bidder: "task_for sd fc b = Some t \<Longrightarrow> task_bidder t = b"
  by (auto simp: task_for_def split: if_splits)

lemma tasks_distinct: "distinct bs \<Longrightarrow> distinct (map task_bidder (List.map_filter (task_for sd fc) bs))"
proof (induction bs)
  case (Cons b bs)
  have "task_bidder ` set (List.map_filter (task_for sd fc) bs) \<subseteq> set bs"
    by (auto simp: List.map_filter_def dest: task_for_bidder)
  then show ?case
    using Cons by (cases "task_for sd fc b") (auto simp: map_filter_simps dest: task_for_bidder)
qed (simp add: map_filter_simps)

lemma joined_mset:
  assumes "iter_order (env_arrival env)" "distinct (map task_bidder ts)"
  shows "mset (joined env ts) = mset (map (run_task env) ts)"
proof -
  have "distinct (map fst (map (\<lambda>t. (task_bidder t, t)) ts))" using assms(2) by (simp add: comp_def)
  from mset_hm_iter [OF assms(1) this] show ?thesis
    by (simp add: joined_def multiset.map_comp comp_def)
qed

text \<open>What the fan-out of an auction spawns.\<close>

lemma auction_tasks:
  assumes "iter_order (env_bidder_order env)"
  obtains bs where
    "fs_tasks (fan_out (sd_base sd) (fan_config_of sd x env req) (active_bidders sd x env req) ex) =
       List.map_filter (task_for (sd_base sd) (fan_config_of sd x env req)) bs"
    "distinct bs" "set bs \<subseteq> fst ` set (split_imps_for_bidders (req_imp req) (all_bidder_names x))"
    "ex = None \<Longrightarrow> bs = active_bidders sd x env req"
proof -
  define active where "active = active_bidders sd x env req"
  have keys: "mset active = mset (map fst (split_imps_for_bidders (req_imp req) (all_bidder_names x)))"
    using assms by (simp add: active_def active_bidders_def iter_order_def fan_config_of_def)
  have d: "distinct active"
    using split_imps_wf [of "req_imp req" "all_bidder_names x"] mset_eq_imp_distinct_iff [OF keys] by (simp add: hm_wf_def)
  have sub: "set active = fst ` set (split_imps_for_bidders (req_imp req) (all_bidder_names x))"
    using mset_eq_setD [OF keys] by simp
  obtain ex' bs where f: "fan_out (sd_base sd) (fan_config_of sd x env req) active ex =
     \<lparr>fs_executor = ex', fs_non_bids = concat (map (privacy_non_bids (fan_config_of sd x env req)) active),
      fs_tasks = List.map_filter (task_for (sd_base sd) (fan_config_of sd x env req)) bs\<rparr>"
      "subseq bs active" "ex = None \<longrightarrow> bs = active"
    using fan_fold_eq [of "sd_base sd" "fan_config_of sd x env req" active "\<lparr>fs_executor = ex, fs_non_bids = [], fs_tasks = []\<rparr>"]
    by (auto simp: fan_out_def)
  show thesis
  proof (rule that [of bs])
    show "distinct bs" using f(2) d by (metis distinct_nthsI subseq_conv_nths)
    show "set bs \<subseteq> fst ` set (split_imps_for_bidders (req_imp req) (all_bidder_names x))"
      using f(2) unfolding sub [symmetric] by (metis set_nths_subset subseq_conv_nths)
  qed (use f in \<open>simp_all add: active_def\<close>)
qed

lemma run_bidders_response:
  "snd (run_bidders sd x env areq ex) =
     build_response sd x env (areq_bid_request areq)
       (snd (join_all sd env areq (fan_out (sd_base sd) (fan_config_of sd x env (areq_bid_request areq))
          (active_bidders sd x env (areq_bid_request areq)) ex)))"
  by (simp add: run_bidders_def Let_def case_prod_unfold)

lemma hold_auction_Inr:
  assumes "snd (hold_auction sd x env areq) = Inr resp" "stored_auction_response sd x (areq_bid_request areq) = None"
  obtains ex where "resp = snd (run_bidders sd x env areq ex)"
  using assms
  by (auto simp: hold_auction_def hold_auction_with_timeouts_def Let_def case_prod_unfold split: if_splits option.splits prod.splits)

lemma join_all_results:
  "col_bidder_results (snd (join_all sd env areq fs)) = concat (map (results_of sd env areq) (joined env (fs_tasks fs)))"
  "col_non_bids (snd (join_all sd env areq fs)) = fs_non_bids fs @ concat (map (non_bids_of sd env areq) (joined env (fs_tasks fs)))"
  "col_timed_out (snd (join_all sd env areq fs)) = concat (map timeouts_of (joined env (fs_tasks fs)))"
  using joined_results.out_fold [of sd env areq] joined_non_bids.out_fold [of sd env areq] joined_timeouts.out_fold [of sd env areq]
  by (simp_all add: join_all_def no_results_def)

section \<open>Lemmas: the bids of a seat\<close>

text \<open>How an accepted bid leaves the auction: its price adjusted, its macros replaced.\<close>

definition adjusted_bid :: "auction_serde \<Rightarrow> bid_request \<Rightarrow> string \<Rightarrow> typed_bid \<Rightarrow> typed_bid" where
  "adjusted_bid sd req b tb = hd (snd (hd (adjusted sd req [(b, [tb])])))"

definition final_bid :: "auction_serde \<Rightarrow> bid_request \<Rightarrow> string \<Rightarrow> typed_bid \<Rightarrow> bid" where
  "final_bid sd req b tb =
     (let adj = tb_bid (adjusted_bid sd req b tb) in apply_bid_macros (macros_of req b adj) adj)"

lemma adjusted_map: "adjusted sd req rs = map (\<lambda>(b, tbs). (b, map (adjusted_bid sd req b) tbs)) rs"
  unfolding adjusted_bid_def adjusted_def adjust_results_def
  by (auto split: option.splits)

lemma adjusted_bid_keeps [simp]:
  "bid_id (tb_bid (adjusted_bid sd req b tb)) = tb_id tb"
  "bid_impid (tb_bid (adjusted_bid sd req b tb)) = tb_impid tb"
  "bid_crid (tb_bid (adjusted_bid sd req b tb)) = bid_crid (tb_bid tb)"
  by (auto simp: adjusted_bid_def adjusted_def adjust_results_def adjust_bid_def set_price_def split: option.splits)

lemma final_bid_keeps [simp]:
  "bid_id (final_bid sd req b tb) = tb_id tb"
  "bid_impid (final_bid sd req b tb) = tb_impid tb"
  "bid_crid (final_bid sd req b tb) = bid_crid (tb_bid tb)"
  "bid_price (final_bid sd req b tb) = tb_price (adjusted_bid sd req b tb)"
  by (simp_all add: final_bid_def apply_bid_macros_def Let_def)

lemma seat_bid_of_adjusted:
  "seat_bid_of req (b, map (adjusted_bid sd req b) tbs) =
     default_seat_bid\<lparr>seatbid_bid := map (final_bid sd req b) tbs, seatbid_seat := Some b\<rparr>"
  by (simp add: seat_bid_of_def final_bid_def Let_def comp_def)

lemma processed_good:
  assumes "iter_order (env_bid_order env name)" "tb \<in> set (snd (processed sd env areq name br))"
  shows "keep_bid (map imp_id (req_imp (areq_bid_request areq))) tb" "\<not> below_floor (req_imp (areq_bid_request areq)) tb"
  using assms(2) limit_bids_subset [OF assms(1)] dedup_subset
  unfolding processed_def process_bids_eq good_bids_def by fastforce+

lemma run_task_bidder: "run_task env t = Some r \<Longrightarrow> bres_bidder_name r = task_bidder t"
  by (cases t) (auto simp: request_bid_def Let_def split: if_splits prod.splits)

lemma results_of_mem:
  "(b, tbs) \<in> set (results_of sd env areq result) \<longleftrightarrow>
     (\<exists>r br. result = Some r \<and> bres_bidder_name r = b \<and> bres_response r = Inr br \<and> usable br
        \<and> tbs = snd (processed sd env areq b br) \<and> tbs \<noteq> [])"
proof (cases result)
  case (Some r)
  then show ?thesis by (cases "bres_response r") auto
qed simp

lemma results_of_key: "map fst (results_of sd env areq (run_task env t)) \<in> {[], [task_bidder t]}"
  by (cases "run_task env t") (auto dest: run_task_bidder split: sum.splits)

lemma auction_results:
  fixes sd x env areq ex
  defines "req \<equiv> areq_bid_request areq"
  defines "rs \<equiv> col_bidder_results (snd (join_all sd env areq (fan_out (sd_base sd) (fan_config_of sd x env req) (active_bidders sd x env req) ex)))"
  assumes ord: "iter_order (env_bidder_order env)" "iter_order (env_arrival env)"
  shows "distinct (map fst rs)"
    and "(b, tbs) \<in> set rs \<Longrightarrow> \<exists>t r br. task_for (sd_base sd) (fan_config_of sd x env req) b = Some t
           \<and> b \<in> fst ` set (split_imps_for_bidders (req_imp req) (all_bidder_names x))
           \<and> run_task env t = Some r \<and> bres_response r = Inr br \<and> usable br
           \<and> tbs = snd (processed sd env areq b br) \<and> tbs \<noteq> []"
proof -
  obtain bs where bs:
    "fs_tasks (fan_out (sd_base sd) (fan_config_of sd x env req) (active_bidders sd x env req) ex) =
       List.map_filter (task_for (sd_base sd) (fan_config_of sd x env req)) bs"
    "distinct bs" "set bs \<subseteq> fst ` set (split_imps_for_bidders (req_imp req) (all_bidder_names x))"
    by (rule auction_tasks [OF ord(1), where sd = sd and x = x and ex = ex and req = req]) blast
  define ts where "ts = List.map_filter (task_for (sd_base sd) (fan_config_of sd x env req)) bs"
  have j: "mset (joined env ts) = mset (map (run_task env) ts)"
    using ord(2) tasks_distinct [OF bs(2)] unfolding ts_def by (rule joined_mset)
  have rs: "rs = concat (map (results_of sd env areq) (joined env ts))"
    by (simp add: rs_def join_all_results bs(1) ts_def)
  have "mset rs = mset (concat (map (results_of sd env areq) (map (run_task env) ts)))"
    unfolding rs mset_concat using j by (metis mset_map sum_mset_sum_list)
  then have "mset (map fst rs) = mset (map fst (concat (map (\<lambda>t. results_of sd env areq (run_task env t)) ts)))"
    by (simp add: comp_def)
  moreover have "distinct (map fst (concat (map (\<lambda>t. results_of sd env areq (run_task env t)) ts)))"
    unfolding ts_def using results_of_key tasks_distinct [OF bs(2)] by (rule distinct_concat_keys)
  ultimately show "distinct (map fst rs)"
    using mset_eq_imp_distinct_iff by blast
  assume "(b, tbs) \<in> set rs"
  then obtain res where res: "res \<in> set (joined env ts)" "(b, tbs) \<in> set (results_of sd env areq res)"
    by (auto simp: rs)
  obtain t where t: "t \<in> set ts" "res = run_task env t" using mset_eq_setD [OF j] res(1) by auto
  obtain r br where r: "res = Some r" "bres_bidder_name r = b" "bres_response r = Inr br" "usable br"
      "tbs = snd (processed sd env areq b br)" "tbs \<noteq> []"
    using res(2) unfolding results_of_mem by blast
  obtain b' where b': "b' \<in> set bs" "task_for (sd_base sd) (fan_config_of sd x env req) b' = Some t"
    using t(1) by (auto simp: ts_def List.map_filter_def)
  moreover have "b' = b" using task_for_bidder [OF b'(2)] run_task_bidder r(1,2) t(2) by metis
  ultimately show "\<exists>t r br. task_for (sd_base sd) (fan_config_of sd x env req) b = Some t
           \<and> b \<in> fst ` set (split_imps_for_bidders (req_imp req) (all_bidder_names x))
           \<and> run_task env t = Some r \<and> bres_response r = Inr br \<and> usable br
           \<and> tbs = snd (processed sd env areq b br) \<and> tbs \<noteq> []"
    using r t(2) bs(3) by (metis subsetD)
qed

section \<open>Lemmas: hooks that never reject\<close>

definition never_rejects :: "hook_executor \<Rightarrow> bool" where
  "never_rejects e \<longleftrightarrow>
     (\<forall>st. \<forall>(i, h) \<in> set (get_hooks (pb_repo (ex_plan_builder e)) st).
        \<forall>ctx p t el r. hook_handle h ctx p t = Ran el (Inr r) \<longrightarrow> \<not> hr_reject r)"

definition quiet :: "hook_executor option \<Rightarrow> bool" where
  "quiet ex \<longleftrightarrow> (case ex of None \<Rightarrow> True | Some e \<Rightarrow> never_rejects e)"

lemma never_rejects_runs: "never_rejects e \<Longrightarrow> rejection st (stage_runs e st p) = None"
proof -
  assume nr: "never_rejects e"
  have "\<not> run_rejects run" if mem: "run \<in> set (stage_runs e st p)" for run
  proof -
    obtain i h where h: "(i, h) \<in> set (get_hooks (pb_repo (ex_plan_builder e)) st)"
      "spawn_hook e (pb_default_group_timeout (ex_plan_builder e)) p \<lparr>hw_module = i, hw_code = [], hw_hook = h\<rparr> = Some run"
      using mem by (auto simp: stage_runs_def List.map_filter_def split: if_splits)
    have "\<not> hr_reject r" if "hook_handle h ctx p t = Ran el (Inr r)" for ctx p t el r
      using nr h(1) that unfolding never_rejects_def by blast
    then show ?thesis
      using h(2) by (auto simp: spawn_hook_def Let_def run_rejects_def split: hook_run.splits sum.splits)
  qed
  then have "List.find run_rejects (stage_runs e st p) = None" by (auto simp: find_None_iff)
  then show ?thesis by (simp add: rejection_def)
qed

lemma run_stage_quiet:
  assumes "quiet ex"
  shows "snd (run_stage st p ex) = None" "quiet (fst (run_stage st p ex))"
proof -
  have "snd (run_stage st p ex) = None \<and> quiet (fst (run_stage st p ex))"
  proof (cases ex)
    case (Some e)
    then have "snd (execute_stage st p e) = Inr (fold run_mutates (stage_runs e st p) p)" "never_rejects e"
      using assms never_rejects_runs by (simp_all add: quiet_def execute_stage_result)
    then show ?thesis
      using execute_stage_plan [of st p e]
      by (cases "execute_stage st p e") (simp add: Some run_stage_def quiet_def never_rejects_def)
  qed (simp add: run_stage_def quiet_def)
  then show "snd (run_stage st p ex) = None" "quiet (fst (run_stage st p ex))" by simp_all
qed

lemma fan_step_quiet:
  assumes "quiet (fs_executor fs)"
  shows "\<exists>ex. quiet ex \<and> fan_step sd fc b fs =
     \<lparr>fs_executor = ex, fs_non_bids = fs_non_bids fs @ privacy_non_bids fc b,
      fs_tasks = fs_tasks fs @ (case task_for sd fc b of None \<Rightarrow> [] | Some t \<Rightarrow> [t])\<rparr>"
proof (cases "allowed fc b \<and> stored_for sd fc b = []")
  case False
  then show ?thesis
    using assms push_non_bids_append [of b _ "fs_non_bids fs"]
    by (intro exI [of _ "fs_executor fs"])
      (auto simp: fan_step_def allowed_def stored_for_def privacy_non_bids_def task_for_def split: option.splits)
next
  case True
  have step: "fan_step sd fc b fs = call_bidder sd fc b fs"
    using True by (auto simp: fan_step_def allowed_def stored_for_def Let_def split: option.splits)
  show ?thesis
  proof (cases "adapter_for fc b")
    case None
    then show ?thesis
      using True assms by (intro exI [of _ "fs_executor fs"])
        (simp add: step call_bidder_def adapter_for_def [symmetric] task_for_def privacy_non_bids_def)
  next
    case (Some a)
    define r where "r = run_stage BidderRequest
      (JObj [(''bid_request'', or_null (en_bid_request sd (bidder_request_for sd fc b))), (''bidder'', JStr b)]) (fs_executor fs)"
    have q: "snd r = None" "quiet (fst r)" unfolding r_def using run_stage_quiet [OF assms] by blast+
    have "call_bidder sd fc b fs = fs\<lparr>fs_executor := fst r, fs_tasks := fs_tasks fs @ [BidderTask b a (bidder_request_for sd fc b) (fc_timeout_ms fc)]\<rparr>"
      using Some q unfolding r_def by (auto simp: call_bidder_def adapter_for_def Let_def split: prod.splits option.splits)
    then show ?thesis
      using True Some q(2) by (intro exI [of _ "fst r"]) (simp add: step task_for_def privacy_non_bids_def)
  qed
qed

lemma fan_fold_quiet:
  assumes "quiet (fs_executor fs)"
  shows "\<exists>ex. quiet ex \<and> fold (fan_step sd fc) active fs =
     \<lparr>fs_executor = ex, fs_non_bids = fs_non_bids fs @ concat (map (privacy_non_bids fc) active),
      fs_tasks = fs_tasks fs @ List.map_filter (task_for sd fc) active\<rparr>"
  using assms
proof (induction active arbitrary: fs)
  case Nil
  then show ?case by (cases fs) (simp add: map_filter_simps)
next
  case (Cons b active)
  obtain ex where s: "quiet ex" "fan_step sd fc b fs =
     \<lparr>fs_executor = ex, fs_non_bids = fs_non_bids fs @ privacy_non_bids fc b,
      fs_tasks = fs_tasks fs @ (case task_for sd fc b of None \<Rightarrow> [] | Some t \<Rightarrow> [t])\<rparr>"
    using fan_step_quiet [OF Cons.prems] by blast
  obtain ex' where f: "quiet ex'" "fold (fan_step sd fc) active (fan_step sd fc b fs) =
     \<lparr>fs_executor = ex', fs_non_bids = fs_non_bids (fan_step sd fc b fs) @ concat (map (privacy_non_bids fc) active),
      fs_tasks = fs_tasks (fan_step sd fc b fs) @ List.map_filter (task_for sd fc) active\<rparr>"
    using Cons.IH [of "fan_step sd fc b fs"] s by auto
  show ?case
    using f s by (intro exI [of _ ex']) (auto simp: map_filter_simps split: option.splits)
qed

text \<open>The auction without hooks, as a specification: the checks in their order, the tasks of all allowed
  bidders, the collected answers, the response.\<close>

definition collect_all :: "auction_serde \<Rightarrow> auction_env \<Rightarrow> auction_request \<Rightarrow> bidder_result option list \<Rightarrow> seat_non_bid list \<Rightarrow> collected" where
  "collect_all sd env areq results nbs =
     fold (collect_result (areq_currency_rates areq) (adjustment_factors (de_factors (sd_base sd)) (areq_bid_request areq))
             (areq_bid_request areq) (multi_bid_limits (de_multi_bids (sd_base sd)) (areq_bid_request areq)) (env_bid_order env))
       results (no_results nbs)"

definition plain_auction :: "auction_serde \<Rightarrow> exchange \<Rightarrow> auction_env \<Rightarrow> auction_request \<Rightarrow> (string, auction_response) res" where
  "plain_auction sd x env areq =
     (let req = areq_bid_request areq;
          fc = fan_config_of sd x env req;
          active = active_bidders sd x env req
      in if has_fatal_errors (validate_request req)
         then Inl (''invalid request: '' @ join_str ''; '' (map show_validation_error (validate_request req)))
         else case stored_auction_response sd x req of
                Some r \<Rightarrow> r
              | None \<Rightarrow>
                  (case check_request req of
                     Some e \<Rightarrow> Inl e
                   | None \<Rightarrow> Inr (build_response sd x env req
                               (collect_all sd env areq (joined env (List.map_filter (task_for (sd_base sd) fc) active))
                                  (concat (map (privacy_non_bids fc) active))))))"

lemma collect_all_fold:
  "collect_all sd env areq rs nbs = snd (fold (join_step sd env areq) rs (ex, no_results nbs))"
proof -
  have "snd (fold (join_step sd env areq) rs s) =
      fold (collect_result (areq_currency_rates areq) (adjustment_factors (de_factors (sd_base sd)) (areq_bid_request areq))
             (areq_bid_request areq) (multi_bid_limits (de_multi_bids (sd_base sd)) (areq_bid_request areq)) (env_bid_order env)) rs (snd s)" for rs s
    by (induction rs arbitrary: s) (simp_all add: join_step_collects)
  then show ?thesis by (simp add: collect_all_def)
qed

lemma join_all_collects:
  "snd (join_all sd env areq fs) = collect_all sd env areq (joined env (fs_tasks fs)) (fs_non_bids fs)"
  by (simp add: join_all_def collect_all_fold [of sd env areq _ _ "fs_executor fs"])

lemma collect_all_perm:
  assumes "mset rs = mset rs'"
  shows "mset (col_bidder_results (collect_all sd env areq rs nbs)) = mset (col_bidder_results (collect_all sd env areq rs' nbs))"
    "mset (col_non_bids (collect_all sd env areq rs nbs)) = mset (col_non_bids (collect_all sd env areq rs' nbs))"
    "mset (col_timed_out (collect_all sd env areq rs nbs)) = mset (col_timed_out (collect_all sd env areq rs' nbs))"
  using joined_results.out_perm [OF assms, of sd env areq "(None, no_results nbs)"]
    joined_non_bids.out_perm [OF assms, of sd env areq "(None, no_results nbs)"]
    joined_timeouts.out_perm [OF assms, of sd env areq "(None, no_results nbs)"]
  by (simp_all add: collect_all_fold [where ex = None])

lemma run_bidders_quiet:
  assumes "quiet ex"
  shows "snd (run_bidders sd x env areq ex) =
     build_response sd x env (areq_bid_request areq)
       (collect_all sd env areq
          (joined env (List.map_filter (task_for (sd_base sd) (fan_config_of sd x env (areq_bid_request areq)))
             (active_bidders sd x env (areq_bid_request areq))))
          (concat (map (privacy_non_bids (fan_config_of sd x env (areq_bid_request areq))) (active_bidders sd x env (areq_bid_request areq)))))"
  using fan_fold_quiet [of "\<lparr>fs_executor = ex, fs_non_bids = [], fs_tasks = []\<rparr>" "sd_base sd"
      "fan_config_of sd x env (areq_bid_request areq)" "active_bidders sd x env (areq_bid_request areq)"] assms
  unfolding run_bidders_response join_all_collects fan_out_def by auto

lemma hold_auction_quiet:
  assumes "quiet (exc_hook_executor x)"
  shows "snd (hold_auction sd x env areq) = plain_auction sd x env areq"
proof -
  define req where "req = areq_bid_request areq"
  define payload where "payload = or_null (en_bid_request (sd_base sd) req)"
  obtain e1 where r1: "run_stage EntrypointRaw payload (exc_hook_executor x) = (e1, None)" "quiet e1"
    using run_stage_quiet [OF assms] by (metis prod.collapse)
  obtain e2 where r2: "run_stage RawAuctionRequest payload e1 = (e2, None)" "quiet e2"
    using run_stage_quiet [OF r1(2)] by (metis prod.collapse)
  obtain e3 where r3: "run_stage ProcessedAuctionRequest payload e2 = (e3, None)" "quiet e3"
    using run_stage_quiet [OF r2(2)] by (metis prod.collapse)
  show ?thesis
    using r1(1) r2(1) r3(1) run_bidders_quiet [OF r3(2), of sd x env areq]
    unfolding hold_auction_def hold_auction_with_timeouts_def plain_auction_def req_def payload_def
    by (simp add: Let_def case_prod_unfold split: option.split)
qed

lemma check_request_None:
  "check_request req = None \<longleftrightarrow> req_imp req \<noteq> [] \<and> (case req_tmax req of Some t \<Rightarrow> 0 \<le> t | None \<Rightarrow> True)
      \<and> list_all (\<lambda>i. imp_id i \<noteq> [] \<and> has_media i) (req_imp req)"
proof -
  have "check_imps is = None \<longleftrightarrow> list_all (\<lambda>i. imp_id i \<noteq> [] \<and> has_media i) is" for "is"
    by (induction "is") (auto simp: has_media_def)
  then show ?thesis by (auto simp: check_request_def split: option.splits)
qed

text \<open>Whether the hooks let the request pass: those of the entry point and of the raw request, and those of the processed request.\<close>

definition early_hooks_pass :: "auction_serde \<Rightarrow> exchange \<Rightarrow> bid_request \<Rightarrow> bool" where
  "early_hooks_pass sd x req =
     (let payload = or_null (en_bid_request (sd_base sd) req); entry = run_stage EntrypointRaw payload (exc_hook_executor x)
      in snd entry = None \<and> snd (run_stage RawAuctionRequest payload (fst entry)) = None)"

definition processed_hooks_pass :: "auction_serde \<Rightarrow> exchange \<Rightarrow> bid_request \<Rightarrow> bool" where
  "processed_hooks_pass sd x req =
     (let payload = or_null (en_bid_request (sd_base sd) req); entry = run_stage EntrypointRaw payload (exc_hook_executor x);
          early = run_stage RawAuctionRequest payload (fst entry)
      in snd (run_stage ProcessedAuctionRequest payload (fst early)) = None)"

lemma hold_auction_ok_iff:
  "is_ok (snd (hold_auction sd x env areq)) \<longleftrightarrow>
    (let req = areq_bid_request areq
     in req_imp req \<noteq> [] \<and> (req_site req = None \<or> req_app req = None) \<and> early_hooks_pass sd x req
        \<and> (case stored_auction_response sd x req of Some r \<Rightarrow> is_ok r | None \<Rightarrow> check_request req = None \<and> processed_hooks_pass sd x req))"
  unfolding hold_auction_def hold_auction_with_timeouts_def Let_def fatal_validate_request early_hooks_pass_def processed_hooks_pass_def
  by (auto split: option.splits prod.splits)

section \<open>Properties\<close>

text \<open>Property C1.  Where the bids of a response come from.  When the auction succeeds without a stored auction
  response: every seat appears once and belongs to a bidder that some impression addresses and that the
  privacy check allows; its bids are the accepted bids of the answer of that bidder's own task, with the
  extended adjustments and the macros applied; each has an id and a creative id and is for an impression of
  the request.  The response repeats the request's id and is in USD.\<close>

theorem auction_seats:
  assumes "snd (hold_auction sd x env areq) = Inr resp"
    and "stored_auction_response sd x (areq_bid_request areq) = None"
    and "iter_order (env_arrival env)" "iter_order (env_bidder_order env)" "\<forall>b. iter_order (env_bid_order env b)"
  shows "resp_id (ares_bid_response resp) = req_id (areq_bid_request areq)
    \<and> resp_cur (ares_bid_response resp) = Some ''USD''
    \<and> distinct (map seatbid_seat (resp_seatbid (ares_bid_response resp)))
    \<and> (\<forall>s \<in> set (resp_seatbid (ares_bid_response resp)). \<exists>b t r br.
         seatbid_seat s = Some b
         \<and> check_privacy_for_bidder (extract_privacy_config (areq_bid_request areq)) b = Allow
         \<and> b \<in> fst ` set (split_imps_for_bidders (req_imp (areq_bid_request areq)) (all_bidder_names x))
         \<and> task_for (sd_base sd) (fan_config_of sd x env (areq_bid_request areq)) b = Some t
         \<and> run_task env t = Some r \<and> bres_response r = Inr br
         \<and> seatbid_bid s = map (final_bid sd (areq_bid_request areq) b) (snd (processed sd env areq b br))
         \<and> (\<forall>bd \<in> set (seatbid_bid s). bid_id bd \<noteq> [] \<and> bid_crid bd \<notin> {None, Some []}
              \<and> bid_impid bd \<in> imp_id ` set (req_imp (areq_bid_request areq))))"
proof -
  define req where "req = areq_bid_request areq"
  obtain ex where resp: "resp = snd (run_bidders sd x env areq ex)"
    using assms(1,2) by (rule hold_auction_Inr)
  define rs where "rs = col_bidder_results (snd (join_all sd env areq
      (fan_out (sd_base sd) (fan_config_of sd x env req) (active_bidders sd x env req) ex)))"
  have seats: "resp_seatbid (ares_bid_response resp) =
      map (\<lambda>(b, tbs). default_seat_bid\<lparr>seatbid_bid := map (final_bid sd req b) tbs, seatbid_seat := Some b\<rparr>) rs"
    unfolding resp run_bidders_response build_response_def adjusted_map rs_def req_def
    by (simp add: seat_bid_of_adjusted comp_def case_prod_unfold)
  have "map seatbid_seat (resp_seatbid (ares_bid_response resp)) = map Some (map fst rs)"
    unfolding seats by (simp add: case_prod_unfold comp_def)
  moreover have "distinct (map Some (map fst rs))"
    using auction_results(1) [OF assms(4,3), where sd = sd and x = x and areq = areq and ex = ex] unfolding rs_def req_def
    by (subst distinct_map) simp
  moreover have "\<exists>b t r br. seatbid_seat s = Some b \<and> check_privacy_for_bidder (extract_privacy_config req) b = Allow
         \<and> b \<in> fst ` set (split_imps_for_bidders (req_imp req) (all_bidder_names x))
         \<and> task_for (sd_base sd) (fan_config_of sd x env req) b = Some t
         \<and> run_task env t = Some r \<and> bres_response r = Inr br
         \<and> seatbid_bid s = map (final_bid sd req b) (snd (processed sd env areq b br))
         \<and> (\<forall>bd \<in> set (seatbid_bid s). bid_id bd \<noteq> [] \<and> bid_crid bd \<notin> {None, Some []} \<and> bid_impid bd \<in> imp_id ` set (req_imp req))"
    if mem: "s \<in> set (resp_seatbid (ares_bid_response resp))" for s
  proof -
    obtain b tbs where s: "(b, tbs) \<in> set rs" "s = default_seat_bid\<lparr>seatbid_bid := map (final_bid sd req b) tbs, seatbid_seat := Some b\<rparr>"
      using mem unfolding seats by auto
    obtain t r br where t: "task_for (sd_base sd) (fan_config_of sd x env req) b = Some t"
        "b \<in> fst ` set (split_imps_for_bidders (req_imp req) (all_bidder_names x))"
        "run_task env t = Some r" "bres_response r = Inr br" "tbs = snd (processed sd env areq b br)"
      using auction_results(2) [OF assms(4,3), where sd = sd and x = x and areq = areq and ex = ex and b = b and tbs = tbs] s(1) unfolding rs_def req_def by blast
    have ok: "check_privacy_for_bidder (extract_privacy_config req) b = Allow"
      using t(1) by (auto simp: task_for_def allowed_def fan_config_of_def split: if_splits)
    have good: "tb_id tb \<noteq> [] \<and> bid_crid (tb_bid tb) \<notin> {None, Some []} \<and> tb_impid tb \<in> imp_id ` set (req_imp req)" if "tb \<in> set tbs" for tb
      using processed_good(1) [of env b tb sd areq br] assms(5) that t(5)
      by (auto simp: keep_bid_def Let_def req_def split: if_splits option.splits)
    show ?thesis using s(2) t ok good by (intro exI [of _ b] exI [of _ t] exI [of _ r] exI [of _ br]) simp
  qed
  ultimately show ?thesis
    unfolding resp run_bidders_response build_response_def req_def [symmetric] by simp
qed

definition sample_banner_imp :: imp where
  "sample_banner_imp = sample_imp\<lparr>imp_banner := Some default_banner, imp_jext := Some (JObj [(''a'', JObj [])])\<rparr>"

definition sample_areq :: auction_request where
  "sample_areq = \<lparr>areq_bid_request = default_bid_request\<lparr>req_id := ''r'', req_imp := [sample_banner_imp]\<rparr>,
     areq_account = None, areq_user_syncs = None, areq_currency_rates = None\<rparr>"

definition sample_adapter :: adapted_bidder where
  "sample_adapter =
     \<lparr>ab_bidder = \<lparr>make_requests = (\<lambda>_ _. ([request_data_new_post ''u'' []], [])),
                   make_bids = (\<lambda>_ _ _. Inr (sample_response ''USD'' [sample_bid ''x'' 60]))\<rparr>,
      ab_endpoint = ''u'', ab_endpoint_compression = None\<rparr>"

definition sample_env :: auction_env where
  "sample_env =
     \<lparr>env_gzip = (\<lambda>_. None), env_network = (\<lambda>_ _ _ _. Responded 200 (Inr [])), env_duration_ms = (\<lambda>_. 5),
      env_panics = (\<lambda>_. False), env_elapsed_ms = 7, env_arrival = (\<lambda>ks. ks), env_bidder_order = (\<lambda>ks. ks),
      env_stored_order = (\<lambda>_ ks. ks), env_bid_order = (\<lambda>_ ks. ks), env_winner_order = (\<lambda>ks. ks)\<rparr>"

definition sample_serde :: auction_serde where
  "sample_serde =
     \<lparr>sd_base = \<lparr>de_site = (\<lambda>_. None), de_user = (\<lambda>_. None), de_app = (\<lambda>_. None), de_geo = (\<lambda>_. None), en_geo = (\<lambda>_. None),
        de_bid = (\<lambda>_. None), en_bid = (\<lambda>_. None), de_bid_response = (\<lambda>_. Inl []), en_bid_response = (\<lambda>_. None),
        en_bid_request = (\<lambda>_. None), de_string_map = (\<lambda>_. None), de_multi_bids = (\<lambda>_. None), de_factors = (\<lambda>_. None)\<rparr>,
      de_ast_rules = (\<lambda>_. None), de_brand_category = (\<lambda>_. False), de_deal_tier = (\<lambda>_. None),
      de_bid_adjustments = (\<lambda>_. None), en_seat_non_bids = (\<lambda>_. None), en_dsa = (\<lambda>_. None), en_http_call = (\<lambda>_. JNull)\<rparr>"

lemma sample_orders:
  "iter_order (env_arrival sample_env)" "iter_order (env_bidder_order sample_env)" "\<forall>b. iter_order (env_bid_order sample_env b)"
  by (simp_all add: sample_env_def iter_order_id)

definition sample_collected :: "exchange \<Rightarrow> collected" where
  "sample_collected x =
     collect_all sample_serde sample_env sample_areq
       (joined sample_env (List.map_filter (task_for (sd_base sample_serde)
          (fan_config_of sample_serde x sample_env (areq_bid_request sample_areq)))
          (active_bidders sample_serde x sample_env (areq_bid_request sample_areq))))
       (concat (map (privacy_non_bids (fan_config_of sample_serde x sample_env (areq_bid_request sample_areq)))
          (active_bidders sample_serde x sample_env (areq_bid_request sample_areq))))"

lemma sample_plain:
  "exc_stored_responses x = None \<Longrightarrow> plain_auction sample_serde x sample_env sample_areq =
     Inr (build_response sample_serde x sample_env (areq_bid_request sample_areq) (sample_collected x))"
proof -
  have f: "\<not> has_fatal_errors (validate_request (areq_bid_request sample_areq))" by code_simp
  have c: "check_request (areq_bid_request sample_areq) = None" by code_simp
  show "exc_stored_responses x = None \<Longrightarrow> ?thesis"
    using f c unfolding plain_auction_def sample_collected_def Let_def by (simp add: stored_auction_response_def split: option.split)
qed

lemma sample_results: "map fst (col_bidder_results (sample_collected (exchange_new [(''a'', sample_adapter)]))) = [''a'']"
  by code_simp

theorem auction_seats_witness:
  "\<exists>resp. snd (hold_auction sample_serde (exchange_new [(''a'', sample_adapter)]) sample_env sample_areq) = Inr resp
     \<and> map seatbid_seat (resp_seatbid (ares_bid_response resp)) = [Some ''a'']
     \<and> check_privacy_for_bidder (extract_privacy_config (areq_bid_request sample_areq)) ''a'' = Allow"
proof -
  define x where "x = exchange_new [(''a'', sample_adapter)]"
  define resp where "resp = build_response sample_serde x sample_env (areq_bid_request sample_areq) (sample_collected x)"
  have "quiet (exc_hook_executor x)" "exc_stored_responses x = None" by (simp_all add: x_def exchange_new_def quiet_def)
  then have ok: "snd (hold_auction sample_serde x sample_env sample_areq) = Inr resp"
    by (simp add: hold_auction_quiet sample_plain resp_def)
  have none: "stored_auction_response sample_serde x (areq_bid_request sample_areq) = None"
    by (simp add: stored_auction_response_def x_def exchange_new_def split: option.split)
  have seats: "map seatbid_seat (resp_seatbid (ares_bid_response resp)) = [Some ''a'']"
  proof -
    have "map seatbid_seat (resp_seatbid (ares_bid_response resp)) = map Some (map fst (col_bidder_results (sample_collected x)))"
      by (simp add: resp_def build_response_def adjusted_map seat_bid_of_def case_prod_unfold comp_def)
    then show ?thesis by (simp add: x_def sample_results)
  qed
  then obtain s where "s \<in> set (resp_seatbid (ares_bid_response resp))" "seatbid_seat s = Some ''a''"
    by (auto simp: map_eq_Cons_conv)
  then have "check_privacy_for_bidder (extract_privacy_config (areq_bid_request sample_areq)) ''a'' = Allow"
    using auction_seats [OF ok none sample_orders] by fastforce
  then show ?thesis using ok seats by (auto simp: x_def)
qed

text \<open>Property C2.  The auction refines the auction without hooks: as long as no hook rejects, whatever the hooks
  of any stage change in their payloads, the result is that of the plain sequence of checks, stored response,
  bidder tasks, collection and response; and per-bidder timeouts given to the call have no effect.\<close>

theorem auction_refines_plain:
  assumes "quiet (exc_hook_executor x)"
  shows "snd (hold_auction_with_timeouts sd x env areq timeouts) = plain_auction sd x env areq"
proof -
  have "hold_auction_with_timeouts sd x env areq timeouts = hold_auction sd x env areq"
    by (simp add: hold_auction_def hold_auction_with_timeouts_def)
  then show ?thesis using hold_auction_quiet [OF assms] by simp
qed

definition mutating_executor :: hook_executor where
  "mutating_executor =
     executor_new (plan_builder_new [(ProcessedAuctionRequest,
       [(''m'', \<lparr>hook_id = ''m'', hook_stages = [ProcessedAuctionRequest],
                 hook_handle = (\<lambda>_ _ _. Ran 1 (Inr (hook_result_noop\<lparr>hr_change_set :=
                   [\<lparr>mut_action = MutDelete, mut_key = [''imp''], mut_apply = (\<lambda>_. Inr JNull)\<rparr>]\<rparr>)))\<rparr>)])] True) ''auction''"

theorem auction_refines_plain_witness:
  "snd (execute_stage ProcessedAuctionRequest (JObj []) mutating_executor) = Inr JNull
   \<and> snd (hold_auction_with_timeouts sample_serde ((exchange_new [(''a'', sample_adapter)])\<lparr>exc_hook_executor := Some mutating_executor\<rparr>)
            sample_env sample_areq [(''a'', 1)]) =
       plain_auction sample_serde ((exchange_new [(''a'', sample_adapter)])\<lparr>exc_hook_executor := Some mutating_executor\<rparr>) sample_env sample_areq"
proof -
  have "never_rejects mutating_executor"
    by (auto simp: never_rejects_def mutating_executor_def executor_new_def plan_builder_new_def get_hooks_def get_or_def
        hook_result_noop_def split: if_splits)
  then have q: "quiet (exc_hook_executor ((exchange_new [(''a'', sample_adapter)])\<lparr>exc_hook_executor := Some mutating_executor\<rparr>))"
    by (simp add: quiet_def)
  have "snd (execute_stage ProcessedAuctionRequest (JObj []) mutating_executor) = Inr JNull" by code_simp
  then show ?thesis using auction_refines_plain [OF q] by blast
qed

text \<open>Property C3.  When the auction fails: exactly when the request has no impression, or both a site and an app, or a hook of the
  entry point or of the raw request rejects it, or its stored response is missing or malformed, or, without a stored response, it has a
  negative time limit, an impression without an id or one without a media type, or a hook of the processed request rejects it.\<close>

theorem auction_fails_iff:
  "is_ok (snd (hold_auction sd x env areq)) \<longleftrightarrow>
    (let req = areq_bid_request areq
     in req_imp req \<noteq> [] \<and> (req_site req = None \<or> req_app req = None) \<and> early_hooks_pass sd x req
        \<and> (case stored_auction_response sd x req of
             Some r \<Rightarrow> is_ok r
           | None \<Rightarrow> (case req_tmax req of Some t \<Rightarrow> 0 \<le> t | None \<Rightarrow> True)
                    \<and> list_all (\<lambda>i. imp_id i \<noteq> [] \<and> has_media i) (req_imp req) \<and> processed_hooks_pass sd x req))"
  unfolding hold_auction_ok_iff check_request_None Let_def by (auto split: option.splits)

theorem auction_fails_iff_witness:
  "is_ok (snd (hold_auction sample_serde (exchange_new [(''a'', sample_adapter)]) sample_env sample_areq))"
proof -
  have "early_hooks_pass sample_serde (exchange_new [(''a'', sample_adapter)]) (areq_bid_request sample_areq)"
    "processed_hooks_pass sample_serde (exchange_new [(''a'', sample_adapter)]) (areq_bid_request sample_areq)"
    by (simp_all add: early_hooks_pass_def processed_hooks_pass_def exchange_new_def run_stage_def)
  moreover have "stored_auction_response sample_serde (exchange_new [(''a'', sample_adapter)]) (areq_bid_request sample_areq) = None"
    by (simp add: stored_auction_response_def exchange_new_def split: option.split)
  moreover have "req_imp (areq_bid_request sample_areq) \<noteq> []" "req_site (areq_bid_request sample_areq) = None"
      "req_tmax (areq_bid_request sample_areq) = None"
      "list_all (\<lambda>i. imp_id i \<noteq> [] \<and> has_media i) (req_imp (areq_bid_request sample_areq))"
    by code_simp+
  ultimately show ?thesis
    using auction_fails_iff [of sample_serde "exchange_new [(''a'', sample_adapter)]" sample_env sample_areq] by (simp add: Let_def)
qed

text \<open>Property C5.  The order in which the bidders answer is immaterial, if no hook rejects: with two completion
  orders the auction fails with the same error or gives the same seats, the same non-bids and the same timed-out
  bidders up to their order.\<close>

theorem arrival_order_irrelevant:
  assumes "quiet (exc_hook_executor x)" "iter_order a" "iter_order a'" "iter_order (env_bidder_order env)"
  shows "case (snd (hold_auction sd x (env\<lparr>env_arrival := a\<rparr>) areq), snd (hold_auction sd x (env\<lparr>env_arrival := a'\<rparr>) areq)) of
      (Inr r, Inr r') \<Rightarrow>
        mset (resp_seatbid (ares_bid_response r)) = mset (resp_seatbid (ares_bid_response r'))
        \<and> mset (ares_seat_non_bids r) = mset (ares_seat_non_bids r')
        \<and> mset (ares_timed_out_bidders r) = mset (ares_timed_out_bidders r')
    | (Inl e, Inl e') \<Rightarrow> e = e'
    | _ \<Rightarrow> False"
proof -
  define req where "req = areq_bid_request areq"
  define fc where "fc = fan_config_of sd x env req"
  define ts where "ts = List.map_filter (task_for (sd_base sd) fc) (active_bidders sd x env req)"
  have fc: "fan_config_of sd x (env\<lparr>env_arrival := o1\<rparr>) req = fc" for o1 by (simp add: fan_config_of_def fc_def)
  have act: "active_bidders sd x (env\<lparr>env_arrival := o1\<rparr>) req = active_bidders sd x env req" for o1
    by (simp add: active_bidders_def fan_config_of_def)
  have run: "run_task (env\<lparr>env_arrival := o1\<rparr>) = run_task env" for o1 proof
    show "run_task (env\<lparr>env_arrival := o1\<rparr>) t = run_task env t" for t by (cases t) simp_all
  qed
  have "distinct (active_bidders sd x env req)"
    using assms(4) split_imps_wf [of "req_imp req" "all_bidder_names x"] mset_eq_imp_distinct_iff
    by (auto simp: active_bidders_def iter_order_def fan_config_of_def hm_wf_def)
  then have d: "distinct (map task_bidder ts)" unfolding ts_def by (rule tasks_distinct)
  have perm: "mset (joined (env\<lparr>env_arrival := a\<rparr>) ts) = mset (joined (env\<lparr>env_arrival := a'\<rparr>) ts)"
    using joined_mset [of "env\<lparr>env_arrival := a\<rparr>", OF _ d] joined_mset [of "env\<lparr>env_arrival := a'\<rparr>", OF _ d] assms(2,3)
    by (simp add: run)
  define nbs where "nbs = concat (map (privacy_non_bids fc) (active_bidders sd x env req))"
  have call: "collect_all sd (env\<lparr>env_arrival := o1\<rparr>) areq = collect_all sd env areq" for o1
    by (intro ext) (simp add: collect_all_def)
  have resp: "\<And>o1. plain_auction sd x (env\<lparr>env_arrival := o1\<rparr>) areq =
     (if has_fatal_errors (validate_request req)
      then Inl (''invalid request: '' @ join_str ''; '' (map show_validation_error (validate_request req)))
      else case stored_auction_response sd x req of Some r \<Rightarrow> r
           | None \<Rightarrow> (case check_request req of Some e \<Rightarrow> Inl e
             | None \<Rightarrow> Inr (build_response sd x (env\<lparr>env_arrival := o1\<rparr>) req
                        (collect_all sd env areq (joined (env\<lparr>env_arrival := o1\<rparr>) ts) nbs))))"
    unfolding plain_auction_def Let_def call req_def [symmetric] fc act ts_def nbs_def by (rule refl)
  show ?thesis
    unfolding hold_auction_quiet [OF assms(1)] resp
    using collect_all_perm [OF perm, of sd env areq nbs]
    by (auto simp: build_response_def adjusted_map split: sum.split option.split)
qed

theorem arrival_order_irrelevant_witness:
  "case (snd (hold_auction sample_serde (exchange_new [(''a'', sample_adapter)]) (sample_env\<lparr>env_arrival := (\<lambda>ks. ks)\<rparr>) sample_areq),
         snd (hold_auction sample_serde (exchange_new [(''a'', sample_adapter)]) (sample_env\<lparr>env_arrival := rev\<rparr>) sample_areq)) of
     (Inr r, Inr r') \<Rightarrow> mset (resp_seatbid (ares_bid_response r)) = mset (resp_seatbid (ares_bid_response r'))
   | (Inl e, Inl e') \<Rightarrow> e = e' | _ \<Rightarrow> False"
proof -
  have q: "quiet (exc_hook_executor (exchange_new [(''a'', sample_adapter)]))" by (simp add: exchange_new_def quiet_def)
  have r: "iter_order rev" by (simp add: iter_order_def)
  show ?thesis
    using arrival_order_irrelevant [OF q iter_order_id r sample_orders(2), of sample_serde sample_areq]
    by (auto split: sum.splits)
qed

definition adjusting_serde :: auction_serde where
  "adjusting_serde = sample_serde\<lparr>de_bid_adjustments := (\<lambda>_. Some (Some [(''b'', [(''*'',
     [\<lparr>adj_type = ''static'', adj_value = Fin False 70, adj_currency = None\<rparr>])])]))\<rparr>"

definition adjusting_request :: bid_request where
  "adjusting_request = (areq_bid_request sample_areq)\<lparr>req_jext := Some (JObj [(''prebid'', JObj [(''bidadjustments'', JNull)])])\<rparr>"

definition two_results :: results where
  "two_results = [(''a'', [sample_bid ''x'' 60]), (''b'', [sample_bid ''y'' 55])]"

text \<open>Extended bid adjustments come too late for targeting: when a rule raises the bid of \<open>b\<close> from 55
  to 70, the response carries it as the highest bid, but the targeting keys still name \<open>a\<close>, with 60, as the winner.\<close>

theorem adjusted_after_targeting:
  "(let resp = build_response adjusting_serde (exchange_new []) sample_env adjusting_request ((no_results [])\<lparr>col_bidder_results := two_results\<rparr>)
    in map (\<lambda>s. (seatbid_seat s, map bid_price (seatbid_bid s))) (resp_seatbid (ares_bid_response resp)) =
         [(Some ''a'', [Fin False 60]), (Some ''b'', [Fin False 70])]
     \<and> get_key (ares_targeting resp) ''i'' ''hb_bidder'' = Some ''a'')"
proof -
  have adj: "adjusted adjusting_serde adjusting_request two_results =
      [(''a'', [sample_bid ''x'' 60]), (''b'', [sample_bid ''y'' 70])]" by code_simp
  have win: "find_winners two_results = [(''i'', Fin False 60, ''a'', ''x'')]" by code_simp
  have price: "bid_price (apply_bid_macros v b) = bid_price b" for v b by (simp add: apply_bid_macros_def)
  have ext: "custom_price_granularity adjusting_request = None" "rules_of adjusting_serde adjusting_request = []"
      "\<not> include_brand_category adjusting_serde adjusting_request"
      "jpath (req_jext adjusting_request) [''prebid'', ''cache'', ''bids''] = None"
    by code_simp+
  have "bid_dealid (tb_bid (sample_bid i p)) = None" for i p by (simp add: sample_bid_def typed_bid_new_def default_bid_def)
  then have "target_deals tiers two_results t = t" for tiers t
    by (simp add: target_deals_def for_bids_def two_results_def deal_keys_def)
  then have "cached_targeting adjusting_serde (exchange_new []) sample_env adjusting_request two_results =
      target_winners None two_results"
    by (simp add: cached_targeting_def target_cache_def bid_targeting_def ext target_ast_def target_categories_def exchange_new_def)
  moreover have "get_key (target_winners None two_results) ''i'' ''hb_bidder'' = Some ''a''"
    unfolding target_winners_def win by (simp add: winner_keys_def)
  moreover have "tb_price (sample_bid i p) = Fin False p" for i p by (simp add: sample_bid_def typed_bid_new_def)
  ultimately show ?thesis
    by (simp add: Let_def build_response_def adj seat_bid_of_def price)
qed

end
