(* ===== verification/Floors.thy ===== *)
theory Floors
  imports OpenRtb
begin

text \<open>
  Price floors, \<^verbatim>\<open>rust/crates/exchange/src/floors.rs\<close>: the floor of an impression from explicit values and rule
  schemas, enforcement on bids, applying floors to a request, and the fetchers of floor data with their caches.
  Decoders, random numbers, clocks, HTTP answers and the cache library are arguments.
\<close>

section \<open>Data\<close>

record floor_schema =
  fsc_fields :: "string list"
  fsc_delimiter :: "string option"

type_synonym floor_values = "(string \<times> f64) list"

record floor_model_group =
  fmg_schema :: "floor_schema option"
  fmg_values :: "floor_values option"
  fmg_model_weight :: int
  fmg_skip_rate :: int

record floor_data =
  fd_currency :: "string option"
  fd_schema :: "floor_schema option"
  fd_values :: "floor_values option"
  fd_modelgroups :: "floor_model_group list option"

record floor_enforcement =
  fe_enforce_pbs :: bool
  fe_floor_deals :: bool
  fe_enforce_rate :: int

record price_floors =
  pf_floor_min :: f64
  pf_floor_min_cur :: string
  pf_data :: "floor_data option"
  pf_enforcement :: floor_enforcement
  pf_skipped :: bool

section \<open>The floor of an impression\<close>

definition or_star :: "string option \<Rightarrow> string" where
  "or_star s = (case s of None \<Rightarrow> ''*'' | Some t \<Rightarrow> t)"

definition floor_field :: "imp \<Rightarrow> bid_request \<Rightarrow> string \<Rightarrow> string" where
  "floor_field i req field =
     (if field = ''siteDomain'' \<or> field = ''pubDomain'' \<or> field = ''domain''
      then or_star (Option.bind (req_site req) site_domain)
      else if field = ''bundle'' then or_star (Option.bind (req_app req) app_bundle)
      else if field = ''channel'' then or_star (Option.bind (req_site req) site_name)
      else if field = ''mediaType''
      then (if imp_banner i \<noteq> None then ''banner''
            else if imp_video i \<noteq> None then ''video''
            else if imp_native i \<noteq> None then ''native'' else ''*'')
      else if field = ''size''
      then (case Option.bind (imp_banner i) banner_format of
              Some (f # _) \<Rightarrow> show_int (case format_w f of None \<Rightarrow> 0 | Some w \<Rightarrow> w) @ ''x''
                              @ show_int (case format_h f of None \<Rightarrow> 0 | Some h \<Rightarrow> h)
            | _ \<Rightarrow> ''*'')
      else if field = ''gptSlot''
      then or_star (Option.bind (jpath (imp_jext i) [''data'', ''adserver'', ''adslot'']) as_str)
      else ''*'')"

definition build_floor_key :: "string list \<Rightarrow> string \<Rightarrow> imp \<Rightarrow> bid_request \<Rightarrow> string" where
  "build_floor_key fs delimiter i req = join_str delimiter (map (floor_field i req) fs)"

definition floor_delimiter :: "floor_schema \<Rightarrow> string" where
  "floor_delimiter sc = (case fsc_delimiter sc of None \<Rightarrow> ''|'' | Some d \<Rightarrow> d)"

definition wildcard_key :: "floor_schema \<Rightarrow> string" where
  "wildcard_key sc = join_str (floor_delimiter sc) (map (\<lambda>_. ''*'') (fsc_fields sc))"

text \<open>One table: the key of the impression, else the key of wildcards.\<close>

definition lookup_values :: "imp \<Rightarrow> bid_request \<Rightarrow> floor_schema \<Rightarrow> floor_values \<Rightarrow> f64 option" where
  "lookup_values i req sc vs =
     (case map_of vs (build_floor_key (fsc_fields sc) (floor_delimiter sc) i req) of
        Some f \<Rightarrow> Some f
      | None \<Rightarrow> map_of vs (wildcard_key sc))"

definition or_else :: "'a option \<Rightarrow> 'a option \<Rightarrow> 'a option" where
  "or_else a b = (case a of None \<Rightarrow> b | Some _ \<Rightarrow> a)"

text \<open>The loop over the model groups.  The question mark in its body leaves the whole function: the result is
  then \<^term>\<open>Some None\<close>.  \<^const>\<open>None\<close> is the loop running to its end.\<close>

fun lookup_groups :: "imp \<Rightarrow> bid_request \<Rightarrow> floor_data \<Rightarrow> floor_model_group list \<Rightarrow> f64 option option" where
  "lookup_groups i req d [] = None"
| "lookup_groups i req d (g # gs) =
     (case or_else (fmg_schema g) (fd_schema d) of
        None \<Rightarrow> Some None
      | Some sc \<Rightarrow>
          (case or_else (fmg_values g) (fd_values d) of
             None \<Rightarrow> Some None
           | Some vs \<Rightarrow>
               (case lookup_values i req sc vs of
                  Some f \<Rightarrow> Some (Some f)
                | None \<Rightarrow> lookup_groups i req d gs)))"

definition lookup_schema_floor :: "imp \<Rightarrow> bid_request \<Rightarrow> floor_data \<Rightarrow> f64 option" where
  "lookup_schema_floor i req d =
     (case lookup_groups i req d (case fd_modelgroups d of None \<Rightarrow> [] | Some gs \<Rightarrow> gs) of
        Some r \<Rightarrow> r
      | None \<Rightarrow>
          (case (fd_values d, fd_schema d) of
             (Some vs, Some sc) \<Rightarrow> lookup_values i req sc vs
           | _ \<Rightarrow> None))"

definition f_pos :: "f64 \<Rightarrow> bool" where
  "f_pos f = f_lt (Fin False 0) f"

definition get_floor_for_imp :: "imp \<Rightarrow> bid_request \<Rightarrow> price_floors \<Rightarrow> f64 option" where
  "get_floor_for_imp i req floors =
     (if pf_skipped floors then None
      else case (case imp_bidfloor i of Some f \<Rightarrow> if f_pos f then Some f else None | None \<Rightarrow> None) of
             Some f \<Rightarrow> if f_pos (pf_floor_min floors) then Some (f_max f (pf_floor_min floors)) else Some f
           | None \<Rightarrow>
               (case Option.bind (pf_data floors) (lookup_schema_floor i req) of
                  Some f \<Rightarrow> Some (if f_pos (pf_floor_min floors) then f_max f (pf_floor_min floors) else f)
                | None \<Rightarrow> if f_pos (pf_floor_min floors) then Some (pf_floor_min floors) else None))"

section \<open>Enforcement\<close>

definition bid_meets_floor :: "f64 \<Rightarrow> f64 \<Rightarrow> bool \<Rightarrow> bool \<Rightarrow> bool" where
  "bid_meets_floor price fl is_deal enforce_deals =
     (if f_le price (Fin False 0) then False
      else if is_deal \<and> \<not> enforce_deals then True
      else f_le fl price)"

text \<open>The random number is an argument.\<close>

definition should_skip_enforcement :: "int \<Rightarrow> int \<Rightarrow> bool" where
  "should_skip_enforcement random skip_rate =
     (if skip_rate \<le> 0 then False else if skip_rate \<ge> 100 then True else random mod 100 < skip_rate)"

definition is_satisfied_by_enforce_rate :: "int \<Rightarrow> int \<Rightarrow> int \<Rightarrow> bool" where
  "is_satisfied_by_enforce_rate random request_rate config_rate =
     (case (if request_rate > 0 \<and> config_rate > 0 then Some (min request_rate config_rate)
            else if request_rate > 0 then Some request_rate
            else if config_rate > 0 then Some config_rate else None) of
        None \<Rightarrow> True
      | Some effective_rate \<Rightarrow>
          if effective_rate \<ge> 100 then True
          else if effective_rate \<le> 0 then False
          else random mod 100 < effective_rate)"

definition floor_of_bid :: "bid_request \<Rightarrow> price_floors \<Rightarrow> string \<Rightarrow> f64" where
  "floor_of_bid req floors impid =
     (case Option.bind (List.find (\<lambda>i. imp_id i = impid) (req_imp req)) (\<lambda>i. get_floor_for_imp i req floors) of
        Some f \<Rightarrow> f | None \<Rightarrow> Fin False 0)"

definition is_deal_id :: "string option \<Rightarrow> bool" where
  "is_deal_id d = (case d of Some s \<Rightarrow> s \<noteq> [] | None \<Rightarrow> False)"

definition enforce_step ::
  "bid_request \<Rightarrow> price_floors \<Rightarrow> bool \<Rightarrow> nat \<times> string \<times> f64 \<times> string option
   \<Rightarrow> nat list \<times> string list \<times> nat list \<Rightarrow> nat list \<times> string list \<times> nat list" where
  "enforce_step req floors enforce_deals b st =
     (case (b, st) of ((i, impid, price, did), (accepted, errors, rejected)) \<Rightarrow>
        let fl = floor_of_bid req floors impid
        in if f_le fl (Fin False 0) then (accepted @ [i], errors, rejected)
           else if bid_meets_floor price fl (is_deal_id did) enforce_deals then (accepted @ [i], errors, rejected)
           else (accepted, errors @ [''bid rejected: price '' @ fmt_fixed 4 price @ '' below floor '' @ fmt_fixed 4 fl
                                      @ '' for imp '' @ impid], rejected @ [i]))"

definition enforce_floor_to_bids ::
  "bid_request \<Rightarrow> price_floors \<Rightarrow> (string \<times> f64 \<times> string option) list \<Rightarrow> bool \<Rightarrow> nat list \<times> string list \<times> nat list" where
  "enforce_floor_to_bids req floors bids enforce_deals =
     fold (enforce_step req floors enforce_deals) (List.enumerate 0 bids) ([], [], [])"

section \<open>Floors in the request\<close>

definition apply_floor :: "bid_request \<Rightarrow> price_floors \<Rightarrow> imp \<Rightarrow> imp" where
  "apply_floor req floors i =
     (case get_floor_for_imp i req floors of
        None \<Rightarrow> i
      | Some fl \<Rightarrow>
          (let i = i\<lparr>imp_bidfloor := Some fl\<rparr>
           in if pf_floor_min_cur floors \<noteq> [] then i\<lparr>imp_bidfloorcur := Some (pf_floor_min_cur floors)\<rparr>
              else case Option.bind (pf_data floors) fd_currency of
                     Some cur \<Rightarrow> i\<lparr>imp_bidfloorcur := Some cur\<rparr>
                   | None \<Rightarrow> i))"

definition apply_floors_to_request :: "bid_request \<Rightarrow> price_floors \<Rightarrow> bid_request" where
  "apply_floors_to_request req floors =
     (if pf_skipped floors then req else req\<lparr>req_imp := map (apply_floor req floors) (req_imp req)\<rparr>)"

definition extract_floors_from_request :: "(json \<Rightarrow> price_floors option) \<Rightarrow> bid_request \<Rightarrow> price_floors option" where
  "extract_floors_from_request de req = Option.bind (jpath (req_jext req) [''prebid'', ''floors'']) de"

section \<open>Fetching\<close>

record floor_fetch_config =
  ffc_url :: string
  ffc_period_secs :: nat
  ffc_max_rules :: nat
  ffc_timeout_ms :: nat
  ffc_max_age_secs :: nat
  ffc_enabled :: bool

record cached_floor_data =
  cfd_rules :: price_floors
  cfd_fetched_at :: nat

record floor_fetcher =
  ff_config :: floor_fetch_config
  ff_cached :: "cached_floor_data option"

definition floor_fetcher_new :: "floor_fetch_config \<Rightarrow> floor_fetcher" where
  "floor_fetcher_new cfg = \<lparr>ff_config = cfg, ff_cached = None\<rparr>"

text \<open>Clock values are in seconds; the clock does not go back.\<close>

definition get_cached :: "nat \<Rightarrow> floor_fetcher \<Rightarrow> price_floors option" where
  "get_cached now ff =
     (case ff_cached ff of
        None \<Rightarrow> None
      | Some c \<Rightarrow> if now - cfd_fetched_at c > ffc_max_age_secs (ff_config ff) then None else Some (cfd_rules c))"

definition set_cached :: "nat \<Rightarrow> price_floors \<Rightarrow> floor_fetcher \<Rightarrow> floor_fetcher" where
  "set_cached now rules ff = ff\<lparr>ff_cached := Some \<lparr>cfd_rules = rules, cfd_fetched_at = now\<rparr>\<rparr>"

definition trim_values :: "(string list \<Rightarrow> string list) \<Rightarrow> nat \<Rightarrow> floor_values \<Rightarrow> floor_values" where
  "trim_values ord max_rules vs = (if length vs > max_rules then take max_rules (hm_iter ord vs) else vs)"

definition trim_groups :: "(string list \<Rightarrow> string list) \<Rightarrow> nat \<Rightarrow> floor_data \<Rightarrow> floor_data" where
  "trim_groups ord max_rules d =
     d\<lparr>fd_modelgroups := map_option (map (\<lambda>g. g\<lparr>fmg_values := map_option (trim_values ord max_rules) (fmg_values g)\<rparr>)) (fd_modelgroups d)\<rparr>"

definition parse_response :: "(u8 list \<Rightarrow> price_floors option) \<Rightarrow> (string list \<Rightarrow> string list) \<Rightarrow> u8 list \<Rightarrow> nat \<Rightarrow> price_floors option" where
  "parse_response de ord body max_rules =
     map_option (\<lambda>floors. floors\<lparr>pf_data := map_option (trim_groups ord max_rules) (pf_data floors)\<rparr>) (de body)"

datatype floor_fetch_error =
    FetchHttp string
  | FetchStatus nat
  | FetchTooLarge nat nat
  | FetchParse string
  | FetchEmptyData
  | FetchValidation string

fun show_floor_fetch_error :: "floor_fetch_error \<Rightarrow> string" where
  "show_floor_fetch_error (FetchHttp m) = ''HTTP request failed: '' @ m"
| "show_floor_fetch_error (FetchStatus n) = ''server returned non-success status '' @ show_nat n"
| "show_floor_fetch_error (FetchTooLarge sz mx) =
     ''response body too large: '' @ show_nat sz @ '' bytes (max '' @ show_nat mx @ '')''"
| "show_floor_fetch_error (FetchParse m) = ''failed to parse floor JSON: '' @ m"
| "show_floor_fetch_error FetchEmptyData = ''fetched floor data contains no data field''"
| "show_floor_fetch_error (FetchValidation m) = ''validation failed: '' @ m"

definition trim_floor_rules :: "(string list \<Rightarrow> string list) \<Rightarrow> floor_data \<Rightarrow> nat \<Rightarrow> floor_data" where
  "trim_floor_rules ord d max_rules = (if max_rules = 0 then d else trim_groups ord max_rules d)"

record http_floor_fetcher =
  hff_max_body_bytes :: nat
  hff_max_rules :: nat

definition http_floor_fetcher_from_config :: "floor_fetch_config \<Rightarrow> http_floor_fetcher" where
  "http_floor_fetcher_from_config cfg = \<lparr>hff_max_body_bytes = 0, hff_max_rules = ffc_max_rules cfg\<rparr>"

text \<open>The answer of the network to a URL: a transport error, or a status and a body that can fail to arrive.\<close>

type_synonym floor_http = "string \<Rightarrow> (string, nat \<times> (string, u8 list) res) res"

definition http_fetch_floor_data ::
  "floor_http \<Rightarrow> (u8 list \<Rightarrow> (string, floor_data) res) \<Rightarrow> (string list \<Rightarrow> string list) \<Rightarrow> http_floor_fetcher \<Rightarrow> string
   \<Rightarrow> (floor_fetch_error, floor_data) res" where
  "http_fetch_floor_data net de ord ff url =
     (case net url of
        Inl e \<Rightarrow> Inl (FetchHttp e)
      | Inr (status, body) \<Rightarrow>
          if \<not> (200 \<le> status \<and> status < 300) then Inl (FetchStatus status)
          else case body of
                 Inl e \<Rightarrow> Inl (FetchHttp e)
               | Inr b \<Rightarrow>
                   if hff_max_body_bytes ff > 0 \<and> length b > hff_max_body_bytes ff
                   then Inl (FetchTooLarge (length b) (hff_max_body_bytes ff))
                   else case de b of
                          Inl e \<Rightarrow> Inl (FetchParse e)
                        | Inr d \<Rightarrow> Inr (trim_floor_rules ord d (hff_max_rules ff)))"

text \<open>The caching fetcher, over any inner fetcher and any cache: the cache library is given by its lookup and
  its insertion.\<close>

definition cached_fetch_floor_data ::
  "('c \<Rightarrow> string \<Rightarrow> floor_data option) \<Rightarrow> (string \<Rightarrow> floor_data \<Rightarrow> 'c \<Rightarrow> 'c)
   \<Rightarrow> (string \<Rightarrow> (floor_fetch_error, floor_data) res) \<Rightarrow> string \<Rightarrow> 'c \<Rightarrow> 'c \<times> (floor_fetch_error, floor_data) res" where
  "cached_fetch_floor_data cache_get cache_insert inner url c =
     (case cache_get c url of
        Some d \<Rightarrow> (c, Inr d)
      | None \<Rightarrow>
          (case inner url of
             Inr d \<Rightarrow> (cache_insert url d c, Inr d)
           | Inl e \<Rightarrow> (c, Inl e)))"

section \<open>Lemmas\<close>

text \<open>Looking up a floor does not depend on the floors the request carries.\<close>

lemma floor_field_indep [simp]:
  "floor_field (i\<lparr>imp_bidfloor := f\<rparr>) req = floor_field i req"
  "floor_field (i\<lparr>imp_bidfloorcur := c\<rparr>) req = floor_field i req"
  "floor_field i (req\<lparr>req_imp := is\<rparr>) = floor_field i req"
  by (rule ext, simp add: floor_field_def)+

lemma lookup_values_indep [simp]:
  "lookup_values (i\<lparr>imp_bidfloor := f\<rparr>) req = lookup_values i req"
  "lookup_values (i\<lparr>imp_bidfloorcur := c\<rparr>) req = lookup_values i req"
  "lookup_values i (req\<lparr>req_imp := is\<rparr>) = lookup_values i req"
  by (rule ext, rule ext, simp add: lookup_values_def build_floor_key_def)+

lemma lookup_groups_cong:
  "lookup_values i req = lookup_values j req' \<Longrightarrow> lookup_groups i req d gs = lookup_groups j req' d gs"
  by (induction gs) (simp_all split: option.split)

lemma lookup_indep [simp]:
  "lookup_schema_floor (i\<lparr>imp_bidfloor := f\<rparr>) req = lookup_schema_floor i req"
  "lookup_schema_floor (i\<lparr>imp_bidfloorcur := c\<rparr>) req = lookup_schema_floor i req"
  "lookup_schema_floor i (req\<lparr>req_imp := is\<rparr>) = lookup_schema_floor i req"
proof -
  have c: "lookup_values i req = lookup_values j req' \<Longrightarrow> lookup_schema_floor i req = lookup_schema_floor j req'" for i req j req'
    by (rule ext) (simp add: lookup_schema_floor_def lookup_groups_cong [of i req j req'] split: option.split)
  show "lookup_schema_floor (i\<lparr>imp_bidfloor := f\<rparr>) req = lookup_schema_floor i req"
      "lookup_schema_floor (i\<lparr>imp_bidfloorcur := c\<rparr>) req = lookup_schema_floor i req"
      "lookup_schema_floor i (req\<lparr>req_imp := is\<rparr>) = lookup_schema_floor i req"
    by (rule c, simp)+
qed

text \<open>The floor in two steps: the explicit or looked-up value, raised to the minimum.\<close>

definition base_floor :: "imp \<Rightarrow> bid_request \<Rightarrow> price_floors \<Rightarrow> f64 option" where
  "base_floor i req floors =
     (case imp_bidfloor i of
        Some f \<Rightarrow> if f_pos f then Some f else Option.bind (pf_data floors) (lookup_schema_floor i req)
      | None \<Rightarrow> Option.bind (pf_data floors) (lookup_schema_floor i req))"

lemma base_floor_imps [simp]: "base_floor i (req\<lparr>req_imp := is\<rparr>) floors = base_floor i req floors"
  by (cases "imp_bidfloor i") (simp_all add: base_floor_def)

lemma get_floor_eq:
  "get_floor_for_imp i req floors =
     (if pf_skipped floors then None
      else if f_pos (pf_floor_min floors)
      then Some (case base_floor i req floors of Some f \<Rightarrow> f_max f (pf_floor_min floors) | None \<Rightarrow> pf_floor_min floors)
      else base_floor i req floors)"
  by (auto simp: get_floor_for_imp_def base_floor_def split: option.split)

lemma f_max_pos:
  assumes "f_pos m"
  shows "f_pos (f_max f m)" "f_max (f_max f m) m = f_max f m" "f_le m (f_max f m)"
  using assms by (cases f; cases m; auto simp: f_pos_def)+

text \<open>Reading the floor back from an impression that got it, with or without a positive value.\<close>

lemma floor_read_back:
  assumes "get_floor_for_imp i req floors = Some f" "imp_bidfloor j = Some f" "lookup_schema_floor j req' = lookup_schema_floor i req"
  shows "get_floor_for_imp j req' floors = Some f"
proof -
  have ns: "\<not> pf_skipped floors" using assms(1) by (auto simp: get_floor_eq)
  show ?thesis
  proof (cases "f_pos (pf_floor_min floors)")
    case True
    have idem: "f_max (pf_floor_min floors) (pf_floor_min floors) = pf_floor_min floors" by (cases "pf_floor_min floors") auto
    have "f = (case base_floor i req floors of Some f \<Rightarrow> f_max f (pf_floor_min floors) | None \<Rightarrow> pf_floor_min floors)"
      using assms(1) ns True by (simp add: get_floor_eq)
    then have "f_pos f \<and> f_max f (pf_floor_min floors) = f"
      using f_max_pos(1,2) [OF True] True idem by (cases "base_floor i req floors") simp_all
    then show ?thesis using True ns assms(2) by (simp add: get_floor_eq base_floor_def)
  next
    case False
    then have "base_floor i req floors = Some f" using assms(1) ns by (simp add: get_floor_eq)
    then show ?thesis
      using False ns assms(2,3) by (auto simp: get_floor_eq base_floor_def split: option.splits if_splits)
  qed
qed

definition set_floor :: "price_floors \<Rightarrow> f64 \<Rightarrow> imp \<Rightarrow> imp" where
  "set_floor floors f i =
     (case (if pf_floor_min_cur floors \<noteq> [] then Some (pf_floor_min_cur floors) else Option.bind (pf_data floors) fd_currency) of
        Some cur \<Rightarrow> i\<lparr>imp_bidfloor := Some f, imp_bidfloorcur := Some cur\<rparr>
      | None \<Rightarrow> i\<lparr>imp_bidfloor := Some f\<rparr>)"

lemma apply_floor_eq:
  "apply_floor req floors i = (case get_floor_for_imp i req floors of None \<Rightarrow> i | Some f \<Rightarrow> set_floor floors f i)"
  by (simp add: apply_floor_def set_floor_def Let_def split: option.split)

lemma set_floor_facts [simp]:
  "imp_bidfloor (set_floor floors f i) = Some f"
  "lookup_schema_floor (set_floor floors f i) req = lookup_schema_floor i req"
  "set_floor floors f (set_floor floors f i) = set_floor floors f i"
  by (simp_all add: set_floor_def split: option.split)

lemma apply_floor_again:
  "apply_floor (req\<lparr>req_imp := is\<rparr>) floors (apply_floor req floors i) = apply_floor req floors i"
proof (cases "get_floor_for_imp i req floors")
  case None
  then have "get_floor_for_imp i (req\<lparr>req_imp := is\<rparr>) floors = None" by (simp add: get_floor_eq split: if_splits)
  then show ?thesis using None by (simp add: apply_floor_eq)
next
  case (Some f)
  have "get_floor_for_imp (set_floor floors f i) (req\<lparr>req_imp := is\<rparr>) floors = Some f"
    using Some by (rule floor_read_back) simp_all
  then show ?thesis using Some by (simp add: apply_floor_eq)
qed

definition bid_ok :: "bid_request \<Rightarrow> price_floors \<Rightarrow> bool \<Rightarrow> string \<times> f64 \<times> string option \<Rightarrow> bool" where
  "bid_ok req floors enforce_deals b \<longleftrightarrow>
     f_le (floor_of_bid req floors (fst b)) (Fin False 0)
     \<or> (\<not> f_le (fst (snd b)) (Fin False 0)
         \<and> (is_deal_id (snd (snd b)) \<and> \<not> enforce_deals \<or> f_le (floor_of_bid req floors (fst b)) (fst (snd b))))"

definition reject_message :: "bid_request \<Rightarrow> price_floors \<Rightarrow> string \<times> f64 \<times> string option \<Rightarrow> string" where
  "reject_message req floors b =
     ''bid rejected: price '' @ fmt_fixed 4 (fst (snd b)) @ '' below floor '' @ fmt_fixed 4 (floor_of_bid req floors (fst b))
     @ '' for imp '' @ fst b"

lemma enforce_step_eq:
  "enforce_step req floors deals b (acc, errs, rej) =
     (if bid_ok req floors deals (snd b) then (acc @ [fst b], errs, rej)
      else (acc, errs @ [reject_message req floors (snd b)], rej @ [fst b]))"
  by (cases b) (simp add: enforce_step_def bid_ok_def bid_meets_floor_def reject_message_def Let_def)

interpretation enforce_accepted: appender "enforce_step req floors deals" fst
    "\<lambda>b. if bid_ok req floors deals (snd b) then [fst b] else []" for req floors deals
  by unfold_locales (case_tac c, simp add: enforce_step_eq)

interpretation enforce_errors: appender "enforce_step req floors deals" "fst \<circ> snd"
    "\<lambda>b. if \<not> bid_ok req floors deals (snd b) then [reject_message req floors (snd b)] else []" for req floors deals
  by unfold_locales (case_tac c, simp add: enforce_step_eq)

interpretation enforce_rejected: appender "enforce_step req floors deals" "snd \<circ> snd"
    "\<lambda>b. if \<not> bid_ok req floors deals (snd b) then [fst b] else []" for req floors deals
  by unfold_locales (case_tac c, simp add: enforce_step_eq)

lemma concat_map_if: "concat (map (\<lambda>b. if P b then [f b] else []) bs) = map f (filter P bs)"
  by (induction bs) simp_all

lemma filter_enumerate:
  fixes bs :: "'a list"
  shows
  "map fst (filter (\<lambda>b. P (snd b)) (List.enumerate 0 bs)) = filter (\<lambda>i. P (bs ! i)) [0..<length bs]"
proof -
  have "filter (\<lambda>b. P (snd b)) (List.enumerate 0 bs) = filter (\<lambda>b. P (bs ! fst b)) (List.enumerate 0 bs)"
    by (intro filter_cong) (auto simp: in_set_enumerate_eq)
  moreover have "map fst (filter (\<lambda>b. P (bs ! fst b)) es) = filter (\<lambda>i. P (bs ! i)) (map fst es)" for es :: "(nat \<times> 'a) list"
    by (induction es) simp_all
  ultimately show ?thesis by simp
qed

section \<open>Properties\<close>

text \<open>Property C36.  Floor enforcement splits the bids: the accepted indices are, in order, those of the bids whose
  impression has no positive floor, or that are positive and reach the floor or are deals exempt from it; the
  rejected ones are all others, each with an error naming its price and its floor.\<close>

theorem enforce_floor_spec:
  "enforce_floor_to_bids req floors bids deals =
     (filter (\<lambda>i. bid_ok req floors deals (bids ! i)) [0..<length bids],
      map (reject_message req floors) (filter (\<lambda>b. \<not> bid_ok req floors deals b) bids),
      filter (\<lambda>i. \<not> bid_ok req floors deals (bids ! i)) [0..<length bids])"
proof -
  define es where "es = List.enumerate 0 bids"
  define r where "r = enforce_floor_to_bids req floors bids deals"
  have "fst r = map fst (filter (\<lambda>b. bid_ok req floors deals (snd b)) es)"
    unfolding r_def enforce_floor_to_bids_def es_def [symmetric] enforce_accepted.out_fold concat_map_if by simp
  moreover have "fst (snd r) = map (\<lambda>b. reject_message req floors (snd b)) (filter (\<lambda>b. \<not> bid_ok req floors deals (snd b)) es)"
    using enforce_errors.out_fold [of req floors deals es "([], [], [])"]
    unfolding r_def enforce_floor_to_bids_def es_def [symmetric] concat_map_if by simp
  moreover have "snd (snd r) = map fst (filter (\<lambda>b. \<not> bid_ok req floors deals (snd b)) es)"
    using enforce_rejected.out_fold [of req floors deals es "([], [], [])"]
    unfolding r_def enforce_floor_to_bids_def es_def [symmetric] concat_map_if by simp
  moreover have "map (\<lambda>b. g (snd b)) (filter (\<lambda>b. P (snd b)) (List.enumerate n bids)) = map g (filter P bids)" for g P n
    by (induction bids arbitrary: n) simp_all
  ultimately have "fst r = filter (\<lambda>i. bid_ok req floors deals (bids ! i)) [0..<length bids]"
      "fst (snd r) = map (reject_message req floors) (filter (\<lambda>b. \<not> bid_ok req floors deals b) bids)"
      "snd (snd r) = filter (\<lambda>i. \<not> bid_ok req floors deals (bids ! i)) [0..<length bids]"
    using filter_enumerate [of "bid_ok req floors deals" bids] filter_enumerate [of "\<lambda>b. \<not> bid_ok req floors deals b" bids]
    unfolding es_def by simp_all
  then show ?thesis unfolding r_def [symmetric] by (cases r) simp
qed

text \<open>Applying floors is stable: applying them again changes nothing, and afterwards no impression has
  a floor below the minimum, if a positive minimum is set and floors are not skipped.\<close>

theorem apply_floors_stable:
  "apply_floors_to_request (apply_floors_to_request req floors) floors = apply_floors_to_request req floors
   \<and> (f_pos (pf_floor_min floors) \<and> \<not> pf_skipped floors \<longrightarrow>
        (\<forall>i \<in> set (req_imp (apply_floors_to_request req floors)).
           \<exists>f. imp_bidfloor i = Some f \<and> f_le (pf_floor_min floors) f))"
proof (cases "pf_skipped floors")
  case False
  have "apply_floors_to_request (apply_floors_to_request req floors) floors = apply_floors_to_request req floors"
    using False by (simp add: apply_floors_to_request_def apply_floor_again comp_def)
  moreover have "\<exists>f. imp_bidfloor (apply_floor req floors i) = Some f \<and> f_le (pf_floor_min floors) f"
    if m: "f_pos (pf_floor_min floors)" for i
  proof -
    obtain f where f: "get_floor_for_imp i req floors = Some f" "f_le (pf_floor_min floors) f"
      using False m f_max_pos(3) [OF m] f_le_refl [of "pf_floor_min floors"] f_lt_num [of "Fin False 0" "pf_floor_min floors"]
      by (cases "base_floor i req floors") (simp_all add: get_floor_eq f_pos_def)
    then show ?thesis by (simp add: apply_floor_eq)
  qed
  ultimately show ?thesis using False by (auto simp: apply_floors_to_request_def)
qed (simp add: apply_floors_to_request_def)

definition sample_floors :: price_floors where
  "sample_floors = \<lparr>pf_floor_min = Fin False 1, pf_floor_min_cur = ''USD'', pf_data = None,
     pf_enforcement = \<lparr>fe_enforce_pbs = True, fe_floor_deals = False, fe_enforce_rate = 0\<rparr>, pf_skipped = False\<rparr>"

theorem apply_floors_stable_witness:
  "f_pos (pf_floor_min sample_floors) \<and> \<not> pf_skipped sample_floors
   \<and> (\<exists>f. imp_bidfloor (apply_floor (default_bid_request\<lparr>req_imp := [default_imp]\<rparr>) sample_floors default_imp) = Some f
        \<and> f_le (Fin False 1) f)"
  using apply_floors_stable [of "default_bid_request\<lparr>req_imp := [default_imp]\<rparr>" sample_floors]
  by (simp add: sample_floors_def f_pos_def apply_floors_to_request_def)

definition plain_group :: floor_model_group where
  "plain_group = \<lparr>fmg_schema = None, fmg_values = None, fmg_model_weight = 1, fmg_skip_rate = 0\<rparr>"

definition banner_group :: floor_model_group where
  "banner_group = plain_group\<lparr>fmg_schema := Some \<lparr>fsc_fields = [''mediaType''], fsc_delimiter = None\<rparr>,
     fmg_values := Some [(''*'', Fin False 2)]\<rparr>"

definition group_data :: "floor_model_group list \<Rightarrow> floor_data" where
  "group_data gs = \<lparr>fd_currency = None, fd_schema = None, fd_values = None, fd_modelgroups = Some gs\<rparr>"

text \<open>A model group without a schema or values of its own, when there are no common ones, ends the
  whole lookup: the groups after it are not tried.  And a rule limit of zero means no rules when a response
  is parsed, but no limit when it is fetched over HTTP.\<close>

theorem floor_lookup_cut_short:
  "lookup_schema_floor default_imp default_bid_request (group_data [banner_group]) = Some (Fin False 2)
   \<and> lookup_schema_floor default_imp default_bid_request (group_data [plain_group, banner_group]) = None
   \<and> trim_floor_rules ord (group_data [banner_group]) 0 = group_data [banner_group]
   \<and> trim_groups (\<lambda>ks. ks) 0 (group_data [banner_group]) = group_data [banner_group\<lparr>fmg_values := Some []\<rparr>]"
proof -
  have "lookup_schema_floor default_imp default_bid_request (group_data [banner_group]) = Some (Fin False 2)" by code_simp
  moreover have "lookup_schema_floor default_imp default_bid_request (group_data [plain_group, banner_group]) = None" by code_simp
  moreover have "trim_groups (\<lambda>ks. ks) 0 (group_data [banner_group]) = group_data [banner_group\<lparr>fmg_values := Some []\<rparr>]"
    by (simp add: trim_groups_def group_data_def banner_group_def trim_values_def)
  ultimately show ?thesis by (simp add: trim_floor_rules_def)
qed

end
