(* ===== verification/JsonMerge.thy ===== *)
theory JsonMerge
  imports Validation
begin

text \<open>
  JSON merge patches, \<^verbatim>\<open>rust/crates/exchange/src/json_merge.rs\<close>: the patch function, its wrappers, and the
  application of stored requests and impressions.  The encoders and parsers of \<^verbatim>\<open>serde\<close> are arguments.
\<close>

section \<open>Patching\<close>

function (sequential) merge_patch :: "json \<Rightarrow> json \<Rightarrow> json"
  and patch_entries :: "(string \<times> json) list \<Rightarrow> (string \<times> json) list \<Rightarrow> (string \<times> json) list" where
  "merge_patch base (JObj p) = JObj (patch_entries (case base of JObj b \<Rightarrow> b | _ \<Rightarrow> []) p)"
| "merge_patch base patch = patch"
| "patch_entries r [] = r"
| "patch_entries r ((k, v) # p) =
     patch_entries
       (if v = JNull then bt_remove k r
        else case map_of r k of
               Some base_val \<Rightarrow> bt_insert k (merge_patch base_val v) r
             | None \<Rightarrow> bt_insert k v r) p"
  by pat_completeness auto
termination
  by (relation "measure (\<lambda>x. case x of Inl (b, p) \<Rightarrow> size p
        | Inr (b, p) \<Rightarrow> size_list (size_prod (\<lambda>_. 0) size) p)") auto

definition json_is_empty :: "json \<Rightarrow> bool" where
  "json_is_empty j = (j = JNull \<or> j = JObj [])"

definition merge_clone_json :: "json \<Rightarrow> json \<Rightarrow> json" where
  "merge_clone_json existing incoming =
     (if json_is_empty existing then incoming
      else if json_is_empty incoming then existing
      else merge_patch incoming existing)"

definition merge_clone ::
  "('t \<Rightarrow> (string, json) res) \<Rightarrow> (json \<Rightarrow> (string, 't) res) \<Rightarrow> (u8 list \<Rightarrow> (string, json) res) \<Rightarrow> 't \<Rightarrow> u8 list \<Rightarrow> (string, 't) res" where
  "merge_clone to_value from_value from_slice target overlay =
     (case to_value target of
        Inl e \<Rightarrow> Inl (''failed to serialize base: '' @ e)
      | Inr base_json \<Rightarrow>
          (case from_slice overlay of
             Inl e \<Rightarrow> Inl (''failed to parse overlay JSON: '' @ e)
           | Inr overlay_json \<Rightarrow>
               (case from_value (merge_patch base_json overlay_json) of
                  Inl e \<Rightarrow> Inl (''failed to unmarshal merged result: '' @ e)
                | Inr t \<Rightarrow> Inr t)))"

definition apply_stored_request ::
  "(u8 list \<Rightarrow> (string, json) res) \<Rightarrow> (json \<Rightarrow> (string, u8 list) res) \<Rightarrow> u8 list \<Rightarrow> u8 list \<Rightarrow> (string, u8 list) res" where
  "apply_stored_request from_slice to_vec request_json stored_json =
     (case from_slice request_json of
        Inl e \<Rightarrow> Inl (''bad request JSON: '' @ e)
      | Inr req \<Rightarrow>
          (case from_slice stored_json of
             Inl e \<Rightarrow> Inl (''bad stored JSON: '' @ e)
           | Inr stored \<Rightarrow>
               (case to_vec (merge_patch stored req) of
                  Inl e \<Rightarrow> Inl (''failed to marshal merged request: '' @ e)
                | Inr v \<Rightarrow> Inr v)))"

definition apply_stored_imp ::
  "(u8 list \<Rightarrow> (string, json) res) \<Rightarrow> (json \<Rightarrow> (string, u8 list) res) \<Rightarrow> u8 list \<Rightarrow> u8 list \<Rightarrow> (string, u8 list) res" where
  "apply_stored_imp from_slice to_vec imp_json stored_json = apply_stored_request from_slice to_vec imp_json stored_json"

section \<open>Lemmas\<close>

text \<open>What a patch makes of one key.\<close>

definition patch_value :: "json option \<Rightarrow> json option \<Rightarrow> json option" where
  "patch_value base patch =
     (case patch of
        None \<Rightarrow> base
      | Some v \<Rightarrow> if v = JNull then None
                  else (case base of Some b \<Rightarrow> Some (merge_patch b v) | None \<Rightarrow> Some v))"

lemma patch_entries_get:
  "distinct (map fst p) \<Longrightarrow> map_of (patch_entries r p) k = patch_value (map_of r k) (map_of p k)"
proof (induction p arbitrary: r)
  case (Cons e p)
  obtain k' v where e: "e = (k', v)" by force
  let ?r = "if v = JNull then bt_remove k' r
      else case map_of r k' of Some b \<Rightarrow> bt_insert k' (merge_patch b v) r | None \<Rightarrow> bt_insert k' v r"
  have r: "map_of ?r = (map_of r)(k' := patch_value (map_of r k') (Some v))"
    by (auto simp: patch_value_def map_of_bt_insert bt_remove_get fun_eq_iff split: option.split)
  have "map_of p k' = None" using Cons.prems e by (simp add: map_of_eq_None_iff)
  then have "map_of (patch_entries ?r p) k = patch_value (map_of r k) (map_of (e # p) k)"
    using Cons.IH [of ?r] Cons.prems e r by (auto simp: patch_value_def)
  then show ?case by (simp add: e)
qed (simp add: patch_value_def)

lemma bt_remove_wf: "bt_wf m \<Longrightarrow> bt_wf (bt_remove k m)"
  by (simp add: bt_wf_def bt_remove_def sorted_wrt_map sorted_wrt_filter)

lemma bt_remove_subset: "set (bt_remove k m) \<subseteq> set m"
  by (simp add: bt_remove_def)

lemma patch_wf:
  "json_wf b \<Longrightarrow> json_wf p \<Longrightarrow> json_wf (merge_patch b p)"
  "bt_wf m \<Longrightarrow> (\<forall>e \<in> set m. json_wf (snd e)) \<Longrightarrow> (\<forall>e \<in> set ps. json_wf (snd e)) \<Longrightarrow>
   bt_wf (patch_entries m ps) \<and> (\<forall>e \<in> set (patch_entries m ps). json_wf (snd e))"
proof (induction b p and m ps rule: merge_patch_patch_entries.induct)
  case (1 base p)
  then show ?case by (cases base) (auto simp: bt_wf_def)
next
  case (4 r k v p)
  let ?r = "if v = JNull then bt_remove k r
      else case map_of r k of Some b \<Rightarrow> bt_insert k (merge_patch b v) r | None \<Rightarrow> bt_insert k v r"
  define ok where "ok m \<longleftrightarrow> bt_wf m \<and> (\<forall>e \<in> set m. json_wf (snd e))" for m :: "(string \<times> json) list"
  have ins: "ok (bt_insert k w r)" if "json_wf w" for w
    using 4(3,4) that bt_insert_set [of k w r] by (auto simp: bt_wf_insert ok_def)
  have rem: "ok (bt_remove k r)" using 4(3,4) bt_remove_wf bt_remove_subset by (fastforce simp: ok_def)
  have "json_wf b" if "map_of r k = Some b" for b
    using 4(4) map_of_SomeD [OF that] by force
  then have "ok ?r" using 4(1,5) ins rem by (auto split: option.split)
  with 4(2,5) show ?case by (simp add: ok_def)
qed auto

text \<open>The merge patch of RFC 7386: a key that is new to the target is patched into an empty target, so its own nulls vanish.\<close>

function (sequential) rfc_patch :: "json \<Rightarrow> json \<Rightarrow> json"
  and rfc_entries :: "(string \<times> json) list \<Rightarrow> (string \<times> json) list \<Rightarrow> (string \<times> json) list" where
  "rfc_patch target (JObj p) = JObj (rfc_entries (case target of JObj b \<Rightarrow> b | _ \<Rightarrow> []) p)"
| "rfc_patch target patch = patch"
| "rfc_entries r [] = r"
| "rfc_entries r ((k, v) # p) =
     rfc_entries (if v = JNull then bt_remove k r else bt_insert k (rfc_patch (get_or JNull r k) v) r) p"
  by pat_completeness auto
termination
  by (relation "measure (\<lambda>x. case x of Inl (b, p) \<Rightarrow> size p
        | Inr (b, p) \<Rightarrow> size_list (size_prod (\<lambda>_. 0) size) p)") auto

text \<open>No key of the patch that is new to the base carries a null inside.\<close>

fun new_keys_clean :: "json \<Rightarrow> json \<Rightarrow> bool" where
  "new_keys_clean base (JObj p) =
     list_all (\<lambda>(k, v). case jget base k of Some b \<Rightarrow> v = JNull \<or> new_keys_clean b v | None \<Rightarrow> rfc_patch JNull v = v) p"
| "new_keys_clean base patch = True"

definition rfc_value :: "json option \<Rightarrow> json option \<Rightarrow> json option" where
  "rfc_value base patch =
     (case patch of None \<Rightarrow> base | Some v \<Rightarrow> if v = JNull then None else Some (rfc_patch (case base of Some b \<Rightarrow> b | None \<Rightarrow> JNull) v))"

lemma rfc_entries_get:
  "distinct (map fst p) \<Longrightarrow> map_of (rfc_entries r p) k = rfc_value (map_of r k) (map_of p k)"
proof (induction p arbitrary: r)
  case (Cons e p)
  obtain k' v where e: "e = (k', v)" by force
  let ?r = "if v = JNull then bt_remove k' r else bt_insert k' (rfc_patch (get_or JNull r k') v) r"
  have r: "map_of ?r = (map_of r)(k' := rfc_value (map_of r k') (Some v))"
    by (auto simp: rfc_value_def map_of_bt_insert bt_remove_get fun_eq_iff get_or_def split: option.split)
  have "map_of p k' = None" using Cons.prems e by (simp add: map_of_eq_None_iff)
  then have "map_of (rfc_entries ?r p) k = rfc_value (map_of r k) (map_of (e # p) k)"
    using Cons.IH [of ?r] Cons.prems e r by (auto simp: rfc_value_def)
  then show ?case by (simp add: e)
qed (simp add: rfc_value_def)

lemma rfc_entries_wf: "bt_wf m \<Longrightarrow> bt_wf (rfc_entries m ps)"
  by (induction ps arbitrary: m) (auto simp: bt_wf_insert bt_remove_wf)

lemma base_entries: "map_of (case base of JObj b \<Rightarrow> b | _ \<Rightarrow> []) k = jget base k"
  by (cases base) simp_all

lemma merge_is_rfc_iff:
  "json_wf base \<Longrightarrow> json_wf patch \<Longrightarrow> merge_patch base patch = rfc_patch base patch \<longleftrightarrow> new_keys_clean base patch"
proof (induction base patch rule: new_keys_clean.induct)
  case (1 base p)
  let ?r = "case base of JObj b \<Rightarrow> b | _ \<Rightarrow> []"
  have wf: "bt_wf p" "\<forall>e \<in> set p. json_wf (snd e)" "bt_wf ?r" "\<forall>e \<in> set ?r. json_wf (snd e)"
    using "1.prems" by (cases base; fastforce simp: bt_wf_def)+
  then have d: "distinct (map fst p)" using bt_wf_distinct by blast
  have "merge_patch base (JObj p) = rfc_patch base (JObj p) \<longleftrightarrow> map_of (patch_entries ?r p) = map_of (rfc_entries ?r p)"
    using bt_ext [of "patch_entries ?r p" "rfc_entries ?r p"] patch_wf(2) [OF wf(3,4,2)] rfc_entries_wf [OF wf(3)] by auto
  also have "\<dots> \<longleftrightarrow> (\<forall>k. patch_value (jget base k) (map_of p k) = rfc_value (jget base k) (map_of p k))"
    by (simp only: fun_eq_iff patch_entries_get [OF d] rfc_entries_get [OF d] base_entries)
  also have "\<dots> \<longleftrightarrow> (\<forall>k v. map_of p k = Some v \<longrightarrow> patch_value (jget base k) (Some v) = rfc_value (jget base k) (Some v))"
    by (auto simp: patch_value_def rfc_value_def split: option.split)
  also have "\<dots> \<longleftrightarrow> new_keys_clean base (JObj p)"
  proof -
    have "(patch_value (jget base k) (Some v) = rfc_value (jget base k) (Some v))
        = (case jget base k of Some b \<Rightarrow> v = JNull \<or> new_keys_clean b v | None \<Rightarrow> rfc_patch JNull v = v)"
      if "map_of p k = Some v" for k v
    proof (cases "jget base k")
      case (Some b)
      have "json_wf b" using Some "1.prems"(1) json_wf_lookup by (cases base) auto
      moreover have "(k, v) \<in> set p" "json_wf v" using map_of_SomeD [OF that] wf(2) by force+
      ultimately have "merge_patch b v = rfc_patch b v \<longleftrightarrow> new_keys_clean b v"
        using "1.IH" [of "(k, v)" k v b] Some by simp
      then show ?thesis by (auto simp: Some patch_value_def rfc_value_def)
    qed (auto simp: patch_value_def rfc_value_def)
    then show ?thesis using map_of_eq_Some_iff [OF d] by (auto simp: list_all_iff)
  qed
  finally show ?case .
qed simp_all

section \<open>Properties\<close>

text \<open>Property C34.  Applying a stored request or impression.  Of two documents that parse, the incoming one is the patch and the stored one the base: a key the incoming request
  does not mention comes from the stored one, a null in the request removes the key, a key on both sides gets the patch of its
  values, and a key the stored request lacks is added with the request's value as it stands.  That is the merge patch of RFC 7386
  exactly when no such new key carries a null inside, which the RFC would remove.  The result is the merged document, encoded; a document that does not parse is an error,
  of the request first.  The parser gives objects with sorted, distinct keys.\<close>

theorem stored_request_spec:
  assumes "\<forall>bs j. from_slice bs = Inr j \<longrightarrow> json_wf j"
  shows "case from_slice rq of
      Inl e \<Rightarrow> apply_stored_request from_slice to_vec rq st = Inl (''bad request JSON: '' @ e)
    | Inr req \<Rightarrow>
        (case from_slice st of
           Inl e \<Rightarrow> apply_stored_request from_slice to_vec rq st = Inl (''bad stored JSON: '' @ e)
         | Inr stored \<Rightarrow>
             \<exists>j. apply_stored_request from_slice to_vec rq st = map_err (\<lambda>e. ''failed to marshal merged request: '' @ e) (to_vec j)
               \<and> apply_stored_imp from_slice to_vec rq st = apply_stored_request from_slice to_vec rq st
               \<and> json_wf j \<and> is_object j = is_object req \<and> (\<not> is_object req \<longrightarrow> j = req)
               \<and> (is_object req \<longrightarrow> (\<forall>k. jget j k =
                    (case jget req k of
                       None \<Rightarrow> jget stored k
                     | Some v \<Rightarrow> if v = JNull then None
                                else (case jget stored k of None \<Rightarrow> Some v | Some b \<Rightarrow> Some (merge_patch b v)))))
               \<and> (j = rfc_patch stored req \<longleftrightarrow> new_keys_clean stored req))"
proof (cases "from_slice rq")
  case (Inr req)
  show ?thesis
  proof (cases "from_slice st")
    case st: (Inr stored)
    let ?j = "merge_patch stored req"
    have wf: "json_wf stored" "json_wf req" using assms Inr st by blast+
    have get: "jget ?j k = (case jget req k of None \<Rightarrow> jget stored k | Some v \<Rightarrow> if v = JNull then None
        else (case jget stored k of None \<Rightarrow> Some v | Some b \<Rightarrow> Some (merge_patch b v)))" if obj: "is_object req" for k
    proof -
      obtain p where p: "req = JObj p" using obj by (cases req) (auto simp: is_object_def)
      then have "distinct (map fst p)" using wf(2) bt_wf_distinct by auto
      from patch_entries_get [OF this, of _ k] show ?thesis
        by (auto simp: p base_entries patch_value_def split: option.split)
    qed
    have "?j = req" if "\<not> is_object req" using that by (cases req) (simp_all add: is_object_def)
    moreover have "is_object ?j = is_object req" by (cases req) (simp_all add: is_object_def)
    moreover have "apply_stored_request from_slice to_vec rq st = map_err (\<lambda>e. ''failed to marshal merged request: '' @ e) (to_vec ?j)"
      by (simp add: Inr st apply_stored_request_def map_err_def split: sum.split)
    ultimately show ?thesis
      using get merge_is_rfc_iff [OF wf] patch_wf(1) [OF wf]
      by (simp only: Inr st sum.case apply_stored_imp_def) (intro exI [of _ ?j], simp)
  qed (simp add: Inr apply_stored_request_def)
qed (simp add: apply_stored_request_def)

text \<open>The parser of the example knows two documents.\<close>

definition demo_slice :: "u8 list \<Rightarrow> (string, json) res" where
  "demo_slice bs =
     (if bs = [1] then Inr (JObj [(''a'', JNull), (''c'', JObj [(''d'', JNull)])])
      else if bs = [2] then Inr (JObj [(''a'', JBool True), (''b'', JStr ''x'')]) else Inl ''eof'')"

theorem stored_request_spec_witness:
  "\<exists>j. apply_stored_request demo_slice (\<lambda>j. Inl ''full'') [1] [2] = Inl ''failed to marshal merged request: full''
     \<and> jget j ''a'' = None \<and> jget j ''b'' = Some (JStr ''x'') \<and> jget j ''c'' = Some (JObj [(''d'', JNull)])
     \<and> j \<noteq> rfc_patch (JObj [(''a'', JBool True), (''b'', JStr ''x'')]) (JObj [(''a'', JNull), (''c'', JObj [(''d'', JNull)])])"
proof -
  let ?req = "JObj [(''a'', JNull), (''c'', JObj [(''d'', JNull)])]" and ?stored = "JObj [(''a'', JBool True), (''b'', JStr ''x'')]"
  have "\<forall>bs j. demo_slice bs = Inr j \<longrightarrow> json_wf j"
    by (auto simp: demo_slice_def bt_wf_def less_list_code split: if_splits)
  note all = stored_request_spec [of demo_slice "\<lambda>j. Inl ''full''" "[1]" "[2]", OF this]
  have docs: "demo_slice [1] = Inr ?req" "demo_slice [2] = Inr ?stored" by (simp_all add: demo_slice_def)
  have dirty: "\<not> new_keys_clean ?stored ?req" by code_simp
  from all [unfolded docs sum.case] obtain j where
    "apply_stored_request demo_slice (\<lambda>j. Inl ''full'') [1] [2] = Inl (''failed to marshal merged request: '' @ ''full'')"
    "\<forall>k. jget j k = (case jget ?req k of None \<Rightarrow> jget ?stored k | Some v \<Rightarrow> if v = JNull then None
       else (case jget ?stored k of None \<Rightarrow> Some v | Some b \<Rightarrow> Some (merge_patch b v)))"
    "j = rfc_patch ?stored ?req \<longleftrightarrow> new_keys_clean ?stored ?req"
    by (auto simp: is_object_def simp del: new_keys_clean.simps rfc_patch.simps jget.simps)
  with dirty show ?thesis by (intro exI [of _ j]) simp
qed
text \<open>The function is not the merge patch of RFC 7386 it is said to be: a null inside a new object stays,
  where the RFC removes it, so applying the same patch twice is not the same as applying it once.\<close>

lemma merge_patch_not_rfc:
  "merge_patch (JObj []) (JObj [(''a'', JObj [(''b'', JNull)])]) = JObj [(''a'', JObj [(''b'', JNull)])]
   \<and> merge_patch (merge_patch (JObj []) (JObj [(''a'', JObj [(''b'', JNull)])])) (JObj [(''a'', JObj [(''b'', JNull)])])
     = JObj [(''a'', JObj [])]"
  by code_simp

end
