(* ===== verification/Schain.thy ===== *)
theory Schain
  imports Fanout
begin

text \<open>
  Supply chains per bidder, \<^verbatim>\<open>rust/crates/exchange/src/schain.rs\<close>: the map from bidders to the chains of the
  request, and the writer that puts the chosen chain, with the node of the host, on a request.
\<close>

record prebid_schain =
  ps_bidders :: "string list"
  ps_schain :: supply_chain

fun add_bidders :: "string list \<Rightarrow> supply_chain \<Rightarrow> (string \<times> supply_chain) list \<Rightarrow> (string, (string \<times> supply_chain) list) res" where
  "add_bidders [] sc m = Inr m"
| "add_bidders (b # bs) sc m =
     (if map_of m b \<noteq> None
      then Inl (''request.ext.prebid.schains contains multiple schains for bidder '' @ b
                @ ''; it must contain no more than one per bidder.'')
      else add_bidders bs sc (hm_insert b sc m))"

fun add_schains :: "prebid_schain list \<Rightarrow> (string \<times> supply_chain) list \<Rightarrow> (string, (string \<times> supply_chain) list) res" where
  "add_schains [] m = Inr m"
| "add_schains (w # ws) m = res_bind (add_bidders (ps_bidders w) (ps_schain w) m) (add_schains ws)"

definition bidder_to_prebid_schains :: "prebid_schain list \<Rightarrow> (string, (string \<times> supply_chain) list) res" where
  "bidder_to_prebid_schains schains = add_schains schains []"

record schain_writer =
  sw_schains_by_bidder :: "(string \<times> supply_chain) list"
  sw_host_schain_node :: "supply_chain_node option"

definition schain_writer_new :: "prebid_schain list option \<Rightarrow> supply_chain_node option \<Rightarrow> (string, schain_writer) res" where
  "schain_writer_new schains host_node =
     res_bind (case schains of
                 Some s \<Rightarrow> if s \<noteq> [] then bidder_to_prebid_schains s else Inr []
               | None \<Rightarrow> Inr [])
       (\<lambda>m. Inr \<lparr>sw_schains_by_bidder = m, sw_host_schain_node = host_node\<rparr>)"

definition schain_write :: "schain_writer \<Rightarrow> bid_request \<Rightarrow> string \<Rightarrow> bid_request" where
  "schain_write w req bidder =
     (let wildcard = map_of (sw_schains_by_bidder w) ''*'';
          bidder_chain = map_of (sw_schains_by_bidder w) bidder
      in if bidder_chain = None \<and> wildcard = None \<and> sw_host_schain_node w = None then req
         else
           let selected = (case bidder_chain of
                             Some c \<Rightarrow> c
                           | None \<Rightarrow> (case wildcard of
                                       Some c \<Rightarrow> c
                                     | None \<Rightarrow> \<lparr>schain_complete = 0, schain_nodes = [], schain_ver = ''1.0'', schain_jext = None\<rparr>));
               selected = (case sw_host_schain_node w of
                             Some node \<Rightarrow> selected\<lparr>schain_nodes := schain_nodes selected @ [node]\<rparr>
                           | None \<Rightarrow> selected);
               src = (case req_source req of None \<Rightarrow> default_source | Some s \<Rightarrow> s)
           in req\<lparr>req_source := Some (src\<lparr>source_schain := Some selected\<rparr>)\<rparr>)"

definition parse_schains_from_ext :: "(json \<Rightarrow> prebid_schain list option) \<Rightarrow> json option \<Rightarrow> prebid_schain list option" where
  "parse_schains_from_ext de ext = Option.bind (jpath ext [''prebid'', ''schains'']) de"

definition apply_schain_to_request ::
  "(json \<Rightarrow> prebid_schain list option) \<Rightarrow> bid_request \<Rightarrow> string \<Rightarrow> supply_chain_node option \<Rightarrow> (string, bid_request) res" where
  "apply_schain_to_request de req bidder host_node =
     res_bind (schain_writer_new (parse_schains_from_ext de (req_jext req)) host_node)
       (\<lambda>w. Inr (schain_write w req bidder))"

section \<open>Lemmas\<close>

text \<open>The assignments of bidders to chains, in the order of the request.\<close>

definition schain_pairs :: "prebid_schain list \<Rightarrow> (string \<times> supply_chain) list" where
  "schain_pairs ws = concat (map (\<lambda>w. map (\<lambda>b. (b, ps_schain w)) (ps_bidders w)) ws)"

lemma hm_insert_new: "map_of m k = None \<Longrightarrow> hm_insert k v m = m @ [(k, v)]"
  by (induction k v m rule: hm_insert.induct) (auto split: if_splits)

lemma add_bidders_eq:
  "add_bidders bs sc m =
     (if distinct bs \<and> set bs \<inter> fst ` set m = {} then Inr (m @ map (\<lambda>b. (b, sc)) bs) else add_bidders bs sc m)
   \<and> (is_ok (add_bidders bs sc m) \<longleftrightarrow> distinct bs \<and> set bs \<inter> fst ` set m = {})"
proof (induction bs arbitrary: m)
  case (Cons b bs)
  show ?case
  proof (cases "map_of m b")
    case None
    then have b: "b \<notin> fst ` set m" by (simp add: map_of_eq_None_iff)
    have "add_bidders (b # bs) sc m = add_bidders bs sc (m @ [(b, sc)])" using None by (simp add: hm_insert_new)
    then show ?thesis using Cons.IH [of "m @ [(b, sc)]"] b by auto
  next
    case (Some c)
    then have "b \<in> fst ` set m" by (auto dest: map_of_SomeD intro: rev_image_eqI)
    then show ?thesis using Some by auto
  qed
qed simp

lemma add_schains_eq:
  "distinct (map fst m) \<Longrightarrow>
   (is_ok (add_schains ws m) \<longleftrightarrow> distinct (map fst (m @ schain_pairs ws)))
   \<and> (distinct (map fst (m @ schain_pairs ws)) \<longrightarrow> add_schains ws m = Inr (m @ schain_pairs ws))"
proof (induction ws arbitrary: m)
  case (Cons w ws)
  let ?bs = "ps_bidders w" and ?sc = "ps_schain w"
  have pairs: "map fst (m @ schain_pairs (w # ws)) = (map fst m @ ?bs) @ map fst (schain_pairs ws)"
    by (simp add: schain_pairs_def comp_def)
  show ?case
  proof (cases "distinct ?bs \<and> set ?bs \<inter> fst ` set m = {}")
    case True
    then have ok: "add_bidders ?bs ?sc m = Inr (m @ map (\<lambda>b. (b, ?sc)) ?bs)" using add_bidders_eq [of ?bs ?sc m] by presburger
    have "distinct (map fst (m @ map (\<lambda>b. (b, ?sc)) ?bs))" using True Cons.prems by (auto simp: comp_def)
    from Cons.IH [OF this] show ?thesis by (simp add: ok schain_pairs_def comp_def)
  next
    case False
    then have "\<not> is_ok (add_bidders ?bs ?sc m)" using add_bidders_eq [of ?bs ?sc m] by blast
    then have "\<not> is_ok (add_schains (w # ws) m)" by (cases "add_bidders ?bs ?sc m") simp_all
    moreover have "\<not> distinct (map fst (m @ schain_pairs (w # ws)))" using False unfolding pairs by auto
    ultimately show ?thesis by blast
  qed
qed (simp add: schain_pairs_def)


text \<open>The chain of a bidder: its own, else the one for all bidders.\<close>

definition chosen_schain :: "prebid_schain list \<Rightarrow> string \<Rightarrow> supply_chain option" where
  "chosen_schain ws bidder =
     (case map_of (schain_pairs ws) bidder of Some c \<Rightarrow> Some c | None \<Rightarrow> map_of (schain_pairs ws) ''*'')"

definition empty_schain :: supply_chain where
  "empty_schain = \<lparr>schain_complete = 0, schain_nodes = [], schain_ver = ''1.0'', schain_jext = None\<rparr>"

definition put_schain :: "supply_chain \<Rightarrow> bid_request \<Rightarrow> bid_request" where
  "put_schain c req =
     req\<lparr>req_source := Some ((case req_source req of None \<Rightarrow> default_source | Some s \<Rightarrow> s)\<lparr>source_schain := Some c\<rparr>)\<rparr>"

definition requested_schains :: "(json \<Rightarrow> prebid_schain list option) \<Rightarrow> bid_request \<Rightarrow> prebid_schain list" where
  "requested_schains de req = (case parse_schains_from_ext de (req_jext req) of None \<Rightarrow> [] | Some ws \<Rightarrow> ws)"

lemma schain_writer_new_eq:
  fixes schains
  defines "ws \<equiv> (case schains of None \<Rightarrow> [] | Some s \<Rightarrow> s)"
  shows "if distinct (map fst (schain_pairs ws))
         then schain_writer_new schains host = Inr \<lparr>sw_schains_by_bidder = schain_pairs ws, sw_host_schain_node = host\<rparr>
         else \<exists>e. schain_writer_new schains host = Inl e"
proof -
  have new: "schain_writer_new schains host
      = res_bind (add_schains ws []) (\<lambda>m. Inr \<lparr>sw_schains_by_bidder = m, sw_host_schain_node = host\<rparr>)"
    by (cases schains) (simp_all add: schain_writer_new_def bidder_to_prebid_schains_def ws_def)
  show ?thesis
    using add_schains_eq [of "[]" ws] by (cases "add_schains ws []") (simp_all add: new)
qed

lemma schain_write_eq:
  "schain_write \<lparr>sw_schains_by_bidder = schain_pairs ws, sw_host_schain_node = host\<rparr> req bidder =
     (case (chosen_schain ws bidder, host) of
        (None, None) \<Rightarrow> req
      | (c, h) \<Rightarrow> let c = (case c of None \<Rightarrow> empty_schain | Some c \<Rightarrow> c)
                 in put_schain (c\<lparr>schain_nodes := schain_nodes c @ (case h of None \<Rightarrow> [] | Some n \<Rightarrow> [n])\<rparr>) req)"
  by (simp add: schain_write_def chosen_schain_def put_schain_def empty_schain_def Let_def split: option.split)

section \<open>Property\<close>

text \<open>Putting a supply chain on the request of a bidder fails exactly when some bidder is
  assigned twice.  Otherwise the bidder gets its own chain, else the one for all bidders, else an empty one when the
  host has a node, with the node of the host at the end; with neither the request is unchanged.\<close>

theorem apply_schain_spec:
  "if distinct (map fst (schain_pairs (requested_schains de req)))
   then apply_schain_to_request de req bidder host =
     Inr (case (chosen_schain (requested_schains de req) bidder, host) of
            (None, None) \<Rightarrow> req
          | (c, h) \<Rightarrow> let c = (case c of None \<Rightarrow> empty_schain | Some c \<Rightarrow> c)
                     in put_schain (c\<lparr>schain_nodes := schain_nodes c @ (case h of None \<Rightarrow> [] | Some n \<Rightarrow> [n])\<rparr>) req)
   else \<exists>e. apply_schain_to_request de req bidder host = Inl e"
proof -
  let ?ws = "requested_schains de req" and ?s = "parse_schains_from_ext de (req_jext req)"
  show ?thesis
  proof (cases "distinct (map fst (schain_pairs ?ws))")
    case True
    then have "schain_writer_new ?s host = Inr \<lparr>sw_schains_by_bidder = schain_pairs ?ws, sw_host_schain_node = host\<rparr>"
      using schain_writer_new_eq [where schains = ?s and host = host] by (simp add: requested_schains_def)
    then show ?thesis using True by (simp add: apply_schain_to_request_def schain_write_eq)
  next
    case False
    then obtain e where "schain_writer_new ?s host = Inl e"
      using schain_writer_new_eq [where schains = ?s and host = host] by (auto simp: requested_schains_def)
    then show ?thesis using False by (simp add: apply_schain_to_request_def)
  qed
qed

end
