(* ===== verification/Dsa.thy ===== *)
theory Dsa
  imports Validation
begin

text \<open>
  The Digital Services Act, \<^verbatim>\<open>rust/crates/exchange/src/dsa.rs\<close>: validation of the object of a bid against the one of
  the request, and the writer that puts the default of the account on a request.  The decoders of the objects
  are arguments; the encoder is written out from the attributes of the structs.
\<close>

section \<open>Data\<close>

datatype dsa_error = DsaMissing | BehalfTooLong | PaidTooLong | NeitherWillRender | BothWillRender

fun show_dsa_error :: "dsa_error \<Rightarrow> string" where
  "show_dsa_error DsaMissing = ''DSA object missing when required''"
| "show_dsa_error BehalfTooLong = ''DSA behalf exceeds limit of 100 chars''"
| "show_dsa_error PaidTooLong = ''DSA paid exceeds limit of 100 chars''"
| "show_dsa_error NeitherWillRender = ''DSA publisher and buyer both signal will not render''"
| "show_dsa_error BothWillRender = ''DSA publisher and buyer both signal will render''"

record transparency_entry =
  dt_domain :: string
  dt_dsaparams :: "int list"

record dsa_request =
  drq_dsarequired :: "int option"
  drq_pubrender :: "int option"
  drq_datatopub :: "int option"
  drq_transparency :: "transparency_entry list"

record dsa_response =
  drs_behalf :: string
  drs_paid :: string
  drs_transparency :: "transparency_entry list"
  drs_adrender :: "int option"

section \<open>Validation\<close>

definition dsa_required :: "dsa_request option \<Rightarrow> bool" where
  "dsa_required rq =
     (case rq of
        Some d \<Rightarrow> (case drq_dsarequired d of Some v \<Rightarrow> v = 2 \<or> v = 3 | None \<Rightarrow> False)
      | None \<Rightarrow> False)"

definition validate_dsa :: "dsa_request option \<Rightarrow> dsa_response option \<Rightarrow> (dsa_error, unit) res" where
  "validate_dsa rq rs =
     (if dsa_required rq \<and> rs = None then Inl DsaMissing
      else case rs of
             None \<Rightarrow> Inr ()
           | Some d \<Rightarrow>
               if length (drs_behalf d) > 100 then Inl BehalfTooLong
               else if length (drs_paid d) > 100 then Inl PaidTooLong
               else case (Option.bind rq drq_pubrender, drs_adrender d) of
                      (Some pr, Some ar) \<Rightarrow>
                        if pr = 0 \<and> ar \<noteq> 1 then Inl NeitherWillRender
                        else if pr = 2 \<and> ar = 1 then Inl BothWillRender
                        else Inr ()
                    | _ \<Rightarrow> Inr ())"

section \<open>Writing the default\<close>

record dsa_account_config =
  dac_default :: "dsa_request option"
  dac_gdpr_only :: bool

record dsa_writer =
  dw_config :: "dsa_account_config option"
  dw_gdpr_in_scope :: bool

definition jint :: "int \<Rightarrow> json" where
  "jint i = JNum (if i < 0 then NegInt i else PosInt (nat i))"

definition opt_entry :: "bool \<Rightarrow> string \<Rightarrow> json \<Rightarrow> (string \<times> json) list \<Rightarrow> (string \<times> json) list" where
  "opt_entry b k v m = (if b then bt_insert k v m else m)"

definition opt_int_entry :: "string \<Rightarrow> int option \<Rightarrow> (string \<times> json) list \<Rightarrow> (string \<times> json) list" where
  "opt_int_entry k i m = (case i of None \<Rightarrow> m | Some n \<Rightarrow> bt_insert k (jint n) m)"

definition transparency_to_json :: "transparency_entry \<Rightarrow> json" where
  "transparency_to_json t =
     JObj (opt_entry (dt_dsaparams t \<noteq> []) ''dsaparams'' (JArr (map jint (dt_dsaparams t)))
            (opt_entry (dt_domain t \<noteq> []) ''domain'' (JStr (dt_domain t)) []))"

definition dsa_to_json :: "dsa_request \<Rightarrow> json" where
  "dsa_to_json d =
     JObj (opt_entry (drq_transparency d \<noteq> []) ''transparency'' (JArr (map transparency_to_json (drq_transparency d)))
            (opt_int_entry ''datatopub'' (drq_datatopub d)
              (opt_int_entry ''pubrender'' (drq_pubrender d)
                (opt_int_entry ''dsarequired'' (drq_dsarequired d) []))))"

definition get_request_dsa :: "(json \<Rightarrow> dsa_request option) \<Rightarrow> json \<Rightarrow> dsa_request option" where
  "get_request_dsa de ext = Option.bind (jpath (Some ext) [''regs'', ''ext'', ''dsa'']) de"

definition get_bid_dsa :: "(json \<Rightarrow> dsa_response option) \<Rightarrow> json \<Rightarrow> dsa_response option" where
  "get_bid_dsa de ext = Option.bind (jget ext ''dsa'') de"

text \<open>The entry of a key, an empty object where it is absent: the value of \<^verbatim>\<open>entry(k).or_insert_with(..)\<close>.\<close>

definition entry_or_empty :: "(string \<times> json) list \<Rightarrow> string \<Rightarrow> json" where
  "entry_or_empty m k = (case map_of m k of Some v \<Rightarrow> v | None \<Rightarrow> JObj [])"

text \<open>The writer returns the extension it was given by reference and its result.\<close>

definition dsa_write :: "(json \<Rightarrow> dsa_request option) \<Rightarrow> dsa_writer \<Rightarrow> json \<Rightarrow> json \<times> (string, bool) res" where
  "dsa_write de w ext =
     (if get_request_dsa de ext \<noteq> None then (ext, Inr False)
      else case dw_config w of
        None \<Rightarrow> (ext, Inr False)
      | Some config \<Rightarrow>
          (case dac_default config of
             None \<Rightarrow> (ext, Inr False)
           | Some default_dsa \<Rightarrow>
               if dac_gdpr_only config \<and> \<not> dw_gdpr_in_scope w then (ext, Inr False)
               else case as_object ext of
                 None \<Rightarrow> (ext, Inl ''request ext is not an object'')
               | Some m \<Rightarrow>
                   (let regs = entry_or_empty m ''regs''
                    in case as_object regs of
                      None \<Rightarrow> (JObj (bt_insert ''regs'' regs m), Inl ''regs is not an object'')
                    | Some r \<Rightarrow>
                        (let regs_ext = entry_or_empty r ''ext''
                         in case as_object regs_ext of
                           None \<Rightarrow> (JObj (bt_insert ''regs'' (JObj (bt_insert ''ext'' regs_ext r)) m), Inl ''regs.ext is not an object'')
                         | Some x \<Rightarrow>
                             (JObj (bt_insert ''regs'' (JObj (bt_insert ''ext'' (JObj (bt_insert ''dsa'' (dsa_to_json default_dsa) x)) r)) m),
                              Inr True)))))"

section \<open>Lemmas\<close>

lemma as_object_Some [simp]: "as_object v = Some m \<longleftrightarrow> v = JObj m"
  by (cases v) auto

lemma as_object_none_iff: "as_object v = None \<longleftrightarrow> (\<forall>m. v \<noteq> JObj m)"
  by (cases v) auto

lemma as_object_None: "as_object v = None \<Longrightarrow> entry_or_empty m k = v \<Longrightarrow> map_of m k = Some v"
  by (auto simp: entry_or_empty_def split: option.splits)

lemma jget_entry: "entry_or_empty m k = JObj r \<Longrightarrow> jpath (map_of m k) [k'] = map_of r k'"
  by (auto simp: entry_or_empty_def split: option.splits)

text \<open>The default the account asks for.\<close>

definition dsa_default :: "dsa_writer \<Rightarrow> dsa_request option" where
  "dsa_default w =
     Option.bind (dw_config w) (\<lambda>c. if dac_gdpr_only c \<and> \<not> dw_gdpr_in_scope w then None else dac_default c)"

text \<open>Whether the default can be placed: every step of the path is absent or an object.\<close>

definition dsa_place :: "json \<Rightarrow> bool" where
  "dsa_place ext =
     (is_object ext \<and>
      (case jget ext ''regs'' of
         None \<Rightarrow> True
       | Some r \<Rightarrow> is_object r \<and> (case jget r ''ext'' of None \<Rightarrow> True | Some x \<Rightarrow> is_object x)))"

definition dsa_written :: "(json \<Rightarrow> dsa_request option) \<Rightarrow> dsa_writer \<Rightarrow> json \<Rightarrow> bool" where
  "dsa_written de w ext = (get_request_dsa de ext = None \<and> dsa_default w \<noteq> None \<and> dsa_place ext)"

lemma dsa_place_obtain:
  assumes "dsa_place ext"
  obtains m r x where "ext = JObj m" "entry_or_empty m ''regs'' = JObj r" "entry_or_empty r ''ext'' = JObj x"
  using assms by (cases ext) (auto simp: dsa_place_def is_object_def entry_or_empty_def split: option.splits)

lemma dsa_write_default:
  "dsa_write de w ext =
     (if get_request_dsa de ext \<noteq> None then (ext, Inr False)
      else case dsa_default w of
        None \<Rightarrow> (ext, Inr False)
      | Some d \<Rightarrow> dsa_write de \<lparr>dw_config = Some \<lparr>dac_default = Some d, dac_gdpr_only = False\<rparr>, dw_gdpr_in_scope = True\<rparr> ext)"
proof (cases "dw_config w")
  case (Some c)
  then show ?thesis by (cases "dac_default c") (auto simp: dsa_write_def dsa_default_def)
qed (simp add: dsa_write_def dsa_default_def)

lemma dsa_write_ok:
  assumes "dsa_written de w ext"
  obtains d m r x where "dsa_default w = Some d" "ext = JObj m" "entry_or_empty m ''regs'' = JObj r" "entry_or_empty r ''ext'' = JObj x"
    "dsa_write de w ext =
       (JObj (bt_insert ''regs'' (JObj (bt_insert ''ext'' (JObj (bt_insert ''dsa'' (dsa_to_json d) x)) r)) m), Inr True)"
proof -
  have "dsa_place ext" using assms by (simp add: dsa_written_def)
  then obtain m r x where p: "ext = JObj m" "entry_or_empty m ''regs'' = JObj r" "entry_or_empty r ''ext'' = JObj x"
    by (rule dsa_place_obtain)
  obtain d where d: "dsa_default w = Some d" using assms by (auto simp: dsa_written_def)
  have "get_request_dsa de ext = None" using assms by (simp add: dsa_written_def)
  then show thesis using that [OF d p] d p by (simp add: dsa_write_default [of de w]) (simp add: dsa_write_def Let_def)
qed

lemma dsa_write_not:
  assumes "\<not> dsa_written de w ext" "json_wf ext"
  shows "fst (dsa_write de w ext) = ext \<and> snd (dsa_write de w ext) \<noteq> Inr True"
proof (cases "get_request_dsa de ext = None \<and> dsa_default w \<noteq> None")
  case True
  then obtain d where d: "dsa_default w = Some d" and g: "get_request_dsa de ext = None" by auto
  have np: "\<not> dsa_place ext" using assms True by (simp add: dsa_written_def)
  show ?thesis
  proof (cases ext)
    case (JObj m)
    have wf: "bt_wf m" using assms(2) JObj by simp
    from np JObj obtain v where v: "map_of m ''regs'' = Some v"
      by (auto simp: dsa_place_def is_object_def split: option.splits)
    then have same: "bt_insert ''regs'' v m = m" using wf by (rule bt_insert_same [rotated])
    show ?thesis
    proof (cases v)
      case v': (JObj r)
      then have wr: "bt_wf r" using assms(2) JObj v json_wf_lookup by fastforce
      from np JObj v v' obtain u where u: "map_of r ''ext'' = Some u" "as_object u = None"
        by (auto simp: dsa_place_def is_object_def as_object_none_iff split: option.splits)
      have "bt_insert ''ext'' u r = r" using wr u(1) by (rule bt_insert_same)
      then show ?thesis using d g JObj v v' u same
        by (simp add: dsa_write_default [of de w]) (simp add: dsa_write_def entry_or_empty_def Let_def)
    qed (use d g JObj v same in \<open>simp_all add: dsa_write_default [of de w], simp_all add: dsa_write_def entry_or_empty_def Let_def\<close>)
  qed (use d g in \<open>simp_all add: dsa_write_default [of de w], simp_all add: dsa_write_def\<close>)
qed (auto simp: dsa_write_default [of de w] split: option.splits)

section \<open>Properties\<close>

text \<open>The writer changes the extension exactly when the request has no readable object, the
  account has a default in scope and the path is free or made of objects; then the default stands at
  \<^verbatim>\<open>regs.ext.dsa\<close> and every other key of the three objects is as before.  In every other case, errors included,
  the extension is unchanged.\<close>

theorem dsa_write_spec:
  assumes "json_wf ext"
  shows "if dsa_written de w ext
    then snd (dsa_write de w ext) = Inr True
      \<and> jpath (Some (fst (dsa_write de w ext))) [''regs'', ''ext'', ''dsa''] = map_option dsa_to_json (dsa_default w)
      \<and> (k \<noteq> ''regs'' \<longrightarrow> jget (fst (dsa_write de w ext)) k = jget ext k)
      \<and> (k \<noteq> ''ext'' \<longrightarrow> jpath (Some (fst (dsa_write de w ext))) [''regs'', k] = jpath (Some ext) [''regs'', k])
      \<and> (k \<noteq> ''dsa'' \<longrightarrow> jpath (Some (fst (dsa_write de w ext))) [''regs'', ''ext'', k] = jpath (Some ext) [''regs'', ''ext'', k])
    else snd (dsa_write de w ext) \<noteq> Inr True \<and> fst (dsa_write de w ext) = ext"
proof (cases "dsa_written de w ext")
  case True
  then obtain d m r x where p: "dsa_default w = Some d" "ext = JObj m" "entry_or_empty m ''regs'' = JObj r" "entry_or_empty r ''ext'' = JObj x"
    and wr: "dsa_write de w ext =
       (JObj (bt_insert ''regs'' (JObj (bt_insert ''ext'' (JObj (bt_insert ''dsa'' (dsa_to_json d) x)) r)) m), Inr True)"
    by (rule dsa_write_ok)
  have r: "jpath (map_of m ''regs'') [q] = map_of r q" for q using p(3) by (rule jget_entry)
  have x: "jpath (map_of r ''ext'') [q] = map_of x q" for q using p(4) by (rule jget_entry)
  have rx: "jpath (map_of m ''regs'') [''ext'', q] = map_of x q" for q
    using r [of "''ext''"] x [of q] by (cases "map_of m ''regs''") auto
  show ?thesis unfolding wr using True p(1) r rx by (simp add: p(2) map_of_bt_insert)
next
  case False
  then show ?thesis using dsa_write_not [OF False assms] by simp
qed

theorem dsa_write_spec_witness:
  "snd (dsa_write (\<lambda>_. None) \<lparr>dw_config = Some \<lparr>dac_default = Some \<lparr>drq_dsarequired = Some 2, drq_pubrender = None,
       drq_datatopub = None, drq_transparency = []\<rparr>, dac_gdpr_only = False\<rparr>, dw_gdpr_in_scope = False\<rparr> (JObj [])) = Inr True"
  using dsa_write_spec [of "JObj []" "\<lambda>_. None" "\<lparr>dw_config = Some \<lparr>dac_default = Some \<lparr>drq_dsarequired = Some 2, drq_pubrender = None,
       drq_datatopub = None, drq_transparency = []\<rparr>, dac_gdpr_only = False\<rparr>, dw_gdpr_in_scope = False\<rparr>"]
  by (simp add: dsa_written_def dsa_default_def dsa_place_def is_object_def get_request_dsa_def bt_wf_def)

text \<open>A default that requires the object is enforced on the bids: once it was written, a bid without
  the object is refused, whatever the request contained before; writing again changes nothing.  The decoder
  is assumed to read the default back.\<close>

theorem dsa_default_enforced:
  assumes "json_wf ext" "dsa_written de w ext" "dsa_default w = Some d"
    and "de (dsa_to_json d) = Some d" "dsa_required (Some d)"
  shows "validate_dsa (get_request_dsa de (fst (dsa_write de w ext))) None = Inl DsaMissing
    \<and> dsa_write de w (fst (dsa_write de w ext)) = (fst (dsa_write de w ext), Inr False)"
proof -
  let ?e = "fst (dsa_write de w ext)"
  obtain m r x where "?e = JObj (bt_insert ''regs'' (JObj (bt_insert ''ext'' (JObj (bt_insert ''dsa'' (dsa_to_json d) x)) r)) m)"
    using dsa_write_ok [OF assms(2)] assms(3) by (metis fst_conv option.inject)
  then have "get_request_dsa de ?e = Some d" using assms(4) by (simp add: get_request_dsa_def map_of_bt_insert)
  then show ?thesis using assms(5) by (simp add: validate_dsa_def dsa_write_def)
qed

definition sample_dsa :: dsa_request where
  "sample_dsa = \<lparr>drq_dsarequired = Some 3, drq_pubrender = None, drq_datatopub = None, drq_transparency = []\<rparr>"

definition sample_dsa_writer :: dsa_writer where
  "sample_dsa_writer = \<lparr>dw_config = Some \<lparr>dac_default = Some sample_dsa, dac_gdpr_only = True\<rparr>, dw_gdpr_in_scope = True\<rparr>"

definition sample_dsa_decode :: "json \<Rightarrow> dsa_request option" where
  "sample_dsa_decode j =
     (if is_object j
      then Some \<lparr>drq_dsarequired = Option.bind (jget j ''dsarequired'') as_i64, drq_pubrender = Option.bind (jget j ''pubrender'') as_i64,
                 drq_datatopub = Option.bind (jget j ''datatopub'') as_i64, drq_transparency = []\<rparr>
      else None)"

theorem dsa_default_enforced_witness:
  "validate_dsa (get_request_dsa sample_dsa_decode (fst (dsa_write sample_dsa_decode sample_dsa_writer (JObj [])))) None = Inl DsaMissing"
  using dsa_default_enforced [of "JObj []" sample_dsa_decode sample_dsa_writer sample_dsa]
  by (simp add: dsa_written_def dsa_default_def dsa_place_def is_object_def get_request_dsa_def bt_wf_def sample_dsa_writer_def
      sample_dsa_decode_def sample_dsa_def dsa_to_json_def opt_int_entry_def opt_entry_def jint_def i64_max_def dsa_required_def)

text \<open>The limit of 100 characters is a limit on bytes: a text of 51 two-byte characters is refused.\<close>

lemma dsa_limit_counts_bytes:
  "length (utf8_chars (concat (replicate 51 [CHR 0xC3, CHR 0xA9]))) = 51
   \<and> validate_dsa None (Some \<lparr>drs_behalf = concat (replicate 51 [CHR 0xC3, CHR 0xA9]), drs_paid = [], drs_transparency = [], drs_adrender = None\<rparr>)
     = Inl BehalfTooLong"
  by code_simp

end
