(* ===== verification/StoredReq.thy ===== *)
theory StoredReq
  imports OpenRtb
begin

text \<open>
  Stored requests of the endpoints, \<^verbatim>\<open>rust/crates/endpoints/src/stored_requests.rs\<close>: the fetcher over files, the fetcher
  over HTTP, the combination of several fetchers, the cache, the composed fetcher, the polling updater and the merge of a
  stored fragment into a request.  Directory listings, HTTP answers, decoders and clocks are arguments.
\<close>

section \<open>The fetcher over files\<close>

record stored_fetcher =
  sf_requests :: "(string \<times> json) list"
  sf_imps :: "(string \<times> json) list"
  sf_responses :: "(string \<times> json) list"

text \<open>An entry of a directory: extension, stem and content, as far as they can be read.\<close>

record dir_entry =
  de_extension :: "string option"
  de_file_stem :: "string option"
  de_content :: "string option"

definition load_entry :: "(string \<Rightarrow> json option) \<Rightarrow> dir_entry \<Rightarrow> (string \<times> json) list \<Rightarrow> (string \<times> json) list" where
  "load_entry parse e m =
     (if de_extension e = Some ''json''
      then case (de_file_stem e, Option.bind (de_content e) parse) of
             (Some stem, Some j) \<Rightarrow> hm_insert stem j m
           | _ \<Rightarrow> m
      else m)"

definition load_json_files ::
  "(string \<Rightarrow> dir_entry list option) \<Rightarrow> (string \<Rightarrow> json option) \<Rightarrow> string \<Rightarrow> (string \<times> json) list \<Rightarrow> (string \<times> json) list" where
  "load_json_files read_dir parse path m =
     (case read_dir path of None \<Rightarrow> m | Some es \<Rightarrow> fold (load_entry parse) es m)"

definition from_directory :: "(string \<Rightarrow> dir_entry list option) \<Rightarrow> (string \<Rightarrow> json option) \<Rightarrow> string \<Rightarrow> stored_fetcher" where
  "from_directory read_dir parse dir =
     \<lparr>sf_requests = load_json_files read_dir parse (dir @ ''/requests'') (load_json_files read_dir parse dir []),
      sf_imps = load_json_files read_dir parse (dir @ ''/imps'') [],
      sf_responses = load_json_files read_dir parse (dir @ ''/storedresponses'') []\<rparr>"

definition stored_fetcher_empty :: stored_fetcher where
  "stored_fetcher_empty = \<lparr>sf_requests = [], sf_imps = [], sf_responses = []\<rparr>"

definition fetch_stored :: "stored_fetcher \<Rightarrow> string \<Rightarrow> json option" where
  "fetch_stored f i = map_of (sf_requests f) i"

definition fetch_imp :: "stored_fetcher \<Rightarrow> string \<Rightarrow> json option" where
  "fetch_imp f i = map_of (sf_imps f) i"

definition fetch_response_json :: "stored_fetcher \<Rightarrow> string \<Rightarrow> json option" where
  "fetch_response_json f i = (case map_of (sf_responses f) i of Some v \<Rightarrow> Some v | None \<Rightarrow> map_of (sf_requests f) i)"

definition fetch_stored_response :: "(json \<Rightarrow> 'r option) \<Rightarrow> stored_fetcher \<Rightarrow> string \<Rightarrow> 'r option" where
  "fetch_stored_response de f i =
     Option.bind (case map_of (sf_responses f) i of Some v \<Rightarrow> Some v | None \<Rightarrow> map_of (sf_requests f) i) de"

section \<open>Merging a fragment\<close>

text \<open>The entry of a key is created as null when it is absent, and then filled.\<close>

function (sequential) merge_request_fragment :: "json \<Rightarrow> json \<Rightarrow> json"
  and merge_fragment_entries :: "(string \<times> json) list \<Rightarrow> (string \<times> json) list \<Rightarrow> (string \<times> json) list" where
  "merge_request_fragment (JObj stored) (JObj incoming) = JObj (merge_fragment_entries stored incoming)"
| "merge_request_fragment stored incoming = incoming"
| "merge_fragment_entries [] incoming = incoming"
| "merge_fragment_entries ((k, stored_val) # stored) incoming =
     merge_fragment_entries stored
       (let entry = (case map_of incoming k of None \<Rightarrow> JNull | Some e \<Rightarrow> e)
        in bt_insert k
             (if entry = JNull then stored_val
              else if is_object entry \<and> is_object stored_val then merge_request_fragment stored_val entry
              else entry) incoming)"
  by pat_completeness auto
termination
  by (relation "measure (\<lambda>x. case x of Inl (s, i) \<Rightarrow> size s
        | Inr (s, i) \<Rightarrow> size_list (size_prod (\<lambda>_. 0) size) s)") auto

section \<open>The fetcher over HTTP\<close>

datatype stored_request_error = HttpError string | ParseError string | NotFound string

fun show_stored_request_error :: "stored_request_error \<Rightarrow> string" where
  "show_stored_request_error (HttpError e) = ''HTTP error: '' @ e"
| "show_stored_request_error (ParseError e) = ''parse error: '' @ e"
| "show_stored_request_error (NotFound i) = ''stored request not found: '' @ i"

record http_fetch_result =
  hfr_requests :: "(string \<times> json) list"
  hfr_imps :: "(string \<times> json) list"

text \<open>The service: for the ids of requests and impressions a transport error, or a status with its text and a body
  that may not decode.\<close>

type_synonym stored_http = "string list \<Rightarrow> string list \<Rightarrow> (string, nat \<times> string \<times> (string, http_fetch_result) res) res"

definition http_result :: "(string, nat \<times> string \<times> (string, http_fetch_result) res) res \<Rightarrow> (stored_request_error, http_fetch_result) res" where
  "http_result answer =
     (case answer of
        Inl e \<Rightarrow> Inl (HttpError e)
      | Inr (status, txt, body) \<Rightarrow>
          if \<not> (200 \<le> status \<and> status < 300) then Inl (HttpError (''HTTP '' @ txt))
          else map_err ParseError body)"

definition fetch_by_ids :: "stored_http \<Rightarrow> string list \<Rightarrow> string list \<Rightarrow> (stored_request_error, http_fetch_result) res" where
  "fetch_by_ids net request_ids imp_ids = http_result (net request_ids imp_ids)"

section \<open>Several fetchers\<close>

record multi_fetcher =
  mf_primary :: stored_fetcher
  mf_secondary :: "stored_fetcher list"

definition multi_fetch_request :: "multi_fetcher \<Rightarrow> string \<Rightarrow> json option" where
  "multi_fetch_request mf i = fetch_stored (mf_primary mf) i"

definition multi_fetch_imp :: "multi_fetcher \<Rightarrow> string \<Rightarrow> json option" where
  "multi_fetch_imp mf i = fetch_imp (mf_primary mf) i"

fun first_secondary :: "stored_fetcher list \<Rightarrow> string \<Rightarrow> json option" where
  "first_secondary [] i = None"
| "first_secondary (f # fs) i = (case fetch_stored f i of Some v \<Rightarrow> Some v | None \<Rightarrow> first_secondary fs i)"

definition multi_step ::
  "multi_fetcher \<Rightarrow> string \<Rightarrow> (string \<times> json) list \<times> string list \<Rightarrow> (string \<times> json) list \<times> string list" where
  "multi_step mf i st =
     (case st of (found, missing) \<Rightarrow>
        (case fetch_stored (mf_primary mf) i of
           Some v \<Rightarrow> (hm_insert i v found, missing)
         | None \<Rightarrow>
             (case first_secondary (mf_secondary mf) i of
                Some v \<Rightarrow> (hm_insert i v found, missing)
              | None \<Rightarrow> (found, missing @ [i]))))"

definition multi_fetch_requests :: "multi_fetcher \<Rightarrow> string list \<Rightarrow> (string \<times> json) list \<times> string list" where
  "multi_fetch_requests mf ids = fold (multi_step mf) ids ([], [])"

section \<open>The cache and the composed fetcher\<close>

text \<open>Times are in seconds; the clock does not go back.\<close>

record caching_fetcher =
  cf_inner :: stored_fetcher
  cf_request_cache :: "(string \<times> json \<times> nat) list"
  cf_ttl_secs :: nat

definition caching_new :: "stored_fetcher \<Rightarrow> nat \<Rightarrow> caching_fetcher" where
  "caching_new inner ttl = \<lparr>cf_inner = inner, cf_request_cache = [], cf_ttl_secs = ttl\<rparr>"

definition cache_put :: "nat \<Rightarrow> string \<Rightarrow> json \<Rightarrow> caching_fetcher \<Rightarrow> caching_fetcher" where
  "cache_put now i v c = c\<lparr>cf_request_cache := hm_insert i (v, now) (cf_request_cache c)\<rparr>"

definition fresh_entry :: "nat \<Rightarrow> caching_fetcher \<Rightarrow> string \<Rightarrow> json option" where
  "fresh_entry now c i =
     (case map_of (cf_request_cache c) i of
        Some (v, inserted) \<Rightarrow> if now - inserted < cf_ttl_secs c then Some v else None
      | None \<Rightarrow> None)"

definition fetch_cached :: "caching_fetcher \<Rightarrow> nat \<Rightarrow> string \<Rightarrow> caching_fetcher \<times> json option" where
  "fetch_cached c now i =
     (case fresh_entry now c i of
        Some v \<Rightarrow> (c, Some v)
      | None \<Rightarrow>
          (case fetch_stored (cf_inner c) i of
             None \<Rightarrow> (c, None)
           | Some v \<Rightarrow> (cache_put now i v c, Some v)))"

definition cache_invalidate :: "string \<Rightarrow> caching_fetcher \<Rightarrow> caching_fetcher" where
  "cache_invalidate i c = c\<lparr>cf_request_cache := hm_remove i (cf_request_cache c)\<rparr>"

definition cache_clear :: "caching_fetcher \<Rightarrow> caching_fetcher" where
  "cache_clear c = c\<lparr>cf_request_cache := []\<rparr>"

definition cache_size :: "caching_fetcher \<Rightarrow> nat" where
  "cache_size c = length (cf_request_cache c)"

record composed_fetcher =
  co_cache :: "caching_fetcher option"
  co_filesystem :: "stored_fetcher option"
  co_http :: bool

definition composed_rest :: "stored_http \<Rightarrow> composed_fetcher \<Rightarrow> nat \<Rightarrow> string \<Rightarrow> composed_fetcher \<times> json option" where
  "composed_rest net co now i =
     (case Option.bind (co_filesystem co) (\<lambda>fs. fetch_stored fs i) of
        Some v \<Rightarrow> (co\<lparr>co_cache := map_option (cache_put now i v) (co_cache co)\<rparr>, Some v)
      | None \<Rightarrow>
          (co, if co_http co
               then case fetch_by_ids net [i] [] of Inr r \<Rightarrow> map_of (hfr_requests r) i | Inl _ \<Rightarrow> None
               else None))"

definition composed_fetch_request :: "stored_http \<Rightarrow> composed_fetcher \<Rightarrow> nat \<Rightarrow> string \<Rightarrow> composed_fetcher \<times> json option" where
  "composed_fetch_request net co now i =
     (case co_cache co of
        Some c \<Rightarrow>
          (case fetch_cached c now i of
             (c', Some v) \<Rightarrow> (co\<lparr>co_cache := Some c'\<rparr>, Some v)
           | (c', None) \<Rightarrow> composed_rest net (co\<lparr>co_cache := Some c'\<rparr>) now i)
      | None \<Rightarrow> composed_rest net co now i)"

definition composed_fetch_imp :: "stored_http \<Rightarrow> composed_fetcher \<Rightarrow> string \<Rightarrow> json option" where
  "composed_fetch_imp net co i =
     (case Option.bind (co_filesystem co) (\<lambda>fs. fetch_imp fs i) of
        Some v \<Rightarrow> Some v
      | None \<Rightarrow>
          if co_http co
          then case fetch_by_ids net [] [i] of Inr r \<Rightarrow> map_of (hfr_imps r) i | Inl _ \<Rightarrow> None
          else None)"

section \<open>Categories, updates, the database stub\<close>

record category_fetcher =
  cat_categories :: "((string \<times> string) \<times> (string \<times> string) list) list"

definition fetch_category :: "category_fetcher \<Rightarrow> string \<Rightarrow> string \<Rightarrow> string \<Rightarrow> string option" where
  "fetch_category cf primary_ad_server pub_id iab_id =
     Option.bind (map_of (cat_categories cf) (primary_ad_server, pub_id)) (\<lambda>m. map_of m iab_id)"

record polling_updater =
  pu_endpoint :: string
  pu_last_updated :: "nat option"

definition poll_url :: "polling_updater \<Rightarrow> nat \<Rightarrow> string" where
  "poll_url pu now =
     (case pu_last_updated pu of
        Some t \<Rightarrow> pu_endpoint pu @ ''?last-modified='' @ show_nat (now - t)
      | None \<Rightarrow> pu_endpoint pu)"

definition fetch_updates ::
  "(string \<Rightarrow> (string, nat \<times> string \<times> (string, http_fetch_result) res) res) \<Rightarrow> nat \<Rightarrow> nat \<Rightarrow> polling_updater
   \<Rightarrow> polling_updater \<times> (stored_request_error, http_fetch_result) res" where
  "fetch_updates net now done_at pu =
     (case http_result (net (poll_url pu now)) of
        Inl e \<Rightarrow> (pu, Inl e)
      | Inr r \<Rightarrow> (pu\<lparr>pu_last_updated := Some done_at\<rparr>, Inr r))"

definition apply_updates :: "stored_fetcher \<Rightarrow> http_fetch_result \<Rightarrow> stored_fetcher" where
  "apply_updates f u =
     f\<lparr>sf_requests := fold (\<lambda>(i, v). hm_insert i v) (hfr_requests u) (sf_requests f),
       sf_imps := fold (\<lambda>(i, v). hm_insert i v) (hfr_imps u) (sf_imps f)\<rparr>"

definition database_fetch_requests :: "string list \<Rightarrow> (stored_request_error, (string \<times> json) list \<times> string list) res" where
  "database_fetch_requests ids = Inr ([], ids)"

definition database_fetch_imps :: "string list \<Rightarrow> (stored_request_error, (string \<times> json) list \<times> string list) res" where
  "database_fetch_imps ids = Inr ([], ids)"

section \<open>The interface of a source of stored requests\<close>

text \<open>A source answers a fetch and may change its state (a cache).  Its contract: what it answers is what it stands
  for, and fetching changes neither that nor its invariant.  So any sequence of fetches, at any times, answers the same
  as a plain table.\<close>

fun fetch_all :: "('s \<Rightarrow> nat \<Rightarrow> string \<Rightarrow> 's \<times> json option) \<Rightarrow> 's \<Rightarrow> (nat \<times> string) list \<Rightarrow> 's \<times> json option list" where
  "fetch_all fetch s [] = (s, [])"
| "fetch_all fetch s ((now, i) # rs) =
     (case fetch s now i of (s', v) \<Rightarrow> (case fetch_all fetch s' rs of (s'', vs) \<Rightarrow> (s'', v # vs)))"

locale stored_source =
  fixes fetch :: "'s \<Rightarrow> nat \<Rightarrow> string \<Rightarrow> 's \<times> json option"
    and inv :: "'s \<Rightarrow> bool"
    and content :: "'s \<Rightarrow> string \<Rightarrow> json option"
  assumes fetch_inv: "inv s \<Longrightarrow> inv (fst (fetch s now i))"
    and fetch_content: "inv s \<Longrightarrow> snd (fetch s now i) = content s i"
    and content_fetch: "inv s \<Longrightarrow> content (fst (fetch s now i)) = content s"
begin

lemma fetch_all_content:
  "inv s \<Longrightarrow> inv (fst (fetch_all fetch s rs)) \<and> content (fst (fetch_all fetch s rs)) = content s
    \<and> snd (fetch_all fetch s rs) = map (\<lambda>r. content s (snd r)) rs"
proof (induction rs arbitrary: s)
  case (Cons r rs)
  obtain now i where r: "r = (now, i)" by force
  obtain s' v where f: "fetch s now i = (s', v)" by force
  have "inv s'" "v = content s i" "content s' = content s"
    using fetch_inv fetch_content content_fetch Cons.prems f by (metis fst_conv snd_conv)+
  then show ?case using Cons.IH [of s'] by (cases "fetch_all fetch s' rs") (simp add: r f)
qed simp

end

text \<open>The cache of a fetcher holds only what its inner fetcher has.\<close>

definition cache_wf :: "caching_fetcher \<Rightarrow> bool" where
  "cache_wf c = list_all (\<lambda>(i, v, t). fetch_stored (cf_inner c) i = Some v) (cf_request_cache c)"

lemma fresh_entry_mem: "fresh_entry now c i = Some v \<Longrightarrow> \<exists>t. (i, v, t) \<in> set (cf_request_cache c)"
  by (fastforce simp: fresh_entry_def split: option.splits if_splits dest: map_of_SomeD)

lemma fetch_cached_cases:
  "fetch_cached c now i =
     (case fresh_entry now c i of
        Some v \<Rightarrow> (c, Some v)
      | None \<Rightarrow> (case fetch_stored (cf_inner c) i of None \<Rightarrow> c | Some v \<Rightarrow> cache_put now i v c, fetch_stored (cf_inner c) i))"
  by (simp add: fetch_cached_def split: option.split)

lemma cache_wf_put: "cache_wf c \<Longrightarrow> fetch_stored (cf_inner c) i = Some v \<Longrightarrow> cache_wf (cache_put now i v c)"
  using hm_insert_subset [of i "(v, now)" "cf_request_cache c"] by (auto simp: cache_wf_def cache_put_def list_all_iff)

lemma cache_put_inner [simp]: "cf_inner (cache_put now i v c) = cf_inner c"
  by (simp add: cache_put_def)

interpretation cached: stored_source fetch_cached cache_wf "\<lambda>c. fetch_stored (cf_inner c)"
proof
  fix c now i
  assume wf: "cache_wf c"
  have fresh: "fetch_stored (cf_inner c) i = Some v" if "fresh_entry now c i = Some v" for v
    using wf fresh_entry_mem [OF that] by (auto simp: cache_wf_def list_all_iff)
  show "cache_wf (fst (fetch_cached c now i))"
    using wf cache_wf_put by (auto simp: fetch_cached_cases split: option.split)
  show "snd (fetch_cached c now i) = fetch_stored (cf_inner c) i"
    using fresh by (auto simp: fetch_cached_cases split: option.split)
  show "fetch_stored (cf_inner (fst (fetch_cached c now i))) = fetch_stored (cf_inner c)"
    by (auto simp: fetch_cached_cases split: option.split)
qed

text \<open>What a composed fetcher stands for: the fetcher behind the cache, the file system, the service, in this order.\<close>

definition behind_cache :: "composed_fetcher \<Rightarrow> string \<Rightarrow> json option" where
  "behind_cache co i = Option.bind (co_cache co) (\<lambda>c. fetch_stored (cf_inner c) i)"

definition over_http :: "stored_http \<Rightarrow> composed_fetcher \<Rightarrow> string \<Rightarrow> json option" where
  "over_http net co i =
     (if co_http co then case fetch_by_ids net [i] [] of Inr r \<Rightarrow> map_of (hfr_requests r) i | Inl _ \<Rightarrow> None else None)"

definition composed_content :: "stored_http \<Rightarrow> composed_fetcher \<Rightarrow> string \<Rightarrow> json option" where
  "composed_content net co i =
     (case behind_cache co i of
        Some v \<Rightarrow> Some v
      | None \<Rightarrow> (case Option.bind (co_filesystem co) (\<lambda>fs. fetch_stored fs i) of
                   Some v \<Rightarrow> Some v
                 | None \<Rightarrow> over_http net co i))"

definition composed_wf :: "stored_http \<Rightarrow> composed_fetcher \<Rightarrow> bool" where
  "composed_wf net co =
     (case co_cache co of
        None \<Rightarrow> True
      | Some c \<Rightarrow> list_all (\<lambda>(i, v, t). composed_content net co i = Some v) (cf_request_cache c))"

lemma composed_content_cache:
  "map_option cf_inner (co_cache co') = map_option cf_inner (co_cache co) \<Longrightarrow> co_filesystem co' = co_filesystem co \<Longrightarrow>
   co_http co' = co_http co \<Longrightarrow> composed_content net co' = composed_content net co"
proof -
  assume a: "map_option cf_inner (co_cache co') = map_option cf_inner (co_cache co)" "co_filesystem co' = co_filesystem co"
    "co_http co' = co_http co"
  have "behind_cache co' = behind_cache co"
    using a(1) by (cases "co_cache co"; cases "co_cache co'") (auto simp: behind_cache_def fun_eq_iff)
  moreover have "over_http net co' = over_http net co" using a(3) by (simp add: over_http_def fun_eq_iff)
  ultimately show ?thesis using a(2) by (intro ext) (simp only: composed_content_def)
qed

lemma co_cache_same [simp]: "co_cache co = Some c \<Longrightarrow> co\<lparr>co_cache := Some c\<rparr> = co"
  by simp

lemma composed_put:
  assumes "composed_wf net co" "composed_content net co i = Some v"
  shows "composed_wf net (co\<lparr>co_cache := map_option (cache_put now i v) (co_cache co)\<rparr>)
    \<and> composed_content net (co\<lparr>co_cache := map_option (cache_put now i v) (co_cache co)\<rparr>) = composed_content net co"
proof -
  have c: "composed_content net (co\<lparr>co_cache := map_option (cache_put now i v) (co_cache co)\<rparr>) = composed_content net co"
    by (rule composed_content_cache) (simp_all add: option.map_comp comp_def)
  show ?thesis
  proof (cases "co_cache co")
    case (Some ca)
    then show ?thesis using assms c hm_insert_subset [of i "(v, now)" "cf_request_cache ca"]
      by (auto simp: composed_wf_def list_all_iff cache_put_def)
  qed (use c in \<open>simp add: composed_wf_def\<close>)
qed

lemma composed_rest_spec:
  assumes "composed_wf net co" "behind_cache co i = None"
  shows "composed_wf net (fst (composed_rest net co now i)) \<and> snd (composed_rest net co now i) = composed_content net co i
    \<and> composed_content net (fst (composed_rest net co now i)) = composed_content net co"
proof (cases "Option.bind (co_filesystem co) (\<lambda>fs. fetch_stored fs i)")
  case None
  then show ?thesis using assms by (simp add: composed_rest_def composed_content_def over_http_def)
next
  case (Some v)
  then have "composed_content net co i = Some v" using assms by (simp add: composed_content_def)
  then show ?thesis using composed_put [OF assms(1)] Some by (simp add: composed_rest_def)
qed

interpretation composed: stored_source "composed_fetch_request net" "composed_wf net" "composed_content net" for net
proof
  fix co now i
  assume wf: "composed_wf net co"
  let ?r = "composed_fetch_request net co now i"
  have "composed_wf net (fst ?r) \<and> snd ?r = composed_content net co i \<and> composed_content net (fst ?r) = composed_content net co"
  proof (cases "co_cache co")
    case None
    then have "behind_cache co i = None" by (simp add: behind_cache_def)
    then show ?thesis using composed_rest_spec [OF wf] None by (simp add: composed_fetch_request_def)
  next
    case (Some c)
    show ?thesis
    proof (cases "fresh_entry now c i")
      case fresh: (Some v)
      then have "composed_content net co i = Some v"
        using wf fresh_entry_mem [OF fresh] Some by (auto simp: composed_wf_def list_all_iff)
      then show ?thesis using wf Some fresh by (simp add: composed_fetch_request_def fetch_cached_cases)
    next
      case stale: None
      show ?thesis
      proof (cases "fetch_stored (cf_inner c) i")
        case None
        then have "behind_cache co i = None" using Some by (simp add: behind_cache_def)
        then show ?thesis using composed_rest_spec [OF wf] Some stale None
          by (simp add: composed_fetch_request_def fetch_cached_cases)
      next
        case inner: (Some v)
        then have "composed_content net co i = Some v" using Some by (simp add: composed_content_def behind_cache_def)
        then show ?thesis using composed_put [OF wf] Some stale inner
          by (simp add: composed_fetch_request_def fetch_cached_cases)
      qed
    qed
  qed
  then show "composed_wf net (fst ?r)" "snd ?r = composed_content net co i" "composed_content net (fst ?r) = composed_content net co"
    by simp_all
qed

section \<open>Other lemmas\<close>


lemma fragment_deep_merge:
  "json_wf s \<Longrightarrow> json_wf i \<Longrightarrow> merge_request_fragment s i = deep_merge_json i s"
  "json_wf (JObj inc) \<Longrightarrow> (\<forall>e \<in> set st. json_wf (snd e)) \<Longrightarrow> merge_fragment_entries st inc = merge_entries inc st"
proof (induction s i and st inc rule: merge_request_fragment_merge_fragment_entries.induct)
  case (4 k v st inc)
  let ?old = "case map_of inc k of None \<Rightarrow> JNull | Some e \<Rightarrow> e"
  let ?new = "case map_of inc k of None \<Rightarrow> bt_insert k v inc
        | Some entry \<Rightarrow> if entry = JNull then bt_insert k v inc
            else if is_object entry \<and> is_object v then bt_insert k (deep_merge_json entry v) inc else inc"
  have v: "json_wf v" using 4 by simp
  have step: "bt_insert k (if ?old = JNull then v else if is_object ?old \<and> is_object v then merge_request_fragment v ?old else ?old) inc = ?new"
  proof (cases "map_of inc k")
    case (Some e)
    then have "json_wf e" using 4 json_wf_lookup by blast
    moreover have "bt_insert k e inc = inc" using 4 Some by (intro bt_insert_same) simp_all
    ultimately show ?thesis using 4(1) [OF refl] v Some by simp
  qed simp
  have "json_wf (JObj ?new)"
    using 4(3) v json_wf_bt_insert json_wf_lookup [OF 4(3)] merge_wf(1) by (auto split: option.split simp del: json_wf.simps)
  then show ?case using 4 step by (simp add: Let_def)
qed auto

definition multi_lookup :: "multi_fetcher \<Rightarrow> string \<Rightarrow> json option" where
  "multi_lookup mf i = first_secondary (mf_primary mf # mf_secondary mf) i"

lemma multi_fold:
  "map_of (fst (fold (multi_step mf) ids st)) i = (if i \<in> set ids \<and> multi_lookup mf i \<noteq> None then multi_lookup mf i else map_of (fst st) i)
   \<and> snd (fold (multi_step mf) ids st) = snd st @ filter (\<lambda>i. multi_lookup mf i = None) ids"
proof (induction ids arbitrary: st)
  case (Cons j ids)
  have "multi_step mf j st =
      (case multi_lookup mf j of Some v \<Rightarrow> (hm_insert j v (fst st), snd st) | None \<Rightarrow> (fst st, snd st @ [j]))"
    by (cases st) (simp add: multi_step_def multi_lookup_def split: option.split)
  then show ?case using Cons.IH [of "multi_step mf j st"]
    by (cases "multi_lookup mf j") (auto simp: map_of_hm_insert)
qed simp

section \<open>Properties\<close>

text \<open>Property C15.  The composed fetcher with its cache is transparent: started with an empty cache, any sequence of
  requests at any times is answered as from the fetcher behind the cache, the file system and the service, in
  this order, whatever the expiry time.\<close>

theorem composed_fetch_transparent:
  "snd (fetch_all (composed_fetch_request net) \<lparr>co_cache = Some (caching_new inner ttl), co_filesystem = fs, co_http = http\<rparr> requests)
   = map (\<lambda>r. composed_content net \<lparr>co_cache = Some (caching_new inner ttl), co_filesystem = fs, co_http = http\<rparr> (snd r)) requests"
proof -
  have "composed_wf net \<lparr>co_cache = Some (caching_new inner ttl), co_filesystem = fs, co_http = http\<rparr>"
    by (simp add: composed_wf_def caching_new_def)
  then show ?thesis by (simp add: composed.fetch_all_content)
qed

text \<open>Merging a stored fragment into a request is the deep merge with the request as the winning side,
  the same function the exchange uses for first-party data.\<close>

theorem fragment_is_deep_merge:
  assumes "json_wf stored" "json_wf incoming"
  shows "merge_request_fragment stored incoming = deep_merge_json incoming stored"
  using assms by (rule fragment_deep_merge(1))

theorem fragment_is_deep_merge_witness:
  "merge_request_fragment (JObj [(''a'', JNum (PosInt 1)), (''b'', JBool True)]) (JObj [(''a'', JNum (PosInt 2))])
   = deep_merge_json (JObj [(''a'', JNum (PosInt 2))]) (JObj [(''a'', JNum (PosInt 1)), (''b'', JBool True)])"
  by (rule fragment_is_deep_merge) (simp_all add: bt_wf_def less_list_code)

text \<open>Fetching several requests: each id found anywhere is returned with the value of the first fetcher
  that has it, and the missing ids are exactly the others, in order.\<close>

theorem multi_fetch_partition:
  "map_of (fst (multi_fetch_requests mf ids)) i = (if i \<in> set ids then multi_lookup mf i else None)
   \<and> snd (multi_fetch_requests mf ids) = filter (\<lambda>i. multi_lookup mf i = None) ids"
  using multi_fold [of mf ids "([], [])" i] by (auto simp: multi_fetch_requests_def)

end
