(* ===== verification/Usersync.thy ===== *)
theory Usersync
  imports OpenRtb
begin

text \<open>
  User syncing in the exchange, \<^verbatim>\<open>rust/crates/exchange/src/usersync.rs\<close>: the cookie of user ids, syncers and their
  URLs, the choice of bidders to sync, filters, ejection of ids from a full cookie, and the construction of syncers from
  the configuration of bidders.  Base64 and JSON codecs, hash iteration orders, shuffles, Unicode lower-casing and the
  regular-expression library are arguments.
\<close>

section \<open>The cookie\<close>

datatype sync_type = SyncIframe | SyncRedirect | SyncBoth

record uid_entry =
  ue_uid :: string
  ue_expires :: "string option"

record prebid_cookie =
  pc_uids :: "(string \<times> uid_entry) list"
  pc_opt_out :: bool

definition prebid_cookie_new :: prebid_cookie where
  "prebid_cookie_new = \<lparr>pc_uids = [], pc_opt_out = False\<rparr>"

definition get_uid :: "prebid_cookie \<Rightarrow> string \<Rightarrow> uid_entry option" where
  "get_uid c bidder = map_of (pc_uids c) bidder"

definition set_uid :: "string \<Rightarrow> string \<Rightarrow> prebid_cookie \<Rightarrow> prebid_cookie" where
  "set_uid bidder uid c = c\<lparr>pc_uids := hm_insert bidder \<lparr>ue_uid = uid, ue_expires = None\<rparr> (pc_uids c)\<rparr>"

definition from_cookie ::
  "(string \<Rightarrow> string option) \<Rightarrow> (string \<Rightarrow> string option) \<Rightarrow> (string \<Rightarrow> prebid_cookie option) \<Rightarrow> string \<Rightarrow> prebid_cookie" where
  "from_cookie dec_std dec_url parse v =
     (case Option.bind (case dec_std v of Some b \<Rightarrow> Some b | None \<Rightarrow> dec_url v) parse of
        Some c \<Rightarrow> c
      | None \<Rightarrow> (case parse v of Some c \<Rightarrow> c | None \<Rightarrow> prebid_cookie_new))"

definition to_cookie_string :: "(string \<Rightarrow> string) \<Rightarrow> (prebid_cookie \<Rightarrow> string option) \<Rightarrow> prebid_cookie \<Rightarrow> string" where
  "to_cookie_string enc_std to_json c = enc_std (case to_json c of Some j \<Rightarrow> j | None \<Rightarrow> [])"

definition encode_cookie :: "(string \<Rightarrow> string) \<Rightarrow> (prebid_cookie \<Rightarrow> (string, string) res) \<Rightarrow> prebid_cookie \<Rightarrow> (string, string) res" where
  "encode_cookie enc_url to_json c = res_bind (to_json c) (\<lambda>j. Inr (enc_url j))"

definition decode_cookie :: "(string \<Rightarrow> string option) \<Rightarrow> (string \<Rightarrow> prebid_cookie option) \<Rightarrow> string \<Rightarrow> prebid_cookie" where
  "decode_cookie dec_url parse v =
     (case dec_url v of
        None \<Rightarrow> prebid_cookie_new
      | Some b \<Rightarrow> (case parse b of Some c \<Rightarrow> c | None \<Rightarrow> prebid_cookie_new))"

section \<open>Syncers\<close>

record syncer =
  sy_bidder :: string
  sy_iframe_url :: "string option"
  sy_redirect_url :: "string option"

definition syncer_key :: "syncer \<Rightarrow> string" where
  "syncer_key s = sy_bidder s"

definition default_response_format :: "syncer \<Rightarrow> sync_type" where
  "default_response_format s = (if sy_iframe_url s \<noteq> None then SyncIframe else SyncRedirect)"

definition supports_type :: "syncer \<Rightarrow> sync_type list \<Rightarrow> bool" where
  "supports_type s ts =
     list_ex (\<lambda>t. t = SyncIframe \<and> sy_iframe_url s \<noteq> None \<or> t = SyncRedirect \<and> sy_redirect_url s \<noteq> None) ts"

text \<open>The four replacements, in the order of the code.\<close>

definition fill_sync_url :: "int \<Rightarrow> string \<Rightarrow> string \<Rightarrow> string" where
  "fill_sync_url gdpr consent base =
     str_replace ''{{gdpr_consent}}'' consent
       (str_replace ''{{gdpr}}'' (show_int gdpr)
         (str_replace ''{gdpr_consent}'' consent
           (str_replace ''{gdpr}'' (show_int gdpr) base)))"

definition get_sync_url :: "syncer \<Rightarrow> sync_type \<Rightarrow> int \<Rightarrow> string \<Rightarrow> string option" where
  "get_sync_url s t gdpr consent =
     map_option (fill_sync_url gdpr consent) (if t = SyncIframe then sy_iframe_url s else sy_redirect_url s)"

section \<open>Choosing bidders\<close>

record chooser_config =
  ch_max_syncs_per_request :: nat
  ch_cooperative_sync_enabled :: bool
  ch_cooperative_sync_priority :: "string list"

definition default_chooser_config :: chooser_config where
  "default_chooser_config =
     \<lparr>ch_max_syncs_per_request = 8, ch_cooperative_sync_enabled = True, ch_cooperative_sync_priority = []\<rparr>"

datatype rejection_reason = AlreadySynced | OptedOut | GdprBlocked | TypeNotSupported | MaxSyncsReached | BidderDisabled

fun show_rejection :: "rejection_reason \<Rightarrow> string" where
  "show_rejection AlreadySynced = ''already synced''"
| "show_rejection OptedOut = ''user opted out''"
| "show_rejection GdprBlocked = ''blocked by GDPR''"
| "show_rejection TypeNotSupported = ''sync type not supported''"
| "show_rejection MaxSyncsReached = ''max syncs reached''"
| "show_rejection BidderDisabled = ''bidder disabled''"

record syncer_choice =
  sch_bidder :: string
  sch_sync_type :: sync_type
  sch_url :: string

record choose_result =
  cr_syncs :: "syncer_choice list"
  cr_rejected :: "(string \<times> rejection_reason) list"

definition sync_reject :: "string \<Rightarrow> rejection_reason \<Rightarrow> choose_result \<Rightarrow> choose_result" where
  "sync_reject bidder why r = r\<lparr>cr_rejected := cr_rejected r @ [(bidder, why)]\<rparr>"

definition choose_step ::
  "prebid_cookie \<Rightarrow> (string \<times> syncer) list \<Rightarrow> bool \<Rightarrow> string \<Rightarrow> chooser_config \<Rightarrow> string \<Rightarrow> choose_result \<Rightarrow> choose_result" where
  "choose_step cookie available gdpr_applies consent cfg bidder r =
     (if length (cr_syncs r) \<ge> ch_max_syncs_per_request cfg then sync_reject bidder MaxSyncsReached r
      else if get_uid cookie bidder \<noteq> None then sync_reject bidder AlreadySynced r
      else if gdpr_applies \<and> consent = [] then sync_reject bidder GdprBlocked r
      else case map_of available bidder of
             None \<Rightarrow> sync_reject bidder BidderDisabled r
           | Some s \<Rightarrow>
               (let g = (if gdpr_applies then 1 else 0)
                in case get_sync_url s SyncIframe g consent of
                     Some url \<Rightarrow> r\<lparr>cr_syncs := cr_syncs r @ [\<lparr>sch_bidder = bidder, sch_sync_type = SyncIframe, sch_url = url\<rparr>]\<rparr>
                   | None \<Rightarrow>
                       (case get_sync_url s SyncRedirect g consent of
                          Some url \<Rightarrow> r\<lparr>cr_syncs := cr_syncs r @ [\<lparr>sch_bidder = bidder, sch_sync_type = SyncRedirect, sch_url = url\<rparr>]\<rparr>
                        | None \<Rightarrow> sync_reject bidder TypeNotSupported r)))"

definition choose_bidders ::
  "(string list \<Rightarrow> string list) \<Rightarrow> prebid_cookie \<Rightarrow> (string \<times> syncer) list \<Rightarrow> string list \<Rightarrow> bool \<Rightarrow> string \<Rightarrow> chooser_config
   \<Rightarrow> choose_result" where
  "choose_bidders ord cookie available requested gdpr_applies consent cfg =
     (let empty = \<lparr>cr_syncs = [], cr_rejected = []\<rparr>
      in if pc_opt_out cookie then fold (\<lambda>b. sync_reject b OptedOut) requested empty
         else if requested = [] \<and> \<not> ch_cooperative_sync_enabled cfg then empty
         else fold (choose_step cookie available gdpr_applies consent cfg)
                (if requested = [] then ord (map fst available) else requested) empty)"

section \<open>The response\<close>

datatype cookie_sync_status = CsOk | CsNoCookie | CsOptOut

record usersync_info =
  ui_url :: string
  ui_sync_type :: string
  ui_support_cors :: bool

record bidder_sync_status =
  bss_bidder :: string
  bss_usersync :: "usersync_info option"
  bss_error :: "string option"
  bss_no_cookie :: bool

record cookie_sync_response =
  csr_status :: cookie_sync_status
  csr_bidder_status :: "bidder_sync_status list"

fun sync_type_name :: "sync_type \<Rightarrow> string" where
  "sync_type_name SyncIframe = ''iframe''"
| "sync_type_name SyncRedirect = ''redirect''"
| "sync_type_name SyncBoth = ''redirect''"

definition status_of_choice :: "syncer_choice \<Rightarrow> bidder_sync_status" where
  "status_of_choice s =
     \<lparr>bss_bidder = sch_bidder s,
      bss_usersync = Some \<lparr>ui_url = sch_url s, ui_sync_type = sync_type_name (sch_sync_type s), ui_support_cors = True\<rparr>,
      bss_error = None, bss_no_cookie = True\<rparr>"

definition build_sync_response :: "prebid_cookie \<Rightarrow> choose_result \<Rightarrow> cookie_sync_response" where
  "build_sync_response cookie r =
     \<lparr>csr_status = (if pc_opt_out cookie then CsOptOut else if pc_uids cookie = [] then CsNoCookie else CsOk),
      csr_bidder_status = map status_of_choice (cr_syncs r)\<rparr>"

section \<open>Filters\<close>

datatype filter_mode = FilterInclude | FilterExclude

record specific_bidder_filter =
  sbf_bidders_lookup :: "string set"
  sbf_mode :: filter_mode

definition specific_filter_new :: "(string \<Rightarrow> string) \<Rightarrow> string list \<Rightarrow> filter_mode \<Rightarrow> specific_bidder_filter" where
  "specific_filter_new lower bidders mode = \<lparr>sbf_bidders_lookup = set (map lower bidders), sbf_mode = mode\<rparr>"

definition specific_allowed :: "(string \<Rightarrow> string) \<Rightarrow> specific_bidder_filter \<Rightarrow> string \<Rightarrow> bool" where
  "specific_allowed lower f bidder =
     (let exists = lower bidder \<in> sbf_bidders_lookup f
      in case sbf_mode f of FilterInclude \<Rightarrow> exists | FilterExclude \<Rightarrow> \<not> exists)"

definition uniform_allowed :: "filter_mode \<Rightarrow> string \<Rightarrow> bool" where
  "uniform_allowed mode bidder = (mode = FilterInclude)"

definition for_bidder :: "(string \<Rightarrow> bool) \<Rightarrow> (string \<Rightarrow> bool) \<Rightarrow> string \<Rightarrow> sync_type list" where
  "for_bidder iframe redirect bidder =
     (if iframe bidder then [SyncIframe] else []) @ (if redirect bidder then [SyncRedirect] else [])"

section \<open>Ejecting ids\<close>

type_synonym uid_map = "(string \<times> uid_entry) list"

definition is_older :: "string option option \<Rightarrow> string option \<Rightarrow> bool" where
  "is_older oldest e =
     (case oldest of
        None \<Rightarrow> True
      | Some (Some cur) \<Rightarrow> (case e of None \<Rightarrow> True | Some new \<Rightarrow> new < cur)
      | Some None \<Rightarrow> False)"

definition oldest_step :: "string \<times> uid_entry \<Rightarrow> (string option \<times> string option option) \<Rightarrow> string option \<times> string option option" where
  "oldest_step ke st =
     (if is_older (snd st) (ue_expires (snd ke)) then (Some (fst ke), Some (ue_expires (snd ke))) else st)"

definition oldest_choose :: "(string list \<Rightarrow> string list) \<Rightarrow> uid_map \<Rightarrow> (string, string) res" where
  "oldest_choose ord uids =
     (if uids = [] then Inl ''no uids to eject''
      else case fst (fold oldest_step (hm_iter ord uids) (None, None)) of
             Some k \<Rightarrow> Inr k
           | None \<Rightarrow> Inl ''no uids to eject'')"

record priority_ejector =
  pe_priority_groups :: "string list list"
  pe_syncer_keys_by_bidder :: "(string \<times> string) list"
  pe_is_syncer_priority :: bool

definition priority_keys :: "priority_ejector \<Rightarrow> string set" where
  "priority_keys p = set (List.map_filter (map_of (pe_syncer_keys_by_bidder p)) (concat (pe_priority_groups p)))"

definition non_priority_uids :: "priority_ejector \<Rightarrow> uid_map \<Rightarrow> uid_map" where
  "non_priority_uids p uids =
     (if pe_priority_groups p = [] then uids else filter (\<lambda>(k, _). k \<notin> priority_keys p) uids)"

definition remove_from_lowest_group :: "string \<Rightarrow> priority_ejector \<Rightarrow> priority_ejector" where
  "remove_from_lowest_group e p =
     (if pe_priority_groups p = [] then p
      else if length (last (pe_priority_groups p)) \<le> 1
      then p\<lparr>pe_priority_groups := butlast (pe_priority_groups p)\<rparr>
      else p\<lparr>pe_priority_groups := butlast (pe_priority_groups p) @ [filter (\<lambda>x. x \<noteq> e) (last (pe_priority_groups p))]\<rparr>)"

definition lowest_step :: "priority_ejector \<Rightarrow> uid_map \<Rightarrow> string \<Rightarrow> uid_map \<Rightarrow> uid_map" where
  "lowest_step p uids bidder acc =
     (case Option.bind (map_of (pe_syncer_keys_by_bidder p) bidder) (\<lambda>k. map_option (Pair k) (map_of uids k)) of
        Some (k, e) \<Rightarrow> hm_insert k e acc
      | None \<Rightarrow> acc)"

text \<open>The tie ejector is an argument.\<close>

definition priority_choose ::
  "(uid_map \<Rightarrow> (string, string) res) \<Rightarrow> priority_ejector \<Rightarrow> uid_map \<Rightarrow> priority_ejector \<times> (string, string) res" where
  "priority_choose tie p uids =
     (let non_priority = non_priority_uids p uids
      in if length non_priority = 1 \<and> \<not> pe_is_syncer_priority p \<and> pe_priority_groups p \<noteq> []
         then (p, Inl ''syncer key is not a priority, and there are only priority elements left'')
         else if non_priority \<noteq> [] then (p, tie non_priority)
         else if pe_priority_groups p = [] then (p, Inl ''no priority groups'')
         else let lowest = last (pe_priority_groups p)
              in case lowest of
                   [b] \<Rightarrow> (remove_from_lowest_group b p, Inr b)
                 | _ \<Rightarrow>
                     (case tie (fold (lowest_step p uids) lowest []) of
                        Inl e \<Rightarrow> (p, Inl e)
                      | Inr k \<Rightarrow> (remove_from_lowest_group k p, Inr k)))"

section \<open>The order of bidders\<close>

record cooperative =
  coop_enabled :: bool
  coop_priority_groups :: "string list list"

text \<open>A shuffle is an argument for every call, numbered in the order of the calls.\<close>

definition shuffled_append :: "(string list \<Rightarrow> string list) \<Rightarrow> string list \<Rightarrow> string list \<Rightarrow> string list" where
  "shuffled_append sh dest src = dest @ sh src"

definition choose_bidder_order :: "(nat \<Rightarrow> string list \<Rightarrow> string list) \<Rightarrow> string list \<Rightarrow> string list \<Rightarrow> cooperative \<Rightarrow> string list" where
  "choose_bidder_order sh requested available coop =
     (if coop_enabled coop
      then shuffled_append (sh (Suc (length (coop_priority_groups coop))))
             (fold (\<lambda>(n, g) dest. shuffled_append (sh n) dest g) (List.enumerate 1 (coop_priority_groups coop))
               (shuffled_append (sh 0) [] requested))
             available
      else if requested = [] then sh 0 available else sh 0 requested)"

section \<open>Building syncers\<close>

record syncer_endpoint_config =
  sec_url :: string
  sec_redirect_url :: string
  sec_external_url :: string
  sec_user_macro :: string

record bidder_syncer_config =
  bsc_key :: string
  bsc_supports :: "string list"
  bsc_iframe :: "syncer_endpoint_config option"
  bsc_redirect :: "syncer_endpoint_config option"
  bsc_external_url :: string
  bsc_format_override :: string
  bsc_enabled :: "bool option"

text \<open>The fields of the bidder information the builder reads.\<close>

record bidder_sync_part =
  bi_disabled :: bool
  bi_user_sync :: "bidder_syncer_config option"

record host_sync_config =
  hs_redirect_url :: string
  hs_external_url :: string

definition syncer_defined :: "bidder_sync_part \<Rightarrow> bool" where
  "syncer_defined info =
     (case bi_user_sync info of
        None \<Rightarrow> False
      | Some s \<Rightarrow> bsc_key s \<noteq> [] \<or> bsc_iframe s \<noteq> None \<or> bsc_redirect s \<noteq> None
                  \<or> bsc_external_url s \<noteq> [] \<or> bsc_format_override s \<noteq> [])"

definition should_create_syncer :: "bidder_sync_part \<Rightarrow> bool" where
  "should_create_syncer info = (\<not> bi_disabled info \<and> syncer_defined info)"

definition choose_external_url :: "string \<Rightarrow> string \<Rightarrow> string \<Rightarrow> string" where
  "choose_external_url endpoint_url syncer_url host_url =
     (if endpoint_url \<noteq> [] then endpoint_url else if syncer_url \<noteq> [] then syncer_url else host_url)"

text \<open>The replacement of a template macro by the regular-expression library: macro, text, replacement.\<close>

type_synonym macro_replace = "string \<Rightarrow> string \<Rightarrow> string \<Rightarrow> string"

definition build_syncer_url ::
  "macro_replace \<Rightarrow> string \<Rightarrow> string \<Rightarrow> host_sync_config \<Rightarrow> string \<Rightarrow> syncer_endpoint_config \<Rightarrow> string \<Rightarrow> string" where
  "build_syncer_url mr bidder_name sync_type_value host syncer_external_url endpoint format_override =
     (let template = (if sec_redirect_url endpoint = [] then hs_redirect_url host else sec_redirect_url endpoint);
          effective = (if format_override = [] then sync_type_value else format_override);
          external = choose_external_url (sec_external_url endpoint) syncer_external_url (hs_external_url host);
          r = mr ''SyncerKey'' template bidder_name;
          r = mr ''BidderName'' r bidder_name;
          r = mr ''SyncType'' r effective;
          r = mr ''UserMacro'' r (sec_user_macro endpoint);
          r = mr ''ExternalURL'' r external
      in mr ''RedirectURL'' (sec_url endpoint) r)"

definition new_syncer_from_config ::
  "macro_replace \<Rightarrow> host_sync_config \<Rightarrow> bidder_syncer_config \<Rightarrow> string \<Rightarrow> (string, syncer) res" where
  "new_syncer_from_config mr host cfg bidder =
     (if bsc_key cfg = [] then Inl ''key is required''
      else if bsc_iframe cfg = None \<and> bsc_redirect cfg = None
      then Inl ''at least one endpoint (iframe and/or redirect) is required''
      else Inr \<lparr>sy_bidder = bsc_key cfg,
                sy_iframe_url = map_option (\<lambda>e. build_syncer_url mr bidder ''i'' host (bsc_external_url cfg) e (bsc_format_override cfg))
                                  (bsc_iframe cfg),
                sy_redirect_url = map_option (\<lambda>e. build_syncer_url mr bidder ''b'' host (bsc_external_url cfg) e (bsc_format_override cfg))
                                    (bsc_redirect cfg)\<rparr>)"

definition has_endpoint :: "bidder_syncer_config \<Rightarrow> bool" where
  "has_endpoint cfg = (bsc_iframe cfg \<noteq> None \<or> bsc_redirect cfg \<noteq> None)"

type_synonym named_syncer_config = "string \<times> bidder_syncer_config"

definition choose_syncer_config :: "named_syncer_config list \<Rightarrow> (string, named_syncer_config) res" where
  "choose_syncer_config grp =
     (if length grp = 1 then Inr (hd grp)
      else let with_endpoints = filter (\<lambda>n. has_endpoint (snd n)) grp
           in if with_endpoints = []
              then Inl (''bidders '' @ join_str '', '' (sort (map fst grp))
                        @ '' share the same syncer key, but none define endpoints (iframe and/or redirect)'')
              else if \<not> list_all (\<lambda>n. snd n = snd (hd with_endpoints)) (tl with_endpoints)
              then Inl (''bidders '' @ join_str '', '' (sort (map fst with_endpoints))
                        @ '' define endpoints (iframe and/or redirect) for the same syncer key, but only one bidder is permitted to define endpoints unless the configs are identical'')
              else Inr (hd with_endpoints))"

definition cfg_by_bidder :: "(string \<times> bidder_sync_part) list \<Rightarrow> named_syncer_config list" where
  "cfg_by_bidder infos =
     List.map_filter (\<lambda>(b, info). if should_create_syncer info then map_option (Pair b) (bi_user_sync info) else None) infos"

definition keyed :: "named_syncer_config \<Rightarrow> named_syncer_config" where
  "keyed n = (fst n, if bsc_key (snd n) = [] then (snd n)\<lparr>bsc_key := fst n\<rparr> else snd n)"

definition add_to_key :: "named_syncer_config \<Rightarrow> (string \<times> named_syncer_config list) list \<Rightarrow> (string \<times> named_syncer_config list) list" where
  "add_to_key n m = (let n = keyed n; k = bsc_key (snd n) in hm_insert k (get_or [] m k @ [n]) m)"

definition syncer_build_error :: "string \<Rightarrow> string \<Rightarrow> string \<Rightarrow> string" where
  "syncer_build_error bidder key err = ''cannot create syncer for bidder '' @ bidder @ '' with key '' @ key @ '': '' @ err"

definition build_named ::
  "macro_replace \<Rightarrow> host_sync_config \<Rightarrow> string \<Rightarrow> named_syncer_config \<Rightarrow> named_syncer_config
   \<Rightarrow> string list \<times> (string \<times> syncer) list \<Rightarrow> string list \<times> (string \<times> syncer) list" where
  "build_named mr host key primary named st =
     (case new_syncer_from_config mr host (snd primary) (fst named) of
        Inr s \<Rightarrow> (fst st, hm_insert (fst named) s (snd st))
      | Inl e \<Rightarrow> (fst st @ [syncer_build_error (fst primary) key e], snd st))"

definition build_group ::
  "macro_replace \<Rightarrow> host_sync_config \<Rightarrow> string \<times> named_syncer_config list
   \<Rightarrow> string list \<times> (string \<times> syncer) list \<Rightarrow> string list \<times> (string \<times> syncer) list" where
  "build_group mr host g st =
     (case choose_syncer_config (snd g) of
        Inl e \<Rightarrow> (fst st @ [e], snd st)
      | Inr primary \<Rightarrow> fold (build_named mr host (fst g) primary) (snd g) st)"

definition build_syncers ::
  "macro_replace \<Rightarrow> (string list \<Rightarrow> string list) \<Rightarrow> (string list \<Rightarrow> string list) \<Rightarrow> string \<Rightarrow> host_sync_config
   \<Rightarrow> (string \<times> bidder_sync_part) list \<Rightarrow> (string list, (string \<times> syncer) list) res" where
  "build_syncers mr ord1 ord2 external_url user_sync infos =
     (let groups = fold add_to_key (hm_iter ord1 (cfg_by_bidder infos)) [];
          host = (if hs_external_url user_sync = [] then user_sync\<lparr>hs_external_url := external_url\<rparr> else user_sync);
          st = fold (build_group mr host) (hm_iter ord2 groups) ([], [])
      in if fst st \<noteq> [] then Inl (fst st) else Inr (snd st))"

section \<open>Lemmas\<close>

text \<open>The decision on one bidder, without the limit.\<close>

definition sync_decision ::
  "prebid_cookie \<Rightarrow> (string \<times> syncer) list \<Rightarrow> bool \<Rightarrow> string \<Rightarrow> string \<Rightarrow> rejection_reason + syncer_choice" where
  "sync_decision cookie available gdpr_applies consent bidder =
     (if get_uid cookie bidder \<noteq> None then Inl AlreadySynced
      else if gdpr_applies \<and> consent = [] then Inl GdprBlocked
      else case map_of available bidder of
             None \<Rightarrow> Inl BidderDisabled
           | Some s \<Rightarrow>
               (case (get_sync_url s SyncIframe (if gdpr_applies then 1 else 0) consent,
                      get_sync_url s SyncRedirect (if gdpr_applies then 1 else 0) consent) of
                  (Some url, _) \<Rightarrow> Inr \<lparr>sch_bidder = bidder, sch_sync_type = SyncIframe, sch_url = url\<rparr>
                | (None, Some url) \<Rightarrow> Inr \<lparr>sch_bidder = bidder, sch_sync_type = SyncRedirect, sch_url = url\<rparr>
                | (None, None) \<Rightarrow> Inl TypeNotSupported))"

definition sync_wanted :: "prebid_cookie \<Rightarrow> (string \<times> syncer) list \<Rightarrow> bool \<Rightarrow> string \<Rightarrow> string \<Rightarrow> syncer_choice option" where
  "sync_wanted cookie available gdpr_applies consent bidder =
     (case sync_decision cookie available gdpr_applies consent bidder of Inr c \<Rightarrow> Some c | Inl _ \<Rightarrow> None)"

definition sync_candidates :: "(string list \<Rightarrow> string list) \<Rightarrow> (string \<times> syncer) list \<Rightarrow> string list \<Rightarrow> chooser_config \<Rightarrow> string list" where
  "sync_candidates ord available requested cfg =
     (if requested \<noteq> [] then requested
      else if ch_cooperative_sync_enabled cfg then ord (map fst available) else [])"

lemma choose_step_eq:
  "choose_step cookie available g consent cfg b r =
     (if length (cr_syncs r) \<ge> ch_max_syncs_per_request cfg then sync_reject b MaxSyncsReached r
      else case sync_decision cookie available g consent b of
             Inl why \<Rightarrow> sync_reject b why r
           | Inr c \<Rightarrow> r\<lparr>cr_syncs := cr_syncs r @ [c]\<rparr>)"
  by (simp add: choose_step_def sync_decision_def Let_def split: option.split)

lemma sync_decision_bidder: "sync_decision cookie available g consent b = Inr c \<Longrightarrow> sch_bidder c = b"
  by (auto simp: sync_decision_def split: if_splits option.splits)

lemma take_append_one: "take (n - length xs) (y # ys) = (if n \<le> length xs then [] else y # take (n - length (xs @ [y])) ys)"
  by (simp add: take_Cons')

lemma choose_fold:
  fixes cookie available g consent cfg
  defines "step \<equiv> choose_step cookie available g consent cfg" and "want \<equiv> sync_wanted cookie available g consent"
    and "mx \<equiv> ch_max_syncs_per_request cfg"
  shows "cr_syncs (fold step bs r) = cr_syncs r @ take (mx - length (cr_syncs r)) (List.map_filter want bs)
    \<and> mset (map sch_bidder (cr_syncs (fold step bs r)) @ map fst (cr_rejected (fold step bs r)))
      = mset (map sch_bidder (cr_syncs r) @ map fst (cr_rejected r)) + mset bs"
proof (induction bs arbitrary: r)
  case (Cons b bs)
  have eq: "step b r = (if mx \<le> length (cr_syncs r) then sync_reject b MaxSyncsReached r
      else case sync_decision cookie available g consent b of Inl why \<Rightarrow> sync_reject b why r | Inr c \<Rightarrow> r\<lparr>cr_syncs := cr_syncs r @ [c]\<rparr>)"
    by (simp add: step_def mx_def choose_step_eq)
  show ?case
  proof (cases "sync_decision cookie available g consent b")
    case (Inl why)
    then have "want b = None" by (simp add: want_def sync_wanted_def)
    then show ?thesis using Cons.IH [of "step b r"] Inl by (auto simp: eq sync_reject_def map_filter_Cons)
  next
    case (Inr c)
    then have "want b = Some c" "sch_bidder c = b" using sync_decision_bidder by (simp_all add: want_def sync_wanted_def)
    then show ?thesis using Cons.IH [of "step b r"] Inr
      by (auto simp: eq sync_reject_def map_filter_Cons take_append_one)
  qed
qed (simp add: List.map_filter_simps)

lemma opt_out_fold:
  "cr_syncs (fold (\<lambda>b. sync_reject b why) bs r) = cr_syncs r
   \<and> cr_rejected (fold (\<lambda>b. sync_reject b why) bs r) = cr_rejected r @ map (\<lambda>b. (b, why)) bs"
  by (induction bs arbitrary: r) (auto simp: sync_reject_def)

text \<open>Ages of ids: an id without an expiry is the oldest.\<close>

definition older_than :: "string option \<Rightarrow> string option \<Rightarrow> bool" where
  "older_than a b = is_older (Some b) a"

lemma older_than_simps [simp]:
  "older_than None (Some t)" "\<not> older_than a None" "older_than (Some s) (Some t) \<longleftrightarrow> s < t"
  by (simp_all add: older_than_def is_older_def)

lemma older_irrefl [simp]: "\<not> older_than a a"
  by (cases a) auto

lemma older_trans: "\<not> older_than a b \<Longrightarrow> \<not> older_than b c \<Longrightarrow> \<not> older_than a c"
  by (cases a; cases b; cases c) auto

lemma older_asym: "older_than a b \<Longrightarrow> \<not> older_than b a"
  by (cases a; cases b) auto

text \<open>The loop keeps an entry no older than any seen.\<close>

definition oldest_inv :: "(string \<times> uid_entry) list \<Rightarrow> string option \<times> string option option \<Rightarrow> bool" where
  "oldest_inv seen st =
     (if seen = [] then st = (None, None)
      else \<exists>k e. (k, e) \<in> set seen \<and> st = (Some k, Some (ue_expires e))
                \<and> (\<forall>x \<in> set seen. \<not> older_than (ue_expires (snd x)) (ue_expires e)))"

lemma oldest_step_Some:
  "oldest_step (k', e') (k, Some b) =
     (if older_than (ue_expires e') b then (Some k', Some (ue_expires e')) else (k, Some b))"
  by (simp add: oldest_step_def older_than_def)

lemma oldest_step_inv: "oldest_inv seen st \<Longrightarrow> oldest_inv (seen @ [x]) (oldest_step x st)"
proof (cases "seen = []")
  case True
  assume "oldest_inv seen st"
  then show ?thesis using True
    by (cases x; cases "ue_expires (snd x)") (auto simp: oldest_inv_def oldest_step_def is_older_def)
next
  case False
  assume "oldest_inv seen st"
  then obtain k e where ke: "(k, e) \<in> set seen" "st = (Some k, Some (ue_expires e))"
    "\<forall>y \<in> set seen. \<not> older_than (ue_expires (snd y)) (ue_expires e)"
    using False by (auto simp: oldest_inv_def)
  show ?thesis
  proof (cases "older_than (ue_expires (snd x)) (ue_expires e)")
    case True
    have "\<not> older_than (ue_expires (snd y)) (ue_expires (snd x))" if "y \<in> set (seen @ [x])" for y
    proof (cases "y \<in> set seen")
      case seen: True
      show ?thesis using older_trans [OF bspec [OF ke(3) seen] older_asym [OF True]] .
    qed (use that in simp)
    then have "\<forall>y \<in> set (seen @ [x]). \<not> older_than (ue_expires (snd y)) (ue_expires (snd x))" by blast
    then show ?thesis using ke True
      by (cases x) (auto simp: oldest_inv_def oldest_step_Some intro!: exI [of _ "snd x"])
  next
    case False
    then show ?thesis using ke by (cases x) (auto simp: oldest_inv_def oldest_step_Some)
  qed
qed

lemma oldest_fold_inv: "oldest_inv seen st \<Longrightarrow> oldest_inv (seen @ xs) (fold oldest_step xs st)"
proof (induction xs arbitrary: seen st)
  case (Cons x xs)
  from Cons.IH [OF oldest_step_inv [OF Cons.prems, of x]] show ?case by simp
qed simp

text \<open>A syncer of a bidder has a URL and the key of the configuration.\<close>

definition syncer_for :: "string \<Rightarrow> syncer \<Rightarrow> bool" where
  "syncer_for key s = (sy_bidder s = key \<and> (sy_iframe_url s \<noteq> None \<or> sy_redirect_url s \<noteq> None))"

lemma new_syncer_ok:
  "new_syncer_from_config mr host cfg b = Inr s \<Longrightarrow> syncer_for (bsc_key cfg) s"
  by (auto simp: new_syncer_from_config_def syncer_for_def split: if_splits)

lemma build_named_errors:
  "fst (fold (build_named mr host key p) ns st) = [] \<Longrightarrow> fst st = []"
proof (induction ns arbitrary: st)
  case (Cons n ns)
  then have "fst (build_named mr host key p n st) = []" by simp
  then show ?case by (auto simp: build_named_def split: sum.splits)
qed simp

lemma build_named_fold:
  assumes "fst (fold (build_named mr host key p) ns st) = []"
  shows "fst ` set (snd (fold (build_named mr host key p) ns st)) = fst ` set ns \<union> fst ` set (snd st)
    \<and> (\<forall>e \<in> set (snd (fold (build_named mr host key p) ns st)).
         e \<in> set (snd st) \<or> fst e \<in> fst ` set ns \<and> syncer_for (bsc_key (snd p)) (snd e))"
  using assms
proof (induction ns arbitrary: st)
  case (Cons n ns)
  let ?st = "build_named mr host key p n st"
  have "fst ?st = []" using Cons.prems by (auto intro: build_named_errors)
  then obtain sy where sy: "new_syncer_from_config mr host (snd p) (fst n) = Inr sy" and st: "?st = (fst st, hm_insert (fst n) sy (snd st))"
    by (auto simp: build_named_def split: sum.splits)
  have IH: "fst ` set (snd (fold (build_named mr host key p) ns ?st)) = fst ` set ns \<union> fst ` set (snd ?st)"
    "\<forall>e \<in> set (snd (fold (build_named mr host key p) ns ?st)).
       e \<in> set (snd ?st) \<or> fst e \<in> fst ` set ns \<and> syncer_for (bsc_key (snd p)) (snd e)"
    using Cons.IH [of ?st] Cons.prems by simp_all
  have keys: "fst ` set (snd ?st) = Set.insert (fst n) (fst ` set (snd st))" using hm_insert_keys [of "fst n" sy "snd st"] by (simp add: st)
  have mem: "e \<in> set (snd st) \<or> e = (fst n, sy)" if "e \<in> set (snd ?st)" for e
    using that hm_insert_subset [of "fst n" sy "snd st"] by (auto simp: st)
  have "e \<in> set (snd st) \<or> fst e \<in> fst ` set (n # ns) \<and> syncer_for (bsc_key (snd p)) (snd e)"
    if e: "e \<in> set (snd (fold (build_named mr host key p) (n # ns) st))" for e
  proof -
    have "e \<in> set (snd ?st) \<or> fst e \<in> fst ` set ns \<and> syncer_for (bsc_key (snd p)) (snd e)" using IH(2) e by simp
    then show ?thesis using mem [of e] new_syncer_ok [OF sy] by (elim disjE) auto
  qed
  moreover have "fst ` set (snd (fold (build_named mr host key p) (n # ns) st)) = fst ` set (n # ns) \<union> fst ` set (snd st)"
    using IH(1) keys by simp
  ultimately show ?case by blast
qed simp

lemma choose_syncer_config_mem: "choose_syncer_config grp = Inr p \<Longrightarrow> grp \<noteq> [] \<Longrightarrow> p \<in> set grp"
proof -
  assume c: "choose_syncer_config grp = Inr p" and ne: "grp \<noteq> []"
  show ?thesis
  proof (cases "length grp = 1")
    case True
    then have "p = hd grp" using c by (simp add: choose_syncer_config_def)
    then show ?thesis using ne by simp
  next
    case False
    let ?w = "filter (\<lambda>n. has_endpoint (snd n)) grp"
    have "p = hd ?w" "?w \<noteq> []" using c False by (auto simp: choose_syncer_config_def Let_def split: if_splits)
    then have "p \<in> set ?w" by (metis hd_in_set)
    then show ?thesis by simp
  qed
qed

lemma build_group_fold:
  assumes "fst (fold (build_group mr host) gs st) = []"
    and "\<forall>g \<in> set gs. snd g \<noteq> [] \<and> (\<forall>n \<in> set (snd g). bsc_key (snd n) = fst g)"
  shows "fst st = [] \<and> fst ` set (snd (fold (build_group mr host) gs st)) = fst ` (\<Union>g \<in> set gs. set (snd g)) \<union> fst ` set (snd st)
    \<and> (\<forall>e \<in> set (snd (fold (build_group mr host) gs st)).
         e \<in> set (snd st) \<or> (\<exists>g \<in> set gs. fst e \<in> fst ` set (snd g) \<and> syncer_for (fst g) (snd e)))"
  using assms
proof (induction gs arbitrary: st)
  case (Cons g gs)
  let ?st = "build_group mr host g st"
  have IH: "fst ?st = []" "fst ` set (snd (fold (build_group mr host) gs ?st)) = fst ` (\<Union>g \<in> set gs. set (snd g)) \<union> fst ` set (snd ?st)"
    "\<forall>e \<in> set (snd (fold (build_group mr host) gs ?st)).
         e \<in> set (snd ?st) \<or> (\<exists>g \<in> set gs. fst e \<in> fst ` set (snd g) \<and> syncer_for (fst g) (snd e))"
    using Cons.IH [of ?st] Cons.prems by auto
  obtain p where p: "choose_syncer_config (snd g) = Inr p" and st: "?st = fold (build_named mr host (fst g) p) (snd g) st"
    using IH(1) by (auto simp: build_group_def split: sum.splits)
  have "p \<in> set (snd g)" using choose_syncer_config_mem [OF p] Cons.prems(2) by simp
  then have key: "bsc_key (snd p) = fst g" using Cons.prems(2) by simp
  have named: "fst ` set (snd ?st) = fst ` set (snd g) \<union> fst ` set (snd st)"
    "\<forall>e \<in> set (snd ?st). e \<in> set (snd st) \<or> fst e \<in> fst ` set (snd g) \<and> syncer_for (fst g) (snd e)"
    using build_named_fold [of mr host "fst g" p "snd g" st] IH(1) key by (simp_all add: st)
  have "fst st = []" using IH(1) build_named_errors by (simp add: st)
  moreover have "fst ` set (snd (fold (build_group mr host) (g # gs) st)) = fst ` (\<Union>g \<in> set (g # gs). set (snd g)) \<union> fst ` set (snd st)"
    using IH(2) named(1) by auto
  moreover have "\<forall>e \<in> set (snd (fold (build_group mr host) (g # gs) st)).
         e \<in> set (snd st) \<or> (\<exists>g \<in> set (g # gs). fst e \<in> fst ` set (snd g) \<and> syncer_for (fst g) (snd e))"
  proof
    fix e
    assume "e \<in> set (snd (fold (build_group mr host) (g # gs) st))"
    then have "e \<in> set (snd ?st) \<or> (\<exists>g \<in> set gs. fst e \<in> fst ` set (snd g) \<and> syncer_for (fst g) (snd e))"
      using IH(3) by simp
    then show "e \<in> set (snd st) \<or> (\<exists>g \<in> set (g # gs). fst e \<in> fst ` set (snd g) \<and> syncer_for (fst g) (snd e))"
      using named(2) by (meson list.set_intros)
  qed
  ultimately show ?case by blast
qed simp

text \<open>The grouping by key.\<close>

definition groups_wf :: "(string \<times> named_syncer_config list) list \<Rightarrow> bool" where
  "groups_wf m = (hm_wf m \<and> (\<forall>g \<in> set m. snd g \<noteq> [] \<and> (\<forall>n \<in> set (snd g). bsc_key (snd n) = fst g)))"

lemma add_to_key_wf:
  assumes "groups_wf m"
  shows "groups_wf (add_to_key n m) \<and> (\<Union>g \<in> set (add_to_key n m). set (snd g)) = Set.insert (keyed n) (\<Union>g \<in> set m. set (snd g))"
proof -
  define k where "k = bsc_key (snd (keyed n))"
  define ns where "ns = get_or [] m k @ [keyed n]"
  have add: "add_to_key n m = hm_insert k ns m" by (simp add: add_to_key_def Let_def k_def ns_def)
  have wf: "hm_wf (hm_insert k ns m)" using assms hm_wf_insert [of m k ns] by (simp add: groups_wf_def)
  have mem: "(k', v) \<in> set (hm_insert k ns m) \<longleftrightarrow> (if k' = k then v = ns else (k', v) \<in> set m)" for k' v
    using assms by (simp add: groups_wf_def hm_insert_mem)
  have old: "get_or [] m k = (case map_of m k of None \<Rightarrow> [] | Some v \<Rightarrow> v)" by (simp add: get_or_def)
  have get: "(k, v) \<in> set m \<longleftrightarrow> map_of m k = Some v" for v using assms by (simp add: groups_wf_def hm_wf_get)
  have old_mem: "x \<in> set (get_or [] m k) \<longleftrightarrow> (\<exists>v. (k, v) \<in> set m \<and> x \<in> set v)" for x
    by (cases "map_of m k") (simp_all add: old get)
  have ball: "snd g \<noteq> [] \<and> (\<forall>n \<in> set (snd g). bsc_key (snd n) = fst g)" if "g \<in> set m" for g
    using assms that by (simp add: groups_wf_def)
  have "bsc_key (snd x) = k" if "x \<in> set ns" for x
    using that old_mem [of x] ball by (fastforce simp: ns_def k_def)
  then have "snd g \<noteq> [] \<and> (\<forall>n \<in> set (snd g). bsc_key (snd n) = fst g)" if "g \<in> set (hm_insert k ns m)" for g
  proof -
    obtain k' v where g: "g = (k', v)" by force
    then have "if k' = k then v = ns else (k', v) \<in> set m" using that mem by simp
    then show ?thesis using ball [of g] \<open>\<And>x. x \<in> set ns \<Longrightarrow> bsc_key (snd x) = k\<close> g by (cases "k' = k") (auto simp: ns_def)
  qed
  then have "groups_wf (hm_insert k ns m)" using wf by (simp add: groups_wf_def)
  moreover have "(\<Union>g \<in> set (hm_insert k ns m). set (snd g)) = Set.insert (keyed n) (\<Union>g \<in> set m. set (snd g))"
  proof (intro set_eqI iffI)
    fix x
    assume "x \<in> (\<Union>g \<in> set (hm_insert k ns m). set (snd g))"
    then obtain k' v where v: "(k', v) \<in> set (hm_insert k ns m)" "x \<in> set v" by auto
    then have "x = keyed n \<or> (\<exists>k v. (k, v) \<in> set m \<and> x \<in> set v)"
      using mem [of k' v] old_mem [of x] by (cases "k' = k") (auto simp: ns_def)
    then show "x \<in> Set.insert (keyed n) (\<Union>g \<in> set m. set (snd g))" by force
  next
    fix x
    assume "x \<in> Set.insert (keyed n) (\<Union>g \<in> set m. set (snd g))"
    then consider "x \<in> set ns" | k' v where "(k', v) \<in> set m" "x \<in> set v" by (auto simp: ns_def)
    then have "x \<in> set ns \<or> (\<exists>k' v. (k', v) \<in> set (hm_insert k ns m) \<and> x \<in> set v)"
    proof cases
      case 2
      then show ?thesis using mem [of k' v] old_mem [of x] by (cases "k' = k") (auto simp: ns_def)
    qed simp
    then show "x \<in> (\<Union>g \<in> set (hm_insert k ns m). set (snd g))" using mem [of k ns] by force
  qed
  ultimately show ?thesis by (simp add: add)
qed

lemma groups_fold:
  "groups_wf m \<Longrightarrow> groups_wf (fold add_to_key xs m)
     \<and> (\<Union>g \<in> set (fold add_to_key xs m). set (snd g)) = keyed ` set xs \<union> (\<Union>g \<in> set m. set (snd g))"
  using add_to_key_wf by (induction xs arbitrary: m) auto

section \<open>Properties\<close>

text \<open>The choice of bidders to sync: after an opt-out none; otherwise the first bidders, up to the limit,
  among the candidates in their order for which a sync is wanted: without an id, allowed under the regulation and with
  a syncer that has a URL.  Every candidate is either chosen or rejected, once per mention.\<close>

theorem choose_bidders_spec:
  "cr_syncs (choose_bidders ord cookie available requested g consent cfg)
     = (if pc_opt_out cookie then []
        else take (ch_max_syncs_per_request cfg)
               (List.map_filter (sync_wanted cookie available g consent) (sync_candidates ord available requested cfg)))
   \<and> mset (map sch_bidder (cr_syncs (choose_bidders ord cookie available requested g consent cfg))
           @ map fst (cr_rejected (choose_bidders ord cookie available requested g consent cfg)))
     = mset (if pc_opt_out cookie then requested else sync_candidates ord available requested cfg)"
proof (cases "pc_opt_out cookie")
  case True
  then show ?thesis
    using opt_out_fold [of OptedOut requested "\<lparr>cr_syncs = [], cr_rejected = []\<rparr>"]
    by (simp add: choose_bidders_def Let_def comp_def)
next
  case False
  then have "choose_bidders ord cookie available requested g consent cfg
      = fold (choose_step cookie available g consent cfg) (sync_candidates ord available requested cfg) \<lparr>cr_syncs = [], cr_rejected = []\<rparr>"
    by (simp add: choose_bidders_def sync_candidates_def Let_def)
  then show ?thesis
    using False choose_fold [of cookie available g consent cfg "sync_candidates ord available requested cfg" "\<lparr>cr_syncs = [], cr_rejected = []\<rparr>"]
    by auto
qed

text \<open>The ejector for full cookies returns a stored key whose entry is as old as any, entries without
  an expiry being the oldest, whatever the order of the hash map.\<close>

theorem oldest_choose_spec:
  assumes "uids \<noteq> []" "hm_wf uids" "iter_order ord"
  shows "\<exists>k e. oldest_choose ord uids = Inr k \<and> (k, e) \<in> set uids
    \<and> (\<forall>x \<in> set uids. \<not> older_than (ue_expires (snd x)) (ue_expires e))"
proof -
  let ?it = "hm_iter ord uids"
  have set: "set ?it = set uids" using assms(2,3) by (simp add: set_hm_iter)
  then have ne: "?it \<noteq> []" using assms(1) by auto
  have "oldest_inv ([] @ ?it) (fold oldest_step ?it (None, None))" by (rule oldest_fold_inv) (simp add: oldest_inv_def)
  then obtain k e where "(k, e) \<in> set uids" "fold oldest_step ?it (None, None) = (Some k, Some (ue_expires e))"
    "\<forall>x \<in> set uids. \<not> older_than (ue_expires (snd x)) (ue_expires e)"
    using ne set by (auto simp: oldest_inv_def)
  then show ?thesis using assms(1) by (auto simp: oldest_choose_def)
qed

theorem oldest_choose_spec_witness:
  "\<exists>k e. oldest_choose (\<lambda>ks. ks) [(''a'', \<lparr>ue_uid = ''1'', ue_expires = Some ''2030''\<rparr>), (''b'', \<lparr>ue_uid = ''2'', ue_expires = None\<rparr>)] = Inr k
     \<and> (k, e) \<in> set [(''a'', \<lparr>ue_uid = ''1'', ue_expires = Some ''2030''\<rparr>), (''b'', \<lparr>ue_uid = ''2'', ue_expires = None\<rparr>)]"
  using oldest_choose_spec [of "[(''a'', \<lparr>ue_uid = ''1'', ue_expires = Some ''2030''\<rparr>), (''b'', \<lparr>ue_uid = ''2'', ue_expires = None\<rparr>)]" "\<lambda>ks. ks"]
  by (auto simp: hm_wf_def iter_order_def)


text \<open>Building syncers from the configuration: when it succeeds, exactly the enabled bidders with a syncer
  configuration get a syncer, and every syncer has a URL and carries the key of the configuration of its bidder
  (the bidder's name where the configuration has none), whatever the orders of the hash maps.\<close>

theorem build_syncers_complete:
  assumes "hm_wf infos" "iter_order ord1" "iter_order ord2"
    and "build_syncers mr ord1 ord2 external_url user_sync infos = Inr syncers"
  shows "fst ` set syncers = fst ` set (cfg_by_bidder infos)
    \<and> (\<forall>e \<in> set syncers. \<exists>cfg. (fst e, cfg) \<in> set (cfg_by_bidder infos)
         \<and> syncer_for (if bsc_key cfg = [] then fst e else bsc_key cfg) (snd e))"
proof -
  let ?cs = "cfg_by_bidder infos" and ?host = "if hs_external_url user_sync = [] then user_sync\<lparr>hs_external_url := external_url\<rparr> else user_sync"
  have "map fst ?cs = map fst (filter (\<lambda>(b, info). should_create_syncer info \<and> bi_user_sync info \<noteq> None) infos)"
    by (induction infos) (auto simp: cfg_by_bidder_def map_filter_Cons List.map_filter_simps split: option.split if_splits)
  then have wf: "hm_wf ?cs" using assms(1) by (auto simp: hm_wf_def distinct_map_filter)
  then have cs: "set (hm_iter ord1 ?cs) = set ?cs" using assms(2) by (simp add: set_hm_iter)
  define groups where "groups = fold add_to_key (hm_iter ord1 ?cs) []"
  have g: "groups_wf groups" "(\<Union>g \<in> set groups. set (snd g)) = keyed ` set ?cs"
    using groups_fold [of "[]" "hm_iter ord1 ?cs"] cs by (simp_all add: groups_def groups_wf_def hm_wf_def)
  then have it: "set (hm_iter ord2 groups) = set groups" using assms(3) by (simp add: groups_wf_def set_hm_iter)
  define st where "st = fold (build_group mr ?host) (hm_iter ord2 groups) ([], [])"
  have st: "fst st = []" "syncers = snd st"
    using assms(4) by (auto simp: build_syncers_def Let_def st_def groups_def split: if_splits)
  have built: "fst ` set syncers = fst ` (keyed ` set ?cs)"
    "\<forall>e \<in> set syncers. \<exists>g \<in> set groups. fst e \<in> fst ` set (snd g) \<and> syncer_for (fst g) (snd e)"
    using build_group_fold [of mr ?host "hm_iter ord2 groups" "([], [])"] st g it by (auto simp: st_def groups_wf_def)
  have "fst ` (keyed ` set ?cs) = fst ` set ?cs" by (force simp: keyed_def image_iff)
  moreover have "\<exists>cfg. (fst e, cfg) \<in> set ?cs \<and> syncer_for (if bsc_key cfg = [] then fst e else bsc_key cfg) (snd e)"
    if e: "e \<in> set syncers" for e
  proof -
    obtain gr where "gr \<in> set groups" "fst e \<in> fst ` set (snd gr)" "syncer_for (fst gr) (snd e)"
      using built(2) e by blast
    then obtain n where gr: "gr \<in> set groups" "n \<in> set (snd gr)" "fst n = fst e" "syncer_for (fst gr) (snd e)"
      by (elim imageE) simp
    then have "n \<in> keyed ` set ?cs" using g(2) by blast
    then obtain b cfg where c: "(b, cfg) \<in> set ?cs" "n = keyed (b, cfg)" by auto
    have "bsc_key (snd n) = fst gr" using g(1) gr by (simp add: groups_wf_def)
    then show ?thesis using gr(3,4) c
      by (intro exI [of _ cfg], cases "bsc_key cfg = []") (simp_all add: keyed_def)
  qed
  ultimately show ?thesis by (simp only: built(1) ball_simps) simp
qed

definition sample_sync_infos :: "(string \<times> bidder_sync_part) list" where
  "sample_sync_infos =
     [(''a'', \<lparr>bi_disabled = False, bi_user_sync = Some \<lparr>bsc_key = [], bsc_supports = [], bsc_iframe = None,
         bsc_redirect = Some \<lparr>sec_url = ''https://a/{{.RedirectURL}}'', sec_redirect_url = [], sec_external_url = [], sec_user_macro = []\<rparr>,
         bsc_external_url = [], bsc_format_override = [], bsc_enabled = None\<rparr>\<rparr>),
      (''b'', \<lparr>bi_disabled = True, bi_user_sync = None\<rparr>)]"

lemma sample_syncers:
  "\<exists>m. build_syncers (\<lambda>mac t r. t) (\<lambda>ks. ks) (\<lambda>ks. ks) ''https://h'' \<lparr>hs_redirect_url = ''r'', hs_external_url = []\<rparr> sample_sync_infos = Inr m"
  by (simp add: build_syncers_def sample_sync_infos_def cfg_by_bidder_def List.map_filter_simps should_create_syncer_def syncer_defined_def
      hm_iter_def add_to_key_def keyed_def get_or_def build_group_def choose_syncer_config_def build_named_def new_syncer_from_config_def Let_def)

theorem build_syncers_complete_witness:
  "\<exists>m. build_syncers (\<lambda>mac t r. t) (\<lambda>ks. ks) (\<lambda>ks. ks) ''https://h'' \<lparr>hs_redirect_url = ''r'', hs_external_url = []\<rparr> sample_sync_infos = Inr m
     \<and> fst ` set m = fst ` set (cfg_by_bidder sample_sync_infos)"
proof -
  obtain m where m: "build_syncers (\<lambda>mac t r. t) (\<lambda>ks. ks) (\<lambda>ks. ks) ''https://h'' \<lparr>hs_redirect_url = ''r'', hs_external_url = []\<rparr> sample_sync_infos = Inr m"
    using sample_syncers by blast
  have "hm_wf sample_sync_infos" "iter_order (\<lambda>ks :: string list. ks)" by (simp_all add: hm_wf_def sample_sync_infos_def iter_order_def)
  then show ?thesis using build_syncers_complete [OF _ _ _ m] m by blast
qed

text \<open>Two defects of syncing.  The macros in double braces are broken by the replacement of those in
  single braces before them.  And the ejector by priority can name an id the cookie does not hold, when the
  lowest group has one bidder.\<close>

theorem usersync_defects:
  "fill_sync_url 1 ''C'' ''u?g={{gdpr}}&c={{gdpr_consent}}'' = ''u?g={1}&c={C}''
   \<and> snd (priority_choose (oldest_choose ord)
         \<lparr>pe_priority_groups = [[''a''], [''b'']], pe_syncer_keys_by_bidder = [(''a'', ''a''), (''b'', ''b'')], pe_is_syncer_priority = True\<rparr>
         [(''a'', \<lparr>ue_uid = ''1'', ue_expires = None\<rparr>)]) = Inr ''b''"
proof -
  have "fill_sync_url 1 ''C'' ''u?g={{gdpr}}&c={{gdpr_consent}}'' = ''u?g={1}&c={C}''" by code_simp
  moreover have "snd (priority_choose (oldest_choose ord)
         \<lparr>pe_priority_groups = [[''a''], [''b'']], pe_syncer_keys_by_bidder = [(''a'', ''a''), (''b'', ''b'')], pe_is_syncer_priority = True\<rparr>
         [(''a'', \<lparr>ue_uid = ''1'', ue_expires = None\<rparr>)]) = Inr ''b''"
    by (simp add: priority_choose_def non_priority_uids_def priority_keys_def Let_def List.map_filter_simps)
  ultimately show ?thesis ..
qed

end
