(* ===== verification/SyncEndpoints.thy ===== *)
theory SyncEndpoints
  imports Usersync Fanout "HOL-Library.Sublist"
begin

text \<open>
  The endpoints for user syncing, \<^verbatim>\<open>rust/crates/endpoints/src/lib.rs\<close>: the cookie of user ids with its expiry times, and
  the handlers of \<^verbatim>\<open>/setuid\<close>, \<^verbatim>\<open>/getuids\<close>, \<^verbatim>\<open>/optout\<close> and \<^verbatim>\<open>/cookie_sync\<close>.  Base64 and JSON codecs of the cookie, the validity
  of header values, the clock and hash iteration orders are arguments.  A handler is a function of the state of the
  application, the \<^verbatim>\<open>Cookie\<close> header (where present and printable) and the decoded parameters.
\<close>

section \<open>Strings\<close>

text \<open>\<^verbatim>\<open>str::trim\<close>: the code points with the property White\_Space, as UTF-8.\<close>

definition white_char :: "string \<Rightarrow> bool" where
  "white_char c =
     (case map of_char c :: nat list of
        [b] \<Rightarrow> (9 \<le> b \<and> b \<le> 13) \<or> b = 32
      | [b, d] \<Rightarrow> b = 194 \<and> (d = 133 \<or> d = 160)
      | [b, d, e] \<Rightarrow> (b, d, e) = (225, 154, 128) \<or> (b = 226 \<and> d = 128 \<and> (128 \<le> e \<and> e \<le> 138 \<or> e = 168 \<or> e = 169 \<or> e = 175))
                     \<or> (b, d, e) = (226, 129, 159) \<or> (b, d, e) = (227, 128, 128)
      | _ \<Rightarrow> False)"

definition trim_str :: "string \<Rightarrow> string" where
  "trim_str s = concat (rev (dropWhile white_char (rev (dropWhile white_char (utf8_chars s)))))"

definition split_once :: "char \<Rightarrow> string \<Rightarrow> (string \<times> string) option" where
  "split_once c s = (if c \<in> set s then Some (takeWhile (\<lambda>x. x \<noteq> c) s, tl (dropWhile (\<lambda>x. x \<noteq> c) s)) else None)"

definition quoted :: "string \<Rightarrow> string" where
  "quoted s = [CHR 0x27] @ s @ [CHR 0x27]"

section \<open>The cookie\<close>

record stored_uid =
  su_uid :: string
  su_expires :: int

record user_sync_cookie =
  usc_uids :: "(string \<times> stored_uid) list"
  usc_optout :: "bool option"

definition default_cookie :: user_sync_cookie where
  "default_cookie = \<lparr>usc_uids = [], usc_optout = None\<rparr>"

definition uid_ttl_secs :: int where
  "uid_ttl_secs = 14 * 24 * 60 * 60"

definition cookie_name_or_default :: "string \<Rightarrow> string" where
  "cookie_name_or_default n = (if n = [] then ''uids'' else n)"

text \<open>The codec of a cookie value: base64 decoding and encoding, and JSON.\<close>

record cookie_codec =
  cc_b64_decode :: "string \<Rightarrow> string option"
  cc_b64_encode :: "string \<Rightarrow> string"
  cc_from_json :: "string \<Rightarrow> user_sync_cookie option"
  cc_to_json :: "user_sync_cookie \<Rightarrow> string option"

text \<open>The value of the first pair with the name.\<close>

fun find_cookie :: "string \<Rightarrow> string list \<Rightarrow> string option" where
  "find_cookie name [] = None"
| "find_cookie name (pair # pairs) =
     (case split_once (CHR ''='') (trim_str pair) of
        Some (k, v) \<Rightarrow> if trim_str k = name then Some (trim_str v) else find_cookie name pairs
      | None \<Rightarrow> find_cookie name pairs)"

definition extract_cookie_value :: "string option \<Rightarrow> string \<Rightarrow> string option" where
  "extract_cookie_value cookie_hdr cookie_name =
     Option.bind cookie_hdr (\<lambda>s. find_cookie (cookie_name_or_default cookie_name) (split_on (CHR '';'') s))"

definition cookie_decode :: "cookie_codec \<Rightarrow> string \<Rightarrow> user_sync_cookie" where
  "cookie_decode cc v =
     (case cc_b64_decode cc v of
        None \<Rightarrow> default_cookie
      | Some b \<Rightarrow> (case cc_from_json cc b of Some c \<Rightarrow> c | None \<Rightarrow> default_cookie))"

definition cookie_from_request :: "cookie_codec \<Rightarrow> string option \<Rightarrow> string \<Rightarrow> user_sync_cookie" where
  "cookie_from_request cc cookie_hdr cookie_name =
     (case extract_cookie_value cookie_hdr cookie_name of
        Some v \<Rightarrow> cookie_decode cc v
      | None \<Rightarrow> default_cookie)"

definition cookie_encode :: "cookie_codec \<Rightarrow> user_sync_cookie \<Rightarrow> string" where
  "cookie_encode cc c = cc_b64_encode cc (case cc_to_json cc c of Some j \<Rightarrow> j | None \<Rightarrow> [])"

definition has_valid_uid :: "int \<Rightarrow> user_sync_cookie \<Rightarrow> string \<Rightarrow> bool" where
  "has_valid_uid now c bidder = (case map_of (usc_uids c) bidder of Some e \<Rightarrow> su_expires e > now | None \<Rightarrow> False)"

definition cookie_set_uid :: "int \<Rightarrow> string \<Rightarrow> string \<Rightarrow> user_sync_cookie \<Rightarrow> user_sync_cookie" where
  "cookie_set_uid now bidder uid c =
     c\<lparr>usc_uids := hm_insert bidder \<lparr>su_uid = uid, su_expires = now + uid_ttl_secs\<rparr> (usc_uids c)\<rparr>"

definition build_set_cookie_header :: "cookie_codec \<Rightarrow> user_sync_cookie \<Rightarrow> string \<Rightarrow> int \<Rightarrow> string \<Rightarrow> string" where
  "build_set_cookie_header cc c cookie_name ttl_days domain =
     (let max_age_days = (if ttl_days > 0 then ttl_days else 90);
          max_age_secs = i64_wrap (i64_wrap (i64_wrap (max_age_days * 24) * 60) * 60)
      in cookie_name_or_default cookie_name @ ''='' @ cookie_encode cc c @ ''; Max-Age='' @ show_int max_age_secs
         @ ''; Path=/; HttpOnly; SameSite=None; Secure'' @ (if domain \<noteq> [] then ''; Domain='' @ domain else []))"

section \<open>The state of the application\<close>

record host_cookie_config =
  hc_cookie_name :: string
  hc_family :: string
  hc_domain :: string
  hc_opt_out_url :: string
  hc_opt_in_url :: string
  hc_ttl_days :: int

record bidder_sync_info =
  bsi_iframe_url :: "string option"
  bsi_redirect_url :: "string option"

text \<open>The settings of an account these endpoints read.\<close>

record account_sync =
  as_default_limit :: "int option"
  as_max_limit :: "int option"
  as_priority_groups :: "string list list"

record sync_state =
  ss_host_cookie :: host_cookie_config
  ss_account_required :: bool
  ss_accounts :: "(string \<times> account_sync) list"
  ss_gdpr_enabled :: bool
  ss_bidder_info :: "(string \<times> json) list"
  ss_bidder_sync_info :: "(string \<times> bidder_sync_info) list"
  ss_activities :: "(activity \<times> activity_config) list"

record 'b http_reply =
  rep_status :: nat
  rep_set_cookie :: "string option"
  rep_location :: "string option"
  rep_content_type :: "string option"
  rep_body :: 'b

definition reply :: "nat \<Rightarrow> 'b \<Rightarrow> 'b http_reply" where
  "reply status body = \<lparr>rep_status = status, rep_set_cookie = None, rep_location = None, rep_content_type = None, rep_body = body\<rparr>"

section \<open>/setuid\<close>

record setuid_params =
  sp_bidder :: "string option"
  sp_uid :: "string option"
  sp_gdpr :: "int option"
  sp_gdpr_consent :: "string option"
  sp_us_privacy :: "string option"
  sp_account :: "string option"
  sp_f :: "string option"

definition pixel :: string where
  "pixel = [CHR 0x89, CHR ''P'', CHR ''N'', CHR ''G'', CHR 0x0D, CHR 0x0A, CHR 0x1A, CHR 0x0A, CHR 0x00, CHR 0x00, CHR 0x00, CHR 0x0D,
     CHR ''I'', CHR ''H'', CHR ''D'', CHR ''R'', CHR 0x00, CHR 0x00, CHR 0x00, CHR 0x01, CHR 0x00, CHR 0x00, CHR 0x00, CHR 0x01,
     CHR 0x08, CHR 0x02, CHR 0x00, CHR 0x00, CHR 0x00, CHR 0x90, CHR ''w'', CHR ''S'', CHR 0xDE, CHR 0x00, CHR 0x00, CHR 0x00, CHR 0x0C,
     CHR ''I'', CHR ''D'', CHR ''A'', CHR ''T'', CHR ''x'', CHR 0x9C, CHR ''c'', CHR 0xF8, CHR 0x0F, CHR 0x00, CHR 0x00, CHR 0x01, CHR 0x01,
     CHR 0x00, CHR 0x05, CHR 0x18, CHR 0xD8, CHR ''N'', CHR 0x00, CHR 0x00, CHR 0x00, CHR 0x00, CHR ''I'', CHR ''E'', CHR ''N'', CHR ''D'',
     CHR 0xAE, CHR ''B'', CHR 0x60, CHR 0x82]"

definition account_check :: "sync_state \<Rightarrow> string option \<Rightarrow> string option" where
  "account_check st account =
     (if ss_account_required st
      then case account of
             Some acct_id \<Rightarrow>
               if acct_id \<noteq> []
               then (if map_of (ss_accounts st) acct_id = None then Some (''Invalid account '' @ quoted acct_id @ '': account not found'') else None)
               else Some ''Account is required but was not provided''
           | None \<Rightarrow> Some ''Account is required but was not provided''
      else None)"

definition gdpr_blocks :: "sync_state \<Rightarrow> int option \<Rightarrow> string option \<Rightarrow> bool" where
  "gdpr_blocks st gdpr consent =
     (ss_gdpr_enabled st \<and> (case gdpr of None \<Rightarrow> 0 | Some g \<Rightarrow> g) = 1 \<and> (case consent of None \<Rightarrow> [] | Some c \<Rightarrow> c) = [])"

definition setuid_update :: "int \<Rightarrow> string \<Rightarrow> string option \<Rightarrow> user_sync_cookie \<Rightarrow> user_sync_cookie" where
  "setuid_update now bidder uid c =
     (case uid of
        Some u \<Rightarrow> if u = [] then c\<lparr>usc_uids := hm_remove bidder (usc_uids c)\<rparr> else cookie_set_uid now bidder u c
      | None \<Rightarrow> c)"

definition set_uid_handler ::
  "cookie_codec \<Rightarrow> (string \<Rightarrow> bool) \<Rightarrow> int \<Rightarrow> sync_state \<Rightarrow> string option \<Rightarrow> setuid_params \<Rightarrow> string http_reply" where
  "set_uid_handler cc header_ok now st cookie_hdr params =
     (case sp_bidder params of
        None \<Rightarrow> reply 400 (quoted ''bidder'' @ '' query param is required'')
      | Some bidder \<Rightarrow>
          if bidder = [] then reply 400 (quoted ''bidder'' @ '' query param is required'')
          else case account_check st (sp_account params) of
                 Some msg \<Rightarrow> reply 400 msg
               | None \<Rightarrow>
                   if gdpr_blocks st (sp_gdpr params) (sp_gdpr_consent params)
                   then reply 451 ''The gdpr_consent string prevents cookies from being saved''
                   else
                     (let hc = ss_host_cookie st;
                          cookie = setuid_update now bidder (sp_uid params) (cookie_from_request cc cookie_hdr (hc_cookie_name hc));
                          value = build_set_cookie_header cc cookie (hc_cookie_name hc) (hc_ttl_days hc) (hc_domain hc)
                      in if (case sp_f params of None \<Rightarrow> ''b'' | Some f \<Rightarrow> f) = ''i''
                         then (if header_ok value
                               then (reply 200 pixel)\<lparr>rep_set_cookie := Some value, rep_content_type := Some ''image/png''\<rparr>
                               else reply 500 [])
                         else (if header_ok value then (reply 200 [])\<lparr>rep_set_cookie := Some value\<rparr> else reply 500 [])))"

section \<open>/getuids\<close>

definition get_uids_handler :: "cookie_codec \<Rightarrow> int \<Rightarrow> sync_state \<Rightarrow> string option \<Rightarrow> (string \<times> string) list" where
  "get_uids_handler cc now st cookie_hdr =
     map (\<lambda>(b, e). (b, su_uid e))
       (filter (\<lambda>(b, e). su_expires e > now) (usc_uids (cookie_from_request cc cookie_hdr (hc_cookie_name (ss_host_cookie st)))))"

section \<open>/optout\<close>

definition optout_update :: "bool \<Rightarrow> user_sync_cookie \<Rightarrow> user_sync_cookie" where
  "optout_update is_opt_out c =
     (let c = c\<lparr>usc_optout := Some is_opt_out\<rparr> in if is_opt_out then c\<lparr>usc_uids := []\<rparr> else c)"

definition optout_handler ::
  "cookie_codec \<Rightarrow> (string \<Rightarrow> bool) \<Rightarrow> sync_state \<Rightarrow> string option \<Rightarrow> string option \<Rightarrow> string http_reply" where
  "optout_handler cc header_ok st cookie_hdr optout =
     (let hc = ss_host_cookie st;
          is_opt_out = (case optout of Some v \<Rightarrow> v \<noteq> [] | None \<Rightarrow> False);
          cookie = optout_update is_opt_out (cookie_from_request cc cookie_hdr (hc_cookie_name hc));
          value = build_set_cookie_header cc cookie (hc_cookie_name hc) (hc_ttl_days hc) (hc_domain hc);
          url = (if is_opt_out then hc_opt_out_url hc else hc_opt_in_url hc);
          resp = (if url = [] then reply 200 ''opt-out preference saved'' else (reply 308 [])\<lparr>rep_location := Some url\<rparr>)
      in if header_ok value then resp\<lparr>rep_set_cookie := Some value\<rparr> else resp)"

section \<open>/cookie\_sync\<close>

text \<open>Static sync URLs.\<close>

definition bidder_sync_urls :: "(string \<times> string \<times> string) list" where
  "bidder_sync_urls =
     [(''appnexus'', ''redirect'', ''https://ib.adnxs.com/getuid?{{.RedirectURL}}''),
      (''adnxs'', ''redirect'', ''https://ib.adnxs.com/getuid?{{.RedirectURL}}''),
      (''openx'', ''redirect'', ''https://rtb.openx.net/sync/prebid?r={{.RedirectURL}}''),
      (''pubmatic'', ''redirect'', ''https://image8.pubmatic.com/AdServer/ImgSync?p=159706&pu={{.RedirectURL}}''),
      (''ix'', ''redirect'', ''https://ssum.casalemedia.com/usermatchredir?s=194962&cb={{.RedirectURL}}''),
      (''sovrn'', ''redirect'', ''https://ap.lijit.com/pixel?redir={{.RedirectURL}}''),
      (''adform'', ''redirect'', ''https://c1.adform.net/cookie?redirect_url={{.RedirectURL}}''),
      (''33across'', ''iframe'', ''https://ssc-cms.33across.com/ps/?m=xch&rt=html&ru={{.RedirectURL}}&id=zzz000000000002zzz''),
      (''criteo'', ''redirect'', ''https://ssp-sync.criteo.com/user-sync/redirect?profile=230&redir={{.RedirectURL}}''),
      (''yieldmo'', ''redirect'', ''https://ads.yieldmo.com/pbsync?redirectUri={{.RedirectURL}}''),
      (''sharethrough'', ''redirect'', ''https://match.sharethrough.com/FGMrCMMc/v1?redirectUri={{.RedirectURL}}''),
      (''smaato'', ''redirect'', ''https://s.ad.smaato.net/c/?adExInit=p&redir={{.RedirectURL}}''),
      (''conversant'', ''redirect'', ''https://prebid-match.dotomi.com/match/bounce/current?version=1&networkId=72582&rurl={{.RedirectURL}}''),
      (''smartadserver'', ''redirect'', ''https://ssbsync-global.smartadserver.com/api/sync?callerId=5&redirectUri={{.RedirectURL}}''),
      (''yieldlab'', ''redirect'', ''https://ad.yieldlab.net/mr?t=2&pid=9140838&r={{.RedirectURL}}''),
      (''triplelift'', ''iframe'', ''https://eb2.3lift.com/sync?redir={{.RedirectURL}}'')]"

definition bidder_sync_url :: "string \<Rightarrow> (string \<times> string) option" where
  "bidder_sync_url bidder = map_of bidder_sync_urls bidder"

definition known_sync_bidders :: "string list" where
  "known_sync_bidders = [''appnexus'', ''openx'', ''pubmatic'', ''ix'', ''sovrn'', ''adform'', ''33across'', ''criteo'', ''yieldmo'', ''sharethrough'', ''smaato'', ''conversant'', ''smartadserver'', ''yieldlab'', ''triplelift'']"

datatype bidder_filter = UniformFilter filter_mode | SpecificFilter "string list" filter_mode

fun filter_allows :: "bidder_filter \<Rightarrow> string \<Rightarrow> bool" where
  "filter_allows (UniformFilter FilterInclude) b = True"
| "filter_allows (UniformFilter FilterExclude) b = False"
| "filter_allows (SpecificFilter bs mode) b =
     (let found = list_ex (\<lambda>x. eq_ignore_ascii_case x b) bs
      in case mode of FilterInclude \<Rightarrow> found | FilterExclude \<Rightarrow> \<not> found)"

record sync_type_filter =
  stf_iframe :: bidder_filter
  stf_redirect :: bidder_filter

definition default_type_filter :: sync_type_filter where
  "default_type_filter = \<lparr>stf_iframe = UniformFilter FilterInclude, stf_redirect = UniformFilter FilterInclude\<rparr>"

definition allowed_types :: "sync_type_filter \<Rightarrow> string \<Rightarrow> string list" where
  "allowed_types f b =
     (if filter_allows (stf_iframe f) b then [''iframe''] else []) @ (if filter_allows (stf_redirect f) b then [''redirect''] else [])"

definition invalid_bidders :: string where
  "invalid_bidders = ''invalid bidders type. must either be a string '' @ quoted ''*'' @ '' or a string array of bidders''"

fun string_array :: "json list \<Rightarrow> string list option" where
  "string_array [] = Some []"
| "string_array (v # vs) =
     (case as_str v of None \<Rightarrow> None | Some b \<Rightarrow> map_option ((#) b) (string_array vs))"

definition parse_bidders :: "filter_mode \<Rightarrow> json option \<Rightarrow> (string, bidder_filter) res" where
  "parse_bidders mode v =
     (case v of
        None \<Rightarrow> Inr (UniformFilter mode)
      | Some (JStr s) \<Rightarrow>
          if s = ''*'' then Inr (UniformFilter mode)
          else Inl (''invalid bidders value '' @ [CHR 0x60] @ s @ [CHR 0x60] @ ''. must either be '' @ quoted ''*'' @ '' or a string array'')
      | Some (JArr arr) \<Rightarrow>
          (case string_array arr of
             Some bs \<Rightarrow> Inr (SpecificFilter bs mode)
           | None \<Rightarrow> Inl invalid_bidders)
      | Some _ \<Rightarrow> Inl invalid_bidders)"

definition parse_bidder_filter :: "json \<Rightarrow> (string, bidder_filter) res" where
  "parse_bidder_filter filt =
     (let mode_str = (case Option.bind (jget filt ''filter'') as_str of None \<Rightarrow> ''include'' | Some m \<Rightarrow> m)
      in if mode_str = ''include'' then parse_bidders FilterInclude (jget filt ''bidders'')
         else if mode_str = ''exclude'' then parse_bidders FilterExclude (jget filt ''bidders'')
         else Inl (''invalid filter value '' @ quoted mode_str @ ''. must be either '' @ quoted ''include'' @ '' or '' @ quoted ''exclude''))"

definition parse_type_filter :: "json option \<Rightarrow> (string, sync_type_filter) res" where
  "parse_type_filter settings =
     (case settings of
        None \<Rightarrow> Inr default_type_filter
      | Some v \<Rightarrow>
          if \<not> is_object v then Inl ''filterSettings must be an object''
          else
            res_bind
              (case jget v ''iframe'' of
                 None \<Rightarrow> Inr default_type_filter
               | Some i \<Rightarrow> map_err (\<lambda>e. ''error parsing filtersettings.iframe: '' @ e)
                              (res_bind (parse_bidder_filter i) (\<lambda>f. Inr (default_type_filter\<lparr>stf_iframe := f\<rparr>))))
              (\<lambda>stf. case jget v ''image'' of
                 None \<Rightarrow> Inr stf
               | Some i \<Rightarrow> map_err (\<lambda>e. ''error parsing filtersettings.image: '' @ e)
                              (res_bind (parse_bidder_filter i) (\<lambda>f. Inr (stf\<lparr>stf_redirect := f\<rparr>)))))"

record cookie_sync_request =
  csq_bidders :: "string list option"
  csq_gdpr :: "int option"
  csq_gdpr_consent :: "string option"
  csq_us_privacy :: "string option"
  csq_limit :: "int option"
  csq_coop_sync :: "bool option"
  csq_filter_settings :: "json option"
  csq_account :: "string option"
  csq_debug :: "bool option"
  csq_gpp :: "string option"
  csq_gpp_sid :: "string option"

definition usize_max :: nat where
  "usize_max = 18446744073709551615"

definition positive_or_max :: "int option \<Rightarrow> nat" where
  "positive_or_max l = (case l of Some n \<Rightarrow> if n > 0 then nat n else usize_max | None \<Rightarrow> usize_max)"

definition compute_effective_limit :: "int option \<Rightarrow> int option \<Rightarrow> int option \<Rightarrow> nat" where
  "compute_effective_limit request_limit account_default account_max =
     min (positive_or_max (case request_limit of Some l \<Rightarrow> Some l | None \<Rightarrow> account_default)) (positive_or_max account_max)"

definition build_sync_url :: "string \<Rightarrow> int option \<Rightarrow> string option \<Rightarrow> string" where
  "build_sync_url template gdpr gdpr_consent =
     (let params = (case gdpr of Some g \<Rightarrow> [''gdpr='' @ show_int g] | None \<Rightarrow> [])
                   @ (case gdpr_consent of Some gc \<Rightarrow> if gc \<noteq> [] then [''gdpr_consent='' @ gc] else [] | None \<Rightarrow> [])
      in if params = [] then template
         else if CHR ''?'' \<in> set template then template @ ''&'' @ join_str ''&'' params
         else template @ ''?'' @ join_str ''&'' params)"

text \<open>An entry of the answer, and its JSON.\<close>

datatype sync_entry = AlreadyHasUid string | NewSync string string string

fun entry_bidder :: "sync_entry \<Rightarrow> string" where
  "entry_bidder (AlreadyHasUid b) = b"
| "entry_bidder (NewSync b t u) = b"

fun is_new_sync :: "sync_entry \<Rightarrow> bool" where
  "is_new_sync (AlreadyHasUid b) = False"
| "is_new_sync (NewSync b t u) = True"

fun entry_json :: "sync_entry \<Rightarrow> json" where
  "entry_json (AlreadyHasUid b) =
     JObj [(''bidder'', JStr b), (''no_cookie'', JBool False), (''usersync'', JObj [])]"
| "entry_json (NewSync b t u) =
     JObj [(''bidder'', JStr b), (''no_cookie'', JBool True), (''usersync'', JObj [(''type'', JStr t), (''url'', JStr u)])]"

definition all_sync_bidders :: "(string list \<Rightarrow> string list) \<Rightarrow> sync_state \<Rightarrow> string list" where
  "all_sync_bidders ord st =
     ord (map fst (ss_bidder_sync_info st)) @ filter (\<lambda>b. map_of (ss_bidder_sync_info st) b = None) known_sync_bidders"

definition known_bidder :: "sync_state \<Rightarrow> string \<Rightarrow> bool" where
  "known_bidder st b = (map_of (ss_bidder_sync_info st) b \<noteq> None \<or> b \<in> set known_sync_bidders \<or> map_of (ss_bidder_info st) b \<noteq> None)"

definition cookie_sync_candidates :: "(string list \<Rightarrow> string list) \<Rightarrow> sync_state \<Rightarrow> string list \<Rightarrow> bool \<Rightarrow> string list" where
  "cookie_sync_candidates ord st requested coop_sync =
     (if requested = [] then all_sync_bidders ord st
      else let valid = filter (known_bidder st) requested
           in if coop_sync then valid @ filter (\<lambda>b. b \<notin> set valid) (all_sync_bidders ord st) else valid)"

definition resolve_sync :: "sync_state \<Rightarrow> string \<Rightarrow> (string \<times> string) option" where
  "resolve_sync st bidder =
     (case map_of (ss_bidder_sync_info st) bidder of
        Some si \<Rightarrow>
          (case bsi_redirect_url si of
             Some u \<Rightarrow> Some (''redirect'', u)
           | None \<Rightarrow> (case bsi_iframe_url si of Some u \<Rightarrow> Some (''iframe'', u) | None \<Rightarrow> None))
      | None \<Rightarrow> bidder_sync_url bidder)"

definition sync_url_of :: "cookie_sync_request \<Rightarrow> string \<Rightarrow> string \<Rightarrow> string \<Rightarrow> string" where
  "sync_url_of body bidder ty template =
     (let s = \<lparr>sy_bidder = bidder, sy_iframe_url = (if ty = ''iframe'' then Some template else None),
               sy_redirect_url = (if ty \<noteq> ''iframe'' then Some template else None)\<rparr>
      in case get_sync_url s (if ty = ''iframe'' then SyncIframe else SyncRedirect)
                (case csq_gdpr body of None \<Rightarrow> 0 | Some g \<Rightarrow> g) (case csq_gdpr_consent body of None \<Rightarrow> [] | Some c \<Rightarrow> c) of
           Some u \<Rightarrow> u
         | None \<Rightarrow> build_sync_url template (csq_gdpr body) (csq_gdpr_consent body))"

definition sync_user_allowed :: "sync_state \<Rightarrow> string \<Rightarrow> bool" where
  "sync_user_allowed st bidder = is_allowed (ss_activities st) SyncUser \<lparr>component_type = ''bidder'', component_name = bidder\<rparr>"

text \<open>The loop over the candidates: bidders without permission are passed over, and the loop ends at the first
  bidder to sync beyond the limit.\<close>

fun sync_loop :: "sync_state \<Rightarrow> (string \<Rightarrow> bool) \<Rightarrow> cookie_sync_request \<Rightarrow> nat \<Rightarrow> string list \<Rightarrow> nat \<Rightarrow> sync_entry list" where
  "sync_loop st has_uid body limit [] n = []"
| "sync_loop st has_uid body limit (b # bs) n =
     (if \<not> sync_user_allowed st b then sync_loop st has_uid body limit bs n
      else if has_uid b then AlreadyHasUid b # sync_loop st has_uid body limit bs n
      else if n \<ge> limit then []
      else case resolve_sync st b of
             Some (ty, template) \<Rightarrow> NewSync b ty (sync_url_of body b ty template) # sync_loop st has_uid body limit bs (Suc n)
           | None \<Rightarrow> sync_loop st has_uid body limit bs n)"

datatype cookie_sync_body = SyncError string | SyncBody string "sync_entry list"

definition cookie_sync_error :: "sync_state \<Rightarrow> cookie_sync_request \<Rightarrow> (nat \<times> string) option" where
  "cookie_sync_error st body =
     (let account_id = (case csq_account body of None \<Rightarrow> [] | Some a \<Rightarrow> a)
      in if ss_account_required st \<and> account_id = []
         then Some (400, ''account must be valid if provided, please reach out to the prebid server host'')
         else if ss_account_required st \<and> map_of (ss_accounts st) account_id = None
         then Some (400, ''account is disabled, please reach out to the prebid server host'')
         else if gdpr_blocks st (csq_gdpr body) (csq_gdpr_consent body)
         then Some (451, ''gdpr_consent is required if gdpr=1'')
         else case parse_type_filter (csq_filter_settings body) of Inl e \<Rightarrow> Some (400, e) | Inr _ \<Rightarrow> None)"

definition cookie_sync_limit :: "cookie_sync_request \<Rightarrow> nat" where
  "cookie_sync_limit body = nat (max (case csq_limit body of None \<Rightarrow> 10 | Some l \<Rightarrow> l) 1)"

definition cookie_sync_handler ::
  "cookie_codec \<Rightarrow> (string \<Rightarrow> prebid_cookie) \<Rightarrow> (string list \<Rightarrow> string list) \<Rightarrow> int \<Rightarrow> sync_state \<Rightarrow> string option \<Rightarrow> cookie_sync_request
   \<Rightarrow> cookie_sync_body http_reply" where
  "cookie_sync_handler cc read_prebid ord now st cookie_hdr body =
     (case cookie_sync_error st body of
        Some (status, e) \<Rightarrow> reply status (SyncError e)
      | None \<Rightarrow>
          (let name = hc_cookie_name (ss_host_cookie st);
               prebid_cookie = (case extract_cookie_value cookie_hdr name of Some v \<Rightarrow> read_prebid v | None \<Rightarrow> prebid_cookie_new);
               cookie = cookie_from_request cc cookie_hdr name;
               requested = (case csq_bidders body of None \<Rightarrow> [] | Some bs \<Rightarrow> bs);
               coop = (case csq_coop_sync body of None \<Rightarrow> False | Some b \<Rightarrow> b);
               has_uid = (\<lambda>b. has_valid_uid now cookie b \<or> get_uid prebid_cookie b \<noteq> None)
           in reply 200 (SyncBody (if usc_uids cookie \<noteq> [] then ''ok'' else ''no_cookie'')
                (sync_loop st has_uid body (cookie_sync_limit body) (cookie_sync_candidates ord st requested coop) 0))))"

section \<open>Lemmas\<close>

text \<open>Printable ASCII without separators: what a cookie name or a base64 value is made of.\<close>

definition token_char :: "char \<Rightarrow> bool" where
  "token_char c = (33 \<le> (of_char c :: nat) \<and> (of_char c :: nat) \<le> 126 \<and> c \<noteq> CHR '';'')"

definition token :: "string \<Rightarrow> bool" where
  "token s = list_all token_char s"

lemma token_append [simp]: "token (s @ t) \<longleftrightarrow> token s \<and> token t"
  by (simp add: token_def)

lemma token_semicolon: "token s \<Longrightarrow> CHR '';'' \<notin> set s"
  by (auto simp: token_def list_all_iff token_char_def)

lemma token_not_white: "token_char c \<Longrightarrow> \<not> white_char [c]"
  by (simp add: token_char_def white_char_def)

lemma token_not_cont: "token_char c \<Longrightarrow> \<not> is_cont_byte c"
  by (auto simp: token_char_def is_cont_byte_def)

lemma utf8_token: "token s \<Longrightarrow> utf8_chars s = map (\<lambda>c. [c]) s"
proof (induction s)
  case (Cons c s)
  then show ?case
    by (cases s) (auto simp: token_def token_not_cont)
qed simp

lemma trim_token [simp]: "token s \<Longrightarrow> trim_str s = s"
proof -
  assume t: "token s"
  have none: "dropWhile white_char xs = xs" if "set xs \<subseteq> set (map (\<lambda>c. [c]) s)" for xs
  proof (cases xs)
    case (Cons x ys)
    then have "\<not> white_char x" using that t token_not_white by (auto simp: token_def list_all_iff)
    then show ?thesis using Cons by simp
  qed simp
  have "dropWhile white_char (map (\<lambda>c. [c]) s) = map (\<lambda>c. [c]) s"
    "dropWhile white_char (rev (map (\<lambda>c. [c]) s)) = rev (map (\<lambda>c. [c]) s)"
    by (rule none; simp)+
  then show ?thesis using t by (simp add: trim_str_def utf8_token)
qed

lemma takeWhile_upto: "c \<notin> set k \<Longrightarrow> takeWhile (\<lambda>x. x \<noteq> c) (k @ c # v) = k"
  by (induction k) auto

lemma dropWhile_upto: "c \<notin> set k \<Longrightarrow> dropWhile (\<lambda>x. x \<noteq> c) (k @ c # v) = c # v"
  by (induction k) auto

lemma split_once_eq: "c \<notin> set k \<Longrightarrow> split_once c (k @ c # v) = Some (k, v)"
  by (simp add: split_once_def takeWhile_upto dropWhile_upto)

text \<open>A browser sends back the pair at the front of the header it was given.\<close>

definition sent_back :: "string \<Rightarrow> string" where
  "sent_back hdr = takeWhile (\<lambda>c. c \<noteq> CHR '';'') hdr"

definition name_ok :: "sync_state \<Rightarrow> bool" where
  "name_ok st = (token (cookie_name_or_default (hc_cookie_name (ss_host_cookie st)))
     \<and> CHR ''='' \<notin> set (cookie_name_or_default (hc_cookie_name (ss_host_cookie st))))"

text \<open>The codec reads the cookie back, and its base64 is made of printable characters.\<close>

definition reads_back :: "cookie_codec \<Rightarrow> user_sync_cookie \<Rightarrow> bool" where
  "reads_back cc c = (token (cookie_encode cc c) \<and> cookie_decode cc (cookie_encode cc c) = c)"

lemma sent_back_header:
  assumes "token (cookie_name_or_default name)" "token (cookie_encode cc c)"
  shows "sent_back (build_set_cookie_header cc c name ttl domain) = cookie_name_or_default name @ ''='' @ cookie_encode cc c"
proof -
  obtain rest where "build_set_cookie_header cc c name ttl domain = (cookie_name_or_default name @ ''='' @ cookie_encode cc c) @ CHR '';'' # rest"
    by (auto simp: build_set_cookie_header_def Let_def)
  moreover have "CHR '';'' \<notin> set (cookie_name_or_default name @ ''='' @ cookie_encode cc c)"
    using assms token_semicolon by auto
  ultimately show ?thesis unfolding sent_back_def by (simp only: takeWhile_upto not_False_eq_True)
qed

lemma cookie_read_back:
  assumes "token (cookie_name_or_default name)" "CHR ''='' \<notin> set (cookie_name_or_default name)" "reads_back cc c"
  shows "cookie_from_request cc (Some (sent_back (build_set_cookie_header cc c name ttl domain))) name = c"
proof -
  let ?n = "cookie_name_or_default name" and ?v = "cookie_encode cc c"
  have v: "token ?v" using assms(3) by (simp add: reads_back_def)
  have tok: "token (?n @ ''='' @ ?v)" using assms(1) v by (simp add: token_def token_char_def)
  have "split_on (CHR '';'') (?n @ ''='' @ ?v) = [?n @ ''='' @ ?v]" using token_semicolon [OF tok] by (rule split_on_no_sep)
  moreover have "split_once (CHR ''='') (?n @ ''='' @ ?v) = Some (?n, ?v)" using split_once_eq assms(2) by simp
  ultimately have "extract_cookie_value (Some (?n @ ''='' @ ?v)) name = Some ?v"
    using tok v assms(1) by (simp add: extract_cookie_value_def trim_token)
  then show ?thesis using assms(3) sent_back_header [OF assms(1) v] by (simp add: cookie_from_request_def reads_back_def)
qed

text \<open>What the handlers store.\<close>

definition request_cookie :: "cookie_codec \<Rightarrow> sync_state \<Rightarrow> string option \<Rightarrow> user_sync_cookie" where
  "request_cookie cc st hdr = cookie_from_request cc hdr (hc_cookie_name (ss_host_cookie st))"

lemma setuid_stores:
  assumes "rep_set_cookie (set_uid_handler cc header_ok now st hdr params) = Some h"
  shows "\<exists>bidder. sp_bidder params = Some bidder \<and> bidder \<noteq> [] \<and>
    h = build_set_cookie_header cc (setuid_update now bidder (sp_uid params) (request_cookie cc st hdr))
          (hc_cookie_name (ss_host_cookie st)) (hc_ttl_days (ss_host_cookie st)) (hc_domain (ss_host_cookie st))"
  using assms by (auto simp: set_uid_handler_def reply_def Let_def request_cookie_def split: option.splits if_splits)

lemma optout_stores:
  "rep_set_cookie (optout_handler cc header_ok st hdr (Some (c # cs))) = Some h \<Longrightarrow>
   h = build_set_cookie_header cc (optout_update True (request_cookie cc st hdr))
          (hc_cookie_name (ss_host_cookie st)) (hc_ttl_days (ss_host_cookie st)) (hc_domain (ss_host_cookie st))"
  by (auto simp: optout_handler_def reply_def Let_def request_cookie_def split: option.splits if_splits)

definition valid_uids :: "int \<Rightarrow> user_sync_cookie \<Rightarrow> string \<Rightarrow> string option" where
  "valid_uids now c b = Option.bind (map_of (usc_uids c) b) (\<lambda>e. if su_expires e > now then Some (su_uid e) else None)"

lemma map_of_valid:
  "hm_wf m \<Longrightarrow> map_of (map (\<lambda>(b, e). (b, su_uid e)) (filter (\<lambda>(b, e). su_expires e > now) m)) b
     = Option.bind (map_of m b) (\<lambda>e. if su_expires e > now then Some (su_uid e) else None)"
  unfolding hm_wf_def by (induction m) (auto simp: map_of_eq_None_iff image_iff split: option.splits Option.bind_splits)

lemma get_uids_valid:
  "hm_wf (usc_uids (request_cookie cc st hdr)) \<Longrightarrow> map_of (get_uids_handler cc now st hdr) b = valid_uids now (request_cookie cc st hdr) b"
  by (simp add: get_uids_handler_def request_cookie_def valid_uids_def map_of_valid)

section \<open>The answer of /cookie\_sync\<close>

text \<open>What the answer says of a bidder when there is no limit.\<close>

definition sync_status :: "sync_state \<Rightarrow> (string \<Rightarrow> bool) \<Rightarrow> cookie_sync_request \<Rightarrow> string \<Rightarrow> sync_entry option" where
  "sync_status st has_uid body b =
     (if \<not> sync_user_allowed st b then None
      else if has_uid b then Some (AlreadyHasUid b)
      else map_option (\<lambda>(ty, template). NewSync b ty (sync_url_of body b ty template)) (resolve_sync st b))"

definition new_syncs :: "sync_entry list \<Rightarrow> nat" where
  "new_syncs es = length (filter is_new_sync es)"

lemma new_syncs_simps [simp]:
  "new_syncs [] = 0"
  "new_syncs (AlreadyHasUid b # es) = new_syncs es"
  "new_syncs (NewSync b t u # es) = Suc (new_syncs es)"
  by (simp_all add: new_syncs_def)

lemma sync_loop_spec:
  assumes "n \<le> limit"
  shows "prefix (sync_loop st has_uid body limit bs n) (List.map_filter (sync_status st has_uid body) bs)"
    "new_syncs (sync_loop st has_uid body limit bs n) + n \<le> limit"
    "sync_loop st has_uid body limit bs n = List.map_filter (sync_status st has_uid body) bs
     \<or> new_syncs (sync_loop st has_uid body limit bs n) + n = limit"
  using assms
proof (induction bs arbitrary: n)
  case Nil
  { case 1 show ?case by simp }
  { case 2 then show ?case by simp }
  { case 3 show ?case by (simp add: map_filter_simps) }
next
  case (Cons b bs)
  { case 1 then show ?case using Cons.IH(1) by (auto simp: map_filter_Cons sync_status_def split: option.split) }
  { case 2 then show ?case using Cons.IH(2) [of n] Cons.IH(2) [of "Suc n"] by (auto split: option.split) }
  { case 3 then show ?case using Cons.IH(3) [of n] Cons.IH(3) [of "Suc n"] by (auto simp: map_filter_Cons sync_status_def split: option.split) }
qed

text \<open>The whole answer.\<close>

definition sync_answer_ok ::
  "cookie_codec \<Rightarrow> (string \<Rightarrow> prebid_cookie) \<Rightarrow> (string list \<Rightarrow> string list) \<Rightarrow> int \<Rightarrow> sync_state \<Rightarrow> string option \<Rightarrow> cookie_sync_request
   \<Rightarrow> sync_entry list \<Rightarrow> bool" where
  "sync_answer_ok cc read_prebid ord now st hdr body es =
     (let name = hc_cookie_name (ss_host_cookie st);
          own = cookie_from_request cc hdr name;
          other = (case extract_cookie_value hdr name of Some v \<Rightarrow> read_prebid v | None \<Rightarrow> prebid_cookie_new);
          full = List.map_filter (sync_status st (\<lambda>b. has_valid_uid now own b \<or> get_uid other b \<noteq> None) body)
                   (cookie_sync_candidates ord st (case csq_bidders body of None \<Rightarrow> [] | Some bs \<Rightarrow> bs)
                      (case csq_coop_sync body of None \<Rightarrow> False | Some c \<Rightarrow> c))
      in prefix es full \<and> new_syncs es \<le> cookie_sync_limit body \<and> (es = full \<or> new_syncs es = cookie_sync_limit body))"

text \<open>
  Property C12.  The answer of \<^verbatim>\<open>/cookie_sync\<close>: a request that fails a check (account, consent, filter settings) gets that error and no
  syncs.  Otherwise the statuses are an initial part of the statuses of all candidates - the bidders for which the activity
  control permits syncing, with an entry without URL when the user has an id that has not expired and a sync URL when
  not - with at most as many sync URLs as the limit of the request (at least one), and the part is the whole unless the
  limit is used up.
\<close>
theorem cookie_sync_spec:
  "case cookie_sync_error st body of
     Some (status, e) \<Rightarrow> cookie_sync_handler cc read_prebid ord now st hdr body = reply status (SyncError e)
   | None \<Rightarrow> \<exists>stat es. cookie_sync_handler cc read_prebid ord now st hdr body = reply 200 (SyncBody stat es)
               \<and> sync_answer_ok cc read_prebid ord now st hdr body es"
proof (cases "cookie_sync_error st body")
  case None
  have ok: "prefix (sync_loop st h body l bs 0) (List.map_filter (sync_status st h body) bs)"
    "new_syncs (sync_loop st h body l bs 0) \<le> l"
    "sync_loop st h body l bs 0 = List.map_filter (sync_status st h body) bs \<or> new_syncs (sync_loop st h body l bs 0) = l" for h l bs
    using sync_loop_spec [of 0 l st h body bs] by simp_all
  show ?thesis
    unfolding None option.case cookie_sync_handler_def sync_answer_ok_def Let_def by (intro exI conjI, rule refl) (rule ok)+
qed (auto simp: cookie_sync_handler_def)

text \<open>What is parsed and then not used.\<close>

lemma type_filter_unused:
  assumes "parse_type_filter f = Inr tf" "parse_type_filter g = Inr tg"
  shows "cookie_sync_handler cc read_prebid ord now st hdr (body\<lparr>csq_filter_settings := f\<rparr>)
    = cookie_sync_handler cc read_prebid ord now st hdr (body\<lparr>csq_filter_settings := g\<rparr>)"
proof -
  have loop: "sync_loop st h (body\<lparr>csq_filter_settings := f\<rparr>) l bs n = sync_loop st h (body\<lparr>csq_filter_settings := g\<rparr>) l bs n" for h l bs n
    by (induction bs arbitrary: n) (auto simp: sync_url_of_def split: option.split)
  show ?thesis
    by (simp add: cookie_sync_handler_def cookie_sync_error_def assms loop Let_def cookie_sync_limit_def)
qed

lemma account_limits_unused:
  assumes "map fst accounts = map fst (ss_accounts st)"
  shows "cookie_sync_handler cc read_prebid ord now (st\<lparr>ss_accounts := accounts\<rparr>) hdr body
    = cookie_sync_handler cc read_prebid ord now st hdr body"
proof -
  have none: "map_of accounts a = None \<longleftrightarrow> map_of (ss_accounts st) a = None" for a
    using arg_cong [OF assms, of set] by (simp add: map_of_eq_None_iff)
  have loop: "sync_loop (st\<lparr>ss_accounts := accounts\<rparr>) h body l bs n = sync_loop st h body l bs n" for h l bs n
    by (induction bs arbitrary: n) (auto simp: sync_user_allowed_def resolve_sync_def split: option.split)
  have cands: "cookie_sync_candidates ord (st\<lparr>ss_accounts := accounts\<rparr>) r c = cookie_sync_candidates ord st r c" for r c
    by (simp add: cookie_sync_candidates_def all_sync_bidders_def known_bidder_def Let_def cong: filter_cong)
  have err: "cookie_sync_error (st\<lparr>ss_accounts := accounts\<rparr>) body = cookie_sync_error st body"
    by (simp add: cookie_sync_error_def none gdpr_blocks_def Let_def)
  have host: "ss_host_cookie (st\<lparr>ss_accounts := accounts\<rparr>) = ss_host_cookie st" by simp
  show ?thesis unfolding cookie_sync_handler_def loop cands err host by (rule refl)
qed

text \<open>
  \<^verbatim>\<open>/cookie_sync\<close> validates the filter settings of the request and then ignores them: with any two well-formed
  filter settings, and with any two configurations of the same accounts (their default and maximal limits and priority
  groups), the answer is the same.
\<close>
theorem cookie_sync_ignores_filters:
  assumes "parse_type_filter f = Inr tf" "parse_type_filter g = Inr tg" "map fst accounts = map fst (ss_accounts st)"
  shows "cookie_sync_handler cc read_prebid ord now st hdr (body\<lparr>csq_filter_settings := f\<rparr>)
    = cookie_sync_handler cc read_prebid ord now (st\<lparr>ss_accounts := accounts\<rparr>) hdr (body\<lparr>csq_filter_settings := g\<rparr>)"
  using type_filter_unused [OF assms(1, 2)] account_limits_unused [OF assms(3)] by simp

text \<open>A concrete codec and a concrete state for the witnesses: the codec knows the cookie of one user id and the empty
  cookie after an opt-out.\<close>

definition demo_uid_cookie :: user_sync_cookie where
  "demo_uid_cookie = \<lparr>usc_uids = [(''ix'', \<lparr>su_uid = ''u1'', su_expires = 1000 + uid_ttl_secs\<rparr>)], usc_optout = None\<rparr>"

definition demo_after_optout :: user_sync_cookie where
  "demo_after_optout = \<lparr>usc_uids = [(''ix'', \<lparr>su_uid = ''u1'', su_expires = 1000 + uid_ttl_secs\<rparr>)], usc_optout = Some True\<rparr>"

definition demo_codec :: cookie_codec where
  "demo_codec = \<lparr>cc_b64_decode = Some, cc_b64_encode = id,
     cc_from_json = (\<lambda>s. if s = ''A'' then Some demo_uid_cookie else if s = ''B'' then Some \<lparr>usc_uids = [], usc_optout = Some True\<rparr>
                         else if s = ''C'' then Some demo_after_optout else None),
     cc_to_json = (\<lambda>c. if c = demo_uid_cookie then Some ''A'' else if c = \<lparr>usc_uids = [], usc_optout = Some True\<rparr> then Some ''B''
                       else if c = demo_after_optout then Some ''C'' else None)\<rparr>"

definition demo_sync_state :: sync_state where
  "demo_sync_state = \<lparr>ss_host_cookie = \<lparr>hc_cookie_name = [], hc_family = [], hc_domain = [], hc_opt_out_url = [], hc_opt_in_url = [], hc_ttl_days = 90\<rparr>,
     ss_account_required = False, ss_accounts = [(''acc'', \<lparr>as_default_limit = Some 3, as_max_limit = None, as_priority_groups = []\<rparr>)],
     ss_gdpr_enabled = True, ss_bidder_info = [], ss_bidder_sync_info = [], ss_activities = []\<rparr>"

definition demo_setuid :: setuid_params where
  "demo_setuid = \<lparr>sp_bidder = Some ''ix'', sp_uid = Some ''u1'', sp_gdpr = Some 0, sp_gdpr_consent = None, sp_us_privacy = None, sp_account = None, sp_f = None\<rparr>"

definition demo_sync_body :: cookie_sync_request where
  "demo_sync_body = \<lparr>csq_bidders = Some [''ix''], csq_gdpr = None, csq_gdpr_consent = None, csq_us_privacy = None, csq_limit = None,
     csq_coop_sync = None, csq_filter_settings = None, csq_account = None, csq_debug = None, csq_gpp = None, csq_gpp_sid = None\<rparr>"

definition exclude_all :: json where
  "exclude_all = JObj [(''iframe'', JObj [(''filter'', JStr ''exclude'')]), (''image'', JObj [(''filter'', JStr ''exclude'')])]"

lemma exclude_all_parses:
  "parse_type_filter (Some exclude_all) = Inr \<lparr>stf_iframe = UniformFilter FilterExclude, stf_redirect = UniformFilter FilterExclude\<rparr>"
  by (simp add: exclude_all_def parse_type_filter_def parse_bidder_filter_def parse_bidders_def default_type_filter_def is_object_def Let_def)

text \<open>A request that excludes every bidder from both kinds of sync is still given the sync URL of the bidder.\<close>

theorem cookie_sync_ignores_filters_witness:
  "cookie_sync_handler demo_codec (\<lambda>_. prebid_cookie_new) id 1000 demo_sync_state None (demo_sync_body\<lparr>csq_filter_settings := Some exclude_all\<rparr>)
    = cookie_sync_handler demo_codec (\<lambda>_. prebid_cookie_new) id 1000
        (demo_sync_state\<lparr>ss_accounts := [(''acc'', \<lparr>as_default_limit = Some 0, as_max_limit = Some 1, as_priority_groups = [[''ix'']]\<rparr>)]\<rparr>)
        None (demo_sync_body\<lparr>csq_filter_settings := None\<rparr>)"
  by (rule cookie_sync_ignores_filters [OF exclude_all_parses])
    (simp_all add: parse_type_filter_def demo_sync_state_def)

section \<open>Repeated syncing\<close>

text \<open>One round: the bidders whose URL the answer carries have set their id by the next call.\<close>

definition sync_round :: "sync_state \<Rightarrow> cookie_sync_request \<Rightarrow> string list \<Rightarrow> string set \<Rightarrow> string set" where
  "sync_round st body cands known =
     known \<union> entry_bidder ` {e \<in> set (sync_loop st (\<lambda>b. b \<in> known) body (cookie_sync_limit body) cands 0). is_new_sync e}"

definition unsynced :: "sync_state \<Rightarrow> string list \<Rightarrow> string set \<Rightarrow> string set" where
  "unsynced st cands known = {b \<in> set cands. sync_user_allowed st b \<and> resolve_sync st b \<noteq> None \<and> b \<notin> known}"

lemma sync_loop_progress:
  "n < limit \<Longrightarrow> unsynced st bs known \<noteq> {} \<Longrightarrow>
   \<exists>e \<in> set (sync_loop st (\<lambda>b. b \<in> known) body limit bs n). is_new_sync e \<and> entry_bidder e \<in> unsynced st bs known"
proof (induction bs)
  case (Cons b bs)
  show ?case
  proof (cases "sync_user_allowed st b \<and> b \<notin> known \<and> resolve_sync st b \<noteq> None")
    case True
    then show ?thesis using Cons.prems(1) by (auto simp: unsynced_def)
  next
    case False
    then have same: "unsynced st (b # bs) known = unsynced st bs known" by (auto simp: unsynced_def)
    then obtain e where "e \<in> set (sync_loop st (\<lambda>b. b \<in> known) body limit bs n)" "is_new_sync e" "entry_bidder e \<in> unsynced st bs known"
      using Cons by auto
    then show ?thesis using False same Cons.prems(1) by (auto split: option.split)
  qed
qed (simp add: unsynced_def)

lemma unsynced_less: "unsynced st cands known \<noteq> {} \<Longrightarrow> unsynced st cands (sync_round st body cands known) \<subset> unsynced st cands known"
  using sync_loop_progress [of 0 "cookie_sync_limit body" st cands known body]
  by (fastforce simp: unsynced_def sync_round_def cookie_sync_limit_def)

lemma unsynced_rounds: "card (unsynced st cands ((sync_round st body cands ^^ n) known)) \<le> card (unsynced st cands known) - n"
proof (induction n)
  case (Suc n)
  let ?known = "(sync_round st body cands ^^ n) known"
  have fin: "finite (unsynced st cands ?known)" by (simp add: unsynced_def)
  show ?case
  proof (cases "unsynced st cands ?known = {}")
    case True
    then have "unsynced st cands (sync_round st body cands ?known) = {}" by (auto simp: unsynced_def sync_round_def)
    then show ?thesis by simp
  next
    case False
    have "card (unsynced st cands (sync_round st body cands ?known)) < card (unsynced st cands ?known)"
      using psubset_card_mono [OF fin unsynced_less [OF False]] .
    then show ?thesis using Suc by simp
  qed
qed simp

text \<open>
  Property C13.  Repeated calls of \<^verbatim>\<open>/cookie_sync\<close> reach every bidder: whatever the limit of the request, when the user agent follows the sync URLs of each
  answer before the next call, then after as many calls as there are candidates every candidate that the activity
  control permits and that has a sync URL has its id.
\<close>
theorem sync_converges:
  "{b \<in> set cands. sync_user_allowed st b \<and> resolve_sync st b \<noteq> None} \<subseteq> (sync_round st body cands ^^ length cands) known"
proof -
  let ?known = "(sync_round st body cands ^^ length cands) known"
  have "card (unsynced st cands known) \<le> card (set cands)" by (rule card_mono) (auto simp: unsynced_def)
  then have "card (unsynced st cands known) \<le> length cands" using card_length [of cands] by simp
  then have "card (unsynced st cands ?known) = 0" using unsynced_rounds [where n = "length cands" and body = body and known = known and st = st and cands = cands] by simp
  moreover have "finite (unsynced st cands ?known)" by (simp add: unsynced_def)
  ultimately show ?thesis by (auto simp: unsynced_def)
qed

section \<open>What the user endpoints store\<close>

text \<open>A handler that answers with a cookie, and the answer of \<^verbatim>\<open>/getuids\<close> to the request that sends the cookie back.\<close>

definition getuids_after :: "cookie_codec \<Rightarrow> int \<Rightarrow> sync_state \<Rightarrow> 'b http_reply \<Rightarrow> string \<Rightarrow> string option" where
  "getuids_after cc now st rep b = map_of (get_uids_handler cc now st (map_option sent_back (rep_set_cookie rep))) b"

lemma getuids_after_stored:
  assumes "name_ok st" "reads_back cc c" "hm_wf (usc_uids c)"
    and "rep_set_cookie rep = Some (build_set_cookie_header cc c (hc_cookie_name (ss_host_cookie st)) ttl domain)"
  shows "getuids_after cc now st rep b = valid_uids now c b"
proof -
  have "request_cookie cc st (map_option sent_back (rep_set_cookie rep)) = c"
    using cookie_read_back [OF _ _ assms(2)] assms(1, 4) by (simp add: request_cookie_def name_ok_def)
  then show ?thesis using get_uids_valid assms(3) by (metis getuids_after_def)
qed

lemma cookie_set_uid_wf: "hm_wf (usc_uids c) \<Longrightarrow> hm_wf (usc_uids (cookie_set_uid now bidder uid c))"
  by (simp add: cookie_set_uid_def hm_wf_insert)

lemma valid_uids_set:
  "valid_uids t (cookie_set_uid now bidder uid c) b
    = (if b = bidder then if now + uid_ttl_secs > t then Some uid else None else valid_uids t c b)"
  by (simp add: valid_uids_def cookie_set_uid_def map_of_hm_insert)

lemma setuid_classification:
  "case sp_bidder params of
     Some (c # cs) \<Rightarrow>
       (case account_check st (sp_account params) of
          Some e \<Rightarrow> rep_status (set_uid_handler cc header_ok now st hdr params) = 400
        | None \<Rightarrow>
            rep_status (set_uid_handler cc header_ok now st hdr params) =
              (if gdpr_blocks st (sp_gdpr params) (sp_gdpr_consent params) then 451
               else if rep_set_cookie (set_uid_handler cc header_ok now st hdr params) = None then 500 else 200))
   | _ \<Rightarrow> rep_status (set_uid_handler cc header_ok now st hdr params) = 400"
  by (auto simp: set_uid_handler_def reply_def Let_def split: option.splits list.splits)

text \<open>
  Property C14.  Round trip of the cookie: when \<^verbatim>\<open>/setuid\<close> answers with a cookie for a bidder and an id, then the request that sends the
  cookie back to \<^verbatim>\<open>/getuids\<close> at a time \<^term>\<open>t\<close> is given this id for the bidder until fourteen days after it was set and none
  afterwards, and for every other bidder what the cookie before had.  The name of the cookie is a token, and the codec
  reads the stored value back.
\<close>
theorem setuid_getuids:
  assumes "name_ok st" "reads_back cc (cookie_set_uid now bidder uid (request_cookie cc st hdr))"
    and "hm_wf (usc_uids (request_cookie cc st hdr))"
    and "sp_bidder params = Some bidder" "sp_uid params = Some uid" "uid \<noteq> []"
    and "rep_set_cookie (set_uid_handler cc header_ok now st hdr params) \<noteq> None"
  shows "getuids_after cc t st (set_uid_handler cc header_ok now st hdr params) b
    = (if b = bidder then if t < now + uid_ttl_secs then Some uid else None else valid_uids t (request_cookie cc st hdr) b)"
proof -
  obtain h where h: "rep_set_cookie (set_uid_handler cc header_ok now st hdr params) = Some h" using assms(7) by blast
  have "setuid_update now bidder (sp_uid params) (request_cookie cc st hdr) = cookie_set_uid now bidder uid (request_cookie cc st hdr)"
    using assms(5, 6) by (simp add: setuid_update_def)
  then have "getuids_after cc t st (set_uid_handler cc header_ok now st hdr params) b
      = valid_uids t (cookie_set_uid now bidder uid (request_cookie cc st hdr)) b"
    using setuid_stores [OF h] h assms(4) getuids_after_stored [OF assms(1, 2) cookie_set_uid_wf [OF assms(3)]] by auto
  then show ?thesis by (simp add: valid_uids_set)
qed

lemmas demo_sync_defs = demo_codec_def demo_sync_state_def demo_setuid_def demo_uid_cookie_def demo_after_optout_def

lemma demo_name_ok: "name_ok demo_sync_state"
  by (simp add: name_ok_def demo_sync_state_def cookie_name_or_default_def token_def token_char_def)

lemma demo_request_cookie: "request_cookie demo_codec demo_sync_state None = default_cookie"
  by (simp add: request_cookie_def cookie_from_request_def extract_cookie_value_def)

lemma demo_reads_back:
  "reads_back demo_codec (cookie_set_uid 1000 ''ix'' ''u1'' default_cookie)"
  "reads_back demo_codec (optout_update True default_cookie)"
  "reads_back demo_codec (cookie_set_uid 1000 ''ix'' ''u1'' (optout_update True default_cookie))"
  by (simp_all add: reads_back_def cookie_encode_def cookie_decode_def demo_sync_defs cookie_set_uid_def optout_update_def
      default_cookie_def token_def token_char_def)

lemma demo_setuid_stores:
  "rep_set_cookie (set_uid_handler demo_codec (\<lambda>_. True) 1000 demo_sync_state hdr demo_setuid) \<noteq> None"
  by (simp add: set_uid_handler_def demo_sync_state_def demo_setuid_def account_check_def gdpr_blocks_def reply_def Let_def)

theorem setuid_getuids_witness:
  "getuids_after demo_codec 5000 demo_sync_state (set_uid_handler demo_codec (\<lambda>_. True) 1000 demo_sync_state None demo_setuid) ''ix'' = Some ''u1''"
  by (subst setuid_getuids [of _ _ _ "''ix''" "''u1''", OF demo_name_ok _ _ _ _ _ demo_setuid_stores])
    (simp_all add: demo_request_cookie demo_reads_back, simp_all add: demo_setuid_def uid_ttl_secs_def default_cookie_def hm_wf_def)

lemma optout_clears:
  "usc_uids (optout_update True c) = []" "valid_uids t (optout_update True c) b = None" "hm_wf (usc_uids (optout_update True c))"
  by (simp_all add: optout_update_def valid_uids_def hm_wf_def)

text \<open>
  An opt-out empties the cookie, so that \<^verbatim>\<open>/getuids\<close> lists nothing afterwards; but the flag it stores is read by no
  handler: a later call of \<^verbatim>\<open>/setuid\<close> with the opted-out cookie stores the id as if there had been no opt-out.
\<close>
theorem optout_then_setuid:
  assumes "name_ok st" "reads_back cc (optout_update True (request_cookie cc st hdr))"
    and "reads_back cc (cookie_set_uid now bidder uid (optout_update True (request_cookie cc st hdr)))"
    and "rep_set_cookie (optout_handler cc header_ok st hdr (Some (x # xs))) = Some h"
    and "sp_bidder params = Some bidder" "sp_uid params = Some uid" "uid \<noteq> []"
    and "rep_set_cookie (set_uid_handler cc header_ok now st (Some (sent_back h)) params) \<noteq> None"
  shows "getuids_after cc t st (optout_handler cc header_ok st hdr (Some (x # xs))) b = None
    \<and> getuids_after cc t st (set_uid_handler cc header_ok now st (Some (sent_back h)) params) b
      = (if b = bidder \<and> t < now + uid_ttl_secs then Some uid else None)"
proof -
  let ?opted = "optout_update True (request_cookie cc st hdr)"
  note stored = optout_stores [OF assms(4)]
  have seen:
    "request_cookie cc st (Some (sent_back h)) = ?opted"
    using cookie_read_back [OF _ _ assms(2)] assms(1) stored by (simp add: request_cookie_def name_ok_def)
  have "getuids_after cc t st (optout_handler cc header_ok st hdr (Some (x # xs))) b = None"
    using getuids_after_stored [OF assms(1, 2) optout_clears(3)] assms(4) stored by (simp add: optout_clears)
  moreover have "getuids_after cc t st (set_uid_handler cc header_ok now st (Some (sent_back h)) params) b
      = (if b = bidder \<and> t < now + uid_ttl_secs then Some uid else None)"
  proof -
    obtain h' where h': "rep_set_cookie (set_uid_handler cc header_ok now st (Some (sent_back h)) params) = Some h'" using assms(8) by blast
    have "setuid_update now bidder (sp_uid params) ?opted = cookie_set_uid now bidder uid ?opted"
      using assms(6, 7) by (simp add: setuid_update_def)
    then have "getuids_after cc t st (set_uid_handler cc header_ok now st (Some (sent_back h)) params) b = valid_uids t (cookie_set_uid now bidder uid ?opted) b"
      using setuid_stores [OF h'] h' assms(5) seen getuids_after_stored [OF assms(1, 3) cookie_set_uid_wf [OF optout_clears(3)]] by auto
    then show ?thesis by (simp add: valid_uids_set optout_clears)
  qed
  ultimately show ?thesis ..
qed

theorem optout_then_setuid_witness:
  "\<exists>h. rep_set_cookie (optout_handler demo_codec (\<lambda>_. True) demo_sync_state None (Some ''1'')) = Some h
     \<and> getuids_after demo_codec 5000 demo_sync_state (set_uid_handler demo_codec (\<lambda>_. True) 1000 demo_sync_state (Some (sent_back h)) demo_setuid) ''ix''
       = Some ''u1''"
proof -
  obtain h where h: "rep_set_cookie (optout_handler demo_codec (\<lambda>_. True) demo_sync_state None (Some ''1'')) = Some h"
    by (simp add: optout_handler_def reply_def Let_def)
  note rule = optout_then_setuid [OF demo_name_ok _ _ h _ _ _ demo_setuid_stores, of "''ix''" "''u1''" 5000 "''ix''"]
  show ?thesis
    using h rule by (simp add: demo_request_cookie demo_reads_back) (simp add: demo_setuid_def uid_ttl_secs_def)
qed

end
