(* ===== verification/AuctionEndpoints.thy ===== *)
theory AuctionEndpoints
  imports SyncEndpoints StoredReq AuctionFacts
begin

text \<open>
  The endpoints that run auctions, \<^verbatim>\<open>rust/crates/endpoints/src/lib.rs\<close>: \<^verbatim>\<open>/openrtb2/auction\<close> by POST and by GET, \<^verbatim>\<open>/openrtb2/video\<close>
  and \<^verbatim>\<open>/openrtb2/amp\<close>, with the resolution of stored impressions and the treatment of interstitials they share; and the
  smaller endpoints for events, VAST tracking, bidder information, currency rates and the state of the server.  Decoders,
  clocks and hash iteration orders are arguments.  Arithmetic on 32-bit integers wraps, as in a release build.
\<close>

section \<open>State and replies\<close>

record account_config =
  acfg_gdpr_enabled :: "bool option"
  acfg_auction_timeout_ms :: "nat option"

record app_state =
  ap_exchange :: exchange
  ap_version :: string
  ap_revision :: string
  ap_bidder_info :: "(string \<times> json) list"
  ap_bidder_params :: "(string \<times> json) list"
  ap_status_response :: "string option"
  ap_stored_requests :: stored_fetcher
  ap_max_request_size :: nat
  ap_accounts :: "(string \<times> account_config) list"
  ap_currency_converter :: "currency_converter option"

datatype reply_body = TextBody string | ResponseBody bid_response | JsonBody json

text \<open>What a handler records in the metrics.\<close>

datatype metric_event = RequestByType string string | HttpRequest string nat nat

text \<open>A finished handler: the hook executor after the auction, the metrics it recorded, and the reply.\<close>

record handled =
  hd_executor :: "hook_executor option"
  hd_metrics :: "metric_event list"
  hd_reply :: "reply_body http_reply"

definition answer :: "app_state \<Rightarrow> nat \<Rightarrow> reply_body \<Rightarrow> handled" where
  "answer st status body = \<lparr>hd_executor = exc_hook_executor (ap_exchange st), hd_metrics = [], hd_reply = reply status body\<rparr>"

text \<open>The decoders of this file.\<close>

record endpoint_serde =
  ed_auction :: auction_serde
  de_request :: "json \<Rightarrow> (string, bid_request) res"
  de_request_str :: "string \<Rightarrow> (string, bid_request) res"
  en_imp :: "imp \<Rightarrow> json option"
  de_imp :: "json \<Rightarrow> imp option"

section \<open>Checks and preparation of a request\<close>

definition validate_bid_request :: "bid_request \<Rightarrow> (string, unit) res" where
  "validate_bid_request req =
     (if req_id req = [] then Inl ''request missing required field: request.id''
      else let errors = validate_request req
           in if list_ex (\<lambda>e. e = NoImps \<or> e = BothSiteAndApp) errors then Inl (join_str ''; '' (map show_validation_error errors))
              else Inr ())"

definition account_of :: "app_state \<Rightarrow> bid_request \<Rightarrow> account_config option" where
  "account_of st req =
     Option.bind (Option.bind (Option.bind (req_site req) site_publisher) publisher_id) (map_of (ap_accounts st))"

definition has_consent :: "bid_request \<Rightarrow> bool" where
  "has_consent req =
     (case Option.bind (jpath (Option.bind (req_user req) user_jext) [''consent'']) as_str of Some s \<Rightarrow> s \<noteq> [] | None \<Rightarrow> False)"

definition consent_missing :: "app_state \<Rightarrow> bid_request \<Rightarrow> bool" where
  "consent_missing st req =
     (case account_of st req of Some acct \<Rightarrow> acfg_gdpr_enabled acct = Some True \<and> \<not> has_consent req | None \<Rightarrow> False)"

definition empty_response :: "bid_request \<Rightarrow> bid_response" where
  "empty_response req = default_bid_response\<lparr>resp_id := req_id req\<rparr>"

definition stored_response_of :: "endpoint_serde \<Rightarrow> app_state \<Rightarrow> bid_request \<Rightarrow> bid_response option" where
  "stored_response_of ed st req =
     Option.bind (Option.bind (jpath (req_jext req) [''prebid'', ''storedauctionresponse'', ''id'']) as_str)
       (\<lambda>stored_resp_id.
          map_option (\<lambda>r. if resp_id r = [] then r\<lparr>resp_id := req_id req\<rparr> else r)
            (fetch_stored_response (\<lambda>v. case de_bid_response (sd_base (ed_auction ed)) v of Inr r \<Rightarrow> Some r | Inl _ \<Rightarrow> None)
               (ap_stored_requests st) stored_resp_id))"

definition account_tmax :: "app_state \<Rightarrow> bid_request \<Rightarrow> bid_request" where
  "account_tmax st req =
     (case Option.bind (account_of st req) acfg_auction_timeout_ms of
        Some tmax \<Rightarrow> req\<lparr>req_tmax := Some (i64_wrap (int tmax))\<rparr>
      | None \<Rightarrow> req)"

definition resolve_imp :: "endpoint_serde \<Rightarrow> stored_fetcher \<Rightarrow> imp \<Rightarrow> imp" where
  "resolve_imp ed f i =
     (case Option.bind (jpath (imp_jext i) [''prebid'', ''storedrequest'', ''id'']) as_str of
        Some stored_id \<Rightarrow>
          (case fetch_imp f stored_id of
             Some stored_imp_json \<Rightarrow>
               (case en_imp ed i of
                  None \<Rightarrow> i
                | Some imp_value \<Rightarrow>
                    (case de_imp ed (merge_request_fragment stored_imp_json imp_value) of Some merged_imp \<Rightarrow> merged_imp | None \<Rightarrow> i))
           | None \<Rightarrow> i)
      | None \<Rightarrow> i)"

definition resolve_imp_stored_requests :: "endpoint_serde \<Rightarrow> stored_fetcher \<Rightarrow> bid_request \<Rightarrow> bid_request" where
  "resolve_imp_stored_requests ed f req = req\<lparr>req_imp := map (resolve_imp ed f) (req_imp req)\<rparr>"

section \<open>Interstitials\<close>

definition i32_wrap :: "int \<Rightarrow> int" where
  "i32_wrap x = (x - i32_min) mod 2 ^ 32 + i32_min"

text \<open>Division of integers in Rust truncates.\<close>

definition trunc_div :: "int \<Rightarrow> int \<Rightarrow> int" where
  "trunc_div a b = (if a < 0 then - ((- a) div b) else a div b)"

definition interstitial_sizes :: "(int \<times> int) list" where
  "interstitial_sizes =
     [(300, 250), (728, 90), (160, 600), (320, 50), (300, 600),
      (320, 480), (336, 280), (120, 600), (468, 60), (970, 90),
      (970, 250), (320, 100), (300, 50), (300, 100), (768, 1024),
      (1024, 768), (480, 320), (300, 1050), (320, 250), (250, 250)]"

definition default_format :: banner_format where
  "default_format = \<lparr>format_w = None, format_h = None, format_wratio = None, format_hratio = None, format_wmin = None, format_jext = None\<rparr>"

definition size_format :: "int \<times> int \<Rightarrow> banner_format" where
  "size_format wh = default_format\<lparr>format_w := Some (fst wh), format_h := Some (snd wh)\<rparr>"

fun fitting_formats :: "int \<Rightarrow> int \<Rightarrow> int \<Rightarrow> int \<Rightarrow> (int \<times> int) list \<Rightarrow> banner_format list \<Rightarrow> banner_format list" where
  "fitting_formats min_w max_w min_h max_h [] formats = formats"
| "fitting_formats min_w max_w min_h max_h ((w, h) # sizes) formats =
     (if w \<ge> min_w \<and> w \<le> max_w \<and> h \<ge> min_h \<and> h \<le> max_h
      then let formats = formats @ [size_format (w, h)]
           in if length formats \<ge> 10 then formats else fitting_formats min_w max_w min_h max_h sizes formats
      else fitting_formats min_w max_w min_h max_h sizes formats)"

definition max_dims :: "int \<Rightarrow> int \<Rightarrow> banner \<Rightarrow> int \<times> int" where
  "max_dims dev_w dev_h b =
     (case banner_format b of
        Some (first # _) \<Rightarrow>
          (let fw = (case format_w first of None \<Rightarrow> 0 | Some w \<Rightarrow> w);
               fh = (case format_h first of None \<Rightarrow> 0 | Some h \<Rightarrow> h)
           in if fw < 2 \<and> fh < 2 then (dev_w, dev_h) else (fw, fh))
      | _ \<Rightarrow> (dev_w, dev_h))"

definition interstitial_banner :: "int \<Rightarrow> int \<Rightarrow> int \<Rightarrow> int \<Rightarrow> banner \<Rightarrow> banner" where
  "interstitial_banner min_width_perc min_height_perc dev_w dev_h b =
     (let (max_w, max_h) = max_dims dev_w dev_h b
      in if max_w \<le> 0 \<or> max_h \<le> 0 then b
         else let min_w = trunc_div (i32_wrap (max_w * min_width_perc)) 100;
                  min_h = trunc_div (i32_wrap (max_h * min_height_perc)) 100;
                  formats = fitting_formats min_w max_w min_h max_h interstitial_sizes []
              in if formats \<noteq> [] then b\<lparr>banner_format := Some formats\<rparr> else b)"

definition interstitial_imp :: "int \<Rightarrow> int \<Rightarrow> int \<Rightarrow> int \<Rightarrow> imp \<Rightarrow> imp" where
  "interstitial_imp min_width_perc min_height_perc dev_w dev_h i =
     (if imp_instl i \<noteq> Some 1 then i
      else case imp_banner i of
             Some b \<Rightarrow> i\<lparr>imp_banner := Some (interstitial_banner min_width_perc min_height_perc dev_w dev_h b)\<rparr>
           | None \<Rightarrow> i)"

definition perc_of :: "json \<Rightarrow> string \<Rightarrow> int" where
  "perc_of interstitial key = i32_wrap (case Option.bind (jget interstitial key) as_i64 of None \<Rightarrow> 0 | Some v \<Rightarrow> v)"

definition process_interstitials :: "bid_request \<Rightarrow> bid_request" where
  "process_interstitials req =
     (case jpath (Option.bind (req_device req) device_jext) [''prebid'', ''interstitial''] of
        None \<Rightarrow> req
      | Some interstitial \<Rightarrow>
          (let min_width_perc = perc_of interstitial ''minwidthperc'';
               min_height_perc = perc_of interstitial ''minheightperc'';
               dev_w = (case Option.bind (req_device req) device_w of None \<Rightarrow> 0 | Some w \<Rightarrow> w);
               dev_h = (case Option.bind (req_device req) device_h of None \<Rightarrow> 0 | Some h \<Rightarrow> h)
           in if min_width_perc \<le> 0 \<or> min_height_perc \<le> 0 then req
              else req\<lparr>req_imp := map (interstitial_imp min_width_perc min_height_perc dev_w dev_h) (req_imp req)\<rparr>))"

section \<open>/openrtb2/auction\<close>

definition auction_of :: "bid_request \<Rightarrow> auction_request" where
  "auction_of req = \<lparr>areq_bid_request = req, areq_account = None, areq_user_syncs = None, areq_currency_rates = None\<rparr>"

definition run_openrtb2 :: "endpoint_serde \<Rightarrow> app_state \<Rightarrow> auction_env \<Rightarrow> nat \<Rightarrow> bid_request \<Rightarrow> handled" where
  "run_openrtb2 ed st env duration_ms req =
     (case hold_auction (ed_auction ed) (ap_exchange st) env (auction_of req) of
        (ex, Inr r) \<Rightarrow>
          \<lparr>hd_executor = ex, hd_metrics = [RequestByType ''openrtb2'' ''ok'', HttpRequest ''openrtb2'' 200 duration_ms],
           hd_reply = reply 200 (ResponseBody (ares_bid_response r))\<rparr>
      | (ex, Inl e) \<Rightarrow>
          \<lparr>hd_executor = ex, hd_metrics = [RequestByType ''openrtb2'' ''badserverresponse'', HttpRequest ''openrtb2'' 500 duration_ms],
           hd_reply = reply 500 (TextBody e)\<rparr>)"

text \<open>The \<^verbatim>\<open>Content-Length\<close> header is an argument; it counts where it is printable and a number.\<close>

definition too_large :: "app_state \<Rightarrow> string option \<Rightarrow> int option" where
  "too_large st content_length =
     (if ap_max_request_size st > 0
      then case Option.bind content_length (parse_int 0 (int usize_max)) of
             Some n \<Rightarrow> if n > int (ap_max_request_size st) then Some n else None
           | None \<Rightarrow> None
      else None)"

definition auction_handler :: "endpoint_serde \<Rightarrow> app_state \<Rightarrow> auction_env \<Rightarrow> nat \<Rightarrow> string option \<Rightarrow> bid_request \<Rightarrow> handled" where
  "auction_handler ed st env duration_ms content_length req =
     (case too_large st content_length of
        Some n \<Rightarrow>
          answer st 400 (TextBody (''request size '' @ show_int n @ '' exceeded max size of '' @ show_nat (ap_max_request_size st) @ '' bytes''))
      | None \<Rightarrow>
          (case validate_bid_request req of
             Inl msg \<Rightarrow> answer st 400 (TextBody msg)
           | Inr _ \<Rightarrow>
               if consent_missing st req then answer st 200 (ResponseBody (empty_response req))
               else case stored_response_of ed st req of
                      Some r \<Rightarrow> answer st 200 (ResponseBody r)
                    | None \<Rightarrow>
                        run_openrtb2 ed st env duration_ms
                          (process_interstitials (resolve_imp_stored_requests ed (ap_stored_requests st) (account_tmax st req)))))"

definition auction_get_handler ::
  "endpoint_serde \<Rightarrow> app_state \<Rightarrow> auction_env \<Rightarrow> nat \<Rightarrow> (string \<times> string) list \<Rightarrow> handled" where
  "auction_get_handler ed st env duration_ms params =
     (case map_of params ''request'' of
        None \<Rightarrow> answer st 400 (TextBody ''missing request parameter'')
      | Some body \<Rightarrow>
          (case de_request_str ed body of
             Inl e \<Rightarrow> answer st 400 (TextBody (''invalid request JSON: '' @ e))
           | Inr req \<Rightarrow>
               (case validate_bid_request req of
                  Inl msg \<Rightarrow> answer st 400 (TextBody msg)
                | Inr _ \<Rightarrow>
                    if consent_missing st req then answer st 200 (ResponseBody (empty_response req))
                    else run_openrtb2 ed st env duration_ms
                           (resolve_imp_stored_requests ed (ap_stored_requests st) (account_tmax st req)))))"

section \<open>/openrtb2/video\<close>

definition merge_stored_video :: "bid_request \<Rightarrow> bid_request \<Rightarrow> bid_request" where
  "merge_stored_video stored_req req =
     (let existing_imp_ids = set (map imp_id (req_imp req));
          req = req\<lparr>req_imp := req_imp req @ filter (\<lambda>i. imp_id i \<notin> existing_imp_ids) (req_imp stored_req)\<rparr>;
          req = (if req_site req = None then req\<lparr>req_site := req_site stored_req\<rparr> else req)
      in if req_app req = None then req\<lparr>req_app := req_app stored_req\<rparr> else req)"

fun retain_first :: "string set \<Rightarrow> imp list \<Rightarrow> imp list" where
  "retain_first seen_ids [] = []"
| "retain_first seen_ids (i # is) =
     (if imp_id i \<in> seen_ids then retain_first seen_ids is else i # retain_first (Set.insert (imp_id i) seen_ids) is)"

definition video_request :: "endpoint_serde \<Rightarrow> app_state \<Rightarrow> bid_request \<Rightarrow> bid_request" where
  "video_request ed st req =
     (let req = (case Option.bind (Option.bind (jpath (req_jext req) [''prebid'', ''storedrequest'', ''id'']) as_str)
                        (fetch_stored (ap_stored_requests st)) of
                   Some stored \<Rightarrow> (case de_request ed stored of Inr stored_req \<Rightarrow> merge_stored_video stored_req req | Inl _ \<Rightarrow> req)
                 | None \<Rightarrow> req)
      in req\<lparr>req_imp := retain_first {} (req_imp req)\<rparr>)"

definition hb_pb_cat_dur :: "bid \<Rightarrow> string" where
  "hb_pb_cat_dur b =
     (let price_bucket = fmt_fixed 2 (bid_price b);
          category = (case bid_cat b of Some (c # _) \<Rightarrow> c | _ \<Rightarrow> ''unknown'');
          duration = (case Option.bind (jpath (bid_jext b) [''prebid'', ''video'', ''duration'']) as_i64 of None \<Rightarrow> 0 | Some d \<Rightarrow> d)
      in price_bucket @ ''_'' @ category @ ''_'' @ show_int duration @ ''s'')"

text \<open>A member of an object that is created when absent, and changed where it is an object itself.\<close>

definition in_member :: "string \<Rightarrow> ((string \<times> json) list \<Rightarrow> (string \<times> json) list) \<Rightarrow> (string \<times> json) list \<Rightarrow> (string \<times> json) list" where
  "in_member k f m =
     (case map_of m k of
        None \<Rightarrow> bt_insert k (JObj (f [])) m
      | Some (JObj o1) \<Rightarrow> bt_insert k (JObj (f o1)) m
      | Some _ \<Rightarrow> m)"

definition add_cat_dur :: "bid \<Rightarrow> bid" where
  "add_cat_dur b =
     (let ext = (case bid_jext b of None \<Rightarrow> JObj [] | Some e \<Rightarrow> e)
      in b\<lparr>bid_jext := Some (case ext of
             JObj m \<Rightarrow> JObj (in_member ''prebid'' (in_member ''targeting'' (bt_insert ''hb_pb_cat_dur'' (JStr (hb_pb_cat_dur b)))) m)
           | _ \<Rightarrow> ext)\<rparr>)"

definition video_auction_handler :: "endpoint_serde \<Rightarrow> app_state \<Rightarrow> auction_env \<Rightarrow> bid_request \<Rightarrow> handled" where
  "video_auction_handler ed st env req =
     (let req = video_request ed st req
      in case validate_bid_request req of
           Inl msg \<Rightarrow> answer st 400 (TextBody msg)
         | Inr _ \<Rightarrow>
             (case hold_auction (ed_auction ed) (ap_exchange st) env (auction_of req) of
                (ex, Inr r) \<Rightarrow>
                  (let resp = ares_bid_response r
                   in \<lparr>hd_executor = ex, hd_metrics = [],
                       hd_reply = reply 200 (ResponseBody (resp\<lparr>resp_seatbid :=
                         map (\<lambda>sb. sb\<lparr>seatbid_bid := map add_cat_dur (seatbid_bid sb)\<rparr>) (resp_seatbid resp)\<rparr>))\<rparr>)
              | (ex, Inl e) \<Rightarrow> \<lparr>hd_executor = ex, hd_metrics = [], hd_reply = reply 500 (TextBody e)\<rparr>))"

section \<open>/openrtb2/amp\<close>

record amp_params =
  amp_tag_id :: "string option"
  amp_w :: "int option"
  amp_h :: "int option"
  amp_ms :: "string option"
  amp_curl :: "string option"
  amp_slot :: "string option"
  amp_targeting :: "string option"
  amp_account :: "string option"
  amp_gdpr_applies :: "bool option"
  amp_gdpr_consent :: "string option"
  amp_us_privacy :: "string option"
  amp_consent_type :: "int option"

definition nonempty :: "string option \<Rightarrow> string option" where
  "nonempty s = Option.bind s (\<lambda>x. if x = [] then None else Some x)"

definition map_first :: "('a \<Rightarrow> 'a) \<Rightarrow> 'a list \<Rightarrow> 'a list" where
  "map_first f xs = (case xs of [] \<Rightarrow> [] | x # ys \<Rightarrow> f x # ys)"

definition or_default :: "'a \<Rightarrow> 'a option \<Rightarrow> 'a" where
  "or_default d x = (case x of None \<Rightarrow> d | Some y \<Rightarrow> y)"

definition fill_in :: "'a \<Rightarrow> 'a option \<Rightarrow> 'a option" where
  "fill_in v x = (case x of None \<Rightarrow> Some v | Some y \<Rightarrow> Some y)"

definition default_publisher :: publisher where
  "default_publisher = \<lparr>publisher_id = None, publisher_name = None, publisher_cattax = None, publisher_cat = None, publisher_domain = None,
     publisher_jext = None\<rparr>"

definition amp_page :: "amp_params \<Rightarrow> bid_request \<Rightarrow> bid_request" where
  "amp_page p req =
     (case nonempty (amp_curl p) of
        Some curl \<Rightarrow> (let s = or_default default_site (req_site req) in req\<lparr>req_site := Some (s\<lparr>site_page := fill_in curl (site_page s)\<rparr>)\<rparr>)
      | None \<Rightarrow> req)"

definition amp_size :: "amp_params \<Rightarrow> bid_request \<Rightarrow> bid_request" where
  "amp_size p req =
     (if amp_w p \<noteq> None \<or> amp_h p \<noteq> None
      then req\<lparr>req_imp := map_first (\<lambda>i.
             let b = or_default default_banner (imp_banner i);
                 b = (case amp_w p of Some w \<Rightarrow> b\<lparr>banner_w := Some w\<rparr> | None \<Rightarrow> b);
                 b = (case amp_h p of Some h \<Rightarrow> b\<lparr>banner_h := Some h\<rparr> | None \<Rightarrow> b)
             in i\<lparr>imp_banner := Some b\<rparr>) (req_imp req)\<rparr>
      else req)"

definition parse_size :: "string \<Rightarrow> banner_format option" where
  "parse_size size_str =
     Option.bind (split_once (CHR ''x'') (trim_str size_str))
       (\<lambda>(w_str, h_str).
          case (parse_i32 (trim_str w_str), parse_i32 (trim_str h_str)) of
            (Some w, Some h) \<Rightarrow> if w > 0 \<and> h > 0 then Some (size_format (w, h)) else None
          | _ \<Rightarrow> None)"

definition amp_multi_size :: "amp_params \<Rightarrow> bid_request \<Rightarrow> bid_request" where
  "amp_multi_size p req =
     (case nonempty (amp_ms p) of
        Some ms \<Rightarrow>
          (let formats = List.map_filter parse_size (split_on (CHR '','') ms)
           in if formats \<noteq> []
              then req\<lparr>req_imp := map_first (\<lambda>i. i\<lparr>imp_banner := Some ((or_default default_banner (imp_banner i))\<lparr>banner_format := Some formats\<rparr>)\<rparr>) (req_imp req)\<rparr>
              else req)
      | None \<Rightarrow> req)"

definition amp_tag :: "amp_params \<Rightarrow> bid_request \<Rightarrow> bid_request" where
  "amp_tag p req =
     (case nonempty (amp_slot p) of
        Some slot \<Rightarrow> req\<lparr>req_imp := map_first (\<lambda>i. i\<lparr>imp_tagid := fill_in slot (imp_tagid i)\<rparr>) (req_imp req)\<rparr>
      | None \<Rightarrow> req)"

text \<open>\<^verbatim>\<open>ext[key] = v\<close>: null becomes an object, and anything but an object panics (\<^const>\<open>None\<close>).\<close>

fun json_index_set :: "string \<Rightarrow> json \<Rightarrow> json \<Rightarrow> json option" where
  "json_index_set k v (JObj m) = Some (JObj (bt_insert k v m))"
| "json_index_set k v JNull = Some (JObj [(k, v)])"
| "json_index_set k v j = None"

definition set_if_absent :: "string \<Rightarrow> json \<Rightarrow> json option \<Rightarrow> json option option" where
  "set_if_absent k v ext =
     (let e = or_default (JObj []) ext
      in if jget e k = None then map_option Some (json_index_set k v e) else Some (Some e))"

definition amp_consent :: "amp_params \<Rightarrow> bid_request \<Rightarrow> bid_request option" where
  "amp_consent p req =
     (case nonempty (amp_gdpr_consent p) of
        Some c \<Rightarrow> (let u = or_default default_user (req_user req)
                    in map_option (\<lambda>e. req\<lparr>req_user := Some (u\<lparr>user_jext := e\<rparr>)\<rparr>) (set_if_absent ''consent'' (JStr c) (user_jext u)))
      | None \<Rightarrow> Some req)"

definition amp_gdpr :: "amp_params \<Rightarrow> bid_request \<Rightarrow> bid_request option" where
  "amp_gdpr p req =
     (case amp_gdpr_applies p of
        Some g \<Rightarrow> (let r = or_default default_regs (req_regs req)
                    in map_option (\<lambda>e. req\<lparr>req_regs := Some (r\<lparr>regs_jext := e\<rparr>)\<rparr>)
                         (set_if_absent ''gdpr'' (JNum (PosInt (if g then 1 else 0))) (regs_jext r)))
      | None \<Rightarrow> Some req)"

definition amp_usp :: "amp_params \<Rightarrow> bid_request \<Rightarrow> bid_request" where
  "amp_usp p req =
     (case nonempty (amp_us_privacy p) of
        Some usp \<Rightarrow> (let r = or_default default_regs (req_regs req) in req\<lparr>req_regs := Some (r\<lparr>regs_us_privacy := fill_in usp (regs_us_privacy r)\<rparr>)\<rparr>)
      | None \<Rightarrow> req)"

definition amp_publisher :: "amp_params \<Rightarrow> bid_request \<Rightarrow> bid_request" where
  "amp_publisher p req =
     (case nonempty (amp_account p) of
        Some a \<Rightarrow>
          (let s = or_default default_site (req_site req);
               pub = or_default default_publisher (site_publisher s)
           in req\<lparr>req_site := Some (s\<lparr>site_publisher := Some (pub\<lparr>publisher_id := fill_in a (publisher_id pub)\<rparr>)\<rparr>)\<rparr>)
      | None \<Rightarrow> req)"

text \<open>The request of an AMP page, \<^const>\<open>None\<close> when its construction panics.\<close>

definition amp_request :: "endpoint_serde \<Rightarrow> app_state \<Rightarrow> amp_params \<Rightarrow> string \<Rightarrow> bid_request \<Rightarrow> bid_request option" where
  "amp_request ed st p tag_id stored =
     (let req = (if req_id stored = [] then stored\<lparr>req_id := tag_id\<rparr> else stored);
          req = resolve_imp_stored_requests ed (ap_stored_requests st) req;
          req = amp_tag p (process_interstitials (amp_multi_size p (amp_size p (amp_page p req))))
      in map_option (\<lambda>r. amp_publisher p (amp_usp p r)) (Option.bind (amp_consent p req) (amp_gdpr p)))"

definition amp_error :: "nat \<Rightarrow> string \<Rightarrow> reply_body" where
  "amp_error code message =
     JsonBody (JObj [(''errors'', JObj [(''prebid'', JArr [JObj [(''code'', JNum (PosInt code)), (''message'', JStr message)]])]),
                     (''targeting'', JObj [])])"

definition flat_targeting :: "(string list \<Rightarrow> string list) \<Rightarrow> targeting \<Rightarrow> (string \<times> string) list" where
  "flat_targeting ord t = fold (\<lambda>(imp_id, keys). fold (\<lambda>(k, v). or_insert k v) keys) (hm_iter ord t) []"

definition amp_handler ::
  "endpoint_serde \<Rightarrow> app_state \<Rightarrow> auction_env \<Rightarrow> nat \<Rightarrow> (string list \<Rightarrow> string list) \<Rightarrow> amp_params \<Rightarrow> handled option" where
  "amp_handler ed st env duration_ms ord p =
     (case nonempty (amp_tag_id p) of
        None \<Rightarrow> Some (answer st 400 (TextBody ''AMP request missing required tag_id query parameter''))
      | Some tag_id \<Rightarrow>
          (case fetch_stored (ap_stored_requests st) tag_id of
             None \<Rightarrow> Some (answer st 400 (amp_error 2 (''stored request not found for tag_id: '' @ tag_id)))
           | Some stored_json \<Rightarrow>
               (case de_request ed stored_json of
                  Inl e \<Rightarrow>
                    Some (answer st 400 (amp_error 3 (''stored request for tag_id '' @ quoted tag_id @ '' is not a valid BidRequest: '' @ e)))
                | Inr stored \<Rightarrow>
                    map_option
                      (\<lambda>req. case hold_auction (ed_auction ed) (ap_exchange st) env (auction_of req) of
                         (ex, Inl e) \<Rightarrow>
                           \<lparr>hd_executor = ex, hd_metrics = [HttpRequest ''amp'' 500 duration_ms],
                            hd_reply = reply 500 (amp_error 999 (''auction error: '' @ e))\<rparr>
                       | (ex, Inr r) \<Rightarrow>
                           \<lparr>hd_executor = ex, hd_metrics = [RequestByType ''amp'' ''ok'', HttpRequest ''amp'' 200 duration_ms],
                            hd_reply = reply 200 (JsonBody (JObj [(''targeting'', json_map JStr (flat_targeting ord (ares_targeting r)))]))\<rparr>)
                      (amp_request ed st p tag_id stored))))"

section \<open>Information\<close>

definition info_bidders_handler :: "app_state \<Rightarrow> bool option \<Rightarrow> string list" where
  "info_bidders_handler st enabled_only =
     (let names = sort (map fst (ap_bidder_info st))
      in if enabled_only = Some True
         then filter (\<lambda>n. case Option.bind (jpath (map_of (ap_bidder_info st) n) [''enabled'']) as_bool of Some b \<Rightarrow> b | None \<Rightarrow> True) names
         else names)"

definition info_bidder_detail_handler :: "app_state \<Rightarrow> string \<Rightarrow> reply_body http_reply" where
  "info_bidder_detail_handler st bidder_name =
     (case map_of (ap_bidder_info st) bidder_name of
        Some info \<Rightarrow> reply 200 (JsonBody info)
      | None \<Rightarrow> reply 404 (TextBody (''bidder '' @ bidder_name @ '' not found'')))"

definition bidder_params_handler :: "(string list \<Rightarrow> string list) \<Rightarrow> app_state \<Rightarrow> json" where
  "bidder_params_handler ord st =
     JObj [(''$schema'', JStr ''http://json-schema.org/draft-04/schema#''),
           (''description'', JStr ''Per-bidder OpenRTB extension parameter schemas''),
           (''oneOf'', JArr (map snd (hm_iter ord (ap_bidder_params st)))),
           (''title'', JStr ''Bidder Params'')]"

definition status_handler :: "app_state \<Rightarrow> reply_body http_reply" where
  "status_handler st =
     (case ap_status_response st of Some custom \<Rightarrow> reply 200 (TextBody custom) | None \<Rightarrow> reply 200 (JsonBody (JObj [(''ok'', JStr ''ok'')])))"

definition version_handler :: "app_state \<Rightarrow> json" where
  "version_handler st = JObj [(''revision'', JStr (ap_revision st)), (''version'', JStr (ap_version st))]"

definition health_handler :: json where
  "health_handler = JObj [(''checks'', JArr []), (''status'', JStr ''UP'')]"

definition readiness_handler :: "app_state \<Rightarrow> reply_body http_reply" where
  "readiness_handler st =
     (if exc_adapters (ap_exchange st) = [] then reply 503 (TextBody ''no adapters'')
      else reply 200 (JsonBody (JObj [(''status'', JStr ''READY'')])))"

record currency_rates_info =
  cri_active :: bool
  cri_source :: "string option"
  cri_last_updated :: "int option"
  cri_rates :: "rate_table option"

definition currency_rates_handler :: "app_state \<Rightarrow> currency_rates_info" where
  "currency_rates_handler st =
     (case ap_currency_converter st of
        Some c \<Rightarrow> \<lparr>cri_active = True, cri_source = cc_source c, cri_last_updated = cc_last_updated c, cri_rates = Some (cc_rates c)\<rparr>
      | None \<Rightarrow> \<lparr>cri_active = False, cri_source = None, cri_last_updated = None, cri_rates = None\<rparr>)"

section \<open>Events and VAST tracking\<close>

record event_params =
  ep_event_type :: "string option"
  ep_bid_id :: "string option"
  ep_account_id :: "string option"
  ep_bidder :: "string option"
  ep_format :: "string option"
  ep_timestamp :: "int option"
  ep_analytics :: "string option"

definition event_validate :: "event_params \<Rightarrow> string option" where
  "event_validate p =
     (case nonempty (ep_event_type p) of
        None \<Rightarrow> Some (''parameter '' @ quoted ''t'' @ '' is required'')
      | Some t \<Rightarrow>
          if t \<noteq> ''win'' \<and> t \<noteq> ''imp'' then Some (''unknown type: '' @ quoted t)
          else if nonempty (ep_bid_id p) = None then Some (''parameter '' @ quoted ''b'' @ '' is required'')
          else if nonempty (ep_account_id p) = None then Some (''parameter '' @ quoted ''a'' @ '' is required'')
          else None)"

definition event_handler :: "event_params \<Rightarrow> metric_event list \<times> string http_reply" where
  "event_handler p =
     (case event_validate p of
        Some msg \<Rightarrow> ([], reply 400 (''invalid request: '' @ msg))
      | None \<Rightarrow>
          (let t = or_default [] (ep_event_type p);
               recorded = (if t = ''win'' then [RequestByType ''event_win'' ''ok''] else if t = ''imp'' then [RequestByType ''event_imp'' ''ok''] else [])
           in (recorded,
               if ep_format p = Some ''i'' then (reply 200 pixel)\<lparr>rep_content_type := Some ''image/png''\<rparr> else reply 200 [])))"

definition close_tag :: string where
  "close_tag = ''</Impression>''"

definition open_tag :: string where
  "open_tag = ''<Impression>''"

text \<open>The difference of the positions is a machine integer: where the opening tag comes later it is not the length of
  the tag.\<close>

definition modify_vast_xml :: "string \<Rightarrow> string \<Rightarrow> string" where
  "modify_vast_xml vast tracking_url =
     (case str_find close_tag vast of
        None \<Rightarrow> vast
      | Some ci \<Rightarrow>
          (let cdata = ''<![CDATA['' @ tracking_url @ '']]>''
           in if (case str_find open_tag vast of Some oi \<Rightarrow> (int ci - int oi) mod 2 ^ 64 = int (length open_tag) | None \<Rightarrow> False)
              then replace_first open_tag (open_tag @ cdata) vast
              else replace_first close_tag (close_tag @ open_tag @ cdata @ close_tag) vast))"

definition build_vast_tracking_url :: "(string \<times> string) list \<Rightarrow> string" where
  "build_vast_tracking_url params =
     (let get = (\<lambda>k. case map_of params k of None \<Rightarrow> [] | Some v \<Rightarrow> v)
      in ''/event?t=imp&b='' @ get ''b'' @ ''&a='' @ get ''a''
         @ (if get ''bidder'' \<noteq> [] then ''&bidder='' @ get ''bidder'' else [])
         @ (if get ''ts'' \<noteq> [] then ''&ts='' @ get ''ts'' else []))"

text \<open>Whether the body is valid UTF-8 is an argument.\<close>

definition vtrack_handler :: "(string \<Rightarrow> bool) \<Rightarrow> (string \<times> string) list \<Rightarrow> string \<Rightarrow> string http_reply" where
  "vtrack_handler is_utf8 params body =
     (if \<not> is_utf8 body then reply 200 body
      else if \<not> str_contains ''<VAST'' body then reply 200 body
      else (reply 200 (modify_vast_xml body (build_vast_tracking_url params)))\<lparr>rep_content_type := Some ''application/xml''\<rparr>)"

definition index_handler :: string where
  "index_handler = ''prebid-server (Rust port)''"

section \<open>Lemmas: preparation keeps the request\<close>

lemma resolve_keeps [simp]:
  "req_site (resolve_imp_stored_requests ed f req) = req_site req" "req_app (resolve_imp_stored_requests ed f req) = req_app req"
  "req_tmax (resolve_imp_stored_requests ed f req) = req_tmax req" "req_user (resolve_imp_stored_requests ed f req) = req_user req"
  "req_regs (resolve_imp_stored_requests ed f req) = req_regs req"
  "req_imp (resolve_imp_stored_requests ed f req) = map (resolve_imp ed f) (req_imp req)"
  by (simp_all add: resolve_imp_stored_requests_def)

lemma account_tmax_keeps [simp]:
  "req_site (account_tmax st req) = req_site req" "req_app (account_tmax st req) = req_app req" "req_imp (account_tmax st req) = req_imp req"
  by (simp_all add: account_tmax_def split: option.split)

lemma interstitials_keep [simp]:
  "req_site (process_interstitials req) = req_site req" "req_app (process_interstitials req) = req_app req"
  "req_tmax (process_interstitials req) = req_tmax req" "req_user (process_interstitials req) = req_user req"
  "req_regs (process_interstitials req) = req_regs req"
  by (simp_all add: process_interstitials_def Let_def split: option.split)

lemma interstitial_imp_keeps [simp]:
  "imp_id (interstitial_imp w h dw dh i) = imp_id i" "has_media (interstitial_imp w h dw dh i) = has_media i"
  by (simp_all add: interstitial_imp_def has_media_def split: option.split)

lemma process_interstitials_imps:
  "req_imp (process_interstitials req) = req_imp req \<or> (\<exists>w h dw dh. req_imp (process_interstitials req) = map (interstitial_imp w h dw dh) (req_imp req))"
  by (auto simp: process_interstitials_def Let_def split: option.split)

lemma interstitials_imps_ok:
  "(req_imp (process_interstitials req) = []) = (req_imp req = [])"
  "list_all (\<lambda>i. imp_id i \<noteq> [] \<and> has_media i) (req_imp (process_interstitials req)) = list_all (\<lambda>i. imp_id i \<noteq> [] \<and> has_media i) (req_imp req)"
  using process_interstitials_imps [of req] by (auto simp: list_all_iff)

lemma validate_bid_request_ok:
  "(case validate_bid_request req of Inl _ \<Rightarrow> False | Inr _ \<Rightarrow> True)
    \<longleftrightarrow> req_id req \<noteq> [] \<and> req_imp req \<noteq> [] \<and> (req_site req = None \<or> req_app req = None)"
  using fatal_validate_request [of req] by (auto simp: validate_bid_request_def has_fatal_errors_def Let_def)

section \<open>Properties\<close>

text \<open>
  Property C11.  The consent gate of \<^verbatim>\<open>/openrtb2/auction\<close>: for a request of an account that requires GDPR consent and whose request
  carries none, no auction is run, by POST or by GET.  The answer does not depend on the network, the hook executor is not
  touched, no metric is recorded, and the reply is an error 400 or a response without seats that repeats the id.
\<close>
theorem consent_gate:
  assumes "consent_missing st req"
  shows "auction_handler ed st env ms cl req = auction_handler ed st env' ms' cl req
    \<and> hd_executor (auction_handler ed st env ms cl req) = exc_hook_executor (ap_exchange st)
    \<and> hd_metrics (auction_handler ed st env ms cl req) = []
    \<and> (rep_status (hd_reply (auction_handler ed st env ms cl req)) = 400
        \<or> hd_reply (auction_handler ed st env ms cl req) = reply 200 (ResponseBody (empty_response req)))
    \<and> (de_request_str ed body = Inr req \<longrightarrow>
        auction_get_handler ed st env ms [(''request'', body)] = auction_get_handler ed st env' ms' [(''request'', body)]
        \<and> hd_metrics (auction_get_handler ed st env ms [(''request'', body)]) = [])"
  using assms by (auto simp: auction_handler_def auction_get_handler_def answer_def reply_def split: option.split sum.split)

definition demo_state :: app_state where
  "demo_state = \<lparr>ap_exchange = exchange_new [(''a'', sample_adapter)], ap_version = [], ap_revision = [], ap_bidder_info = [], ap_bidder_params = [],
     ap_status_response = None, ap_stored_requests = stored_fetcher_empty, ap_max_request_size = 0,
     ap_accounts = [(''pub'', \<lparr>acfg_gdpr_enabled = Some True, acfg_auction_timeout_ms = None\<rparr>)], ap_currency_converter = None\<rparr>"

definition demo_pub_request :: bid_request where
  "demo_pub_request = (areq_bid_request sample_areq)\<lparr>req_site := Some (default_site\<lparr>site_publisher := Some (default_publisher\<lparr>publisher_id := Some ''pub''\<rparr>)\<rparr>)\<rparr>"

definition demo_endpoint_serde :: endpoint_serde where
  "demo_endpoint_serde = \<lparr>ed_auction = sample_serde, de_request = (\<lambda>_. Inl []), de_request_str = (\<lambda>_. Inr demo_pub_request),
     en_imp = (\<lambda>_. None), de_imp = (\<lambda>_. None)\<rparr>"

theorem consent_gate_witness:
  "hd_metrics (auction_handler demo_endpoint_serde demo_state sample_env 3 None demo_pub_request) = []
    \<and> hd_metrics (auction_get_handler demo_endpoint_serde demo_state sample_env 3 [(''request'', [])]) = []"
proof -
  have m: "consent_missing demo_state demo_pub_request"
    by (simp add: consent_missing_def account_of_def has_consent_def demo_state_def demo_pub_request_def default_site_def default_publisher_def
        sample_areq_def default_bid_request_def)
  show ?thesis
    using consent_gate [OF m, of demo_endpoint_serde sample_env 3 None sample_env 3 "[]"] by (simp add: demo_endpoint_serde_def)
qed

text \<open>
  Property C10.  The status of \<^verbatim>\<open>/openrtb2/auction\<close> on every branch: 400 for a body that is too large, a missing id, no impression, or
  both a site and an app; 200 for a request without the consent its account requires and for one with a stored auction response of
  the endpoint; otherwise, for the prepared request, 200 exactly when no early hook rejects it and either the stored response of the exchange is usable
  or, without one, the time limit, after the override by the account, is not negative, every impression, after its stored fragment is merged in, has an id
  and a media type, and no hook of the processed request rejects it, and 500 if not.  So a malformed impression is reported as an error of the server.
\<close>
theorem auction_status:
  "rep_status (hd_reply (auction_handler ed st env ms cl req)) =
    (if too_large st cl \<noteq> None \<or> req_id req = [] \<or> req_imp req = [] \<or> (req_site req \<noteq> None \<and> req_app req \<noteq> None) then 400
     else if consent_missing st req \<or> stored_response_of ed st req \<noteq> None then 200
     else let prep = process_interstitials (resolve_imp_stored_requests ed (ap_stored_requests st) (account_tmax st req))
          in if early_hooks_pass (ed_auction ed) (ap_exchange st) prep
                \<and> (case stored_auction_response (ed_auction ed) (ap_exchange st) prep of
                     Some r \<Rightarrow> is_ok r
                   | None \<Rightarrow> (case req_tmax (account_tmax st req) of Some t \<Rightarrow> 0 \<le> t | None \<Rightarrow> True)
                            \<and> list_all (\<lambda>i. imp_id i \<noteq> [] \<and> has_media i) (map (resolve_imp ed (ap_stored_requests st)) (req_imp req))
                            \<and> processed_hooks_pass (ed_auction ed) (ap_exchange st) prep)
             then 200 else 500)"
proof (cases "too_large st cl = None \<and> req_id req \<noteq> [] \<and> req_imp req \<noteq> [] \<and> (req_site req = None \<or> req_app req = None)
    \<and> \<not> consent_missing st req \<and> stored_response_of ed st req = None")
  case True
  let ?prep = "process_interstitials (resolve_imp_stored_requests ed (ap_stored_requests st) (account_tmax st req))"
  have ok: "is_ok (snd (hold_auction (ed_auction ed) (ap_exchange st) env (auction_of ?prep))) \<longleftrightarrow>
      early_hooks_pass (ed_auction ed) (ap_exchange st) ?prep
      \<and> (case stored_auction_response (ed_auction ed) (ap_exchange st) ?prep of
           Some r \<Rightarrow> is_ok r
         | None \<Rightarrow> (case req_tmax (account_tmax st req) of Some t \<Rightarrow> 0 \<le> t | None \<Rightarrow> True)
                  \<and> list_all (\<lambda>i. imp_id i \<noteq> [] \<and> has_media i) (map (resolve_imp ed (ap_stored_requests st)) (req_imp req))
                  \<and> processed_hooks_pass (ed_auction ed) (ap_exchange st) ?prep)"
    using True by (simp add: hold_auction_ok_iff check_request_None auction_of_def interstitials_imps_ok Let_def split: option.split)
  have "auction_handler ed st env ms cl req = run_openrtb2 ed st env ms ?prep"
    using True validate_bid_request_ok [of req] by (auto simp: auction_handler_def split: sum.splits)
  then have "rep_status (hd_reply (auction_handler ed st env ms cl req))
      = (if is_ok (snd (hold_auction (ed_auction ed) (ap_exchange st) env (auction_of ?prep))) then 200 else 500)"
    by (auto simp: run_openrtb2_def reply_def is_ok_def split: prod.split sum.split)
  then show ?thesis using True unfolding ok Let_def by auto
next
  case False
  then show ?thesis
    using validate_bid_request_ok [of req]
    by (auto simp: auction_handler_def answer_def reply_def split: option.splits sum.splits)
qed

theorem auction_status_witness:
  "rep_status (hd_reply (auction_handler demo_endpoint_serde demo_state sample_env 3 None
     ((areq_bid_request sample_areq)\<lparr>req_imp := [default_imp\<lparr>imp_id := ''i''\<rparr>]\<rparr>))) = 500"
proof -
  have no_stored: "stored_auction_response sd (exchange_new as) r = None" for sd "as" r
    by (simp add: stored_auction_response_def exchange_new_def split: option.split)
  show ?thesis
    by (subst auction_status)
      (simp add: no_stored demo_state_def too_large_def sample_areq_def default_bid_request_def consent_missing_def account_of_def
        stored_response_of_def account_tmax_def resolve_imp_def default_imp_def has_media_def Let_def)
qed
text \<open>The sizes offered for an interstitial.\<close>

lemma fitting_formats_take:
  "length formats < 10 \<Longrightarrow>
   fitting_formats min_w max_w min_h max_h sizes formats
     = formats @ take (10 - length formats) (map size_format (filter (\<lambda>(w, h). min_w \<le> w \<and> w \<le> max_w \<and> min_h \<le> h \<and> h \<le> max_h) sizes))"
proof (induction min_w max_w min_h max_h sizes formats rule: fitting_formats.induct)
  case (2 min_w max_w min_h max_h w h sizes formats)
  show ?case
  proof (cases "w \<ge> min_w \<and> w \<le> max_w \<and> h \<ge> min_h \<and> h \<le> max_h")
    case True
    show ?thesis
    proof (cases "length formats = 9")
      case False
      then have "10 - length formats = Suc (9 - length formats)" using 2(3) by simp
      then show ?thesis using 2 True False by (simp add: Let_def)
    qed (use True in \<open>simp add: Let_def\<close>)
  qed (use 2 in auto)
qed simp

lemma i32_wrap_id: "i32_min \<le> x \<Longrightarrow> x \<le> i32_max \<Longrightarrow> i32_wrap x = x"
  by (simp add: i32_wrap_def i32_min_def i32_max_def)

text \<open>
  Interstitial sizes.  For a banner whose largest size (its first format, or the device where that is 1x1 or absent) is
  positive, and percentages whose product with it fits in 32 bits, the formats become the first ten of the standard
  sizes that are not larger than this size and not smaller than the given percentage of it, in the order of the table;
  where no size fits the banner is left as it is.
\<close>
theorem interstitial_formats:
  assumes "max_dims dw dh b = (max_w, max_h)" "0 < max_w" "0 < max_h" "0 < wp" "0 < hp"
    and "max_w * wp \<le> i32_max" "max_h * hp \<le> i32_max"
  shows "interstitial_banner wp hp dw dh b =
    (let fits = filter (\<lambda>(w, h). max_w * wp div 100 \<le> w \<and> w \<le> max_w \<and> max_h * hp div 100 \<le> h \<and> h \<le> max_h) interstitial_sizes
     in if fits = [] then b else b\<lparr>banner_format := Some (map size_format (take 10 fits))\<rparr>)"
proof -
  have pos: "0 < max_w * wp" "0 < max_h * hp" using assms(2-5) by simp_all
  then have "i32_wrap (max_w * wp) = max_w * wp" "i32_wrap (max_h * hp) = max_h * hp"
    using assms(6, 7) by (simp_all add: i32_wrap_id i32_min_def)
  then have min: "trunc_div (i32_wrap (max_w * wp)) 100 = max_w * wp div 100" "trunc_div (i32_wrap (max_h * hp)) 100 = max_h * hp div 100"
    using pos by (simp_all add: trunc_div_def)
  show ?thesis
    using assms(1-3) by (simp add: interstitial_banner_def Let_def min fitting_formats_take take_map)
qed

theorem interstitial_formats_witness:
  "interstitial_banner 50 50 320 480 default_banner = default_banner\<lparr>banner_format :=
     Some (map size_format [(300, 250), (320, 480), (320, 250), (250, 250)])\<rparr>"
proof -
  have "interstitial_banner 50 50 320 480 default_banner =
    (let fits = filter (\<lambda>(w, h). 320 * 50 div 100 \<le> w \<and> w \<le> 320 \<and> 480 * 50 div 100 \<le> h \<and> h \<le> 480) interstitial_sizes
     in if fits = [] then default_banner else default_banner\<lparr>banner_format := Some (map size_format (take 10 fits))\<rparr>)"
    by (rule interstitial_formats) (simp_all add: max_dims_def default_banner_def i32_max_def)
  also have "filter (\<lambda>(w, h). 320 * 50 div 100 \<le> w \<and> w \<le> 320 \<and> 480 * 50 div 100 \<le> h \<and> h \<le> 480) interstitial_sizes
      = [(300, 250), (320, 480), (320, 250), (250, 250)]"
    by (simp add: interstitial_sizes_def)
  finally show ?thesis by simp
qed

text \<open>Beyond 32 bits the bound wraps: a minimum of 75 per cent of 30\,000\,000 pixels becomes negative, so that every size counts.\<close>

lemma interstitial_overflow:
  "trunc_div (i32_wrap (30000000 * 75)) 100 = -20449672"
  by (simp add: trunc_div_def i32_wrap_def i32_min_def)

section \<open>The video endpoint\<close>

definition imp_by_id :: "string \<Rightarrow> imp list \<Rightarrow> imp option" where
  "imp_by_id k is = List.find (\<lambda>i. imp_id i = k) is"

definition stored_video_imps :: "endpoint_serde \<Rightarrow> app_state \<Rightarrow> bid_request \<Rightarrow> imp list" where
  "stored_video_imps ed st req =
     (case Option.bind (Option.bind (jpath (req_jext req) [''prebid'', ''storedrequest'', ''id'']) as_str) (fetch_stored (ap_stored_requests st)) of
        Some stored \<Rightarrow> (case de_request ed stored of Inr stored_req \<Rightarrow> req_imp stored_req | Inl _ \<Rightarrow> [])
      | None \<Rightarrow> [])"

lemma retain_first_spec:
  "distinct (map imp_id (retain_first seen is))"
  "imp_id ` set (retain_first seen is) = imp_id ` set is - seen"
  "k \<notin> seen \<Longrightarrow> imp_by_id k (retain_first seen is) = imp_by_id k is"
proof (induction "is" arbitrary: seen)
  case (Cons i "is")
  { case 1 show ?case using Cons.IH(1, 2) by auto }
  { case 2 show ?case using Cons.IH(2) by auto }
  { case 3 then show ?case using Cons.IH(3) by (auto simp: imp_by_id_def) }
qed (simp_all add: imp_by_id_def)

lemma find_append: "List.find P (xs @ ys) = (case List.find P xs of Some x \<Rightarrow> Some x | None \<Rightarrow> List.find P ys)"
  by (induction xs) auto

lemma find_filter_same: "(\<And>x. P x \<Longrightarrow> Q x) \<Longrightarrow> List.find P (filter Q xs) = List.find P xs"
  by (induction xs) auto

lemma imp_by_id_None: "imp_by_id k is = None \<longleftrightarrow> k \<notin> imp_id ` set is"
  by (auto simp: imp_by_id_def find_None_iff)

lemma merged_video_imps:
  "imp_by_id k (own @ filter (\<lambda>i. imp_id i \<notin> imp_id ` set own) extra) = (case imp_by_id k own of Some i \<Rightarrow> Some i | None \<Rightarrow> imp_by_id k extra)"
proof (cases "imp_by_id k own")
  case None
  then have "k \<notin> imp_id ` set own" by (simp add: imp_by_id_None)
  then have "imp_by_id k (filter (\<lambda>i. imp_id i \<notin> imp_id ` set own) extra) = imp_by_id k extra"
    unfolding imp_by_id_def by (intro find_filter_same) auto
  then show ?thesis using None by (simp add: imp_by_id_def find_append)
qed (simp add: imp_by_id_def find_append)

lemma video_request_imps:
  "req_imp (video_request ed st req)
    = retain_first {} (req_imp req @ filter (\<lambda>i. imp_id i \<notin> imp_id ` set (req_imp req)) (stored_video_imps ed st req))"
  by (auto simp: video_request_def stored_video_imps_def merge_stored_video_def Let_def split: option.split sum.split)

text \<open>
  The impressions of a video request: after the stored request is merged in, every impression id occurs once, and the
  impression with an id is the first one of the incoming request with this id, or, where the incoming request has none,
  the first one of the stored request.
\<close>
theorem video_imps:
  "distinct (map imp_id (req_imp (video_request ed st req)))
    \<and> imp_by_id k (req_imp (video_request ed st req))
      = (case imp_by_id k (req_imp req) of Some i \<Rightarrow> Some i | None \<Rightarrow> imp_by_id k (stored_video_imps ed st req))"
  by (simp add: video_request_imps retain_first_spec merged_video_imps)

section \<open>The AMP endpoint\<close>

definition unindexable :: "json option \<Rightarrow> bool" where
  "unindexable ext = (case ext of None \<Rightarrow> False | Some e \<Rightarrow> e \<noteq> JNull \<and> \<not> is_object e)"

lemma set_if_absent_None: "set_if_absent k v ext = None \<longleftrightarrow> unindexable ext"
proof (cases ext)
  case (Some e)
  then show ?thesis by (cases e) (auto simp: set_if_absent_def unindexable_def or_default_def is_object_def Let_def)
qed (simp add: set_if_absent_def unindexable_def or_default_def Let_def)

lemma amp_keeps_user_regs [simp]:
  "req_user (amp_page p req) = req_user req" "req_regs (amp_page p req) = req_regs req"
  "req_user (amp_size p req) = req_user req" "req_regs (amp_size p req) = req_regs req"
  "req_user (amp_multi_size p req) = req_user req" "req_regs (amp_multi_size p req) = req_regs req"
  "req_user (amp_tag p req) = req_user req" "req_regs (amp_tag p req) = req_regs req"
  by (simp_all add: amp_page_def amp_size_def amp_multi_size_def amp_tag_def Let_def split: option.split)

text \<open>
  When the construction of an AMP request panics: exactly when the query gives a consent string and the stored request
  has a user extension that is neither an object nor null, or the query says whether GDPR applies and the stored request
  has such an extension of the regulations.
\<close>
theorem amp_panics_iff:
  "amp_request ed st p tag_id stored = None \<longleftrightarrow>
     nonempty (amp_gdpr_consent p) \<noteq> None \<and> unindexable (Option.bind (req_user stored) user_jext)
     \<or> amp_gdpr_applies p \<noteq> None \<and> unindexable (Option.bind (req_regs stored) regs_jext)"
proof -
  have none: "unindexable None = False" by (simp add: unindexable_def)
  have u: "user_jext (or_default default_user x) = Option.bind x user_jext" for x
    by (simp add: or_default_def default_user_def split: option.split)
  have r: "regs_jext (or_default default_regs x) = Option.bind x regs_jext" for x
    by (simp add: or_default_def default_regs_def split: option.split)
  have consent: "amp_consent p req = None \<longleftrightarrow> nonempty (amp_gdpr_consent p) \<noteq> None \<and> unindexable (Option.bind (req_user req) user_jext)" for req
    by (simp add: amp_consent_def Let_def set_if_absent_None u split: option.split)
  have regs: "req_regs req' = req_regs req" if "amp_consent p req = Some req'" for req req'
    using that by (auto simp: amp_consent_def Let_def split: option.splits)
  have gdpr: "amp_gdpr p req = None \<longleftrightarrow> amp_gdpr_applies p \<noteq> None \<and> unindexable (Option.bind (req_regs req) regs_jext)" for req
    by (simp add: amp_gdpr_def Let_def set_if_absent_None r split: option.split)
  define req where "req = amp_tag p (process_interstitials (amp_multi_size p (amp_size p (amp_page p
    (resolve_imp_stored_requests ed (ap_stored_requests st) (if req_id stored = [] then stored\<lparr>req_id := tag_id\<rparr> else stored))))))"
  have same: "req_user req = req_user stored" "req_regs req = req_regs stored" by (simp_all add: req_def)
  have "amp_request ed st p tag_id stored = None \<longleftrightarrow> Option.bind (amp_consent p req) (amp_gdpr p) = None"
    by (simp add: amp_request_def Let_def req_def)
  also have "\<dots> \<longleftrightarrow> nonempty (amp_gdpr_consent p) \<noteq> None \<and> unindexable (Option.bind (req_user stored) user_jext)
     \<or> amp_gdpr_applies p \<noteq> None \<and> unindexable (Option.bind (req_regs stored) regs_jext)"
    using consent [of req] gdpr regs same by (cases "amp_consent p req") auto
  finally show ?thesis .
qed

section \<open>VAST tracking\<close>

definition impression_cdata :: "string \<Rightarrow> string" where
  "impression_cdata tracking_url = ''<![CDATA['' @ tracking_url @ '']]>''"

text \<open>
  VAST tracking only adds: a document without a closing impression tag is unchanged; any other one is cut in two and the
  tracking URL is put in between, alone behind an opening tag or in an impression of its own behind a closing tag.
\<close>
theorem vast_only_adds:
  "case str_find close_tag vast of
     None \<Rightarrow> modify_vast_xml vast url = vast
   | Some _ \<Rightarrow> \<exists>a b. (vast = a @ open_tag @ b \<and> modify_vast_xml vast url = a @ open_tag @ impression_cdata url @ b)
                  \<or> (vast = a @ close_tag @ b \<and> modify_vast_xml vast url = a @ close_tag @ open_tag @ impression_cdata url @ close_tag @ b)"
proof (cases "str_find close_tag vast")
  case (Some ci)
  note vast = str_find_Some [OF this]
  show ?thesis
  proof (cases "\<exists>oi. str_find open_tag vast = Some oi \<and> (int ci - int oi) mod 2 ^ 64 = int (length open_tag)")
    case True
    then obtain oi where oi: "str_find open_tag vast = Some oi" "(int ci - int oi) mod 2 ^ 64 = int (length open_tag)" by blast
    have "modify_vast_xml vast url = take oi vast @ open_tag @ impression_cdata url @ drop (oi + length open_tag) vast"
      using Some oi by (simp add: modify_vast_xml_def replace_first_Some impression_cdata_def)
    then show ?thesis using str_find_Some [OF oi(1)] Some by auto
  next
    case False
    then have "modify_vast_xml vast url
        = take ci vast @ close_tag @ open_tag @ impression_cdata url @ close_tag @ drop (ci + length close_tag) vast"
      using Some by (auto simp: modify_vast_xml_def replace_first_Some impression_cdata_def split: option.split)
    then show ?thesis using vast Some by auto
  qed
qed (simp add: modify_vast_xml_def)

end
