(* ===== verification/RuleTree.thy ===== *)
theory RuleTree
  imports Prelude
begin

text \<open>
  The rules engine, \<^verbatim>\<open>rust/crates/rules/src\<close>: decision trees whose inner nodes ask a schema function for a key and whose leaves
  carry result functions that change an output; their validation and evaluation, and the built-in functions.  The children
  of a node are listed in the iteration order of their hash map.
\<close>

section \<open>Trees\<close>

datatype rules_error = NilRoot | NilSchemaFunction | Unbalanced | SchemaFunctionError string | ResultFunctionError string

record schema_function_step =
  sfs_name :: string
  sfs_result :: string

record result_function_meta =
  rfm_schema_function_results :: "schema_function_step list"
  rfm_analytics_key :: string
  rfm_rule_fired :: string
  rfm_model_version :: string

record 'c schema_function =
  sfn_name :: string
  sfn_call :: "'c \<Rightarrow> (rules_error, string) res"

record ('c, 'o) result_function =
  rfn_name :: string
  rfn_call :: "'c \<Rightarrow> result_function_meta \<Rightarrow> 'o \<Rightarrow> 'o \<times> (rules_error, unit) res"

definition append_schema_result :: "string \<Rightarrow> string \<Rightarrow> result_function_meta \<Rightarrow> result_function_meta" where
  "append_schema_result name v meta =
     meta\<lparr>rfm_schema_function_results := rfm_schema_function_results meta @ [\<lparr>sfs_name = name, sfs_result = v\<rparr>]\<rparr>"

definition append_rule_fired :: "string \<Rightarrow> result_function_meta \<Rightarrow> result_function_meta" where
  "append_rule_fired v meta =
     meta\<lparr>rfm_rule_fired := (if rfm_rule_fired meta = [] then v else rfm_rule_fired meta @ ''|'' @ v)\<rparr>"

datatype ('c, 'o) rule_node =
  RuleNode (node_schema: "'c schema_function option") (node_results: "('c, 'o) result_function list")
    (node_children: "(string \<times> ('c, 'o) rule_node) list")

definition is_leaf :: "('c, 'o) rule_node \<Rightarrow> bool" where
  "is_leaf n = (node_children n = [])"

definition match_child :: "('c, 'o) rule_node \<Rightarrow> string \<Rightarrow> (string \<times> ('c, 'o) rule_node) option" where
  "match_child n v =
     (case map_of (node_children n) v of
        Some child \<Rightarrow> Some (v, child)
      | None \<Rightarrow> (case map_of (node_children n) ''*'' of Some child \<Rightarrow> Some (''*'', child) | None \<Rightarrow> None))"

record ('c, 'o) rule_tree =
  rt_root :: "('c, 'o) rule_node option"
  rt_default_functions :: "('c, 'o) result_function list"
  rt_analytics_key :: string
  rt_model_version :: string

section \<open>Validation\<close>

text \<open>The depth of the first leaf is passed along; it is -1 before a leaf is met.\<close>

fun validate_node :: "('c, 'o) rule_node \<Rightarrow> int \<Rightarrow> int \<Rightarrow> bool \<times> int"
  and validate_children :: "(string \<times> ('c, 'o) rule_node) list \<Rightarrow> int \<Rightarrow> int \<Rightarrow> bool \<times> int" where
  "validate_node (RuleNode s rs cs) depth first_leaf_depth =
     (if cs = [] \<and> first_leaf_depth = -1 then (True, depth)
      else if cs = [] \<and> depth \<noteq> first_leaf_depth then (False, first_leaf_depth)
      else validate_children cs (depth + 1) first_leaf_depth)"
| "validate_children [] depth first_leaf_depth = (True, first_leaf_depth)"
| "validate_children ((k, child) # cs) depth first_leaf_depth =
     (case validate_node child depth first_leaf_depth of
        (True, first) \<Rightarrow> validate_children cs depth first
      | (False, first) \<Rightarrow> (False, first))"

definition tree_validate :: "('c, 'o) rule_tree \<Rightarrow> (rules_error, unit) res" where
  "tree_validate t =
     (case rt_root t of
        None \<Rightarrow> Inr ()
      | Some root \<Rightarrow> if fst (validate_node root 0 (-1)) then Inr () else Inl Unbalanced)"

section \<open>Evaluation\<close>

lemma match_child_size: "match_child n v = Some (k, child) \<Longrightarrow> size child < size n"
proof -
  assume "match_child n v = Some (k, child)"
  then have "\<exists>key. (key, child) \<in> set (node_children n)"
    by (auto simp: match_child_def dest: map_of_SomeD split: option.splits)
  then show ?thesis
    by (cases n) (auto dest!: size_list_estimation' [where f = "size_prod (\<lambda>_. 0) size" and y = "size child"])
qed

text \<open>The loop: the node it ends at, or \<^const>\<open>None\<close> when no child matches.\<close>

function walk :: "'c \<Rightarrow> ('c, 'o) rule_node \<Rightarrow> result_function_meta \<Rightarrow> (rules_error, result_function_meta \<times> ('c, 'o) rule_node option) res" where
  "walk payload node meta =
     (if is_leaf node then Inr (meta, Some node)
      else case node_schema node of
             None \<Rightarrow> Inl NilSchemaFunction
           | Some sf \<Rightarrow>
               (case sfn_call sf payload of
                  Inl e \<Rightarrow> Inl e
                | Inr v \<Rightarrow>
                    (let meta = append_schema_result (sfn_name sf) v meta
                     in case match_child node v of
                          Some (key, child) \<Rightarrow> walk payload child (append_rule_fired key meta)
                        | None \<Rightarrow> Inr (meta\<lparr>rfm_rule_fired := ''default''\<rparr>, None))))"
  by pat_completeness auto
termination
  by (relation "measure (\<lambda>(payload, node, meta). size node)") (auto dest: match_child_size)

declare walk.simps [simp del]

fun run_results :: "'c \<Rightarrow> result_function_meta \<Rightarrow> ('c, 'o) result_function list \<Rightarrow> 'o \<Rightarrow> 'o \<times> (rules_error, unit) res" where
  "run_results payload meta [] out = (out, Inr ())"
| "run_results payload meta (rf # rfs) out =
     (case rfn_call rf payload meta out of
        (out, Inr _) \<Rightarrow> run_results payload meta rfs out
      | (out, Inl e) \<Rightarrow> (out, Inl e))"

definition tree_run :: "('c, 'o) rule_tree \<Rightarrow> 'c \<Rightarrow> 'o \<Rightarrow> 'o \<times> (rules_error, result_function_meta) res" where
  "tree_run t payload out =
     (case rt_root t of
        None \<Rightarrow> (out, Inl NilRoot)
      | Some root \<Rightarrow>
          (case walk payload root \<lparr>rfm_schema_function_results = [], rfm_analytics_key = rt_analytics_key t, rfm_rule_fired = [],
                                   rfm_model_version = rt_model_version t\<rparr> of
             Inl e \<Rightarrow> (out, Inl e)
           | Inr (meta, cur) \<Rightarrow>
               (let funcs = (case cur of Some node \<Rightarrow> node_results node | None \<Rightarrow> rt_default_functions t)
                in case run_results payload meta funcs out of
                     (out, Inr _) \<Rightarrow> (out, Inr meta)
                   | (out, Inl e) \<Rightarrow> (out, Inl e))))"

definition rules_evaluate :: "('c, 'o) rule_tree \<Rightarrow> 'c \<Rightarrow> 'o \<Rightarrow> 'o \<times> (rules_error, result_function_meta) res" where
  "rules_evaluate t ctx out = tree_run t ctx out"

section \<open>Built-in functions\<close>

record request_ctx =
  rc_device_country :: string
  rc_channel :: string
  rc_device_type :: string

definition or_unknown :: "string \<Rightarrow> string" where
  "or_unknown s = (if s = [] then ''unknown'' else s)"

definition device_country_fn :: "request_ctx schema_function" where
  "device_country_fn = \<lparr>sfn_name = ''deviceCountry'', sfn_call = (\<lambda>c. Inr (or_unknown (rc_device_country c)))\<rparr>"

definition channel_fn :: "request_ctx schema_function" where
  "channel_fn = \<lparr>sfn_name = ''channel'', sfn_call = (\<lambda>c. Inr (or_unknown (rc_channel c)))\<rparr>"

definition device_type_fn :: "request_ctx schema_function" where
  "device_type_fn = \<lparr>sfn_name = ''deviceType'', sfn_call = (\<lambda>c. Inr (or_unknown (rc_device_type c)))\<rparr>"

record bidder_ctx =
  bc_excluded_bidders :: "string list"
  bc_included_bidders :: "string list"
  bc_rule_fired :: string

definition exclude_bidders_fn :: "string list \<Rightarrow> (request_ctx, bidder_ctx) result_function" where
  "exclude_bidders_fn bidders =
     \<lparr>rfn_name = ''excludeBidders'',
      rfn_call = (\<lambda>payload meta out. (out\<lparr>bc_excluded_bidders := bc_excluded_bidders out @ bidders, bc_rule_fired := rfm_rule_fired meta\<rparr>, Inr ()))\<rparr>"

definition include_bidders_fn :: "string list \<Rightarrow> (request_ctx, bidder_ctx) result_function" where
  "include_bidders_fn bidders =
     \<lparr>rfn_name = ''includeBidders'',
      rfn_call = (\<lambda>payload meta out. (out\<lparr>bc_included_bidders := bc_included_bidders out @ bidders, bc_rule_fired := rfm_rule_fired meta\<rparr>, Inr ()))\<rparr>"

section \<open>Lemmas: depths of leaves\<close>

fun leaf_depths :: "nat \<Rightarrow> ('c, 'o) rule_node \<Rightarrow> nat list"
  and leaf_depths_list :: "nat \<Rightarrow> (string \<times> ('c, 'o) rule_node) list \<Rightarrow> nat list" where
  "leaf_depths d (RuleNode s rs cs) = (if cs = [] then [d] else leaf_depths_list (Suc d) cs)"
| "leaf_depths_list d [] = []"
| "leaf_depths_list d ((k, n) # cs) = leaf_depths d n @ leaf_depths_list d cs"

lemma leaf_depths_nonempty:
  fixes n :: "('c, 'o) rule_node" and cs :: "(string \<times> ('c, 'o) rule_node) list"
  shows "leaf_depths d n \<noteq> []" "cs \<noteq> [] \<Longrightarrow> leaf_depths_list d cs \<noteq> []"
  by (induction d n and d cs rule: leaf_depths_leaf_depths_list.induct) auto

text \<open>The depth passed along is that of the first leaf, and the check fails at the first leaf at another depth.\<close>

definition first_of :: "int \<Rightarrow> nat list \<Rightarrow> int" where
  "first_of f ds = (if f = -1 \<and> ds \<noteq> [] then int (hd ds) else f)"

definition all_at :: "int \<Rightarrow> nat list \<Rightarrow> bool" where
  "all_at f ds = list_all (\<lambda>d. int d = f) ds"

lemma first_of_append: "-1 \<le> f \<Longrightarrow> first_of (first_of f ds) es = first_of f (ds @ es)"
  by (auto simp: first_of_def)

lemma all_at_append: "all_at f (ds @ es) \<longleftrightarrow> all_at f ds \<and> all_at f es"
  by (simp add: all_at_def)

lemma validate_spec:
  fixes n :: "('c, 'o) rule_node" and cs :: "(string \<times> ('c, 'o) rule_node) list"
  shows "-1 \<le> f \<Longrightarrow> fst (validate_node n (int d) f) = all_at (first_of f (leaf_depths d n)) (leaf_depths d n)
     \<and> (fst (validate_node n (int d) f) \<longrightarrow> snd (validate_node n (int d) f) = first_of f (leaf_depths d n))"
  "-1 \<le> f \<Longrightarrow> fst (validate_children cs (int d) f) = all_at (first_of f (leaf_depths_list d cs)) (leaf_depths_list d cs)
     \<and> (fst (validate_children cs (int d) f) \<longrightarrow> snd (validate_children cs (int d) f) = first_of f (leaf_depths_list d cs))"
proof (induction d n and d cs arbitrary: f and f rule: leaf_depths_leaf_depths_list.induct)
  case (1 d s rs cs)
  then show ?case by (auto simp: all_at_def first_of_def add.commute)
next
  case (2 d)
  then show ?case by (simp add: all_at_def first_of_def)
next
  case (3 d k n cs)
  let ?first = "first_of f (leaf_depths d n)"
  have ge: "-1 \<le> ?first" using 3(3) by (simp add: first_of_def)
  have firsts: "first_of ?first (leaf_depths_list d cs) = first_of f (leaf_depths d n @ leaf_depths_list d cs)"
    using first_of_append 3(3) by simp
  have same: "first_of f (leaf_depths d n @ leaf_depths_list d cs) = ?first"
    using leaf_depths_nonempty(1) [of d n] by (simp add: first_of_def)
  show ?case
  proof (cases "fst (validate_node n (int d) f)")
    case True
    then have "validate_node n (int d) f = (True, ?first)" using 3(1) [OF 3(3)] by (metis prod.collapse)
    then show ?thesis using 3(1) [OF 3(3)] 3(2) [OF ge] firsts same True by (simp add: all_at_append)
  next
    case False
    then have "\<exists>x. validate_node n (int d) f = (False, x)" by (metis prod.collapse)
    then show ?thesis using 3(1) [OF 3(3)] same False by (auto simp: all_at_append)
  qed
qed

section \<open>Lemmas: the way to a leaf\<close>

text \<open>The steps of an evaluation as a relation: the keys taken and the calls made on the way from a node to the node where
  it stops, which is \<^const>\<open>None\<close> when the value of the last call matches no child.\<close>

inductive descends :: "'c \<Rightarrow> ('c, 'o) rule_node \<Rightarrow> string list \<Rightarrow> schema_function_step list \<Rightarrow> ('c, 'o) rule_node option \<Rightarrow> bool" for payload where
  at_leaf: "is_leaf n \<Longrightarrow> descends payload n [] [] (Some n)"
| no_match: "\<not> is_leaf n \<Longrightarrow> node_schema n = Some sf \<Longrightarrow> sfn_call sf payload = Inr v \<Longrightarrow> match_child n v = None
    \<Longrightarrow> descends payload n [] [\<lparr>sfs_name = sfn_name sf, sfs_result = v\<rparr>] None"
| step: "\<not> is_leaf n \<Longrightarrow> node_schema n = Some sf \<Longrightarrow> sfn_call sf payload = Inr v \<Longrightarrow> match_child n v = Some (key, child)
    \<Longrightarrow> descends payload child keys steps goal
    \<Longrightarrow> descends payload n (key # keys) (\<lparr>sfs_name = sfn_name sf, sfs_result = v\<rparr> # steps) goal"

inductive_cases descends_leafE: "descends payload n keys steps (Some m)"

definition fired :: "string \<Rightarrow> string list \<Rightarrow> string" where
  "fired s keys = join_str ''|'' (dropWhile (\<lambda>k. k = []) (s # keys))"

definition meta_after :: "string list \<Rightarrow> schema_function_step list \<Rightarrow> ('c, 'o) rule_node option \<Rightarrow> result_function_meta \<Rightarrow> result_function_meta" where
  "meta_after keys steps goal meta =
     meta\<lparr>rfm_schema_function_results := rfm_schema_function_results meta @ steps,
          rfm_rule_fired := (if goal = None then ''default'' else fired (rfm_rule_fired meta) keys)\<rparr>"

lemma fired_Cons: "fired (if s = [] then k else s @ ''|'' @ k) keys = fired s (k # keys)"
  by (cases keys) (auto simp: fired_def)

lemma meta_after_step:
  "meta_after keys steps goal (append_rule_fired key (append_schema_result name v meta))
    = meta_after (key # keys) (\<lparr>sfs_name = name, sfs_result = v\<rparr> # steps) goal meta"
  using fired_Cons [of "rfm_rule_fired meta" key keys]
  by (cases "rfm_rule_fired meta = []") (simp_all add: meta_after_def append_rule_fired_def append_schema_result_def)

lemma walk_descends:
  "walk payload n meta = Inr (meta', goal) \<longleftrightarrow> (\<exists>keys steps. descends payload n keys steps goal \<and> meta' = meta_after keys steps goal meta)"
proof
  show "\<exists>keys steps. descends payload n keys steps goal \<and> meta' = meta_after keys steps goal meta" if "walk payload n meta = Inr (meta', goal)"
    using that
  proof (induction payload n meta rule: walk.induct)
    case (1 payload n meta)
    show ?case
    proof (cases "is_leaf n")
      case True
      then have "descends payload n [] [] goal" "meta' = meta_after [] [] goal meta"
        using 1(2) at_leaf [OF True] by (auto simp: walk.simps meta_after_def fired_def)
      then show ?thesis by blast
    next
      case False
      then obtain sf v where sf: "node_schema n = Some sf" "sfn_call sf payload = Inr v"
        using 1(2) by (auto simp: walk.simps split: option.splits sum.splits)
      show ?thesis
      proof (cases "match_child n v")
        case None
        then have "descends payload n [] [\<lparr>sfs_name = sfn_name sf, sfs_result = v\<rparr>] goal"
          "meta' = meta_after [] [\<lparr>sfs_name = sfn_name sf, sfs_result = v\<rparr>] goal meta"
          using 1(2) False sf no_match [OF False sf None]
          by (simp_all add: walk.simps [of payload n] append_schema_result_def meta_after_def Let_def)
        then show ?thesis by blast
      next
        case (Some kc)
        obtain key child where kc: "kc = (key, child)" by force
        let ?meta = "append_rule_fired key (append_schema_result (sfn_name sf) v meta)"
        have "walk payload child ?meta = Inr (meta', goal)"
          using 1(2) False sf Some kc by (simp add: walk.simps [of payload n] Let_def)
        then obtain keys steps where IH: "descends payload child keys steps goal" "meta' = meta_after keys steps goal ?meta"
          using 1(1) [OF False sf(1) sf(2) refl _ kc [symmetric]] Some kc by auto
        then show ?thesis using step [OF False sf _ IH(1)] Some kc meta_after_step by blast
      qed
    qed
  qed
next
  have "walk payload n meta = Inr (meta_after keys steps goal meta, goal)" if "descends payload n keys steps goal" for keys steps meta
    using that
  proof (induction arbitrary: meta rule: descends.induct)
    case (at_leaf n)
    then show ?case by (simp add: walk.simps meta_after_def fired_def)
  next
    case (no_match n sf v)
    then show ?case by (simp add: walk.simps [of payload n] meta_after_def append_schema_result_def Let_def)
  next
    case (step n sf v key child keys steps goal)
    then show ?case by (simp add: walk.simps [of payload n] meta_after_step Let_def)
  qed
  then show "\<exists>keys steps. descends payload n keys steps goal \<and> meta' = meta_after keys steps goal meta \<Longrightarrow> walk payload n meta = Inr (meta', goal)"
    by blast
qed

lemma leaf_depths_child: "(k, child) \<in> set cs \<Longrightarrow> set (leaf_depths d child) \<subseteq> set (leaf_depths_list d cs)"
  by (induction cs) auto

lemma descends_depth:
  "descends payload n keys steps goal \<Longrightarrow> goal \<noteq> None \<Longrightarrow> length steps = length keys \<and> d + length keys \<in> set (leaf_depths d n)"
proof (induction arbitrary: d rule: descends.induct)
  case (at_leaf n)
  then show ?case by (cases n) (simp add: is_leaf_def)
next
  case (step n sf v key child keys steps goal)
  have "\<exists>k. (k, child) \<in> set (node_children n)"
    using step(4) by (auto simp: match_child_def dest: map_of_SomeD split: option.splits)
  then have "set (leaf_depths (Suc d) child) \<subseteq> set (leaf_depths d n)"
    using leaf_depths_child step(1) by (cases n) (fastforce simp: is_leaf_def)
  then show ?case using step(6) [OF step(7), of "Suc d"] by auto
qed simp

lemma all_at_first: "ds \<noteq> [] \<Longrightarrow> all_at (first_of (-1) ds) ds \<longleftrightarrow> (\<exists>d. set ds = {d})"
  by (cases ds) (auto simp: all_at_def first_of_def list_all_iff)

section \<open>Properties\<close>

text \<open>
  Property C17.  Validation accepts a tree exactly when all its leaves have one depth, whatever the order in which the children of its nodes
  are visited; a tree without a root is accepted.
\<close>
theorem validate_balanced:
  "tree_validate t = (case rt_root t of
     None \<Rightarrow> Inr ()
   | Some root \<Rightarrow> if (\<exists>d. set (leaf_depths 0 root) = {d}) then Inr () else Inl Unbalanced)"
proof (cases "rt_root t")
  case (Some root)
  then show ?thesis
    using validate_spec(1) [of "-1" root 0] all_at_first [OF leaf_depths_nonempty(1), of 0 root] by (simp add: tree_validate_def)
qed (simp add: tree_validate_def)

text \<open>
  Property C16.  Evaluation of a rule tree.  It always comes to an end, and where no schema function is missing or fails, its result is given by the way from the
  root: the result functions of the leaf it reaches are run in order, or the default functions when a value matches neither
  a child nor the wildcard; the record of the run lists each schema function called with its value, and names the rule by the keys taken,
  joined by bars (\<^verbatim>\<open>default\<close> when nothing matched).  In a tree that validates, each rule that fires has called as many
  schema functions as the tree is deep.
\<close>
theorem tree_run_spec:
  assumes "rt_root t = Some root" "descends payload root keys steps goal"
  shows "tree_run t payload out =
      (let meta = \<lparr>rfm_schema_function_results = steps, rfm_analytics_key = rt_analytics_key t,
                   rfm_rule_fired = (if goal = None then ''default'' else fired [] keys), rfm_model_version = rt_model_version t\<rparr>
       in case run_results payload meta (case goal of Some leaf \<Rightarrow> node_results leaf | None \<Rightarrow> rt_default_functions t) out of
            (out', Inr _) \<Rightarrow> (out', Inr meta)
          | (out', Inl e) \<Rightarrow> (out', Inl e))
    \<and> (goal \<noteq> None \<and> tree_validate t = Inr () \<longrightarrow> set (leaf_depths 0 root) = {length steps})"
proof
  have "walk payload root meta = Inr (meta_after keys steps goal meta, goal)" for meta
    using walk_descends [of payload root meta "meta_after keys steps goal meta" goal] assms(2) by blast
  then show "tree_run t payload out =
      (let meta = \<lparr>rfm_schema_function_results = steps, rfm_analytics_key = rt_analytics_key t,
                   rfm_rule_fired = (if goal = None then ''default'' else fired [] keys), rfm_model_version = rt_model_version t\<rparr>
       in case run_results payload meta (case goal of Some leaf \<Rightarrow> node_results leaf | None \<Rightarrow> rt_default_functions t) out of
            (out', Inr _) \<Rightarrow> (out', Inr meta)
          | (out', Inl e) \<Rightarrow> (out', Inl e))"
    using assms(1) by (simp add: tree_run_def meta_after_def Let_def)
  have "0 + length keys \<in> set (leaf_depths 0 root)" "length steps = length keys" if "goal \<noteq> None"
    using descends_depth [OF assms(2) that, of 0] by auto
  then show "goal \<noteq> None \<and> tree_validate t = Inr () \<longrightarrow> set (leaf_depths 0 root) = {length steps}"
    using validate_spec(1) [of "-1" root 0] all_at_first [OF leaf_depths_nonempty(1), of 0 root] assms(1)
    by (auto simp: tree_validate_def split: if_splits)
qed

text \<open>A tree that excludes one bidder in one country.\<close>

definition demo_leaf :: "(request_ctx, bidder_ctx) rule_node" where
  "demo_leaf = RuleNode None [exclude_bidders_fn [''b'']] []"

definition demo_tree :: "(request_ctx, bidder_ctx) rule_tree" where
  "demo_tree = \<lparr>rt_root = Some (RuleNode (Some device_country_fn) [] [(''US'', demo_leaf)]), rt_default_functions = [],
     rt_analytics_key = ''a'', rt_model_version = ''1''\<rparr>"

definition demo_us :: request_ctx where
  "demo_us = \<lparr>rc_device_country = ''US'', rc_channel = [], rc_device_type = []\<rparr>"

theorem tree_run_spec_witness:
  "tree_run demo_tree demo_us \<lparr>bc_excluded_bidders = [], bc_included_bidders = [], bc_rule_fired = []\<rparr>
    = (\<lparr>bc_excluded_bidders = [''b''], bc_included_bidders = [], bc_rule_fired = ''US''\<rparr>,
       Inr \<lparr>rfm_schema_function_results = [\<lparr>sfs_name = ''deviceCountry'', sfs_result = ''US''\<rparr>], rfm_analytics_key = ''a'',
            rfm_rule_fired = ''US'', rfm_model_version = ''1''\<rparr>)"
proof -
  let ?root = "RuleNode (Some device_country_fn) [] [(''US'', demo_leaf)]"
  have "descends demo_us ?root [''US''] [\<lparr>sfs_name = sfn_name device_country_fn, sfs_result = ''US''\<rparr>] (Some demo_leaf)"
    by (rule step [where child = demo_leaf])
      (auto intro: at_leaf simp: is_leaf_def device_country_fn_def or_unknown_def demo_us_def match_child_def demo_leaf_def)
  then have "descends demo_us (the (rt_root demo_tree)) [''US''] [\<lparr>sfs_name = sfn_name device_country_fn, sfs_result = ''US''\<rparr>] (Some demo_leaf)"
    by (simp add: demo_tree_def)
  from tree_run_spec [OF _ this, of demo_tree "\<lparr>bc_excluded_bidders = [], bc_included_bidders = [], bc_rule_fired = []\<rparr>"]
  show ?thesis
    by (simp add: Let_def demo_leaf_def exclude_bidders_fn_def device_country_fn_def fired_def demo_tree_def)
qed

end
