(* ===== verification/MacroResolver.thy ===== *)
theory MacroResolver
  imports Prelude
begin

text \<open>
  The macro crate, \<^verbatim>\<open>rust/crates/macros/src/lib.rs\<close>: the values available to macros, custom macros with their length limit, and
  the replacement of \<^verbatim>\<open>##KEY##\<close> tokens in a template.
\<close>

section \<open>The context\<close>

record macro_context =
  mx_bid_id :: "string option"
  mx_app_bundle :: "string option"
  mx_domain :: "string option"
  mx_pub_domain :: "string option"
  mx_page_url :: "string option"
  mx_account_id :: "string option"
  mx_limit_ad_tracking :: "string option"
  mx_gdpr_consent :: "string option"
  mx_bidder :: "string option"
  mx_integration :: "string option"
  mx_vast_creative_id :: "string option"
  mx_timestamp :: "string option"
  mx_auction_id :: "string option"
  mx_channel :: "string option"
  mx_event_type :: "string option"
  mx_vast_event :: "string option"
  mx_custom :: "(string \<times> string) list"

definition macro_context_new :: macro_context where
  "macro_context_new = \<lparr>mx_bid_id = None, mx_app_bundle = None, mx_domain = None, mx_pub_domain = None, mx_page_url = None, mx_account_id = None,
     mx_limit_ad_tracking = None, mx_gdpr_consent = None, mx_bidder = None, mx_integration = None, mx_vast_creative_id = None,
     mx_timestamp = None, mx_auction_id = None, mx_channel = None, mx_event_type = None, mx_vast_event = None, mx_custom = []\<rparr>"

definition custom_macro_length :: nat where
  "custom_macro_length = 100"

definition truncate_chars :: "string \<Rightarrow> nat \<Rightarrow> string" where
  "truncate_chars s max_chars = (let chars = utf8_chars s in if length chars < max_chars then s else concat (take max_chars chars))"

definition set_custom :: "string \<Rightarrow> string \<Rightarrow> macro_context \<Rightarrow> macro_context" where
  "set_custom key v c = c\<lparr>mx_custom := hm_insert key (truncate_chars v custom_macro_length) (mx_custom c)\<rparr>"

definition custom_macro_prefix :: string where
  "custom_macro_prefix = ''PBS-MACRO-''"

definition macro_get :: "macro_context \<Rightarrow> string \<Rightarrow> string option" where
  "macro_get c key =
     (if key = ''PBS-BIDID'' then mx_bid_id c
      else if key = ''PBS-APPBUNDLE'' then mx_app_bundle c
      else if key = ''PBS-DOMAIN'' then mx_domain c
      else if key = ''PBS-PUBDOMAIN'' then mx_pub_domain c
      else if key = ''PBS-PAGEURL'' then mx_page_url c
      else if key = ''PBS-ACCOUNTID'' then mx_account_id c
      else if key = ''PBS-LIMITADTRACKING'' then mx_limit_ad_tracking c
      else if key = ''PBS-GDPRCONSENT'' then mx_gdpr_consent c
      else if key = ''PBS-BIDDER'' then mx_bidder c
      else if key = ''PBS-INTEGRATION'' then mx_integration c
      else if key = ''PBS-VASTCRTID'' then mx_vast_creative_id c
      else if key = ''PBS-TIMESTAMP'' then mx_timestamp c
      else if key = ''PBS-AUCTIONID'' then mx_auction_id c
      else if key = ''PBS-CHANNEL'' then mx_channel c
      else if key = ''PBS-EVENTTYPE'' then mx_event_type c
      else if key = ''PBS-VASTEVENT'' then mx_vast_event c
      else if is_prefix custom_macro_prefix key then map_of (mx_custom c) (drop (length custom_macro_prefix) key)
      else None)"

section \<open>Replacement\<close>

definition delim :: string where
  "delim = ''##''"

definition token_value :: "macro_context \<Rightarrow> string \<Rightarrow> string" where
  "token_value c key = (case macro_get c key of Some v \<Rightarrow> v | None \<Rightarrow> delim @ key @ delim)"

function resolve_loop :: "macro_context \<Rightarrow> string \<Rightarrow> string \<Rightarrow> string" where
  "resolve_loop c rest out =
     (case str_find delim rest of
        None \<Rightarrow> out @ rest
      | Some start \<Rightarrow>
          (let out = out @ take start rest;
               after_start = drop (start + length delim) rest
           in case str_find delim after_start of
                Some e \<Rightarrow> resolve_loop c (drop (e + length delim) after_start) (out @ token_value c (take e after_start))
              | None \<Rightarrow> out @ delim @ after_start))"
  by pat_completeness auto

termination
  by (relation "measure (\<lambda>(c, rest, out). length rest)") (auto dest!: str_find_length simp: delim_def)

declare resolve_loop.simps [simp del]

definition resolve :: "macro_context \<Rightarrow> string \<Rightarrow> string" where
  "resolve c template = resolve_loop c template []"

section \<open>Lemmas\<close>

lemma str_find_delim: "CHR ''#'' \<notin> set l \<Longrightarrow> str_find delim (l @ delim @ r) = Some (length l)"
  by (induction l) (auto simp: delim_def)

lemma str_find_no_delim: "CHR ''#'' \<notin> set l \<Longrightarrow> str_find delim l = None"
  by (induction l) (auto simp: delim_def)

definition segment_text :: "string \<times> string \<Rightarrow> string" where
  "segment_text lk = fst lk @ delim @ snd lk @ delim"

definition plain_segment :: "string \<times> string \<Rightarrow> bool" where
  "plain_segment lk \<longleftrightarrow> CHR ''#'' \<notin> set (fst lk) \<and> CHR ''#'' \<notin> set (snd lk)"

lemma resolve_segments:
  "list_all plain_segment segs \<Longrightarrow>
   resolve_loop c (concat (map segment_text segs) @ rest) out = resolve_loop c rest (out @ concat (map (\<lambda>(l, k). l @ token_value c k) segs))"
proof (induction segs arbitrary: out)
  case (Cons lk segs)
  obtain l k where lk: "lk = (l, k)" by force
  have l: "CHR ''#'' \<notin> set l" "CHR ''#'' \<notin> set k" using Cons.prems lk by (simp_all add: plain_segment_def)
  let ?rest = "concat (map segment_text segs) @ rest"
  have "resolve_loop c (l @ delim @ k @ delim @ ?rest) out = resolve_loop c ?rest (out @ l @ token_value c k)"
    by (subst resolve_loop.simps) (simp add: str_find_delim [OF l(1)] str_find_delim [OF l(2)] Let_def)
  moreover have "segment_text lk = l @ delim @ k @ delim" by (simp add: segment_text_def lk)
  ultimately show ?case using Cons lk by simp
qed simp

section \<open>Properties\<close>

text \<open>
  Replacing macros in a template.  For a template of texts and tokens without hash signs of their own, the result is the
  texts with the value of each token in its place, and the token itself where its key is unknown; the values are not
  scanned again, and an opening delimiter that is never closed is kept.
\<close>
theorem resolve_spec:
  assumes "list_all plain_segment segs" "CHR ''#'' \<notin> set tail" "CHR ''#'' \<notin> set open_text"
  shows "resolve c (concat (map segment_text segs) @ tail) = concat (map (\<lambda>(l, k). l @ token_value c k) segs) @ tail
    \<and> resolve c (concat (map segment_text segs) @ tail @ delim @ open_text)
       = concat (map (\<lambda>(l, k). l @ token_value c k) segs) @ tail @ delim @ open_text"
proof -
  have "resolve_loop c tail out = out @ tail" for out
    by (subst resolve_loop.simps) (simp add: str_find_no_delim [OF assms(2)])
  moreover have "resolve_loop c (tail @ delim @ open_text) out = out @ tail @ delim @ open_text" for out
    by (subst resolve_loop.simps) (simp add: str_find_delim [OF assms(2)] str_find_no_delim [OF assms(3)] Let_def)
  ultimately show ?thesis by (simp add: resolve_def resolve_segments [OF assms(1)])
qed

theorem resolve_spec_witness:
  "resolve (macro_context_new\<lparr>mx_bidder := Some ''##X##''\<rparr>) ''a=##PBS-BIDDER##&b=##Y##.'' = ''a=##X##&b=##Y##.''"
  using resolve_spec [of "[(''a='', ''PBS-BIDDER''), (''&b='', ''Y'')]" "''.''" "[]" "macro_context_new\<lparr>mx_bidder := Some ''##X##''\<rparr>"]
  by (simp add: plain_segment_def segment_text_def token_value_def delim_def macro_get_def custom_macro_prefix_def macro_context_new_def)

end
