(* ===== verification/VastInjector.thy ===== *)
theory VastInjector
  imports Prelude "HOL-Library.Sublist"
begin

text \<open>
  Injection of trackers into VAST, \<^verbatim>\<open>rust/crates/exchange/src/injector.rs\<close>: a scan of the document tag by tag that keeps what it reads and adds
  tracking elements at certain tags.  \<open>lower\<close> is \<^verbatim>\<open>str::to_lowercase\<close>, whose table is that of the Unicode standard, and \<open>ord\<close> the
  iteration order of the map of tracking events.  The identifier of the creative is read by slicing the tag at a position
  found in its lower-case form, which panics where that is not a character boundary: then the result is \<^const>\<open>None\<close>.
\<close>

section \<open>Events\<close>

record vast_events =
  ve_errors :: "string list"
  ve_impressions :: "string list"
  ve_video_clicks :: "string list"
  ve_non_linear_click_tracking :: "string list"
  ve_companion_click_through :: "string list"
  ve_tracking_events :: "(string \<times> string list) list"

definition vast_events_default :: vast_events where
  "vast_events_default = \<lparr>ve_errors = [], ve_impressions = [], ve_video_clicks = [], ve_non_linear_click_tracking = [],
     ve_companion_click_through = [], ve_tracking_events = []\<rparr>"

record injection_state =
  is_inject_tracker :: bool
  is_inject_video_clicks :: bool
  is_inline_wrapper_tag_found :: bool
  is_wrapper_tag_found :: bool
  is_impression_tag_found :: bool
  is_error_tag_found :: bool
  is_creative_id :: string
  is_is_creative :: bool
  is_companion_tag_found :: bool
  is_non_linear_tag_found :: bool

definition injection_state_default :: injection_state where
  "injection_state_default = \<lparr>is_inject_tracker = False, is_inject_video_clicks = False, is_inline_wrapper_tag_found = False,
     is_wrapper_tag_found = False, is_impression_tag_found = False, is_error_tag_found = False, is_creative_id = [],
     is_is_creative = False, is_companion_tag_found = False, is_non_linear_tag_found = False\<rparr>"

section \<open>Tracking elements\<close>

text \<open>What each helper appends to the output.\<close>

definition wrapped :: "string \<Rightarrow> string \<Rightarrow> string list \<Rightarrow> string" where
  "wrapped start_tag end_tag urls = concat (map (\<lambda>u. start_tag @ u @ end_tag) urls)"

definition in_parent :: "bool \<Rightarrow> string \<Rightarrow> string \<Rightarrow> string \<Rightarrow> string" where
  "in_parent add_parent_tag start_tag end_tag s = (if add_parent_tag then start_tag @ s @ end_tag else s)"

definition add_tracking_event :: "(string list \<Rightarrow> string list) \<Rightarrow> vast_events \<Rightarrow> bool \<Rightarrow> string" where
  "add_tracking_event ord ev add_parent_tag =
     (if ve_tracking_events ev = [] then []
      else in_parent add_parent_tag ''<TrackingEvents>'' ''</TrackingEvents>''
             (concat (map (\<lambda>(event_type, urls).
                concat (map (\<lambda>u. ''<Tracking event='' @ [CHR 0x22] @ event_type @ [CHR 0x22] @ ''><![CDATA['' @ u @ '']]></Tracking>'') urls))
                (hm_iter ord (ve_tracking_events ev)))))"

definition add_click_tracking_event :: "vast_events \<Rightarrow> bool \<Rightarrow> string" where
  "add_click_tracking_event ev add_parent_tag =
     (if ve_video_clicks ev = [] then []
      else in_parent add_parent_tag ''<VideoClicks>'' ''</VideoClicks>''
             (wrapped ''<ClickTracking><![CDATA['' '']]></ClickTracking>'' (ve_video_clicks ev)))"

definition add_impression_tracking_event :: "vast_events \<Rightarrow> string" where
  "add_impression_tracking_event ev = wrapped ''<Impression><![CDATA['' '']]></Impression>'' (ve_impressions ev)"

definition add_error_tracking_event :: "vast_events \<Rightarrow> string" where
  "add_error_tracking_event ev = wrapped ''<Error><![CDATA['' '']]></Error>'' (ve_errors ev)"

definition add_non_linear_click_tracking_event :: "vast_events \<Rightarrow> bool \<Rightarrow> string" where
  "add_non_linear_click_tracking_event ev add_parent_tag =
     (if ve_non_linear_click_tracking ev = [] then []
      else in_parent add_parent_tag ''<NonLinear>'' ''</NonLinear>''
             (wrapped ''<NonLinearClickTracking><![CDATA['' '']]></NonLinearClickTracking>'' (ve_non_linear_click_tracking ev)))"

definition add_companion_click_through_event :: "vast_events \<Rightarrow> bool \<Rightarrow> string" where
  "add_companion_click_through_event ev add_parent_tag =
     (if ve_companion_click_through ev = [] then []
      else in_parent add_parent_tag ''<Companion>'' ''</Companion>''
             (wrapped ''<CompanionClickThrough><![CDATA['' '']]></CompanionClickThrough>'' (ve_companion_click_through ev)))"

section \<open>Tags\<close>

text \<open>A slice from a position to the end; off a character boundary it panics.\<close>

definition slice_from :: "string \<Rightarrow> nat \<Rightarrow> string option" where
  "slice_from s n = (if n = length s \<or> (n < length s \<and> \<not> is_cont_byte (s ! n)) then Some (drop n s) else None)"

definition extract_attribute :: "(string \<Rightarrow> string) \<Rightarrow> string \<Rightarrow> string \<Rightarrow> string option option" where
  "extract_attribute lower tag attr_name =
     (let pattern = lower attr_name @ ''=''
      in case str_find pattern (lower tag) of
           None \<Rightarrow> Some None
         | Some pos \<Rightarrow>
             (case slice_from tag (pos + length pattern) of
                None \<Rightarrow> None
              | Some after_eq \<Rightarrow>
                  (case after_eq of
                     [] \<Rightarrow> Some None
                   | q # cs \<Rightarrow>
                       if q = CHR 0x22 \<or> q = CHR 0x27
                       then Some (if q \<in> set cs then Some (takeWhile (\<lambda>c. c \<noteq> q) cs) else None)
                       else Some None)))"

definition handle_start_tag ::
  "(string \<Rightarrow> string) \<Rightarrow> (string list \<Rightarrow> string list) \<Rightarrow> vast_events \<Rightarrow> string \<Rightarrow> injection_state \<Rightarrow> (injection_state \<times> string) option" where
  "handle_start_tag lower ord ev tag st =
     (let tag_lower = lower tag
      in if str_contains ''<wrapper'' tag_lower then Some (st\<lparr>is_wrapper_tag_found := True\<rparr>, tag)
         else if str_contains ''<creative'' tag_lower
         then map_option (\<lambda>adid. (st\<lparr>is_is_creative := True, is_creative_id := (case adid of None \<Rightarrow> [] | Some a \<Rightarrow> a)\<rparr>, tag))
                (extract_attribute lower tag ''adid'')
         else if str_contains ''<linear'' tag_lower \<and> \<not> str_contains ''<nonlinear'' tag_lower
         then Some (st\<lparr>is_inject_video_clicks := True, is_inject_tracker := True\<rparr>, tag)
         else if str_contains ''<videoclicks'' tag_lower
         then Some (st\<lparr>is_inject_video_clicks := False\<rparr>, tag @ add_click_tracking_event ev False)
         else if str_contains ''<nonlinearads'' tag_lower then Some (st\<lparr>is_inject_tracker := True\<rparr>, tag)
         else if str_contains ''<trackingevents'' tag_lower \<and> is_is_creative st
         then Some (st\<lparr>is_inject_tracker := False\<rparr>, tag @ add_tracking_event ord ev False)
         else Some (st, tag))"

definition handle_end_tag ::
  "(string \<Rightarrow> string) \<Rightarrow> (string list \<Rightarrow> string list) \<Rightarrow> vast_events \<Rightarrow> string \<Rightarrow> injection_state \<Rightarrow> injection_state \<times> string" where
  "handle_end_tag lower ord ev tag st =
     (let tag_lower = lower tag
      in if str_contains ''</impression'' tag_lower
         then (st\<lparr>is_impression_tag_found := True\<rparr>, tag @ (if is_impression_tag_found st then [] else add_impression_tracking_event ev))
         else if str_contains ''</error'' tag_lower
         then (st\<lparr>is_error_tag_found := True\<rparr>, tag @ (if is_error_tag_found st then [] else add_error_tracking_event ev))
         else if str_contains ''</nonlinearads'' tag_lower
         then (st\<lparr>is_inject_tracker := False\<rparr>,
               (if is_inject_tracker st then add_tracking_event ord ev True @ add_non_linear_click_tracking_event ev False else []) @ tag)
         else if str_contains ''</linear'' tag_lower \<and> \<not> str_contains ''</nonlinear'' tag_lower
         then (st\<lparr>is_inject_video_clicks := False, is_inject_tracker := False\<rparr>,
               (if is_inject_video_clicks st then add_click_tracking_event ev True else [])
               @ (if is_inject_tracker st then add_tracking_event ord ev True else []) @ tag)
         else if str_contains ''</inline'' tag_lower \<or> str_contains ''</wrapper'' tag_lower
         then (st\<lparr>is_inline_wrapper_tag_found := True\<rparr>,
               (if is_impression_tag_found st then [] else add_impression_tracking_event ev)
               @ (if is_error_tag_found st then [] else add_error_tracking_event ev) @ tag)
         else if str_contains ''</nonlinear>'' tag_lower
         then (st\<lparr>is_non_linear_tag_found := True\<rparr>, add_non_linear_click_tracking_event ev False @ tag)
         else if str_contains ''</companion>'' tag_lower
         then (st\<lparr>is_companion_tag_found := True\<rparr>, add_companion_click_through_event ev False @ tag)
         else if str_contains ''</companionads'' tag_lower
         then (st, (if \<not> is_companion_tag_found st \<and> is_wrapper_tag_found st then add_companion_click_through_event ev True else []) @ tag)
         else if str_contains ''</creative'' tag_lower then (st\<lparr>is_is_creative := False\<rparr>, tag)
         else (st, tag))"

text \<open>The choice between the two.\<close>

definition handle_tag ::
  "(string \<Rightarrow> string) \<Rightarrow> (string list \<Rightarrow> string list) \<Rightarrow> vast_events \<Rightarrow> string \<Rightarrow> injection_state \<Rightarrow> (injection_state \<times> string) option" where
  "handle_tag lower ord ev tag st =
     (if is_prefix ''</'' tag then Some (handle_end_tag lower ord ev tag st) else handle_start_tag lower ord ev tag st)"

section \<open>The scan\<close>

text \<open>The loop over the rest of the document.\<close>

function scan_vast ::
  "(string \<Rightarrow> string) \<Rightarrow> (string list \<Rightarrow> string list) \<Rightarrow> vast_events \<Rightarrow> string \<Rightarrow> injection_state \<Rightarrow> string \<Rightarrow> (injection_state \<times> string) option" where
  "scan_vast lower ord ev rest st out =
     (case rest of
        [] \<Rightarrow> Some (st, out)
      | c # cs \<Rightarrow>
          if c = CHR ''<''
          then if CHR ''>'' \<in> set rest
               then let tag = takeWhile (\<lambda>x. x \<noteq> CHR ''>'') rest @ ''>'';
                        rest' = tl (dropWhile (\<lambda>x. x \<noteq> CHR ''>'') rest)
                    in case handle_tag lower ord ev tag st of
                         None \<Rightarrow> None
                       | Some (st, o1) \<Rightarrow> scan_vast lower ord ev rest' st (out @ o1)
               else Some (st, out @ rest)
          else scan_vast lower ord ev (dropWhile (\<lambda>x. x \<noteq> CHR ''<'') rest) st (out @ takeWhile (\<lambda>x. x \<noteq> CHR ''<'') rest))"
  by pat_completeness auto

termination
  by (relation "measure (\<lambda>(lower, ord, ev, rest, st, out). length rest)")
    (auto simp: less_Suc_eq_le length_dropWhile_le intro: order_trans [OF diff_le_self length_dropWhile_le])

declare scan_vast.simps [simp del, code del]

lemma scan_vast_Nil [code]: "scan_vast lower ord ev [] st out = Some (st, out)"
  by (simp add: scan_vast.simps)

lemma scan_vast_Cons [code]:
  "scan_vast lower ord ev (c # cs) st out =
     (if c = CHR ''<''
      then if CHR ''>'' \<in> set (c # cs)
           then case handle_tag lower ord ev (takeWhile (\<lambda>x. x \<noteq> CHR ''>'') (c # cs) @ ''>'') st of
                  None \<Rightarrow> None
                | Some (st, o1) \<Rightarrow> scan_vast lower ord ev (tl (dropWhile (\<lambda>x. x \<noteq> CHR ''>'') (c # cs))) st (out @ o1)
           else Some (st, out @ c # cs)
      else scan_vast lower ord ev (dropWhile (\<lambda>x. x \<noteq> CHR ''<'') (c # cs)) st (out @ takeWhile (\<lambda>x. x \<noteq> CHR ''<'') (c # cs)))"
  by (subst scan_vast.simps) (simp only: list.case Let_def)

definition process_vast_xml ::
  "(string \<Rightarrow> string) \<Rightarrow> (string list \<Rightarrow> string list) \<Rightarrow> vast_events \<Rightarrow> string \<Rightarrow> (string, string) res option" where
  "process_vast_xml lower ord ev xml =
     map_option (\<lambda>(st, out). if is_inline_wrapper_tag_found st then Inr out else Inl ''VAST XML is missing InLine or Wrapper element'')
       (scan_vast lower ord ev xml injection_state_default [])"

definition empty_adm_response :: string where
  "empty_adm_response = ''<VAST version='' @ [CHR 0x22] @ ''3.0'' @ [CHR 0x22] @ ''><Ad><Wrapper><AdSystem>prebid.org wrapper</AdSystem><VASTAdTagURI><![CDATA[{nurl}]]></VASTAdTagURI><Creatives></Creatives></Wrapper></Ad></VAST>''"

definition inject_tracker ::
  "(string \<Rightarrow> string) \<Rightarrow> (string list \<Rightarrow> string list) \<Rightarrow> vast_events \<Rightarrow> string \<Rightarrow> string \<Rightarrow> (string, string) res option" where
  "inject_tracker lower ord ev vast_xml nurl =
     (if vast_xml = [] \<and> nurl = [] then Some (Inl ''both VAST XML and NURL are empty'')
      else if vast_xml = [] then Some (Inr (str_replace ''{nurl}'' nurl empty_adm_response))
      else process_vast_xml lower ord ev vast_xml)"

definition modify_vast_xml_string :: "(string \<Rightarrow> string) \<Rightarrow> string \<Rightarrow> string \<Rightarrow> string option" where
  "modify_vast_xml_string lower vast_xml impression_url =
     (if vast_xml = [] \<or> impression_url = [] then Some vast_xml
      else map_option (\<lambda>r. case r of Inr modified \<Rightarrow> modified | Inl _ \<Rightarrow> vast_xml)
             (inject_tracker lower id (vast_events_default\<lparr>ve_impressions := [impression_url]\<rparr>) vast_xml []))"

section \<open>Lemmas\<close>

definition no_events :: "vast_events \<Rightarrow> bool" where
  "no_events ev \<longleftrightarrow> ev = vast_events_default"

lemma no_events_add [simp]:
  "add_tracking_event ord vast_events_default p = []" "add_click_tracking_event vast_events_default p = []"
  "add_impression_tracking_event vast_events_default = []" "add_error_tracking_event vast_events_default = []"
  "add_non_linear_click_tracking_event vast_events_default p = []" "add_companion_click_through_event vast_events_default p = []"
  by (simp_all add: vast_events_default_def wrapped_def add_tracking_event_def add_click_tracking_event_def add_impression_tracking_event_def
      add_error_tracking_event_def add_non_linear_click_tracking_event_def add_companion_click_through_event_def)

lemma subseq_around [simp]: "subseq xs (xs @ b)" "subseq xs (a @ xs)" "subseq xs (a @ b @ xs)"
  using list_emb_append2 [of "(=)" xs xs] by (auto intro: subseq_rev_drop_many subseq_drop_many)

lemma handle_tag_keeps:
  assumes "handle_tag lower ord ev tag st = Some (st', o1)"
  shows "subseq tag o1" "ev = vast_events_default \<Longrightarrow> o1 = tag"
proof -
  have "subseq tag o1 \<and> (ev = vast_events_default \<longrightarrow> o1 = tag)" if "handle_end_tag lower ord ev tag st = (st', o1)"
    using that unfolding handle_end_tag_def Let_def by (auto split: if_splits)
  moreover have "subseq tag o1 \<and> (ev = vast_events_default \<longrightarrow> o1 = tag)" if "handle_start_tag lower ord ev tag st = Some (st', o1)"
    using that unfolding handle_start_tag_def Let_def by (auto split: if_splits)
  ultimately show "subseq tag o1" "ev = vast_events_default \<Longrightarrow> o1 = tag"
    using assms by (auto simp: handle_tag_def split: if_splits)
qed

lemma tag_split: "c \<in> set rest \<Longrightarrow> (takeWhile (\<lambda>x. x \<noteq> c) rest @ [c]) @ tl (dropWhile (\<lambda>x. x \<noteq> c) rest) = rest"
  by (induction rest) auto

lemma scan_keeps:
  "scan_vast lower ord ev rest st out = Some (st', out') \<Longrightarrow>
   \<exists>o1. out' = out @ o1 \<and> subseq rest o1 \<and> (ev = vast_events_default \<longrightarrow> o1 = rest)"
proof (induction lower ord ev rest st out rule: scan_vast.induct)
  case (1 lower ord ev rest st out)
  let ?tag = "takeWhile (\<lambda>x. x \<noteq> CHR ''>'') rest @ ''>''" and ?rest = "tl (dropWhile (\<lambda>x. x \<noteq> CHR ''>'') rest)"
  let ?text = "takeWhile (\<lambda>x. x \<noteq> CHR ''<'') rest" and ?next = "dropWhile (\<lambda>x. x \<noteq> CHR ''<'') rest"
  have glue: "\<exists>o3. out' = out @ o3 \<and> subseq rest o3 \<and> (ev = vast_events_default \<longrightarrow> o3 = rest)"
    if "rest = a @ b" "subseq a o1" "ev = vast_events_default \<longrightarrow> o1 = a"
      "\<exists>o2. out' = (out @ o1) @ o2 \<and> subseq b o2 \<and> (ev = vast_events_default \<longrightarrow> o2 = b)" for a b o1
    using that list_emb_append_mono [of "(=)" a o1 b] by fastforce
  consider (at_end) "rest = []" | (at_tag) cs where "rest = CHR ''<'' # cs" "CHR ''>'' \<in> set rest"
    | (at_open) cs where "rest = CHR ''<'' # cs" "CHR ''>'' \<notin> set rest" | (at_text) c cs where "rest = c # cs" "c \<noteq> CHR ''<''"
    by (cases rest) auto
  then show ?case
  proof cases
    case at_tag
    obtain st1 o1 where h: "handle_tag lower ord ev ?tag st = Some (st1, o1)" "scan_vast lower ord ev ?rest st1 (out @ o1) = Some (st', out')"
      using 1(3) at_tag by (subst (asm) scan_vast.simps) (auto simp: Let_def split: option.splits)
    have "\<exists>o2. out' = (out @ o1) @ o2 \<and> subseq ?rest o2 \<and> (ev = vast_events_default \<longrightarrow> o2 = ?rest)"
      using 1(1) [OF at_tag(1) refl at_tag(2) refl refl h(1) refl h(2)] .
    then show ?thesis using glue [OF tag_split [OF at_tag(2), symmetric]] handle_tag_keeps [OF h(1)] by blast
  next
    case at_text
    then have s: "scan_vast lower ord ev ?next st (out @ ?text) = Some (st', out')"
      using 1(3) by (subst (asm) scan_vast.simps) simp
    have "\<exists>o2. out' = (out @ ?text) @ o2 \<and> subseq ?next o2 \<and> (ev = vast_events_default \<longrightarrow> o2 = ?next)"
      using 1(2) [OF at_text s] .
    then show ?thesis using glue [of ?text ?next ?text] by (simp add: takeWhile_dropWhile_id)
  qed (use 1(3) in \<open>auto simp: scan_vast.simps\<close>)
qed

section \<open>Properties\<close>

text \<open>
  Tracker injection only adds: where it succeeds on a document, every character of the document is kept, in order, so
  that the result differs by insertions only; and with no events to inject the document is returned as it is.
\<close>
theorem inject_only_adds:
  assumes "inject_tracker lower ord ev vast_xml nurl = Some (Inr out)" "vast_xml \<noteq> []"
  shows "subseq vast_xml out \<and> (ev = vast_events_default \<longrightarrow> out = vast_xml)"
proof -
  obtain st where "scan_vast lower ord ev vast_xml injection_state_default [] = Some (st, out)"
    using assms by (auto simp: inject_tracker_def process_vast_xml_def split: if_splits)
  from scan_keeps [OF this] show ?thesis by simp
qed

definition demo_vast :: string where
  "demo_vast = ''<InLine></InLine>''"

definition demo_impression :: vast_events where
  "demo_impression = vast_events_default\<lparr>ve_impressions := [''u'']\<rparr>"

theorem inject_only_adds_witness:
  "inject_tracker (map ascii_lower) id demo_impression demo_vast []
     = Some (Inr ''<InLine><Impression><![CDATA[u]]></Impression></InLine>'')
   \<and> subseq demo_vast ''<InLine><Impression><![CDATA[u]]></Impression></InLine>''"
proof -
  have "inject_tracker (map ascii_lower) id demo_impression demo_vast []
     = Some (Inr ''<InLine><Impression><![CDATA[u]]></Impression></InLine>'')"
    by code_simp
  moreover have "demo_vast \<noteq> []" by (simp add: demo_vast_def)
  ultimately show ?thesis using inject_only_adds by blast
qed

text \<open>Where lower-casing is that of ASCII and the document is ASCII, no slice is off a boundary.\<close>

definition is_ascii :: "string \<Rightarrow> bool" where
  "is_ascii s = list_all (\<lambda>c. (of_char c :: nat) < 128) s"

lemma ascii_not_cont: "is_ascii s \<Longrightarrow> n < length s \<Longrightarrow> \<not> is_cont_byte (s ! n)"
  by (auto simp: is_ascii_def is_cont_byte_def list_all_length)

lemma extract_attribute_ascii:
  assumes "is_ascii tag"
  shows "extract_attribute (map ascii_lower) tag attr \<noteq> None"
proof (cases "str_find (map ascii_lower attr @ ''='') (map ascii_lower tag)")
  case (Some pos)
  then have "pos + length (map ascii_lower attr @ ''='') \<le> length tag" using str_find_length by fastforce
  then have "slice_from tag (pos + length (map ascii_lower attr @ ''='')) \<noteq> None"
    using ascii_not_cont [OF assms] by (auto simp: slice_from_def)
  then show ?thesis using Some by (auto simp: extract_attribute_def Let_def split: option.splits list.split)
qed (simp add: extract_attribute_def)

lemma set_tl_dropWhile: "set (tl (dropWhile P xs)) \<subseteq> set xs"
  by (induction xs) auto

lemma scan_ascii: "is_ascii rest \<Longrightarrow> scan_vast (map ascii_lower) ord ev rest st out \<noteq> None"
proof (induction "map ascii_lower" ord ev rest st out rule: scan_vast.induct)
  case (1 ord ev rest st out)
  let ?tag = "takeWhile (\<lambda>x. x \<noteq> CHR ''>'') rest @ ''>''" and ?rest = "tl (dropWhile (\<lambda>x. x \<noteq> CHR ''>'') rest)"
  have asc: "is_ascii ?tag" "is_ascii ?rest" "is_ascii (dropWhile (\<lambda>x. x \<noteq> CHR ''<'') rest)"
    using 1(3) set_tl_dropWhile [of _ rest] by (auto simp: is_ascii_def list_all_iff dest: set_takeWhileD set_dropWhileD)
  have "handle_tag (map ascii_lower) ord ev ?tag st \<noteq> None"
    using extract_attribute_ascii [OF asc(1)] by (simp add: handle_tag_def handle_start_tag_def Let_def)
  then show ?case
    using 1(1) [OF _ refl _ refl refl _ refl asc(2)] 1(2) [OF _ _ asc(3)]
    by (subst scan_vast.simps) (auto simp: Let_def split: list.split option.split)
qed

text \<open>
  On an ASCII document the scan comes to an end without a panic: injection returns a document or one of its two errors.
\<close>
theorem inject_total:
  assumes "is_ascii vast_xml"
  shows "\<exists>r. inject_tracker (map ascii_lower) ord ev vast_xml nurl = Some r"
  using scan_ascii [OF assms, of ord ev injection_state_default "[]"]
  by (auto simp: inject_tracker_def process_vast_xml_def)

theorem inject_total_witness:
  "\<exists>r. inject_tracker (map ascii_lower) id demo_impression demo_vast [] = Some r"
  by (rule inject_total) (simp add: is_ascii_def demo_vast_def)

end
