(* ===== verification/OrtbVersion.thy ===== *)
theory OrtbVersion
  imports AuctionEndpoints JsonMerge
begin

text \<open>
  Conversion between OpenRTB 2.5 and 2.6, \<^verbatim>\<open>rust/crates/exchange/src/ortb_version.rs\<close>: the fields that 2.6 moved from extensions to places of their own,
  moved up and down.  The encoders and decoders of supply chains and user ids are arguments.
\<close>

section \<open>Members of extensions\<close>

text \<open>\<^verbatim>\<open>map.remove(key)\<close> on an extension that may not be an object, and \<^verbatim>\<open>entry(key).or_insert(v)\<close> on one that is created when absent.\<close>

definition take_ext :: "string \<Rightarrow> json option \<Rightarrow> json option \<times> json option" where
  "take_ext k ext = (case ext of Some (JObj m) \<Rightarrow> (map_of m k, Some (JObj (bt_remove k m))) | _ \<Rightarrow> (None, ext))"

definition put_ext :: "string \<Rightarrow> json \<Rightarrow> json option \<Rightarrow> json option" where
  "put_ext k v ext =
     Some (case (case ext of None \<Rightarrow> JObj [] | Some e \<Rightarrow> e) of
             JObj m \<Rightarrow> JObj (if map_of m k = None then bt_insert k v m else m)
           | e \<Rightarrow> e)"

definition i8_wrap :: "int \<Rightarrow> int" where
  "i8_wrap x = (x + 128) mod 256 - 128"

record ortb_codec =
  oc_en_schain :: "supply_chain \<Rightarrow> json option"
  oc_de_schain :: "json \<Rightarrow> supply_chain option"
  oc_en_eids :: "eid list \<Rightarrow> json option"
  oc_de_eids :: "json \<Rightarrow> eid list option"

section \<open>Up\<close>

definition source_up :: "ortb_codec \<Rightarrow> rtb_source \<Rightarrow> rtb_source" where
  "source_up oc s =
     (case take_ext ''schain'' (source_jext s) of
        (Some v, ext) \<Rightarrow>
          (let s = s\<lparr>source_jext := ext\<rparr>
           in if source_schain s = None
              then case oc_de_schain oc v of Some schain \<Rightarrow> s\<lparr>source_schain := Some schain\<rparr> | None \<Rightarrow> s
              else s)
      | (None, _) \<Rightarrow> s)"

definition move_supply_chain_from_25_to_26 :: "ortb_codec \<Rightarrow> bid_request \<Rightarrow> bid_request" where
  "move_supply_chain_from_25_to_26 oc req = req\<lparr>req_source := map_option (source_up oc) (req_source req)\<rparr>"

definition gdpr_up :: "regs \<Rightarrow> regs" where
  "gdpr_up r =
     (case take_ext ''gdpr'' (regs_jext r) of
        (Some v, ext) \<Rightarrow>
          (let r = r\<lparr>regs_jext := ext\<rparr> in if regs_gdpr r = None then r\<lparr>regs_gdpr := map_option i8_wrap (as_i64 v)\<rparr> else r)
      | (None, _) \<Rightarrow> r)"

definition move_gdpr_from_25_to_26 :: "bid_request \<Rightarrow> bid_request" where
  "move_gdpr_from_25_to_26 req = req\<lparr>req_regs := map_option gdpr_up (req_regs req)\<rparr>"

definition consent_up :: "user \<Rightarrow> user" where
  "consent_up u =
     (case take_ext ''consent'' (user_jext u) of
        (Some v, ext) \<Rightarrow> (let u = u\<lparr>user_jext := ext\<rparr> in if user_consent u = None then u\<lparr>user_consent := as_str v\<rparr> else u)
      | (None, _) \<Rightarrow> u)"

definition move_consent_from_25_to_26 :: "bid_request \<Rightarrow> bid_request" where
  "move_consent_from_25_to_26 req = req\<lparr>req_user := map_option consent_up (req_user req)\<rparr>"

definition us_privacy_up :: "regs \<Rightarrow> regs" where
  "us_privacy_up r =
     (case take_ext ''us_privacy'' (regs_jext r) of
        (Some v, ext) \<Rightarrow> (let r = r\<lparr>regs_jext := ext\<rparr> in if regs_us_privacy r = None then r\<lparr>regs_us_privacy := as_str v\<rparr> else r)
      | (None, _) \<Rightarrow> r)"

definition move_us_privacy_from_25_to_26 :: "bid_request \<Rightarrow> bid_request" where
  "move_us_privacy_from_25_to_26 req = req\<lparr>req_regs := map_option us_privacy_up (req_regs req)\<rparr>"

definition eids_up :: "ortb_codec \<Rightarrow> user \<Rightarrow> user" where
  "eids_up oc u =
     (case take_ext ''eids'' (user_jext u) of
        (Some v, ext) \<Rightarrow>
          (let u = u\<lparr>user_jext := ext\<rparr>
           in if user_eids u = None then case oc_de_eids oc v of Some eids \<Rightarrow> u\<lparr>user_eids := Some eids\<rparr> | None \<Rightarrow> u else u)
      | (None, _) \<Rightarrow> u)"

definition move_eid_from_25_to_26 :: "ortb_codec \<Rightarrow> bid_request \<Rightarrow> bid_request" where
  "move_eid_from_25_to_26 oc req = req\<lparr>req_user := map_option (eids_up oc) (req_user req)\<rparr>"

definition rewarded_up :: "imp \<Rightarrow> imp" where
  "rewarded_up i =
     (case imp_jext i of
        Some (JObj m) \<Rightarrow>
          (case take_ext ''is_rewarded_inventory'' (map_of m ''prebid'') of
             (Some v, Some prebid) \<Rightarrow>
               (let i = i\<lparr>imp_jext := Some (JObj (bt_insert ''prebid'' prebid m))\<rparr>
                in if imp_rwdd i = None then i\<lparr>imp_rwdd := map_option i32_wrap (as_i64 v)\<rparr> else i)
           | _ \<Rightarrow> i)
      | _ \<Rightarrow> i)"

definition move_rewarded_from_ext_to_26 :: "bid_request \<Rightarrow> bid_request" where
  "move_rewarded_from_ext_to_26 req = req\<lparr>req_imp := map rewarded_up (req_imp req)\<rparr>"

definition convert_up_to_26 :: "ortb_codec \<Rightarrow> bid_request \<Rightarrow> bid_request" where
  "convert_up_to_26 oc req =
     move_rewarded_from_ext_to_26 (move_eid_from_25_to_26 oc (move_us_privacy_from_25_to_26
       (move_consent_from_25_to_26 (move_gdpr_from_25_to_26 (move_supply_chain_from_25_to_26 oc req)))))"

section \<open>Down\<close>

definition source_down :: "ortb_codec \<Rightarrow> rtb_source \<Rightarrow> rtb_source" where
  "source_down oc s =
     (case source_schain s of
        Some schain \<Rightarrow>
          (let s = s\<lparr>source_schain := None\<rparr>
           in case oc_en_schain oc schain of Some v \<Rightarrow> s\<lparr>source_jext := put_ext ''schain'' v (source_jext s)\<rparr> | None \<Rightarrow> s)
      | None \<Rightarrow> s)"

definition move_supply_chain_from_26_to_25 :: "ortb_codec \<Rightarrow> bid_request \<Rightarrow> bid_request" where
  "move_supply_chain_from_26_to_25 oc req = req\<lparr>req_source := map_option (source_down oc) (req_source req)\<rparr>"

definition gdpr_down :: "regs \<Rightarrow> regs" where
  "gdpr_down r =
     (case regs_gdpr r of
        Some gdpr \<Rightarrow> r\<lparr>regs_gdpr := None, regs_jext := put_ext ''gdpr'' (json_int gdpr) (regs_jext r)\<rparr>
      | None \<Rightarrow> r)"

definition move_gdpr_from_26_to_25 :: "bid_request \<Rightarrow> bid_request" where
  "move_gdpr_from_26_to_25 req = req\<lparr>req_regs := map_option gdpr_down (req_regs req)\<rparr>"

definition consent_down :: "user \<Rightarrow> user" where
  "consent_down u =
     (case user_consent u of
        Some consent \<Rightarrow> u\<lparr>user_consent := None, user_jext := put_ext ''consent'' (JStr consent) (user_jext u)\<rparr>
      | None \<Rightarrow> u)"

definition move_consent_from_26_to_25 :: "bid_request \<Rightarrow> bid_request" where
  "move_consent_from_26_to_25 req = req\<lparr>req_user := map_option consent_down (req_user req)\<rparr>"

definition us_privacy_down :: "regs \<Rightarrow> regs" where
  "us_privacy_down r =
     (case regs_us_privacy r of
        Some usp \<Rightarrow> r\<lparr>regs_us_privacy := None, regs_jext := put_ext ''us_privacy'' (JStr usp) (regs_jext r)\<rparr>
      | None \<Rightarrow> r)"

definition move_us_privacy_from_26_to_25 :: "bid_request \<Rightarrow> bid_request" where
  "move_us_privacy_from_26_to_25 req = req\<lparr>req_regs := map_option us_privacy_down (req_regs req)\<rparr>"

definition eids_down :: "ortb_codec \<Rightarrow> user \<Rightarrow> user" where
  "eids_down oc u =
     (case user_eids u of
        Some eids \<Rightarrow>
          (let u = u\<lparr>user_eids := None\<rparr>
           in case oc_en_eids oc eids of Some v \<Rightarrow> u\<lparr>user_jext := put_ext ''eids'' v (user_jext u)\<rparr> | None \<Rightarrow> u)
      | None \<Rightarrow> u)"

definition move_eid_from_26_to_25 :: "ortb_codec \<Rightarrow> bid_request \<Rightarrow> bid_request" where
  "move_eid_from_26_to_25 oc req = req\<lparr>req_user := map_option (eids_down oc) (req_user req)\<rparr>"

definition rewarded_down :: "imp \<Rightarrow> imp" where
  "rewarded_down i =
     (case imp_rwdd i of
        Some rwdd \<Rightarrow>
          (let i = i\<lparr>imp_rwdd := None\<rparr>
           in i\<lparr>imp_jext := Some (case (case imp_jext i of None \<Rightarrow> JObj [] | Some e \<Rightarrow> e) of
                  JObj m \<Rightarrow> (let m = (if map_of m ''prebid'' = None then bt_insert ''prebid'' (JObj []) m else m)
                             in JObj (bt_insert ''prebid'' (the (put_ext ''is_rewarded_inventory'' (json_int rwdd) (map_of m ''prebid''))) m))
                | e \<Rightarrow> e)\<rparr>)
      | None \<Rightarrow> i)"

definition move_rewarded_from_26_to_ext :: "bid_request \<Rightarrow> bid_request" where
  "move_rewarded_from_26_to_ext req = req\<lparr>req_imp := map rewarded_down (req_imp req)\<rparr>"

definition clear_26_fields :: "bid_request \<Rightarrow> bid_request" where
  "clear_26_fields req =
     req\<lparr>req_source := map_option (\<lambda>s. s\<lparr>source_schain := None\<rparr>) (req_source req),
         req_regs := map_option (\<lambda>r. r\<lparr>regs_gdpr := None, regs_us_privacy := None\<rparr>) (req_regs req),
         req_user := map_option (\<lambda>u. u\<lparr>user_consent := None, user_eids := None\<rparr>) (req_user req),
         req_imp := map (\<lambda>i. i\<lparr>imp_rwdd := None\<rparr>) (req_imp req)\<rparr>"

definition convert_down_to_25 :: "ortb_codec \<Rightarrow> bid_request \<Rightarrow> bid_request" where
  "convert_down_to_25 oc req =
     clear_26_fields (move_rewarded_from_26_to_ext (move_eid_from_26_to_25 oc (move_us_privacy_from_26_to_25
       (move_consent_from_26_to_25 (move_gdpr_from_26_to_25 (move_supply_chain_from_26_to_25 oc req))))))"

section \<open>Lemmas\<close>

lemma remove_absent: "map_of m k = None \<Longrightarrow> bt_remove k m = m"
  by (induction m) (auto simp: bt_remove_def split: if_splits)

lemma remove_insert_same: "map_of m k = None \<Longrightarrow> bt_remove k (bt_insert k v m) = m"
proof (induction k v m rule: bt_insert.induct)
  case (2 k v k' v' m)
  then have "map_of m k = None" "k \<noteq> k'" by (auto split: if_splits)
  then show ?case using 2 remove_absent [of m k] by (auto simp: bt_remove_def)
qed (simp add: bt_remove_def)

lemma remove_insert_other: "bt_wf m \<Longrightarrow> k \<noteq> k' \<Longrightarrow> bt_remove k (bt_insert k' v m) = bt_insert k' v (bt_remove k m)"
  by (rule bt_ext) (auto simp: bt_remove_wf bt_wf_insert map_of_bt_insert bt_remove_get fun_eq_iff)

text \<open>The conditions under which a request comes back: no extension already has a member of the same name, the extensions into
  which a field moves are objects or absent, the small integers are in range, and the codec reads back what it writes.\<close>

definition ext_free :: "string \<Rightarrow> json option \<Rightarrow> bool" where
  "ext_free k ext = (case ext of Some (JObj m) \<Rightarrow> bt_wf m \<and> map_of m k = None | _ \<Rightarrow> True)"

definition ext_fits :: "json option \<Rightarrow> bool" where
  "ext_fits ext = (case ext of Some e \<Rightarrow> is_object e | None \<Rightarrow> True)"

definition source_ready :: "ortb_codec \<Rightarrow> rtb_source \<Rightarrow> bool" where
  "source_ready oc s = (ext_free ''schain'' (source_jext s)
     \<and> (case source_schain s of None \<Rightarrow> True
        | Some sc \<Rightarrow> ext_fits (source_jext s) \<and> Option.bind (oc_en_schain oc sc) (oc_de_schain oc) = Some sc))"

definition regs_ready :: "regs \<Rightarrow> bool" where
  "regs_ready r = (ext_free ''gdpr'' (regs_jext r) \<and> ext_free ''us_privacy'' (regs_jext r)
     \<and> (regs_gdpr r = None \<and> regs_us_privacy r = None \<or> ext_fits (regs_jext r))
     \<and> (case regs_gdpr r of None \<Rightarrow> True | Some g \<Rightarrow> -128 \<le> g \<and> g \<le> 127))"

definition user_ready :: "ortb_codec \<Rightarrow> user \<Rightarrow> bool" where
  "user_ready oc u = (ext_free ''consent'' (user_jext u) \<and> ext_free ''eids'' (user_jext u)
     \<and> (user_consent u = None \<and> user_eids u = None \<or> ext_fits (user_jext u))
     \<and> (case user_eids u of None \<Rightarrow> True | Some es \<Rightarrow> Option.bind (oc_en_eids oc es) (oc_de_eids oc) = Some es))"

definition imp_members :: "imp \<Rightarrow> (string \<times> json) list" where
  "imp_members i = (case imp_jext i of Some (JObj m) \<Rightarrow> m | _ \<Rightarrow> [])"

definition imp_ready :: "imp \<Rightarrow> bool" where
  "imp_ready i = (bt_wf (imp_members i) \<and> ext_free ''is_rewarded_inventory'' (map_of (imp_members i) ''prebid'')
     \<and> (case imp_rwdd i of None \<Rightarrow> True
        | Some w \<Rightarrow> ext_fits (imp_jext i) \<and> ext_fits (map_of (imp_members i) ''prebid'') \<and> i32_min \<le> w \<and> w \<le> i32_max))"

definition ready_26 :: "ortb_codec \<Rightarrow> bid_request \<Rightarrow> bool" where
  "ready_26 oc req = (pred_option (source_ready oc) (req_source req) \<and> pred_option regs_ready (req_regs req)
     \<and> pred_option (user_ready oc) (req_user req) \<and> list_all imp_ready (req_imp req))"

text \<open>The trace the way down leaves: an extension that was absent stays as an empty object when a field was moved into it.\<close>

definition fill_ext :: "bool \<Rightarrow> json option \<Rightarrow> json option" where
  "fill_ext moved ext = (if moved \<and> ext = None then Some (JObj []) else ext)"

definition fill_imp :: "imp \<Rightarrow> imp" where
  "fill_imp i =
     (if imp_rwdd i = None then i
      else i\<lparr>imp_jext := Some (JObj (if map_of (imp_members i) ''prebid'' = None then bt_insert ''prebid'' (JObj []) (imp_members i) else imp_members i))\<rparr>)"

definition filled_26 :: "bid_request \<Rightarrow> bid_request" where
  "filled_26 req =
     req\<lparr>req_source := map_option (\<lambda>s. s\<lparr>source_jext := fill_ext (source_schain s \<noteq> None) (source_jext s)\<rparr>) (req_source req),
         req_regs := map_option (\<lambda>r. r\<lparr>regs_jext := fill_ext (regs_gdpr r \<noteq> None \<or> regs_us_privacy r \<noteq> None) (regs_jext r)\<rparr>) (req_regs req),
         req_user := map_option (\<lambda>u. u\<lparr>user_jext := fill_ext (user_consent u \<noteq> None \<or> user_eids u \<noteq> None) (user_jext u)\<rparr>) (req_user req),
         req_imp := map fill_imp (req_imp req)\<rparr>"

definition legacy_25 :: "bid_request \<Rightarrow> bool" where
  "legacy_25 req = (pred_option (\<lambda>s. source_schain s = None) (req_source req)
     \<and> pred_option (\<lambda>r. regs_gdpr r = None \<and> regs_us_privacy r = None) (req_regs req)
     \<and> pred_option (\<lambda>u. user_consent u = None \<and> user_eids u = None) (req_user req)
     \<and> list_all (\<lambda>i. imp_rwdd i = None) (req_imp req))"

lemma as_i64_json_int: "i64_min \<le> i \<Longrightarrow> i \<le> i64_max \<Longrightarrow> as_i64 (json_int i) = Some i"
  by (simp add: json_int_def)

lemma i8_wrap_id: "-128 \<le> g \<Longrightarrow> g \<le> 127 \<Longrightarrow> i8_wrap g = g"
  by (simp add: i8_wrap_def)

text \<open>An extension without the member of a field is left alone on the way up.\<close>

lemma take_free: "ext_free k e \<Longrightarrow> fst (take_ext k e) = None"
  by (simp add: ext_free_def take_ext_def split: option.splits json.splits)

lemma take_absent: "ext_free k e \<Longrightarrow> \<exists>e'. take_ext k e = (None, e')"
  using take_free [of k e] by (metis prod.collapse)

lemma up_free:
  "ext_free ''schain'' (source_jext s) \<Longrightarrow> source_up oc s = s"
  "ext_free ''gdpr'' (regs_jext r) \<Longrightarrow> gdpr_up r = r"
  "ext_free ''us_privacy'' (regs_jext r) \<Longrightarrow> us_privacy_up r = r"
  "ext_free ''consent'' (user_jext u) \<Longrightarrow> consent_up u = u"
  "ext_free ''eids'' (user_jext u) \<Longrightarrow> eids_up oc u = u"
  by (drule take_absent, force simp: source_up_def gdpr_up_def us_privacy_up_def consent_up_def eids_up_def)+

text \<open>An extension that fits takes a member like the object it stands for.\<close>

lemma put_fill: "put_ext k v ext = put_ext k v (fill_ext True ext)"
  by (simp add: put_ext_def fill_ext_def split: option.split)

lemma ext_fits_cases:
  assumes "ext_fits ext" "\<forall>k \<in> set ks. ext_free k ext"
  obtains m where "fill_ext True ext = Some (JObj m)" "ks \<noteq> [] \<longrightarrow> bt_wf m" "\<forall>k \<in> set ks. map_of m k = None"
proof (cases ext)
  case None
  then show ?thesis using that [of "[]"] by (simp add: fill_ext_def bt_wf_def)
next
  case (Some e)
  then obtain m where "e = JObj m" using assms(1) by (cases e) (auto simp: ext_fits_def is_object_def)
  then show ?thesis using that [of m] Some assms(2) by (cases ks) (auto simp: fill_ext_def ext_free_def)
qed

lemma source_roundtrip:
  assumes "source_ready oc s"
  shows "source_up oc ((source_down oc s)\<lparr>source_schain := None\<rparr>) = s\<lparr>source_jext := fill_ext (source_schain s \<noteq> None) (source_jext s)\<rparr>"
proof (cases "source_schain s")
  case None
  moreover have "(source_down oc s)\<lparr>source_schain := None\<rparr> = s" using None by (simp add: source_down_def)
  ultimately show ?thesis using assms by (simp add: source_ready_def up_free fill_ext_def)
next
  case (Some sc)
  then have "ext_fits (source_jext s)" "\<forall>k \<in> set [''schain'']. ext_free k (source_jext s)"
    using assms by (auto simp: source_ready_def)
  from ext_fits_cases [OF this]
  obtain m where m: "fill_ext True (source_jext s) = Some (JObj m)" "map_of m ''schain'' = None" by auto
  obtain v where v: "oc_en_schain oc sc = Some v" "oc_de_schain oc v = Some sc"
    using assms Some by (auto simp: source_ready_def Option.bind_eq_Some_conv)
  have "put_ext ''schain'' v (source_jext s) = Some (JObj (bt_insert ''schain'' v m))"
    by (subst put_fill) (simp add: m put_ext_def)
  then show ?thesis
    using Some v m by (simp add: source_down_def source_up_def take_ext_def remove_insert_same map_of_bt_insert)
qed

lemma regs_roundtrip:
  assumes "regs_ready r"
  shows "us_privacy_up (gdpr_up ((us_privacy_down (gdpr_down r))\<lparr>regs_gdpr := None, regs_us_privacy := None\<rparr>))
    = r\<lparr>regs_jext := fill_ext (regs_gdpr r \<noteq> None \<or> regs_us_privacy r \<noteq> None) (regs_jext r)\<rparr>"
proof (cases "regs_gdpr r = None \<and> regs_us_privacy r = None")
  case True
  then have "(us_privacy_down (gdpr_down r))\<lparr>regs_gdpr := None, regs_us_privacy := None\<rparr> = r"
    by (simp add: gdpr_down_def us_privacy_down_def)
  then show ?thesis using assms True by (simp add: regs_ready_def up_free fill_ext_def)
next
  case False
  then have "ext_fits (regs_jext r)" "\<forall>k \<in> set [''gdpr'', ''us_privacy'']. ext_free k (regs_jext r)"
    using assms by (auto simp: regs_ready_def)
  from ext_fits_cases [OF this]
  obtain m where m: "fill_ext True (regs_jext r) = Some (JObj m)" "bt_wf m" "map_of m ''gdpr'' = None" "map_of m ''us_privacy'' = None"
    by auto
  have g: "i8_wrap g = g \<and> as_i64 (json_int g) = Some g" if "regs_gdpr r = Some g" for g
    using assms that by (auto simp: regs_ready_def i8_wrap_id as_i64_json_int i64_min_def i64_max_def)
  have put: "put_ext k v (regs_jext r) = Some (JObj (if map_of m k = None then bt_insert k v m else m))" for k v
    by (subst put_fill) (simp add: m(1) put_ext_def)
  show ?thesis
    using m(2-4) g False
    by (cases "regs_gdpr r"; cases "regs_us_privacy r")
      (auto simp: gdpr_up_def gdpr_down_def us_privacy_up_def us_privacy_down_def put m(1) take_ext_def put_ext_def [of _ _ "Some _"] map_of_bt_insert
        remove_insert_same remove_insert_other remove_absent bt_wf_insert Let_def)
qed

lemma user_roundtrip:
  assumes "user_ready oc u"
  shows "eids_up oc (consent_up ((eids_down oc (consent_down u))\<lparr>user_consent := None, user_eids := None\<rparr>))
    = u\<lparr>user_jext := fill_ext (user_consent u \<noteq> None \<or> user_eids u \<noteq> None) (user_jext u)\<rparr>"
proof (cases "user_consent u = None \<and> user_eids u = None")
  case True
  then have "(eids_down oc (consent_down u))\<lparr>user_consent := None, user_eids := None\<rparr> = u"
    by (simp add: consent_down_def eids_down_def)
  then show ?thesis using assms True by (simp add: user_ready_def up_free fill_ext_def)
next
  case False
  then have "ext_fits (user_jext u)" "\<forall>k \<in> set [''consent'', ''eids'']. ext_free k (user_jext u)"
    using assms by (auto simp: user_ready_def)
  from ext_fits_cases [OF this]
  obtain m where m: "fill_ext True (user_jext u) = Some (JObj m)" "bt_wf m" "map_of m ''consent'' = None" "map_of m ''eids'' = None"
    by auto
  have e: "\<exists>v. oc_en_eids oc es = Some v \<and> oc_de_eids oc v = Some es" if "user_eids u = Some es" for es
    using assms that by (auto simp: user_ready_def Option.bind_eq_Some_conv)
  have put: "put_ext k v (user_jext u) = Some (JObj (if map_of m k = None then bt_insert k v m else m))" for k v
    by (subst put_fill) (simp add: m(1) put_ext_def)
  show ?thesis
    using m(2-4) e False
    by (cases "user_consent u"; cases "user_eids u")
      (auto simp: consent_up_def consent_down_def eids_up_def eids_down_def put m(1) take_ext_def put_ext_def [of _ _ "Some _"] map_of_bt_insert
        remove_insert_same remove_insert_other remove_absent bt_wf_insert Let_def)
qed

lemma imp_roundtrip:
  assumes "imp_ready i"
  shows "rewarded_up ((rewarded_down i)\<lparr>imp_rwdd := None\<rparr>) = fill_imp i"
proof (cases "imp_rwdd i")
  case None
  have "rewarded_up i = i"
  proof (cases "\<exists>m. imp_jext i = Some (JObj m)")
    case True
    then obtain m where m: "imp_jext i = Some (JObj m)" by blast
    then have "fst (take_ext ''is_rewarded_inventory'' (map_of m ''prebid'')) = None"
      using assms by (intro take_free) (simp add: imp_ready_def imp_members_def)
    then show ?thesis using m by (cases "take_ext ''is_rewarded_inventory'' (map_of m ''prebid'')") (simp add: rewarded_up_def)
  qed (simp add: rewarded_up_def split: option.split json.split)
  moreover have "(rewarded_down i)\<lparr>imp_rwdd := None\<rparr> = i" using None by (simp add: rewarded_down_def)
  ultimately show ?thesis using None by (simp add: fill_imp_def)
next
  case (Some w)
  define m where "m = imp_members i"
  define m1 where "m1 = (if map_of m ''prebid'' = None then bt_insert ''prebid'' (JObj []) m else m)"
  have r: "bt_wf m" "ext_fits (imp_jext i)" "ext_fits (map_of m ''prebid'')" "ext_free ''is_rewarded_inventory'' (map_of m ''prebid'')"
      "i32_min \<le> w" "w \<le> i32_max"
    using assms Some by (auto simp: imp_ready_def m_def)
  obtain p where p: "map_of m1 ''prebid'' = Some (JObj p)" "map_of p ''is_rewarded_inventory'' = None"
    using r(3,4) by (elim ext_fits_cases [of _ "[''is_rewarded_inventory'']"]) (auto simp: fill_ext_def m1_def map_of_bt_insert split: if_splits)
  have wf: "bt_wf m1" using r(1) by (simp add: m1_def bt_wf_insert)
  have w: "as_i64 (json_int w) = Some w" "i32_wrap w = w"
    using r(5, 6) by (simp_all add: as_i64_json_int i32_wrap_id i32_min_def i32_max_def i64_min_def i64_max_def)
  have twice: "bt_insert ''prebid'' (JObj p) (bt_insert ''prebid'' v m1) = m1" for v
    using wf p(1) by (intro bt_ext) (auto simp: bt_wf_insert map_of_bt_insert fun_eq_iff)
  have ext: "(case imp_jext i of None \<Rightarrow> JObj [] | Some e \<Rightarrow> e) = JObj m"
    using r(2) by (auto simp: m_def imp_members_def ext_fits_def is_object_def split: option.splits json.splits)
  let ?e = "Some (JObj (bt_insert ''prebid'' (JObj (bt_insert ''is_rewarded_inventory'' (json_int w) p)) m1))"
  have "(rewarded_down i)\<lparr>imp_rwdd := None\<rparr> = i\<lparr>imp_jext := ?e, imp_rwdd := None\<rparr>"
    using Some ext p by (simp add: rewarded_down_def Let_def put_ext_def flip: m1_def)
  moreover have "rewarded_up (i\<lparr>imp_jext := ?e, imp_rwdd := None\<rparr>) = i\<lparr>imp_jext := Some (JObj m1), imp_rwdd := Some w\<rparr>"
    using p(2) w by (simp add: rewarded_up_def take_ext_def map_of_bt_insert remove_insert_same twice)
  moreover have "fill_imp i = i\<lparr>imp_jext := Some (JObj m1), imp_rwdd := Some w\<rparr>"
    using Some by (simp add: fill_imp_def m1_def m_def)
  ultimately show ?thesis by simp
qed

section \<open>Properties\<close>

text \<open>
  Property C20.  Round trip between the versions: converting a request down to OpenRTB 2.5 leaves none of the six fields of 2.6 at its
  own place, and converting it up again gives the request back, except that an extension (or the prebid member of an
  impression's extension) that was absent stays behind as an empty object when a field was moved into it.  This is for a request whose extensions have no member of the same
  name already and are objects or absent where a field moves into them, whose small integers are in range and whose supply chain and user ids the encoder can write and read.
\<close>
theorem ortb_roundtrip:
  assumes "ready_26 oc req"
  shows "legacy_25 (convert_down_to_25 oc req) \<and> convert_up_to_26 oc (convert_down_to_25 oc req) = filled_26 req"
proof
  show "legacy_25 (convert_down_to_25 oc req)"
    by (simp add: legacy_25_def convert_down_to_25_def clear_26_fields_def list_all_iff option.pred_map comp_def option.pred_True)
  have s: "map_option (source_up oc) (map_option (\<lambda>s. s\<lparr>source_schain := None\<rparr>) (map_option (source_down oc) (req_source req))) = req_source (filled_26 req)"
    using assms source_roundtrip by (cases "req_source req") (auto simp: ready_26_def filled_26_def)
  have r: "map_option us_privacy_up (map_option gdpr_up (map_option (\<lambda>r. r\<lparr>regs_gdpr := None, regs_us_privacy := None\<rparr>)
      (map_option us_privacy_down (map_option gdpr_down (req_regs req))))) = req_regs (filled_26 req)"
    using assms regs_roundtrip by (cases "req_regs req") (auto simp: ready_26_def filled_26_def)
  have u: "map_option (eids_up oc) (map_option consent_up (map_option (\<lambda>u. u\<lparr>user_consent := None, user_eids := None\<rparr>)
      (map_option (eids_down oc) (map_option consent_down (req_user req))))) = req_user (filled_26 req)"
    using assms user_roundtrip by (cases "req_user req") (auto simp: ready_26_def filled_26_def)
  have i: "map rewarded_up (map (\<lambda>i. i\<lparr>imp_rwdd := None\<rparr>) (map rewarded_down (req_imp req))) = req_imp (filled_26 req)"
    using assms imp_roundtrip by (auto simp: ready_26_def list_all_iff filled_26_def)
  show "convert_up_to_26 oc (convert_down_to_25 oc req) = filled_26 req"
    unfolding convert_up_to_26_def convert_down_to_25_def move_supply_chain_from_25_to_26_def move_gdpr_from_25_to_26_def
      move_consent_from_25_to_26_def move_us_privacy_from_25_to_26_def move_eid_from_25_to_26_def move_rewarded_from_ext_to_26_def
      move_supply_chain_from_26_to_25_def move_gdpr_from_26_to_25_def move_consent_from_26_to_25_def move_us_privacy_from_26_to_25_def
      move_eid_from_26_to_25_def move_rewarded_from_26_to_ext_def clear_26_fields_def
    using s r u i by (simp add: filled_26_def)
qed

text \<open>A codec for the example: the members of the chain and of its nodes that are not optional, and the sources of the user ids.\<close>

definition demo_en_node :: "supply_chain_node \<Rightarrow> json" where
  "demo_en_node n = JObj [(''asi'', JStr (node_asi n)), (''hp'', json_int (node_hp n)), (''sid'', JStr (node_sid n))]"

definition demo_de_node :: "json \<Rightarrow> supply_chain_node option" where
  "demo_de_node j =
     Option.bind (Option.bind (jget j ''asi'') as_str) (\<lambda>asi. Option.bind (Option.bind (jget j ''sid'') as_str) (\<lambda>sid.
     Option.bind (Option.bind (jget j ''hp'') as_i64) (\<lambda>hp.
       Some \<lparr>node_asi = asi, node_sid = sid, node_rid = None, node_name = None, node_domain = None, node_hp = hp, node_jext = None\<rparr>)))"

fun all_some :: "'a option list \<Rightarrow> 'a list option" where
  "all_some [] = Some []"
| "all_some (x # xs) = Option.bind x (\<lambda>v. map_option ((#) v) (all_some xs))"

definition demo_ortb_codec :: ortb_codec where
  "demo_ortb_codec =
     \<lparr>oc_en_schain = (\<lambda>sc. Some (JObj [(''complete'', json_int (schain_complete sc)), (''nodes'', JArr (map demo_en_node (schain_nodes sc))), (''ver'', JStr (schain_ver sc))])),
      oc_de_schain = (\<lambda>j. Option.bind (Option.bind (jget j ''complete'') as_i64) (\<lambda>c. Option.bind (Option.bind (jget j ''ver'') as_str) (\<lambda>v.
         Option.bind (Option.bind (Option.bind (jget j ''nodes'') as_array) (\<lambda>ns. all_some (map demo_de_node ns))) (\<lambda>ns.
           Some \<lparr>schain_complete = c, schain_nodes = ns, schain_ver = v, schain_jext = None\<rparr>)))),
      oc_en_eids = (\<lambda>es. Some (JArr (map (\<lambda>e. JObj (case eid_source e of Some s \<Rightarrow> [(''source'', JStr s)] | None \<Rightarrow> [])) es))),
      oc_de_eids = (\<lambda>j. map_option (map (\<lambda>e. \<lparr>eid_source = Option.bind (jget e ''source'') as_str, eid_uids = None, eid_jext = None\<rparr>)) (as_array j))\<rparr>"

definition demo_26 :: bid_request where
  "demo_26 = default_bid_request\<lparr>
     req_source := Some \<lparr>source_fd = None, source_tid = None, source_pchain = None,
       source_schain = Some \<lparr>schain_complete = 1, schain_nodes = [\<lparr>node_asi = ''a.com'', node_sid = ''7'', node_rid = None, node_name = None, node_domain = None,
         node_hp = 1, node_jext = None\<rparr>], schain_ver = ''1.0'', schain_jext = None\<rparr>, source_jext = None\<rparr>,
     req_regs := Some (default_regs\<lparr>regs_gdpr := Some 1, regs_us_privacy := Some ''1YNN''\<rparr>),
     req_user := Some (default_user\<lparr>user_consent := Some ''consent123'', user_eids := Some [\<lparr>eid_source = Some ''adserver.org'', eid_uids = None, eid_jext = None\<rparr>]\<rparr>),
     req_imp := [default_imp\<lparr>imp_rwdd := Some 1\<rparr>]\<rparr>"

theorem ortb_roundtrip_witness:
  "legacy_25 (convert_down_to_25 demo_ortb_codec demo_26)
   \<and> convert_up_to_26 demo_ortb_codec (convert_down_to_25 demo_ortb_codec demo_26) = filled_26 demo_26
   \<and> map_option regs_gdpr (req_regs (filled_26 demo_26)) = Some (Some 1)
   \<and> map_option regs_jext (req_regs (filled_26 demo_26)) = Some (Some (JObj []))"
proof -
  have ready: "ready_26 demo_ortb_codec demo_26"
    by (simp add: ready_26_def demo_26_def demo_ortb_codec_def default_bid_request_def default_regs_def default_user_def default_imp_def source_ready_def
        regs_ready_def user_ready_def imp_ready_def imp_members_def ext_free_def ext_fits_def demo_en_node_def demo_de_node_def json_int_def bt_wf_def
        i32_min_def i32_max_def i64_min_def i64_max_def)
  have "map_option regs_gdpr (req_regs (filled_26 demo_26)) = Some (Some 1)" "map_option regs_jext (req_regs (filled_26 demo_26)) = Some (Some (JObj []))"
    by (simp_all add: filled_26_def demo_26_def fill_ext_def default_regs_def)
  then show ?thesis using ortb_roundtrip [OF ready] by blast
qed

end
