(* ===== verification/BidAdjust.thy ===== *)
theory BidAdjust
  imports Json
begin

text \<open>
  Bid adjustments, \<^verbatim>\<open>rust/crates/exchange/src/bidadjustment.rs\<close>: rules by media type, bidder and deal, flattened into one map with composed
  keys; the lookup in the order of their priority; the application to a price with its lower bounds; and the validation of
  rules.  The decoder of the rules and the conversion of currencies are arguments.
\<close>

section \<open>Rules\<close>

datatype adjustment_type = AdjMultiplier | AdjCpm | AdjStatic

fun adjustment_type_str :: "adjustment_type \<Rightarrow> string" where
  "adjustment_type_str AdjMultiplier = ''multiplier''"
| "adjustment_type_str AdjCpm = ''cpm''"
| "adjustment_type_str AdjStatic = ''static''"

definition adjustment_type_from_str :: "string \<Rightarrow> adjustment_type option" where
  "adjustment_type_from_str s =
     (if s = ''multiplier'' then Some AdjMultiplier else if s = ''cpm'' then Some AdjCpm else if s = ''static'' then Some AdjStatic else None)"

record adjustment_rule =
  ar_adjustment_type :: string
  ar_value :: f64
  ar_currency :: string

type_synonym adjustments_by_deal_id = "(string \<times> adjustment_rule list) list"

record adj_media_type =
  mt_banner :: "(string \<times> adjustments_by_deal_id) list"
  mt_video_instream :: "(string \<times> adjustments_by_deal_id) list"
  mt_video_outstream :: "(string \<times> adjustments_by_deal_id) list"
  mt_audio :: "(string \<times> adjustments_by_deal_id) list"
  mt_native :: "(string \<times> adjustments_by_deal_id) list"
  mt_wildcard :: "(string \<times> adjustments_by_deal_id) list"

definition rule_key :: "string \<Rightarrow> string \<Rightarrow> string \<Rightarrow> string" where
  "rule_key media_type bidder_name deal_id = media_type @ ''|'' @ bidder_name @ ''|'' @ deal_id"

type_synonym flat_rules = "(string \<times> adjustment_rule list) list"

definition build_rules_for_media_type :: "string \<Rightarrow> (string \<times> adjustments_by_deal_id) list \<Rightarrow> flat_rules \<Rightarrow> flat_rules" where
  "build_rules_for_media_type media_type rules_by_bidder rules =
     fold (\<lambda>(bidder_name, deal_map). fold (\<lambda>(deal_id, adjustments). hm_insert (rule_key media_type bidder_name deal_id) adjustments) deal_map)
       rules_by_bidder rules"

definition build_rules :: "adj_media_type \<Rightarrow> flat_rules" where
  "build_rules mt =
     (let rules = build_rules_for_media_type ''banner'' (mt_banner mt) [];
          rules = build_rules_for_media_type ''audio'' (mt_audio mt) rules;
          rules = build_rules_for_media_type ''native'' (mt_native mt) rules;
          rules = build_rules_for_media_type ''video-instream'' (mt_video_instream mt) rules;
          rules = build_rules_for_media_type ''video-outstream'' (mt_video_outstream mt) rules
      in build_rules_for_media_type ''*'' (mt_wildcard mt) rules)"

definition priority_rules :: "string \<Rightarrow> string \<Rightarrow> string \<Rightarrow> (string \<times> string \<times> string) list" where
  "priority_rules bid_type bidder_name deal_id =
     (if deal_id \<noteq> []
      then [(bid_type, bidder_name, deal_id), (bid_type, bidder_name, ''*''), (bid_type, ''*'', deal_id), (''*'', bidder_name, deal_id),
            (bid_type, ''*'', ''*''), (''*'', bidder_name, ''*''), (''*'', ''*'', deal_id), (''*'', ''*'', ''*'')]
      else [(bid_type, bidder_name, ''*''), (bid_type, ''*'', ''*''), (''*'', bidder_name, ''*''), (''*'', ''*'', ''*'')])"

fun first_rule :: "('k \<Rightarrow> 'v option) \<Rightarrow> 'k list \<Rightarrow> 'v option" where
  "first_rule get [] = None"
| "first_rule get (k # ks) = (case get k of Some v \<Rightarrow> Some v | None \<Rightarrow> first_rule get ks)"

definition get_adjustment :: "flat_rules \<Rightarrow> string \<Rightarrow> string \<Rightarrow> string \<Rightarrow> adjustment_rule list option" where
  "get_adjustment rules bid_type bidder_name deal_id =
     first_rule (\<lambda>(m, b, d). map_of rules (rule_key m b d)) (priority_rules bid_type bidder_name deal_id)"

section \<open>Application\<close>

text \<open>\<^verbatim>\<open>f64::round\<close>: half away from zero.\<close>

fun f_round :: "f64 \<Rightarrow> f64" where
  "f_round (Fin s q) = Fin s (of_int \<lfloor>q + 1 / 2\<rfloor>)"
| "f_round x = x"

definition price_precision :: f64 where
  "price_precision = f_of 10000"

definition min_bid :: f64 where
  "min_bid = f_of (1 / 10)"

fun adjust_loop ::
  "(f64 \<Rightarrow> string \<Rightarrow> string \<Rightarrow> (string, f64) res) \<Rightarrow> adjustment_rule list \<Rightarrow> f64 \<Rightarrow> string \<Rightarrow> (f64 \<times> string) option" where
  "adjust_loop conv [] price cur = Some (price, cur)"
| "adjust_loop conv (a # as) price cur =
     (if ar_adjustment_type a = ''multiplier'' then adjust_loop conv as (f_mul price (ar_value a)) cur
      else if ar_adjustment_type a = ''cpm''
      then case conv (ar_value a) (ar_currency a) cur of
             Inr converted \<Rightarrow> adjust_loop conv as (f_sub price converted) cur
           | Inl _ \<Rightarrow> None
      else if ar_adjustment_type a = ''static'' then adjust_loop conv as (ar_value a) (ar_currency a)
      else adjust_loop conv as price cur)"

definition apply_adjustments ::
  "(f64 \<Rightarrow> string \<Rightarrow> string \<Rightarrow> (string, f64) res) \<Rightarrow> adjustment_rule list \<Rightarrow> f64 \<Rightarrow> string \<Rightarrow> f64 \<times> string" where
  "apply_adjustments conv adjustments bid_price currency =
     (if adjustments = [] then (bid_price, currency)
      else case adjust_loop conv adjustments bid_price currency of
             Some (price, cur) \<Rightarrow> (f_div (f_round (f_mul price price_precision)) price_precision, cur)
           | None \<Rightarrow> (bid_price, currency))"

definition apply_rules ::
  "(f64 \<Rightarrow> string \<Rightarrow> string \<Rightarrow> (string, f64) res) \<Rightarrow> flat_rules \<Rightarrow> f64 \<Rightarrow> string \<Rightarrow> string \<Rightarrow> string \<Rightarrow> string \<Rightarrow> f64 \<times> string" where
  "apply_rules conv rules bid_price bid_type bidder_name deal_id currency =
     (if rules = [] then (bid_price, currency)
      else case get_adjustment rules bid_type bidder_name deal_id of
             None \<Rightarrow> (bid_price, currency)
           | Some adjustments \<Rightarrow>
               (let (adjusted_price, adjusted_currency) = apply_adjustments conv adjustments bid_price currency
                in if deal_id \<noteq> [] \<and> f_lt adjusted_price (Fin False 0) then (Fin False 0, currency)
                   else if deal_id = [] \<and> f_le adjusted_price (Fin False 0) then (min_bid, currency)
                   else (adjusted_price, adjusted_currency)))"

section \<open>Validation\<close>

definition f64_max :: f64 where
  "f64_max = Fin False (of_int ((2 ^ 53 - 1) * 2 ^ 971))"

definition validate_adjustment :: "adjustment_rule \<Rightarrow> bool" where
  "validate_adjustment a =
     (if ar_adjustment_type a = ''cpm'' then ar_currency a \<noteq> [] \<and> f_le (Fin False 0) (ar_value a) \<and> f_lt (ar_value a) f64_max
      else if ar_adjustment_type a = ''multiplier'' then f_le (Fin False 0) (ar_value a) \<and> f_lt (ar_value a) (f_of 100)
      else if ar_adjustment_type a = ''static'' then ar_currency a \<noteq> [] \<and> f_le (Fin False 0) (ar_value a) \<and> f_lt (ar_value a) f64_max
      else False)"

definition validate_for_media_type :: "(string \<times> adjustments_by_deal_id) list \<Rightarrow> bool" where
  "validate_for_media_type m = list_all (\<lambda>(b, deal_map). list_all (\<lambda>(d, adjustments). list_all validate_adjustment adjustments) deal_map) m"

definition validate_rules :: "adj_media_type \<Rightarrow> bool" where
  "validate_rules mt =
     (validate_for_media_type (mt_banner mt) \<and> validate_for_media_type (mt_audio mt) \<and> validate_for_media_type (mt_video_instream mt)
      \<and> validate_for_media_type (mt_video_outstream mt) \<and> validate_for_media_type (mt_native mt) \<and> validate_for_media_type (mt_wildcard mt))"

definition parse_from_request_ext :: "(json \<Rightarrow> adj_media_type option) \<Rightarrow> json \<Rightarrow> adj_media_type option" where
  "parse_from_request_ext de ext = Option.bind (jpath (Some ext) [''prebid'', ''bidadjustments'']) de"

section \<open>Lemmas: keys\<close>

lemma bar_cut: "CHR ''|'' \<notin> set a \<Longrightarrow> CHR ''|'' \<notin> set b \<Longrightarrow> a @ CHR ''|'' # x = b @ CHR ''|'' # y \<longleftrightarrow> a = b \<and> x = y"
proof (induction a arbitrary: b)
  case Nil
  then show ?case by (cases b) auto
next
  case (Cons c a)
  then show ?case by (cases b) auto
qed

lemma rule_key_inject:
  "CHR ''|'' \<notin> set m \<Longrightarrow> CHR ''|'' \<notin> set m' \<Longrightarrow> CHR ''|'' \<notin> set b \<Longrightarrow> CHR ''|'' \<notin> set b'
    \<Longrightarrow> rule_key m b d = rule_key m' b' d' \<longleftrightarrow> m = m' \<and> b = b' \<and> d = d'"
  by (simp add: rule_key_def bar_cut)

text \<open>The nested lookup.\<close>

definition media_map :: "adj_media_type \<Rightarrow> string \<Rightarrow> (string \<times> adjustments_by_deal_id) list" where
  "media_map mt m =
     (if m = ''banner'' then mt_banner mt else if m = ''audio'' then mt_audio mt else if m = ''native'' then mt_native mt
      else if m = ''video-instream'' then mt_video_instream mt else if m = ''video-outstream'' then mt_video_outstream mt
      else if m = ''*'' then mt_wildcard mt else [])"

definition media_names :: "string list" where
  "media_names = [''banner'', ''audio'', ''native'', ''video-instream'', ''video-outstream'', ''*'']"

definition nested_rule :: "adj_media_type \<Rightarrow> string \<times> string \<times> string \<Rightarrow> adjustment_rule list option" where
  "nested_rule mt k = (case k of (m, b, d) \<Rightarrow> Option.bind (map_of (media_map mt m) b) (\<lambda>deals. map_of deals d))"

definition names_ok :: "(string \<times> adjustments_by_deal_id) list \<Rightarrow> bool" where
  "names_ok m = (hm_wf m \<and> list_all (\<lambda>(b, deals). CHR ''|'' \<notin> set b \<and> hm_wf deals) m)"

text \<open>One media type: its own keys are found as in the nested maps, the keys of other media types are untouched.\<close>

definition alt_of :: "'a option \<Rightarrow> 'a option \<Rightarrow> 'a option" where
  "alt_of x y = (case x of Some a \<Rightarrow> Some a | None \<Rightarrow> y)"

lemma alt_of_simps [simp]: "alt_of (Some a) y = Some a" "alt_of None y = y" "alt_of x None = x"
  by (auto simp: alt_of_def split: option.split)

lemma deals_get:
  "hm_wf deals \<Longrightarrow> map_of (fold (\<lambda>(d, a). hm_insert (rule_key m b d) a) deals rules) (rule_key m b d)
    = alt_of (map_of deals d) (map_of rules (rule_key m b d))"
proof (induction deals arbitrary: rules)
  case (Cons e deals)
  obtain d' a where e: "e = (d', a)" by force
  have wf: "hm_wf deals" "map_of deals d' = None" using Cons.prems e by (auto simp: hm_wf_def map_of_eq_None_iff)
  show ?case using Cons.IH [OF wf(1)] wf(2) e by (auto simp: map_of_hm_insert rule_key_def)
qed simp

lemma deals_other:
  "(\<And>d. k \<noteq> rule_key m b d) \<Longrightarrow> map_of (fold (\<lambda>(d, a). hm_insert (rule_key m b d) a) deals rules) k = map_of rules k"
  by (induction deals arbitrary: rules) (auto simp: map_of_hm_insert)

lemma media_other:
  assumes "CHR ''|'' \<notin> set m" "CHR ''|'' \<notin> set m'" "m \<noteq> m'" "CHR ''|'' \<notin> set b" "names_ok mm"
  shows "map_of (build_rules_for_media_type m mm rules) (rule_key m' b d) = map_of rules (rule_key m' b d)"
  using assms(5)
proof (induction mm arbitrary: rules)
  case (Cons e mm)
  obtain b' deals where e: "e = (b', deals)" by force
  then have ok: "names_ok mm" "CHR ''|'' \<notin> set b'" using Cons.prems by (auto simp: names_ok_def hm_wf_def)
  have "rule_key m' b d \<noteq> rule_key m b' d'" for d' using rule_key_inject assms(1-4) ok(2) by metis
  note same = deals_other [of "rule_key m' b d" m b' deals rules, OF this]
  then show ?case using Cons.IH [OF ok(1)] e same by (simp add: build_rules_for_media_type_def)
qed (simp add: build_rules_for_media_type_def)

lemma media_get:
  assumes "CHR ''|'' \<notin> set m" "CHR ''|'' \<notin> set b" "names_ok mm"
  shows "map_of (build_rules_for_media_type m mm rules) (rule_key m b d)
    = alt_of (Option.bind (map_of mm b) (\<lambda>deals. map_of deals d)) (map_of rules (rule_key m b d))"
  using assms(3)
proof (induction mm arbitrary: rules)
  case (Cons e mm)
  obtain b' deals where e: "e = (b', deals)" by force
  then have ok: "names_ok mm" "CHR ''|'' \<notin> set b'" "hm_wf deals" "map_of mm b' = None"
    using Cons.prems by (auto simp: names_ok_def hm_wf_def map_of_eq_None_iff)
  show ?case
  proof (cases "b = b'")
    case True
    then show ?thesis using Cons.IH [OF ok(1)] e ok(3, 4) by (simp add: build_rules_for_media_type_def deals_get)
  next
    case False
    then have "rule_key m b d \<noteq> rule_key m b' d'" for d' using rule_key_inject assms(1, 2) ok(2) by metis
    note same = deals_other [of "rule_key m b d" m b' deals rules, OF this]
    then show ?thesis using Cons.IH [OF ok(1)] e False same by (simp add: build_rules_for_media_type_def)
  qed
qed (simp add: build_rules_for_media_type_def)

definition rules_ok :: "adj_media_type \<Rightarrow> bool" where
  "rules_ok mt = list_all (\<lambda>m. names_ok (media_map mt m)) media_names"

lemma rules_ok_media:
  "rules_ok mt \<Longrightarrow> names_ok (mt_banner mt) \<and> names_ok (mt_audio mt) \<and> names_ok (mt_native mt) \<and> names_ok (mt_video_instream mt)
     \<and> names_ok (mt_video_outstream mt) \<and> names_ok (mt_wildcard mt)"
  by (simp add: rules_ok_def media_names_def media_map_def)

lemma build_rules_get:
  assumes "rules_ok mt" "CHR ''|'' \<notin> set m" "CHR ''|'' \<notin> set b"
  shows "map_of (build_rules mt) (rule_key m b d) = nested_rule mt (m, b, d)"
proof -
  note ok = rules_ok_media [OF assms(1)]
  have step: "map_of (build_rules_for_media_type n mm rules) (rule_key m b d)
      = (if m = n then alt_of (Option.bind (map_of mm b) (\<lambda>deals. map_of deals d)) (map_of rules (rule_key m b d)) else map_of rules (rule_key m b d))"
    if "CHR ''|'' \<notin> set n" "names_ok mm" for n mm rules
    using media_get [OF assms(2, 3) that(2)] media_other [OF that(1) assms(2) _ assms(3) that(2)] by (cases "m = n") simp_all
  note steps = step [of "''banner''" "mt_banner mt"] step [of "''audio''" "mt_audio mt"] step [of "''native''" "mt_native mt"]
    step [of "''video-instream''" "mt_video_instream mt"] step [of "''video-outstream''" "mt_video_outstream mt"] step [of "''*''" "mt_wildcard mt"]
  consider "m = ''banner''" | "m = ''audio''" | "m = ''native''" | "m = ''video-instream''" | "m = ''video-outstream''" | "m = ''*''" | "m \<notin> set media_names"
    by (auto simp: media_names_def)
  then show ?thesis
    unfolding build_rules_def Let_def nested_rule_def media_map_def media_names_def by cases (use ok steps in \<open>simp_all\<close>)
qed

lemma first_rule_cong: "(\<And>k. k \<in> set ks \<Longrightarrow> f k = g k) \<Longrightarrow> first_rule f ks = first_rule g ks"
  by (induction ks) (auto split: option.split)

lemma first_rule_filter: "first_rule get ks = (case List.map_filter get ks of [] \<Rightarrow> None | v # _ \<Rightarrow> Some v)"
  by (induction ks) (auto simp: List.map_filter_simps split: option.split)

section \<open>Properties\<close>

text \<open>
  Property C19.  The flat map of adjustment rules implements the nested one: where no media type and no bidder name contains the delimiter (deal
  ids may), looking up a bid in the flattened rules gives the first rule that the nested maps hold among the eight
  combinations of its media type, bidder and deal with their wildcards, in the order written out here; a bid without a deal has four.
\<close>
theorem flat_rules_refine:
  assumes "rules_ok mt" "CHR ''|'' \<notin> set bid_type" "CHR ''|'' \<notin> set bidder_name"
  shows "get_adjustment (build_rules mt) bid_type bidder_name deal_id =
    (case List.map_filter (nested_rule mt)
       (if deal_id = []
        then [(bid_type, bidder_name, ''*''), (bid_type, ''*'', ''*''), (''*'', bidder_name, ''*''), (''*'', ''*'', ''*'')]
        else [(bid_type, bidder_name, deal_id), (bid_type, bidder_name, ''*''), (bid_type, ''*'', deal_id), (''*'', bidder_name, deal_id),
              (bid_type, ''*'', ''*''), (''*'', bidder_name, ''*''), (''*'', ''*'', deal_id), (''*'', ''*'', ''*'')])
     of [] \<Rightarrow> None | rule # _ \<Rightarrow> Some rule)"
proof -
  have "(case k of (m, b, d) \<Rightarrow> map_of (build_rules mt) (rule_key m b d)) = nested_rule mt k"
    if "k \<in> set (priority_rules bid_type bidder_name deal_id)" for k
  proof -
    obtain m b d where k: "k = (m, b, d)" using prod_cases3 by blast
    have "CHR ''|'' \<notin> set m" "CHR ''|'' \<notin> set b" using that k assms(2, 3) by (auto simp: priority_rules_def split: if_splits)
    then show ?thesis using build_rules_get [OF assms(1)] k by simp
  qed
  then have "get_adjustment (build_rules mt) bid_type bidder_name deal_id
      = first_rule (nested_rule mt) (priority_rules bid_type bidder_name deal_id)"
    unfolding get_adjustment_def by (rule first_rule_cong)
  then show ?thesis by (simp only: first_rule_filter priority_rules_def if_not_P if_P split: if_split) simp
qed

definition demo_adjustments :: adj_media_type where
  "demo_adjustments = \<lparr>mt_banner = [(''ix'', [(''*'', [\<lparr>ar_adjustment_type = ''multiplier'', ar_value = Fin False 2, ar_currency = []\<rparr>])])],
     mt_video_instream = [], mt_video_outstream = [], mt_audio = [], mt_native = [],
     mt_wildcard = [(''*'', [(''d|1'', [])])]\<rparr>"

theorem flat_rules_refine_witness:
  "get_adjustment (build_rules demo_adjustments) ''banner'' ''ix'' ''d|1'' = Some [\<lparr>ar_adjustment_type = ''multiplier'', ar_value = Fin False 2, ar_currency = []\<rparr>]"
  by (subst flat_rules_refine)
    (simp_all add: rules_ok_def media_names_def media_map_def demo_adjustments_def names_ok_def hm_wf_def nested_rule_def List.map_filter_simps)
text \<open>
  The bounds of an adjusted price: without rules for a bid its price and currency are unchanged; with rules the price of a deal is not below
  zero, and the price of any other bid is above zero, unless it is not a number.
\<close>
theorem adjusted_price_bounds:
  "case get_adjustment rules bid_type bidder_name deal_id of
     None \<Rightarrow> apply_rules conv rules price bid_type bidder_name deal_id cur = (price, cur)
   | Some as \<Rightarrow>
       (let p = fst (apply_rules conv rules price bid_type bidder_name deal_id cur)
        in if deal_id = [] then p = NaN \<or> f_lt (Fin False 0) p else \<not> f_lt p (Fin False 0))"
proof (cases "get_adjustment rules bid_type bidder_name deal_id")
  case (Some as)
  have nonempty: "rules \<noteq> []" using Some by (auto simp: get_adjustment_def priority_rules_def split: if_splits)
  have min: "f_lt (Fin False 0) min_bid" "\<not> f_lt min_bid (Fin False 0)" by (unfold min_bid_def) code_simp+
  have total: "p = NaN \<or> f_lt (Fin False 0) p" if "\<not> f_le p (Fin False 0)" for p
    using that f_lt_iff [of "Fin False 0" p] by (cases p) (auto simp: is_num_def)
  have less: "\<not> f_lt p (Fin False 0)" if "\<not> f_le p (Fin False 0)" for p using that f_lt_le by blast
  show ?thesis
    using Some nonempty min total less
    by (auto simp: apply_rules_def Let_def case_prod_unfold)
qed (simp add: apply_rules_def)

end
