(* ===== verification/AuctionExtras.thy ===== *)
theory AuctionExtras
  imports AuctionFacts
begin

text \<open>
  Helpers of the auction in files of their own under \<^verbatim>\<open>rust/crates/exchange/src\<close>: the time left for bidders (\<^verbatim>\<open>tmax.rs\<close>), the collection
  of non-bids by seat (\<^verbatim>\<open>seat_non_bids.rs\<close>) and the mapping of categories with competitive exclusion
  (\<^verbatim>\<open>category_mapping.rs\<close>).  Iteration orders of hash maps, the parser of decimal numbers and the random choices are arguments.
\<close>

section \<open>Time limits\<close>

record tmax_adjustments_config =
  tac_enabled :: bool
  tac_bidder_network_latency_buffer_ms :: nat
  tac_pbs_response_preparation_duration_ms :: nat
  tac_bidder_response_duration_min_ms :: nat

record tmax_adjustments =
  ta_bidder_network_latency_buffer :: nat
  ta_pbs_response_preparation_duration :: nat
  ta_bidder_response_duration_min :: nat

definition tmax_from_config :: "tmax_adjustments_config \<Rightarrow> tmax_adjustments option" where
  "tmax_from_config c =
     (if \<not> tac_enabled c then None
      else if \<not> (tac_bidder_response_duration_min_ms c > 0
                  \<and> (tac_bidder_network_latency_buffer_ms c > 0 \<or> tac_pbs_response_preparation_duration_ms c > 0)) then None
      else Some \<lparr>ta_bidder_network_latency_buffer = tac_bidder_network_latency_buffer_ms c,
                 ta_pbs_response_preparation_duration = tac_pbs_response_preparation_duration_ms c,
                 ta_bidder_response_duration_min = tac_bidder_response_duration_min_ms c\<rparr>)"

text \<open>Instants are in nanoseconds.  Conversions to 64-bit signed integers and their differences wrap.\<close>

definition get_bidder_tmax :: "nat option \<Rightarrow> nat \<Rightarrow> int \<Rightarrow> tmax_adjustments option \<Rightarrow> int" where
  "get_bidder_tmax deadline start request_tmax_ms adjustments =
     (case (adjustments, deadline) of
        (Some adj, Some dl) \<Rightarrow>
          if dl > start
          then let remaining_ms = i64_wrap (int ((dl - start) div 1000000));
                   adjusted = i64_wrap (i64_wrap (remaining_ms - i64_wrap (int (ta_bidder_network_latency_buffer adj)))
                                        - i64_wrap (int (ta_pbs_response_preparation_duration adj)))
               in if adjusted \<ge> i64_wrap (int (ta_bidder_response_duration_min adj)) then adjusted else request_tmax_ms
          else request_tmax_ms
      | _ \<Rightarrow> request_tmax_ms)"

section \<open>Non-bids by seat\<close>

datatype snb_reason =
    SnbErrorGeneral | SnbErrorTimeout | SnbErrorBidderUnreachable | SnbRejectedGeneral | SnbRejectedBelowFloor
  | SnbRejectedCategoryMappingInvalid | SnbRejectedBelowDealFloor | SnbRejectedCreativeSizeNotAllowed | SnbRejectedCreativeNotSecure

fun snb_code :: "snb_reason \<Rightarrow> int" where
  "snb_code SnbErrorGeneral = 100"
| "snb_code SnbErrorTimeout = 101"
| "snb_code SnbErrorBidderUnreachable = 103"
| "snb_code SnbRejectedGeneral = 300"
| "snb_code SnbRejectedBelowFloor = 301"
| "snb_code SnbRejectedCategoryMappingInvalid = 303"
| "snb_code SnbRejectedBelowDealFloor = 304"
| "snb_code SnbRejectedCreativeSizeNotAllowed = 351"
| "snb_code SnbRejectedCreativeNotSecure = 352"

definition error_to_non_bid_reason :: "bool \<Rightarrow> snb_reason" where
  "error_to_non_bid_reason is_timeout = (if is_timeout then SnbErrorTimeout else SnbErrorGeneral)"

type_synonym snb_builder = "(string \<times> non_bid list) list"

definition snb_extend :: "string \<Rightarrow> non_bid list \<Rightarrow> snb_builder \<Rightarrow> snb_builder" where
  "snb_extend seat nbs b = hm_insert seat (get_or [] b seat @ nbs) b"

text \<open>\<^verbatim>\<open>f64 as i64\<close>: towards zero, saturating, zero for NaN.\<close>

fun f64_as_i64 :: "f64 \<Rightarrow> int" where
  "f64_as_i64 (Fin s q) = max i64_min (min i64_max (if s then - \<lfloor>q\<rfloor> else \<lfloor>q\<rfloor>))"
| "f64_as_i64 (Inf s) = (if s then i64_min else i64_max)"
| "f64_as_i64 NaN = 0"

definition rejected_non_bid :: "typed_bid \<Rightarrow> snb_reason \<Rightarrow> non_bid" where
  "rejected_non_bid tb reason =
     (let b = tb_bid tb
      in \<lparr>nb_impid = bid_impid b, nb_statuscode = snb_code reason,
          nb_jext = Some \<lparr>nbo_price = Some (bid_price b), nbo_adomain = bid_adomain b, nbo_cat = bid_cat b, nbo_dealid = bid_dealid b,
                          nbo_w = bid_w b, nbo_h = bid_h b, nbo_dur = map_option f64_as_i64 (bid_dur b),
                          nbo_orig_bid_cpm = Some (tb_orig_bid_cpm tb), nbo_orig_bid_cur = Some (tb_orig_bid_cur tb)\<rparr>\<rparr>)"

definition snb_reject_bid :: "typed_bid \<Rightarrow> snb_reason \<Rightarrow> string \<Rightarrow> snb_builder \<Rightarrow> snb_builder" where
  "snb_reject_bid tb reason seat b = snb_extend seat [rejected_non_bid tb reason] b"

definition snb_reject_imps :: "string list \<Rightarrow> snb_reason \<Rightarrow> string \<Rightarrow> snb_builder \<Rightarrow> snb_builder" where
  "snb_reject_imps imp_ids reason seat b =
     (if imp_ids = [] then b
      else snb_extend seat (map (\<lambda>i. \<lparr>nb_impid = i, nb_statuscode = snb_code reason, nb_jext = None\<rparr>) imp_ids) b)"

definition snb_append :: "(string list \<Rightarrow> string list) \<Rightarrow> snb_builder \<Rightarrow> snb_builder \<Rightarrow> snb_builder" where
  "snb_append ord other b = fold (\<lambda>(seat, nbs). snb_extend seat nbs) (hm_iter ord other) b"

definition to_seat_non_bids :: "(string list \<Rightarrow> string list) \<Rightarrow> snb_builder \<Rightarrow> seat_non_bid list" where
  "to_seat_non_bids ord b = map (\<lambda>(seat, nbs). \<lparr>snb_nonbid = nbs, snb_seat = seat, snb_jext = None\<rparr>) (hm_iter ord b)"

definition snb_len :: "snb_builder \<Rightarrow> nat" where
  "snb_len b = sum_list (map (\<lambda>(seat, nbs). length nbs) b)"

section \<open>Categories\<close>

record category_bid =
  cb_bid_id :: string
  cb_category :: string
  cb_duration :: int
  cb_price_bucket :: string

record bid_dedupe =
  bd_bidder_name :: string
  bd_bid_index :: nat
  bd_bid_id :: string
  bd_bid_price :: string

fun duration_loop :: "int \<Rightarrow> int list \<Rightarrow> int \<Rightarrow> bool \<Rightarrow> int + int \<times> bool" where
  "duration_loop dur [] new_dur made_selection = Inr (new_dur, made_selection)"
| "duration_loop dur (rng # ranges) new_dur made_selection =
     (if dur > rng then duration_loop dur ranges new_dur made_selection
      else if dur = rng then Inl rng
      else if rng < new_dur \<or> \<not> made_selection then duration_loop dur ranges rng True
      else duration_loop dur ranges new_dur made_selection)"

definition find_duration_range :: "int \<Rightarrow> int list \<Rightarrow> (string, int) res" where
  "find_duration_range dur ranges =
     (case duration_loop dur ranges dur False of
        Inl rng \<Rightarrow> Inr rng
      | Inr (new_dur, made_selection) \<Rightarrow>
          if \<not> made_selection \<and> ranges \<noteq> [] then Inl ''bid duration exceeds maximum allowed'' else Inr new_dur)"

definition get_primary_ad_server :: "int \<Rightarrow> (string, string) res" where
  "get_primary_ad_server i =
     (if i = 1 then Inr ''freewheel'' else if i = 2 then Inr ''dfp'' else Inl (''Primary ad server '' @ show_int i @ '' not recognized''))"

definition rejection_message :: "string \<Rightarrow> string \<Rightarrow> string" where
  "rejection_message bid_ident reason = ''bid rejected [bid ID: '' @ bid_ident @ ''] reason: '' @ reason"

record category_state =
  cs_bid_category_map :: "(string \<times> string) list"
  cs_rejections :: "string list"
  cs_removed_bid_ids :: "string list"
  cs_dedupe :: "(string \<times> bid_dedupe) list"
  cs_flips :: nat

definition reject_category_bid :: "string \<Rightarrow> string \<Rightarrow> category_state \<Rightarrow> category_state" where
  "reject_category_bid bid_ident reason s =
     s\<lparr>cs_rejections := cs_rejections s @ [rejection_message bid_ident reason], cs_removed_bid_ids := cs_removed_bid_ids s @ [bid_ident]\<rparr>"

definition f_abs :: "f64 \<Rightarrow> f64" where
  "f_abs x = (case x of Fin s q \<Rightarrow> Fin False q | Inf s \<Rightarrow> Inf False | NaN \<Rightarrow> NaN)"

definition f_epsilon :: f64 where
  "f_epsilon = Fin False (1 / 2 ^ 52)"

text \<open>Whether the bid wins against the one kept so far; ties are decided by the next random choice.\<close>

definition current_wins :: "(string \<Rightarrow> f64 option) \<Rightarrow> (nat \<Rightarrow> bool) \<Rightarrow> nat \<Rightarrow> string \<Rightarrow> string \<Rightarrow> bool \<times> nat" where
  "current_wins parse_f64 flip flips dupe_bucket curr_bucket =
     (let dupe_price = (case parse_f64 dupe_bucket of None \<Rightarrow> Fin False 0 | Some p \<Rightarrow> p);
          curr_price = (case parse_f64 curr_bucket of None \<Rightarrow> Fin False 0 | Some p \<Rightarrow> p)
      in if f_lt (f_abs (f_sub dupe_price curr_price)) f_epsilon then (flip flips, Suc flips) else (f_lt dupe_price curr_price, flips))"

definition keep_category_bid :: "string \<Rightarrow> nat \<Rightarrow> category_bid \<Rightarrow> int \<Rightarrow> category_state \<Rightarrow> category_state" where
  "keep_category_bid bidder_name bid_index b new_dur s =
     s\<lparr>cs_bid_category_map := hm_insert (cb_bid_id b) (cb_price_bucket b @ ''_'' @ cb_category b @ ''_'' @ show_int new_dur @ ''s'') (cs_bid_category_map s),
       cs_dedupe := hm_insert (cb_category b @ ''_'' @ show_int new_dur @ ''s'')
         \<lparr>bd_bidder_name = bidder_name, bd_bid_index = bid_index, bd_bid_id = cb_bid_id b, bd_bid_price = cb_price_bucket b\<rparr> (cs_dedupe s)\<rparr>"

definition category_step ::
  "(string \<Rightarrow> f64 option) \<Rightarrow> (nat \<Rightarrow> bool) \<Rightarrow> int list \<Rightarrow> string \<Rightarrow> nat \<times> category_bid \<Rightarrow> category_state \<Rightarrow> category_state" where
  "category_step parse_f64 flip duration_ranges bidder_name ib s =
     (case ib of (bid_index, b) \<Rightarrow>
        if cb_category b = [] then reject_category_bid (cb_bid_id b) ''Bid did not contain a category'' s
        else case find_duration_range (cb_duration b) duration_ranges of
               Inl e \<Rightarrow> reject_category_bid (cb_bid_id b) e s
             | Inr new_dur \<Rightarrow>
                 (case map_of (cs_dedupe s) (cb_category b @ ''_'' @ show_int new_dur @ ''s'') of
                    None \<Rightarrow> keep_category_bid bidder_name bid_index b new_dur s
                  | Some dupe \<Rightarrow>
                      (let (wins, flips) = current_wins parse_f64 flip (cs_flips s) (bd_bid_price dupe) (cb_price_bucket b);
                           s = s\<lparr>cs_flips := flips\<rparr>
                       in if wins
                          then keep_category_bid bidder_name bid_index b new_dur
                                 ((reject_category_bid (bd_bid_id dupe) ''Bid was deduplicated'' s)
                                    \<lparr>cs_bid_category_map := hm_remove (bd_bid_id dupe) (cs_bid_category_map s)\<rparr>)
                          else reject_category_bid (cb_bid_id b) ''Bid was deduplicated'' s)))"

definition category_init :: category_state where
  "category_init = \<lparr>cs_bid_category_map = [], cs_rejections = [], cs_removed_bid_ids = [], cs_dedupe = [], cs_flips = 0\<rparr>"

definition apply_category_mapping ::
  "(string \<Rightarrow> f64 option) \<Rightarrow> (nat \<Rightarrow> bool) \<Rightarrow> (string list \<Rightarrow> string list) \<Rightarrow> (string \<times> category_bid list) list \<Rightarrow> int list \<Rightarrow> category_state" where
  "apply_category_mapping parse_f64 flip ord seat_bids duration_ranges =
     fold (\<lambda>(bidder_name, bids). fold (category_step parse_f64 flip duration_ranges bidder_name) (List.enumerate 0 bids)) (hm_iter ord seat_bids)
       category_init"


section \<open>Facts on time limits and non-bids\<close>

lemma bidder_tmax_cases:
  "get_bidder_tmax deadline start request_tmax_ms adjustments = request_tmax_ms
   \<or> (\<exists>adj. adjustments = Some adj \<and> i64_wrap (int (ta_bidder_response_duration_min adj)) \<le> get_bidder_tmax deadline start request_tmax_ms adjustments)"
  by (auto simp: get_bidder_tmax_def Let_def split: option.splits)

lemma snb_extend_get: "get_or [] (snb_extend seat nbs b) s = (if s = seat then get_or [] b s @ nbs else get_or [] b s)"
  by (simp add: snb_extend_def get_or_def map_of_hm_insert)

lemma snb_extend_wf: "hm_wf b \<Longrightarrow> hm_wf (snb_extend seat nbs b)"
  by (simp add: snb_extend_def hm_wf_insert)

lemma snb_fold_get:
  "distinct (map fst es) \<Longrightarrow>
   get_or [] (fold (\<lambda>(seat, nbs). snb_extend seat nbs) es b) s = get_or [] b s @ get_or [] es s"
proof (induction es arbitrary: b)
  case (Cons e es)
  then have "map_of es (fst e) = None"
    by (simp add: map_of_eq_None_iff)
  then show ?case
    using Cons by (cases e) (auto simp: snb_extend_get get_or_def [of _ "_ # _"] get_or_def [of _ es])
qed (simp add: get_or_def)

lemma snb_append_get:
  assumes ord: "iter_order ord" and wf: "hm_wf other"
  shows "get_or [] (snb_append ord other b) s = get_or [] b s @ get_or [] other s"
proof -
  show ?thesis
    using distinct_hm_iter [OF ord wf]
    by (simp add: snb_append_def snb_fold_get get_or_def [of _ "hm_iter ord other"] get_or_def [of _ other] map_of_hm_iter [OF ord wf])
qed

section \<open>Facts on categories\<close>

lemma duration_loop_eq:
  "(made \<longrightarrow> dur < new) \<Longrightarrow>
   duration_loop dur rs new made =
     (if dur \<in> set rs then Inl dur
      else if \<forall>r \<in> set rs. r < dur then Inr (new, made)
      else Inr (Min ((if made then {new} else {}) \<union> {r \<in> set rs. dur < r}), True))"
proof (induction rs arbitrary: new made)
  case (Cons r rs)
  consider "r < dur" | "r = dur" | "dur < r" by linarith
  then show ?case
  proof cases
    case 3
    define A where "A = {x \<in> set rs. dur < x}"
    have fin: "finite A"
      by (simp add: A_def)
    have S: "{x. (x = r \<or> x \<in> set rs) \<and> dur < x} = Set.insert r A"
      using 3 by (auto simp: A_def)
    have none: "\<forall>x \<in> set rs. x < dur \<Longrightarrow> A = {}"
      by (fastforce simp: A_def)
    have A: "A = {} \<longleftrightarrow> (\<forall>x \<in> set rs. x < dur)" if "dur \<notin> set rs"
      using that by (force simp: A_def not_less le_less)
    show ?thesis
      using 3 Cons.prems fin none by (cases "A = {}") (auto simp: Cons.IH S A A_def [symmetric] Min_insert min_def split: if_splits)
  qed (use Cons in \<open>auto intro!: arg_cong [where f = Min]\<close>)
qed simp

lemma find_duration_range_eq:
  "find_duration_range dur rs =
     (if rs = [] then Inr dur
      else if \<forall>r \<in> set rs. r < dur then Inl ''bid duration exceeds maximum allowed''
      else Inr (Min {r \<in> set rs. dur \<le> r}))"
proof -
  have "Min {r \<in> set rs. dur \<le> r} = dur" if "dur \<in> set rs"
    using that by (intro Min_eqI) auto
  moreover have "{r \<in> set rs. dur \<le> r} = {r \<in> set rs. dur < r}" if "dur \<notin> set rs"
    using that by (auto simp: le_less)
  ultimately show ?thesis
    by (auto simp: find_duration_range_def duration_loop_eq)
qed

definition category_key :: "int list \<Rightarrow> category_bid \<Rightarrow> string option" where
  "category_key ranges b =
     (if cb_category b = [] then None
      else case find_duration_range (cb_duration b) ranges of
             Inl _ \<Rightarrow> None
           | Inr d \<Rightarrow> Some (cb_category b @ ''_'' @ show_int d @ ''s''))"

abbreviation kept_ids :: "category_state \<Rightarrow> string set" where
  "kept_ids s \<equiv> dom (map_of (cs_bid_category_map s))"

text \<open>What holds after the bids \<open>P\<close>: the kept bids are those of the deduplication table, one for every key seen.\<close>

definition category_inv :: "int list \<Rightarrow> category_bid list \<Rightarrow> category_state \<Rightarrow> bool" where
  "category_inv ranges P s =
     ((\<forall>k d. map_of (cs_dedupe s) k = Some d \<longrightarrow>
        bd_bid_id d \<in> kept_ids s \<and> (\<exists>b \<in> set P. cb_bid_id b = bd_bid_id d \<and> category_key ranges b = Some k))
      \<and> (\<forall>b \<in> set P. \<forall>k. category_key ranges b = Some k \<longrightarrow> k \<in> dom (map_of (cs_dedupe s)))
      \<and> (\<forall>i \<in> kept_ids s. \<exists>k d. map_of (cs_dedupe s) k = Some d \<and> bd_bid_id d = i)
      \<and> set (cs_removed_bid_ids s) = cb_bid_id ` set P - kept_ids s
      \<and> distinct (cs_removed_bid_ids s) \<and> length (cs_rejections s) = length (cs_removed_bid_ids s))"

lemma category_inv_kept: "category_inv ranges P s \<Longrightarrow> kept_ids s \<subseteq> cb_bid_id ` set P"
  unfolding category_inv_def by (metis imageI subsetI)

lemma map_of_hm_remove: "map_of (hm_remove k m) = (map_of m)(k := None)"
  by (simp add: hm_remove_def map_of_filter_neq)

lemma category_inv_reject:
  assumes "category_inv ranges P s" and "cb_bid_id b \<notin> cb_bid_id ` set P"
    and "category_key ranges b = None \<or> the (category_key ranges b) \<in> dom (map_of (cs_dedupe s))"
  shows "category_inv ranges (P @ [b]) (reject_category_bid (cb_bid_id b) reason s)"
  using assms category_inv_kept [OF assms(1)] unfolding category_inv_def reject_category_bid_def
  by (auto simp: image_iff)

abbreviation id_list :: "bid_dedupe option \<Rightarrow> string list" where
  "id_list old \<equiv> (case old of None \<Rightarrow> [] | Some d \<Rightarrow> [bd_bid_id d])"

text \<open>A bid that takes its key over from the bid that held it, if any.\<close>

lemma category_inv_put:
  assumes inv: "category_inv ranges P s" and fresh: "cb_bid_id b \<notin> cb_bid_id ` set P" and inj: "inj_on cb_bid_id (set P)"
    and key: "category_key ranges b = Some k"
    and D: "map_of (cs_dedupe t) = (map_of (cs_dedupe s))(k \<mapsto> D)" "bd_bid_id D = cb_bid_id b"
    and K: "kept_ids t = Set.insert (cb_bid_id b) (kept_ids s - set (id_list (map_of (cs_dedupe s) k)))"
    and R: "cs_removed_bid_ids t = cs_removed_bid_ids s @ id_list (map_of (cs_dedupe s) k)"
      "length (cs_rejections t) = length (cs_rejections s) + length (id_list (map_of (cs_dedupe s) k))"
  shows "category_inv ranges (P @ [b]) t"
proof -
  let ?old = "set (id_list (map_of (cs_dedupe s) k))"
  have tab: "bd_bid_id d' \<in> kept_ids s \<and> (\<exists>x \<in> set P. cb_bid_id x = bd_bid_id d' \<and> category_key ranges x = Some k')"
    if "map_of (cs_dedupe s) k' = Some d'" for k' d'
    using that inv unfolding category_inv_def by blast
  have one: "bd_bid_id d' \<notin> ?old" if "map_of (cs_dedupe s) k' = Some d'" "k' \<noteq> k" for k' d'
    using that(2) tab [OF that(1)] tab [of k] inj by (cases "map_of (cs_dedupe s) k") (simp, auto, metis inj_onD option.inject)
  have kept: "?old \<subseteq> kept_ids s"
    using tab [of k] by (cases "map_of (cs_dedupe s) k") auto
  then have old: "?old \<subseteq> kept_ids s" "?old \<subseteq> cb_bid_id ` set P" and fresh_kept: "cb_bid_id b \<notin> kept_ids s"
    using fresh category_inv_kept [OF inv] by blast+
  have "bd_bid_id d' \<in> kept_ids t \<and> (\<exists>x \<in> set (P @ [b]). cb_bid_id x = bd_bid_id d' \<and> category_key ranges x = Some k')"
    if "map_of (cs_dedupe t) k' = Some d'" for k' d'
    using that tab [of k' d'] one [of k' d'] key D(2) unfolding D(1) K by (cases "k' = k") auto
  moreover have "k' \<in> dom (map_of (cs_dedupe t))" if "x \<in> set (P @ [b])" "category_key ranges x = Some k'" for x k'
    using that inv key unfolding category_inv_def D by auto
  moreover have "\<exists>k' d'. map_of (cs_dedupe t) k' = Some d' \<and> bd_bid_id d' = j" if j: "j \<in> kept_ids t" for j
  proof (cases "j = cb_bid_id b")
    case False
    then obtain k' d' where *: "map_of (cs_dedupe s) k' = Some d'" "bd_bid_id d' = j" "j \<notin> ?old"
      using inv j unfolding category_inv_def K by blast
    then have "k' \<noteq> k" by auto
    then show ?thesis using * unfolding D by auto
  qed (use D in auto)
  moreover have "set (cs_removed_bid_ids t) = cb_bid_id ` set (P @ [b]) - kept_ids t"
    using inv old fresh fresh_kept unfolding category_inv_def R K by auto
  moreover have "distinct (cs_removed_bid_ids t)"
    using inv old unfolding category_inv_def R by (auto split: option.split)
  ultimately show ?thesis
    using inv unfolding category_inv_def R by simp
qed

lemma category_inv_flips: "category_inv ranges P (s\<lparr>cs_flips := n\<rparr>) = category_inv ranges P s"
  by (simp add: category_inv_def)

lemma category_inv_init: "category_inv ranges [] category_init"
  by (simp add: category_inv_def category_init_def)

lemma category_inv_step:
  assumes inv: "category_inv ranges P s" and dist: "distinct (map cb_bid_id (P @ [b]))"
  shows "category_inv ranges (P @ [b]) (category_step parse_f64 flip ranges seat (i, b) s)"
proof (cases "category_key ranges b")
  have fresh: "cb_bid_id b \<notin> cb_bid_id ` set P" and inj: "inj_on cb_bid_id (set P)"
    using dist by (auto simp: distinct_map)
  note reject = category_inv_reject [OF _ fresh]
  {
    case None
    then show ?thesis
      using inv by (auto simp: category_step_def category_key_def intro: reject split: if_splits sum.splits)
  next
    case (Some k)
    then obtain d where d: "cb_category b \<noteq> []" "find_duration_range (cb_duration b) ranges = Inr d"
      and k: "k = cb_category b @ CHR ''_'' # show_int d @ ''s''"
      by (auto simp: category_key_def split: if_splits sum.splits)
    note step = category_step_def [of parse_f64 flip ranges seat "(i, b)" s] d k
    define D where "D = \<lparr>bd_bidder_name = seat, bd_bid_index = i, bd_bid_id = cb_bid_id b, bd_bid_price = cb_price_bucket b\<rparr>"
    note put = category_inv_put [OF _ fresh inj Some, where D = D]
    show ?thesis
    proof (cases "map_of (cs_dedupe s) k")
      case None
      show ?thesis
        by (rule put [OF inv]) (auto simp: step None [unfolded k] D_def keep_category_bid_def map_of_hm_insert)
    next
      case old: (Some dupe)
      obtain wins n where w: "current_wins parse_f64 flip (cs_flips s) (bd_bid_price dupe) (cb_price_bucket b) = (wins, n)"
        by force
      have inv': "category_inv ranges P (s\<lparr>cs_flips := n\<rparr>)"
        using inv by (simp add: category_inv_flips)
      show ?thesis
      proof (cases wins)
        case True
        show ?thesis
          by (rule put [OF inv'])
            (auto simp: step old [unfolded k] D_def w True keep_category_bid_def reject_category_bid_def map_of_hm_insert map_of_hm_remove)
      next
        case False
        then show ?thesis
          using reject [OF inv', of "''Bid was deduplicated''"] old by (simp add: step old [unfolded k] w Some dom_def)
      qed
    qed
  }
qed

lemma category_inv_seat:
  "category_inv ranges P s \<Longrightarrow> distinct (map cb_bid_id (P @ bs)) \<Longrightarrow>
   category_inv ranges (P @ bs) (fold (category_step parse_f64 flip ranges seat) (List.enumerate n bs) s)"
proof (induction bs arbitrary: P s n)
  case (Cons b bs)
  have "category_inv ranges (P @ [b]) (category_step parse_f64 flip ranges seat (n, b) s)"
    using Cons.prems by (intro category_inv_step) auto
  from Cons.IH [OF this] show ?case
    using Cons.prems(2) by simp
qed simp

lemma category_inv_seats:
  "category_inv ranges P s \<Longrightarrow> distinct (map cb_bid_id (P @ concat (map snd es))) \<Longrightarrow>
   category_inv ranges (P @ concat (map snd es))
     (fold (\<lambda>(seat, bs). fold (category_step parse_f64 flip ranges seat) (List.enumerate 0 bs)) es s)"
proof (induction es arbitrary: P s)
  case (Cons e es)
  obtain seat bs where e: "e = (seat, bs)" by force
  have "category_inv ranges (P @ bs) (fold (category_step parse_f64 flip ranges seat) (List.enumerate 0 bs) s)"
    using Cons.prems by (intro category_inv_seat) (auto simp: e)
  from Cons.IH [OF this] show ?case
    using Cons.prems(2) by (simp add: e)
qed simp

lemma category_inv_one:
  assumes inv: "category_inv ranges P s" and inj: "inj_on cb_bid_id (set P)"
  shows "(\<exists>b \<in> set P. category_key ranges b = Some k)
         \<longleftrightarrow> (\<exists>!b. b \<in> set P \<and> cb_bid_id b \<in> kept_ids s \<and> category_key ranges b = Some k)" (is ?one)
    and "b \<in> set P \<Longrightarrow> cb_bid_id b \<in> kept_ids s \<Longrightarrow> category_key ranges b \<noteq> None"
proof -
  have kept: "\<exists>k' d. category_key ranges x = Some k' \<and> map_of (cs_dedupe s) k' = Some d \<and> bd_bid_id d = cb_bid_id x"
    if "x \<in> set P" "cb_bid_id x \<in> kept_ids s" for x
    using that inv inj unfolding category_inv_def by (metis inj_onD)
  have "x = y" if "x \<in> set P" "cb_bid_id x \<in> kept_ids s" "y \<in> set P" "cb_bid_id y \<in> kept_ids s"
    "category_key ranges x = category_key ranges y" for x y
    using kept [OF that(1,2)] kept [OF that(3,4)] that inj by (metis inj_onD option.inject)
  moreover have "\<exists>x \<in> set P. cb_bid_id x \<in> kept_ids s \<and> category_key ranges x = Some k"
    if "y \<in> set P" "category_key ranges y = Some k" for y
    using that inv unfolding category_inv_def by (metis domD)
  ultimately show ?one by metis
  show "category_key ranges b \<noteq> None" if "b \<in> set P" "cb_bid_id b \<in> kept_ids s"
    using kept [OF that] by auto
qed

text \<open>
  Property C18.  Competitive exclusion: when the bids of the auction have distinct identifiers, the category map keeps
  exactly one bid for every category and duration bucket that some bid falls in, it keeps no bid without such a key (no
  category, or longer than every bucket), and the list of removed identifiers holds every other bid exactly once, with one
  rejection message each.  This holds for every iteration order of the seats and every outcome of the random tie-breaks.
\<close>

theorem category_partition:
  assumes "distinct (map cb_bid_id bids)" and "bids = concat (map snd (hm_iter ord seat_bids))"
    and "s = apply_category_mapping parse_f64 flip ord seat_bids ranges"
  shows "(\<forall>k. (\<exists>b \<in> set bids. category_key ranges b = Some k)
           \<longleftrightarrow> (\<exists>!b. b \<in> set bids \<and> cb_bid_id b \<in> kept_ids s \<and> category_key ranges b = Some k))
    \<and> (\<forall>b \<in> set bids. cb_bid_id b \<in> kept_ids s \<longrightarrow> category_key ranges b \<noteq> None)
    \<and> kept_ids s \<subseteq> cb_bid_id ` set bids \<and> set (cs_removed_bid_ids s) = cb_bid_id ` set bids - kept_ids s
    \<and> distinct (cs_removed_bid_ids s) \<and> length (cs_rejections s) = length (cs_removed_bid_ids s)"
proof -
  have inj: "inj_on cb_bid_id (set bids)"
    using assms(1) by (simp add: distinct_map)
  have inv: "category_inv ranges bids s"
    unfolding assms(2,3) apply_category_mapping_def
    using category_inv_seats [of ranges "[]" "category_init" "hm_iter ord seat_bids"] assms(1,2) by (simp add: category_inv_init)
  then show ?thesis
    using category_inv_one [OF inv inj] category_inv_kept [OF inv] by (auto simp: category_inv_def)
qed

definition category_demo :: "(string \<times> category_bid list) list" where
  "category_demo =
     [(''a'', [\<lparr>cb_bid_id = ''1'', cb_category = ''news'', cb_duration = 12, cb_price_bucket = ''2.00''\<rparr>,
              \<lparr>cb_bid_id = ''2'', cb_category = [], cb_duration = 12, cb_price_bucket = ''9.00''\<rparr>]),
      (''b'', [\<lparr>cb_bid_id = ''3'', cb_category = ''news'', cb_duration = 15, cb_price_bucket = ''5.00''\<rparr>,
              \<lparr>cb_bid_id = ''4'', cb_category = ''news'', cb_duration = 25, cb_price_bucket = ''1.00''\<rparr>])]"

definition category_demo_price :: "string \<Rightarrow> f64 option" where
  "category_demo_price str = map_of [(''2.00'', Fin False 2), (''5.00'', Fin False 5), (''1.00'', Fin False 1)] str"

abbreviation category_demo_result :: category_state where
  "category_demo_result \<equiv> apply_category_mapping category_demo_price (\<lambda>_. True) (\<lambda>ks. ks) category_demo [15, 30]"

lemma category_demo_map:
  "cs_bid_category_map category_demo_result = [(''3'', ''5.00_news_15s''), (''4'', ''1.00_news_30s'')]"
  by code_simp

lemma category_demo_bids:
  "map cb_bid_id (concat (map snd (hm_iter (\<lambda>ks. ks) category_demo))) = [''1'', ''2'', ''3'', ''4'']"
  by code_simp

theorem category_partition_witness:
  "kept_ids category_demo_result = {''3'', ''4''} \<and> set (cs_removed_bid_ids category_demo_result) = {''1'', ''2''}"
proof -
  let ?bids = "concat (map snd (hm_iter (\<lambda>ks. ks) category_demo))"
  have "distinct (map cb_bid_id ?bids)"
    unfolding category_demo_bids by code_simp
  then have removed: "set (cs_removed_bid_ids category_demo_result) = set (map cb_bid_id ?bids) - kept_ids category_demo_result"
    using category_partition [OF _ refl refl] by (simp only: set_map simp_thms)
  have kept: "kept_ids category_demo_result = {''3'', ''4''}"
    unfolding category_demo_map by auto
  show ?thesis
    unfolding removed kept category_demo_bids by auto
qed

end
