(* ===== verification/GdprEnforce.thy ===== *)
theory GdprEnforce
  imports TcfConsent ExPrivacy
begin

text \<open>
  GDPR in the exchange, \<^verbatim>\<open>rust/crates/exchange/src/gdpr.rs\<close>: a second decoder of TCF consent strings (beside the one of
  the GDPR crate, in \<^verbatim>\<open>TcfConsent\<close>), the enforcement of a policy per bidder, permissions per purpose, the vendor list and its fetchers, and
  the signals of a request.

  Parameters: \<open>b64\<close> is \<^verbatim>\<open>STANDARD.decode\<close> of \<^verbatim>\<open>base64\<close>, \<open>upper\<close> is the upper-casing of Unicode text, \<open>parse_json\<close> reads a document,
  \<open>net\<close> is the answer of the network to a URL.  A \<^verbatim>\<open>HashSet\<close> is the list of its elements in the order in which it is iterated where
  that order is visible, and a set where it is not; a poisoned lock (a panic in another thread) is not modelled.
\<close>

unbundle bit_operations_syntax

section \<open>The second decoder\<close>

fun gsig_from_i64 :: "int \<Rightarrow> signal" where
  "gsig_from_i64 v = (if v = 0 then No else if v = 1 then Yes else Ambiguous)"

fun gsig_as_opt_i8 :: "signal \<Rightarrow> int option" where
  "gsig_as_opt_i8 Ambiguous = None"
| "gsig_as_opt_i8 No = Some 0"
| "gsig_as_opt_i8 Yes = Some 1"

record tcf_info =
  ti_version :: u8
  ti_purpose_consents :: u64
  ti_vendor_consents :: "nat set"
  ti_raw :: "u8 list"

definition to_standard :: "char \<Rightarrow> char" where
  "to_standard c = (if c = CHR ''-'' then CHR ''+'' else if c = CHR ''_'' then CHR ''/'' else c)"

definition ti_decode_base64url :: "(string \<Rightarrow> u8 list option) \<Rightarrow> string \<Rightarrow> u8 list option" where
  "ti_decode_base64url b64 input =
     (let normalized = map to_standard input
      in b64 (if length normalized mod 4 = 2 then normalized @ ''==''
              else if length normalized mod 4 = 3 then normalized @ ''='' else normalized))"

definition ti_read_bit :: "u8 list \<Rightarrow> nat \<Rightarrow> bool option" where
  "ti_read_bit data bit_offset =
     (let byte_index = bit_offset div 8; bit_index = 7 - bit_offset mod 8
      in if byte_index \<ge> length data then None else Some (drop_bit bit_index (data ! byte_index) AND 1 = 1))"

fun ti_bits_loop :: "u8 list \<Rightarrow> nat \<Rightarrow> nat \<Rightarrow> u64 \<Rightarrow> u64 option" where
  "ti_bits_loop data off 0 val = Some val"
| "ti_bits_loop data off (Suc n) val =
     (case ti_read_bit data off of
        None \<Rightarrow> None
      | Some b \<Rightarrow> ti_bits_loop data (Suc off) n (push_bit 1 val OR of_bool b))"

definition ti_read_bits :: "u8 list \<Rightarrow> nat \<Rightarrow> nat \<Rightarrow> u64 option" where
  "ti_read_bits data bit_offset n = (if n > 64 then None else ti_bits_loop data bit_offset n 0)"

text \<open>The sixteen-bit vendor ids.\<close>

definition read_id :: "u8 list \<Rightarrow> nat \<Rightarrow> nat option" where
  "read_id data off = map_option unat (ti_read_bits data off 16)"

fun range_entries :: "u8 list \<Rightarrow> nat \<Rightarrow> bool \<Rightarrow> nat \<Rightarrow> nat \<Rightarrow> nat set \<Rightarrow> nat set" where
  "range_entries data max_vendor_id default_consent 0 offset vendors = vendors"
| "range_entries data max_vendor_id default_consent (Suc n) offset vendors =
     (case ti_read_bit data offset of
        None \<Rightarrow> vendors
      | Some True \<Rightarrow>
          (case read_id data (offset + 1) of
             None \<Rightarrow> vendors
           | Some start_id \<Rightarrow>
               (case read_id data (offset + 17) of
                  None \<Rightarrow> vendors
                | Some end_id \<Rightarrow>
                    (let ids = {start_id .. min end_id max_vendor_id}
                     in range_entries data max_vendor_id default_consent n (offset + 33)
                          (if default_consent then vendors - ids else vendors \<union> ids))))
      | Some False \<Rightarrow>
          (case read_id data (offset + 1) of
             None \<Rightarrow> vendors
           | Some vid \<Rightarrow>
               range_entries data max_vendor_id default_consent n (offset + 17)
                 (if vid \<le> max_vendor_id then if default_consent then vendors - {vid} else Set.insert vid vendors else vendors)))"

definition parse_range_entries :: "u8 list \<Rightarrow> nat \<Rightarrow> nat \<Rightarrow> bool \<Rightarrow> nat set \<Rightarrow> nat set" where
  "parse_range_entries data start_bit max_vendor_id default_consent vendors =
     (let vendors = (if default_consent then vendors \<union> {1..max_vendor_id} else vendors)
      in case ti_read_bits data start_bit 12 of
           None \<Rightarrow> vendors
         | Some num_entries \<Rightarrow> range_entries data max_vendor_id default_consent (unat num_entries) (start_bit + 12) vendors)"

fun purposes_loop :: "u8 list \<Rightarrow> nat list \<Rightarrow> u64 \<Rightarrow> u64 option" where
  "purposes_loop decoded [] consents = Some consents"
| "purposes_loop decoded (i # is) consents =
     (case ti_read_bit decoded (152 + i) of
        None \<Rightarrow> None
      | Some b \<Rightarrow> purposes_loop decoded is (if b then consents OR push_bit i 1 else consents))"

definition extract_purpose_consents_v1 :: "u8 list \<Rightarrow> u64 option" where
  "extract_purpose_consents_v1 decoded = purposes_loop decoded [0..<24] 0"

definition extract_purpose_consents_v2 :: "u8 list \<Rightarrow> u64 option" where
  "extract_purpose_consents_v2 decoded = purposes_loop decoded [0..<24] 0"

definition bitfield_vendors :: "u8 list \<Rightarrow> nat \<Rightarrow> nat \<Rightarrow> nat set" where
  "bitfield_vendors decoded start n = set (filter (\<lambda>vid. ti_read_bit decoded (start + (vid - 1)) = Some True) [1..<Suc n])"

definition extract_vendor_consents_v1 :: "u8 list \<Rightarrow> nat set" where
  "extract_vendor_consents_v1 decoded =
     (case read_id decoded 176 of
        None \<Rightarrow> {}
      | Some max_vendor_id \<Rightarrow>
          if ti_read_bit decoded 192 \<noteq> Some True then bitfield_vendors decoded 193 max_vendor_id
          else parse_range_entries decoded 194 max_vendor_id (ti_read_bit decoded 193 = Some True) {})"

definition extract_vendor_consents_v2 :: "u8 list \<Rightarrow> nat set" where
  "extract_vendor_consents_v2 decoded =
     (case read_id decoded 260 of
        None \<Rightarrow> {}
      | Some max_vendor_id \<Rightarrow>
          if ti_read_bit decoded 276 \<noteq> Some True then bitfield_vendors decoded 277 (min max_vendor_id 2048)
          else parse_range_entries decoded 277 max_vendor_id False {})"

definition parse_v1 :: "u8 list \<Rightarrow> tcf_info option" where
  "parse_v1 decoded =
     map_option (\<lambda>p. \<lparr>ti_version = 1, ti_purpose_consents = p, ti_vendor_consents = extract_vendor_consents_v1 decoded, ti_raw = decoded\<rparr>)
       (extract_purpose_consents_v1 decoded)"

definition parse_v2 :: "u8 list \<Rightarrow> tcf_info option" where
  "parse_v2 decoded =
     map_option (\<lambda>p. \<lparr>ti_version = 2, ti_purpose_consents = p, ti_vendor_consents = extract_vendor_consents_v2 decoded, ti_raw = decoded\<rparr>)
       (extract_purpose_consents_v2 decoded)"

definition tcf_parse :: "(string \<Rightarrow> u8 list option) \<Rightarrow> string \<Rightarrow> tcf_info option" where
  "tcf_parse b64 consent_str =
     (if consent_str = [] then None
      else case ti_decode_base64url b64 consent_str of
             None \<Rightarrow> None
           | Some decoded \<Rightarrow>
               if length decoded < 8 then None
               else let version = drop_bit 2 (hd decoded) AND 0x3F
                    in if version = 1 then parse_v1 decoded else if version = 2 then parse_v2 decoded else None)"

definition has_purpose_consent :: "tcf_info \<Rightarrow> nat \<Rightarrow> bool" where
  "has_purpose_consent t purpose =
     (if purpose = 0 \<or> purpose > 64 then False else drop_bit (purpose - 1) (ti_purpose_consents t) AND 1 = 1)"

definition has_vendor_consent :: "tcf_info \<Rightarrow> nat \<Rightarrow> bool" where
  "has_vendor_consent t vid = (vid \<in> ti_vendor_consents t)"

section \<open>Enforcement of a policy\<close>

record gdpr_policy =
  gp_enabled :: bool
  gp_default_value :: signal
  gp_enforce_purposes :: "nat list"
  gp_require_vendor_consent :: bool
  gp_bidder_exceptions :: "string list"

definition gdpr_policy_default :: "nat list \<Rightarrow> gdpr_policy" where
  "gdpr_policy_default one_and_two =
     \<lparr>gp_enabled = True, gp_default_value = Ambiguous, gp_enforce_purposes = one_and_two, gp_require_vendor_consent = True, gp_bidder_exceptions = []\<rparr>"

record gdpr_enforcement_result =
  er_allow :: bool
  er_mask_personal_data :: bool
  er_denied_purposes :: "nat list"

definition allowed_result :: gdpr_enforcement_result where
  "allowed_result = \<lparr>er_allow = True, er_mask_personal_data = False, er_denied_purposes = []\<rparr>"

definition effective_signal :: "gdpr_policy \<Rightarrow> signal \<Rightarrow> signal" where
  "effective_signal policy sig = (case sig of Ambiguous \<Rightarrow> gp_default_value policy | s \<Rightarrow> s)"

definition check_bidder ::
  "(string \<Rightarrow> u8 list option) \<Rightarrow> gdpr_policy \<Rightarrow> signal \<Rightarrow> string option \<Rightarrow> string \<Rightarrow> nat option \<Rightarrow> gdpr_enforcement_result" where
  "check_bidder b64 policy sig consent_str bidder_name vid =
     (if \<not> gp_enabled policy then allowed_result
      else if bidder_name \<in> set (gp_bidder_exceptions policy) then allowed_result
      else if effective_signal policy sig \<noteq> Yes then allowed_result
      else case Option.bind consent_str (tcf_parse b64) of
             None \<Rightarrow> \<lparr>er_allow = False, er_mask_personal_data = True, er_denied_purposes = gp_enforce_purposes policy\<rparr>
           | Some tcf \<Rightarrow>
               (let denied = filter (\<lambda>p. \<not> has_purpose_consent tcf p) (gp_enforce_purposes policy);
                    vendor_ok = (if gp_require_vendor_consent policy
                                 then case vid of Some v \<Rightarrow> has_vendor_consent tcf v | None \<Rightarrow> True
                                 else True);
                    allow = (denied = [] \<and> vendor_ok)
                in \<lparr>er_allow = allow, er_mask_personal_data = \<not> allow, er_denied_purposes = denied\<rparr>))"

record consent_permissions =
  cp_signal :: signal
  cp_consent :: "tcf_info option"
  cp_policy :: gdpr_policy

definition cp_can_enforce :: "consent_permissions \<Rightarrow> bool" where
  "cp_can_enforce p = (gp_enabled (cp_policy p) \<and> effective_signal (cp_policy p) (cp_signal p) = Yes)"

definition cp_has_purpose_consent :: "consent_permissions \<Rightarrow> nat \<Rightarrow> bool" where
  "cp_has_purpose_consent p purpose = (case cp_consent p of Some tcf \<Rightarrow> has_purpose_consent tcf purpose | None \<Rightarrow> False)"

definition cp_has_vendor_consent :: "consent_permissions \<Rightarrow> nat \<Rightarrow> bool" where
  "cp_has_vendor_consent p vid = (case cp_consent p of Some tcf \<Rightarrow> has_vendor_consent tcf vid | None \<Rightarrow> False)"

definition cp_bidder_allowed :: "consent_permissions \<Rightarrow> string \<Rightarrow> nat option \<Rightarrow> bool" where
  "cp_bidder_allowed p bidder_name vid =
     (if \<not> cp_can_enforce p then True
      else if bidder_name \<in> set (gp_bidder_exceptions (cp_policy p)) then True
      else case cp_consent p of
             None \<Rightarrow> False
           | Some tcf \<Rightarrow>
               list_all (has_purpose_consent tcf) (gp_enforce_purposes (cp_policy p))
               \<and> (if gp_require_vendor_consent (cp_policy p)
                  then case vid of Some v \<Rightarrow> has_vendor_consent tcf v | None \<Rightarrow> True
                  else True))"

section \<open>Enforcement per purpose\<close>

record purpose_config =
  pu_enforce_purpose :: bool
  pu_enforce_vendors :: bool
  pu_vendor_exceptions :: "nat list"
  pu_enforce_algo :: string

definition purpose_config_default :: purpose_config where
  "purpose_config_default = \<lparr>pu_enforce_purpose = True, pu_enforce_vendors = True, pu_vendor_exceptions = [], pu_enforce_algo = ''basic''\<rparr>"

text \<open>The ten purposes, an array indexed from zero.\<close>

type_synonym purpose_enforcer = "purpose_config list"

definition purpose_enforcer_default :: purpose_enforcer where
  "purpose_enforcer_default = replicate 10 purpose_config_default"

definition purpose_cfg_allows :: "purpose_config \<Rightarrow> nat \<Rightarrow> tcf_info \<Rightarrow> nat \<Rightarrow> bool" where
  "purpose_cfg_allows cfg purpose consent vid =
     (if vid \<in> set (pu_vendor_exceptions cfg) then True
      else (if pu_enforce_purpose cfg then has_purpose_consent consent purpose else True)
           \<and> (if pu_enforce_vendors cfg then has_vendor_consent consent vid else True))"

definition purpose_is_allowed :: "purpose_enforcer \<Rightarrow> nat \<Rightarrow> tcf_info \<Rightarrow> nat \<Rightarrow> bool" where
  "purpose_is_allowed e purpose consent vid =
     (if purpose = 0 \<or> purpose > 10 then False else purpose_cfg_allows (e ! (purpose - 1)) purpose consent vid)"

definition is_allowed_for_purposes :: "purpose_enforcer \<Rightarrow> nat list \<Rightarrow> tcf_info \<Rightarrow> nat \<Rightarrow> bool" where
  "is_allowed_for_purposes e purposes consent vid = list_all (\<lambda>p. purpose_is_allowed e p consent vid) purposes"

section \<open>The vendor list\<close>

record vendor_info =
  vi_id :: nat
  vi_purposes :: "nat set"
  vi_leg_int_purposes :: "nat set"
  vi_special_purposes :: "nat set"
  vi_flexible_purposes :: "nat set"

record ex_vendor_list =
  vl_version :: nat
  vl_vendors :: "(nat \<times> vendor_info) list"

definition as_u32_wrap :: "nat \<Rightarrow> nat" where
  "as_u32_wrap n = n mod 2 ^ 32"

definition number_set :: "json option \<Rightarrow> nat set" where
  "number_set v =
     (case Option.bind v as_array of
        None \<Rightarrow> {}
      | Some arr \<Rightarrow> set (map as_u32_wrap (List.map_filter as_u64 arr)))"

definition read_vendor :: "nat \<Rightarrow> json \<Rightarrow> vendor_info" where
  "read_vendor i v =
     \<lparr>vi_id = i, vi_purposes = number_set (jget v ''purposes''), vi_leg_int_purposes = number_set (jget v ''legIntPurposes''),
      vi_special_purposes = number_set (jget v ''specialPurposes''), vi_flexible_purposes = number_set (jget v ''flexiblePurposes'')\<rparr>"

fun read_vendors :: "(string \<times> json) list \<Rightarrow> (nat \<times> vendor_info) list \<Rightarrow> (nat \<times> vendor_info) list option" where
  "read_vendors [] vendors = Some vendors"
| "read_vendors ((id_str, v) # rest) vendors =
     (case parse_u32 id_str of
        None \<Rightarrow> None
      | Some i \<Rightarrow> read_vendors rest (hm_insert (nat i) (read_vendor (nat i) v) vendors))"

definition vendor_list_from_json :: "(u8 list \<Rightarrow> json option) \<Rightarrow> u8 list \<Rightarrow> ex_vendor_list option" where
  "vendor_list_from_json parse_json data =
     Option.bind (parse_json data) (\<lambda>val.
     Option.bind (Option.bind (jget val ''vendorListVersion'') as_u64) (\<lambda>version.
     Option.bind (Option.bind (jget val ''vendors'') as_object) (\<lambda>vendors_obj.
     map_option (\<lambda>vs. \<lparr>vl_version = as_u32_wrap version, vl_vendors = vs\<rparr>) (read_vendors vendors_obj []))))"

definition vendor_has_purpose :: "ex_vendor_list \<Rightarrow> nat \<Rightarrow> nat \<Rightarrow> bool" where
  "vendor_has_purpose vl vid purpose = (case map_of (vl_vendors vl) vid of None \<Rightarrow> False | Some v \<Rightarrow> purpose \<in> vi_purposes v)"

definition static_fetch :: "ex_vendor_list \<Rightarrow> nat \<Rightarrow> ex_vendor_list option" where
  "static_fetch vl tcf_version = Some vl"

record http_vendor_list_fetcher =
  hv_url_template :: string
  hv_cache :: "(nat \<times> ex_vendor_list) list"
  hv_latest_version :: "nat option"

definition default_gvl_url :: string where
  "default_gvl_url = ''https://vendor-list.consensu.org/v-{version}/vendor-list.json''"

definition latest_gvl_url :: string where
  "latest_gvl_url = ''https://vendor-list.consensu.org/v2/vendor-list.json''"

definition http_vendor_list_fetcher_new :: "string option \<Rightarrow> http_vendor_list_fetcher" where
  "http_vendor_list_fetcher_new url_template =
     \<lparr>hv_url_template = unwrap_or default_gvl_url url_template, hv_cache = [], hv_latest_version = None\<rparr>"

text \<open>The blocking fetch is a stub that finds nothing.\<close>

definition fetch_from_url :: "string \<Rightarrow> ex_vendor_list option" where
  "fetch_from_url url = None"

definition preload :: "http_vendor_list_fetcher \<Rightarrow> http_vendor_list_fetcher \<times> bool" where
  "preload h =
     (case fetch_from_url latest_gvl_url of
        None \<Rightarrow> (h, False)
      | Some vl \<Rightarrow> (h\<lparr>hv_cache := hm_insert (vl_version vl) vl (hv_cache h), hv_latest_version := Some (vl_version vl)\<rparr>, True))"

definition gvl_build_url :: "string \<Rightarrow> nat \<Rightarrow> string" where
  "gvl_build_url url_template v =
     str_replace ''{{version}}'' (show_nat v) (str_replace ''{version}'' (show_nat v) url_template)"

definition http_fetch :: "http_vendor_list_fetcher \<Rightarrow> nat \<Rightarrow> http_vendor_list_fetcher \<times> ex_vendor_list option" where
  "http_fetch h tcf_version =
     (case map_of (hv_cache h) tcf_version of
        Some vl \<Rightarrow> (h, Some vl)
      | None \<Rightarrow>
          (case fetch_from_url (gvl_build_url (hv_url_template h) tcf_version) of
             Some vl \<Rightarrow> (h\<lparr>hv_cache := hm_insert tcf_version vl (hv_cache h)\<rparr>, Some vl)
           | None \<Rightarrow>
               (case hv_latest_version h of
                  Some latest_ver \<Rightarrow> (h, if latest_ver \<noteq> tcf_version then map_of (hv_cache h) latest_ver else None)
                | None \<Rightarrow> (h, None))))"

record async_vendor_list_fetcher =
  av_url_template :: string
  av_cache :: "(nat \<times> ex_vendor_list) list"

definition async_new :: "string option \<Rightarrow> async_vendor_list_fetcher" where
  "async_new url_template = \<lparr>av_url_template = unwrap_or default_gvl_url url_template, av_cache = []\<rparr>"

text \<open>A request to the network gives a status and a body, or fails.\<close>

definition download_list :: "(string \<Rightarrow> (nat \<times> u8 list option) option) \<Rightarrow> (u8 list \<Rightarrow> json option) \<Rightarrow> string \<Rightarrow> ex_vendor_list option" where
  "download_list net parse_json url =
     (case net url of
        Some (status, Some body) \<Rightarrow> if 200 \<le> status \<and> status < 300 then vendor_list_from_json parse_json body else None
      | _ \<Rightarrow> None)"

definition cached_download ::
  "(string \<Rightarrow> (nat \<times> u8 list option) option) \<Rightarrow> (u8 list \<Rightarrow> json option) \<Rightarrow> string \<Rightarrow> async_vendor_list_fetcher
   \<Rightarrow> async_vendor_list_fetcher \<times> ex_vendor_list option" where
  "cached_download net parse_json url a =
     (case download_list net parse_json url of
        None \<Rightarrow> (a, None)
      | Some vl \<Rightarrow> (a\<lparr>av_cache := hm_insert (vl_version vl) vl (av_cache a)\<rparr>, Some vl))"

definition fetch_async ::
  "(string \<Rightarrow> (nat \<times> u8 list option) option) \<Rightarrow> (u8 list \<Rightarrow> json option) \<Rightarrow> nat \<Rightarrow> async_vendor_list_fetcher
   \<Rightarrow> async_vendor_list_fetcher \<times> ex_vendor_list option" where
  "fetch_async net parse_json v a =
     (case map_of (av_cache a) v of
        Some vl \<Rightarrow> (a, Some vl)
      | None \<Rightarrow> cached_download net parse_json (gvl_build_url (av_url_template a) v) a)"

definition preload_latest ::
  "(string \<Rightarrow> (nat \<times> u8 list option) option) \<Rightarrow> (u8 list \<Rightarrow> json option) \<Rightarrow> async_vendor_list_fetcher
   \<Rightarrow> async_vendor_list_fetcher \<times> ex_vendor_list option" where
  "preload_latest net parse_json a = cached_download net parse_json latest_gvl_url a"

section \<open>Permissions\<close>

record permissions_impl =
  pm_policy :: gdpr_policy
  pm_consent :: "tcf_info option"
  pm_signal :: signal
  pm_host_vendor_id :: "nat option"
  pm_vendor_ids :: "(string \<times> nat) list"
  pm_vendor_list :: "ex_vendor_list option"
  pm_purpose_enforcer :: purpose_enforcer
  pm_non_standard_publishers :: "string list"
  pm_publisher_id :: string
  pm_alias_gvl_ids :: "(string \<times> nat) list"

definition resolve_vendor_id :: "permissions_impl \<Rightarrow> string \<Rightarrow> string \<Rightarrow> nat option" where
  "resolve_vendor_id p bidder_core_name bidder =
     (case map_of (pm_alias_gvl_ids p) bidder of Some v \<Rightarrow> Some v | None \<Rightarrow> map_of (pm_vendor_ids p) bidder_core_name)"

definition is_non_standard_publisher :: "permissions_impl \<Rightarrow> bool" where
  "is_non_standard_publisher p = (pm_publisher_id p \<in> set (pm_non_standard_publishers p))"

definition allow_sync :: "permissions_impl \<Rightarrow> nat \<Rightarrow> bool" where
  "allow_sync p vid =
     (case pm_consent p of None \<Rightarrow> False | Some consent \<Rightarrow> purpose_cfg_allows (pm_purpose_enforcer p ! 0) 1 consent vid)"

definition pm_allow_bid_request :: "permissions_impl \<Rightarrow> string \<Rightarrow> nat \<Rightarrow> bool" where
  "pm_allow_bid_request p bidder vid =
     (case pm_consent p of
        None \<Rightarrow> False
      | Some consent \<Rightarrow>
          if bidder \<in> set (gp_bidder_exceptions (pm_policy p)) then True
          else purpose_is_allowed (pm_purpose_enforcer p) 2 consent vid)"

definition allow_geo :: "permissions_impl \<Rightarrow> string \<Rightarrow> nat \<Rightarrow> bool" where
  "allow_geo p bidder vid =
     (case pm_consent p of
        None \<Rightarrow> False
      | Some consent \<Rightarrow>
          if bidder \<in> set (gp_bidder_exceptions (pm_policy p)) then True
          else case Option.bind (pm_vendor_list p) (\<lambda>vl. map_of (vl_vendors vl) vid) of
                 Some vi \<Rightarrow> if 1 \<in> vi_special_purposes vi then has_vendor_consent consent vid else has_vendor_consent consent vid
               | None \<Rightarrow> has_vendor_consent consent vid)"

definition allow_id :: "permissions_impl \<Rightarrow> string \<Rightarrow> nat \<Rightarrow> bool" where
  "allow_id p bidder vid =
     (case pm_consent p of
        None \<Rightarrow> False
      | Some consent \<Rightarrow>
          if bidder \<in> set (gp_bidder_exceptions (pm_policy p)) then True
          else list_ex (\<lambda>i. purpose_is_allowed (pm_purpose_enforcer p) i consent vid) [2..<11])"

definition pm_host_cookies_allowed :: "permissions_impl \<Rightarrow> bool" where
  "pm_host_cookies_allowed p =
     (if effective_signal (pm_policy p) (pm_signal p) \<noteq> Yes then True
      else case pm_host_vendor_id p of Some vid \<Rightarrow> allow_sync p vid | None \<Rightarrow> True)"

definition pm_bidder_sync_allowed :: "permissions_impl \<Rightarrow> string \<Rightarrow> bool" where
  "pm_bidder_sync_allowed p bidder =
     (if effective_signal (pm_policy p) (pm_signal p) \<noteq> Yes then True
      else if is_non_standard_publisher p then True
      else case map_of (pm_vendor_ids p) bidder of Some vid \<Rightarrow> allow_sync p vid | None \<Rightarrow> True)"

definition auction_activities_allowed :: "permissions_impl \<Rightarrow> string \<Rightarrow> string \<Rightarrow> auction_permissions" where
  "auction_activities_allowed p bidder_core_name bidder =
     (if is_non_standard_publisher p then ALLOW_ALL
      else if effective_signal (pm_policy p) (pm_signal p) \<noteq> Yes then ALLOW_ALL
      else case resolve_vendor_id p bidder_core_name bidder of
             None \<Rightarrow> ALLOW_ALL
           | Some vid \<Rightarrow> \<lparr>allow_bid_request = pm_allow_bid_request p bidder vid, pass_geo = allow_geo p bidder vid, pass_id = allow_id p bidder vid\<rparr>)"

text \<open>The three implementations of the trait: of a consent string, the one that always allows, and the wrapper that allows the cookies of
  the host.\<close>

datatype permissions = PermissionsImpl permissions_impl | AlwaysAllow | AllowHostCookies permissions

fun host_cookies_allowed :: "permissions \<Rightarrow> bool" where
  "host_cookies_allowed (PermissionsImpl p) = pm_host_cookies_allowed p"
| "host_cookies_allowed AlwaysAllow = True"
| "host_cookies_allowed (AllowHostCookies inner) = True"

fun bidder_sync_allowed :: "permissions \<Rightarrow> string \<Rightarrow> bool" where
  "bidder_sync_allowed (PermissionsImpl p) bidder = pm_bidder_sync_allowed p bidder"
| "bidder_sync_allowed AlwaysAllow bidder = True"
| "bidder_sync_allowed (AllowHostCookies inner) bidder = bidder_sync_allowed inner bidder"

fun activities_allowed :: "permissions \<Rightarrow> string \<Rightarrow> string \<Rightarrow> auction_permissions" where
  "activities_allowed (PermissionsImpl p) core bidder = auction_activities_allowed p core bidder"
| "activities_allowed AlwaysAllow core bidder = ALLOW_ALL"
| "activities_allowed (AllowHostCookies inner) core bidder = activities_allowed inner core bidder"

section \<open>Full enforcement\<close>

record full_enforcement =
  fe_purpose_id :: nat
  fe_config :: purpose_config

definition consent_established :: "full_enforcement \<Rightarrow> tcf_info \<Rightarrow> vendor_info \<Rightarrow> bool \<Rightarrow> bool \<Rightarrow> bool" where
  "consent_established f consent v enforce_purpose enforce_vendors =
     ((if enforce_purpose then fe_purpose_id f \<in> vi_purposes v \<and> has_purpose_consent consent (fe_purpose_id f) else True)
      \<and> (if enforce_vendors then has_vendor_consent consent (vi_id v) else True))"

definition legit_interest_established :: "full_enforcement \<Rightarrow> tcf_info \<Rightarrow> vendor_info \<Rightarrow> bool \<Rightarrow> bool \<Rightarrow> bool" where
  "legit_interest_established f consent v enforce_purpose enforce_vendors =
     ((if enforce_purpose then fe_purpose_id f \<in> vi_leg_int_purposes v else True)
      \<and> (if enforce_vendors then has_vendor_consent consent (vi_id v) else True))"

definition legal_basis :: "full_enforcement \<Rightarrow> tcf_info \<Rightarrow> vendor_info \<Rightarrow> bool option \<Rightarrow> bool option \<Rightarrow> bool" where
  "legal_basis f consent v enforce_purpose_override enforce_vendors_override =
     (let enforce_purpose = unwrap_or (pu_enforce_purpose (fe_config f)) enforce_purpose_override;
          enforce_vendors = unwrap_or (pu_enforce_vendors (fe_config f)) enforce_vendors_override
      in if vi_id v \<in> set (pu_vendor_exceptions (fe_config f)) then True
         else if consent_established f consent v enforce_purpose enforce_vendors then True
         else if pu_enforce_algo (fe_config f) = ''full'' then legit_interest_established f consent v enforce_purpose enforce_vendors
         else False)"

section \<open>Helpers\<close>

definition parse_purpose_consents :: "(string \<Rightarrow> u8 list option) \<Rightarrow> string \<Rightarrow> u64 option" where
  "parse_purpose_consents b64 s = map_option ti_purpose_consents (tcf_parse b64 s)"

definition vendor_has_consent :: "(string \<Rightarrow> u8 list option) \<Rightarrow> string \<Rightarrow> nat \<Rightarrow> nat \<Rightarrow> bool" where
  "vendor_has_consent b64 s vid purpose =
     (case tcf_parse b64 s of Some tcf \<Rightarrow> has_purpose_consent tcf purpose \<and> has_vendor_consent tcf vid | None \<Rightarrow> False)"

definition should_block_bidder_gdpr :: "(string \<Rightarrow> u8 list option) \<Rightarrow> bool \<Rightarrow> string option \<Rightarrow> string \<Rightarrow> bool" where
  "should_block_bidder_gdpr b64 applies consent_str bidder_name =
     (if \<not> applies then False
      else case consent_str of
             None \<Rightarrow> True
           | Some s \<Rightarrow> if s = [] then True else parse_purpose_consents b64 s = None)"

definition get_gdpr_signal :: "bid_request \<Rightarrow> (string, signal) res" where
  "get_gdpr_signal req =
     (case req_regs req of
        None \<Rightarrow> Inr Ambiguous
      | Some r \<Rightarrow>
          if unwrap_or [] (regs_gpp_sid r) \<noteq> []
          then Inr (if GPP_SID_TCF_EU2 \<in> set (unwrap_or [] (regs_gpp_sid r)) then Yes else No)
          else case regs_gdpr r of
                 Some g \<Rightarrow>
                   if g = 0 then Inr No else if g = 1 then Inr Yes
                   else Inl (''GDPR signal should be integer 0 or 1, got '' @ show_int g)
               | None \<Rightarrow> Inr Ambiguous)"

definition get_consent :: "bid_request \<Rightarrow> string" where
  "get_consent req =
     (case Option.bind (req_regs req) (\<lambda>r.
             if GPP_SID_TCF_EU2 \<in> set (unwrap_or [] (regs_gpp_sid r)) \<and> unwrap_or [] (regs_gpp r) \<noteq> [] then regs_gpp r else None) of
        Some gpp \<Rightarrow> gpp
      | None \<Rightarrow> unwrap_or [] (Option.bind (req_user req) user_consent))"

definition select_eea_countries :: "string list \<Rightarrow> string list \<Rightarrow> string list" where
  "select_eea_countries host account_list = (if account_list \<noteq> [] then account_list else host)"

definition is_eea_country :: "(string \<Rightarrow> string) \<Rightarrow> string \<Rightarrow> string list \<Rightarrow> bool" where
  "is_eea_country upper country eea_countries =
     (if eea_countries = [] then False else list_ex (\<lambda>c. upper c = upper country) eea_countries)"

definition parse_gdpr_default_value :: "(string \<Rightarrow> string) \<Rightarrow> bid_request \<Rightarrow> string \<Rightarrow> string list \<Rightarrow> signal" where
  "parse_gdpr_default_value upper req cfg_default eea_countries =
     (let gdpr_default = (if cfg_default = ''0'' then No else Yes);
          place = (case Option.bind (req_user req) user_geo of Some g \<Rightarrow> Some g | None \<Rightarrow> Option.bind (req_device req) device_geo)
      in case Option.bind place geo_country of
           None \<Rightarrow> gdpr_default
         | Some country \<Rightarrow>
             if is_eea_country upper country eea_countries then Yes
             else if length country = 3 then No else gdpr_default)"

section \<open>Facts on the decoder\<close>

lemma ti_read_bit_eq: "ti_read_bit data off = (if off < 8 * length data then Some (bits_of data ! off) else None)"
  by (auto simp: ti_read_bit_def Let_def nth_bits_of and_one_eq bit_iff_odd_drop_bit odd_iff_mod_2_eq_one)

lemma purposes_loop_Some:
  "\<forall>i \<in> set is. 152 + i < 8 * length d \<and> i < 64 \<Longrightarrow>
   \<exists>m. purposes_loop d is m0 = Some m \<and> (\<forall>j < 64. bit m j = (bit m0 j \<or> j \<in> set is \<and> bits_of d ! (152 + j)))"
proof (induction "is" arbitrary: m0)
  case (Cons i "is")
  let ?m = "if bits_of d ! (152 + i) then m0 OR push_bit i 1 else m0"
  have step: "purposes_loop d (i # is) m0 = purposes_loop d is ?m"
    using Cons.prems by (simp add: ti_read_bit_eq)
  have "bit ?m j = (bit m0 j \<or> j = i \<and> bits_of d ! (152 + j))" if "j < 64" for j
    using that by (auto simp: bit_or_iff bit_exp_iff)
  with Cons.IH [of ?m] Cons.prems step show ?case by auto
qed simp

lemma has_purpose_consent_bit: "0 < p \<Longrightarrow> p \<le> 64 \<Longrightarrow> has_purpose_consent t p = bit (ti_purpose_consents t) (p - 1)"
  by (simp add: has_purpose_consent_def and_one_eq bit_iff_odd_drop_bit odd_iff_mod_2_eq_one)

lemma version_bits:
  assumes "ds \<noteq> []"
  shows "unat (drop_bit 2 (hd ds) AND 0x3F) = bits_val (take 6 (bits_of ds))"
proof -
  obtain b bs where ds: "ds = b # bs" using assms by (cases ds) auto
  have "take 6 (bits_of ds) = take 6 (byte_bits b)" by (simp add: ds bits_of_def)
  then show ?thesis using unat_chunk [of 0 6 b] by (simp add: ds mask_eq_exp_minus_1)
qed

lemma ti_bits_loop_Some:
  "off + n \<le> 8 * length d \<Longrightarrow> k + n \<le> 64 \<Longrightarrow> unat v < 2 ^ k \<Longrightarrow>
   \<exists>w. ti_bits_loop d off n v = Some w \<and> unat w = unat v * 2 ^ n + bits_val (take n (drop off (bits_of d)))"
proof (induction n arbitrary: off v k)
  case (Suc n)
  let ?b = "bits_of d ! off"
  let ?v = "push_bit 1 v OR of_bool ?b :: u64"
  have v: "unat ?v = unat v * 2 + of_bool ?b"
    using unat_push_or [of v k 1 "of_bool ?b"] Suc.prems by simp
  then have "unat ?v < 2 ^ Suc k" using Suc.prems(3) by (cases ?b) simp_all
  from Suc.IH [OF _ _ this, of "Suc off"] Suc.prems
  obtain w where w: "ti_bits_loop d (Suc off) n ?v = Some w"
    "unat w = unat ?v * 2 ^ n + bits_val (take n (drop (Suc off) (bits_of d)))" by auto
  have "drop off (bits_of d) = ?b # drop (Suc off) (bits_of d)"
    using Suc.prems(1) by (intro Cons_nth_drop_Suc [symmetric]) simp
  moreover have "length (take n (drop (Suc off) (bits_of d))) = n" using Suc.prems(1) by simp
  ultimately have "unat w = unat v * 2 ^ Suc n + bits_val (take (Suc n) (drop off (bits_of d)))"
    using w(2) v bits_val_append [of "[?b]"] by (simp add: bits_val_def algebra_simps)
  then show ?case using w(1) Suc.prems(1) by (simp add: ti_read_bit_eq)
qed simp

lemma read_id_Some: "off + 16 \<le> 8 * length d \<Longrightarrow> read_id d off = Some (bits_val (take 16 (drop off (bits_of d))))"
  using ti_bits_loop_Some [of off 16 d 0 0] by (auto simp: read_id_def ti_read_bits_def)

lemma ti_bits_loop_None: "8 * length d < off + n \<Longrightarrow> 0 < n \<Longrightarrow> ti_bits_loop d off n v = None"
proof (induction n arbitrary: off v)
  case (Suc n)
  show ?case
  proof (cases "off < 8 * length d")
    case True
    with Suc show ?thesis by (simp add: ti_read_bit_eq)
  qed (simp add: ti_read_bit_eq)
qed simp

lemma bitfield_vendors_iff:
  "v \<in> bitfield_vendors d start n \<longleftrightarrow> 1 \<le> v \<and> v \<le> n \<and> start + (v - 1) < 8 * length d \<and> bits_of d ! (start + (v - 1))"
  by (auto simp: bitfield_vendors_def ti_read_bit_eq)

text \<open>The vendor section of the second decoder on a bit field that the first one accepts: it takes the flags 31 to 46 for the
  maximum, the flag 47 for the encoding, and the flags from 48 on for those of the vendors from 1 on.\<close>

lemma shifted_vendors:
  assumes "core_at (bits_of d) c" "vendors_consent c = Bitfield bs" "46 < length bs" "\<not> bs ! 46" "v + 46 < length bs"
  shows "v \<in> extract_vendor_consents_v2 d \<longleftrightarrow> 1 \<le> v \<and> v \<le> min (bits_val (take 16 (drop 30 bs))) 2048 \<and> bs ! (v + 46)"
proof -
  define mx where "mx = bits_val (take 16 (drop 213 (bits_of d)))"
  have bs: "bs = take mx (drop 230 (bits_of d))" "length bs = mx"
    using assms(1,2) unfolding core_at_def mx_def Let_def by auto
  then have len: "230 + mx \<le> 8 * length d"
    using arg_cong [OF bs(1), of length] assms(3) by auto
  have nth: "bits_of d ! (230 + i) = bs ! i" if "i < mx" for i using that bs len by simp
  have "take 16 (drop 30 bs) = take 16 (drop 260 (bits_of d))"
    using bs assms(3) by (simp add: drop_take take_take)
  then have "read_id d 260 = Some (bits_val (take 16 (drop 30 bs)))"
    using read_id_Some [of 260 d] len assms(3) bs(2) by simp
  moreover have "ti_read_bit d 276 = Some False"
    using nth [of 46] len assms(3,4) bs(2) by (simp add: ti_read_bit_eq)
  moreover have "277 + (v - 1) < 8 * length d \<and> bits_of d ! (277 + (v - 1)) = bs ! (v + 46)" if "1 \<le> v"
    using nth [of "v + 46"] that len assms(5) bs(2) by simp
  ultimately show ?thesis
    by (auto simp: extract_vendor_consents_v2_def bitfield_vendors_iff)
qed

lemma short_vendors: "8 * length d < 276 \<Longrightarrow> extract_vendor_consents_v2 d = {}"
  by (simp add: extract_vendor_consents_v2_def read_id_def ti_read_bits_def ti_bits_loop_None)

text \<open>
  Property C25.  The two decoders of consent strings compared, on a string of one segment and of version 2 that the decoder of the GDPR crate
  accepts and that the two base64 decoders turn into the same bytes.  The decoder of the exchange accepts the string too, with the same
  version and the same consent for each of the 24 purposes.  But it looks for the vendor section 47 bits behind its place: a segment of
  fewer than 276 bits gives no consent for any vendor, and on a bit field of more than 46 vendors whose vendor 47 has no consent, the consent it finds for
  vendor \<open>v\<close> is the one of vendor \<open>v + 47\<close>, up to a maximum it takes from the flags of the vendors 31 to 46.
\<close>

theorem decoders_compared:
  assumes "consent_parse b64 chrono_ok s = Inr c" "CHR ''.'' \<notin> set s" "version c = 2"
    "decode_base64url b64 s = Inr d" "ti_decode_base64url std s = Some d"
  shows "\<exists>t. tcf_parse std s = Some t \<and> ti_version t = version c
    \<and> map (has_purpose_consent t) [1..<25] = purposes_consent c
    \<and> (8 * length d < 276 \<longrightarrow> ti_vendor_consents t = {})
    \<and> (case vendors_consent c of
         Bitfield bs \<Rightarrow> 46 < length bs \<and> \<not> bs ! 46 \<longrightarrow>
           (\<forall>v. v + 46 < length bs \<longrightarrow>
              has_vendor_consent t v = (1 \<le> v \<and> v \<le> min (bits_val (take 16 (drop 30 bs))) 2048 \<and> bs ! (v + 46)))
       | RangeList rs \<Rightarrow> True)"
proof -
  have "s \<noteq> []" using assms(1) by (auto simp: consent_parse_def)
  have at: "core_at (bits_of d) c" using consent_parse_at [OF assms(1)] assms(2,4) by (simp add: split_on_no_sep)
  then have len: "230 \<le> 8 * length d" and d: "d \<noteq> []" by (auto simp: core_at_def)
  have ver: "drop_bit 2 (hd d) AND 0x3F = 2"
    using version_bits [OF d] at assms(3) by (simp add: core_at_def word_unat_eq_iff)
  obtain m where m: "purposes_loop d [0..<24] 0 = Some m" "\<forall>j < 64. bit m j = (j < 24 \<and> bits_of d ! (152 + j))"
    using purposes_loop_Some [of "[0..<24]" d 0] len by auto
  define t where "t = \<lparr>ti_version = 2, ti_purpose_consents = m, ti_vendor_consents = extract_vendor_consents_v2 d, ti_raw = d\<rparr>"
  have "tcf_parse std s = Some t"
    using \<open>s \<noteq> []\<close> assms(5) len m ver by (simp add: tcf_parse_def parse_v2_def extract_purpose_consents_v2_def t_def)
  moreover have "map (has_purpose_consent t) [1..<25] = purposes_consent c"
  proof (rule nth_equalityI)
    show size: "length (map (has_purpose_consent t) [1..<25]) = length (purposes_consent c)"
      using at len by (auto simp: core_at_def)
    fix i
    assume "i < length (map (has_purpose_consent t) [1..<25])"
    then have i: "i < 24" by simp
    then have "map (has_purpose_consent t) [1..<25] ! i = has_purpose_consent t (Suc i)"
      by (simp only: nth_map length_upt nth_upt) simp
    also have "\<dots> = bits_of d ! (152 + i)"
      using i m(2) by (simp add: has_purpose_consent_bit t_def)
    also have "\<dots> = purposes_consent c ! i"
      using i at by (simp add: core_at_def)
    finally show "map (has_purpose_consent t) [1..<25] ! i = purposes_consent c ! i" .
  qed
  ultimately show ?thesis
    using shifted_vendors [OF at] short_vendors [of d] assms(3)
    by (intro exI [of _ t]) (simp add: t_def has_vendor_consent_def split: vendor_consent.split)
qed

definition vendor_sample :: consent_string where
  "vendor_sample = sample_consent\<lparr>vendors_consent := Bitfield (replicate 42 False @ replicate 4 True @ [False] @ replicate 13 True)\<rparr>"

theorem decoders_compared_witness:
  "\<exists>t. tcf_parse (\<lambda>s. Some (pack_bits (core_bits 60 vendor_sample))) ''CAAA'' = Some t \<and> ti_version t = 2
     \<and> map (has_purpose_consent t) [1..<25] = replicate 24 True
     \<and> has_vendor_consent t 1 \<and> \<not> vendor_contains (vendors_consent vendor_sample) 1"
proof -
  let ?d = "pack_bits (core_bits 60 vendor_sample)"
  let ?flags = "replicate 42 False @ replicate 4 True @ [False] @ replicate 13 True"
  have "core_wf 60 vendor_sample"
    by (simp add: core_wf_def vendor_sample_def sample_consent_def time_ok_def lang_ok_def vendor_wf_def)
  moreover have "chrono_law (\<lambda>ms. ms \<le> 8210298412799999)" by (simp add: chrono_law_def)
  ultimately have "consent_parse (\<lambda>s. Inr ?d) (\<lambda>ms. ms \<le> 8210298412799999) ''CAAA'' = Inr (vendor_sample\<lparr>raw := ''CAAA''\<rparr>)"
    using consent_parse_encoded [of "\<lambda>ms. ms \<le> 8210298412799999" 60 vendor_sample "\<lambda>s. Inr ?d" "''CAAA''" "[]"] by simp
  note parsed = decoders_compared [OF this, of ?d "\<lambda>s. Some ?d"]
  have sample: "version vendor_sample = 2" "purposes_consent vendor_sample = replicate 24 True"
    "vendors_consent vendor_sample = Bitfield ?flags"
    by (simp_all add: vendor_sample_def sample_consent_def)
  have flags: "46 < length ?flags" "\<not> ?flags ! 46" "1 + 46 < length ?flags" "?flags ! (1 + 46)" "bits_val (take 16 (drop 30 ?flags)) = 15"
    "\<not> vendor_contains (Bitfield ?flags) 1"
    by code_simp+
  obtain t where "tcf_parse (\<lambda>s. Some ?d) ''CAAA'' = Some t" "ti_version t = 2" "map (has_purpose_consent t) [1..<25] = replicate 24 True"
    "\<forall>v. v + 46 < length ?flags \<longrightarrow> has_vendor_consent t v = (1 \<le> v \<and> v \<le> min (bits_val (take 16 (drop 30 ?flags))) 2048 \<and> ?flags ! (v + 46))"
    using parsed sample flags(1,2) by (auto simp: decode_base64url_def ti_decode_base64url_def simp del: upt_Suc upt_rec_numeral)
  then show ?thesis using flags(3-6) sample(3) by auto
qed
section \<open>Facts on enforcement\<close>

definition consent_suffices :: "gdpr_policy \<Rightarrow> nat option \<Rightarrow> tcf_info \<Rightarrow> bool" where
  "consent_suffices policy vid tcf =
     (list_all (has_purpose_consent tcf) (gp_enforce_purposes policy)
      \<and> (if gp_require_vendor_consent policy then case vid of Some v \<Rightarrow> has_vendor_consent tcf v | None \<Rightarrow> True else True))"

text \<open>
  Property C24.  The decision on a bidder under a policy: when enforcement is on, GDPR applies and the bidder is not exempt, it is allowed exactly
  when the consent string parses, every purpose of the policy has consent and, where required and known, the vendor has it; in every other
  case it is allowed.  Personal data is masked exactly for bidders that are not allowed, the denied purposes are those without consent, and
  the permissions object over the same consent decides alike.
\<close>

theorem check_bidder_spec:
  "let r = check_bidder b64 policy sig consent_str bidder_name vid;
       tcf = Option.bind consent_str (tcf_parse b64);
       enforced = (gp_enabled policy \<and> effective_signal policy sig = Yes \<and> bidder_name \<notin> set (gp_bidder_exceptions policy))
   in er_allow r = (if enforced then (case tcf of None \<Rightarrow> False | Some t \<Rightarrow> consent_suffices policy vid t) else True)
      \<and> er_mask_personal_data r = (\<not> er_allow r)
      \<and> er_denied_purposes r = (if enforced then filter (\<lambda>p. case tcf of None \<Rightarrow> True | Some t \<Rightarrow> \<not> has_purpose_consent t p) (gp_enforce_purposes policy) else [])
      \<and> cp_bidder_allowed \<lparr>cp_signal = sig, cp_consent = tcf, cp_policy = policy\<rparr> bidder_name vid = er_allow r"
  by (auto simp: check_bidder_def cp_bidder_allowed_def cp_can_enforce_def allowed_result_def consent_suffices_def Let_def
      list_all_iff filter_empty_conv split: option.split)

text \<open>The contract of the permissions trait: where GDPR is not in force for a request, nothing is restricted.\<close>

locale permission_source =
  fixes host :: "'p \<Rightarrow> bool"
    and sync :: "'p \<Rightarrow> string \<Rightarrow> bool"
    and activities :: "'p \<Rightarrow> string \<Rightarrow> string \<Rightarrow> auction_permissions"
    and in_force :: "'p \<Rightarrow> bool"
  assumes host_free: "\<not> in_force p \<Longrightarrow> host p"
    and sync_free: "\<not> in_force p \<Longrightarrow> sync p b"
    and activities_free: "\<not> in_force p \<Longrightarrow> activities p core b = ALLOW_ALL"
begin

lemma restricted_in_force: "\<not> host p \<or> \<not> sync p b \<or> activities p core b \<noteq> ALLOW_ALL \<Longrightarrow> in_force p"
  using host_free sync_free activities_free by blast

lemma unrestricted:
  "\<not> in_force p \<Longrightarrow> host p \<and> sync p b \<and> allow_bid_request (activities p core b) \<and> pass_geo (activities p core b) \<and> pass_id (activities p core b)"
  using host_free sync_free activities_free by (simp add: ALLOW_ALL_def)

end

fun gdpr_enforced_by :: "permissions \<Rightarrow> bool" where
  "gdpr_enforced_by (PermissionsImpl p) = (effective_signal (pm_policy p) (pm_signal p) = Yes)"
| "gdpr_enforced_by AlwaysAllow = False"
| "gdpr_enforced_by (AllowHostCookies inner) = gdpr_enforced_by inner"

interpretation perms: permission_source host_cookies_allowed bidder_sync_allowed activities_allowed gdpr_enforced_by
proof
  fix p :: permissions and b core :: string
  assume "\<not> gdpr_enforced_by p"
  then show "host_cookies_allowed p" "bidder_sync_allowed p b" "activities_allowed p core b = ALLOW_ALL"
    by (induction p) (auto simp: pm_host_cookies_allowed_def pm_bidder_sync_allowed_def auction_activities_allowed_def)
qed

text \<open>
  Permissions for auctions.  Nothing is restricted where the effective signal is not yes, for publishers with non-standard handling and for
  bidders without a vendor id.  Otherwise everything is denied without a consent string; with one, exempt bidders are allowed everything and
  the others get the request by purpose 2, the location by the consent of the vendor, and user ids by any of the purposes 2 to 10, so
  that a bidder that gets the request also gets the ids.
\<close>

theorem auction_permissions_spec:
  "auction_activities_allowed p core bidder =
     (case (if gdpr_enforced_by (PermissionsImpl p) \<and> pm_publisher_id p \<notin> set (pm_non_standard_publishers p)
            then resolve_vendor_id p core bidder else None) of
        None \<Rightarrow> ALLOW_ALL
      | Some vid \<Rightarrow>
          (case pm_consent p of
             None \<Rightarrow> DENY_ALL
           | Some consent \<Rightarrow>
               if bidder \<in> set (gp_bidder_exceptions (pm_policy p)) then ALLOW_ALL
               else \<lparr>allow_bid_request = purpose_cfg_allows (pm_purpose_enforcer p ! 1) 2 consent vid,
                     pass_geo = has_vendor_consent consent vid,
                     pass_id = (\<exists>i \<in> {2..10}. purpose_cfg_allows (pm_purpose_enforcer p ! (i - 1)) i consent vid)\<rparr>))
   \<and> (if allow_bid_request (auction_activities_allowed p core bidder) then pass_id (auction_activities_allowed p core bidder) else True)"
proof -
  have some: "list_ex f [2..<11] = (\<exists>i \<in> {2..10}. f i)" for f
    unfolding list_ex_iff by (rule bex_cong) auto
  have ids: "allow_id p bidder vid = (case pm_consent p of None \<Rightarrow> False | Some consent \<Rightarrow>
      if bidder \<in> set (gp_bidder_exceptions (pm_policy p)) then True
      else \<exists>i \<in> {2..10}. purpose_cfg_allows (pm_purpose_enforcer p ! (i - 1)) i consent vid)" for vid
    unfolding allow_id_def some by (auto simp: purpose_is_allowed_def split: option.split)
  have two: "purpose_is_allowed e 2 consent vid = purpose_cfg_allows (e ! 1) 2 consent vid" for e consent vid
    by (simp add: purpose_is_allowed_def)
  have geo: "allow_geo p bidder vid = (case pm_consent p of None \<Rightarrow> False | Some consent \<Rightarrow>
      if bidder \<in> set (gp_bidder_exceptions (pm_policy p)) then True else has_vendor_consent consent vid)" for vid
    by (simp add: allow_geo_def split: option.split)
  note defs = auction_activities_allowed_def is_non_standard_publisher_def pm_allow_bid_request_def geo ids two ALLOW_ALL_def DENY_ALL_def
  have "\<exists>i \<in> {2..10}. purpose_cfg_allows (e ! (i - 1)) i consent vid" if "purpose_cfg_allows (e ! 1) 2 consent vid" for e consent vid
    using that by (intro bexI [of _ 2]) auto
  then show ?thesis
    by (auto simp: defs split: option.split)
qed

text \<open>The switch of the policy is not consulted by the permissions: with enforcement switched off, a bidder without consent is denied.\<close>

lemma permissions_ignore_enabled:
  "auction_activities_allowed (p\<lparr>pm_policy := (pm_policy p)\<lparr>gp_enabled := e\<rparr>\<rparr>) core bidder = auction_activities_allowed p core bidder"
  by (cases "pm_signal p") (auto simp: auction_activities_allowed_def is_non_standard_publisher_def effective_signal_def resolve_vendor_id_def
      pm_allow_bid_request_def allow_geo_def allow_id_def split: option.split)

section \<open>Facts on the vendor list\<close>

lemma http_fetch_finds_nothing: "snd (http_fetch (http_vendor_list_fetcher_new url_template) v) = None"
  by (simp add: http_fetch_def http_vendor_list_fetcher_new_def fetch_from_url_def)

lemma double_braces_url: "gvl_build_url ''v{{version}}.json'' 3 = ''v{3}.json''"
  by code_simp

text \<open>A downloaded list is cached under its own version: when the service answers with another version, the cache never serves the version
  that was asked for.\<close>

lemma fetch_async_other_version:
  assumes "fetch_async net parse_json v a = (a', Some vl)" "vl_version vl \<noteq> v" "map_of (av_cache a) v = None"
  shows "map_of (av_cache a') v = None"
  using assms by (auto simp: fetch_async_def cached_download_def map_of_hm_insert split: option.splits)

lemma fetch_async_cached:
  assumes "fetch_async net parse_json v a = (a', Some vl)"
  shows "fetch_async net' parse_json' (if map_of (av_cache a) v = None then vl_version vl else v) a' = (a', Some vl)"
  using assms by (auto simp: fetch_async_def cached_download_def map_of_hm_insert split: option.splits)

end
