(* ===== verification/RequestSplit.thy ===== *)
theory RequestSplit
  imports Fanout JsonMerge
begin

text \<open>
  Building the requests of single bidders as a library, beside what the auction does itself: splitting impressions and cleaning
  extensions (\<^verbatim>\<open>rust/crates/exchange/src/request_splitter.rs\<close>) and first-party data (\<^verbatim>\<open>first_party_data.rs\<close>).  The serde encoders and
  decoders are fields of a record argument.
\<close>

section \<open>Splitting impressions\<close>

definition rsp_reserved :: "string list" where
  "rsp_reserved = [''prebid'', ''context'', ''data'', ''skadn'', ''gpid'', ''tid'', ''ae'']"

definition rsp_bidder_map :: "json \<Rightarrow> (string \<times> json) list option" where
  "rsp_bidder_map ext =
     (case Option.bind (jpath (Some ext) [''prebid'', ''bidder'']) as_object of
        Some m \<Rightarrow> Some m
      | None \<Rightarrow> as_object ext)"

definition rsp_kept_fields :: "json \<Rightarrow> (string \<times> json) list" where
  "rsp_kept_fields ext =
     (case as_object ext of
        None \<Rightarrow> []
      | Some obj \<Rightarrow>
          fold (\<lambda>key acc. if key = ''prebid'' then acc else case map_of obj key of Some v \<Rightarrow> bt_insert key v acc | None \<Rightarrow> acc) rsp_reserved [])"

definition rsp_prebid :: "json \<Rightarrow> string \<Rightarrow> json \<Rightarrow> (string \<times> json) list" where
  "rsp_prebid ext bidder_name bidder_params =
     (let prebid = bt_insert ''bidder'' (JObj (bt_insert bidder_name bidder_params [])) []
      in case Option.bind (jget ext ''prebid'') as_object of
           None \<Rightarrow> prebid
         | Some orig_prebid \<Rightarrow>
             fold (\<lambda>(key, val) acc. if key \<noteq> ''bidder'' \<and> key \<noteq> ''bidders''
                                     then case map_of acc key of Some _ \<Rightarrow> acc | None \<Rightarrow> bt_insert key val acc else acc)
               orig_prebid prebid)"

definition rsp_ext :: "json \<Rightarrow> string \<Rightarrow> json \<Rightarrow> json" where
  "rsp_ext ext bidder_name bidder_params =
     JObj (bt_insert ''prebid'' (JObj (rsp_prebid ext bidder_name bidder_params)) (rsp_kept_fields ext))"

definition rsp_entry :: "(string \<times> string) list \<Rightarrow> imp \<Rightarrow> json \<Rightarrow> string \<times> json \<Rightarrow> (string \<times> imp list) list \<Rightarrow> (string \<times> imp list) list" where
  "rsp_entry request_aliases i ext e bidder_imps =
     (case e of (bidder_name, bidder_params) \<Rightarrow>
        if bidder_name \<in> set rsp_reserved then bidder_imps
        else push_imp (get_or bidder_name request_aliases bidder_name) (i\<lparr>imp_jext := Some (rsp_ext ext bidder_name bidder_params)\<rparr>) bidder_imps)"

definition rsp_imp :: "(string \<times> string) list \<Rightarrow> imp \<Rightarrow> (string \<times> imp list) list \<Rightarrow> (string \<times> imp list) list" where
  "rsp_imp request_aliases i bidder_imps =
     (case imp_jext i of
        None \<Rightarrow> bidder_imps
      | Some ext \<Rightarrow>
          (case rsp_bidder_map ext of
             None \<Rightarrow> bidder_imps
           | Some m \<Rightarrow> fold (rsp_entry request_aliases i ext) m bidder_imps))"

definition split_imps :: "imp list \<Rightarrow> (string \<times> string) list \<Rightarrow> (string, (string \<times> imp list) list) res" where
  "split_imps imps request_aliases = Inr (fold (rsp_imp request_aliases) imps [])"

definition string_entries :: "json option \<Rightarrow> (string \<times> string) list" where
  "string_entries v =
     (case Option.bind v as_object of
        None \<Rightarrow> []
      | Some m \<Rightarrow> fold (\<lambda>(k, x) acc. case as_str x of Some s \<Rightarrow> hm_insert k s acc | None \<Rightarrow> acc) m [])"

definition get_request_aliases :: "bid_request \<Rightarrow> (string \<times> string) list" where
  "get_request_aliases request = string_entries (jpath (req_jext request) [''prebid'', ''aliases''])"

definition build_request_ext_for_bidder :: "json \<Rightarrow> string \<Rightarrow> json option \<Rightarrow> json" where
  "build_request_ext_for_bidder request_ext bidder_name bidder_params =
     (case as_object request_ext of
        None \<Rightarrow> request_ext
      | Some obj \<Rightarrow>
          (case Option.bind (map_of obj ''prebid'') as_object of
             None \<Rightarrow> request_ext
           | Some prebid \<Rightarrow>
               (let prebid = bt_remove ''bidder'' prebid;
                    prebid = (case bidder_params of
                                Some params \<Rightarrow> bt_insert ''bidderparams'' (JObj (bt_insert bidder_name params [])) prebid
                              | None \<Rightarrow> prebid);
                    prebid = bt_remove ''aliasgvlids'' (bt_remove ''aliases'' (bt_remove ''bidderconfig'' (bt_remove ''data'' prebid)))
                in JObj (bt_insert ''prebid'' (JObj prebid) obj))))"

definition extract_buyer_uids :: "bid_request \<Rightarrow> (string \<times> string) list" where
  "extract_buyer_uids request = string_entries (jpath (Option.bind (req_user request) user_jext) [''prebid'', ''buyeruids''])"

definition prepare_user_for_bidder :: "string \<Rightarrow> (string \<times> string) list \<Rightarrow> (string \<times> string) list \<Rightarrow> user option \<Rightarrow> user option" where
  "prepare_user_for_bidder bidder_syncer_key buyer_uids cookie_uids u =
     (case (case map_of buyer_uids bidder_syncer_key of Some v \<Rightarrow> Some v | None \<Rightarrow> map_of cookie_uids bidder_syncer_key) of
        Some v \<Rightarrow> Some ((unwrap_or default_user u)\<lparr>user_buyeruid := Some v\<rparr>)
      | None \<Rightarrow> u)"

definition clean_ext :: "json \<Rightarrow> json" where
  "clean_ext ext =
     (case as_object ext of
        None \<Rightarrow> ext
      | Some obj \<Rightarrow>
          (case Option.bind (map_of obj ''prebid'') as_object of
             None \<Rightarrow> ext
           | Some prebid \<Rightarrow> JObj (bt_insert ''prebid'' (JObj (bt_remove ''buyeruids'' prebid)) obj)))"

definition clean_buyer_uids :: "bid_request \<Rightarrow> bid_request" where
  "clean_buyer_uids request =
     request\<lparr>req_user := map_option (\<lambda>u. u\<lparr>user_jext := map_option clean_ext (user_jext u)\<rparr>) (req_user request)\<rparr>"

section \<open>First-party data\<close>

record fpd_config =
  fpd_site :: "json option"
  fpd_app :: "json option"
  fpd_user :: "json option"

definition fpd_none :: fpd_config where
  "fpd_none = \<lparr>fpd_site = None, fpd_app = None, fpd_user = None\<rparr>"

record fpd_serde =
  fz_en_site :: "site \<Rightarrow> json option"
  fz_en_app :: "app \<Rightarrow> json option"
  fz_en_user :: "user \<Rightarrow> json option"
  fz_de_site :: "json \<Rightarrow> site option"
  fz_de_app :: "json \<Rightarrow> app option"
  fz_de_user :: "json \<Rightarrow> user option"

function (sequential) merge_json_objects :: "json \<Rightarrow> json \<Rightarrow> json"
  and merge_members :: "(string \<times> json) list \<Rightarrow> (string \<times> json) list \<Rightarrow> (string \<times> json) list" where
  "merge_json_objects (JObj target) (JObj source) = JObj (merge_members target source)"
| "merge_json_objects target source = source"
| "merge_members merged [] = merged"
| "merge_members merged ((key, source_val) # source) =
     merge_members
       (bt_insert key (case map_of merged key of Some target_val \<Rightarrow> merge_json_objects target_val source_val | None \<Rightarrow> source_val) merged) source"
  by pat_completeness auto
termination
  by (relation "measure (\<lambda>x. case x of Inl (t, s) \<Rightarrow> size s
        | Inr (t, s) \<Rightarrow> size_list (size_prod (\<lambda>_. 0) size) s)") auto

definition fpd_of :: "json \<Rightarrow> fpd_config" where
  "fpd_of j = \<lparr>fpd_site = jget j ''site'', fpd_app = jget j ''app'', fpd_user = jget j ''user''\<rparr>"

definition names_bidder :: "json \<Rightarrow> string \<Rightarrow> bool" where
  "names_bidder entry bidder_name =
     (case Option.bind (jget entry ''bidders'') as_array of
        None \<Rightarrow> False
      | Some bidders_arr \<Rightarrow> list_ex (\<lambda>b. b = bidder_name \<or> b = ''*'') (List.map_filter as_str bidders_arr))"

fun first_config :: "json list \<Rightarrow> string \<Rightarrow> fpd_config option" where
  "first_config [] bidder_name = None"
| "first_config (entry # entries) bidder_name =
     (if names_bidder entry bidder_name
      then case jpath (Some entry) [''config'', ''ortb2''] of
             Some config \<Rightarrow> Some (fpd_of config)
           | None \<Rightarrow> first_config entries bidder_name
      else first_config entries bidder_name)"

definition extract_fpd_for_bidder :: "bid_request \<Rightarrow> string \<Rightarrow> fpd_config" where
  "extract_fpd_for_bidder request bidder_name =
     (case jpath (req_jext request) [''prebid''] of
        None \<Rightarrow> fpd_none
      | Some prebid \<Rightarrow>
          (case Option.bind (Option.bind (jget prebid ''bidderconfig'') as_array) (\<lambda>es. first_config es bidder_name) of
             Some c \<Rightarrow> c
           | None \<Rightarrow>
               (case jpath (Some prebid) [''data'', ''bidders'', bidder_name] of
                  Some bidder_data \<Rightarrow> fpd_of bidder_data
                | None \<Rightarrow> fpd_none)))"

definition merge_fpd_object :: "('t \<Rightarrow> json option) \<Rightarrow> (json \<Rightarrow> 't option) \<Rightarrow> json option \<Rightarrow> 't option \<Rightarrow> 't option" where
  "merge_fpd_object en de fpd existing =
     (case fpd of
        None \<Rightarrow> existing
      | Some f \<Rightarrow>
          (let base = (case existing of Some t \<Rightarrow> unwrap_or (JObj []) (en t) | None \<Rightarrow> JObj [])
           in case de (merge_json_objects base f) of Some t \<Rightarrow> Some t | None \<Rightarrow> existing))"

definition apply_fpd_to_request :: "fpd_serde \<Rightarrow> fpd_config \<Rightarrow> bid_request \<Rightarrow> bid_request" where
  "apply_fpd_to_request z fpd request =
     request\<lparr>req_site := merge_fpd_object (fz_en_site z) (fz_de_site z) (fpd_site fpd) (req_site request),
             req_app := merge_fpd_object (fz_en_app z) (fz_de_app z) (fpd_app fpd) (req_app request),
             req_user := merge_fpd_object (fz_en_user z) (fz_de_user z) (fpd_user fpd) (req_user request)\<rparr>"

definition resolve_fpd ::
  "fpd_serde \<Rightarrow> (string list \<Rightarrow> string list) \<Rightarrow> bid_request \<Rightarrow> (string \<times> fpd_config) list \<Rightarrow> (string \<times> bid_request) list" where
  "resolve_fpd z ord request configs =
     fold (\<lambda>(bidder_name, config). hm_insert bidder_name (apply_fpd_to_request z config request)) (hm_iter ord configs) []"

definition resolve_fpd_for_bidders ::
  "fpd_serde \<Rightarrow> (string list \<Rightarrow> string list) \<Rightarrow> bid_request \<Rightarrow> string list \<Rightarrow> (string \<times> bid_request) list" where
  "resolve_fpd_for_bidders z ord request bidder_names =
     resolve_fpd z ord request (fold (\<lambda>bidder. hm_insert bidder (extract_fpd_for_bidder request bidder)) bidder_names [])"

record resolved_fpd =
  rf_site :: "site option"
  rf_app :: "app option"
  rf_user :: "user option"

text \<open>Taking the member \<^verbatim>\<open>data\<close> out of an extension; \<^verbatim>\<open>get\<close> finds a member in objects only.\<close>

definition take_data :: "json option \<Rightarrow> json option \<times> json option" where
  "take_data ext =
     (case ext of
        Some (JObj m) \<Rightarrow> (map_of m ''data'', Some (JObj (bt_remove ''data'' m)))
      | e \<Rightarrow> (None, e))"

definition fpd_entry :: "string \<Rightarrow> 'v option \<Rightarrow> (string \<times> 'v) list \<Rightarrow> (string \<times> 'v) list" where
  "fpd_entry k v m = (case v of Some x \<Rightarrow> hm_insert k x m | None \<Rightarrow> m)"

definition extract_global_fpd :: "bid_request \<Rightarrow> (string \<times> json) list \<times> bid_request" where
  "extract_global_fpd request =
     (fpd_entry ''user'' (Option.bind (req_user request) (\<lambda>u. fst (take_data (user_jext u))))
        (fpd_entry ''app'' (Option.bind (req_app request) (\<lambda>a. fst (take_data (app_jext a))))
           (fpd_entry ''site'' (Option.bind (req_site request) (\<lambda>s. fst (take_data (site_jext s)))) [])),
      request\<lparr>req_site := map_option (\<lambda>s. s\<lparr>site_jext := snd (take_data (site_jext s))\<rparr>) (req_site request),
              req_app := map_option (\<lambda>a. a\<lparr>app_jext := snd (take_data (app_jext a))\<rparr>) (req_app request),
              req_user := map_option (\<lambda>u. u\<lparr>user_jext := snd (take_data (user_jext u))\<rparr>) (req_user request)\<rparr>)"

definition nonempty_data :: "user_data list \<Rightarrow> user_data list option" where
  "nonempty_data ds = (if ds = [] then None else Some ds)"

definition extract_openrtb_global_fpd :: "bid_request \<Rightarrow> (string \<times> user_data list) list \<times> bid_request" where
  "extract_openrtb_global_fpd request =
     (fpd_entry ''appContent'' (Option.bind (Option.bind (req_app request) app_content) (\<lambda>c. nonempty_data (content_data c)))
        (fpd_entry ''siteContent'' (Option.bind (Option.bind (req_site request) site_content) (\<lambda>c. nonempty_data (content_data c)))
           (fpd_entry ''user'' (Option.bind (req_user request) (\<lambda>u. nonempty_data (user_data u))) [])),
      request\<lparr>req_user := map_option (\<lambda>u. u\<lparr>user_data := []\<rparr>) (req_user request),
              req_site := map_option (\<lambda>s. s\<lparr>site_content := map_option (\<lambda>c. c\<lparr>content_data := []\<rparr>) (site_content s)\<rparr>) (req_site request),
              req_app := map_option (\<lambda>a. a\<lparr>app_content := map_option (\<lambda>c. c\<lparr>content_data := []\<rparr>) (app_content a)\<rparr>) (req_app request)\<rparr>)"

definition set_data :: "json \<Rightarrow> json option \<Rightarrow> json option" where
  "set_data data ext = (case unwrap_or (JObj []) ext of JObj m \<Rightarrow> Some (JObj (bt_insert ''data'' data m)) | e \<Rightarrow> Some e)"

definition resolve_for_bidder ::
  "fpd_serde \<Rightarrow> (string \<times> json) list \<Rightarrow> (string \<times> user_data list) list \<Rightarrow> bid_request \<Rightarrow> string \<Rightarrow> resolved_fpd" where
  "resolve_for_bidder z global_fpd openrtb_global_fpd request bidder =
     (let bidder_req = apply_fpd_to_request z (extract_fpd_for_bidder request bidder) request;
          usr = (case map_of openrtb_global_fpd ''user'' of
                   Some ds \<Rightarrow> (let u = unwrap_or default_user (req_user bidder_req) in Some (u\<lparr>user_data := user_data u @ ds\<rparr>))
                 | None \<Rightarrow> req_user bidder_req);
          ste = (case map_of global_fpd ''site'' of
                   Some d \<Rightarrow> (let s = unwrap_or default_site (req_site bidder_req) in Some (s\<lparr>site_jext := set_data d (site_jext s)\<rparr>))
                 | None \<Rightarrow> req_site bidder_req);
          usr = (case map_of global_fpd ''user'' of
                   Some d \<Rightarrow> (let u = unwrap_or default_user usr in Some (u\<lparr>user_jext := set_data d (user_jext u)\<rparr>))
                 | None \<Rightarrow> usr)
      in \<lparr>rf_site = ste, rf_app = req_app bidder_req, rf_user = usr\<rparr>)"

definition extract_fpd_for_bidders ::
  "fpd_serde \<Rightarrow> bid_request \<Rightarrow> string list \<Rightarrow> (string \<times> resolved_fpd) list \<times> bid_request" where
  "extract_fpd_for_bidders z request bidder_names =
     (let (global_fpd, request) = extract_global_fpd request;
          (openrtb_global_fpd, request) = extract_openrtb_global_fpd request
      in (fold (\<lambda>bidder. hm_insert bidder (resolve_for_bidder z global_fpd openrtb_global_fpd request bidder)) bidder_names [], request))"

section \<open>Lemmas\<close>

text \<open>The copies of an impression for a bidder.\<close>

definition copies_for :: "(string \<times> string) list \<Rightarrow> string \<Rightarrow> imp \<Rightarrow> imp list" where
  "copies_for aliases b i =
     (case imp_jext i of
        None \<Rightarrow> []
      | Some ext \<Rightarrow>
          map (\<lambda>(n, p). i\<lparr>imp_jext := Some (rsp_ext ext n p)\<rparr>)
            (filter (\<lambda>(n, p). n \<notin> set rsp_reserved \<and> get_or n aliases n = b) (unwrap_or [] (rsp_bidder_map ext))))"

lemma push_imp_get: "get_or [] (push_imp n i acc) b = (if b = n then get_or [] acc b @ [i] else get_or [] acc b)"
  by (simp add: push_imp_def get_or_def map_of_hm_insert)

lemma rsp_entries_get:
  "get_or [] (fold (rsp_entry aliases i ext) m acc) b =
   get_or [] acc b @ map (\<lambda>(n, p). i\<lparr>imp_jext := Some (rsp_ext ext n p)\<rparr>)
     (filter (\<lambda>(n, p). n \<notin> set rsp_reserved \<and> get_or n aliases n = b) m)"
  by (induction m arbitrary: acc) (auto simp: rsp_entry_def push_imp_get split: prod.split)

lemma rsp_imps_get: "get_or [] (fold (rsp_imp aliases) imps acc) b = get_or [] acc b @ concat (map (copies_for aliases b) imps)"
  by (induction imps arbitrary: acc) (auto simp: rsp_imp_def copies_for_def rsp_entries_get unwrap_or_def split: option.split)

lemma fold_copy_get:
  "map_of (fold (\<lambda>key acc. if key = x then acc else case map_of obj key of Some v \<Rightarrow> bt_insert key v acc | None \<Rightarrow> acc) keys acc) k =
   (if k \<in> set keys \<and> k \<noteq> x \<and> map_of obj k \<noteq> None then map_of obj k else map_of acc k)"
  by (induction keys arbitrary: acc) (auto simp: map_of_bt_insert split: option.split)

lemma fold_or_insert_get:
  fixes m :: "(string \<times> json) list"
  shows "map_of (fold (\<lambda>(key, val) acc. if P key then case map_of acc key of Some _ \<Rightarrow> acc | None \<Rightarrow> bt_insert key val acc else acc) m acc) k =
    (case map_of acc k of Some v \<Rightarrow> Some v | None \<Rightarrow> if P k then map_of m k else None)"
proof (induction m arbitrary: acc)
  case (Cons e m)
  obtain key val where e: "e = (key, val)" by force
  show ?case
    by (cases "P key"; cases "map_of acc key"; cases "key = k") (simp_all add: e Cons.IH map_of_bt_insert split: option.split)
qed (simp split: option.split)

lemma kept_fields_get: "map_of (rsp_kept_fields ext) k = (if k \<in> set rsp_reserved \<and> k \<noteq> ''prebid'' then jget ext k else None)"
  by (cases ext) (auto simp: rsp_kept_fields_def fold_copy_get)

lemma rsp_prebid_get:
  "map_of (rsp_prebid ext n p) k =
     (if k = ''bidder'' then Some (JObj [(n, p)]) else if k = ''bidders'' then None else jpath (Some ext) [''prebid'', k])"
proof -
  note fold_get = fold_or_insert_get [where P = "\<lambda>key. key \<noteq> ''bidder'' \<and> key \<noteq> ''bidders''"]
  show ?thesis
  proof (cases "Option.bind (jget ext ''prebid'') as_object")
    case None
    then have "jpath (Some ext) [''prebid'', k] = None"
      by (cases "jget ext ''prebid''"; cases "the (jget ext ''prebid'')") auto
    with None show ?thesis by (simp add: rsp_prebid_def)
  next
    case (Some m)
    then have "jpath (Some ext) [''prebid'', k] = map_of m k"
      by (cases "jget ext ''prebid''"; cases "the (jget ext ''prebid'')") auto
    with Some show ?thesis by (simp add: rsp_prebid_def fold_get)
  qed
qed

lemma fold_hm_insert_get: "map_of (fold (\<lambda>b. hm_insert b (f b)) bs acc) b = (if b \<in> set bs then Some (f b) else map_of acc b)"
  by (induction bs arbitrary: acc) (auto simp: map_of_hm_insert)

text \<open>A merge, key by key: the source wins, objects are merged recursively.\<close>

lemma merge_members_get:
  "distinct (map fst s) \<Longrightarrow>
   map_of (merge_members t s) k =
     (case map_of s k of None \<Rightarrow> map_of t k | Some v \<Rightarrow> Some (case map_of t k of Some u \<Rightarrow> merge_json_objects u v | None \<Rightarrow> v))"
proof (induction s arbitrary: t)
  case (Cons e s)
  obtain k' v where e: "e = (k', v)" by force
  have "map_of s k' = None" using Cons.prems e by (simp add: map_of_eq_None_iff)
  then show ?case
    using Cons.IH Cons.prems e by (auto simp: map_of_bt_insert split: option.split)
qed simp

text \<open>Identifiers of buyers do not leak.\<close>

lemma cleaned_buyer_uids: "extract_buyer_uids (clean_buyer_uids request) = []"
proof -
  have "jpath (Some (clean_ext e)) [''prebid'', ''buyeruids''] = None" for e
    by (cases e; cases "jget e ''prebid''"; cases "the (jget e ''prebid'')")
      (auto simp: clean_ext_def map_of_bt_insert bt_remove_get)
  moreover have "jpath None ks = None" for ks
    by (cases ks) simp_all
  ultimately show ?thesis
    by (cases "req_user request"; cases "user_jext (the (req_user request))")
      (simp_all add: extract_buyer_uids_def clean_buyer_uids_def string_entries_def del: jpath.simps)
qed

lemma take_set_data:
  assumes "case ext of None \<Rightarrow> True | Some e \<Rightarrow> json_wf e"
  shows "(case fst (take_data ext) of None \<Rightarrow> snd (take_data ext) | Some d \<Rightarrow> set_data d (snd (take_data ext))) = ext"
proof (cases ext)
  case (Some e)
  show ?thesis
  proof (cases e)
    case (JObj m)
    then have wf: "bt_wf m" using assms Some by simp
    have "bt_insert ''data'' d (bt_remove ''data'' m) = m" if "map_of m ''data'' = Some d" for d
      using wf that by (intro bt_ext) (auto simp: bt_wf_insert bt_remove_wf map_of_bt_insert bt_remove_get)
    moreover have "bt_remove ''data'' m = m" if "map_of m ''data'' = None"
      using wf that by (intro bt_ext) (auto simp: bt_remove_wf bt_remove_get)
    ultimately show ?thesis
      by (auto simp: Some JObj take_data_def set_data_def unwrap_or_def split: option.split)
  qed (simp_all add: Some take_data_def)
qed (simp add: take_data_def)

section \<open>Properties\<close>

text \<open>
  Splitting the impressions isolates bidders: splitting always succeeds, and a bidder gets, in order, one copy of an impression for each entry of
  the bidder map whose name is the bidder or an alias of it.  In the extension of a copy the only parameters are those of the entry; all other members
  are reserved fields of the original, and the Prebid part keeps its other members but not the list of bidders.
\<close>

theorem split_imps_isolated:
  "(\<exists>m. split_imps imps aliases = Inr m \<and> get_or [] m b = concat (map (copies_for aliases b) imps))
   \<and> jget (rsp_ext ext n p) k =
       (if k = ''prebid'' then Some (JObj (rsp_prebid ext n p)) else if k \<in> set rsp_reserved then jget ext k else None)
   \<and> map_of (rsp_prebid ext n p) k =
       (if k = ''bidder'' then Some (JObj [(n, p)]) else if k = ''bidders'' then None else jpath (Some ext) [''prebid'', k])"
  using rsp_imps_get [of aliases imps "[]" b] kept_fields_get [of ext k] rsp_prebid_get [of ext n p k]
  by (auto simp: split_imps_def rsp_ext_def map_of_bt_insert get_or_def [of _ "[]"])

definition without_content_data :: "content option \<Rightarrow> content option" where
  "without_content_data c = map_option (\<lambda>c. c\<lparr>content_data := []\<rparr>) c"

definition exts_ok :: "bid_request \<Rightarrow> bool" where
  "exts_ok request =
     ((case Option.bind (req_user request) user_jext of None \<Rightarrow> True | Some e \<Rightarrow> json_wf e)
      \<and> (case Option.bind (req_site request) site_jext of None \<Rightarrow> True | Some e \<Rightarrow> json_wf e))"

text \<open>
  First-party data for bidders without data of their own: the user comes out as it went in, and the site too but for the data of its content; but the
  extension data of an app and the data of its content are taken out of the request and put back nowhere.
\<close>

theorem global_fpd_loses_app_data:
  assumes "extract_fpd_for_bidder request bidder = fpd_none" "bidder \<in> set bidder_names" "exts_ok request"
  shows "map_of (fst (extract_fpd_for_bidders z request bidder_names)) bidder =
    Some \<lparr>rf_site = map_option (\<lambda>s. s\<lparr>site_content := without_content_data (site_content s)\<rparr>) (req_site request),
          rf_app = map_option (\<lambda>a. a\<lparr>app_jext := snd (take_data (app_jext a)), app_content := without_content_data (app_content a)\<rparr>) (req_app request),
          rf_user = req_user request\<rparr>"
proof -
  let ?r1 = "snd (extract_global_fpd request)" and ?r2 = "snd (extract_openrtb_global_fpd (snd (extract_global_fpd request)))"
  have none: "extract_fpd_for_bidder ?r2 bidder = fpd_none"
    using assms(1) by (simp add: extract_fpd_for_bidder_def extract_openrtb_global_fpd_def extract_global_fpd_def)
  have keep: "apply_fpd_to_request z fpd_none ?r2 = ?r2"
    by (simp add: apply_fpd_to_request_def fpd_none_def merge_fpd_object_def)
  have user: "(case Option.bind (req_user request) (\<lambda>u. fst (take_data (user_jext u))) of
        Some d \<Rightarrow> (let u = unwrap_or default_user v in Some (u\<lparr>user_jext := set_data d (user_jext u)\<rparr>)) | None \<Rightarrow> v) = req_user request"
    if "v = (case Option.bind (req_user ?r1) (\<lambda>u. nonempty_data (user_data u)) of
        Some ds \<Rightarrow> (let u = unwrap_or default_user (req_user ?r2) in Some (u\<lparr>user_data := user_data u @ ds\<rparr>)) | None \<Rightarrow> req_user ?r2)" for v
  proof (cases "req_user request")
    case (Some u)
    then have "(case fst (take_data (user_jext u)) of None \<Rightarrow> snd (take_data (user_jext u)) | Some d \<Rightarrow> set_data d (snd (take_data (user_jext u)))) = user_jext u"
      using assms(3) by (intro take_set_data) (simp add: exts_ok_def)
    moreover have "v = Some (u\<lparr>user_jext := snd (take_data (user_jext u))\<rparr>)"
      by (simp add: that Some extract_global_fpd_def extract_openrtb_global_fpd_def nonempty_data_def unwrap_or_def)
    ultimately show ?thesis
      by (auto simp: Some unwrap_or_def split: option.splits)
  qed (simp add: that extract_global_fpd_def extract_openrtb_global_fpd_def)
  have site: "(case Option.bind (req_site request) (\<lambda>s. fst (take_data (site_jext s))) of
        Some d \<Rightarrow> (let s = unwrap_or default_site (req_site ?r2) in Some (s\<lparr>site_jext := set_data d (site_jext s)\<rparr>)) | None \<Rightarrow> req_site ?r2)
      = map_option (\<lambda>s. s\<lparr>site_content := without_content_data (site_content s)\<rparr>) (req_site request)"
  proof (cases "req_site request")
    case (Some s)
    then have "(case fst (take_data (site_jext s)) of None \<Rightarrow> snd (take_data (site_jext s)) | Some d \<Rightarrow> set_data d (snd (take_data (site_jext s)))) = site_jext s"
      using assms(3) by (intro take_set_data) (simp add: exts_ok_def)
    then show ?thesis
      by (auto simp: Some unwrap_or_def extract_global_fpd_def extract_openrtb_global_fpd_def without_content_data_def split: option.splits)
  qed (simp add: extract_global_fpd_def extract_openrtb_global_fpd_def)
  have app: "req_app ?r2 = map_option (\<lambda>a. a\<lparr>app_jext := snd (take_data (app_jext a)), app_content := without_content_data (app_content a)\<rparr>) (req_app request)"
    by (cases "req_app request") (simp_all add: extract_global_fpd_def extract_openrtb_global_fpd_def without_content_data_def)
  have maps: "map_of (fst (extract_global_fpd request)) ''site'' = Option.bind (req_site request) (\<lambda>s. fst (take_data (site_jext s)))"
    "map_of (fst (extract_global_fpd request)) ''user'' = Option.bind (req_user request) (\<lambda>u. fst (take_data (user_jext u)))"
    "map_of (fst (extract_openrtb_global_fpd ?r1)) ''user'' = Option.bind (req_user ?r1) (\<lambda>u. nonempty_data (user_data u))"
    by (simp_all add: extract_global_fpd_def extract_openrtb_global_fpd_def fpd_entry_def map_of_hm_insert split: option.split)
  have "resolve_for_bidder z (fst (extract_global_fpd request)) (fst (extract_openrtb_global_fpd ?r1)) ?r2 bidder =
      \<lparr>rf_site = map_option (\<lambda>s. s\<lparr>site_content := without_content_data (site_content s)\<rparr>) (req_site request),
       rf_app = map_option (\<lambda>a. a\<lparr>app_jext := snd (take_data (app_jext a)), app_content := without_content_data (app_content a)\<rparr>) (req_app request),
       rf_user = req_user request\<rparr>"
    unfolding resolve_for_bidder_def none keep maps by (simp only: Let_def app site [unfolded Let_def] user [OF refl, unfolded Let_def])
  then show ?thesis
    using assms(2) by (simp add: extract_fpd_for_bidders_def split_beta fold_hm_insert_get)
qed

definition demo_app_request :: bid_request where
  "demo_app_request = default_bid_request\<lparr>req_app := Some (default_app\<lparr>app_jext := Some (JObj [(''data'', JStr ''d'')])\<rparr>)\<rparr>"

definition demo_fpd_serde :: fpd_serde where
  "demo_fpd_serde = \<lparr>fz_en_site = \<lambda>_. None, fz_en_app = \<lambda>_. None, fz_en_user = \<lambda>_. None, fz_de_site = \<lambda>_. None, fz_de_app = \<lambda>_. None, fz_de_user = \<lambda>_. None\<rparr>"

theorem global_fpd_loses_app_data_witness:
  "map_option rf_app (map_of (fst (extract_fpd_for_bidders demo_fpd_serde demo_app_request [''ix''])) ''ix'') = Some (Some (default_app\<lparr>app_jext := Some (JObj [])\<rparr>))"
proof -
  have "extract_fpd_for_bidder demo_app_request ''ix'' = fpd_none" "exts_ok demo_app_request"
    by (simp_all add: demo_app_request_def extract_fpd_for_bidder_def exts_ok_def default_bid_request_def)
  from global_fpd_loses_app_data [OF this(1) _ this(2), of "[''ix'']" demo_fpd_serde] show ?thesis
    by (simp add: demo_app_request_def take_data_def bt_remove_def without_content_data_def default_app_def)
qed

end
