(* ===== verification/Deals.thy ===== *)
theory Deals
  imports Targeting Fanout
begin

text \<open>
  Deals as a library, \<^verbatim>\<open>rust/crates/exchange/src/deals.rs\<close>, and the helpers of \<^verbatim>\<open>auction.rs\<close>: the choice of a winning bid, non-bid
  reasons, VAST wrappers, cache lifetimes and the checks of single bids.  The decoder of impression extensions, lower-casing and the iteration
  orders of hash maps are arguments.
\<close>

section \<open>Deal tiers\<close>

record pbs_ortb_bid =
  pob_bid :: bid
  pob_bid_type :: bid_type
  pob_generated_bid_id :: string
  pob_bid_events :: "(string option \<times> string option) option"
  pob_deal_priority :: int
  pob_deal_tier_satisfied :: bool

record ext_multi_bid =
  emb_bidder :: "string option"
  emb_bidders :: "string list option"
  emb_maxbids :: "int option"
  emb_target_bidder_code_prefix :: "string option"

definition default_bid_limit :: nat where
  "default_bid_limit = 1"

text \<open>The decoder gives the deal tier wrapper of every bidder under \<^verbatim>\<open>prebid.bidder\<close>, or an error.\<close>

definition get_deal_tiers ::
  "(string \<Rightarrow> string) \<Rightarrow> (json \<Rightarrow> (string, (string \<times> deal_tier option) list) res) \<Rightarrow> (string list \<Rightarrow> string list) \<Rightarrow> imp
   \<Rightarrow> (string, (string \<times> deal_tier) list) res" where
  "get_deal_tiers lower de ord i =
     (case imp_jext i of
        None \<Rightarrow> Inr []
      | Some ext_val \<Rightarrow>
          if ext_val = JNull then Inr []
          else case de ext_val of
                 Inl e \<Rightarrow> Inl (''failed to unmarshal imp ext for deal tiers: '' @ e)
               | Inr bidders \<Rightarrow>
                   Inr (fold (\<lambda>(bidder_raw, tier) acc. case tier of Some dt \<Rightarrow> hm_insert (lower bidder_raw) dt acc | None \<Rightarrow> acc) (hm_iter ord bidders) []))"

definition get_deal_tiers_from_request ::
  "(string \<Rightarrow> string) \<Rightarrow> (json \<Rightarrow> (string, (string \<times> deal_tier option) list) res) \<Rightarrow> (string list \<Rightarrow> string list) \<Rightarrow> imp list
   \<Rightarrow> (string \<times> (string \<times> deal_tier) list) list" where
  "get_deal_tiers_from_request lower de ord imps =
     fold (\<lambda>i acc. case get_deal_tiers lower de ord i of Inr m \<Rightarrow> hm_insert (imp_id i) m acc | Inl _ \<Rightarrow> acc) imps []"

definition validate_deal_tier :: "deal_tier \<Rightarrow> bool" where
  "validate_deal_tier dt =
     ((case dt_prefix dt of None \<Rightarrow> False | Some p \<Rightarrow> p \<noteq> []) \<and> (case dt_min_deal_tier dt of None \<Rightarrow> False | Some t \<Rightarrow> t > 0))"

definition retiered :: "string \<Rightarrow> string \<Rightarrow> string" where
  "retiered prefix_tier old_cat_dur =
     (case str_find ''_'' old_cat_dur of
        Some idx \<Rightarrow> prefix_tier @ drop (idx + 1) old_cat_dur
      | None \<Rightarrow> prefix_tier @ old_cat_dur)"

definition prefix_tier :: "deal_tier \<Rightarrow> pbs_ortb_bid \<Rightarrow> string" where
  "prefix_tier dt b = unwrap_or [] (dt_prefix dt) @ show_int (pob_deal_priority b) @ ''_''"

definition update_hb_pb_cat_dur :: "deal_tier \<Rightarrow> pbs_ortb_bid \<Rightarrow> (string \<times> string) list \<Rightarrow> pbs_ortb_bid \<times> (string \<times> string) list" where
  "update_hb_pb_cat_dur dt b bid_category =
     (if pob_deal_priority b \<ge> unwrap_or 0 (dt_min_deal_tier dt)
      then (b\<lparr>pob_deal_tier_satisfied := True\<rparr>,
            case map_of bid_category (bid_id (pob_bid b)) of
              Some old_cat_dur \<Rightarrow> hm_insert (bid_id (pob_bid b)) (retiered (prefix_tier dt b) old_cat_dur) bid_category
            | None \<Rightarrow> bid_category)
      else (b, bid_category))"

text \<open>A 32-bit integer cast to \<^verbatim>\<open>usize\<close>: a negative one becomes very large.\<close>

definition i32_as_usize :: "int \<Rightarrow> nat" where
  "i32_as_usize i = nat (i mod 2 ^ 64)"

definition bids_to_update :: "(string \<times> ext_multi_bid) list \<Rightarrow> string \<Rightarrow> nat" where
  "bids_to_update multi_bids bidder =
     (case map_of multi_bids bidder of
        Some mb \<Rightarrow>
          if unwrap_or [] (emb_target_bidder_code_prefix mb) \<noteq> []
          then i32_as_usize (unwrap_or (int default_bid_limit) (emb_maxbids mb)) else default_bid_limit
      | None \<Rightarrow> default_bid_limit)"

record deal_state =
  ds_bids :: "(string \<times> (string \<times> pbs_ortb_bid list) list) list"
  ds_category :: "(string \<times> string) list"
  ds_errs :: "string list"

definition deal_step ::
  "string \<Rightarrow> deal_tier option \<Rightarrow> pbs_ortb_bid \<Rightarrow> (string \<times> string) list \<Rightarrow> string list \<Rightarrow> pbs_ortb_bid \<times> (string \<times> string) list \<times> string list" where
  "deal_step msg tier b cat errs =
     (if pob_deal_priority b > 0
      then case tier of
             None \<Rightarrow> (b, cat, errs)
           | Some dt \<Rightarrow>
               if validate_deal_tier dt then (fst (update_hb_pb_cat_dur dt b cat), snd (update_hb_pb_cat_dur dt b cat), errs)
               else (b, cat, errs @ [msg])
      else (b, cat, errs))"

text \<open>The bids of one bidder for one impression: how many may still be updated, and the next ones to visit.\<close>

fun deal_bids ::
  "string \<Rightarrow> deal_tier option \<Rightarrow> nat \<Rightarrow> pbs_ortb_bid list \<Rightarrow> (string \<times> string) list \<Rightarrow> string list
   \<Rightarrow> pbs_ortb_bid list \<times> (string \<times> string) list \<times> string list" where
  "deal_bids msg tier max_bid [] cat errs = ([], cat, errs)"
| "deal_bids msg tier 0 (b # bs) cat errs = (b # bs, cat, errs)"
| "deal_bids msg tier (Suc n) (b # bs) cat errs =
     (case deal_step msg tier b cat errs of
        (b', cat', errs') \<Rightarrow> (case deal_bids msg tier n bs cat' errs' of (bs', cat'', errs'') \<Rightarrow> (b' # bs', cat'', errs'')))"

definition deal_error :: "string \<Rightarrow> string \<Rightarrow> string" where
  "deal_error bidder impid = ''dealTier configuration invalid for bidder ''@ [CHR 0x27] @ bidder @ [CHR 0x27] @ '', imp ID '' @ [CHR 0x27] @ impid @ [CHR 0x27]"

definition deal_bidder ::
  "(string \<Rightarrow> string) \<Rightarrow> (string \<times> deal_tier) list \<Rightarrow> (string \<times> ext_multi_bid) list \<Rightarrow> string \<Rightarrow> string \<times> pbs_ortb_bid list
   \<Rightarrow> (string \<times> pbs_ortb_bid list) list \<times> (string \<times> string) list \<times> string list \<Rightarrow> (string \<times> pbs_ortb_bid list) list \<times> (string \<times> string) list \<times> string list" where
  "deal_bidder lower imp_deal multi_bids impid e st =
     (case (e, st) of ((bidder, bs), (by_bidder, cat, errs)) \<Rightarrow>
        (case deal_bids (deal_error bidder impid) (map_of imp_deal (lower bidder)) (bids_to_update multi_bids (lower bidder)) bs cat errs of
           (bs', cat', errs') \<Rightarrow> (hm_insert bidder bs' by_bidder, cat', errs')))"

definition deal_imp ::
  "(string \<Rightarrow> string) \<Rightarrow> (string \<Rightarrow> string list \<Rightarrow> string list) \<Rightarrow> (string \<times> (string \<times> deal_tier) list) list \<Rightarrow> (string \<times> ext_multi_bid) list
   \<Rightarrow> string \<times> (string \<times> pbs_ortb_bid list) list \<Rightarrow> deal_state \<Rightarrow> deal_state" where
  "deal_imp lower ord imp_deal_map multi_bids e s =
     (case e of (impid, bids_per_imp) \<Rightarrow>
        (case map_of imp_deal_map impid of
           None \<Rightarrow> s
         | Some imp_deal \<Rightarrow>
             (case fold (deal_bidder lower imp_deal multi_bids impid) (hm_iter (ord impid) bids_per_imp) (bids_per_imp, ds_category s, ds_errs s) of
                (by_bidder, cat, errs) \<Rightarrow> s\<lparr>ds_bids := hm_insert impid by_bidder (ds_bids s), ds_category := cat, ds_errs := errs\<rparr>)))"

definition apply_deal_support ::
  "(string \<Rightarrow> string) \<Rightarrow> (json \<Rightarrow> (string, (string \<times> deal_tier option) list) res) \<Rightarrow> (string list \<Rightarrow> string list) \<Rightarrow> (string list \<Rightarrow> string list)
   \<Rightarrow> (string \<Rightarrow> string list \<Rightarrow> string list) \<Rightarrow> imp list \<Rightarrow> (string \<times> (string \<times> pbs_ortb_bid list) list) list \<Rightarrow> (string \<times> string) list
   \<Rightarrow> (string \<times> ext_multi_bid) list \<Rightarrow> deal_state" where
  "apply_deal_support lower de ord0 ord1 ord2 imps bids_by_imp bid_category multi_bids =
     fold (deal_imp lower ord2 (get_deal_tiers_from_request lower de ord0 imps) multi_bids) (hm_iter ord1 bids_by_imp)
       \<lparr>ds_bids = bids_by_imp, ds_category = bid_category, ds_errs = []\<rparr>"

definition deal_adjustment_factor :: "(string \<times> (string \<times> f64) list) list \<Rightarrow> string \<Rightarrow> string \<Rightarrow> f64 option" where
  "deal_adjustment_factor adjustments bidder dealid =
     Option.bind (map_of adjustments bidder) (\<lambda>m. case map_of m dealid of Some x \<Rightarrow> Some x | None \<Rightarrow> map_of m ''*'')"

section \<open>Helpers of the auction\<close>

datatype auction_nbr =
    NoBidUnknown | ErrorGeneral | ErrorTimeout | ErrorBidderUnreachable | ErrorBadInput | ErrorBadServerResponse | ErrorFailedToMarshal
  | ResponseRejectedGeneral | ResponseRejectedBelowFloor | ResponseRejectedCategoryMappingInvalid | ResponseRejectedBelowDealFloor
  | ResponseRejectedCreativeSizeNotAllowed | ResponseRejectedNotQualifiedAdSlot | ResponseRejectedInvalidCreative
  | ResponseRejectedBidPriceCurrencyConversionError | ResponseRejectedBidPriceBelowMinimum | ResponseRejectedBidPriceNotPositive

fun auction_nbr_code :: "auction_nbr \<Rightarrow> int" where
  "auction_nbr_code NoBidUnknown = 0" | "auction_nbr_code ErrorGeneral = 100" | "auction_nbr_code ErrorTimeout = 101"
| "auction_nbr_code ErrorBidderUnreachable = 102" | "auction_nbr_code ErrorBadInput = 103" | "auction_nbr_code ErrorBadServerResponse = 104"
| "auction_nbr_code ErrorFailedToMarshal = 105" | "auction_nbr_code ResponseRejectedGeneral = 200" | "auction_nbr_code ResponseRejectedBelowFloor = 201"
| "auction_nbr_code ResponseRejectedCategoryMappingInvalid = 202" | "auction_nbr_code ResponseRejectedBelowDealFloor = 204"
| "auction_nbr_code ResponseRejectedCreativeSizeNotAllowed = 205" | "auction_nbr_code ResponseRejectedNotQualifiedAdSlot = 206"
| "auction_nbr_code ResponseRejectedInvalidCreative = 300" | "auction_nbr_code ResponseRejectedBidPriceCurrencyConversionError = 301"
| "auction_nbr_code ResponseRejectedBidPriceBelowMinimum = 302" | "auction_nbr_code ResponseRejectedBidPriceNotPositive = 303"

definition auction_nbr_from :: "int \<Rightarrow> auction_nbr" where
  "auction_nbr_from v =
     (case map_of [(0, NoBidUnknown), (100, ErrorGeneral), (101, ErrorTimeout), (102, ErrorBidderUnreachable), (103, ErrorBadInput),
                   (104, ErrorBadServerResponse), (105, ErrorFailedToMarshal), (200, ResponseRejectedGeneral), (201, ResponseRejectedBelowFloor),
                   (202, ResponseRejectedCategoryMappingInvalid), (204, ResponseRejectedBelowDealFloor), (205, ResponseRejectedCreativeSizeNotAllowed),
                   (206, ResponseRejectedNotQualifiedAdSlot), (300, ResponseRejectedInvalidCreative), (301, ResponseRejectedBidPriceCurrencyConversionError),
                   (302, ResponseRejectedBidPriceBelowMinimum), (303, ResponseRejectedBidPriceNotPositive)] v of
        Some r \<Rightarrow> r
      | None \<Rightarrow> NoBidUnknown)"

definition is_new_winning_bid :: "f64 \<Rightarrow> string \<Rightarrow> f64 \<Rightarrow> string \<Rightarrow> bool \<Rightarrow> bool" where
  "is_new_winning_bid price bid_deal winning_price winning_deal prefer_deals =
     (if prefer_deals \<and> bid_deal \<noteq> [] \<and> winning_deal = [] then True
      else if prefer_deals \<and> bid_deal = [] \<and> winning_deal \<noteq> [] then False
      else f_lt winning_price price)"

definition make_vast :: "string \<Rightarrow> string \<Rightarrow> string" where
  "make_vast adm nurl =
     (if adm \<noteq> [] then adm
      else if nurl \<noteq> []
      then ''<VAST version=\"3.0\"><Ad><Wrapper><AdSystem>prebid.org wrapper</AdSystem><VASTAdTagURI><![CDATA['' @ nurl
           @ '']]></VASTAdTagURI><Impression></Impression><Creatives></Creatives></Wrapper></Ad></VAST>''
      else [])"

definition cache_ttl :: "int \<Rightarrow> int \<Rightarrow> int \<Rightarrow> int \<Rightarrow> int" where
  "cache_ttl imp_ttl bid_ttl def_ttl buffer =
     (let base = (if bid_ttl > 0 then bid_ttl else if imp_ttl > 0 then imp_ttl else def_ttl);
          total = i64_wrap (base + buffer)
      in if total \<le> 0 then i64_wrap (def_ttl + buffer) else total)"

definition is_debug_override_enabled :: "string \<Rightarrow> string \<Rightarrow> bool" where
  "is_debug_override_enabled debug_header config_override_token = (config_override_token \<noteq> [] \<and> debug_header = config_override_token)"

definition dquoted :: "string \<Rightarrow> string" where
  "dquoted s = CHR 0x22 # s @ [CHR 0x22]"

definition validate_bid :: "string \<Rightarrow> string \<Rightarrow> f64 \<Rightarrow> string \<Rightarrow> string \<Rightarrow> bool \<Rightarrow> (string, unit) res" where
  "validate_bid i impid price dealid cr_id debug =
     (if i = [] then Inl (''bid missing required field: '' @ dquoted ''id'')
      else if impid = [] then Inl (''bid '' @ dquoted i @ '' missing required field: '' @ dquoted ''impid'')
      else if f_le price (Fin False 0) \<and> dealid = [] then Inl (''bid '' @ dquoted i @ '' has non-positive price '' @ fmt_fixed 4 price @ '' without a deal'')
      else if cr_id = [] then Inl (''bid '' @ dquoted i @ '' missing required field: '' @ dquoted ''crid'')
      else Inr ())"

text \<open>The list of currencies is printed by the derived formatter, an argument.\<close>

definition validate_currency :: "(string list \<Rightarrow> string) \<Rightarrow> string list \<Rightarrow> string \<Rightarrow> (string, unit) res" where
  "validate_currency debug_fmt request_currencies bid_currency =
     (if request_currencies = [] then Inr ()
      else let effective = (if bid_currency = [] then ''USD'' else bid_currency)
           in if effective \<in> set request_currencies then Inr ()
              else Inl (''bid currency '' @ dquoted effective @ '' is not in the list of request currencies: '' @ debug_fmt request_currencies))"

section \<open>Lemmas\<close>

definition tier_met :: "deal_tier option \<Rightarrow> pbs_ortb_bid \<Rightarrow> bool" where
  "tier_met tier b =
     (case tier of
        None \<Rightarrow> False
      | Some dt \<Rightarrow> validate_deal_tier dt \<and> 0 < pob_deal_priority b \<and> unwrap_or 0 (dt_min_deal_tier dt) \<le> pob_deal_priority b)"

definition mark :: "deal_tier option \<Rightarrow> pbs_ortb_bid \<Rightarrow> pbs_ortb_bid" where
  "mark tier b = (if tier_met tier b then b\<lparr>pob_deal_tier_satisfied := True\<rparr> else b)"

definition marked :: "deal_tier option \<Rightarrow> nat \<Rightarrow> pbs_ortb_bid list \<Rightarrow> pbs_ortb_bid list" where
  "marked tier n bs = map (mark tier) (take n bs) @ drop n bs"

lemma update_dom: "dom (map_of (snd (update_hb_pb_cat_dur dt b cat))) = dom (map_of cat)"
  by (auto simp: update_hb_pb_cat_dur_def map_of_hm_insert split: option.splits)

lemma deal_step_spec:
  "fst (deal_step msg tier b cat errs) = mark tier b" "dom (map_of (fst (snd (deal_step msg tier b cat errs)))) = dom (map_of cat)"
  by (simp_all add: deal_step_def mark_def tier_met_def update_dom split: option.split) (simp add: update_hb_pb_cat_dur_def)

lemma deal_bids_spec:
  "fst (deal_bids msg tier n bs cat errs) = marked tier n bs
   \<and> dom (map_of (fst (snd (deal_bids msg tier n bs cat errs)))) = dom (map_of cat)"
proof (induction msg tier n bs cat errs rule: deal_bids.induct)
  case (3 msg tier n b bs cat errs)
  obtain b1 cat1 errs1 where one: "deal_step msg tier b cat errs = (b1, cat1, errs1)" by (metis prod_cases3)
  show ?case
    using "3.IH" [OF one [symmetric] refl] deal_step_spec [of msg tier b cat errs] by (simp add: one marked_def split_beta)
qed (simp_all add: marked_def)

lemma deal_bidders_spec:
  "distinct (map fst es) \<Longrightarrow>
   map_of (fst (fold (deal_bidder lower d mbs impid) es st)) b =
      (case map_of es b of Some bs \<Rightarrow> Some (marked (map_of d (lower b)) (bids_to_update mbs (lower b)) bs) | None \<Rightarrow> map_of (fst st) b)
   \<and> dom (map_of (fst (snd (fold (deal_bidder lower d mbs impid) es st)))) = dom (map_of (fst (snd st)))"
proof (induction es arbitrary: st)
  case (Cons e es)
  obtain k bs where e: "e = (k, bs)" by force
  obtain m cat errs where st: "st = (m, cat, errs)" by (metis prod_cases3)
  let ?t = "deal_bidder lower d mbs impid e st"
  have t: "fst ?t = hm_insert k (marked (map_of d (lower k)) (bids_to_update mbs (lower k)) bs) m" "dom (map_of (fst (snd ?t))) = dom (map_of cat)"
    using deal_bids_spec [of "deal_error k impid" "map_of d (lower k)" "bids_to_update mbs (lower k)" bs cat errs]
    by (simp_all add: deal_bidder_def e st split_beta)
  have fresh: "map_of es k = None" using Cons.prems e by (simp add: map_of_eq_None_iff)
  show ?case
    using Cons.IH [of ?t] Cons.prems fresh t by (auto simp: e st map_of_hm_insert split: option.split)
qed simp

text \<open>The bids of an impression after deals, by the tiers of the impression.\<close>

definition imp_marked ::
  "(string \<Rightarrow> string) \<Rightarrow> (string \<times> (string \<times> deal_tier) list) list \<Rightarrow> (string \<times> ext_multi_bid) list \<Rightarrow> string \<Rightarrow> string \<Rightarrow> pbs_ortb_bid list \<Rightarrow> pbs_ortb_bid list" where
  "imp_marked lower tiers mbs impid b bs =
     (case map_of tiers impid of None \<Rightarrow> bs | Some d \<Rightarrow> marked (map_of d (lower b)) (bids_to_update mbs (lower b)) bs)"

lemma deal_imp_spec:
  assumes "hm_wf bm" "iter_order (ord i)" "map_of (ds_bids s) i = Some bm"
  shows "\<exists>m'. map_of (ds_bids (deal_imp lower ord tiers mbs (i, bm) s)) = (map_of (ds_bids s))(i \<mapsto> m')
      \<and> (\<forall>b. map_of m' b = map_option (imp_marked lower tiers mbs i b) (map_of bm b))"
    and "dom (map_of (ds_category (deal_imp lower ord tiers mbs (i, bm) s))) = dom (map_of (ds_category s))"
proof -
  note iter = map_of_hm_iter [OF assms(2,1)] distinct_hm_iter [OF assms(2,1)]
  show "\<exists>m'. map_of (ds_bids (deal_imp lower ord tiers mbs (i, bm) s)) = (map_of (ds_bids s))(i \<mapsto> m')
      \<and> (\<forall>b. map_of m' b = map_option (imp_marked lower tiers mbs i b) (map_of bm b))"
  proof (cases "map_of tiers i")
    case None
    then have "imp_marked lower tiers mbs i b = (\<lambda>bs. bs)" for b
      by (simp add: imp_marked_def fun_eq_iff)
    then show ?thesis
      using assms(3) None by (intro exI [of _ bm]) (simp add: deal_imp_def fun_upd_idem option.map_ident)
  next
    case (Some d)
    then show ?thesis
      using deal_bidders_spec [OF iter(2), of lower d mbs i "(bm, ds_category s, ds_errs s)"]
      by (intro exI [of _ "fst (fold (deal_bidder lower d mbs i) (hm_iter (ord i) bm) (bm, ds_category s, ds_errs s))"])
        (auto simp: deal_imp_def imp_marked_def iter(1) split_beta map_of_hm_insert split: option.split)
  qed
  show "dom (map_of (ds_category (deal_imp lower ord tiers mbs (i, bm) s))) = dom (map_of (ds_category s))"
    using deal_bidders_spec [OF iter(2), of lower _ mbs i "(bm, ds_category s, ds_errs s)"]
    by (simp add: deal_imp_def split_beta split: option.split)
qed

lemma deal_imps_spec:
  assumes "distinct (map fst es)" "\<forall>e \<in> set es. hm_wf (snd e) \<and> map_of (ds_bids s) (fst e) = Some (snd e)" "\<forall>i. iter_order (ord i)"
    and "map_of (ds_bids s) impid = Some bm"
  shows "(\<exists>m'. map_of (ds_bids (fold (deal_imp lower ord tiers mbs) es s)) impid = Some m'
         \<and> (\<forall>b. map_of m' b = (if impid \<in> fst ` set es then map_option (imp_marked lower tiers mbs impid b) (map_of bm b) else map_of bm b)))
    \<and> dom (map_of (ds_category (fold (deal_imp lower ord tiers mbs) es s))) = dom (map_of (ds_category s))"
  using assms
proof (induction es arbitrary: s bm)
  case (Cons e es)
  obtain i bi where e: "e = (i, bi)" by force
  define t where "t = deal_imp lower ord tiers mbs e s"
  have bi: "hm_wf bi" "map_of (ds_bids s) i = Some bi" "iter_order (ord i)" and fresh: "i \<notin> fst ` set es"
    using Cons.prems e by auto
  obtain m' where m': "map_of (ds_bids t) = (map_of (ds_bids s))(i \<mapsto> m')"
      "\<forall>b. map_of m' b = map_option (imp_marked lower tiers mbs i b) (map_of bi b)"
    using deal_imp_spec(1) [of bi ord i s, OF bi(1,3,2), of lower tiers mbs] unfolding t_def e by blast
  have cat: "dom (map_of (ds_category t)) = dom (map_of (ds_category s))"
    using deal_imp_spec(2) [of bi ord i s, OF bi(1,3,2)] by (simp add: t_def e)
  have rest: "\<forall>x \<in> set es. hm_wf (snd x) \<and> map_of (ds_bids t) (fst x) = Some (snd x)"
    using Cons.prems(2) fresh m'(1) by force
  have step: "fold (deal_imp lower ord tiers mbs) (e # es) s = fold (deal_imp lower ord tiers mbs) es t"
    by (simp add: t_def)
  note IH = Cons.IH [OF _ rest Cons.prems(3)]
  show ?case
  proof (cases "impid = i")
    case True
    then have "map_of (ds_bids t) impid = Some m'" "bm = bi"
      using m'(1) bi(2) Cons.prems(4) by auto
    from IH [OF _ this(1)] show ?thesis
      unfolding step using Cons.prems(1) cat m'(2) True fresh \<open>bm = bi\<close> e by auto
  next
    case False
    then have "map_of (ds_bids t) impid = Some bm"
      using m'(1) Cons.prems(4) by simp
    from IH [OF _ this] show ?thesis
      unfolding step using Cons.prems(1) cat False e by auto
  qed
qed simp

section \<open>Properties\<close>

text \<open>
  Property C26.  Deal support marks exactly the right bids: for every impression and bidder the bids stay as they were and in their order, except that among the first ones (one, or as many as the
  multi-bid configuration allows) those with a positive priority that reaches the minimum of a valid tier of their bidder are marked as satisfied.  The
  category map keeps its keys.  This holds for every iteration order of the hash maps.
\<close>

theorem deal_support_spec:
  assumes "hm_wf bids_by_imp" "\<forall>e \<in> set bids_by_imp. hm_wf (snd e)" "iter_order ord1" "\<forall>i. iter_order (ord2 i)"
    and "map_of bids_by_imp impid = Some bm"
  shows "(\<exists>m'. map_of (ds_bids (apply_deal_support lower de ord0 ord1 ord2 imps bids_by_imp cat mbs)) impid = Some m'
      \<and> (\<forall>b. map_of m' b = map_option (imp_marked lower (get_deal_tiers_from_request lower de ord0 imps) mbs impid b) (map_of bm b)))
    \<and> dom (map_of (ds_category (apply_deal_support lower de ord0 ord1 ord2 imps bids_by_imp cat mbs))) = dom (map_of cat)"
proof -
  let ?es = "hm_iter ord1 bids_by_imp" and ?s = "\<lparr>ds_bids = bids_by_imp, ds_category = cat, ds_errs = []\<rparr>"
  have es: "set ?es = set bids_by_imp"
    using set_hm_iter [OF assms(3,1)] .
  have "\<forall>e \<in> set ?es. hm_wf (snd e) \<and> map_of (ds_bids ?s) (fst e) = Some (snd e)"
    using assms(1,2) unfolding es by (auto simp: hm_wf_def)
  moreover have "impid \<in> fst ` set ?es"
    unfolding es using map_of_SomeD [OF assms(5)] by force
  ultimately show ?thesis
    using deal_imps_spec [OF distinct_hm_iter [OF assms(3,1)], of ?s ord2 impid bm] assms(4,5)
    by (simp add: apply_deal_support_def)
qed

definition demo_deal_bid :: "string \<Rightarrow> int \<Rightarrow> pbs_ortb_bid" where
  "demo_deal_bid i p =
     \<lparr>pob_bid = default_bid\<lparr>bid_id := i\<rparr>, pob_bid_type = BtVideo, pob_generated_bid_id = [], pob_bid_events = None, pob_deal_priority = p, pob_deal_tier_satisfied = False\<rparr>"

definition demo_tier :: deal_tier where
  "demo_tier = \<lparr>dt_prefix = Some ''tier'', dt_min_deal_tier = Some 5\<rparr>"

definition demo_deal_run :: deal_state where
  "demo_deal_run =
     apply_deal_support (\<lambda>s. s) (\<lambda>_. Inr [(''ix'', Some demo_tier)]) (\<lambda>ks. ks) (\<lambda>ks. ks) (\<lambda>_ ks. ks)
       [default_imp\<lparr>imp_id := ''i1'', imp_jext := Some (JObj [])\<rparr>]
       [(''i1'', [(''ix'', [demo_deal_bid ''b1'' 7, demo_deal_bid ''b2'' 9])])] [(''b1'', ''10.00_movies_30s'')] []"

theorem deal_support_spec_witness:
  "(\<exists>m'. map_of (ds_bids demo_deal_run) ''i1'' = Some m'
     \<and> map_of m' ''ix'' = Some [(demo_deal_bid ''b1'' 7)\<lparr>pob_deal_tier_satisfied := True\<rparr>, demo_deal_bid ''b2'' 9])
   \<and> dom (map_of (ds_category demo_deal_run)) = {''b1''}"
proof -
  let ?bs = "[demo_deal_bid ''b1'' 7, demo_deal_bid ''b2'' 9]"
  let ?imps = "[default_imp\<lparr>imp_id := ''i1'', imp_jext := Some (JObj [])\<rparr>]"
  have tiers: "get_deal_tiers_from_request (\<lambda>s. s) (\<lambda>_. Inr [(''ix'', Some demo_tier)]) (\<lambda>ks. ks) ?imps = [(''i1'', [(''ix'', demo_tier)])]"
    by (simp add: get_deal_tiers_from_request_def get_deal_tiers_def hm_iter_def default_imp_def)
  have met: "imp_marked (\<lambda>s. s) [(''i1'', [(''ix'', demo_tier)])] [] ''i1'' ''ix'' ?bs
      = [(demo_deal_bid ''b1'' 7)\<lparr>pob_deal_tier_satisfied := True\<rparr>, demo_deal_bid ''b2'' 9]"
    by (simp add: imp_marked_def marked_def bids_to_update_def default_bid_limit_def mark_def tier_met_def validate_deal_tier_def demo_tier_def
          demo_deal_bid_def unwrap_or_def)
  have "(\<exists>m'. map_of (ds_bids demo_deal_run) ''i1'' = Some m'
      \<and> (\<forall>b. map_of m' b = map_option (imp_marked (\<lambda>s. s) [(''i1'', [(''ix'', demo_tier)])] [] ''i1'' b) (map_of [(''ix'', ?bs)] b)))
    \<and> dom (map_of (ds_category demo_deal_run)) = dom (map_of [(''b1'', ''10.00_movies_30s'')])"
    unfolding demo_deal_run_def tiers [symmetric] by (rule deal_support_spec) (simp_all add: hm_wf_def iter_order_def)
  then obtain m' where m': "map_of (ds_bids demo_deal_run) ''i1'' = Some m'"
      "\<forall>b. map_of m' b = map_option (imp_marked (\<lambda>s. s) [(''i1'', [(''ix'', demo_tier)])] [] ''i1'' b) (map_of [(''ix'', ?bs)] b)"
      and keys: "dom (map_of (ds_category demo_deal_run)) = dom (map_of [(''b1'', ''10.00_movies_30s'')])"
    by blast
  have "map_of m' ''ix'' = Some [(demo_deal_bid ''b1'' 7)\<lparr>pob_deal_tier_satisfied := True\<rparr>, demo_deal_bid ''b2'' 9]"
    using spec [OF m'(2), of "''ix''"] unfolding map_of.simps fst_conv snd_conv fun_upd_same option.map met .
  moreover have "dom (map_of (ds_category demo_deal_run)) = {''b1''}"
    unfolding keys by simp
  ultimately show ?thesis
    using m'(1) by blast
qed

text \<open>The cast of a negative limit makes it unlimited.\<close>

lemma negative_limit_is_unlimited:
  "bids_to_update [(''ix'', \<lparr>emb_bidder = None, emb_bidders = None, emb_maxbids = Some (-1), emb_target_bidder_code_prefix = Some ''p''\<rparr>)] ''ix'' = 2 ^ 64 - 1"
  by (simp add: bids_to_update_def i32_as_usize_def unwrap_or_def)

lemma auction_nbr_roundtrip: "auction_nbr_from (auction_nbr_code r) = r"
  by (cases r) (simp_all add: auction_nbr_from_def)

text \<open>With deals preferred, a bid with a deal is not replaced by one without, and no bid replaces itself.\<close>

lemma deal_preferred: "winning_deal \<noteq> [] \<Longrightarrow> \<not> is_new_winning_bid price [] winning_price winning_deal True"
  by (simp add: is_new_winning_bid_def)

lemma winning_bid_asym: "is_new_winning_bid p d p' d' pref \<Longrightarrow> \<not> is_new_winning_bid p' d' p d pref"
proof -
  have "f_lt p' p \<Longrightarrow> \<not> f_lt p p'"
    by (cases p; cases p'; simp)
  then show "is_new_winning_bid p d p' d' pref \<Longrightarrow> \<not> is_new_winning_bid p' d' p d pref"
    unfolding is_new_winning_bid_def by metis
qed

end
