(* ===== verification/StageExec.thy ===== *)
theory StageExec
  imports ExHooks
begin

text \<open>
  The stage executor, \<^verbatim>\<open>rust/crates/exchange/src/hooks_exec.rs\<close>: a second executor of hooks (beside the one of \<^verbatim>\<open>hooks.rs\<close>, theory \<open>ExHooks\<close>) with one
  method per stage and a record of metrics.  The calls to the metrics recorder are a list of events in the state.  The lemmas compare the two
  executors and account for the events.
\<close>

section \<open>Entities, labels and tags\<close>

datatype entity = EntHttpRequest | EntAuctionRequest | EntAuctionResponse | EntAllProcessedBidResponses

fun entity_as_str :: "entity \<Rightarrow> string" where
  "entity_as_str EntHttpRequest = ''http-request''"
| "entity_as_str EntAuctionRequest = ''auction-request''"
| "entity_as_str EntAuctionResponse = ''auction_response''"
| "entity_as_str EntAllProcessedBidResponses = ''all_processed_bid_responses''"

record module_labels =
  ml_module :: string
  ml_stage :: string
  ml_hook_code :: string

datatype hook_action = HaNone | HaReject | HaUpdate

fun hook_action_as_str :: "hook_action \<Rightarrow> string" where
  "hook_action_as_str HaNone = ''none''"
| "hook_action_as_str HaReject = ''reject''"
| "hook_action_as_str HaUpdate = ''update''"

fun hook_action_from :: "invocation_action \<Rightarrow> hook_action" where
  "hook_action_from ActNone = HaNone"
| "hook_action_from ActReject = HaReject"
| "hook_action_from ActUpdate = HaUpdate"

type_synonym analytics_tags = "(string \<times> json) list"

definition analytics_tags_add :: "string \<Rightarrow> json \<Rightarrow> analytics_tags \<Rightarrow> analytics_tags" where
  "analytics_tags_add name val ts = ts @ [(name, val)]"

text \<open>The methods of the recorder, each with its labels.\<close>

datatype metric_kind = McTimeout | McFailed | McExecutionError | McNoop | McUpdate | McReject
datatype hook_metric = McCalled module_labels nat | McResult metric_kind module_labels

definition endpoint_auction :: string where
  "endpoint_auction = ''/openrtb2/auction''"

definition endpoint_amp :: string where
  "endpoint_amp = ''/openrtb2/amp''"

section \<open>Executor\<close>

record stage_executor =
  sx_plan_builder :: plan_builder
  sx_endpoint :: string
  sx_account_id :: string
  sx_module_contexts :: module_contexts
  sx_stage_outcomes :: "stage_outcome list"
  sx_metrics :: "hook_metric list"

definition stage_executor_new :: "plan_builder \<Rightarrow> string \<Rightarrow> stage_executor" where
  "stage_executor_new pb endpoint =
     \<lparr>sx_plan_builder = pb, sx_endpoint = endpoint, sx_account_id = [], sx_module_contexts = [], sx_stage_outcomes = [], sx_metrics = []\<rparr>"

definition sx_set_account_id :: "string \<Rightarrow> stage_executor \<Rightarrow> stage_executor" where
  "sx_set_account_id i sx = sx\<lparr>sx_account_id := i\<rparr>"

text \<open>The tasks are spawned as by the other executor, which has the same fields but for the metrics.\<close>

definition sx_view :: "stage_executor \<Rightarrow> hook_executor" where
  "sx_view sx =
     \<lparr>ex_plan_builder = sx_plan_builder sx, ex_endpoint = sx_endpoint sx, ex_account_id = sx_account_id sx,
      ex_module_contexts = sx_module_contexts sx, ex_stage_outcomes = sx_stage_outcomes sx\<rparr>"

definition replace_char :: "char \<Rightarrow> char \<Rightarrow> string \<Rightarrow> string" where
  "replace_char a b = map (\<lambda>c. if c = a then b else c)"

definition labels_of :: "stage \<Rightarrow> hook_ident \<Rightarrow> module_labels" where
  "labels_of st ident =
     \<lparr>ml_module = replace_char (CHR ''-'') (CHR ''_'') (replace_char (CHR ''.'') (CHR ''_'') (hid_module_code ident)),
      ml_stage = stage_as_str st, ml_hook_code = hid_hook_impl_code ident\<rparr>"

fun sx_mutations :: "mutation list \<Rightarrow> json \<Rightarrow> nat \<Rightarrow> string list \<Rightarrow> json \<times> nat \<times> string list" where
  "sx_mutations [] payload successful warnings = (payload, successful, warnings)"
| "sx_mutations (mu # mus) payload successful warnings =
     (case mut_apply mu payload of
        Inr p \<Rightarrow> sx_mutations mus p (successful + 1) warnings
      | Inl e \<Rightarrow> sx_mutations mus payload successful (warnings @ [''failed to apply hook mutation: '' @ e]))"

text \<open>Handling one result: what is recorded, the module contexts, the payload, the outcome and the rejection, if any.\<close>

definition sx_handle_result ::
  "stage \<Rightarrow> hook_ident \<Rightarrow> (hook_error, hook_result) res \<Rightarrow> nat \<Rightarrow> module_contexts \<Rightarrow> json
   \<Rightarrow> metric_kind \<times> module_contexts \<times> json \<times> hook_outcome \<times> reject_error option" where
  "sx_handle_result st ident result elapsed ctxs payload =
     (case result of
        Inr r \<Rightarrow>
          (let ctxs = (if hr_module_context r \<noteq> [] then contexts_put (hid_module_code ident) (hr_module_context r) ctxs else ctxs)
           in if hr_reject r
              then if is_rejectable st
                   then (McReject, ctxs, payload, outcome_of ident InvSuccess ActReject r elapsed, Some (reject_of st ident r))
                   else (McExecutionError, ctxs, payload,
                         (outcome_of ident InvExecutionFailure ActNone r elapsed)\<lparr>ho_errors := hr_errors r
                            @ [''module '' @ hid_module_code ident @ '' tried to reject at non-rejectable stage '' @ stage_as_str st]\<rparr>,
                         None)
              else if hr_change_set r \<noteq> []
              then (case sx_mutations (hr_change_set r) payload 0 (hr_warnings r) of
                      (payload', successful, warnings) \<Rightarrow>
                        (McUpdate, ctxs, payload',
                         (outcome_of ident (if successful > 0 then InvSuccess else InvExecutionFailure) ActUpdate r elapsed)
                           \<lparr>ho_warnings := warnings\<rparr>,
                         None))
              else (McNoop, ctxs, payload, outcome_of ident InvSuccess ActNone r elapsed, None))
      | Inl e \<Rightarrow>
          (case e of HookTimeout \<Rightarrow> McTimeout | HookFailure _ \<Rightarrow> McFailed | HookInternal _ \<Rightarrow> McExecutionError,
           ctxs, payload,
           \<lparr>ho_hook_id = ident,
            ho_status = (case e of HookTimeout \<Rightarrow> InvTimeout | HookFailure _ \<Rightarrow> InvFailure | HookInternal _ \<Rightarrow> InvExecutionFailure),
            ho_action = ActNone, ho_message = [], ho_errors = [show_hook_error e], ho_warnings = [], ho_debug_messages = [],
            ho_execution_time = elapsed\<rparr>,
           None))"

fun sx_collect ::
  "stage \<Rightarrow> (hook_ident \<times> (hook_error, hook_result) res \<times> nat) option list \<Rightarrow> hook_metric list \<Rightarrow> module_contexts \<Rightarrow> json \<Rightarrow> group_outcome
   \<Rightarrow> hook_metric list \<times> module_contexts \<times> json \<times> group_outcome \<times> reject_error option" where
  "sx_collect st [] ms ctxs payload go = (ms, ctxs, payload, go, None)"
| "sx_collect st (None # hs) ms ctxs payload go = sx_collect st hs ms ctxs payload go"
| "sx_collect st (Some (ident, result, elapsed) # hs) ms ctxs payload go =
     (let go = (if go_execution_time go < elapsed then go\<lparr>go_execution_time := elapsed\<rparr> else go)
      in case sx_handle_result st ident result elapsed ctxs payload of
           (kind, ctxs, payload, outcome, rej) \<Rightarrow>
             (let ms = ms @ [McCalled (labels_of st ident) elapsed, McResult kind (labels_of st ident)];
                  go = go\<lparr>go_invocation_results := go_invocation_results go @ [outcome]\<rparr>
              in if rej \<noteq> None then (ms, ctxs, payload, go, rej)
                 else sx_collect st hs ms ctxs payload go))"

definition execute_group_with_metrics ::
  "stage \<Rightarrow> hook_group \<Rightarrow> json \<Rightarrow> stage_executor \<Rightarrow> stage_executor \<times> group_outcome \<times> json \<times> reject_error option" where
  "execute_group_with_metrics st grp payload sx =
     (case sx_collect st (map (spawn_hook (sx_view sx) (hg_timeout grp) payload) (hg_hooks grp)) (sx_metrics sx) (sx_module_contexts sx) payload
             \<lparr>go_invocation_results = [], go_execution_time = 0\<rparr> of
        (ms, ctxs, payload', go, rej) \<Rightarrow> (sx\<lparr>sx_metrics := ms, sx_module_contexts := ctxs\<rparr>, go, payload', rej))"

fun run_groups ::
  "stage \<Rightarrow> hook_group list \<Rightarrow> json \<Rightarrow> stage_outcome \<Rightarrow> stage_executor \<Rightarrow> stage_executor \<times> (reject_error, json \<times> stage_outcome) res" where
  "run_groups st [] payload so sx = (sx, Inr (payload, so))"
| "run_groups st (g # gs) payload so sx =
     (case execute_group_with_metrics st g payload sx of
        (sx, go, payload', rej) \<Rightarrow>
          (let so = so\<lparr>so_execution_time := so_execution_time so + go_execution_time go, so_groups := so_groups so @ [go]\<rparr>
           in case rej of
                Some r \<Rightarrow> (sx, Inl r)
              | None \<Rightarrow> run_groups st gs payload' so sx))"

definition sx_run_stage :: "stage \<Rightarrow> json \<Rightarrow> stage_executor \<Rightarrow> stage_executor \<times> (reject_error, json \<times> stage_outcome) res" where
  "sx_run_stage st payload sx =
     (let plan = plan_for_stage (sx_plan_builder sx) st (sx_endpoint sx);
          so = \<lparr>so_stage = stage_as_str st, so_entity = [], so_groups = [], so_execution_time = 0\<rparr>
      in if plan = [] then (sx, Inr (payload, so)) else run_groups st plan payload so sx)"

definition sx_push_outcome :: "stage_outcome \<Rightarrow> stage_executor \<Rightarrow> stage_executor" where
  "sx_push_outcome so sx = sx\<lparr>sx_stage_outcomes := sx_stage_outcomes sx @ [so]\<rparr>"

text \<open>The common body of the stages with rejection, and of those without.\<close>

definition rejectable_stage :: "stage \<Rightarrow> string \<Rightarrow> json \<Rightarrow> stage_executor \<Rightarrow> stage_executor \<times> (reject_error, json) res" where
  "rejectable_stage st ent payload sx =
     (case sx_run_stage st payload sx of
        (sx, Inl r) \<Rightarrow> (sx, Inl r)
      | (sx, Inr (payload, outcome)) \<Rightarrow> (sx_push_outcome (outcome\<lparr>so_entity := ent\<rparr>) sx, Inr payload))"

definition final_stage :: "stage \<Rightarrow> string \<Rightarrow> json \<Rightarrow> stage_executor \<Rightarrow> stage_executor \<times> json" where
  "final_stage st ent response sx =
     (case sx_run_stage st response sx of
        (sx, Inr (payload, outcome)) \<Rightarrow> (sx_push_outcome (outcome\<lparr>so_entity := ent\<rparr>) sx, payload)
      | (sx, Inl _) \<Rightarrow> (sx, response))"

definition with_bidder :: "string \<Rightarrow> json \<Rightarrow> json" where
  "with_bidder bidder payload =
     (case payload of
        JObj m \<Rightarrow> JObj (case map_of m ''__bidder'' of Some _ \<Rightarrow> m | None \<Rightarrow> bt_insert ''__bidder'' (JStr bidder) m)
      | _ \<Rightarrow> payload)"

definition execute_entrypoint_stage :: "json \<Rightarrow> stage_executor \<Rightarrow> stage_executor \<times> (reject_error, json) res" where
  "execute_entrypoint_stage body sx = rejectable_stage EntrypointRaw (entity_as_str EntHttpRequest) body sx"

definition execute_raw_auction_stage :: "json \<Rightarrow> stage_executor \<Rightarrow> stage_executor \<times> (reject_error, json) res" where
  "execute_raw_auction_stage body sx = rejectable_stage RawAuctionRequest (entity_as_str EntAuctionRequest) body sx"

definition execute_processed_auction_stage :: "json \<Rightarrow> stage_executor \<Rightarrow> stage_executor \<times> (reject_error, json) res" where
  "execute_processed_auction_stage request sx = rejectable_stage ProcessedAuctionRequest (entity_as_str EntAuctionRequest) request sx"

definition execute_bidder_request_stage :: "json \<Rightarrow> string \<Rightarrow> stage_executor \<Rightarrow> stage_executor \<times> (reject_error, json) res" where
  "execute_bidder_request_stage request bidder sx =
     rejectable_stage BidderRequest (entity_as_str EntAuctionRequest) (with_bidder bidder request) sx"

definition execute_raw_bidder_response_stage :: "json \<Rightarrow> string \<Rightarrow> stage_executor \<Rightarrow> stage_executor \<times> (reject_error, json) res" where
  "execute_raw_bidder_response_stage response bidder sx =
     rejectable_stage RawBidderResponse (entity_as_str EntAuctionRequest) (with_bidder bidder response) sx"

definition execute_all_processed_bid_responses_stage :: "json \<Rightarrow> stage_executor \<Rightarrow> stage_executor \<times> json" where
  "execute_all_processed_bid_responses_stage responses sx =
     final_stage AllProcessedBidResponses (entity_as_str EntAllProcessedBidResponses) responses sx"

definition execute_auction_response_stage :: "json \<Rightarrow> stage_executor \<Rightarrow> stage_executor \<times> json" where
  "execute_auction_response_stage response sx = final_stage AuctionResponse (entity_as_str EntAuctionResponse) response sx"

definition execute_exitpoint_stage :: "json \<Rightarrow> stage_executor \<Rightarrow> stage_executor \<times> json" where
  "execute_exitpoint_stage response sx = final_stage AuctionResponse ''exitpoint'' response sx"

section \<open>Lemmas\<close>

text \<open>The two executors differ in the debug messages they keep.\<close>

definition no_debug :: "hook_outcome \<Rightarrow> hook_outcome" where
  "no_debug ho = ho\<lparr>ho_debug_messages := []\<rparr>"

definition strip_group :: "group_outcome \<Rightarrow> group_outcome" where
  "strip_group go = go\<lparr>go_invocation_results := map no_debug (go_invocation_results go)\<rparr>"

definition strip_stage :: "stage_outcome \<Rightarrow> stage_outcome" where
  "strip_stage so = so\<lparr>so_groups := map strip_group (so_groups so)\<rparr>"

text \<open>The events that belong to an outcome.\<close>

definition kind_of :: "hook_outcome \<Rightarrow> metric_kind" where
  "kind_of ho =
     (case ho_status ho of
        InvTimeout \<Rightarrow> McTimeout
      | InvFailure \<Rightarrow> McFailed
      | _ \<Rightarrow> (case ho_action ho of
                ActReject \<Rightarrow> McReject
              | ActUpdate \<Rightarrow> McUpdate
              | ActNone \<Rightarrow> if ho_status ho = InvSuccess then McNoop else McExecutionError))"

definition events_of :: "stage \<Rightarrow> hook_outcome \<Rightarrow> hook_metric list" where
  "events_of st ho = [McCalled (labels_of st (ho_hook_id ho)) (ho_execution_time ho), McResult (kind_of ho) (labels_of st (ho_hook_id ho))]"

definition group_events :: "stage \<Rightarrow> group_outcome list \<Rightarrow> hook_metric list" where
  "group_events st gs = concat (map (events_of st) (concat (map go_invocation_results gs)))"

lemma sx_mutations_agree: "\<exists>ds'. apply_mutations mus p n ws ds = (case sx_mutations mus p n ws of (p', n', ws') \<Rightarrow> (p', n', ws', ds'))"
  by (induction mus p n ws arbitrary: ds rule: sx_mutations.induct) (auto split: sum.split)

lemma outcome_of_simps [simp]:
  "ho_hook_id (outcome_of i s a r e) = i" "ho_status (outcome_of i s a r e) = s" "ho_action (outcome_of i s a r e) = a"
  "ho_execution_time (outcome_of i s a r e) = e"
  by (simp_all add: outcome_of_def)

lemma sx_handle_agree:
  "\<exists>k c' p' ho ho' rj. sx_handle_result st ident result el c p = (k, c', p', ho, rj) \<and> handle_result st ident result el c p = (c', p', ho', rj)
     \<and> no_debug ho = no_debug ho' \<and> events_of st ho' = [McCalled (labels_of st ident) el, McResult k (labels_of st ident)]"
proof (cases result)
  case (Inr r)
  obtain p' n' ws' where sm: "sx_mutations (hr_change_set r) p 0 (hr_warnings r) = (p', n', ws')"
    by (metis prod_cases3)
  obtain ds' where am: "apply_mutations (hr_change_set r) p 0 (hr_warnings r) (hr_debug_messages r) = (p', n', ws', ds')"
    using sx_mutations_agree [of "hr_change_set r" p 0 "hr_warnings r" "hr_debug_messages r"] sm by auto
  show ?thesis
    unfolding sx_handle_result_def handle_result_def Inr sum.case Let_def sm am prod.case
    by (simp add: no_debug_def events_of_def kind_of_def)
next
  case (Inl e)
  then show ?thesis
    by (simp add: sx_handle_result_def handle_result_def no_debug_def events_of_def kind_of_def split: hook_error.split)
qed

lemma sx_collect_agree:
  "strip_group go = strip_group go' \<Longrightarrow>
   \<exists>c' p' g g' rj os. sx_collect st hs ms c p go = (ms @ concat (map (events_of st) os), c', p', g, rj) \<and> collect_hooks st hs c p go' = (c', p', g', rj)
     \<and> strip_group g = strip_group g' \<and> go_invocation_results g' = go_invocation_results go' @ os"
proof (induction hs arbitrary: ms c p go go')
  case (Cons h hs)
  show ?case
  proof (cases h)
    case (Some run)
    obtain ident result el where run: "run = (ident, result, el)" by (metis prod_cases3)
    obtain k c1 p1 ho ho' rj where one: "sx_handle_result st ident result el c p = (k, c1, p1, ho, rj)" "handle_result st ident result el c p = (c1, p1, ho', rj)"
      "no_debug ho = no_debug ho'" "events_of st ho' = [McCalled (labels_of st ident) el, McResult k (labels_of st ident)]"
      using sx_handle_agree [of st ident result el c p] by blast
    define add where "add g x = (if go_execution_time g < el then g\<lparr>go_execution_time := el\<rparr> else g)\<lparr>go_invocation_results := go_invocation_results g @ [x]\<rparr>" for g :: group_outcome and x
    have strip: "strip_group (add go ho) = strip_group (add go' ho')"
      using Cons.prems one(3) by (cases go; cases go') (simp add: add_def strip_group_def)
    have inv: "go_invocation_results (add go' ho') = go_invocation_results go' @ [ho']"
      by (simp add: add_def)
    have steps: "sx_collect st (h # hs) ms c p go =
          (if rj \<noteq> None then (ms @ events_of st ho', c1, p1, add go ho, rj) else sx_collect st hs (ms @ events_of st ho') c1 p1 (add go ho))"
        "collect_hooks st (h # hs) c p go' =
          (if rj \<noteq> None then (c1, p1, add go' ho', rj) else collect_hooks st hs c1 p1 (add go' ho'))"
      using one by (simp_all add: Some run add_def Let_def)
    show ?thesis
    proof (cases "rj = None")
      case True
      then show ?thesis
        using Cons.IH [OF strip, of "ms @ events_of st ho'" c1 p1] unfolding steps inv by fastforce
    next
      case False
      then show ?thesis
        unfolding steps using strip inv by (intro exI [of _ c1] exI [of _ p1] exI [of _ "add go ho"] exI [of _ "add go' ho'"] exI [of _ rj] exI [of _ "[ho']"]) simp
    qed
  qed (use Cons in simp)
qed simp

lemma sx_group_agree:
  assumes "sx_view sx = ex"
  shows "\<exists>sx' ex' go go' p' rj. execute_group_with_metrics st grp p sx = (sx', go, p', rj) \<and> execute_group st grp p ex = (ex', go', p', rj)
    \<and> sx_view sx' = ex' \<and> strip_group go = strip_group go' \<and> sx_metrics sx' = sx_metrics sx @ group_events st [go'] \<and> ex_stage_outcomes ex' = ex_stage_outcomes ex"
proof -
  let ?hs = "map (spawn_hook ex (hg_timeout grp) p) (hg_hooks grp)" and ?g = "\<lparr>go_invocation_results = [], go_execution_time = 0\<rparr> :: group_outcome"
  obtain c' p' g g' rj os where col: "sx_collect st ?hs (sx_metrics sx) (sx_module_contexts sx) p ?g = (sx_metrics sx @ concat (map (events_of st) os), c', p', g, rj)"
      "collect_hooks st ?hs (sx_module_contexts sx) p ?g = (c', p', g', rj)" "strip_group g = strip_group g'" "go_invocation_results g' = os"
    using sx_collect_agree [of ?g ?g st ?hs "sx_metrics sx" "sx_module_contexts sx" p] by auto
  have "ex_module_contexts ex = sx_module_contexts sx"
    using assms by (auto simp: sx_view_def)
  then show ?thesis
    using col unfolding execute_group_with_metrics_def execute_group_def assms
    by (auto simp: assms [symmetric] sx_view_def group_events_def)
qed

lemma sx_groups_agree:
  "sx_view sx = ex \<Longrightarrow> strip_stage so = strip_stage so' \<Longrightarrow>
   \<exists>sx' ex' r gs so2 so2'. run_groups st grps p so sx = (sx', r) \<and> execute_groups st grps p so' ex = (ex', (case r of Inl e \<Rightarrow> Inl e | Inr (q, _) \<Rightarrow> Inr q))
     \<and> sx_view sx' = ex'\<lparr>ex_stage_outcomes := ex_stage_outcomes ex\<rparr> \<and> sx_metrics sx' = sx_metrics sx @ group_events st gs
     \<and> ex_stage_outcomes ex' = ex_stage_outcomes ex @ [so2'] \<and> so_groups so2' = so_groups so' @ gs
     \<and> (case r of Inl e \<Rightarrow> True | Inr (_, so2) \<Rightarrow> strip_stage so2 = strip_stage so2')"
proof (induction grps arbitrary: p so so' sx ex)
  case Nil
  then show ?case
    by (auto simp: push_outcome_def sx_view_def group_events_def)
next
  case (Cons g grps)
  obtain sx1 ex1 go go' p1 rj where one: "execute_group_with_metrics st g p sx = (sx1, go, p1, rj)" "execute_group st g p ex = (ex1, go', p1, rj)"
      "sx_view sx1 = ex1" "strip_group go = strip_group go'" "sx_metrics sx1 = sx_metrics sx @ group_events st [go']" "ex_stage_outcomes ex1 = ex_stage_outcomes ex"
    using sx_group_agree [OF Cons.prems(1), of st g p] by blast
  define add where "add s x = s\<lparr>so_execution_time := so_execution_time s + go_execution_time x, so_groups := so_groups s @ [x]\<rparr>"
    for s :: stage_outcome and x :: group_outcome
  have "go_execution_time go = go_execution_time go'"
    using one(4) by (cases go; cases go') (simp add: strip_group_def)
  then have strip: "strip_stage (add so go) = strip_stage (add so' go')"
    using Cons.prems(2) one(4) by (cases so; cases so') (simp add: add_def strip_stage_def)
  have steps: "run_groups st (g # grps) p so sx = (case rj of Some r \<Rightarrow> (sx1, Inl r) | None \<Rightarrow> run_groups st grps p1 (add so go) sx1)"
      "execute_groups st (g # grps) p so' ex =
        (case rj of Some r \<Rightarrow> (push_outcome (add so' go') ex1, Inl r) | None \<Rightarrow> execute_groups st grps p1 (add so' go') ex1)"
    by (simp_all add: one(1,2) add_def Let_def split: option.split)
  have groups: "so_groups (add so' go') = so_groups so' @ [go']"
    by (simp add: add_def)
  show ?case
  proof (cases rj)
    case None
    obtain sx' ex' r gs so2' where IH: "run_groups st grps p1 (add so go) sx1 = (sx', r)"
        "execute_groups st grps p1 (add so' go') ex1 = (ex', (case r of Inl e \<Rightarrow> Inl e | Inr (q, _) \<Rightarrow> Inr q))"
        "sx_view sx' = ex'\<lparr>ex_stage_outcomes := ex_stage_outcomes ex1\<rparr>" "sx_metrics sx' = sx_metrics sx1 @ group_events st gs"
        "ex_stage_outcomes ex' = ex_stage_outcomes ex1 @ [so2']" "so_groups so2' = so_groups (add so' go') @ gs"
        "case r of Inl e \<Rightarrow> True | Inr (_, so2) \<Rightarrow> strip_stage so2 = strip_stage so2'"
      using Cons.IH [OF one(3) strip, of p1] by metis
    then show ?thesis
      unfolding steps None option.case using one(5,6) groups
      by (intro exI [of _ sx'] exI [of _ ex'] exI [of _ r] exI [of _ "go' # gs"] exI [of _ so2']) (simp add: group_events_def)
  next
    case (Some r)
    then show ?thesis
      unfolding steps Some option.case using one(3,5,6) groups
      by (intro exI [of _ sx1] exI [of _ "push_outcome (add so' go') ex1"] exI [of _ "Inl r"] exI [of _ "[go']"] exI [of _ "add so' go'"])
        (simp add: push_outcome_def)
  qed
qed

lemma sx_run_stage_agree:
  "\<exists>sx' ex' r gs. sx_run_stage st p sx = (sx', r) \<and> execute_stage st p (sx_view sx) = (ex', (case r of Inl e \<Rightarrow> Inl e | Inr (q, _) \<Rightarrow> Inr q))
     \<and> sx_view sx' = ex'\<lparr>ex_stage_outcomes := sx_stage_outcomes sx\<rparr> \<and> sx_metrics sx' = sx_metrics sx @ group_events st gs
     \<and> (\<exists>sos. ex_stage_outcomes ex' = sx_stage_outcomes sx @ sos \<and> gs = concat (map so_groups sos)
          \<and> (case r of Inl e \<Rightarrow> sos \<noteq> [] | Inr (_, so) \<Rightarrow> (if sos = [] then so_groups so = [] else [strip_stage so] = map strip_stage sos)))"
proof (cases "plan_for_stage (sx_plan_builder sx) st (sx_endpoint sx) = []")
  case True
  then show ?thesis
    by (simp add: sx_run_stage_def execute_stage_def sx_view_def Let_def group_events_def)
next
  case False
  let ?so = "\<lparr>so_stage = stage_as_str st, so_entity = [], so_groups = [], so_execution_time = 0\<rparr> :: stage_outcome"
  obtain sx' ex' r gs so' where *: "run_groups st (plan_for_stage (sx_plan_builder sx) st (sx_endpoint sx)) p ?so sx = (sx', r)"
      "execute_groups st (plan_for_stage (sx_plan_builder sx) st (sx_endpoint sx)) p ?so (sx_view sx) = (ex', (case r of Inl e \<Rightarrow> Inl e | Inr (q, _) \<Rightarrow> Inr q))"
      "sx_view sx' = ex'\<lparr>ex_stage_outcomes := ex_stage_outcomes (sx_view sx)\<rparr>" "sx_metrics sx' = sx_metrics sx @ group_events st gs"
      "ex_stage_outcomes ex' = ex_stage_outcomes (sx_view sx) @ [so']" "so_groups so' = gs"
      "case r of Inl e \<Rightarrow> True | Inr (_, so2) \<Rightarrow> strip_stage so2 = strip_stage so'"
    using sx_groups_agree [of sx "sx_view sx" ?so ?so st "plan_for_stage (sx_plan_builder sx) st (sx_endpoint sx)" p] by force
  moreover have "ex_plan_builder (sx_view sx) = sx_plan_builder sx" "ex_endpoint (sx_view sx) = sx_endpoint sx" "ex_stage_outcomes (sx_view sx) = sx_stage_outcomes sx"
    by (simp_all add: sx_view_def)
  ultimately show ?thesis
    using False unfolding sx_run_stage_def execute_stage_def Let_def
    by (intro exI [of _ sx'] exI [of _ ex'] exI [of _ r] exI [of _ gs] conjI exI [of _ "[so']"]) (auto split: sum.splits)
qed

lemma not_rejected: "\<not> is_rejectable st \<Longrightarrow> \<exists>q. snd (execute_stage st p ex) = Inr q"
  by (simp add: execute_stage_result rejection_def)

section \<open>Properties\<close>

text \<open>
  Property C29.  The two executors agree: a stage run by this executor gives the payload or the rejection that the executor of \<^verbatim>\<open>hooks.rs\<close> gives from the same state, and
  leaves the same module contexts.  For every hook outcome the other executor lists, exactly one call and one result are recorded, in order, the result by the
  status and action of the outcome.  The outcome pushed after a success is that of the other executor but for entity and debug messages; after a rejection
  nothing is pushed here.
\<close>

theorem stage_executors_agree:
  "let (sx', r) = rejectable_stage st ent payload sx;
       (ex', r') = execute_stage st payload (sx_view sx);
       pushed = drop (length (sx_stage_outcomes sx)) (ex_stage_outcomes ex')
   in r = r' \<and> sx_module_contexts sx' = ex_module_contexts ex'
      \<and> sx_metrics sx' = sx_metrics sx @ group_events st (concat (map so_groups pushed))
      \<and> (case r of
           Inl e \<Rightarrow> sx_stage_outcomes sx' = sx_stage_outcomes sx \<and> pushed \<noteq> []
         | Inr _ \<Rightarrow> \<exists>so. sx_stage_outcomes sx' = sx_stage_outcomes sx @ [so\<lparr>so_entity := ent\<rparr>]
                     \<and> (if pushed = [] then so_groups so = [] else [strip_stage so] = map strip_stage pushed))"
proof -
  obtain sx' ex' r gs sos where *: "sx_run_stage st payload sx = (sx', r)" "execute_stage st payload (sx_view sx) = (ex', (case r of Inl e \<Rightarrow> Inl e | Inr (q, _) \<Rightarrow> Inr q))"
      "sx_view sx' = ex'\<lparr>ex_stage_outcomes := sx_stage_outcomes sx\<rparr>" "sx_metrics sx' = sx_metrics sx @ group_events st gs"
      "ex_stage_outcomes ex' = sx_stage_outcomes sx @ sos" "gs = concat (map so_groups sos)"
      "case r of Inl e \<Rightarrow> sos \<noteq> [] | Inr (_, so) \<Rightarrow> (if sos = [] then so_groups so = [] else [strip_stage so] = map strip_stage sos)"
    using sx_run_stage_agree [of st payload sx] by blast
  have view: "sx_module_contexts sx' = ex_module_contexts ex'" "sx_stage_outcomes sx' = sx_stage_outcomes sx"
    using arg_cong [OF *(3), of ex_module_contexts] arg_cong [OF *(3), of ex_stage_outcomes] by (simp_all add: sx_view_def)
  show ?thesis
  proof (cases r)
    case (Inl e)
    then show ?thesis
      using * view by (simp add: rejectable_stage_def)
  next
    case (Inr qs)
    then show ?thesis
      using * view by (cases qs) (auto simp: rejectable_stage_def sx_push_outcome_def)
  qed
qed

text \<open>The stages without rejection: the answer is the payload after the change sets, so the branch for a rejection is never taken.\<close>

lemma final_stage_agrees:
  assumes "\<not> is_rejectable st"
  shows "Inr (snd (final_stage st ent payload sx)) = snd (execute_stage st payload (sx_view sx))"
    "fst (final_stage st ent payload sx) = fst (rejectable_stage st ent payload sx)"
proof -
  obtain sx' ex' r where *: "sx_run_stage st payload sx = (sx', r)" "execute_stage st payload (sx_view sx) = (ex', (case r of Inl e \<Rightarrow> Inl e | Inr (q, _) \<Rightarrow> Inr q))"
    using sx_run_stage_agree [of st payload sx] by blast
  moreover obtain q where "snd (execute_stage st payload (sx_view sx)) = Inr q"
    using not_rejected [OF assms] by blast
  ultimately show "Inr (snd (final_stage st ent payload sx)) = snd (execute_stage st payload (sx_view sx))"
    "fst (final_stage st ent payload sx) = fst (rejectable_stage st ent payload sx)"
    by (auto simp: final_stage_def rejectable_stage_def split: sum.splits prod.splits)
qed

text \<open>A change set none of whose mutations applies is recorded as a successful update.\<close>

lemma failed_update_counts_as_success:
  assumes "\<not> hr_reject r" "hr_change_set r = [mu]" "mut_apply mu p = Inl e"
  shows "fst (sx_handle_result st ident (Inr r) el c p) = McUpdate
    \<and> ho_status (fst (snd (snd (snd (sx_handle_result st ident (Inr r) el c p))))) = InvExecutionFailure"
  using assms by (simp add: sx_handle_result_def)

end
