(* ===== verification/ImpCheck.thy ===== *)
theory ImpCheck
  imports Validation ExPrivacy
begin

text \<open>
  The standard validator of single impressions, \<^verbatim>\<open>rust/crates/exchange/src/request_validator.rs\<close>.  A function of the source is a chain of conditions with early
  returns; here it is the list of its conditions with their messages, of which the first that holds is reported.
\<close>

section \<open>Checks\<close>

record validation_config =
  vc_skip_bidder_params :: bool
  vc_skip_native :: bool

fun first_failure :: "(bool \<times> string) list \<Rightarrow> (string, unit) res" where
  "first_failure [] = Inr ()"
| "first_failure ((failed, message) # checks) = (if failed then Inl message else first_failure checks)"

definition negative :: "int option \<Rightarrow> bool" where
  "negative v = (case v of Some x \<Rightarrow> x < 0 | None \<Rightarrow> False)"

definition at_imp :: "nat \<Rightarrow> string \<Rightarrow> string" where
  "at_imp imp_index rest = ''request.imp['' @ show_nat imp_index @ '']'' @ rest"

definition at_format :: "nat \<Rightarrow> nat \<Rightarrow> string \<Rightarrow> string" where
  "at_format imp_index format_index rest = ''Request imp['' @ show_nat imp_index @ ''].banner.format['' @ show_nat format_index @ '']'' @ rest"

definition must_be_positive :: "string \<Rightarrow> string" where
  "must_be_positive field = field @ '' must be a positive number''"

definition std_validate_format :: "banner_format \<Rightarrow> nat \<Rightarrow> nat \<Rightarrow> (string, unit) res" where
  "std_validate_format fmt imp_index format_index =
     (let w = unwrap_or 0 (format_w fmt); h = unwrap_or 0 (format_h fmt);
          wratio = unwrap_or 0 (format_wratio fmt); hratio = unwrap_or 0 (format_hratio fmt); wmin = unwrap_or 0 (format_wmin fmt);
          uses_hw = (w \<noteq> 0 \<or> h \<noteq> 0);
          uses_ratios = (wmin \<noteq> 0 \<or> wratio \<noteq> 0 \<or> hratio \<noteq> 0);
          at_field = (\<lambda>f. at_imp imp_index (''.banner.format['' @ show_nat format_index @ '']'' @ must_be_positive f))
      in first_failure
           [(w < 0, at_field ''.w''), (h < 0, at_field ''.h''), (wratio < 0, at_field ''.wratio''), (hratio < 0, at_field ''.hratio''), (wmin < 0, at_field ''.wmin''),
            (uses_hw \<and> uses_ratios,
             at_format imp_index format_index '' should define *either* {w, h} *or* {wmin, wratio, hratio}, but not both. If both are valid, send two \"format\" objects in the request.''),
            (\<not> uses_hw \<and> \<not> uses_ratios,
             at_format imp_index format_index '' should define *either* {w, h} (for static size requirements) *or* {wmin, wratio, hratio} (for flexible sizes) to be non-zero.''),
            (uses_hw \<and> (w = 0 \<or> h = 0), at_format imp_index format_index '' must define non-zero \"h\" and \"w\" properties.''),
            (uses_ratios \<and> (wmin = 0 \<or> wratio = 0 \<or> hratio = 0),
             at_format imp_index format_index '' must define non-zero \"wmin\", \"wratio\", and \"hratio\" properties.'')])"

fun std_validate_formats :: "banner_format list \<Rightarrow> nat \<Rightarrow> nat \<Rightarrow> (string, unit) res" where
  "std_validate_formats [] imp_index i = Inr ()"
| "std_validate_formats (fmt # fs) imp_index i =
     (case std_validate_format fmt imp_index i of Inl e \<Rightarrow> Inl e | Inr _ \<Rightarrow> std_validate_formats fs imp_index (i + 1))"

definition unsupported :: "nat \<Rightarrow> string \<Rightarrow> string" where
  "unsupported imp_index property =
     at_imp imp_index (''.banner uses unsupported property: \"'' @ property @ ''\". Use the \"format\" array instead.'')"

definition std_validate_banner :: "banner \<Rightarrow> nat \<Rightarrow> bool \<Rightarrow> (string, unit) res" where
  "std_validate_banner b imp_index is_interstitial =
     (let has_root_size = (case (banner_w b, banner_h b) of (Some w, Some h) \<Rightarrow> w > 0 \<and> h > 0 | _ \<Rightarrow> False);
          formats = unwrap_or [] (banner_format b)
      in case first_failure
           [(negative (banner_w b), at_imp imp_index (must_be_positive ''.banner.w'')),
            (negative (banner_h b), at_imp imp_index (must_be_positive ''.banner.h'')),
            (unwrap_or 0 (banner_wmin b) \<noteq> 0, unsupported imp_index ''wmin''),
            (unwrap_or 0 (banner_wmax b) \<noteq> 0, unsupported imp_index ''wmax''),
            (unwrap_or 0 (banner_hmin b) \<noteq> 0, unsupported imp_index ''hmin''),
            (unwrap_or 0 (banner_hmax b) \<noteq> 0, unsupported imp_index ''hmax''),
            (\<not> has_root_size \<and> formats = [] \<and> \<not> is_interstitial,
             at_imp imp_index ''.banner has no sizes. Define \"w\" and \"h\", or include \"format\" elements.'')] of
           Inl e \<Rightarrow> Inl e
         | Inr _ \<Rightarrow> std_validate_formats formats imp_index 0)"

definition std_validate_video :: "video \<Rightarrow> nat \<Rightarrow> (string, unit) res" where
  "std_validate_video v imp_index =
     first_failure
       [(\<not> opt_list_nonempty (video_mimes v), at_imp imp_index ''.video.mimes must contain at least one supported MIME type''),
        (negative (video_w v), at_imp imp_index (must_be_positive ''.video.w'')),
        (negative (video_h v), at_imp imp_index (must_be_positive ''.video.h'')),
        (negative (video_minbitrate v), at_imp imp_index (must_be_positive ''.video.minbitrate'')),
        (negative (video_maxbitrate v), at_imp imp_index (must_be_positive ''.video.maxbitrate''))]"

definition std_validate_audio :: "audio \<Rightarrow> nat \<Rightarrow> (string, unit) res" where
  "std_validate_audio a imp_index =
     first_failure
       [(\<not> opt_list_nonempty (audio_mimes a), at_imp imp_index ''.audio.mimes must contain at least one supported MIME type''),
        (negative (audio_sequence a), at_imp imp_index (must_be_positive ''.audio.sequence'')),
        (negative (audio_maxseq a), at_imp imp_index (must_be_positive ''.audio.maxseq'')),
        (negative (audio_minbitrate a), at_imp imp_index (must_be_positive ''.audio.minbitrate'')),
        (negative (audio_maxbitrate a), at_imp imp_index (must_be_positive ''.audio.maxbitrate''))]"

fun std_validate_deals :: "deal list \<Rightarrow> nat \<Rightarrow> nat \<Rightarrow> (string, unit) res" where
  "std_validate_deals [] imp_index i = Inr ()"
| "std_validate_deals (d # ds) imp_index i =
     (if deal_id d = [] then Inl (at_imp imp_index (''.pmp.deals['' @ show_nat i @ ''] missing required field: \"id\"''))
      else std_validate_deals ds imp_index (i + 1))"

definition std_validate_pmp :: "pmp \<Rightarrow> nat \<Rightarrow> (string, unit) res" where
  "std_validate_pmp p imp_index = std_validate_deals (pmp_deals p) imp_index 0"

definition fill_and_validate_native :: "nat \<Rightarrow> (string, unit) res" where
  "fill_and_validate_native imp_index = Inr ()"

definition validate_imp_ext_placeholder :: "imp \<Rightarrow> nat \<Rightarrow> string list" where
  "validate_imp_ext_placeholder i imp_index = []"

text \<open>The sub-objects in their order, up to the first error.\<close>

fun first_error_of :: "(string, unit) res list \<Rightarrow> string list" where
  "first_error_of [] = []"
| "first_error_of (Inl e # rs) = [e]"
| "first_error_of (Inr _ # rs) = first_error_of rs"

definition checked :: "('a \<Rightarrow> (string, unit) res) \<Rightarrow> 'a option \<Rightarrow> (string, unit) res" where
  "checked f x = (case x of Some v \<Rightarrow> f v | None \<Rightarrow> Inr ())"

definition std_validate_imp :: "imp \<Rightarrow> validation_config \<Rightarrow> nat \<Rightarrow> string list" where
  "std_validate_imp i cfg imp_index =
     (let sub_errors = first_error_of
            [first_failure
               [(imp_id i = [], at_imp imp_index '' missing required field: \"id\"''),
                (opt_list_nonempty (imp_metric i), at_imp imp_index ''.metric is not yet supported by prebid-server. Support may be added in the future''),
                (imp_banner i = None \<and> imp_video i = None \<and> imp_audio i = None \<and> imp_native i = None,
                 at_imp imp_index '' must contain at least one of \"banner\", \"video\", \"audio\", or \"native\"'')],
             checked (\<lambda>b. std_validate_banner b imp_index (imp_instl i = Some 1)) (imp_banner i),
             checked (\<lambda>v. std_validate_video v imp_index) (imp_video i),
             checked (\<lambda>a. std_validate_audio a imp_index) (imp_audio i),
             (if \<not> vc_skip_native cfg then checked (\<lambda>_. fill_and_validate_native imp_index) (imp_native i) else Inr ()),
             checked (\<lambda>p. std_validate_pmp p imp_index) (imp_pmp i)]
      in if sub_errors \<noteq> [] then sub_errors else validate_imp_ext_placeholder i imp_index)"

section \<open>What an accepted impression is\<close>

definition dim :: "int option \<Rightarrow> int" where
  "dim v = (case v of Some x \<Rightarrow> x | None \<Rightarrow> 0)"

text \<open>A format is a fixed size or a flexible one, and not both.\<close>

definition format_ok :: "banner_format \<Rightarrow> bool" where
  "format_ok f =
     (let fixed = [dim (format_w f), dim (format_h f)]; flexible = [dim (format_wmin f), dim (format_wratio f), dim (format_hratio f)]
      in list_all (\<lambda>x. 0 < x) fixed \<and> list_all (\<lambda>x. x = 0) flexible \<or> list_all (\<lambda>x. x = 0) fixed \<and> list_all (\<lambda>x. 0 < x) flexible)"

definition banner_ok :: "bool \<Rightarrow> banner \<Rightarrow> bool" where
  "banner_ok instl b =
     (list_all (\<lambda>x. 0 \<le> x) [dim (banner_w b), dim (banner_h b)]
      \<and> list_all (\<lambda>x. dim x = 0) [banner_wmin b, banner_wmax b, banner_hmin b, banner_hmax b]
      \<and> (instl \<or> 0 < dim (banner_w b) \<and> 0 < dim (banner_h b) \<or> opt_list_nonempty (banner_format b))
      \<and> list_all format_ok (unwrap_or [] (banner_format b)))"

definition imp_ok :: "imp \<Rightarrow> bool" where
  "imp_ok i =
     (imp_id i \<noteq> [] \<and> has_media i \<and> \<not> opt_list_nonempty (imp_metric i)
      \<and> pred_option (banner_ok (imp_instl i = Some 1)) (imp_banner i)
      \<and> pred_option (\<lambda>v. opt_list_nonempty (video_mimes v)
            \<and> list_all (\<lambda>x. 0 \<le> dim x) [video_w v, video_h v, video_minbitrate v, video_maxbitrate v]) (imp_video i)
      \<and> pred_option (\<lambda>a. opt_list_nonempty (audio_mimes a)
            \<and> list_all (\<lambda>x. 0 \<le> dim x) [audio_sequence a, audio_maxseq a, audio_minbitrate a, audio_maxbitrate a]) (imp_audio i)
      \<and> pred_option (\<lambda>p. list_all (\<lambda>d. deal_id d \<noteq> []) (pmp_deals p)) (imp_pmp i))"

section \<open>Lemmas\<close>

lemma first_failure_ok: "first_failure cs = Inr u \<longleftrightarrow> list_all (\<lambda>c. \<not> fst c) cs"
  by (induction cs rule: first_failure.induct) auto

lemma first_error_of_empty: "first_error_of rs = [] \<longleftrightarrow> list_all is_ok rs"
  by (induction rs rule: first_error_of.induct) (auto simp: is_ok_def)

lemma first_error_of_short: "length (first_error_of rs) \<le> 1"
  by (induction rs rule: first_error_of.induct) auto

lemma unwrap_dim: "unwrap_or 0 x = dim x"
  by (simp add: unwrap_or_def dim_def)

lemma negative_dim: "negative x \<longleftrightarrow> dim x < 0"
  by (simp add: negative_def dim_def split: option.split)

lemma std_validate_format_ok: "is_ok (std_validate_format f i k) \<longleftrightarrow> format_ok f"
  by (auto simp: std_validate_format_def Let_def is_ok_def format_ok_def unwrap_dim)

lemma std_validate_formats_ok: "is_ok (std_validate_formats fs i k) \<longleftrightarrow> list_all format_ok fs"
proof (induction fs i k rule: std_validate_formats.induct)
  case (2 f fs i k)
  then show ?case
    using std_validate_format_ok [of f i k] by (auto simp: is_ok_def split: sum.splits)
qed (simp add: is_ok_def)

lemma std_validate_deals_ok: "is_ok (std_validate_deals ds i k) \<longleftrightarrow> list_all (\<lambda>d. deal_id d \<noteq> []) ds"
  by (induction ds i k rule: std_validate_deals.induct) (auto simp: is_ok_def)

lemma std_validate_banner_ok: "is_ok (std_validate_banner b i instl) \<longleftrightarrow> banner_ok instl b"
proof -
  have root: "(case (banner_w b, banner_h b) of (Some w, Some h) \<Rightarrow> w > 0 \<and> h > 0 | _ \<Rightarrow> False) \<longleftrightarrow> 0 < dim (banner_w b) \<and> 0 < dim (banner_h b)"
    by (simp add: dim_def split: option.split)
  have formats: "unwrap_or [] (banner_format b) = [] \<longleftrightarrow> \<not> opt_list_nonempty (banner_format b)"
    by (simp add: unwrap_or_def opt_list_nonempty_def split: option.split)
  show ?thesis
    unfolding std_validate_banner_def Let_def root formats banner_ok_def
    by (auto simp: negative_dim unwrap_dim std_validate_formats_ok)
qed

lemma checked_ok: "is_ok (checked f x) \<longleftrightarrow> pred_option (\<lambda>v. is_ok (f v)) x"
  by (simp add: checked_def split: option.split)

lemma std_validate_video_ok:
  "is_ok (std_validate_video v i) \<longleftrightarrow>
     opt_list_nonempty (video_mimes v) \<and> list_all (\<lambda>x. 0 \<le> dim x) [video_w v, video_h v, video_minbitrate v, video_maxbitrate v]"
  by (auto simp: std_validate_video_def negative_dim)

lemma std_validate_audio_ok:
  "is_ok (std_validate_audio a i) \<longleftrightarrow>
     opt_list_nonempty (audio_mimes a) \<and> list_all (\<lambda>x. 0 \<le> dim x) [audio_sequence a, audio_maxseq a, audio_minbitrate a, audio_maxbitrate a]"
  by (auto simp: std_validate_audio_def negative_dim)

lemma no_native_check: "(if \<not> vc_skip_native c then checked (\<lambda>_. fill_and_validate_native k) (imp_native i) else Inr ()) = Inr ()"
  by (simp add: checked_def fill_and_validate_native_def split: option.split)

lemma std_validate_imp_ok: "std_validate_imp i cfg k = [] \<longleftrightarrow> imp_ok i"
  unfolding std_validate_imp_def no_native_check Let_def validate_imp_ext_placeholder_def
  by (auto simp: first_error_of_empty checked_ok std_validate_banner_ok std_validate_video_ok std_validate_audio_ok std_validate_pmp_def
      std_validate_deals_ok imp_ok_def has_media_def)

section \<open>Properties\<close>

text \<open>
  Property C30.  The standard validator accepts an impression exactly when it has an id and a medium, no metrics, sizes that are not negative, for a banner that is not interstitial a size of
  its own or formats, every format either fixed or flexible, MIME types for video and audio, and an id for every deal; otherwise it
  reports exactly one error.  The configuration makes no difference.
\<close>

theorem imp_check_spec:
  "(std_validate_imp i cfg k = [] \<longleftrightarrow> imp_ok i) \<and> length (std_validate_imp i cfg k) \<le> 1 \<and> std_validate_imp i cfg k = std_validate_imp i cfg' k"
  using std_validate_imp_ok [of i cfg k] first_error_of_short
  unfolding std_validate_imp_def no_native_check Let_def validate_imp_ext_placeholder_def by simp

text \<open>An accepted impression can only fail the validation of the auction by its floor.\<close>

lemma accepted_passes_auction_check:
  assumes "std_validate_imp i cfg k = []" "imp_bidfloor i = None"
  shows "validate_imp k i = []"
  using assms std_validate_imp_ok [of i cfg k] by (simp add: validate_imp_def push_if_def imp_ok_def)

end
