(* ===== verification/ExUtils.thy ===== *)
theory ExUtils
  imports Fanout
begin

text \<open>
  Utility functions of the exchange, \<^verbatim>\<open>rust/crates/exchange/src/exchange_utils.rs\<close>: a third splitting of impressions, permissions on user ids, privacy
  scrubbing by signals, multi-bid configuration and other reads of the request extension.  Lower-casing is an argument.
\<close>

section \<open>Bidders of a request\<close>

definition xu_bidders :: "json \<Rightarrow> string list" where
  "xu_bidders ext =
     (case jget ext ''prebid'' of
        Some prebid \<Rightarrow> (case Option.bind (jget prebid ''bidder'') as_object of Some m \<Rightarrow> map fst m | None \<Rightarrow> [])
      | None \<Rightarrow>
          (case as_object ext of
             Some m \<Rightarrow> filter (\<lambda>k. k \<noteq> ''prebid'' \<and> k \<noteq> ''context'' \<and> k \<noteq> ''data'') (map fst m)
           | None \<Rightarrow> []))"

definition resolve_bidder :: "string \<Rightarrow> (string \<times> string) list \<Rightarrow> string \<times> bool" where
  "resolve_bidder bidder aliases = (case map_of aliases bidder of Some core \<Rightarrow> (core, True) | None \<Rightarrow> (bidder, False))"

fun xu_split_from :: "nat \<Rightarrow> imp list \<Rightarrow> (string \<times> imp list) list \<Rightarrow> (string, (string \<times> imp list) list) res" where
  "xu_split_from i [] acc = Inr acc"
| "xu_split_from i (x # xs) acc =
     (case imp_jext x of
        None \<Rightarrow> Inl (''request.imp['' @ show_nat i @ ''].ext is required'')
      | Some ext \<Rightarrow>
          if xu_bidders ext = [] then Inl (''request.imp['' @ show_nat i @ ''].ext.prebid.bidder must contain at least one bidder'')
          else xu_split_from (i + 1) xs (fold (\<lambda>bidder_name. push_imp bidder_name x) (xu_bidders ext) acc))"

text \<open>The resolved alias is computed and not used.\<close>

definition xu_split_imps :: "imp list \<Rightarrow> (string \<times> string) list \<Rightarrow> (string, (string \<times> imp list) list) res" where
  "xu_split_imps imps aliases = xu_split_from 0 imps []"

definition xu_string_map :: "json option \<Rightarrow> (string \<times> string) list" where
  "xu_string_map v =
     (case Option.bind v as_object of
        None \<Rightarrow> []
      | Some m \<Rightarrow> fold (\<lambda>(k, x) acc. case as_str x of Some s \<Rightarrow> hm_insert k s acc | None \<Rightarrow> acc) m [])"

definition xu_extract_buyer_uids :: "bid_request \<Rightarrow> (string \<times> string) list" where
  "xu_extract_buyer_uids req = xu_string_map (jpath (Option.bind (req_user req) user_jext) [''prebid'', ''buyeruids''])"

definition extract_req_ext_bidder_params :: "bid_request \<Rightarrow> (string \<times> json) list" where
  "extract_req_ext_bidder_params req =
     (case Option.bind (jpath (req_jext req) [''prebid'', ''bidderparams'']) as_object of
        None \<Rightarrow> []
      | Some m \<Rightarrow> fold (\<lambda>(bidder, v). hm_insert bidder v) m [])"

definition xu_get_request_aliases :: "bid_request \<Rightarrow> (string \<times> string) list \<times> (string \<times> nat) list" where
  "xu_get_request_aliases req =
     (xu_string_map (jpath (req_jext req) [''prebid'', ''aliases'']),
      case Option.bind (jpath (req_jext req) [''prebid'', ''aliasgvlids'']) as_object of
        None \<Rightarrow> []
      | Some m \<Rightarrow> fold (\<lambda>(alias, gvl_id) acc. case as_u64 gvl_id of Some i \<Rightarrow> hm_insert alias (i mod 2 ^ 16) acc | None \<Rightarrow> acc) m [])"

definition is_potential_bidder_field :: "string \<Rightarrow> bool" where
  "is_potential_bidder_field key = (key \<notin> {''prebid'', ''context'', ''data'', ''skadn'', ''gpid'', ''tid'', ''ae''})"

fun get_media_type_for_bid :: "string \<Rightarrow> imp list \<Rightarrow> string option" where
  "get_media_type_for_bid impid [] = None"
| "get_media_type_for_bid impid (i # is) =
     (if imp_id i = impid
      then if imp_banner i \<noteq> None then Some ''banner''
           else if imp_video i \<noteq> None then Some ''video''
           else if imp_native i \<noteq> None then Some ''native''
           else if imp_audio i \<noteq> None then Some ''audio''
           else get_media_type_for_bid impid is
      else get_media_type_for_bid impid is)"

section \<open>Permissions on user ids\<close>

fun eid_permitted :: "json list \<Rightarrow> string \<Rightarrow> string \<Rightarrow> bool" where
  "eid_permitted [] src bidder = True"
| "eid_permitted (perm # perms) src bidder =
     (if unwrap_or [] (Option.bind (jget perm ''source'') as_str) \<noteq> src then eid_permitted perms src bidder
      else let bidders = (case Option.bind (jget perm ''bidders'') as_array of Some arr \<Rightarrow> List.map_filter as_str arr | None \<Rightarrow> [])
           in if bidders = [] then True else list_ex (\<lambda>b. b = ''*'' \<or> b = bidder) bidders)"

definition eid_kept :: "json list \<Rightarrow> string \<Rightarrow> eid \<Rightarrow> bool" where
  "eid_kept permissions bidder e =
     (let src = unwrap_or [] (eid_source e) in if src = [] then True else eid_permitted permissions src bidder)"

definition remove_unpermissioned_eids :: "bid_request \<Rightarrow> string \<Rightarrow> bid_request" where
  "remove_unpermissioned_eids req bidder =
     (case Option.bind (jpath (req_jext req) [''prebid'', ''data'', ''eidpermissions'']) as_array of
        Some permissions \<Rightarrow>
          if permissions = [] then req
          else req\<lparr>req_user := map_option (\<lambda>u. u\<lparr>user_eids := map_option (filter (eid_kept permissions bidder)) (user_eids u)\<rparr>) (req_user req)\<rparr>
      | None \<Rightarrow> req)"

definition make_hb_size :: "int \<Rightarrow> int \<Rightarrow> string" where
  "make_hb_size w h = (if w \<noteq> 0 \<and> h \<noteq> 0 then show_int w @ ''x'' @ show_int h else [])"

definition fpd_user_eid_exists :: "bid_request \<Rightarrow> (string \<times> json) list option \<Rightarrow> string \<Rightarrow> bool" where
  "fpd_user_eid_exists req fpd bidder =
     (case Option.bind (jpath (Option.bind fpd (\<lambda>m. map_of m bidder)) [''user'', ''eids'']) as_array of
        Some arr \<Rightarrow> arr \<noteq> []
      | None \<Rightarrow> (case Option.bind (req_user req) user_eids of Some eids \<Rightarrow> eids \<noteq> [] | None \<Rightarrow> False))"

section \<open>Privacy\<close>

record privacy_enforcement =
  pe_ccpa :: bool
  pe_coppa :: bool
  pe_lmt :: bool
  pe_gdpr_applies :: bool
  pe_gdpr_consent :: "string option"

definition no_consent :: "privacy_enforcement \<Rightarrow> bool" where
  "no_consent pe = (case pe_gdpr_consent pe of None \<Rightarrow> True | Some c \<Rightarrow> c = [])"

definition is_bidder_blocked_by_privacy :: "privacy_enforcement \<Rightarrow> string \<Rightarrow> bool" where
  "is_bidder_blocked_by_privacy pe bidder = (pe_coppa pe \<and> pe_gdpr_applies pe \<and> no_consent pe)"

definition xu_scrub_device :: "bool \<Rightarrow> bid_request \<Rightarrow> bid_request" where
  "xu_scrub_device full req =
     on_device (\<lambda>d. let d = d\<lparr>device_ifa := None, device_macsha1 := None, device_macmd5 := None, device_dpidsha1 := None, device_dpidmd5 := None,
                                device_didsha1 := None, device_didmd5 := None, device_ip := None, device_ipv6 := None\<rparr>
                    in if full then d\<lparr>device_geo := None\<rparr> else d) req"

definition xu_scrub_user :: "bool \<Rightarrow> bid_request \<Rightarrow> bid_request" where
  "xu_scrub_user scrub_ids req =
     on_user (\<lambda>u. (if scrub_ids then u\<lparr>user_id := None, user_buyeruid := None, user_eids := None\<rparr> else u)\<lparr>user_yob := None, user_gender := None\<rparr>) req"

fun f_trunc :: "f64 \<Rightarrow> f64" where
  "f_trunc (Fin s q) = Fin s (of_int \<lfloor>q\<rfloor>)"
| "f_trunc x = x"

definition xu_truncate :: "f64 \<Rightarrow> f64" where
  "xu_truncate v = f_div (f_trunc (f_mul v (f_of 100))) (f_of 100)"

definition xu_coarse :: "geo \<Rightarrow> geo" where
  "xu_coarse g = g\<lparr>geo_lat := map_option xu_truncate (geo_lat g), geo_lon := map_option xu_truncate (geo_lon g)\<rparr>"

definition xu_scrub_geo_precision :: "bid_request \<Rightarrow> bid_request" where
  "xu_scrub_geo_precision req =
     on_user (\<lambda>u. u\<lparr>user_geo := map_option xu_coarse (user_geo u)\<rparr>) (on_device (\<lambda>d. d\<lparr>device_geo := map_option xu_coarse (device_geo d)\<rparr>) req)"

definition apply_privacy :: "privacy_enforcement \<Rightarrow> bool \<Rightarrow> bid_request \<Rightarrow> bid_request" where
  "apply_privacy pe is_amp req =
     (if pe_coppa pe
      then let req = xu_scrub_user True (xu_scrub_device True req) in if is_amp then xu_scrub_geo_precision req else req
      else if pe_gdpr_applies pe \<and> no_consent pe
      then let req = xu_scrub_user True (xu_scrub_device False req) in if is_amp then xu_scrub_geo_precision req else req
      else let req = (if pe_ccpa pe then xu_scrub_user False req else req)
           in if pe_lmt pe then xu_scrub_device False req else req)"

section \<open>Multi-bid, media types, certificates\<close>

record multi_bid_config =
  mbc_max_bids :: nat
  mbc_target_bidder_code_prefix :: string

definition multi_bid_names :: "(string \<Rightarrow> string) \<Rightarrow> json \<Rightarrow> string list" where
  "multi_bid_names lower entry =
     (case Option.bind (jget entry ''bidder'') as_str of
        Some bidder \<Rightarrow> [lower bidder]
      | None \<Rightarrow>
          (case Option.bind (jget entry ''bidders'') as_array of
             Some bidders \<Rightarrow> map lower (List.map_filter as_str bidders)
           | None \<Rightarrow> []))"

definition multi_bid_entry :: "json \<Rightarrow> multi_bid_config" where
  "multi_bid_entry entry =
     \<lparr>mbc_max_bids = unwrap_or 1 (Option.bind (jget entry ''maxBids'') as_u64) mod 2 ^ 32,
      mbc_target_bidder_code_prefix = unwrap_or [] (Option.bind (jget entry ''targetBidderCodePrefix'') as_str)\<rparr>"

definition build_multi_bid_map :: "(string \<Rightarrow> string) \<Rightarrow> json option \<Rightarrow> (string \<times> multi_bid_config) list" where
  "build_multi_bid_map lower ext =
     (case Option.bind (jpath ext [''prebid'', ''multibid'']) as_array of
        None \<Rightarrow> []
      | Some arr \<Rightarrow> fold (\<lambda>entry. fold (\<lambda>b. hm_insert b (multi_bid_entry entry)) (multi_bid_names lower entry)) arr [])"

definition get_bidder_preferred_media_type :: "json option \<Rightarrow> (string \<times> string) list" where
  "get_bidder_preferred_media_type ext =
     (case Option.bind (jpath ext [''prebid'', ''biddercontrols'']) as_object of
        None \<Rightarrow> []
      | Some controls \<Rightarrow>
          fold (\<lambda>(bidder, v) m. case Option.bind (jget v ''preferredMediaType'') as_str of
                                   Some pref \<Rightarrow> if pref \<noteq> [] then hm_insert bidder pref m else m
                                 | None \<Rightarrow> m) controls [])"

definition is_ads_cert_enabled :: "json option \<Rightarrow> bool \<Rightarrow> bool" where
  "is_ads_cert_enabled ext bidder_ads_cert =
     (if \<not> bidder_ads_cert then False
      else unwrap_or False (Option.bind (jpath ext [''prebid'', ''experiment'', ''adsCert'', ''enabled'']) as_bool))"

section \<open>Lemmas\<close>

text \<open>An id is kept unless the first permission for its source names other bidders only.\<close>

lemma eid_permitted_first:
  "eid_permitted perms src bidder =
     (case List.find (\<lambda>p. unwrap_or [] (Option.bind (jget p ''source'') as_str) = src) perms of
        None \<Rightarrow> True
      | Some p \<Rightarrow>
          (let bidders = (case Option.bind (jget p ''bidders'') as_array of Some arr \<Rightarrow> List.map_filter as_str arr | None \<Rightarrow> [])
           in bidders = [] \<or> ''*'' \<in> set bidders \<or> bidder \<in> set bidders))"
  by (induction perms) (auto simp: Let_def list_ex_iff)

text \<open>The last entry that names a bidder decides.\<close>

lemma fold_names_get: "map_of (fold (\<lambda>b. hm_insert b v) ns m) k = (if k \<in> set ns then Some v else map_of m k)"
  by (induction ns arbitrary: m) (auto simp: map_of_hm_insert)

lemma multi_bid_fold_get:
  "map_of (fold (\<lambda>e. fold (\<lambda>b. hm_insert b (multi_bid_entry e)) (multi_bid_names lower e)) es m) b =
     (case List.find (\<lambda>e. b \<in> set (multi_bid_names lower e)) (rev es) of Some e \<Rightarrow> Some (multi_bid_entry e) | None \<Rightarrow> map_of m b)"
  by (induction es rule: rev_induct) (auto simp: fold_names_get)

lemma fold_push_imps: "get_or [] (fold (\<lambda>n. push_imp n x) ns m) b = get_or [] m b @ replicate (count_list ns b) x"
proof (induction ns arbitrary: m)
  case (Cons n ns)
  show ?case
    by (simp add: Cons get_or_push replicate_app_Cons_same)
qed simp

definition names_of_imp :: "imp \<Rightarrow> string list" where
  "names_of_imp i = (case imp_jext i of None \<Rightarrow> [] | Some ext \<Rightarrow> xu_bidders ext)"

lemma xu_split_from_spec:
  "case xu_split_from k xs acc of
     Inl _ \<Rightarrow> \<exists>x \<in> set xs. names_of_imp x = []
   | Inr m \<Rightarrow> (\<forall>x \<in> set xs. names_of_imp x \<noteq> []) \<and> (\<forall>b. get_or [] m b = get_or [] acc b @ concat (map (\<lambda>x. replicate (count_list (names_of_imp x) b) x) xs))"
proof (induction k xs acc rule: xu_split_from.induct)
  case (2 i x xs acc)
  show ?case
  proof (cases "names_of_imp x = []")
    case True
    then show ?thesis
      by (auto simp: names_of_imp_def split: option.splits)
  next
    case False
    then obtain ext where ext: "imp_jext x = Some ext" "xu_bidders ext \<noteq> []" "names_of_imp x = xu_bidders ext"
      by (auto simp: names_of_imp_def split: option.splits)
    then show ?thesis
      using "2.IH" [OF ext(1,2)] by (auto simp: fold_push_imps split: sum.splits)
  qed
qed simp

section \<open>Properties\<close>

text \<open>
  Scrubbing by privacy signals.  With COPPA, or with GDPR and no consent, no identifier of the user and none of the device is left; COPPA also
  removes the location of the device, and for AMP the remaining locations are truncated.  Without these, CCPA removes year of birth and gender, LMT the identifiers of
  the device: CCPA alone leaves the identifiers of the user in place.  Nothing outside device and user changes.
\<close>

theorem apply_privacy_spec:
  "let r = apply_privacy pe is_amp req; strict = (pe_coppa pe \<or> (pe_gdpr_applies pe \<and> no_consent pe))
   in r\<lparr>req_device := req_device req, req_user := req_user req\<rparr> = req
    \<and> map_option (\<lambda>u. (user_id u, user_buyeruid u, user_eids u)) (req_user r)
      = map_option (\<lambda>u. if strict then (None, None, None) else (user_id u, user_buyeruid u, user_eids u)) (req_user req)
    \<and> map_option (\<lambda>u. (user_yob u, user_gender u)) (req_user r)
      = map_option (\<lambda>u. if strict \<or> pe_ccpa pe then (None, None) else (user_yob u, user_gender u)) (req_user req)
    \<and> map_option (\<lambda>d. (device_ifa d, device_macsha1 d, device_dpidsha1 d, device_didsha1 d, device_ip d, device_ipv6 d)) (req_device r)
      = map_option (\<lambda>d. if strict \<or> pe_lmt pe then (None, None, None, None, None, None)
                          else (device_ifa d, device_macsha1 d, device_dpidsha1 d, device_didsha1 d, device_ip d, device_ipv6 d)) (req_device req)
    \<and> map_option device_geo (req_device r)
      = map_option (\<lambda>d. if pe_coppa pe then None else if strict \<and> is_amp then map_option xu_coarse (device_geo d) else device_geo d) (req_device req)"
  by (cases "req_device req"; cases "req_user req")
    (simp_all add: apply_privacy_def xu_scrub_device_def xu_scrub_user_def xu_scrub_geo_precision_def on_device_def on_user_def Let_def)

text \<open>
  Multi-bid configuration: the entry of a bidder is the last one of the list that names it, by itself or among others, in lower case, with the
  number of bids taken modulo \<open>2 ^ 32\<close>.
\<close>

theorem multi_bid_map_spec:
  "map_of (build_multi_bid_map lower ext) b =
     (case Option.bind (jpath ext [''prebid'', ''multibid'']) as_array of
        None \<Rightarrow> None
      | Some es \<Rightarrow> map_option multi_bid_entry (List.find (\<lambda>e. b \<in> set (multi_bid_names lower e)) (rev es)))"
  by (simp add: build_multi_bid_map_def multi_bid_fold_get split: option.split)

text \<open>
  Splitting: it fails exactly when some impression names no bidder, and otherwise gives every bidder the impressions that name it, in order and
  unchanged, so with the parameters of all other bidders.
\<close>

lemma xu_split_imps_spec:
  "case xu_split_imps imps aliases of
     Inl _ \<Rightarrow> \<exists>x \<in> set imps. names_of_imp x = []
   | Inr m \<Rightarrow> (\<forall>x \<in> set imps. names_of_imp x \<noteq> []) \<and> (\<forall>b. get_or [] m b = concat (map (\<lambda>x. replicate (count_list (names_of_imp x) b) x) imps))"
  using xu_split_from_spec [where k = 0 and xs = imps and acc = "[]"] by (simp add: xu_split_imps_def get_or_def split: sum.splits)

end
