(* ===== verification/Events.thy ===== *)
theory Events
  imports Deals TcfConsent SyncEndpoints
begin

text \<open>
  Events of bids: the requests of the event endpoint and their URLs (\<^verbatim>\<open>rust/crates/exchange/src/event_request.rs\<close>), event tracking of bids (\<^verbatim>\<open>events.rs\<close>) and the
  helpers of \<^verbatim>\<open>vast.rs\<close>, which the lemmas compare with those of \<^verbatim>\<open>auction.rs\<close>.  Parsing and printing of JSON and upper-casing are arguments.
\<close>

section \<open>Event requests\<close>

datatype ev_type = EvWin | EvImp | EvClick

fun ev_type_as_str :: "ev_type \<Rightarrow> string" where
  "ev_type_as_str EvWin = ''win''"
| "ev_type_as_str EvImp = ''imp''"
| "ev_type_as_str EvClick = ''click''"

definition ev_type_from_str :: "string \<Rightarrow> ev_type option" where
  "ev_type_from_str s = (if s = ''win'' then Some EvWin else if s = ''imp'' then Some EvImp else if s = ''click'' then Some EvClick else None)"

record ev_request =
  er_event_type :: ev_type
  er_bid_id :: string
  er_account_id :: string
  er_bidder :: string
  er_timestamp :: int
  er_format :: string
  er_analytics :: string
  er_integration_type :: string
  er_vtype :: string

definition single_quoted :: "string \<Rightarrow> string" where
  "single_quoted s = CHR 0x27 # s @ [CHR 0x27]"

definition parse_event_request :: "(string \<times> string) list \<Rightarrow> (string list, ev_request) res" where
  "parse_event_request params =
     (let event_type = Option.bind (map_of params ''t'') ev_type_from_str;
          bid = get_or [] params ''b'';
          acc = get_or [] params ''a'';
          errors = (if event_type = None then [''parameter '' @ single_quoted ''t'' @ '' is required and must be one of: win, imp, click''] else [])
                   @ (if bid = [] then [''parameter '' @ single_quoted ''b'' @ '' is required''] else [])
                   @ (if acc = [] then [''parameter '' @ single_quoted ''a'' @ '' is required''] else [])
      in if errors \<noteq> [] then Inl errors
         else Inr \<lparr>er_event_type = unwrap_or EvWin event_type, er_bid_id = bid, er_account_id = acc, er_bidder = get_or [] params ''bidder'',
                   er_timestamp = unwrap_or 0 (Option.bind (map_of params ''ts'') (parse_int i64_min i64_max)),
                   er_format = get_or [] params ''f'', er_analytics = get_or [] params ''x'', er_integration_type = get_or [] params ''int'',
                   er_vtype = get_or [] params ''vtype''\<rparr>)"

text \<open>\<^verbatim>\<open>str::replace\<close> with a character.\<close>

definition replace_chr :: "char \<Rightarrow> string \<Rightarrow> string \<Rightarrow> string" where
  "replace_chr c rep s = concat (map (\<lambda>x. if x = c then rep else [x]) s)"

definition url_encode :: "string \<Rightarrow> string" where
  "url_encode s =
     replace_chr (CHR ''#'') ''%23'' (replace_chr (CHR ''+'') ''%2B'' (replace_chr (CHR ''='') ''%3D''
       (replace_chr (CHR ''&'') ''%26'' (replace_chr (CHR '' '') ''%20'' (replace_chr (CHR ''%'') ''%25'' s)))))"

definition event_request_to_url :: "string \<Rightarrow> ev_request \<Rightarrow> string" where
  "event_request_to_url external_url request =
     trim_end_matches (CHR ''/'') external_url @ ''/event?t='' @ ev_type_as_str (er_event_type request) @ ''&b='' @ url_encode (er_bid_id request)
     @ ''&a='' @ url_encode (er_account_id request)
     @ (if er_bidder request \<noteq> [] then ''&bidder='' @ url_encode (er_bidder request) else [])
     @ (if er_timestamp request > 0 then ''&ts='' @ show_int (er_timestamp request) else [])
     @ (if er_format request \<noteq> [] then ''&f='' @ url_encode (er_format request) else [])
     @ (if er_analytics request \<noteq> [] then ''&x='' @ url_encode (er_analytics request) else [])
     @ (if er_integration_type request \<noteq> [] then ''&int='' @ url_encode (er_integration_type request) else [])"

section \<open>Event tracking\<close>

datatype analytics_event_type = AeWin | AeImp | AeVast

record tracking_request =
  tr_event_type :: analytics_event_type
  tr_bid_id :: string
  tr_bidder :: string
  tr_account_id :: string
  tr_timestamp :: int
  tr_integration :: string

record event_tracking =
  et_account_id :: string
  et_enabled_for_account :: bool
  et_enabled_for_request :: bool
  et_auction_timestamp_ms :: int
  et_integration_type :: string
  et_bidder_infos :: "(string \<times> bool) list"
  et_external_url :: string

text \<open>Of the prebid extension two members are read: whether events are present, and the integration; of an account its id and whether events are enabled; of a bidder whether its VAST may be modified.\<close>

definition get_event_tracking ::
  "(string list \<Rightarrow> string list) \<Rightarrow> (bool \<times> string option) option \<Rightarrow> int \<Rightarrow> string \<times> bool \<Rightarrow> (string \<times> bool) list \<Rightarrow> string \<Rightarrow> event_tracking" where
  "get_event_tracking ord request_ext_prebid timestamp_ms account bidder_infos external_url =
     \<lparr>et_account_id = fst account, et_enabled_for_account = snd account,
      et_enabled_for_request = (case request_ext_prebid of Some (events, _) \<Rightarrow> events | None \<Rightarrow> False),
      et_auction_timestamp_ms = timestamp_ms,
      et_integration_type = unwrap_or [] (Option.bind request_ext_prebid snd),
      et_bidder_infos = fold (\<lambda>(name, allowed). hm_insert name allowed) (hm_iter ord bidder_infos) [],
      et_external_url = external_url\<rparr>"

definition urlencoding :: "string \<Rightarrow> string" where
  "urlencoding input =
     concat (map (\<lambda>ch. if ch = CHR '' '' then ''%20'' else if ch = CHR ''&'' then ''%26'' else if ch = CHR ''='' then ''%3D''
                       else if ch = CHR ''+'' then ''%2B'' else if ch = CHR ''%'' then ''%25'' else if ch = CHR ''#'' then ''%23''
                       else if ch = CHR ''?'' then ''%3F'' else [ch]) input)"

fun event_type_str :: "analytics_event_type \<Rightarrow> string" where
  "event_type_str AeWin = ''win''"
| "event_type_str AeImp = ''imp''"
| "event_type_str AeVast = ''vast''"

definition create_tracking_url :: "string \<Rightarrow> tracking_request \<Rightarrow> string" where
  "create_tracking_url external_url req =
     trim_end_matches (CHR ''/'') external_url @ ''/event?t='' @ event_type_str (tr_event_type req) @ ''&b='' @ urlencoding (tr_bid_id req)
     @ ''&a='' @ urlencoding (tr_account_id req) @ ''&bidder='' @ urlencoding (tr_bidder req) @ ''&ts='' @ show_int (tr_timestamp req)
     @ (if tr_integration req \<noteq> [] then ''&int='' @ urlencoding (tr_integration req) else []) @ ''&f=b''"

definition is_event_allowed :: "event_tracking \<Rightarrow> bool" where
  "is_event_allowed et = (et_enabled_for_account et \<or> et_enabled_for_request et)"

definition is_modifying_vast_xml_allowed :: "event_tracking \<Rightarrow> string \<Rightarrow> bool" where
  "is_modifying_vast_xml_allowed et bidder_name = (get_or False (et_bidder_infos et) bidder_name \<and> is_event_allowed et)"

definition make_event_url :: "event_tracking \<Rightarrow> analytics_event_type \<Rightarrow> string \<Rightarrow> string \<Rightarrow> string" where
  "make_event_url et event_type bid bidder =
     create_tracking_url (et_external_url et)
       \<lparr>tr_event_type = event_type, tr_bid_id = bid, tr_bidder = bidder, tr_account_id = et_account_id et, tr_timestamp = et_auction_timestamp_ms et,
        tr_integration = et_integration_type et\<rparr>"

definition make_bid_ext_events :: "event_tracking \<Rightarrow> string \<Rightarrow> bid_type \<Rightarrow> string \<Rightarrow> (string option \<times> string option) option" where
  "make_bid_ext_events et bid t bidder =
     (if \<not> is_event_allowed et \<or> t = BtVideo then None
      else Some (Some (make_event_url et AeWin bid bidder), Some (make_event_url et AeImp bid bidder)))"

definition with_wurl :: "(string \<Rightarrow> (string, json) res) \<Rightarrow> (json \<Rightarrow> (string, string) res) \<Rightarrow> string \<Rightarrow> string \<Rightarrow> (string, string) res" where
  "with_wurl parse print win_url json_bytes =
     (case parse json_bytes of
        Inl e \<Rightarrow> Inl e
      | Inr v \<Rightarrow> print (case v of JObj obj \<Rightarrow> JObj (bt_insert ''wurl'' (JStr win_url) obj) | _ \<Rightarrow> v))"

definition inject_tracking_into_bid ::
  "(string \<Rightarrow> (string, json) res) \<Rightarrow> (json \<Rightarrow> (string, string) res) \<Rightarrow> event_tracking \<Rightarrow> bid_type \<Rightarrow> string \<Rightarrow> string \<Rightarrow> string \<Rightarrow> (string, string) res" where
  "inject_tracking_into_bid parse print et t bid bidder json_bytes =
     (if \<not> is_event_allowed et \<or> t = BtVideo then Inr json_bytes
      else with_wurl parse print (make_event_url et AeWin bid bidder) json_bytes)"

definition effective_bid_id :: "pbs_ortb_bid \<Rightarrow> string" where
  "effective_bid_id b = (if pob_generated_bid_id b \<noteq> [] then pob_generated_bid_id b else bid_id (pob_bid b))"

definition v_make_vast :: "string \<Rightarrow> string \<Rightarrow> string" where
  "v_make_vast adm nurl =
     (if adm \<noteq> [] then adm
      else ''<VAST version=\"3.0\"><Ad><Wrapper><AdSystem>prebid.org wrapper</AdSystem><VASTAdTagURI><![CDATA['' @ nurl
           @ '']]></VASTAdTagURI><Impression></Impression><Creatives></Creatives></Wrapper></Ad></VAST>'')"

text \<open>The tracker has the external URL, the account, the timestamp and the integration of the tracking it is made from.\<close>

definition inject_tracking :: "event_tracking \<Rightarrow> string \<Rightarrow> string \<Rightarrow> string \<Rightarrow> string option" where
  "inject_tracking et vast_xml bid bidder =
     (let impression_tag = ''<Impression><![CDATA['' @ make_event_url et AeImp bid bidder @ '']]></Impression>''
      in case str_find ''</InLine>'' vast_xml of
           Some pos \<Rightarrow> Some (take pos vast_xml @ impression_tag @ drop pos vast_xml)
         | None \<Rightarrow>
             (case str_find ''</Wrapper>'' vast_xml of
                Some pos \<Rightarrow> Some (take pos vast_xml @ impression_tag @ drop pos vast_xml)
              | None \<Rightarrow> None))"

definition modify_bid_vast :: "event_tracking \<Rightarrow> string \<Rightarrow> pbs_ortb_bid \<Rightarrow> pbs_ortb_bid" where
  "modify_bid_vast et bidder_name b =
     (if pob_bid_type b \<noteq> BtVideo then b
      else let adm = unwrap_or [] (bid_adm (pob_bid b)); nurl = unwrap_or [] (bid_nurl (pob_bid b))
           in if adm = [] \<and> nurl = [] then b
              else case inject_tracking et (v_make_vast adm nurl) (effective_bid_id b) bidder_name of
                     Some new_vast \<Rightarrow> b\<lparr>pob_bid := (pob_bid b)\<lparr>bid_adm := Some new_vast\<rparr>\<rparr>
                   | None \<Rightarrow> b)"

record pbs_ortb_seat_bid =
  posb_bids :: "pbs_ortb_bid list"
  posb_currency :: string
  posb_http_calls :: "string list"
  posb_seat :: string

definition event_bid :: "event_tracking \<Rightarrow> string \<Rightarrow> pbs_ortb_bid \<Rightarrow> pbs_ortb_bid" where
  "event_bid et bidder_name b =
     (let b = (if is_modifying_vast_xml_allowed et bidder_name then modify_bid_vast et bidder_name b else b)
      in b\<lparr>pob_bid_events := make_bid_ext_events et (effective_bid_id b) (pob_bid_type b) bidder_name\<rparr>)"

definition modify_bids_for_events :: "event_tracking \<Rightarrow> (string \<times> pbs_ortb_seat_bid) list \<Rightarrow> (string \<times> pbs_ortb_seat_bid) list" where
  "modify_bids_for_events et seat_bids =
     map (\<lambda>(bidder_name, sb). (bidder_name, sb\<lparr>posb_bids := map (event_bid et bidder_name) (posb_bids sb)\<rparr>)) seat_bids"

definition modify_bid_json ::
  "(string \<Rightarrow> (string, json) res) \<Rightarrow> (json \<Rightarrow> (string, string) res) \<Rightarrow> event_tracking \<Rightarrow> pbs_ortb_bid \<Rightarrow> string \<Rightarrow> string \<Rightarrow> (string, string) res" where
  "modify_bid_json parse print et b bidder json_bytes =
     (if \<not> is_event_allowed et \<or> pob_bid_type b = BtVideo then Inr json_bytes
      else with_wurl parse print
             (case pob_bid_events b of
                Some events \<Rightarrow> unwrap_or [] (fst events)
              | None \<Rightarrow> make_event_url et AeWin (effective_bid_id b) bidder) json_bytes)"

section \<open>Helpers of the VAST module\<close>

definition add_buffer :: "int \<Rightarrow> int \<Rightarrow> int" where
  "add_buffer base buffer = (if base \<le> 0 then 0 else i64_wrap (base + buffer))"

definition v_cache_ttl :: "int \<Rightarrow> int \<Rightarrow> int \<Rightarrow> int \<Rightarrow> int" where
  "v_cache_ttl imp_ttl bid_ttl def_ttl buffer =
     (if imp_ttl \<le> 0 \<and> bid_ttl \<le> 0 then add_buffer def_ttl buffer
      else if imp_ttl \<le> 0 then add_buffer bid_ttl buffer
      else if bid_ttl \<le> 0 then add_buffer imp_ttl buffer
      else if imp_ttl < bid_ttl then add_buffer imp_ttl buffer else add_buffer bid_ttl buffer)"

definition v_is_debug_override_enabled :: "string \<Rightarrow> string \<Rightarrow> bool" where
  "v_is_debug_override_enabled debug_header config_override_token = (config_override_token \<noteq> [] \<and> debug_header = config_override_token)"

definition v_log_string :: "string \<Rightarrow> string \<Rightarrow> string \<Rightarrow> string" where
  "v_log_string request headers response =
     ''<?xml version=\"1.0\" encoding=\"UTF-8\"?><Log><Request>'' @ request @ ''</Request><Headers>'' @ headers @ ''</Headers><Response>'' @ response @ ''</Response></Log>''"

text \<open>An error without a message is left out of the response.\<close>

definition v_validate_bid :: "string \<Rightarrow> string \<Rightarrow> f64 \<Rightarrow> string \<Rightarrow> string \<Rightarrow> bool \<Rightarrow> (string option, unit) res" where
  "v_validate_bid i impid price dealid cr_id debug =
     (if i = [] then Inl (Some (''Bid missing required field '' @ single_quoted ''id''))
      else if impid = [] then Inl (Some (''Bid '' @ dquoted i @ '' missing required field '' @ single_quoted ''impid''))
      else if f_lt price (Fin False 0)
      then if debug then Inl (Some (''Bid '' @ dquoted i @ '' does not contain a positive (or zero if there is a deal) '' @ single_quoted ''price'')) else Inl None
      else if f_eq price (Fin False 0) \<and> dealid = []
      then if debug
           then Inl (Some (''Bid '' @ dquoted i @ '' does not contain positive '' @ single_quoted ''price'' @ '' which is required since there is no deal set for this bid''))
           else Inl None
      else if cr_id = [] then Inl (Some (''Bid '' @ dquoted i @ '' missing creative ID''))
      else Inr ())"

definition is_ascii_upper :: "char \<Rightarrow> bool" where
  "is_ascii_upper c = (65 \<le> (of_char c :: nat) \<and> (of_char c :: nat) \<le> 90)"

definition v_validate_currency :: "(string \<Rightarrow> string) \<Rightarrow> string list \<Rightarrow> string \<Rightarrow> (string, unit) res" where
  "v_validate_currency upper request_allowed_currencies bid_currency =
     (let bid_cur = (if bid_currency = [] then ''USD'' else bid_currency);
          allowed = (if request_allowed_currencies = [] then [''USD''] else request_allowed_currencies);
          bid_cur_upper = upper bid_cur
      in if length bid_cur_upper \<noteq> 3 \<or> \<not> list_all is_ascii_upper bid_cur_upper then Inl (''Invalid currency code: '' @ single_quoted bid_cur)
         else if list_ex (\<lambda>c. upper c = bid_cur_upper) allowed then Inr ()
         else Inl (''Bid currency is not allowed. Was '' @ single_quoted bid_cur_upper @ '', wants: ['' @ join_str '', '' (map single_quoted allowed) @ '']''))"

definition v_is_new_winning_bid :: "f64 \<Rightarrow> bool \<Rightarrow> f64 \<Rightarrow> bool \<Rightarrow> bool \<Rightarrow> bool" where
  "v_is_new_winning_bid price bid_has_deal winning_price winning_has_deal prefer_deals =
     (if prefer_deals \<and> winning_has_deal \<and> \<not> bid_has_deal then False
      else if prefer_deals \<and> \<not> winning_has_deal \<and> bid_has_deal then True
      else f_lt winning_price price)"

datatype v_reason =
    VErrorGeneral | VErrorTimeout | VErrorBidderUnreachable | VRejectedGeneral | VRejectedBelowFloor | VRejectedCategoryMappingInvalid
  | VRejectedBelowDealFloor | VRejectedCreativeSizeNotAllowed | VRejectedCreativeNotSecure

fun v_reason_code :: "v_reason \<Rightarrow> int" where
  "v_reason_code VErrorGeneral = 100" | "v_reason_code VErrorTimeout = 101" | "v_reason_code VErrorBidderUnreachable = 103"
| "v_reason_code VRejectedGeneral = 300" | "v_reason_code VRejectedBelowFloor = 301" | "v_reason_code VRejectedCategoryMappingInvalid = 303"
| "v_reason_code VRejectedBelowDealFloor = 304" | "v_reason_code VRejectedCreativeSizeNotAllowed = 351" | "v_reason_code VRejectedCreativeNotSecure = 352"

section \<open>What a query string means\<close>

text \<open>Pairs separated by ampersands, with percent-encoded octets and plus signs for spaces, as the URL standard says of form data.\<close>

definition hex_digit_val :: "char \<Rightarrow> nat option" where
  "hex_digit_val c =
     (let n = of_char c in if 48 \<le> n \<and> n \<le> 57 then Some (n - 48) else if 65 \<le> n \<and> n \<le> 70 then Some (n - 55)
        else if 97 \<le> n \<and> n \<le> 102 then Some (n - 87) else None)"

fun pct_decode :: "string \<Rightarrow> string" where
  "pct_decode [] = []"
| "pct_decode (c # cs) =
     (if c = CHR ''+'' then CHR '' '' # pct_decode cs
      else if c = CHR ''%''
      then (case cs of
              a # b # rest \<Rightarrow>
                (case (hex_digit_val a, hex_digit_val b) of
                   (Some x, Some y) \<Rightarrow> char_of (16 * x + y) # pct_decode rest
                 | _ \<Rightarrow> c # pct_decode cs)
            | _ \<Rightarrow> c # pct_decode cs)
      else c # pct_decode cs)"

definition query_params :: "string \<Rightarrow> (string \<times> string) list" where
  "query_params q =
     map (\<lambda>s. case split_once (CHR ''='') s of Some (k, v) \<Rightarrow> (pct_decode k, pct_decode v) | None \<Rightarrow> (pct_decode s, [])) (split_on (CHR ''&'') q)"

definition plain_key :: "string \<Rightarrow> bool" where
  "plain_key k = list_all (\<lambda>c. c \<notin> {CHR ''&'', CHR ''='', CHR ''+'', CHR ''%''}) k"

lemma pct_decode_plain: "plain_key k \<Longrightarrow> pct_decode k = k"
  by (induction k) (auto simp: plain_key_def)

text \<open>The contract of an encoder of query values: decoding gives the value back, and no separator is left.\<close>

locale url_encoder =
  fixes enc :: "string \<Rightarrow> string"
  assumes enc_Nil: "enc [] = []"
    and enc_Cons: "enc (c # cs) = enc [c] @ enc cs"
    and enc_char: "pct_decode (enc [c] @ t) = c # pct_decode t"
    and enc_safe: "set (enc [c]) \<inter> {CHR ''&'', CHR ''=''} = {}"
begin

lemma decodes: "pct_decode (enc s) = s"
proof (induction s)
  case (Cons c cs)
  then show ?case
    using enc_char [of c "enc cs"] unfolding enc_Cons [of c cs] by simp
qed (simp add: enc_Nil)

lemma kept:
  assumes "\<And>c. P c \<Longrightarrow> enc [c] = [c]" "list_all P s"
  shows "enc s = s"
  using assms(2)
proof (induction s)
  case (Cons c cs)
  then show ?case
    using assms(1) [of c] unfolding enc_Cons [of c cs] by simp
qed (simp add: enc_Nil)

lemma no_separator: "CHR ''&'' \<notin> set (enc s)" "CHR ''='' \<notin> set (enc s)"
proof -
  have "set (enc s) \<inter> {CHR ''&'', CHR ''=''} = {}"
  proof (induction s)
    case (Cons c cs)
    then show ?case
      using enc_safe [of c] unfolding enc_Cons [of c cs] by auto
  qed (simp add: enc_Nil)
  then show "CHR ''&'' \<notin> set (enc s)" "CHR ''='' \<notin> set (enc s)"
    by auto
qed

lemma query_pairs:
  assumes "list_all (\<lambda>(k, v). plain_key k) kvs" "kvs \<noteq> []"
  shows "query_params (join_with (CHR ''&'') (map (\<lambda>(k, v). k @ CHR ''='' # enc v) kvs)) = kvs"
proof -
  have "CHR ''&'' \<notin> set (k @ CHR ''='' # enc v)" if "plain_key k" for k v
    using that no_separator by (auto simp: plain_key_def list_all_iff)
  then have split: "split_on (CHR ''&'') (join_with (CHR ''&'') (map (\<lambda>(k, v). k @ CHR ''='' # enc v) kvs)) = map (\<lambda>(k, v). k @ CHR ''='' # enc v) kvs"
    using assms by (intro split_on_join) (auto simp: list_all_iff)
  have "split_once (CHR ''='') (k @ CHR ''='' # enc v) = Some (k, enc v)" if "plain_key k" for k v
    using that by (intro split_once_eq) (auto simp: plain_key_def list_all_iff)
  then show ?thesis
    unfolding query_params_def split using assms(1)
    by (simp add: comp_def list_all_iff, intro map_idI) (auto simp: pct_decode_plain decodes)
qed

end

lemma replace_chr_append: "replace_chr c r (a @ b) = replace_chr c r a @ replace_chr c r b"
  by (simp add: replace_chr_def)

lemma url_encode_char:
  "url_encode [c] =
     (if c = CHR ''%'' then ''%25'' else if c = CHR '' '' then ''%20'' else if c = CHR ''&'' then ''%26'' else if c = CHR ''='' then ''%3D''
      else if c = CHR ''+'' then ''%2B'' else if c = CHR ''#'' then ''%23'' else [c])"
  by (simp add: url_encode_def replace_chr_def)

interpretation enc_request: url_encoder url_encode
proof
  show "url_encode (c # cs) = url_encode [c] @ url_encode cs" for c cs
    unfolding url_encode_def by (simp flip: replace_chr_append)
  show "pct_decode (url_encode [c] @ t) = c # pct_decode t" for c t
    by (simp add: url_encode_char hex_digit_val_def char_of_def bit_0)
  show "set (url_encode [c]) \<inter> {CHR ''&'', CHR ''=''} = {}" for c
    by (simp add: url_encode_char)
qed (simp add: url_encode_def replace_chr_def)

interpretation enc_tracking: url_encoder urlencoding
proof
  show "pct_decode (urlencoding [c] @ t) = c # pct_decode t" for c t
    by (simp add: urlencoding_def hex_digit_val_def char_of_def bit_0)
qed (simp_all add: urlencoding_def)

section \<open>Numbers and pairs in a query\<close>

lemma is_digit_char_digit [simp]: "d < 10 \<Longrightarrow> is_digit_char (digit_char d)"
  by (simp add: is_digit_char_def digit_char_def)

lemma digit_val_digit [simp]: "d < 10 \<Longrightarrow> digit_val (digit_char d) = int d"
  by (simp add: digit_val_def digit_char_def)

lemma digits_show_nat: "list_all is_digit_char (show_nat n)"
proof (induction n rule: show_nat.induct)
  case (1 n)
  then show ?case
    by (subst show_nat.simps) auto
qed

lemma digits_val_append: "digits_val acc (s @ t) = digits_val (digits_val acc s) t"
  by (induction s arbitrary: acc) auto

lemma digits_val_show_nat: "digits_val 0 (show_nat n) = int n"
proof (induction n rule: show_nat.induct)
  case (1 n)
  then show ?case
    by (subst show_nat.simps) (auto simp: digits_val_append, presburger)
qed

lemma show_nat_not_Nil [simp]: "show_nat n \<noteq> []"
  by (subst show_nat.simps) simp

lemma parse_show_int:
  assumes "0 \<le> n" "n \<le> hi" "lo \<le> 0"
  shows "parse_int lo hi (show_int n) = Some n"
proof -
  obtain c cs where s: "show_nat (nat n) = c # cs"
    by (cases "show_nat (nat n)") auto
  have "is_digit_char c"
    using digits_show_nat [of "nat n"] by (simp add: s)
  then have "c \<noteq> CHR ''+''" "c \<noteq> CHR ''-''"
    by (auto simp: is_digit_char_def)
  then show ?thesis
    using assms digits_show_nat [of "nat n"] digits_val_show_nat [of "nat n"]
    by (simp add: show_int_def parse_int_def s)
qed

lemma digit_plain:
  assumes "is_digit_char c"
  shows "c \<noteq> CHR ''%''" "c \<noteq> CHR '' ''" "c \<noteq> CHR ''&''" "c \<noteq> CHR ''=''" "c \<noteq> CHR ''+''" "c \<noteq> CHR ''#''" "c \<noteq> CHR ''?''"
  using assms by (auto simp: is_digit_char_def)

lemma enc_digits:
  assumes "list_all is_digit_char s"
  shows "url_encode s = s" "urlencoding s = s"
proof -
  show "url_encode s = s"
    using assms by (rule enc_request.kept [rotated]) (simp add: url_encode_char digit_plain)
  show "urlencoding s = s"
    using assms by (rule enc_tracking.kept [rotated]) (simp add: urlencoding_def digit_plain)
qed

lemma show_int_digits: "0 \<le> n \<Longrightarrow> list_all is_digit_char (show_int n)"
  by (simp add: show_int_def digits_show_nat)

lemma join_with_Cons: "join_with d (p # ps) = p @ concat (map ((#) d) ps)"
  by (induction ps arbitrary: p) simp_all

text \<open>The parameters a URL carries.\<close>

definition opt_pair :: "string \<Rightarrow> bool \<Rightarrow> string \<Rightarrow> (string \<times> string) list" where
  "opt_pair k b v = (if b then [(k, v)] else [])"

definition request_pairs :: "ev_request \<Rightarrow> (string \<times> string) list" where
  "request_pairs r =
     [(''t'', ev_type_as_str (er_event_type r)), (''b'', er_bid_id r), (''a'', er_account_id r)]
     @ opt_pair ''bidder'' (er_bidder r \<noteq> []) (er_bidder r) @ opt_pair ''ts'' (er_timestamp r > 0) (show_int (er_timestamp r))
     @ opt_pair ''f'' (er_format r \<noteq> []) (er_format r) @ opt_pair ''x'' (er_analytics r \<noteq> []) (er_analytics r)
     @ opt_pair ''int'' (er_integration_type r \<noteq> []) (er_integration_type r)"

definition tracking_pairs :: "tracking_request \<Rightarrow> (string \<times> string) list" where
  "tracking_pairs r =
     [(''t'', event_type_str (tr_event_type r)), (''b'', tr_bid_id r), (''a'', tr_account_id r), (''bidder'', tr_bidder r),
      (''ts'', show_int (tr_timestamp r))]
     @ opt_pair ''int'' (tr_integration r \<noteq> []) (tr_integration r) @ [(''f'', ''b'')]"

lemma map_of_append_opt [simp]:
  "map_of (opt_pair k b v @ m) x = (if b \<and> k = x then Some v else map_of m x)"
  "map_of (opt_pair k b v) x = (if b \<and> k = x then Some v else None)"
  by (simp_all add: opt_pair_def)

lemma plain_opt_pair [simp]: "list_all (\<lambda>(k, v). plain_key k) (opt_pair k b v) = (b \<longrightarrow> plain_key k)"
  by (simp add: opt_pair_def)

lemma request_query:
  assumes "0 \<le> er_timestamp r"
  shows "event_request_to_url ext r = trim_end_matches (CHR ''/'') ext @ ''/event?''
           @ join_with (CHR ''&'') (map (\<lambda>(k, v). k @ CHR ''='' # url_encode v) (request_pairs r))"
proof -
  have "url_encode (ev_type_as_str t) = ev_type_as_str t" for t
    by (cases t) (simp_all add: url_encode_def replace_chr_def)
  then show ?thesis
    using enc_digits(1) [OF show_int_digits [OF assms]]
    by (simp add: event_request_to_url_def request_pairs_def join_with_Cons opt_pair_def del: join_with.simps)
qed

lemma tracking_query:
  assumes "0 \<le> tr_timestamp r"
  shows "create_tracking_url ext r = trim_end_matches (CHR ''/'') ext @ ''/event?''
           @ join_with (CHR ''&'') (map (\<lambda>(k, v). k @ CHR ''='' # urlencoding v) (tracking_pairs r))"
proof -
  have "urlencoding (event_type_str t) = event_type_str t" for t
    by (cases t) (simp_all add: urlencoding_def)
  moreover have "urlencoding ''b'' = ''b''"
    by (simp add: urlencoding_def)
  ultimately show ?thesis
    using enc_digits(2) [OF show_int_digits [OF assms]]
    by (simp add: create_tracking_url_def tracking_pairs_def join_with_Cons opt_pair_def del: join_with.simps)
qed

lemma request_pairs_parsed:
  assumes "er_bid_id r \<noteq> []" "er_account_id r \<noteq> []" "er_vtype r = []" "0 \<le> er_timestamp r" "er_timestamp r \<le> i64_max"
  shows "parse_event_request (request_pairs r) = Inr r"
proof -
  have "ev_type_from_str (ev_type_as_str t) = Some t" for t
    by (cases t) (simp_all add: ev_type_from_str_def)
  moreover have "parse_int i64_min i64_max (show_int (er_timestamp r)) = Some (er_timestamp r)"
    using assms by (intro parse_show_int) (simp_all add: i64_min_def)
  ultimately show ?thesis
    using assms by (cases r) (auto simp: parse_event_request_def request_pairs_def get_or_def unwrap_or_def Let_def simp del: map_of_append)
qed

lemma tracking_pairs_parsed:
  assumes "tr_bid_id r \<noteq> []" "tr_account_id r \<noteq> []" "0 \<le> tr_timestamp r" "tr_timestamp r \<le> i64_max"
  shows "parse_event_request (tracking_pairs r) =
    (case tr_event_type r of
       AeVast \<Rightarrow> Inl [''parameter '' @ single_quoted ''t'' @ '' is required and must be one of: win, imp, click'']
     | t \<Rightarrow> Inr \<lparr>er_event_type = (if t = AeWin then EvWin else EvImp), er_bid_id = tr_bid_id r, er_account_id = tr_account_id r,
                er_bidder = tr_bidder r, er_timestamp = tr_timestamp r, er_format = ''b'', er_analytics = [],
                er_integration_type = tr_integration r, er_vtype = []\<rparr>)"
proof -
  have "parse_int i64_min i64_max (show_int (tr_timestamp r)) = Some (tr_timestamp r)"
    using assms by (intro parse_show_int) (simp_all add: i64_min_def)
  then show ?thesis
    using assms by (auto simp: parse_event_request_def tracking_pairs_def get_or_def unwrap_or_def Let_def ev_type_from_str_def
        simp del: map_of_append split: analytics_event_type.splits)
qed

lemma plain_keys [simp]:
  "plain_key ''t''" "plain_key ''b''" "plain_key ''a''" "plain_key ''bidder''" "plain_key ''ts''" "plain_key ''f''" "plain_key ''x''" "plain_key ''int''"
  by (simp_all add: plain_key_def)

lemma plain_pairs:
  "list_all (\<lambda>(k, v). plain_key k) (request_pairs r)"
  "list_all (\<lambda>(k, v). plain_key k) (tracking_pairs t)"
  by (simp_all add: request_pairs_def tracking_pairs_def)

section \<open>Properties\<close>

text \<open>Property C28.  The two writers of event URLs and the reader of the event endpoint agree.  A request with a bid, an account and a timestamp that is not negative is read back from its
  URL as it was, when its \<^verbatim>\<open>vtype\<close> is empty (the writer leaves that member out).  The win and impression URLs that event tracking puts on a bid are read as a request with the
  bid, the account, the bidder, the timestamp and the integration of the tracking; a URL of the third kind, \<^verbatim>\<open>vast\<close>, is refused by the reader.\<close>

theorem event_urls_understood:
  assumes "er_bid_id r \<noteq> []" "er_account_id r \<noteq> []" "er_vtype r = []" "0 \<le> er_timestamp r" "er_timestamp r \<le> i64_max"
    and "bid \<noteq> []" "et_account_id et \<noteq> []" "0 \<le> et_auction_timestamp_ms et" "et_auction_timestamp_ms et \<le> i64_max"
  shows "(\<exists>q. event_request_to_url ext r = trim_end_matches (CHR ''/'') ext @ ''/event?'' @ q
           \<and> parse_event_request (query_params q) = Inr r)
     \<and> (\<exists>q. make_event_url et t bid bidder = trim_end_matches (CHR ''/'') (et_external_url et) @ ''/event?'' @ q
           \<and> parse_event_request (query_params q) =
               (if t = AeVast then Inl [''parameter '' @ single_quoted ''t'' @ '' is required and must be one of: win, imp, click'']
                else Inr \<lparr>er_event_type = (if t = AeWin then EvWin else EvImp), er_bid_id = bid, er_account_id = et_account_id et,
                          er_bidder = bidder, er_timestamp = et_auction_timestamp_ms et, er_format = ''b'', er_analytics = [],
                          er_integration_type = et_integration_type et, er_vtype = []\<rparr>))"
proof
  have "request_pairs r \<noteq> []"
    by (simp add: request_pairs_def)
  then show "\<exists>q. event_request_to_url ext r = trim_end_matches (CHR ''/'') ext @ ''/event?'' @ q
           \<and> parse_event_request (query_params q) = Inr r"
    using request_query [OF assms(4)] enc_request.query_pairs [OF plain_pairs(1)] request_pairs_parsed [OF assms(1-5)] by auto
  let ?t = "\<lparr>tr_event_type = t, tr_bid_id = bid, tr_bidder = bidder, tr_account_id = et_account_id et,
             tr_timestamp = et_auction_timestamp_ms et, tr_integration = et_integration_type et\<rparr>"
  have "tracking_pairs ?t \<noteq> []"
    by (simp add: tracking_pairs_def)
  then have "query_params (join_with (CHR ''&'') (map (\<lambda>(k, v). k @ CHR ''='' # urlencoding v) (tracking_pairs ?t))) = tracking_pairs ?t"
    by (intro enc_tracking.query_pairs plain_pairs)
  then show "\<exists>q. make_event_url et t bid bidder = trim_end_matches (CHR ''/'') (et_external_url et) @ ''/event?'' @ q
           \<and> parse_event_request (query_params q) =
               (if t = AeVast then Inl [''parameter '' @ single_quoted ''t'' @ '' is required and must be one of: win, imp, click'']
                else Inr \<lparr>er_event_type = (if t = AeWin then EvWin else EvImp), er_bid_id = bid, er_account_id = et_account_id et,
                          er_bidder = bidder, er_timestamp = et_auction_timestamp_ms et, er_format = ''b'', er_analytics = [],
                          er_integration_type = et_integration_type et, er_vtype = []\<rparr>)"
    unfolding make_event_url_def using tracking_query [of ?t] tracking_pairs_parsed [of ?t] assms(6-9)
    by (auto split: analytics_event_type.splits)
qed

definition sample_event :: ev_request where
  "sample_event =
     \<lparr>er_event_type = EvImp, er_bid_id = ''b 1&'', er_account_id = ''acc'', er_bidder = ''rubicon'', er_timestamp = 170, er_format = ''b'',
      er_analytics = [], er_integration_type = ''amp'', er_vtype = []\<rparr>"

definition sample_tracking :: event_tracking where
  "sample_tracking =
     \<lparr>et_account_id = ''acc'', et_enabled_for_account = True, et_enabled_for_request = False, et_auction_timestamp_ms = 170,
      et_integration_type = ''amp'', et_bidder_infos = [], et_external_url = ''https://pbs/''\<rparr>"

theorem event_urls_understood_witness:
  "\<exists>q. event_request_to_url ''https://pbs'' sample_event = trim_end_matches (CHR ''/'') ''https://pbs'' @ ''/event?'' @ q
     \<and> parse_event_request (query_params q) = Inr sample_event"
  using event_urls_understood [of sample_event "''b1''" sample_tracking "''https://pbs''"]
  by (simp add: sample_event_def sample_tracking_def i64_max_def)

text \<open>The second copies of the checks of a bid in \<^verbatim>\<open>vast.rs\<close> against those of \<^verbatim>\<open>auction.rs\<close>: both choose the same winning bid, and they accept the same bids
  except those with a negative price and a deal, which only \<^verbatim>\<open>auction.rs\<close> accepts.\<close>

theorem bid_checks_compared:
  "v_is_new_winning_bid p (d \<noteq> []) wp (wd \<noteq> []) pref = is_new_winning_bid p d wp wd pref
   \<and> (is_ok (v_validate_bid i impid p d cr debug)
      \<longleftrightarrow> is_ok (validate_bid i impid p d cr debug') \<and> \<not> f_lt p (Fin False 0))"
proof
  show "v_is_new_winning_bid p (d \<noteq> []) wp (wd \<noteq> []) pref = is_new_winning_bid p d wp wd pref"
    unfolding v_is_new_winning_bid_def is_new_winning_bid_def by (cases pref; cases "d = []"; cases "wd = []") simp_all
  have "f_le p (Fin False 0) \<longleftrightarrow> f_lt p (Fin False 0) \<or> f_eq p (Fin False 0)"
    by (cases p) (auto simp: f_eq_def)
  then show "is_ok (v_validate_bid i impid p d cr debug)
      \<longleftrightarrow> is_ok (validate_bid i impid p d cr debug') \<and> \<not> f_lt p (Fin False 0)"
    by (simp add: v_validate_bid_def validate_bid_def is_ok_def)
qed

end
