(* ===== verification/AdapterKit.thy ===== *)
theory AdapterKit
  imports Bidder SyncEndpoints
begin

text \<open>
  What the bidder adapters of \<^verbatim>\<open>rust/crates/adapters/src\<close> share.  An adapter turns a bid request into HTTP requests
  (\<^verbatim>\<open>make_requests\<close>) and an HTTP answer into typed bids (\<^verbatim>\<open>make_bids\<close>).  Encoding a bid request and decoding a bid response
  (\<^verbatim>\<open>serde_json::to_vec\<close>, \<^verbatim>\<open>serde_json::from_slice\<close>) are arguments, the record \<open>adapter_serde\<close>; everything else the adapters do is
  modelled: which impressions are sent where, with which headers and parameters, which statuses are errors, how a bid gets its
  media type, and what happens to a bid that has none.

  The theory ends with the contract of an adapter and the rules that show it for the building blocks: a request only names
  impressions of the bid request, and every bid an adapter returns is a bid of the decoded body of an answer with a status of success,
  with its identifier, impression and price unchanged.
\<close>

section \<open>Building blocks\<close>

record adapter_serde =
  sj_to_vec :: "bid_request \<Rightarrow> (string, u8 list) res"
  sj_from_slice :: "u8 list \<Rightarrow> (string, bid_response) res"

type_synonym requests_out = "request_data list \<times> bidder_error list"
type_synonym bid_answer = "(bidder_error list, bidder_response) res"

text \<open>Headers are inserted into a \<^verbatim>\<open>HashMap\<close> one after the other; a later value replaces an earlier one.\<close>

definition headers_of :: "(string \<times> string) list \<Rightarrow> (string \<times> string) list" where
  "headers_of kvs = fold (\<lambda>(k, v). hm_insert k v) kvs []"

abbreviation content_json8 :: "string \<times> string" where
  "content_json8 \<equiv> (''Content-Type'', ''application/json;charset=utf-8'')"

abbreviation content_json :: "string \<times> string" where
  "content_json \<equiv> (''Content-Type'', ''application/json'')"

abbreviation accept_json :: "string \<times> string" where
  "accept_json \<equiv> (''Accept'', ''application/json'')"

abbreviation openrtb25 :: "string \<times> string" where
  "openrtb25 \<equiv> (''x-openrtb-version'', ''2.5'')"

text \<open>A header with a value of the device or the site, left out when it is absent or empty.\<close>

definition opt_header :: "string \<Rightarrow> string option \<Rightarrow> (string \<times> string) list" where
  "opt_header k v = (case v of None \<Rightarrow> [] | Some s \<Rightarrow> if s = [] then [] else [(k, s)])"

definition dev_header :: "bid_request \<Rightarrow> string \<Rightarrow> (device \<Rightarrow> string option) \<Rightarrow> (string \<times> string) list" where
  "dev_header r k sel = opt_header k (Option.bind (req_device r) sel)"

definition site_header :: "bid_request \<Rightarrow> string \<Rightarrow> (site \<Rightarrow> string option) \<Rightarrow> (string \<times> string) list" where
  "site_header r k sel = opt_header k (Option.bind (req_site r) sel)"

definition device_headers :: "bid_request \<Rightarrow> (string \<times> string) list" where
  "device_headers r =
     dev_header r ''User-Agent'' device_ua @ dev_header r ''X-Forwarded-For'' device_ipv6 @ dev_header r ''X-Forwarded-For'' device_ip"

text \<open>\<^verbatim>\<open>Default\<close> of a publisher and of an app.\<close>

definition publisher_default :: publisher where
  "publisher_default =
     \<lparr>publisher_id = None, publisher_name = None, publisher_cattax = None, publisher_cat = None, publisher_domain = None, publisher_jext = None\<rparr>"

definition app_default :: app where
  "app_default =
     \<lparr>app_id = None, app_name = None, app_bundle = None, app_domain = None, app_storeurl = None, app_cattax = None, app_cat = None,
      app_sectioncat = None, app_pagecat = None, app_ver = None, app_privacypolicy = None, app_paid = None, app_publisher = None,
      app_content = None, app_keywords = None, app_jext = None\<rparr>"

text \<open>The string at a path of a JSON value, empty when it is missing or no string.\<close>

definition str_at :: "json option \<Rightarrow> string list \<Rightarrow> string" where
  "str_at j ks = unwrap_or [] (Option.bind (jpath j ks) as_str)"

definition imp_bidder :: "imp \<Rightarrow> json option" where
  "imp_bidder i = jpath (imp_jext i) [''bidder'']"

definition str_param :: "imp \<Rightarrow> string \<Rightarrow> string" where
  "str_param i k = str_at (imp_bidder i) [k]"

text \<open>Every octet outside the unreserved characters is percent-encoded.\<close>

definition urlencoding_simple :: "string \<Rightarrow> string" where
  "urlencoding_simple s =
     concat (map (\<lambda>c. let n = (of_char c :: nat)
                      in if 65 \<le> n \<and> n \<le> 90 \<or> 97 \<le> n \<and> n \<le> 122 \<or> 48 \<le> n \<and> n \<le> 57 \<or> c \<in> set ''-_.~'' then [c]
                         else CHR ''%'' # [''0123456789ABCDEF'' ! (n div 16), ''0123456789ABCDEF'' ! (n mod 16)]) s)"

definition post :: "string \<Rightarrow> (string \<times> string) list \<Rightarrow> string list \<Rightarrow> u8 list \<Rightarrow> request_data" where
  "post uri hdrs ids body =
     \<lparr>rd_method = ''POST'', rd_uri = uri, rd_body = body, rd_headers = headers_of hdrs, rd_imp_ids = ids\<rparr>"

definition encode :: "adapter_serde \<Rightarrow> (string \<Rightarrow> bidder_error) \<Rightarrow> bid_request \<Rightarrow> (u8 list \<Rightarrow> request_data) \<Rightarrow> requests_out" where
  "encode z bad r k = (case sj_to_vec z r of Inl e \<Rightarrow> ([], [bad e]) | Inr body \<Rightarrow> ([k body], []))"

text \<open>The same with the errors found before: those kept when encoding fails, and those returned with the request.\<close>

definition encode_errs :: "adapter_serde \<Rightarrow> bidder_error list \<Rightarrow> bidder_error list \<Rightarrow> bid_request \<Rightarrow> (u8 list \<Rightarrow> request_data) \<Rightarrow> requests_out" where
  "encode_errs z failed errs r k = (case sj_to_vec z r of Inl e \<Rightarrow> ([], failed @ [BadInput e]) | Inr body \<Rightarrow> ([k body], errs))"

text \<open>Most adapters send the whole bid request as it is.\<close>

definition whole :: "adapter_serde \<Rightarrow> string \<Rightarrow> (string \<times> string) list \<Rightarrow> bid_request \<Rightarrow> requests_out" where
  "whole z uri hdrs r = encode z BadInput r (post uri hdrs (get_imp_ids (req_imp r)))"

definition first_param :: "bid_request \<Rightarrow> string \<Rightarrow> string" where
  "first_param r k = (case req_imp r of [] \<Rightarrow> [] | i # _ \<Rightarrow> str_param i k)"

definition last_param :: "bid_request \<Rightarrow> string \<Rightarrow> string" where
  "last_param r k = (if req_imp r = [] then [] else str_param (last (req_imp r)) k)"

text \<open>\<^verbatim>\<open>{}\<close> of a value that is a string or an integer, empty otherwise.\<close>

definition str_or_int :: "json option \<Rightarrow> string" where
  "str_or_int v =
     (case v of None \<Rightarrow> []
      | Some j \<Rightarrow> (case as_str j of Some s \<Rightarrow> s | None \<Rightarrow> (case as_i64 j of Some n \<Rightarrow> show_int n | None \<Rightarrow> [])))"

text \<open>The two loops of the adapters, over impressions and over bids: the errors are collected beside the results, or the first one
  ends the loop.\<close>

fun collect_ok :: "('a \<Rightarrow> ('e, 'b) res) \<Rightarrow> 'a list \<Rightarrow> 'b list \<times> 'e list" where
  "collect_ok f [] = ([], [])"
| "collect_ok f (x # xs) =
     (case collect_ok f xs of
        (ys, es) \<Rightarrow> (case f x of Inl e \<Rightarrow> (ys, e # es) | Inr y \<Rightarrow> (y # ys, es)))"

fun strict_ok :: "('a \<Rightarrow> ('e, 'b) res) \<Rightarrow> 'a list \<Rightarrow> ('e, 'b list) res" where
  "strict_ok f [] = Inr []"
| "strict_ok f (x # xs) =
     (case f x of
        Inl e \<Rightarrow> Inl e
      | Inr y \<Rightarrow> (case strict_ok f xs of Inl e \<Rightarrow> Inl e | Inr ys \<Rightarrow> Inr (y # ys)))"

abbreviation each_imp :: "('i \<Rightarrow> (bidder_error, request_data) res) \<Rightarrow> 'i list \<Rightarrow> requests_out" where
  "each_imp \<equiv> collect_ok"

definition encode_imp :: "adapter_serde \<Rightarrow> (string \<Rightarrow> bidder_error) \<Rightarrow> bid_request \<Rightarrow> (u8 list \<Rightarrow> request_data) \<Rightarrow> (bidder_error, request_data) res" where
  "encode_imp z bad r k = (case sj_to_vec z r of Inl e \<Rightarrow> Inl (bad e) | Inr body \<Rightarrow> Inr (k body))"

text \<open>Several requests of one impression.\<close>

definition each_imp_many :: "('i \<Rightarrow> (bidder_error, request_data) res list) \<Rightarrow> 'i list \<Rightarrow> requests_out" where
  "each_imp_many f is = collect_ok (\<lambda>x. x) (concat (map f is))"

definition every_imp :: "('i \<Rightarrow> (bidder_error, request_data) res) \<Rightarrow> 'i list \<Rightarrow> requests_out" where
  "every_imp f is = (case strict_ok f is of Inl e \<Rightarrow> ([], [e]) | Inr rs \<Rightarrow> (rs, []))"

text \<open>The request with the extension of its first impression removed.\<close>

definition drop_first_ext :: "bid_request \<Rightarrow> bid_request" where
  "drop_first_ext r = (case req_imp r of [] \<Rightarrow> r | i # is \<Rightarrow> r\<lparr>req_imp := i\<lparr>imp_jext := None\<rparr> # is\<rparr>)"

text \<open>An error of its own when no request is left.\<close>

definition none_valid :: "string \<Rightarrow> requests_out \<Rightarrow> requests_out" where
  "none_valid m out = (case out of (rs, es) \<Rightarrow> if rs = [] then ([], es @ [BadInput m]) else (rs, es))"

text \<open>Reading an answer: a gate decides by status, then the body is decoded.\<close>

definition usc :: "nat \<Rightarrow> string" where
  "usc s = ''Unexpected status code: '' @ show_nat s"

definition usc_debug :: "nat \<Rightarrow> string" where
  "usc_debug s = usc s @ ''. Run with request.debug = 1 for more info''"

definition refuse_std :: "nat \<Rightarrow> bidder_error option" where
  "refuse_std s = (case check_response_status s of Inl e \<Rightarrow> Some e | Inr _ \<Rightarrow> None)"

definition refuse_400 :: "(nat \<Rightarrow> string) \<Rightarrow> (nat \<Rightarrow> string) \<Rightarrow> nat \<Rightarrow> bidder_error option" where
  "refuse_400 bad other s =
     (if s = 400 then Some (BadInput (bad s)) else if s \<noteq> 200 then Some (BadServerResponse (other s)) else None)"

definition refuse_any :: "(nat \<Rightarrow> string) \<Rightarrow> nat \<Rightarrow> bidder_error option" where
  "refuse_any other s = (if s \<noteq> 200 then Some (BadServerResponse (other s)) else None)"

definition refuse_input :: "(nat \<Rightarrow> string) \<Rightarrow> nat \<Rightarrow> bidder_error option" where
  "refuse_input m s = (if s \<noteq> 200 then Some (BadInput (m s)) else None)"

definition refuse_first :: "nat \<Rightarrow> bidder_error \<Rightarrow> (nat \<Rightarrow> bidder_error option) \<Rightarrow> nat \<Rightarrow> bidder_error option" where
  "refuse_first n e refuse s = (if s = n then Some e else refuse s)"

definition gate :: "(nat \<Rightarrow> bidder_error option) \<Rightarrow> response_data \<Rightarrow> bid_answer option" where
  "gate refuse p =
     (if rs_status_code p = 204 then Some (Inr bidder_response_new)
      else map_option (\<lambda>e. Inl [e]) (refuse (rs_status_code p)))"

text \<open>A gate with answers of its own for some statuses: an error, or no bids.\<close>

definition gate_by :: "(nat \<times> (response_data \<Rightarrow> bidder_error option)) list \<Rightarrow> (response_data \<Rightarrow> bidder_error) \<Rightarrow> response_data \<Rightarrow> bid_answer option" where
  "gate_by special other p =
     (case map_of special (rs_status_code p) of
        Some f \<Rightarrow> Some (case f p of Some e \<Rightarrow> Inl [e] | None \<Rightarrow> Inr bidder_response_new)
      | None \<Rightarrow> if rs_status_code p = 200 then None else Some (Inl [other p]))"

definition on_body :: "adapter_serde \<Rightarrow> (response_data \<Rightarrow> bid_answer option) \<Rightarrow> (string \<Rightarrow> bidder_error) \<Rightarrow> response_data \<Rightarrow> (bid_response \<Rightarrow> bid_answer) \<Rightarrow> bid_answer" where
  "on_body z g undecodable p k =
     (case g p of
        Some a \<Rightarrow> a
      | None \<Rightarrow> (case sj_from_slice z (rs_body p) of Inl e \<Rightarrow> Inl [undecodable e] | Inr br \<Rightarrow> k br))"

definition response_bids :: "bid_response \<Rightarrow> bid list" where
  "response_bids br = concat (map seatbid_bid (resp_seatbid br))"

text \<open>The currency of the answer: unchanged, taken when present, taken when present and not empty, or taken with the empty
  string for an absent one.\<close>

definition cur_usd :: "bid_response \<Rightarrow> string" where
  "cur_usd br = ''USD''"

definition cur_some :: "bid_response \<Rightarrow> string" where
  "cur_some br = unwrap_or ''USD'' (resp_cur br)"

definition cur_nonempty :: "bid_response \<Rightarrow> string" where
  "cur_nonempty br = unwrap_or ''USD'' (opt_filter (\<lambda>c. c \<noteq> []) (resp_cur br))"

definition cur_default :: "bid_response \<Rightarrow> string" where
  "cur_default br = unwrap_or [] (resp_cur br)"

definition answer_of :: "string \<Rightarrow> typed_bid list \<Rightarrow> bidder_response" where
  "answer_of c ts = bidder_response_new\<lparr>br_currency := c, br_bids := ts\<rparr>"

definition typed_as :: "bid_type \<Rightarrow> bid \<Rightarrow> (bidder_error, typed_bid) res" where
  "typed_as ty b = Inr (typed_bid_new b ty)"

definition typed_by :: "(bid \<Rightarrow> (bidder_error, bid_type) res) \<Rightarrow> bid \<Rightarrow> (bidder_error, typed_bid) res" where
  "typed_by f b = (case f b of Inl e \<Rightarrow> Inl e | Inr ty \<Rightarrow> Inr (typed_bid_new b ty))"

definition typed_total :: "(bid \<Rightarrow> bid_type) \<Rightarrow> bid \<Rightarrow> (bidder_error, typed_bid) res" where
  "typed_total f b = Inr (typed_bid_new b (f b))"

text \<open>A bid that is changed before it is typed, and one with the video part of its extension.\<close>

definition typed_with :: "(bid \<Rightarrow> bid) \<Rightarrow> (bid \<Rightarrow> (bidder_error, bid_type) res) \<Rightarrow> bid \<Rightarrow> (bidder_error, typed_bid) res" where
  "typed_with g f b = (case f b of Inl e \<Rightarrow> Inl e | Inr ty \<Rightarrow> Inr (typed_bid_new (g b) ty))"

definition with_video :: "(bid \<Rightarrow> bid_type \<Rightarrow> bid_video option) \<Rightarrow> (bid \<Rightarrow> (bidder_error, bid_type) res) \<Rightarrow> bid \<Rightarrow> (bidder_error, typed_bid) res" where
  "with_video v f b = (case f b of Inl e \<Rightarrow> Inl e | Inr ty \<Rightarrow> Inr ((typed_bid_new b ty)\<lparr>tb_bid_video := v b ty\<rparr>))"

definition bid_meta_default :: bid_meta where
  "bid_meta_default =
     \<lparr>meta_adapter_code = None, meta_advertiser_domains = None, meta_advertiser_id = None, meta_advertiser_name = None, meta_agency_id = None,
      meta_agency_name = None, meta_brand_id = None, meta_brand_name = None, meta_dchain = None, meta_demand_source = None,
      meta_media_type = None, meta_network_id = None, meta_network_name = None, meta_primary_category_id = None, meta_renderer_name = None,
      meta_renderer_version = None, meta_renderer_data = None, meta_renderer_url = None, meta_secondary_category_ids = None, meta_seat = None\<rparr>"

definition with_parts ::
  "(bid \<Rightarrow> bid_type \<Rightarrow> bid_video option) \<Rightarrow> (bid \<Rightarrow> bid_meta option) \<Rightarrow> (bid \<Rightarrow> (bidder_error, bid_type) res) \<Rightarrow> bid \<Rightarrow> (bidder_error, typed_bid) res" where
  "with_parts v m f b =
     (case f b of Inl e \<Rightarrow> Inl e | Inr ty \<Rightarrow> Inr ((typed_bid_new b ty)\<lparr>tb_bid_video := v b ty, tb_bid_meta := m b\<rparr>))"

definition first_category :: "bid \<Rightarrow> string" where
  "first_category b = (case unwrap_or [] (bid_cat b) of [] \<Rightarrow> [] | c # _ \<Rightarrow> c)"

text \<open>The errors of single bids are dropped (\<open>keep_typed\<close>), returned when no bid is left (\<open>some_typed\<close>), returned in place of
  the bids (\<open>no_errors\<close>), or the first one is the answer (\<open>all_typed\<close>).\<close>

definition keep_typed :: "(bid_response \<Rightarrow> string) \<Rightarrow> (bid \<Rightarrow> (bidder_error, typed_bid) res) \<Rightarrow> bid_response \<Rightarrow> bid_answer" where
  "keep_typed cur f br = Inr (answer_of (cur br) (fst (collect_ok f (response_bids br))))"

definition some_typed :: "(bid_response \<Rightarrow> string) \<Rightarrow> (bid \<Rightarrow> (bidder_error, typed_bid) res) \<Rightarrow> bid_response \<Rightarrow> bid_answer" where
  "some_typed cur f br =
     (case collect_ok f (response_bids br) of
        (ts, es) \<Rightarrow> if es \<noteq> [] \<and> ts = [] then Inl es else Inr (answer_of (cur br) ts))"

definition no_errors :: "(bid_response \<Rightarrow> string) \<Rightarrow> (bid \<Rightarrow> (bidder_error, typed_bid) res) \<Rightarrow> bid_response \<Rightarrow> bid_answer" where
  "no_errors cur f br =
     (case collect_ok f (response_bids br) of
        (ts, es) \<Rightarrow> if es \<noteq> [] then Inl es else Inr (answer_of (cur br) ts))"

definition all_typed :: "(bid_response \<Rightarrow> string) \<Rightarrow> (bid \<Rightarrow> (bidder_error, typed_bid) res) \<Rightarrow> bid_response \<Rightarrow> bid_answer" where
  "all_typed cur f br =
     (case strict_ok f (response_bids br) of Inl e \<Rightarrow> Inl [e] | Inr ts \<Rightarrow> Inr (answer_of (cur br) ts))"

definition some_seats :: "bid_answer \<Rightarrow> (bid_response \<Rightarrow> bid_answer) \<Rightarrow> bid_response \<Rightarrow> bid_answer" where
  "some_seats none k br = (if resp_seatbid br = [] then none else k br)"

text \<open>Only the first seat, or only the first bid of the first seat.\<close>

definition on_first_seat :: "(bid_response \<Rightarrow> bid_answer) \<Rightarrow> bid_response \<Rightarrow> bid_answer" where
  "on_first_seat k br = k (br\<lparr>resp_seatbid := take 1 (resp_seatbid br)\<rparr>)"

definition on_first_bid :: "bidder_error \<Rightarrow> bidder_error \<Rightarrow> (bid \<Rightarrow> (bidder_error, typed_bid) res) \<Rightarrow> bid_response \<Rightarrow> bid_answer" where
  "on_first_bid no_seat no_bid f br =
     (case resp_seatbid br of
        [] \<Rightarrow> Inl [no_seat]
      | sb # _ \<Rightarrow>
          (case seatbid_bid sb of
             [] \<Rightarrow> Inl [no_bid]
           | b # _ \<Rightarrow> (case f b of Inl e \<Rightarrow> Inl [e] | Inr t \<Rightarrow> Inr (answer_of ''USD'' [t]))))"

text \<open>An answer without bids is the empty answer, whatever its currency.\<close>

definition keep_or_new :: "(bid_response \<Rightarrow> string) \<Rightarrow> (bid \<Rightarrow> (bidder_error, typed_bid) res) \<Rightarrow> bid_response \<Rightarrow> bid_answer" where
  "keep_or_new cur f br =
     (case fst (collect_ok f (response_bids br)) of [] \<Rightarrow> Inr bidder_response_new | ts \<Rightarrow> Inr (answer_of (cur br) ts))"

text \<open>Bids without a media type are passed over.\<close>

definition keep_some :: "(bid_response \<Rightarrow> string) \<Rightarrow> (bid \<Rightarrow> bid_type option) \<Rightarrow> bid_response \<Rightarrow> bid_answer" where
  "keep_some cur ty br = Inr (answer_of (cur br) (List.map_filter (\<lambda>b. map_option (typed_bid_new b) (ty b)) (response_bids br)))"

definition some_first_bid :: "bid_answer \<Rightarrow> (bid_response \<Rightarrow> bid_answer) \<Rightarrow> bid_response \<Rightarrow> bid_answer" where
  "some_first_bid none k br = (if (case resp_seatbid br of [] \<Rightarrow> True | sb # _ \<Rightarrow> seatbid_bid sb = []) then none else k br)"

text \<open>Media types by the \<^verbatim>\<open>mtype\<close> of the bid, and by the impression the bid names.\<close>

definition mtype_of :: "bid \<Rightarrow> int" where
  "mtype_of b = unwrap_or 0 (bid_mtype b)"

definition mtype_table :: "(int \<times> bid_type) list \<Rightarrow> (bid \<Rightarrow> bidder_error) \<Rightarrow> bid \<Rightarrow> (bidder_error, bid_type) res" where
  "mtype_table tbl err b = (case map_of tbl (mtype_of b) of Some t \<Rightarrow> Inr t | None \<Rightarrow> Inl (err b))"

abbreviation mt_banner :: "int \<times> bid_type" where "mt_banner \<equiv> (1, BtBanner)"
abbreviation mt_video :: "int \<times> bid_type" where "mt_video \<equiv> (2, BtVideo)"
abbreviation mt_audio :: "int \<times> bid_type" where "mt_audio \<equiv> (3, BtAudio)"
abbreviation mt_native :: "int \<times> bid_type" where "mt_native \<equiv> (4, BtNative)"

text \<open>Some adapters read the number from the extension of the bid instead.\<close>

definition ext_mtype :: "bid \<Rightarrow> nat" where
  "ext_mtype b = unwrap_or 0 (Option.bind (jpath (bid_jext b) [''mtype'']) as_u64)"

definition ext_mtype_table :: "(int \<times> bid_type) list \<Rightarrow> (bid \<Rightarrow> bidder_error) \<Rightarrow> bid \<Rightarrow> (bidder_error, bid_type) res" where
  "ext_mtype_table tbl err b = (case map_of tbl (int (ext_mtype b)) of Some t \<Rightarrow> Inr t | None \<Rightarrow> Inl (err b))"

definition name_table :: "(string \<times> bid_type) list \<Rightarrow> string \<Rightarrow> (string \<Rightarrow> bidder_error) \<Rightarrow> (bidder_error, bid_type) res" where
  "name_table tbl name err = (case map_of tbl name of Some t \<Rightarrow> Inr t | None \<Rightarrow> Inl (err name))"

definition imp_of_bid :: "bid_request \<Rightarrow> bid \<Rightarrow> imp option" where
  "imp_of_bid r b = find (\<lambda>i. imp_id i = bid_impid b) (req_imp r)"

definition by_imp :: "bid_type \<Rightarrow> bid_request \<Rightarrow> bid \<Rightarrow> bid_type" where
  "by_imp other r b = (case imp_of_bid r b of Some i \<Rightarrow> get_bid_type_from_imp i | None \<Rightarrow> other)"

datatype media_slot = SBanner | SVideo | SAudio | SNative

fun has_slot :: "media_slot \<Rightarrow> imp \<Rightarrow> bool" where
  "has_slot SBanner i = (imp_banner i \<noteq> None)"
| "has_slot SVideo i = (imp_video i \<noteq> None)"
| "has_slot SAudio i = (imp_audio i \<noteq> None)"
| "has_slot SNative i = (imp_native i \<noteq> None)"

fun slot_type :: "media_slot \<Rightarrow> bid_type" where
  "slot_type SBanner = BtBanner"
| "slot_type SVideo = BtVideo"
| "slot_type SAudio = BtAudio"
| "slot_type SNative = BtNative"

definition slot_of_imp :: "media_slot list \<Rightarrow> imp \<Rightarrow> bid_type option" where
  "slot_of_imp sl i = map_option slot_type (find (\<lambda>s. has_slot s i) sl)"

text \<open>The loop that takes the first media type of the impressions with the identifier of the bid.\<close>

fun first_slot :: "media_slot list \<Rightarrow> string \<Rightarrow> imp list \<Rightarrow> bid_type option" where
  "first_slot sl i [] = None"
| "first_slot sl i (im # ims) =
     (if imp_id im = i then (case slot_of_imp sl im of Some t \<Rightarrow> Some t | None \<Rightarrow> first_slot sl i ims)
      else first_slot sl i ims)"

definition slot_or :: "media_slot list \<Rightarrow> (bid \<Rightarrow> bidder_error) \<Rightarrow> bid_request \<Rightarrow> bid \<Rightarrow> (bidder_error, bid_type) res" where
  "slot_or sl err r b = (case first_slot sl (bid_impid b) (req_imp r) of Some t \<Rightarrow> Inr t | None \<Rightarrow> Inl (err b))"

text \<open>The extension a placement, an endpoint or neither is sent with.\<close>

definition placement_ext :: "(string \<times> json) list \<Rightarrow> imp \<Rightarrow> json" where
  "placement_ext neither i =
     JObj [(''bidder'', JObj (if str_param i ''placementId'' \<noteq> [] then [(''placementId'', JStr (str_param i ''placementId'')), (''type'', JStr ''publisher'')]
                              else if str_param i ''endpointId'' \<noteq> [] then [(''endpointId'', JStr (str_param i ''endpointId'')), (''type'', JStr ''network'')]
                              else neither))]"

definition placement_request :: "adapter_serde \<Rightarrow> string \<Rightarrow> bid_request \<Rightarrow> (string \<times> json) list \<Rightarrow> imp \<Rightarrow> (bidder_error, request_data) res" where
  "placement_request z endpoint request neither i =
     encode_imp z BadInput (request\<lparr>req_imp := [i\<lparr>imp_jext := Some (placement_ext neither i)\<rparr>]\<rparr>)
       (post endpoint [content_json8, accept_json] [imp_id i])"

abbreviation bad_server_response :: "string \<Rightarrow> bidder_error" where
  "bad_server_response \<equiv> \<lambda>_. BadServerResponse ''Bad Server Response''"

abbreviation empty_seats :: bid_answer where
  "empty_seats \<equiv> Inl [BadServerResponse ''Empty SeatBid array'']"

definition failed_to_find :: "bid \<Rightarrow> bidder_error" where
  "failed_to_find b = BadInput (''Failed to find impression \"'' @ bid_impid b @ ''\"'')"

section \<open>The contract of an adapter\<close>

definition success :: "nat \<Rightarrow> bool" where
  "success s = (200 \<le> s \<and> s < 300)"

definition same_bid :: "bid \<Rightarrow> bid \<Rightarrow> bool" where
  "same_bid b b' = (bid_id b' = bid_id b \<and> bid_impid b' = bid_impid b \<and> bid_price b' = bid_price b)"

definition sends_known :: "imp list \<Rightarrow> request_data list \<Rightarrow> bool" where
  "sends_known imps rds = (\<forall>rd \<in> set rds. set (rd_imp_ids rd) \<subseteq> set (get_imp_ids imps))"

definition drawn_from :: "bid_response \<Rightarrow> bid_answer \<Rightarrow> bool" where
  "drawn_from br a =
     (case a of Inl _ \<Rightarrow> True | Inr r \<Rightarrow> \<forall>tb \<in> set (br_bids r). \<exists>b \<in> set (response_bids br). same_bid b (tb_bid tb))"

definition answers :: "(u8 list \<Rightarrow> (string, bid_response) res) \<Rightarrow> response_data \<Rightarrow> bid_answer \<Rightarrow> bool" where
  "answers dec p a =
     (case a of
        Inl _ \<Rightarrow> True
      | Inr r \<Rightarrow> br_bids r = [] \<or> success (rs_status_code p) \<and> (\<exists>br. dec (rs_body p) = Inr br \<and> drawn_from br a))"

locale adapter_contract =
  fixes dec :: "u8 list \<Rightarrow> (string, bid_response) res" and a :: bidder
  assumes known_imps: "sends_known (req_imp r) (fst (make_requests a r info))"
    and from_answer: "answers dec p (make_bids a r rd p)"
begin

lemma bid_of_body:
  assumes "make_bids a r rd p = Inr br" "tb \<in> set (br_bids br)"
  shows "success (rs_status_code p) \<and> (\<exists>b br'. dec (rs_body p) = Inr br' \<and> b \<in> set (response_bids br') \<and> same_bid b (tb_bid tb))"
  using from_answer [of p r rd] assms by (fastforce simp: answers_def drawn_from_def)

text \<open>Every bid of the result of calling the bidder comes from the body of one of the HTTP calls made, with status 200.\<close>

lemma call_bid:
  assumes "br \<in> set (call_responses a r (rd, out))" "tb \<in> set (br_bids br)"
  shows "\<exists>p c b br'. out = Inr (p, c) \<and> success (rs_status_code p) \<and> dec (rs_body p) = Inr br' \<and> b \<in> set (response_bids br') \<and> same_bid b (tb_bid tb)"
proof (cases out)
  case (Inr pc)
  obtain p c where [simp]: "pc = (p, c)" by (cases pc)
  from assms(1) Inr have "make_bids a r rd p = Inr br"
    by (auto split: if_splits sum.splits)
  with bid_of_body [OF this assms(2)] Inr show ?thesis
    by auto
qed (use assms in simp)

end

named_theorems contract_simps \<open>rules that show the contract for the building blocks\<close>
named_theorems contracts \<open>the contracts of the adapters\<close>

lemma contractI:
  assumes "\<And>r info. sends_known (req_imp r) (fst (make_requests a r info))"
    and "\<And>p r rd. answers dec p (make_bids a r rd p)"
  shows "adapter_contract dec a"
  using assms by (rule adapter_contract.intro)

section \<open>Rules for the building blocks\<close>

lemma same_bid_refl [contract_simps]: "same_bid b b"
  by (simp add: same_bid_def)

lemma tb_bid_new [simp]: "tb_bid (typed_bid_new b t) = b"
  by (simp add: typed_bid_new_def)

lemma sends_known_simps [contract_simps]:
  "sends_known imps []"
  "sends_known imps (rd # rds) = (set (rd_imp_ids rd) \<subseteq> set (get_imp_ids imps) \<and> sends_known imps rds)"
  "sends_known imps (rds @ rds') = (sends_known imps rds \<and> sends_known imps rds')"
  by (auto simp: sends_known_def)

lemma post_ids [contract_simps]: "rd_imp_ids (post uri hdrs ids body) = ids"
  by (simp add: post_def)

lemma encode_known [contract_simps]:
  "(\<And>body. set (rd_imp_ids (k body)) \<subseteq> set (get_imp_ids imps)) \<Longrightarrow> sends_known imps (fst (encode z bad r k))"
  by (auto simp: encode_def sends_known_def split: sum.split)

lemma encode_errs_known [contract_simps]:
  "(\<And>body. set (rd_imp_ids (k body)) \<subseteq> set (get_imp_ids imps)) \<Longrightarrow> sends_known imps (fst (encode_errs z fl es r k))"
  by (auto simp: encode_errs_def sends_known_def split: sum.split)

lemma whole_known [contract_simps]: "req_imp r = imps \<Longrightarrow> sends_known imps (fst (whole z uri hdrs r))"
  by (auto simp: whole_def encode_known post_ids)

lemma fst_none_valid [contract_simps]: "fst (none_valid m out) = fst out"
  by (cases out) (simp add: none_valid_def)

lemma sends_known_split [contract_simps]:
  "sends_known imps (fst (if c then x else y)) = ((c \<longrightarrow> sends_known imps (fst x)) \<and> (\<not> c \<longrightarrow> sends_known imps (fst y)))"
  "sends_known imps (fst (case v of None \<Rightarrow> x | Some w \<Rightarrow> f w)) = ((v = None \<longrightarrow> sends_known imps (fst x)) \<and> (\<forall>w. v = Some w \<longrightarrow> sends_known imps (fst (f w))))"
  "sends_known imps (fst (case l of [] \<Rightarrow> x | h # t \<Rightarrow> g h t)) = ((l = [] \<longrightarrow> sends_known imps (fst x)) \<and> (\<forall>h t. l = h # t \<longrightarrow> sends_known imps (fst (g h t))))"
  "sends_known imps (fst (case s of Inl e \<Rightarrow> p e | Inr w \<Rightarrow> q w)) = ((\<forall>e. s = Inl e \<longrightarrow> sends_known imps (fst (p e))) \<and> (\<forall>w. s = Inr w \<longrightarrow> sends_known imps (fst (q w))))"
  by (simp_all split: option.splits list.splits sum.splits)

lemma collect_ok_mem: "y \<in> set (fst (collect_ok f xs)) \<Longrightarrow> \<exists>x \<in> set xs. f x = Inr y"
  by (induction xs) (auto split: prod.splits sum.splits)

lemma strict_ok_mem: "strict_ok f xs = Inr ys \<Longrightarrow> y \<in> set ys \<Longrightarrow> \<exists>x \<in> set xs. f x = Inr y"
  by (induction xs arbitrary: ys) (auto split: sum.splits)

lemma get_imp_ids_mem [contract_simps]: "i \<in> set imps \<Longrightarrow> imp_id i \<in> set (get_imp_ids imps)"
  by (simp add: get_imp_ids_def)

definition imp_request_ok :: "imp \<Rightarrow> (bidder_error, request_data) res \<Rightarrow> bool" where
  "imp_request_ok i x = (case x of Inl _ \<Rightarrow> True | Inr rd \<Rightarrow> set (rd_imp_ids rd) \<subseteq> {imp_id i})"

lemma each_imp_known_self [contract_simps]:
  "(\<And>i. imp_request_ok i (f i)) \<Longrightarrow> sends_known is (fst (each_imp f is))"
  by (fastforce dest!: collect_ok_mem simp: sends_known_def imp_request_ok_def get_imp_ids_def split: sum.splits)

lemma every_imp_known [contract_simps]:
  "(\<And>i. imp_request_ok i (f i)) \<Longrightarrow> sends_known is (fst (every_imp f is))"
  by (fastforce dest!: strict_ok_mem simp: every_imp_def sends_known_def imp_request_ok_def get_imp_ids_def split: sum.splits)

lemma each_imp_many_known [contract_simps]:
  assumes "\<And>i x. x \<in> set (f i) \<Longrightarrow> imp_request_ok i x"
  shows "sends_known is (fst (each_imp_many f is))"
  using assms
  by (fastforce dest!: collect_ok_mem simp: each_imp_many_def sends_known_def imp_request_ok_def get_imp_ids_def split: sum.splits)

text \<open>Impressions that are checked and rewritten before one request is made of all of them.\<close>

definition keeps_id :: "(imp \<Rightarrow> ('e, imp) res) \<Rightarrow> bool" where
  "keeps_id f = (\<forall>i j. f i = Inr j \<longrightarrow> imp_id j = imp_id i)"

lemma keeps_id_ids [contract_simps]: "keeps_id f \<Longrightarrow> set (get_imp_ids (fst (collect_ok f is))) \<subseteq> set (get_imp_ids is)"
  by (fastforce dest!: collect_ok_mem simp: keeps_id_def get_imp_ids_def)

lemma keeps_id_strict: "keeps_id f \<Longrightarrow> strict_ok f is = Inr js \<Longrightarrow> get_imp_ids js = get_imp_ids is"
  by (induction "is" arbitrary: js) (auto simp: keeps_id_def get_imp_ids_def split: sum.splits)

lemma each_imp_enumerate [contract_simps]:
  assumes "\<And>n i. imp_request_ok i (f (n, i))"
  shows "sends_known is (fst (each_imp f (List.enumerate k is)))"
  using assms in_set_enumerate_eq [of _ k "is"]
  by (fastforce dest!: collect_ok_mem simp: sends_known_def imp_request_ok_def get_imp_ids_def split: sum.splits)

lemma ids_drop_first_ext [contract_simps]: "get_imp_ids (req_imp (drop_first_ext r)) = get_imp_ids (req_imp r)"
  by (simp add: drop_first_ext_def get_imp_ids_def split: list.splits)

lemma imp_request_ok_simps [contract_simps]:
  "imp_request_ok i (Inl e)"
  "imp_request_ok i (Inr rd) = (set (rd_imp_ids rd) \<subseteq> {imp_id i})"
  "imp_request_ok i (if c then x else y) = ((c \<longrightarrow> imp_request_ok i x) \<and> (\<not> c \<longrightarrow> imp_request_ok i y))"
  by (simp_all add: imp_request_ok_def)

lemma imp_request_ok_split [contract_simps]:
  "imp_request_ok i (case v of None \<Rightarrow> x | Some w \<Rightarrow> f w) = ((v = None \<longrightarrow> imp_request_ok i x) \<and> (\<forall>w. v = Some w \<longrightarrow> imp_request_ok i (f w)))"
  "imp_request_ok i (case s of Inl e \<Rightarrow> p e | Inr w \<Rightarrow> q w) = ((\<forall>e. s = Inl e \<longrightarrow> imp_request_ok i (p e)) \<and> (\<forall>w. s = Inr w \<longrightarrow> imp_request_ok i (q w)))"
  by (simp_all split: option.splits sum.splits)

lemma imp_request_ok_encode [contract_simps]:
  "(\<And>body. set (rd_imp_ids (k body)) \<subseteq> {imp_id i}) \<Longrightarrow> imp_request_ok i (encode_imp z bad r k)"
  by (auto simp: encode_imp_def imp_request_ok_def split: sum.splits)

lemma placement_request_ok [contract_simps]: "imp_request_ok i (placement_request z e r n i)"
  by (simp add: placement_request_def contract_simps)

lemma answers_Inl [contract_simps]: "answers dec p (Inl es)"
  by (simp add: answers_def)

lemma answers_none [contract_simps]: "answers dec p (Inr bidder_response_new)"
  by (simp add: answers_def bidder_response_new_def)

definition gate_ok :: "(response_data \<Rightarrow> bid_answer option) \<Rightarrow> bool" where
  "gate_ok g = (\<forall>p. case g p of None \<Rightarrow> success (rs_status_code p) | Some (Inl _) \<Rightarrow> True | Some (Inr r) \<Rightarrow> br_bids r = [])"

definition refuses :: "(nat \<Rightarrow> bidder_error option) \<Rightarrow> bool" where
  "refuses refuse = (\<forall>s. refuse s = None \<longrightarrow> success s)"

lemma refuses_simps [contract_simps]:
  "refuses refuse_std" "refuses (refuse_400 m n)" "refuses (refuse_any n)" "refuses (refuse_input n)"
  by (auto simp: refuses_def success_def refuse_std_def check_response_status_def refuse_400_def refuse_any_def refuse_input_def split: if_splits)

lemma refuses_first [contract_simps]: "refuses r \<Longrightarrow> refuses (refuse_first n e r)"
  by (simp add: refuses_def refuse_first_def)

lemma gate_ok_gate [contract_simps]: "refuses refuse \<Longrightarrow> gate_ok (gate refuse)"
  by (auto simp: gate_ok_def gate_def refuses_def bidder_response_new_def split: option.splits sum.splits)

lemma gate_ok_gate_by [contract_simps]: "gate_ok (gate_by special other)"
  by (auto simp: gate_ok_def gate_by_def success_def bidder_response_new_def split: option.splits sum.splits)

lemma answers_on_body [contract_simps]:
  assumes "gate_ok g" "\<And>br. drawn_from br (k br)"
  shows "answers (sj_from_slice z) p (on_body z g und p k)"
proof (cases "sj_from_slice z (rs_body p)")
  case (Inr br)
  then show ?thesis
    using assms(1) [unfolded gate_ok_def, rule_format, of p] assms(2) [of br]
    by (auto simp: on_body_def answers_def split: option.splits sum.splits)
qed (use assms(1) [unfolded gate_ok_def, rule_format, of p] in \<open>auto simp: on_body_def answers_def split: option.splits sum.splits\<close>)

lemma drawn_from_Inl [contract_simps]: "drawn_from br (Inl es)"
  by (simp add: drawn_from_def)

lemma drawn_from_none [contract_simps]: "drawn_from br (Inr bidder_response_new)"
  by (simp add: drawn_from_def bidder_response_new_def)

lemma drawn_from_if [contract_simps]:
  "drawn_from br (if c then x else y) = ((c \<longrightarrow> drawn_from br x) \<and> (\<not> c \<longrightarrow> drawn_from br y))"
  by simp

definition keeps_bid :: "(bid \<Rightarrow> (bidder_error, typed_bid) res) \<Rightarrow> bool" where
  "keeps_bid f = (\<forall>b t. f b = Inr t \<longrightarrow> same_bid b (tb_bid t))"

lemma keeps_bid_simps [contract_simps]: "keeps_bid (typed_as t)" "keeps_bid (typed_by g)" "keeps_bid (typed_total h)"
  by (auto simp: keeps_bid_def typed_as_def typed_by_def typed_total_def same_bid_def split: sum.splits)

lemma keeps_bid_with [contract_simps]:
  "(\<And>b. same_bid b (g b)) \<Longrightarrow> keeps_bid (typed_with g f)" "keeps_bid (with_video v f)"
  "keeps_bid (with_parts v m f)"
  by (auto simp: keeps_bid_def typed_with_def with_video_def with_parts_def same_bid_refl split: sum.splits)

lemma br_bids_answer_of [simp]: "br_bids (answer_of c ts) = ts"
  by (simp add: answer_of_def)

lemma drawn_from_typed [contract_simps]:
  assumes "keeps_bid f"
  shows "drawn_from br (keep_typed cur f br)" "drawn_from br (some_typed cur f br)" "drawn_from br (no_errors cur f br)"
    "drawn_from br (all_typed cur f br)"
  using assms collect_ok_mem [of _ f "response_bids br"] strict_ok_mem [of f "response_bids br"]
  by (fastforce simp: drawn_from_def keep_typed_def some_typed_def no_errors_def all_typed_def keeps_bid_def split: prod.splits sum.splits)+

lemma drawn_from_some_seats [contract_simps]:
  "drawn_from br none \<Longrightarrow> drawn_from br (k br) \<Longrightarrow> drawn_from br (some_seats none k br)"
  by (simp add: some_seats_def)

lemma drawn_from_some_first_bid [contract_simps]:
  "drawn_from br none \<Longrightarrow> drawn_from br (k br) \<Longrightarrow> drawn_from br (some_first_bid none k br)"
  by (simp add: some_first_bid_def)

lemma drawn_from_first_seat [contract_simps]:
  assumes "\<And>br. drawn_from br (k br)"
  shows "drawn_from br (on_first_seat k br)"
proof -
  have "set (response_bids (br\<lparr>resp_seatbid := take 1 (resp_seatbid br)\<rparr>)) \<subseteq> set (response_bids br)"
    by (auto simp: response_bids_def dest: in_set_takeD)
  then show ?thesis
    using assms [of "br\<lparr>resp_seatbid := take 1 (resp_seatbid br)\<rparr>"]
    by (fastforce simp: on_first_seat_def drawn_from_def split: sum.splits)
qed

lemma drawn_from_first_bid [contract_simps]: "keeps_bid f \<Longrightarrow> drawn_from br (on_first_bid e e' f br)"
  by (force simp: on_first_bid_def drawn_from_def keeps_bid_def response_bids_def split: list.splits sum.splits)

lemma drawn_from_keep_or_new [contract_simps]: "keeps_bid f \<Longrightarrow> drawn_from br (keep_or_new cur f br)"
  using collect_ok_mem [of _ f "response_bids br"]
  by (fastforce simp: keep_or_new_def drawn_from_def keeps_bid_def bidder_response_new_def split: list.splits)

lemma drawn_from_keep_some [contract_simps]: "drawn_from br (keep_some cur ty br)"
  by (auto simp: keep_some_def drawn_from_def same_bid_def map_filter_def)

lemma get_imp_ids_simps [contract_simps]: "get_imp_ids [] = []" "get_imp_ids (i # is) = imp_id i # get_imp_ids is"
  by (simp_all add: get_imp_ids_def)

end
