(* ===== verification/AdaptersA.thy ===== *)
theory AdaptersA
  imports AdapterKit
begin

text \<open>
  Adapters that send the bid request in one piece or by impression and type bids by a fixed media type, by the impression or by
  the \<^verbatim>\<open>mtype\<close> of the bid.  Each adapter has its two methods, the record that pairs them, and its contract.
\<close>

section \<open>One request, one media type\<close>

definition huaweiads_make_requests :: "adapter_serde \<Rightarrow> string \<Rightarrow> bid_request \<Rightarrow> extra_request_info \<Rightarrow> requests_out" where
  "huaweiads_make_requests z endpoint request info =
     whole z endpoint [content_json8, accept_json] request"

definition huaweiads_make_bids :: "adapter_serde \<Rightarrow> bid_request \<Rightarrow> request_data \<Rightarrow> response_data \<Rightarrow> bid_answer" where
  "huaweiads_make_bids z request rd response =
     on_body z (gate refuse_std) BadServerResponse response (keep_typed cur_usd (typed_total (by_imp BtBanner request)))"

definition huaweiads_adapter :: "adapter_serde \<Rightarrow> string \<Rightarrow> bidder" where
  "huaweiads_adapter z endpoint = \<lparr>make_requests = huaweiads_make_requests z endpoint, make_bids = huaweiads_make_bids z\<rparr>"

lemma huaweiads_contract [contracts]: "adapter_contract (sj_from_slice z) (huaweiads_adapter z endpoint)"
  by (rule contractI) (simp_all add: huaweiads_adapter_def huaweiads_make_requests_def huaweiads_make_bids_def contract_simps)

definition automatad_make_requests :: "adapter_serde \<Rightarrow> string \<Rightarrow> bid_request \<Rightarrow> extra_request_info \<Rightarrow> requests_out" where
  "automatad_make_requests z endpoint request info =
     whole z endpoint [content_json8, accept_json] request"

definition automatad_make_bids :: "adapter_serde \<Rightarrow> bid_request \<Rightarrow> request_data \<Rightarrow> response_data \<Rightarrow> bid_answer" where
  "automatad_make_bids z request rd response =
     on_body z (gate refuse_std) BadServerResponse response (keep_typed cur_usd (typed_total (by_imp BtBanner request)))"

definition automatad_adapter :: "adapter_serde \<Rightarrow> string \<Rightarrow> bidder" where
  "automatad_adapter z endpoint = \<lparr>make_requests = automatad_make_requests z endpoint, make_bids = automatad_make_bids z\<rparr>"

lemma automatad_contract [contracts]: "adapter_contract (sj_from_slice z) (automatad_adapter z endpoint)"
  by (rule contractI) (simp_all add: automatad_adapter_def automatad_make_requests_def automatad_make_bids_def contract_simps)

definition openaudience_make_requests :: "adapter_serde \<Rightarrow> string \<Rightarrow> bid_request \<Rightarrow> extra_request_info \<Rightarrow> requests_out" where
  "openaudience_make_requests z endpoint request info =
     whole z endpoint [content_json8, accept_json] request"

definition openaudience_make_bids :: "adapter_serde \<Rightarrow> bid_request \<Rightarrow> request_data \<Rightarrow> response_data \<Rightarrow> bid_answer" where
  "openaudience_make_bids z request rd response =
     on_body z (gate refuse_std) BadServerResponse response (keep_typed cur_nonempty (typed_total (by_imp BtBanner request)))"

definition openaudience_adapter :: "adapter_serde \<Rightarrow> string \<Rightarrow> bidder" where
  "openaudience_adapter z endpoint = \<lparr>make_requests = openaudience_make_requests z endpoint, make_bids = openaudience_make_bids z\<rparr>"

lemma openaudience_contract [contracts]: "adapter_contract (sj_from_slice z) (openaudience_adapter z endpoint)"
  by (rule contractI) (simp_all add: openaudience_adapter_def openaudience_make_requests_def openaudience_make_bids_def contract_simps)

definition spike_make_requests :: "adapter_serde \<Rightarrow> string \<Rightarrow> bid_request \<Rightarrow> extra_request_info \<Rightarrow> requests_out" where
  "spike_make_requests z endpoint request info =
     whole z endpoint [content_json8, accept_json] request"

definition spike_make_bids :: "adapter_serde \<Rightarrow> bid_request \<Rightarrow> request_data \<Rightarrow> response_data \<Rightarrow> bid_answer" where
  "spike_make_bids z request rd response =
     on_body z (gate refuse_std) BadServerResponse response (keep_typed cur_nonempty (typed_total (by_imp BtBanner request)))"

definition spike_adapter :: "adapter_serde \<Rightarrow> string \<Rightarrow> bidder" where
  "spike_adapter z endpoint = \<lparr>make_requests = spike_make_requests z endpoint, make_bids = spike_make_bids z\<rparr>"

lemma spike_contract [contracts]: "adapter_contract (sj_from_slice z) (spike_adapter z endpoint)"
  by (rule contractI) (simp_all add: spike_adapter_def spike_make_requests_def spike_make_bids_def contract_simps)

definition cwire_make_requests :: "adapter_serde \<Rightarrow> string \<Rightarrow> bid_request \<Rightarrow> extra_request_info \<Rightarrow> requests_out" where
  "cwire_make_requests z endpoint request info =
     encode z (\<lambda>e. BadInput (''Error while encoding OpenRTB BidRequest: '' @ e)) request
       (post endpoint [content_json8, accept_json] (get_imp_ids (req_imp request)))"

definition cwire_make_bids :: "adapter_serde \<Rightarrow> bid_request \<Rightarrow> request_data \<Rightarrow> response_data \<Rightarrow> bid_answer" where
  "cwire_make_bids z request rd response =
     on_body z (gate (refuse_any usc_debug)) (\<lambda>e. BadServerResponse (''Error while decoding response, err: '' @ e)) response
       (keep_typed cur_some (typed_as BtBanner))"

definition cwire_adapter :: "adapter_serde \<Rightarrow> string \<Rightarrow> bidder" where
  "cwire_adapter z endpoint = \<lparr>make_requests = cwire_make_requests z endpoint, make_bids = cwire_make_bids z\<rparr>"

lemma cwire_contract [contracts]: "adapter_contract (sj_from_slice z) (cwire_adapter z endpoint)"
  by (rule contractI) (simp_all add: cwire_adapter_def cwire_make_requests_def cwire_make_bids_def contract_simps)

definition feedad_make_requests :: "adapter_serde \<Rightarrow> string \<Rightarrow> bid_request \<Rightarrow> extra_request_info \<Rightarrow> requests_out" where
  "feedad_make_requests z endpoint request info =
     whole z endpoint
       ([accept_json, content_json8, (''X-FA-PBS-Adapter-Version'', ''1.0.0''), (''X-Openrtb-Version'', ''2.5'')]
        @ dev_header request ''X-Forwarded-For'' device_ipv6 @ dev_header request ''X-Forwarded-For'' device_ip) request"

definition feedad_make_bids :: "adapter_serde \<Rightarrow> bid_request \<Rightarrow> request_data \<Rightarrow> response_data \<Rightarrow> bid_answer" where
  "feedad_make_bids z request rd response =
     on_body z (gate refuse_std) BadServerResponse response (keep_typed cur_some (typed_as BtBanner))"

definition feedad_adapter :: "adapter_serde \<Rightarrow> string \<Rightarrow> bidder" where
  "feedad_adapter z endpoint = \<lparr>make_requests = feedad_make_requests z endpoint, make_bids = feedad_make_bids z\<rparr>"

lemma feedad_contract [contracts]: "adapter_contract (sj_from_slice z) (feedad_adapter z endpoint)"
  by (rule contractI) (simp_all add: feedad_adapter_def feedad_make_requests_def feedad_make_bids_def contract_simps)

definition optidigital_make_requests :: "adapter_serde \<Rightarrow> string \<Rightarrow> bid_request \<Rightarrow> extra_request_info \<Rightarrow> requests_out" where
  "optidigital_make_requests z endpoint request info =
     whole z endpoint [content_json8, accept_json] request"

definition optidigital_make_bids :: "adapter_serde \<Rightarrow> bid_request \<Rightarrow> request_data \<Rightarrow> response_data \<Rightarrow> bid_answer" where
  "optidigital_make_bids z request rd response =
     on_body z (gate refuse_std) (\<lambda>_. BadServerResponse ''Bad Server Response'') response (keep_typed cur_some (typed_as BtBanner))"

definition optidigital_adapter :: "adapter_serde \<Rightarrow> string \<Rightarrow> bidder" where
  "optidigital_adapter z endpoint = \<lparr>make_requests = optidigital_make_requests z endpoint, make_bids = optidigital_make_bids z\<rparr>"

lemma optidigital_contract [contracts]: "adapter_contract (sj_from_slice z) (optidigital_adapter z endpoint)"
  by (rule contractI) (simp_all add: optidigital_adapter_def optidigital_make_requests_def optidigital_make_bids_def contract_simps)

definition smartx_make_requests :: "adapter_serde \<Rightarrow> string \<Rightarrow> bid_request \<Rightarrow> extra_request_info \<Rightarrow> requests_out" where
  "smartx_make_requests z endpoint request info =
     encode z (\<lambda>e. BadInput (''marshal bidRequest: '' @ e)) request
       (post endpoint
          ([content_json8, openrtb25] @ dev_header request ''User-Agent'' device_ua
           @ map (\<lambda>(k, ip). (k, ''for='' @ ip)) (dev_header request ''Forwarded'' device_ip) @ dev_header request ''X-Forwarded-For'' device_ip)
          (get_imp_ids (req_imp request)))"

definition smartx_make_bids :: "adapter_serde \<Rightarrow> bid_request \<Rightarrow> request_data \<Rightarrow> response_data \<Rightarrow> bid_answer" where
  "smartx_make_bids z request rd response =
     on_body z (gate refuse_std) BadServerResponse response
       (some_seats (Inl [BadServerResponse ''no bidders found in JSON response'']) (keep_typed cur_nonempty (typed_as BtVideo)))"

definition smartx_adapter :: "adapter_serde \<Rightarrow> string \<Rightarrow> bidder" where
  "smartx_adapter z endpoint = \<lparr>make_requests = smartx_make_requests z endpoint, make_bids = smartx_make_bids z\<rparr>"

lemma smartx_contract [contracts]: "adapter_contract (sj_from_slice z) (smartx_adapter z endpoint)"
  by (rule contractI) (simp_all add: smartx_adapter_def smartx_make_requests_def smartx_make_bids_def contract_simps)

definition ccx_make_requests :: "adapter_serde \<Rightarrow> string \<Rightarrow> bid_request \<Rightarrow> extra_request_info \<Rightarrow> requests_out" where
  "ccx_make_requests z endpoint request info =
     whole z endpoint [] request"

definition ccx_make_bids :: "adapter_serde \<Rightarrow> bid_request \<Rightarrow> request_data \<Rightarrow> response_data \<Rightarrow> bid_answer" where
  "ccx_make_bids z request rd response =
     on_body z (gate (refuse_first 400 (BadInput ''Unexpected status code: 400. Bad request from publisher. Run with request.debug = 1 for more info.'') refuse_std)) BadServerResponse response (keep_typed cur_some (typed_as BtBanner))"

definition ccx_adapter :: "adapter_serde \<Rightarrow> string \<Rightarrow> bidder" where
  "ccx_adapter z endpoint = \<lparr>make_requests = ccx_make_requests z endpoint, make_bids = ccx_make_bids z\<rparr>"

lemma ccx_contract [contracts]: "adapter_contract (sj_from_slice z) (ccx_adapter z endpoint)"
  by (rule contractI) (simp_all add: ccx_adapter_def ccx_make_requests_def ccx_make_bids_def contract_simps)

definition cointraffic_make_requests :: "adapter_serde \<Rightarrow> string \<Rightarrow> bid_request \<Rightarrow> extra_request_info \<Rightarrow> requests_out" where
  "cointraffic_make_requests z endpoint request info =
     whole z endpoint [content_json8, accept_json, openrtb25] request"

definition cointraffic_make_bids :: "adapter_serde \<Rightarrow> bid_request \<Rightarrow> request_data \<Rightarrow> response_data \<Rightarrow> bid_answer" where
  "cointraffic_make_bids z request rd response =
     on_body z (gate refuse_std) BadServerResponse response (keep_typed cur_nonempty (typed_as BtBanner))"

definition cointraffic_adapter :: "adapter_serde \<Rightarrow> string \<Rightarrow> bidder" where
  "cointraffic_adapter z endpoint = \<lparr>make_requests = cointraffic_make_requests z endpoint, make_bids = cointraffic_make_bids z\<rparr>"

lemma cointraffic_contract [contracts]: "adapter_contract (sj_from_slice z) (cointraffic_adapter z endpoint)"
  by (rule contractI) (simp_all add: cointraffic_adapter_def cointraffic_make_requests_def cointraffic_make_bids_def contract_simps)

definition blue_make_requests :: "adapter_serde \<Rightarrow> string \<Rightarrow> bid_request \<Rightarrow> extra_request_info \<Rightarrow> requests_out" where
  "blue_make_requests z endpoint request info =
     whole z endpoint [content_json8] request"

definition blue_make_bids :: "adapter_serde \<Rightarrow> bid_request \<Rightarrow> request_data \<Rightarrow> response_data \<Rightarrow> bid_answer" where
  "blue_make_bids z request rd response =
     on_body z (gate (refuse_400 (\<lambda>s. usc s @ ''.'') (\<lambda>s. usc s @ ''.''))) BadServerResponse response (keep_typed cur_some (typed_as BtBanner))"

definition blue_adapter :: "adapter_serde \<Rightarrow> string \<Rightarrow> bidder" where
  "blue_adapter z endpoint = \<lparr>make_requests = blue_make_requests z endpoint, make_bids = blue_make_bids z\<rparr>"

lemma blue_contract [contracts]: "adapter_contract (sj_from_slice z) (blue_adapter z endpoint)"
  by (rule contractI) (simp_all add: blue_adapter_def blue_make_requests_def blue_make_bids_def contract_simps)

definition coinzilla_make_requests :: "adapter_serde \<Rightarrow> string \<Rightarrow> bid_request \<Rightarrow> extra_request_info \<Rightarrow> requests_out" where
  "coinzilla_make_requests z endpoint request info =
     (if req_imp request = [] then ([], [BadInput ''No impression in the bid request''])
      else whole z endpoint [content_json8, accept_json, openrtb25] request)"

definition coinzilla_make_bids :: "adapter_serde \<Rightarrow> bid_request \<Rightarrow> request_data \<Rightarrow> response_data \<Rightarrow> bid_answer" where
  "coinzilla_make_bids z request rd response =
     on_body z (gate (refuse_any (\<lambda>s. ''Unexpected code: '' @ show_nat s @ ''. Run with request.debug = 1''))) BadServerResponse response
       (some_seats (Inr bidder_response_new) (keep_typed cur_some (typed_as BtBanner)))"

definition coinzilla_adapter :: "adapter_serde \<Rightarrow> string \<Rightarrow> bidder" where
  "coinzilla_adapter z endpoint = \<lparr>make_requests = coinzilla_make_requests z endpoint, make_bids = coinzilla_make_bids z\<rparr>"

lemma coinzilla_contract [contracts]: "adapter_contract (sj_from_slice z) (coinzilla_adapter z endpoint)"
  by (rule contractI) (simp_all add: coinzilla_adapter_def coinzilla_make_requests_def coinzilla_make_bids_def contract_simps)

definition adrino_make_requests :: "adapter_serde \<Rightarrow> string \<Rightarrow> bid_request \<Rightarrow> extra_request_info \<Rightarrow> requests_out" where
  "adrino_make_requests z endpoint request info =
     whole z endpoint [content_json8] request"

definition adrino_make_bids :: "adapter_serde \<Rightarrow> bid_request \<Rightarrow> request_data \<Rightarrow> response_data \<Rightarrow> bid_answer" where
  "adrino_make_bids z request rd response =
     on_body z (gate (refuse_400 usc_debug usc_debug)) BadServerResponse response (keep_typed cur_some (typed_as BtNative))"

definition adrino_adapter :: "adapter_serde \<Rightarrow> string \<Rightarrow> bidder" where
  "adrino_adapter z endpoint = \<lparr>make_requests = adrino_make_requests z endpoint, make_bids = adrino_make_bids z\<rparr>"

lemma adrino_contract [contracts]: "adapter_contract (sj_from_slice z) (adrino_adapter z endpoint)"
  by (rule contractI) (simp_all add: adrino_adapter_def adrino_make_requests_def adrino_make_bids_def contract_simps)

definition interactiveoffers_make_requests :: "adapter_serde \<Rightarrow> string \<Rightarrow> bid_request \<Rightarrow> extra_request_info \<Rightarrow> requests_out" where
  "interactiveoffers_make_requests z endpoint request info =
     (case req_imp request of
        [] \<Rightarrow> ([], [])
      | i # _ \<Rightarrow>
          (case imp_bidder i of
             None \<Rightarrow> ([], [BadInput ''missing bidder ext''])
           | Some _ \<Rightarrow> whole z (str_replace ''{{.AccountID}}'' (str_param i ''partnerId'') endpoint) [content_json8, accept_json] request))"

definition interactiveoffers_make_bids :: "adapter_serde \<Rightarrow> bid_request \<Rightarrow> request_data \<Rightarrow> response_data \<Rightarrow> bid_answer" where
  "interactiveoffers_make_bids z request rd response =
     on_body z (gate (refuse_400 (\<lambda>_. ''Unexpected status code: 400. Bad request from publisher. Run with request.debug = 1 for more info.'')
                                 (\<lambda>s. usc_debug s @ ''.''))) BadServerResponse response
       (keep_typed cur_some (typed_as BtBanner))"

definition interactiveoffers_adapter :: "adapter_serde \<Rightarrow> string \<Rightarrow> bidder" where
  "interactiveoffers_adapter z endpoint = \<lparr>make_requests = interactiveoffers_make_requests z endpoint, make_bids = interactiveoffers_make_bids z\<rparr>"

lemma interactiveoffers_contract [contracts]: "adapter_contract (sj_from_slice z) (interactiveoffers_adapter z endpoint)"
  by (rule contractI) (simp_all add: interactiveoffers_adapter_def interactiveoffers_make_requests_def interactiveoffers_make_bids_def contract_simps)

definition mobkoi_make_requests :: "adapter_serde \<Rightarrow> string \<Rightarrow> bid_request \<Rightarrow> extra_request_info \<Rightarrow> requests_out" where
  "mobkoi_make_requests z endpoint request info =
     (case req_imp request of
        [] \<Rightarrow> ([], [BadInput ''no impressions''])
      | i # ims \<Rightarrow>
          let placement_id = str_param i ''placementId'';
              tag_id = (if placement_id \<noteq> [] then placement_id else unwrap_or [] (imp_tagid i));
              req_copy = request\<lparr>req_imp := i\<lparr>imp_tagid := Some tag_id\<rparr> # ims\<rparr>
          in if tag_id = []
             then ([], [BadInput ''invalid because it comes with neither request.imp[0].tagId nor req.imp[0].ext.Bidder.placementId''])
             else encode z BadInput req_copy (post endpoint [content_json, accept_json] (get_imp_ids (req_imp req_copy))))"

definition mobkoi_make_bids :: "adapter_serde \<Rightarrow> bid_request \<Rightarrow> request_data \<Rightarrow> response_data \<Rightarrow> bid_answer" where
  "mobkoi_make_bids z request rd response =
     on_body z (gate refuse_std) BadServerResponse response (keep_typed cur_some (typed_as BtBanner))"

definition mobkoi_adapter :: "adapter_serde \<Rightarrow> string \<Rightarrow> bidder" where
  "mobkoi_adapter z endpoint = \<lparr>make_requests = mobkoi_make_requests z endpoint, make_bids = mobkoi_make_bids z\<rparr>"

lemma mobkoi_contract [contracts]: "adapter_contract (sj_from_slice z) (mobkoi_adapter z endpoint)"
  by (rule contractI) (simp_all add: mobkoi_adapter_def mobkoi_make_requests_def mobkoi_make_bids_def Let_def contract_simps)

section \<open>Media types by \<^verbatim>\<open>mtype\<close>\<close>

definition vox_make_requests :: "adapter_serde \<Rightarrow> string \<Rightarrow> bid_request \<Rightarrow> extra_request_info \<Rightarrow> requests_out" where
  "vox_make_requests z endpoint request info =
     whole z endpoint [] request"

definition vox_make_bids :: "adapter_serde \<Rightarrow> bid_request \<Rightarrow> request_data \<Rightarrow> response_data \<Rightarrow> bid_answer" where
  "vox_make_bids z request rd response =
     on_body z (gate refuse_std) BadServerResponse response
       (all_typed cur_default
          (typed_by (\<lambda>b. if mtype_of b = 0 then Inl (BadServerResponse (''Unable to fetch mediaType in multi-format: '' @ bid_impid b))
                         else Inr (get_bid_type_from_mtype (mtype_of b)))))"

definition vox_adapter :: "adapter_serde \<Rightarrow> string \<Rightarrow> bidder" where
  "vox_adapter z endpoint = \<lparr>make_requests = vox_make_requests z endpoint, make_bids = vox_make_bids z\<rparr>"

lemma vox_contract [contracts]: "adapter_contract (sj_from_slice z) (vox_adapter z endpoint)"
  by (rule contractI) (simp_all add: vox_adapter_def vox_make_requests_def vox_make_bids_def contract_simps)

definition zentotem_make_requests :: "adapter_serde \<Rightarrow> string \<Rightarrow> bid_request \<Rightarrow> extra_request_info \<Rightarrow> requests_out" where
  "zentotem_make_requests z endpoint request info =
     each_imp (\<lambda>i. encode_imp z BadInput (request\<lparr>req_imp := [i]\<rparr>) (post endpoint [content_json8] [imp_id i])) (req_imp request)"

definition zentotem_make_bids :: "adapter_serde \<Rightarrow> bid_request \<Rightarrow> request_data \<Rightarrow> response_data \<Rightarrow> bid_answer" where
  "zentotem_make_bids z request rd response =
     on_body z (gate refuse_std) BadServerResponse response
       (some_typed cur_nonempty
          (typed_by (\<lambda>b. if mtype_of b = 0 then Inl (BadServerResponse (''could not define media type for impression: '' @ bid_impid b))
                         else Inr (get_bid_type_from_mtype (mtype_of b)))))"

definition zentotem_adapter :: "adapter_serde \<Rightarrow> string \<Rightarrow> bidder" where
  "zentotem_adapter z endpoint = \<lparr>make_requests = zentotem_make_requests z endpoint, make_bids = zentotem_make_bids z\<rparr>"

lemma zentotem_contract [contracts]: "adapter_contract (sj_from_slice z) (zentotem_adapter z endpoint)"
  by (rule contractI) (simp_all add: zentotem_adapter_def zentotem_make_requests_def zentotem_make_bids_def contract_simps)

definition adxcg_mtype_to_bid_type :: "bid \<Rightarrow> (bidder_error, bid_type) res" where
  "adxcg_mtype_to_bid_type = mtype_table [mt_banner, mt_video, mt_native, mt_audio] (\<lambda>_. BadServerResponse ''Unsupported return type'')"

definition adxcg_make_requests :: "adapter_serde \<Rightarrow> string \<Rightarrow> bid_request \<Rightarrow> extra_request_info \<Rightarrow> requests_out" where
  "adxcg_make_requests z endpoint request info =
     whole z endpoint [content_json8] request"

definition adxcg_make_bids :: "adapter_serde \<Rightarrow> bid_request \<Rightarrow> request_data \<Rightarrow> response_data \<Rightarrow> bid_answer" where
  "adxcg_make_bids z request rd response =
     on_body z (gate (refuse_400 usc_debug usc_debug)) BadServerResponse response (keep_typed cur_some (typed_by adxcg_mtype_to_bid_type))"

definition adxcg_adapter :: "adapter_serde \<Rightarrow> string \<Rightarrow> bidder" where
  "adxcg_adapter z endpoint = \<lparr>make_requests = adxcg_make_requests z endpoint, make_bids = adxcg_make_bids z\<rparr>"

lemma adxcg_contract [contracts]: "adapter_contract (sj_from_slice z) (adxcg_adapter z endpoint)"
  by (rule contractI) (simp_all add: adxcg_adapter_def adxcg_make_requests_def adxcg_make_bids_def contract_simps)

definition smrtconnect_make_requests :: "adapter_serde \<Rightarrow> string \<Rightarrow> bid_request \<Rightarrow> extra_request_info \<Rightarrow> requests_out" where
  "smrtconnect_make_requests z endpoint request info =
     each_imp (\<lambda>i. encode_imp z BadInput (request\<lparr>req_imp := [i\<lparr>imp_jext := None\<rparr>]\<rparr>)
                     (post (str_replace ''{{.SupplyId}}'' (str_param i ''supply_id'') endpoint) [content_json8] [imp_id i])) (req_imp request)"

definition smrtconnect_make_bids :: "adapter_serde \<Rightarrow> bid_request \<Rightarrow> request_data \<Rightarrow> response_data \<Rightarrow> bid_answer" where
  "smrtconnect_make_bids z request rd response =
     on_body z (gate refuse_std) (\<lambda>_. BadServerResponse ''Bad Server Response'') response
       (some_seats (Inl [BadServerResponse ''Empty SeatBid array''])
          (some_typed cur_nonempty
             (typed_by (\<lambda>b. case bid_mtype b of
                              Some m \<Rightarrow> if m > 0 then Inr (get_bid_type_from_mtype m)
                                       else Inl (BadInput (''Could not define media type for impression: '' @ bid_impid b))
                            | None \<Rightarrow> Inl (BadInput (''Could not define media type for impression: '' @ bid_impid b))))))"

definition smrtconnect_adapter :: "adapter_serde \<Rightarrow> string \<Rightarrow> bidder" where
  "smrtconnect_adapter z endpoint = \<lparr>make_requests = smrtconnect_make_requests z endpoint, make_bids = smrtconnect_make_bids z\<rparr>"

lemma smrtconnect_contract [contracts]: "adapter_contract (sj_from_slice z) (smrtconnect_adapter z endpoint)"
  by (rule contractI) (simp_all add: smrtconnect_adapter_def smrtconnect_make_requests_def smrtconnect_make_bids_def contract_simps)

definition trustedstack_bid_type :: "bid \<Rightarrow> (bidder_error, bid_type) res" where
  "trustedstack_bid_type =
     mtype_table [mt_banner, mt_video, mt_native] (\<lambda>b. BadServerResponse (''unable to fetch mediaType for imp: '' @ bid_impid b))"

definition trustedstack_make_requests :: "adapter_serde \<Rightarrow> string \<Rightarrow> bid_request \<Rightarrow> extra_request_info \<Rightarrow> requests_out" where
  "trustedstack_make_requests z endpoint request info =
     whole z endpoint [content_json8] request"

definition trustedstack_make_bids :: "adapter_serde \<Rightarrow> bid_request \<Rightarrow> request_data \<Rightarrow> response_data \<Rightarrow> bid_answer" where
  "trustedstack_make_bids z request rd response =
     on_body z (gate (refuse_400 usc_debug usc_debug)) BadServerResponse response (keep_typed cur_usd (typed_by trustedstack_bid_type))"

definition trustedstack_adapter :: "adapter_serde \<Rightarrow> string \<Rightarrow> bidder" where
  "trustedstack_adapter z endpoint = \<lparr>make_requests = trustedstack_make_requests z endpoint, make_bids = trustedstack_make_bids z\<rparr>"

lemma trustedstack_contract [contracts]: "adapter_contract (sj_from_slice z) (trustedstack_adapter z endpoint)"
  by (rule contractI) (simp_all add: trustedstack_adapter_def trustedstack_make_requests_def trustedstack_make_bids_def contract_simps)

definition medianet_bid_type :: "bid \<Rightarrow> (bidder_error, bid_type) res" where
  "medianet_bid_type =
     mtype_table [mt_banner, mt_video, mt_native] (\<lambda>b. BadServerResponse (''Unable to fetch mediaType for imp: '' @ bid_impid b))"

definition medianet_make_requests :: "adapter_serde \<Rightarrow> string \<Rightarrow> bid_request \<Rightarrow> extra_request_info \<Rightarrow> requests_out" where
  "medianet_make_requests z endpoint request info =
     whole z endpoint [content_json8] request"

definition medianet_make_bids :: "adapter_serde \<Rightarrow> bid_request \<Rightarrow> request_data \<Rightarrow> response_data \<Rightarrow> bid_answer" where
  "medianet_make_bids z request rd response =
     on_body z (gate (refuse_400 usc_debug usc_debug)) BadServerResponse response (some_typed cur_usd (typed_by medianet_bid_type))"

definition medianet_adapter :: "adapter_serde \<Rightarrow> string \<Rightarrow> bidder" where
  "medianet_adapter z endpoint = \<lparr>make_requests = medianet_make_requests z endpoint, make_bids = medianet_make_bids z\<rparr>"

lemma medianet_contract [contracts]: "adapter_contract (sj_from_slice z) (medianet_adapter z endpoint)"
  by (rule contractI) (simp_all add: medianet_adapter_def medianet_make_requests_def medianet_make_bids_def contract_simps)

fun rise_extract_org :: "imp list \<Rightarrow> (bidder_error, string) res" where
  "rise_extract_org [] = Inl (BadInput ''no org or publisher_id supplied'')"
| "rise_extract_org (i # ims) =
     (let org = trim_str (str_param i ''org''); pub_id = trim_str (str_param i ''publisher_id'')
      in if org \<noteq> [] then Inr org else if pub_id \<noteq> [] then Inr pub_id else rise_extract_org ims)"

definition rise_bid_type :: "bid \<Rightarrow> (bidder_error, bid_type) res" where
  "rise_bid_type = mtype_table [mt_banner, mt_video, mt_native] (\<lambda>b. BadServerResponse (''unsupported MType '' @ show_int (mtype_of b)))"

definition rise_make_requests :: "adapter_serde \<Rightarrow> string \<Rightarrow> bid_request \<Rightarrow> extra_request_info \<Rightarrow> requests_out" where
  "rise_make_requests z endpoint request info =
     (case rise_extract_org (req_imp request) of
        Inl e \<Rightarrow> ([], [e])
      | Inr org \<Rightarrow> whole z (endpoint @ ''?publisher_id='' @ org) [content_json8] request)"

definition rise_make_bids :: "adapter_serde \<Rightarrow> bid_request \<Rightarrow> request_data \<Rightarrow> response_data \<Rightarrow> bid_answer" where
  "rise_make_bids z request rd response =
     on_body z (gate refuse_std) BadServerResponse response (some_typed cur_nonempty (typed_by rise_bid_type))"

definition rise_adapter :: "adapter_serde \<Rightarrow> string \<Rightarrow> bidder" where
  "rise_adapter z endpoint = \<lparr>make_requests = rise_make_requests z endpoint, make_bids = rise_make_bids z\<rparr>"

lemma rise_contract [contracts]: "adapter_contract (sj_from_slice z) (rise_adapter z endpoint)"
  by (rule contractI) (simp_all add: rise_adapter_def rise_make_requests_def rise_make_bids_def contract_simps)

definition vrtcal_bid_type :: "bid \<Rightarrow> (bidder_error, bid_type) res" where
  "vrtcal_bid_type = mtype_table [mt_banner, mt_video, mt_native] (\<lambda>_. BadServerResponse ''Unsupported return type'')"

definition vrtcal_make_requests :: "adapter_serde \<Rightarrow> string \<Rightarrow> bid_request \<Rightarrow> extra_request_info \<Rightarrow> requests_out" where
  "vrtcal_make_requests z endpoint request info =
     whole z endpoint [content_json8] request"

definition vrtcal_make_bids :: "adapter_serde \<Rightarrow> bid_request \<Rightarrow> request_data \<Rightarrow> response_data \<Rightarrow> bid_answer" where
  "vrtcal_make_bids z request rd response =
     on_body z (gate (refuse_400 usc_debug usc_debug)) BadServerResponse response (keep_typed cur_usd (typed_by vrtcal_bid_type))"

definition vrtcal_adapter :: "adapter_serde \<Rightarrow> string \<Rightarrow> bidder" where
  "vrtcal_adapter z endpoint = \<lparr>make_requests = vrtcal_make_requests z endpoint, make_bids = vrtcal_make_bids z\<rparr>"

lemma vrtcal_contract [contracts]: "adapter_contract (sj_from_slice z) (vrtcal_adapter z endpoint)"
  by (rule contractI) (simp_all add: vrtcal_adapter_def vrtcal_make_requests_def vrtcal_make_bids_def contract_simps)

definition aduptech_bid_type :: "bid \<Rightarrow> (bidder_error, bid_type) res" where
  "aduptech_bid_type = mtype_table [mt_native, mt_banner] (\<lambda>b. BadServerResponse (''Unknown markup type: '' @ show_int (mtype_of b)))"

definition aduptech_make_requests :: "adapter_serde \<Rightarrow> string \<Rightarrow> bid_request \<Rightarrow> extra_request_info \<Rightarrow> requests_out" where
  "aduptech_make_requests z endpoint request info =
     whole z endpoint [content_json8] request"

definition aduptech_make_bids :: "adapter_serde \<Rightarrow> bid_request \<Rightarrow> request_data \<Rightarrow> response_data \<Rightarrow> bid_answer" where
  "aduptech_make_bids z request rd response =
     on_body z (gate refuse_std) BadServerResponse response (keep_typed cur_some (typed_by aduptech_bid_type))"

definition aduptech_adapter :: "adapter_serde \<Rightarrow> string \<Rightarrow> bidder" where
  "aduptech_adapter z endpoint = \<lparr>make_requests = aduptech_make_requests z endpoint, make_bids = aduptech_make_bids z\<rparr>"

lemma aduptech_contract [contracts]: "adapter_contract (sj_from_slice z) (aduptech_adapter z endpoint)"
  by (rule contractI) (simp_all add: aduptech_adapter_def aduptech_make_requests_def aduptech_make_bids_def contract_simps)

text \<open>Of a video bid the first category is reported.\<close>

definition oms_bid_video :: "bid \<Rightarrow> bid_type \<Rightarrow> bid_video option" where
  "oms_bid_video b ty =
     (if ty \<noteq> BtVideo then None
      else Some \<lparr>video_duration = 0, video_primary_category = first_category b\<rparr>)"

definition oms_uri :: "string \<Rightarrow> bid_request \<Rightarrow> string" where
  "oms_uri endpoint request =
     (case req_imp request of
        [] \<Rightarrow> endpoint
      | i # _ \<Rightarrow>
          let pid = str_param i ''pid'';
              n = unwrap_or 0 (Option.bind (jpath (imp_bidder i) [''publisherId'']) as_i64)
          in if pid \<noteq> [] then endpoint @ ''?publisherId='' @ pid
             else if n > 0 then endpoint @ ''?publisherId='' @ show_int n else endpoint)"

definition oms_make_requests :: "adapter_serde \<Rightarrow> string \<Rightarrow> bid_request \<Rightarrow> extra_request_info \<Rightarrow> requests_out" where
  "oms_make_requests z endpoint request info =
     whole z (oms_uri endpoint request) [] request"

definition oms_make_bids :: "adapter_serde \<Rightarrow> bid_request \<Rightarrow> request_data \<Rightarrow> response_data \<Rightarrow> bid_answer" where
  "oms_make_bids z request rd response =
     on_body z (gate refuse_std) BadServerResponse response
       (keep_typed cur_usd (with_video oms_bid_video (\<lambda>b. Inr (if mtype_of b = 2 then BtVideo else BtBanner))))"

definition oms_adapter :: "adapter_serde \<Rightarrow> string \<Rightarrow> bidder" where
  "oms_adapter z endpoint = \<lparr>make_requests = oms_make_requests z endpoint, make_bids = oms_make_bids z\<rparr>"

lemma oms_contract [contracts]: "adapter_contract (sj_from_slice z) (oms_adapter z endpoint)"
  by (rule contractI) (simp_all add: oms_adapter_def oms_make_requests_def oms_make_bids_def contract_simps)

definition smoot_bid_type :: "bid \<Rightarrow> (bidder_error, bid_type) res" where
  "smoot_bid_type =
     mtype_table [mt_banner, mt_video, mt_native] (\<lambda>b. BadServerResponse (''could not define media type for impression: '' @ bid_impid b))"

definition publisher_or_network :: "string \<Rightarrow> string \<Rightarrow> json" where
  "publisher_or_network placement_id endpoint_id =
     JObj [(''bidder'', JObj (if placement_id \<noteq> [] then [(''placementId'', JStr placement_id), (''type'', JStr ''publisher'')]
                              else [(''endpointId'', JStr endpoint_id), (''type'', JStr ''network'')]))]"

definition smoot_make_requests :: "adapter_serde \<Rightarrow> string \<Rightarrow> bid_request \<Rightarrow> extra_request_info \<Rightarrow> requests_out" where
  "smoot_make_requests z endpoint request info =
     each_imp (\<lambda>i. case imp_bidder i of
                     None \<Rightarrow> Inl (BadInput ''missing bidder ext in imp'')
                   | Some _ \<Rightarrow> encode_imp z BadInput
                       (request\<lparr>req_imp := [i\<lparr>imp_jext := Some (publisher_or_network (str_param i ''placementId'') (str_param i ''endpointId''))\<rparr>]\<rparr>)
                       (post endpoint [content_json8, accept_json] [imp_id i])) (req_imp request)"

definition smoot_make_bids :: "adapter_serde \<Rightarrow> bid_request \<Rightarrow> request_data \<Rightarrow> response_data \<Rightarrow> bid_answer" where
  "smoot_make_bids z request rd response =
     on_body z (gate refuse_std) BadServerResponse response (all_typed cur_nonempty (typed_by smoot_bid_type))"

definition smoot_adapter :: "adapter_serde \<Rightarrow> string \<Rightarrow> bidder" where
  "smoot_adapter z endpoint = \<lparr>make_requests = smoot_make_requests z endpoint, make_bids = smoot_make_bids z\<rparr>"

lemma smoot_contract [contracts]: "adapter_contract (sj_from_slice z) (smoot_adapter z endpoint)"
  by (rule contractI) (simp_all add: smoot_adapter_def smoot_make_requests_def smoot_make_bids_def contract_simps)

definition pubrise_bid_type :: "bid \<Rightarrow> (bidder_error, bid_type) res" where
  "pubrise_bid_type =
     mtype_table [mt_banner, mt_video, mt_native] (\<lambda>b. BadServerResponse (''could not define media type for impression: '' @ bid_impid b))"

definition pubrise_ext :: "imp \<Rightarrow> json" where
  "pubrise_ext i =
     (if str_param i ''placementId'' = [] \<and> str_param i ''endpointId'' = [] then JObj [(''bidder'', JObj [])]
      else publisher_or_network (str_param i ''placementId'') (str_param i ''endpointId''))"

definition pubrise_make_requests :: "adapter_serde \<Rightarrow> string \<Rightarrow> bid_request \<Rightarrow> extra_request_info \<Rightarrow> requests_out" where
  "pubrise_make_requests z endpoint request info =
     none_valid ''found no valid impressions''
       (each_imp (\<lambda>i. encode_imp z BadInput (request\<lparr>req_imp := [i\<lparr>imp_jext := Some (pubrise_ext i)\<rparr>]\<rparr>)
                        (post endpoint [content_json8, accept_json] [imp_id i])) (req_imp request))"

definition pubrise_make_bids :: "adapter_serde \<Rightarrow> bid_request \<Rightarrow> request_data \<Rightarrow> response_data \<Rightarrow> bid_answer" where
  "pubrise_make_bids z request rd response =
     on_body z (gate refuse_std) BadServerResponse response (all_typed cur_nonempty (typed_by pubrise_bid_type))"

definition pubrise_adapter :: "adapter_serde \<Rightarrow> string \<Rightarrow> bidder" where
  "pubrise_adapter z endpoint = \<lparr>make_requests = pubrise_make_requests z endpoint, make_bids = pubrise_make_bids z\<rparr>"

lemma pubrise_contract [contracts]: "adapter_contract (sj_from_slice z) (pubrise_adapter z endpoint)"
  by (rule contractI) (simp_all add: pubrise_adapter_def pubrise_make_requests_def pubrise_make_bids_def contract_simps)

section \<open>Media types by the extension of the bid or by the impression\<close>

definition pwbid_make_requests :: "adapter_serde \<Rightarrow> string \<Rightarrow> bid_request \<Rightarrow> extra_request_info \<Rightarrow> requests_out" where
  "pwbid_make_requests z endpoint request info =
     whole z endpoint [content_json8, accept_json] request"

definition pwbid_media_type :: "bid_request \<Rightarrow> bid \<Rightarrow> (bidder_error, bid_type) res" where
  "pwbid_media_type =
     slot_or [SBanner, SNative, SVideo]
       (\<lambda>b. BadServerResponse (''The impression with ID '' @ bid_impid b @ '' is not present into the request''))"

definition pwbid_make_bids :: "adapter_serde \<Rightarrow> bid_request \<Rightarrow> request_data \<Rightarrow> response_data \<Rightarrow> bid_answer" where
  "pwbid_make_bids z request rd response =
     on_body z (gate refuse_std) BadServerResponse response (keep_typed cur_usd (typed_by (pwbid_media_type request)))"

definition pwbid_adapter :: "adapter_serde \<Rightarrow> string \<Rightarrow> bidder" where
  "pwbid_adapter z endpoint = \<lparr>make_requests = pwbid_make_requests z endpoint, make_bids = pwbid_make_bids z\<rparr>"

lemma pwbid_contract [contracts]: "adapter_contract (sj_from_slice z) (pwbid_adapter z endpoint)"
  by (rule contractI) (simp_all add: pwbid_adapter_def pwbid_make_requests_def pwbid_make_bids_def contract_simps)

definition smilewanted_make_requests :: "adapter_serde \<Rightarrow> string \<Rightarrow> bid_request \<Rightarrow> extra_request_info \<Rightarrow> requests_out" where
  "smilewanted_make_requests z endpoint request info =
     (let zone_id = first_param request ''zoneId''
      in encode z BadInput (request\<lparr>req_at := Some 1\<rparr>)
           (post (if zone_id \<noteq> [] then endpoint @ zone_id else endpoint)
              [content_json8, accept_json, openrtb25, (''sw-integration-type'', ''prebid_server'')] (get_imp_ids (req_imp request))))"

definition smilewanted_media_type :: "bid_request \<Rightarrow> bid \<Rightarrow> bid_type" where
  "smilewanted_media_type request b =
     (case imp_of_bid request b of Some i \<Rightarrow> if imp_video i \<noteq> None then BtVideo else BtBanner | None \<Rightarrow> BtBanner)"

definition smilewanted_make_bids :: "adapter_serde \<Rightarrow> bid_request \<Rightarrow> request_data \<Rightarrow> response_data \<Rightarrow> bid_answer" where
  "smilewanted_make_bids z request rd response =
     on_body z (gate refuse_std) BadServerResponse response (keep_typed cur_usd (typed_total (smilewanted_media_type request)))"

definition smilewanted_adapter :: "adapter_serde \<Rightarrow> string \<Rightarrow> bidder" where
  "smilewanted_adapter z endpoint = \<lparr>make_requests = smilewanted_make_requests z endpoint, make_bids = smilewanted_make_bids z\<rparr>"

lemma smilewanted_contract [contracts]: "adapter_contract (sj_from_slice z) (smilewanted_adapter z endpoint)"
  by (rule contractI) (simp_all add: smilewanted_adapter_def smilewanted_make_requests_def smilewanted_make_bids_def Let_def contract_simps)

definition definemedia_media_type :: "bid \<Rightarrow> (bidder_error, bid_type) res" where
  "definemedia_media_type b =
     name_table [(''banner'', BtBanner), (''native'', BtNative)] (str_at (bid_jext b) [''prebid'', ''type''])
       (\<lambda>t. if t = [] then BadServerResponse (''Failed to parse impression \"'' @ bid_impid b @ ''\" mediatype'')
            else BadServerResponse ''Invalid mediatype in the impression'')"

definition definemedia_make_requests :: "adapter_serde \<Rightarrow> string \<Rightarrow> bid_request \<Rightarrow> extra_request_info \<Rightarrow> requests_out" where
  "definemedia_make_requests z endpoint request info =
     whole z endpoint [] request"

definition definemedia_make_bids :: "adapter_serde \<Rightarrow> bid_request \<Rightarrow> request_data \<Rightarrow> response_data \<Rightarrow> bid_answer" where
  "definemedia_make_bids z request rd response =
     on_body z (gate (refuse_400 usc_debug usc_debug)) BadServerResponse response (some_typed cur_usd (typed_by definemedia_media_type))"

definition definemedia_adapter :: "adapter_serde \<Rightarrow> string \<Rightarrow> bidder" where
  "definemedia_adapter z endpoint = \<lparr>make_requests = definemedia_make_requests z endpoint, make_bids = definemedia_make_bids z\<rparr>"

lemma definemedia_contract [contracts]: "adapter_contract (sj_from_slice z) (definemedia_adapter z endpoint)"
  by (rule contractI) (simp_all add: definemedia_adapter_def definemedia_make_requests_def definemedia_make_bids_def contract_simps)

definition zeta_bid_type :: "bid \<Rightarrow> (bidder_error, bid_type) res" where
  "zeta_bid_type b =
     name_table [(''banner'', BtBanner), (''video'', BtVideo), (''native'', BtNative), (''audio'', BtAudio)]
       (str_at (bid_jext b) [''prebid'', ''type''])
       (\<lambda>_. BadServerResponse (''Failed to parse impression \"'' @ bid_impid b @ ''\" mediatype''))"

definition zeta_global_ssp_make_requests :: "adapter_serde \<Rightarrow> string \<Rightarrow> bid_request \<Rightarrow> extra_request_info \<Rightarrow> requests_out" where
  "zeta_global_ssp_make_requests z endpoint request info =
     (case req_imp request of
        [] \<Rightarrow> ([], [BadInput ''no impressions''])
      | i # ims \<Rightarrow>
          (case imp_bidder i of
             None \<Rightarrow> ([], [BadInput ''imp.ext not provided or cannot be unmarshalled''])
           | Some _ \<Rightarrow>
               encode z BadInput (request\<lparr>req_imp := i\<lparr>imp_jext := None\<rparr> # ims\<rparr>)
                 (post (str_replace ''{{.AccountID}}'' (str_or_int (jpath (imp_bidder i) [''sid''])) endpoint) [content_json8, accept_json]
                    (get_imp_ids (req_imp request)))))"

definition zeta_global_ssp_make_bids :: "adapter_serde \<Rightarrow> bid_request \<Rightarrow> request_data \<Rightarrow> response_data \<Rightarrow> bid_answer" where
  "zeta_global_ssp_make_bids z request rd response =
     on_body z (gate refuse_std) BadServerResponse response (some_typed cur_nonempty (typed_by zeta_bid_type))"

definition zeta_global_ssp_adapter :: "adapter_serde \<Rightarrow> string \<Rightarrow> bidder" where
  "zeta_global_ssp_adapter z endpoint = \<lparr>make_requests = zeta_global_ssp_make_requests z endpoint, make_bids = zeta_global_ssp_make_bids z\<rparr>"

lemma zeta_global_ssp_contract [contracts]: "adapter_contract (sj_from_slice z) (zeta_global_ssp_adapter z endpoint)"
  by (rule contractI) (simp_all add: zeta_global_ssp_adapter_def zeta_global_ssp_make_requests_def zeta_global_ssp_make_bids_def contract_simps)

definition e_volution_bid_type :: "bid \<Rightarrow> bid_type" where
  "e_volution_bid_type b =
     (let t = unwrap_or ''banner'' (Option.bind (jpath (bid_jext b) [''mediaType'']) as_str)
      in if t = ''video'' then BtVideo else if t = ''native'' then BtNative else BtBanner)"

definition e_volution_make_requests :: "adapter_serde \<Rightarrow> string \<Rightarrow> bid_request \<Rightarrow> extra_request_info \<Rightarrow> requests_out" where
  "e_volution_make_requests z endpoint request info =
     whole z endpoint [content_json8, accept_json] request"

definition e_volution_make_bids :: "adapter_serde \<Rightarrow> bid_request \<Rightarrow> request_data \<Rightarrow> response_data \<Rightarrow> bid_answer" where
  "e_volution_make_bids z request rd response =
     on_body z
       (gate_by [(204, \<lambda>_. None), (400, \<lambda>p. Some (BadInput (''Bad Request. '' @ from_utf8_lossy (rs_body p)))), (503, \<lambda>_. None)]
          (\<lambda>p. BadServerResponse (''Something went wrong, please contact your Account Manager. Status Code: [ '' @ show_nat (rs_status_code p) @ '' ] '')))
       (\<lambda>e. BadServerResponse (''Bad response, '' @ e)) response
       (some_seats (Inl [BadServerResponse ''Empty seatbid'']) (on_first_seat (keep_typed cur_usd (typed_total e_volution_bid_type))))"

definition e_volution_adapter :: "adapter_serde \<Rightarrow> string \<Rightarrow> bidder" where
  "e_volution_adapter z endpoint = \<lparr>make_requests = e_volution_make_requests z endpoint, make_bids = e_volution_make_bids z\<rparr>"

lemma e_volution_contract [contracts]: "adapter_contract (sj_from_slice z) (e_volution_adapter z endpoint)"
  by (rule contractI) (simp_all add: e_volution_adapter_def e_volution_make_requests_def e_volution_make_bids_def contract_simps)

definition visx_bid_type :: "bid_request \<Rightarrow> bid \<Rightarrow> (bidder_error, bid_type) res" where
  "visx_bid_type request b =
     (let meta_type = str_at (bid_jext b) [''prebid'', ''meta'', ''mediaType'']
      in if meta_type = ''banner'' then Inr BtBanner
         else if meta_type = ''video'' then Inr BtVideo
         else case imp_of_bid request b of
                Some i \<Rightarrow>
                  if imp_banner i \<noteq> None then Inr BtBanner
                  else if imp_video i \<noteq> None then Inr BtVideo
                  else Inl (BadServerResponse (''Unknown impression type for ID: \"'' @ bid_impid b @ ''\"''))
              | None \<Rightarrow> Inl (BadServerResponse (''Failed to find impression for ID: \"'' @ bid_impid b @ ''\"'')))"

definition visx_make_requests :: "adapter_serde \<Rightarrow> string \<Rightarrow> bid_request \<Rightarrow> extra_request_info \<Rightarrow> requests_out" where
  "visx_make_requests z endpoint request info =
     encode z BadInput (if unwrap_or [] (req_cur request) = [] then request\<lparr>req_cur := Some [''USD'']\<rparr> else request)
       (post endpoint
          ([content_json8] @ dev_header request ''X-Forwarded-For'' device_ip @ dev_header request ''X-Forwarded-For'' device_ipv6)
          (get_imp_ids (req_imp request)))"

definition visx_make_bids :: "adapter_serde \<Rightarrow> bid_request \<Rightarrow> request_data \<Rightarrow> response_data \<Rightarrow> bid_answer" where
  "visx_make_bids z request rd response =
     on_body z (gate (refuse_400 usc_debug usc_debug)) BadServerResponse response (all_typed cur_nonempty (typed_by (visx_bid_type request)))"

definition visx_adapter :: "adapter_serde \<Rightarrow> string \<Rightarrow> bidder" where
  "visx_adapter z endpoint = \<lparr>make_requests = visx_make_requests z endpoint, make_bids = visx_make_bids z\<rparr>"

lemma visx_contract [contracts]: "adapter_contract (sj_from_slice z) (visx_adapter z endpoint)"
  by (rule contractI) (simp_all add: visx_adapter_def visx_make_requests_def visx_make_bids_def contract_simps)

definition unavailable :: "nat \<times> (response_data \<Rightarrow> bidder_error option)" where
  "unavailable = (503, \<lambda>_. Some (BadInput ''Bidder unavailable. Please contact the bidder support.''))"

definition bad_request_body :: "nat \<times> (response_data \<Rightarrow> bidder_error option)" where
  "bad_request_body = (400, \<lambda>p. Some (BadInput (''Bad Request. '' @ from_utf8_lossy (rs_body p))))"

definition status_and_body :: "response_data \<Rightarrow> bidder_error" where
  "status_and_body p = BadServerResponse (''Status Code: [ '' @ show_nat (rs_status_code p) @ '' ] '' @ from_utf8_lossy (rs_body p))"

definition sa_lunamedia_bid_type :: "bid \<Rightarrow> (bidder_error, bid_type) res" where
  "sa_lunamedia_bid_type b =
     (let media_type = str_at (bid_jext b) [''mediaType'']
      in if media_type = [] then Inl (BadServerResponse ''Missing BidExt'')
         else name_table [(''banner'', BtBanner), (''video'', BtVideo), (''native'', BtNative)] media_type
                (\<lambda>t. BadServerResponse (''invalid bid type: '' @ t)))"

definition sa_lunamedia_make_requests :: "adapter_serde \<Rightarrow> string \<Rightarrow> bid_request \<Rightarrow> extra_request_info \<Rightarrow> requests_out" where
  "sa_lunamedia_make_requests z endpoint request info =
     whole z endpoint [content_json8, accept_json] request"

definition sa_lunamedia_make_bids :: "adapter_serde \<Rightarrow> bid_request \<Rightarrow> request_data \<Rightarrow> response_data \<Rightarrow> bid_answer" where
  "sa_lunamedia_make_bids z request rd response =
     on_body z (gate_by [(204, \<lambda>_. None), bad_request_body, unavailable] status_and_body) BadServerResponse response
       (on_first_bid (BadServerResponse ''Empty SeatBid'') (BadServerResponse ''Empty SeatBid.Bids'') (typed_by sa_lunamedia_bid_type))"

definition sa_lunamedia_adapter :: "adapter_serde \<Rightarrow> string \<Rightarrow> bidder" where
  "sa_lunamedia_adapter z endpoint = \<lparr>make_requests = sa_lunamedia_make_requests z endpoint, make_bids = sa_lunamedia_make_bids z\<rparr>"

lemma sa_lunamedia_contract [contracts]: "adapter_contract (sj_from_slice z) (sa_lunamedia_adapter z endpoint)"
  by (rule contractI) (simp_all add: sa_lunamedia_adapter_def sa_lunamedia_make_requests_def sa_lunamedia_make_bids_def contract_simps)

definition smarthub_bid_type :: "bid \<Rightarrow> (bidder_error, bid_type) res" where
  "smarthub_bid_type b =
     (case Option.bind (jpath (bid_jext b) [''mediaType'']) as_str of
        None \<Rightarrow> Inl (BadServerResponse ''Field BidExt is required'')
      | Some media_type \<Rightarrow>
          name_table [(''banner'', BtBanner), (''video'', BtVideo), (''native'', BtNative), (''audio'', BtAudio)] media_type
            (\<lambda>t. BadServerResponse (''unknown bid type: '' @ t)))"

definition smarthub_make_requests :: "adapter_serde \<Rightarrow> string \<Rightarrow> bid_request \<Rightarrow> extra_request_info \<Rightarrow> requests_out" where
  "smarthub_make_requests z endpoint request info =
     (case req_imp request of
        [] \<Rightarrow> ([], [BadInput ''no impressions''])
      | i # _ \<Rightarrow>
          whole z (str_replace ''{{.Host}}'' (str_param i ''partnerName'')
                     (str_replace ''{{.SourceId}}'' (str_param i ''token'') (str_replace ''{{.AccountID}}'' (str_param i ''seat'') endpoint)))
            [content_json8, accept_json, (''Prebid-Adapter-Ver'', ''1.0.0'')] request)"

definition smarthub_make_bids :: "adapter_serde \<Rightarrow> bid_request \<Rightarrow> request_data \<Rightarrow> response_data \<Rightarrow> bid_answer" where
  "smarthub_make_bids z request rd response =
     on_body z (gate_by [(204, \<lambda>_. None), bad_request_body, unavailable] status_and_body) BadServerResponse response
       (on_first_bid (BadServerResponse ''Array SeatBid cannot be empty'') (BadServerResponse ''Array SeatBid[0].Bid cannot be empty'')
          (typed_by smarthub_bid_type))"

definition smarthub_adapter :: "adapter_serde \<Rightarrow> string \<Rightarrow> bidder" where
  "smarthub_adapter z endpoint = \<lparr>make_requests = smarthub_make_requests z endpoint, make_bids = smarthub_make_bids z\<rparr>"

lemma smarthub_contract [contracts]: "adapter_contract (sj_from_slice z) (smarthub_adapter z endpoint)"
  by (rule contractI) (simp_all add: smarthub_adapter_def smarthub_make_requests_def smarthub_make_bids_def contract_simps)

text \<open>The impressions that are sent are those with a banner or a video; the first publisher given names the endpoint.\<close>

definition smartrtb_valid_imps :: "bid_request \<Rightarrow> imp list" where
  "smartrtb_valid_imps request =
     map (\<lambda>i. if str_param i ''zone_id'' \<noteq> [] then i\<lparr>imp_tagid := Some (str_param i ''zone_id'')\<rparr> else i)
       (filter (\<lambda>i. imp_banner i \<noteq> None \<or> imp_video i \<noteq> None) (req_imp request))"

definition smartrtb_pub_id :: "bid_request \<Rightarrow> string" where
  "smartrtb_pub_id request =
     unwrap_or [] (find (\<lambda>p. p \<noteq> []) (map (\<lambda>i. str_param i ''pub_id'') (filter (\<lambda>i. imp_banner i \<noteq> None \<or> imp_video i \<noteq> None) (req_imp request))))"

lemma smartrtb_valid_ids: "set (get_imp_ids (smartrtb_valid_imps r)) \<subseteq> set (get_imp_ids (req_imp r))"
  by (auto simp: smartrtb_valid_imps_def get_imp_ids_def)

definition smartrtb_make_requests :: "adapter_serde \<Rightarrow> string \<Rightarrow> bid_request \<Rightarrow> extra_request_info \<Rightarrow> requests_out" where
  "smartrtb_make_requests z endpoint request info =
     (let valid_imps = smartrtb_valid_imps request; pub_id = smartrtb_pub_id request;
          req_copy = request\<lparr>req_imp := valid_imps, req_jext := Some (JObj [(''pub_id'', JStr pub_id)])\<rparr>
      in if valid_imps = [] then ([], [])
         else if pub_id = [] then ([], [BadInput ''Cannot infer publisher ID from bid ext''])
         else encode z BadInput req_copy
                (post (str_replace ''{{.PublisherID}}'' pub_id endpoint) [content_json8, accept_json, openrtb25] (get_imp_ids valid_imps)))"

definition smartrtb_bid_type :: "bid \<Rightarrow> (bidder_error, bid_type) res" where
  "smartrtb_bid_type b =
     name_table [(''BANNER'', BtBanner), (''VIDEO'', BtVideo)] (str_at (bid_jext b) [''format''])
       (\<lambda>t. BadServerResponse (''Unsupported creative type '' @ t @ ''.''))"

definition smartrtb_make_bids :: "adapter_serde \<Rightarrow> bid_request \<Rightarrow> request_data \<Rightarrow> response_data \<Rightarrow> bid_answer" where
  "smartrtb_make_bids z request rd response =
     on_body z (gate (refuse_400 (\<lambda>_. ''Invalid request.'') (\<lambda>s. ''Unexpected HTTP status '' @ show_nat s @ ''.''))) BadServerResponse response
       (all_typed cur_usd (typed_with (\<lambda>b. b\<lparr>bid_jext := None\<rparr>) smartrtb_bid_type))"

definition smartrtb_adapter :: "adapter_serde \<Rightarrow> string \<Rightarrow> bidder" where
  "smartrtb_adapter z endpoint = \<lparr>make_requests = smartrtb_make_requests z endpoint, make_bids = smartrtb_make_bids z\<rparr>"

lemma smartrtb_contract [contracts]: "adapter_contract (sj_from_slice z) (smartrtb_adapter z endpoint)"
  by (rule contractI) (simp_all add: smartrtb_adapter_def smartrtb_make_requests_def smartrtb_make_bids_def Let_def contract_simps
      smartrtb_valid_ids same_bid_def)

definition ucfunnel_bid_type :: "imp \<Rightarrow> bid_type" where
  "ucfunnel_bid_type i =
     (if imp_banner i \<noteq> None then BtBanner else if imp_video i \<noteq> None then BtVideo
      else if imp_audio i \<noteq> None then BtAudio else BtNative)"

definition ucfunnel_make_requests :: "adapter_serde \<Rightarrow> string \<Rightarrow> bid_request \<Rightarrow> extra_request_info \<Rightarrow> requests_out" where
  "ucfunnel_make_requests z endpoint request info =
     (case req_imp request of
        [] \<Rightarrow> ([], [BadInput (''No impression in the bid request'' @ [CHR 0x0A])])
      | i # _ \<Rightarrow>
          if str_param i ''partnerid'' = [] \<or> str_param i ''adunitid'' = []
          then ([], [BadInput (''No PartnerId or AdUnitId in the bid request'' @ [CHR 0x0A])])
          else whole z (endpoint @ ''/'' @ urlencoding_simple (str_param i ''partnerid'') @ ''/request'') [content_json] request)"

definition ucfunnel_make_bids :: "adapter_serde \<Rightarrow> bid_request \<Rightarrow> request_data \<Rightarrow> response_data \<Rightarrow> bid_answer" where
  "ucfunnel_make_bids z request rd response =
     on_body z (gate (refuse_400 usc_debug usc_debug)) BadServerResponse response
       (keep_some cur_usd
          (\<lambda>b. let t = (case imp_of_bid request b of Some i \<Rightarrow> ucfunnel_bid_type i | None \<Rightarrow> BtNative)
               in if t = BtBanner \<or> t = BtVideo then Some t else None))"

definition ucfunnel_adapter :: "adapter_serde \<Rightarrow> string \<Rightarrow> bidder" where
  "ucfunnel_adapter z endpoint = \<lparr>make_requests = ucfunnel_make_requests z endpoint, make_bids = ucfunnel_make_bids z\<rparr>"

lemma ucfunnel_contract [contracts]: "adapter_contract (sj_from_slice z) (ucfunnel_adapter z endpoint)"
  by (rule contractI) (simp_all add: ucfunnel_adapter_def ucfunnel_make_requests_def ucfunnel_make_bids_def Let_def contract_simps)

end
