(* ===== verification/AdaptersB.thy ===== *)
theory AdaptersB
  imports AdapterKit
begin

text \<open>
  More adapters: with parameters of the impression in the endpoint, headers of the device, answers for single statuses, and
  impressions that are rewritten before they are sent.
\<close>

section \<open>One request\<close>

definition epom_refuse :: "nat \<Rightarrow> bidder_error option" where
  "epom_refuse s =
     (if s \<ge> 500 then Some (BadServerResponse (usc s @ ''. Dsp server internal error''))
      else if s \<ge> 400 then Some (BadInput (usc s @ ''. Bad request to dsp''))
      else if s \<noteq> 200 then Some (BadServerResponse (usc s)) else None)"

lemma epom_refuses [contract_simps]: "refuses epom_refuse"
  by (auto simp: refuses_def success_def epom_refuse_def split: if_splits)

definition epom_make_requests :: "adapter_serde \<Rightarrow> string \<Rightarrow> bid_request \<Rightarrow> extra_request_info \<Rightarrow> requests_out" where
  "epom_make_requests z endpoint request info =
     (if unwrap_or [] (Option.bind (req_device request) device_ip) = []
      then ([], [BadInput ''ipv4 address is required field''])
      else whole z endpoint [content_json8, accept_json] request)"

definition epom_bid_type :: "bid_request \<Rightarrow> bid \<Rightarrow> bid_type" where
  "epom_bid_type request b = unwrap_or BtBanner (first_slot [SBanner, SVideo, SNative] (bid_impid b) (req_imp request))"

definition epom_make_bids :: "adapter_serde \<Rightarrow> bid_request \<Rightarrow> request_data \<Rightarrow> response_data \<Rightarrow> bid_answer" where
  "epom_make_bids z request rd response =
     on_body z (gate epom_refuse) BadServerResponse response
       (some_first_bid (Inl [BadInput ''No bids in response'']) (keep_typed cur_usd (typed_total (epom_bid_type request))))"

definition epom_adapter :: "adapter_serde \<Rightarrow> string \<Rightarrow> bidder" where
  "epom_adapter z endpoint = \<lparr>make_requests = epom_make_requests z endpoint, make_bids = epom_make_bids z\<rparr>"

lemma epom_contract [contracts]: "adapter_contract (sj_from_slice z) (epom_adapter z endpoint)"
  by (rule contractI) (simp_all add: epom_adapter_def epom_make_requests_def epom_make_bids_def contract_simps)

definition infytv_make_requests :: "adapter_serde \<Rightarrow> string \<Rightarrow> bid_request \<Rightarrow> extra_request_info \<Rightarrow> requests_out" where
  "infytv_make_requests z endpoint request info =
     whole z endpoint [] request"

definition infytv_make_bids :: "adapter_serde \<Rightarrow> bid_request \<Rightarrow> request_data \<Rightarrow> response_data \<Rightarrow> bid_answer" where
  "infytv_make_bids z request rd response =
     on_body z
       (gate_by [(204, \<lambda>_. None), (400, \<lambda>p. Some (BadInput (''Bad Request. '' @ from_utf8_lossy (rs_body p)))), (503, \<lambda>_. None)]
          (\<lambda>p. BadServerResponse (''Something went wrong, please contact your Account Manager. Status Code: [ '' @ show_nat (rs_status_code p) @ '' ] '')))
       (\<lambda>e. BadServerResponse (''Bad response, '' @ e)) response
       (some_seats (Inl [BadServerResponse ''Empty seatbid'']) (keep_typed cur_some (typed_as BtVideo)))"

definition infytv_adapter :: "adapter_serde \<Rightarrow> string \<Rightarrow> bidder" where
  "infytv_adapter z endpoint = \<lparr>make_requests = infytv_make_requests z endpoint, make_bids = infytv_make_bids z\<rparr>"

lemma infytv_contract [contracts]: "adapter_contract (sj_from_slice z) (infytv_adapter z endpoint)"
  by (rule contractI) (simp_all add: infytv_adapter_def infytv_make_requests_def infytv_make_bids_def contract_simps)

definition escalax_bid_type :: "bid \<Rightarrow> (bidder_error, bid_type) res" where
  "escalax_bid_type = mtype_table [mt_banner, mt_video, mt_native] (\<lambda>b. BadInput (''unsupported MType '' @ show_int (mtype_of b)))"

definition escalax_make_requests :: "adapter_serde \<Rightarrow> string \<Rightarrow> bid_request \<Rightarrow> extra_request_info \<Rightarrow> requests_out" where
  "escalax_make_requests z endpoint request info =
     (case req_imp request of
        [] \<Rightarrow> ([], [])
      | i # _ \<Rightarrow>
          encode z BadInput (drop_first_ext request)
            (post (str_replace ''{{.SourceId}}'' (str_param i ''sourceId'') (str_replace ''{{.AccountID}}'' (str_param i ''accountId'') endpoint))
               ([content_json8, accept_json, (''X-Openrtb-Version'', ''2.5'')] @ device_headers request) (get_imp_ids (req_imp request))))"

definition escalax_make_bids :: "adapter_serde \<Rightarrow> bid_request \<Rightarrow> request_data \<Rightarrow> response_data \<Rightarrow> bid_answer" where
  "escalax_make_bids z request rd response =
     on_body z (gate refuse_std) bad_server_response response (some_seats empty_seats (all_typed cur_usd (typed_by escalax_bid_type)))"

definition escalax_adapter :: "adapter_serde \<Rightarrow> string \<Rightarrow> bidder" where
  "escalax_adapter z endpoint = \<lparr>make_requests = escalax_make_requests z endpoint, make_bids = escalax_make_bids z\<rparr>"

lemma escalax_contract [contracts]: "adapter_contract (sj_from_slice z) (escalax_adapter z endpoint)"
  by (rule contractI) (simp_all add: escalax_adapter_def escalax_make_requests_def escalax_make_bids_def contract_simps)

definition nativo_media_type :: "bid_request \<Rightarrow> bid \<Rightarrow> (bidder_error, bid_type) res" where
  "nativo_media_type =
     slot_or [SNative, SVideo, SBanner] (\<lambda>b. BadServerResponse (''Unrecognized impression type in response from nativo: '' @ bid_impid b))"

definition nativo_make_requests :: "adapter_serde \<Rightarrow> string \<Rightarrow> bid_request \<Rightarrow> extra_request_info \<Rightarrow> requests_out" where
  "nativo_make_requests z endpoint request info =
     whole z endpoint [content_json8] request"

definition nativo_make_bids :: "adapter_serde \<Rightarrow> bid_request \<Rightarrow> request_data \<Rightarrow> response_data \<Rightarrow> bid_answer" where
  "nativo_make_bids z request rd response =
     on_body z (gate refuse_std) BadServerResponse response (keep_typed cur_usd (typed_by (nativo_media_type request)))"

definition nativo_adapter :: "adapter_serde \<Rightarrow> string \<Rightarrow> bidder" where
  "nativo_adapter z endpoint = \<lparr>make_requests = nativo_make_requests z endpoint, make_bids = nativo_make_bids z\<rparr>"

lemma nativo_contract [contracts]: "adapter_contract (sj_from_slice z) (nativo_adapter z endpoint)"
  by (rule contractI) (simp_all add: nativo_adapter_def nativo_make_requests_def nativo_make_bids_def contract_simps)

definition brave_make_requests :: "adapter_serde \<Rightarrow> string \<Rightarrow> bid_request \<Rightarrow> extra_request_info \<Rightarrow> requests_out" where
  "brave_make_requests z endpoint request info =
     (case req_imp request of
        [] \<Rightarrow> ([], [BadInput ''no impressions''])
      | i # _ \<Rightarrow>
          if str_param i ''placementId'' = [] then ([], [BadInput ''ext.bidder not provided''])
          else encode z BadInput (drop_first_ext request)
                 (post (str_replace ''{{.PublisherID}}'' (str_param i ''placementId'') endpoint) [content_json8, accept_json]
                    (get_imp_ids (req_imp request))))"

definition brave_make_bids :: "adapter_serde \<Rightarrow> bid_request \<Rightarrow> request_data \<Rightarrow> response_data \<Rightarrow> bid_answer" where
  "brave_make_bids z request rd response =
     on_body z
       (gate_by [(204, \<lambda>_. Some (BadInput ''No bid'')), (400, \<lambda>p. Some (BadInput (usc_debug (rs_status_code p)))),
                 (503, \<lambda>p. Some (BadInput (''Service Unavailable. Status Code: [ '' @ show_nat (rs_status_code p) @ '' ] '')))]
          (\<lambda>p. BadServerResponse (''Something went wrong, please contact your Account Manager. Status Code: [ '' @ show_nat (rs_status_code p) @ '' ] '')))
       bad_server_response response
       (some_seats empty_seats (on_first_seat (keep_typed cur_usd (typed_total (by_imp BtBanner request)))))"

definition brave_adapter :: "adapter_serde \<Rightarrow> string \<Rightarrow> bidder" where
  "brave_adapter z endpoint = \<lparr>make_requests = brave_make_requests z endpoint, make_bids = brave_make_bids z\<rparr>"

lemma brave_contract [contracts]: "adapter_contract (sj_from_slice z) (brave_adapter z endpoint)"
  by (rule contractI) (simp_all add: brave_adapter_def brave_make_requests_def brave_make_bids_def contract_simps)

definition seedtag_imp :: "imp \<Rightarrow> imp" where
  "seedtag_imp i =
     (case imp_bidfloor i of
        None \<Rightarrow> i
      | Some fl \<Rightarrow>
          if f_lt (Fin False 0) fl
          then (case imp_bidfloorcur i of
                  None \<Rightarrow> i
                | Some cur \<Rightarrow> if to_uppercase cur \<noteq> ''USD'' then i\<lparr>imp_bidfloorcur := Some ''USD''\<rparr> else i)
          else i)"

lemma seedtag_imp_id [simp]: "imp_id (seedtag_imp i) = imp_id i"
  by (simp add: seedtag_imp_def split: option.split)

definition seedtag_make_requests :: "adapter_serde \<Rightarrow> string \<Rightarrow> bid_request \<Rightarrow> extra_request_info \<Rightarrow> requests_out" where
  "seedtag_make_requests z endpoint request info =
     (if req_imp request = [] then ([], [])
      else let imps = map seedtag_imp (req_imp request)
           in encode z BadInput (request\<lparr>req_cur := Some [''USD''], req_imp := imps\<rparr>)
                (post endpoint [content_json8, accept_json] (get_imp_ids imps)))"

definition seedtag_bid_type :: "bid \<Rightarrow> (bidder_error, bid_type) res" where
  "seedtag_bid_type = mtype_table [mt_banner, mt_video] (\<lambda>_. BadServerResponse ''bid.MType invalid'')"

definition seedtag_make_bids :: "adapter_serde \<Rightarrow> bid_request \<Rightarrow> request_data \<Rightarrow> response_data \<Rightarrow> bid_answer" where
  "seedtag_make_bids z request rd response =
     on_body z (gate refuse_std) BadServerResponse response (some_typed cur_usd (typed_by seedtag_bid_type))"

definition seedtag_adapter :: "adapter_serde \<Rightarrow> string \<Rightarrow> bidder" where
  "seedtag_adapter z endpoint = \<lparr>make_requests = seedtag_make_requests z endpoint, make_bids = seedtag_make_bids z\<rparr>"

lemma seedtag_contract [contracts]: "adapter_contract (sj_from_slice z) (seedtag_adapter z endpoint)"
  by (rule contractI) (simp_all add: seedtag_adapter_def seedtag_make_requests_def seedtag_make_bids_def Let_def get_imp_ids_def comp_def contract_simps)

text \<open>The \<^verbatim>\<open>mtype\<close> is printed after a cast to an unsigned integer of 64 bits.\<close>

definition show_mtype_u64 :: "bid \<Rightarrow> string" where
  "show_mtype_u64 b = show_int (mtype_of b mod 18446744073709551616)"

definition roulax_bid_type :: "bid \<Rightarrow> (bidder_error, bid_type) res" where
  "roulax_bid_type =
     mtype_table [mt_banner, mt_video, mt_native]
       (\<lambda>b. BadServerResponse (''Unable to fetch mediaType in impID: '' @ bid_impid b @ '', mType: '' @ show_mtype_u64 b))"

definition roulax_make_requests :: "adapter_serde \<Rightarrow> string \<Rightarrow> bid_request \<Rightarrow> extra_request_info \<Rightarrow> requests_out" where
  "roulax_make_requests z endpoint request info =
     (case req_imp request of
        [] \<Rightarrow> ([], [BadInput ''no impressions''])
      | i # _ \<Rightarrow>
          whole z (str_replace ''{{.PublisherID}}'' (str_param i ''publisherPath'') (str_replace ''{{.AccountID}}'' (str_param i ''pid'') endpoint))
            [content_json8] request)"

definition roulax_make_bids :: "adapter_serde \<Rightarrow> bid_request \<Rightarrow> request_data \<Rightarrow> response_data \<Rightarrow> bid_answer" where
  "roulax_make_bids z request rd response =
     on_body z (gate (refuse_any usc)) BadServerResponse response (no_errors cur_nonempty (typed_by roulax_bid_type))"

definition roulax_adapter :: "adapter_serde \<Rightarrow> string \<Rightarrow> bidder" where
  "roulax_adapter z endpoint = \<lparr>make_requests = roulax_make_requests z endpoint, make_bids = roulax_make_bids z\<rparr>"

lemma roulax_contract [contracts]: "adapter_contract (sj_from_slice z) (roulax_adapter z endpoint)"
  by (rule contractI) (simp_all add: roulax_adapter_def roulax_make_requests_def roulax_make_bids_def contract_simps)

definition mobfoxpb_uri :: "string \<Rightarrow> string \<Rightarrow> string" where
  "mobfoxpb_uri endpoint key =
     (if key \<noteq> [] then str_replace ''__method__'' ''req'' (str_replace ''__route__'' ''rtb'' (str_replace ''__key__'' key endpoint))
      else str_replace ''__method__'' ''ortb'' (str_replace ''__route__'' ''o'' endpoint))"

definition mobfoxpb_make_requests :: "adapter_serde \<Rightarrow> string \<Rightarrow> bid_request \<Rightarrow> extra_request_info \<Rightarrow> requests_out" where
  "mobfoxpb_make_requests z endpoint request info =
     (case req_imp request of
        [] \<Rightarrow> ([], [BadInput ''no impressions''])
      | i # _ \<Rightarrow>
          let tag_id = str_param i ''TagID''; key = str_param i ''key''
          in if tag_id = [] \<and> key = []
             then ([], [BadInput ''Invalid or non existing key and tagId, at least one should be present''])
             else encode z BadInput (request\<lparr>req_imp := [i]\<rparr>) (post (mobfoxpb_uri endpoint key) [content_json8, accept_json] [imp_id i]))"

definition mobfoxpb_media_type :: "bid_request \<Rightarrow> bid \<Rightarrow> bid_type option" where
  "mobfoxpb_media_type request b = map_option (\<lambda>i. unwrap_or BtBanner (slot_of_imp [SBanner, SVideo, SNative] i)) (imp_of_bid request b)"

definition mobfoxpb_make_bids :: "adapter_serde \<Rightarrow> bid_request \<Rightarrow> request_data \<Rightarrow> response_data \<Rightarrow> bid_answer" where
  "mobfoxpb_make_bids z request rd response =
     on_body z (gate (refuse_any usc_debug)) BadServerResponse response (keep_some cur_usd (mobfoxpb_media_type request))"

definition mobfoxpb_adapter :: "adapter_serde \<Rightarrow> string \<Rightarrow> bidder" where
  "mobfoxpb_adapter z endpoint = \<lparr>make_requests = mobfoxpb_make_requests z endpoint, make_bids = mobfoxpb_make_bids z\<rparr>"

lemma mobfoxpb_contract [contracts]: "adapter_contract (sj_from_slice z) (mobfoxpb_adapter z endpoint)"
  by (rule contractI) (simp_all add: mobfoxpb_adapter_def mobfoxpb_make_requests_def mobfoxpb_make_bids_def Let_def contract_simps)

definition tpmn_bid_type :: "bid \<Rightarrow> (bidder_error, bid_type) res" where
  "tpmn_bid_type = mtype_table [mt_banner, mt_video, mt_native] (\<lambda>b. BadServerResponse (''unsupported MType '' @ show_int (mtype_of b)))"

text \<open>The floor of the impression is relabelled as US dollars, whatever its currency was.\<close>

definition tpmn_make_requests :: "adapter_serde \<Rightarrow> string \<Rightarrow> bid_request \<Rightarrow> extra_request_info \<Rightarrow> requests_out" where
  "tpmn_make_requests z endpoint request info =
     (if req_imp request = [] then ([], [])
      else let imps = map (\<lambda>i. i\<lparr>imp_bidfloorcur := Some ''USD''\<rparr>) (req_imp request)
           in encode z BadInput (request\<lparr>req_imp := imps\<rparr>) (post endpoint [content_json8, accept_json] (get_imp_ids imps)))"

definition tpmn_make_bids :: "adapter_serde \<Rightarrow> bid_request \<Rightarrow> request_data \<Rightarrow> response_data \<Rightarrow> bid_answer" where
  "tpmn_make_bids z request rd response =
     on_body z (gate refuse_std) (\<lambda>e. BadServerResponse (''bid response unmarshal: '' @ e)) response (all_typed cur_some (typed_by tpmn_bid_type))"

definition tpmn_adapter :: "adapter_serde \<Rightarrow> string \<Rightarrow> bidder" where
  "tpmn_adapter z endpoint = \<lparr>make_requests = tpmn_make_requests z endpoint, make_bids = tpmn_make_bids z\<rparr>"

lemma tpmn_contract [contracts]: "adapter_contract (sj_from_slice z) (tpmn_adapter z endpoint)"
  by (rule contractI) (simp_all add: tpmn_adapter_def tpmn_make_requests_def tpmn_make_bids_def Let_def get_imp_ids_def comp_def contract_simps)

definition intenze_bid_type :: "bid \<Rightarrow> (bidder_error, bid_type) res" where
  "intenze_bid_type = mtype_table [mt_banner, mt_video, mt_native] (\<lambda>b. BadServerResponse (''unsupported MType '' @ show_int (mtype_of b)))"

definition intenze_make_requests :: "adapter_serde \<Rightarrow> string \<Rightarrow> bid_request \<Rightarrow> extra_request_info \<Rightarrow> requests_out" where
  "intenze_make_requests z endpoint request info =
     (case req_imp request of
        [] \<Rightarrow> ([], [])
      | i # _ \<Rightarrow>
          if unwrap_or JNull (imp_bidder i) = JNull then ([], [BadInput ''missing bidder ext''])
          else encode z BadInput (drop_first_ext request)
                 (post (str_replace ''{{.AccountID}}'' (str_param i ''accountId'') endpoint)
                    ([content_json8, accept_json, (''X-Openrtb-Version'', ''2.5'')] @ device_headers request) (get_imp_ids (req_imp request))))"

definition intenze_make_bids :: "adapter_serde \<Rightarrow> bid_request \<Rightarrow> request_data \<Rightarrow> response_data \<Rightarrow> bid_answer" where
  "intenze_make_bids z request rd response =
     on_body z (gate (refuse_first 503 (BadServerResponse ''Something went wrong Status Code: [ 503 ] '') refuse_std)) bad_server_response response
       (some_seats empty_seats (all_typed cur_usd (typed_by intenze_bid_type)))"

definition intenze_adapter :: "adapter_serde \<Rightarrow> string \<Rightarrow> bidder" where
  "intenze_adapter z endpoint = \<lparr>make_requests = intenze_make_requests z endpoint, make_bids = intenze_make_bids z\<rparr>"

lemma intenze_contract [contracts]: "adapter_contract (sj_from_slice z) (intenze_adapter z endpoint)"
  by (rule contractI) (simp_all add: intenze_adapter_def intenze_make_requests_def intenze_make_bids_def contract_simps)

text \<open>A bid is typed when the impressions it names have exactly one media type among them.\<close>

definition bliink_media_type :: "bid_request \<Rightarrow> bid \<Rightarrow> (bidder_error, bid_type) res" where
  "bliink_media_type request b =
     (case concat (map (\<lambda>i. (if imp_banner i \<noteq> None then [BtBanner] else []) @ (if imp_native i \<noteq> None then [BtNative] else [])
                            @ (if imp_video i \<noteq> None then [BtVideo] else []))
                     (filter (\<lambda>i. imp_id i = bid_impid b) (req_imp request))) of
        [t] \<Rightarrow> Inr t
      | _ \<Rightarrow> Inl (BadServerResponse (''unable to fetch mediaType in multi-format: '' @ bid_impid b)))"

definition bliink_make_requests :: "adapter_serde \<Rightarrow> string \<Rightarrow> bid_request \<Rightarrow> extra_request_info \<Rightarrow> requests_out" where
  "bliink_make_requests z endpoint request info =
     whole z endpoint [content_json8, accept_json, openrtb25] request"

definition bliink_make_bids :: "adapter_serde \<Rightarrow> bid_request \<Rightarrow> request_data \<Rightarrow> response_data \<Rightarrow> bid_answer" where
  "bliink_make_bids z request rd response =
     on_body z (gate (refuse_400 (\<lambda>_. ''Unexpected status code: 400. Bad request from publisher. Run with request.debug = 1 for more info.'')
                                 (\<lambda>s. usc_debug s @ ''.''))) BadServerResponse response
       (some_seats empty_seats (some_typed cur_some (typed_by (bliink_media_type request))))"

definition bliink_adapter :: "adapter_serde \<Rightarrow> string \<Rightarrow> bidder" where
  "bliink_adapter z endpoint = \<lparr>make_requests = bliink_make_requests z endpoint, make_bids = bliink_make_bids z\<rparr>"

lemma bliink_contract [contracts]: "adapter_contract (sj_from_slice z) (bliink_adapter z endpoint)"
  by (rule contractI) (simp_all add: bliink_adapter_def bliink_make_requests_def bliink_make_bids_def contract_simps)

definition smartyads_headers :: "bid_request \<Rightarrow> (string \<times> string) list" where
  "smartyads_headers request =
     [content_json8, accept_json, (''X-Openrtb-Version'', ''2.5'')] @ device_headers request
     @ dev_header request ''Accept-Language'' device_language
     @ dev_header request ''Dnt'' (\<lambda>d. map_option show_int (device_dnt d))"

definition smartyads_make_requests :: "adapter_serde \<Rightarrow> string \<Rightarrow> bid_request \<Rightarrow> extra_request_info \<Rightarrow> requests_out" where
  "smartyads_make_requests z endpoint request info =
     (if req_imp request = [] then ([], [BadInput ''no impressions''])
      else encode z BadInput (request\<lparr>req_imp := map (\<lambda>i. i\<lparr>imp_jext := None\<rparr>) (req_imp request)\<rparr>)
             (post (str_replace ''{{.AccountID}}'' (last_param request ''accountid'')
                      (str_replace ''{{.SourceId}}'' (last_param request ''sourceid'') (str_replace ''{{.Host}}'' (last_param request ''host'') endpoint)))
                (smartyads_headers request) (get_imp_ids (req_imp request))))"

text \<open>Every status of success but 204 is accepted.\<close>

definition smartyads_gate :: "response_data \<Rightarrow> bid_answer option" where
  "smartyads_gate p =
     (let s = rs_status_code p
      in if s = 204 then Some (Inl [BadInput ''No bid response''])
         else if s = 400 then Some (Inl [BadInput (''Unexpected status code: [ '' @ show_nat s @ '' ]'')])
         else if s = 503 \<or> s < 200 \<or> s \<ge> 300
         then Some (Inl [BadInput (''Something went wrong, please contact your Account Manager. Status Code: [ '' @ show_nat s @ '' ] '')])
         else None)"

lemma smartyads_gate_ok [contract_simps]: "gate_ok smartyads_gate"
  by (auto simp: gate_ok_def smartyads_gate_def success_def Let_def)

definition smartyads_make_bids :: "adapter_serde \<Rightarrow> bid_request \<Rightarrow> request_data \<Rightarrow> response_data \<Rightarrow> bid_answer" where
  "smartyads_make_bids z request rd response =
     on_body z smartyads_gate bad_server_response response
       (some_seats empty_seats (on_first_seat (keep_typed cur_usd (typed_total (by_imp BtBanner request)))))"

definition smartyads_adapter :: "adapter_serde \<Rightarrow> string \<Rightarrow> bidder" where
  "smartyads_adapter z endpoint = \<lparr>make_requests = smartyads_make_requests z endpoint, make_bids = smartyads_make_bids z\<rparr>"

lemma smartyads_contract [contracts]: "adapter_contract (sj_from_slice z) (smartyads_adapter z endpoint)"
  by (rule contractI) (simp_all add: smartyads_adapter_def smartyads_make_requests_def smartyads_make_bids_def contract_simps)

section \<open>One request of each impression\<close>

definition globalsun_media_type :: "bid_request \<Rightarrow> bid \<Rightarrow> (bidder_error, bid_type) res" where
  "globalsun_media_type = slot_or [SBanner, SVideo, SNative] failed_to_find"

definition globalsun_make_requests :: "adapter_serde \<Rightarrow> string \<Rightarrow> bid_request \<Rightarrow> extra_request_info \<Rightarrow> requests_out" where
  "globalsun_make_requests z endpoint request info =
     every_imp (\<lambda>i. if str_param i ''placementId'' = [] then Inl (BadInput ''missing placementId in imp.ext.bidder'')
                    else encode_imp z BadInput
                           (request\<lparr>req_imp := [i\<lparr>imp_jext := Some (JObj [(''bidder'', JObj [(''placementId'', JStr (str_param i ''placementId'')), (''type'', JStr ''publisher'')])])\<rparr>]\<rparr>)
                           (post endpoint [content_json8, accept_json] [imp_id i])) (req_imp request)"

definition globalsun_make_bids :: "adapter_serde \<Rightarrow> bid_request \<Rightarrow> request_data \<Rightarrow> response_data \<Rightarrow> bid_answer" where
  "globalsun_make_bids z request rd response =
     on_body z (gate refuse_std) BadServerResponse response (all_typed cur_nonempty (typed_by (globalsun_media_type request)))"

definition globalsun_adapter :: "adapter_serde \<Rightarrow> string \<Rightarrow> bidder" where
  "globalsun_adapter z endpoint = \<lparr>make_requests = globalsun_make_requests z endpoint, make_bids = globalsun_make_bids z\<rparr>"

lemma globalsun_contract [contracts]: "adapter_contract (sj_from_slice z) (globalsun_adapter z endpoint)"
  by (rule contractI) (simp_all add: globalsun_adapter_def globalsun_make_requests_def globalsun_make_bids_def contract_simps)

definition visiblemeasures_media_type :: "bid_request \<Rightarrow> bid \<Rightarrow> (bidder_error, bid_type) res" where
  "visiblemeasures_media_type = slot_or [SBanner, SVideo, SNative] failed_to_find"

definition visiblemeasures_make_requests :: "adapter_serde \<Rightarrow> string \<Rightarrow> bid_request \<Rightarrow> extra_request_info \<Rightarrow> requests_out" where
  "visiblemeasures_make_requests z endpoint request info =
     every_imp (placement_request z endpoint request [(''type'', JStr [])]) (req_imp request)"

definition visiblemeasures_make_bids :: "adapter_serde \<Rightarrow> bid_request \<Rightarrow> request_data \<Rightarrow> response_data \<Rightarrow> bid_answer" where
  "visiblemeasures_make_bids z request rd response =
     on_body z (gate (refuse_any (\<lambda>s. usc_debug s @ ''.''))) BadServerResponse response
       (all_typed cur_nonempty (typed_by (visiblemeasures_media_type request)))"

definition visiblemeasures_adapter :: "adapter_serde \<Rightarrow> string \<Rightarrow> bidder" where
  "visiblemeasures_adapter z endpoint = \<lparr>make_requests = visiblemeasures_make_requests z endpoint, make_bids = visiblemeasures_make_bids z\<rparr>"

lemma visiblemeasures_contract [contracts]: "adapter_contract (sj_from_slice z) (visiblemeasures_adapter z endpoint)"
  by (rule contractI) (simp_all add: visiblemeasures_adapter_def visiblemeasures_make_requests_def visiblemeasures_make_bids_def contract_simps)

definition bwx_bid_type :: "bid \<Rightarrow> (bidder_error, bid_type) res" where
  "bwx_bid_type =
     mtype_table [mt_banner, mt_video, mt_native]
       (\<lambda>b. BadServerResponse (''failed to parse bid mtype ('' @ show_mtype_u64 b @ '') for impression id \"'' @ bid_impid b @ ''\"''))"

definition env_request :: "adapter_serde \<Rightarrow> string \<Rightarrow> bid_request \<Rightarrow> string \<Rightarrow> imp \<Rightarrow> (bidder_error, request_data) res" where
  "env_request z endpoint request missing i =
     (if str_param i ''env'' = [] \<or> str_param i ''pid'' = [] then Inl (BadInput missing)
      else encode_imp z BadInput (request\<lparr>req_imp := [i]\<rparr>)
             (post (str_replace ''{{.SourceId}}'' (str_param i ''pid'') (str_replace ''{{.Host}}'' (str_param i ''env'') endpoint))
                [content_json8, accept_json] [imp_id i]))"

lemma env_request_ok [contract_simps]: "imp_request_ok i (env_request z e r n i)"
  by (simp add: env_request_def contract_simps)

definition bwx_make_requests :: "adapter_serde \<Rightarrow> string \<Rightarrow> bid_request \<Rightarrow> extra_request_info \<Rightarrow> requests_out" where
  "bwx_make_requests z endpoint request info =
     each_imp (env_request z endpoint request ''Failed to deserialize BoldwinX extension: missing env or pid'') (req_imp request)"

definition bwx_make_bids :: "adapter_serde \<Rightarrow> bid_request \<Rightarrow> request_data \<Rightarrow> response_data \<Rightarrow> bid_answer" where
  "bwx_make_bids z request rd response =
     on_body z (gate refuse_std) BadServerResponse response
       (some_seats (Inl [BadServerResponse ''Array SeatBid cannot be empty'']) (keep_typed cur_usd (typed_by bwx_bid_type)))"

definition bwx_adapter :: "adapter_serde \<Rightarrow> string \<Rightarrow> bidder" where
  "bwx_adapter z endpoint = \<lparr>make_requests = bwx_make_requests z endpoint, make_bids = bwx_make_bids z\<rparr>"

lemma bwx_contract [contracts]: "adapter_contract (sj_from_slice z) (bwx_adapter z endpoint)"
  by (rule contractI) (simp_all add: bwx_adapter_def bwx_make_requests_def bwx_make_bids_def contract_simps)

definition driftpixel_bid_type :: "bid \<Rightarrow> (bidder_error, bid_type) res" where
  "driftpixel_bid_type =
     mtype_table [mt_banner, mt_video, mt_native]
       (\<lambda>b. BadServerResponse (''failed to parse bid mtype ('' @ show_mtype_u64 b @ '') for impression id \"'' @ bid_impid b @ ''\"''))"

definition driftpixel_make_requests :: "adapter_serde \<Rightarrow> string \<Rightarrow> bid_request \<Rightarrow> extra_request_info \<Rightarrow> requests_out" where
  "driftpixel_make_requests z endpoint request info =
     each_imp (env_request z endpoint request ''Failed to deserialize DriftPixel extension: missing env or pid'') (req_imp request)"

definition driftpixel_make_bids :: "adapter_serde \<Rightarrow> bid_request \<Rightarrow> request_data \<Rightarrow> response_data \<Rightarrow> bid_answer" where
  "driftpixel_make_bids z request rd response =
     on_body z (gate refuse_std) BadServerResponse response
       (some_seats (Inl [BadServerResponse ''Array SeatBid cannot be empty'']) (some_typed cur_usd (typed_by driftpixel_bid_type)))"

definition driftpixel_adapter :: "adapter_serde \<Rightarrow> string \<Rightarrow> bidder" where
  "driftpixel_adapter z endpoint = \<lparr>make_requests = driftpixel_make_requests z endpoint, make_bids = driftpixel_make_bids z\<rparr>"

lemma driftpixel_contract [contracts]: "adapter_contract (sj_from_slice z) (driftpixel_adapter z endpoint)"
  by (rule contractI) (simp_all add: driftpixel_adapter_def driftpixel_make_requests_def driftpixel_make_bids_def contract_simps)

definition decenterads_make_requests :: "adapter_serde \<Rightarrow> string \<Rightarrow> bid_request \<Rightarrow> extra_request_info \<Rightarrow> requests_out" where
  "decenterads_make_requests z endpoint request info =
     each_imp (\<lambda>i. case imp_jext i of
                     None \<Rightarrow> Inl (BadInput ''unable to parse bidder parameters: missing ext'')
                   | Some e \<Rightarrow>
                       if unwrap_or JNull (jget e ''bidder'') = JNull then Inl (BadInput ''bidder parameters required'')
                       else encode_imp z BadInput (request\<lparr>req_imp := [i\<lparr>imp_jext := jget e ''bidder''\<rparr>]\<rparr>)
                              (post endpoint [content_json8, accept_json] [imp_id i])) (req_imp request)"

definition decenterads_media_type :: "bid_request \<Rightarrow> bid \<Rightarrow> bid_type" where
  "decenterads_media_type request b =
     unwrap_or BtBanner (first_slot [SBanner, SVideo, SNative, SAudio] (bid_impid b) (req_imp request))"

definition decenterads_make_bids :: "adapter_serde \<Rightarrow> bid_request \<Rightarrow> request_data \<Rightarrow> response_data \<Rightarrow> bid_answer" where
  "decenterads_make_bids z request rd response =
     on_body z (gate (refuse_400 (\<lambda>s. ''unexpected status code: '' @ show_nat s) (\<lambda>s. ''unexpected status code: '' @ show_nat s)))
       BadServerResponse response (keep_typed cur_usd (typed_total (decenterads_media_type request)))"

definition decenterads_adapter :: "adapter_serde \<Rightarrow> string \<Rightarrow> bidder" where
  "decenterads_adapter z endpoint = \<lparr>make_requests = decenterads_make_requests z endpoint, make_bids = decenterads_make_bids z\<rparr>"

lemma decenterads_contract [contracts]: "adapter_contract (sj_from_slice z) (decenterads_adapter z endpoint)"
  by (rule contractI) (simp_all add: decenterads_adapter_def decenterads_make_requests_def decenterads_make_bids_def contract_simps)

definition videobyte_headers :: "bid_request \<Rightarrow> (string \<times> string) list" where
  "videobyte_headers request =
     [content_json8, accept_json] @ site_header request ''Origin'' site_domain @ site_header request ''Referer'' site_ref"

definition videobyte_uri :: "string \<Rightarrow> imp \<Rightarrow> string" where
  "videobyte_uri endpoint i =
     endpoint @ ''?'' @ join_str ''&'' ([''source=pbs'', ''pid='' @ str_param i ''pubId'']
       @ (if str_param i ''placementId'' \<noteq> [] then [''placementId='' @ str_param i ''placementId''] else [])
       @ (if str_param i ''nid'' \<noteq> [] then [''nid='' @ str_param i ''nid''] else []))"

definition videobyte_make_requests :: "adapter_serde \<Rightarrow> string \<Rightarrow> bid_request \<Rightarrow> extra_request_info \<Rightarrow> requests_out" where
  "videobyte_make_requests z endpoint request info =
     each_imp (\<lambda>i. encode_imp z BadInput (request\<lparr>req_imp := [i]\<rparr>)
                     (post (videobyte_uri endpoint i) (videobyte_headers request) [imp_id i])) (req_imp request)"

definition videobyte_media_type :: "bid_request \<Rightarrow> bid \<Rightarrow> bid_type" where
  "videobyte_media_type request b =
     (case imp_of_bid request b of Some i \<Rightarrow> if imp_banner i \<noteq> None then BtBanner else BtVideo | None \<Rightarrow> BtVideo)"

definition videobyte_make_bids :: "adapter_serde \<Rightarrow> bid_request \<Rightarrow> request_data \<Rightarrow> response_data \<Rightarrow> bid_answer" where
  "videobyte_make_bids z request rd response =
     on_body z (gate (refuse_400 (\<lambda>s. ''Bad user input: HTTP status '' @ show_nat s @ ''. Run with request.debug = 1 for more info'') usc_debug))
       bad_server_response response (keep_typed cur_usd (typed_total (videobyte_media_type request)))"

definition videobyte_adapter :: "adapter_serde \<Rightarrow> string \<Rightarrow> bidder" where
  "videobyte_adapter z endpoint = \<lparr>make_requests = videobyte_make_requests z endpoint, make_bids = videobyte_make_bids z\<rparr>"

lemma videobyte_contract [contracts]: "adapter_contract (sj_from_slice z) (videobyte_adapter z endpoint)"
  by (rule contractI) (simp_all add: videobyte_adapter_def videobyte_make_requests_def videobyte_make_bids_def contract_simps)

definition flatads_make_requests :: "adapter_serde \<Rightarrow> string \<Rightarrow> bid_request \<Rightarrow> extra_request_info \<Rightarrow> requests_out" where
  "flatads_make_requests z endpoint request info =
     each_imp (\<lambda>i. encode_imp z BadInput (request\<lparr>req_imp := [i]\<rparr>)
                     (post (str_replace ''{{.PublisherID}}'' (str_param i ''publisherId'') (str_replace ''{{.TokenID}}'' (str_param i ''token'') endpoint))
                        ([content_json8, accept_json] @ device_headers request) [imp_id i])) (req_imp request)"

definition flatads_media_type :: "bid_request \<Rightarrow> bid \<Rightarrow> bid_type option" where
  "flatads_media_type request b = Option.bind (imp_of_bid request b) (slot_of_imp [SBanner, SVideo, SNative])"

definition flatads_make_bids :: "adapter_serde \<Rightarrow> bid_request \<Rightarrow> request_data \<Rightarrow> response_data \<Rightarrow> bid_answer" where
  "flatads_make_bids z request rd response =
     on_body z (gate refuse_std) BadServerResponse response (keep_some cur_nonempty (flatads_media_type request))"

definition flatads_adapter :: "adapter_serde \<Rightarrow> string \<Rightarrow> bidder" where
  "flatads_adapter z endpoint = \<lparr>make_requests = flatads_make_requests z endpoint, make_bids = flatads_make_bids z\<rparr>"

lemma flatads_contract [contracts]: "adapter_contract (sj_from_slice z) (flatads_adapter z endpoint)"
  by (rule contractI) (simp_all add: flatads_adapter_def flatads_make_requests_def flatads_make_bids_def contract_simps)

definition silvermob_bid_type :: "bid \<Rightarrow> (bidder_error, bid_type) res" where
  "silvermob_bid_type =
     mtype_table [mt_banner, mt_video, mt_native] (\<lambda>b. BadServerResponse (''Unable to fetch mediaType for imp: '' @ bid_impid b))"

definition silvermob_uri :: "string \<Rightarrow> imp \<Rightarrow> string" where
  "silvermob_uri endpoint i = str_replace ''{{.ZoneID}}'' (str_param i ''zoneId'') (str_replace ''{{.Host}}'' (str_param i ''host'') endpoint)"

definition silvermob_make_requests :: "adapter_serde \<Rightarrow> string \<Rightarrow> bid_request \<Rightarrow> extra_request_info \<Rightarrow> requests_out" where
  "silvermob_make_requests z endpoint request info =
     each_imp (\<lambda>i. case imp_bidder i of
                     None \<Rightarrow> Inl (BadInput ''missing host/zoneId in imp.ext.bidder'')
                   | Some _ \<Rightarrow>
                       if str_param i ''host'' \<notin> set [''eu'', ''us'', ''apac'', ''global''] then Inl (BadInput (''invalid host '' @ str_param i ''host''))
                       else encode_imp z BadInput (request\<lparr>req_imp := [i]\<rparr>)
                              (post (silvermob_uri endpoint i)
                                 ([content_json8, accept_json, (''X-Openrtb-Version'', ''2.5'')] @ device_headers request) [imp_id i])) (req_imp request)"

definition silvermob_make_bids :: "adapter_serde \<Rightarrow> bid_request \<Rightarrow> request_data \<Rightarrow> response_data \<Rightarrow> bid_answer" where
  "silvermob_make_bids z request rd response =
     on_body z (gate (refuse_400 (\<lambda>s. ''Bad Request status code: '' @ show_nat s @ ''. Run with request.debug = 1 for more info'') usc_debug))
       (\<lambda>e. BadServerResponse (''Error unmarshaling server Response: '' @ e)) response
       (some_seats empty_seats (some_typed cur_usd (typed_by silvermob_bid_type)))"

definition silvermob_adapter :: "adapter_serde \<Rightarrow> string \<Rightarrow> bidder" where
  "silvermob_adapter z endpoint = \<lparr>make_requests = silvermob_make_requests z endpoint, make_bids = silvermob_make_bids z\<rparr>"

lemma silvermob_contract [contracts]: "adapter_contract (sj_from_slice z) (silvermob_adapter z endpoint)"
  by (rule contractI) (simp_all add: silvermob_adapter_def silvermob_make_requests_def silvermob_make_bids_def contract_simps)

section \<open>Placements and endpoints\<close>

definition oraki_bid_type :: "bid \<Rightarrow> (bidder_error, bid_type) res" where
  "oraki_bid_type =
     mtype_table [mt_banner, mt_video, mt_native] (\<lambda>b. BadServerResponse (''could not define media type for impression: '' @ bid_impid b))"

definition oraki_make_requests :: "adapter_serde \<Rightarrow> string \<Rightarrow> bid_request \<Rightarrow> extra_request_info \<Rightarrow> requests_out" where
  "oraki_make_requests z endpoint request info =
     each_imp (placement_request z endpoint request []) (req_imp request)"

definition oraki_make_bids :: "adapter_serde \<Rightarrow> bid_request \<Rightarrow> request_data \<Rightarrow> response_data \<Rightarrow> bid_answer" where
  "oraki_make_bids z request rd response =
     on_body z (gate refuse_std) BadServerResponse response (all_typed cur_nonempty (typed_by oraki_bid_type))"

definition oraki_adapter :: "adapter_serde \<Rightarrow> string \<Rightarrow> bidder" where
  "oraki_adapter z endpoint = \<lparr>make_requests = oraki_make_requests z endpoint, make_bids = oraki_make_bids z\<rparr>"

lemma oraki_contract [contracts]: "adapter_contract (sj_from_slice z) (oraki_adapter z endpoint)"
  by (rule contractI) (simp_all add: oraki_adapter_def oraki_make_requests_def oraki_make_bids_def contract_simps)

text \<open>Here the \<^verbatim>\<open>mtype\<close> is read from the extension of the bid.\<close>

definition pgamssp_bid_type :: "bid \<Rightarrow> (bidder_error, bid_type) res" where
  "pgamssp_bid_type =
     ext_mtype_table [mt_banner, mt_video, mt_audio, mt_native]
       (\<lambda>b. BadServerResponse (''Unable to fetch mediaType in multi-format: '' @ bid_impid b))"

definition pgamssp_make_requests :: "adapter_serde \<Rightarrow> string \<Rightarrow> bid_request \<Rightarrow> extra_request_info \<Rightarrow> requests_out" where
  "pgamssp_make_requests z endpoint request info =
     every_imp (placement_request z endpoint request []) (req_imp request)"

definition pgamssp_make_bids :: "adapter_serde \<Rightarrow> bid_request \<Rightarrow> request_data \<Rightarrow> response_data \<Rightarrow> bid_answer" where
  "pgamssp_make_bids z request rd response =
     on_body z (gate refuse_std) BadServerResponse response (all_typed cur_nonempty (typed_by pgamssp_bid_type))"

definition pgamssp_adapter :: "adapter_serde \<Rightarrow> string \<Rightarrow> bidder" where
  "pgamssp_adapter z endpoint = \<lparr>make_requests = pgamssp_make_requests z endpoint, make_bids = pgamssp_make_bids z\<rparr>"

lemma pgamssp_contract [contracts]: "adapter_contract (sj_from_slice z) (pgamssp_adapter z endpoint)"
  by (rule contractI) (simp_all add: pgamssp_adapter_def pgamssp_make_requests_def pgamssp_make_bids_def contract_simps)

definition edge226_bid_type :: "bid \<Rightarrow> (bidder_error, bid_type) res" where
  "edge226_bid_type =
     mtype_table [mt_banner, mt_video, mt_audio, mt_native]
       (\<lambda>b. BadServerResponse (''Unable to fetch mediaType in multi-format with mtype '' @ show_int (mtype_of b)))"

definition edge226_make_requests :: "adapter_serde \<Rightarrow> string \<Rightarrow> bid_request \<Rightarrow> extra_request_info \<Rightarrow> requests_out" where
  "edge226_make_requests z endpoint request info =
     each_imp (placement_request z endpoint request [(''type'', JStr [])]) (req_imp request)"

definition edge226_make_bids :: "adapter_serde \<Rightarrow> bid_request \<Rightarrow> request_data \<Rightarrow> response_data \<Rightarrow> bid_answer" where
  "edge226_make_bids z request rd response =
     on_body z (gate refuse_std) BadServerResponse response (all_typed cur_some (typed_by edge226_bid_type))"

definition edge226_adapter :: "adapter_serde \<Rightarrow> string \<Rightarrow> bidder" where
  "edge226_adapter z endpoint = \<lparr>make_requests = edge226_make_requests z endpoint, make_bids = edge226_make_bids z\<rparr>"

lemma edge226_contract [contracts]: "adapter_contract (sj_from_slice z) (edge226_adapter z endpoint)"
  by (rule contractI) (simp_all add: edge226_adapter_def edge226_make_requests_def edge226_make_bids_def contract_simps)

definition boldwin_bid_type :: "bid \<Rightarrow> (bidder_error, bid_type) res" where
  "boldwin_bid_type =
     mtype_table [mt_banner, mt_video, mt_native] (\<lambda>b. BadServerResponse (''Unable to fetch mediaType in multi-format: '' @ bid_impid b))"

definition boldwin_make_requests :: "adapter_serde \<Rightarrow> string \<Rightarrow> bid_request \<Rightarrow> extra_request_info \<Rightarrow> requests_out" where
  "boldwin_make_requests z endpoint request info =
     every_imp (placement_request z endpoint request []) (req_imp request)"

definition boldwin_make_bids :: "adapter_serde \<Rightarrow> bid_request \<Rightarrow> request_data \<Rightarrow> response_data \<Rightarrow> bid_answer" where
  "boldwin_make_bids z request rd response =
     on_body z (gate (refuse_any (\<lambda>s. usc_debug s @ ''.''))) BadServerResponse response (all_typed cur_nonempty (typed_by boldwin_bid_type))"

definition boldwin_adapter :: "adapter_serde \<Rightarrow> string \<Rightarrow> bidder" where
  "boldwin_adapter z endpoint = \<lparr>make_requests = boldwin_make_requests z endpoint, make_bids = boldwin_make_bids z\<rparr>"

lemma boldwin_contract [contracts]: "adapter_contract (sj_from_slice z) (boldwin_adapter z endpoint)"
  by (rule contractI) (simp_all add: boldwin_adapter_def boldwin_make_requests_def boldwin_make_bids_def contract_simps)

definition kiviads_bid_type :: "bid_request \<Rightarrow> bid \<Rightarrow> (bidder_error, bid_type) res" where
  "kiviads_bid_type request b =
     (case imp_of_bid request b of
        None \<Rightarrow> Inl (failed_to_find b)
      | Some i \<Rightarrow> (case slot_of_imp [SBanner, SVideo, SNative] i of Some t \<Rightarrow> Inr t | None \<Rightarrow> Inl (failed_to_find b)))"

definition kiviads_make_requests :: "adapter_serde \<Rightarrow> string \<Rightarrow> bid_request \<Rightarrow> extra_request_info \<Rightarrow> requests_out" where
  "kiviads_make_requests z endpoint request info =
     each_imp (placement_request z endpoint request [(''type'', JStr [])]) (req_imp request)"

definition kiviads_make_bids :: "adapter_serde \<Rightarrow> bid_request \<Rightarrow> request_data \<Rightarrow> response_data \<Rightarrow> bid_answer" where
  "kiviads_make_bids z request rd response =
     on_body z (gate refuse_std) BadServerResponse response (all_typed cur_some (typed_by (kiviads_bid_type request)))"

definition kiviads_adapter :: "adapter_serde \<Rightarrow> string \<Rightarrow> bidder" where
  "kiviads_adapter z endpoint = \<lparr>make_requests = kiviads_make_requests z endpoint, make_bids = kiviads_make_bids z\<rparr>"

lemma kiviads_contract [contracts]: "adapter_contract (sj_from_slice z) (kiviads_adapter z endpoint)"
  by (rule contractI) (simp_all add: kiviads_adapter_def kiviads_make_requests_def kiviads_make_bids_def contract_simps)

end
