(* ===== verification/AdaptersC.thy ===== *)
theory AdaptersC
  imports AdapterKit
begin

text \<open>
  Adapters that check or rewrite the impressions before they send them, group them, or send several requests of one.
\<close>

section \<open>Impressions one by one\<close>

definition startio_currency_ok :: "bid_request \<Rightarrow> bool" where
  "startio_currency_ok request = (case req_cur request of None \<Rightarrow> True | Some cs \<Rightarrow> cs = [] \<or> ''USD'' \<in> set cs)"

definition startio_media_type :: "bid \<Rightarrow> (bidder_error, bid_type) res" where
  "startio_media_type b =
     name_table [(''banner'', BtBanner), (''video'', BtVideo), (''native'', BtNative)] (str_at (bid_jext b) [''prebid'', ''type''])
       (\<lambda>_. BadServerResponse (''Failed to parse bid media type for impression '' @ bid_impid b @ ''.''))"

definition startio_make_requests :: "adapter_serde \<Rightarrow> string \<Rightarrow> bid_request \<Rightarrow> extra_request_info \<Rightarrow> requests_out" where
  "startio_make_requests z endpoint request info =
     (if \<not> startio_currency_ok request then ([], [BadInput ''unsupported currency: only USD is accepted''])
      else each_imp (\<lambda>(n, i). encode_imp z (\<lambda>e. BadInput (''imp['' @ show_nat n @ '']: failed to marshal request: '' @ e)) (request\<lparr>req_imp := [i]\<rparr>)
                       (post endpoint [content_json8, accept_json, (''X-Openrtb-Version'', ''2.5'')] [imp_id i]))
             (List.enumerate 0 (req_imp request)))"

definition startio_make_bids :: "adapter_serde \<Rightarrow> bid_request \<Rightarrow> request_data \<Rightarrow> response_data \<Rightarrow> bid_answer" where
  "startio_make_bids z request rd response =
     on_body z (gate refuse_std) (\<lambda>e. BadServerResponse (''failed to unmarshal response body: '' @ e)) response
       (some_first_bid (Inr bidder_response_new) (no_errors cur_usd (typed_by startio_media_type)))"

definition startio_adapter :: "adapter_serde \<Rightarrow> string \<Rightarrow> bidder" where
  "startio_adapter z endpoint = \<lparr>make_requests = startio_make_requests z endpoint, make_bids = startio_make_bids z\<rparr>"

lemma startio_contract [contracts]: "adapter_contract (sj_from_slice z) (startio_adapter z endpoint)"
  by (rule contractI) (simp_all add: startio_adapter_def startio_make_requests_def startio_make_bids_def contract_simps)

definition boldwin_rapid_bid_type :: "bid \<Rightarrow> (bidder_error, bid_type) res" where
  "boldwin_rapid_bid_type =
     mtype_table [mt_banner, mt_video, mt_native] (\<lambda>b. BadServerResponse (''Unable to fetch mediaType in multi-format: '' @ bid_impid b))"

definition boldwin_rapid_make_requests :: "adapter_serde \<Rightarrow> string \<Rightarrow> bid_request \<Rightarrow> extra_request_info \<Rightarrow> requests_out" where
  "boldwin_rapid_make_requests z endpoint request info =
     every_imp (\<lambda>i. encode_imp z BadInput (request\<lparr>req_imp := [i]\<rparr>)
                      (post (str_replace ''{{.PlacementID}}'' (str_param i ''tid'') (str_replace ''{{.PublisherID}}'' (str_param i ''pid'') endpoint))
                         ([content_json8, accept_json, openrtb25, (''Host'', ''rtb.beardfleet.com'')] @ device_headers request
                          @ dev_header request ''IP'' device_ip) [imp_id i])) (req_imp request)"

definition boldwin_rapid_make_bids :: "adapter_serde \<Rightarrow> bid_request \<Rightarrow> request_data \<Rightarrow> response_data \<Rightarrow> bid_answer" where
  "boldwin_rapid_make_bids z request rd response =
     on_body z (gate refuse_std) BadServerResponse response (all_typed cur_nonempty (typed_by boldwin_rapid_bid_type))"

definition boldwin_rapid_adapter :: "adapter_serde \<Rightarrow> string \<Rightarrow> bidder" where
  "boldwin_rapid_adapter z endpoint = \<lparr>make_requests = boldwin_rapid_make_requests z endpoint, make_bids = boldwin_rapid_make_bids z\<rparr>"

lemma boldwin_rapid_contract [contracts]: "adapter_contract (sj_from_slice z) (boldwin_rapid_adapter z endpoint)"
  by (rule contractI) (simp_all add: boldwin_rapid_adapter_def boldwin_rapid_make_requests_def boldwin_rapid_make_bids_def contract_simps)

definition melozen_media_type :: "bid \<Rightarrow> (bidder_error, bid_type) res" where
  "melozen_media_type b =
     name_table [(''banner'', BtBanner), (''video'', BtVideo), (''native'', BtNative), (''audio'', BtAudio)]
       (str_at (bid_jext b) [''prebid'', ''type''])
       (\<lambda>_. BadServerResponse (''Failed to parse bid mediatype for impression \"'' @ bid_impid b @ ''\"''))"

text \<open>An impression with several media types is sent once for each of them.\<close>

definition split_impressions_by_media_type :: "imp \<Rightarrow> (bidder_error, imp list) res" where
  "split_impressions_by_media_type i =
     (if imp_banner i = None \<and> imp_native i = None \<and> imp_video i = None
      then Inl (BadInput ''Invalid MediaType. MeloZen only supports Banner, Video and Native.'')
      else Inr ((if imp_banner i \<noteq> None then [i\<lparr>imp_video := None, imp_native := None\<rparr>] else [])
                @ (if imp_video i \<noteq> None then [i\<lparr>imp_banner := None, imp_native := None\<rparr>] else [])
                @ (if imp_native i \<noteq> None then [i\<lparr>imp_banner := None, imp_video := None\<rparr>] else [])))"

definition melozen_imp_requests :: "adapter_serde \<Rightarrow> string \<Rightarrow> bid_request \<Rightarrow> imp \<Rightarrow> (bidder_error, request_data) res list" where
  "melozen_imp_requests z endpoint request i =
     (case imp_bidder i of
        None \<Rightarrow> [Inl (BadInput ''missing bidder ext'')]
      | Some _ \<Rightarrow>
          (case split_impressions_by_media_type i of
             Inl e \<Rightarrow> [Inl e]
           | Inr parts \<Rightarrow>
               map (\<lambda>j. encode_imp z BadInput (request\<lparr>req_imp := [j]\<rparr>)
                          (post (str_replace ''{{.PublisherID}}'' (str_param i ''pubId'') endpoint) [content_json8, accept_json] [imp_id j])) parts))"

lemma melozen_imp_requests_ok: "x \<in> set (melozen_imp_requests z e r i) \<Longrightarrow> imp_request_ok i x"
  by (auto simp: melozen_imp_requests_def split_impressions_by_media_type_def contract_simps split: option.splits if_splits)

definition melozen_make_requests :: "adapter_serde \<Rightarrow> string \<Rightarrow> bid_request \<Rightarrow> extra_request_info \<Rightarrow> requests_out" where
  "melozen_make_requests z endpoint request info =
     each_imp_many (melozen_imp_requests z endpoint request) (req_imp request)"

definition melozen_make_bids :: "adapter_serde \<Rightarrow> bid_request \<Rightarrow> request_data \<Rightarrow> response_data \<Rightarrow> bid_answer" where
  "melozen_make_bids z request rd response =
     on_body z (gate refuse_std) BadServerResponse response (some_typed cur_usd (typed_by melozen_media_type))"

definition melozen_adapter :: "adapter_serde \<Rightarrow> string \<Rightarrow> bidder" where
  "melozen_adapter z endpoint = \<lparr>make_requests = melozen_make_requests z endpoint, make_bids = melozen_make_bids z\<rparr>"

lemma melozen_contract [contracts]: "adapter_contract (sj_from_slice z) (melozen_adapter z endpoint)"
  by (rule contractI) (simp_all add: melozen_adapter_def melozen_make_requests_def melozen_make_bids_def contract_simps melozen_imp_requests_ok)

definition copper6ssp_bid_type :: "bid \<Rightarrow> (bidder_error, bid_type) res" where
  "copper6ssp_bid_type =
     mtype_table [mt_banner, mt_video, mt_native]
       (\<lambda>b. BadServerResponse (''could not define media type for impression with mtype '' @ show_int (mtype_of b)))"

definition copper6ssp_make_requests :: "adapter_serde \<Rightarrow> string \<Rightarrow> bid_request \<Rightarrow> extra_request_info \<Rightarrow> requests_out" where
  "copper6ssp_make_requests z endpoint request info =
     each_imp (placement_request z endpoint request [(''type'', JStr [])]) (req_imp request)"

definition copper6ssp_make_bids :: "adapter_serde \<Rightarrow> bid_request \<Rightarrow> request_data \<Rightarrow> response_data \<Rightarrow> bid_answer" where
  "copper6ssp_make_bids z request rd response =
     on_body z (gate refuse_std) BadServerResponse response (all_typed cur_nonempty (typed_by copper6ssp_bid_type))"

definition copper6ssp_adapter :: "adapter_serde \<Rightarrow> string \<Rightarrow> bidder" where
  "copper6ssp_adapter z endpoint = \<lparr>make_requests = copper6ssp_make_requests z endpoint, make_bids = copper6ssp_make_bids z\<rparr>"

lemma copper6ssp_contract [contracts]: "adapter_contract (sj_from_slice z) (copper6ssp_adapter z endpoint)"
  by (rule contractI) (simp_all add: copper6ssp_adapter_def copper6ssp_make_requests_def copper6ssp_make_bids_def contract_simps)

definition loyal_bid_type :: "bid \<Rightarrow> (bidder_error, bid_type) res" where
  "loyal_bid_type b =
     name_table [(''banner'', BtBanner), (''video'', BtVideo), (''native'', BtNative)] (str_at (bid_jext b) [''prebid'', ''type''])
       (\<lambda>t. BadServerResponse (''invalid BidType: '' @ t))"

definition loyal_make_requests :: "adapter_serde \<Rightarrow> string \<Rightarrow> bid_request \<Rightarrow> extra_request_info \<Rightarrow> requests_out" where
  "loyal_make_requests z endpoint request info =
     none_valid ''found no valid impressions'' (each_imp (placement_request z endpoint request []) (req_imp request))"

definition loyal_make_bids :: "adapter_serde \<Rightarrow> bid_request \<Rightarrow> request_data \<Rightarrow> response_data \<Rightarrow> bid_answer" where
  "loyal_make_bids z request rd response =
     on_body z (gate refuse_std) BadServerResponse response (no_errors cur_nonempty (typed_by loyal_bid_type))"

definition loyal_adapter :: "adapter_serde \<Rightarrow> string \<Rightarrow> bidder" where
  "loyal_adapter z endpoint = \<lparr>make_requests = loyal_make_requests z endpoint, make_bids = loyal_make_bids z\<rparr>"

lemma loyal_contract [contracts]: "adapter_contract (sj_from_slice z) (loyal_adapter z endpoint)"
  by (rule contractI) (simp_all add: loyal_adapter_def loyal_make_requests_def loyal_make_bids_def contract_simps)

definition vungle_ext :: "bid_request \<Rightarrow> imp \<Rightarrow> json" where
  "vungle_ext request i =
     JObj [(''bidder'', unwrap_or JNull (imp_bidder i)),
           (''vungle'', JObj [(''app_store_id'', JStr (str_param i ''app_store_id'')),
                              (''bid_token'', JStr (unwrap_or [] (Option.bind (req_user request) user_buyeruid))),
                              (''placement_reference_id'', JStr (str_param i ''placement_reference_id''))])]"

text \<open>The app of the request gets the store identifier; a site is replaced by an app.\<close>

definition vungle_app :: "bid_request \<Rightarrow> string \<Rightarrow> (bidder_error, bid_request) res" where
  "vungle_app request store_id =
     (case req_app request of
        Some a \<Rightarrow> Inr (request\<lparr>req_app := Some (a\<lparr>app_id := Some store_id\<rparr>)\<rparr>)
      | None \<Rightarrow>
          if req_site request \<noteq> None then Inr (request\<lparr>req_site := None, req_app := Some (app_default\<lparr>app_id := Some store_id\<rparr>)\<rparr>)
          else Inl (BadInput ''failed constructing app, must have app or site object in bid request''))"

definition vungle_imp :: "bid_request \<Rightarrow> imp \<Rightarrow> (bidder_error, imp) res" where
  "vungle_imp request i =
     (let priced = f_lt (Fin False 0) (unwrap_or (Fin False 0) (imp_bidfloor i));
          cur = to_uppercase (unwrap_or [] (imp_bidfloorcur i))
      in if priced \<and> cur \<noteq> [] \<and> cur \<noteq> ''USD''
         then Inl (BadInput (''failed to convert currency (err)cannot convert '' @ cur @ '' to USD''))
         else Inr (i\<lparr>imp_bidfloorcur := (if priced then Some ''USD'' else imp_bidfloorcur i),
                     imp_tagid := Some (str_param i ''placement_reference_id''),
                     imp_jext := Some (vungle_ext request i)\<rparr>))"

definition vungle_make_requests :: "adapter_serde \<Rightarrow> string \<Rightarrow> bid_request \<Rightarrow> extra_request_info \<Rightarrow> requests_out" where
  "vungle_make_requests z endpoint request info =
     each_imp (\<lambda>i. case vungle_imp request i of
                     Inl e \<Rightarrow> Inl e
                   | Inr j \<Rightarrow>
                       (case vungle_app request (str_param i ''app_store_id'') of
                          Inl e \<Rightarrow> Inl e
                        | Inr r \<Rightarrow> encode_imp z BadInput (r\<lparr>req_imp := [j]\<rparr>)
                            (post endpoint [content_json, accept_json, (''X-OpenRTB-Version'', ''2.5'')] [imp_id i]))) (req_imp request)"

definition vungle_make_bids :: "adapter_serde \<Rightarrow> bid_request \<Rightarrow> request_data \<Rightarrow> response_data \<Rightarrow> bid_answer" where
  "vungle_make_bids z request rd response =
     on_body z (gate refuse_std) BadServerResponse response (keep_typed cur_some (typed_as BtVideo))"

definition vungle_adapter :: "adapter_serde \<Rightarrow> string \<Rightarrow> bidder" where
  "vungle_adapter z endpoint = \<lparr>make_requests = vungle_make_requests z endpoint, make_bids = vungle_make_bids z\<rparr>"

lemma vungle_contract [contracts]: "adapter_contract (sj_from_slice z) (vungle_adapter z endpoint)"
  by (rule contractI) (simp_all add: vungle_adapter_def vungle_make_requests_def vungle_make_bids_def contract_simps)

definition loopme_bid_type :: "bid \<Rightarrow> (bidder_error, bid_type) res" where
  "loopme_bid_type b =
     (let m = int (ext_mtype b mod 4294967296)
      in case map_of [mt_banner, mt_video, mt_audio, mt_native] m of
           Some t \<Rightarrow> Inr t
         | None \<Rightarrow> Inl (BadServerResponse (''Unsupported MType '' @ show_int m)))"

definition loopme_make_requests :: "adapter_serde \<Rightarrow> string \<Rightarrow> bid_request \<Rightarrow> extra_request_info \<Rightarrow> requests_out" where
  "loopme_make_requests z endpoint request info =
     each_imp (\<lambda>i. encode_imp z BadInput (request\<lparr>req_imp := [i]\<rparr>) (post endpoint [content_json8, accept_json] [imp_id i])) (req_imp request)"

definition loopme_make_bids :: "adapter_serde \<Rightarrow> bid_request \<Rightarrow> request_data \<Rightarrow> response_data \<Rightarrow> bid_answer" where
  "loopme_make_bids z request rd response =
     on_body z (gate refuse_std) BadServerResponse response
       (some_first_bid (Inr bidder_response_new) (keep_or_new cur_nonempty (typed_by loopme_bid_type)))"

definition loopme_adapter :: "adapter_serde \<Rightarrow> string \<Rightarrow> bidder" where
  "loopme_adapter z endpoint = \<lparr>make_requests = loopme_make_requests z endpoint, make_bids = loopme_make_bids z\<rparr>"

lemma loopme_contract [contracts]: "adapter_contract (sj_from_slice z) (loopme_adapter z endpoint)"
  by (rule contractI) (simp_all add: loopme_adapter_def loopme_make_requests_def loopme_make_bids_def contract_simps)

section \<open>Impressions together\<close>

fun openweb_extract_org :: "imp list \<Rightarrow> (bidder_error, string) res" where
  "openweb_extract_org [] = Inl (BadInput ''no org or aid supplied'')"
| "openweb_extract_org (i # ims) =
     (case imp_bidder i of
        None \<Rightarrow> Inl (BadInput ''unmarshal bidderExt: missing bidder'')
      | Some b \<Rightarrow>
          let org = trim_str (str_param i ''org''); aid = unwrap_or 0 (Option.bind (jget b ''aid'') as_i64)
          in if str_param i ''placementId'' = [] then Inl (BadInput ''no placement id supplied'')
             else if org \<noteq> [] then Inr org
             else if aid \<noteq> 0 then Inr (show_int aid) else openweb_extract_org ims)"

definition openweb_bid_type :: "bid \<Rightarrow> (bidder_error, bid_type) res" where
  "openweb_bid_type = mtype_table [mt_banner, mt_video] (\<lambda>b. BadServerResponse (''unsupported MType '' @ show_int (mtype_of b mod 18446744073709551616)))"

definition openweb_make_requests :: "adapter_serde \<Rightarrow> string \<Rightarrow> bid_request \<Rightarrow> extra_request_info \<Rightarrow> requests_out" where
  "openweb_make_requests z endpoint request info =
     (case openweb_extract_org (req_imp request) of
        Inl e \<Rightarrow> ([], [e])
      | Inr org \<Rightarrow> whole z (endpoint @ ''?publisher_id='' @ org) [content_json8] request)"

definition openweb_make_bids :: "adapter_serde \<Rightarrow> bid_request \<Rightarrow> request_data \<Rightarrow> response_data \<Rightarrow> bid_answer" where
  "openweb_make_bids z request rd response =
     on_body z (gate refuse_std) BadServerResponse response (some_typed cur_nonempty (typed_by openweb_bid_type))"

definition openweb_adapter :: "adapter_serde \<Rightarrow> string \<Rightarrow> bidder" where
  "openweb_adapter z endpoint = \<lparr>make_requests = openweb_make_requests z endpoint, make_bids = openweb_make_bids z\<rparr>"

lemma openweb_contract [contracts]: "adapter_contract (sj_from_slice z) (openweb_adapter z endpoint)"
  by (rule contractI) (simp_all add: openweb_adapter_def openweb_make_requests_def openweb_make_bids_def contract_simps)

definition nexx360_bid_type :: "bid \<Rightarrow> (bidder_error, bid_type) res" where
  "nexx360_bid_type b =
     name_table [(''video'', BtVideo), (''audio'', BtAudio), (''native'', BtNative), (''banner'', BtBanner)] (str_at (bid_jext b) [''bidType''])
       (\<lambda>_. BadServerResponse (''unable to fetch mediaType in multi-format: '' @ bid_impid b))"

definition nexx360_imp :: "imp \<Rightarrow> (bidder_error, imp) res" where
  "nexx360_imp i =
     (case imp_bidder i of
        None \<Rightarrow> Inl (BadInput ''missing bidder ext'')
      | Some b \<Rightarrow>
          Inr (i\<lparr>imp_jext := Some (JObj (bt_insert ''nexx360'' b (bt_remove ''bidder'' (unwrap_or [] (Option.bind (imp_jext i) as_object)))))\<rparr>))"

definition nexx360_req_ext :: json where
  "nexx360_req_ext =
     JObj [(''nexx360'', JObj [(''caller'', JArr [JObj [(''name'', JStr ''Prebid-Server''), (''version'', JStr ''n/a'')]])])]"

definition nexx360_uri :: "string \<Rightarrow> bid_request \<Rightarrow> string" where
  "nexx360_uri endpoint request =
     (let ps = (if first_param request ''placement'' \<noteq> [] then [''placement='' @ first_param request ''placement''] else [])
               @ (if first_param request ''tagId'' \<noteq> [] then [''tag_id='' @ first_param request ''tagId''] else [])
      in if ps \<noteq> [] then endpoint @ ''?'' @ join_str ''&'' ps else endpoint)"

definition nexx360_make_requests :: "adapter_serde \<Rightarrow> string \<Rightarrow> bid_request \<Rightarrow> extra_request_info \<Rightarrow> requests_out" where
  "nexx360_make_requests z endpoint request info =
     (case strict_ok nexx360_imp (req_imp request) of
        Inl e \<Rightarrow> ([], [e])
      | Inr imps \<Rightarrow>
          encode z BadInput (request\<lparr>req_imp := imps, req_jext := Some nexx360_req_ext\<rparr>)
            (post (nexx360_uri endpoint request) [content_json] (get_imp_ids (req_imp request))))"

definition nexx360_make_bids :: "adapter_serde \<Rightarrow> bid_request \<Rightarrow> request_data \<Rightarrow> response_data \<Rightarrow> bid_answer" where
  "nexx360_make_bids z request rd response =
     on_body z (gate (refuse_input (\<lambda>s. ''Unexpected http status code: '' @ show_nat s))) BadServerResponse response
       (some_seats (Inr bidder_response_new) (keep_or_new cur_nonempty (typed_by nexx360_bid_type)))"

definition nexx360_adapter :: "adapter_serde \<Rightarrow> string \<Rightarrow> bidder" where
  "nexx360_adapter z endpoint = \<lparr>make_requests = nexx360_make_requests z endpoint, make_bids = nexx360_make_bids z\<rparr>"

lemma nexx360_contract [contracts]: "adapter_contract (sj_from_slice z) (nexx360_adapter z endpoint)"
  by (rule contractI) (simp_all add: nexx360_adapter_def nexx360_make_requests_def nexx360_make_bids_def contract_simps)

definition nobid_media_type :: "bid_request \<Rightarrow> bid \<Rightarrow> (bidder_error, bid_type) res" where
  "nobid_media_type request b =
     (case imp_of_bid request b of
        Some i \<Rightarrow> Inr (if imp_banner i = None \<and> imp_video i \<noteq> None then BtVideo else BtBanner)
      | None \<Rightarrow> Inl (failed_to_find b))"

definition nobid_make_requests :: "adapter_serde \<Rightarrow> string \<Rightarrow> bid_request \<Rightarrow> extra_request_info \<Rightarrow> requests_out" where
  "nobid_make_requests z endpoint request info =
     (if req_imp request = [] then ([], [BadInput ''No Imps in Bid Request''])
      else whole z endpoint [content_json8, accept_json] request)"

definition nobid_make_bids :: "adapter_serde \<Rightarrow> bid_request \<Rightarrow> request_data \<Rightarrow> response_data \<Rightarrow> bid_answer" where
  "nobid_make_bids z request rd response =
     on_body z (gate (refuse_400 usc_debug usc_debug)) BadServerResponse response (keep_typed cur_usd (typed_by (nobid_media_type request)))"

definition nobid_adapter :: "adapter_serde \<Rightarrow> string \<Rightarrow> bidder" where
  "nobid_adapter z endpoint = \<lparr>make_requests = nobid_make_requests z endpoint, make_bids = nobid_make_bids z\<rparr>"

lemma nobid_contract [contracts]: "adapter_contract (sj_from_slice z) (nobid_adapter z endpoint)"
  by (rule contractI) (simp_all add: nobid_adapter_def nobid_make_requests_def nobid_make_bids_def contract_simps)

definition yieldone_imp :: "imp \<Rightarrow> (bidder_error, imp) res" where
  "yieldone_imp i =
     (case imp_bidder i of
        None \<Rightarrow> Inl (BadInput ''missing bidder ext'')
      | Some _ \<Rightarrow>
          Inr (case imp_banner i of
                 None \<Rightarrow> i
               | Some bn \<Rightarrow>
                   if banner_w bn = None \<and> banner_h bn = None
                   then (case banner_format bn of
                           Some (fm # _) \<Rightarrow> i\<lparr>imp_banner := Some (bn\<lparr>banner_w := format_w fm, banner_h := format_h fm\<rparr>)\<rparr>
                         | _ \<Rightarrow> i)
                   else i))"

lemma yieldone_imp_id [contract_simps]: "keeps_id yieldone_imp"
  by (auto simp: keeps_id_def yieldone_imp_def split: option.splits list.splits if_splits)

definition yieldone_media_type :: "bid_request \<Rightarrow> bid \<Rightarrow> (bidder_error, bid_type) res" where
  "yieldone_media_type request b =
     (case Option.bind (imp_of_bid request b) (slot_of_imp [SBanner, SVideo]) of
        Some t \<Rightarrow> Inr t
      | None \<Rightarrow> Inl (BadServerResponse (''Unknown impression type for ID: \"'' @ bid_impid b @ ''\"'')))"

definition yieldone_make_requests :: "adapter_serde \<Rightarrow> string \<Rightarrow> bid_request \<Rightarrow> extra_request_info \<Rightarrow> requests_out" where
  "yieldone_make_requests z endpoint request info =
     (let imps = fst (collect_ok yieldone_imp (req_imp request)); errs = snd (collect_ok yieldone_imp (req_imp request))
      in encode_errs z errs errs (request\<lparr>req_imp := imps\<rparr>) (post endpoint [content_json8] (get_imp_ids imps)))"

definition yieldone_make_bids :: "adapter_serde \<Rightarrow> bid_request \<Rightarrow> request_data \<Rightarrow> response_data \<Rightarrow> bid_answer" where
  "yieldone_make_bids z request rd response =
     on_body z (gate (refuse_400 usc_debug usc_debug)) BadServerResponse response (some_typed cur_nonempty (typed_by (yieldone_media_type request)))"

definition yieldone_adapter :: "adapter_serde \<Rightarrow> string \<Rightarrow> bidder" where
  "yieldone_adapter z endpoint = \<lparr>make_requests = yieldone_make_requests z endpoint, make_bids = yieldone_make_bids z\<rparr>"

lemma yieldone_contract [contracts]: "adapter_contract (sj_from_slice z) (yieldone_adapter z endpoint)"
  by (rule contractI) (simp_all add: yieldone_adapter_def yieldone_make_requests_def yieldone_make_bids_def Let_def contract_simps)

definition mobilefuse_first_placement_id :: "bid_request \<Rightarrow> int option" where
  "mobilefuse_first_placement_id request =
     (case List.map_filter (\<lambda>i. Option.bind (jpath (imp_bidder i) [''placementId'']) as_i64) (req_imp request) of
        [] \<Rightarrow> None | p # _ \<Rightarrow> Some p)"

definition mobilefuse_imps :: "bid_request \<Rightarrow> imp list" where
  "mobilefuse_imps request =
     map (\<lambda>i. i\<lparr>imp_tagid := (case mobilefuse_first_placement_id request of Some p \<Rightarrow> Some (show_int p) | None \<Rightarrow> imp_tagid i),
                imp_jext := map_option (\<lambda>sk. JObj [(''skadn'', sk)]) (jpath (imp_jext i) [''skadn''])\<rparr>)
       (filter (\<lambda>i. \<not> (imp_banner i = None \<and> imp_video i = None \<and> imp_native i = None)) (req_imp request))"

lemma mobilefuse_imps_ids [contract_simps]: "set (get_imp_ids (mobilefuse_imps r)) \<subseteq> set (get_imp_ids (req_imp r))"
  by (auto simp: mobilefuse_imps_def get_imp_ids_def)

definition mobilefuse_bid_type :: "bid \<Rightarrow> bid_type" where
  "mobilefuse_bid_type b =
     (let m = str_at (bid_jext b) [''mf'', ''media_type'']
      in if m = ''video'' then BtVideo else if m = ''native'' then BtNative else BtBanner)"

definition mobilefuse_make_requests :: "adapter_serde \<Rightarrow> string \<Rightarrow> bid_request \<Rightarrow> extra_request_info \<Rightarrow> requests_out" where
  "mobilefuse_make_requests z endpoint request info =
     (if mobilefuse_imps request = [] then ([], [BadInput ''No valid imps''])
      else encode z BadInput (request\<lparr>req_imp := mobilefuse_imps request\<rparr>)
             (post endpoint [content_json8, accept_json] (get_imp_ids (mobilefuse_imps request))))"

definition mobilefuse_make_bids :: "adapter_serde \<Rightarrow> bid_request \<Rightarrow> request_data \<Rightarrow> response_data \<Rightarrow> bid_answer" where
  "mobilefuse_make_bids z request rd response =
     on_body z (gate (refuse_400 (\<lambda>s. usc s @ ''.'') (\<lambda>s. usc s @ ''.''))) BadServerResponse response
       (keep_typed cur_usd (typed_with (\<lambda>b. b\<lparr>bid_jext := None\<rparr>) (\<lambda>b. Inr (mobilefuse_bid_type b))))"

definition mobilefuse_adapter :: "adapter_serde \<Rightarrow> string \<Rightarrow> bidder" where
  "mobilefuse_adapter z endpoint = \<lparr>make_requests = mobilefuse_make_requests z endpoint, make_bids = mobilefuse_make_bids z\<rparr>"

lemma mobilefuse_contract [contracts]: "adapter_contract (sj_from_slice z) (mobilefuse_adapter z endpoint)"
  by (rule contractI) (simp_all add: mobilefuse_adapter_def mobilefuse_make_requests_def mobilefuse_make_bids_def same_bid_def contract_simps)

definition revcontent_bid_type :: "bid \<Rightarrow> bid_type" where
  "revcontent_bid_type b = (case bid_adm b of Some (c # _) \<Rightarrow> if c = CHR ''<'' then BtBanner else BtNative | _ \<Rightarrow> BtNative)"

definition revcontent_make_requests :: "adapter_serde \<Rightarrow> string \<Rightarrow> bid_request \<Rightarrow> extra_request_info \<Rightarrow> requests_out" where
  "revcontent_make_requests z endpoint request info =
     (case sj_to_vec z request of
        Inl e \<Rightarrow> ([], [BadInput e])
      | Inr body \<Rightarrow>
          if unwrap_or [] (Option.bind (req_app request) app_name) = [] \<and> unwrap_or [] (Option.bind (req_site request) site_domain) = []
          then ([], [BadInput ''Impression is missing app name or site domain, and must contain one.''])
          else ([post endpoint [content_json8] (get_imp_ids (req_imp request)) body], []))"

definition revcontent_make_bids :: "adapter_serde \<Rightarrow> bid_request \<Rightarrow> request_data \<Rightarrow> response_data \<Rightarrow> bid_answer" where
  "revcontent_make_bids z request rd response =
     on_body z (gate (refuse_400 (\<lambda>s. ''unexpected status code: '' @ show_nat s @ ''.'') (\<lambda>s. ''unexpected status code: '' @ show_nat s @ ''.'')))
       BadServerResponse response (keep_typed cur_usd (typed_total revcontent_bid_type))"

definition revcontent_adapter :: "adapter_serde \<Rightarrow> string \<Rightarrow> bidder" where
  "revcontent_adapter z endpoint = \<lparr>make_requests = revcontent_make_requests z endpoint, make_bids = revcontent_make_bids z\<rparr>"

lemma revcontent_contract [contracts]: "adapter_contract (sj_from_slice z) (revcontent_adapter z endpoint)"
  by (rule contractI) (simp_all add: revcontent_adapter_def revcontent_make_requests_def revcontent_make_bids_def contract_simps)

text \<open>Impressions with a banner are sent one by one, the others with a video together after them.\<close>

definition madsense_groups :: "bid_request \<Rightarrow> imp list list" where
  "madsense_groups request =
     (let videos = filter (\<lambda>i. imp_banner i = None \<and> imp_video i \<noteq> None) (req_imp request)
      in map (\<lambda>i. [i]) (filter (\<lambda>i. imp_banner i \<noteq> None) (req_imp request)) @ (if videos = [] then [] else [videos]))"

definition madsense_company_id :: "bid_request \<Rightarrow> string" where
  "madsense_company_id request = (if req_test request = Some 1 then ''test'' else first_param request ''companyId'')"

definition madsense_single_request :: "adapter_serde \<Rightarrow> string \<Rightarrow> bid_request \<Rightarrow> imp list \<Rightarrow> (bidder_error, request_data) res" where
  "madsense_single_request z endpoint request imps =
     encode_imp z BadInput (request\<lparr>req_imp := imps\<rparr>)
       (post (endpoint @ ''?company_id='' @ madsense_company_id request) [content_json8, accept_json] (get_imp_ids imps))"

definition madsense_make_requests :: "adapter_serde \<Rightarrow> string \<Rightarrow> bid_request \<Rightarrow> extra_request_info \<Rightarrow> requests_out" where
  "madsense_make_requests z endpoint request info =
     collect_ok (madsense_single_request z endpoint request) (madsense_groups request)"

definition madsense_bid_type :: "bid \<Rightarrow> bid_type" where
  "madsense_bid_type b = (if ext_mtype b = 2 then BtVideo else if ext_mtype b = 4 then BtNative else BtBanner)"

definition madsense_make_bids :: "adapter_serde \<Rightarrow> bid_request \<Rightarrow> request_data \<Rightarrow> response_data \<Rightarrow> bid_answer" where
  "madsense_make_bids z request rd response =
     on_body z (gate refuse_std) BadServerResponse response (keep_typed cur_nonempty (typed_total madsense_bid_type))"

lemma madsense_known: "sends_known (req_imp r) (fst (madsense_make_requests z e r info))"
  by (fastforce simp: madsense_make_requests_def madsense_single_request_def encode_imp_def sends_known_def post_def madsense_groups_def
      Let_def get_imp_ids_def dest!: collect_ok_mem split: sum.splits if_splits)

definition madsense_adapter :: "adapter_serde \<Rightarrow> string \<Rightarrow> bidder" where
  "madsense_adapter z endpoint = \<lparr>make_requests = madsense_make_requests z endpoint, make_bids = madsense_make_bids z\<rparr>"

lemma madsense_contract [contracts]: "adapter_contract (sj_from_slice z) (madsense_adapter z endpoint)"
  by (rule contractI) (simp_all add: madsense_adapter_def madsense_known madsense_make_bids_def contract_simps)

definition exco_bid_type :: "bid \<Rightarrow> (bidder_error, bid_type) res" where
  "exco_bid_type =
     mtype_table [mt_banner, mt_video] (\<lambda>b. BadServerResponse (''unrecognized bid_ad_type in response from exco: '' @ show_int (mtype_of b)))"

definition exco_publisher :: "string \<Rightarrow> publisher option \<Rightarrow> publisher option" where
  "exco_publisher pid p = Some ((unwrap_or publisher_default p)\<lparr>publisher_id := Some pid\<rparr>)"

definition exco_imp :: "nat \<times> imp \<Rightarrow> (bidder_error, imp) res" where
  "exco_imp ni =
     (case ni of (n, i) \<Rightarrow>
        if unwrap_or JNull (imp_bidder i) = JNull then Inl (BadInput (''Invalid imp.ext for impression index '' @ show_nat n))
        else Inr (i\<lparr>imp_tagid := Some (str_param i ''tagId'')\<rparr>))"

definition exco_make_requests :: "adapter_serde \<Rightarrow> string \<Rightarrow> bid_request \<Rightarrow> extra_request_info \<Rightarrow> requests_out" where
  "exco_make_requests z endpoint request info =
     (case strict_ok exco_imp (List.enumerate 0 (req_imp request)) of
        Inl e \<Rightarrow> ([], [e])
      | Inr imps \<Rightarrow>
          let pid = last_param request ''publisherId''
          in encode z BadInput
               (request\<lparr>req_imp := imps,
                        req_site := map_option (\<lambda>s. s\<lparr>site_publisher := exco_publisher pid (site_publisher s)\<rparr>) (req_site request),
                        req_app := map_option (\<lambda>a. a\<lparr>app_publisher := exco_publisher pid (app_publisher a)\<rparr>) (req_app request)\<rparr>)
               (post endpoint [content_json8] (get_imp_ids (req_imp request))))"

definition exco_make_bids :: "adapter_serde \<Rightarrow> bid_request \<Rightarrow> request_data \<Rightarrow> response_data \<Rightarrow> bid_answer" where
  "exco_make_bids z request rd response =
     on_body z (gate refuse_std) BadServerResponse response (no_errors cur_usd (typed_by exco_bid_type))"

definition exco_adapter :: "adapter_serde \<Rightarrow> string \<Rightarrow> bidder" where
  "exco_adapter z endpoint = \<lparr>make_requests = exco_make_requests z endpoint, make_bids = exco_make_bids z\<rparr>"

lemma exco_contract [contracts]: "adapter_contract (sj_from_slice z) (exco_adapter z endpoint)"
  by (rule contractI) (simp_all add: exco_adapter_def exco_make_requests_def exco_make_bids_def Let_def contract_simps)

text \<open>Every request of an impression carries the identifiers of all impressions.\<close>

definition clydo_make_requests :: "adapter_serde \<Rightarrow> string \<Rightarrow> bid_request \<Rightarrow> extra_request_info \<Rightarrow> requests_out" where
  "clydo_make_requests z endpoint request info =
     (if req_imp request = [] then ([], [BadInput ''Failed to get imp ids''])
      else if req_device request = None then ([], [BadInput ''Failed to get device headers''])
      else each_imp (\<lambda>i. if str_param i ''partnerId'' = [] then Inl (BadInput ''invalid partnerId'')
                         else encode_imp z BadInput (request\<lparr>req_imp := [i]\<rparr>)
                                (post (str_replace ''{{.Region}}'' (unwrap_or ''us'' (Option.bind (jpath (imp_bidder i) [''region'']) as_str))
                                         (str_replace ''{{.PartnerId}}'' (str_param i ''partnerId'') endpoint))
                                   ([(''Content-Type'', ''application/json; charset=utf-8''), accept_json, (''X-OpenRTB-Version'', ''2.5'')]
                                    @ dev_header request ''X-Forwarded-For'' device_ipv6 @ dev_header request ''X-Forwarded-For'' device_ip
                                    @ dev_header request ''User-Agent'' device_ua)
                                   (get_imp_ids (req_imp request)))) (req_imp request))"

fun clydo_types :: "imp list \<Rightarrow> (string \<times> bid_type) list \<Rightarrow> (bidder_error, (string \<times> bid_type) list) res" where
  "clydo_types [] m = Inr m"
| "clydo_types (i # ims) m =
     (if map_of m (imp_id i) \<noteq> None then Inl (BadInput ''Duplicate impression ID found'')
      else case slot_of_imp [SAudio, SVideo, SNative, SBanner] i of
             None \<Rightarrow> Inl (BadInput ''Failed to get media type'')
           | Some t \<Rightarrow> clydo_types ims (hm_insert (imp_id i) t m))"

definition clydo_make_bids :: "adapter_serde \<Rightarrow> bid_request \<Rightarrow> request_data \<Rightarrow> response_data \<Rightarrow> bid_answer" where
  "clydo_make_bids z request rd response =
     on_body z (gate refuse_std) BadServerResponse response
       (\<lambda>br. case clydo_types (req_imp request) [] of
               Inl e \<Rightarrow> Inl [e]
             | Inr m \<Rightarrow> keep_typed cur_nonempty (typed_total (\<lambda>b. get_or BtBanner m (bid_impid b))) br)"

lemma clydo_known: "sends_known (req_imp r) (fst (clydo_make_requests z e r info))"
  by (auto simp: clydo_make_requests_def encode_imp_def sends_known_def post_def dest!: collect_ok_mem split: sum.splits if_splits)

definition clydo_adapter :: "adapter_serde \<Rightarrow> string \<Rightarrow> bidder" where
  "clydo_adapter z endpoint = \<lparr>make_requests = clydo_make_requests z endpoint, make_bids = clydo_make_bids z\<rparr>"

lemma clydo_contract [contracts]: "adapter_contract (sj_from_slice z) (clydo_adapter z endpoint)"
  by (rule contractI) (simp_all add: clydo_adapter_def clydo_known clydo_make_bids_def contract_simps split: sum.split)

definition orbidder_imp :: "imp \<Rightarrow> (bidder_error, imp) res" where
  "orbidder_imp i =
     (case imp_bidder i of
        None \<Rightarrow> Inl (BadInput ''missing bidder ext'')
      | Some _ \<Rightarrow>
          Inr (if (case imp_bidfloorcur i of None \<Rightarrow> True | Some c \<Rightarrow> to_uppercase c \<noteq> ''EUR'') then i\<lparr>imp_bidfloorcur := Some ''EUR''\<rparr> else i))"

lemma orbidder_imp_id [contract_simps]: "keeps_id orbidder_imp"
  by (auto simp: keeps_id_def orbidder_imp_def split: option.splits if_splits)

definition orbidder_bid_type :: "bid \<Rightarrow> (bidder_error, bid_type) res" where
  "orbidder_bid_type =
     ext_mtype_table [mt_banner, mt_video, mt_audio, mt_native] (\<lambda>b. BadInput (''Could not define media type for impression: '' @ bid_impid b))"

definition orbidder_refuse :: "nat \<Rightarrow> bidder_error option" where
  "orbidder_refuse s =
     (if s \<ge> 500 then Some (BadServerResponse (usc s @ ''. Dsp server internal error.''))
      else if s \<ge> 400 then Some (BadInput (usc s @ ''. Bad request to dsp.'')) else refuse_std s)"

lemma orbidder_refuses [contract_simps]: "refuses orbidder_refuse"
  using refuses_simps(1) by (simp add: refuses_def orbidder_refuse_def)

definition orbidder_make_requests :: "adapter_serde \<Rightarrow> string \<Rightarrow> bid_request \<Rightarrow> extra_request_info \<Rightarrow> requests_out" where
  "orbidder_make_requests z endpoint request info =
     (let imps = fst (collect_ok orbidder_imp (req_imp request)); errs = snd (collect_ok orbidder_imp (req_imp request))
      in if imps = [] then ([], errs)
         else encode_errs z errs errs (request\<lparr>req_imp := imps\<rparr>) (post endpoint [content_json8, accept_json] (get_imp_ids imps)))"

definition orbidder_make_bids :: "adapter_serde \<Rightarrow> bid_request \<Rightarrow> request_data \<Rightarrow> response_data \<Rightarrow> bid_answer" where
  "orbidder_make_bids z request rd response =
     on_body z (gate orbidder_refuse) BadServerResponse response (no_errors cur_nonempty (typed_by orbidder_bid_type))"

definition orbidder_adapter :: "adapter_serde \<Rightarrow> string \<Rightarrow> bidder" where
  "orbidder_adapter z endpoint = \<lparr>make_requests = orbidder_make_requests z endpoint, make_bids = orbidder_make_bids z\<rparr>"

lemma orbidder_contract [contracts]: "adapter_contract (sj_from_slice z) (orbidder_adapter z endpoint)"
  by (rule contractI) (simp_all add: orbidder_adapter_def orbidder_make_requests_def orbidder_make_bids_def Let_def contract_simps)

end
