(* ===== verification/AdaptersD.thy ===== *)
theory AdaptersD
  imports AdapterKit Fanout
begin

text \<open>
  Further adapters: with bid metadata and video parts, impressions grouped by a key, and the two adapters that do not keep the
  contract: one accepts an answer of nearly every status, the other renames the impression of a bid.
\<close>

section \<open>Impressions one by one\<close>

text \<open>An impression without parameters is an error of its own; a request that cannot be encoded discards the requests before it.\<close>

definition metax_banner :: "banner \<Rightarrow> banner" where
  "metax_banner bn =
     (if banner_w bn = None \<or> banner_h bn = None
      then (case unwrap_or [] (banner_format bn) of
              fm # _ \<Rightarrow> bn\<lparr>banner_w := Some (unwrap_or 0 (format_w fm)), banner_h := Some (unwrap_or 0 (format_h fm))\<rparr>
            | [] \<Rightarrow> bn)
      else bn)"

definition int_param :: "imp \<Rightarrow> string \<Rightarrow> int" where
  "int_param i k = unwrap_or 0 (Option.bind (jpath (imp_bidder i) [k]) as_i64)"

fun metax_loop :: "adapter_serde \<Rightarrow> string \<Rightarrow> bid_request \<Rightarrow> imp list \<Rightarrow> request_data list \<Rightarrow> bidder_error list \<Rightarrow> requests_out" where
  "metax_loop z endpoint request [] rds errs = (rds, errs)"
| "metax_loop z endpoint request (i # ims) rds errs =
     (case imp_bidder i of
        None \<Rightarrow> metax_loop z endpoint request ims rds (errs @ [BadInput ''Wrong MetaX bidder ext''])
      | Some _ \<Rightarrow>
          (case sj_to_vec z (request\<lparr>req_imp := [i\<lparr>imp_banner := map_option metax_banner (imp_banner i)\<rparr>]\<rparr>) of
             Inl e \<Rightarrow> ([], errs @ [BadInput e])
           | Inr body \<Rightarrow>
               metax_loop z endpoint request ims
                 (rds @ [post (str_replace ''{{.AdUnit}}'' (show_int (int_param i ''adunit''))
                                 (str_replace ''{{.PublisherID}}'' (show_int (int_param i ''publisherId'')) endpoint))
                           [content_json8, accept_json] [imp_id i] body]) errs))"

lemma metax_loop_known:
  assumes "set (get_imp_ids ims) \<subseteq> set (get_imp_ids imps)" "sends_known imps rds"
  shows "sends_known imps (fst (metax_loop z e r ims rds errs))"
  using assms
proof (induction ims arbitrary: rds errs)
  case (Cons i ims)
  then show ?case
    by (cases "imp_bidder i") (auto simp: sends_known_simps post_ids get_imp_ids_simps split: sum.split)
qed simp

definition metax_make_requests :: "adapter_serde \<Rightarrow> string \<Rightarrow> bid_request \<Rightarrow> extra_request_info \<Rightarrow> requests_out" where
  "metax_make_requests z endpoint request info =
     metax_loop z endpoint request (req_imp request) [] []"

definition metax_bid_type :: "bid \<Rightarrow> (bidder_error, bid_type) res" where
  "metax_bid_type = mtype_table [mt_banner, mt_video, mt_audio, mt_native] (\<lambda>b. BadServerResponse (''Unsupported MType '' @ show_int (mtype_of b)))"

text \<open>The duration is cut to 32 bits.\<close>

definition metax_bid_video :: "bid \<Rightarrow> bid_type \<Rightarrow> bid_video option" where
  "metax_bid_video b ty =
     Some \<lparr>video_duration = (unwrap_or 0 (Option.bind (jpath (bid_jext b) [''dur'']) as_i64) + 2147483648) mod 4294967296 - 2147483648,
           video_primary_category = first_category b\<rparr>"

definition metax_make_bids :: "adapter_serde \<Rightarrow> bid_request \<Rightarrow> request_data \<Rightarrow> response_data \<Rightarrow> bid_answer" where
  "metax_make_bids z request rd response =
     on_body z (gate refuse_std) BadServerResponse response
       (some_first_bid (Inr bidder_response_new) (all_typed cur_nonempty (with_video metax_bid_video metax_bid_type)))"

definition metax_adapter :: "adapter_serde \<Rightarrow> string \<Rightarrow> bidder" where
  "metax_adapter z endpoint = \<lparr>make_requests = metax_make_requests z endpoint, make_bids = metax_make_bids z\<rparr>"

lemma metax_contract [contracts]: "adapter_contract (sj_from_slice z) (metax_adapter z endpoint)"
  by (rule contractI) (simp_all add: metax_adapter_def metax_make_requests_def metax_make_bids_def contract_simps metax_loop_known)

definition vidoomy_imp :: "imp \<Rightarrow> (bidder_error, imp) res" where
  "vidoomy_imp i =
     (case imp_banner i of
        None \<Rightarrow> Inr i
      | Some bn \<Rightarrow>
          (case (banner_w bn, banner_h bn) of
             (Some w, Some h) \<Rightarrow>
               if w = 0 \<or> h = 0 then Inl (BadInput (''invalid sizes provided for Banner '' @ show_int w @ '' x '' @ show_int h)) else Inr i
           | _ \<Rightarrow>
               (case banner_format bn of
                  None \<Rightarrow> Inl (BadInput ''no sizes provided for Banner None'')
                | Some [] \<Rightarrow> Inl (BadInput ''no sizes provided for Banner Some([])'')
                | Some (fm # _) \<Rightarrow> Inr (i\<lparr>imp_banner := Some (bn\<lparr>banner_w := format_w fm, banner_h := format_h fm\<rparr>)\<rparr>))))"

definition vidoomy_make_requests :: "adapter_serde \<Rightarrow> string \<Rightarrow> bid_request \<Rightarrow> extra_request_info \<Rightarrow> requests_out" where
  "vidoomy_make_requests z endpoint request info =
     each_imp (\<lambda>i. case vidoomy_imp i of
                     Inl e \<Rightarrow> Inl e
                   | Inr j \<Rightarrow> encode_imp z BadInput (request\<lparr>req_imp := [j]\<rparr>)
                       (post endpoint ([content_json8, accept_json, openrtb25] @ device_headers request) [imp_id i])) (req_imp request)"

definition vidoomy_imp_info :: "bid_request \<Rightarrow> bid \<Rightarrow> (bidder_error, bid_type) res" where
  "vidoomy_imp_info = slot_or [SVideo, SBanner] (\<lambda>b. BadServerResponse (''Unknown ad unit code '' @ [CHR 0x27] @ bid_impid b @ [CHR 0x27]))"

definition vidoomy_make_bids :: "adapter_serde \<Rightarrow> bid_request \<Rightarrow> request_data \<Rightarrow> response_data \<Rightarrow> bid_answer" where
  "vidoomy_make_bids z request rd response =
     on_body z (gate (refuse_any (\<lambda>s. usc s @ ''.''))) (\<lambda>e. BadServerResponse (''Bad server response: '' @ e @ ''.'')) response
       (some_typed cur_usd (typed_by (vidoomy_imp_info request)))"

definition vidoomy_adapter :: "adapter_serde \<Rightarrow> string \<Rightarrow> bidder" where
  "vidoomy_adapter z endpoint = \<lparr>make_requests = vidoomy_make_requests z endpoint, make_bids = vidoomy_make_bids z\<rparr>"

lemma vidoomy_contract [contracts]: "adapter_contract (sj_from_slice z) (vidoomy_adapter z endpoint)"
  by (rule contractI) (simp_all add: vidoomy_adapter_def vidoomy_make_requests_def vidoomy_make_bids_def contract_simps)

definition kueezrtb_bid_type :: "bid \<Rightarrow> (bidder_error, bid_type) res" where
  "kueezrtb_bid_type =
     mtype_table [mt_banner, mt_video] (\<lambda>b. BadInput (''Could not define bid type for imp with mtype '' @ show_int (mtype_of b)))"

definition kueezrtb_make_requests :: "adapter_serde \<Rightarrow> string \<Rightarrow> bid_request \<Rightarrow> extra_request_info \<Rightarrow> requests_out" where
  "kueezrtb_make_requests z endpoint request info =
     each_imp (\<lambda>i. if str_param i ''cId'' = [] then Inl (BadInput (''extract cId: missing for imp '' @ imp_id i))
                   else encode_imp z (\<lambda>e. BadInput (''marshal bidRequest: '' @ e)) (request\<lparr>req_imp := [i]\<rparr>)
                          (post (endpoint @ urlencoding_simple (str_param i ''cId'')) [content_json8] [imp_id i])) (req_imp request)"

definition kueezrtb_make_bids :: "adapter_serde \<Rightarrow> bid_request \<Rightarrow> request_data \<Rightarrow> response_data \<Rightarrow> bid_answer" where
  "kueezrtb_make_bids z request rd response =
     on_body z (gate (refuse_input usc_debug)) (\<lambda>e. BadServerResponse (''bad server response: '' @ e @ ''. '')) response
       (no_errors cur_nonempty (typed_by kueezrtb_bid_type))"

definition kueezrtb_adapter :: "adapter_serde \<Rightarrow> string \<Rightarrow> bidder" where
  "kueezrtb_adapter z endpoint = \<lparr>make_requests = kueezrtb_make_requests z endpoint, make_bids = kueezrtb_make_bids z\<rparr>"

lemma kueezrtb_contract [contracts]: "adapter_contract (sj_from_slice z) (kueezrtb_adapter z endpoint)"
  by (rule contractI) (simp_all add: kueezrtb_adapter_def kueezrtb_make_requests_def kueezrtb_make_bids_def contract_simps)

definition frvradn_bid_type :: "bid \<Rightarrow> (bidder_error, bid_type) res" where
  "frvradn_bid_type b =
     name_table [(''banner'', BtBanner), (''video'', BtVideo), (''native'', BtNative)] (str_at (bid_jext b) [''prebid'', ''type''])
       (\<lambda>_. BadServerResponse (''imp '' @ bid_impid b @ '' with unknown media type''))"

definition frvradn_make_requests :: "adapter_serde \<Rightarrow> string \<Rightarrow> bid_request \<Rightarrow> extra_request_info \<Rightarrow> requests_out" where
  "frvradn_make_requests z endpoint request info =
     each_imp (\<lambda>i. if str_param i ''publisher_id'' = [] \<or> str_param i ''ad_unit_id'' = []
                   then Inl (BadInput ''publisher_id and ad_unit_id are required'')
                   else encode_imp z BadInput
                          (request\<lparr>req_imp := [i\<lparr>imp_jext := Some (JObj [(''ad_unit_id'', JStr (str_param i ''ad_unit_id'')),
                                                                    (''publisher_id'', JStr (str_param i ''publisher_id''))])\<rparr>]\<rparr>)
                          (post endpoint [] [imp_id i])) (req_imp request)"

text \<open>An empty body is an answer without bids.\<close>

definition frvradn_gate :: "response_data \<Rightarrow> bid_answer option" where
  "frvradn_gate p =
     (case gate refuse_std p of Some a \<Rightarrow> Some a | None \<Rightarrow> if rs_body p = [] then Some (Inr bidder_response_new) else None)"

lemma frvradn_gate_ok [contract_simps]: "gate_ok frvradn_gate"
proof -
  have "case gate refuse_std p of None \<Rightarrow> success (rs_status_code p) | Some (Inl _) \<Rightarrow> True | Some (Inr r) \<Rightarrow> br_bids r = []" for p
    using gate_ok_gate [OF refuses_simps(1)] by (simp add: gate_ok_def)
  then have "case frvradn_gate p of None \<Rightarrow> success (rs_status_code p) | Some (Inl _) \<Rightarrow> True | Some (Inr r) \<Rightarrow> br_bids r = []" for p
    by (cases "gate refuse_std p") (auto simp: frvradn_gate_def bidder_response_new_def dest: meta_spec [of _ p] split: sum.split)
  then show ?thesis
    by (simp add: gate_ok_def)
qed

definition frvradn_make_bids :: "adapter_serde \<Rightarrow> bid_request \<Rightarrow> request_data \<Rightarrow> response_data \<Rightarrow> bid_answer" where
  "frvradn_make_bids z request rd response =
     on_body z frvradn_gate BadServerResponse response (some_typed cur_nonempty (typed_by frvradn_bid_type))"

definition frvradn_adapter :: "adapter_serde \<Rightarrow> string \<Rightarrow> bidder" where
  "frvradn_adapter z endpoint = \<lparr>make_requests = frvradn_make_requests z endpoint, make_bids = frvradn_make_bids z\<rparr>"

lemma frvradn_contract [contracts]: "adapter_contract (sj_from_slice z) (frvradn_adapter z endpoint)"
  by (rule contractI) (simp_all add: frvradn_adapter_def frvradn_make_requests_def frvradn_make_bids_def contract_simps)

text \<open>Here an impression without a placement and an endpoint keeps its extension.\<close>

definition iqx_ext :: "imp \<Rightarrow> json" where
  "iqx_ext i =
     (if str_param i ''placementId'' = [] \<and> str_param i ''endpointId'' = [] then unwrap_or JNull (imp_jext i) else placement_ext [] i)"

definition iqx_imp_request :: "adapter_serde \<Rightarrow> string \<Rightarrow> bid_request \<Rightarrow> imp \<Rightarrow> (bidder_error, request_data) res" where
  "iqx_imp_request z endpoint request i =
     (case imp_bidder i of
        None \<Rightarrow> Inl (BadInput (''imp '' @ imp_id i @ '' missing ext.bidder''))
      | Some _ \<Rightarrow> encode_imp z BadInput (request\<lparr>req_imp := [i\<lparr>imp_jext := Some (iqx_ext i)\<rparr>]\<rparr>) (post endpoint [content_json8, accept_json] [imp_id i]))"

lemma iqx_imp_request_ok [contract_simps]: "imp_request_ok i (iqx_imp_request z e r i)"
  by (simp add: iqx_imp_request_def contract_simps)

definition iqx_bid_type :: "bid \<Rightarrow> (bidder_error, bid_type) res" where
  "iqx_bid_type b =
     (case map_of [mt_banner, mt_video, mt_native] (int (ext_mtype b mod 4294967296)) of
        Some t \<Rightarrow> Inr t
      | None \<Rightarrow> Inl (BadServerResponse (''Unable to fetch mediaType in multi-format: '' @ bid_impid b)))"

definition iqx_make_requests :: "adapter_serde \<Rightarrow> string \<Rightarrow> bid_request \<Rightarrow> extra_request_info \<Rightarrow> requests_out" where
  "iqx_make_requests z endpoint request info =
     each_imp (iqx_imp_request z endpoint request) (req_imp request)"

definition iqx_make_bids :: "adapter_serde \<Rightarrow> bid_request \<Rightarrow> request_data \<Rightarrow> response_data \<Rightarrow> bid_answer" where
  "iqx_make_bids z request rd response =
     on_body z (gate (refuse_any (\<lambda>s. usc_debug s @ ''.''))) BadServerResponse response (all_typed cur_nonempty (typed_by iqx_bid_type))"

definition iqx_adapter :: "adapter_serde \<Rightarrow> string \<Rightarrow> bidder" where
  "iqx_adapter z endpoint = \<lparr>make_requests = iqx_make_requests z endpoint, make_bids = iqx_make_bids z\<rparr>"

lemma iqx_contract [contracts]: "adapter_contract (sj_from_slice z) (iqx_adapter z endpoint)"
  by (rule contractI) (simp_all add: iqx_adapter_def iqx_make_requests_def iqx_make_bids_def contract_simps)

definition iqzone_make_requests :: "adapter_serde \<Rightarrow> string \<Rightarrow> bid_request \<Rightarrow> extra_request_info \<Rightarrow> requests_out" where
  "iqzone_make_requests z endpoint request info =
     each_imp (iqx_imp_request z endpoint request) (req_imp request)"

definition iqzone_make_bids :: "adapter_serde \<Rightarrow> bid_request \<Rightarrow> request_data \<Rightarrow> response_data \<Rightarrow> bid_answer" where
  "iqzone_make_bids z request rd response =
     on_body z (gate (refuse_any (\<lambda>s. usc_debug s @ ''.''))) BadServerResponse response (all_typed cur_nonempty (typed_by iqx_bid_type))"

definition iqzone_adapter :: "adapter_serde \<Rightarrow> string \<Rightarrow> bidder" where
  "iqzone_adapter z endpoint = \<lparr>make_requests = iqzone_make_requests z endpoint, make_bids = iqzone_make_bids z\<rparr>"

lemma iqzone_contract [contracts]: "adapter_contract (sj_from_slice z) (iqzone_adapter z endpoint)"
  by (rule contractI) (simp_all add: iqzone_adapter_def iqzone_make_requests_def iqzone_make_bids_def contract_simps)

definition playdigo_bid_type :: "bid \<Rightarrow> (bidder_error, bid_type) res" where
  "playdigo_bid_type =
     mtype_table [mt_banner, mt_video, mt_audio, mt_native]
       (\<lambda>b. BadServerResponse (''could not define media type for impression: '' @ bid_impid b))"

definition playdigo_make_requests :: "adapter_serde \<Rightarrow> string \<Rightarrow> bid_request \<Rightarrow> extra_request_info \<Rightarrow> requests_out" where
  "playdigo_make_requests z endpoint request info =
     none_valid ''found no valid impressions'' (each_imp (placement_request z endpoint request []) (req_imp request))"

definition playdigo_make_bids :: "adapter_serde \<Rightarrow> bid_request \<Rightarrow> request_data \<Rightarrow> response_data \<Rightarrow> bid_answer" where
  "playdigo_make_bids z request rd response =
     on_body z (gate refuse_std) BadServerResponse response (all_typed cur_nonempty (typed_by playdigo_bid_type))"

definition playdigo_adapter :: "adapter_serde \<Rightarrow> string \<Rightarrow> bidder" where
  "playdigo_adapter z endpoint = \<lparr>make_requests = playdigo_make_requests z endpoint, make_bids = playdigo_make_bids z\<rparr>"

lemma playdigo_contract [contracts]: "adapter_contract (sj_from_slice z) (playdigo_adapter z endpoint)"
  by (rule contractI) (simp_all add: playdigo_adapter_def playdigo_make_requests_def playdigo_make_bids_def contract_simps)

section \<open>Impressions together\<close>

definition trustx_headers :: "bid_request \<Rightarrow> (string \<times> string) list" where
  "trustx_headers request =
     [content_json8, accept_json, (''X-Openrtb-Version'', ''2.6'')]
     @ site_header request ''Referer'' site_ref @ site_header request ''Origin'' site_domain
     @ dev_header request ''X-Forwarded-For'' device_ip @ dev_header request ''X-Forwarded-For'' device_ipv6
     @ dev_header request ''User-Agent'' device_ua"

definition trustx_imp :: "imp \<Rightarrow> imp" where
  "trustx_imp i =
     (let slot = str_at (imp_jext i) [''data'', ''adserver'', ''adslot'']
      in if slot = [] then i
         else case imp_jext i of
                Some (JObj m) \<Rightarrow> i\<lparr>imp_jext := Some (JObj (bt_insert ''gpid'' (JStr slot) m))\<rparr>
              | _ \<Rightarrow> i)"

definition trustx_make_requests :: "adapter_serde \<Rightarrow> string \<Rightarrow> bid_request \<Rightarrow> extra_request_info \<Rightarrow> requests_out" where
  "trustx_make_requests z endpoint request info =
     encode z BadInput (request\<lparr>req_imp := map trustx_imp (req_imp request)\<rparr>) (post endpoint (trustx_headers request) (get_imp_ids (req_imp request)))"

definition trustx_bid_meta :: "bid \<Rightarrow> bid_meta option" where
  "trustx_bid_meta b =
     (let n = str_at (bid_jext b) [''bidder'', ''trustx'', ''networkName'']
      in if n = [] then None else Some (bid_meta_default\<lparr>meta_network_name := Some n\<rparr>))"

definition trustx_bid_video :: "bid \<Rightarrow> bid_type \<Rightarrow> bid_video option" where
  "trustx_bid_video b ty =
     (if ty = BtVideo then Some \<lparr>video_duration = 0, video_primary_category = first_category b\<rparr> else None)"

definition trustx_make_bids :: "adapter_serde \<Rightarrow> bid_request \<Rightarrow> request_data \<Rightarrow> response_data \<Rightarrow> bid_answer" where
  "trustx_make_bids z request rd response =
     on_body z (gate refuse_std) bad_server_response response
       (some_typed cur_usd (with_parts trustx_bid_video trustx_bid_meta
          (mtype_table [mt_banner, mt_video] (\<lambda>b. BadServerResponse (''Unsupported MType: '' @ show_int (mtype_of b))))))"

definition trustx_adapter :: "adapter_serde \<Rightarrow> string \<Rightarrow> bidder" where
  "trustx_adapter z endpoint = \<lparr>make_requests = trustx_make_requests z endpoint, make_bids = trustx_make_bids z\<rparr>"

lemma trustx_contract [contracts]: "adapter_contract (sj_from_slice z) (trustx_adapter z endpoint)"
  by (rule contractI) (simp_all add: trustx_adapter_def trustx_make_requests_def trustx_make_bids_def contract_simps)

text \<open>A banner takes the size of its first format; a banner without a format needs a size of its own.\<close>

definition marsmedia_imp :: "imp \<Rightarrow> (bidder_error, imp) res" where
  "marsmedia_imp i =
     (case imp_banner i of
        None \<Rightarrow> Inr i
      | Some bn \<Rightarrow>
          (case unwrap_or [] (banner_format bn) of
             fm # _ \<Rightarrow> Inr (i\<lparr>imp_banner := Some (bn\<lparr>banner_w := format_w fm, banner_h := format_h fm\<rparr>)\<rparr>)
           | [] \<Rightarrow>
               if banner_w bn \<noteq> None \<and> banner_h bn \<noteq> None then Inr i
               else Inl (BadInput ''No valid banner format in the bid request'')))"

lemma marsmedia_imp_id [contract_simps]: "keeps_id marsmedia_imp"
  by (auto simp: keeps_id_def marsmedia_imp_def split: option.splits list.splits if_splits)

definition marsmedia_headers :: "bid_request \<Rightarrow> (string \<times> string) list" where
  "marsmedia_headers request =
     [content_json8, accept_json, openrtb25] @ dev_header request ''User-Agent'' device_ua @ dev_header request ''X-Forwarded-For'' device_ip
     @ dev_header request ''Accept-Language'' device_language @ dev_header request ''DNT'' (\<lambda>d. map_option show_int (device_dnt d))"

definition marsmedia_make_requests :: "adapter_serde \<Rightarrow> string \<Rightarrow> bid_request \<Rightarrow> extra_request_info \<Rightarrow> requests_out" where
  "marsmedia_make_requests z endpoint request info =
     (let zone_id = first_param request ''zoneId''
      in if req_imp request = [] then ([], [BadInput ''No impression in the bid request''])
         else if zone_id = [] then ([], [BadInput ''zoneId is empty''])
         else case strict_ok marsmedia_imp (req_imp request) of
                Inl e \<Rightarrow> ([], [e])
              | Inr imps \<Rightarrow>
                  if \<not> list_ex (\<lambda>i. imp_banner i \<noteq> None \<or> imp_video i \<noteq> None) (req_imp request)
                  then ([], [BadInput ''No valid impression in the bid request''])
                  else encode z BadInput (request\<lparr>req_imp := imps, req_at := Some 1\<rparr>)
                         (post (endpoint @ ''&zone='' @ zone_id) (marsmedia_headers request) (get_imp_ids imps)))"

definition marsmedia_media_type :: "bid_request \<Rightarrow> bid \<Rightarrow> bid_type" where
  "marsmedia_media_type request b =
     (case imp_of_bid request b of Some i \<Rightarrow> if imp_video i \<noteq> None then BtVideo else BtBanner | None \<Rightarrow> BtBanner)"

definition marsmedia_make_bids :: "adapter_serde \<Rightarrow> bid_request \<Rightarrow> request_data \<Rightarrow> response_data \<Rightarrow> bid_answer" where
  "marsmedia_make_bids z request rd response =
     on_body z (gate refuse_std) BadServerResponse response
       (some_seats (Inr bidder_response_new) (keep_typed cur_usd (typed_total (marsmedia_media_type request))))"

definition marsmedia_adapter :: "adapter_serde \<Rightarrow> string \<Rightarrow> bidder" where
  "marsmedia_adapter z endpoint = \<lparr>make_requests = marsmedia_make_requests z endpoint, make_bids = marsmedia_make_bids z\<rparr>"

lemma marsmedia_contract [contracts]: "adapter_contract (sj_from_slice z) (marsmedia_adapter z endpoint)"
  by (rule contractI) (simp_all add: marsmedia_adapter_def marsmedia_make_requests_def marsmedia_make_bids_def Let_def contract_simps keeps_id_strict [OF marsmedia_imp_id])

definition krushmedia_bid_type :: "imp \<Rightarrow> bid_type" where
  "krushmedia_bid_type i = (if imp_video i \<noteq> None then BtVideo else if imp_native i \<noteq> None then BtNative else BtBanner)"

definition krushmedia_make_requests :: "adapter_serde \<Rightarrow> string \<Rightarrow> bid_request \<Rightarrow> extra_request_info \<Rightarrow> requests_out" where
  "krushmedia_make_requests z endpoint request info =
     (case req_imp request of
        [] \<Rightarrow> ([], [BadInput ''Missing Imp Object''])
      | i # _ \<Rightarrow>
          if unwrap_or JNull (imp_bidder i) = JNull then ([], [BadInput (''Bidder extension not provided or can'' @ [CHR 0x27] @ ''t be unmarshalled'')])
          else encode z BadInput (drop_first_ext request)
                 (post (str_replace ''{{.AccountID}}'' (str_param i ''accountId'') endpoint)
                    ([content_json8, accept_json, (''X-Openrtb-Version'', ''2.5'')] @ dev_header request ''User-Agent'' device_ua
                     @ dev_header request ''X-Forwarded-For'' device_ip @ dev_header request ''Accept-Language'' device_language
                     @ dev_header request ''Dnt'' (\<lambda>d. map_option show_int (device_dnt d)))
                    (get_imp_ids (req_imp request))))"

definition krushmedia_make_bids :: "adapter_serde \<Rightarrow> bid_request \<Rightarrow> request_data \<Rightarrow> response_data \<Rightarrow> bid_answer" where
  "krushmedia_make_bids z request rd response =
     on_body z
       (gate_by [(204, \<lambda>_. None), (400, \<lambda>p. Some (BadInput (''Unexpected status code: [ '' @ show_nat (rs_status_code p) @ '' ]''))), (503, \<lambda>_. None)]
          (\<lambda>p. BadServerResponse (''Something went wrong, please contact your Account Manager. Status Code: [ '' @ show_nat (rs_status_code p) @ '' ] '')))
       bad_server_response response
       (some_seats (Inr bidder_response_new)
          (on_first_seat (keep_typed cur_usd
             (typed_total (\<lambda>b. case imp_of_bid request b of Some i \<Rightarrow> krushmedia_bid_type i | None \<Rightarrow> BtBanner)))))"

definition krushmedia_adapter :: "adapter_serde \<Rightarrow> string \<Rightarrow> bidder" where
  "krushmedia_adapter z endpoint = \<lparr>make_requests = krushmedia_make_requests z endpoint, make_bids = krushmedia_make_bids z\<rparr>"

lemma krushmedia_contract [contracts]: "adapter_contract (sj_from_slice z) (krushmedia_adapter z endpoint)"
  by (rule contractI) (simp_all add: krushmedia_adapter_def krushmedia_make_requests_def krushmedia_make_bids_def contract_simps)

definition imds_imp :: "imp \<Rightarrow> (bidder_error, imp) res" where
  "imds_imp i =
     (if str_param i ''seatId'' = [] \<or> str_param i ''tagId'' = [] then Inl (BadServerResponse ''Invalid Impression'')
      else Inr (i\<lparr>imp_tagid := Some (str_param i ''tagId'')\<rparr>))"

text \<open>The seat is that of the first valid impression, which its extension still names.\<close>

definition imds_make_requests :: "adapter_serde \<Rightarrow> string \<Rightarrow> bid_request \<Rightarrow> extra_request_info \<Rightarrow> requests_out" where
  "imds_make_requests z endpoint request info =
     (let imps = fst (collect_ok imds_imp (req_imp request)); errs = snd (collect_ok imds_imp (req_imp request))
      in case imps of
           [] \<Rightarrow> ([], errs)
         | i # _ \<Rightarrow>
             let seat_id = str_param i ''seatId''
             in encode_errs z [] errs (request\<lparr>req_imp := imps, req_jext := Some (JObj [(''seatId'', JStr seat_id)])\<rparr>)
                  (post (str_replace ''{{.SourceId}}'' (urlencoding_simple ''pbs-go/1.0.0'')
                           (str_replace ''{{.AccountID}}'' (urlencoding_simple seat_id) endpoint))
                     [content_json8, accept_json] (get_imp_ids (req_imp request))))"

definition imds_media_type :: "bid_request \<Rightarrow> bid \<Rightarrow> bid_type option" where
  "imds_media_type request b =
     (let t = by_imp BtBanner request b in if t = BtBanner \<or> t = BtVideo then Some t else None)"

definition imds_make_bids :: "adapter_serde \<Rightarrow> bid_request \<Rightarrow> request_data \<Rightarrow> response_data \<Rightarrow> bid_answer" where
  "imds_make_bids z request rd response =
     on_body z (gate (refuse_400 usc_debug usc_debug)) BadServerResponse response (keep_some cur_usd (imds_media_type request))"

definition imds_adapter :: "adapter_serde \<Rightarrow> string \<Rightarrow> bidder" where
  "imds_adapter z endpoint = \<lparr>make_requests = imds_make_requests z endpoint, make_bids = imds_make_bids z\<rparr>"

lemma imds_contract [contracts]: "adapter_contract (sj_from_slice z) (imds_adapter z endpoint)"
  by (rule contractI) (simp_all add: imds_adapter_def imds_make_requests_def imds_make_bids_def Let_def contract_simps)

definition mediago_token_and_region :: "bid_request \<Rightarrow> (bidder_error, string \<times> string) res" where
  "mediago_token_and_region request =
     (case req_imp request of
        [] \<Rightarrow> Inl (BadInput ''no impressions'')
      | i # _ \<Rightarrow>
          (case imp_bidder i of
             None \<Rightarrow> Inl (BadInput ''mediago token not found'')
           | Some b \<Rightarrow>
               if str_param i ''token'' = [] then Inl (BadInput ''mediago token not found'')
               else Inr (str_param i ''token'', unwrap_or ''US'' (Option.bind (jget b ''region'') as_str))))"

definition mediago_region_host :: "string \<Rightarrow> string" where
  "mediago_region_host region = (if region = ''APAC'' then ''jp'' else if region = ''EU'' then ''eu'' else ''us'')"

definition unsized :: "banner \<Rightarrow> bool" where
  "unsized bn = (banner_w bn = None \<or> banner_h bn = None \<or> banner_w bn = Some 0 \<or> banner_h bn = Some 0)"

definition sized_banner :: "banner \<Rightarrow> banner" where
  "sized_banner bn =
     (if unsized bn
      then (case unwrap_or [] (banner_format bn) of fm # _ \<Rightarrow> bn\<lparr>banner_w := format_w fm, banner_h := format_h fm\<rparr> | [] \<Rightarrow> bn)
      else bn)"

definition mediago_imp :: "imp \<Rightarrow> imp" where
  "mediago_imp i = i\<lparr>imp_banner := map_option sized_banner (imp_banner i)\<rparr>"

definition mediago_make_requests :: "adapter_serde \<Rightarrow> string \<Rightarrow> bid_request \<Rightarrow> extra_request_info \<Rightarrow> requests_out" where
  "mediago_make_requests z endpoint request info =
     (case mediago_token_and_region request of
        Inl e \<Rightarrow> ([], [e])
      | Inr (tok, region) \<Rightarrow>
          let imps = map mediago_imp (req_imp request)
          in encode z BadInput (request\<lparr>req_imp := imps\<rparr>)
               (post (str_replace ''{{.Host}}'' (mediago_region_host region) (str_replace ''{{.AccountID}}'' tok endpoint))
                  [content_json8, accept_json, openrtb25] (get_imp_ids imps)))"

definition mediago_bid_type :: "bid_request \<Rightarrow> bid \<Rightarrow> (bidder_error, bid_type) res" where
  "mediago_bid_type request b =
     (if bid_mtype b = Some 1 then Inr BtBanner
      else if bid_mtype b = Some 4 then Inr BtNative
      else case Option.bind (imp_of_bid request b) (slot_of_imp [SBanner, SNative]) of
             Some t \<Rightarrow> Inr t
           | None \<Rightarrow> Inl (BadServerResponse (''Unsupported MType '' @ show_int (mtype_of b))))"

definition mediago_make_bids :: "adapter_serde \<Rightarrow> bid_request \<Rightarrow> request_data \<Rightarrow> response_data \<Rightarrow> bid_answer" where
  "mediago_make_bids z request rd response =
     on_body z (gate refuse_std) BadServerResponse response (some_typed cur_nonempty (typed_by (mediago_bid_type request)))"

definition mediago_adapter :: "adapter_serde \<Rightarrow> string \<Rightarrow> bidder" where
  "mediago_adapter z endpoint = \<lparr>make_requests = mediago_make_requests z endpoint, make_bids = mediago_make_bids z\<rparr>"

lemma mediago_contract [contracts]: "adapter_contract (sj_from_slice z) (mediago_adapter z endpoint)"
  by (rule contractI) (auto simp: mediago_adapter_def mediago_make_requests_def mediago_make_bids_def mediago_imp_def get_imp_ids_def comp_def
      Let_def contract_simps split: sum.split)

definition lockerdome_imp :: "imp \<Rightarrow> (bidder_error, imp) res" where
  "lockerdome_imp i =
     (if imp_banner i = None then Inl (BadInput ''LockerDome does not currently support non-banner types.'')
      else if imp_jext i = None then Inl (BadInput ''ext was not provided.'')
      else if str_param i ''adUnitId'' = [] then Inl (BadInput ''ext.bidder.adUnitId is empty.'')
      else Inr i)"

lemma lockerdome_imp_id [contract_simps]: "keeps_id lockerdome_imp"
  by (auto simp: keeps_id_def lockerdome_imp_def split: if_splits)

definition lockerdome_make_requests :: "adapter_serde \<Rightarrow> string \<Rightarrow> bid_request \<Rightarrow> extra_request_info \<Rightarrow> requests_out" where
  "lockerdome_make_requests z endpoint request info =
     (let imps = fst (collect_ok lockerdome_imp (req_imp request)); errs = snd (collect_ok lockerdome_imp (req_imp request))
      in if req_imp request = [] then ([], [BadInput ''No valid impressions in the bid request.''])
         else if imps = [] then ([], errs @ [BadInput ''No valid or supported impressions in the bid request.''])
         else encode_errs z errs errs (request\<lparr>req_imp := imps\<rparr>) (post endpoint [content_json8, accept_json, openrtb25] (get_imp_ids imps)))"

definition lockerdome_make_bids :: "adapter_serde \<Rightarrow> bid_request \<Rightarrow> request_data \<Rightarrow> response_data \<Rightarrow> bid_answer" where
  "lockerdome_make_bids z request rd response =
     on_body z (gate refuse_std) (\<lambda>e. BadServerResponse (''Error unmarshaling LockerDome bid response - '' @ e)) response
       (some_seats (Inr bidder_response_new) (keep_typed cur_usd (typed_as BtBanner)))"

definition lockerdome_adapter :: "adapter_serde \<Rightarrow> string \<Rightarrow> bidder" where
  "lockerdome_adapter z endpoint = \<lparr>make_requests = lockerdome_make_requests z endpoint, make_bids = lockerdome_make_bids z\<rparr>"

lemma lockerdome_contract [contracts]: "adapter_contract (sj_from_slice z) (lockerdome_adapter z endpoint)"
  by (rule contractI) (simp_all add: lockerdome_adapter_def lockerdome_make_requests_def lockerdome_make_bids_def Let_def contract_simps)

definition impactify_imp :: "imp \<Rightarrow> (bidder_error, imp) res" where
  "impactify_imp i =
     (if unwrap_or JNull (imp_bidder i) = JNull then Inl (BadInput (''Unable to decode the imp ext : \"'' @ imp_id i @ ''\"''))
      else Inr (i\<lparr>imp_jext := Some (JObj [(''impactify'', unwrap_or JNull (imp_bidder i))])\<rparr>))"

text \<open>The IPv6 address is only used when there is no IPv4 address at all.\<close>

definition impactify_headers :: "bid_request \<Rightarrow> (string \<times> string) list" where
  "impactify_headers request =
     [content_json8, accept_json, openrtb25] @ dev_header request ''User-Agent'' device_ua
     @ dev_header request ''X-Forwarded-For'' (\<lambda>d. case device_ip d of Some ip \<Rightarrow> Some ip | None \<Rightarrow> device_ipv6 d)
     @ site_header request ''Referer'' site_page
     @ map (\<lambda>(k, u). (k, ''uids='' @ u)) (opt_header ''Cookie'' (Option.bind (req_user request) user_buyeruid))"

definition impactify_media_type :: "bid_request \<Rightarrow> bid \<Rightarrow> (bidder_error, bid_type) res" where
  "impactify_media_type =
     slot_or [SBanner, SVideo] (\<lambda>b. BadInput (''Failed to find a supported media type impression \"'' @ bid_impid b @ ''\"''))"

definition impactify_make_requests :: "adapter_serde \<Rightarrow> string \<Rightarrow> bid_request \<Rightarrow> extra_request_info \<Rightarrow> requests_out" where
  "impactify_make_requests z endpoint request info =
     (if req_imp request = [] then ([], [BadInput ''No valid impressions in the bid request''])
      else case strict_ok impactify_imp (req_imp request) of
             Inl e \<Rightarrow> ([], [e])
           | Inr imps \<Rightarrow>
               encode z BadInput (request\<lparr>req_imp := imps, req_cur := Some [''USD'']\<rparr>)
                 (post endpoint (impactify_headers request) (get_imp_ids (req_imp request))))"

text \<open>Bids without a positive price are passed over.\<close>

definition with_positive_price :: "(bid_response \<Rightarrow> bid_answer) \<Rightarrow> bid_response \<Rightarrow> bid_answer" where
  "with_positive_price k br =
     k (br\<lparr>resp_seatbid := map (\<lambda>sb. sb\<lparr>seatbid_bid := filter (\<lambda>b. \<not> f_le (bid_price b) (Fin False 0)) (seatbid_bid sb)\<rparr>) (resp_seatbid br)\<rparr>)"

lemma drawn_from_positive [contract_simps]:
  assumes "\<And>br. drawn_from br (k br)"
  shows "drawn_from br (with_positive_price k br)"
proof -
  let ?br = "br\<lparr>resp_seatbid := map (\<lambda>sb. sb\<lparr>seatbid_bid := filter (\<lambda>b. \<not> f_le (bid_price b) (Fin False 0)) (seatbid_bid sb)\<rparr>) (resp_seatbid br)\<rparr>"
  have "set (response_bids ?br) \<subseteq> set (response_bids br)"
    by (auto simp: response_bids_def)
  then show ?thesis
    using assms [of ?br] by (fastforce simp: with_positive_price_def drawn_from_def split: sum.splits)
qed

definition impactify_make_bids :: "adapter_serde \<Rightarrow> bid_request \<Rightarrow> request_data \<Rightarrow> response_data \<Rightarrow> bid_answer" where
  "impactify_make_bids z request rd response =
     on_body z (gate (refuse_first 400 (BadInput ''Invalid request.'') refuse_std)) (\<lambda>_. BadServerResponse ''Bad server body response'') response
       (some_seats (Inr bidder_response_new)
          (on_first_seat (with_positive_price (all_typed cur_some (typed_by (impactify_media_type request))))))"

definition impactify_adapter :: "adapter_serde \<Rightarrow> string \<Rightarrow> bidder" where
  "impactify_adapter z endpoint = \<lparr>make_requests = impactify_make_requests z endpoint, make_bids = impactify_make_bids z\<rparr>"

lemma impactify_contract [contracts]: "adapter_contract (sj_from_slice z) (impactify_adapter z endpoint)"
  by (rule contractI) (simp_all add: impactify_adapter_def impactify_make_requests_def impactify_make_bids_def contract_simps)

fun unruly_check :: "imp list \<Rightarrow> bidder_error option" where
  "unruly_check [] = None"
| "unruly_check (i # ims) =
     (case imp_bidder i of
        None \<Rightarrow> Some (BadInput (''ext data not provided in imp id='' @ imp_id i @ ''. Abort all Request''))
      | Some b \<Rightarrow>
          if jget b ''siteId'' = None \<and> jget b ''siteid'' = None
          then Some (BadInput (''siteid not provided in imp id='' @ imp_id i @ ''. Abort all Request''))
          else unruly_check ims)"

definition unruly_media_type :: "bid_request \<Rightarrow> bid \<Rightarrow> (bidder_error, bid_type) res" where
  "unruly_media_type request b =
     (case imp_of_bid request b of
        None \<Rightarrow> Inl (BadServerResponse (''Bid response imp ID '' @ bid_impid b @ '' not found in bid request''))
      | Some i \<Rightarrow>
          (case slot_of_imp [SBanner, SVideo] i of
             Some t \<Rightarrow> Inr t
           | None \<Rightarrow> Inl (BadServerResponse (''bid responses mediaType didn'' @ [CHR 0x27] @ ''t match supported mediaTypes''))))"

definition unruly_make_requests :: "adapter_serde \<Rightarrow> string \<Rightarrow> bid_request \<Rightarrow> extra_request_info \<Rightarrow> requests_out" where
  "unruly_make_requests z endpoint request info =
     (case unruly_check (req_imp request) of
        Some e \<Rightarrow> ([], [e])
      | None \<Rightarrow> if endpoint = [] then ([], []) else whole z endpoint [content_json8, accept_json] request)"

definition unruly_make_bids :: "adapter_serde \<Rightarrow> bid_request \<Rightarrow> request_data \<Rightarrow> response_data \<Rightarrow> bid_answer" where
  "unruly_make_bids z request rd response =
     on_body z (gate refuse_std) BadServerResponse response (keep_typed cur_usd (typed_by (unruly_media_type request)))"

definition unruly_adapter :: "adapter_serde \<Rightarrow> string \<Rightarrow> bidder" where
  "unruly_adapter z endpoint = \<lparr>make_requests = unruly_make_requests z endpoint, make_bids = unruly_make_bids z\<rparr>"

lemma unruly_contract [contracts]: "adapter_contract (sj_from_slice z) (unruly_adapter z endpoint)"
  by (rule contractI) (simp_all add: unruly_adapter_def unruly_make_requests_def unruly_make_bids_def contract_simps)

definition inmobi_bid_type :: "bid \<Rightarrow> (bidder_error, bid_type) res" where
  "inmobi_bid_type =
     mtype_table [mt_banner, mt_video, mt_native]
       (\<lambda>b. BadServerResponse (''Unsupported mtype '' @ show_int (mtype_of b) @ '' for bid '' @ bid_id b))"

definition inmobi_make_requests :: "adapter_serde \<Rightarrow> string \<Rightarrow> bid_request \<Rightarrow> extra_request_info \<Rightarrow> requests_out" where
  "inmobi_make_requests z endpoint request info =
     (case req_imp request of
        [] \<Rightarrow> ([], [BadInput ''No impression in the request''])
      | i # ims \<Rightarrow>
          if str_param i ''plc'' = []
          then ([], [BadInput ([CHR 0x27] @ ''plc'' @ [CHR 0x27] @ '' is a required attribute for InMobi'' @ [CHR 0x27] @ ''s bidder ext'')])
          else let imps = i\<lparr>imp_banner := map_option sized_banner (imp_banner i)\<rparr> # ims
               in encode z BadInput (request\<lparr>req_imp := imps\<rparr>) (post endpoint [content_json8, accept_json] (get_imp_ids imps)))"

definition inmobi_make_bids :: "adapter_serde \<Rightarrow> bid_request \<Rightarrow> request_data \<Rightarrow> response_data \<Rightarrow> bid_answer" where
  "inmobi_make_bids z request rd response =
     on_body z (gate (refuse_any (\<lambda>s. ''Unexpected http status code: '' @ show_nat s))) BadServerResponse response
       (all_typed cur_usd (typed_by inmobi_bid_type))"

definition inmobi_adapter :: "adapter_serde \<Rightarrow> string \<Rightarrow> bidder" where
  "inmobi_adapter z endpoint = \<lparr>make_requests = inmobi_make_requests z endpoint, make_bids = inmobi_make_bids z\<rparr>"

lemma inmobi_contract [contracts]: "adapter_contract (sj_from_slice z) (inmobi_adapter z endpoint)"
  by (rule contractI) (simp_all add: inmobi_adapter_def inmobi_make_requests_def inmobi_make_bids_def Let_def contract_simps)

definition teads_imp :: "imp \<Rightarrow> (bidder_error, imp) res" where
  "teads_imp i =
     (if int_param i ''placementId'' = 0 then Inl (BadInput ''placementId should not be 0.'')
      else Inr (i\<lparr>imp_banner := map_option (\<lambda>bn. case unwrap_or [] (banner_format bn) of
                                                   fm # _ \<Rightarrow> bn\<lparr>banner_w := format_w fm, banner_h := format_h fm\<rparr>
                                                 | [] \<Rightarrow> bn) (imp_banner i),
                  imp_tagid := Some (show_int (int_param i ''placementId'')),
                  imp_jext := Some (JObj [(''kv'', JObj [(''placementId'', unwrap_or JNull (jpath (imp_bidder i) [''placementId'']))])])\<rparr>))"

definition teads_make_requests :: "adapter_serde \<Rightarrow> string \<Rightarrow> bid_request \<Rightarrow> extra_request_info \<Rightarrow> requests_out" where
  "teads_make_requests z endpoint request info =
     (if req_imp request = [] then ([], [BadInput ''No impression in the bid request''])
      else case strict_ok teads_imp (req_imp request) of
             Inl e \<Rightarrow> ([], [e])
           | Inr imps \<Rightarrow> encode z BadInput (request\<lparr>req_imp := imps\<rparr>) (post endpoint [content_json8] (get_imp_ids (req_imp request))))"

definition teads_media_type :: "bid_request \<Rightarrow> bid \<Rightarrow> (bidder_error, bid_type) res" where
  "teads_media_type request b =
     (if str_at (bid_jext b) [''prebid'', ''meta'', ''rendererName''] = [] then Inl (BadInput ''RendererName should not be empty if present'')
      else if str_at (bid_jext b) [''prebid'', ''meta'', ''rendererVersion''] = [] then Inl (BadInput ''RendererVersion should not be empty if present'')
      else case imp_of_bid request b of
             Some i \<Rightarrow> Inr (if imp_video i \<noteq> None then BtVideo else BtBanner)
           | None \<Rightarrow> Inl (BadInput ''Imp ids were not equals''))"

definition teads_bid_meta :: "bid \<Rightarrow> bid_meta option" where
  "teads_bid_meta b =
     Some (bid_meta_default\<lparr>meta_renderer_name := Some (str_at (bid_jext b) [''prebid'', ''meta'', ''rendererName'']),
                            meta_renderer_version := Some (str_at (bid_jext b) [''prebid'', ''meta'', ''rendererVersion''])\<rparr>)"

definition teads_make_bids :: "adapter_serde \<Rightarrow> bid_request \<Rightarrow> request_data \<Rightarrow> response_data \<Rightarrow> bid_answer" where
  "teads_make_bids z request rd response =
     on_body z (gate refuse_std) BadServerResponse response
       (all_typed cur_nonempty (with_parts (\<lambda>_ _. None) teads_bid_meta (teads_media_type request)))"

definition teads_adapter :: "adapter_serde \<Rightarrow> string \<Rightarrow> bidder" where
  "teads_adapter z endpoint = \<lparr>make_requests = teads_make_requests z endpoint, make_bids = teads_make_bids z\<rparr>"

lemma teads_contract [contracts]: "adapter_contract (sj_from_slice z) (teads_adapter z endpoint)"
  by (rule contractI) (simp_all add: teads_adapter_def teads_make_requests_def teads_make_bids_def contract_simps)

fun onetag_pub_id :: "imp list \<Rightarrow> string \<Rightarrow> (bidder_error, string) res" where
  "onetag_pub_id [] pub_id = Inr pub_id"
| "onetag_pub_id (i # ims) pub_id =
     (case imp_bidder i of
        None \<Rightarrow> Inl (BadInput (''Bidder extension not provided or can'' @ [CHR 0x27] @ ''t be unmarshalled''))
      | Some _ \<Rightarrow>
          let pid = str_param i ''pubId''
          in if pid = [] then Inl (BadInput ''The publisher ID must not be empty'')
             else if pub_id = [] then onetag_pub_id ims pid
             else if pub_id \<noteq> pid then Inl (BadInput ''There must be only one publisher ID'')
             else onetag_pub_id ims pub_id)"

definition onetag_media_type :: "bid_request \<Rightarrow> bid \<Rightarrow> (bidder_error, bid_type) res" where
  "onetag_media_type =
     slot_or [SBanner, SVideo, SNative]
       (\<lambda>b. BadServerResponse (''The impression with ID '' @ bid_impid b @ '' is not present into the request''))"

definition onetag_make_requests :: "adapter_serde \<Rightarrow> string \<Rightarrow> bid_request \<Rightarrow> extra_request_info \<Rightarrow> requests_out" where
  "onetag_make_requests z endpoint request info =
     (case onetag_pub_id (req_imp request) [] of
        Inl e \<Rightarrow> ([], [e])
      | Inr pub_id \<Rightarrow> whole z (str_replace ''{{.PublisherID}}'' pub_id endpoint) [content_json8, accept_json] request)"

definition onetag_make_bids :: "adapter_serde \<Rightarrow> bid_request \<Rightarrow> request_data \<Rightarrow> response_data \<Rightarrow> bid_answer" where
  "onetag_make_bids z request rd response =
     on_body z (gate (refuse_any (\<lambda>s. usc_debug s @ ''.''))) BadServerResponse response (all_typed cur_nonempty (typed_by (onetag_media_type request)))"

definition onetag_adapter :: "adapter_serde \<Rightarrow> string \<Rightarrow> bidder" where
  "onetag_adapter z endpoint = \<lparr>make_requests = onetag_make_requests z endpoint, make_bids = onetag_make_bids z\<rparr>"

lemma onetag_contract [contracts]: "adapter_contract (sj_from_slice z) (onetag_adapter z endpoint)"
  by (rule contractI) (simp_all add: onetag_adapter_def onetag_make_requests_def onetag_make_bids_def contract_simps)

section \<open>Without the contract\<close>

definition adman_media_type :: "bid_request \<Rightarrow> bid \<Rightarrow> (bidder_error, bid_type) res" where
  "adman_media_type request b =
     (case imp_of_bid request b of
        Some i \<Rightarrow> Inr (if imp_banner i = None \<and> imp_video i \<noteq> None then BtVideo else BtBanner)
      | None \<Rightarrow> Inl (BadInput (''Failed to find impression \"'' @ bid_impid b @ ''\" '')))"

definition adman_make_requests :: "adapter_serde \<Rightarrow> string \<Rightarrow> bid_request \<Rightarrow> extra_request_info \<Rightarrow> requests_out" where
  "adman_make_requests z endpoint request info =
     each_imp (\<lambda>i. encode_imp z BadInput
                     (request\<lparr>req_imp := [case Option.bind (jpath (imp_bidder i) [''TagID'']) as_str of Some t \<Rightarrow> i\<lparr>imp_tagid := Some t\<rparr> | None \<Rightarrow> i]\<rparr>)
                     (post endpoint [content_json8, accept_json] [imp_id i])) (req_imp request)"

definition adman_gate :: "response_data \<Rightarrow> bid_answer option" where
  "adman_gate p =
     (if rs_status_code p = 204 then Some (Inr bidder_response_new)
      else if rs_status_code p = 404 then Some (Inl [BadServerResponse (usc_debug (rs_status_code p))])
      else None)"

definition adman_make_bids :: "adapter_serde \<Rightarrow> bid_request \<Rightarrow> request_data \<Rightarrow> response_data \<Rightarrow> bid_answer" where
  "adman_make_bids z request rd response =
     on_body z adman_gate BadServerResponse response (keep_typed cur_usd (typed_by (adman_media_type request)))"

definition adman_adapter :: "adapter_serde \<Rightarrow> string \<Rightarrow> bidder" where
  "adman_adapter z endpoint = \<lparr>make_requests = adman_make_requests z endpoint, make_bids = adman_make_bids z\<rparr>"

text \<open>The answer does not depend on the status, 204 and 404 apart: the body of a server error is read for bids.\<close>

lemma adman_any_status:
  assumes "s \<notin> {204, 404}"
  shows "adman_make_bids z r rd (p\<lparr>rs_status_code := s\<rparr>) = adman_make_bids z r rd (p\<lparr>rs_status_code := 200\<rparr>)"
  using assms by (simp add: adman_make_bids_def on_body_def adman_gate_def)

text \<open>The lower case of the markup is only searched for ASCII text, to which no other character is lowered than the capital letters
  and two that do not occur in it.\<close>

definition jixie_bid_type :: "bid \<Rightarrow> bid_type" where
  "jixie_bid_type b =
     (case bid_adm b of
        None \<Rightarrow> BtBanner
      | Some adm \<Rightarrow>
          if str_contains ''<?xml'' (map ascii_lower adm) \<or> str_contains ''<vast'' (map ascii_lower adm) then BtVideo else BtBanner)"

definition jixie_make_requests :: "adapter_serde \<Rightarrow> string \<Rightarrow> bid_request \<Rightarrow> extra_request_info \<Rightarrow> requests_out" where
  "jixie_make_requests z endpoint request info =
     whole z endpoint
       ([content_json8, accept_json] @ dev_header request ''User-Agent'' device_ua @ dev_header request ''X-Forwarded-For'' device_ip
        @ site_header request ''Referer'' site_page) request"

definition jixie_make_bids :: "adapter_serde \<Rightarrow> bid_request \<Rightarrow> request_data \<Rightarrow> response_data \<Rightarrow> bid_answer" where
  "jixie_make_bids z request rd response =
     on_body z (gate (refuse_400 usc_debug (\<lambda>s. ''Invalid Status Returned: '' @ show_nat s @ ''. Run with request.debug = 1 for more info'')))
       (\<lambda>e. BadServerResponse (''Unable to unpackage bid response. Error: '' @ e)) response
       (keep_typed cur_some (typed_with (\<lambda>b. b\<lparr>bid_impid := bid_id b\<rparr>) (\<lambda>b. Inr (jixie_bid_type b))))"

definition jixie_adapter :: "adapter_serde \<Rightarrow> string \<Rightarrow> bidder" where
  "jixie_adapter z endpoint = \<lparr>make_requests = jixie_make_requests z endpoint, make_bids = jixie_make_bids z\<rparr>"

text \<open>Every bid is returned for the impression named by its own identifier.\<close>

lemma jixie_renames:
  assumes "jixie_make_bids z r rd p = Inr br" "tb \<in> set (br_bids br)"
  shows "bid_impid (tb_bid tb) = bid_id (tb_bid tb)"
  using assms
  by (auto simp: jixie_make_bids_def on_body_def gate_def keep_typed_def typed_with_def bidder_response_new_def
      dest!: collect_ok_mem split: option.splits sum.splits if_splits)

section \<open>Impressions grouped by a key\<close>

text \<open>The groups are entries of a \<^verbatim>\<open>HashMap\<close>: the order in which they become requests is an argument.\<close>

definition group_by_key :: "(imp \<Rightarrow> 'k) \<Rightarrow> imp list \<Rightarrow> ('k \<times> imp list) list" where
  "group_by_key key is = fold (\<lambda>i m. hm_insert (key i) (get_or [] m (key i) @ [i]) m) is []"

lemma group_by_key_get: "get_or [] (group_by_key key is) k = filter (\<lambda>i. key i = k) is"
proof -
  have "get_or [] (fold (\<lambda>i m. hm_insert (key i) (get_or [] m (key i) @ [i]) m) is acc) k = get_or [] acc k @ filter (\<lambda>i. key i = k) is" for acc
    by (induction "is" arbitrary: acc) (simp_all add: get_or_def map_of_hm_insert)
  from this [of "[]"] show ?thesis
    by (simp add: group_by_key_def get_or_def)
qed

lemma group_by_key_wf: "distinct (map fst (group_by_key key is))"
proof -
  have "hm_wf acc \<Longrightarrow> hm_wf (fold (\<lambda>i m. hm_insert (key i) (get_or [] m (key i) @ [i]) m) is acc)" for acc
    by (induction "is" arbitrary: acc) (simp_all add: hm_wf_insert)
  from this [of "[]"] show ?thesis
    by (simp add: group_by_key_def hm_wf_def)
qed

lemma group_by_key_mem:
  assumes "(k, g) \<in> set (group_by_key key is)"
  shows "g = filter (\<lambda>i. key i = k) is"
  using group_by_key_get [of key "is" k] map_of_is_SomeI [OF group_by_key_wf assms] by (simp add: get_or_def)

definition logicad_group_request :: "adapter_serde \<Rightarrow> string \<Rightarrow> bid_request \<Rightarrow> string \<times> imp list \<Rightarrow> (bidder_error, request_data) res" where
  "logicad_group_request z endpoint request g =
     (case g of (tid, imps) \<Rightarrow>
        encode_imp z BadInput (request\<lparr>req_imp := map (\<lambda>i. i\<lparr>imp_tagid := Some tid, imp_jext := None\<rparr>) imps\<rparr>)
          (post endpoint [content_json8, accept_json] (get_imp_ids imps)))"

definition logicad_make_requests ::
  "(string list \<Rightarrow> string list) \<Rightarrow> adapter_serde \<Rightarrow> string \<Rightarrow> bid_request \<Rightarrow> extra_request_info \<Rightarrow> requests_out" where
  "logicad_make_requests ord z endpoint request info =
     (let valid = filter (\<lambda>i. str_param i ''tid'' \<noteq> []) (req_imp request);
          errs = map (\<lambda>i. BadInput ''No tid value provided'') (filter (\<lambda>i. str_param i ''tid'' = []) (req_imp request));
          groups = group_by_key (\<lambda>i. str_param i ''tid'') valid
      in if req_imp request = [] then ([], [BadInput ''No impression in the bid request''])
         else if groups = [] then ([], errs)
         else case collect_ok (logicad_group_request z endpoint request) (hm_iter ord groups) of
                (rds, es) \<Rightarrow> (rds, errs @ es))"

definition logicad_make_bids :: "adapter_serde \<Rightarrow> bid_request \<Rightarrow> request_data \<Rightarrow> response_data \<Rightarrow> bid_answer" where
  "logicad_make_bids z request rd response =
     on_body z (gate (refuse_any (\<lambda>s. ''Unexpected http status code: '' @ show_nat s))) (\<lambda>e. BadServerResponse (''Bad server response: '' @ e)) response
       (\<lambda>br. if length (resp_seatbid br) \<noteq> 1
             then Inl [BadServerResponse (''Invalid SeatBids count: '' @ show_nat (length (resp_seatbid br)))]
             else keep_typed cur_nonempty (typed_as BtBanner) br)"

definition logicad_adapter :: "(string list \<Rightarrow> string list) \<Rightarrow> adapter_serde \<Rightarrow> string \<Rightarrow> bidder" where
  "logicad_adapter ord z endpoint = \<lparr>make_requests = logicad_make_requests ord z endpoint, make_bids = logicad_make_bids z\<rparr>"

definition ownadx_ext :: "imp \<Rightarrow> string \<times> string \<times> string" where
  "ownadx_ext i = (str_param i ''sspId'', str_param i ''seatId'', str_param i ''tokenId'')"

definition ownadx_url :: "string \<Rightarrow> string \<times> string \<times> string \<Rightarrow> string" where
  "ownadx_url endpoint ext =
     (case ext of (ssp, seat, tok) \<Rightarrow>
        str_replace ''{{.TokenID}}'' tok (str_replace ''{{.SeatID}}'' seat (str_replace ''{{.SspID}}'' ssp endpoint)))"

definition ownadx_group_request :: "adapter_serde \<Rightarrow> string \<Rightarrow> bid_request \<Rightarrow> (string \<times> string \<times> string) \<times> imp list \<Rightarrow> (bidder_error, request_data) res" where
  "ownadx_group_request z endpoint request g =
     (case g of (ext, imps) \<Rightarrow>
        encode_imp z BadInput (request\<lparr>req_imp := imps\<rparr>)
          (post (ownadx_url endpoint ext) [content_json8, accept_json, openrtb25] (get_imp_ids imps)))"

definition ownadx_make_requests ::
  "((string \<times> string \<times> string) list \<Rightarrow> (string \<times> string \<times> string) list) \<Rightarrow> adapter_serde \<Rightarrow> string \<Rightarrow> bid_request \<Rightarrow> extra_request_info \<Rightarrow> requests_out" where
  "ownadx_make_requests ord z endpoint request info =
     (let valid = filter (\<lambda>i. imp_bidder i \<noteq> None) (req_imp request);
          errs = map (\<lambda>i. BadInput (''Bidder extension not valid or can'' @ [CHR 0x27] @ ''t be unmarshalled''))
                   (filter (\<lambda>i. imp_bidder i = None) (req_imp request));
          groups = group_by_key ownadx_ext valid
      in if req_imp request = [] then ([], [BadInput ''No impression in the bid request''])
         else if groups = [] then ([], errs)
         else case collect_ok (ownadx_group_request z endpoint request) (hm_iter ord groups) of
                (rds, es) \<Rightarrow> (rds, errs @ es))"

definition ownadx_bid_type :: "bid \<Rightarrow> (bidder_error, bid_type) res" where
  "ownadx_bid_type = ext_mtype_table [mt_banner, mt_video, mt_audio, mt_native] (\<lambda>_. BadServerResponse ''Bid type is invalid'')"

definition ownadx_make_bids :: "adapter_serde \<Rightarrow> bid_request \<Rightarrow> request_data \<Rightarrow> response_data \<Rightarrow> bid_answer" where
  "ownadx_make_bids z request rd response =
     on_body z (gate refuse_std) BadServerResponse response
       (some_seats (Inl [BadServerResponse ''Array SeatBid cannot be empty''])
          (some_first_bid (Inl [BadServerResponse ''Bid cannot be empty'']) (all_typed cur_usd (typed_by ownadx_bid_type))))"

definition ownadx_adapter :: "((string \<times> string \<times> string) list \<Rightarrow> (string \<times> string \<times> string) list) \<Rightarrow> adapter_serde \<Rightarrow> string \<Rightarrow> bidder" where
  "ownadx_adapter ord z endpoint = \<lparr>make_requests = ownadx_make_requests ord z endpoint, make_bids = ownadx_make_bids z\<rparr>"

lemma hm_iter_subset:
  assumes "iter_order ord"
  shows "set (hm_iter ord m) \<subseteq> set m"
proof -
  have "set (ord (map fst m)) = fst ` set m"
    using assms mset_eq_setD [of "ord (map fst m)" "map fst m"] by (simp add: iter_order_def)
  moreover have "(k, the (map_of m k)) \<in> set m" if "k \<in> fst ` set m" for k
    using that map_of_eq_None_iff [of m k] map_of_SomeD [of m k] by force
  ultimately show ?thesis
    by (auto simp: hm_iter_def)
qed

lemma groups_known:
  assumes "iter_order ord"
    and "\<And>k g rd. f (k, g) = Inr rd \<Longrightarrow> rd_imp_ids rd = get_imp_ids g"
  shows "sends_known imps (fst (collect_ok f (hm_iter ord (group_by_key key (filter q imps)))))"
proof (unfold sends_known_def, intro ballI)
  fix rd assume "rd \<in> set (fst (collect_ok f (hm_iter ord (group_by_key key (filter q imps)))))"
  then obtain k g where g: "(k, g) \<in> set (hm_iter ord (group_by_key key (filter q imps)))" "f (k, g) = Inr rd"
    by (auto dest!: collect_ok_mem)
  with hm_iter_subset [OF assms(1)] have "(k, g) \<in> set (group_by_key key (filter q imps))"
    by blast
  from group_by_key_mem [OF this] assms(2) [OF g(2)] show "set (rd_imp_ids rd) \<subseteq> set (get_imp_ids imps)"
    by (auto simp: get_imp_ids_def)
qed

lemma fst_case_append [contract_simps]: "fst (case p of (a, b) \<Rightarrow> (a, es @ b)) = fst p"
  by (cases p) simp

lemma logicad_group_ids: "logicad_group_request z e r (k, g) = Inr rd \<Longrightarrow> rd_imp_ids rd = get_imp_ids g"
  by (auto simp: logicad_group_request_def encode_imp_def post_def split: sum.splits)

lemma ownadx_group_ids: "ownadx_group_request z e r (k, g) = Inr rd \<Longrightarrow> rd_imp_ids rd = get_imp_ids g"
  by (auto simp: ownadx_group_request_def encode_imp_def post_def split: sum.splits)

lemma logicad_contract: "iter_order ord \<Longrightarrow> adapter_contract (sj_from_slice z) (logicad_adapter ord z endpoint)"
  by (rule contractI)
    (simp_all add: logicad_adapter_def logicad_make_requests_def logicad_make_bids_def Let_def contract_simps
      groups_known [OF _ logicad_group_ids])

lemma ownadx_contract: "iter_order ord \<Longrightarrow> adapter_contract (sj_from_slice z) (ownadx_adapter ord z endpoint)"
  by (rule contractI)
    (simp_all add: ownadx_adapter_def ownadx_make_requests_def ownadx_make_bids_def Let_def contract_simps
      groups_known [OF _ ownadx_group_ids])

end
