(* ===== verification/AdapterRegistry.thy ===== *)
theory AdapterRegistry
  imports AdaptersA AdaptersB AdaptersC AdaptersD
begin

text \<open>
  The adapter map of \<^verbatim>\<open>rust/crates/adapters/src/registry.rs\<close>: the generic adapter, the modelled adapters under their registered
  names, and the aliases of the bidder files, which reuse the builder of their parent with an endpoint of their own.  The endpoints
  and the aliases, which the code reads from files, are arguments, and so are the adapters that have no model here (\<open>others\<close>): they are
  arbitrary, and nothing is assumed of them.

  The theory ends with what holds of the modelled ones: the contract of an adapter composed with calling a bidder, so that no bid is
  invented on the way, and the media types of the adapters that type by the \<^verbatim>\<open>mtype\<close> of the bid.
\<close>

section \<open>The adapter map\<close>

definition generic_make_requests :: "adapter_serde \<Rightarrow> string \<Rightarrow> bid_request \<Rightarrow> extra_request_info \<Rightarrow> requests_out" where
  "generic_make_requests z endpoint request info =
     (if endpoint = [] then ([], [])
      else case sj_to_vec z request of
             Inr body \<Rightarrow> ([request_data_new_post endpoint body], [])
           | Inl e \<Rightarrow> ([], [FailedToRequestBids e]))"

definition generic_make_bids :: "adapter_serde \<Rightarrow> bid_request \<Rightarrow> request_data \<Rightarrow> response_data \<Rightarrow> bid_answer" where
  "generic_make_bids z request rd response =
     on_body z (gate refuse_std) BadServerResponse response
       (keep_typed cur_usd (typed_total (\<lambda>b. get_bid_type_from_mtype (mtype_of b))))"

definition generic_adapter :: "adapter_serde \<Rightarrow> string \<Rightarrow> bidder" where
  "generic_adapter z endpoint = \<lparr>make_requests = generic_make_requests z endpoint, make_bids = generic_make_bids z\<rparr>"

lemma generic_contract [contracts]: "adapter_contract (sj_from_slice z) (generic_adapter z endpoint)"
  by (rule contractI)
    (simp_all add: generic_adapter_def generic_make_requests_def generic_make_bids_def request_data_new_post_def contract_simps)

interpretation generic: adapter_contract "sj_from_slice z" "generic_adapter z endpoint" for z endpoint
  by (rule generic_contract)

text \<open>The registered adapters.  Two of them iterate over a \<^verbatim>\<open>HashMap\<close>, and two do not keep the contract.\<close>

definition base_builders :: "adapter_serde \<Rightarrow> (string \<times> (string \<Rightarrow> bidder)) list" where
  "base_builders z =
     [(''huaweiads'', huaweiads_adapter z), (''automatad'', automatad_adapter z), (''openaudience'', openaudience_adapter z), (''spike'', spike_adapter z),
      (''cwire'', cwire_adapter z), (''feedad'', feedad_adapter z), (''optidigital'', optidigital_adapter z), (''smartx'', smartx_adapter z),
      (''ccx'', ccx_adapter z), (''cointraffic'', cointraffic_adapter z), (''blue'', blue_adapter z), (''coinzilla'', coinzilla_adapter z),
      (''adrino'', adrino_adapter z), (''interactiveoffers'', interactiveoffers_adapter z), (''mobkoi'', mobkoi_adapter z), (''vox'', vox_adapter z),
      (''zentotem'', zentotem_adapter z), (''adxcg'', adxcg_adapter z), (''smrtconnect'', smrtconnect_adapter z), (''trustedstack'', trustedstack_adapter z),
      (''medianet'', medianet_adapter z), (''rise'', rise_adapter z), (''vrtcal'', vrtcal_adapter z), (''aduptech'', aduptech_adapter z),
      (''oms'', oms_adapter z), (''smoot'', smoot_adapter z), (''pubrise'', pubrise_adapter z), (''pwbid'', pwbid_adapter z),
      (''smilewanted'', smilewanted_adapter z), (''definemedia'', definemedia_adapter z), (''zeta_global_ssp'', zeta_global_ssp_adapter z), (''e_volution'', e_volution_adapter z),
      (''visx'', visx_adapter z), (''sa_lunamedia'', sa_lunamedia_adapter z), (''smarthub'', smarthub_adapter z), (''ucfunnel'', ucfunnel_adapter z),
      (''smartrtb'', smartrtb_adapter z), (''epom'', epom_adapter z), (''infytv'', infytv_adapter z), (''escalax'', escalax_adapter z),
      (''nativo'', nativo_adapter z), (''brave'', brave_adapter z), (''seedtag'', seedtag_adapter z), (''roulax'', roulax_adapter z),
      (''mobfoxpb'', mobfoxpb_adapter z), (''tpmn'', tpmn_adapter z), (''intenze'', intenze_adapter z), (''bliink'', bliink_adapter z),
      (''smartyads'', smartyads_adapter z), (''globalsun'', globalsun_adapter z), (''visiblemeasures'', visiblemeasures_adapter z), (''bwx'', bwx_adapter z),
      (''driftpixel'', driftpixel_adapter z), (''decenterads'', decenterads_adapter z), (''videobyte'', videobyte_adapter z), (''flatads'', flatads_adapter z),
      (''silvermob'', silvermob_adapter z), (''oraki'', oraki_adapter z), (''pgamssp'', pgamssp_adapter z), (''edge226'', edge226_adapter z),
      (''boldwin'', boldwin_adapter z), (''kiviads'', kiviads_adapter z), (''startio'', startio_adapter z), (''boldwin_rapid'', boldwin_rapid_adapter z),
      (''melozen'', melozen_adapter z), (''copper6ssp'', copper6ssp_adapter z), (''loyal'', loyal_adapter z), (''vungle'', vungle_adapter z),
      (''loopme'', loopme_adapter z), (''openweb'', openweb_adapter z), (''nexx360'', nexx360_adapter z), (''nobid'', nobid_adapter z),
      (''yieldone'', yieldone_adapter z), (''mobilefuse'', mobilefuse_adapter z), (''revcontent'', revcontent_adapter z), (''exco'', exco_adapter z),
      (''orbidder'', orbidder_adapter z), (''madsense'', madsense_adapter z), (''clydo'', clydo_adapter z), (''metax'', metax_adapter z),
      (''vidoomy'', vidoomy_adapter z), (''kueezrtb'', kueezrtb_adapter z), (''frvradn'', frvradn_adapter z), (''iqx'', iqx_adapter z),
      (''iqzone'', iqzone_adapter z), (''playdigo'', playdigo_adapter z), (''trustx'', trustx_adapter z), (''marsmedia'', marsmedia_adapter z),
      (''krushmedia'', krushmedia_adapter z), (''imds'', imds_adapter z), (''lockerdome'', lockerdome_adapter z), (''impactify'', impactify_adapter z),
      (''unruly'', unruly_adapter z), (''inmobi'', inmobi_adapter z), (''teads'', teads_adapter z), (''onetag'', onetag_adapter z),
      (''mediago'', mediago_adapter z)]"

definition grouped_builders ::
  "(string list \<Rightarrow> string list) \<Rightarrow> ((string \<times> string \<times> string) list \<Rightarrow> (string \<times> string \<times> string) list) \<Rightarrow> adapter_serde \<Rightarrow> (string \<times> (string \<Rightarrow> bidder)) list" where
  "grouped_builders o1 o2 z = [(''logicad'', logicad_adapter o1 z), (''ownadx'', ownadx_adapter o2 z)]"

definition loose_builders :: "adapter_serde \<Rightarrow> (string \<times> (string \<Rightarrow> bidder)) list" where
  "loose_builders z = [(''adman'', adman_adapter z), (''jixie'', jixie_adapter z)]"

text \<open>The builders kept for the aliases.\<close>

definition alias_builders :: "adapter_serde \<Rightarrow> (string \<times> (string \<Rightarrow> bidder)) list" where
  "alias_builders z = [(''smarthub'', smarthub_adapter z), (''nexx360'', nexx360_adapter z), (''imds'', imds_adapter z)]"

text \<open>The registered adapters that are not modelled, and those of them whose builder is kept.\<close>

record others =
  ot_adapters :: "(string \<times> bidder) list"
  ot_builders :: "(string \<times> (string \<Rightarrow> bidder)) list"

definition registered ::
  "(string list \<Rightarrow> string list) \<Rightarrow> ((string \<times> string \<times> string) list \<Rightarrow> (string \<times> string \<times> string) list) \<Rightarrow> adapter_serde \<Rightarrow> others \<Rightarrow> (string \<Rightarrow> string)
   \<Rightarrow> (string \<times> bidder) list" where
  "registered o1 o2 z ot ep =
     map (\<lambda>(n, f). (n, f (ep n))) (base_builders z @ grouped_builders o1 o2 z @ loose_builders z)
     @ ot_adapters ot @ [(''sspBC'', generic_adapter z (ep ''sspBC''))]"

text \<open>An alias that is registered itself is left as it is; one whose parent keeps no builder gets the generic adapter.\<close>

definition add_alias :: "adapter_serde \<Rightarrow> others \<Rightarrow> (string \<Rightarrow> string) \<Rightarrow> string \<times> string \<Rightarrow> (string \<times> bidder) list \<Rightarrow> (string \<times> bidder) list" where
  "add_alias z ot ep al m =
     (case al of (alias_name, parent_name) \<Rightarrow>
        if map_of m alias_name \<noteq> None then m
        else let endpoint = (if ep alias_name = [] then ep parent_name else ep alias_name)
             in hm_insert alias_name
                  (case map_of (alias_builders z @ ot_builders ot) parent_name of Some builder \<Rightarrow> builder endpoint | None \<Rightarrow> generic_adapter z endpoint) m)"

definition build_adapter_map ::
  "(string list \<Rightarrow> string list) \<Rightarrow> ((string \<times> string \<times> string) list \<Rightarrow> (string \<times> string \<times> string) list) \<Rightarrow> adapter_serde \<Rightarrow> others \<Rightarrow> (string \<Rightarrow> string)
   \<Rightarrow> (string \<times> string) list \<Rightarrow> (string \<times> bidder) list" where
  "build_adapter_map o1 o2 z ot ep yaml_aliases = fold (add_alias z ot ep) yaml_aliases (registered o1 o2 z ot ep)"

section \<open>Names\<close>

lemma alias_keeps: "map_of m n = Some a \<Longrightarrow> map_of (add_alias z ot ep al m) n = Some a"
  by (cases al) (auto simp: add_alias_def Let_def map_of_hm_insert)

lemma aliases_keep: "map_of m n = Some a \<Longrightarrow> map_of (fold (add_alias z ot ep) als m) n = Some a"
  by (induction als arbitrary: m) (simp_all add: alias_keeps)

text \<open>The contract holds of the modelled builders, two apart.\<close>

lemma base_contracts: "(n, f) \<in> set (base_builders z) \<Longrightarrow> adapter_contract (sj_from_slice z) (f e)"
proof -
  have "list_all (\<lambda>(n, f). \<forall>e. adapter_contract (sj_from_slice z) (f e)) (base_builders z)"
    by (simp add: base_builders_def contracts)
  then show "(n, f) \<in> set (base_builders z) \<Longrightarrow> adapter_contract (sj_from_slice z) (f e)"
    by (auto simp: list_all_iff)
qed

lemma alias_contracts: "map_of (alias_builders z) n = Some f \<Longrightarrow> adapter_contract (sj_from_slice z) (f e)"
  by (auto simp: alias_builders_def contracts split: if_splits)

text \<open>Where a bid of an answer comes from.  Two adapters keep less than the contract: one reads the body of any status but two, and
  the other renames the impression to the identifier of the bid.\<close>

definition bid_origin :: "adapter_serde \<Rightarrow> string \<Rightarrow> response_data \<Rightarrow> typed_bid \<Rightarrow> bool" where
  "bid_origin z n p tb \<longleftrightarrow>
     (\<exists>br b. sj_from_slice z (rs_body p) = Inr br \<and> b \<in> set (response_bids br)
        \<and> bid_id (tb_bid tb) = bid_id b \<and> bid_price (tb_bid tb) = bid_price b
        \<and> bid_impid (tb_bid tb) = (if n = ''jixie'' then bid_id b else bid_impid b)
        \<and> (if n = ''adman'' then rs_status_code p \<notin> {204, 404} else success (rs_status_code p)))"

definition traced :: "adapter_serde \<Rightarrow> string \<Rightarrow> bidder \<Rightarrow> bool" where
  "traced z n a \<longleftrightarrow>
     (\<forall>r info. sends_known (req_imp r) (fst (make_requests a r info)))
     \<and> (\<forall>r rd p br tb. make_bids a r rd p = Inr br \<longrightarrow> tb \<in> set (br_bids br) \<longrightarrow> bid_origin z n p tb)"

lemma contract_traced: "adapter_contract (sj_from_slice z) a \<Longrightarrow> n \<noteq> ''adman'' \<Longrightarrow> n \<noteq> ''jixie'' \<Longrightarrow> traced z n a"
  using adapter_contract.bid_of_body [of "sj_from_slice z" a] adapter_contract.known_imps [of "sj_from_slice z" a]
  unfolding traced_def bid_origin_def same_bid_def by (metis (no_types, lifting))

lemma adman_traced: "traced z ''adman'' (adman_adapter z e)"
proof -
  have "bid_origin z ''adman'' p tb" if "adman_make_bids z r rd p = Inr br" "tb \<in> set (br_bids br)" for r rd p br tb
    using that
    by (auto simp: adman_make_bids_def on_body_def adman_gate_def keep_typed_def typed_by_def bid_origin_def bidder_response_new_def
        dest!: collect_ok_mem split: option.splits sum.splits if_splits) blast+
  moreover have "sends_known (req_imp r) (fst (adman_make_requests z e r info))" for r info
    by (simp add: adman_make_requests_def contract_simps)
  ultimately show ?thesis by (simp add: traced_def adman_adapter_def)
qed

lemma jixie_traced: "traced z ''jixie'' (jixie_adapter z e)"
proof -
  have "bid_origin z ''jixie'' p tb" if "jixie_make_bids z r rd p = Inr br" "tb \<in> set (br_bids br)" for r rd p br tb
    using that
    by (auto simp: jixie_make_bids_def on_body_def gate_def refuse_400_def success_def keep_typed_def typed_with_def bid_origin_def bidder_response_new_def
        dest!: collect_ok_mem split: option.splits sum.splits if_splits) blast+
  moreover have "sends_known (req_imp r) (fst (jixie_make_requests z e r info))" for r info
    by (simp add: jixie_make_requests_def contract_simps)
  ultimately show ?thesis by (simp add: traced_def jixie_adapter_def)
qed

lemma plain_names:
  "(n, f) \<in> set (base_builders z) \<Longrightarrow> n \<noteq> ''adman'' \<and> n \<noteq> ''jixie''"
  by (auto simp: base_builders_def)

lemma modelled_traced:
  assumes "iter_order o1" "iter_order o2" "(n, f) \<in> set (base_builders z @ grouped_builders o1 o2 z @ loose_builders z)"
  shows "traced z n (f e)"
proof -
  consider "(n, f) \<in> set (base_builders z)" | "(n, f) \<in> set (grouped_builders o1 o2 z)" | "(n, f) \<in> set (loose_builders z)"
    using assms(3) by auto
  then show ?thesis
  proof cases
    case 1
    show ?thesis using contract_traced [OF base_contracts [OF 1]] plain_names [OF 1] by simp
  next
    case 2
    then show ?thesis
      using logicad_contract [OF assms(1)] ownadx_contract [OF assms(2)]
      by (auto simp: grouped_builders_def intro!: contract_traced)
  next
    case 3
    then show ?thesis by (auto simp: loose_builders_def adman_traced jixie_traced)
  qed
qed

text \<open>The names of the map whose adapter is modelled: registered by a modelled builder or as the generic adapter, or an alias that does not reuse the
  builder of an adapter without a model.\<close>

definition modelled_name :: "others \<Rightarrow> (string \<times> string) list \<Rightarrow> string \<Rightarrow> bool" where
  "modelled_name ot als n \<longleftrightarrow>
     n \<notin> fst ` set (ot_adapters ot) \<and> (\<forall>parent. (n, parent) \<in> set als \<longrightarrow> parent \<notin> fst ` set (ot_builders ot))"

definition traced_map :: "adapter_serde \<Rightarrow> others \<Rightarrow> (string \<times> string) list \<Rightarrow> (string \<times> bidder) list \<Rightarrow> bool" where
  "traced_map z ot als m \<longleftrightarrow> (\<forall>n a. map_of m n = Some a \<longrightarrow> modelled_name ot als n \<longrightarrow> traced z n a)"

lemma traced_registered:
  assumes "iter_order o1" "iter_order o2"
  shows "traced_map z ot als (registered o1 o2 z ot ep)"
  unfolding traced_map_def
proof (intro allI impI)
  fix n a assume a: "map_of (registered o1 o2 z ot ep) n = Some a" and n: "modelled_name ot als n"
  let ?bs = "base_builders z @ grouped_builders o1 o2 z @ loose_builders z"
  have "(n, a) \<in> set (registered o1 o2 z ot ep)" using a by (rule map_of_SomeD)
  then have "(n, a) \<in> set (map (\<lambda>(n, f). (n, f (ep n))) ?bs) \<or> (n, a) \<in> set (ot_adapters ot) \<or> (n, a) \<in> set [(''sspBC'', generic_adapter z (ep ''sspBC''))]"
    by (simp only: registered_def set_append Un_iff)
  moreover have "(n, a) \<notin> set (ot_adapters ot)" using n by (force simp: modelled_name_def)
  moreover have "traced z n a" if "(n, a) \<in> set (map (\<lambda>(n, f). (n, f (ep n))) ?bs)"
  proof -
    from that obtain f where f: "(n, f) \<in> set ?bs" "a = f (ep n)" by (auto simp del: set_append map_append)
    then show ?thesis using modelled_traced [OF assms f(1)] by simp
  qed
  moreover have "traced z n a" if "(n, a) \<in> set [(''sspBC'', generic_adapter z (ep ''sspBC''))]"
    using that by (simp add: contract_traced generic_contract)
  ultimately show "traced z n a" by blast
qed

text \<open>An alias of the two loose adapters gets the generic adapter, and the registered names themselves are no aliases.\<close>

lemma loose_names_registered:
  "map_of (registered o1 o2 z ot ep) ''adman'' \<noteq> None" "map_of (registered o1 o2 z ot ep) ''jixie'' \<noteq> None"
  by (simp_all add: registered_def loose_builders_def map_of_eq_None_iff)

lemma traced_alias:
  assumes "traced_map z ot als m" "al \<in> set als" "map_of m ''adman'' \<noteq> None" "map_of m ''jixie'' \<noteq> None"
  shows "traced_map z ot als (add_alias z ot ep al m)"
  unfolding traced_map_def
proof (intro allI impI)
  fix n a assume a: "map_of (add_alias z ot ep al m) n = Some a" and n: "modelled_name ot als n"
  obtain al_name parent where al: "al = (al_name, parent)" by (cases al)
  show "traced z n a"
  proof (cases "map_of m n")
    case None
    then have plain: "n \<noteq> ''adman''" "n \<noteq> ''jixie''" using assms(3,4) by auto
    from None a have named: "n = al_name" by (auto simp: add_alias_def al Let_def map_of_hm_insert split: if_splits)
    then have "map_of (ot_builders ot) parent = None"
      using n assms(2) al by (auto simp: modelled_name_def map_of_eq_None_iff)
    then have "a = (case map_of (alias_builders z) parent of Some b \<Rightarrow> b (if ep al_name = [] then ep parent else ep al_name)
        | None \<Rightarrow> generic_adapter z (if ep al_name = [] then ep parent else ep al_name))"
      using a None named by (auto simp: add_alias_def al Let_def map_of_hm_insert map_add_def split: option.splits)
    then show ?thesis
      using alias_contracts plain generic_contract by (auto intro!: contract_traced split: option.splits)
  next
    case (Some a')
    then have "a = a'" using alias_keeps [OF Some, of z ot ep al] a by simp
    then show ?thesis using assms(1) Some n by (simp add: traced_map_def)
  qed
qed

lemma traced_aliases:
  "traced_map z ot als m \<Longrightarrow> set als' \<subseteq> set als \<Longrightarrow> map_of m ''adman'' \<noteq> None \<Longrightarrow> map_of m ''jixie'' \<noteq> None
   \<Longrightarrow> traced_map z ot als (fold (add_alias z ot ep) als' m)"
proof (induction als' arbitrary: m)
  case (Cons al als')
  have "traced_map z ot als (add_alias z ot ep al m)" using Cons.prems by (intro traced_alias) auto
  moreover have "map_of (add_alias z ot ep al m) k \<noteq> None" if "map_of m k \<noteq> None" for k
    using that alias_keeps [of m k] by fastforce
  ultimately show ?case using Cons by simp
qed simp

text \<open>Looking up an adapter that is modelled.\<close>

definition modelled_adapter ::
  "(string list \<Rightarrow> string list) \<Rightarrow> ((string \<times> string \<times> string) list \<Rightarrow> (string \<times> string \<times> string) list) \<Rightarrow> adapter_serde \<Rightarrow> others \<Rightarrow> (string \<Rightarrow> string)
   \<Rightarrow> (string \<times> string) list \<Rightarrow> string \<Rightarrow> bidder option" where
  "modelled_adapter o1 o2 z ot ep als n =
     (if iter_order o1 \<and> iter_order o2 \<and> modelled_name ot als n then map_of (build_adapter_map o1 o2 z ot ep als) n else None)"

lemma enumerate_mem: "(i, x) \<in> set (List.enumerate k xs) \<Longrightarrow> x \<in> set xs"
  by (auto simp: in_set_enumerate_eq)

text \<open>A registry whose adapters send only known impressions and whose bids can be traced to an answer.\<close>

locale adapter_registry =
  fixes lookup :: "string \<Rightarrow> bidder option" and origin :: "string \<Rightarrow> response_data \<Rightarrow> typed_bid \<Rightarrow> bool"
  assumes known: "lookup n = Some a \<Longrightarrow> sends_known (req_imp r) (fst (make_requests a r info))"
    and from_answer: "lookup n = Some a \<Longrightarrow> make_bids a r rd p = Inr br \<Longrightarrow> tb \<in> set (br_bids br) \<Longrightarrow> origin n p tb"
begin

lemma answered_bid:
  assumes "lookup n = Some (ab_bidder ab)"
    and "br \<in> set (concat (map (call_responses (ab_bidder ab) r) (calls_made gz net ab t k rds)))" "tb \<in> set (br_bids br)"
  shows "\<exists>i rd p c. rd \<in> set rds \<and> execute_request gz net i ab rd t = Inr (p, c) \<and> origin n p tb"
proof -
  from assms(2) obtain i rd where rd: "rd \<in> set rds" "br \<in> set (call_responses (ab_bidder ab) r (rd, execute_request gz net i ab rd t))"
    by (auto simp: calls_made_def dest: enumerate_mem)
  then obtain p c where "execute_request gz net i ab rd t = Inr (p, c)" "make_bids (ab_bidder ab) r rd p = Inr br"
    by (cases "execute_request gz net i ab rd t") (auto split: if_splits sum.splits)
  then show ?thesis using rd(1) from_answer [OF assms(1) _ assms(3)] by blast
qed

lemma requested_bid:
  assumes "lookup n = Some (ab_bidder ab)" "bres_response (request_bid gz net ms ab r name info t) = Inr br" "tb \<in> set (br_bids br)"
  shows "\<exists>i rd p c. rd \<in> set (fst (make_requests (ab_bidder ab) r info)) \<and> set (rd_imp_ids rd) \<subseteq> set (get_imp_ids (req_imp r))
     \<and> execute_request gz net i ab rd t = Inr (p, c) \<and> origin n p tb"
proof -
  let ?rds = "fst (make_requests (ab_bidder ab) r info)"
  have "br_bids br = concat (map br_bids (concat (map (call_responses (ab_bidder ab) r) (calls_made gz net ab t 0 ?rds))))"
    using assms(2) by (cases "make_requests (ab_bidder ab) r info")
      (auto simp: request_bid_def Let_def call_loop_eq fold_add_bids_bids bidder_response_new_def split: if_splits)
  with assms(3) obtain br0 where "br0 \<in> set (concat (map (call_responses (ab_bidder ab) r) (calls_made gz net ab t 0 ?rds)))" "tb \<in> set (br_bids br0)"
    by auto
  from answered_bid [OF assms(1) this] known [OF assms(1), of r info] show ?thesis
    unfolding sends_known_def by blast
qed

end

interpretation reg: adapter_registry "modelled_adapter o1 o2 z ot ep als" "bid_origin z" for o1 o2 z ot ep als
proof -
  have "traced z n a" if "modelled_adapter o1 o2 z ot ep als n = Some a" for n a
    using that traced_aliases [OF traced_registered subset_refl loose_names_registered, of o1 o2 z ot als ep]
    by (auto simp: modelled_adapter_def build_adapter_map_def traced_map_def split: if_splits)
  then show "adapter_registry (modelled_adapter o1 o2 z ot ep als) (bid_origin z)"
    by unfold_locales (auto simp: traced_def)
qed

section \<open>Media types\<close>

text \<open>What each adapter makes of the \<^verbatim>\<open>mtype\<close> of a bid.  Most refuse a bid without one of the four values; four adapters take any other value for
  a banner, three of them refusing bids without a value; one knows video only, and one falls back on the slots of the impression.\<close>

definition refusing_rule :: "bid \<Rightarrow> bid_type \<Rightarrow> bool" where
  "refusing_rule b t \<longleftrightarrow> 1 \<le> mtype_of b \<and> mtype_of b \<le> 4 \<and> t = from_mtype (mtype_of b)"

definition mtype_rule :: "string \<Rightarrow> bid \<Rightarrow> bid_type \<Rightarrow> bool" where
  "mtype_rule n b t \<longleftrightarrow>
     (if n \<in> {''vox'', ''zentotem'', ''smrtconnect'', ''generic''}
      then (n \<in> {''vox'', ''zentotem''} \<longrightarrow> mtype_of b \<noteq> 0) \<and> (n = ''smrtconnect'' \<longrightarrow> 0 < mtype_of b)
           \<and> t = (if mtype_of b = 2 then BtVideo else if mtype_of b = 3 then BtAudio else if mtype_of b = 4 then BtNative else BtBanner)
      else if n = ''oms'' then t = (if mtype_of b = 2 then BtVideo else BtBanner)
      else if n = ''mediago'' then (mtype_of b = 1 \<longrightarrow> t = BtBanner) \<and> (mtype_of b = 4 \<longrightarrow> t = BtNative) \<and> t \<in> {BtBanner, BtNative}
      else refusing_rule b t)"

definition all_right :: "(bid \<Rightarrow> bid_type \<Rightarrow> bool) \<Rightarrow> bid_answer \<Rightarrow> bool" where
  "all_right R a = (case a of Inl _ \<Rightarrow> True | Inr r \<Rightarrow> \<forall>tb \<in> set (br_bids r). R (tb_bid tb) (tb_bid_type tb))"

definition right_table :: "(bid \<Rightarrow> bid_type \<Rightarrow> bool) \<Rightarrow> (bid \<Rightarrow> (bidder_error, bid_type) res) \<Rightarrow> bool" where
  "right_table R f = (\<forall>b t. f b = Inr t \<longrightarrow> R b t)"

definition types_right :: "(bid \<Rightarrow> bid_type \<Rightarrow> bool) \<Rightarrow> (bid \<Rightarrow> (bidder_error, typed_bid) res) \<Rightarrow> bool" where
  "types_right R f = (\<forall>b t. f b = Inr t \<longrightarrow> R (tb_bid t) (tb_bid_type t))"

named_theorems right_simps \<open>rules that show the media types right\<close>

lemma right_table_mtype [right_simps]:
  "set tbl \<subseteq> {mt_banner, mt_video, mt_audio, mt_native} \<Longrightarrow> right_table refusing_rule (mtype_table tbl err)"
  by (auto simp: right_table_def refusing_rule_def mtype_table_def from_mtype_def dest!: map_of_SomeD split: option.splits)

lemma refusing_rule_iff: "refusing_rule b t \<longleftrightarrow> (mtype_of b, t) \<in> {(1, BtBanner), (2, BtVideo), (3, BtAudio), (4, BtNative)}"
proof -
  have "1 \<le> m \<and> m \<le> 4 \<longleftrightarrow> m = 1 \<or> m = 2 \<or> m = 3 \<or> m = 4" for m :: int by auto
  then show ?thesis unfolding refusing_rule_def by (auto simp: from_mtype_def)
qed

lemma refusing_names [right_simps]:
  "n \<notin> {''vox'', ''zentotem'', ''smrtconnect'', ''generic'', ''oms'', ''mediago''} \<Longrightarrow> mtype_rule n = refusing_rule"
  by (auto simp: mtype_rule_def fun_eq_iff)

lemma types_right_typed [right_simps]:
  "right_table R f \<Longrightarrow> types_right R (typed_by f)" "right_table R f \<Longrightarrow> types_right R (with_video v f)" "right_table R f \<Longrightarrow> types_right R (with_parts v m f)"
  "(\<forall>b. R b (h b)) \<Longrightarrow> types_right R (typed_total h)"
  by (auto simp: types_right_def right_table_def typed_by_def with_video_def with_parts_def typed_total_def typed_bid_new_def split: sum.splits)

lemma all_right_typed [right_simps]:
  assumes "types_right R f"
  shows "all_right R (keep_typed cur f br)" "all_right R (some_typed cur f br)" "all_right R (no_errors cur f br)" "all_right R (all_typed cur f br)"
  using assms collect_ok_mem [of _ f "response_bids br"] strict_ok_mem [of f "response_bids br"]
  by (fastforce simp: all_right_def types_right_def keep_typed_def some_typed_def no_errors_def all_typed_def split: prod.splits sum.splits)+

lemma all_right_none [right_simps]: "all_right R (Inl es)" "all_right R (Inr bidder_response_new)"
  by (simp_all add: all_right_def bidder_response_new_def)

lemma all_right_seats [right_simps]:
  "all_right R none \<Longrightarrow> all_right R (k br) \<Longrightarrow> all_right R (some_seats none k br)"
  "all_right R none \<Longrightarrow> all_right R (k br) \<Longrightarrow> all_right R (some_first_bid none k br)"
  by (simp_all add: some_seats_def some_first_bid_def)

lemma all_right_on_body [right_simps]:
  assumes "\<And>br. all_right R (k br)"
  shows "all_right R (on_body z (gate refuse) und p k)"
  using assms by (auto simp: on_body_def gate_def right_simps split: option.split sum.split)

text \<open>The rules of the adapters that do not refuse every other value.\<close>

lemma right_table_default [right_simps]:
  "right_table (mtype_rule ''vox'') (\<lambda>b. if mtype_of b = 0 then Inl (err b) else Inr (get_bid_type_from_mtype (mtype_of b)))"
  "right_table (mtype_rule ''zentotem'') (\<lambda>b. if mtype_of b = 0 then Inl (err b) else Inr (get_bid_type_from_mtype (mtype_of b)))"
  "right_table (mtype_rule ''smrtconnect'') (\<lambda>b. case bid_mtype b of Some m \<Rightarrow> if m > 0 then Inr (get_bid_type_from_mtype m) else Inl (err b) | None \<Rightarrow> Inl (err b))"
  "right_table (mtype_rule ''oms'') (\<lambda>b. Inr (if mtype_of b = 2 then BtVideo else BtBanner))"
  "mtype_rule ''generic'' b (get_bid_type_from_mtype (mtype_of b))"
  by (auto simp: right_table_def mtype_rule_def get_bid_type_from_mtype_def mtype_of_def unwrap_or_def split: if_splits option.splits)

lemma right_table_mediago [right_simps]: "right_table (mtype_rule ''mediago'') (mediago_bid_type r)"
proof -
  have "t \<in> {BtBanner, BtNative}" if "slot_of_imp [SBanner, SNative] i = Some t" for i t
    using that by (auto simp: slot_of_imp_def split: if_splits)
  then show ?thesis
    by (auto simp: right_table_def mtype_rule_def mediago_bid_type_def mtype_of_def unwrap_or_def Option.bind_eq_Some_conv split: if_splits option.splits)
qed

text \<open>The modelled adapters that read the \<^verbatim>\<open>mtype\<close> of a bid for its type: thirty-three registered ones and the generic adapter.\<close>

definition mtype_adapters :: "adapter_serde \<Rightarrow> (string \<times> (string \<Rightarrow> bidder)) list" where
  "mtype_adapters z =
     [(''adxcg'', adxcg_adapter z), (''trustedstack'', trustedstack_adapter z), (''medianet'', medianet_adapter z), (''rise'', rise_adapter z),
      (''vrtcal'', vrtcal_adapter z), (''aduptech'', aduptech_adapter z), (''smoot'', smoot_adapter z), (''pubrise'', pubrise_adapter z),
      (''escalax'', escalax_adapter z), (''seedtag'', seedtag_adapter z), (''roulax'', roulax_adapter z), (''tpmn'', tpmn_adapter z),
      (''intenze'', intenze_adapter z), (''bwx'', bwx_adapter z), (''driftpixel'', driftpixel_adapter z), (''silvermob'', silvermob_adapter z),
      (''oraki'', oraki_adapter z), (''edge226'', edge226_adapter z), (''boldwin'', boldwin_adapter z), (''boldwin_rapid'', boldwin_rapid_adapter z),
      (''copper6ssp'', copper6ssp_adapter z), (''openweb'', openweb_adapter z), (''exco'', exco_adapter z), (''kueezrtb'', kueezrtb_adapter z),
      (''playdigo'', playdigo_adapter z), (''metax'', metax_adapter z), (''trustx'', trustx_adapter z), (''inmobi'', inmobi_adapter z),
      (''vox'', vox_adapter z), (''zentotem'', zentotem_adapter z), (''smrtconnect'', smrtconnect_adapter z), (''oms'', oms_adapter z),
      (''mediago'', mediago_adapter z), (''generic'', generic_adapter z)]"

lemma mtype_adapters_registered: "(n, f) \<in> set (mtype_adapters z) \<Longrightarrow> n \<noteq> ''generic'' \<Longrightarrow> (n, f) \<in> set (base_builders z)"
  by (auto simp: mtype_adapters_def base_builders_def)

lemmas mtype_adapter_defs =
  adxcg_adapter_def adxcg_make_bids_def adxcg_mtype_to_bid_type_def trustedstack_adapter_def trustedstack_make_bids_def trustedstack_bid_type_def medianet_adapter_def medianet_make_bids_def medianet_bid_type_def
  rise_adapter_def rise_make_bids_def rise_bid_type_def vrtcal_adapter_def vrtcal_make_bids_def vrtcal_bid_type_def aduptech_adapter_def aduptech_make_bids_def aduptech_bid_type_def
  smoot_adapter_def smoot_make_bids_def smoot_bid_type_def pubrise_adapter_def pubrise_make_bids_def pubrise_bid_type_def escalax_adapter_def escalax_make_bids_def escalax_bid_type_def
  seedtag_adapter_def seedtag_make_bids_def seedtag_bid_type_def roulax_adapter_def roulax_make_bids_def roulax_bid_type_def tpmn_adapter_def tpmn_make_bids_def tpmn_bid_type_def
  intenze_adapter_def intenze_make_bids_def intenze_bid_type_def bwx_adapter_def bwx_make_bids_def bwx_bid_type_def driftpixel_adapter_def driftpixel_make_bids_def driftpixel_bid_type_def
  silvermob_adapter_def silvermob_make_bids_def silvermob_bid_type_def oraki_adapter_def oraki_make_bids_def oraki_bid_type_def edge226_adapter_def edge226_make_bids_def edge226_bid_type_def
  boldwin_adapter_def boldwin_make_bids_def boldwin_bid_type_def boldwin_rapid_adapter_def boldwin_rapid_make_bids_def boldwin_rapid_bid_type_def copper6ssp_adapter_def copper6ssp_make_bids_def copper6ssp_bid_type_def
  openweb_adapter_def openweb_make_bids_def openweb_bid_type_def exco_adapter_def exco_make_bids_def exco_bid_type_def kueezrtb_adapter_def kueezrtb_make_bids_def kueezrtb_bid_type_def
  playdigo_adapter_def playdigo_make_bids_def playdigo_bid_type_def inmobi_adapter_def inmobi_make_bids_def inmobi_bid_type_def
  metax_adapter_def metax_make_bids_def metax_bid_type_def trustx_adapter_def trustx_make_bids_def

lemma mtype_adapters_right: "list_all (\<lambda>(n, f). \<forall>e r rd p. all_right (mtype_rule n) (make_bids (f e) r rd p)) (mtype_adapters z)"
  unfolding mtype_adapters_def
  by (simp add: mtype_adapter_defs vox_adapter_def vox_make_bids_def zentotem_adapter_def zentotem_make_bids_def smrtconnect_adapter_def smrtconnect_make_bids_def
      oms_adapter_def oms_make_bids_def mediago_adapter_def mediago_make_bids_def generic_adapter_def generic_make_bids_def right_simps)

section \<open>Properties\<close>

text \<open>Property C4.  No bid is invented.  A bidder called through an adapter of the map that is modelled - one of the 101 modelled
  adapters under its name, the generic adapter, or an alias of a name whose builder is not that of an adapter without a model -
  whatever the network answers and whatever the other adapters are: every bid of the result has the identifier, the impression and the price of a bid in the decoded body of
  an answer, with a status of success, to one of the requests the adapter made, and those requests name only impressions of the bid
  request.  Two adapters keep less: \<^verbatim>\<open>adman\<close> reads the body of every status but 204 and 404, and \<^verbatim>\<open>jixie\<close> gives the bid its own identifier
  for the impression.\<close>

theorem no_bid_invented:
  assumes "iter_order o1" "iter_order o2"
    and "map_of (build_adapter_map o1 o2 z ot ep als) name = Some (ab_bidder ab)" "modelled_name ot als name"
    and "bres_response (request_bid gz net ms ab r name info t) = Inr br" "tb \<in> set (br_bids br)"
  shows "\<exists>i rd p c b br'. rd \<in> set (fst (make_requests (ab_bidder ab) r info)) \<and> set (rd_imp_ids rd) \<subseteq> set (get_imp_ids (req_imp r))
           \<and> execute_request gz net i ab rd t = Inr (p, c)
           \<and> (if name = ''adman'' then rs_status_code p \<notin> {204, 404} else success (rs_status_code p))
           \<and> sj_from_slice z (rs_body p) = Inr br' \<and> b \<in> set (response_bids br')
           \<and> bid_id (tb_bid tb) = bid_id b \<and> bid_price (tb_bid tb) = bid_price b
           \<and> bid_impid (tb_bid tb) = (if name = ''jixie'' then bid_id b else bid_impid b)"
proof -
  have "modelled_adapter o1 o2 z ot ep als name = Some (ab_bidder ab)"
    using assms(1-4) by (simp add: modelled_adapter_def)
  from reg.requested_bid [OF this assms(5,6)] show ?thesis
    unfolding bid_origin_def by blast
qed

text \<open>An alias of a bidder whose builder is not kept, called once and answered with one banner bid.\<close>

definition demo_bid :: bid where
  "demo_bid = default_bid\<lparr>bid_id := ''b'', bid_impid := ''i'', bid_mtype := Some 1\<rparr>"

definition demo_serde :: adapter_serde where
  "demo_serde =
     \<lparr>sj_to_vec = (\<lambda>_. Inr []),
      sj_from_slice = (\<lambda>_. Inr (default_bid_response\<lparr>resp_seatbid := [default_seat_bid\<lparr>seatbid_bid := [demo_bid]\<rparr>]\<rparr>))\<rparr>"

text \<open>Another adapter, of which nothing is known, and the builder it keeps.\<close>

definition rogue_adapter :: bidder where
  "rogue_adapter = \<lparr>make_requests = (\<lambda>_ _. ([], [])), make_bids = (\<lambda>_ _ _. Inr (answer_of [] [typed_bid_new default_bid BtBanner]))\<rparr>"

definition demo_others :: others where
  "demo_others = \<lparr>ot_adapters = [(''rogue'', rogue_adapter)], ot_builders = [(''rogue'', \<lambda>_. rogue_adapter)]\<rparr>"

definition demo_map :: "(string \<times> bidder) list" where
  "demo_map = build_adapter_map (\<lambda>ks. ks) (\<lambda>ks. ks) demo_serde demo_others (\<lambda>_. ''u'') [(''x'', ''adxcg'')]"

definition demo_alias :: adapted_bidder where
  "demo_alias = \<lparr>ab_bidder = generic_adapter demo_serde ''u'', ab_endpoint = ''u'', ab_endpoint_compression = None\<rparr>"

definition demo_info :: extra_request_info where
  "demo_info = \<lparr>pbs_entry_point = [], global_privacy_control_header = []\<rparr>"

definition demo_answer :: "(bidder_error list, bidder_response) res" where
  "demo_answer = bres_response (request_bid (\<lambda>_. None) (\<lambda>_ _ _. Responded 200 (Inr [])) 1 demo_alias default_bid_request ''x''
     demo_info 100)"

lemma demo_map_x: "map_of demo_map ''x'' = Some (ab_bidder demo_alias)"
  by (simp add: demo_map_def demo_alias_def build_adapter_map_def add_alias_def registered_def base_builders_def grouped_builders_def
      loose_builders_def alias_builders_def demo_others_def Let_def map_of_hm_insert)

lemma demo_answer_eq:
  "\<exists>br. demo_answer = Inr br \<and> br_bids br = [typed_bid_new demo_bid BtBanner]"
  by (simp add: demo_answer_def request_bid_def Let_def demo_alias_def generic_adapter_def generic_make_requests_def generic_make_bids_def
      demo_serde_def request_data_new_post_def call_loop_eq execute_request_def on_body_def gate_def refuse_std_def check_response_status_def
      keep_typed_def typed_total_def response_bids_def add_bids_def answer_of_def get_bid_type_from_mtype_def mtype_of_def
      demo_bid_def default_seat_bid_def default_bid_response_def bidder_response_new_def unwrap_or_def)

theorem no_bid_invented_witness:
  "map_of demo_map ''x'' = Some (ab_bidder demo_alias)
   \<and> (case demo_answer of Inl _ \<Rightarrow> False | Inr br \<Rightarrow> br_bids br = [typed_bid_new demo_bid BtBanner])
   \<and> (\<exists>i rd p c b br'. rd \<in> set (fst (make_requests (ab_bidder demo_alias) default_bid_request demo_info))
        \<and> execute_request (\<lambda>_. None) (\<lambda>_ _ _. Responded 200 (Inr [])) i demo_alias rd 100 = Inr (p, c) \<and> success (rs_status_code p)
        \<and> sj_from_slice demo_serde (rs_body p) = Inr br' \<and> b \<in> set (response_bids br') \<and> bid_id demo_bid = bid_id b)"
proof -
  obtain br where br: "demo_answer = Inr br" "br_bids br = [typed_bid_new demo_bid BtBanner]"
    using demo_answer_eq by blast
  then have one: "typed_bid_new demo_bid BtBanner \<in> set (br_bids br)"
    by simp
  have modelled: "modelled_name demo_others [(''x'', ''adxcg'')] ''x''"
    by (simp add: modelled_name_def demo_others_def)
  from no_bid_invented [OF iter_order_id iter_order_id demo_map_x [unfolded demo_map_def] modelled br(1) [unfolded demo_answer_def] one]
  obtain i rd p c b br' where "rd \<in> set (fst (make_requests (ab_bidder demo_alias) default_bid_request demo_info))"
      "execute_request (\<lambda>_. None) (\<lambda>_ _ _. Responded 200 (Inr [])) i demo_alias rd 100 = Inr (p, c)" "success (rs_status_code p)"
      "sj_from_slice demo_serde (rs_body p) = Inr br'" "b \<in> set (response_bids br')" "bid_id demo_bid = bid_id b"
    by auto
  then have "\<exists>i rd p c b br'. rd \<in> set (fst (make_requests (ab_bidder demo_alias) default_bid_request demo_info))
        \<and> execute_request (\<lambda>_. None) (\<lambda>_ _ _. Responded 200 (Inr [])) i demo_alias rd 100 = Inr (p, c) \<and> success (rs_status_code p)
        \<and> sj_from_slice demo_serde (rs_body p) = Inr br' \<and> b \<in> set (response_bids br') \<and> bid_id demo_bid = bid_id b"
    by blast
  then show ?thesis
    by (intro conjI demo_map_x) (simp_all add: br)
qed

text \<open>Property C27.  The media type of a bid, for the 34 modelled adapters that read its \<^verbatim>\<open>mtype\<close>: twenty-eight return only bids whose \<^verbatim>\<open>mtype\<close> is one of the
  four of OpenRTB, each under the media type it stands for; \<^verbatim>\<open>vox\<close>, \<^verbatim>\<open>zentotem\<close>, \<^verbatim>\<open>smrtconnect\<close> and the generic adapter return any other value as a banner, where the first two
  refuse a bid without a value or with zero and the third one any value that is not positive; \<^verbatim>\<open>oms\<close> returns a video for 2 and a banner for everything else; \<^verbatim>\<open>mediago\<close>
  returns banners and native ads only, a banner for 1 and a native ad for 4.\<close>

theorem mtype_bids_typed:
  assumes "(n, f) \<in> set (mtype_adapters z)" "make_bids (f e) r rd p = Inr br" "tb \<in> set (br_bids br)"
  shows "(n = ''generic'' \<or> (n, f) \<in> set (base_builders z))
    \<and> (if n \<in> {''vox'', ''zentotem'', ''smrtconnect'', ''generic''}
       then (n \<in> {''vox'', ''zentotem''} \<longrightarrow> mtype_of (tb_bid tb) \<noteq> 0) \<and> (n = ''smrtconnect'' \<longrightarrow> 0 < mtype_of (tb_bid tb))
            \<and> tb_bid_type tb = (if mtype_of (tb_bid tb) = 2 then BtVideo else if mtype_of (tb_bid tb) = 3 then BtAudio
                                else if mtype_of (tb_bid tb) = 4 then BtNative else BtBanner)
       else if n = ''oms'' then tb_bid_type tb = (if mtype_of (tb_bid tb) = 2 then BtVideo else BtBanner)
       else if n = ''mediago''
       then (mtype_of (tb_bid tb) = 1 \<longrightarrow> tb_bid_type tb = BtBanner) \<and> (mtype_of (tb_bid tb) = 4 \<longrightarrow> tb_bid_type tb = BtNative)
            \<and> tb_bid_type tb \<in> {BtBanner, BtNative}
       else (mtype_of (tb_bid tb), tb_bid_type tb) \<in> {(1, BtBanner), (2, BtVideo), (3, BtAudio), (4, BtNative)})"
proof -
  have "all_right (mtype_rule n) (make_bids (f e) r rd p)"
    using mtype_adapters_right [of z] assms(1) by (auto simp: list_all_iff)
  then have "mtype_rule n (tb_bid tb) (tb_bid_type tb)"
    using assms(2,3) by (simp add: all_right_def)
  moreover have "n = ''generic'' \<or> (n, f) \<in> set (base_builders z)" using mtype_adapters_registered [OF assms(1)] by blast
  ultimately show ?thesis unfolding mtype_rule_def refusing_rule_iff by (intro conjI)
qed

theorem mtype_bids_typed_witness:
  "(''adxcg'', adxcg_adapter demo_serde) \<in> set (mtype_adapters demo_serde)
   \<and> make_bids (adxcg_adapter demo_serde ''u'') default_bid_request (request_data_new_post ''u'' []) \<lparr>rs_status_code = 200, rs_body = [], rs_headers = []\<rparr>
     = Inr (answer_of ''USD'' [typed_bid_new demo_bid BtBanner])
   \<and> mtype_of demo_bid = 1"
proof -
  have a: "(''adxcg'', adxcg_adapter demo_serde) \<in> set (mtype_adapters demo_serde)"
    by (simp add: mtype_adapters_def)
  have b: "make_bids (adxcg_adapter demo_serde ''u'') default_bid_request (request_data_new_post ''u'' []) \<lparr>rs_status_code = 200, rs_body = [], rs_headers = []\<rparr>
     = Inr (answer_of ''USD'' [typed_bid_new demo_bid BtBanner])"
    by (simp add: adxcg_adapter_def adxcg_make_bids_def adxcg_mtype_to_bid_type_def on_body_def gate_def refuse_400_def keep_typed_def
        typed_by_def response_bids_def mtype_table_def mtype_of_def cur_some_def demo_serde_def demo_bid_def default_seat_bid_def
        default_bid_response_def unwrap_or_def)
  show ?thesis
    using a b mtype_bids_typed [OF a b, of "typed_bid_new demo_bid BtBanner"] by (simp add: typed_bid_new_def)
qed

end
