(* ===== verification/Interstitial.thy ===== *)
theory Interstitial
  imports Fanout
begin

text \<open>
  The sizes of interstitial ads, \<^verbatim>\<open>rust/crates/exchange/src/interstitial.rs\<close>: an interstitial banner gets the first sizes of a fixed table
  that lie between the size of the banner (or of the device) and a percentage of it.
\<close>

section \<open>Sizes\<close>

text \<open>The table, width and height.\<close>

definition resolved_interstitial_sizes :: "(int \<times> int) list" where
  "resolved_interstitial_sizes =
     [(300, 250), (728, 90), (160, 600), (320, 50), (300, 600), (970, 250), (2000, 1400), (1920, 1200), (1800, 1000), (1920, 1080), (1600, 1150),
      (1696, 900), (1600, 900), (1270, 800), (970, 1000), (1920, 480), (320, 320), (1600, 500), (768, 1024), (1024, 768), (828, 910), (728, 970),
      (120, 600), (640, 960), (980, 600), (620, 891), (930, 600), (980, 552), (1272, 328), (300, 50), (500, 1000), (900, 550), (980, 500),
      (970, 500), (800, 600), (336, 280), (1250, 360), (980, 400), (320, 250), (320, 480), (980, 240), (580, 400), (970, 415), (480, 820),
      (620, 620), (980, 300), (970, 90), (600, 600), (1800, 200), (970, 310), (720, 480), (1295, 250), (300, 1050), (1272, 250), (300, 300),
      (640, 480), (320, 100), (580, 500), (1000, 300), (1250, 240), (600, 500), (300, 1000), (728, 410), (800, 250), (970, 300), (950, 300),
      (994, 250), (940, 300), (640, 320), (468, 600), (970, 200), (930, 180), (250, 600), (491, 555), (550, 480), (750, 300), (980, 250),
      (1000, 260), (980, 150), (350, 240), (970, 210), (640, 360), (580, 415), (480, 300), (750, 200), (360, 640), (624, 368), (900, 250),
      (468, 400), (608, 226), (690, 300), (605, 340), (320, 640), (450, 450), (300, 480), (250, 800), (640, 300), (320, 160), (980, 200), (950, 200),
      (480, 400), (740, 250), (336, 544), (303, 603), (320, 568), (301, 601), (300, 601), (600, 300), (180, 500), (980, 120), (950, 180), (935, 180),
      (994, 170), (468, 360), (320, 400), (320, 240), (320, 500), (316, 513), (630, 250), (480, 320), (320, 481), (520, 290), (250, 250), (300, 500),
      (1000, 150), (320, 460), (970, 150), (800, 180), (468, 60), (482, 282), (680, 200), (320, 416), (480, 280), (300, 431), (728, 180), (300, 430),
      (180, 701), (840, 150), (600, 200), (768, 150), (200, 600), (350, 350), (202, 600), (400, 300), (414, 286), (656, 180), (994, 118), (638, 180),
      (650, 170), (1000, 90), (300, 360), (600, 180), (240, 400), (161, 601), (610, 138), (164, 601), (980, 100), (970, 100), (468, 200), (250, 360),
      (320, 180), (605, 150), (600, 150), (980, 90), (750, 100), (150, 600), (630, 140), (696, 120), (307, 254), (303, 253), (703, 110), (550, 140),
      (300, 251), (298, 250), (500, 150), (413, 180), (728, 100), (269, 269), (640, 106), (768, 90), (320, 200), (728, 93), (729, 90), (727, 90),
      (640, 100), (720, 90), (300, 100), (970, 66), (480, 110), (300, 200), (707, 83), (900, 65), (467, 120), (200, 200), (450, 121), (320, 150),
      (600, 90), (300, 170), (468, 100), (300, 169), (500, 100), (300, 150), (990, 50), (140, 350), (160, 300), (300, 158), (190, 240), (180, 150),
      (300, 145), (310, 122), (468, 90), (594, 70), (480, 80), (600, 65), (484, 80), (320, 75), (335, 100), (375, 80), (300, 75), (120, 240),
      (480, 60), (300, 90), (120, 60), (100, 200), (320, 80), (160, 160), (400, 63), (300, 81), (1, 1), (300, 80), (375, 58), (232, 90), (321, 51),
      (320, 63), (319, 49), (300, 65), (360, 50), (125, 125), (298, 60), (300, 60), (299, 60), (301, 50), (234, 60), (280, 47), (120, 90), (13, 13),
      (17, 17), (168, 50), (140, 50), (120, 20)]"

record interstitial_config =
  min_width_perc :: int
  min_height_perc :: int

text \<open>Both percentages have to be present; a value that is no integer is zero.\<close>

definition from_device :: "device \<Rightarrow> interstitial_config option" where
  "from_device d =
     (let member = (\<lambda>k. map_option (\<lambda>v. unwrap_or 0 (as_i64 v)) (jpath (device_jext d) [''prebid'', ''interstitial'', k]))
      in case (member ''minwidthperc'', member ''minheightperc'') of
           (Some w, Some h) \<Rightarrow> Some \<lparr>min_width_perc = w, min_height_perc = h\<rparr>
         | _ \<Rightarrow> None)"

text \<open>Division of \<^verbatim>\<open>i64\<close> truncates.\<close>

definition ex_trunc_div :: "int \<Rightarrow> int \<Rightarrow> int" where
  "ex_trunc_div a b = sgn a * (\<bar>a\<bar> div b)"

definition ex_size_format :: "int \<times> int \<Rightarrow> banner_format" where
  "ex_size_format s =
     \<lparr>format_w = Some (fst s), format_h = Some (snd s), format_wratio = None, format_hratio = None, format_wmin = None, format_jext = None\<rparr>"

definition fits :: "int \<Rightarrow> int \<Rightarrow> int \<Rightarrow> int \<Rightarrow> int \<times> int \<Rightarrow> bool" where
  "fits min_width max_width min_height max_height s =
     (fst s \<ge> min_width \<and> fst s \<le> max_width \<and> snd s \<ge> min_height \<and> snd s \<le> max_height)"

text \<open>The loop stops when it has ten sizes.\<close>

fun gen_loop :: "(int \<times> int \<Rightarrow> bool) \<Rightarrow> (int \<times> int) list \<Rightarrow> banner_format list \<Rightarrow> banner_format list" where
  "gen_loop ok [] sizes = sizes"
| "gen_loop ok (s # ss) sizes =
     (if ok s
      then let sizes' = sizes @ [ex_size_format s] in if length sizes' \<ge> 10 then sizes' else gen_loop ok ss sizes'
      else gen_loop ok ss sizes)"

definition gen_interstitial_format :: "int \<Rightarrow> int \<Rightarrow> int \<Rightarrow> int \<Rightarrow> banner_format list" where
  "gen_interstitial_format min_width max_width min_height max_height =
     gen_loop (fits min_width max_width min_height max_height) resolved_interstitial_sizes []"

definition format_max :: "banner \<Rightarrow> int \<times> int" where
  "format_max bn =
     (case banner_format bn of
        Some (fm # _) \<Rightarrow> (unwrap_or 0 (format_w fm), unwrap_or 0 (format_h fm))
      | _ \<Rightarrow> (0, 0))"

definition show_size :: "int \<Rightarrow> int \<Rightarrow> string" where
  "show_size w h = show_int w @ ''x'' @ show_int h"

definition resolve_banner :: "string \<Rightarrow> interstitial_config \<Rightarrow> int \<times> int \<Rightarrow> banner \<Rightarrow> (string, banner) res" where
  "resolve_banner iid config max_size bn =
     (case max_size of
        (max_width, max_height) \<Rightarrow>
          let min_width = ex_trunc_div (i64_wrap (max_width * min_width_perc config)) 100;
              min_height = ex_trunc_div (i64_wrap (max_height * min_height_perc config)) 100;
              new_formats = gen_interstitial_format min_width max_width min_height max_height
          in if new_formats = []
             then Inl (''Unable to set interstitial size list for Imp id='' @ iid @ '' (No valid sizes between '' @ show_size min_width min_height
                       @ '' and '' @ show_size max_width max_height @ '')'')
             else Inr (bn\<lparr>banner_format := Some new_formats\<rparr>))"

definition process_interstitials_for_imp :: "imp \<Rightarrow> interstitial_config \<Rightarrow> device option \<Rightarrow> (string, imp) res" where
  "process_interstitials_for_imp i config dev =
     (case imp_banner i of
        None \<Rightarrow> Inr i
      | Some bn \<Rightarrow>
          let (max_width, max_height) = format_max bn;
              max_size = (if max_width < 2 \<and> max_height < 2
                          then map_option (\<lambda>d. (unwrap_or 0 (device_w d), unwrap_or 0 (device_h d))) dev
                          else Some (max_width, max_height))
          in case max_size of
               None \<Rightarrow> Inl (''Unable to read max interstitial size for Imp id='' @ imp_id i @ '' (No Device and no Format objects)'')
             | Some m \<Rightarrow> (case resolve_banner (imp_id i) config m bn of Inl e \<Rightarrow> Inl e | Inr bn' \<Rightarrow> Inr (i\<lparr>imp_banner := Some bn'\<rparr>)))"

text \<open>The impressions are changed in place, so those before the one that fails stay changed.\<close>

fun interstitial_loop :: "interstitial_config \<Rightarrow> device option \<Rightarrow> imp list \<Rightarrow> imp list \<times> (string, unit) res" where
  "interstitial_loop config dev [] = ([], Inr ())"
| "interstitial_loop config dev (i # is) =
     (if imp_instl i = Some 1
      then case process_interstitials_for_imp i config dev of
             Inl e \<Rightarrow> (i # is, Inl e)
           | Inr i' \<Rightarrow> (case interstitial_loop config dev is of (is', r) \<Rightarrow> (i' # is', r))
      else case interstitial_loop config dev is of (is', r) \<Rightarrow> (i # is', r))"

definition ex_process_interstitials :: "bid_request \<Rightarrow> bid_request \<times> (string, unit) res" where
  "ex_process_interstitials req =
     (case Option.bind (req_device req) from_device of
        None \<Rightarrow> (req, Inr ())
      | Some config \<Rightarrow>
          (case interstitial_loop config (req_device req) (req_imp req) of (imps, r) \<Rightarrow> (req\<lparr>req_imp := imps\<rparr>, r)))"

section \<open>What the loops compute\<close>

lemma gen_loop_eq: "length acc < 10 \<Longrightarrow> gen_loop ok ss acc = acc @ map ex_size_format (take (10 - length acc) (filter ok ss))"
proof (induction ss arbitrary: acc)
  case (Cons s ss)
  show ?case
  proof (cases "ok s")
    case True
    then obtain k where k: "10 - length acc = Suc k" using Cons.prems by (cases "10 - length acc") auto
    then have "9 - length acc = k" by simp
    with k show ?thesis
      using True Cons.prems Cons.IH [of "acc @ [ex_size_format s]"] by (cases k) (auto simp: Let_def)
  qed (use Cons in simp)
qed simp

lemma gen_interstitial_format_eq:
  "gen_interstitial_format a b c d = map ex_size_format (take 10 (filter (fits a b c d) resolved_interstitial_sizes))"
  by (simp add: gen_interstitial_format_def gen_loop_eq)

text \<open>What the code means to do: the largest size allowed, the smallest, and the sizes of the table between them.\<close>

definition max_size :: "device \<Rightarrow> banner \<Rightarrow> int \<times> int" where
  "max_size d bn = (if fst (format_max bn) < 2 \<and> snd (format_max bn) < 2 then (unwrap_or 0 (device_w d), unwrap_or 0 (device_h d)) else format_max bn)"

definition min_part :: "int \<Rightarrow> int \<Rightarrow> int" where
  "min_part perc m = ex_trunc_div (i64_wrap (m * perc)) 100"

definition allowed_sizes :: "interstitial_config \<Rightarrow> device \<Rightarrow> banner \<Rightarrow> (int \<times> int) list" where
  "allowed_sizes c d bn =
     (let (w, h) = max_size d bn
      in filter (fits (min_part (min_width_perc c) w) w (min_part (min_height_perc c) h) h) resolved_interstitial_sizes)"

definition ex_interstitial_banner :: "imp \<Rightarrow> banner option" where
  "ex_interstitial_banner i = (if imp_instl i = Some 1 then imp_banner i else None)"

definition unsizable :: "interstitial_config \<Rightarrow> device \<Rightarrow> imp \<Rightarrow> bool" where
  "unsizable c d i = (case ex_interstitial_banner i of None \<Rightarrow> False | Some bn \<Rightarrow> allowed_sizes c d bn = [])"

definition sized :: "interstitial_config \<Rightarrow> device \<Rightarrow> imp \<Rightarrow> imp" where
  "sized c d i =
     (case ex_interstitial_banner i of
        None \<Rightarrow> i
      | Some bn \<Rightarrow> i\<lparr>imp_banner := Some (bn\<lparr>banner_format := Some (map ex_size_format (take 10 (allowed_sizes c d bn)))\<rparr>)\<rparr>)"

lemma for_imp_ok:
  assumes "imp_instl i = Some 1" "\<not> unsizable c d i"
  shows "process_interstitials_for_imp i c (Some d) = Inr (sized c d i)"
  using assms
  by (auto simp: process_interstitials_for_imp_def sized_def unsizable_def ex_interstitial_banner_def resolve_banner_def Let_def
      gen_interstitial_format_eq allowed_sizes_def max_size_def min_part_def split: option.splits prod.splits if_splits)

lemma for_imp_error:
  assumes "imp_instl i = Some 1" "unsizable c d i"
  shows "\<exists>e. process_interstitials_for_imp i c (Some d) = Inl e"
  using assms
  by (auto simp: process_interstitials_for_imp_def unsizable_def ex_interstitial_banner_def resolve_banner_def Let_def
      gen_interstitial_format_eq allowed_sizes_def max_size_def min_part_def split: option.splits prod.splits if_splits)

lemma not_interstitial: "imp_instl i \<noteq> Some 1 \<Longrightarrow> sized c d i = i \<and> \<not> unsizable c d i"
  by (simp add: sized_def unsizable_def ex_interstitial_banner_def)

lemma interstitial_loop_eq:
  "fst (interstitial_loop c (Some d) is) = map (sized c d) (takeWhile (\<lambda>i. \<not> unsizable c d i) is) @ dropWhile (\<lambda>i. \<not> unsizable c d i) is
   \<and> (is_ok (snd (interstitial_loop c (Some d) is)) \<longleftrightarrow> list_all (\<lambda>i. \<not> unsizable c d i) is)"
proof (induction "is")
  case (Cons i "is")
  consider "imp_instl i = Some 1" "unsizable c d i" | "imp_instl i = Some 1" "\<not> unsizable c d i" | "imp_instl i \<noteq> Some 1"
    by blast
  then show ?case
  proof cases
    case 1
    then show ?thesis using for_imp_error [OF 1] by (auto simp: is_ok_def)
  next
    case 2
    then show ?thesis using for_imp_ok [OF 2] Cons.IH by (auto split: prod.splits)
  next
    case 3
    then show ?thesis using not_interstitial [OF 3, of c d] Cons.IH by (auto split: prod.splits)
  qed
qed (simp add: is_ok_def)

lemma trunc_div_nonneg: "0 \<le> a \<Longrightarrow> ex_trunc_div a b = a div b"
  by (cases "a = 0") (simp_all add: ex_trunc_div_def)

lemma i64_wrap_small: "i64_min \<le> x \<Longrightarrow> x \<le> i64_max \<Longrightarrow> i64_wrap x = x"
  by (simp add: i64_wrap_def i64_min_def i64_max_def)

lemma min_part_exact:
  assumes "0 \<le> m" "m \<le> i32_max" "0 \<le> perc" "perc \<le> 100"
  shows "min_part perc m = m * perc div 100 \<and> min_part perc m \<le> m"
proof -
  have "m * perc \<le> m * 100" "0 \<le> m * perc"
    using assms by (simp_all add: mult_left_mono)
  moreover from this have "i64_wrap (m * perc) = m * perc"
    using assms(2) by (intro i64_wrap_small) (simp_all add: i32_max_def i64_min_def i64_max_def)
  ultimately show ?thesis
    by (simp add: min_part_def trunc_div_nonneg)
qed

text \<open>A size is between the percentage of the largest size and the largest size, when these are in range.\<close>

definition between_perc :: "int \<Rightarrow> int \<Rightarrow> int \<Rightarrow> bool" where
  "between_perc perc m x = (x \<le> m \<and> (0 \<le> m \<and> m \<le> i32_max \<and> 0 \<le> perc \<and> perc \<le> 100 \<longrightarrow> m * perc div 100 \<le> x))"

lemma between_percI: "min_part perc m \<le> x \<Longrightarrow> x \<le> m \<Longrightarrow> between_perc perc m x"
  using min_part_exact [of m perc] by (auto simp: between_perc_def)

lemma allowed_between:
  assumes "s \<in> set (allowed_sizes c d bn)"
  shows "s \<in> set resolved_interstitial_sizes \<and> between_perc (min_width_perc c) (fst (max_size d bn)) (fst s)
         \<and> between_perc (min_height_perc c) (snd (max_size d bn)) (snd s)"
  using assms by (cases "max_size d bn") (auto simp: allowed_sizes_def fits_def intro!: between_percI)

lemma sized_formats:
  assumes "ex_interstitial_banner i = Some bn" "\<not> unsizable c d i"
  shows "\<exists>ss. imp_banner (sized c d i) = Some (bn\<lparr>banner_format := Some (map ex_size_format ss)\<rparr>) \<and> ss \<noteq> [] \<and> length ss \<le> 10
           \<and> (\<forall>s \<in> set ss. s \<in> set (allowed_sizes c d bn))"
  using assms
  by (intro exI [of _ "take 10 (allowed_sizes c d bn)"]) (auto simp: sized_def unsizable_def dest!: in_set_takeD)

section \<open>Property\<close>

text \<open>Property C23.  Interstitial sizes.  Without the two percentages of the device nothing changes.  Otherwise the interstitial banners get, in
  the order of the request, the first ten sizes of the table between the largest size and its percentages, up to the first banner no size fits,
  which is an error; other impressions and the rest of the request are unchanged.  For sizes and percentages in range the lower bounds are the
  exact percentages, so every size written lies between them and the largest size.\<close>

theorem interstitial_spec:
  "case Option.bind (req_device r) from_device of
     None \<Rightarrow> ex_process_interstitials r = (r, Inr ())
   | Some c \<Rightarrow>
       (let d = the (req_device r); good = (\<lambda>i. \<not> unsizable c d i); out = ex_process_interstitials r
        in fst out = r\<lparr>req_imp := map (sized c d) (takeWhile good (req_imp r)) @ dropWhile good (req_imp r)\<rparr>
           \<and> (is_ok (snd out) \<longleftrightarrow> list_all good (req_imp r))
           \<and> (\<forall>i bn. ex_interstitial_banner i = Some bn \<and> good i
                \<longrightarrow> (\<exists>ss. imp_banner (sized c d i) = Some (bn\<lparr>banner_format := Some (map ex_size_format ss)\<rparr>) \<and> ss \<noteq> [] \<and> length ss \<le> 10
                      \<and> (\<forall>s \<in> set ss. s \<in> set resolved_interstitial_sizes
                           \<and> between_perc (min_width_perc c) (fst (max_size d bn)) (fst s)
                           \<and> between_perc (min_height_perc c) (snd (max_size d bn)) (snd s)))))"
proof (cases "Option.bind (req_device r) from_device")
  case (Some c)
  then obtain d where d: "req_device r = Some d"
    by (cases "req_device r") simp_all
  have "\<exists>ss. imp_banner (sized c d i) = Some (bn\<lparr>banner_format := Some (map ex_size_format ss)\<rparr>) \<and> ss \<noteq> [] \<and> length ss \<le> 10
          \<and> (\<forall>s \<in> set ss. s \<in> set resolved_interstitial_sizes \<and> between_perc (min_width_perc c) (fst (max_size d bn)) (fst s)
               \<and> between_perc (min_height_perc c) (snd (max_size d bn)) (snd s))"
    if "ex_interstitial_banner i = Some bn \<and> \<not> unsizable c d i" for i bn
    using sized_formats [of i bn c d] that allowed_between by blast
  moreover have "ex_process_interstitials r = (r\<lparr>req_imp := fst (interstitial_loop c (Some d) (req_imp r))\<rparr>, snd (interstitial_loop c (Some d) (req_imp r)))"
    using Some d by (simp add: ex_process_interstitials_def split: prod.splits)
  ultimately show ?thesis
    using Some d interstitial_loop_eq [of c d "req_imp r"] by (simp add: Let_def)
qed (simp add: ex_process_interstitials_def)

text \<open>A phone of 375 by 812 whose banner names no size, with percentages of 80 and 40.\<close>

definition demo_phone :: device where
  "demo_phone =
     default_device\<lparr>device_w := Some 375, device_h := Some 812,
       device_jext := Some (JObj [(''prebid'', JObj [(''interstitial'', JObj [(''minheightperc'', JNum (PosInt 40)), (''minwidthperc'', JNum (PosInt 80))])])])\<rparr>"

definition demo_interstitial :: imp where
  "demo_interstitial = default_imp\<lparr>imp_id := ''i'', imp_instl := Some 1, imp_banner := Some default_banner\<rparr>"

theorem interstitial_spec_witness:
  "Option.bind (Some demo_phone) from_device = Some \<lparr>min_width_perc = 80, min_height_perc = 40\<rparr>
   \<and> \<not> unsizable \<lparr>min_width_perc = 80, min_height_perc = 40\<rparr> demo_phone demo_interstitial
   \<and> is_ok (snd (ex_process_interstitials (default_bid_request\<lparr>req_imp := [demo_interstitial], req_device := Some demo_phone\<rparr>)))"
proof -
  have config: "from_device demo_phone = Some \<lparr>min_width_perc = 80, min_height_perc = 40\<rparr>"
    by (simp add: from_device_def demo_phone_def unwrap_or_def i64_max_def)
  have fit: "\<not> unsizable \<lparr>min_width_perc = 80, min_height_perc = 40\<rparr> demo_phone demo_interstitial"
    by (simp add: unsizable_def ex_interstitial_banner_def demo_interstitial_def allowed_sizes_def max_size_def format_max_def default_banner_def
        demo_phone_def unwrap_or_def min_part_def i64_wrap_def i64_min_def ex_trunc_div_def fits_def resolved_interstitial_sizes_def)
  show ?thesis
    using interstitial_spec [of "default_bid_request\<lparr>req_imp := [demo_interstitial], req_device := Some demo_phone\<rparr>"] config fit
    by (simp add: Let_def)
qed

end
