(* ===== verification/Respond.thy ===== *)
theory Respond
  imports Deals AuctionExtras JsonMerge
begin

text \<open>
  Building the response, \<^verbatim>\<open>rust/crates/exchange/src/response_builder.rs\<close>, and the debug log, \<^verbatim>\<open>rust/crates/exchange/src/debug.rs\<close>.
  The functions that write a section into the extension of the response satisfy one contract, the locale \<open>section_writer\<close>: they keep
  every member but their own and depend on nothing else, so writers of different sections commute.
\<close>

section \<open>Writing into extensions\<close>

text \<open>\<^verbatim>\<open>get_or_insert_with\<close> of an empty object, followed by a change of the object; a value that is no object is left alone.\<close>

definition on_object :: "((string \<times> json) list \<Rightarrow> (string \<times> json) list) \<Rightarrow> json \<Rightarrow> json" where
  "on_object f j = (case j of JObj m \<Rightarrow> JObj (f m) | _ \<Rightarrow> j)"

definition with_ext :: "((string \<times> json) list \<Rightarrow> (string \<times> json) list) \<Rightarrow> json option \<Rightarrow> json option" where
  "with_ext f e = Some (on_object f (unwrap_or (JObj []) e))"

text \<open>A \<^verbatim>\<open>HashMap\<close> becomes an object by inserting its entries in the order of its iteration.\<close>

definition object_of :: "(string list \<Rightarrow> string list) \<Rightarrow> ('v \<Rightarrow> json) \<Rightarrow> (string \<times> 'v) list \<Rightarrow> json" where
  "object_of ord enc m = JObj (fold (\<lambda>(k, v). bt_insert k (enc v)) (hm_iter ord m) [])"

definition build_bid_response :: "string \<Rightarrow> seat_bid list \<Rightarrow> string \<Rightarrow> bid_response" where
  "build_bid_response request_id seat_bids cur =
     default_bid_response\<lparr>resp_id := request_id, resp_seatbid := seat_bids, resp_cur := Some (if cur = [] then ''USD'' else cur)\<rparr>"

definition build_seat_bid :: "string \<Rightarrow> bid list \<Rightarrow> seat_bid" where
  "build_seat_bid bidder_name bids = default_seat_bid\<lparr>seatbid_bid := bids, seatbid_seat := Some bidder_name\<rparr>"

definition write_seat_non_bid :: "json option \<Rightarrow> (string \<times> json) list \<Rightarrow> (string \<times> json) list" where
  "write_seat_non_bid val m =
     (case val of
        None \<Rightarrow> m
      | Some v \<Rightarrow>
          bt_insert ''prebid'' (on_object (bt_insert ''seatnonbid'' v) (get_or (JObj []) m ''prebid'')) (bt_remove ''prebid'' m))"

definition set_seat_non_bid :: "(seat_non_bid list \<Rightarrow> json option) \<Rightarrow> bid_response \<Rightarrow> seat_non_bid list \<Rightarrow> bid_response" where
  "set_seat_non_bid enc response seat_non_bids =
     (if seat_non_bids = [] then response
      else response\<lparr>resp_jext := with_ext (write_seat_non_bid (enc seat_non_bids)) (resp_jext response)\<rparr>)"

definition message_objects :: "string list \<Rightarrow> json" where
  "message_objects msgs = JArr (map (\<lambda>msg. JObj [(''code'', JNum (PosInt 999)), (''message'', JStr msg)]) msgs)"

definition put_map ::
  "(string list \<Rightarrow> string list) \<Rightarrow> ('v \<Rightarrow> json) \<Rightarrow> string \<Rightarrow> (string \<times> 'v) list \<Rightarrow> (string \<times> json) list \<Rightarrow> (string \<times> json) list" where
  "put_map ord enc k vs m = (if vs = [] then m else bt_insert k (object_of ord enc vs) m)"

definition write_ext_info ::
  "(string list \<Rightarrow> string list) \<Rightarrow> (string \<times> nat) list \<Rightarrow> (string \<times> string list) list \<Rightarrow> (string \<times> string list) list
   \<Rightarrow> (string \<times> json) list \<Rightarrow> (string \<times> json) list" where
  "write_ext_info ord millis errors warnings m =
     put_map ord message_objects ''warnings'' warnings
       (put_map ord message_objects ''errors'' errors
         (put_map ord (\<lambda>ms. JNum (PosInt ms)) ''responsetimemillis'' millis m))"

definition set_response_ext_info ::
  "(string list \<Rightarrow> string list) \<Rightarrow> bid_response \<Rightarrow> (string \<times> nat) list \<Rightarrow> (string \<times> string list) list \<Rightarrow> (string \<times> string list) list \<Rightarrow> bid_response" where
  "set_response_ext_info ord response response_time_millis errors warnings =
     response\<lparr>resp_jext := with_ext (write_ext_info ord response_time_millis errors warnings) (resp_jext response)\<rparr>"

definition write_debug :: "(string list \<Rightarrow> string list) \<Rightarrow> (string \<times> json list) list \<Rightarrow> (string \<times> json) list \<Rightarrow> (string \<times> json) list" where
  "write_debug ord http_calls m = bt_insert ''debug'' (JObj [(''httpcalls'', object_of ord JArr http_calls)]) m"

definition set_response_debug :: "(string list \<Rightarrow> string list) \<Rightarrow> bid_response \<Rightarrow> (string \<times> json list) list \<Rightarrow> bid_response" where
  "set_response_debug ord response http_calls =
     (if http_calls = [] then response
      else response\<lparr>resp_jext := with_ext (write_debug ord http_calls) (resp_jext response)\<rparr>)"

definition write_prebid :: "string \<Rightarrow> json option \<Rightarrow> json option \<Rightarrow> (string \<times> json) list \<Rightarrow> (string \<times> json) list" where
  "write_prebid bid_type targeting events p =
     (let p = bt_insert ''type'' (JStr bid_type) p;
          p = (case targeting of Some v \<Rightarrow> bt_insert ''targeting'' v p | None \<Rightarrow> p)
      in case events of Some v \<Rightarrow> bt_insert ''events'' v p | None \<Rightarrow> p)"

definition enrich_bid_ext ::
  "((string \<times> string) list \<Rightarrow> json option) \<Rightarrow> bid \<Rightarrow> string \<Rightarrow> (string \<times> string) list option \<Rightarrow> json option \<Rightarrow> bid" where
  "enrich_bid_ext enc b bid_type targeting events =
     b\<lparr>bid_jext := with_ext (\<lambda>m. bt_insert ''prebid''
        (on_object (write_prebid bid_type (Option.bind targeting enc) events) (get_or (JObj []) m ''prebid'')) m) (bid_jext b)\<rparr>"

definition set_win_url :: "json \<Rightarrow> string \<Rightarrow> json" where
  "set_win_url j win_url = (if win_url = [] then j else on_object (bt_insert ''wurl'' (JStr win_url)) j)"

text \<open>\<^verbatim>\<open>json!\<close> of a float is a number or, when it is not finite, null.  Assigning to a member of a value that is neither an object nor null
  panics, which is \<open>None\<close>.\<close>

definition json_of_f64 :: "f64 \<Rightarrow> json" where
  "json_of_f64 x = (case x of Fin _ _ \<Rightarrow> JNum (JFloat x) | _ \<Rightarrow> JNull)"

definition index_set :: "json \<Rightarrow> string \<Rightarrow> json \<Rightarrow> json option" where
  "index_set j k v = (case j of JObj m \<Rightarrow> Some (JObj (bt_insert k v m)) | JNull \<Rightarrow> Some (JObj [(k, v)]) | _ \<Rightarrow> None)"

definition with_meta :: "json \<Rightarrow> json \<Rightarrow> json option" where
  "with_meta ext_map prebid =
     (if jget prebid ''meta'' \<noteq> None then Some prebid
      else index_set prebid ''meta'' (unwrap_or (JObj []) (jpath (Some ext_map) [''prebid'', ''meta''])))"

definition with_original :: "json option \<Rightarrow> f64 \<Rightarrow> string \<Rightarrow> (string \<times> json) list" where
  "with_original ext original_bid_cpm original_bid_cur =
     (let m = (case ext of Some (JObj m) \<Rightarrow> m | _ \<Rightarrow> []);
          m = (if f_le (Fin False 0) original_bid_cpm then bt_insert ''origbidcpm'' (json_of_f64 original_bid_cpm) m else m)
      in if original_bid_cur \<noteq> [] then bt_insert ''origbidcur'' (JStr original_bid_cur) m else m)"

definition make_bid_ext_json :: "json option \<Rightarrow> json \<Rightarrow> f64 \<Rightarrow> string \<Rightarrow> json option" where
  "make_bid_ext_json ext prebid original_bid_cpm original_bid_cur =
     (let m = with_original ext original_bid_cpm original_bid_cur
      in map_option (\<lambda>p. JObj (bt_insert ''prebid'' p m)) (with_meta (JObj m) prebid))"

section \<open>Checks and small helpers\<close>

definition validate_banner_creative_size :: "int \<Rightarrow> int \<Rightarrow> int \<Rightarrow> int \<Rightarrow> bool" where
  "validate_banner_creative_size bw bh max_w max_h = (\<not> (bw > max_w \<or> bh > max_h))"

definition validate_bid_adm_secure :: "string \<Rightarrow> bool" where
  "validate_bid_adm_secure adm =
     (let has_insecure = str_contains ''http:'' adm \<or> str_contains ''http%3A'' adm;
          has_secure = str_contains ''https:'' adm \<or> str_contains ''https%3A'' adm
      in \<not> (has_insecure \<and> \<not> has_secure))"

text \<open>A character is the list of its octets; \<^verbatim>\<open>c as u8\<close> is the lowest octet of its scalar value.\<close>

definition scalar_low :: "string \<Rightarrow> nat" where
  "scalar_low c =
     (case rev c of
        [] \<Rightarrow> 0
      | [x] \<Rightarrow> of_char x
      | x # y # _ \<Rightarrow> (of_char y mod 4) * 64 + of_char x mod 64)"

definition unreserved :: "char \<Rightarrow> bool" where
  "unreserved c =
     (let n = (of_char c :: nat)
      in 48 \<le> n \<and> n \<le> 57 \<or> 65 \<le> n \<and> n \<le> 90 \<or> 97 \<le> n \<and> n \<le> 122 \<or> c \<in> {CHR ''-'', CHR ''_'', CHR ''.'', CHR ''~''})"

definition hex_upper :: "nat \<Rightarrow> char" where
  "hex_upper n = ''0123456789ABCDEF'' ! n"

definition encode_uuid_char :: "string \<Rightarrow> string" where
  "encode_uuid_char c =
     (case c of
        [x] \<Rightarrow> if unreserved x then [x] else [CHR ''%'', hex_upper (of_char x div 16), hex_upper (of_char x mod 16)]
      | _ \<Rightarrow> [CHR ''%'', hex_upper (scalar_low c div 16), hex_upper (scalar_low c mod 16)])"

definition build_cache_url :: "string \<Rightarrow> string \<Rightarrow> string \<Rightarrow> string \<Rightarrow> string" where
  "build_cache_url scheme host path uuid =
     (if host = [] \<or> path = [] then []
      else let query = ''uuid='' @ concat (map encode_uuid_char (utf8_chars uuid))
           in if scheme = [] then host @ path @ ''?'' @ query else scheme @ ''://'' @ host @ path @ ''?'' @ query)"

text \<open>The shuffle is an argument.\<close>

definition list_bidders_with_requests :: "(string list \<Rightarrow> string list) \<Rightarrow> string list \<Rightarrow> string list" where
  "list_bidders_with_requests shuffle bidder_names = shuffle bidder_names"

definition get_integration_type :: "json option \<Rightarrow> string" where
  "get_integration_type ext = unwrap_or [] (Option.bind (jpath ext [''prebid'', ''integration'']) as_str)"

definition get_imp_media_types :: "imp \<Rightarrow> string list" where
  "get_imp_media_types i =
     (if imp_banner i \<noteq> None then [''banner''] else []) @ (if imp_video i \<noteq> None then [''video''] else [])
     @ (if imp_audio i \<noteq> None then [''audio''] else []) @ (if imp_native i \<noteq> None then [''native''] else [])"

section \<open>The debug log\<close>

record debug_http_call =
  dhc_uri :: string
  dhc_request_body :: string
  dhc_response_body :: string
  dhc_status_code :: nat
  dhc_elapsed_ms :: nat

record debug_data =
  dd_request :: string
  dd_headers :: string
  dd_response :: string

text \<open>The expression that scrubs the log is given by the function it computes.\<close>

record debug_log =
  dl_enabled :: bool
  dl_cache_type :: string
  dl_data :: debug_data
  dl_ttl :: int
  dl_cache_key :: string
  dl_cache_string :: string
  dl_regexp :: "(string \<Rightarrow> string) option"
  dl_debug_override :: bool
  dl_debug_enabled_or_overridden :: bool
  dl_http_calls :: "debug_http_call list"

definition debug_log_new :: "bool \<Rightarrow> bool \<Rightarrow> debug_log" where
  "debug_log_new enabled override =
     \<lparr>dl_enabled = enabled, dl_cache_type = [], dl_data = \<lparr>dd_request = [], dd_headers = [], dd_response = []\<rparr>, dl_ttl = 0, dl_cache_key = [],
      dl_cache_string = [], dl_regexp = None, dl_debug_override = override, dl_debug_enabled_or_overridden = (enabled \<or> override),
      dl_http_calls = []\<rparr>"

definition scrub_data :: "(string \<Rightarrow> string) option \<Rightarrow> debug_data \<Rightarrow> debug_data" where
  "scrub_data re d =
     (case re of
        None \<Rightarrow> d
      | Some f \<Rightarrow> \<lparr>dd_request = f (dd_request d), dd_headers = f (dd_headers d), dd_response = f (dd_response d)\<rparr>)"

definition build_cache_string :: "debug_log \<Rightarrow> debug_log" where
  "build_cache_string dl =
     (let d = scrub_data (dl_regexp dl) (dl_data dl)
      in dl\<lparr>dl_data := d,
            dl_cache_string := ''<?xml version=\"1.0\" encoding=\"UTF-8\"?><Log><Request>'' @ dd_request d @ ''</Request><Headers>''
              @ dd_headers d @ ''</Headers><Response>'' @ dd_response d @ ''</Response></Log>''\<rparr>)"

definition push_http_call :: "debug_log \<Rightarrow> debug_http_call \<Rightarrow> debug_log" where
  "push_http_call dl c = dl\<lparr>dl_http_calls := dl_http_calls dl @ [c]\<rparr>"

definition parse_request_debug_values :: "bool \<Rightarrow> bool \<Rightarrow> bool" where
  "parse_request_debug_values test ext_debug = (test \<or> ext_debug)"

definition set_debug_log_values :: "bool \<Rightarrow> debug_log \<Rightarrow> debug_log" where
  "set_debug_log_values account_debug_flag dl = dl\<lparr>dl_enabled := (dl_debug_enabled_or_overridden dl \<or> account_debug_flag)\<rparr>"

definition get_debug_info :: "bool \<Rightarrow> bool \<Rightarrow> bool \<Rightarrow> debug_log \<Rightarrow> debug_log \<times> bool \<times> bool" where
  "get_debug_info test ext_debug account_debug_flag dl =
     (let request_debug_allow = parse_request_debug_values test ext_debug;
          dl = set_debug_log_values account_debug_flag dl
      in (dl, request_debug_allow \<and> account_debug_flag \<or> dl_debug_enabled_or_overridden dl,
          request_debug_allow \<and> account_debug_flag \<or> dl_debug_enabled_or_overridden dl \<and> account_debug_flag))"

definition dbg_override_enabled :: "string \<Rightarrow> string \<Rightarrow> bool" where
  "dbg_override_enabled header_value configured_token = (header_value \<noteq> [] \<and> configured_token \<noteq> [] \<and> header_value = configured_token)"

text \<open>The three modules of the exchange decide alike about the override header.\<close>

lemma override_checks_agree: "dbg_override_enabled h t = is_debug_override_enabled h t"
  by (auto simp: dbg_override_enabled_def is_debug_override_enabled_def)

text \<open>The account flag is needed for the account metrics, but not for the debug output of a log that was enabled before.\<close>

lemma debug_info_flags:
  "snd (snd (get_debug_info test ext_debug flag dl)) = (flag \<and> fst (snd (get_debug_info test ext_debug flag dl)))"
  "fst (snd (get_debug_info test ext_debug flag dl)) = (dl_debug_enabled_or_overridden dl \<or> flag \<and> (test \<or> ext_debug))"
  by (auto simp: get_debug_info_def Let_def set_debug_log_values_def parse_request_debug_values_def)

section \<open>Writers of sections\<close>

text \<open>The order of iteration does not matter for the object a map becomes.\<close>

lemma map_of_fold_put:
  "distinct (map fst kvs) \<Longrightarrow>
   map_of (fold (\<lambda>(k, v). bt_insert k (enc v)) kvs acc) k = (case map_of kvs k of Some v \<Rightarrow> Some (enc v) | None \<Rightarrow> map_of acc k)"
proof (induction kvs arbitrary: acc)
  case (Cons p kvs)
  then have "map_of kvs (fst p) = None" by (simp add: map_of_eq_None_iff)
  then show ?case using Cons by (cases p) (auto simp: map_of_bt_insert split: option.splits)
qed simp

lemma fold_insert_wf: "bt_wf acc \<Longrightarrow> bt_wf (fold (\<lambda>(k, v). bt_insert k (enc v)) kvs acc)"
  by (induction kvs arbitrary: acc) (auto simp: bt_wf_insert)

lemma hm_iter_facts:
  assumes "hm_wf m" "iter_order ord"
  shows "distinct (map fst (hm_iter ord m))" "map_of (hm_iter ord m) = map_of m"
proof -
  have keys: "distinct (ord (map fst m))" "set (ord (map fst m)) = set (map fst m)"
    using assms mset_eq_imp_distinct_iff set_iter_order [OF assms(2)] by (auto simp: iter_order_def hm_wf_def)
  then show "distinct (map fst (hm_iter ord m))"
    by (simp add: hm_iter_keys)
  show "map_of (hm_iter ord m) = map_of m"
  proof
    fix k
    show "map_of (hm_iter ord m) k = map_of m k"
      using keys(2) map_of_eq_None_iff [of m k] by (auto simp: hm_iter_def map_of_map_restrict restrict_map_def)
  qed
qed

lemma object_of_get:
  assumes "hm_wf m" "iter_order ord"
  shows "\<exists>es. object_of ord enc m = JObj es \<and> bt_wf es \<and> (\<forall>k. map_of es k = map_option enc (map_of m k))"
  using fold_insert_wf [of "[]" enc "hm_iter ord m"] map_of_fold_put [OF hm_iter_facts(1) [OF assms], of enc "[]"] hm_iter_facts(2) [OF assms]
  by (auto simp: object_of_def bt_wf_def split: option.split)

lemma object_of_order:
  assumes "hm_wf m" "iter_order ord" "iter_order ord'"
  shows "object_of ord enc m = object_of ord' enc m"
  using object_of_get [OF assms(1, 2), of enc] object_of_get [OF assms(1, 3), of enc] by (auto intro!: bt_ext simp: fun_eq_iff)

locale section_writer =
  fixes w :: "(string \<times> json) list \<Rightarrow> (string \<times> json) list" and keys :: "string set"
  assumes keeps: "k \<notin> keys \<Longrightarrow> map_of (w m) k = map_of m k"
    and keeps_wf: "bt_wf m \<Longrightarrow> bt_wf (w m)"
    and depends: "(\<And>k. k \<in> keys \<Longrightarrow> map_of m k = map_of m' k) \<Longrightarrow> k \<in> keys \<Longrightarrow> map_of (w m) k = map_of (w m') k"
begin

lemma commute:
  assumes "section_writer w' keys'" "keys \<inter> keys' = {}" "bt_wf m"
  shows "w (w' m) = w' (w m)"
proof (rule bt_ext)
  note other = section_writer.keeps [OF assms(1)] section_writer.depends [OF assms(1)]
  have apart: "k \<in> keys \<Longrightarrow> k \<notin> keys'" "k \<in> keys' \<Longrightarrow> k \<notin> keys" for k
    using assms(2) by blast+
  show "map_of (w (w' m)) = map_of (w' (w m))"
  proof
    fix k
    consider "k \<in> keys" | "k \<in> keys'" | "k \<notin> keys" "k \<notin> keys'" by blast
    then show "map_of (w (w' m)) k = map_of (w' (w m)) k"
    proof cases
      case 1
      then have "map_of (w (w' m)) k = map_of (w m) k"
        by (intro depends other(1) apart)
      then show ?thesis by (simp add: other(1) apart 1)
    next
      case 2
      then have "map_of (w' (w m)) k = map_of (w' m) k"
        by (intro other(2) keeps apart)
      then show ?thesis by (simp add: keeps apart 2)
    qed (simp add: keeps other(1))
  qed
qed (use assms in \<open>simp_all add: keeps_wf section_writer.keeps_wf [OF assms(1)]\<close>)

end

lemma section_writer_insert: "section_writer (bt_insert k v) {k}"
  by unfold_locales (simp_all add: map_of_bt_insert bt_wf_insert)

lemma section_writer_id: "section_writer (\<lambda>m. m) ks"
  by unfold_locales simp_all

lemma section_writer_compose:
  assumes "section_writer w ks" "section_writer w' ks'"
  shows "section_writer (\<lambda>m. w (w' m)) (ks \<union> ks')"
proof (rule section_writer.intro)
  note a = section_writer.keeps [OF assms(1)] section_writer.depends [OF assms(1)] section_writer.keeps_wf [OF assms(1)]
  note b = section_writer.keeps [OF assms(2)] section_writer.depends [OF assms(2)] section_writer.keeps_wf [OF assms(2)]
  show "map_of (w (w' m)) k = map_of m k" if "k \<notin> ks \<union> ks'" for k m
    using that by (simp add: a(1) b(1))
  show "bt_wf (w (w' m))" if "bt_wf m" for m
    using that by (simp add: a(3) b(3))
  fix m m' :: "(string \<times> json) list" and k assume same: "\<And>k. k \<in> ks \<union> ks' \<Longrightarrow> map_of m k = map_of m' k" and k: "k \<in> ks \<union> ks'"
  have inner: "map_of (w' m) k = map_of (w' m') k" if "k \<in> ks \<union> ks'" for k
  proof (cases "k \<in> ks'")
    case True
    then show ?thesis using same by (intro b(2)) auto
  qed (use that same in \<open>simp add: b(1)\<close>)
  show "map_of (w (w' m)) k = map_of (w (w' m')) k"
  proof (cases "k \<in> ks")
    case True
    then show ?thesis using inner by (intro a(2)) auto
  qed (use k inner in \<open>simp add: a(1)\<close>)
qed

lemma section_writer_put_map: "section_writer (put_map ord enc k vs) {k}"
  using section_writer_insert [of k] section_writer_id by (cases "vs = []") (simp_all add: put_map_def [abs_def])

lemma section_writer_sub: "section_writer w ks \<Longrightarrow> ks = ks' \<Longrightarrow> section_writer w ks'"
  by simp

text \<open>The three writers of the response.\<close>

interpretation non_bid_section: section_writer "write_seat_non_bid val" "{''prebid''}" for val
  by unfold_locales
    (auto simp: write_seat_non_bid_def map_of_bt_insert bt_remove_get bt_wf_insert bt_remove_wf get_or_def split: option.split)

interpretation info_section: section_writer "write_ext_info ord millis errors warnings" "{''responsetimemillis'', ''errors'', ''warnings''}"
  for ord millis errors warnings
  unfolding write_ext_info_def [abs_def]
  by (rule section_writer_sub [OF section_writer_compose [OF section_writer_put_map section_writer_compose [OF section_writer_put_map section_writer_put_map]]]) auto

interpretation debug_section: section_writer "write_debug ord http_calls" "{''debug''}" for ord http_calls
  unfolding write_debug_def [abs_def] by (rule section_writer_insert)

definition ext_wf :: "json option \<Rightarrow> bool" where
  "ext_wf e = (case e of Some (JObj m) \<Rightarrow> bt_wf m | _ \<Rightarrow> True)"

definition ext_object :: "json option \<Rightarrow> (string \<times> json) list option" where
  "ext_object e = (case e of None \<Rightarrow> Some [] | Some (JObj m) \<Rightarrow> Some m | _ \<Rightarrow> None)"

lemma ext_object_with: "ext_object e = Some m \<Longrightarrow> ext_object (with_ext w e) = Some (w m)"
  by (auto simp: ext_object_def with_ext_def on_object_def unwrap_or_def split: option.splits json.splits)

lemma with_ext_commute:
  assumes "section_writer w ks" "section_writer w' ks'" "ks \<inter> ks' = {}" "ext_wf e"
  shows "with_ext w (with_ext w' e) = with_ext w' (with_ext w e)"
  using section_writer.commute [OF assms(1-3)] assms(4)
  by (auto simp: ext_wf_def with_ext_def on_object_def unwrap_or_def bt_wf_def split: option.splits json.splits)

lemmas set_section_defs = set_seat_non_bid_def set_response_ext_info_def set_response_debug_def

lemma sections_commute:
  assumes "ext_wf (resp_jext r)"
  shows "set_response_debug ord (set_seat_non_bid enc r nbs) calls = set_seat_non_bid enc (set_response_debug ord r calls) nbs"
    "set_response_debug ord (set_response_ext_info ord r ts es ws) calls = set_response_ext_info ord (set_response_debug ord r calls) ts es ws"
    "set_response_ext_info ord (set_seat_non_bid enc r nbs) ts es ws = set_seat_non_bid enc (set_response_ext_info ord r ts es ws) nbs"
  using with_ext_commute [OF debug_section.section_writer_axioms [of ord calls] non_bid_section.section_writer_axioms [of "enc nbs"] _ assms]
    with_ext_commute [OF debug_section.section_writer_axioms [of ord calls] info_section.section_writer_axioms [of ord ts es ws] _ assms]
    with_ext_commute [OF info_section.section_writer_axioms [of ord ts es ws] non_bid_section.section_writer_axioms [of "enc nbs"] _ assms]
  by (simp_all add: set_section_defs)

definition all_sections ::
  "(string list \<Rightarrow> string list) \<Rightarrow> (seat_non_bid list \<Rightarrow> json option) \<Rightarrow> seat_non_bid list \<Rightarrow> (string \<times> nat) list \<Rightarrow> (string \<times> string list) list
   \<Rightarrow> (string \<times> string list) list \<Rightarrow> (string \<times> json list) list \<Rightarrow> (string \<times> json) list \<Rightarrow> (string \<times> json) list" where
  "all_sections ord enc nbs ts es ws calls m =
     (if calls = [] then id else write_debug ord calls)
       (write_ext_info ord ts es ws ((if nbs = [] then id else write_seat_non_bid (enc nbs)) m))"

lemma sections_object:
  assumes "ext_object (resp_jext r) = Some m"
  shows "set_response_debug ord (set_response_ext_info ord (set_seat_non_bid enc r nbs) ts es ws) calls
    = r\<lparr>resp_jext := Some (JObj (all_sections ord enc nbs ts es ws calls m))\<rparr>"
  using assms
  by (auto simp: all_sections_def set_section_defs ext_object_def with_ext_def on_object_def unwrap_or_def split: option.splits json.splits)

lemma sections_get:
  "k \<notin> {''prebid'', ''debug'', ''errors'', ''warnings'', ''responsetimemillis''} \<Longrightarrow> map_of (all_sections ord enc nbs ts es ws calls m) k = map_of m k"
  "calls \<noteq> [] \<Longrightarrow> map_of (all_sections ord enc nbs ts es ws calls m) ''debug'' = Some (JObj [(''httpcalls'', object_of ord JArr calls)])"
  "nbs \<noteq> [] \<Longrightarrow> enc nbs = Some v \<Longrightarrow> get_or (JObj []) m ''prebid'' = JObj p
     \<Longrightarrow> map_of (all_sections ord enc nbs ts es ws calls m) ''prebid'' = Some (JObj (bt_insert ''seatnonbid'' v p))"
  by (simp add: all_sections_def debug_section.keeps info_section.keeps non_bid_section.keeps)
    (simp_all add: all_sections_def write_debug_def map_of_bt_insert debug_section.keeps info_section.keeps write_seat_non_bid_def on_object_def)

text \<open>What one section holds afterwards: an empty map leaves the member alone, any other is written as an object with its entries encoded.\<close>

definition section_holds ::
  "(string \<times> json) list \<Rightarrow> (string \<times> json) list \<Rightarrow> string \<Rightarrow> ('v \<Rightarrow> json) \<Rightarrow> (string \<times> 'v) list \<Rightarrow> bool" where
  "section_holds m m' k enc vs \<longleftrightarrow>
     (if vs = [] then map_of m' k = map_of m k
      else \<exists>obj. map_of m' k = Some (JObj obj) \<and> (\<forall>b. map_of obj b = map_option enc (map_of vs b)))"

lemma put_map_holds:
  "hm_wf vs \<Longrightarrow> iter_order ord \<Longrightarrow> section_holds m (put_map ord enc k vs m) k enc vs"
  using object_of_get [of vs ord enc] by (auto simp: section_holds_def put_map_def map_of_bt_insert)

lemma put_map_other: "k' \<noteq> k \<Longrightarrow> map_of (put_map ord enc k vs m) k' = map_of m k'"
  by (simp add: put_map_def map_of_bt_insert)

lemma section_holds_cong:
  "map_of m' k = map_of m1' k \<Longrightarrow> map_of m k = map_of m1 k \<Longrightarrow> section_holds m1 m1' k enc vs \<Longrightarrow> section_holds m m' k enc vs"
  by (simp add: section_holds_def)

lemma info_sections_hold:
  assumes "iter_order ord" "hm_wf ts" "hm_wf es" "hm_wf ws"
  shows "section_holds m (all_sections ord enc nbs ts es ws calls m) ''responsetimemillis'' (\<lambda>ms. JNum (PosInt ms)) ts"
    "section_holds m (all_sections ord enc nbs ts es ws calls m) ''errors'' message_objects es"
    "section_holds m (all_sections ord enc nbs ts es ws calls m) ''warnings'' message_objects ws"
proof -
  let ?w = "if nbs = [] then id else write_seat_non_bid (enc nbs)"
  have inner: "map_of (?w m) k = map_of m k" if "k \<noteq> ''prebid''" for k using that by (simp add: non_bid_section.keeps)
  have outer: "map_of (all_sections ord enc nbs ts es ws calls m) k = map_of (write_ext_info ord ts es ws (?w m)) k"
    if "k \<noteq> ''debug''" for k
    using that by (simp add: all_sections_def debug_section.keeps)
  show "section_holds m (all_sections ord enc nbs ts es ws calls m) ''responsetimemillis'' (\<lambda>ms. JNum (PosInt ms)) ts"
    by (rule section_holds_cong [OF _ _ put_map_holds [OF assms(2,1), of "?w m"]])
      (simp_all add: outer inner write_ext_info_def put_map_other)
  show "section_holds m (all_sections ord enc nbs ts es ws calls m) ''errors'' message_objects es"
    by (rule section_holds_cong [OF _ _ put_map_holds [OF assms(3,1), of "put_map ord (\<lambda>ms. JNum (PosInt ms)) ''responsetimemillis'' ts (?w m)"]])
      (simp_all add: outer inner write_ext_info_def put_map_other)
  show "section_holds m (all_sections ord enc nbs ts es ws calls m) ''warnings'' message_objects ws"
    by (rule section_holds_cong [OF _ _ put_map_holds [OF assms(4,1), of "put_map ord message_objects ''errors'' es (put_map ord (\<lambda>ms. JNum (PosInt ms)) ''responsetimemillis'' ts (?w m))"]])
      (simp_all add: outer inner write_ext_info_def put_map_other)
qed

lemma other_sections_hold:
  "calls = [] \<Longrightarrow> map_of (all_sections ord enc nbs ts es ws calls m) ''debug'' = map_of m ''debug''"
  "nbs = [] \<Longrightarrow> map_of (all_sections ord enc nbs ts es ws calls m) ''prebid'' = map_of m ''prebid''"
  by (simp_all add: all_sections_def debug_section.keeps info_section.keeps non_bid_section.keeps)

section \<open>Properties\<close>

text \<open>Property C22.  The sections of the response.  The writers of non-bids, of times, errors and warnings, and of debug calls commute, so that
  they can run in any order.  When the extension is absent or an object, afterwards, whatever the order of iteration, the response times hold the milliseconds of each bidder, the
  errors and the warnings hold one object with code 999 per message of each bidder, and the debug section holds exactly the calls of each bidder; a section whose map is
  empty is left alone.  The non-bids are written beside the other members of the prebid object, every member that is no
  section is as before, and so is the rest of the response.\<close>

theorem response_sections:
  assumes "ext_wf (resp_jext r)" "hm_wf calls" "hm_wf ts" "hm_wf es" "hm_wf ws" "iter_order ord"
  shows "set_response_debug ord (set_seat_non_bid enc r nbs) calls = set_seat_non_bid enc (set_response_debug ord r calls) nbs
    \<and> set_response_debug ord (set_response_ext_info ord r ts es ws) calls = set_response_ext_info ord (set_response_debug ord r calls) ts es ws
    \<and> set_response_ext_info ord (set_seat_non_bid enc r nbs) ts es ws = set_seat_non_bid enc (set_response_ext_info ord r ts es ws) nbs
    \<and> (\<forall>m. ext_object (resp_jext r) = Some m \<longrightarrow>
         (\<exists>m'. set_response_debug ord (set_response_ext_info ord (set_seat_non_bid enc r nbs) ts es ws) calls = r\<lparr>resp_jext := Some (JObj m')\<rparr>
            \<and> (\<forall>k. k \<notin> {''prebid'', ''debug'', ''errors'', ''warnings'', ''responsetimemillis''} \<longrightarrow> map_of m' k = map_of m k)
            \<and> section_holds m m' ''responsetimemillis'' (\<lambda>ms. JNum (PosInt ms)) ts
            \<and> section_holds m m' ''errors'' (\<lambda>msgs. JArr (map (\<lambda>msg. JObj [(''code'', JNum (PosInt 999)), (''message'', JStr msg)]) msgs)) es
            \<and> section_holds m m' ''warnings'' (\<lambda>msgs. JArr (map (\<lambda>msg. JObj [(''code'', JNum (PosInt 999)), (''message'', JStr msg)]) msgs)) ws
            \<and> (if calls = [] then map_of m' ''debug'' = map_of m ''debug''
               else \<exists>cs. map_of m' ''debug'' = Some (JObj [(''httpcalls'', JObj cs)]) \<and> (\<forall>b. map_of cs b = map_option JArr (map_of calls b)))
            \<and> (nbs = [] \<longrightarrow> map_of m' ''prebid'' = map_of m ''prebid'')
            \<and> (nbs \<noteq> [] \<longrightarrow> enc nbs = Some v \<longrightarrow> get_or (JObj []) m ''prebid'' = JObj p
                 \<longrightarrow> map_of m' ''prebid'' = Some (JObj (bt_insert ''seatnonbid'' v p)))))"
proof -
  obtain cs where cs: "object_of ord JArr calls = JObj cs" "\<forall>b. map_of cs b = map_option JArr (map_of calls b)"
    using object_of_get [OF assms(2, 6), of JArr] by blast
  have msgs: "message_objects = (\<lambda>msgs. JArr (map (\<lambda>msg. JObj [(''code'', JNum (PosInt 999)), (''message'', JStr msg)]) msgs))"
    by (rule ext) (simp add: message_objects_def)
  note hold = info_sections_hold [OF assms(6,3-5), unfolded msgs]
  show ?thesis
  proof (intro conjI allI impI)
    fix m assume "ext_object (resp_jext r) = Some m"
    note obj = sections_object [OF this, of ord enc nbs ts es ws calls]
    show "\<exists>m'. set_response_debug ord (set_response_ext_info ord (set_seat_non_bid enc r nbs) ts es ws) calls = r\<lparr>resp_jext := Some (JObj m')\<rparr>
            \<and> (\<forall>k. k \<notin> {''prebid'', ''debug'', ''errors'', ''warnings'', ''responsetimemillis''} \<longrightarrow> map_of m' k = map_of m k)
            \<and> section_holds m m' ''responsetimemillis'' (\<lambda>ms. JNum (PosInt ms)) ts
            \<and> section_holds m m' ''errors'' (\<lambda>msgs. JArr (map (\<lambda>msg. JObj [(''code'', JNum (PosInt 999)), (''message'', JStr msg)]) msgs)) es
            \<and> section_holds m m' ''warnings'' (\<lambda>msgs. JArr (map (\<lambda>msg. JObj [(''code'', JNum (PosInt 999)), (''message'', JStr msg)]) msgs)) ws
            \<and> (if calls = [] then map_of m' ''debug'' = map_of m ''debug''
               else \<exists>cs. map_of m' ''debug'' = Some (JObj [(''httpcalls'', JObj cs)]) \<and> (\<forall>b. map_of cs b = map_option JArr (map_of calls b)))
            \<and> (nbs = [] \<longrightarrow> map_of m' ''prebid'' = map_of m ''prebid'')
            \<and> (nbs \<noteq> [] \<longrightarrow> enc nbs = Some v \<longrightarrow> get_or (JObj []) m ''prebid'' = JObj p
                 \<longrightarrow> map_of m' ''prebid'' = Some (JObj (bt_insert ''seatnonbid'' v p)))"
      using obj cs hold
      by (intro exI [of _ "all_sections ord enc nbs ts es ws calls m"]) (simp add: sections_get other_sections_hold)
  qed (rule sections_commute [OF assms(1)])+
qed

theorem response_sections_witness:
  "\<exists>m' o'. resp_jext (set_response_debug (\<lambda>ks. ks) (set_response_ext_info (\<lambda>ks. ks) (set_seat_non_bid (\<lambda>_. Some JNull) default_bid_response [])
        [(''b'', 12)] [(''b'', [''late''])] []) [(''b'', [JNull])]) = Some (JObj m')
     \<and> map_of m' ''errors'' = Some (JObj o') \<and> map_of o' ''b'' = Some (JArr [JObj [(''code'', JNum (PosInt 999)), (''message'', JStr ''late'')]])
     \<and> map_of m' ''warnings'' = None"
proof -
  have h: "ext_wf (resp_jext default_bid_response)" "hm_wf [(''b'', [JNull])]" "hm_wf [(''b'', 12)]" "hm_wf [(''b'', [''late''])]" "hm_wf []"
    "iter_order (\<lambda>ks :: string list. ks)" "ext_object (resp_jext default_bid_response) = Some []"
    by (simp_all add: ext_wf_def ext_object_def default_bid_response_def hm_wf_def iter_order_def)
  note all = response_sections [OF h(1-6), of "\<lambda>_. Some JNull" "[]"]
  from all [THEN conjunct2, THEN conjunct2, THEN conjunct2, THEN spec, THEN mp, OF h(7)]
  obtain m' where m': "set_response_debug (\<lambda>ks. ks) (set_response_ext_info (\<lambda>ks. ks) (set_seat_non_bid (\<lambda>_. Some JNull) default_bid_response [])
        [(''b'', 12)] [(''b'', [''late''])] []) [(''b'', [JNull])] = default_bid_response\<lparr>resp_jext := Some (JObj m')\<rparr>"
    "section_holds [] m' ''errors'' (\<lambda>msgs. JArr (map (\<lambda>msg. JObj [(''code'', JNum (PosInt 999)), (''message'', JStr msg)]) msgs)) [(''b'', [''late''])]"
    "section_holds [] m' ''warnings'' (\<lambda>msgs. JArr (map (\<lambda>msg. JObj [(''code'', JNum (PosInt 999)), (''message'', JStr msg)]) msgs)) []"
    by blast
  from m'(2) obtain o' where o': "map_of m' ''errors'' = Some (JObj o')"
    "map_of o' ''b'' = Some (JArr [JObj [(''code'', JNum (PosInt 999)), (''message'', JStr ''late'')]])"
    by (auto simp: section_holds_def)
  from m'(3) have "map_of m' ''warnings'' = None" by (simp add: section_holds_def)
  with o' show ?thesis unfolding m'(1) by simp
qed
text \<open>The extension of a bid: it panics exactly for a prebid value that is neither an object nor null; otherwise the result is an object with
  the members of the old extension, the original price when it is not negative, the original currency when there is one, and a prebid object that has
  a \<^verbatim>\<open>meta\<close> member, carried over from the old extension when the new one has none.\<close>

lemma with_meta_get:
  "with_meta ext p = Some q \<Longrightarrow> \<exists>m. q = JObj m \<and> (case jget p ''meta'' of Some v \<Rightarrow> map_of m ''meta'' = Some v
     | None \<Rightarrow> map_of m ''meta'' = Some (unwrap_or (JObj []) (jpath (Some ext) [''prebid'', ''meta'']))) \<and> (\<forall>k. k \<noteq> ''meta'' \<longrightarrow> map_of m k = jget p k)"
  by (cases p) (auto simp: with_meta_def index_set_def map_of_bt_insert split: if_splits option.splits)

lemma bid_ext_panics: "make_bid_ext_json ext p cpm cur = None \<longleftrightarrow> p \<noteq> JNull \<and> \<not> is_object p"
  by (cases p) (auto simp: make_bid_ext_json_def Let_def with_meta_def index_set_def is_object_def)

lemma bid_ext_members:
  assumes "make_bid_ext_json ext p cpm cur = Some j"
  shows "\<exists>m. j = JObj m \<and> (\<forall>k. k \<notin> {''prebid'', ''origbidcpm'', ''origbidcur''} \<longrightarrow> map_of m k = jpath ext [k])
    \<and> (f_le (Fin False 0) cpm \<longrightarrow> map_of m ''origbidcpm'' = Some (json_of_f64 cpm))
    \<and> (cur \<noteq> [] \<longrightarrow> map_of m ''origbidcur'' = Some (JStr cur))
    \<and> (\<exists>q. map_of m ''prebid'' = Some q \<and> jget q ''meta'' \<noteq> None)"
proof -
  obtain q where q: "with_meta (JObj (with_original ext cpm cur)) p = Some q" "j = JObj (bt_insert ''prebid'' q (with_original ext cpm cur))"
    using assms by (auto simp: make_bid_ext_json_def Let_def)
  have old: "map_of (case ext of Some (JObj m) \<Rightarrow> m | _ \<Rightarrow> []) k = jpath ext [k]" for k
    by (auto split: option.split json.split)
  have "map_of (with_original ext cpm cur) k = jpath ext [k]" if "k \<notin> {''prebid'', ''origbidcpm'', ''origbidcur''}" for k
    using that by (simp add: with_original_def Let_def map_of_bt_insert old)
  moreover have "f_le (Fin False 0) cpm \<longrightarrow> map_of (with_original ext cpm cur) ''origbidcpm'' = Some (json_of_f64 cpm)"
    "cur \<noteq> [] \<longrightarrow> map_of (with_original ext cpm cur) ''origbidcur'' = Some (JStr cur)"
    by (simp_all add: with_original_def Let_def map_of_bt_insert)
  moreover have "jget q ''meta'' \<noteq> None"
    using with_meta_get [OF q(1)] by (auto split: option.splits)
  ultimately show ?thesis
    using q(2) by (simp add: map_of_bt_insert)
qed

text \<open>The percent-encoding of the identifier keeps only one octet of a character that has more.\<close>

lemma cache_url_loses: "encode_uuid_char [CHR 0xC4, CHR 0x80] = ''%00'' \<and> encode_uuid_char [CHR 0xC8, CHR 0x80] = ''%00''"
  by (simp add: encode_uuid_char_def scalar_low_def hex_upper_def)

end
