(* ===== verification/OrtbConversion.thy ===== *)
theory OrtbConversion
  imports OrtbVersion
begin

text \<open>
  The second pair of version converters, \<^verbatim>\<open>rust/crates/exchange/src/ortb_conversion.rs\<close>: down to OpenRTB 2.5 for bidders that do not declare
  2.6, and up.  They move fewer fields than those of \<open>OrtbVersion\<close> and remove the names of 2.6 fields from extensions.
\<close>

section \<open>Helpers\<close>

datatype ortb_version = V25 | V26

definition ortb_version_from_str :: "string \<Rightarrow> ortb_version option" where
  "ortb_version_from_str s = (if s = ''2.5'' then Some V25 else if s = ''2.6'' then Some V26 else None)"

definition remove_ext_keys :: "string list \<Rightarrow> json option \<Rightarrow> json option" where
  "remove_ext_keys keys ext = (case ext of Some (JObj m) \<Rightarrow> Some (JObj (fold bt_remove keys m)) | _ \<Rightarrow> ext)"

text \<open>\<^verbatim>\<open>ext.get_or_insert_with({})\<close>, then an insertion into an object that has no such member.  The value may be missing, when it could
  not be encoded.\<close>

definition put_new :: "string \<Rightarrow> json option \<Rightarrow> json option \<Rightarrow> json option" where
  "put_new k v ext =
     Some (case unwrap_or (JObj []) ext of
             JObj m \<Rightarrow> JObj (if map_of m k = None then (case v of Some v \<Rightarrow> bt_insert k v m | None \<Rightarrow> m) else m)
           | e \<Rightarrow> e)"

section \<open>Down to 2.5\<close>

definition cv_source_down :: "ortb_codec \<Rightarrow> rtb_source \<Rightarrow> rtb_source" where
  "cv_source_down oc s =
     (case source_schain s of
        None \<Rightarrow> s
      | Some schain \<Rightarrow> s\<lparr>source_schain := None, source_jext := put_new ''schain'' (oc_en_schain oc schain) (source_jext s)\<rparr>)"

definition cv_us_privacy_down :: "regs \<Rightarrow> regs" where
  "cv_us_privacy_down r =
     (let r' = r\<lparr>regs_us_privacy := None\<rparr>
      in case regs_us_privacy r of
           None \<Rightarrow> r'
         | Some v \<Rightarrow> if v = [] then r' else r'\<lparr>regs_jext := put_new ''us_privacy'' (Some (JStr v)) (regs_jext r)\<rparr>)"

definition cv_eids_down :: "ortb_codec \<Rightarrow> user \<Rightarrow> user" where
  "cv_eids_down oc u =
     (let u' = u\<lparr>user_eids := None\<rparr>
      in case user_eids u of
           None \<Rightarrow> u'
         | Some e \<Rightarrow> if e = [] then u' else u'\<lparr>user_jext := put_new ''eids'' (oc_en_eids oc e) (user_jext u)\<rparr>)"

definition cv_rewarded_down :: "imp \<Rightarrow> imp" where
  "cv_rewarded_down i =
     (let i' = i\<lparr>imp_rwdd := None\<rparr>
      in case imp_rwdd i of
           None \<Rightarrow> i'
         | Some v \<Rightarrow>
             if v = 0 then i'
             else i'\<lparr>imp_jext := Some (case unwrap_or (JObj []) (imp_jext i) of
                       JObj m \<Rightarrow> JObj (bt_insert ''prebid'' (the (put_new ''is_rewarded_inventory'' (Some (json_int v)) (map_of m ''prebid''))) m)
                     | e \<Rightarrow> e)\<rparr>)"

text \<open>The names of 2.6 fields removed from extensions, and the fields cleared.\<close>

definition clear_producer :: "producer \<Rightarrow> producer" where
  "clear_producer p = p\<lparr>producer_jext := remove_ext_keys [''cattax''] (producer_jext p)\<rparr>"

definition clear_publisher :: "publisher \<Rightarrow> publisher" where
  "clear_publisher p = p\<lparr>publisher_jext := remove_ext_keys [''cattax''] (publisher_jext p)\<rparr>"

definition clear_content :: "content \<Rightarrow> content" where
  "clear_content c =
     c\<lparr>content_jext := remove_ext_keys [''cattax'', ''kwarray'', ''langb'', ''network'', ''channel''] (content_jext c),
       content_producer := map_option clear_producer (content_producer c)\<rparr>"

definition clear_site :: "site \<Rightarrow> site" where
  "clear_site s =
     s\<lparr>site_jext := remove_ext_keys [''cattax'', ''kwarray'', ''inventorypartnerdomain''] (site_jext s),
       site_content := map_option clear_content (site_content s), site_publisher := map_option clear_publisher (site_publisher s)\<rparr>"

definition clear_app :: "app \<Rightarrow> app" where
  "clear_app a =
     a\<lparr>app_jext := remove_ext_keys [''cattax'', ''kwarray'', ''inventorypartnerdomain''] (app_jext a),
       app_content := map_option clear_content (app_content a), app_publisher := map_option clear_publisher (app_publisher a)\<rparr>"

definition clear_video :: "video \<Rightarrow> video" where
  "clear_video v =
     v\<lparr>video_plcmt := None,
       video_jext := remove_ext_keys [''maxseq'', ''poddur'', ''podid'', ''podseq'', ''slotinpod'', ''mincpmpersec'', ''rqddurs'', ''durfloors'', ''poddedupe''] (video_jext v)\<rparr>"

definition clear_audio :: "audio \<Rightarrow> audio" where
  "clear_audio a =
     a\<lparr>audio_jext := remove_ext_keys [''poddur'', ''rqddurs'', ''podid'', ''podseq'', ''slotinpod'', ''mincpmpersec'', ''durfloors''] (audio_jext a)\<rparr>"

definition clear_imp :: "imp \<Rightarrow> imp" where
  "clear_imp i =
     i\<lparr>imp_rwdd := None, imp_ssai := None, imp_jext := remove_ext_keys [''qty'', ''dt'', ''refresh''] (imp_jext i),
       imp_video := map_option clear_video (imp_video i), imp_audio := map_option clear_audio (imp_audio i)\<rparr>"

definition cv_clear_26_fields :: "bid_request \<Rightarrow> bid_request" where
  "cv_clear_26_fields req =
     req\<lparr>req_device := map_option (\<lambda>d. d\<lparr>device_jext := remove_ext_keys [''sua'', ''langb''] (device_jext d)\<rparr>) (req_device req),
         req_site := map_option clear_site (req_site req), req_app := map_option clear_app (req_app req),
         req_user := map_option (\<lambda>u. u\<lparr>user_jext := remove_ext_keys [''kwarray''] (user_jext u)\<rparr>) (req_user req),
         req_regs := map_option (\<lambda>r. r\<lparr>regs_us_privacy := None\<rparr>) (req_regs req),
         req_source := map_option (\<lambda>s. s\<lparr>source_schain := None\<rparr>) (req_source req),
         req_imp := map clear_imp (req_imp req),
         req_jext := remove_ext_keys [''cattax'', ''wlangb'', ''acat''] (req_jext req)\<rparr>"

definition clear_202211_fields :: "bid_request \<Rightarrow> bid_request" where
  "clear_202211_fields req =
     req\<lparr>req_jext := remove_ext_keys [''dooh''] (req_jext req),
         req_regs := map_option (\<lambda>r. r\<lparr>regs_gpp := None, regs_gpp_sid := None\<rparr>) (req_regs req),
         req_imp := map (\<lambda>i. i\<lparr>imp_jext := remove_ext_keys [''qty'', ''dt''] (imp_jext i)\<rparr>) (req_imp req)\<rparr>"

definition clear_202303_fields :: "bid_request \<Rightarrow> bid_request" where
  "clear_202303_fields req =
     req\<lparr>req_imp := map (\<lambda>i. i\<lparr>imp_jext := remove_ext_keys [''refresh''] (imp_jext i),
                              imp_video := map_option (\<lambda>v. v\<lparr>video_plcmt := None\<rparr>) (imp_video i)\<rparr>) (req_imp req)\<rparr>"

definition clear_deal :: "deal \<Rightarrow> deal" where
  "clear_deal d = d\<lparr>deal_jext := remove_ext_keys [''guar'', ''mincpmpersec'', ''durfloors''] (deal_jext d)\<rparr>"

definition clear_202309_fields :: "bid_request \<Rightarrow> bid_request" where
  "clear_202309_fields req =
     req\<lparr>req_jext := remove_ext_keys [''acat''] (req_jext req),
         req_imp := map (\<lambda>i. i\<lparr>imp_audio := map_option (\<lambda>a. a\<lparr>audio_jext := remove_ext_keys [''durfloors''] (audio_jext a)\<rparr>) (imp_audio i),
                              imp_video := map_option (\<lambda>v. v\<lparr>video_jext := remove_ext_keys [''durfloors''] (video_jext v)\<rparr>) (imp_video i),
                              imp_pmp := map_option (\<lambda>p. p\<lparr>pmp_deals := map clear_deal (pmp_deals p)\<rparr>) (imp_pmp i)\<rparr>) (req_imp req)\<rparr>"

text \<open>The moves of the GDPR flag and of the consent string are empty functions.\<close>

definition cv_moves_down :: "ortb_codec \<Rightarrow> bid_request \<Rightarrow> bid_request" where
  "cv_moves_down oc req =
     req\<lparr>req_source := map_option (cv_source_down oc) (req_source req), req_regs := map_option cv_us_privacy_down (req_regs req),
         req_user := map_option (cv_eids_down oc) (req_user req), req_imp := map cv_rewarded_down (req_imp req)\<rparr>"

definition cv_convert_down_to_25 :: "ortb_codec \<Rightarrow> bid_request \<Rightarrow> bid_request" where
  "cv_convert_down_to_25 oc req =
     clear_202309_fields (clear_202303_fields (clear_202211_fields (cv_clear_26_fields (cv_moves_down oc req))))"

section \<open>Up to 2.6\<close>

definition cv_source_up :: "ortb_codec \<Rightarrow> rtb_source \<Rightarrow> rtb_source" where
  "cv_source_up oc s =
     (case take_ext ''schain'' (source_jext s) of
        (None, _) \<Rightarrow> s
      | (Some v, ext) \<Rightarrow>
          (let s = s\<lparr>source_jext := ext\<rparr>
           in if source_schain s = None then (case oc_de_schain oc v of Some sc \<Rightarrow> s\<lparr>source_schain := Some sc\<rparr> | None \<Rightarrow> s) else s))"

text \<open>The member is removed even when it is no string or empty.\<close>

definition cv_us_privacy_up :: "regs \<Rightarrow> regs" where
  "cv_us_privacy_up r =
     (case take_ext ''us_privacy'' (regs_jext r) of
        (None, _) \<Rightarrow> r
      | (Some v, ext) \<Rightarrow>
          (let r = r\<lparr>regs_jext := ext\<rparr>
           in case v of JStr s \<Rightarrow> if s \<noteq> [] \<and> regs_us_privacy r = None then r\<lparr>regs_us_privacy := Some s\<rparr> else r | _ \<Rightarrow> r))"

definition cv_eids_up :: "ortb_codec \<Rightarrow> user \<Rightarrow> user" where
  "cv_eids_up oc u =
     (case take_ext ''eids'' (user_jext u) of
        (None, _) \<Rightarrow> u
      | (Some v, ext) \<Rightarrow>
          (let u = u\<lparr>user_jext := ext\<rparr>
           in if user_eids u = None then (case oc_de_eids oc v of Some e \<Rightarrow> u\<lparr>user_eids := Some e\<rparr> | None \<Rightarrow> u) else u))"

definition cv_rewarded_up :: "imp \<Rightarrow> imp" where
  "cv_rewarded_up i =
     (case imp_jext i of
        Some (JObj m) \<Rightarrow>
          (case take_ext ''is_rewarded_inventory'' (map_of m ''prebid'') of
             (Some v, Some prebid) \<Rightarrow>
               (let i = i\<lparr>imp_jext := Some (JObj (bt_insert ''prebid'' prebid m))\<rparr>
                in case as_i64 v of
                     Some n \<Rightarrow> if imp_rwdd i = None \<or> imp_rwdd i = Some 0 then i\<lparr>imp_rwdd := Some (i32_wrap n)\<rparr> else i
                   | None \<Rightarrow> i)
           | _ \<Rightarrow> i)
      | _ \<Rightarrow> i)"

definition cv_convert_up_to_26 :: "ortb_codec \<Rightarrow> bid_request \<Rightarrow> bid_request" where
  "cv_convert_up_to_26 oc req =
     req\<lparr>req_source := map_option (cv_source_up oc) (req_source req), req_regs := map_option cv_us_privacy_up (req_regs req),
         req_user := map_option (cv_eids_up oc) (req_user req), req_imp := map cv_rewarded_up (req_imp req)\<rparr>"

section \<open>Negotiation\<close>

definition bidder_supports_26 :: "string option \<Rightarrow> bool" where
  "bidder_supports_26 v = (v = Some ''2.6'')"

definition convert_for_bidder :: "ortb_codec \<Rightarrow> bid_request \<Rightarrow> string option \<Rightarrow> bid_request" where
  "convert_for_bidder oc req v = (if bidder_supports_26 v then req else cv_convert_down_to_25 oc req)"

section \<open>Requests without 2.6 fields\<close>

definition no_keys :: "string list \<Rightarrow> json option \<Rightarrow> bool" where
  "no_keys keys ext = (case ext of Some (JObj m) \<Rightarrow> list_all (\<lambda>k. map_of m k = None) keys | _ \<Rightarrow> True)"

definition legacy_video :: "video \<Rightarrow> bool" where
  "legacy_video v =
     (video_plcmt v = None
      \<and> no_keys [''maxseq'', ''poddur'', ''podid'', ''podseq'', ''slotinpod'', ''mincpmpersec'', ''rqddurs'', ''durfloors'', ''poddedupe''] (video_jext v))"

definition legacy_audio :: "audio \<Rightarrow> bool" where
  "legacy_audio a = no_keys [''poddur'', ''rqddurs'', ''podid'', ''podseq'', ''slotinpod'', ''mincpmpersec'', ''durfloors''] (audio_jext a)"

definition legacy_deal :: "deal \<Rightarrow> bool" where
  "legacy_deal d = no_keys [''guar'', ''mincpmpersec'', ''durfloors''] (deal_jext d)"

definition legacy_imp :: "imp \<Rightarrow> bool" where
  "legacy_imp i =
     (imp_rwdd i = None \<and> imp_ssai i = None \<and> no_keys [''qty'', ''dt'', ''refresh''] (imp_jext i) \<and> pred_option legacy_video (imp_video i)
      \<and> pred_option legacy_audio (imp_audio i) \<and> pred_option (\<lambda>p. list_all legacy_deal (pmp_deals p)) (imp_pmp i))"

definition legacy_publisher :: "publisher \<Rightarrow> bool" where
  "legacy_publisher p = no_keys [''cattax''] (publisher_jext p)"

definition legacy_content :: "content \<Rightarrow> bool" where
  "legacy_content c =
     (no_keys [''cattax'', ''kwarray'', ''langb'', ''network'', ''channel''] (content_jext c)
      \<and> pred_option (\<lambda>p. no_keys [''cattax''] (producer_jext p)) (content_producer c))"

definition legacy_site :: "site \<Rightarrow> bool" where
  "legacy_site s =
     (no_keys [''cattax'', ''kwarray'', ''inventorypartnerdomain''] (site_jext s)
      \<and> pred_option legacy_content (site_content s) \<and> pred_option legacy_publisher (site_publisher s))"

definition legacy_app :: "app \<Rightarrow> bool" where
  "legacy_app a =
     (no_keys [''cattax'', ''kwarray'', ''inventorypartnerdomain''] (app_jext a)
      \<and> pred_option legacy_content (app_content a) \<and> pred_option legacy_publisher (app_publisher a))"

definition legacy_request :: "bid_request \<Rightarrow> bool" where
  "legacy_request r =
     (pred_option (\<lambda>d. no_keys [''sua'', ''langb''] (device_jext d)) (req_device r) \<and> pred_option legacy_site (req_site r) \<and> pred_option legacy_app (req_app r)
      \<and> pred_option (\<lambda>u. user_eids u = None \<and> no_keys [''kwarray''] (user_jext u)) (req_user r)
      \<and> pred_option (\<lambda>g. regs_us_privacy g = None \<and> regs_gpp g = None \<and> regs_gpp_sid g = None) (req_regs r)
      \<and> pred_option (\<lambda>s. source_schain s = None) (req_source r) \<and> list_all legacy_imp (req_imp r)
      \<and> no_keys [''cattax'', ''wlangb'', ''acat'', ''dooh''] (req_jext r))"

lemmas legacy_defs =
  legacy_video_def legacy_audio_def legacy_deal_def legacy_imp_def legacy_publisher_def legacy_content_def legacy_site_def legacy_app_def

lemmas clear_defs =
  clear_producer_def clear_publisher_def clear_content_def clear_site_def clear_app_def clear_video_def clear_audio_def clear_imp_def clear_deal_def

lemma fold_remove_get: "map_of (fold bt_remove ks m) k = (if k \<in> set ks then None else map_of m k)"
  by (induction ks arbitrary: m) (auto simp: bt_remove_get)

lemma no_keys_remove [simp]: "no_keys ks (remove_ext_keys ks' ext) = (no_keys (filter (\<lambda>k. k \<notin> set ks') ks) ext)"
  by (auto simp: no_keys_def remove_ext_keys_def fold_remove_get list_all_iff split: option.split json.split)

lemma no_keys_Nil [simp]: "no_keys [] ext"
  by (simp add: no_keys_def split: option.split json.split)

lemma remove_absent_keys: "no_keys ks ext \<Longrightarrow> remove_ext_keys ks ext = ext"
proof -
  have "list_all (\<lambda>k. map_of m k = None) ks \<Longrightarrow> fold bt_remove ks m = m" for m :: "(string \<times> json) list"
    by (induction ks) (simp_all add: remove_absent)
  then show "no_keys ks ext \<Longrightarrow> remove_ext_keys ks ext = ext"
    by (auto simp: no_keys_def remove_ext_keys_def split: option.splits json.splits)
qed

lemma no_keys_sub: "no_keys ks ext \<Longrightarrow> set ks' \<subseteq> set ks \<Longrightarrow> no_keys ks' ext"
  by (auto simp: no_keys_def list_all_iff split: option.splits json.splits)

lemma pred_option_all: "(\<And>y. P (f y)) \<Longrightarrow> pred_option P (map_option f x)"
  by (cases x) simp_all

lemma map_option_same:
  assumes "\<And>y. P y \<Longrightarrow> f y = y"
  shows "pred_option P x \<Longrightarrow> map_option f x = x"
  using assms by (cases x) simp_all

lemma map_same:
  assumes "\<And>y. P y \<Longrightarrow> f y = y"
  shows "list_all P xs \<Longrightarrow> map f xs = xs"
  using assms by (simp add: list_all_iff map_idI)

text \<open>Each part is cleared, and a cleared part is left alone.\<close>

lemma clear_leaf_legacy:
  "legacy_publisher (clear_publisher p)" "no_keys [''cattax''] (producer_jext (clear_producer q))"
  "legacy_video (clear_video v)" "legacy_audio (clear_audio au)" "legacy_deal (clear_deal d)"
  by (simp_all add: legacy_defs clear_defs)

lemma clear_leaf_same:
  "legacy_publisher p \<Longrightarrow> clear_publisher p = p" "no_keys [''cattax''] (producer_jext q) \<Longrightarrow> clear_producer q = q"
  "legacy_video v \<Longrightarrow> clear_video v = v" "legacy_audio au \<Longrightarrow> clear_audio au = au" "legacy_deal d \<Longrightarrow> clear_deal d = d"
  by (simp_all add: legacy_defs clear_defs remove_absent_keys)

lemma clear_content_legacy: "legacy_content (clear_content c)"
  by (simp add: legacy_content_def clear_content_def pred_option_all clear_leaf_legacy)

lemma clear_content_same: "legacy_content c \<Longrightarrow> clear_content c = c"
  using map_option_same [of "\<lambda>q. no_keys [''cattax''] (producer_jext q)" clear_producer "content_producer c", OF clear_leaf_same(2)]
  by (simp add: legacy_content_def clear_content_def remove_absent_keys)

lemma clear_place_legacy: "legacy_site (clear_site s)" "legacy_app (clear_app a)"
  by (simp_all add: legacy_site_def clear_site_def legacy_app_def clear_app_def pred_option_all clear_leaf_legacy clear_content_legacy)

lemma clear_place_same: "legacy_site s \<Longrightarrow> clear_site s = s" "legacy_app a \<Longrightarrow> clear_app a = a"
  using map_option_same [of legacy_publisher clear_publisher "site_publisher s", OF clear_leaf_same(1)] map_option_same [of legacy_content clear_content "site_content s", OF clear_content_same]
    map_option_same [of legacy_publisher clear_publisher "app_publisher a", OF clear_leaf_same(1)] map_option_same [of legacy_content clear_content "app_content a", OF clear_content_same]
  by (simp_all add: legacy_site_def clear_site_def legacy_app_def clear_app_def remove_absent_keys)

text \<open>What the four clearing functions do to one impression.\<close>

definition clear_imp_fully :: "imp \<Rightarrow> imp" where
  "clear_imp_fully i =
     (clear_imp i)\<lparr>imp_pmp := map_option (\<lambda>p. p\<lparr>pmp_deals := map clear_deal (pmp_deals p)\<rparr>) (imp_pmp i)\<rparr>"

lemma remove_twice: "set ks' \<subseteq> set ks \<Longrightarrow> remove_ext_keys ks' (remove_ext_keys ks ext) = remove_ext_keys ks ext"
proof (rule remove_absent_keys)
  assume "set ks' \<subseteq> set ks"
  then have "filter (\<lambda>k. k \<notin> set ks) ks' = []" by (auto simp: filter_empty_conv)
  then show "no_keys ks' (remove_ext_keys ks ext)" by simp
qed

lemma clear_video_twice: "clear_video v\<lparr>video_plcmt := None\<rparr> = clear_video v"
  "(clear_video v)\<lparr>video_jext := remove_ext_keys [''durfloors''] (video_jext (clear_video v))\<rparr> = clear_video v"
  by (simp_all add: clear_video_def remove_twice)

lemma clear_audio_twice: "(clear_audio a)\<lparr>audio_jext := remove_ext_keys [''durfloors''] (audio_jext (clear_audio a))\<rparr> = clear_audio a"
  by (simp add: clear_audio_def remove_twice)

lemma clears_imp:
  "req_imp (clear_202309_fields (clear_202303_fields (clear_202211_fields (cv_clear_26_fields r)))) = map clear_imp_fully (req_imp r)"
  by (auto simp: clear_202309_fields_def clear_202303_fields_def clear_202211_fields_def cv_clear_26_fields_def clear_imp_fully_def clear_imp_def
      option.map_comp comp_def clear_video_twice clear_audio_twice remove_twice)

lemma clear_imp_legacy: "legacy_imp (clear_imp_fully i)"
  by (simp add: legacy_imp_def clear_imp_fully_def clear_imp_def pred_option_all clear_leaf_legacy list_all_iff)

lemma clear_deals_same:
  "pred_option (\<lambda>p. list_all legacy_deal (pmp_deals p)) x \<Longrightarrow> map_option (\<lambda>p. p\<lparr>pmp_deals := map clear_deal (pmp_deals p)\<rparr>) x = x"
  using map_same [of legacy_deal clear_deal, OF clear_leaf_same(5)] by (cases x) simp_all

lemma clear_imp_same:
  assumes "legacy_imp i"
  shows "clear_imp_fully i = i"
  using assms map_option_same [of legacy_video clear_video "imp_video i", OF clear_leaf_same(3)]
    map_option_same [of legacy_audio clear_audio "imp_audio i", OF clear_leaf_same(4)]
  by (intro imp.equality) (simp_all add: legacy_imp_def clear_imp_fully_def clear_imp_def remove_absent_keys clear_deals_same)

text \<open>The whole request, part by part.\<close>

lemmas cv_down_defs =
  cv_convert_down_to_25_def clear_202309_fields_def clear_202303_fields_def clear_202211_fields_def cv_clear_26_fields_def cv_moves_down_def

lemma down_parts:
  fixes oc r
  defines "d \<equiv> cv_convert_down_to_25 oc r"
  shows "req_device d = map_option (\<lambda>d. d\<lparr>device_jext := remove_ext_keys [''sua'', ''langb''] (device_jext d)\<rparr>) (req_device r)"
    "req_site d = map_option clear_site (req_site r)" "req_app d = map_option clear_app (req_app r)"
    "req_user d = map_option (\<lambda>u. (cv_eids_down oc u)\<lparr>user_jext := remove_ext_keys [''kwarray''] (user_jext (cv_eids_down oc u))\<rparr>) (req_user r)"
    "req_regs d = map_option (\<lambda>g. (cv_us_privacy_down g)\<lparr>regs_us_privacy := None, regs_gpp := None, regs_gpp_sid := None\<rparr>) (req_regs r)"
    "req_source d = map_option (\<lambda>s. (cv_source_down oc s)\<lparr>source_schain := None\<rparr>) (req_source r)"
    "req_jext d = remove_ext_keys [''acat''] (remove_ext_keys [''dooh''] (remove_ext_keys [''cattax'', ''wlangb'', ''acat''] (req_jext r)))"
  by (simp_all add: d_def cv_down_defs option.map_comp comp_def)

lemma down_imps: "req_imp (cv_convert_down_to_25 oc r) = map (\<lambda>i. clear_imp_fully (cv_rewarded_down i)) (req_imp r)"
  using clears_imp [of "cv_moves_down oc r"] by (simp add: cv_convert_down_to_25_def cv_moves_down_def)

lemma down_others:
  "req_id (cv_convert_down_to_25 oc r) = req_id r" "req_dooh (cv_convert_down_to_25 oc r) = req_dooh r"
  "req_cattax (cv_convert_down_to_25 oc r) = req_cattax r" "req_acat (cv_convert_down_to_25 oc r) = req_acat r"
  "req_wlangb (cv_convert_down_to_25 oc r) = req_wlangb r"
  by (simp_all add: cv_down_defs)

lemma eids_down_none: "user_eids (cv_eids_down oc u) = None"
  by (simp add: cv_eids_down_def Let_def split: option.split)

lemma down_legacy: "legacy_request (cv_convert_down_to_25 oc r)"
  by (simp add: legacy_request_def down_parts down_imps pred_option_all clear_place_legacy list_all_iff clear_imp_legacy eids_down_none)

lemma moves_same:
  "source_schain s = None \<Longrightarrow> (cv_source_down oc s)\<lparr>source_schain := None\<rparr> = s"
  "regs_us_privacy g = None \<and> regs_gpp g = None \<and> regs_gpp_sid g = None
     \<Longrightarrow> (cv_us_privacy_down g)\<lparr>regs_us_privacy := None, regs_gpp := None, regs_gpp_sid := None\<rparr> = g"
  "user_eids u = None \<and> no_keys [''kwarray''] (user_jext u)
     \<Longrightarrow> (cv_eids_down oc u)\<lparr>user_jext := remove_ext_keys [''kwarray''] (user_jext (cv_eids_down oc u))\<rparr> = u"
  "legacy_imp i \<Longrightarrow> clear_imp_fully (cv_rewarded_down i) = i"
proof -
  show "source_schain s = None \<Longrightarrow> (cv_source_down oc s)\<lparr>source_schain := None\<rparr> = s"
    by (cases s) (simp add: cv_source_down_def)
  show "regs_us_privacy g = None \<and> regs_gpp g = None \<and> regs_gpp_sid g = None
     \<Longrightarrow> (cv_us_privacy_down g)\<lparr>regs_us_privacy := None, regs_gpp := None, regs_gpp_sid := None\<rparr> = g"
    by (cases g) (simp add: cv_us_privacy_down_def)
  show "user_eids u = None \<and> no_keys [''kwarray''] (user_jext u)
     \<Longrightarrow> (cv_eids_down oc u)\<lparr>user_jext := remove_ext_keys [''kwarray''] (user_jext (cv_eids_down oc u))\<rparr> = u"
    by (cases u) (simp add: cv_eids_down_def remove_absent_keys)
  assume i: "legacy_imp i"
  then have "cv_rewarded_down i = i"
    by (cases i) (simp add: cv_rewarded_down_def legacy_imp_def)
  then show "clear_imp_fully (cv_rewarded_down i) = i"
    using clear_imp_same [OF i] by simp
qed

lemma legacy_same:
  assumes "legacy_request r"
  shows "cv_convert_down_to_25 oc r = r"
proof (rule bid_request.equality)
  note r = assms [unfolded legacy_request_def]
  show "req_device (cv_convert_down_to_25 oc r) = req_device r"
    unfolding down_parts using r by (cases "req_device r") (simp_all add: remove_absent_keys)
  show "req_site (cv_convert_down_to_25 oc r) = req_site r" "req_app (cv_convert_down_to_25 oc r) = req_app r"
    unfolding down_parts using r by (cases "req_site r"; cases "req_app r"; simp add: clear_place_same)+
  show "req_user (cv_convert_down_to_25 oc r) = req_user r"
    unfolding down_parts using r by (cases "req_user r") (simp_all add: moves_same)
  show "req_regs (cv_convert_down_to_25 oc r) = req_regs r"
    unfolding down_parts using r by (cases "req_regs r") (simp_all add: moves_same)
  show "req_source (cv_convert_down_to_25 oc r) = req_source r"
    unfolding down_parts using r by (cases "req_source r") (simp_all add: moves_same)
  show "req_imp (cv_convert_down_to_25 oc r) = req_imp r"
    unfolding down_imps using r by (auto simp: list_all_iff moves_same intro!: map_idI)
  show "req_jext (cv_convert_down_to_25 oc r) = req_jext r"
    unfolding down_parts using r
    by (simp add: remove_absent_keys no_keys_sub [of "[''cattax'', ''wlangb'', ''acat'', ''dooh'']"])
qed (simp_all add: cv_down_defs)

lemma schain_moved:
  assumes "source_schain s = Some sc" "oc_en_schain oc sc = Some j" "case source_jext s of None \<Rightarrow> True | Some (JObj m) \<Rightarrow> map_of m ''schain'' = None | _ \<Rightarrow> False"
  shows "jpath (source_jext (cv_source_down oc s)) [''schain''] = Some j"
  using assms by (auto simp: cv_source_down_def put_new_def unwrap_or_def map_of_bt_insert split: option.splits json.splits)

section \<open>Property\<close>

text \<open>Property C21.  Requests for bidders of OpenRTB 2.5.  A bidder that declares 2.6 gets the request unchanged.  For every other bidder no 2.6
  field is left at the places the converter clears, a request without such fields is unchanged, so that converting twice is converting once, and the
  supply chain is found in the extension of the source.  The GDPR flag and the consent string stay where OpenRTB 2.6 has them, and so do
  the fields for displays and categories.\<close>

theorem conversion_clean:
  "convert_for_bidder oc r (Some ''2.6'') = r
   \<and> (v \<noteq> Some ''2.6'' \<longrightarrow>
        legacy_request (convert_for_bidder oc r v)
        \<and> (legacy_request r \<longrightarrow> convert_for_bidder oc r v = r)
        \<and> convert_for_bidder oc (convert_for_bidder oc r v) v = convert_for_bidder oc r v
        \<and> (\<forall>s sc j. req_source r = Some s \<and> source_schain s = Some sc \<and> source_jext s = None \<and> oc_en_schain oc sc = Some j
             \<longrightarrow> jpath (Option.bind (req_source (convert_for_bidder oc r v)) source_jext) [''schain''] = Some j)
        \<and> map_option regs_gdpr (req_regs (convert_for_bidder oc r v)) = map_option regs_gdpr (req_regs r)
        \<and> map_option user_consent (req_user (convert_for_bidder oc r v)) = map_option user_consent (req_user r)
        \<and> req_dooh (convert_for_bidder oc r v) = req_dooh r \<and> req_cattax (convert_for_bidder oc r v) = req_cattax r)"
proof -
  have "regs_gdpr (cv_us_privacy_down g) = regs_gdpr g" for g
    by (simp add: cv_us_privacy_down_def Let_def split: option.split)
  moreover have "user_consent (cv_eids_down oc u) = user_consent u" for u
    by (simp add: cv_eids_down_def Let_def split: option.split)
  ultimately show ?thesis
    by (auto simp: convert_for_bidder_def bidder_supports_26_def down_legacy legacy_same down_others down_parts option.map_comp comp_def schain_moved [simplified])
qed

theorem conversion_clean_witness:
  "Some ''2.5'' \<noteq> Some ''2.6''
   \<and> legacy_request (convert_for_bidder demo_ortb_codec (default_bid_request\<lparr>req_regs := Some (default_regs\<lparr>regs_gdpr := Some 1\<rparr>)\<rparr>) (Some ''2.5''))
   \<and> map_option regs_gdpr (req_regs (convert_for_bidder demo_ortb_codec (default_bid_request\<lparr>req_regs := Some (default_regs\<lparr>regs_gdpr := Some 1\<rparr>)\<rparr>) (Some ''2.5'')))
     = Some (Some 1)"
  using conversion_clean [of demo_ortb_codec "default_bid_request\<lparr>req_regs := Some (default_regs\<lparr>regs_gdpr := Some 1\<rparr>)\<rparr>" "Some ''2.5''"] by simp

end
