(* ===== verification/StoredResp.thy ===== *)
theory StoredResp
  imports Fanout
begin

text \<open>
  Stored responses, \<^verbatim>\<open>rust/crates/exchange/src/stored_responses.rs\<close>: which stored auction and bid responses the impressions of a request name,
  the maps from impressions and bidders to the responses that were fetched, and the reorganisation of these maps by bidder.
\<close>

section \<open>Data\<close>

record stored_bid_ref =
  sbr_id :: string
  sbr_bidder :: string
  sbr_replaceimpid :: "bool option"

text \<open>Of the extension of an impression the members that are read.\<close>

record stored_refs =
  sr_auction :: "string option"
  sr_bids :: "stored_bid_ref list option"

type_synonym 'v by_imp_bidder = "(string \<times> (string \<times> 'v) list) list"

record stored_ids =
  si_all :: "string list"
  si_bids :: "string by_imp_bidder"
  si_auction :: "(string \<times> string) list"
  si_replace :: "bool by_imp_bidder"

section \<open>From impressions to bidders\<close>

definition flip_entry :: "string \<Rightarrow> string \<times> 'v \<Rightarrow> 'v by_imp_bidder \<Rightarrow> 'v by_imp_bidder" where
  "flip_entry i = (\<lambda>(b, v) m. hm_insert b (hm_insert i v (get_or [] m b)) m)"

definition flip_imp :: "(string list \<Rightarrow> string list) \<Rightarrow> string \<times> (string \<times> 'v) list \<Rightarrow> 'v by_imp_bidder \<Rightarrow> 'v by_imp_bidder" where
  "flip_imp ord = (\<lambda>(i, data). fold (flip_entry i) (hm_iter ord data))"

definition build_stored_resp :: "(string list \<Rightarrow> string list) \<Rightarrow> json by_imp_bidder \<Rightarrow> json by_imp_bidder" where
  "build_stored_resp ord m = fold (flip_imp ord) (hm_iter ord m) []"

definition init_stored_bid_responses :: "(string list \<Rightarrow> string list) \<Rightarrow> json by_imp_bidder \<Rightarrow> json by_imp_bidder" where
  "init_stored_bid_responses ord m = build_stored_resp ord m"

definition flip_map :: "(string list \<Rightarrow> string list) \<Rightarrow> bool by_imp_bidder \<Rightarrow> bool by_imp_bidder" where
  "flip_map ord m = fold (flip_imp ord) (hm_iter ord m) []"

section \<open>The identifiers a request names\<close>

definition imp_refs :: "(json \<Rightarrow> stored_refs option) \<Rightarrow> imp \<Rightarrow> stored_refs option" where
  "imp_refs de i = Option.bind (jpath (imp_jext i) [''prebid'']) de"

definition auction_id_missing :: "nat \<Rightarrow> string" where
  "auction_id_missing k =
     ''request.imp['' @ show_nat k @ ''] has ext.prebid.storedauctionresponse specified, but '' @ [CHR 34] @ ''id'' @ [CHR 34] @ '' field is missing''"

definition bid_fields_missing :: "nat \<Rightarrow> string" where
  "bid_fields_missing k =
     ''request.imp['' @ show_nat k @ ''] has ext.prebid.storedbidresponse specified, but '' @ [CHR 34] @ ''id'' @ [CHR 34] @ '' or/and ''
     @ [CHR 34] @ ''bidder'' @ [CHR 34] @ '' fields are missing''"

definition add_auction_id :: "nat \<Rightarrow> string \<Rightarrow> string option \<Rightarrow> stored_ids \<Rightarrow> (string, stored_ids) res" where
  "add_auction_id k iid a s =
     (case a of
        None \<Rightarrow> Inr s
      | Some x \<Rightarrow>
          if x = [] then Inl (auction_id_missing k)
          else Inr (s\<lparr>si_all := si_all s @ [x], si_auction := hm_insert iid x (si_auction s)\<rparr>))"

text \<open>The loop over the references to bid responses: identifiers of the request, and by bidder identifier and flag.\<close>

fun add_bid_refs ::
  "nat \<Rightarrow> stored_bid_ref list \<Rightarrow> string list \<times> (string \<times> string) list \<times> (string \<times> bool) list
   \<Rightarrow> (string, string list \<times> (string \<times> string) list \<times> (string \<times> bool) list) res" where
  "add_bid_refs k [] acc = Inr acc"
| "add_bid_refs k (r # rs) (ids, by_id, by_flag) =
     (if sbr_id r = [] \<or> sbr_bidder r = [] then Inl (bid_fields_missing k)
      else add_bid_refs k rs
             (ids @ [sbr_id r], hm_insert (sbr_bidder r) (sbr_id r) by_id,
              hm_insert (sbr_bidder r) (unwrap_or True (sbr_replaceimpid r)) by_flag))"

definition add_bid_ids :: "nat \<Rightarrow> string \<Rightarrow> stored_bid_ref list option \<Rightarrow> stored_ids \<Rightarrow> (string, stored_ids) res" where
  "add_bid_ids k iid rs s =
     (case rs of
        None \<Rightarrow> Inr s
      | Some rs \<Rightarrow>
          if rs = [] then Inr s
          else res_bind (add_bid_refs k rs (si_all s, [], []))
                 (\<lambda>(ids, by_id, by_flag).
                    Inr (s\<lparr>si_all := ids, si_bids := hm_insert iid by_id (si_bids s), si_replace := hm_insert iid by_flag (si_replace s)\<rparr>)))"

definition add_imp :: "(json \<Rightarrow> stored_refs option) \<Rightarrow> nat \<Rightarrow> imp \<Rightarrow> stored_ids \<Rightarrow> (string, stored_ids) res" where
  "add_imp de k i s =
     (case imp_refs de i of
        None \<Rightarrow> Inr s
      | Some r \<Rightarrow> res_bind (add_auction_id k (imp_id i) (sr_auction r) s) (add_bid_ids k (imp_id i) (sr_bids r)))"

fun extract_loop :: "(json \<Rightarrow> stored_refs option) \<Rightarrow> nat \<Rightarrow> imp list \<Rightarrow> stored_ids \<Rightarrow> (string, stored_ids) res" where
  "extract_loop de k [] s = Inr s"
| "extract_loop de k (i # is) s = res_bind (add_imp de k i s) (extract_loop de (k + 1) is)"

definition no_ids :: stored_ids where
  "no_ids = \<lparr>si_all = [], si_bids = [], si_auction = [], si_replace = []\<rparr>"

definition extract_stored_responses_ids :: "(json \<Rightarrow> stored_refs option) \<Rightarrow> imp list \<Rightarrow> (string, stored_ids) res" where
  "extract_stored_responses_ids de imps = extract_loop de 0 imps no_ids"

section \<open>The responses\<close>

definition stored_at :: "(string \<times> json) list \<Rightarrow> string \<Rightarrow> json option" where
  "stored_at stored x = (case map_of stored x of Some v \<Rightarrow> if v = JNull then None else Some v | None \<Rightarrow> None)"

definition auction_not_found :: "string \<Rightarrow> string \<Rightarrow> string" where
  "auction_not_found i x =
     ''failed to fetch stored auction response for impId = '' @ i @ '' and storedAuctionResponse id = '' @ x"

definition bid_not_found :: "string \<Rightarrow> string \<Rightarrow> string \<Rightarrow> string" where
  "bid_not_found i b x =
     ''failed to fetch stored bid response for impId = '' @ i @ '', bidder = '' @ b @ '' and storedBidResponse id = '' @ x"

text \<open>One loop of the function: the responses found under their key, and a message for each that is missing.\<close>

definition look_up ::
  "(string \<times> json) list \<Rightarrow> (string \<Rightarrow> string \<Rightarrow> string) \<Rightarrow> string \<times> string \<Rightarrow> (string \<times> json) list \<times> string list \<Rightarrow> (string \<times> json) list \<times> string list" where
  "look_up stored msg = (\<lambda>(k, x) (m, errs).
     case stored_at stored x of Some v \<Rightarrow> (hm_insert k v m, errs) | None \<Rightarrow> (m, errs @ [msg k x]))"

definition look_up_bids ::
  "(string list \<Rightarrow> string list) \<Rightarrow> (string \<times> json) list \<Rightarrow> string \<times> (string \<times> string) list \<Rightarrow> json by_imp_bidder \<times> string list \<Rightarrow> json by_imp_bidder \<times> string list" where
  "look_up_bids ord stored = (\<lambda>(i, ids) (m, errs).
     case fold (look_up stored (bid_not_found i)) (hm_iter ord ids) ([], errs) of (found, errs') \<Rightarrow> (hm_insert i found m, errs'))"

definition build_stored_responses_maps ::
  "(string list \<Rightarrow> string list) \<Rightarrow> (string \<times> json) list \<Rightarrow> string by_imp_bidder \<Rightarrow> (string \<times> string) list
   \<Rightarrow> (string \<times> json) list \<times> json by_imp_bidder \<times> string list" where
  "build_stored_responses_maps ord stored bid_ids auction_ids =
     (case fold (look_up stored auction_not_found) (hm_iter ord auction_ids) ([], []) of
        (auctions, errs) \<Rightarrow>
          (case fold (look_up_bids ord stored) (hm_iter ord bid_ids) ([], errs) of (bids, errs') \<Rightarrow> (auctions, bids, errs')))"

section \<open>Two-level maps\<close>

definition at2 :: "('a \<times> ('b \<times> 'v) list) list \<Rightarrow> 'a \<Rightarrow> 'b \<Rightarrow> 'v option" where
  "at2 m a b = Option.bind (map_of m a) (\<lambda>d. map_of d b)"

definition nested_wf :: "('a \<times> ('b \<times> 'v) list) list \<Rightarrow> bool" where
  "nested_wf m = (hm_wf m \<and> list_all (\<lambda>(_, d). hm_wf d) m)"

lemma at2_Nil [simp]: "at2 [] a b = None"
  by (simp add: at2_def)

lemma nested_wf_Nil [simp]: "nested_wf []"
  by (simp add: nested_wf_def hm_wf_def)

lemma at2_Cons: "at2 ((a', d) # m) a b = (if a = a' then map_of d b else at2 m a b)"
  by (simp add: at2_def)

lemma at2_insert: "at2 (hm_insert a' d m) a b = (if a = a' then map_of d b else at2 m a b)"
  by (simp add: at2_def map_of_hm_insert)

lemma nested_wf_inner: "nested_wf m \<Longrightarrow> map_of m a = Some d \<Longrightarrow> hm_wf d"
  by (auto simp: nested_wf_def list_all_iff dest!: map_of_SomeD)

lemma nested_wf_insert: "nested_wf m \<Longrightarrow> hm_wf d \<Longrightarrow> nested_wf (hm_insert a d m)"
  using hm_insert_subset [of a d m] by (auto simp: nested_wf_def list_all_iff hm_wf_insert)

lemma iter_distinct: "hm_wf m \<Longrightarrow> iter_order ord \<Longrightarrow> distinct (map fst (hm_iter ord m))"
  using mset_eq_imp_distinct_iff by (auto simp: hm_iter_keys iter_order_def hm_wf_def)

lemma iter_get: "hm_wf m \<Longrightarrow> iter_order ord \<Longrightarrow> map_of (hm_iter ord m) = map_of m"
  by (simp add: map_of_hm_iter)

lemma iter_at2: "hm_wf m \<Longrightarrow> iter_order ord \<Longrightarrow> at2 (hm_iter ord m) = at2 m"
  by (simp add: at2_def iter_get fun_eq_iff)

lemma iter_inner:
  assumes "nested_wf m" "iter_order ord"
  shows "list_all (\<lambda>(_, d). hm_wf d) (hm_iter ord m)"
proof -
  have "hm_wf d" if "(a, d) \<in> set (hm_iter ord m)" for a d
    using that assms iter_get [of m ord] iter_distinct [of m ord] nested_wf_inner [OF assms(1), of a d]
    by (simp add: nested_wf_def map_of_eq_Some_iff [of "hm_iter ord m", symmetric])
  then show ?thesis by (auto simp: list_all_iff)
qed

section \<open>Reorganisation by bidder\<close>

lemma flip_entry_get: "at2 (flip_entry i (b, v) m) b' i' = (if b' = b \<and> i' = i then Some v else at2 m b' i')"
  by (simp add: flip_entry_def at2_insert map_of_hm_insert get_or_def at2_def split: option.split)

lemma get_or_wf: "nested_wf m \<Longrightarrow> hm_wf (get_or [] m b)"
  using nested_wf_inner [of m b] by (auto simp: get_or_def hm_wf_def split: option.split)

lemma flip_entry_wf: "nested_wf m \<Longrightarrow> nested_wf (flip_entry i e m)"
  by (cases e) (simp add: flip_entry_def nested_wf_insert hm_wf_insert get_or_wf)

lemma flip_entries_get:
  "distinct (map fst es) \<Longrightarrow> at2 (fold (flip_entry i) es m) b i'
     = (if i' = i \<and> map_of es b \<noteq> None then map_of es b else at2 m b i')"
proof (induction es arbitrary: m)
  case (Cons e es)
  then have "map_of es (fst e) = None" by (simp add: map_of_eq_None_iff)
  with Cons show ?case
    by (cases e) (auto simp: flip_entry_get)
qed simp

lemma flip_entries_wf: "nested_wf m \<Longrightarrow> nested_wf (fold (flip_entry i) es m)"
  by (induction es arbitrary: m) (simp_all add: flip_entry_wf)

lemma flip_imps_get:
  assumes "iter_order ord"
  shows "distinct (map fst L) \<Longrightarrow> list_all (\<lambda>(_, d). hm_wf d) L
    \<Longrightarrow> at2 (fold (flip_imp ord) L m) b i = (if at2 L i b \<noteq> None then at2 L i b else at2 m b i)"
proof (induction L arbitrary: m)
  case (Cons e L)
  obtain i' d where e: "e = (i', d)" by force
  have "at2 L i' b = None" using Cons.prems(1) e by (simp add: at2_def map_of_eq_None_iff [THEN iffD2])
  with Cons e show ?case
    by (auto simp: flip_imp_def flip_entries_get [OF iter_distinct] iter_get assms at2_Cons)
qed simp

lemma flip_imps_wf: "nested_wf m \<Longrightarrow> nested_wf (fold (flip_imp ord) L m)"
  by (induction L arbitrary: m) (auto simp: flip_imp_def flip_entries_wf)

lemma flip_get:
  assumes "nested_wf m" "iter_order ord"
  shows "at2 (fold (flip_imp ord) (hm_iter ord m) []) b i = at2 m i b"
  using assms flip_imps_get [OF assms(2) iter_distinct [OF _ assms(2)] iter_inner [OF assms], of "[]" b i] iter_at2 [of m ord]
  by (auto simp: nested_wf_def)

text \<open>Reorganising twice gives the entries back.\<close>

lemma flip_twice:
  assumes "nested_wf m" "iter_order ord"
  shows "at2 (flip_map ord (flip_map ord m)) = at2 m"
proof -
  have "nested_wf (flip_map ord m)"
    by (simp add: flip_map_def flip_imps_wf)
  then show ?thesis
    using assms by (simp add: flip_map_def flip_get fun_eq_iff)
qed

section \<open>What a request names\<close>

text \<open>The extension of an impression and the fetched responses, without the functions of the code: a null counts as not fetched.\<close>

definition named_refs :: "(json \<Rightarrow> stored_refs option) \<Rightarrow> imp \<Rightarrow> stored_refs option" where
  "named_refs de i = (case imp_jext i of None \<Rightarrow> None | Some e \<Rightarrow> (case jget e ''prebid'' of None \<Rightarrow> None | Some p \<Rightarrow> de p))"

definition fetched :: "(string \<times> json) list \<Rightarrow> string \<Rightarrow> json option" where
  "fetched stored x = (if map_of stored x = Some JNull then None else map_of stored x)"

lemma imp_refs_named: "imp_refs = named_refs"
  by (auto simp: fun_eq_iff imp_refs_def named_refs_def split: option.split)

lemma stored_at_fetched: "stored_at = fetched"
  by (auto simp: fun_eq_iff stored_at_def fetched_def split: option.split)

definition complete :: "(json \<Rightarrow> stored_refs option) \<Rightarrow> imp \<Rightarrow> bool" where
  "complete de i =
     (case named_refs de i of
        None \<Rightarrow> True
      | Some r \<Rightarrow> sr_auction r \<noteq> Some [] \<and> list_all (\<lambda>x. sbr_id x \<noteq> [] \<and> sbr_bidder x \<noteq> []) (unwrap_or [] (sr_bids r)))"

definition imp_auction :: "(json \<Rightarrow> stored_refs option) \<Rightarrow> imp \<Rightarrow> string option" where
  "imp_auction de i = Option.bind (named_refs de i) sr_auction"

definition bids_of_imp :: "(json \<Rightarrow> stored_refs option) \<Rightarrow> imp \<Rightarrow> stored_bid_ref list" where
  "bids_of_imp de i = (case named_refs de i of None \<Rightarrow> [] | Some r \<Rightarrow> unwrap_or [] (sr_bids r))"

text \<open>The last impression with an identifier counts, and of its references to a bidder the last one.\<close>

definition auction_ref :: "(json \<Rightarrow> stored_refs option) \<Rightarrow> imp list \<Rightarrow> string \<Rightarrow> string option" where
  "auction_ref de imps i = Option.bind (find (\<lambda>p. imp_id p = i \<and> imp_auction de p \<noteq> None) (rev imps)) (imp_auction de)"

definition bid_ref :: "(json \<Rightarrow> stored_refs option) \<Rightarrow> imp list \<Rightarrow> string \<Rightarrow> string \<Rightarrow> stored_bid_ref option" where
  "bid_ref de imps i b =
     Option.bind (find (\<lambda>p. imp_id p = i \<and> bids_of_imp de p \<noteq> []) (rev imps)) (\<lambda>p. find (\<lambda>r. sbr_bidder r = b) (rev (bids_of_imp de p)))"

definition refs_map :: "(stored_bid_ref \<Rightarrow> 'v) \<Rightarrow> stored_bid_ref list \<Rightarrow> (string \<times> 'v) list \<Rightarrow> (string \<times> 'v) list" where
  "refs_map f rs m = fold (\<lambda>r. hm_insert (sbr_bidder r) (f r)) rs m"

lemma refs_map_simps: "refs_map f [] m = m" "refs_map f (r # rs) m = refs_map f rs (hm_insert (sbr_bidder r) (f r) m)"
  by (simp_all add: refs_map_def)

lemma add_bid_refs_eq:
  "add_bid_refs k rs (ids, by_id, by_flag) =
     (if list_all (\<lambda>x. sbr_id x \<noteq> [] \<and> sbr_bidder x \<noteq> []) rs
      then Inr (ids @ map sbr_id rs, refs_map sbr_id rs by_id, refs_map (\<lambda>r. unwrap_or True (sbr_replaceimpid r)) rs by_flag)
      else Inl (bid_fields_missing k))"
  by (induction rs arbitrary: ids by_id by_flag) (simp_all add: refs_map_simps)

lemma refs_map_get: "map_of (refs_map f rs m) b = (case find (\<lambda>r. sbr_bidder r = b) (rev rs) of Some r \<Rightarrow> Some (f r) | None \<Rightarrow> map_of m b)"
proof (induction rs arbitrary: m)
  case (Cons r rs)
  have "find P (xs @ [y]) = (case find P xs of Some x \<Rightarrow> Some x | None \<Rightarrow> if P y then Some y else None)" for P :: "stored_bid_ref \<Rightarrow> bool" and xs y
    by (induction xs) simp_all
  with Cons show ?case by (auto simp: refs_map_simps map_of_hm_insert split: option.split)
qed (simp add: refs_map_simps)

lemma refs_map_wf: "hm_wf m \<Longrightarrow> hm_wf (refs_map f rs m)"
  by (induction rs arbitrary: m) (simp_all add: refs_map_simps hm_wf_insert)

definition name_imp :: "(json \<Rightarrow> stored_refs option) \<Rightarrow> imp \<Rightarrow> stored_ids \<Rightarrow> stored_ids" where
  "name_imp de i s =
     (let s = (case imp_auction de i of None \<Rightarrow> s | Some x \<Rightarrow> s\<lparr>si_all := si_all s @ [x], si_auction := hm_insert (imp_id i) x (si_auction s)\<rparr>);
          rs = bids_of_imp de i
      in if rs = [] then s
         else s\<lparr>si_all := si_all s @ map sbr_id rs, si_bids := hm_insert (imp_id i) (refs_map sbr_id rs []) (si_bids s),
                si_replace := hm_insert (imp_id i) (refs_map (\<lambda>r. unwrap_or True (sbr_replaceimpid r)) rs []) (si_replace s)\<rparr>)"

lemma add_imp_complete: "complete de i \<Longrightarrow> add_imp de k i s = Inr (name_imp de i s)"
  by (auto simp: add_imp_def imp_refs_named complete_def name_imp_def imp_auction_def bids_of_imp_def add_auction_id_def add_bid_ids_def add_bid_refs_eq unwrap_or_def
      Let_def split: option.splits if_splits)

lemma add_imp_incomplete:
  "\<not> complete de i \<Longrightarrow> add_imp de k i s = Inl (if imp_auction de i = Some [] then auction_id_missing k else bid_fields_missing k)"
  by (auto simp: add_imp_def imp_refs_named imp_auction_def complete_def add_auction_id_def add_bid_ids_def add_bid_refs_eq unwrap_or_def split: option.splits if_splits)

lemma extract_loop_complete: "list_all (complete de) is \<Longrightarrow> extract_loop de k is s = Inr (fold (name_imp de) is s)"
  by (induction "is" arbitrary: k s) (simp_all add: add_imp_complete)

lemma extract_loop_incomplete:
  "\<not> list_all (complete de) is \<Longrightarrow>
     \<exists>n < length is. list_all (complete de) (take n is) \<and> \<not> complete de (is ! n)
       \<and> extract_loop de k is s = Inl (if imp_auction de (is ! n) = Some [] then auction_id_missing (k + n) else bid_fields_missing (k + n))"
proof (induction "is" arbitrary: k s)
  case (Cons i "is")
  show ?case
  proof (cases "complete de i")
    case True
    with Cons obtain n where "n < length is \<and> list_all (complete de) (take n is) \<and> \<not> complete de (is ! n)
       \<and> extract_loop de (k + 1) is (name_imp de i s) = Inl (if imp_auction de (is ! n) = Some [] then auction_id_missing (k + 1 + n) else bid_fields_missing (k + 1 + n))"
      by (metis list.pred_inject(2))
    with True show ?thesis by (intro exI [of _ "Suc n"]) (simp add: add_imp_complete)
  next
    case False
    then show ?thesis using add_imp_incomplete [of de i k s] by (intro exI [of _ 0]) auto
  qed
qed simp

lemma find_snoc: "find P (xs @ [y]) = (case find P xs of Some x \<Rightarrow> Some x | None \<Rightarrow> if P y then Some y else None)"
  by (induction xs) simp_all

lemma name_imp_parts:
  "map_of (si_auction (name_imp de p s)) i = (if imp_id p = i \<and> imp_auction de p \<noteq> None then imp_auction de p else map_of (si_auction s) i)"
  "at2 (si_bids (name_imp de p s)) i b
     = (if imp_id p = i \<and> bids_of_imp de p \<noteq> [] then map_option sbr_id (find (\<lambda>r. sbr_bidder r = b) (rev (bids_of_imp de p))) else at2 (si_bids s) i b)"
  "at2 (si_replace (name_imp de p s)) i b
     = (if imp_id p = i \<and> bids_of_imp de p \<noteq> []
        then map_option (\<lambda>r. unwrap_or True (sbr_replaceimpid r)) (find (\<lambda>r. sbr_bidder r = b) (rev (bids_of_imp de p)))
        else at2 (si_replace s) i b)"
  "set (si_all (name_imp de p s)) = set (si_all s) \<union> set_option (imp_auction de p) \<union> sbr_id ` set (bids_of_imp de p)"
  by (auto simp: name_imp_def Let_def map_of_hm_insert at2_insert refs_map_get split: option.splits)

lemma name_imp_wf:
  "hm_wf (si_auction s) \<Longrightarrow> hm_wf (si_auction (name_imp de p s))"
  "nested_wf (si_bids s) \<Longrightarrow> nested_wf (si_bids (name_imp de p s))"
  "nested_wf (si_replace s) \<Longrightarrow> nested_wf (si_replace (name_imp de p s))"
  by (simp_all add: name_imp_def Let_def hm_wf_insert nested_wf_insert refs_map_wf hm_wf_def [of "[]"] split: option.split)

lemma name_imps_auction:
  "map_of (si_auction (fold (name_imp de) imps s)) i
     = (case find (\<lambda>p. imp_id p = i \<and> imp_auction de p \<noteq> None) (rev imps) of Some p \<Rightarrow> imp_auction de p | None \<Rightarrow> map_of (si_auction s) i)"
  by (induction imps arbitrary: s) (auto simp: name_imp_parts find_snoc split: option.split)

lemma name_imps_bids:
  "at2 (si_bids (fold (name_imp de) imps s)) i b
     = (case find (\<lambda>p. imp_id p = i \<and> bids_of_imp de p \<noteq> []) (rev imps) of
          Some p \<Rightarrow> map_option sbr_id (find (\<lambda>r. sbr_bidder r = b) (rev (bids_of_imp de p))) | None \<Rightarrow> at2 (si_bids s) i b)"
  by (induction imps arbitrary: s) (simp_all add: name_imp_parts find_snoc split: option.split)

lemma name_imps_replace:
  "at2 (si_replace (fold (name_imp de) imps s)) i b
     = (case find (\<lambda>p. imp_id p = i \<and> bids_of_imp de p \<noteq> []) (rev imps) of
          Some p \<Rightarrow> map_option (\<lambda>r. unwrap_or True (sbr_replaceimpid r)) (find (\<lambda>r. sbr_bidder r = b) (rev (bids_of_imp de p)))
        | None \<Rightarrow> at2 (si_replace s) i b)"
  by (induction imps arbitrary: s) (simp_all add: name_imp_parts find_snoc split: option.split)

lemma name_imps_all:
  "set (si_all (fold (name_imp de) imps s)) = set (si_all s) \<union> (\<Union>p \<in> set imps. set_option (imp_auction de p) \<union> sbr_id ` set (bids_of_imp de p))"
  by (induction imps arbitrary: s) (auto simp: name_imp_parts)

lemma name_imps_wf:
  "hm_wf (si_auction s) \<Longrightarrow> hm_wf (si_auction (fold (name_imp de) imps s))"
  "nested_wf (si_bids s) \<Longrightarrow> nested_wf (si_bids (fold (name_imp de) imps s))"
  "nested_wf (si_replace s) \<Longrightarrow> nested_wf (si_replace (fold (name_imp de) imps s))"
  by (induction imps arbitrary: s) (simp_all add: name_imp_wf)

lemmas extracted = name_imps_auction [of _ _ no_ids] name_imps_bids [of _ _ no_ids] name_imps_replace [of _ _ no_ids] name_imps_all [of _ _ no_ids]

section \<open>What is found\<close>

lemma look_up_fold:
  assumes "distinct (map fst es)" "fold (look_up stored msg) es (m, errs) = (m', errs')"
  shows "map_of m' k = (case Option.bind (map_of es k) (stored_at stored) of Some v \<Rightarrow> Some v | None \<Rightarrow> map_of m k)"
    and "errs' = errs @ map (\<lambda>(k, x). msg k x) (filter (\<lambda>(k, x). stored_at stored x = None) es)"
    and "hm_wf m \<Longrightarrow> hm_wf m'"
proof -
  have "map_of m' k = (case Option.bind (map_of es k) (stored_at stored) of Some v \<Rightarrow> Some v | None \<Rightarrow> map_of m k)
    \<and> errs' = errs @ map (\<lambda>(k, x). msg k x) (filter (\<lambda>(k, x). stored_at stored x = None) es) \<and> (hm_wf m \<longrightarrow> hm_wf m')"
    using assms
  proof (induction es arbitrary: m errs)
    case (Cons e es)
    obtain k' x where e: "e = (k', x)" by force
    have new: "map_of es k' = None" using Cons.prems(1) e by (simp add: map_of_eq_None_iff)
    show ?case
    proof (cases "stored_at stored x")
      case None
      with Cons.prems Cons.IH [of m "errs @ [msg k' x]"] e new show ?thesis
        by (auto simp: look_up_def)
    next
      case (Some v)
      with Cons.prems Cons.IH [of "hm_insert k' v m" errs] e new show ?thesis
        by (auto simp: look_up_def map_of_hm_insert hm_wf_insert split: option.split)
    qed
  qed simp
  then show "map_of m' k = (case Option.bind (map_of es k) (stored_at stored) of Some v \<Rightarrow> Some v | None \<Rightarrow> map_of m k)"
    and "errs' = errs @ map (\<lambda>(k, x). msg k x) (filter (\<lambda>(k, x). stored_at stored x = None) es)" and "hm_wf m \<Longrightarrow> hm_wf m'"
    by auto
qed

definition missing_bids :: "(string list \<Rightarrow> string list) \<Rightarrow> (string \<times> json) list \<Rightarrow> string \<times> (string \<times> string) list \<Rightarrow> string list" where
  "missing_bids ord stored = (\<lambda>(i, ids). map (\<lambda>(b, x). bid_not_found i b x) (filter (\<lambda>(b, x). stored_at stored x = None) (hm_iter ord ids)))"

lemma look_up_bids_fold:
  assumes "iter_order ord"
  shows "distinct (map fst L) \<Longrightarrow> list_all (\<lambda>(_, d). hm_wf d) L \<Longrightarrow> nested_wf m \<Longrightarrow> fold (look_up_bids ord stored) L (m, errs) = (m', errs')
    \<Longrightarrow> at2 m' i b = (if map_of L i = None then at2 m i b else Option.bind (at2 L i b) (stored_at stored))
      \<and> errs' = errs @ concat (map (missing_bids ord stored) L) \<and> nested_wf m'"
proof (induction L arbitrary: m errs)
  case (Cons e L)
  obtain i' d where e: "e = (i', d)" by force
  have new: "map_of L i' = None" using Cons.prems(1) e by (simp add: map_of_eq_None_iff)
  have d: "hm_wf d" using Cons.prems(2) e by simp
  obtain found errs1 where f: "fold (look_up stored (bid_not_found i')) (hm_iter ord d) ([], errs) = (found, errs1)" by force
  note r = look_up_fold [OF iter_distinct [OF d assms] f]
  have found: "map_of found b = Option.bind (map_of d b) (stored_at stored)"
    using r(1) [of b] by (simp add: iter_get [OF d assms] split: option.splits)
  have "nested_wf (hm_insert i' found m)" using Cons.prems(3) r(3) by (simp add: nested_wf_insert hm_wf_def)
  with Cons.IH [of "hm_insert i' found m" errs1] Cons.prems e f show ?case
    using new found r(2) by (auto simp: look_up_bids_def at2_insert at2_Cons missing_bids_def)
qed simp

lemma all_found:
  assumes "hm_wf m" "iter_order ord"
  shows "filter (\<lambda>(k, x). stored_at stored x = None) (hm_iter ord m) = [] \<longleftrightarrow> (\<forall>k x. map_of m k = Some x \<longrightarrow> stored_at stored x \<noteq> None)"
proof -
  have "(k, x) \<in> set (hm_iter ord m) \<longleftrightarrow> map_of m k = Some x" for k x
    using iter_get [OF assms] iter_distinct [OF assms] map_of_eq_Some_iff by metis
  then show ?thesis unfolding filter_empty_conv by fast
qed

lemma all_bids_found:
  assumes "nested_wf m" "iter_order ord"
  shows "concat (map (missing_bids ord stored) (hm_iter ord m)) = [] \<longleftrightarrow> (\<forall>i b x. at2 m i b = Some x \<longrightarrow> stored_at stored x \<noteq> None)"
proof -
  have wf: "hm_wf m" using assms(1) by (simp add: nested_wf_def)
  have mem: "(i, d) \<in> set (hm_iter ord m) \<longleftrightarrow> map_of m i = Some d" for i d
    using iter_get [OF wf assms(2)] iter_distinct [OF wf assms(2)] map_of_eq_Some_iff by metis
  have "missing_bids ord stored (i, d) = [] \<longleftrightarrow> (\<forall>b x. map_of d b = Some x \<longrightarrow> stored_at stored x \<noteq> None)" if "map_of m i = Some d" for i d
    using all_found [OF nested_wf_inner [OF assms(1) that] assms(2), of stored] by (simp add: missing_bids_def)
  then have "(\<forall>e \<in> set (hm_iter ord m). missing_bids ord stored e = [])
      \<longleftrightarrow> (\<forall>i d. map_of m i = Some d \<longrightarrow> (\<forall>b x. map_of d b = Some x \<longrightarrow> stored_at stored x \<noteq> None))"
    using mem by fast
  then show ?thesis by (simp add: at2_def bind_eq_Some_conv) blast
qed

lemma build_maps:
  assumes "iter_order ord" "hm_wf auction_ids" "nested_wf bid_ids"
    and "build_stored_responses_maps ord stored bid_ids auction_ids = (auctions, bids, errs)"
  shows "map_of auctions i = Option.bind (map_of auction_ids i) (stored_at stored)"
    and "at2 bids i b = Option.bind (at2 bid_ids i b) (stored_at stored)" and "nested_wf bids"
    and "errs = [] \<longleftrightarrow> (\<forall>i x. map_of auction_ids i = Some x \<longrightarrow> stored_at stored x \<noteq> None) \<and> (\<forall>i b x. at2 bid_ids i b = Some x \<longrightarrow> stored_at stored x \<noteq> None)"
proof -
  have wf: "hm_wf bid_ids" using assms(3) by (simp add: nested_wf_def)
  obtain errs1 where a: "fold (look_up stored auction_not_found) (hm_iter ord auction_ids) ([], []) = (auctions, errs1)"
    and b: "fold (look_up_bids ord stored) (hm_iter ord bid_ids) ([], errs1) = (bids, errs)"
    using assms(4) by (auto simp: build_stored_responses_maps_def split: prod.splits)
  note r = look_up_fold [OF iter_distinct [OF assms(2, 1)] a]
  note q = look_up_bids_fold [OF assms(1) iter_distinct [OF wf assms(1)] iter_inner [OF assms(3, 1)] nested_wf_Nil b]
  show "map_of auctions i = Option.bind (map_of auction_ids i) (stored_at stored)"
    using r(1) [of i] by (simp add: iter_get [OF assms(2, 1)] split: option.splits)
  show "at2 bids i b = Option.bind (at2 bid_ids i b) (stored_at stored)" "nested_wf bids"
    using q [of i b] by (auto simp: iter_get [OF wf assms(1)] iter_at2 [OF wf assms(1)] at2_def split: if_splits)
  show "errs = [] \<longleftrightarrow> (\<forall>i x. map_of auction_ids i = Some x \<longrightarrow> stored_at stored x \<noteq> None) \<and> (\<forall>i b x. at2 bid_ids i b = Some x \<longrightarrow> stored_at stored x \<noteq> None)"
    using q r(2) all_found [OF assms(2, 1), of stored] all_bids_found [OF assms(3, 1), of stored] by (auto simp del: concat_eq_Nil_conv)
qed

section \<open>Property\<close>

text \<open>Property C35.  Stored responses.  The identifiers are extracted exactly when every reference is complete; otherwise the error names the
  first impression with an incomplete one, the missing id of an auction response before the missing fields of a bid response.  When they are extracted, every identifier a reference names is fetched and no other; afterwards
  the stored auction response of an impression is the one its last reference names, and the stored response of a bidder to an impression, in
  the map by bidder, the one named by the last reference of the impression to the bidder, with its flag for the impression identifier in the
  flipped map, if it was fetched and is not null; there are messages exactly when a named response is missing.  None of this depends on the order of
  iteration.\<close>

theorem stored_responses_spec:
  assumes "iter_order ord"
  shows "case extract_stored_responses_ids de imps of
      Inl e \<Rightarrow> (\<exists>n < length imps. list_all (complete de) (take n imps) \<and> \<not> complete de (imps ! n) \<and> e = (if imp_auction de (imps ! n) = Some [] then auction_id_missing n else bid_fields_missing n))
    | Inr s \<Rightarrow>
        list_all (complete de) imps
        \<and> set (si_all s) = (\<Union>p \<in> set imps. set_option (imp_auction de p) \<union> sbr_id ` set (bids_of_imp de p))
        \<and> (\<forall>b i. at2 (flip_map ord (si_replace s)) b i = map_option (\<lambda>r. unwrap_or True (sbr_replaceimpid r)) (bid_ref de imps i b))
        \<and> (case build_stored_responses_maps ord stored (si_bids s) (si_auction s) of
             (auctions, bids, errs) \<Rightarrow>
               (\<forall>i. map_of auctions i = Option.bind (auction_ref de imps i) (fetched stored))
               \<and> (\<forall>b i. at2 (init_stored_bid_responses ord bids) b i = Option.bind (map_option sbr_id (bid_ref de imps i b)) (fetched stored))
               \<and> (errs = [] \<longleftrightarrow> (\<forall>i x. auction_ref de imps i = Some x \<longrightarrow> fetched stored x \<noteq> None)
                             \<and> (\<forall>i b r. bid_ref de imps i b = Some r \<longrightarrow> fetched stored (sbr_id r) \<noteq> None)))"
proof (cases "list_all (complete de) imps")
  case False
  then show ?thesis
    using extract_loop_incomplete [of de imps 0 no_ids] by (auto simp: extract_stored_responses_ids_def split: sum.split)
next
  case True
  define s where "s = fold (name_imp de) imps no_ids"
  have s: "extract_stored_responses_ids de imps = Inr s"
    using True by (simp add: extract_stored_responses_ids_def extract_loop_complete s_def)
  have wf: "hm_wf (si_auction s)" "nested_wf (si_bids s)" "nested_wf (si_replace s)"
    unfolding s_def by (simp_all add: name_imps_wf no_ids_def hm_wf_def [of "[]"])
  have get: "map_of (si_auction s) i = auction_ref de imps i" "at2 (si_bids s) i b = map_option sbr_id (bid_ref de imps i b)"
    "at2 (si_replace s) i b = map_option (\<lambda>r. unwrap_or True (sbr_replaceimpid r)) (bid_ref de imps i b)" for i b
    unfolding s_def by (simp_all add: extracted auction_ref_def bid_ref_def, simp_all add: no_ids_def split: option.split)
  obtain auctions bids errs where m: "build_stored_responses_maps ord stored (si_bids s) (si_auction s) = (auctions, bids, errs)"
    by (cases "build_stored_responses_maps ord stored (si_bids s) (si_auction s)") auto
  note b = build_maps [OF assms wf(1, 2) m, unfolded stored_at_fetched]
  have "at2 (flip_map ord (si_replace s)) b i = at2 (si_replace s) i b" "at2 (init_stored_bid_responses ord bids) b i = at2 bids i b" for b i
    using flip_get [OF wf(3) assms] flip_get [OF b(3) assms] by (simp_all add: flip_map_def init_stored_bid_responses_def build_stored_resp_def)
  moreover have "set (si_all s) = (\<Union>p \<in> set imps. set_option (imp_auction de p) \<union> sbr_id ` set (bids_of_imp de p))"
    unfolding s_def extracted by (simp add: no_ids_def)
  moreover have "errs = [] \<longleftrightarrow> (\<forall>i x. auction_ref de imps i = Some x \<longrightarrow> fetched stored x \<noteq> None)
                             \<and> (\<forall>i b r. bid_ref de imps i b = Some r \<longrightarrow> fetched stored (sbr_id r) \<noteq> None)"
    unfolding b(4) get map_option_eq_Some by blast
  ultimately show ?thesis
    using True by (simp add: s m get b(1, 2))
qed

definition demo_refs :: "json \<Rightarrow> stored_refs option" where
  "demo_refs j = Some \<lparr>sr_auction = None, sr_bids = Some [\<lparr>sbr_id = ''7'', sbr_bidder = ''b'', sbr_replaceimpid = None\<rparr>]\<rparr>"

theorem stored_responses_spec_witness:
  "iter_order (\<lambda>ks :: string list. ks)
   \<and> (case extract_stored_responses_ids demo_refs [default_imp\<lparr>imp_id := ''i'', imp_jext := Some (JObj [(''prebid'', JNull)])\<rparr>] of
        Inl e \<Rightarrow> False
      | Inr s \<Rightarrow> (case build_stored_responses_maps (\<lambda>ks. ks) [(''7'', JBool True)] (si_bids s) (si_auction s) of
                    (auctions, bids, errs) \<Rightarrow> at2 (init_stored_bid_responses (\<lambda>ks. ks) bids) ''b'' ''i'' = Some (JBool True)))"
proof -
  have ord: "iter_order (\<lambda>ks :: string list. ks)" by (simp add: iter_order_def)
  have refs: "named_refs demo_refs (default_imp\<lparr>imp_id := ''i'', imp_jext := Some (JObj [(''prebid'', JNull)])\<rparr>)
      = Some \<lparr>sr_auction = None, sr_bids = Some [\<lparr>sbr_id = ''7'', sbr_bidder = ''b'', sbr_replaceimpid = None\<rparr>]\<rparr>"
    by (simp add: named_refs_def demo_refs_def)
  then have "complete demo_refs (default_imp\<lparr>imp_id := ''i'', imp_jext := Some (JObj [(''prebid'', JNull)])\<rparr>)"
    by (simp add: complete_def unwrap_or_def)
  with refs ord show ?thesis
    using stored_responses_spec [OF ord, where de = demo_refs and imps = "[default_imp\<lparr>imp_id := ''i'', imp_jext := Some (JObj [(''prebid'', JNull)])\<rparr>]"
      and stored = "[(''7'', JBool True)]"]
    by (auto simp: bid_ref_def bids_of_imp_def unwrap_or_def fetched_def split: sum.splits prod.splits)
qed

end
