(* ===== verification/Topics.thy ===== *)
theory Topics
  imports Events Auction
begin

text \<open>
  Browsing topics, \<^verbatim>\<open>rust/crates/exchange/src/privacysandbox.rs\<close>: the fields of the \<^verbatim>\<open>Sec-Browsing-Topics\<close> header, and the merge of their segments
  into the data of the user.
\<close>

section \<open>The header\<close>

record topic =
  segtax :: "int option"
  segclass :: "string option"
  segids :: "int list option"

text \<open>\<^verbatim>\<open>str::split_whitespace\<close>: the groups of code points between white space.\<close>

fun white_groups :: "string list \<Rightarrow> string list \<Rightarrow> string list" where
  "white_groups acc [] = (if acc = [] then [] else [concat acc])"
| "white_groups acc (c # cs) =
     (if white_char c then (if acc = [] then white_groups [] cs else concat acc # white_groups [] cs) else white_groups (acc @ [c]) cs)"

definition split_whitespace :: "string \<Rightarrow> string list" where
  "split_whitespace s = white_groups [] (utf8_chars s)"

fun parse_ids :: "string list \<Rightarrow> int list \<Rightarrow> (string, int list) res" where
  "parse_ids [] result = Inr result"
| "parse_ids (w # ws) result =
     (case parse_i32 (trim_str w) of
        None \<Rightarrow> Inl ''invalid segment id''
      | Some i \<Rightarrow> if i \<le> 0 then Inl ''invalid segment id'' else parse_ids ws (result @ [i]))"

definition parse_segment_ids :: "string \<Rightarrow> (string, int list) res" where
  "parse_segment_ids s = parse_ids (split_whitespace s) []"

definition parse_seg_tax_seg_class :: "string \<Rightarrow> int \<times> string" where
  "parse_seg_tax_seg_class seg =
     (case split_on (CHR '':'') seg of
        [_, tax, cls] \<Rightarrow>
          (case parse_i32 (trim_str tax) of
             Some v \<Rightarrow> if 1 \<le> v \<and> v \<le> 10 then (600 + (v - 1), trim_str cls) else (0, [])
           | None \<Rightarrow> (0, []))
      | _ \<Rightarrow> (0, []))"

definition parse_topic_segment :: "string \<Rightarrow> topic option" where
  "parse_topic_segment fld =
     (case split_once (CHR '';'') fld of
        None \<Rightarrow> None
      | Some (a, b) \<Rightarrow>
          let ids = trim_str a; (tax, cls) = parse_seg_tax_seg_class b
          in if length ids < 3 \<or> hd ids \<noteq> CHR ''('' \<or> last ids \<noteq> CHR '')'' then None
             else if tax = 0 \<or> cls = [] then None
             else case parse_segment_ids (butlast (tl ids)) of
                    Inl _ \<Rightarrow> None
                  | Inr is \<Rightarrow> Some \<lparr>segtax = Some tax, segclass = Some cls, segids = Some is\<rparr>)"

definition topic_warning :: "string \<Rightarrow> string" where
  "topic_warning msg = ''Invalid field in Sec-Browsing-Topics header: '' @ msg"

definition topic_step :: "string \<Rightarrow> topic list \<times> string list \<Rightarrow> topic list \<times> string list" where
  "topic_step item = (\<lambda>(topics, warnings).
     let fld = trim_str item
     in if fld = [] \<or> is_prefix ''();p='' fld then (topics, warnings)
        else if length topics < 10
        then case parse_topic_segment fld of Some t \<Rightarrow> (topics @ [t], warnings) | None \<Rightarrow> (topics, warnings @ [topic_warning fld])
        else (topics, warnings @ [topic_warning (fld @ '' discarded due to limit reached.'')]))"

definition parse_topics_from_header :: "string \<Rightarrow> topic list \<times> string list" where
  "parse_topics_from_header header = fold topic_step (split_on (CHR '','') header) ([], [])"

section \<open>The data of the user\<close>

text \<open>A \<^verbatim>\<open>HashSet\<close> is the list of its elements, and is iterated in an order of its own like a map.\<close>

type_synonym header_data = "(int \<times> (string \<times> int list) list) list"

definition set_insert :: "'a \<Rightarrow> 'a list \<Rightarrow> 'a list" where
  "set_insert x xs = (if x \<in> set xs then xs else xs @ [x])"

definition header_step :: "topic \<Rightarrow> header_data \<Rightarrow> header_data" where
  "header_step t m =
     (let tax = unwrap_or 0 (segtax t); cls = unwrap_or [] (segclass t);
          classes = get_or [] m tax;
          ids = get_or [] classes cls
      in hm_insert tax (hm_insert cls (fold set_insert (unwrap_or [] (segids t)) ids) classes) m)"

definition create_header_data_map :: "topic list \<Rightarrow> header_data" where
  "create_header_data_map ts = fold header_step ts []"

definition find_new_seg_ids ::
  "(int list \<Rightarrow> int list) \<Rightarrow> string option \<Rightarrow> string \<Rightarrow> int \<Rightarrow> string \<Rightarrow> segment list \<Rightarrow> header_data \<Rightarrow> int list option" where
  "find_new_seg_ids ord name domain tax cls segs hd_map =
     (if name \<noteq> Some domain then None
      else Option.bind (map_of hd_map tax) (\<lambda>classes. Option.bind (map_of classes cls) (\<lambda>ids.
             let existing = List.map_filter (\<lambda>s. Option.bind (segment_id s) parse_i32) segs;
                 new_ids = filter (\<lambda>i. i \<notin> set existing) (ord ids)
             in if new_ids = [] then None else Some new_ids)))"

definition id_segment :: "int \<Rightarrow> segment" where
  "id_segment i = \<lparr>segment_id = Some (show_int i), segment_name = None, segment_value = None, segment_jext = None\<rparr>"

definition topic_key :: "(json \<Rightarrow> topic option) \<Rightarrow> user_data \<Rightarrow> (int \<times> string) option" where
  "topic_key de d =
     Option.bind (Option.bind (data_jext d) de) (\<lambda>t.
       case (segtax t, segclass t) of
         (Some tax, Some cls) \<Rightarrow> if tax \<noteq> 0 \<and> cls \<noteq> [] then Some (tax, cls) else None
       | _ \<Rightarrow> None)"

definition merge_data :: "(json \<Rightarrow> topic option) \<Rightarrow> (int list \<Rightarrow> int list) \<Rightarrow> string \<Rightarrow> user_data \<Rightarrow> header_data \<Rightarrow> user_data \<times> header_data" where
  "merge_data de ord domain d m =
     (case topic_key de d of
        None \<Rightarrow> (d, m)
      | Some (tax, cls) \<Rightarrow>
          (case find_new_seg_ids ord (data_name d) domain tax cls (data_segment d) m of
             None \<Rightarrow> (d, m)
           | Some is \<Rightarrow> (d\<lparr>data_segment := data_segment d @ map id_segment is\<rparr>,
                        case map_of m tax of Some classes \<Rightarrow> hm_insert tax (hm_remove cls classes) m | None \<Rightarrow> m)))"

fun merge_loop :: "(json \<Rightarrow> topic option) \<Rightarrow> (int list \<Rightarrow> int list) \<Rightarrow> string \<Rightarrow> user_data list \<Rightarrow> header_data \<Rightarrow> user_data list \<times> header_data" where
  "merge_loop de ord domain [] m = ([], m)"
| "merge_loop de ord domain (d # ds) m =
     (case merge_data de ord domain d m of
        (d', m') \<Rightarrow> (case merge_loop de ord domain ds m' of (ds', m'') \<Rightarrow> (d' # ds', m'')))"

text \<open>The encoder of \<^verbatim>\<open>Topic\<close> is a derived one; its fields are written out.\<close>

definition topic_ext :: "int \<Rightarrow> string \<Rightarrow> json" where
  "topic_ext tax cls = JObj [(''segclass'', JStr cls), (''segtax'', json_int tax)]"

definition new_data :: "(int list \<Rightarrow> int list) \<Rightarrow> string \<Rightarrow> int \<Rightarrow> string \<times> int list \<Rightarrow> user_data list" where
  "new_data ord domain tax = (\<lambda>(cls, ids).
     if ids = [] then []
     else [\<lparr>data_id = None, data_name = Some domain, data_segment = map id_segment (ord ids), data_jext = Some (topic_ext tax cls)\<rparr>])"

definition rest_data :: "(int list \<Rightarrow> int list) \<Rightarrow> (string list \<Rightarrow> string list) \<Rightarrow> string \<Rightarrow> header_data \<Rightarrow> user_data list" where
  "rest_data ord ord_s domain m =
     concat (map (\<lambda>(tax, classes). concat (map (new_data ord domain tax) (hm_iter ord_s classes))) (hm_iter ord m))"

definition update_user_data_with_topics ::
  "(json \<Rightarrow> topic option) \<Rightarrow> (int list \<Rightarrow> int list) \<Rightarrow> (string list \<Rightarrow> string list) \<Rightarrow> user_data list \<Rightarrow> topic list \<Rightarrow> string \<Rightarrow> user_data list" where
  "update_user_data_with_topics de ord ord_s ds header domain =
     (if domain = [] then ds
      else case merge_loop de ord domain ds (create_header_data_map header) of (ds', m) \<Rightarrow> ds' @ rest_data ord ord_s domain m)"

section \<open>What the header parser accepts\<close>

definition valid_topic :: "topic \<Rightarrow> bool" where
  "valid_topic t = (\<exists>tax cls is. t = \<lparr>segtax = Some tax, segclass = Some cls, segids = Some is\<rparr>
     \<and> 600 \<le> tax \<and> tax \<le> 609 \<and> cls \<noteq> [] \<and> (\<forall>i \<in> set is. 0 < i \<and> i \<le> i32_max))"

lemma parse_i32_range: "parse_i32 s = Some i \<Longrightarrow> i32_min \<le> i \<and> i \<le> i32_max"
  by (auto simp: parse_i32_def parse_int_def Let_def split: if_splits prod.splits)

lemma parse_ids_positive: "parse_ids ws acc = Inr is \<Longrightarrow> \<forall>i \<in> set acc. 0 < i \<and> i \<le> i32_max \<Longrightarrow> \<forall>i \<in> set is. 0 < i \<and> i \<le> i32_max"
proof (induction ws arbitrary: acc)
  case (Cons w ws)
  obtain i where i: "parse_i32 (trim_str w) = Some i" "0 < i" "parse_ids ws (acc @ [i]) = Inr is"
    using Cons.prems(1) by (simp split: option.splits if_splits)
  then have "i \<le> i32_max" using parse_i32_range by blast
  with i Cons.prems(2) show ?case by (intro Cons.IH [OF i(3)]) simp
qed simp

lemma tax_class_range: "parse_seg_tax_seg_class seg = (tax, cls) \<Longrightarrow> tax \<noteq> 0 \<Longrightarrow> 600 \<le> tax \<and> tax \<le> 609"
  by (auto simp: parse_seg_tax_seg_class_def split: list.splits option.splits if_splits)

lemma parse_topic_valid: "parse_topic_segment fld = Some t \<Longrightarrow> valid_topic t"
proof -
  assume "parse_topic_segment fld = Some t"
  then obtain b tax cls ws "is" where "parse_seg_tax_seg_class b = (tax, cls)" "tax \<noteq> 0" "cls \<noteq> []" "parse_ids ws [] = Inr is"
    and t: "t = \<lparr>segtax = Some tax, segclass = Some cls, segids = Some is\<rparr>"
    by (fastforce simp: parse_topic_segment_def Let_def parse_segment_ids_def split: option.splits prod.splits if_splits sum.splits)
  then show ?thesis
    using tax_class_range [of b tax cls] parse_ids_positive [of ws "[]" "is"] by (simp add: valid_topic_def)
qed

lemma topic_step_valid: "list_all valid_topic (fst s) \<and> length (fst s) \<le> 10 \<Longrightarrow> list_all valid_topic (fst (topic_step item s)) \<and> length (fst (topic_step item s)) \<le> 10"
  by (cases s) (auto simp: topic_step_def Let_def parse_topic_valid split: option.split)

lemma parsed_topics_valid: "list_all valid_topic (fst (parse_topics_from_header h)) \<and> length (fst (parse_topics_from_header h)) \<le> 10"
proof -
  have "list_all valid_topic (fst s) \<and> length (fst s) \<le> 10 \<Longrightarrow> list_all valid_topic (fst (fold topic_step fs s)) \<and> length (fst (fold topic_step fs s)) \<le> 10" for fs s
    by (induction fs arbitrary: s) (simp_all add: topic_step_valid)
  from this [of "([], [])"] show ?thesis by (simp add: parse_topics_from_header_def)
qed

section \<open>Where the segments go\<close>

text \<open>The segments of the header under a taxonomy and a class.\<close>

definition ids_at :: "header_data \<Rightarrow> int \<Rightarrow> string \<Rightarrow> int list" where
  "ids_at m tax cls = get_or [] (get_or [] m tax) cls"

definition hd_wf :: "header_data \<Rightarrow> bool" where
  "hd_wf m = (hm_wf m \<and> (\<forall>tax classes. map_of m tax = Some classes \<longrightarrow> hm_wf classes))"

lemma get_or_insert: "get_or d (hm_insert k v m) k' = (if k' = k then v else get_or d m k')"
  by (simp add: get_or_def map_of_hm_insert)

lemma get_or_remove: "get_or d (hm_remove k m) k' = (if k' = k then d else get_or d m k')"
  by (simp add: get_or_def hm.get_remove)

lemma set_fold_insert: "set (fold set_insert xs ys) = set xs \<union> set ys"
  by (induction xs arbitrary: ys) (auto simp: set_insert_def)

lemma header_step_ids:
  "set (ids_at (header_step t m) tax cls)
     = (if tax = unwrap_or 0 (segtax t) \<and> cls = unwrap_or [] (segclass t) then set (unwrap_or [] (segids t)) else {}) \<union> set (ids_at m tax cls)"
  by (auto simp: header_step_def ids_at_def Let_def get_or_insert set_fold_insert)

lemma hd_wf_classes: "hd_wf m \<Longrightarrow> hm_wf (get_or [] m tax)"
  by (auto simp: hd_wf_def get_or_def hm_wf_def split: option.split)

lemma hd_wf_insert: "hd_wf m \<Longrightarrow> hm_wf classes \<Longrightarrow> hd_wf (hm_insert tax classes m)"
  by (simp add: hd_wf_def hm_wf_insert map_of_hm_insert)

lemma header_step_wf: "hd_wf m \<Longrightarrow> hd_wf (header_step t m)"
  by (simp add: header_step_def Let_def hd_wf_insert hm_wf_insert hd_wf_classes)

lemma header_map_wf: "hd_wf (create_header_data_map ts)"
proof -
  have "hd_wf m \<Longrightarrow> hd_wf (fold header_step ts m)" for m
    by (induction ts arbitrary: m) (simp_all add: header_step_wf)
  moreover have "hd_wf []" by (simp add: hd_wf_def hm_wf_def)
  ultimately show ?thesis by (simp add: create_header_data_map_def)
qed

definition header_ids :: "topic list \<Rightarrow> int \<Rightarrow> string \<Rightarrow> int set" where
  "header_ids ts tax cls = (\<Union>t \<in> {t \<in> set ts. unwrap_or 0 (segtax t) = tax \<and> unwrap_or [] (segclass t) = cls}. set (unwrap_or [] (segids t)))"

lemma header_ids_Cons:
  "header_ids (t # ts) tax cls
     = (if tax = unwrap_or 0 (segtax t) \<and> cls = unwrap_or [] (segclass t) then set (unwrap_or [] (segids t)) else {}) \<union> header_ids ts tax cls"
  by (auto simp: header_ids_def)

lemma header_map_ids: "set (ids_at (create_header_data_map ts) tax cls) = header_ids ts tax cls"
proof -
  have "set (ids_at (fold header_step ts m) tax cls) = header_ids ts tax cls \<union> set (ids_at m tax cls)" for m
  proof (induction ts arbitrary: m)
    case (Cons t ts)
    then show ?case by (simp only: fold_simps header_ids_Cons header_step_ids) blast
  qed (simp add: header_ids_def)
  then show ?thesis by (simp add: create_header_data_map_def ids_at_def get_or_def)
qed

section \<open>The merge\<close>

definition seg_ids :: "user_data \<Rightarrow> int set" where
  "seg_ids d = set (List.map_filter (\<lambda>s. Option.bind (segment_id s) parse_i32) (data_segment d))"

lemma merge_data_cases:
  assumes "merge_data de ord domain d m = (d', m')" "hd_wf m" "iter_order ord"
  shows "(d' = d \<and> m' = m)
    \<or> (\<exists>tax cls is. topic_key de d = Some (tax, cls) \<and> data_name d = Some domain \<and> d' = d\<lparr>data_segment := data_segment d @ map id_segment is\<rparr>
         \<and> set is = set (ids_at m tax cls) - seg_ids d
         \<and> (\<forall>t c. ids_at m' t c = (if t = tax \<and> c = cls then [] else ids_at m t c)) \<and> hd_wf m')"
proof (cases "d' = d \<and> m' = m")
  case False
  then obtain tax cls "is" where key: "topic_key de d = Some (tax, cls)"
    and new: "find_new_seg_ids ord (data_name d) domain tax cls (data_segment d) m = Some is"
    and d': "d' = d\<lparr>data_segment := data_segment d @ map id_segment is\<rparr>"
    and m': "m' = (case map_of m tax of Some classes \<Rightarrow> hm_insert tax (hm_remove cls classes) m | None \<Rightarrow> m)"
    using assms(1) by (auto simp: merge_data_def split: option.splits)
  obtain classes ids where at: "data_name d = Some domain" "map_of m tax = Some classes" "map_of classes cls = Some ids"
    and is_new: "is = filter (\<lambda>i. i \<notin> seg_ids d) (ord ids)"
    using new by (auto simp: find_new_seg_ids_def seg_ids_def Let_def bind_eq_Some_conv split: if_splits)
  have "ids_at m tax cls = ids" using at by (simp add: ids_at_def get_or_def)
  moreover have "set (ord ids) = set ids" using assms(3) by (metis iter_order_def set_mset_mset)
  ultimately have "set is = set (ids_at m tax cls) - seg_ids d" using is_new by auto
  moreover have "ids_at m' t c = (if t = tax \<and> c = cls then [] else ids_at m t c)" for t c
    using at(2) by (auto simp: m' ids_at_def get_or_insert get_or_remove) (auto simp: get_or_def)
  moreover have "hm_wf classes" using assms(2) at(2) by (simp add: hd_wf_def)
  then have "hd_wf m'" using assms(2) at(2) by (simp add: m' hd_wf_insert hm.wf_remove)
  ultimately show ?thesis using key at(1) d' by blast
qed simp

definition has_id :: "(json \<Rightarrow> topic option) \<Rightarrow> string \<Rightarrow> int \<Rightarrow> string \<Rightarrow> int \<Rightarrow> user_data \<Rightarrow> bool" where
  "has_id de domain tax cls i d = (data_name d = Some domain \<and> topic_key de d = Some (tax, cls) \<and> i \<in> seg_ids d)"

definition extended :: "(json \<Rightarrow> topic option) \<Rightarrow> string \<Rightarrow> (int \<Rightarrow> string \<Rightarrow> int set) \<Rightarrow> user_data \<Rightarrow> user_data \<Rightarrow> bool" where
  "extended de domain ids d d' =
     (d' = d \<or> (\<exists>tax cls is. data_name d = Some domain \<and> topic_key de d = Some (tax, cls)
        \<and> d' = d\<lparr>data_segment := data_segment d @ map id_segment is\<rparr> \<and> set is \<subseteq> ids tax cls - seg_ids d))"

lemma extended_mono: "extended de domain ids d d' \<Longrightarrow> (\<And>tax cls. ids tax cls \<subseteq> ids' tax cls) \<Longrightarrow> extended de domain ids' d d'"
  unfolding extended_def by blast

lemma parse_id_segment: "0 \<le> i \<Longrightarrow> i \<le> i32_max \<Longrightarrow> Option.bind (segment_id (id_segment i)) parse_i32 = Some i"
  by (simp add: id_segment_def parse_i32_def parse_show_int i32_min_def)

lemma seg_ids_append:
  assumes "\<forall>i \<in> set is. 0 \<le> i \<and> i \<le> i32_max"
  shows "seg_ids (d\<lparr>data_segment := data_segment d @ map id_segment is\<rparr>) = seg_ids d \<union> set is"
proof -
  have "set (List.map_filter (\<lambda>s. Option.bind (segment_id s) parse_i32) (map id_segment is)) = set is"
    using assms by (induction "is") (simp_all add: List.map_filter_def parse_id_segment)
  then show ?thesis by (auto simp: seg_ids_def List.map_filter_def)
qed

lemma topic_key_segments [simp]: "topic_key de (d\<lparr>data_segment := ss\<rparr>) = topic_key de d"
  by (simp add: topic_key_def)

definition ids_in_range :: "header_data \<Rightarrow> bool" where
  "ids_in_range m = (\<forall>tax cls. \<forall>i \<in> set (ids_at m tax cls). 0 \<le> i \<and> i \<le> i32_max)"

lemma merge_loop_facts:
  assumes "iter_order ord"
  shows "merge_loop de ord domain ds m = (ds', m') \<Longrightarrow> hd_wf m \<Longrightarrow> ids_in_range m
    \<Longrightarrow> hd_wf m' \<and> list_all2 (extended de domain (\<lambda>t c. set (ids_at m t c))) ds ds'
      \<and> (\<forall>t c. ids_at m' t c = ids_at m t c \<or> ids_at m' t c = [] \<and> (\<forall>i \<in> set (ids_at m t c). \<exists>d \<in> set ds'. has_id de domain t c i d))"
proof (induction ds arbitrary: m ds' m')
  case (Cons d ds)
  obtain d1 m1 where s: "merge_data de ord domain d m = (d1, m1)" by force
  obtain ds2 where l: "merge_loop de ord domain ds m1 = (ds2, m')" and ds': "ds' = d1 # ds2"
    using Cons.prems(1) s by (auto split: prod.splits)
  show ?case
  proof (cases "d1 = d \<and> m1 = m")
    case True
    then have "extended de domain (\<lambda>t c. set (ids_at m t c)) d d1" by (simp add: extended_def)
    with True Cons.IH [OF l] Cons.prems show ?thesis by (simp add: ds') blast
  next
    case False
    then obtain tax cls "is" where c: "topic_key de d = Some (tax, cls)" "data_name d = Some domain"
      "d1 = d\<lparr>data_segment := data_segment d @ map id_segment is\<rparr>" "set is = set (ids_at m tax cls) - seg_ids d"
      and at: "\<forall>t c. ids_at m1 t c = (if t = tax \<and> c = cls then [] else ids_at m t c)" and wf: "hd_wf m1"
      using merge_data_cases [OF s Cons.prems(2) assms] by blast
    have ext: "extended de domain (\<lambda>t c. set (ids_at m t c)) d d1" using c by (auto simp: extended_def)
    have "seg_ids d1 = seg_ids d \<union> set is"
      using c(4) Cons.prems(3) unfolding c(3) by (intro seg_ids_append) (auto simp: ids_in_range_def)
    then have here: "\<forall>i \<in> set (ids_at m tax cls). has_id de domain tax cls i d1"
      using c by (auto simp: has_id_def)
    have "ids_in_range m1" using Cons.prems(3) at by (simp add: ids_in_range_def)
    note ih = Cons.IH [OF l wf this]
    have "set (ids_at m1 t c) \<subseteq> set (ids_at m t c)" for t c using at by simp
    then have "list_all2 (extended de domain (\<lambda>t c. set (ids_at m t c))) ds ds2"
      using ih by (blast intro: list_all2_mono extended_mono)
    moreover have "ids_at m' t c = ids_at m t c \<or> ids_at m' t c = [] \<and> (\<forall>i \<in> set (ids_at m t c). \<exists>d \<in> set ds'. has_id de domain t c i d)" for t c
    proof (cases "t = tax \<and> c = cls")
      case True
      then have "ids_at m1 t c = []" using at by simp
      then have "ids_at m' t c = []" using ih by (metis)
      with True here show ?thesis by (simp add: ds')
    next
      case False
      then have "ids_at m1 t c = ids_at m t c" using at by auto
      with ih show ?thesis unfolding ds' by (metis list.set_intros(2))
    qed
    ultimately show ?thesis using ih ext by (simp add: ds')
  qed
qed simp

lemma iter_mem:
  assumes "hm_wf n" "iter_order o'"
  shows "(k, v) \<in> set (hm_iter o' n) \<longleftrightarrow> map_of n k = Some v"
proof -
  have "distinct (map fst (hm_iter o' n))"
    using assms mset_eq_imp_distinct_iff by (auto simp: hm_iter_keys iter_order_def hm_wf_def)
  then show ?thesis
    using map_of_hm_iter [OF assms(2, 1)] map_of_eq_Some_iff by metis
qed

lemma concat_entries: "d \<in> set (concat (map g xs)) \<longleftrightarrow> (\<exists>a b. (a, b) \<in> set xs \<and> d \<in> set (g (a, b)))"
  by force

lemma rest_data_mem:
  assumes "hd_wf m" "iter_order ord" "iter_order ord_s"
  shows "d \<in> set (rest_data ord ord_s domain m) \<longleftrightarrow> (\<exists>tax cls. d \<in> set (new_data ord domain tax (cls, ids_at m tax cls)))"
proof -
  have inner: "(cls, ids) \<in> set (hm_iter ord_s classes) \<longleftrightarrow> map_of classes cls = Some ids" if "map_of m tax = Some classes" for tax classes cls ids
    using assms(1) that by (intro iter_mem [OF _ assms(3)]) (simp add: hd_wf_def)
  have outer: "(tax, classes) \<in> set (hm_iter ord m) \<longleftrightarrow> map_of m tax = Some classes" for tax classes
    using assms(1) by (intro iter_mem [OF _ assms(2)]) (simp add: hd_wf_def)
  have "d \<in> set (rest_data ord ord_s domain m) \<longleftrightarrow>
      (\<exists>tax classes. map_of m tax = Some classes \<and> (\<exists>cls ids. (cls, ids) \<in> set (hm_iter ord_s classes) \<and> d \<in> set (new_data ord domain tax (cls, ids))))"
    unfolding rest_data_def concat_entries outer split_conv ..
  also have "\<dots> \<longleftrightarrow> (\<exists>tax classes. map_of m tax = Some classes \<and> (\<exists>cls ids. map_of classes cls = Some ids \<and> d \<in> set (new_data ord domain tax (cls, ids))))"
    by (simp add: inner cong: conj_cong)
  also have "\<dots> \<longleftrightarrow> (\<exists>tax cls. d \<in> set (new_data ord domain tax (cls, ids_at m tax cls)))"
    (is "?L \<longleftrightarrow> ?R")
  proof
    assume ?L
    then obtain tax classes cls ids where "map_of m tax = Some classes" "map_of classes cls = Some ids" "d \<in> set (new_data ord domain tax (cls, ids))"
      by blast
    then show ?R by (intro exI [of _ tax] exI [of _ cls]) (simp add: ids_at_def get_or_def)
  next
    assume ?R
    then obtain tax cls where d: "d \<in> set (new_data ord domain tax (cls, ids_at m tax cls))" by blast
    then have "ids_at m tax cls \<noteq> []" by (auto simp: new_data_def)
    then obtain classes where "map_of m tax = Some classes" "map_of classes cls = Some (ids_at m tax cls)"
      by (auto simp: ids_at_def get_or_def split: option.splits)
    with d show ?L by blast
  qed
  finally show ?thesis .
qed

section \<open>Property\<close>

text \<open>The decoder of a topic reads what the encoder writes.\<close>

definition topic_law :: "(json \<Rightarrow> topic option) \<Rightarrow> bool" where
  "topic_law de = (\<forall>tax cls. 0 < tax \<and> tax \<le> i32_max \<longrightarrow> de (topic_ext tax cls) = Some \<lparr>segtax = Some tax, segclass = Some cls, segids = None\<rparr>)"

lemma new_data_has:
  assumes "iter_order ord" "topic_law de" "d \<in> set (new_data ord domain tax (cls, ids))" "0 < tax \<and> tax \<le> i32_max" "cls \<noteq> []" "\<forall>i \<in> set ids. 0 \<le> i \<and> i \<le> i32_max"
  shows "seg_ids d = set ids \<and> data_name d = Some domain \<and> topic_key de d = Some (tax, cls)"
proof -
  have ids: "set (ord ids) = set ids" using assms(1) by (metis iter_order_def set_mset_mset)
  have d: "d = (\<lparr>data_id = None, data_name = Some domain, data_segment = [], data_jext = Some (topic_ext tax cls)\<rparr> :: user_data)
      \<lparr>data_segment := [] @ map id_segment (ord ids)\<rparr>"
    using assms(3) by (simp add: new_data_def split: if_splits)
  have "seg_ids d = seg_ids (\<lparr>data_id = None, data_name = Some domain, data_segment = [], data_jext = Some (topic_ext tax cls)\<rparr> :: user_data) \<union> set (ord ids)"
    using seg_ids_append [of "ord ids" "\<lparr>data_id = None, data_name = Some domain, data_segment = [], data_jext = Some (topic_ext tax cls)\<rparr>"] assms(6)
    by (simp add: d ids)
  then show ?thesis
    using assms(2, 4, 5) by (simp add: ids d seg_ids_def List.map_filter_def topic_key_def topic_law_def)
qed

text \<open>Browsing topics.  At most ten topics of a header are used, each with a taxonomy from 600 to 609, a class and positive
  identifiers.  Updating the data of the user with them only appends: an entry of the host's domain for a taxonomy and class may get identifiers of the
  header it did not have, all other entries stay, and new entries of the domain hold exactly the identifiers the header has for their
  taxonomy and class.  Afterwards every identifier of the header is in an entry of the domain for its taxonomy and class.\<close>

theorem topics_merged:
  assumes "iter_order ord" "iter_order ord_s" "topic_law de" "domain \<noteq> []"
    and ts: "ts = fst (parse_topics_from_header header)"
  shows "list_all valid_topic ts \<and> length ts \<le> 10
    \<and> (\<exists>ds' rest. update_user_data_with_topics de ord ord_s ds ts domain = ds' @ rest
         \<and> list_all2 (extended de domain (header_ids ts)) ds ds'
         \<and> (\<forall>d \<in> set rest. data_name d = Some domain
              \<and> (\<exists>tax cls. topic_key de d = Some (tax, cls) \<and> seg_ids d = header_ids ts tax cls \<and> header_ids ts tax cls \<noteq> {}))
         \<and> (\<forall>tax cls. \<forall>i \<in> header_ids ts tax cls. \<exists>d \<in> set (ds' @ rest). has_id de domain tax cls i d))"
proof -
  have valid: "list_all valid_topic ts" "length ts \<le> 10" using parsed_topics_valid [of header] by (simp_all add: ts)
  define m where "m = create_header_data_map ts"
  obtain ds' m' where l: "merge_loop de ord domain ds m = (ds', m')" by force
  have ids: "set (ids_at m tax cls) = header_ids ts tax cls" for tax cls by (simp add: m_def header_map_ids)
  have good: "0 < tax \<and> tax \<le> i32_max \<and> cls \<noteq> [] \<and> 0 \<le> i \<and> i \<le> i32_max" if "i \<in> header_ids ts tax cls" for tax cls i
    using that valid(1) by (force simp: header_ids_def list_all_iff valid_topic_def unwrap_or_def i32_max_def)
  then have "ids_in_range m" by (auto simp: ids_in_range_def ids)
  from merge_loop_facts [OF assms(1) l header_map_wf [of ts, folded m_def] this]
  have wf: "hd_wf m'" and ext: "list_all2 (extended de domain (header_ids ts)) ds ds'"
    and cov: "\<And>t c. ids_at m' t c = ids_at m t c \<or> ids_at m' t c = [] \<and> (\<forall>i \<in> header_ids ts t c. \<exists>d \<in> set ds'. has_id de domain t c i d)"
    by (simp_all add: ids)
  define rest where "rest = rest_data ord ord_s domain m'"
  have new: "data_name d = Some domain \<and> topic_key de d = Some (tax, cls) \<and> seg_ids d = header_ids ts tax cls \<and> header_ids ts tax cls \<noteq> {}"
    if d: "d \<in> set (new_data ord domain tax (cls, ids_at m' tax cls))" for d tax cls
  proof -
    have "ids_at m' tax cls \<noteq> []" using d by (auto simp: new_data_def)
    then have at: "ids_at m' tax cls = ids_at m tax cls" "header_ids ts tax cls \<noteq> {}" using cov ids by (metis, metis set_empty)
    then have "(0 < tax \<and> tax \<le> i32_max) \<and> cls \<noteq> [] \<and> (\<forall>i \<in> set (ids_at m' tax cls). 0 \<le> i \<and> i \<le> i32_max)" using good ids by auto
    with new_data_has [OF assms(1, 3) d] at ids show ?thesis by simp
  qed
  have mem: "d \<in> set rest \<longleftrightarrow> (\<exists>tax cls. d \<in> set (new_data ord domain tax (cls, ids_at m' tax cls)))" for d
    unfolding rest_def by (rule rest_data_mem [OF wf assms(1, 2)])
  have "\<exists>d \<in> set (ds' @ rest). has_id de domain tax cls i d" if i: "i \<in> header_ids ts tax cls" for tax cls i
  proof (cases "ids_at m' tax cls = ids_at m tax cls")
    case True
    then obtain d where d: "d \<in> set (new_data ord domain tax (cls, ids_at m' tax cls))" using i ids [of tax cls] by (fastforce simp: new_data_def)
    with new [OF d] i mem show ?thesis by (auto simp: has_id_def)
  qed (use cov [of tax cls] i in auto)
  moreover have "\<forall>d \<in> set rest. data_name d = Some domain
              \<and> (\<exists>tax cls. topic_key de d = Some (tax, cls) \<and> seg_ids d = header_ids ts tax cls \<and> header_ids ts tax cls \<noteq> {})"
    using mem new by blast
  moreover have "update_user_data_with_topics de ord ord_s ds ts domain = ds' @ rest"
    using assms(4) l by (simp add: update_user_data_with_topics_def m_def rest_def)
  ultimately show ?thesis using valid ext by blast
qed

definition demo_topic_decode :: "json \<Rightarrow> topic option" where
  "demo_topic_decode j = Some \<lparr>segtax = Option.bind (jget j ''segtax'') as_i64, segclass = Option.bind (jget j ''segclass'') as_str, segids = None\<rparr>"

lemma demo_topic_law: "topic_law demo_topic_decode"
  by (simp add: topic_law_def demo_topic_decode_def topic_ext_def json_int_def i32_max_def i64_max_def)

text \<open>Three browser fields, one of them invalid.\<close>

definition demo_header :: string where
  "demo_header = ''(1 2);v=chrome.1:1:2, (3);v=chrome.1:99:2''"

theorem topics_merged_witness:
  "parse_topics_from_header demo_header
     = ([\<lparr>segtax = Some 600, segclass = Some ''2'', segids = Some [1, 2]\<rparr>], [topic_warning ''(3);v=chrome.1:99:2''])
   \<and> iter_order (\<lambda>ks :: int list. ks) \<and> iter_order (\<lambda>ks :: string list. ks) \<and> topic_law demo_topic_decode
   \<and> (\<exists>d \<in> set (update_user_data_with_topics demo_topic_decode (\<lambda>ks. ks) (\<lambda>ks. ks) [] (fst (parse_topics_from_header demo_header)) ''t.com'').
        has_id demo_topic_decode ''t.com'' 600 ''2'' 1 d)"
proof -
  have parsed: "parse_topics_from_header demo_header
     = ([\<lparr>segtax = Some 600, segclass = Some ''2'', segids = Some [1, 2]\<rparr>], [topic_warning ''(3);v=chrome.1:99:2''])"
    by code_simp
  have "iter_order (\<lambda>ks :: int list. ks)" "iter_order (\<lambda>ks :: string list. ks)" by (simp_all add: iter_order_def)
  moreover have "1 \<in> header_ids (fst (parse_topics_from_header demo_header)) 600 ''2''"
    by (simp add: parsed header_ids_def unwrap_or_def)
  ultimately show ?thesis
    using topics_merged [of "\<lambda>ks. ks" "\<lambda>ks. ks" demo_topic_decode "''t.com''" _ demo_header "[]"] demo_topic_law parsed by fastforce
qed

text \<open>When an entry already has every identifier of the header, nothing is new and the class stays in the map, so the entry is added a second time.\<close>

lemma known_topics_repeated:
  "update_user_data_with_topics demo_topic_decode (\<lambda>ks. ks) (\<lambda>ks. ks)
     [\<lparr>data_id = None, data_name = Some ''t.com'', data_segment = [id_segment 1], data_jext = Some (topic_ext 600 ''2'')\<rparr>]
     [\<lparr>segtax = Some 600, segclass = Some ''2'', segids = Some [1]\<rparr>] ''t.com''
   = replicate 2 \<lparr>data_id = None, data_name = Some ''t.com'', data_segment = [id_segment 1], data_jext = Some (topic_ext 600 ''2'')\<rparr>"
  by code_simp

end
