(* ===== verification/SyncLib.thy ===== *)
theory SyncLib
  imports Events Usersync
begin

text \<open>
  The library counterparts of three endpoints: \<^verbatim>\<open>rust/crates/exchange/src/cookie_sync.rs\<close>, \<^verbatim>\<open>setuid.rs\<close> and \<^verbatim>\<open>vtrack.rs\<close>.
\<close>

section \<open>cookie\_sync.rs\<close>

datatype filter_bidders = AllBidders string | BidderList "string list"

record filter_config =
  fc_bidders :: filter_bidders
  fc_mode :: filter_mode

record filter_settings =
  fs_iframe :: "filter_config option"
  fs_image :: "filter_config option"

record sl_sync_request =
  slq_bidders :: "string list"
  slq_gdpr :: "int option"
  slq_gdpr_consent :: string
  slq_us_privacy :: string
  slq_limit :: "int option"
  slq_cooperative_sync :: "bool option"
  slq_filter_settings :: "filter_settings option"
  slq_account :: string
  slq_debug :: bool

datatype sl_status = SlOk | SlNoCookie

record sl_usersync_info =
  sui_url :: string
  sui_sync_type :: string
  sui_support_cors :: bool

record sl_bidder_status =
  sbs_bidder :: string
  sbs_usersync :: "sl_usersync_info option"
  sbs_error :: "string option"
  sbs_no_cookie :: bool

record sl_sync_response =
  slr_status :: sl_status
  slr_bidder_status :: "sl_bidder_status list"

definition parse_cookie_sync_request :: "(u8 list \<Rightarrow> (string, sl_sync_request) res) \<Rightarrow> u8 list \<Rightarrow> (string, sl_sync_request) res" where
  "parse_cookie_sync_request from_slice body =
     (if body = [] then Inl ''Failed to read request body'' else map_err (\<lambda>e. ''JSON parsing failed: '' @ e) (from_slice body))"

definition validate_gdpr_consent :: "sl_sync_request \<Rightarrow> (string, unit) res" where
  "validate_gdpr_consent req =
     (case slq_gdpr req of
        Some g \<Rightarrow> if g = 1 \<and> slq_gdpr_consent req = [] then Inl ''gdpr_consent is required if gdpr=1'' else Inr ()
      | None \<Rightarrow>
          if slq_gdpr_consent req = []
          then Inl ''gdpr_consent is required. gdpr is not specified and is assumed to be 1 by the server. set gdpr=0 to exempt this request''
          else Inr ())"

definition sl_status_of :: "syncer_choice \<Rightarrow> sl_bidder_status" where
  "sl_status_of s =
     \<lparr>sbs_bidder = sch_bidder s,
      sbs_usersync = Some \<lparr>sui_url = sch_url s,
                           sui_sync_type = (case sch_sync_type s of SyncIframe \<Rightarrow> ''iframe'' | SyncRedirect \<Rightarrow> ''redirect'' | SyncBoth \<Rightarrow> ''redirect''),
                           sui_support_cors = True\<rparr>,
      sbs_error = None, sbs_no_cookie = True\<rparr>"

definition build_cookie_sync_response :: "syncer_choice list \<Rightarrow> prebid_cookie \<Rightarrow> int option \<Rightarrow> sl_sync_response" where
  "build_cookie_sync_response choices cookie limit =
     (let entries = map sl_status_of choices
      in \<lparr>slr_status = (if pc_uids cookie = [] then SlNoCookie else SlOk),
          slr_bidder_status = (case limit of Some n \<Rightarrow> if n \<ge> 0 then take (nat n) entries else entries | None \<Rightarrow> entries)\<rparr>)"

section \<open>setuid.rs\<close>

record sl_setuid_request =
  ssr_bidder :: string
  ssr_uid :: string
  ssr_gdpr :: "int option"
  ssr_gdpr_consent :: string
  ssr_account :: string
  ssr_format :: string

datatype sl_setuid_response = SuSuccess | SuOptOut | SuBadRequest string | SuUnauthorized

definition double_quoted :: "string \<Rightarrow> string" where
  "double_quoted s = CHR 34 # s @ [CHR 34]"

definition uid_bidder_param :: "(string \<times> string) list \<Rightarrow> (string, string) res" where
  "uid_bidder_param query =
     (case map_of query ''bidder'' of
        Some b \<Rightarrow> if b = [] then Inl (double_quoted ''bidder'' @ '' query param is required'') else Inr b
      | None \<Rightarrow> Inl (double_quoted ''bidder'' @ '' query param is required''))"

definition uid_gdpr_param :: "(string \<times> string) list \<Rightarrow> (string, int option) res" where
  "uid_gdpr_param query =
     (case map_of query ''gdpr'' of
        None \<Rightarrow> Inr None
      | Some v \<Rightarrow>
          if v = [] then Inr None
          else case parse_i32 v of
                 Some g \<Rightarrow> Inr (Some g)
               | None \<Rightarrow> Inl (''invalid gdpr value '' @ double_quoted v @ '', must be 0 or 1''))"

definition parse_setuid_request :: "(string \<times> string) list \<Rightarrow> (string, sl_setuid_request) res" where
  "parse_setuid_request query =
     res_bind (uid_bidder_param query) (\<lambda>b.
     res_bind (uid_gdpr_param query) (\<lambda>g.
     Inr \<lparr>ssr_bidder = b, ssr_uid = get_or [] query ''uid'', ssr_gdpr = g, ssr_gdpr_consent = get_or [] query ''gdpr_consent'',
          ssr_account = get_or [] query ''account'', ssr_format = get_or [] query ''f''\<rparr>))"

definition get_response_format :: "(string \<Rightarrow> string) \<Rightarrow> (string \<times> string) list \<Rightarrow> string \<Rightarrow> (string, string) res" where
  "get_response_format to_lowercase query default_format =
     (let f = get_or [] query ''f''; l = to_lowercase f
      in if f = [] then Inr default_format
         else if l = ''b'' \<or> l = ''i'' then Inr l
         else Inl (double_quoted ''f'' @ '' query param is invalid. must be '' @ double_quoted ''b'' @ '' or '' @ double_quoted ''i''))"

definition get_syncer ::
  "(string \<Rightarrow> string) \<Rightarrow> (string list \<Rightarrow> string list) \<Rightarrow> (string \<times> string) list \<Rightarrow> (string \<times> string) list \<Rightarrow> (string, string \<times> string) res" where
  "get_syncer to_lowercase ord query syncers =
     res_bind (uid_bidder_param query) (\<lambda>b.
       case map_of syncers b of
         Some k \<Rightarrow> Inr (k, b)
       | None \<Rightarrow>
           (case find (\<lambda>(n, _). to_lowercase n = to_lowercase b) (hm_iter ord syncers) of
              Some (_, k) \<Rightarrow> Inr (k, b)
            | None \<Rightarrow> Inl ''The bidder name provided is not supported by Prebid Server''))"

definition chrome_min_ver :: int where
  "chrome_min_ver = 67"

definition check_chrome_browser_version :: "string \<Rightarrow> nat \<Rightarrow> bool" where
  "check_chrome_browser_version ua start =
     (case parse_u32 (takeWhile (\<lambda>c. c \<noteq> CHR ''.'') (drop start ua)) of Some v \<Rightarrow> v \<ge> chrome_min_ver | None \<Rightarrow> False)"

definition site_cookie_check :: "string \<Rightarrow> bool" where
  "site_cookie_check ua =
     (case str_find ''Chrome/'' ua of
        Some n \<Rightarrow> check_chrome_browser_version ua (n + length ''Chrome/'')
      | None \<Rightarrow>
          (case str_find ''CriOS/'' ua of
             Some n \<Rightarrow> check_chrome_browser_version ua (n + length ''CriOS/'')
           | None \<Rightarrow> False))"

section \<open>vtrack.rs\<close>

record cacheable_bid =
  cb_bid_id :: string
  cb_bidder :: string
  cb_cache_type :: string
  cb_value :: json
  cb_ttlseconds :: int
  cb_key :: string
  cb_timestamp :: int

record bid_cache_request =
  bcr_puts :: "cacheable_bid list"

definition get_vast_url_tracking :: "string \<Rightarrow> string \<Rightarrow> string \<Rightarrow> string \<Rightarrow> int \<Rightarrow> string \<Rightarrow> string" where
  "get_vast_url_tracking external_url bidid bidder account_id timestamp integration =
     event_request_to_url external_url
       \<lparr>er_event_type = EvImp, er_bid_id = bidid, er_account_id = account_id, er_bidder = bidder, er_timestamp = timestamp, er_format = [],
        er_analytics = [], er_integration_type = integration, er_vtype = []\<rparr>"

text \<open>\<^verbatim>\<open>str::rfind\<close>.\<close>

fun str_rfind :: "string \<Rightarrow> string \<Rightarrow> nat option" where
  "str_rfind pat [] = (if pat = [] then Some 0 else None)"
| "str_rfind pat (c # cs) =
     (case str_rfind pat cs of Some n \<Rightarrow> Some (Suc n) | None \<Rightarrow> if is_prefix pat (c # cs) then Some 0 else None)"

definition insert_at :: "nat \<Rightarrow> string \<Rightarrow> string \<Rightarrow> string" where
  "insert_at n x s = take n s @ x @ drop n s"

definition impression_tag :: "string \<Rightarrow> string" where
  "impression_tag url = ''<Impression><![CDATA['' @ url @ '']]></Impression>''"

definition vt_modify_vast_xml_string :: "string \<Rightarrow> string \<Rightarrow> string \<Rightarrow> string \<Rightarrow> string \<Rightarrow> int \<Rightarrow> string \<Rightarrow> string \<times> bool" where
  "vt_modify_vast_xml_string external_url vast bidid bidder account_id timestamp integration_type =
     (if vast = [] then (vast, False)
      else let tag = impression_tag (get_vast_url_tracking external_url bidid bidder account_id timestamp integration_type)
           in case str_rfind ''</Impression>'' vast of
                Some n \<Rightarrow> (insert_at (n + length ''</Impression>'') tag vast, True)
              | None \<Rightarrow>
                  (case str_rfind ''</InLine>'' vast of
                     Some n \<Rightarrow> (insert_at n tag vast, True)
                   | None \<Rightarrow>
                       (case str_rfind ''</Wrapper>'' vast of
                          Some n \<Rightarrow> (insert_at n tag vast, True)
                        | None \<Rightarrow> (vast, False))))"

definition vt_modify_vast_xml_json :: "string \<Rightarrow> json \<Rightarrow> string \<Rightarrow> string \<Rightarrow> string \<Rightarrow> int \<Rightarrow> string \<Rightarrow> json" where
  "vt_modify_vast_xml_json external_url data bidid bidder account_id timestamp integration_type =
     (case as_str data of
        None \<Rightarrow> data
      | Some s \<Rightarrow> JStr (fst (vt_modify_vast_xml_string external_url s bidid bidder account_id timestamp integration_type)))"

text \<open>Of the configuration of a bidder the one flag.\<close>

definition is_allow_vast_for_bidder :: "string \<Rightarrow> (string \<times> bool) list \<Rightarrow> bool \<Rightarrow> bool" where
  "is_allow_vast_for_bidder bidder infos allow_unknown = (case map_of infos bidder of Some ok \<Rightarrow> ok | None \<Rightarrow> allow_unknown)"

definition get_bidders_allowing_vast_update :: "bid_cache_request \<Rightarrow> (string \<times> bool) list \<Rightarrow> bool \<Rightarrow> string set" where
  "get_bidders_allowing_vast_update request infos allow_unknown =
     set (map cb_bidder (filter (\<lambda>p. is_allow_vast_for_bidder (cb_bidder p) infos allow_unknown) (bcr_puts request)))"

definition parse_vtrack_request :: "(u8 list \<Rightarrow> (string, bid_cache_request) res) \<Rightarrow> u8 list \<Rightarrow> nat \<Rightarrow> (string, bid_cache_request) res" where
  "parse_vtrack_request from_slice body max_size =
     (if length body > max_size
      then Inl (''request body size '' @ show_nat (length body) @ '' exceeds max size '' @ show_nat max_size)
      else map_err (\<lambda>e. ''failed to parse vtrack request: '' @ e) (from_slice body))"

section \<open>Facts\<close>

lemma str_rfind_Some: "str_rfind pat s = Some n \<Longrightarrow> s = take n s @ pat @ drop (n + length pat) s"
proof (induction s arbitrary: n)
  case (Cons c cs)
  show ?case
  proof (cases "str_rfind pat cs")
    case None
    then have "is_prefix pat (c # cs)" "n = 0" using Cons.prems by (auto split: if_splits)
    then show ?thesis using is_prefix_ex [of pat "c # cs"] by auto
  qed (use Cons in auto)
qed (simp split: if_splits)

lemma str_rfind_None: "str_rfind pat s = None \<longleftrightarrow> \<not> str_contains pat s"
  by (induction s) (auto split: option.splits)

text \<open>The last occurrence: none begins after it.\<close>

lemma str_rfind_last: "str_rfind pat s = Some n \<Longrightarrow> pat \<noteq> [] \<Longrightarrow> \<not> str_contains pat (drop (Suc n) s)"
proof (induction s arbitrary: n)
  case (Cons c cs)
  then show ?case
    by (cases "str_rfind pat cs") (auto simp: str_rfind_None split: if_splits)
qed simp

text \<open>A document is modified exactly when it has one of the three closing tags; then the tag of the tracker is inserted at one place, directly after
  the last closing tag of an impression or else directly before the closing tag of the creative, and the document is otherwise unchanged.\<close>

lemma str_contains_drop: "str_contains pat (drop k s) \<Longrightarrow> str_contains pat s"
proof (induction s arbitrary: k)
  case (Cons c cs)
  then show ?case by (cases k) auto
qed simp

lemma rfind_split:
  assumes "str_rfind pat s = Some n" "pat \<noteq> []"
  shows "s = take n s @ pat @ drop (n + length pat) s" "\<not> str_contains pat (drop (n + length pat) s)"
proof -
  show "s = take n s @ pat @ drop (n + length pat) s" by (rule str_rfind_Some [OF assms(1)])
  obtain k where "n + length pat = k + Suc n" using assms(2) by (cases pat) auto
  then show "\<not> str_contains pat (drop (n + length pat) s)"
    using str_rfind_last [OF assms] str_contains_drop [of pat k "drop (Suc n) s"] by (auto simp: add.commute)
qed

lemma insert_after: "s = a @ p @ b \<Longrightarrow> length a = n \<Longrightarrow> insert_at (n + length p) x s = (a @ p) @ x @ b"
  by (simp add: insert_at_def)

lemma insert_before: "s = a @ b \<Longrightarrow> length a = n \<Longrightarrow> insert_at n x s = a @ x @ b"
  by (simp add: insert_at_def)

lemma rfind_length: "str_rfind pat s = Some n \<Longrightarrow> length (take n s) = n"
proof (induction s arbitrary: n)
  case (Cons c cs)
  then show ?case by (auto split: option.splits if_splits)
qed (simp split: if_splits)

lemma vtrack_inserts:
  assumes "tag = impression_tag (get_vast_url_tracking e b bd a t i)" "out = vt_modify_vast_xml_string e vast b bd a t i"
  shows "(snd out \<longleftrightarrow> list_ex (\<lambda>p. str_contains p vast) [''</Impression>'', ''</InLine>'', ''</Wrapper>''])
    \<and> (\<not> snd out \<longrightarrow> fst out = vast)
    \<and> (snd out \<longrightarrow> (\<exists>u v. vast = u @ v \<and> fst out = u @ tag @ v
         \<and> (if str_contains ''</Impression>'' vast then (\<exists>w. u = w @ ''</Impression>'') \<and> \<not> str_contains ''</Impression>'' v
            else if str_contains ''</InLine>'' vast then \<exists>w. v = ''</InLine>'' @ w else \<exists>w. v = ''</Wrapper>'' @ w)))"
proof (cases "vast = []")
  case False
  have r: "str_contains p vast \<longleftrightarrow> (\<exists>n. str_rfind p vast = Some n)" for p
    using str_rfind_None [of p vast] by auto
  consider (imp) n where "str_rfind ''</Impression>'' vast = Some n"
    | (inline) n where "str_rfind ''</Impression>'' vast = None" "str_rfind ''</InLine>'' vast = Some n"
    | (wrapper) n where "str_rfind ''</Impression>'' vast = None" "str_rfind ''</InLine>'' vast = None" "str_rfind ''</Wrapper>'' vast = Some n"
    | (none) "str_rfind ''</Impression>'' vast = None" "str_rfind ''</InLine>'' vast = None" "str_rfind ''</Wrapper>'' vast = None"
    by (cases "str_rfind ''</Impression>'' vast"; cases "str_rfind ''</InLine>'' vast"; cases "str_rfind ''</Wrapper>'' vast") auto
  then show ?thesis
  proof cases
    case imp
    note f = rfind_split [OF imp]
    have "out = (insert_at (n + length ''</Impression>'') tag vast, True)"
      using False imp assms by (simp add: vt_modify_vast_xml_string_def del: list.size)
    moreover have "insert_at (n + length ''</Impression>'') tag vast = (take n vast @ ''</Impression>'') @ tag @ drop (n + length ''</Impression>'') vast"
      by (rule insert_after [OF f(1) rfind_length [OF imp]]) simp
    ultimately show ?thesis
      using f imp r by (intro conjI impI exI [of _ "take n vast @ ''</Impression>''"] exI [of _ "drop (n + length ''</Impression>'') vast"]) auto
  next
    case inline
    note f = rfind_split [OF inline(2)]
    have "out = (insert_at n tag vast, True)" using False inline assms by (simp add: vt_modify_vast_xml_string_def)
    moreover have "insert_at n tag vast = take n vast @ tag @ ''</InLine>'' @ drop (n + length ''</InLine>'') vast"
      by (rule insert_before [OF f(1) rfind_length [OF inline(2)]]) simp
    ultimately show ?thesis
      using f inline r by (intro conjI impI exI [of _ "take n vast"] exI [of _ "''</InLine>'' @ drop (n + length ''</InLine>'') vast"]) auto
  next
    case wrapper
    note f = rfind_split [OF wrapper(3)]
    have "out = (insert_at n tag vast, True)" using False wrapper assms by (simp add: vt_modify_vast_xml_string_def)
    moreover have "insert_at n tag vast = take n vast @ tag @ ''</Wrapper>'' @ drop (n + length ''</Wrapper>'') vast"
      by (rule insert_before [OF f(1) rfind_length [OF wrapper(3)]]) simp
    ultimately show ?thesis
      using f wrapper r by (intro conjI impI exI [of _ "take n vast"] exI [of _ "''</Wrapper>'' @ drop (n + length ''</Wrapper>'') vast"]) auto
  next
    case none
    then show ?thesis using False assms r by (simp add: vt_modify_vast_xml_string_def)
  qed
qed (use assms in \<open>simp add: vt_modify_vast_xml_string_def\<close>)

text \<open>The lookup of a syncer does not depend on the order of iteration when no two names differ only in case.\<close>

lemma syncer_found_iff:
  assumes "hm_wf syncers" "iter_order ord" "uid_bidder_param query = Inr b"
    and "inj_on lower (fst ` set syncers)"
  shows "get_syncer lower ord query syncers = Inr (k, b') \<longleftrightarrow> b' = b \<and> (\<exists>n. map_of syncers n = Some k \<and> lower n = lower b \<and> (map_of syncers b \<noteq> None \<longrightarrow> n = b))"
proof (cases "map_of syncers b")
  case (Some k')
  then show ?thesis using assms(3) by (auto simp: get_syncer_def)
next
  case None
  have mem: "(n, v) \<in> set (hm_iter ord syncers) \<longleftrightarrow> map_of syncers n = Some v" for n v
  proof -
    have "distinct (map fst (hm_iter ord syncers))"
      using assms(1, 2) mset_eq_imp_distinct_iff by (auto simp: hm_iter_keys iter_order_def hm_wf_def)
    then show ?thesis using map_of_hm_iter [OF assms(2, 1)] map_of_eq_Some_iff by metis
  qed
  have same: "n = n'" if "map_of syncers n = Some v" "map_of syncers n' = Some v'" "lower n = lower n'" for n n' v v'
    using that inj_onD [OF assms(4), of n n'] by (force dest: map_of_SomeD)
  show ?thesis
  proof (cases "find (\<lambda>(n, _). lower n = lower b) (hm_iter ord syncers)")
    case f: None
    then have "\<forall>n v. map_of syncers n = Some v \<longrightarrow> lower n \<noteq> lower b" using mem by (force simp: find_None_iff)
    then show ?thesis using assms(3) None f by (auto simp: get_syncer_def)
  next
    case f: (Some e)
    obtain n v where e: "e = (n, v)" by force
    have n: "map_of syncers n = Some v" "lower n = lower b"
      using find_Some_iff [THEN iffD1, OF f] mem e by (auto dest: nth_mem)
    have "get_syncer lower ord query syncers = Inr (v, b)"
      using assms(3) None f e by (simp add: get_syncer_def)
    moreover have "(\<exists>n. map_of syncers n = Some k \<and> lower n = lower b) \<longleftrightarrow> k = v"
      using n same [of n v] by (metis option.inject)
    ultimately show ?thesis using None by auto
  qed
qed

text \<open>The answer to a synchronisation lists a prefix of the chosen syncers; a negative limit is none.\<close>

lemma sync_response_prefix:
  "slr_bidder_status (build_cookie_sync_response cs c limit)
     = map sl_status_of (case limit of Some n \<Rightarrow> if n \<ge> 0 then take (nat n) cs else cs | None \<Rightarrow> cs)"
  by (simp add: build_cookie_sync_response_def Let_def take_map split: option.split)

text \<open>The consent string is required exactly when GDPR applies or may apply.\<close>

lemma consent_required: "is_ok (validate_gdpr_consent r) \<longleftrightarrow> slq_gdpr_consent r \<noteq> [] \<or> (\<exists>g. slq_gdpr r = Some g \<and> g \<noteq> 1)"
  by (auto simp: validate_gdpr_consent_def split: option.split)

text \<open>The version is the number between the name of the browser and the next full stop.\<close>

lemma site_cookie_version:
  assumes "str_find ''Chrome/'' ua = Some n" "drop (n + length ''Chrome/'') ua = show_nat v @ CHR ''.'' # rest" "int v \<le> u32_max"
  shows "site_cookie_check ua \<longleftrightarrow> 67 \<le> v"
proof -
  have "takeWhile (\<lambda>c. c \<noteq> CHR ''.'') (show_nat v @ CHR ''.'' # rest) = show_nat v"
  proof -
    have "c \<noteq> CHR ''.''" if "c \<in> set (show_nat v)" for c
      using digits_show_nat [of v] that by (auto simp: list_all_iff is_digit_char_def)
    then show ?thesis by (subst takeWhile_append2) auto
  qed
  moreover have "parse_u32 (show_nat v) = Some (int v)"
    using parse_show_int [of "int v" u32_max 0] assms(3) by (simp add: parse_u32_def show_int_def)
  ultimately show ?thesis
    using assms(1, 2) by (simp add: site_cookie_check_def check_chrome_browser_version_def chrome_min_ver_def)
qed

end
