(* ===== verification/Spec2Isabelle.thy ===== *)
theory Spec2Isabelle
  imports GppSections TcfConsent AuctionFacts Floors JsonMerge Schain Dsa StoredReq Usersync SyncEndpoints AuctionEndpoints
    RuleTree MacroResolver VastInjector OrtbVersion BidAdjust AuctionExtras GdprEnforce RequestSplit Deals StageExec ImpCheck ExUtils
    Events AdapterRegistry Interstitial Respond OrtbConversion StoredResp Topics SyncLib
begin

text \<open>
  A verification library for the Rust implementation of Prebid Server, \<^verbatim>\<open>src/rust/crates\<close>.

  \<^bold>\<open>The program.\<close>  Prebid Server answers ad requests by auction.  An endpoint (\<^verbatim>\<open>endpoints/src/lib.rs\<close>) reads an OpenRTB request, merges
  stored requests into it and hands it to the exchange (\<^verbatim>\<open>exchange/src/lib.rs\<close>).  The exchange validates the request, splits its impressions
  by bidder, asks the privacy policies for each bidder, scrubs and extends what the bidder may see, calls the bidder adapters
  concurrently, and collects their bids: it checks them, converts currencies, applies floors, keeps the best per bidder and impression, computes targeting
  keys and winners, and builds the response.  Hooks may reject at six stages.  Beside auctions, the endpoints synchronise user ids by
  cookies.  Consent strings (TCF and GPP) are decoded by crates of their own.

  \<^bold>\<open>How the code is modelled.\<close>  A struct is a record, an enum a datatype, a function one definition with the name of the function; the
  loop bodies and closures of a function are definitions of their own, which the source map ties to their lines.  Results are \<open>res\<close> (a sum with the error
  at the left), missing values options, panics explicit values where a function has them.  Integers that may wrap are words or integers with the
  wrap-around written out; \<open>f64\<close> is a datatype of signed rationals (zero keeps its sign), infinities and not-a-number with rounding to nearest even (\<open>F64\<close>); strings are lists
  of bytes, except where a function works on characters.  A \<^verbatim>\<open>BTreeMap\<close> and a JSON object are association lists sorted by key (\<open>bt_wf\<close>), a \<^verbatim>\<open>HashMap\<close> is one with
  distinct keys (\<open>hm_wf\<close>) whose iteration goes through an order argument: \<open>iter_order\<close> says only that the order is a permutation, so what is proved holds for
  every seed of the hash function.  Code outside the repository is an argument: base64, regular expressions, the HTTP client, serde's decoders of single types,
  the clock, random numbers, Unicode lower-casing, the cache service.  Concurrent bidder calls are a list of finished tasks in an order of
  arrival, again an argument.

  \<^bold>\<open>Theories, bottom up.\<close>
  \<^item> \<open>Prelude\<close>: Rust types and library functions, the locales \<open>rust_map\<close> (insert, remove and lookup, interpreted for both map kinds) and \<open>appender\<close> (a fold whose
    step appends to a component of its state, interpreted for the collecting loops of the auction and of floors), lemma collections.  \<open>F64\<close>: binary64.
    \<open>Json\<close>: \<^verbatim>\<open>serde_json::Value\<close> and its accessors.  \<open>OpenRtb\<close>: the structs of \<^verbatim>\<open>openrtb/src/lib.rs\<close>.
  \<^item> \<open>Bits\<close>, \<open>GppBits\<close>, \<open>GppSections\<close> (\<^verbatim>\<open>privacy/src/gpp\<close>) and \<open>TcfBits\<close>, \<open>TcfConsent\<close> (\<^verbatim>\<open>gdpr/src\<close>): both bit readers satisfy the locale
    \<open>bit_cursor\<close>; the decoders are total and safe, and packing a section, a header or a consent record and decoding gives it back.
  \<^item> \<open>IpUtil\<close> (\<^verbatim>\<open>util/src/iputil.rs\<close>) and \<open>ExPrivacy\<close> (\<^verbatim>\<open>exchange/src/privacy.rs\<close>): policies, activity control and scrubbing; \<open>request_scrub\<close> is the contract of
    a scrubbing step (idempotent, leaves the rest alone), \<open>policy_enforcer\<close> that of an enforcer.
  \<^item> \<open>GdprEnforce\<close> (\<^verbatim>\<open>exchange/src/gdpr.rs\<close>): the second consent decoder compared with the first, decisions on bidders, vendor lists, permissions; the locale
    \<open>permission_source\<close> is the contract of the permissions trait.
  \<^item> \<open>Validation\<close>, \<open>Currency\<close>, \<open>Bidder\<close>, \<open>Bids\<close>, \<open>Fanout\<close>, \<open>PriceBucket\<close>, \<open>Targeting\<close>, \<open>ExHooks\<close>: the parts of an auction, each with its functional
    specification.  \<open>Auction\<close> composes them as \<^verbatim>\<open>hold_auction_with_timeouts\<close> does; \<open>AuctionFacts\<close> shows which seats and bids come out, when the auction fails, that the
    order of arrival does not matter, and that it refines an auction without hooks.
  \<^item> \<open>AuctionExtras\<close> (\<^verbatim>\<open>tmax.rs\<close>, \<^verbatim>\<open>seat_non_bids.rs\<close>, \<^verbatim>\<open>category_mapping.rs\<close>), \<open>BidAdjust\<close>, \<open>Floors\<close>, \<open>JsonMerge\<close>, \<open>Schain\<close>, \<open>Dsa\<close>, \<open>OrtbVersion\<close>, \<open>VastInjector\<close>, \<open>RequestSplit\<close>
    (\<^verbatim>\<open>request_splitter.rs\<close>, \<^verbatim>\<open>first_party_data.rs\<close>), \<open>Deals\<close> (\<^verbatim>\<open>deals.rs\<close>, \<^verbatim>\<open>auction.rs\<close>): modules of the exchange beside the auction.
  \<^item> \<open>StageExec\<close> (\<^verbatim>\<open>hooks_exec.rs\<close>), \<open>ImpCheck\<close> (\<^verbatim>\<open>request_validator.rs\<close>), \<open>ExUtils\<close> (\<^verbatim>\<open>exchange_utils.rs\<close>), \<open>Events\<close> (\<^verbatim>\<open>event_request.rs\<close>, \<^verbatim>\<open>events.rs\<close>
    and the VAST helpers; the locale \<open>url_encoder\<close> is the contract of a percent encoder), \<open>Interstitial\<close>, \<open>Respond\<close> (\<^verbatim>\<open>response_builder.rs\<close>, \<^verbatim>\<open>debug.rs\<close>; the
    locale \<open>section_writer\<close> says that a writer of a section of the response touches its members only), \<open>OrtbConversion\<close> (\<^verbatim>\<open>ortb_conversion.rs\<close>), \<open>StoredResp\<close>
    (\<^verbatim>\<open>stored_responses.rs\<close>), \<open>Topics\<close> (\<^verbatim>\<open>privacysandbox.rs\<close>), \<open>SyncLib\<close> (\<^verbatim>\<open>cookie_sync.rs\<close>, \<^verbatim>\<open>setuid.rs\<close>, \<^verbatim>\<open>vtrack.rs\<close>): the remaining modules of the exchange.
  \<^item> \<open>RuleTree\<close> (\<^verbatim>\<open>rules/src\<close>) and \<open>MacroResolver\<close> (\<^verbatim>\<open>macros/src\<close>): the rules engine and the template macros.
  \<^item> \<open>AdapterKit\<close>, \<open>AdaptersA\<close> to \<open>AdaptersD\<close> and \<open>AdapterRegistry\<close> (\<^verbatim>\<open>adapters/src\<close>): the steps adapter bodies are made of, 101 bidder adapters, and the registry
    with its aliases and the generic adapter.  The locale \<open>adapter_contract\<close> is what an adapter promises of its requests and bids, \<open>adapter_registry\<close> what follows
    for a bidder called through the registry.
  \<^item> \<open>StoredReq\<close> (\<^verbatim>\<open>endpoints/src/stored_requests.rs\<close>): fetchers and caches; the locale \<open>stored_source\<close> says that a stateful fetcher answers like
    a fixed content, and the caching and the composed fetchers are instances.
  \<^item> \<open>Usersync\<close> (\<^verbatim>\<open>exchange/src/usersync.rs\<close>), \<open>SyncEndpoints\<close> and \<open>AuctionEndpoints\<close> (\<^verbatim>\<open>endpoints/src/lib.rs\<close>): user ids, and the HTTP handlers as functions
    from a state and a request to a response.

  \<^bold>\<open>What is shown.\<close>  For the auction: the seats and bids of the response, its failures with any hooks, independence of arrival order, the effect of hooks, the
  privacy gate, the winners, their targeting keys and price buckets.  For the endpoints: the status on every branch, that a request without required consent reaches
  nobody, that repeated synchronisation ends with every permitted bidder served.  For the adapters: that a modelled one invents no bid, and how those that read the
  \<^verbatim>\<open>mtype\<close> of a bid type it.  For data: round trips of consent strings, GPP headers, event URLs and OpenRTB versions, where the fields of a consent string are read, how the second
  consent decoder differs from the first, what applying a stored request means and when that is the merge patch of RFC 7386, the meaning of
  flattened rule maps and of stored responses, the contents of the sections of a response.
  Loops are structural or have a measure; fuel occurs only in the scan loops over text, where it is the length of the text and a lemma states that the
  scan ends.  Where the code does something its documentation does not say, the behaviour of the code is modelled and a lemma states it.

  \<^bold>\<open>Not modelled.\<close>  The adapters of about 172 of the 274 registrations (in the registry they are an argument of which nothing is assumed), the structures of bidder
  parameters with their derived encoders and decoders, metrics, analytics and logging (sinks), configuration loading and process start-up (I/O), the HTTP router, the
  standalone crates that duplicate exchange modules (hooks, floors, currency, usersync, privacy scrubbing, privacy sandbox), experiments, benchmarks and the Go program.
\<close>

end
